(* ===== verification/Prelude.thy ===== *)
theory Prelude
  imports Main "HOL-Library.Word"
begin

unbundle bit_operations_syntax

text \<open>
  Shared vocabulary of the development: the machine integers of the kernel C code, the
  error numbers its functions return, the bit-field accessors of \<^verbatim>\<open>linux/bitfield.h\<close>,
  the alignment and memory-block helpers of the C library the drivers use, and the
  generic lemmas on lists and words that the component theories share.
\<close>

section \<open>Machine types, error numbers\<close>

type_synonym u8 = "8 word"
type_synonym u16 = "16 word"
type_synonym u32 = "32 word"
type_synonym u64 = "64 word"
type_synonym byte = u8

text \<open>
  The negative error codes the drivers return. \<open>EOTHER n\<close> stands for a code that comes
  back from code outside the repository and is passed on unchanged.
\<close>

datatype errno =
    EPERM | ENOENT | EIO | EAGAIN | ENOMEM | EFAULT | EBUSY | EEXIST | ENODEV | EINVAL
  | ENOSPC | ERANGE | EOPNOTSUPP | ETIMEDOUT | ENOTTY | ECANCELED | ENODATA | EOTHER nat

text \<open>
  A C function that returns \<open>0\<close> or a negative error code and updates a structure through
  a pointer: \<open>None\<close> is \<open>0\<close>, and the structure comes back on every path.
\<close>

type_synonym 's ret = "errno option \<times> 's"

named_theorems list_blocks \<open>block moves and fills in fixed-size buffers\<close>
named_theorems field_bounds \<open>bounds of extracted bit fields\<close>

section \<open>Bit fields\<close>

text \<open>\<open>FIELD_GET(GENMASK_ULL(hi, lo), v)\<close>\<close>

definition field_get :: "nat \<Rightarrow> nat \<Rightarrow> u64 \<Rightarrow> u64" where
  "field_get hi lo v = take_bit (hi + 1 - lo) (drop_bit lo v)"

text \<open>\<open>FIELD_PREP(GENMASK_ULL(hi, lo), x)\<close> for a value that fits its field, and the update
  \<open>v &= ~mask; v |= FIELD_PREP(mask, x)\<close> the drivers write with it.\<close>

definition field_mask :: "nat \<Rightarrow> nat \<Rightarrow> u64" where
  "field_mask hi lo = push_bit lo (mask (hi + 1 - lo))"

definition field_prep :: "nat \<Rightarrow> nat \<Rightarrow> u64 \<Rightarrow> u64" where
  "field_prep hi lo x = push_bit lo x AND field_mask hi lo"

definition field_set :: "nat \<Rightarrow> nat \<Rightarrow> u64 \<Rightarrow> u64 \<Rightarrow> u64" where
  "field_set hi lo x v = (v AND NOT (field_mask hi lo)) OR field_prep hi lo x"

lemma unat_field_get_bound [field_bounds]:
  "unat (field_get hi lo v) < 2 ^ (hi + 1 - lo)"
  by (simp add: field_get_def unsigned_take_bit_eq)

lemma field_get_set_same:
  assumes "hi < 64" and "lo \<le> hi" and "unat x < 2 ^ (hi + 1 - lo)"
  shows "field_get hi lo (field_set hi lo x v) = x"
proof -
  have "unat (take_bit (hi + 1 - lo) x) = unat x"
    using assms(3) by (simp add: unsigned_take_bit_eq take_bit_nat_eq_self)
  then have x: "take_bit (hi + 1 - lo) x = x"
    by (simp only: word_unat_eq_iff)
  have "field_get hi lo (field_set hi lo x v) = take_bit (hi + 1 - lo) x"
    unfolding field_get_def field_set_def field_prep_def field_mask_def
    by (rule bit_eqI) (use assms(1,2) in \<open>auto simp: bit_simps\<close>)
  with x show ?thesis by simp
qed

lemma field_get_set_other:
  assumes "hi' < lo \<or> hi < lo'"
  shows "field_get hi' lo' (field_set hi lo x v) = field_get hi' lo' v"
  unfolding field_get_def field_set_def field_prep_def field_mask_def
  by (rule bit_eqI) (use assms in \<open>auto simp: bit_simps dest: bit_imp_le_length\<close>)

section \<open>Alignment\<close>

text \<open>\<open>ALIGN(x, a)\<close> on a value that does not overflow, and \<open>PAGE_ALIGN\<close> on a 64-bit one.\<close>

definition align_up :: "nat \<Rightarrow> nat \<Rightarrow> nat" where
  "align_up x a = (x + a - 1) div a * a"

abbreviation PAGE_SIZE :: nat where "PAGE_SIZE \<equiv> 4096"

definition page_align :: "u64 \<Rightarrow> u64" where
  "page_align x = (x + 4095) AND NOT 4095"

definition page_aligned :: "u64 \<Rightarrow> bool" where
  "page_aligned x \<longleftrightarrow> x AND 4095 = 0"

lemma align_up_ge:
  assumes "0 < a"
  shows "x \<le> align_up x a"
proof -
  have "(x + a - 1) div a * a + (x + a - 1) mod a = x + a - 1"
    by (rule div_mult_mod_eq)
  moreover have "(x + a - 1) mod a < a"
    using assms by (rule mod_less_divisor)
  ultimately show ?thesis
    unfolding align_up_def by linarith
qed

lemma align_up_dvd: "a dvd align_up x a"
  by (simp add: align_up_def)

lemma align_up_less:
  assumes "0 < a"
  shows "align_up x a < x + a"
proof -
  have "(x + a - 1) div a * a + (x + a - 1) mod a = x + a - 1"
    by (rule div_mult_mod_eq)
  with assms show ?thesis
    unfolding align_up_def by linarith
qed

lemma align_up_mono: "x \<le> y \<Longrightarrow> align_up x a \<le> align_up y a"
  by (simp add: align_up_def div_le_mono)

section \<open>Blocks of memory\<close>

text \<open>
  \<open>memmove\<close> and \<open>memset\<close> inside one buffer, given by offsets. Both keep the buffer's size
  when the block lies inside it.
\<close>

definition memmove_at :: "'a list \<Rightarrow> nat \<Rightarrow> nat \<Rightarrow> nat \<Rightarrow> 'a list" where
  "memmove_at xs dst src n = take dst xs @ take n (drop src xs) @ drop (dst + n) xs"

definition memset_at :: "'a list \<Rightarrow> nat \<Rightarrow> 'a \<Rightarrow> nat \<Rightarrow> 'a list" where
  "memset_at xs off c n = take off xs @ replicate n c @ drop (off + n) xs"

text \<open>\<open>write_at xs off ys\<close>: the block \<open>ys\<close> stored at offset \<open>off\<close>.\<close>

definition write_at :: "'a list \<Rightarrow> nat \<Rightarrow> 'a list \<Rightarrow> 'a list" where
  "write_at xs off ys = take off xs @ ys @ drop (off + length ys) xs"

lemma length_memmove_at [list_blocks]:
  "dst + n \<le> length xs \<Longrightarrow> src + n \<le> length xs \<Longrightarrow> length (memmove_at xs dst src n) = length xs"
  by (simp add: memmove_at_def)

lemma length_memset_at [list_blocks]:
  "off + n \<le> length xs \<Longrightarrow> length (memset_at xs off c n) = length xs"
  by (simp add: memset_at_def)

lemma length_write_at [list_blocks]:
  "off + length ys \<le> length xs \<Longrightarrow> length (write_at xs off ys) = length xs"
  by (simp add: write_at_def)

lemma take_write_at [list_blocks]:
  "off + length ys \<le> length xs \<Longrightarrow> take (off + length ys) (write_at xs off ys) = take off xs @ ys"
  by (simp add: write_at_def)

lemma take_write_at_0 [list_blocks]:
  "length ys \<le> length xs \<Longrightarrow> take (length ys) (write_at xs 0 ys) = ys"
  by (simp add: write_at_def)

lemma take_Suc_list_update [list_blocks]:
  "i < length xs \<Longrightarrow> take (Suc i) (xs[i := v]) = take i xs @ [v]"
  by (simp add: take_Suc_conv_app_nth)

section \<open>Byte order\<close>

text \<open>The byte-order conversions, as the bytes the value has in memory.\<close>

definition cpu_to_le32 :: "u32 \<Rightarrow> byte list" where
  "cpu_to_le32 v = [ucast v, ucast (drop_bit 8 v), ucast (drop_bit 16 v), ucast (drop_bit 24 v)]"

definition cpu_to_be32 :: "u32 \<Rightarrow> byte list" where
  "cpu_to_be32 v = rev (cpu_to_le32 v)"

definition cpu_to_be16 :: "u16 \<Rightarrow> byte list" where
  "cpu_to_be16 v = [ucast (drop_bit 8 v), ucast v]"

definition le32_to_cpu :: "byte list \<Rightarrow> u32" where
  "le32_to_cpu bs = ucast (bs ! 0) OR push_bit 8 (ucast (bs ! 1))
     OR push_bit 16 (ucast (bs ! 2)) OR push_bit 24 (ucast (bs ! 3))"

definition be16_to_cpu :: "byte list \<Rightarrow> u16" where
  "be16_to_cpu bs = push_bit 8 (ucast (bs ! 0)) OR ucast (bs ! 1)"

lemma length_cpu_to_le32 [simp]: "length (cpu_to_le32 v) = 4"
  by (simp add: cpu_to_le32_def)

lemma length_cpu_to_be32 [simp]: "length (cpu_to_be32 v) = 4"
  by (simp add: cpu_to_be32_def)

lemma length_cpu_to_be16 [simp]: "length (cpu_to_be16 v) = 2"
  by (simp add: cpu_to_be16_def)

lemma le32_to_cpu_to_le32 [simp]: "le32_to_cpu (cpu_to_le32 v @ bs) = v"
  unfolding le32_to_cpu_def cpu_to_le32_def
  apply (rule bit_eqI)
  subgoal for n by (cases "n < 8"; cases "n < 16"; cases "n < 24") (auto simp: bit_simps)
  done

lemma be16_to_cpu_to_be16 [simp]: "be16_to_cpu (cpu_to_be16 v @ bs) = v"
  unfolding be16_to_cpu_def cpu_to_be16_def
  by (rule bit_eqI) (auto simp: bit_simps)

section \<open>Numbers as text\<close>

text \<open>The formats \<^verbatim>\<open>%016llx\<close>, \<^verbatim>\<open>%llx\<close> and \<^verbatim>\<open>%u\<close>.\<close>

definition hex_digit :: "nat \<Rightarrow> char" where
  "hex_digit n = ''0123456789abcdef'' ! n"

definition hex16 :: "u64 \<Rightarrow> string" where
  "hex16 v = map (\<lambda>i. hex_digit (unat (take_bit 4 (drop_bit (4 * i) v)))) (rev [0..<16])"

definition hexstr :: "u64 \<Rightarrow> string" where
  "hexstr v = (let ds = dropWhile (\<lambda>c. c = CHR ''0'') (hex16 v) in if ds = [] then ''0'' else ds)"

fun decstr :: "nat \<Rightarrow> string" where
  "decstr n = (if n < 10 then [hex_digit n] else decstr (n div 10) @ [hex_digit (n mod 10)])"

declare decstr.simps [simp del]

abbreviation newline :: string where "newline \<equiv> [CHR 0x0A]"

end
