(* ===== verification/Spi_Avmm.thy ===== *)
theory Spi_Avmm
  imports Prelude
begin

unbundle bit_operations_syntax

text \<open>
  The SPI-to-Avalon bridge protocol of \<^verbatim>\<open>drivers/base/regmap/regmap-spi-avmm.c\<close>: the
  transaction layer (request and response formats), the packet and physical layers (framing,
  escaping, padding to the SPI word), the byte parser of the receive path, its word-by-word
  polling loop, and the register accesses built from them.

  The bridge keeps two fixed buffers that lie next to each other in \<^verbatim>\<open>struct spi_avmm_bridge\<close>.
  They are lists updated by index, so the pointers \<^verbatim>\<open>tb\<close>, \<^verbatim>\<open>pb\<close> of the code are offsets; a
  store past the end of \<^verbatim>\<open>trans_buf\<close> lands in \<^verbatim>\<open>phy_buf\<close>, as it does in the struct.
  The SPI controller and the clock are inputs: the result of \<^verbatim>\<open>spi_write\<close>, and one event per
  \<^verbatim>\<open>spi_read\<close> with the \<^verbatim>\<open>jiffies\<close> value read after it.
\<close>

section \<open>Protocol constants and the bridge\<close>

abbreviation (input) PKT_SOP :: byte where "PKT_SOP \<equiv> 0x7a"
abbreviation (input) PKT_EOP :: byte where "PKT_EOP \<equiv> 0x7b"
abbreviation (input) PKT_CHANNEL :: byte where "PKT_CHANNEL \<equiv> 0x7c"
abbreviation (input) PKT_ESC :: byte where "PKT_ESC \<equiv> 0x7d"
abbreviation (input) PHY_IDLE :: byte where "PHY_IDLE \<equiv> 0x4a"
abbreviation (input) PHY_ESC :: byte where "PHY_ESC \<equiv> 0x4d"

abbreviation (input) TRANS_CODE_WRITE :: byte where "TRANS_CODE_WRITE \<equiv> 0x0"
abbreviation (input) TRANS_CODE_SEQ_WRITE :: byte where "TRANS_CODE_SEQ_WRITE \<equiv> 0x4"
abbreviation (input) TRANS_CODE_READ :: byte where "TRANS_CODE_READ \<equiv> 0x10"
abbreviation (input) TRANS_CODE_SEQ_READ :: byte where "TRANS_CODE_SEQ_READ \<equiv> 0x14"

abbreviation (input) SPI_AVMM_REG_SIZE :: nat where "SPI_AVMM_REG_SIZE \<equiv> 4"
abbreviation (input) SPI_AVMM_VAL_SIZE :: nat where "SPI_AVMM_VAL_SIZE \<equiv> 4"
abbreviation (input) MAX_READ_CNT :: nat where "MAX_READ_CNT \<equiv> 256"
abbreviation (input) MAX_WRITE_CNT :: nat where "MAX_WRITE_CNT \<equiv> 1"
abbreviation (input) TRANS_REQ_HD_SIZE :: nat where "TRANS_REQ_HD_SIZE \<equiv> 8"
abbreviation (input) TRANS_RESP_HD_SIZE :: nat where "TRANS_RESP_HD_SIZE \<equiv> 4"

definition TRANS_TX_MAX :: nat where
  "TRANS_TX_MAX = TRANS_REQ_HD_SIZE + SPI_AVMM_VAL_SIZE * MAX_WRITE_CNT"

definition TRANS_RX_MAX :: nat where
  "TRANS_RX_MAX = SPI_AVMM_VAL_SIZE * MAX_READ_CNT"

definition TRANS_BUF_SIZE :: nat where
  "TRANS_BUF_SIZE = (if TRANS_TX_MAX > TRANS_RX_MAX then TRANS_TX_MAX else TRANS_RX_MAX)"

definition PHY_BUF_SIZE :: nat where
  "PHY_BUF_SIZE = align_up (2 * TRANS_TX_MAX + 4) 4"

lemma TRANS_BUF_SIZE_eq [simp]: "TRANS_BUF_SIZE = 1024"
  by (simp add: TRANS_BUF_SIZE_def TRANS_TX_MAX_def TRANS_RX_MAX_def)

lemma PHY_BUF_SIZE_eq [simp]: "PHY_BUF_SIZE = 28"
  by (simp add: PHY_BUF_SIZE_def TRANS_TX_MAX_def align_up_def)

record spi_avmm_bridge =
  word_len :: nat
  trans_len :: nat
  phy_len :: nat
  trans_buf :: "byte list"
  phy_buf :: "byte list"
  swap_words :: bool   \<comment> \<open>the callback is \<^verbatim>\<open>br_swap_words_32\<close>, or NULL\<close>

text \<open>What \<^verbatim>\<open>spi_avmm_bridge_ctx_gen\<close> establishes: 8 or 32 bits per word, and words
  swapped exactly in the second case.\<close>

definition bridge_wf :: "spi_avmm_bridge \<Rightarrow> bool" where
  "bridge_wf br \<longleftrightarrow> length (trans_buf br) = TRANS_BUF_SIZE \<and> length (phy_buf br) = PHY_BUF_SIZE \<and>
     (word_len br = 1 \<and> \<not> swap_words br \<or> word_len br = 4 \<and> swap_words br)"

text \<open>\<open>has_spi\<close> tells whether there is a SPI device at all, \<open>spi_setup_ok\<close> which word lengths it takes.\<close>

definition spi_avmm_bridge_ctx_gen :: "bool \<Rightarrow> (nat \<Rightarrow> bool) \<Rightarrow> bool \<Rightarrow> errno + spi_avmm_bridge" where
  "spi_avmm_bridge_ctx_gen has_spi spi_setup_ok kzalloc_ok =
     (let gen = (\<lambda>bpw.
        if \<not> kzalloc_ok then Inl ENOMEM
        else Inr \<lparr>word_len = bpw div 8, trans_len = 0, phy_len = 0,
                  trans_buf = replicate TRANS_BUF_SIZE 0, phy_buf = replicate PHY_BUF_SIZE 0,
                  swap_words = (bpw div 8 = 4)\<rparr>)
      in if \<not> has_spi then Inl ENODEV
         else if spi_setup_ok 32 then gen 32
         else if spi_setup_ok 8 then gen 8
         else Inl EINVAL)"

section \<open>Word swapping\<close>

fun swap_words_32 :: "byte list \<Rightarrow> nat \<Rightarrow> byte list" where
  "swap_words_32 (a # b # c # d # bs) (Suc count) = d # c # b # a # swap_words_32 bs count"
| "swap_words_32 bs count = bs"

definition br_swap_words_32 :: "byte list \<Rightarrow> nat \<Rightarrow> byte list" where
  "br_swap_words_32 buf len = swap_words_32 buf (len div 4)"

section \<open>Transaction layer: requests\<close>

definition trans_code :: "bool \<Rightarrow> nat \<Rightarrow> byte" where
  "trans_code is_read count =
     (if is_read then if count = 1 then TRANS_CODE_READ else TRANS_CODE_SEQ_READ
      else if count = 1 then TRANS_CODE_WRITE else TRANS_CODE_SEQ_WRITE)"

definition trans_req_header :: "bool \<Rightarrow> u32 \<Rightarrow> nat \<Rightarrow> byte list" where
  "trans_req_header is_read reg count =
     [trans_code is_read count, 0] @ cpu_to_be16 (of_nat count * of_nat SPI_AVMM_VAL_SIZE) @ cpu_to_be32 reg"

definition br_trans_tx_prepare ::
  "bool \<Rightarrow> u32 \<Rightarrow> u32 list \<Rightarrow> nat \<Rightarrow> spi_avmm_bridge \<Rightarrow> spi_avmm_bridge ret" where
  "br_trans_tx_prepare is_read reg wr_val count br =
     (let br1 = br\<lparr>trans_buf := write_at (trans_buf br) 0 (trans_req_header is_read reg count)\<rparr>
      in if is_read then (None, br1\<lparr>trans_len := TRANS_REQ_HD_SIZE\<rparr>)
         else let len = (TRANS_REQ_HD_SIZE + SPI_AVMM_VAL_SIZE * count) mod 2 ^ 32
              in if len > length (trans_buf br) then (Some ENOMEM, br1)
                 else (None, br1\<lparr>
                   trans_buf := write_at (trans_buf br1) TRANS_REQ_HD_SIZE
                                  (concat (map cpu_to_le32 (take count wr_val))),
                   trans_len := len\<rparr>))"

section \<open>Packet and physical layers: transmit\<close>

text \<open>The loop of \<^verbatim>\<open>br_pkt_phy_tx_prepare\<close> over the two pointers.\<close>

function pkt_phy_tx_loop ::
  "byte list \<Rightarrow> nat \<Rightarrow> nat \<Rightarrow> nat \<Rightarrow> nat \<Rightarrow> bool \<Rightarrow> nat option \<Rightarrow> byte list
   \<Rightarrow> nat \<times> nat \<times> nat option \<times> byte list" where
  "pkt_phy_tx_loop tbuf tb_end pb_limit tb pb need_esc pb_eop phy =
     (if pb < pb_limit \<and> tb < tb_end then
        if need_esc then
          pkt_phy_tx_loop tbuf tb_end pb_limit (Suc tb) (Suc pb) False pb_eop
            (phy[pb := (tbuf ! tb) XOR 0x20])
        else if tb = tb_end - 1 \<and> pb_eop = None then
          pkt_phy_tx_loop tbuf tb_end pb_limit tb (Suc pb) need_esc (Some pb) (phy[pb := PKT_EOP])
        else if tbuf ! tb \<in> {PKT_SOP, PKT_EOP, PKT_CHANNEL, PKT_ESC} then
          pkt_phy_tx_loop tbuf tb_end pb_limit tb (Suc pb) True pb_eop (phy[pb := PKT_ESC])
        else if tbuf ! tb \<in> {PHY_IDLE, PHY_ESC} then
          pkt_phy_tx_loop tbuf tb_end pb_limit tb (Suc pb) True pb_eop (phy[pb := PHY_ESC])
        else
          pkt_phy_tx_loop tbuf tb_end pb_limit (Suc tb) (Suc pb) need_esc pb_eop (phy[pb := tbuf ! tb])
      else (tb, pb, pb_eop, phy))"
  by pat_completeness auto
termination
  by (relation "measure (\<lambda>(tbuf, tb_end, pb_limit, tb, pb, need_esc, pb_eop, phy). pb_limit - pb)") auto

declare pkt_phy_tx_loop.simps [simp del]

definition br_pkt_phy_tx_prepare :: "spi_avmm_bridge \<Rightarrow> spi_avmm_bridge ret" where
  "br_pkt_phy_tx_prepare br =
     (let phy0 = write_at (phy_buf br) 0 [PKT_SOP, PKT_CHANNEL, 0];
          (tb, pb, pb_eop, phy) =
            pkt_phy_tx_loop (trans_buf br) (trans_len br) (length (phy_buf br)) 0 3 False None phy0;
          br1 = br\<lparr>phy_buf := phy\<rparr>
      in if tb < trans_len br then (Some ENOMEM, br1)
         else let br2 = br1\<lparr>phy_len := pb\<rparr>
         in if word_len br = 1 then (None, br2)
         else let aligned_phy_len = align_up pb (word_len br)
         in if aligned_phy_len > length phy then (Some ENOMEM, br2)
         else if aligned_phy_len = pb then (None, br2)
         else let eop = (case pb_eop of Some e \<Rightarrow> e | None \<Rightarrow> 0);
                  move_size = pb - eop;
                  moved = memmove_at phy (aligned_phy_len - move_size) eop move_size;
                  filled = memset_at moved eop PHY_IDLE (aligned_phy_len - pb)
         in (None, br2\<lparr>phy_buf := filled, phy_len := aligned_phy_len\<rparr>))"

text \<open>\<^verbatim>\<open>br_do_tx\<close>: swap the words, hand \<^verbatim>\<open>phy_len\<close> bytes to the controller. The result
  also carries the bytes put on the wire.\<close>

definition br_do_tx :: "(byte list \<Rightarrow> errno option) \<Rightarrow> spi_avmm_bridge \<Rightarrow> spi_avmm_bridge ret \<times> byte list" where
  "br_do_tx spi_write br =
     (let br1 = (if swap_words br then br\<lparr>phy_buf := br_swap_words_32 (phy_buf br) (phy_len br)\<rparr> else br);
          wire = take (phy_len br) (phy_buf br1)
      in ((spi_write wire, br1), wire))"

section \<open>Packet and physical layers: receive\<close>

record rx_st =
  rx_br :: spi_avmm_bridge
  rx_tb :: "nat option"    \<comment> \<open>\<^verbatim>\<open>tb\<close> as an offset into \<^verbatim>\<open>trans_buf\<close>, None for NULL\<close>
  eop_found :: bool
  channel_found :: bool
  esc_found :: bool
  valid_word :: bool

datatype rx_out = RxCont rx_st | RxRet "errno option" rx_st

text \<open>A store through \<^verbatim>\<open>tb\<close>; \<^verbatim>\<open>phy_buf\<close> follows \<^verbatim>\<open>trans_buf\<close> in the struct.\<close>

definition br_store :: "spi_avmm_bridge \<Rightarrow> nat \<Rightarrow> byte \<Rightarrow> spi_avmm_bridge" where
  "br_store br t b =
     (if t < length (trans_buf br) then br\<lparr>trans_buf := (trans_buf br)[t := b]\<rparr>
      else br\<lparr>phy_buf := (phy_buf br)[t - length (trans_buf br) := b]\<rparr>)"

text \<open>The body of the inner loop of \<^verbatim>\<open>br_do_rx_and_pkt_phy_parse\<close>, for byte \<open>i\<close> of the word.\<close>

definition rx_byte :: "nat \<Rightarrow> rx_st \<Rightarrow> rx_out" where
  "rx_byte i st =
     (let b = phy_buf (rx_br st) ! i; t = (case rx_tb st of Some t \<Rightarrow> t | None \<Rightarrow> 0)
      in if rx_tb st = None \<and> b \<noteq> PKT_SOP then RxCont st
         else if b = PHY_IDLE then RxCont st
         else let st = st\<lparr>valid_word := True\<rparr>
         in if channel_found st then
              if b \<noteq> 0 then RxRet (Some EFAULT) st else RxCont (st\<lparr>channel_found := False\<rparr>)
         else if b = PKT_SOP then
           RxCont (st\<lparr>rx_tb := Some 0, eop_found := False, channel_found := False, esc_found := False\<rparr>)
         else if b = PKT_EOP then
           if esc_found st \<or> eop_found st then RxRet (Some EFAULT) st else RxCont (st\<lparr>eop_found := True\<rparr>)
         else if b = PKT_CHANNEL then
           if esc_found st \<or> eop_found st then RxRet (Some EFAULT) st else RxCont (st\<lparr>channel_found := True\<rparr>)
         else if b = PKT_ESC \<or> b = PHY_ESC then
           if esc_found st then RxRet (Some EFAULT) st else RxCont (st\<lparr>esc_found := True\<rparr>)
         else let st1 = st\<lparr>rx_br := br_store (rx_br st) t (if esc_found st then b XOR 0x20 else b),
                           rx_tb := Some (Suc t), esc_found := False\<rparr>
              in if eop_found st then RxRet None (st1\<lparr>rx_br := (rx_br st1)\<lparr>trans_len := Suc t\<rparr>\<rparr>)
                 else RxCont st1)"

text \<open>The \<^verbatim>\<open>for\<close> loop over the word: \<open>n\<close> bytes are left, the next one is byte \<open>i\<close>.\<close>

fun rx_word :: "nat \<Rightarrow> nat \<Rightarrow> rx_st \<Rightarrow> rx_out" where
  "rx_word i 0 st = RxCont st"
| "rx_word i (Suc n) st = (case rx_byte i st of RxCont st' \<Rightarrow> rx_word (Suc i) n st' | r \<Rightarrow> r)"

record rx_event =
  spi_read_res :: "errno + byte list"
  jiffies :: u64

definition time_after :: "u64 \<Rightarrow> u64 \<Rightarrow> bool" where
  "time_after a b \<longleftrightarrow> sint (b - a) < 0"

text \<open>Storing the word just read at the start of \<^verbatim>\<open>phy_buf\<close>, swapped back.\<close>

definition rx_load_word :: "byte list \<Rightarrow> spi_avmm_bridge \<Rightarrow> spi_avmm_bridge" where
  "rx_load_word w br =
     (let buf = write_at (phy_buf br) 0 w
      in br\<lparr>phy_buf := if swap_words br then br_swap_words_32 buf (word_len br) else buf\<rparr>)"

text \<open>
  The \<^verbatim>\<open>while (tb < tb_limit)\<close> loop, one event per iteration. \<open>None\<close>: the events ran out
  before the function returned.
\<close>

fun rx_loop :: "u64 \<Rightarrow> rx_event list \<Rightarrow> u64 \<Rightarrow> bool \<Rightarrow> rx_st \<Rightarrow> spi_avmm_bridge ret option" where
  "rx_loop tmo evs poll_timeout last_try st =
     (if (case rx_tb st of Some t \<Rightarrow> t \<ge> length (trans_buf (rx_br st)) | None \<Rightarrow> False)
      then Some (Some EFAULT, rx_br st)
      else case evs of [] \<Rightarrow> None
      | ev # evs' \<Rightarrow>
          (case spi_read_res ev of
             Inl e \<Rightarrow> Some (Some e, rx_br st)
           | Inr w \<Rightarrow>
               (case rx_word 0 (word_len (rx_br st))
                       (st\<lparr>rx_br := rx_load_word w (rx_br st), valid_word := False\<rparr>) of
                  RxRet r st' \<Rightarrow> Some (r, rx_br st')
                | RxCont st' \<Rightarrow>
                    if valid_word st' then rx_loop tmo evs' (jiffies ev + tmo) False st'
                    else if last_try then Some (Some ETIMEDOUT, rx_br st')
                    else rx_loop tmo evs' poll_timeout (time_after (jiffies ev) poll_timeout) st')))"

declare rx_loop.simps [simp del]

definition rx_init :: "spi_avmm_bridge \<Rightarrow> rx_st" where
  "rx_init br = \<lparr>rx_br = br, rx_tb = None, eop_found = False, channel_found = False,
                 esc_found = False, valid_word = False\<rparr>"

definition br_do_rx_and_pkt_phy_parse ::
  "u64 \<Rightarrow> u64 \<Rightarrow> rx_event list \<Rightarrow> spi_avmm_bridge \<Rightarrow> spi_avmm_bridge ret option" where
  "br_do_rx_and_pkt_phy_parse tmo now evs br = rx_loop tmo evs (now + tmo) False (rx_init br)"

section \<open>Transaction layer: responses\<close>

fun le32_values :: "nat \<Rightarrow> byte list \<Rightarrow> u32 list" where
  "le32_values 0 bs = []"
| "le32_values (Suc n) bs = le32_to_cpu bs # le32_values n (drop 4 bs)"

definition br_rd_trans_rx_parse :: "spi_avmm_bridge \<Rightarrow> nat \<Rightarrow> errno + u32 list" where
  "br_rd_trans_rx_parse br expected_count =
     (if expected_count * SPI_AVMM_VAL_SIZE \<noteq> trans_len br then Inl EFAULT
      else Inr (le32_values expected_count (trans_buf br)))"

definition br_wr_trans_rx_parse :: "spi_avmm_bridge \<Rightarrow> nat \<Rightarrow> errno option" where
  "br_wr_trans_rx_parse br expected_count =
     (if trans_len br \<noteq> TRANS_RESP_HD_SIZE then Some EFAULT
      else let code = (trans_buf br ! 0) XOR 0x80;
               val_len = unat (be16_to_cpu (drop 2 (trans_buf br)))
      in if val_len = 0 \<or> val_len \<noteq> expected_count * SPI_AVMM_VAL_SIZE then Some EFAULT
         else if val_len = SPI_AVMM_VAL_SIZE \<and> code \<noteq> TRANS_CODE_WRITE \<or>
                 val_len > SPI_AVMM_VAL_SIZE \<and> code \<noteq> TRANS_CODE_SEQ_WRITE then Some EFAULT
         else None)"

section \<open>Register access\<close>

record spi_env =
  env_spi_write :: "byte list \<Rightarrow> errno option"
  env_timeout :: u64
  env_now :: u64
  env_events :: "rx_event list"

text \<open>
  The result is the error or the values read (none for a write); \<open>None\<close> when the events end
  before the receive loop does.
\<close>

definition do_reg_access ::
  "spi_env \<Rightarrow> bool \<Rightarrow> u32 \<Rightarrow> u32 list \<Rightarrow> nat \<Rightarrow> spi_avmm_bridge \<Rightarrow> ((errno + u32 list) \<times> spi_avmm_bridge) option" where
  "do_reg_access env is_read reg value count br =
     (let br = br\<lparr>trans_len := 0, phy_len := 0\<rparr>
      in case br_trans_tx_prepare is_read reg value count br of
           (Some e, br) \<Rightarrow> Some (Inl e, br)
         | (None, br) \<Rightarrow>
      (case br_pkt_phy_tx_prepare br of
           (Some e, br) \<Rightarrow> Some (Inl e, br)
         | (None, br) \<Rightarrow>
      (case fst (br_do_tx (env_spi_write env) br) of
           (Some e, br) \<Rightarrow> Some (Inl e, br)
         | (None, br) \<Rightarrow>
      (case br_do_rx_and_pkt_phy_parse (env_timeout env) (env_now env) (env_events env) br of
           None \<Rightarrow> None
         | Some (Some e, br) \<Rightarrow> Some (Inl e, br)
         | Some (None, br) \<Rightarrow>
             if is_read then Some (br_rd_trans_rx_parse br count, br)
             else Some (case br_wr_trans_rx_parse br count of Some e \<Rightarrow> Inl e | None \<Rightarrow> Inr [], br)))))"

text \<open>The three \<^verbatim>\<open>regmap_bus\<close> operations. Buffers are byte lists, so their lengths are the
  \<^verbatim>\<open>size_t\<close> arguments; the host is little endian.\<close>

definition regmap_spi_avmm_gather_write ::
  "spi_env \<Rightarrow> byte list \<Rightarrow> byte list \<Rightarrow> spi_avmm_bridge \<Rightarrow> ((errno + u32 list) \<times> spi_avmm_bridge) option" where
  "regmap_spi_avmm_gather_write env reg_buf val_buf br =
     (if length reg_buf \<noteq> SPI_AVMM_REG_SIZE then Some (Inl EINVAL, br)
      else if length val_buf mod SPI_AVMM_VAL_SIZE \<noteq> 0 then Some (Inl EINVAL, br)
      else do_reg_access env False (le32_to_cpu reg_buf)
             (le32_values (length val_buf div SPI_AVMM_VAL_SIZE) val_buf)
             (length val_buf div SPI_AVMM_VAL_SIZE) br)"

definition regmap_spi_avmm_write ::
  "spi_env \<Rightarrow> byte list \<Rightarrow> spi_avmm_bridge \<Rightarrow> ((errno + u32 list) \<times> spi_avmm_bridge) option" where
  "regmap_spi_avmm_write env data br =
     (if length data < SPI_AVMM_REG_SIZE + SPI_AVMM_VAL_SIZE then Some (Inl EINVAL, br)
      else regmap_spi_avmm_gather_write env (take SPI_AVMM_REG_SIZE data) (drop SPI_AVMM_REG_SIZE data) br)"

definition regmap_spi_avmm_read ::
  "spi_env \<Rightarrow> byte list \<Rightarrow> nat \<Rightarrow> spi_avmm_bridge \<Rightarrow> ((errno + u32 list) \<times> spi_avmm_bridge) option" where
  "regmap_spi_avmm_read env reg_buf val_len br =
     (if length reg_buf \<noteq> SPI_AVMM_REG_SIZE then Some (Inl EINVAL, br)
      else if val_len mod SPI_AVMM_VAL_SIZE \<noteq> 0 then Some (Inl EINVAL, br)
      else do_reg_access env True (le32_to_cpu reg_buf) [] (val_len div SPI_AVMM_VAL_SIZE) br)"

end
