(* ===== verification/Spi_Avmm_Codec.thy ===== *)
theory Spi_Avmm_Codec
  imports Spi_Avmm
begin

unbundle bit_operations_syntax

text \<open>
  The packet and physical layers of the SPI-Avalon bridge as an abstract codec on byte lists,
  the interface \<open>pkt_link\<close> it provides to the transaction layer, and the refinement of the
  codec by the pointer loops of \<^theory_text>\<open>Spi_Avmm\<close>.
\<close>

section \<open>The abstract encoder\<close>

definition pkt_special :: "byte \<Rightarrow> bool" where
  "pkt_special b \<longleftrightarrow> b \<in> {PKT_SOP, PKT_EOP, PKT_CHANNEL, PKT_ESC}"

definition phy_special :: "byte \<Rightarrow> bool" where
  "phy_special b \<longleftrightarrow> b \<in> {PHY_IDLE, PHY_ESC}"

definition esc_byte :: "byte \<Rightarrow> byte list" where
  "esc_byte b = (if pkt_special b then [PKT_ESC, b XOR 0x20]
                 else if phy_special b then [PHY_ESC, b XOR 0x20] else [b])"

definition esc_bytes :: "byte list \<Rightarrow> byte list" where
  "esc_bytes bs = concat (map esc_byte bs)"

text \<open>The end-of-packet mark stands before the last byte.\<close>

definition pkt_body :: "byte list \<Rightarrow> byte list" where
  "pkt_body d = esc_bytes (butlast d) @ PKT_EOP # esc_byte (last d)"

definition pkt_encode :: "byte list \<Rightarrow> byte list" where
  "pkt_encode d = [PKT_SOP, PKT_CHANNEL, 0] @ pkt_body d"

lemma pkt_body_single: "pkt_body [b] = PKT_EOP # esc_byte b"
  by (simp add: pkt_body_def esc_bytes_def)

lemma pkt_body_Cons: "ds \<noteq> [] \<Longrightarrow> pkt_body (b # ds) = esc_byte b @ pkt_body ds"
  by (simp add: pkt_body_def esc_bytes_def)

lemma length_esc_byte: "length (esc_byte b) \<le> 2" "0 < length (esc_byte b)"
  by (simp_all add: esc_byte_def)

lemma length_pkt_body: "d \<noteq> [] \<Longrightarrow> length (pkt_body d) \<le> 2 * length d + 1"
proof (induction d)
  case (Cons b ds)
  then show ?case
    using length_esc_byte [of b] by (cases "ds = []") (auto simp: pkt_body_single pkt_body_Cons)
qed simp

lemma esc_byte_no_idle: "PHY_IDLE \<notin> set (esc_byte b)"
proof -
  have "b XOR 0x20 \<noteq> PHY_IDLE" if "pkt_special b \<or> phy_special b"
    using that by (auto simp: pkt_special_def phy_special_def)
  then show ?thesis
    by (auto simp: esc_byte_def phy_special_def)
qed

lemma pkt_encode_no_idle: "PHY_IDLE \<notin> set (pkt_encode d)"
  by (auto simp: pkt_encode_def pkt_body_def esc_bytes_def esc_byte_no_idle)

section \<open>The abstract decoder\<close>

record dec_st =
  d_acc :: "byte list option"
  d_eop :: bool
  d_chan :: bool
  d_esc :: bool

datatype dec_out = DCont dec_st | DDone "byte list" | DFault

definition dec_byte :: "dec_st \<Rightarrow> byte \<Rightarrow> dec_out" where
  "dec_byte st b =
     (if d_acc st = None \<and> b \<noteq> PKT_SOP then DCont st
      else if b = PHY_IDLE then DCont st
      else if d_chan st then if b \<noteq> 0 then DFault else DCont (st\<lparr>d_chan := False\<rparr>)
      else if b = PKT_SOP then DCont \<lparr>d_acc = Some [], d_eop = False, d_chan = False, d_esc = False\<rparr>
      else if b = PKT_EOP then if d_esc st \<or> d_eop st then DFault else DCont (st\<lparr>d_eop := True\<rparr>)
      else if b = PKT_CHANNEL then if d_esc st \<or> d_eop st then DFault else DCont (st\<lparr>d_chan := True\<rparr>)
      else if b = PKT_ESC \<or> b = PHY_ESC then if d_esc st then DFault else DCont (st\<lparr>d_esc := True\<rparr>)
      else let acc = (case d_acc st of Some a \<Rightarrow> a | None \<Rightarrow> []) @ [if d_esc st then b XOR 0x20 else b]
           in if d_eop st then DDone acc else DCont (st\<lparr>d_acc := Some acc, d_esc := False\<rparr>))"

fun dec_bytes :: "dec_st \<Rightarrow> byte list \<Rightarrow> dec_out" where
  "dec_bytes st [] = DCont st"
| "dec_bytes st (b # bs) = (case dec_byte st b of DCont st' \<Rightarrow> dec_bytes st' bs | r \<Rightarrow> r)"

definition dec_init :: dec_st where
  "dec_init = \<lparr>d_acc = None, d_eop = False, d_chan = False, d_esc = False\<rparr>"

definition pkt_decode :: "byte list \<Rightarrow> byte list option" where
  "pkt_decode bs = (case dec_bytes dec_init bs of DDone d \<Rightarrow> Some d | _ \<Rightarrow> None)"

text \<open>Idle bytes are transparent to the decoder, wherever the slave inserts them.\<close>

lemma dec_byte_idle [simp]: "dec_byte st PHY_IDLE = DCont st"
  by (simp add: dec_byte_def)

lemma dec_bytes_filter_idle: "dec_bytes st (filter (\<lambda>b. b \<noteq> PHY_IDLE) bs) = dec_bytes st bs"
  by (induction bs arbitrary: st) (auto split: dec_out.splits)

lemma dec_bytes_append:
  "dec_bytes st (xs @ ys) = (case dec_bytes st xs of DCont st' \<Rightarrow> dec_bytes st' ys | r \<Rightarrow> r)"
  by (induction xs arbitrary: st) (auto split: dec_out.splits)

text \<open>One escaped byte, with and without the end mark seen.\<close>

lemma dec_esc_byte:
  assumes "d_acc st = Some a" and "\<not> d_chan st" and "\<not> d_esc st"
  shows "dec_bytes st (esc_byte b @ bs) =
     (if d_eop st then DDone (a @ [b]) else dec_bytes (st\<lparr>d_acc := Some (a @ [b])\<rparr>) bs)"
proof -
  have st: "st\<lparr>d_acc := Some x, d_esc := False\<rparr> = st\<lparr>d_acc := Some x\<rparr>" for x
    using assms by (cases st) simp
  have esc: "c XOR 0x20 \<notin> {PKT_SOP, PKT_EOP, PKT_CHANNEL, PKT_ESC, PHY_IDLE, PHY_ESC}"
    if "pkt_special c \<or> phy_special c" for c
    using that by (auto simp: pkt_special_def phy_special_def)
  show ?thesis
    using assms esc [of b]
    by (auto simp: esc_byte_def dec_byte_def st pkt_special_def phy_special_def Let_def)
qed

lemma dec_pkt_body:
  assumes "d \<noteq> []" and "d_acc st = Some a" and "\<not> d_chan st" "\<not> d_esc st" "\<not> d_eop st"
  shows "dec_bytes st (pkt_body d @ bs) = DDone (a @ d)"
  using assms
proof (induction d arbitrary: st a)
  case (Cons b ds)
  show ?case
  proof (cases "ds = []")
    case True
    then show ?thesis
      using Cons.prems dec_esc_byte [of "st\<lparr>d_eop := True\<rparr>" a b bs]
      by (simp add: pkt_body_single dec_byte_def)
  next
    case False
    then show ?thesis
      using Cons.prems Cons.IH [of "st\<lparr>d_acc := Some (a @ [b])\<rparr>" "a @ [b]"]
      by (simp add: pkt_body_Cons dec_esc_byte)
  qed
qed simp

lemma dec_pkt_encode:
  assumes "d \<noteq> []" and "\<not> d_chan st"
  shows "dec_bytes st (pkt_encode d @ bs) = DDone d"
  using assms by (simp add: pkt_encode_def dec_byte_def dec_pkt_body)

section \<open>The link interface\<close>

text \<open>
  What the transaction layer needs of the layers below: a nonempty message survives the wire
  whatever padding bytes are interleaved with its encoding and whatever follows it.
\<close>

locale pkt_link =
  fixes encode :: "byte list \<Rightarrow> byte list"
    and decode :: "byte list \<Rightarrow> byte list option"
    and pad :: byte
  assumes decode_encode: "d \<noteq> [] \<Longrightarrow> decode (encode d @ rest) = Some d"
    and decode_pad: "decode (filter (\<lambda>b. b \<noteq> pad) s) = decode s"
    and encode_no_pad: "pad \<notin> set (encode d)"
begin

lemma encode_inj: "d \<noteq> [] \<Longrightarrow> d' \<noteq> [] \<Longrightarrow> encode d = encode d' \<Longrightarrow> d = d'"
  using decode_encode [of d "[]"] decode_encode [of d' "[]"] by simp

lemma encode_prefix_free:
  assumes "d \<noteq> []" and "d' \<noteq> []" and "encode d' = encode d @ rest"
  shows "d' = d"
  using assms decode_encode [of d rest] decode_encode [of d' "[]"] by simp

lemma decode_interleaved:
  assumes "d \<noteq> []" and "filter (\<lambda>b. b \<noteq> pad) s = encode d @ rest"
  shows "decode s = Some d"
  using decode_pad [of s] assms by (simp add: decode_encode)

lemma decode_padded_hole:
  assumes "d \<noteq> []" and "encode d = pre @ suf"
  shows "decode (pre @ replicate n pad @ suf) = Some d"
proof (rule decode_interleaved [OF assms(1), where rest = "[]"])
  have "filter (\<lambda>b. b \<noteq> pad) (encode d) = encode d"
    using encode_no_pad [of d] by (auto simp: filter_id_conv)
  then show "filter (\<lambda>b. b \<noteq> pad) (pre @ replicate n pad @ suf) = encode d @ []"
    using assms(2) by simp
qed

end

interpretation avmm: pkt_link pkt_encode pkt_decode PHY_IDLE
proof unfold_locales
  show "pkt_decode (pkt_encode d @ rest) = Some d" if "d \<noteq> []" for d rest
    using that by (simp add: pkt_decode_def dec_pkt_encode dec_init_def)
  show "pkt_decode (filter (\<lambda>b. b \<noteq> PHY_IDLE) s) = pkt_decode s" for s
    by (simp add: pkt_decode_def dec_bytes_filter_idle)
  show "PHY_IDLE \<notin> set (pkt_encode d)" for d
    by (rule pkt_encode_no_idle)
qed

end
