(* ===== verification/Spi_Avmm_Tx.thy ===== *)
theory Spi_Avmm_Tx
  imports Spi_Avmm_Codec
begin

unbundle bit_operations_syntax

text \<open>
  The transmit side of the bridge refines the abstract encoder: the pointer loop of
  \<^verbatim>\<open>br_pkt_phy_tx_prepare\<close> writes \<open>pkt_encode\<close> of the transaction bytes, and the padding to
  the SPI word keeps what a receiver decodes.
\<close>

section \<open>Adjacent stores\<close>

lemma write_at_Nil [list_blocks]: "write_at xs off [] = xs"
  by (simp add: write_at_def)

lemma list_update_write_at: "i < length xs \<Longrightarrow> xs[i := v] = write_at xs i [v]"
  by (simp add: write_at_def upd_conv_take_nth_drop)

lemma write_at_write_at [list_blocks]:
  "off + length xs + length ys \<le> length buf \<Longrightarrow>
   write_at (write_at buf off xs) (off + length xs) ys = write_at buf off (xs @ ys)"
  by (simp add: write_at_def ac_simps)

lemma write_at_update [list_blocks]:
  "off + length xs < length buf \<Longrightarrow>
   (write_at buf off xs)[off + length xs := v] = write_at buf off (xs @ [v])"
  using write_at_write_at [of off xs "[v]" buf] by (simp add: list_update_write_at length_write_at)

section \<open>The loop\<close>

text \<open>The byte at \<open>tb\<close>, once the end mark is settled, takes the steps of \<open>esc_byte\<close>.\<close>

lemma pkt_phy_tx_loop_esc:
  assumes "tb < n" and "lim = length phy" and "pb + length (esc_byte (tbuf ! tb)) \<le> lim"
    and "tb = n - 1 \<longrightarrow> eop \<noteq> None"
  shows "pkt_phy_tx_loop tbuf n lim tb pb False eop phy =
    pkt_phy_tx_loop tbuf n lim (Suc tb) (pb + length (esc_byte (tbuf ! tb))) False eop
      (write_at phy pb (esc_byte (tbuf ! tb)))"
proof (cases "pkt_special (tbuf ! tb) \<or> phy_special (tbuf ! tb)")
  case True
  define e where "e = (if pkt_special (tbuf ! tb) then PKT_ESC else PHY_ESC)"
  have eb: "esc_byte (tbuf ! tb) = [e, tbuf ! tb XOR 0x20]"
    using True by (auto simp: esc_byte_def e_def)
  have "pkt_phy_tx_loop tbuf n lim tb pb False eop phy =
      pkt_phy_tx_loop tbuf n lim tb (Suc pb) True eop (phy[pb := e])"
    using assms True unfolding e_def
    by (subst pkt_phy_tx_loop.simps) (auto simp: eb pkt_special_def phy_special_def)
  also have "\<dots> = pkt_phy_tx_loop tbuf n lim (Suc tb) (Suc (Suc pb)) False eop
      (phy[pb := e, Suc pb := tbuf ! tb XOR 0x20])"
    using assms by (subst pkt_phy_tx_loop.simps) (simp add: eb)
  also have "phy[pb := e, Suc pb := tbuf ! tb XOR 0x20] = write_at phy pb [e, tbuf ! tb XOR 0x20]"
    using assms write_at_update [of pb "[e]" phy] by (simp add: eb list_update_write_at)
  finally show ?thesis by (simp add: eb)
next
  case False
  then show ?thesis
    using assms by (subst pkt_phy_tx_loop.simps)
      (auto simp: esc_byte_def pkt_special_def phy_special_def list_update_write_at)
qed

lemma pkt_phy_tx_loop_end:
  "pkt_phy_tx_loop tbuf n lim n pb ne eop phy = (n, pb, eop, phy)"
  by (subst pkt_phy_tx_loop.simps) simp

lemma pkt_phy_tx_loop_eop:
  assumes "pb < lim" and "tb < n" and "tb = n - 1"
  shows "pkt_phy_tx_loop tbuf n lim tb pb False None phy =
    pkt_phy_tx_loop tbuf n lim tb (Suc pb) False (Some pb) (phy[pb := PKT_EOP])"
  using assms by (subst pkt_phy_tx_loop.simps) simp

lemma drop_take_Cons:
  "tb < n \<Longrightarrow> n \<le> length tbuf \<Longrightarrow> drop tb (take n tbuf) = tbuf ! tb # drop (Suc tb) (take n tbuf)"
  by (simp add: Cons_nth_drop_Suc [symmetric])

text \<open>With room enough, the loop writes the packet body and finds the offset of its end mark.\<close>

lemma pkt_phy_tx_loop_body:
  assumes "drop tb (take n tbuf) = ds" and "tb < n" and "n \<le> length tbuf"
    and "lim = length phy" and "pb + length (pkt_body ds) \<le> lim"
  shows "pkt_phy_tx_loop tbuf n lim tb pb False None phy =
    (n, pb + length (pkt_body ds), Some (pb + length (esc_bytes (butlast ds))),
     write_at phy pb (pkt_body ds))"
  using assms
proof (induction ds arbitrary: tb pb phy)
  case Nil
  then show ?case by simp
next
  case (Cons b ds)
  have b: "tbuf ! tb = b" and ds: "drop (Suc tb) (take n tbuf) = ds"
    using Cons.prems drop_take_Cons [of tb n tbuf] by auto
  show ?case
  proof (cases "ds = []")
    case True
    with ds Cons.prems have tb: "tb = n - 1" by simp
    then have Suc: "Suc tb = n" using Cons.prems(2) by simp
    have fit: "pb + 1 + length (esc_byte b) \<le> lim"
      using Cons.prems True by (simp add: pkt_body_single)
    have "pkt_phy_tx_loop tbuf n lim tb pb False None phy =
        pkt_phy_tx_loop tbuf n lim tb (Suc pb) False (Some pb) (phy[pb := PKT_EOP])"
      using fit tb Cons.prems(2) by (intro pkt_phy_tx_loop_eop) auto
    also have "\<dots> = pkt_phy_tx_loop tbuf n lim n (Suc pb + length (esc_byte b)) False (Some pb)
        (write_at (phy[pb := PKT_EOP]) (Suc pb) (esc_byte b))"
      using Cons.prems fit b pkt_phy_tx_loop_esc [of tb n lim "phy[pb := PKT_EOP]" "Suc pb" tbuf "Some pb"]
      by (simp add: Suc)
    also have "write_at (phy[pb := PKT_EOP]) (Suc pb) (esc_byte b) = write_at phy pb (PKT_EOP # esc_byte b)"
      using fit Cons.prems(4) write_at_write_at [of pb "[PKT_EOP]" "esc_byte b" phy]
      by (simp add: list_update_write_at)
    finally show ?thesis
      using True by (simp add: pkt_phy_tx_loop_end pkt_body_single esc_bytes_def)
  next
    case False
    have body: "pkt_body (b # ds) = esc_byte b @ pkt_body ds"
      using False by (rule pkt_body_Cons)
    have tb: "Suc tb < n"
      using ds False Cons.prems(3) by (metis drop_eq_Nil length_take min.absorb2 not_less)
    have "pkt_phy_tx_loop tbuf n lim tb pb False None phy =
        pkt_phy_tx_loop tbuf n lim (Suc tb) (pb + length (esc_byte b)) False None
          (write_at phy pb (esc_byte b))"
      using Cons.prems tb b body pkt_phy_tx_loop_esc [of tb n lim phy pb tbuf None] by simp
    also have "\<dots> = (n, pb + length (esc_byte b) + length (pkt_body ds),
        Some (pb + length (esc_byte b) + length (esc_bytes (butlast ds))),
        write_at (write_at phy pb (esc_byte b)) (pb + length (esc_byte b)) (pkt_body ds))"
      using Cons.prems tb ds body by (intro Cons.IH) (simp_all add: length_write_at)
    finally show ?thesis
      using Cons.prems body False by (simp add: write_at_write_at esc_bytes_def add.assoc)
  qed
qed

text \<open>Without room, transaction bytes are left over, so the caller reports \<open>ENOMEM\<close>.\<close>

lemma pkt_phy_tx_loop_stuck:
  "lim \<le> pb \<Longrightarrow> pkt_phy_tx_loop tbuf n lim tb pb ne eop phy = (tb, pb, eop, phy)"
  by (subst pkt_phy_tx_loop.simps) simp

lemma pkt_phy_tx_loop_esc_short:
  assumes "tb < n" and "lim < pb + length (esc_byte (tbuf ! tb))" and "tb = n - 1 \<longrightarrow> eop \<noteq> None"
  shows "fst (pkt_phy_tx_loop tbuf n lim tb pb False eop phy) = tb"
proof (cases "pb < lim")
  case True
  with assms(2) have "pkt_special (tbuf ! tb) \<or> phy_special (tbuf ! tb)" and "lim \<le> Suc pb"
    by (auto simp: esc_byte_def split: if_splits)
  then show ?thesis
    using assms True by (subst pkt_phy_tx_loop.simps)
      (auto simp: pkt_phy_tx_loop_stuck pkt_special_def phy_special_def)
qed (simp add: pkt_phy_tx_loop_stuck)

lemma pkt_phy_tx_loop_full:
  assumes "drop tb (take n tbuf) = ds" and "tb < n" and "n \<le> length tbuf"
    and "lim = length phy" and "lim < pb + length (pkt_body ds)"
  shows "fst (pkt_phy_tx_loop tbuf n lim tb pb False None phy) < n"
  using assms
proof (induction ds arbitrary: tb pb phy)
  case Nil
  then show ?case by simp
next
  case (Cons b ds)
  have b: "tbuf ! tb = b" and ds: "drop (Suc tb) (take n tbuf) = ds"
    using Cons.prems drop_take_Cons [of tb n tbuf] by auto
  show ?case
  proof (cases "ds = []")
    case True
    with ds Cons.prems have tb: "tb = n - 1" by simp
    then show ?thesis
      using Cons.prems True b
        pkt_phy_tx_loop_esc_short [of tb n lim "Suc pb" tbuf "Some pb" "phy[pb := PKT_EOP]"]
      by (cases "pb < lim") (simp_all add: pkt_body_single pkt_phy_tx_loop_eop pkt_phy_tx_loop_stuck)
  next
    case False
    have body: "pkt_body (b # ds) = esc_byte b @ pkt_body ds"
      using False by (rule pkt_body_Cons)
    have tb: "Suc tb < n"
      using ds False Cons.prems(3) by (metis drop_eq_Nil length_take min.absorb2 not_less)
    show ?thesis
    proof (cases "pb + length (esc_byte b) \<le> lim")
      case True
      then show ?thesis
        using Cons.prems tb b ds body pkt_phy_tx_loop_esc [of tb n lim phy pb tbuf None]
          Cons.IH [of "Suc tb" "write_at phy pb (esc_byte b)" "pb + length (esc_byte b)"]
        by (simp add: length_write_at add.assoc)
    next
      case False
      then show ?thesis
        using Cons.prems tb b pkt_phy_tx_loop_esc_short [of tb n lim pb tbuf None phy] by simp
    qed
  qed
qed

section \<open>Preparing the physical layer\<close>

text \<open>The transaction bytes a bridge holds, and the bytes it is about to send.\<close>

definition trans_data :: "spi_avmm_bridge \<Rightarrow> byte list" where
  "trans_data br = take (trans_len br) (trans_buf br)"

definition phy_data :: "spi_avmm_bridge \<Rightarrow> byte list" where
  "phy_data br = take (phy_len br) (phy_buf br)"

text \<open>The packet with its end mark and last byte moved to the end of the last SPI word.\<close>

definition pkt_padded :: "nat \<Rightarrow> byte list \<Rightarrow> byte list" where
  "pkt_padded w d =
     ([PKT_SOP, PKT_CHANNEL, 0] @ esc_bytes (butlast d))
     @ replicate (align_up (length (pkt_encode d)) w - length (pkt_encode d)) PHY_IDLE
     @ (PKT_EOP # esc_byte (last d))"

lemma pkt_encode_split:
  "pkt_encode d = ([PKT_SOP, PKT_CHANNEL, 0] @ esc_bytes (butlast d)) @ (PKT_EOP # esc_byte (last d))"
  by (simp add: pkt_encode_def pkt_body_def)

lemma length_pkt_padded: "0 < w \<Longrightarrow> length (pkt_padded w d) = align_up (length (pkt_encode d)) w"
  using align_up_ge [of w "length (pkt_encode d)"]
  by (simp add: pkt_padded_def pkt_encode_split)

lemma pkt_padded_aligned:
  "align_up (length (pkt_encode d)) w = length (pkt_encode d) \<Longrightarrow> pkt_padded w d = pkt_encode d"
  by (simp add: pkt_padded_def pkt_encode_split)

lemma pkt_padded_1: "pkt_padded 1 d = pkt_encode d"
  by (rule pkt_padded_aligned) (simp add: align_up_def)

lemma decode_pkt_padded: "d \<noteq> [] \<Longrightarrow> pkt_decode (pkt_padded w d) = Some d"
  unfolding pkt_padded_def by (rule avmm.decode_padded_hole) (simp_all add: pkt_encode_split)

text \<open>Moving the tail of a block up and filling the hole.\<close>

lemma move_and_fill:
  assumes "length pre + n + length suf \<le> length buf"
  shows "take (length pre + n + length suf)
     (memset_at (memmove_at (write_at buf 0 (pre @ suf)) (length pre + n) (length pre) (length suf))
        (length pre) c n) = pre @ replicate n c @ suf"
  using assms by (simp add: memset_at_def memmove_at_def write_at_def min_def ac_simps)

lemma length_move_and_fill:
  assumes "length pre + n + length suf \<le> length buf"
  shows "length (memset_at (memmove_at (write_at buf 0 (pre @ suf)) (length pre + n) (length pre) (length suf))
        (length pre) c n) = length buf"
  using assms by (simp add: memset_at_def memmove_at_def write_at_def min_def)

lemma tx_loop_encode:
  assumes "bridge_wf br" and "0 < trans_len br" and "trans_len br \<le> TRANS_BUF_SIZE"
    and "length (pkt_encode (trans_data br)) \<le> PHY_BUF_SIZE"
  shows "pkt_phy_tx_loop (trans_buf br) (trans_len br) (length (phy_buf br)) 0 3 False None
      (write_at (phy_buf br) 0 [PKT_SOP, PKT_CHANNEL, 0]) =
    (trans_len br, length (pkt_encode (trans_data br)),
     Some (3 + length (esc_bytes (butlast (trans_data br)))),
     write_at (phy_buf br) 0 (pkt_encode (trans_data br)))"
proof -
  have len: "length (pkt_encode (trans_data br)) = 3 + length (pkt_body (trans_data br))"
    by (simp add: pkt_encode_def)
  show ?thesis
    using assms len write_at_write_at [of 0 "[PKT_SOP, PKT_CHANNEL, 0]" "pkt_body (trans_data br)" "phy_buf br"]
    by (subst pkt_phy_tx_loop_body [where ds = "trans_data br"])
      (simp_all add: trans_data_def bridge_wf_def length_write_at pkt_encode_def numeral_3_eq_3)
qed

lemma align_up_4_28: "n \<le> 28 \<Longrightarrow> align_up n 4 \<le> 28"
  using align_up_mono [of n 28 4] by (simp add: align_up_def)

text \<open>The tail of \<^verbatim>\<open>br_pkt_phy_tx_prepare\<close> for a packet \<open>pre @ suf\<close> whose end mark starts
  \<open>suf\<close>, when \<open>n\<close> bytes are missing to the next word boundary.\<close>

lemma tx_prepare_pad:
  assumes "pkt_phy_tx_loop (trans_buf br) (trans_len br) (length (phy_buf br)) 0 3 False None
      (write_at (phy_buf br) 0 [PKT_SOP, PKT_CHANNEL, 0]) =
      (trans_len br, length pre + length suf, Some (length pre), write_at (phy_buf br) 0 (pre @ suf))"
    and "word_len br = 1 \<Longrightarrow> n = 0"
    and "align_up (length pre + length suf) (word_len br) = length pre + n + length suf"
    and fits: "length pre + n + length suf \<le> length (phy_buf br)"
  shows "\<exists>buf. br_pkt_phy_tx_prepare br = (None, br\<lparr>phy_buf := buf, phy_len := length pre + n + length suf\<rparr>) \<and>
    length buf = length (phy_buf br) \<and>
    take (length pre + n + length suf) buf = pre @ replicate n PHY_IDLE @ suf"
proof (cases "n = 0")
  case True
  then show ?thesis
    using assms take_write_at_0 [of "pre @ suf" "phy_buf br"]
    by (auto simp: br_pkt_phy_tx_prepare_def Let_def length_write_at)
next
  case False
  have w: "word_len br \<noteq> 1" using False assms(2) by auto
  have "br_pkt_phy_tx_prepare br = (None, br\<lparr>
      phy_buf := memset_at (memmove_at (write_at (phy_buf br) 0 (pre @ suf))
        (length pre + n) (length pre) (length suf)) (length pre) PHY_IDLE n,
      phy_len := length pre + n + length suf\<rparr>)"
    using assms False w by (simp add: br_pkt_phy_tx_prepare_def Let_def length_write_at)
  then show ?thesis
    using move_and_fill [OF fits, of PHY_IDLE] length_move_and_fill [OF fits, of PHY_IDLE] by auto
qed

lemma br_pkt_phy_tx_prepare_ok:
  assumes wf: "bridge_wf br" and "0 < trans_len br" and "trans_len br \<le> TRANS_BUF_SIZE"
    and fits: "length (pkt_encode (trans_data br)) \<le> PHY_BUF_SIZE"
  shows "\<exists>buf. br_pkt_phy_tx_prepare br =
      (None, br\<lparr>phy_buf := buf, phy_len := length (pkt_padded (word_len br) (trans_data br))\<rparr>) \<and>
    length buf = length (phy_buf br) \<and>
    take (length (pkt_padded (word_len br) (trans_data br))) buf = pkt_padded (word_len br) (trans_data br)"
proof -
  let ?d = "trans_data br"
  define pre where "pre = [PKT_SOP, PKT_CHANNEL, 0] @ esc_bytes (butlast ?d)"
  define suf where "suf = PKT_EOP # esc_byte (last ?d)"
  define n where "n = align_up (length (pkt_encode ?d)) (word_len br) - length (pkt_encode ?d)"
  have enc: "pkt_encode ?d = pre @ suf"
    by (simp add: pkt_encode_split pre_def suf_def)
  have padded: "pkt_padded (word_len br) ?d = pre @ replicate n PHY_IDLE @ suf"
    by (simp add: pkt_padded_def pre_def suf_def n_def)
  have w: "word_len br = 1 \<or> word_len br = 4" and phy: "length (phy_buf br) = 28"
    using wf by (auto simp: bridge_wf_def)
  have al: "align_up (length pre + length suf) (word_len br) \<le> 28"
    using w fits align_up_4_28 by (auto simp: align_up_def enc)
  have n: "align_up (length pre + length suf) (word_len br) = length pre + n + length suf"
    using w align_up_ge [of "word_len br" "length pre + length suf"] by (auto simp: n_def enc)
  have "\<exists>buf. br_pkt_phy_tx_prepare br = (None, br\<lparr>phy_buf := buf, phy_len := length pre + n + length suf\<rparr>) \<and>
    length buf = length (phy_buf br) \<and>
    take (length pre + n + length suf) buf = pre @ replicate n PHY_IDLE @ suf"
  proof (rule tx_prepare_pad)
    show "word_len br = 1 \<Longrightarrow> n = 0" by (simp add: n_def align_up_def)
    have "3 + length (esc_bytes (butlast ?d)) = length pre" by (simp add: pre_def)
    with tx_loop_encode [OF assms]
    show "pkt_phy_tx_loop (trans_buf br) (trans_len br) (length (phy_buf br)) 0 3 False None
      (write_at (phy_buf br) 0 [PKT_SOP, PKT_CHANNEL, 0]) =
      (trans_len br, length pre + length suf, Some (length pre), write_at (phy_buf br) 0 (pre @ suf))"
      by (simp add: enc)
  qed (use n al phy in auto)
  then show ?thesis by (simp add: padded add.assoc)
qed

lemma br_pkt_phy_tx_prepare_full:
  assumes "bridge_wf br" and "0 < trans_len br" and "trans_len br \<le> TRANS_BUF_SIZE"
    and "\<not> length (pkt_encode (trans_data br)) \<le> PHY_BUF_SIZE"
  shows "fst (br_pkt_phy_tx_prepare br) = Some ENOMEM"
proof -
  have "fst (pkt_phy_tx_loop (trans_buf br) (trans_len br) (length (phy_buf br)) 0 3 False None
      (write_at (phy_buf br) 0 [PKT_SOP, PKT_CHANNEL, 0])) < trans_len br"
    using assms by (intro pkt_phy_tx_loop_full [where ds = "trans_data br"])
      (auto simp: trans_data_def bridge_wf_def length_write_at pkt_encode_def)
  then show ?thesis
    by (auto simp: br_pkt_phy_tx_prepare_def Let_def split: prod.splits)
qed

section \<open>Word swapping on the wire\<close>

lemma length_swap_words_32 [simp]: "length (swap_words_32 bs c) = length bs"
  by (induction bs c rule: swap_words_32.induct) auto

lemma swap_words_32_involution [simp]: "swap_words_32 (swap_words_32 bs c) c = bs"
  by (induction bs c rule: swap_words_32.induct) auto

lemma take_swap_words_32:
  "4 * c \<le> length bs \<Longrightarrow> take (4 * c) (swap_words_32 bs c) = swap_words_32 (take (4 * c) bs) c"
proof (induction c arbitrary: bs)
  case (Suc c)
  then have "Suc (Suc (Suc (Suc (4 * c)))) \<le> length bs" by simp
  then obtain x y z w bs' where bs: "bs = x # y # z # w # bs'" and "4 * c \<le> length bs'"
    by (auto simp only: Suc_le_length_iff)
  then show ?case
    using Suc.IH [of bs'] by (simp add: numeral_eq_Suc)
qed simp

end
