(* ===== verification/Spi_Avmm_Rx.thy ===== *)
theory Spi_Avmm_Rx
  imports Spi_Avmm_Tx
begin

unbundle bit_operations_syntax

text \<open>
  The receive side of the bridge refines the abstract decoder: parsing the bytes of a word in
  place, with stores that may run past \<^verbatim>\<open>trans_buf\<close> into the very word being parsed, gives
  the decoder's result, because a store never passes the byte being read. The polling loop
  then delivers the decoded message, or times out.
\<close>

section \<open>One byte\<close>

definition mem :: "spi_avmm_bridge \<Rightarrow> byte list" where
  "mem br = trans_buf br @ phy_buf br"

definition abs_rx :: "rx_st \<Rightarrow> dec_st" where
  "abs_rx st = \<lparr>d_acc = map_option (\<lambda>t. take t (mem (rx_br st))) (rx_tb st),
     d_eop = eop_found st, d_chan = channel_found st, d_esc = esc_found st\<rparr>"

text \<open>At byte \<open>i\<close> of a word, \<^verbatim>\<open>tb\<close> is at most \<open>i\<close> past the last slot of \<^verbatim>\<open>trans_buf\<close>.\<close>

definition rx_inv :: "nat \<Rightarrow> rx_st \<Rightarrow> bool" where
  "rx_inv i st \<longleftrightarrow> bridge_wf (rx_br st) \<and> (\<forall>t. rx_tb st = Some t \<longrightarrow> t < TRANS_BUF_SIZE + i)"

definition same_cfg :: "spi_avmm_bridge \<Rightarrow> spi_avmm_bridge \<Rightarrow> bool" where
  "same_cfg br br' \<longleftrightarrow> word_len br' = word_len br \<and> swap_words br' = swap_words br \<and> phy_len br' = phy_len br"

lemma same_cfg_refl [simp]: "same_cfg br br"
  by (simp add: same_cfg_def)

lemma same_cfg_trans: "same_cfg a b \<Longrightarrow> same_cfg b c \<Longrightarrow> same_cfg a c"
  by (simp add: same_cfg_def)

lemma mem_br_store: "t < length (mem br) \<Longrightarrow> mem (br_store br t b) = (mem br)[t := b]"
  by (simp add: mem_def br_store_def list_update_append)

lemma br_store_cfg: "same_cfg br (br_store br t b)"
  by (simp add: br_store_def same_cfg_def)

lemma br_store_wf: "bridge_wf br \<Longrightarrow> bridge_wf (br_store br t b)"
  by (auto simp: br_store_def bridge_wf_def)

lemma br_store_ahead:
  assumes "bridge_wf br" and "t < TRANS_BUF_SIZE + i" and "i < j"
  shows "phy_buf (br_store br t b) ! j = phy_buf br ! j"
  using assms by (auto simp: br_store_def bridge_wf_def)

lemma take_Suc_mem_store:
  assumes "bridge_wf br" and "t < TRANS_BUF_SIZE + i" and "i < PHY_BUF_SIZE"
  shows "take (Suc t) (mem (br_store br t b)) = take t (mem br) @ [b]"
proof -
  have "t < length (mem br)"
    using assms by (auto simp: mem_def bridge_wf_def)
  then show ?thesis by (simp add: mem_br_store take_Suc_list_update)
qed

lemmas rx_mem_facts = br_store_cfg br_store_wf br_store_ahead take_Suc_mem_store

text \<open>The three outcomes of a byte, against the abstract decoder.\<close>

lemma rx_byte_cont:
  assumes "rx_inv i st" and "i < PHY_BUF_SIZE" and "rx_byte i st = RxCont st'"
  shows "dec_byte (abs_rx st) (phy_buf (rx_br st) ! i) = DCont (abs_rx st')"
    and "rx_inv (Suc i) st'" and "same_cfg (rx_br st) (rx_br st')"
    and "j > i \<Longrightarrow> phy_buf (rx_br st') ! j = phy_buf (rx_br st) ! j"
  using assms
  by (auto simp: rx_byte_def dec_byte_def abs_rx_def rx_inv_def Let_def rx_mem_facts
      split: if_splits option.splits)

lemma rx_byte_ret_None:
  assumes "rx_inv i st" and "i < PHY_BUF_SIZE" and "rx_byte i st = RxRet None st'"
  shows "dec_byte (abs_rx st) (phy_buf (rx_br st) ! i) =
      DDone (take (trans_len (rx_br st')) (mem (rx_br st')))"
    and "trans_len (rx_br st') \<le> TRANS_BUF_SIZE + i"
    and "bridge_wf (rx_br st')" and "same_cfg (rx_br st) (rx_br st')"
proof -
  have mem_tl: "mem (br\<lparr>trans_len := n\<rparr>) = mem br" "bridge_wf (br\<lparr>trans_len := n\<rparr>) = bridge_wf br"
    "same_cfg br' (br\<lparr>trans_len := n\<rparr>) = same_cfg br' br" for br br' n
    by (simp_all add: mem_def bridge_wf_def same_cfg_def)
  show "dec_byte (abs_rx st) (phy_buf (rx_br st) ! i) =
      DDone (take (trans_len (rx_br st')) (mem (rx_br st')))"
    "trans_len (rx_br st') \<le> TRANS_BUF_SIZE + i"
    "bridge_wf (rx_br st')" "same_cfg (rx_br st) (rx_br st')"
    using assms
    by (auto simp: rx_byte_def dec_byte_def abs_rx_def rx_inv_def Let_def rx_mem_facts mem_tl
        split: if_splits option.splits)
qed

lemma rx_byte_ret_Some:
  assumes "rx_byte i st = RxRet (Some e) st'"
  shows "dec_byte (abs_rx st) (phy_buf (rx_br st) ! i) = DFault" and "e = EFAULT"
  using assms
  by (auto simp: rx_byte_def dec_byte_def abs_rx_def Let_def split: if_splits option.splits)

section \<open>One word\<close>

lemma rx_word_cont:
  assumes "rx_inv i st" and "i + n \<le> PHY_BUF_SIZE" and "rx_word i n st = RxCont st'"
  shows "dec_bytes (abs_rx st) (take n (drop i (phy_buf (rx_br st)))) = DCont (abs_rx st')
    \<and> rx_inv (i + n) st' \<and> same_cfg (rx_br st) (rx_br st')"
  using assms
proof (induction n arbitrary: i st)
  case (Suc n)
  have i: "i < PHY_BUF_SIZE" and len: "length (phy_buf (rx_br st)) = PHY_BUF_SIZE"
    using Suc.prems by (auto simp: rx_inv_def bridge_wf_def)
  obtain s where s: "rx_byte i st = RxCont s" and rest: "rx_word (Suc i) n s = RxCont st'"
    using Suc.prems(3) by (auto split: rx_out.splits)
  note b = rx_byte_cont [OF Suc.prems(1) i s]
  have "take n (drop (Suc i) (phy_buf (rx_br s))) = take n (drop (Suc i) (phy_buf (rx_br st)))"
    using b(2,4) len Suc.prems(2)
    by (intro nth_equalityI) (auto simp: rx_inv_def bridge_wf_def)
  then show ?case
    using Suc.IH [OF b(2) _ rest] b(1,3) Suc.prems(2) i len
    by (auto simp: Cons_nth_drop_Suc [symmetric] intro: same_cfg_trans)
qed simp

lemma rx_word_ret:
  assumes "rx_inv i st" and "i + n \<le> PHY_BUF_SIZE" and "rx_word i n st = RxRet r st'"
  shows "(case r of
      None \<Rightarrow> dec_bytes (abs_rx st) (take n (drop i (phy_buf (rx_br st)))) =
                DDone (take (trans_len (rx_br st')) (mem (rx_br st')))
              \<and> trans_len (rx_br st') < TRANS_BUF_SIZE + i + n
              \<and> bridge_wf (rx_br st') \<and> same_cfg (rx_br st) (rx_br st')
    | Some e \<Rightarrow> dec_bytes (abs_rx st) (take n (drop i (phy_buf (rx_br st)))) = DFault \<and> e = EFAULT)"
  using assms
proof (induction n arbitrary: i st)
  case (Suc n)
  have i: "i < PHY_BUF_SIZE" and len: "length (phy_buf (rx_br st)) = PHY_BUF_SIZE"
    using Suc.prems by (auto simp: rx_inv_def bridge_wf_def)
  have hd: "take (Suc n) (drop i (phy_buf (rx_br st))) =
      phy_buf (rx_br st) ! i # take n (drop (Suc i) (phy_buf (rx_br st)))"
    using i len by (simp add: Cons_nth_drop_Suc [symmetric])
  show ?case
  proof (cases "rx_byte i st")
    case (RxCont s)
    then have rest: "rx_word (Suc i) n s = RxRet r st'"
      using Suc.prems(3) by simp
    note b = rx_byte_cont [OF Suc.prems(1) i RxCont]
    have "take n (drop (Suc i) (phy_buf (rx_br s))) = take n (drop (Suc i) (phy_buf (rx_br st)))"
      using b(2,4) len Suc.prems(2)
      by (intro nth_equalityI) (auto simp: rx_inv_def bridge_wf_def)
    then show ?thesis
      using Suc.IH [OF b(2) _ rest] b(1,3) Suc.prems(2)
      by (auto simp: hd split: option.splits intro: same_cfg_trans)
  next
    case (RxRet r' s)
    then have "rx_byte i st = RxRet r st'" using Suc.prems(3) by simp
    then show ?thesis
      using rx_byte_ret_None [OF Suc.prems(1) i] rx_byte_ret_Some
      by (cases r) (auto simp: hd)
  qed
qed simp

section \<open>The polling loop\<close>

text \<open>A word as the parser sees it, and the bytes a run of \<^verbatim>\<open>spi_read\<close> calls delivers.\<close>

definition unswap :: "bool \<Rightarrow> byte list \<Rightarrow> byte list" where
  "unswap sw w = (if sw then br_swap_words_32 w (length w) else w)"

definition read_words :: "rx_event list \<Rightarrow> byte list list" where
  "read_words evs = map (\<lambda>ev. case spi_read_res ev of Inr w \<Rightarrow> w | Inl e \<Rightarrow> []) evs"

definition rx_stream :: "bool \<Rightarrow> rx_event list \<Rightarrow> byte list" where
  "rx_stream sw evs = concat (map (unswap sw) (read_words evs))"

definition words_ok :: "nat \<Rightarrow> rx_event list \<Rightarrow> bool" where
  "words_ok n evs \<longleftrightarrow> list_all (\<lambda>ev. case spi_read_res ev of Inr w \<Rightarrow> length w = n | Inl e \<Rightarrow> False) evs"

text \<open>The whole exchange takes less than one time-out.\<close>

definition in_time :: "u64 \<Rightarrow> u64 \<Rightarrow> rx_event list \<Rightarrow> bool" where
  "in_time tmo now evs \<longleftrightarrow>
     list_all (\<lambda>ev. \<not> time_after (jiffies ev) (now + tmo) \<and>
                    list_all (\<lambda>ev'. \<not> time_after (jiffies ev) (jiffies ev' + tmo)) evs) evs"

lemma rx_load_word_facts:
  assumes "bridge_wf br" and "length w = word_len br"
  shows "bridge_wf (rx_load_word w br)" and "same_cfg br (rx_load_word w br)"
    and "take (word_len br) (phy_buf (rx_load_word w br)) = unswap (swap_words br) w"
    and "trans_buf (rx_load_word w br) = trans_buf br"
proof -
  have w: "word_len br = 1 \<and> \<not> swap_words br \<or> word_len br = 4 \<and> swap_words br"
    and len: "length (phy_buf br) = 28"
    using assms(1) by (auto simp: bridge_wf_def)
  show "bridge_wf (rx_load_word w br)"
    using assms len
    by (auto simp: rx_load_word_def bridge_wf_def br_swap_words_32_def length_write_at Let_def)
  show "same_cfg br (rx_load_word w br)" "trans_buf (rx_load_word w br) = trans_buf br"
    by (simp_all add: rx_load_word_def same_cfg_def Let_def)
  have l: "length (write_at (phy_buf br) 0 w) = 28"
    using w assms(2) len by (auto simp: length_write_at)
  show "take (word_len br) (phy_buf (rx_load_word w br)) = unswap (swap_words br) w"
    using w assms(2) len l take_swap_words_32 [of 1 "write_at (phy_buf br) 0 w"]
      take_write_at_0 [of w "phy_buf br"]
    by (auto simp: rx_load_word_def unswap_def br_swap_words_32_def Let_def)
qed

text \<open>Once a packet has begun and no second start mark follows, the decoder only appends.\<close>

lemma dec_byte_append:
  assumes "dec_byte st b = DCont st'" and "d_acc st = Some a" and "b \<noteq> PKT_SOP"
  shows "\<exists>c. d_acc st' = Some (a @ c)"
  using assms by (auto simp: dec_byte_def Let_def split: if_splits)

lemma dec_byte_done:
  "dec_byte st b = DDone d \<Longrightarrow> d_acc st = Some a \<Longrightarrow> length a < length d"
  by (auto simp: dec_byte_def Let_def split: if_splits)

lemma dec_bytes_longer:
  assumes "dec_bytes st bs = DDone d" and "d_acc st = Some a" and "PKT_SOP \<notin> set bs"
  shows "length a < length d"
  using assms
proof (induction bs arbitrary: st a)
  case (Cons b bs)
  show ?case
  proof (cases "dec_byte st b")
    case (DCont st')
    then obtain c where "d_acc st' = Some (a @ c)"
      using dec_byte_append Cons.prems by fastforce
    then have "length (a @ c) < length d"
      using Cons.prems DCont by (intro Cons.IH) auto
    then show ?thesis by simp
  qed (use Cons.prems in \<open>auto dest: dec_byte_done\<close>)
qed simp

text \<open>Without a start mark nothing is accepted.\<close>

lemma dec_bytes_no_sop:
  "d_acc st = None \<Longrightarrow> PKT_SOP \<notin> set bs \<Longrightarrow> dec_bytes st bs = DCont st"
  by (induction bs) (auto simp: dec_byte_def)

text \<open>One pass of the loop whose word leaves the parser unfinished.\<close>

lemma rx_loop_step:
  assumes inv: "rx_inv 0 st" and w: "spi_read_res ev = Inr w" "length w = word_len (rx_br st)"
    and cont: "rx_word 0 (word_len (rx_br st)) (st\<lparr>rx_br := rx_load_word w (rx_br st), valid_word := False\<rparr>) = RxCont st'"
  shows "rx_loop tmo (ev # evs) pt last_try st =
      (if valid_word st' then rx_loop tmo evs (jiffies ev + tmo) False st'
       else if last_try then Some (Some ETIMEDOUT, rx_br st')
       else rx_loop tmo evs pt (time_after (jiffies ev) pt) st')"
proof -
  have "\<not> (case rx_tb st of Some t \<Rightarrow> t \<ge> length (trans_buf (rx_br st)) | None \<Rightarrow> False)"
    using inv by (auto simp: rx_inv_def bridge_wf_def split: option.splits)
  then show ?thesis
    by (subst rx_loop.simps) (simp add: w cont)
qed

lemma rx_loop_return:
  assumes inv: "rx_inv 0 st" and w: "spi_read_res ev = Inr w" "length w = word_len (rx_br st)"
    and ret: "rx_word 0 (word_len (rx_br st)) (st\<lparr>rx_br := rx_load_word w (rx_br st), valid_word := False\<rparr>) = RxRet r st'"
  shows "rx_loop tmo (ev # evs) pt last_try st = Some (r, rx_br st')"
proof -
  have "\<not> (case rx_tb st of Some t \<Rightarrow> t \<ge> length (trans_buf (rx_br st)) | None \<Rightarrow> False)"
    using inv by (auto simp: rx_inv_def bridge_wf_def split: option.splits)
  then show ?thesis
    by (subst rx_loop.simps) (simp add: w ret)
qed

text \<open>Loading a word does not disturb what has been parsed.\<close>

lemma rx_load_state:
  assumes inv: "rx_inv 0 st" and "length w = word_len (rx_br st)"
  defines "st1 \<equiv> st\<lparr>rx_br := rx_load_word w (rx_br st), valid_word := False\<rparr>"
  shows "rx_inv 0 st1" and "abs_rx st1 = abs_rx st" and "same_cfg (rx_br st) (rx_br st1)"
    and "take (word_len (rx_br st)) (phy_buf (rx_br st1)) = unswap (swap_words (rx_br st)) w"
    and "word_len (rx_br st) \<le> PHY_BUF_SIZE"
proof -
  have wf: "bridge_wf (rx_br st)" using inv by (simp add: rx_inv_def)
  note f = rx_load_word_facts [OF wf assms(2)]
  show "rx_inv 0 st1" "same_cfg (rx_br st) (rx_br st1)"
    "take (word_len (rx_br st)) (phy_buf (rx_br st1)) = unswap (swap_words (rx_br st)) w"
    using inv f by (simp_all add: rx_inv_def st1_def)
  show "word_len (rx_br st) \<le> PHY_BUF_SIZE" using wf by (auto simp: bridge_wf_def)
  have "take t (mem (rx_load_word w (rx_br st))) = take t (mem (rx_br st))"
    if "rx_tb st = Some t" for t
    using that inv f(4) wf by (auto simp: mem_def rx_inv_def bridge_wf_def)
  then show "abs_rx st1 = abs_rx st"
    by (cases "rx_tb st") (simp_all add: abs_rx_def st1_def)
qed

text \<open>A whole word against the decoder: either the parser goes on, or it returns.\<close>

lemma rx_pass_cont:
  assumes inv: "rx_inv 0 st" and len: "length w = word_len (rx_br st)"
    and cont: "rx_word 0 (word_len (rx_br st)) (st\<lparr>rx_br := rx_load_word w (rx_br st), valid_word := False\<rparr>) = RxCont st'"
  shows "dec_bytes (abs_rx st) (unswap (swap_words (rx_br st)) w) = DCont (abs_rx st')"
    and "rx_inv (word_len (rx_br st)) st'" and "same_cfg (rx_br st) (rx_br st')"
proof -
  note ld = rx_load_state [OF inv len]
  have "0 + word_len (rx_br st) \<le> PHY_BUF_SIZE" using ld(5) by simp
  from rx_word_cont [OF ld(1) this cont]
  show "dec_bytes (abs_rx st) (unswap (swap_words (rx_br st)) w) = DCont (abs_rx st')"
    "rx_inv (word_len (rx_br st)) st'" "same_cfg (rx_br st) (rx_br st')"
    unfolding ld(2) drop_0 ld(4) by (auto intro: same_cfg_trans [OF ld(3)])
qed

lemma rx_pass_ret:
  assumes inv: "rx_inv 0 st" and len: "length w = word_len (rx_br st)"
    and ret: "rx_word 0 (word_len (rx_br st)) (st\<lparr>rx_br := rx_load_word w (rx_br st), valid_word := False\<rparr>) = RxRet r st'"
  shows "case r of
      None \<Rightarrow> dec_bytes (abs_rx st) (unswap (swap_words (rx_br st)) w) =
                DDone (take (trans_len (rx_br st')) (mem (rx_br st')))
              \<and> trans_len (rx_br st') < TRANS_BUF_SIZE + word_len (rx_br st)
              \<and> bridge_wf (rx_br st') \<and> same_cfg (rx_br st) (rx_br st')
    | Some e \<Rightarrow> dec_bytes (abs_rx st) (unswap (swap_words (rx_br st)) w) = DFault \<and> e = EFAULT"
proof -
  note ld = rx_load_state [OF inv len]
  have "0 + word_len (rx_br st) \<le> PHY_BUF_SIZE" using ld(5) by simp
  from rx_word_ret [OF ld(1) this ret] show ?thesis
    unfolding ld(2) drop_0 ld(4) by (auto split: option.splits intro: same_cfg_trans [OF ld(3)])
qed

text \<open>The start mark is consumed when parsing begins, so none is left for later words.\<close>

lemma rx_pass_sop:
  assumes "dec_bytes (abs_rx st) bs = DCont (abs_rx st')" and "rx_tb st' \<noteq> None"
    and "count_list bs PKT_SOP + k \<le> (if rx_tb st = None then 1 else 0)"
  shows "k = 0"
proof (cases "rx_tb st = None")
  case True
  have "PKT_SOP \<in> set bs"
  proof (rule ccontr)
    assume "PKT_SOP \<notin> set bs"
    then have "abs_rx st' = abs_rx st"
      using assms(1) dec_bytes_no_sop [of "abs_rx st" bs] True by (simp add: abs_rx_def)
    with True assms(2) show False by (auto simp: abs_rx_def)
  qed
  then have "count_list bs PKT_SOP \<noteq> 0" by (simp add: count_list_0_iff)
  with assms(3) True show ?thesis by simp
qed (use assms(3) in auto)

lemma rx_inv_below:
  assumes inv: "rx_inv n st" and "n \<le> PHY_BUF_SIZE" and dec: "dec_bytes (abs_rx st) bs = DDone d"
    and "length d \<le> TRANS_BUF_SIZE" and sop: "rx_tb st \<noteq> None \<Longrightarrow> count_list bs PKT_SOP = 0"
  shows "rx_inv 0 st"
proof -
  have "t < TRANS_BUF_SIZE" if t: "rx_tb st = Some t" for t
  proof -
    have "PKT_SOP \<notin> set bs" using sop t by (simp add: count_list_0_iff)
    moreover have "length (take t (mem (rx_br st))) = t"
      using inv t assms(2) by (auto simp: rx_inv_def mem_def bridge_wf_def)
    ultimately show ?thesis
      using dec_bytes_longer [OF dec, of "take t (mem (rx_br st))"] t assms(4)
      by (simp add: abs_rx_def)
  qed
  with inv show ?thesis by (simp add: rx_inv_def)
qed

lemma word_len_bound: "rx_inv i st \<Longrightarrow> word_len (rx_br st) \<le> PHY_BUF_SIZE"
  by (auto simp: rx_inv_def bridge_wf_def)

lemma rx_loop_decodes:
  assumes "rx_inv 0 st" and "words_ok (word_len (rx_br st)) evs"
    and "dec_bytes (abs_rx st) (rx_stream (swap_words (rx_br st)) evs) = DDone d"
    and "length d \<le> TRANS_BUF_SIZE"
    and "count_list (rx_stream (swap_words (rx_br st)) evs) PKT_SOP \<le> (if rx_tb st = None then 1 else 0)"
    and "\<forall>ev\<in>set evs. \<not> time_after (jiffies ev) pt \<and> (\<forall>ev'\<in>set evs. \<not> time_after (jiffies ev) (jiffies ev' + tmo))"
  shows "\<exists>br'. rx_loop tmo evs pt False st = Some (None, br') \<and> trans_data br' = d \<and>
     trans_len br' = length d \<and> bridge_wf br' \<and> same_cfg (rx_br st) br'"
  using assms
proof (induction evs arbitrary: st pt)
  case Nil
  then show ?case by (simp add: rx_stream_def read_words_def)
next
  case (Cons ev evs)
  obtain w where w: "spi_read_res ev = Inr w" "length w = word_len (rx_br st)"
    and ok: "words_ok (word_len (rx_br st)) evs"
    using Cons.prems(2) by (auto simp: words_ok_def split: sum.splits)
  let ?sw = "swap_words (rx_br st)"
  have stream: "rx_stream ?sw (ev # evs) = unswap ?sw w @ rx_stream ?sw evs"
    by (simp add: rx_stream_def read_words_def w)
  show ?case
  proof (cases "rx_word 0 (word_len (rx_br st)) (st\<lparr>rx_br := rx_load_word w (rx_br st), valid_word := False\<rparr>)")
    case (RxRet r st')
    from rx_pass_ret [OF Cons.prems(1) w(2) RxRet] Cons.prems(3)
    have r: "r = None" and d: "d = take (trans_len (rx_br st')) (mem (rx_br st'))"
      and wf: "bridge_wf (rx_br st')" and cfg: "same_cfg (rx_br st) (rx_br st')"
      and tl: "trans_len (rx_br st') < TRANS_BUF_SIZE + word_len (rx_br st)"
      unfolding stream dec_bytes_append by (auto split: option.splits)
    have "length (mem (rx_br st')) = TRANS_BUF_SIZE + PHY_BUF_SIZE"
      using wf by (simp add: mem_def bridge_wf_def)
    then have "length d = trans_len (rx_br st')"
      using tl word_len_bound [OF Cons.prems(1)] by (simp add: d)
    moreover from this have "trans_data (rx_br st') = d"
      using Cons.prems(4) wf by (simp add: d trans_data_def mem_def bridge_wf_def)
    ultimately show ?thesis
      using rx_loop_return [OF Cons.prems(1) w RxRet, of tmo evs pt False] r wf cfg by simp
  next
    case (RxCont st')
    note pass = rx_pass_cont [OF Cons.prems(1) w(2) RxCont]
    have tb': "rx_tb st' \<noteq> None \<Longrightarrow> count_list (rx_stream ?sw evs) PKT_SOP = 0"
      using rx_pass_sop [OF pass(1)] Cons.prems(5) by (simp add: stream)
    have d': "dec_bytes (abs_rx st') (rx_stream ?sw evs) = DDone d"
      using Cons.prems(3) by (simp add: stream dec_bytes_append pass(1))
    have inv0: "rx_inv 0 st'"
      using rx_inv_below [OF pass(2) word_len_bound [OF Cons.prems(1)] d' Cons.prems(4) tb'] .
    have cnt: "count_list (rx_stream ?sw evs) PKT_SOP \<le> (if rx_tb st' = None then 1 else 0)"
      using tb' Cons.prems(5) by (auto simp: stream split: if_splits)
    have "\<exists>br'. rx_loop tmo evs pt' False st' = Some (None, br') \<and> trans_data br' = d \<and>
        trans_len br' = length d \<and> bridge_wf br' \<and> same_cfg (rx_br st') br'"
      if "pt' = pt \<or> pt' = jiffies ev + tmo" for pt'
    proof (rule Cons.IH [OF inv0 _ _ Cons.prems(4)])
      show "words_ok (word_len (rx_br st')) evs" using ok pass(3) by (simp add: same_cfg_def)
      show "dec_bytes (abs_rx st') (rx_stream (swap_words (rx_br st')) evs) = DDone d"
        using d' pass(3) by (simp add: same_cfg_def)
      show "count_list (rx_stream (swap_words (rx_br st')) evs) PKT_SOP \<le> (if rx_tb st' = None then 1 else 0)"
        using cnt pass(3) by (simp add: same_cfg_def)
      show "\<forall>ev\<in>set evs. \<not> time_after (jiffies ev) pt' \<and> (\<forall>ev'\<in>set evs. \<not> time_after (jiffies ev) (jiffies ev' + tmo))"
        using Cons.prems(6) that by auto
    qed
    then show ?thesis
      using rx_loop_step [OF Cons.prems(1) w RxCont, of tmo evs pt False] Cons.prems(6) pass(3)
      by (auto intro: same_cfg_trans)
  qed
qed

end
