(* ===== verification/Spi_Avmm_Access.thy ===== *)
theory Spi_Avmm_Access
  imports Spi_Avmm_Rx
begin

unbundle bit_operations_syntax

text \<open>
  Register accesses over the bridge, end to end: what goes on the wire, what a well-behaved
  slave's answer gives, and what the driver does when the slave is silent or misbehaves.
\<close>

section \<open>Start marks and the encoder\<close>

lemma esc_byte_no_sop: "PKT_SOP \<notin> set (esc_byte b)"
proof -
  have "b XOR 0x20 \<noteq> PKT_SOP" if "pkt_special b \<or> phy_special b"
    using that by (auto simp: pkt_special_def phy_special_def)
  then show ?thesis
    by (auto simp: esc_byte_def pkt_special_def)
qed

lemma count_sop_pkt_encode: "count_list (pkt_encode d) PKT_SOP = 1"
proof -
  have "PKT_SOP \<notin> set (pkt_body d)"
    by (auto simp: pkt_body_def esc_bytes_def esc_byte_no_sop)
  then show ?thesis by (simp add: pkt_encode_def)
qed

lemma count_list_filter_neq: "x \<noteq> y \<Longrightarrow> count_list (filter (\<lambda>b. b \<noteq> y) bs) x = count_list bs x"
  by (induction bs) auto

section \<open>Requests\<close>

lemma length_trans_req_header [simp]: "length (trans_req_header is_read reg count) = 8"
  by (simp add: trans_req_header_def)

lemma length_concat_le32 [simp]: "length (concat (map cpu_to_le32 vs)) = 4 * length vs"
  by (induction vs) auto

text \<open>The transaction-layer message for an access.\<close>

definition request :: "bool \<Rightarrow> u32 \<Rightarrow> u32 list \<Rightarrow> nat \<Rightarrow> byte list" where
  "request is_read reg vals count =
     trans_req_header is_read reg count @ (if is_read then [] else concat (map cpu_to_le32 (take count vals)))"

lemma br_trans_tx_prepare_ok:
  assumes "bridge_wf br" and "\<not> is_read \<Longrightarrow> count \<le> length vals \<and> count \<le> 254"
  shows "\<exists>br1. br_trans_tx_prepare is_read reg vals count br = (None, br1) \<and> bridge_wf br1 \<and>
     trans_data br1 = request is_read reg vals count \<and> same_cfg br br1 \<and>
     trans_len br1 = length (request is_read reg vals count)"
proof (cases is_read)
  case True
  then show ?thesis
    using assms take_write_at_0 [of "trans_req_header True reg count" "trans_buf br"]
    by (auto simp: br_trans_tx_prepare_def request_def trans_data_def bridge_wf_def same_cfg_def
        length_write_at)
next
  case False
  let ?h = "trans_req_header False reg count" and ?v = "concat (map cpu_to_le32 (take count vals))"
  have c: "count \<le> length vals" "count \<le> 254" using assms(2) False by auto
  have len: "length (trans_buf br) = 1024" using assms(1) by (simp add: bridge_wf_def)
  have lv: "length ?v = 4 * count" using c by (simp add: min_def)
  have w: "write_at (write_at (trans_buf br) 0 ?h) 8 ?v = write_at (trans_buf br) 0 (?h @ ?v)"
    using write_at_write_at [of 0 ?h ?v "trans_buf br"] c len lv by simp
  have t: "take (8 + 4 * count) (write_at (trans_buf br) 0 (?h @ ?v)) = ?h @ ?v"
    using take_write_at_0 [of "?h @ ?v" "trans_buf br"] c len lv by simp
  have l: "length (write_at (trans_buf br) 0 (?h @ ?v)) = 1024"
    using c len lv by (simp add: length_write_at)
  show ?thesis
    using False assms(1) c len w t l lv
    by (auto simp: br_trans_tx_prepare_def request_def trans_data_def bridge_wf_def same_cfg_def Let_def)
qed

lemma length_pkt_encode_bound: "d \<noteq> [] \<Longrightarrow> length (pkt_encode d) \<le> 2 * length d + 4"
  using length_pkt_body [of d] by (simp add: pkt_encode_def)

lemma request_nonempty [simp]: "request is_read reg vals count \<noteq> []"
  by (simp add: request_def trans_req_header_def)

lemma request_fits:
  assumes "\<not> is_read \<Longrightarrow> count \<le> 1"
  shows "length (pkt_encode (request is_read reg vals count)) \<le> PHY_BUF_SIZE"
proof -
  have "length (request is_read reg vals count) \<le> 12"
    using assms by (auto simp: request_def min_def)
  then show ?thesis
    using length_pkt_encode_bound [of "request is_read reg vals count"] by simp
qed

text \<open>The transmit half of \<^verbatim>\<open>do_reg_access\<close> succeeds for every access the bus allows.\<close>

lemma tx_half_ok:
  assumes "bridge_wf br" and "\<not> is_read \<Longrightarrow> count \<le> length vals \<and> count \<le> MAX_WRITE_CNT"
  shows "\<exists>br1 br2. br_trans_tx_prepare is_read reg vals count br = (None, br1) \<and>
     br_pkt_phy_tx_prepare br1 = (None, br2) \<and> bridge_wf br2 \<and>
     word_len br2 = word_len br \<and> swap_words br2 = swap_words br \<and>
     phy_data br2 = pkt_padded (word_len br) (request is_read reg vals count) \<and>
     phy_len br2 = length (pkt_padded (word_len br) (request is_read reg vals count))"
proof -
  have c: "\<not> is_read \<Longrightarrow> count \<le> length vals \<and> count \<le> 254" using assms(2) by auto
  obtain br1 where br1: "br_trans_tx_prepare is_read reg vals count br = (None, br1)" "bridge_wf br1"
    "trans_data br1 = request is_read reg vals count" "same_cfg br br1"
    "trans_len br1 = length (request is_read reg vals count)"
    using br_trans_tx_prepare_ok [OF assms(1) c, where reg = reg] by blast
  have fits: "length (pkt_encode (trans_data br1)) \<le> PHY_BUF_SIZE"
    unfolding br1(3) using assms(2) by (intro request_fits) auto
  have tl: "0 < trans_len br1" "trans_len br1 \<le> TRANS_BUF_SIZE"
    using br1(5) assms(2) by (auto simp: request_def min_def)
  show ?thesis
    using br_pkt_phy_tx_prepare_ok [OF br1(2) tl fits] br1
    by (auto simp: bridge_wf_def phy_data_def same_cfg_def)
qed

lemma br_do_tx_wf:
  assumes "bridge_wf br"
  shows "fst (br_do_tx sw br) = (sw (snd (br_do_tx sw br)), snd (fst (br_do_tx sw br)))"
    and "bridge_wf (snd (fst (br_do_tx sw br)))" and "same_cfg br (snd (fst (br_do_tx sw br)))"
  using assms by (auto simp: br_do_tx_def Let_def bridge_wf_def same_cfg_def br_swap_words_32_def)

section \<open>Responses\<close>

lemma le32_values_concat: "le32_values (length vs) (concat (map cpu_to_le32 vs) @ rest) = vs"
proof (induction vs)
  case (Cons v vs)
  then show ?case
    using le32_to_cpu_to_le32 [of v "concat (map cpu_to_le32 vs) @ rest"] by simp
qed simp

text \<open>A slave that answers in time with the encoding of \<open>d\<close>, padded as it likes.\<close>

definition answers :: "spi_env \<Rightarrow> spi_avmm_bridge \<Rightarrow> byte list \<Rightarrow> byte list \<Rightarrow> bool" where
  "answers env br d rest \<longleftrightarrow>
     words_ok (word_len br) (env_events env) \<and>
     in_time (env_timeout env) (env_now env) (env_events env) \<and>
     filter (\<lambda>b. b \<noteq> PHY_IDLE) (rx_stream (swap_words br) (env_events env)) = pkt_encode d @ rest \<and>
     PKT_SOP \<notin> set rest"

lemma rx_answers:
  assumes "bridge_wf br" and "answers env br d rest" and "d \<noteq> []" and "length d \<le> TRANS_BUF_SIZE"
  shows "\<exists>br'. br_do_rx_and_pkt_phy_parse (env_timeout env) (env_now env) (env_events env) br = Some (None, br') \<and>
     trans_data br' = d \<and> trans_len br' = length d \<and> bridge_wf br' \<and> same_cfg br br'"
proof -
  let ?s = "rx_stream (swap_words br) (env_events env)"
  have f: "filter (\<lambda>b. b \<noteq> PHY_IDLE) ?s = pkt_encode d @ rest" and rest: "PKT_SOP \<notin> set rest"
    using assms(2) by (auto simp: answers_def)
  have "dec_bytes dec_init ?s = dec_bytes dec_init (pkt_encode d @ rest)"
    using dec_bytes_filter_idle [of dec_init ?s] by (simp add: f)
  then have dec: "dec_bytes dec_init ?s = DDone d"
    using assms(3) by (simp add: dec_pkt_encode dec_init_def)
  have "count_list ?s PKT_SOP = count_list (pkt_encode d @ rest) PKT_SOP"
    unfolding f [symmetric] by (rule count_list_filter_neq [symmetric]) simp
  then have cnt: "count_list ?s PKT_SOP = 1"
    using rest by (simp add: count_sop_pkt_encode)
  have init: "abs_rx (rx_init br) = dec_init" "rx_inv 0 (rx_init br)" "rx_br (rx_init br) = br"
    "rx_tb (rx_init br) = None"
    using assms(1) by (simp_all add: abs_rx_def rx_init_def dec_init_def rx_inv_def)
  show ?thesis
    unfolding br_do_rx_and_pkt_phy_parse_def
    using rx_loop_decodes [of "rx_init br" "env_events env" d "env_now env + env_timeout env" "env_timeout env"]
      assms(2,4) dec cnt init
    by (auto simp: answers_def in_time_def list_all_iff)
qed

text \<open>The receive half of an access, whatever the request was.\<close>

lemma do_reg_access_rx:
  assumes "bridge_wf br" and "\<not> is_read \<Longrightarrow> count \<le> length vals \<and> count \<le> MAX_WRITE_CNT"
    and "\<And>w. env_spi_write env w = None" and "answers env br d rest"
    and "d \<noteq> []" and "length d \<le> TRANS_BUF_SIZE"
  shows "\<exists>br'. do_reg_access env is_read reg vals count br =
      Some (if is_read then br_rd_trans_rx_parse br' count
            else (case br_wr_trans_rx_parse br' count of Some e \<Rightarrow> Inl e | None \<Rightarrow> Inr []), br')
    \<and> trans_data br' = d \<and> trans_len br' = length d \<and> bridge_wf br'"
proof -
  have wf0: "bridge_wf (br\<lparr>trans_len := 0, phy_len := 0\<rparr>)"
    using assms(1) by (simp add: bridge_wf_def)
  have "\<exists>br1 br2. br_trans_tx_prepare is_read reg vals count (br\<lparr>trans_len := 0, phy_len := 0\<rparr>) = (None, br1) \<and>
     br_pkt_phy_tx_prepare br1 = (None, br2) \<and> bridge_wf br2 \<and>
     word_len br2 = word_len br \<and> swap_words br2 = swap_words br"
    using tx_half_ok [OF wf0, of is_read count vals reg] assms(2) by auto
  then obtain br1 br2 where tx: "br_trans_tx_prepare is_read reg vals count (br\<lparr>trans_len := 0, phy_len := 0\<rparr>) = (None, br1)"
      "br_pkt_phy_tx_prepare br1 = (None, br2)" "bridge_wf br2"
      "word_len br2 = word_len br" "swap_words br2 = swap_words br"
    by auto
  obtain br3 where br3: "snd (fst (br_do_tx (env_spi_write env) br2)) = br3" by simp
  note dt = br_do_tx_wf [OF tx(3), of "env_spi_write env", unfolded br3]
  have "answers env br3 d rest"
    using assms(4) dt(3) tx(4,5) by (simp add: answers_def same_cfg_def)
  from rx_answers [OF dt(2) this assms(5,6)] obtain br' where
    rx: "br_do_rx_and_pkt_phy_parse (env_timeout env) (env_now env) (env_events env) br3 = Some (None, br')"
      "trans_data br' = d" "trans_len br' = length d" "bridge_wf br'"
    by auto
  have "fst (br_do_tx (env_spi_write env) br2) = (None, br3)"
    using dt(1) assms(3) by simp
  then show ?thesis
    using tx(1,2) rx by (auto simp: do_reg_access_def)
qed

section \<open>The wire\<close>

lemma dec_bytes_prefix_cont: "dec_bytes st (xs @ ys) = DCont s \<Longrightarrow> \<exists>s'. dec_bytes st xs = DCont s'"
  by (auto simp: dec_bytes_append split: dec_out.splits)

lemma dec_esc_bytes:
  assumes "d_acc st = Some a" and "\<not> d_chan st" and "\<not> d_esc st" and "\<not> d_eop st"
  shows "dec_bytes st (esc_bytes ds) = DCont (st\<lparr>d_acc := Some (a @ ds)\<rparr>)"
  using assms
proof (induction ds arbitrary: st a)
  case (Cons b ds)
  then show ?case
    using Cons.IH [of "st\<lparr>d_acc := Some (a @ [b])\<rparr>" "a @ [b]"]
    by (simp add: esc_bytes_def dec_esc_byte)
qed (simp add: esc_bytes_def)

lemma dec_replicate_idle [simp]: "dec_bytes st (replicate n PHY_IDLE) = DCont st"
  by (induction n) auto

text \<open>The decoder is not done before the very last byte of a padded packet.\<close>

lemma dec_pkt_padded_butlast: "\<exists>s. dec_bytes dec_init (butlast (pkt_padded w d)) = DCont s"
proof -
  let ?st = "\<lparr>d_acc = Some (butlast d), d_eop = True, d_chan = False, d_esc = False\<rparr>"
  have ne: "esc_byte b \<noteq> []" for b using length_esc_byte(2) [of b] by auto
  have bl: "\<exists>s. dec_bytes ?st (butlast (esc_byte (last d))) = DCont s"
    by (simp add: esc_byte_def dec_byte_def)
  have "butlast (pkt_padded w d) = [PKT_SOP, PKT_CHANNEL, 0] @ esc_bytes (butlast d)
      @ replicate (align_up (length (pkt_encode d)) w - length (pkt_encode d)) PHY_IDLE
      @ [PKT_EOP] @ butlast (esc_byte (last d))"
    using ne [of "last d"] by (simp add: pkt_padded_def butlast_append)
  then show ?thesis
    using bl by (simp add: dec_bytes_append dec_byte_def dec_init_def dec_esc_bytes)
qed

lemma pkt_padded_prefix_undecided:
  assumes "k < length (pkt_padded w d)"
  shows "pkt_decode (take k (pkt_padded w d)) = None"
proof -
  have "take k (butlast (pkt_padded w d)) = take k (pkt_padded w d)"
    using assms by (simp add: take_butlast)
  then have "take k (pkt_padded w d) @ drop k (butlast (pkt_padded w d)) = butlast (pkt_padded w d)"
    by (metis append_take_drop_id)
  then obtain s where "dec_bytes dec_init (take k (pkt_padded w d)) = DCont s"
    using dec_pkt_padded_butlast [of w d] dec_bytes_prefix_cont by metis
  then show ?thesis by (simp add: pkt_decode_def)
qed

lemma swap_wire:
  assumes "4 dvd n" and "n \<le> length buf"
  shows "br_swap_words_32 (take n (br_swap_words_32 buf n)) n = take n buf"
proof -
  obtain c where "n = 4 * c" using assms(1) by auto
  then show ?thesis
    using assms(2) take_swap_words_32 [of c buf] by (simp add: br_swap_words_32_def)
qed

text \<open>A fresh bridge, and an environment whose slave sends the given words.\<close>

definition fresh_bridge :: "nat \<Rightarrow> spi_avmm_bridge" where
  "fresh_bridge n = \<lparr>word_len = n, trans_len = 0, phy_len = 0, trans_buf = replicate TRANS_BUF_SIZE 0,
     phy_buf = replicate PHY_BUF_SIZE 0, swap_words = (n = 4)\<rparr>"

definition slave_env :: "byte list list \<Rightarrow> spi_env" where
  "slave_env ws = \<lparr>env_spi_write = (\<lambda>_. None), env_timeout = 50, env_now = 1000,
     env_events = map (\<lambda>w. \<lparr>spi_read_res = Inr w, jiffies = 1001\<rparr>) ws\<rparr>"

lemma ctx_gen_bridge_wf: "spi_avmm_bridge_ctx_gen has_spi setup alloc = Inr br \<Longrightarrow> bridge_wf br"
  by (auto simp: spi_avmm_bridge_ctx_gen_def bridge_wf_def Let_def split: if_splits)

lemma fresh_bridge_wf: "n = 1 \<or> n = 4 \<Longrightarrow> bridge_wf (fresh_bridge n)"
  by (auto simp: fresh_bridge_def bridge_wf_def)

lemmas codec_eval = pkt_encode_def pkt_body_def esc_bytes_def esc_byte_def pkt_special_def phy_special_def

section \<open>Properties\<close>

text \<open>
  C6. A register read returns the device's values. For every well-formed bridge (8- or 32-bit
  SPI words), every register and every count up to \<^verbatim>\<open>MAX_READ_CNT\<close>: if the slave answers, in
  time and with any idle bytes interleaved, with the encoding of the little-endian values,
  then the access returns exactly those values.
\<close>

theorem reg_read_returns_values:
  assumes "bridge_wf br" and "vals \<noteq> []" and "length vals \<le> MAX_READ_CNT"
    and "\<And>w. env_spi_write env w = None"
    and "answers env br (concat (map cpu_to_le32 vals)) rest"
  shows "\<exists>br'. do_reg_access env True reg [] (length vals) br = Some (Inr vals, br') \<and> bridge_wf br'"
proof -
  let ?d = "concat (map cpu_to_le32 vals)"
  have d: "?d \<noteq> []" using assms(2) length_concat_le32 [of vals] by (metis length_0_conv mult_eq_0_iff zero_neq_numeral)
  have "length ?d \<le> TRANS_BUF_SIZE" using assms(3) by simp
  from do_reg_access_rx [OF assms(1) _ assms(4,5) d this, of True "length vals" "[]" reg]
  obtain br' where acc: "do_reg_access env True reg [] (length vals) br =
      Some (br_rd_trans_rx_parse br' (length vals), br')"
    and tr: "trans_data br' = ?d" "trans_len br' = length ?d" "bridge_wf br'" by auto
  have "trans_buf br' = ?d @ drop (length ?d) (trans_buf br')"
    using tr(1,2) by (metis append_take_drop_id trans_data_def)
  then have "le32_values (length vals) (trans_buf br') = vals"
    using le32_values_concat by metis
  then show ?thesis
    using acc tr by (auto simp: br_rd_trans_rx_parse_def)
qed

lemma answers_read_example:
  "answers (slave_env [[0x4a], [0x7a], [0x7c], [0], [0x78], [0x4a], [0x56], [0x34], [0x7b], [0x12]])
     (fresh_bridge 1) (concat (map cpu_to_le32 [0x12345678])) []"
  by (simp add: answers_def slave_env_def fresh_bridge_def words_ok_def in_time_def time_after_def
      rx_stream_def read_words_def unswap_def cpu_to_le32_def codec_eval)

theorem reg_read_returns_values_witness:
  "\<exists>br'. do_reg_access (slave_env [[0x4a], [0x7a], [0x7c], [0], [0x78], [0x4a], [0x56], [0x34], [0x7b], [0x12]])
     True 0x400 [] (length [0x12345678 :: u32]) (fresh_bridge 1) = Some (Inr [0x12345678], br') \<and> bridge_wf br'"
  by (rule reg_read_returns_values [OF _ _ _ _ answers_read_example])
    (simp_all add: fresh_bridge_wf slave_env_def)

text \<open>
  A register write succeeds when the slave acknowledges it: the response header carries
  the write code with its top bit inverted and the number of bytes written.
\<close>

theorem reg_write_acknowledged:
  assumes "bridge_wf br" and "\<And>w. env_spi_write env w = None"
    and "answers env br ([TRANS_CODE_WRITE XOR 0x80, r] @ cpu_to_be16 4) rest"
  shows "\<exists>br'. do_reg_access env False reg [v] 1 br = Some (Inr [], br') \<and> bridge_wf br'"
proof -
  let ?d = "[TRANS_CODE_WRITE XOR 0x80, r] @ cpu_to_be16 4"
  from do_reg_access_rx [OF assms(1) _ assms(2,3), of False 1 "[v]" reg]
  obtain br' where acc: "do_reg_access env False reg [v] 1 br =
      Some (case br_wr_trans_rx_parse br' 1 of Some e \<Rightarrow> Inl e | None \<Rightarrow> Inr [], br')"
    and tr: "trans_data br' = ?d" "trans_len br' = length ?d" "bridge_wf br'" by auto
  have tb: "trans_buf br' = ?d @ drop 4 (trans_buf br')"
    using tr(1,2) by (metis append_take_drop_id trans_data_def length_append length_cpu_to_be16
        list.size(3) list.size(4) Suc_eq_plus1 numeral_Bit0 one_add_one add_0)
  have "drop 2 (trans_buf br') = cpu_to_be16 4 @ drop 4 (trans_buf br')" "trans_buf br' ! 0 = 0x80"
    by (subst tb, simp)+
  then have "br_wr_trans_rx_parse br' 1 = None"
    using tr(2) by (simp add: br_wr_trans_rx_parse_def)
  then show ?thesis using acc tr(3) by auto
qed

lemma answers_write_example:
  "answers (slave_env [[0x80, 0, 0x7c, 0x7a], [0x04, 0x7b, 0, 0]])
     (fresh_bridge 4) ([TRANS_CODE_WRITE XOR 0x80, 0] @ cpu_to_be16 4) []"
  by (simp add: answers_def slave_env_def fresh_bridge_def words_ok_def in_time_def time_after_def
      rx_stream_def read_words_def unswap_def br_swap_words_32_def cpu_to_be16_def codec_eval)

theorem reg_write_acknowledged_witness:
  "\<exists>br'. do_reg_access (slave_env [[0x80, 0, 0x7c, 0x7a], [0x04, 0x7b, 0, 0]])
     False 0x400 [0xdeadbeef] 1 (fresh_bridge 4) = Some (Inr [], br') \<and> bridge_wf br'"
  by (rule reg_write_acknowledged [OF _ _ answers_write_example])
    (simp_all add: fresh_bridge_wf slave_env_def)

text \<open>
  C10. What the slave sees of a request. The bytes on the wire fill whole SPI words; swapped
  back into stream order they decode to the transaction-layer request, and no proper prefix
  of them does, so the slave cannot begin to answer while the host is still sending.
\<close>

theorem tx_wire_decodes_to_request:
  assumes "bridge_wf br" and "\<not> is_read \<Longrightarrow> count \<le> length vals \<and> count \<le> MAX_WRITE_CNT"
  shows "\<exists>br1 br2. br_trans_tx_prepare is_read reg vals count br = (None, br1) \<and>
     br_pkt_phy_tx_prepare br1 = (None, br2) \<and>
     (let wire = snd (br_do_tx spi_write br2); stream = unswap (swap_words br) wire
      in word_len br dvd length wire \<and>
         pkt_decode stream = Some (request is_read reg vals count) \<and>
         (\<forall>k<length stream. pkt_decode (take k stream) = None))"
proof -
  let ?p = "pkt_padded (word_len br) (request is_read reg vals count)"
  from tx_half_ok [OF assms, where reg = reg and is_read = is_read]
  obtain br1 br2 where tx: "br_trans_tx_prepare is_read reg vals count br = (None, br1)"
      "br_pkt_phy_tx_prepare br1 = (None, br2)" "bridge_wf br2"
      "word_len br2 = word_len br" "swap_words br2 = swap_words br"
      "phy_data br2 = ?p" "phy_len br2 = length ?p" by blast
  have w: "0 < word_len br" using assms(1) by (auto simp: bridge_wf_def)
  have dv: "word_len br dvd length ?p" using w by (simp add: length_pkt_padded align_up_dvd)
  have len: "length ?p \<le> length (phy_buf br2)"
    using tx(6,7) by (metis length_take min.cobounded1 phy_data_def)
  have wire: "length (snd (br_do_tx spi_write br2)) = length ?p"
    using tx(7) len by (simp add: br_do_tx_def Let_def br_swap_words_32_def)
  have "unswap (swap_words br) (snd (br_do_tx spi_write br2)) = ?p"
  proof (cases "swap_words br")
    case True
    then have "4 dvd length ?p" using dv assms(1) by (auto simp: bridge_wf_def)
    with swap_wire [OF this len] True tx(5,6,7) wire show ?thesis
      by (simp add: unswap_def br_do_tx_def Let_def phy_data_def)
  next
    case False
    with tx(5,6,7) show ?thesis by (simp add: unswap_def br_do_tx_def Let_def phy_data_def)
  qed
  then show ?thesis
    using tx(1,2) dv wire by (auto simp: decode_pkt_padded pkt_padded_prefix_undecided)
qed

theorem tx_wire_decodes_to_request_witness:
  "\<exists>br1 br2. br_trans_tx_prepare False 0x404 [0x7a4d4a7d] 1 (fresh_bridge 4) = (None, br1) \<and>
     br_pkt_phy_tx_prepare br1 = (None, br2) \<and>
     (let wire = snd (br_do_tx (\<lambda>_. None) br2); stream = unswap (swap_words (fresh_bridge 4)) wire
      in word_len (fresh_bridge 4) dvd length wire \<and>
         pkt_decode stream = Some (request False 0x404 [0x7a4d4a7d] 1) \<and>
         (\<forall>k<length stream. pkt_decode (take k stream) = None))"
  by (rule tx_wire_decodes_to_request) (simp_all add: fresh_bridge_wf)

text \<open>
  Preparing a packet fails exactly when its encoding does not fit the physical buffer;
  the padding to the SPI word never makes a packet that fits fail.
\<close>

theorem tx_prepare_enomem_iff:
  assumes "bridge_wf br" and "0 < trans_len br" and "trans_len br \<le> TRANS_BUF_SIZE"
  shows "fst (br_pkt_phy_tx_prepare br) =
    (if length (pkt_encode (trans_data br)) \<le> PHY_BUF_SIZE then None else Some ENOMEM)"
  using br_pkt_phy_tx_prepare_ok [OF assms] br_pkt_phy_tx_prepare_full [OF assms] by auto

theorem tx_prepare_enomem_iff_witness:
  "fst (br_pkt_phy_tx_prepare ((fresh_bridge 4)\<lparr>trans_len := 25\<rparr>)) = Some ENOMEM"
proof -
  have wf: "bridge_wf ((fresh_bridge 4)\<lparr>trans_len := 25\<rparr>)"
    using fresh_bridge_wf [of 4] by (simp add: bridge_wf_def)
  have z: "esc_byte 0 = [0]" by (simp add: codec_eval)
  have "trans_data ((fresh_bridge 4)\<lparr>trans_len := 25\<rparr>) = replicate 25 0"
    by (simp add: trans_data_def fresh_bridge_def)
  then have len: "length (pkt_encode (trans_data ((fresh_bridge 4)\<lparr>trans_len := 25\<rparr>))) = 29"
    by (simp add: pkt_encode_def pkt_body_def esc_bytes_def z numeral_eq_Suc)
  show ?thesis
    using tx_prepare_enomem_iff [OF wf] by (simp add: len)
qed

text \<open>The word the parser saw: nothing but idle bytes or noise before a start mark.\<close>

lemma rx_word_no_sop:
  assumes "rx_tb st = None" and "PKT_SOP \<notin> set (take n (drop i (phy_buf (rx_br st))))"
    and "i + n \<le> length (phy_buf (rx_br st))"
  shows "rx_word i n st = RxCont st"
  using assms
proof (induction n arbitrary: i)
  case (Suc n)
  have hd: "take (Suc n) (drop i (phy_buf (rx_br st))) =
      phy_buf (rx_br st) ! i # take n (drop (Suc i) (phy_buf (rx_br st)))"
    using Suc.prems(3) by (simp add: Cons_nth_drop_Suc [symmetric])
  then have "rx_byte i st = RxCont st"
    using Suc.prems(1,2) by (simp add: rx_byte_def Let_def)
  then show ?case
    using Suc.IH [of "Suc i"] Suc.prems hd by simp
qed simp

lemma rx_loop_silent:
  assumes "rx_inv 0 st" and "rx_tb st = None" and "spi_read_res ev = Inr w"
    and "length w = word_len (rx_br st)" and "PKT_SOP \<notin> set (unswap (swap_words (rx_br st)) w)"
  shows "\<exists>st'. rx_loop tmo (ev # evs) pt last_try st =
      (if last_try then Some (Some ETIMEDOUT, rx_br st')
       else rx_loop tmo evs pt (time_after (jiffies ev) pt) st') \<and>
    rx_inv 0 st' \<and> rx_tb st' = None \<and> same_cfg (rx_br st) (rx_br st')"
proof -
  let ?st1 = "st\<lparr>rx_br := rx_load_word w (rx_br st), valid_word := False\<rparr>"
  note ld = rx_load_state [OF assms(1,4)]
  have "rx_word 0 (word_len (rx_br st)) ?st1 = RxCont ?st1"
    using assms(2,5) ld by (intro rx_word_no_sop) (auto simp: rx_inv_def bridge_wf_def)
  from rx_loop_step [OF assms(1,3,4) this, of tmo evs pt last_try] show ?thesis
    using ld assms(2) by (intro exI [of _ ?st1]) simp
qed

lemma rx_loop_times_out:
  assumes "rx_inv 0 st" and "rx_tb st = None" and "words_ok (word_len (rx_br st)) (es @ [e1, e2])"
    and "PKT_SOP \<notin> set (rx_stream (swap_words (rx_br st)) (es @ [e1, e2]))"
    and "\<forall>ev\<in>set es. \<not> time_after (jiffies ev) pt" and "time_after (jiffies e1) pt"
  shows "\<exists>br'. rx_loop tmo (es @ [e1, e2] @ later) pt False st = Some (Some ETIMEDOUT, br')"
  using assms
proof (induction es arbitrary: st)
  case Nil
  obtain w1 w2 where w: "spi_read_res e1 = Inr w1" "length w1 = word_len (rx_br st)"
      "spi_read_res e2 = Inr w2" "length w2 = word_len (rx_br st)"
    using Nil.prems(3) by (auto simp: words_ok_def split: sum.splits)
  have sop: "PKT_SOP \<notin> set (unswap (swap_words (rx_br st)) w1)" "PKT_SOP \<notin> set (unswap (swap_words (rx_br st)) w2)"
    using Nil.prems(4) by (auto simp: rx_stream_def read_words_def w)
  from rx_loop_silent [OF Nil.prems(1,2) w(1,2) sop(1), of tmo "e2 # later" pt False]
  obtain st1 where s1: "rx_loop tmo (e1 # e2 # later) pt False st = rx_loop tmo (e2 # later) pt True st1"
    "rx_inv 0 st1" "rx_tb st1 = None" "same_cfg (rx_br st) (rx_br st1)"
    using Nil.prems(6) by auto
  have "length w2 = word_len (rx_br st1)" "PKT_SOP \<notin> set (unswap (swap_words (rx_br st1)) w2)"
    using s1(4) w(4) sop(2) by (auto simp: same_cfg_def)
  from rx_loop_silent [OF s1(2,3) w(3) this, of tmo later pt True] s1(1) show ?case by auto
next
  case (Cons ev es)
  obtain w where w: "spi_read_res ev = Inr w" "length w = word_len (rx_br st)"
    using Cons.prems(3) by (auto simp: words_ok_def split: sum.splits)
  have sop: "PKT_SOP \<notin> set (unswap (swap_words (rx_br st)) w)"
    using Cons.prems(4) by (auto simp: rx_stream_def read_words_def w)
  from rx_loop_silent [OF Cons.prems(1,2) w sop, of tmo "es @ [e1, e2] @ later" pt False]
  obtain st1 where s1: "rx_loop tmo ((ev # es) @ [e1, e2] @ later) pt False st =
      rx_loop tmo (es @ [e1, e2] @ later) pt False st1"
    "rx_inv 0 st1" "rx_tb st1 = None" "same_cfg (rx_br st) (rx_br st1)"
    using Cons.prems(5) by auto
  have "\<exists>br'. rx_loop tmo (es @ [e1, e2] @ later) pt False st1 = Some (Some ETIMEDOUT, br')"
    using Cons.prems s1 by (intro Cons.IH)
      (auto simp: same_cfg_def words_ok_def rx_stream_def read_words_def)
  with s1(1) show ?case by simp
qed

text \<open>
  A silent slave is given up on. If no start mark ever comes, the first word read after the
  time-out has passed is followed by one later attempt, and that one ends the access with
  \<^verbatim>\<open>-ETIMEDOUT\<close>, whatever would have come later.
\<close>

theorem rx_silent_slave_times_out:
  assumes "bridge_wf br" and "words_ok (word_len br) (es @ [e1, e2])"
    and "PKT_SOP \<notin> set (rx_stream (swap_words br) (es @ [e1, e2]))"
    and "\<forall>ev\<in>set es. \<not> time_after (jiffies ev) (now + tmo)" and "time_after (jiffies e1) (now + tmo)"
  shows "\<exists>br'. br_do_rx_and_pkt_phy_parse tmo now (es @ [e1, e2] @ later) br = Some (Some ETIMEDOUT, br')"
  unfolding br_do_rx_and_pkt_phy_parse_def
  by (rule rx_loop_times_out) (use assms in \<open>simp_all add: rx_init_def rx_inv_def\<close>)

theorem rx_silent_slave_times_out_witness:
  "\<exists>br'. br_do_rx_and_pkt_phy_parse 50 1000
     ([\<lparr>spi_read_res = Inr [0x4a], jiffies = 1010\<rparr>] @
      [\<lparr>spi_read_res = Inr [0x4a], jiffies = 1051\<rparr>, \<lparr>spi_read_res = Inr [0x4a], jiffies = 1052\<rparr>] @ [])
     (fresh_bridge 1) = Some (Some ETIMEDOUT, br')"
  by (rule rx_silent_slave_times_out)
    (simp_all add: fresh_bridge_wf, simp_all add: fresh_bridge_def words_ok_def rx_stream_def
      read_words_def unswap_def time_after_def)

section \<open>How far a response can run past the buffer\<close>

text \<open>At the head of the loop the parser is below the end of \<^verbatim>\<open>trans_buf\<close> or the loop ends.\<close>

lemma rx_loop_head:
  assumes "rx_inv n st" and "rx_loop tmo evs pt lt st = Some (None, br')"
  shows "rx_inv 0 st" and "evs \<noteq> []"
  using assms by (subst (asm) rx_loop.simps;
      auto simp: rx_inv_def bridge_wf_def not_le split: if_splits option.splits list.splits)+

lemma rx_loop_bound:
  assumes "rx_inv n st" and "words_ok (word_len (rx_br st)) evs"
    and "rx_loop tmo evs pt lt st = Some (None, br')"
  shows "trans_len br' < TRANS_BUF_SIZE + word_len (rx_br st) \<and> bridge_wf br'"
  using assms
proof (induction evs arbitrary: st pt lt n)
  case Nil
  then show ?case using rx_loop_head(2) by blast
next
  case (Cons ev evs)
  have inv: "rx_inv 0 st" by (rule rx_loop_head(1) [OF Cons.prems(1,3)])
  obtain w where w: "spi_read_res ev = Inr w" "length w = word_len (rx_br st)"
    and ok: "words_ok (word_len (rx_br st)) evs"
    using Cons.prems(2) by (auto simp: words_ok_def split: sum.splits)
  show ?case
  proof (cases "rx_word 0 (word_len (rx_br st)) (st\<lparr>rx_br := rx_load_word w (rx_br st), valid_word := False\<rparr>)")
    case (RxCont st')
    note pass = rx_pass_cont [OF inv w(2) RxCont]
    then have cfg: "word_len (rx_br st') = word_len (rx_br st)" by (simp add: same_cfg_def)
    from rx_loop_step [OF inv w RxCont, of tmo evs pt lt] Cons.prems(3)
    obtain pt' lt' where "rx_loop tmo evs pt' lt' st' = Some (None, br')"
      by (auto split: if_splits)
    then show ?thesis using Cons.IH [OF pass(2)] ok cfg by simp
  next
    case (RxRet r st')
    then show ?thesis
      using rx_loop_return [OF inv w RxRet, of tmo evs pt lt] Cons.prems(3)
        rx_pass_ret [OF inv w(2) RxRet] by auto
  qed
qed

text \<open>
  A received message overruns \<^verbatim>\<open>trans_buf\<close> by less than one SPI word, and the stores stay
  inside the bridge structure: the length recorded is below the buffer size plus the word.
\<close>

theorem rx_overrun_below_one_word:
  assumes "bridge_wf br" and "words_ok (word_len br) evs"
    and "br_do_rx_and_pkt_phy_parse tmo now evs br = Some (None, br')"
  shows "trans_len br' < TRANS_BUF_SIZE + word_len br \<and> bridge_wf br'"
  using rx_loop_bound [of 0 "rx_init br" evs] assms
  by (simp add: br_do_rx_and_pkt_phy_parse_def rx_init_def rx_inv_def)

theorem rx_overrun_below_one_word_witness:
  "\<exists>br'. br_do_rx_and_pkt_phy_parse 50 0
     [\<lparr>spi_read_res = Inr [0, 0, 0x7c, 0x7a], jiffies = 0\<rparr>, \<lparr>spi_read_res = Inr [5, 4, 0x7b, 3], jiffies = 0\<rparr>]
     (fresh_bridge 4) = Some (None, br') \<and>
     trans_len br' < TRANS_BUF_SIZE + word_len (fresh_bridge 4) \<and> bridge_wf br'"
proof -
  let ?evs = "[\<lparr>spi_read_res = Inr [0, 0, 0x7c, 0x7a], jiffies = 0\<rparr>, \<lparr>spi_read_res = Inr [5, 4, 0x7b, 3], jiffies = 0\<rparr>]
    :: rx_event list"
  have "answers (slave_env [[0, 0, 0x7c, 0x7a], [5, 4, 0x7b, 3]]\<lparr>env_now := 0, env_events := ?evs\<rparr>)
      (fresh_bridge 4) [0, 3, 4] [5]"
    by (simp add: answers_def slave_env_def fresh_bridge_def words_ok_def in_time_def time_after_def
        rx_stream_def read_words_def unswap_def br_swap_words_32_def codec_eval)
  from rx_answers [OF _ this] obtain br' where
    r: "br_do_rx_and_pkt_phy_parse 50 0 ?evs (fresh_bridge 4) = Some (None, br')"
    by (auto simp: fresh_bridge_wf slave_env_def)
  have "words_ok (word_len (fresh_bridge 4)) ?evs" by (simp add: words_ok_def fresh_bridge_def)
  with rx_overrun_below_one_word [OF _ this r] r show ?thesis
    by (simp add: fresh_bridge_wf)
qed

text \<open>One pass of the loop, as the decoder sees it.\<close>

lemma rx_loop_cont_word:
  assumes inv: "rx_inv 0 st" and ev: "spi_read_res ev = Inr w" and len: "length w = word_len (rx_br st)"
    and dec: "dec_bytes (abs_rx st) (unswap (swap_words (rx_br st)) w) = DCont a"
    and time: "\<not> time_after (jiffies ev) pt"
  shows "\<exists>st' pt'. rx_loop tmo (ev # evs) pt False st = rx_loop tmo evs pt' False st' \<and>
    (pt' = pt \<or> pt' = jiffies ev + tmo) \<and> rx_inv (word_len (rx_br st)) st' \<and>
    same_cfg (rx_br st) (rx_br st') \<and> abs_rx st' = a"
proof (cases "rx_word 0 (word_len (rx_br st)) (st\<lparr>rx_br := rx_load_word w (rx_br st), valid_word := False\<rparr>)")
  case (RxRet r st')
  then show ?thesis
    using rx_pass_ret [OF inv len RxRet] dec by (auto split: option.splits)
next
  case (RxCont st')
  then show ?thesis
    using rx_loop_step [OF inv ev len RxCont, of tmo evs pt False] rx_pass_cont [OF inv len RxCont] dec time
    by auto
qed

lemma abs_rx_tb:
  assumes "rx_inv n st" and "n \<le> PHY_BUF_SIZE" and "d_acc (abs_rx st) = Some x"
  shows "rx_tb st = Some (length x)"
  using assms by (auto simp: abs_rx_def rx_inv_def mem_def bridge_wf_def)

text \<open>A parser in the middle of a packet, with \<open>n\<close> bytes received and no mark pending.\<close>

definition receiving :: "nat \<Rightarrow> dec_st \<Rightarrow> bool" where
  "receiving n a \<longleftrightarrow> (\<exists>x. d_acc a = Some x \<and> length x = n) \<and> \<not> d_eop a \<and> \<not> d_chan a \<and> \<not> d_esc a"

lemma dec_plain_word:
  assumes "receiving n a"
  shows "\<exists>a'. dec_bytes a (unswap sw [0, 0, 0, 0]) = DCont a' \<and> receiving (n + 4) a'"
proof -
  obtain x where x: "d_acc a = Some x" "length x = n" "\<not> d_chan a" "\<not> d_esc a" "\<not> d_eop a"
    using assms by (auto simp: receiving_def)
  have "unswap sw [0, 0, 0, 0] = esc_bytes [0, 0, 0, 0]"
    by (simp add: unswap_def br_swap_words_32_def codec_eval)
  then show ?thesis
    using dec_esc_bytes [OF x(1,3-5), of "[0, 0, 0, 0]"] x by (simp add: receiving_def)
qed

lemma rx_loop_plain_words:
  assumes "rx_inv 4 st" and "word_len (rx_br st) = 4" and "receiving t (abs_rx st)"
    and "t + 4 * n < TRANS_BUF_SIZE + 4" and "\<not> time_after 0 pt" and "\<not> time_after 0 tmo"
  shows "\<exists>st' pt'. rx_loop tmo (replicate n \<lparr>spi_read_res = Inr [0, 0, 0, 0], jiffies = 0\<rparr> @ evs) pt False st
      = rx_loop tmo evs pt' False st' \<and> \<not> time_after 0 pt' \<and> rx_inv 4 st' \<and>
    same_cfg (rx_br st) (rx_br st') \<and> receiving (t + 4 * n) (abs_rx st')"
  using assms
proof (induction n arbitrary: st t pt)
  case (Suc n)
  let ?ev = "\<lparr>spi_read_res = Inr [0, 0, 0, 0], jiffies = 0\<rparr> :: rx_event"
  have "rx_tb st = Some t"
    using Suc.prems(3) abs_rx_tb [OF Suc.prems(1)] by (auto simp: receiving_def)
  then have inv: "rx_inv 0 st" using Suc.prems(1,4) by (auto simp: rx_inv_def)
  obtain a where a: "dec_bytes (abs_rx st) (unswap (swap_words (rx_br st)) [0, 0, 0, 0]) = DCont a"
    "receiving (t + 4) a" using dec_plain_word [OF Suc.prems(3)] by blast
  have "spi_read_res ?ev = Inr [0, 0, 0, 0]" "length [0, 0, 0, 0 :: byte] = word_len (rx_br st)"
    "\<not> time_after (jiffies ?ev) pt" using Suc.prems by simp_all
  from rx_loop_cont_word [OF inv this(1,2) a(1) this(3), of tmo "replicate n ?ev @ evs"]
  obtain st1 pt1 where s1: "rx_loop tmo (?ev # replicate n ?ev @ evs) pt False st = rx_loop tmo (replicate n ?ev @ evs) pt1 False st1"
    "pt1 = pt \<or> pt1 = jiffies ?ev + tmo" "rx_inv 4 st1" "same_cfg (rx_br st) (rx_br st1)" "abs_rx st1 = a"
    unfolding Suc.prems(2) by blast
  have p: "\<not> time_after 0 pt1" "word_len (rx_br st1) = 4" "receiving (t + 4) (abs_rx st1)"
    using s1 Suc.prems a(2) by (auto simp: same_cfg_def)
  have b: "t + 4 + 4 * n < TRANS_BUF_SIZE + 4" using Suc.prems(4) by simp
  from Suc.IH [OF s1(3) p(2,3) b p(1) Suc.prems(6)] show ?case
    using s1(1,4) same_cfg_trans by (fastforce simp: algebra_simps)
next
  case 0
  then show ?case by (intro exI [of _ st] exI [of _ pt]) simp
qed

text \<open>The last word of an overlong packet: two bytes, the end mark and one byte more.\<close>

lemma rx_loop_last_word:
  assumes inv: "rx_inv 0 st" and w4: "word_len (rx_br st) = 4" and sw: "swap_words (rx_br st)"
    and st: "receiving t (abs_rx st)" and ev: "spi_read_res ev = Inr [0, 0x7b, 0, 0]"
  shows "\<exists>br'. rx_loop tmo (ev # evs) pt lt st = Some (None, br') \<and> trans_len br' = t + 3"
proof -
  have len: "length [0, 0x7b, 0, 0 :: byte] = word_len (rx_br st)" using w4 by simp
  obtain x where x: "d_acc (abs_rx st) = Some x" "length x = t" "\<not> d_chan (abs_rx st)"
      "\<not> d_esc (abs_rx st)" "\<not> d_eop (abs_rx st)"
    using st by (auto simp: receiving_def)
  have "unswap (swap_words (rx_br st)) [0, 0x7b, 0, 0] = pkt_body [0, 0, 0] @ []"
    using sw by (simp add: unswap_def br_swap_words_32_def codec_eval)
  then have dec: "dec_bytes (abs_rx st) (unswap (swap_words (rx_br st)) [0, 0x7b, 0, 0]) = DDone (x @ [0, 0, 0])"
    using dec_pkt_body [OF _ x(1,3-5), of "[0, 0, 0]" "[]"] by simp
  show ?thesis
  proof (cases "rx_word 0 (word_len (rx_br st)) (st\<lparr>rx_br := rx_load_word [0, 0x7b, 0, 0] (rx_br st), valid_word := False\<rparr>)")
    case (RxCont st')
    then show ?thesis using rx_pass_cont(1) [OF inv len RxCont] dec by simp
  next
    case (RxRet r st')
    note ret = rx_pass_ret [OF inv len RxRet]
    have r: "r = None" using ret dec by (auto split: option.splits)
    have d: "take (trans_len (rx_br st')) (mem (rx_br st')) = x @ [0, 0, 0]"
      using ret dec r by simp
    have "length (mem (rx_br st')) = 1052" "trans_len (rx_br st') < 1028"
      using ret r w4 by (auto simp: mem_def bridge_wf_def)
    then have "trans_len (rx_br st') = t + 3" using arg_cong [OF d, of length] x(2) by simp
    then show ?thesis
      using rx_loop_return [OF inv ev len RxRet, of tmo evs pt lt] r by auto
  qed
qed

text \<open>
  The overrun does happen: with 32-bit words a slave can make the parser accept a message
  of 1025 bytes, one more than \<^verbatim>\<open>trans_buf\<close> holds, so that the last store is out of its bounds.
\<close>

theorem rx_overrun_reachable:
  "\<exists>evs br'. words_ok 4 evs \<and>
     br_do_rx_and_pkt_phy_parse 50 0 evs (fresh_bridge 4) = Some (None, br') \<and>
     trans_len br' > TRANS_BUF_SIZE"
proof -
  define ev :: "byte list \<Rightarrow> rx_event" where "ev w = \<lparr>spi_read_res = Inr w, jiffies = 0\<rparr>" for w
  define tail where "tail = replicate 255 (ev [0, 0, 0, 0]) @ [ev [0, 0x7b, 0, 0]]"
  let ?st = "rx_init (fresh_bridge 4)"
  have wf: "bridge_wf (fresh_bridge 4)" by (simp add: fresh_bridge_wf)
  have init: "rx_inv 0 ?st" "rx_br ?st = fresh_bridge 4" "abs_rx ?st = dec_init"
    using wf by (simp_all add: rx_init_def rx_inv_def abs_rx_def dec_init_def)
  have cfg: "word_len (fresh_bridge 4) = 4" "swap_words (fresh_bridge 4)" by (simp_all add: fresh_bridge_def)
  have t: "\<not> time_after 0 50" by (simp add: time_after_def)
  have "dec_bytes (abs_rx ?st) (unswap (swap_words (rx_br ?st)) [0x7a, 0, 0, 0]) =
      DCont \<lparr>d_acc = Some [], d_eop = False, d_chan = False, d_esc = False\<rparr>"
    using init cfg by (simp add: unswap_def br_swap_words_32_def dec_byte_def dec_init_def)
  from rx_loop_cont_word [OF init(1) _ _ this, of "ev [0x7a, 0, 0, 0]" 50 50 "ev [0, 0, 0, 0x7c] # tail"]
  obtain st1 pt1 where s1: "rx_loop 50 (ev [0x7a, 0, 0, 0] # ev [0, 0, 0, 0x7c] # tail) 50 False ?st =
      rx_loop 50 (ev [0, 0, 0, 0x7c] # tail) pt1 False st1"
    "pt1 = 50 \<or> pt1 = 0 + 50" "rx_inv 4 st1" "same_cfg (fresh_bridge 4) (rx_br st1)"
    "abs_rx st1 = \<lparr>d_acc = Some [], d_eop = False, d_chan = False, d_esc = False\<rparr>"
    using init cfg t by (auto simp: ev_def)
  have i1: "rx_inv 0 st1" "word_len (rx_br st1) = 4" "swap_words (rx_br st1)" "\<not> time_after 0 pt1"
    using s1 abs_rx_tb [OF s1(3), of "[]"] cfg t by (auto simp: rx_inv_def same_cfg_def)
  have "dec_bytes (abs_rx st1) (unswap (swap_words (rx_br st1)) [0, 0, 0, 0x7c]) =
      DCont \<lparr>d_acc = Some [0, 0], d_eop = False, d_chan = False, d_esc = False\<rparr>"
    using s1(5) i1(3) by (simp add: unswap_def br_swap_words_32_def dec_byte_def)
  from rx_loop_cont_word [OF i1(1) _ _ this, of "ev [0, 0, 0, 0x7c]" pt1 50 tail]
  obtain st2 pt2 where s2: "rx_loop 50 (ev [0, 0, 0, 0x7c] # tail) pt1 False st1 = rx_loop 50 tail pt2 False st2"
    "pt2 = pt1 \<or> pt2 = 0 + 50" "rx_inv 4 st2" "same_cfg (rx_br st1) (rx_br st2)" "receiving 2 (abs_rx st2)"
    using i1 by (auto simp: ev_def receiving_def)
  have i2: "word_len (rx_br st2) = 4" "\<not> time_after 0 pt2" using s2 i1 t by (auto simp: same_cfg_def)
  from rx_loop_plain_words [OF s2(3) i2(1) s2(5) _ i2(2) t, of 255 "[ev [0, 0x7b, 0, 0]]"]
  obtain st3 pt3 where s3: "rx_loop 50 tail pt2 False st2 = rx_loop 50 [ev [0, 0x7b, 0, 0]] pt3 False st3"
    "rx_inv 4 st3" "same_cfg (rx_br st2) (rx_br st3)" "receiving 1022 (abs_rx st3)"
    by (auto simp: tail_def ev_def)
  have i3: "rx_inv 0 st3" "word_len (rx_br st3) = 4" "swap_words (rx_br st3)"
    using s3 s2(4) i1 abs_rx_tb [OF s3(2)] by (auto simp: rx_inv_def same_cfg_def receiving_def)
  have "spi_read_res (ev [0, 0x7b, 0, 0]) = Inr [0, 0x7b, 0, 0]" by (simp add: ev_def)
  from rx_loop_last_word [OF i3 s3(4) this, of 50 "[]" pt3 False]
  obtain br' where "rx_loop 50 [ev [0, 0x7b, 0, 0]] pt3 False st3 = Some (None, br')" "trans_len br' = 1025"
    by auto
  moreover have "words_ok 4 (ev [0x7a, 0, 0, 0] # ev [0, 0, 0, 0x7c] # tail)"
    by (simp add: words_ok_def tail_def ev_def list_all_iff)
  ultimately show ?thesis
    using s1(1) s2(1) s3(1) by (auto simp: br_do_rx_and_pkt_phy_parse_def)
qed

end
