(* ===== verification/Dfl_Reg.thy ===== *)
theory Dfl_Reg
  imports Prelude
begin

unbundle bit_operations_syntax

text \<open>
  The device feature headers of \<^verbatim>\<open>drivers/fpga/dfl.h\<close> and the routines of \<^verbatim>\<open>drivers/fpga/dfl.c\<close>
  that read them: the DFHv1 parameter blocks (\<^verbatim>\<open>find_param\<close>, \<^verbatim>\<open>dfh_find_param\<close>,
  \<^verbatim>\<open>dfh_get_param_size\<close>), the size and the id of a feature (\<^verbatim>\<open>feature_size\<close>, \<^verbatim>\<open>feature_id\<close>).

  Device memory is a function from bus addresses to 64-bit registers; an \<^verbatim>\<open>__iomem\<close> pointer is
  the bus address it maps. The two loops over device memory need not end, because what they
  add to their offset is read from the device, so they are partial functions: \<open>None\<close> is the
  loop that does not return.
\<close>

type_synonym mmio = "u64 \<Rightarrow> u64"

section \<open>Header layout\<close>

abbreviation (input) FEATURE_ID_FIU_HEADER :: u16 where "FEATURE_ID_FIU_HEADER \<equiv> 0xfe"
abbreviation (input) FEATURE_ID_AFU :: u16 where "FEATURE_ID_AFU \<equiv> 0xff"
abbreviation (input) FME_FEATURE_ID_GLOBAL_ERR :: u16 where "FME_FEATURE_ID_GLOBAL_ERR \<equiv> 0x4"
abbreviation (input) PORT_FEATURE_ID_ERROR :: u16 where "PORT_FEATURE_ID_ERROR \<equiv> 0x10"
abbreviation (input) PORT_FEATURE_ID_UINT :: u16 where "PORT_FEATURE_ID_UINT \<equiv> 0x12"

abbreviation (input) DFH :: u64 where "DFH \<equiv> 0x0"
abbreviation (input) GUID_L :: u64 where "GUID_L \<equiv> 0x8"
abbreviation (input) GUID_H :: u64 where "GUID_H \<equiv> 0x10"
abbreviation (input) NEXT_AFU :: u64 where "NEXT_AFU \<equiv> 0x18"
abbreviation (input) DFH_SIZE :: u64 where "DFH_SIZE \<equiv> 0x8"
abbreviation (input) DFHv1_CSR_ADDR :: u64 where "DFHv1_CSR_ADDR \<equiv> 0x18"
abbreviation (input) DFHv1_CSR_SIZE_GRP :: u64 where "DFHv1_CSR_SIZE_GRP \<equiv> 0x20"
abbreviation (input) DFHv1_PARAM_HDR :: u64 where "DFHv1_PARAM_HDR \<equiv> 0x28"
abbreviation (input) PORT_HDR_CAP :: u64 where "PORT_HDR_CAP \<equiv> 0x30"
abbreviation (input) FME_ERROR_CAP :: u64 where "FME_ERROR_CAP \<equiv> 0x70"
abbreviation (input) PORT_ERROR_CAP :: u64 where "PORT_ERROR_CAP \<equiv> 0x38"
abbreviation (input) PORT_UINT_CAP :: u64 where "PORT_UINT_CAP \<equiv> 0x8"

abbreviation (input) DFH_TYPE_AFU :: u64 where "DFH_TYPE_AFU \<equiv> 1"
abbreviation (input) DFH_TYPE_PRIVATE :: u64 where "DFH_TYPE_PRIVATE \<equiv> 3"
abbreviation (input) DFH_TYPE_FIU :: u64 where "DFH_TYPE_FIU \<equiv> 4"
abbreviation (input) DFH_TYPE_INTERFACE :: u64 where "DFH_TYPE_INTERFACE \<equiv> 5"

definition dfh_id :: "u64 \<Rightarrow> u64" where "dfh_id v = field_get 11 0 v"
definition dfh_revision :: "u64 \<Rightarrow> u64" where "dfh_revision v = field_get 15 12 v"
definition dfh_next_ofst :: "u64 \<Rightarrow> u64" where "dfh_next_ofst v = field_get 39 16 v"
definition dfh_eol :: "u64 \<Rightarrow> bool" where "dfh_eol v \<longleftrightarrow> bit v 40"
definition dfh_version :: "u64 \<Rightarrow> u64" where "dfh_version v = field_get 59 52 v"
definition dfh_type :: "u64 \<Rightarrow> u64" where "dfh_type v = field_get 63 60 v"

definition param_id_of :: "u64 \<Rightarrow> u64" where "param_id_of v = field_get 15 0 v"
definition param_eop :: "u64 \<Rightarrow> bool" where "param_eop v \<longleftrightarrow> bit v 32"
definition param_next :: "u64 \<Rightarrow> u64" where "param_next v = field_get 63 35 v"

lemma unat_dfh_next_ofst: "unat (dfh_next_ofst v) < 2 ^ 24"
  using unat_field_get_bound [of 39 16 v] by (simp add: dfh_next_ofst_def)

lemma unat_param_next: "unat (param_next v) < 2 ^ 29"
  using unat_field_get_bound [of 63 35 v] by (simp add: param_next_def)

section \<open>Parameter blocks in memory\<close>

text \<open>The loop of \<^verbatim>\<open>find_param\<close>; a pointer into \<^verbatim>\<open>params\<close> is its index.\<close>

function find_param_from :: "u64 list \<Rightarrow> nat \<Rightarrow> u64 \<Rightarrow> nat \<Rightarrow> nat option" where
  "find_param_from params end param_id i =
     (if i < end then
        let v = params ! i
        in if param_id = param_id_of v then Some i
           else if param_eop v then None
           else if param_next v = 0 then None
           else find_param_from params end param_id (i + unat (param_next v))
      else None)"
  by pat_completeness auto
termination
  by (relation "measure (\<lambda>(params, end, param_id, i). end - i)")
    (auto simp: unat_gt_0 intro!: diff_less_mono2)

declare find_param_from.simps [simp del]

definition find_param :: "u64 list \<Rightarrow> nat \<Rightarrow> u64 \<Rightarrow> nat option" where
  "find_param params maxsz param_id = find_param_from params (maxsz div 8) param_id 0"

text \<open>\<^verbatim>\<open>dfh_find_param\<close>: the index of the parameter's data and its size in bytes.\<close>

definition dfh_find_param :: "u64 list \<Rightarrow> nat \<Rightarrow> u64 \<Rightarrow> errno + (nat \<times> nat)" where
  "dfh_find_param params param_size param_id =
     (case find_param params param_size param_id of
        None \<Rightarrow> Inl ENOENT
      | Some i \<Rightarrow>
          let next = unat (param_next (params ! i));
              next = (if next = 0 then 2 else next)
          in Inr (i + 1, (next - 1) * 8))"

section \<open>Parameter blocks on the device\<close>

text \<open>
  \<^verbatim>\<open>dfh_get_param_size\<close>. \<^verbatim>\<open>size\<close> is an \<^verbatim>\<open>int\<close>: the comparison with the unsigned \<^verbatim>\<open>max\<close> and
  the address sign-extend it, and the addition of the 64-bit increment truncates.
\<close>

partial_function (option) dfh_param_size_loop :: "mmio \<Rightarrow> u64 \<Rightarrow> u64 \<Rightarrow> u32 \<Rightarrow> (errno + u32) option" where
  "dfh_param_size_loop rd dfh_base maxsz sz =
     (if (scast (sz + 0x28) :: u64) < maxsz then
        let v = rd (dfh_base + DFHv1_PARAM_HDR + scast sz)
        in if param_next v = 0 then Some (Inr (sz + 16))
           else let sz' = sz + ucast (param_next v * 8)
                in if param_eop v then Some (Inr sz')
                   else dfh_param_size_loop rd dfh_base maxsz sz'
      else Some (Inl ENOENT))"

definition dfh_get_param_size :: "mmio \<Rightarrow> u64 \<Rightarrow> u64 \<Rightarrow> (errno + u32) option" where
  "dfh_get_param_size rd dfh_base maxsz =
     (if \<not> bit (rd (dfh_base + DFHv1_CSR_SIZE_GRP)) 31 then Some (Inr 0)
      else dfh_param_size_loop rd dfh_base maxsz 0)"

section \<open>Feature size and id\<close>

text \<open>The \<^verbatim>\<open>do ... while\<close> of \<^verbatim>\<open>feature_size\<close>, entered with the offset of the next header.\<close>

partial_function (option) feature_size_loop :: "mmio \<Rightarrow> u64 \<Rightarrow> u64 \<Rightarrow> u32 \<Rightarrow> u32 option" where
  "feature_size_loop rd dfh_ioaddr end ofst =
     (let value = rd (dfh_ioaddr + ucast ofst)
      in if dfh_type value \<noteq> DFH_TYPE_INTERFACE then Some ofst
         else let ofst' = ofst + ucast (dfh_next_ofst value)
              in if dfh_eol value then Some ofst'
                 else if dfh_ioaddr + ucast ofst' < end then feature_size_loop rd dfh_ioaddr end ofst'
                 else Some 0)"

definition feature_size :: "mmio \<Rightarrow> u64 \<Rightarrow> u64 \<Rightarrow> u64 \<Rightarrow> u32 option" where
  "feature_size rd dfh_ioaddr end value =
     (let ofst = ucast (dfh_next_ofst value) :: u32
      in if ofst = 0 then Some 4096
         else if dfh_eol value then Some ofst
         else feature_size_loop rd dfh_ioaddr end ofst)"

definition feature_id :: "u64 \<Rightarrow> u16" where
  "feature_id value =
     (if dfh_type value = DFH_TYPE_FIU then FEATURE_ID_FIU_HEADER
      else if dfh_type value = DFH_TYPE_PRIVATE then ucast (dfh_id value)
      else if dfh_type value = DFH_TYPE_AFU then FEATURE_ID_AFU
      else 0)"

section \<open>The parameter chain\<close>

text \<open>The headers a walk over a parameter area visits, as a list: the reference for the search.\<close>

function param_headers :: "u64 list \<Rightarrow> nat \<Rightarrow> nat \<Rightarrow> nat list" where
  "param_headers params end i =
     (if i < end then
        i # (if param_eop (params ! i) \<or> param_next (params ! i) = 0 then []
             else param_headers params end (i + unat (param_next (params ! i))))
      else [])"
  by pat_completeness auto
termination
  by (relation "measure (\<lambda>(params, end, i). end - i)")
    (auto simp: unat_gt_0 intro!: diff_less_mono2)

declare param_headers.simps [simp del]

lemma find_param_from_eq:
  "find_param_from params end pid i = find (\<lambda>j. param_id_of (params ! j) = pid) (param_headers params end i)"
proof (induction params "end" pid i rule: find_param_from.induct)
  case (1 params "end" pid i)
  show ?case
    by (subst find_param_from.simps, subst param_headers.simps) (auto simp: Let_def 1)
qed

lemma param_headers_bounds: "j \<in> set (param_headers params end i) \<Longrightarrow> i \<le> j \<and> j < end"
proof (induction params "end" i rule: param_headers.induct)
  case (1 params "end" i)
  from "1.prems" show ?case
    by (subst (asm) param_headers.simps) (auto split: if_splits dest: "1.IH")
qed

lemma param_headers_sorted: "sorted_wrt (<) (param_headers params end i)"
proof (induction params "end" i rule: param_headers.induct)
  case (1 params "end" i)
  have "i < j" if "j \<in> set (param_headers params end (i + unat (param_next (params ! i))))"
    and "param_next (params ! i) \<noteq> 0" for j
    using param_headers_bounds [OF that(1)] that(2) unat_gt_0 [of "param_next (params ! i)"] by simp
  with 1 show ?case by (subst param_headers.simps) auto
qed

text \<open>
  Searching the parameter blocks of a feature. The search ends, visits increasing indices
  inside the copied area only, and finds the first header of the chain with the wanted id;
  it fails exactly when no header of the chain has it.
\<close>

theorem find_param_first_in_chain:
  "find_param params maxsz pid =
     find (\<lambda>j. param_id_of (params ! j) = pid) (param_headers params (maxsz div 8) 0) \<and>
   sorted_wrt (<) (param_headers params (maxsz div 8) 0) \<and>
   (\<forall>j \<in> set (param_headers params (maxsz div 8) 0). j < maxsz div 8)"
  using param_headers_bounds by (auto simp: find_param_def find_param_from_eq param_headers_sorted)

theorem find_param_first_in_chain_witness:
  "find_param [0x1800000007, 0, 0, 0x900000001, 0x200000003] 40 1 = Some 3 \<and>
   param_headers [0x1800000007, 0, 0, 0x900000001, 0x200000003] (40 div 8) 0 = [0, 3]"
proof -
  have "param_headers [0x1800000007, 0, 0, 0x900000001, 0x200000003] 5 0 = [0, 3]"
    by (simp add: param_headers.simps param_eop_def param_next_def field_get_def)
  with find_param_first_in_chain [of "[0x1800000007, 0, 0, 0x900000001, 0x200000003]" 40 1]
  show ?thesis by (simp add: param_id_of_def field_get_def)
qed

section \<open>Termination of the walks over device memory\<close>

lemma feature_size_loop_hang:
  assumes "feature_size_loop rd a e ofst = Some r"
    and "dfh_type (rd (a + ucast ofst)) = DFH_TYPE_INTERFACE"
    and "dfh_next_ofst (rd (a + ucast ofst)) = 0" and "\<not> dfh_eol (rd (a + ucast ofst))"
    and "a + ucast ofst < e"
  shows False
proof -
  have "\<not> (dfh_type (rd (a + ucast ofst)) = DFH_TYPE_INTERFACE \<and>
      dfh_next_ofst (rd (a + ucast ofst)) = 0 \<and> \<not> dfh_eol (rd (a + ucast ofst)) \<and> a + ucast ofst < e)"
    by (rule feature_size_loop.raw_induct [where P = "\<lambda>rd a e ofst r.
        \<not> (dfh_type (rd (a + ucast ofst)) = DFH_TYPE_INTERFACE \<and>
           dfh_next_ofst (rd (a + ucast ofst)) = 0 \<and> \<not> dfh_eol (rd (a + ucast ofst)) \<and>
           a + ucast ofst < e)", OF _ assms(1)])
      (auto simp: Let_def split: if_splits, blast)
  with assms(2-5) show False by blast
qed

text \<open>
  The size of a feature is not always found: when the header that follows is an interface
  header whose own offset is zero and which does not end the list, the loop of
  \<^verbatim>\<open>feature_size\<close> reads it again and again and never returns.
\<close>

theorem feature_size_can_hang:
  assumes "dfh_next_ofst v \<noteq> 0" and "\<not> dfh_eol v"
    and "hdr = rd (a + dfh_next_ofst v)" and "a + dfh_next_ofst v < e"
    and "dfh_type hdr = DFH_TYPE_INTERFACE" and "dfh_next_ofst hdr = 0" and "\<not> dfh_eol hdr"
  shows "feature_size rd a e v = None"
proof -
  have u: "ucast (ucast (dfh_next_ofst v) :: u32) = dfh_next_ofst v"
    using unat_dfh_next_ofst [of v]
    by (simp add: word_unat_eq_iff unsigned_ucast_eq unsigned_take_bit_eq take_bit_nat_eq_self)
  then have nz: "(ucast (dfh_next_ofst v) :: u32) \<noteq> 0"
    using assms(1) by (metis unsigned_0)
  have "feature_size_loop rd a e (ucast (dfh_next_ofst v)) \<noteq> Some r" for r
    using feature_size_loop_hang [of rd a e "ucast (dfh_next_ofst v)" r] assms by (auto simp: u)
  then show ?thesis
    using assms(2) nz by (auto simp: feature_size_def Let_def)
qed

theorem feature_size_can_hang_witness:
  "feature_size (\<lambda>a. if a = 0x1000 then 0x5000000000000000 else 0) 0 0x2000 0x3000000010000000 = None"
  by (rule feature_size_can_hang [where hdr = "0x5000000000000000"])
    (simp_all add: dfh_next_ofst_def dfh_eol_def dfh_type_def field_get_def)

lemma unat_ucast_next: "unat (ucast (dfh_next_ofst v) :: u32) = unat (dfh_next_ofst v)"
  using unat_dfh_next_ofst [of v] by (simp add: unsigned_ucast_eq take_bit_nat_eq_self)

lemma unat_ucast_u32 [simp]: "unat (ucast (x :: u32) :: u64) = unat x"
  by (simp add: unsigned_ucast_eq take_bit_nat_eq_self less_trans [OF unsigned_less [of x]])

lemma ofst_advance:
  assumes "unat ofst + 2 ^ 24 \<le> 2 ^ 32"
  shows "unat (ofst + ucast (dfh_next_ofst v) :: u32) = unat ofst + unat (dfh_next_ofst v)"
  using assms unat_dfh_next_ofst [of v] by (subst unat_add_lem [THEN iffD1]) (auto simp: unat_ucast_next)

text \<open>
  The headers a list walk can reach: a set of addresses closed under following the next offset.
  Every interface header in it has a next offset or ends the list.
\<close>

definition header_chain :: "mmio \<Rightarrow> u64 set \<Rightarrow> bool" where
  "header_chain rd H \<longleftrightarrow> (\<forall>x \<in> H.
     (dfh_next_ofst (rd x) \<noteq> 0 \<and> \<not> dfh_eol (rd x) \<longrightarrow> x + dfh_next_ofst (rd x) \<in> H) \<and>
     (dfh_type (rd x) = DFH_TYPE_INTERFACE \<longrightarrow> dfh_next_ofst (rd x) \<noteq> 0 \<or> dfh_eol (rd x)))"

lemma ucast_ofst_advance:
  assumes "unat ofst + 2 ^ 24 \<le> 2 ^ 32"
  shows "(ucast (ofst + ucast (dfh_next_ofst v) :: u32) :: u64) = ucast ofst + dfh_next_ofst v"
proof -
  have "unat ofst + unat (dfh_next_ofst v) < 2 ^ 64"
    using assms unat_dfh_next_ofst [of v] by simp
  then have "unat (ucast ofst + dfh_next_ofst v :: u64) = unat ofst + unat (dfh_next_ofst v)"
    by (subst unat_add_lem [THEN iffD1]) auto
  then show ?thesis by (simp add: word_unat_eq_iff ofst_advance [OF assms])
qed

lemma ucast_next [simp]: "(ucast (ucast (dfh_next_ofst v) :: u32) :: u64) = dfh_next_ofst v"
  using ucast_ofst_advance [of 0 v] by simp

lemma feature_size_loop_total:
  assumes "header_chain rd H" and "unat a + 2 ^ 32 \<le> 2 ^ 64" and "unat e \<le> unat a + 2 ^ 29"
    and "unat ofst < 2 ^ 24 \<or> unat a + unat ofst < unat e" and "a + ucast ofst \<in> H"
  shows "\<exists>s. feature_size_loop rd a e ofst = Some s \<and> unat s \<le> 2 ^ 30"
  using assms(4,5)
proof (induction "2 ^ 32 - unat ofst" arbitrary: ofst rule: less_induct)
  case less
  let ?v = "rd (a + ucast ofst)"
  let ?o = "ofst + ucast (dfh_next_ofst ?v) :: u32"
  have b: "unat ofst < 2 ^ 29" using less.prems(1) assms(3) by auto
  then have b': "unat ofst + 2 ^ 24 \<le> 2 ^ 32" by simp
  note o = ofst_advance [OF b', of ?v]
  have o30: "unat ?o \<le> 2 ^ 30" using o b unat_dfh_next_ofst [of ?v] by simp
  show ?case
  proof (cases "dfh_type ?v = DFH_TYPE_INTERFACE \<and> \<not> dfh_eol ?v \<and> a + ucast ?o < e")
    case True
    with assms(1) less.prems(2) have n: "dfh_next_ofst ?v \<noteq> 0" and "a + ucast ofst + dfh_next_ofst ?v \<in> H"
      by (auto simp: header_chain_def)
    then have H: "a + ucast ?o \<in> H" by (simp add: ucast_ofst_advance [OF b'] add.assoc)
    have gt: "unat ofst < unat ?o" using o n by (simp add: unat_gt_0)
    have "unat (a + ucast ?o) = unat a + unat ?o"
      using assms(2) o30 by (subst unat_add_lem [THEN iffD1]) auto
    with True have lt: "unat a + unat ?o < unat e" by (simp add: word_less_nat_alt)
    have "2 ^ 32 - unat ?o < 2 ^ 32 - unat ofst" using gt b by (intro diff_less_mono2) auto
    from less.hyps [OF this disjI2 [OF lt] H] show ?thesis
      using True by (subst feature_size_loop.simps) (simp add: Let_def)
  next
    case False
    with o30 b show ?thesis by (subst feature_size_loop.simps) (auto simp: Let_def)
  qed
qed

text \<open>
  On a list whose interface headers all make progress (a nonzero offset, or the end of the
  list), and whose region reaches at most half a gigabyte past the header, \<^verbatim>\<open>feature_size\<close> returns
  a size of at most one gigabyte.
\<close>

lemma feature_size_total:
  assumes "header_chain rd H" and "a \<in> H" and "unat a + 2 ^ 32 \<le> 2 ^ 64" and "unat e \<le> unat a + 2 ^ 29"
  shows "\<exists>s. feature_size rd a e (rd a) = Some s \<and> unat s \<le> 2 ^ 30"
proof (cases "dfh_next_ofst (rd a) = 0 \<or> dfh_eol (rd a)")
  case True
  have "unat (ucast (dfh_next_ofst (rd a)) :: u32) \<le> 2 ^ 30"
    using unat_dfh_next_ofst [of "rd a"] by (simp add: unat_ucast_next)
  with True show ?thesis by (auto simp: feature_size_def Let_def)
next
  case False
  have n: "unat (ucast (dfh_next_ofst (rd a)) :: u32) < 2 ^ 24"
    using unat_dfh_next_ofst [of "rd a"] by (simp add: unat_ucast_next)
  have "a + ucast (ucast (dfh_next_ofst (rd a)) :: u32) \<in> H"
    using False assms(1,2) by (auto simp: header_chain_def)
  from feature_size_loop_total [OF assms(1,3,4) disjI1 [OF n] this] False show ?thesis
    by (auto simp: feature_size_def Let_def)
qed

section \<open>The size of the parameter area\<close>

lemma unat_param_bytes: "unat (ucast (param_next v * 8) :: u32) = unat (param_next v) * 8"
proof -
  have "unat (param_next v) * 8 < 2 ^ 32" using unat_param_next [of v] by simp
  moreover have "unat (param_next v * 8) = unat (param_next v) * 8"
    using calculation by (subst unat_mult_lem [THEN iffD1]) auto
  ultimately show ?thesis by (simp add: unsigned_ucast_eq unsigned_take_bit_eq take_bit_nat_eq_self)
qed

lemma unat_scast_u32:
  assumes "unat (x :: u32) < 2 ^ 31"
  shows "unat (scast x :: u64) = unat x"
proof -
  have "int (unat x) < int (2 ^ 31)" using assms by (simp only: of_nat_less_iff)
  then have "uint x < 2 ^ 31" by simp
  moreover have "- (2 ^ 31) \<le> uint x" by (rule order_trans [of _ 0]) simp_all
  ultimately have s: "sint x = int (unat x)"
    using signed_take_bit_int_eq_self [of 31 "uint x"] by (simp add: sint_uint)
  have "(scast x :: u64) = word_of_nat (unat x)"
    by (metis s of_int_of_nat_eq scast_eq)
  then show ?thesis using assms by (simp add: unsigned_of_nat take_bit_nat_eq_self)
qed

text \<open>
  The parameter headers a walk can reach: a set of addresses closed under following the next
  offset, with blocks small enough for the \<^verbatim>\<open>int\<close> counter.
\<close>

definition param_blocks :: "mmio \<Rightarrow> u64 set \<Rightarrow> bool" where
  "param_blocks rd S \<longleftrightarrow> (\<forall>a \<in> S. unat (param_next (rd a)) < 2 ^ 26 \<and>
     (param_next (rd a) \<noteq> 0 \<and> \<not> param_eop (rd a) \<longrightarrow> a + param_next (rd a) * 8 \<in> S))"

lemma param_size_step:
  assumes "unat (param_next v) < 2 ^ 26" and "unat sz + 0x28 < 2 ^ 30"
  shows "unat (sz + ucast (param_next v * 8) :: u32) = unat sz + unat (param_next v) * 8"
    and "unat (sz + ucast (param_next v * 8) :: u32) + 0x28 < 2 ^ 31"
    and "(scast (sz + ucast (param_next v * 8) :: u32) :: u64) = scast sz + param_next v * 8"
proof -
  show s: "unat (sz + ucast (param_next v * 8) :: u32) = unat sz + unat (param_next v) * 8"
    using assms by (subst unat_add_lem [THEN iffD1]) (auto simp: unat_param_bytes)
  then show b: "unat (sz + ucast (param_next v * 8) :: u32) + 0x28 < 2 ^ 31" using assms by simp
  have m: "unat (param_next v * 8) = unat (param_next v) * 8"
    using assms(1) by (subst unat_mult_lem [THEN iffD1]) auto
  have "unat (scast sz :: u64) = unat sz" using assms(2) by (intro unat_scast_u32) simp
  then have "unat (scast sz + param_next v * 8 :: u64) = unat sz + unat (param_next v) * 8"
    using assms m by (subst unat_add_lem [THEN iffD1]) auto
  moreover have "unat (scast (sz + ucast (param_next v * 8) :: u32) :: u64) = unat sz + unat (param_next v) * 8"
    using unat_scast_u32 [of "sz + ucast (param_next v * 8)"] s b by simp
  ultimately show "(scast (sz + ucast (param_next v * 8) :: u32) :: u64) = scast sz + param_next v * 8"
    by (simp only: word_unat_eq_iff)
qed

lemma param_size_guard:
  assumes "unat sz + 0x28 < 2 ^ 31"
  shows "(scast (sz + 0x28 :: u32) :: u64) < maxsz \<longleftrightarrow> unat sz + 0x28 < unat maxsz"
proof -
  have a: "unat (sz + 0x28) = unat sz + 0x28"
    using assms by (subst unat_add_lem [THEN iffD1]) auto
  then show ?thesis
    using assms by (simp add: word_less_nat_alt unat_scast_u32)
qed

lemma dfh_param_size_loop_total:
  assumes "param_blocks rd S" and "unat maxsz \<le> 2 ^ 30" and "unat sz + 0x28 < 2 ^ 31" and "8 dvd unat sz"
    and "base + DFHv1_PARAM_HDR + scast sz \<in> S"
  shows "\<exists>r. dfh_param_size_loop rd base maxsz sz = Some r \<and>
     (case r of Inl e \<Rightarrow> e = ENOENT | Inr n \<Rightarrow> unat sz < unat n \<and> 8 dvd unat n \<and> unat n < 2 ^ 31)"
  using assms(3-5)
proof (induction "2 ^ 31 - unat sz" arbitrary: sz rule: less_induct)
  case less
  let ?v = "rd (base + DFHv1_PARAM_HDR + scast sz)"
  let ?s = "sz + ucast (param_next ?v * 8) :: u32"
  show ?case
  proof (cases "unat sz + 0x28 < unat maxsz")
    case True
    then have b: "unat sz + 0x28 < 2 ^ 30" using assms(2) by simp
    have "unat (param_next ?v) < 2 ^ 26" using assms(1) less.prems(3) by (simp add: param_blocks_def)
    note step = param_size_step [OF this b]
    have s16: "unat (sz + 16) = unat sz + 16" using b by (subst unat_add_lem [THEN iffD1]) auto
    have d: "8 dvd unat ?s" using step(1) less.prems(2) by simp
    show ?thesis
    proof (cases "param_next ?v = 0 \<or> param_eop ?v")
      case True
      then show ?thesis
        using \<open>unat sz + 0x28 < unat maxsz\<close> less.prems b s16 step d unat_gt_0 [of "param_next ?v"]
        by (subst dfh_param_size_loop.simps) (auto simp: Let_def param_size_guard)
    next
      case False
      then have gt: "unat sz < unat ?s" using step(1) by (simp add: unat_gt_0)
      then have "2 ^ 31 - unat ?s < 2 ^ 31 - unat sz" using step(2) by linarith
      moreover have "base + DFHv1_PARAM_HDR + scast ?s \<in> S"
        using False assms(1) less.prems(3) step(3) by (simp add: param_blocks_def add.assoc [symmetric])
      ultimately show ?thesis using less.hyps [OF _ step(2) d] gt
        using \<open>unat sz + 0x28 < unat maxsz\<close> less.prems False
        by (subst dfh_param_size_loop.simps) (auto simp: Let_def param_size_guard split: sum.splits)
    qed
  next
    case False
    then show ?thesis
      using less.prems by (subst dfh_param_size_loop.simps) (simp add: param_size_guard)
  qed
qed

text \<open>
  When no parameter block of the feature is larger than half a gigabyte and the feature at most
  a gigabyte, \<^verbatim>\<open>dfh_get_param_size\<close> returns: \<^verbatim>\<open>-ENOENT\<close>, or a size that is a multiple of eight,
  fits the \<^verbatim>\<open>int\<close> it is kept in, and is zero only when the feature declares no parameters.
\<close>

theorem dfh_get_param_size_returns:
  assumes "param_blocks rd S" and "base + DFHv1_PARAM_HDR \<in> S" and "unat maxsz \<le> 2 ^ 30"
  shows "\<exists>r. dfh_get_param_size rd base maxsz = Some r \<and>
     (case r of Inl e \<Rightarrow> e = ENOENT
      | Inr n \<Rightarrow> 8 dvd unat n \<and> unat n < 2 ^ 31 \<and>
          (n = 0 \<longleftrightarrow> \<not> bit (rd (base + DFHv1_CSR_SIZE_GRP)) 31))"
  using dfh_param_size_loop_total [OF assms(1,3), of 0 base] assms(2)
  by (auto simp: dfh_get_param_size_def split: sum.splits)

theorem dfh_get_param_size_returns_witness:
  "\<exists>r. dfh_get_param_size (\<lambda>a. if a = 0x20 then 0x80000000 else if a = 0x28 then 0x1900000001 else 0xffffffffffffffff) 0 0x100 = Some r \<and>
     (case r of Inl e \<Rightarrow> e = ENOENT
      | Inr n \<Rightarrow> 8 dvd unat n \<and> unat n < 2 ^ 31 \<and>
          (n = 0 \<longleftrightarrow> \<not> bit ((\<lambda>a. if a = 0x20 then 0x80000000 else if a = 0x28 then 0x1900000001 else 0xffffffffffffffff :: u64)
             (0 + DFHv1_CSR_SIZE_GRP :: u64)) 31))"
  by (rule dfh_get_param_size_returns [where S = "{0x28}"])
    (simp_all add: param_blocks_def param_next_def param_eop_def field_get_def)

lemma dfh_param_size_loop_cycle:
  assumes "dfh_param_size_loop rd base maxsz sz = Some r"
    and "sz = 0 \<or> sz = 8" and "0x30 < maxsz"
    and "param_next (rd (base + 0x28)) = 1" "\<not> param_eop (rd (base + 0x28))"
    and "param_next (rd (base + 0x30)) = 0x1fffffff" "\<not> param_eop (rd (base + 0x30))"
  shows False
proof -
  have "\<not> ((sz = 0 \<or> sz = 8) \<and> 0x30 < maxsz \<and> param_next (rd (base + 0x28)) = 1 \<and>
      \<not> param_eop (rd (base + 0x28)) \<and> param_next (rd (base + 0x30)) = 0x1fffffff \<and>
      \<not> param_eop (rd (base + 0x30)))"
  proof (rule dfh_param_size_loop.raw_induct [where P = "\<lambda>rd base maxsz sz r.
        \<not> ((sz = 0 \<or> sz = 8) \<and> 0x30 < maxsz \<and> param_next (rd (base + 0x28)) = 1 \<and>
           \<not> param_eop (rd (base + 0x28)) \<and> param_next (rd (base + 0x30)) = 0x1fffffff \<and>
           \<not> param_eop (rd (base + 0x30)))", OF _ assms(1)], rule notI, elim conjE)
    fix f rd base maxsz sz r
    assume IH: "\<And>rd base maxsz sz r. f rd base maxsz sz = Some r \<Longrightarrow>
        \<not> ((sz = 0 \<or> sz = 8) \<and> 0x30 < maxsz \<and> param_next (rd (base + 0x28)) = 1 \<and>
           \<not> param_eop (rd (base + 0x28)) \<and> param_next (rd (base + 0x30)) = 0x1fffffff \<and>
           \<not> param_eop (rd (base + 0x30)))"
      and eq: "(if (scast (sz + 0x28 :: u32) :: u64) < maxsz then
        let v = rd (base + DFHv1_PARAM_HDR + scast sz)
        in if param_next v = 0 then Some (Inr (sz + 16))
           else let sz' = sz + ucast (param_next v * 8)
                in if param_eop v then Some (Inr sz') else f rd base maxsz sz'
      else Some (Inl ENOENT)) = Some r"
      and h: "sz = 0 \<or> sz = 8" "0x30 < maxsz" "param_next (rd (base + 0x28)) = 1"
        "\<not> param_eop (rd (base + 0x28))" "param_next (rd (base + 0x30)) = 0x1fffffff"
        "\<not> param_eop (rd (base + 0x30))"
    have wrap: "f rd base maxsz 4294967296 = f rd base maxsz 0"
      by (rule arg_cong [where f = "f rd base maxsz"]) simp
    have "(0x28 :: u64) < maxsz" using h(2) by (rule order.strict_trans [rotated]) simp
    then have "f rd base maxsz (if sz = 0 then 8 else 0) = Some r"
      using eq h wrap by (auto simp: Let_def add.assoc)
    from IH [OF this] h show False by auto
  qed
  with assms(2-) show False by blast
qed

text \<open>
  The size of the parameter area can fail to be found: the \<^verbatim>\<open>int\<close> counter wraps when a block
  claims 536870911 words, so two blocks can send the walk back to its start for ever.
\<close>

theorem dfh_get_param_size_can_hang:
  assumes "bit (rd (base + DFHv1_CSR_SIZE_GRP)) 31" and "0x30 < maxsz"
    and "param_next (rd (base + 0x28)) = 1" and "\<not> param_eop (rd (base + 0x28))"
    and "param_next (rd (base + 0x30)) = 0x1fffffff" and "\<not> param_eop (rd (base + 0x30))"
  shows "dfh_get_param_size rd base maxsz = None"
  using dfh_param_size_loop_cycle [of rd base maxsz 0] assms
  by (cases "dfh_param_size_loop rd base maxsz 0") (auto simp: dfh_get_param_size_def)

theorem dfh_get_param_size_can_hang_witness:
  "dfh_get_param_size (\<lambda>a. if a = 0x20 then 0x80000000 else if a = 0x28 then 0x800000002
      else if a = 0x30 then 0xfffffff800000003 else 0) 0 0x1000 = None"
  by (rule dfh_get_param_size_can_hang) (simp_all add: param_next_def param_eop_def field_get_def)

end
