(* ===== verification/Dfl_Types.thy ===== *)
theory Dfl_Types
  imports Prelude
begin

text \<open>
  The data the DFL framework keeps about a device (\<^verbatim>\<open>drivers/fpga/dfl.h\<close>,
  \<^verbatim>\<open>include/linux/dfl.h\<close>): sub features with their interrupt contexts, feature devices, and the
  container device. Pointers that are only tested against NULL are booleans or options.
\<close>

text \<open>\<^verbatim>\<open>enum dfl_id_type\<close>; its end mark \<^verbatim>\<open>DFL_ID_MAX\<close> is \<open>None\<close> of the option type.\<close>

datatype dfl_id_type = FME_ID | PORT_ID | PRIV_FEAT_ID

record guid =
  g_a :: u32
  g_b :: u16
  g_c :: u16
  g_d :: "u8 list"

definition guid_null :: guid where
  "guid_null = \<lparr>g_a = 0, g_b = 0, g_c = 0, g_d = replicate 8 0\<rparr>"

definition guid_invalid :: guid where
  "guid_invalid = \<lparr>g_a = 0xffffffff, g_b = 0xffff, g_c = 0xffff, g_d = replicate 8 0xff\<rparr>"

definition dfl_guid_is_valid :: "guid \<Rightarrow> bool" where
  "dfl_guid_is_valid g \<longleftrightarrow> \<not> (g = guid_null \<or> g = guid_invalid)"

record dfl_feature_irq_ctx =
  ctx_irq :: int
  ctx_trigger :: "nat option"   \<comment> \<open>the eventfd bound to the interrupt\<close>

record dfl_feature =
  ft_dev :: bool                \<comment> \<open>\<^verbatim>\<open>dev\<close> points to the platform device\<close>
  ft_id :: u16
  ft_revision :: u8
  ft_resource_index :: int
  ft_ioaddr :: "u64 option"
  ft_irq_ctx :: "dfl_feature_irq_ctx list"
  ft_nr_irqs :: u32
  ft_ops :: "nat option"        \<comment> \<open>the feature driver whose ops are bound\<close>
  ft_ddev :: "nat option"       \<comment> \<open>the id of the dfl device created for it\<close>
  ft_dfh_version :: u8
  ft_param_size :: nat
  ft_params :: "u64 list"
  ft_guid :: guid

text \<open>A zeroed entry of the features array.\<close>

definition feature_zero :: dfl_feature where
  "feature_zero = \<lparr>ft_dev = False, ft_id = 0, ft_revision = 0, ft_resource_index = 0, ft_ioaddr = None,
     ft_irq_ctx = [], ft_nr_irqs = 0, ft_ops = None, ft_ddev = None, ft_dfh_version = 0,
     ft_param_size = 0, ft_params = [], ft_guid = guid_null\<rparr>"

record dfl_feature_dev_data =
  fd_dev :: bool                \<comment> \<open>\<^verbatim>\<open>dev\<close> is not NULL\<close>
  fd_type :: dfl_id_type
  fd_pdev_id :: nat
  fd_id :: int
  disable_count :: u32
  excl_open :: bool
  open_count :: int
  fd_num :: nat
  features :: "dfl_feature list"
  resources :: "(u64 \<times> u64) list"

abbreviation FEATURE_DEV_ID_UNUSED :: int where "FEATURE_DEV_ID_UNUSED \<equiv> -1"

definition is_header_feature :: "dfl_feature \<Rightarrow> bool" where
  "is_header_feature f \<longleftrightarrow> ft_id f = 0xfe"

record dfl_fpga_cdev =
  fme_dev :: "dfl_feature_dev_data option"
  port_dev_list :: "dfl_feature_dev_data list"
  priv_feat_dev_list :: "dfl_feature_dev_data list"
  released_port_num :: int

end
