(* ===== verification/Dfl_Enum.thy ===== *)
theory Dfl_Enum
  imports Dfl_Reg Dfl_Types
begin

unbundle bit_operations_syntax

text \<open>
  Enumeration of feature devices from a device feature list (\<^verbatim>\<open>drivers/fpga/dfl.c\<close>): reading
  one feature (\<^verbatim>\<open>create_feature_instance\<close>, \<^verbatim>\<open>parse_feature_irqs\<close>), the dispatch on its type
  (\<^verbatim>\<open>parse_feature\<close> and its cases), committing the features of an FIU as a feature device
  (\<^verbatim>\<open>build_info_commit_dev\<close>), and the walk over the list (\<^verbatim>\<open>parse_feature_list\<close>,
  \<^verbatim>\<open>dfl_fpga_feature_devs_enumerate\<close>).

  The outcome of allocations, mappings and registrations is an input, and so is what an access
  past the end of an array would find. \<open>None\<close> as an outer result is a loop over device memory
  that does not end.
\<close>

section \<open>Environment and state\<close>

datatype alloc_site =
    A_finfo | A_fdata | A_features | A_resources | A_action | A_params u16 | A_irq_ctx u16
  | A_cdev | A_binfo

record dfl_env =
  rd :: mmio
  alloc_ok :: "alloc_site \<Rightarrow> bool"
  request_mem_region :: "u64 \<Rightarrow> u64 \<Rightarrow> bool"
  ioremap_ok :: "u64 \<Rightarrow> u64 \<Rightarrow> bool"
  ioremap_resource :: "u64 \<Rightarrow> u64 \<Rightarrow> errno + u64"
  idr_alloc :: "nat list \<Rightarrow> errno + nat"
  platform_add :: "dfl_id_type \<Rightarrow> nat \<Rightarrow> errno option"
  region_register :: "errno option"
  nr_irqs_max :: int            \<comment> \<open>\<^verbatim>\<open>NR_IRQS\<close>\<close>
  oob_param :: u64              \<comment> \<open>the word after the copied parameters\<close>
  oob_irq :: "nat \<Rightarrow> int"        \<comment> \<open>what follows the interrupt table\<close>

record dfl_feature_info =
  fi_fid :: u16
  fi_revision :: u8
  fi_dfh_version :: u8
  fi_guid :: guid
  fi_res_start :: u64
  fi_res_end :: u64
  fi_irq_base :: u32
  fi_nr_irqs :: u32
  fi_param_size :: nat
  fi_params :: "u64 list"

record build_feature_devs_info =
  bi_cdev :: dfl_fpga_cdev
  bi_ids :: "dfl_id_type \<Rightarrow> nat list"   \<comment> \<open>ids in use, the idr of each \<^verbatim>\<open>dfl_devs[]\<close> entry\<close>
  bi_nr_irqs :: u32
  bi_irq_table :: "int list"
  bi_type :: "dfl_id_type option"
  bi_mapped :: bool                     \<comment> \<open>the current FIU's region is claimed and mapped\<close>
  bi_start :: u64
  bi_len :: u64
  bi_sub_features :: "dfl_feature_info list"
  bi_feature_num :: nat

type_synonym binfo = build_feature_devs_info

section \<open>Interrupts of a feature\<close>

text \<open>First vector and number of vectors, as the feature's header version tells them.\<close>

definition feature_irq_range :: "dfl_env \<Rightarrow> binfo \<Rightarrow> u64 \<Rightarrow> dfl_feature_info \<Rightarrow> u32 \<times> u32" where
  "feature_irq_range env bi ofst fi =
     (let base = bi_start bi + ofst; fid = fi_fid fi
      in if fi_dfh_version fi = 0 then
           if bi_type bi = Some PORT_ID then
             if fid = PORT_FEATURE_ID_UINT then
               let v = rd env (base + PORT_UINT_CAP) in (ucast (field_get 23 12 v), ucast (field_get 11 0 v))
             else if fid = PORT_FEATURE_ID_ERROR then
               let v = rd env (base + PORT_ERROR_CAP) in (ucast (field_get 12 1 v), ucast (field_get 0 0 v))
             else (0, 0)
           else if bi_type bi = Some FME_ID then
             if fid = FME_FEATURE_ID_GLOBAL_ERR then
               let v = rd env (base + FME_ERROR_CAP) in (ucast (field_get 12 1 v), ucast (field_get 0 0 v))
             else (0, 0)
           else (0, 0)
         else if fi_dfh_version fi = 1 then
           (case find_param (fi_params fi) (fi_param_size fi) 1 of
              None \<Rightarrow> (0, 0)
            | Some i \<Rightarrow>
                let v = (if i + 1 < length (fi_params fi) then fi_params fi ! (i + 1) else oob_param env)
                in (ucast (field_get 31 0 v), ucast (field_get 63 32 v)))
         else (0, 0))"

definition irq_at :: "dfl_env \<Rightarrow> int list \<Rightarrow> u32 \<Rightarrow> int" where
  "irq_at env tbl i = (if unat i < length tbl then tbl ! unat i else oob_irq env (unat i))"

definition parse_feature_irqs :: "dfl_env \<Rightarrow> binfo \<Rightarrow> u64 \<Rightarrow> dfl_feature_info \<Rightarrow> errno + dfl_feature_info" where
  "parse_feature_irqs env bi ofst fi =
     (let (ibase, inr) = feature_irq_range env bi ofst fi
      in if inr = 0 then Inr (fi\<lparr>fi_irq_base := 0, fi_nr_irqs := 0\<rparr>)
         else if ibase + inr > bi_nr_irqs bi then Inl EINVAL
         else if list_ex (\<lambda>i. let virq = irq_at env (bi_irq_table bi) (ibase + of_nat i)
                              in virq < 0 \<or> virq > nr_irqs_max env) [0..<unat inr] then Inl EINVAL
         else Inr (fi\<lparr>fi_irq_base := ibase, fi_nr_irqs := inr\<rparr>))"

section \<open>One feature\<close>

definition in_range :: "u64 \<Rightarrow> u64 \<Rightarrow> u64 \<Rightarrow> bool" where
  "in_range val start len \<longleftrightarrow> val - start < len"

definition feature_guid :: "u64 \<Rightarrow> u64 \<Rightarrow> guid" where
  "feature_guid guid_l guid_h =
     \<lparr>g_a = ucast (field_get 63 32 guid_h), g_b = ucast (field_get 31 16 guid_h),
      g_c = ucast (field_get 15 0 guid_h),
      g_d = map (\<lambda>k. ucast (field_get (8 * k + 7) (8 * k) guid_l)) (rev [0..<8])\<rparr>"

text \<open>The register range of a feature, and whether its address is relative to the header.\<close>

definition feature_res_start :: "dfl_env \<Rightarrow> binfo \<Rightarrow> u64 \<Rightarrow> u8 \<Rightarrow> u64" where
  "feature_res_start env bi ofst dfh_ver =
     (let v = rd env (bi_start bi + ofst + DFHv1_CSR_ADDR); addr_off = push_bit 1 (field_get 63 1 v)
      in if dfh_ver = 1 then if bit v 0 then addr_off else bi_start bi + ofst + addr_off
         else bi_start bi + ofst)"

definition feature_res_end :: "dfl_env \<Rightarrow> binfo \<Rightarrow> u64 \<Rightarrow> u64 \<Rightarrow> u8 \<Rightarrow> u64" where
  "feature_res_end env bi ofst sz dfh_ver =
     (let start = feature_res_start env bi ofst dfh_ver;
          csr_size = field_get 63 32 (rd env (bi_start bi + ofst + DFHv1_CSR_SIZE_GRP))
      in if dfh_ver = 1 then if csr_size \<noteq> 0 then start + csr_size - 1 else start
         else start + sz - 1)"

definition feature_rel_addr :: "dfl_env \<Rightarrow> binfo \<Rightarrow> u64 \<Rightarrow> u8 \<Rightarrow> bool" where
  "feature_rel_addr env bi ofst dfh_ver \<longleftrightarrow>
     dfh_ver = 1 \<and> \<not> bit (rd env (bi_start bi + ofst + DFHv1_CSR_ADDR)) 0"

text \<open>The feature info as it is filled in before its interrupts are parsed.\<close>

definition new_finfo ::
  "dfl_env \<Rightarrow> binfo \<Rightarrow> u64 \<Rightarrow> u64 \<Rightarrow> u16 \<Rightarrow> u8 \<Rightarrow> u8 \<Rightarrow> nat \<Rightarrow> dfl_feature_info" where
  "new_finfo env bi ofst sz fid revision dfh_ver dfh_psize =
     (let hdr = bi_start bi + ofst; guid_l = rd env (hdr + GUID_L); guid_h = rd env (hdr + GUID_H)
      in \<lparr>fi_fid = fid, fi_revision = revision, fi_dfh_version = dfh_ver,
          fi_guid = (if dfh_ver = 1 \<and> (guid_l \<noteq> 0 \<or> guid_h \<noteq> 0) then feature_guid guid_l guid_h
                     else guid_null),
          fi_res_start = feature_res_start env bi ofst dfh_ver,
          fi_res_end = feature_res_end env bi ofst sz dfh_ver,
          fi_irq_base = 0, fi_nr_irqs = 0, fi_param_size = dfh_psize,
          fi_params = map (\<lambda>k. rd env (hdr + DFHv1_PARAM_HDR + 8 * of_nat k)) [0..<dfh_psize div 8]\<rparr>)"

text \<open>The second half of \<^verbatim>\<open>create_feature_instance\<close>, from the bounds check on.\<close>

definition add_feature_instance ::
  "dfl_env \<Rightarrow> binfo \<Rightarrow> u64 \<Rightarrow> u64 \<Rightarrow> u16 \<Rightarrow> u8 \<Rightarrow> u8 \<Rightarrow> nat \<Rightarrow> binfo ret" where
  "add_feature_instance env bi ofst sz fid revision dfh_ver dfh_psize =
     (if bi_len bi - ofst < sz then (Some EINVAL, bi)
      else if \<not> alloc_ok env A_finfo then (Some ENOMEM, bi)
      else
        let finfo = new_finfo env bi ofst sz fid revision dfh_ver dfh_psize
        in if feature_rel_addr env bi ofst dfh_ver \<and>
              \<not> (in_range (fi_res_start finfo) (bi_start bi) (bi_len bi) \<and>
                  in_range (fi_res_end finfo) (bi_start bi) (bi_len bi))
           then (None, bi)
           else case parse_feature_irqs env bi ofst finfo of
                  Inl e \<Rightarrow> (Some e, bi)
                | Inr finfo \<Rightarrow> (None, bi\<lparr>bi_sub_features := bi_sub_features bi @ [finfo],
                                          bi_feature_num := Suc (bi_feature_num bi)\<rparr>))"

definition create_feature_instance :: "dfl_env \<Rightarrow> binfo \<Rightarrow> u64 \<Rightarrow> u64 \<Rightarrow> u16 \<Rightarrow> binfo ret option" where
  "create_feature_instance env bi ofst sz fid =
     (if fid = FEATURE_ID_AFU then Some (add_feature_instance env bi ofst sz fid 0 0 0)
      else
        let hdr = bi_start bi + ofst; v = rd env hdr;
            revision = ucast (dfh_revision v); dfh_ver = ucast (dfh_version v)
        in (case (if sz \<noteq> 0 then Some sz
                 else map_option ucast (feature_size (rd env) hdr (bi_start bi + bi_len bi) v)) of
             None \<Rightarrow> None
           | Some sz \<Rightarrow>
               if sz = 0 then Some (Some EINVAL, bi)
               else
                 let fid = (if fid \<noteq> 0 then fid else feature_id v)
                 in if dfh_ver = 1 then
                      (case dfh_get_param_size (rd env) hdr sz of
                        None \<Rightarrow> None
                      | Some (Inl e) \<Rightarrow> Some (Some e, bi)
                      | Some (Inr n) \<Rightarrow>
                          if sint n < 0 then Some (Some (EOTHER (nat (- sint n))), bi)
                          else Some (add_feature_instance env bi ofst sz fid revision dfh_ver (unat n)))
                    else Some (add_feature_instance env bi ofst sz fid revision dfh_ver 0)))"

section \<open>Committing a feature device\<close>

text \<open>One sub feature into \<^verbatim>\<open>fdata->features[index]\<close>, with the next free resource index.\<close>

definition fill_feature :: "dfl_env \<Rightarrow> int list \<Rightarrow> dfl_feature_info \<Rightarrow> nat \<Rightarrow> errno + dfl_feature" where
  "fill_feature env irq_table fi res_idx =
     (if fi_param_size fi \<noteq> 0 \<and> \<not> alloc_ok env (A_params (fi_fid fi)) then Inl ENOMEM
      else
        let f = feature_zero\<lparr>ft_id := fi_fid fi, ft_revision := fi_revision fi, ft_dfh_version := fi_dfh_version fi,
                  ft_param_size := fi_param_size fi,
                  ft_params := (if fi_param_size fi \<noteq> 0 then fi_params fi else []),
                  ft_guid := (if fi_dfh_version fi = 1 then fi_guid fi else guid_null)\<rparr>
        in (case (if is_header_feature f
                 then (case ioremap_resource env (fi_res_start fi) (fi_res_end fi) of
                        Inl e \<Rightarrow> Inl e
                      | Inr a \<Rightarrow> Inr (f\<lparr>ft_resource_index := -1, ft_ioaddr := Some a\<rparr>))
                 else Inr (f\<lparr>ft_resource_index := int res_idx\<rparr>)) of
             Inl e \<Rightarrow> Inl e
           | Inr f \<Rightarrow>
               if fi_nr_irqs fi = 0 then Inr f
               else if \<not> alloc_ok env (A_irq_ctx (fi_fid fi)) then Inl ENOMEM
               else Inr (f\<lparr>ft_irq_ctx := map (\<lambda>i. \<lparr>ctx_irq = irq_at env irq_table (fi_irq_base fi + of_nat i),
                                                  ctx_trigger = None\<rparr>) [0..<unat (fi_nr_irqs fi)],
                           ft_nr_irqs := fi_nr_irqs fi\<rparr>)))"

text \<open>The loop over \<^verbatim>\<open>binfo->sub_features\<close>: features and resources in order. The entries handled
  before an error are gone from the list, the failing one and the rest are still on it.\<close>

fun fill_features ::
  "dfl_env \<Rightarrow> int list \<Rightarrow> dfl_feature_info list \<Rightarrow> dfl_feature list \<Rightarrow> (u64 \<times> u64) list
   \<Rightarrow> (errno \<times> dfl_feature_info list) + (dfl_feature list \<times> (u64 \<times> u64) list)" where
  "fill_features env tbl [] fs rs = Inr (fs, rs)"
| "fill_features env tbl (fi # fis) fs rs =
     (case fill_feature env tbl fi (length rs) of
        Inl e \<Rightarrow> Inl (e, fi # fis)
      | Inr f \<Rightarrow> fill_features env tbl fis (fs @ [f])
                  (if is_header_feature f then rs else rs @ [(fi_res_start fi, fi_res_end fi)]))"

text \<open>\<^verbatim>\<open>binfo_create_feature_dev_data\<close>; the features array has \<^verbatim>\<open>feature_num\<close> zeroed entries.\<close>

definition binfo_create_feature_dev_data ::
  "dfl_env \<Rightarrow> binfo \<Rightarrow> (errno + dfl_feature_dev_data) \<times> binfo" where
  "binfo_create_feature_dev_data env bi =
     (case bi_type bi of
        None \<Rightarrow> (Inl EINVAL, bi)
      | Some type \<Rightarrow>
          if \<not> alloc_ok env A_fdata \<or> \<not> alloc_ok env A_features \<or> \<not> alloc_ok env A_resources
          then (Inl ENOMEM, bi)
          else (case idr_alloc env (bi_ids bi type) of
            Inl e \<Rightarrow> (Inl e, bi)
          | Inr pid \<Rightarrow>
              if \<not> alloc_ok env A_action then (Inl ENOMEM, bi)
              else
                let bi = bi\<lparr>bi_ids := (bi_ids bi)(type := pid # bi_ids bi type)\<rparr>
                in (case fill_features env (bi_irq_table bi) (bi_sub_features bi) [] [] of
                     Inl (e, rest) \<Rightarrow> (Inl e, bi\<lparr>bi_sub_features := rest\<rparr>)
                   | Inr (fs, rs) \<Rightarrow>
                       (Inr \<lparr>fd_dev = False, fd_type = type, fd_pdev_id = pid, fd_id = FEATURE_DEV_ID_UNUSED,
                             disable_count = 0, excl_open = False, open_count = 0,
                             fd_num = bi_feature_num bi,
                             features = fs @ replicate (bi_feature_num bi - length fs) feature_zero,
                             resources = rs\<rparr>,
                        bi\<lparr>bi_sub_features := []\<rparr>))))"

text \<open>\<^verbatim>\<open>feature_dev_register\<close> and \<^verbatim>\<open>feature_dev_unregister\<close>.\<close>

definition feature_dev_register ::
  "(dfl_id_type \<Rightarrow> nat \<Rightarrow> errno option) \<Rightarrow> dfl_feature_dev_data \<Rightarrow> dfl_feature_dev_data ret" where
  "feature_dev_register add fd =
     (case add (fd_type fd) (fd_pdev_id fd) of
        Some e \<Rightarrow> (Some e, fd\<lparr>fd_dev := False, features := map (\<lambda>f. f\<lparr>ft_dev := False\<rparr>) (features fd)\<rparr>)
      | None \<Rightarrow> (None, fd\<lparr>fd_dev := True, features := map (\<lambda>f. f\<lparr>ft_dev := True\<rparr>) (features fd)\<rparr>))"

definition feature_dev_unregister :: "dfl_feature_dev_data \<Rightarrow> dfl_feature_dev_data" where
  "feature_dev_unregister fd = fd\<lparr>fd_dev := False, features := map (\<lambda>f. f\<lparr>ft_dev := False\<rparr>) (features fd)\<rparr>"

definition build_info_commit_dev :: "dfl_env \<Rightarrow> binfo \<Rightarrow> binfo ret" where
  "build_info_commit_dev env bi =
     (case binfo_create_feature_dev_data env bi of
        (Inl e, bi) \<Rightarrow> (Some e, bi)
      | (Inr fd, bi) \<Rightarrow>
          (case feature_dev_register (platform_add env) fd of
             (Some e, _) \<Rightarrow> (Some e, bi)
           | (None, fd) \<Rightarrow>
               let cdev = bi_cdev bi;
                   cdev = (if bi_type bi = Some PORT_ID then cdev\<lparr>port_dev_list := fd # port_dev_list cdev\<rparr>
                           else if bi_type bi = Some PRIV_FEAT_ID
                           then cdev\<lparr>priv_feat_dev_list := fd # priv_feat_dev_list cdev\<rparr>
                           else cdev\<lparr>fme_dev := Some fd\<rparr>)
               in (None, bi\<lparr>bi_cdev := cdev, bi_type := None\<rparr>)))"

section \<open>Parsing\<close>

definition build_info_prepare :: "dfl_env \<Rightarrow> u64 \<Rightarrow> u64 \<Rightarrow> binfo \<Rightarrow> binfo ret" where
  "build_info_prepare env start len bi =
     (if \<not> request_mem_region env start len then (Some EBUSY, bi)
      else if \<not> ioremap_ok env start len then (Some ENOMEM, bi)
      else (None, bi\<lparr>bi_start := start, bi_len := len, bi_mapped := True\<rparr>))"

definition build_info_complete :: "binfo \<Rightarrow> binfo" where
  "build_info_complete bi = bi\<lparr>bi_mapped := False\<rparr>"

definition parse_feature_port_afu :: "dfl_env \<Rightarrow> binfo \<Rightarrow> u64 \<Rightarrow> binfo ret option" where
  "parse_feature_port_afu env bi ofst =
     (let v = rd env (bi_start bi + PORT_HDR_CAP);
          sz = ucast (push_bit 10 (field_get 23 8 v)) :: u32
      in create_feature_instance env bi ofst (ucast sz) FEATURE_ID_AFU)"

definition parse_feature_afu :: "dfl_env \<Rightarrow> binfo \<Rightarrow> u64 \<Rightarrow> binfo ret option" where
  "parse_feature_afu env bi ofst =
     (case bi_type bi of
        None \<Rightarrow> Some (Some EINVAL, bi)
      | Some PORT_ID \<Rightarrow> parse_feature_port_afu env bi ofst
      | Some _ \<Rightarrow> Some (None, bi))"

definition dfh_id_to_type :: "u16 \<Rightarrow> dfl_id_type option" where
  "dfh_id_to_type i = (if i = 0 then Some FME_ID else if i = 1 then Some PORT_ID
                        else if i = 2 then Some PRIV_FEAT_ID else None)"

text \<open>The new FIU itself, once the previous one has been committed.\<close>

definition parse_fiu_header :: "dfl_env \<Rightarrow> binfo \<Rightarrow> binfo ret option" where
  "parse_fiu_header env bi =
     (case dfh_id_to_type (ucast (dfh_id (rd env (bi_start bi + DFH)))) of
        None \<Rightarrow> Some (Some EINVAL, bi)
      | Some type \<Rightarrow>
          let bi = bi\<lparr>bi_type := Some type, bi_feature_num := 0, bi_sub_features := []\<rparr>
          in (case create_feature_instance env bi 0 0 0 of
               None \<Rightarrow> None
             | Some (Some e, bi) \<Rightarrow> Some (Some e, bi)
             | Some (None, bi) \<Rightarrow>
                 let offset = ucast (field_get 23 0 (rd env (bi_start bi + NEXT_AFU))) :: u32
                 in if offset \<noteq> 0 then parse_feature_afu env bi (ucast offset) else Some (None, bi)))"

definition parse_feature_fiu :: "dfl_env \<Rightarrow> binfo \<Rightarrow> u64 \<Rightarrow> binfo ret option" where
  "parse_feature_fiu env bi ofst =
     (if bi_type bi \<noteq> None then
        case build_info_commit_dev env (build_info_complete bi) of
          (Some e, bi) \<Rightarrow> Some (Some e, bi)
        | (None, bi) \<Rightarrow>
            (case build_info_prepare env (bi_start bi + ofst) (bi_len bi - ofst) bi of
               (Some e, bi) \<Rightarrow> Some (Some e, bi)
             | (None, bi) \<Rightarrow> parse_fiu_header env bi)
      else parse_fiu_header env bi)"

definition parse_feature_private :: "dfl_env \<Rightarrow> binfo \<Rightarrow> u64 \<Rightarrow> binfo ret option" where
  "parse_feature_private env bi ofst =
     (let dfh_ver = (ucast (dfh_version (rd env (bi_start bi + DFH))) :: u8)
      in if dfh_ver = 0 \<and> bi_type bi = None then Some (Some EINVAL, bi)
         else let bi = (if dfh_ver = 1 then bi\<lparr>bi_type := Some PRIV_FEAT_ID\<rparr> else bi)
              in create_feature_instance env bi ofst 0 0)"

definition parse_feature :: "dfl_env \<Rightarrow> binfo \<Rightarrow> u64 \<Rightarrow> binfo ret option" where
  "parse_feature env bi ofst =
     (let type = dfh_type (rd env (bi_start bi + ofst + DFH))
      in if type = DFH_TYPE_AFU then parse_feature_afu env bi ofst
         else if type = DFH_TYPE_PRIVATE then parse_feature_private env bi ofst
         else if type = DFH_TYPE_FIU then parse_feature_fiu env bi ofst
         else Some (None, bi))"

text \<open>The loop of \<^verbatim>\<open>parse_feature_list\<close>.\<close>

partial_function (option) parse_list_loop :: "dfl_env \<Rightarrow> u64 \<Rightarrow> u64 \<Rightarrow> binfo \<Rightarrow> binfo ret option" where
  "parse_list_loop env start end bi =
     (if start < end then
        if end - start < DFH_SIZE then Some (Some EINVAL, bi)
        else Option.bind (parse_feature env bi (start - bi_start bi)) (\<lambda>(ret, bi).
          if ret \<noteq> None then Some (ret, bi)
          else let v = rd env (bi_start bi + start - bi_start bi + DFH);
                   ofst = ucast (dfh_next_ofst v) :: u32
               in if dfh_eol v \<or> ofst = 0 then Some (None, bi)
                  else parse_list_loop env (start + ucast ofst) end bi)
      else Some (None, bi))"

definition parse_feature_list :: "dfl_env \<Rightarrow> u64 \<Rightarrow> u64 \<Rightarrow> binfo \<Rightarrow> binfo ret option" where
  "parse_feature_list env start len bi =
     (case build_info_prepare env start len bi of
        (Some e, bi) \<Rightarrow> Some (Some e, bi)
      | (None, bi) \<Rightarrow>
          Option.bind (parse_list_loop env start (start + len) bi) (\<lambda>(ret, bi).
            if ret \<noteq> None then Some (ret, bi)
            else let bi = build_info_complete bi
                 in if bi_type bi \<noteq> None then Some (build_info_commit_dev env bi) else Some (None, bi)))"

fun parse_feature_lists :: "dfl_env \<Rightarrow> (u64 \<times> u64) list \<Rightarrow> binfo \<Rightarrow> binfo ret option" where
  "parse_feature_lists env [] bi = Some (None, bi)"
| "parse_feature_lists env ((start, len) # dfls) bi =
     Option.bind (parse_feature_list env start len bi) (\<lambda>(ret, bi).
       if ret \<noteq> None then Some (ret, bi) else parse_feature_lists env dfls bi)"

record dfl_fpga_enum_info =
  ei_dev :: bool
  ei_dfls :: "(u64 \<times> u64) list"
  ei_nr_irqs :: u32
  ei_irq_table :: "int list option"

definition dfl_fpga_enum_info_add_dfl :: "bool \<Rightarrow> u64 \<Rightarrow> u64 \<Rightarrow> dfl_fpga_enum_info \<Rightarrow> dfl_fpga_enum_info ret" where
  "dfl_fpga_enum_info_add_dfl kzalloc_ok start len info =
     (if \<not> kzalloc_ok then (Some ENOMEM, info)
      else (None, info\<lparr>ei_dfls := ei_dfls info @ [(start, len)]\<rparr>))"

definition dfl_fpga_enum_info_add_irq ::
  "bool \<Rightarrow> u32 \<Rightarrow> int list option \<Rightarrow> dfl_fpga_enum_info \<Rightarrow> dfl_fpga_enum_info ret" where
  "dfl_fpga_enum_info_add_irq kmemdup_ok nr_irqs irq_table info =
     (case irq_table of
        None \<Rightarrow> (Some EINVAL, info)
      | Some tbl \<Rightarrow>
          if nr_irqs = 0 then (Some EINVAL, info)
          else if ei_irq_table info \<noteq> None then (Some EEXIST, info)
          else if \<not> kmemdup_ok then (Some ENOMEM, info)
          else (None, info\<lparr>ei_irq_table := Some (take (unat nr_irqs) tbl), ei_nr_irqs := nr_irqs\<rparr>))"

definition binfo_init :: "dfl_fpga_enum_info \<Rightarrow> (dfl_id_type \<Rightarrow> nat list) \<Rightarrow> binfo" where
  "binfo_init info ids =
     \<lparr>bi_cdev = \<lparr>fme_dev = None, port_dev_list = [], priv_feat_dev_list = [], released_port_num = 0\<rparr>,
      bi_ids = ids, bi_nr_irqs = ei_nr_irqs info,
      bi_irq_table = (if ei_nr_irqs info \<noteq> 0 then case ei_irq_table info of Some t \<Rightarrow> t | None \<Rightarrow> [] else []),
      bi_type = None, bi_mapped = False, bi_start = 0, bi_len = 0, bi_sub_features = [], bi_feature_num = 0\<rparr>"

text \<open>The container device, or the error after which everything built so far is torn down.\<close>

definition dfl_fpga_feature_devs_enumerate ::
  "dfl_env \<Rightarrow> dfl_fpga_enum_info \<Rightarrow> (dfl_id_type \<Rightarrow> nat list) \<Rightarrow> (errno + dfl_fpga_cdev) option" where
  "dfl_fpga_feature_devs_enumerate env info ids =
     (if \<not> ei_dev info then Some (Inl ENODEV)
      else if \<not> alloc_ok env A_cdev then Some (Inl ENOMEM)
      else case region_register env of
        Some e \<Rightarrow> Some (Inl e)
      | None \<Rightarrow>
          if \<not> alloc_ok env A_binfo then Some (Inl ENOMEM)
          else Option.bind (parse_feature_lists env (ei_dfls info) (binfo_init info ids)) (\<lambda>(ret, bi).
            case ret of Some e \<Rightarrow> Some (Inl e) | None \<Rightarrow> Some (Inr (bi_cdev bi))))"

end
