(* ===== verification/Dfl_Enum_Props.thy ===== *)
theory Dfl_Enum_Props
  imports Dfl_Enum
begin

unbundle bit_operations_syntax

text \<open>
  What enumeration guarantees: where the resources of a collected feature lie, which interrupts it
  may claim, how the collected features become the feature array and the resources of a
  feature device, and that the arrays are never overrun.
\<close>

section \<open>Collecting one feature\<close>

text \<open>The feature that is added, with the resource the header describes.\<close>

lemma in_range_bounds:
  assumes "in_range x s l" and "unat s + unat l \<le> 2 ^ 64"
  shows "unat s \<le> unat x \<and> unat x < unat s + unat l"
proof (cases "unat s \<le> unat x")
  case True
  then have "unat (x - s) = unat x - unat s" by (simp add: unat_sub word_le_nat_alt)
  with assms(1) True show ?thesis by (simp add: in_range_def word_less_nat_alt)
next
  case False
  then have "unat (x - s) = 2 ^ 64 + unat x - unat s"
    by (simp add: unat_sub_if' word_le_nat_alt)
  with False assms show ?thesis by (simp add: in_range_def word_less_nat_alt)
qed

lemma sub_region_bounds:
  fixes s l off sz :: u64
  assumes "unat s + unat l \<le> 2 ^ 64" and "unat off \<le> unat l" and "\<not> l - off < sz" and "sz \<noteq> 0"
  shows "unat (s + off) = unat s + unat off" and "unat (s + off + sz - 1) = unat s + unat off + unat sz - 1"
    and "unat off + unat sz \<le> unat l"
proof -
  have "unat (l - off) = unat l - unat off" using assms(2) by (simp add: unat_sub word_le_nat_alt)
  then show b: "unat off + unat sz \<le> unat l" using assms(2,3) by (simp add: word_less_nat_alt)
  have z: "0 < unat sz" using assms(4) by (simp add: unat_gt_0)
  show a: "unat (s + off) = unat s + unat off"
    using assms(1) b z by (subst unat_add_lem [THEN iffD1]) auto
  have "sz - 1 + 1 = sz" by simp
  have d: "unat (sz - 1) = unat sz - 1" using assms(4) by (simp add: unat_minus_one)
  have "unat (s + off + (sz - 1)) = unat s + unat off + (unat sz - 1)"
    using assms(1) a b z d by (subst unat_add_lem [THEN iffD1]) auto
  then show "unat (s + off + sz - 1) = unat s + unat off + unat sz - 1"
    using z by (simp add: algebra_simps)
qed

lemma parse_feature_irqs_frame:
  assumes "parse_feature_irqs env bi ofst fi = Inr fi'"
  obtains b n where "fi' = fi\<lparr>fi_irq_base := b, fi_nr_irqs := n\<rparr>"
  using assms by (auto simp: parse_feature_irqs_def Let_def split: prod.splits if_splits)

text \<open>Both ends of a feature's resource are addresses of the region being parsed.\<close>

definition resource_in_region :: "binfo \<Rightarrow> dfl_feature_info \<Rightarrow> bool" where
  "resource_in_region bi fi \<longleftrightarrow>
     (\<forall>a \<in> {fi_res_start fi, fi_res_end fi}.
        unat (bi_start bi) \<le> unat a \<and> unat a < unat (bi_start bi) + unat (bi_len bi))"

text \<open>A version 1 header that gives the bus address of its registers, not an offset.\<close>

definition absolute_csr :: "dfl_env \<Rightarrow> binfo \<Rightarrow> u64 \<Rightarrow> dfl_feature_info \<Rightarrow> bool" where
  "absolute_csr env bi ofst fi \<longleftrightarrow>
     fi_dfh_version fi = 1 \<and> bit (rd env (bi_start bi + ofst + DFHv1_CSR_ADDR)) 0"

text \<open>The outcomes of adding a feature: nothing changes, or one entry is appended.\<close>

definition appended :: "binfo \<Rightarrow> dfl_feature_info \<Rightarrow> binfo" where
  "appended bi fi = bi\<lparr>bi_sub_features := bi_sub_features bi @ [fi], bi_feature_num := Suc (bi_feature_num bi)\<rparr>"

lemma appended_inject [simp]: "appended bi fi = appended bi fi' \<longleftrightarrow> fi = fi'"
  by (auto simp: appended_def dest: arg_cong [where f = bi_sub_features])

lemma appended_neq [simp]: "appended bi fi \<noteq> bi"
  by (auto simp: appended_def dest: arg_cong [where f = bi_feature_num])

lemma add_feature_instance_cases:
  assumes "add_feature_instance env bi ofst sz fid revision ver ps = (ret, bi')"
  obtains (unchanged) "bi' = bi"
  | (added) fi where "bi' = appended bi fi" "ret = None" "fi_fid fi = fid" "fi_dfh_version fi = ver"
      "fi_param_size fi = ps" "\<not> bi_len bi - ofst < sz"
      "ver \<noteq> 1 \<Longrightarrow> fi_res_start fi = bi_start bi + ofst \<and> fi_res_end fi = bi_start bi + ofst + sz - 1"
      "ver = 1 \<Longrightarrow> absolute_csr env bi ofst fi \<or>
         in_range (fi_res_start fi) (bi_start bi) (bi_len bi) \<and> in_range (fi_res_end fi) (bi_start bi) (bi_len bi)"
proof -
  let ?fi = "new_finfo env bi ofst sz fid revision ver ps"
  have f: "fi_fid ?fi = fid" "fi_dfh_version ?fi = ver" "fi_param_size ?fi = ps"
    by (simp_all add: new_finfo_def Let_def)
  have r: "fi_res_start ?fi = bi_start bi + ofst \<and> fi_res_end ?fi = bi_start bi + ofst + sz - 1" if "ver \<noteq> 1"
    using that by (simp add: new_finfo_def Let_def feature_res_start_def feature_res_end_def)
  show thesis
    using assms f r
    by (auto simp: add_feature_instance_def Let_def appended_def absolute_csr_def feature_rel_addr_def
        split: if_splits sum.splits elim!: parse_feature_irqs_frame intro: added unchanged)
qed

lemma create_feature_instance_cases:
  assumes "create_feature_instance env bi ofst sz fid = Some (ret, bi')" and "fid = FEATURE_ID_AFU \<Longrightarrow> sz \<noteq> 0"
  obtains (unchanged) "bi' = bi"
  | (added) sz' fid' revision ver ps where "sz' \<noteq> 0"
      "add_feature_instance env bi ofst sz' fid' revision ver ps = (ret, bi')"
  using assms by (auto simp: create_feature_instance_def Let_def split: if_splits option.splits sum.splits)

lemma added_in_region:
  assumes "add_feature_instance env bi ofst sz fid revision ver ps = (ret, appended bi fi)" and "sz \<noteq> 0"
    and "unat ofst \<le> unat (bi_len bi)" and "unat (bi_start bi) + unat (bi_len bi) \<le> 2 ^ 64"
  shows "absolute_csr env bi ofst fi \<or> resource_in_region bi fi"
  using assms(1)
proof (cases rule: add_feature_instance_cases)
  case (added fi')
  then have fi: "fi' = fi" by simp
  note b = sub_region_bounds [OF assms(4,3) added(6) assms(2)]
  have "0 < unat sz" using assms(2) by (simp add: unat_gt_0)
  then show ?thesis
    using added b fi in_range_bounds [OF _ assms(4)]
    by (cases "ver = 1") (auto simp: resource_in_region_def)
qed simp

text \<open>
  C12. A feature whose header is at an offset within the region being parsed (at most its length; the
  region does not wrap around the address space; an AFU is not given the size 0) gets a register range in
  that region: when \<^verbatim>\<open>create_feature_instance\<close> collects a feature, the first and the last address of its
  resource belong to the mapped region, unless a version 1 header gives an absolute address. An offset
  behind the region, which the device can give for an AFU, escapes it: \<open>next_afu_escapes_region\<close> below.
\<close>

theorem created_feature_in_region:
  assumes "create_feature_instance env bi ofst sz fid = Some (ret, appended bi fi)"
    and "fid = FEATURE_ID_AFU \<longrightarrow> sz \<noteq> 0"
    and "unat ofst \<le> unat (bi_len bi)" and "unat (bi_start bi) + unat (bi_len bi) \<le> 2 ^ 64"
  shows "absolute_csr env bi ofst fi \<or> resource_in_region bi fi"
proof (rule create_feature_instance_cases [OF assms(1)])
  show "sz \<noteq> 0" if "fid = FEATURE_ID_AFU" using that assms(2) by simp
qed (use assms(3,4) added_in_region in auto)

section \<open>A concrete environment\<close>

text \<open>A device on which everything the kernel is asked for succeeds.\<close>

definition env0 :: "mmio \<Rightarrow> dfl_env" where
  "env0 dev = \<lparr>rd = dev, alloc_ok = \<lambda>_. True, request_mem_region = \<lambda>_ _. True, ioremap_ok = \<lambda>_ _. True,
     ioremap_resource = \<lambda>s _. Inr s, idr_alloc = \<lambda>ids. Inr (length ids), platform_add = \<lambda>_ _. None,
     region_register = None, nr_irqs_max = 1024, oob_param = 0, oob_irq = \<lambda>_. 0\<rparr>"

definition info0 :: "(u64 \<times> u64) list \<Rightarrow> dfl_fpga_enum_info" where
  "info0 dfls = \<lparr>ei_dev = True, ei_dfls = dfls, ei_nr_irqs = 0, ei_irq_table = None\<rparr>"

definition bi0 :: "u64 \<Rightarrow> u64 \<Rightarrow> dfl_id_type \<Rightarrow> binfo" where
  "bi0 start len type = (binfo_init (info0 []) (\<lambda>_. []))\<lparr>bi_start := start, bi_len := len, bi_type := Some type\<rparr>"

text \<open>Evaluation of the enumeration on a concrete device.\<close>

lemmas dfl_eval =
  create_feature_instance_def add_feature_instance_def new_finfo_def feature_res_start_def feature_res_end_def
  feature_rel_addr_def feature_size_def feature_size_loop.simps feature_id_def dfh_get_param_size_def
  parse_feature_irqs_def feature_irq_range_def in_range_def find_param_def find_param_from.simps
  dfh_id_def dfh_revision_def dfh_next_ofst_def dfh_eol_def dfh_version_def dfh_type_def field_get_def

theorem created_feature_in_region_witness:
  "\<exists>fi. create_feature_instance (env0 (\<lambda>_. 0x3000010010000012)) (bi0 0x80000 0x4000 FME_ID) 0x2000 0 0
          = Some (None, appended (bi0 0x80000 0x4000 FME_ID) fi) \<and> fi_res_start fi = 0x82000 \<and>
     (absolute_csr (env0 (\<lambda>_. 0x3000010010000012)) (bi0 0x80000 0x4000 FME_ID) 0x2000 fi \<or>
      resource_in_region (bi0 0x80000 0x4000 FME_ID) fi)"
proof -
  let ?env = "env0 (\<lambda>_. 0x3000010010000012)" and ?bi = "bi0 0x80000 0x4000 FME_ID"
  have "create_feature_instance ?env ?bi 0x2000 0 0 = Some (None, appended ?bi
      \<lparr>fi_fid = 0x12, fi_revision = 0, fi_dfh_version = 0, fi_guid = guid_null, fi_res_start = 0x82000,
       fi_res_end = 0x82fff, fi_irq_base = 0, fi_nr_irqs = 0, fi_param_size = 0, fi_params = []\<rparr>)"
    by (simp add: dfl_eval env0_def bi0_def info0_def binfo_init_def appended_def)
  moreover from created_feature_in_region [OF this]
  have "absolute_csr ?env ?bi 0x2000 \<lparr>fi_fid = 0x12, fi_revision = 0, fi_dfh_version = 0, fi_guid = guid_null,
         fi_res_start = 0x82000, fi_res_end = 0x82fff, fi_irq_base = 0, fi_nr_irqs = 0, fi_param_size = 0,
         fi_params = []\<rparr> \<or>
       resource_in_region ?bi \<lparr>fi_fid = 0x12, fi_revision = 0, fi_dfh_version = 0, fi_guid = guid_null,
         fi_res_start = 0x82000, fi_res_end = 0x82fff, fi_irq_base = 0, fi_nr_irqs = 0, fi_param_size = 0,
         fi_params = []\<rparr>"
    by (simp add: bi0_def binfo_init_def info0_def)
  ultimately show ?thesis by fastforce
qed

lemmas dfl_enum_eval = dfl_eval
  dfl_fpga_feature_devs_enumerate_def parse_feature_list_def parse_list_loop.simps parse_feature_def
  parse_feature_fiu_def parse_fiu_header_def parse_feature_private_def parse_feature_afu_def
  parse_feature_port_afu_def build_info_prepare_def build_info_complete_def build_info_commit_dev_def
  binfo_create_feature_dev_data_def fill_feature_def is_header_feature_def feature_dev_register_def
  dfh_id_to_type_def feature_zero_def env0_def info0_def binfo_init_def

text \<open>
  The child AFU of a port is not confined to the port's region: the check
  \<^verbatim>\<open>binfo->len - ofst < size\<close> wraps when the \<^verbatim>\<open>NEXT_AFU\<close> offset is past the end of the region.
  Enumerating a port of 16 KB whose \<^verbatim>\<open>NEXT_AFU\<close> register points 1 MB ahead registers a port device
  whose AFU resource lies entirely outside the region.
\<close>

theorem next_afu_escapes_region:
  "\<exists>cdev port. dfl_fpga_feature_devs_enumerate
       (env0 (\<lambda>a. if a = 0x80000 then 0x4000010010000001 else if a = 0x80018 then 0x100000
                   else if a = 0x80030 then 0x4000 else 0))
       (info0 [(0x80000, 0x4000)]) (\<lambda>_. []) = Some (Inr cdev) \<and>
     port_dev_list cdev = [port] \<and> map ft_id (features port) = [FEATURE_ID_FIU_HEADER, FEATURE_ID_AFU] \<and>
     resources port = [(0x180000, 0x18ffff)]"
  by (simp add: dfl_enum_eval)

text \<open>
  The feature count is not reset between device feature lists: a list that starts with a version 1
  private feature keeps counting from the previous list, so the feature device it yields
  announces features that were never found (their entries are zeroed).
\<close>

theorem feature_count_carried_over:
  "\<exists>cdev priv. dfl_fpga_feature_devs_enumerate
       (env0 (\<lambda>a. if a = 0x80000 then 0x4000010010000000 else if a = 0x90000 then 0x3010010010000020 else 0))
       (info0 [(0x80000, 0x1000), (0x90000, 0x1000)]) (\<lambda>_. []) = Some (Inr cdev) \<and>
     priv_feat_dev_list cdev = [priv] \<and> fd_num priv = 2 \<and>
     map ft_id (features priv) = [0x20, 0] \<and> resources priv = [(0x90000, 0x90000)]"
  by (simp add: dfl_enum_eval)

section \<open>Interrupts\<close>

lemma irq_slice:
  assumes "unat ibase + unat inr \<le> length tbl" and "unat ibase + unat inr < 2 ^ 32"
  shows "map (\<lambda>i. irq_at env tbl (ibase + of_nat i)) [0..<unat inr] = take (unat inr) (drop (unat ibase) tbl)"
proof (rule nth_equalityI)
  fix i assume "i < length (map (\<lambda>i. irq_at env tbl (ibase + of_nat i)) [0..<unat inr])"
  then have i: "i < unat inr" by simp
  then have "unat (ibase + of_nat i) = unat ibase + i"
    using assms(2) by (simp add: unsigned_of_nat unat_word_ariths take_bit_nat_eq_self)
  with i assms(1) show "map (\<lambda>i. irq_at env tbl (ibase + of_nat i)) [0..<unat inr] ! i
      = take (unat inr) (drop (unat ibase) tbl) ! i"
    by (simp add: irq_at_def)
qed (use assms(1) in simp)

text \<open>
  C13. The interrupts of a feature. When its first vector and its number of vectors have a sum below
  \<open>2 ^ 32\<close>, the feature is accepted exactly if they all lie in the interrupt table and each entry is a valid
  Linux interrupt number; a feature that claims no vector is always accepted. A sum that wraps around is
  accepted whatever it claims: \<open>irq_bound_wraps\<close> below.
\<close>

theorem parse_feature_irqs_exact:
  assumes "feature_irq_range env bi ofst fi = (ibase, inr)" and "unat ibase + unat inr < 2 ^ 32"
    and "length (bi_irq_table bi) = unat (bi_nr_irqs bi)"
  shows "parse_feature_irqs env bi ofst fi =
     (if inr = 0 then Inr (fi\<lparr>fi_irq_base := 0, fi_nr_irqs := 0\<rparr>)
      else if unat ibase + unat inr \<le> unat (bi_nr_irqs bi) \<and>
              (\<forall>virq \<in> set (take (unat inr) (drop (unat ibase) (bi_irq_table bi))). 0 \<le> virq \<and> virq \<le> nr_irqs_max env)
      then Inr (fi\<lparr>fi_irq_base := ibase, fi_nr_irqs := inr\<rparr>) else Inl EINVAL)"
proof -
  have s: "unat (ibase + inr) = unat ibase + unat inr"
    using assms(2) by (simp add: unat_word_ariths)
  have "list_ex (\<lambda>i. let virq = irq_at env (bi_irq_table bi) (ibase + of_nat i)
                     in virq < 0 \<or> virq > nr_irqs_max env) [0..<unat inr] \<longleftrightarrow>
        \<not> (\<forall>virq \<in> set (take (unat inr) (drop (unat ibase) (bi_irq_table bi))). 0 \<le> virq \<and> virq \<le> nr_irqs_max env)"
    if "unat ibase + unat inr \<le> unat (bi_nr_irqs bi)"
    using irq_slice [of ibase inr "bi_irq_table bi" env, symmetric] that assms(2,3)
    by (auto simp: list_ex_iff Let_def not_le)
  then show ?thesis
    using assms(1) s by (auto simp: parse_feature_irqs_def word_less_nat_alt not_le)
qed

theorem parse_feature_irqs_exact_witness:
  "parse_feature_irqs (env0 (\<lambda>a. if a = 0x8 then 0x1002 else 0))
     ((bi0 0 0x1000 PORT_ID)\<lparr>bi_nr_irqs := 4, bi_irq_table := [10, 11, 12, 13]\<rparr>) 0
     \<lparr>fi_fid = PORT_FEATURE_ID_UINT, fi_revision = 0, fi_dfh_version = 0, fi_guid = guid_null, fi_res_start = 0,
      fi_res_end = 0xfff, fi_irq_base = 0, fi_nr_irqs = 0, fi_param_size = 0, fi_params = []\<rparr>
   = Inr \<lparr>fi_fid = PORT_FEATURE_ID_UINT, fi_revision = 0, fi_dfh_version = 0, fi_guid = guid_null, fi_res_start = 0,
      fi_res_end = 0xfff, fi_irq_base = 1, fi_nr_irqs = 2, fi_param_size = 0, fi_params = []\<rparr>"
  by (subst parse_feature_irqs_exact [where ibase = 1 and inr = 2])
    (simp_all add: feature_irq_range_def bi0_def binfo_init_def info0_def env0_def field_get_def)

text \<open>
  The bound on the vectors is computed in 32 bits: a version 1 feature that claims one vector
  starting at \<^verbatim>\<open>0xffffffff\<close> passes it on a device without any interrupt, and the interrupt number
  is then taken from far outside the table.
\<close>

theorem irq_bound_wraps:
  "feature_irq_range env bi ofst (fi\<lparr>fi_dfh_version := 1, fi_param_size := 16,
       fi_params := [0x1100000001, 0x1ffffffff]\<rparr>) = (0xffffffff, 1) \<and>
   parse_feature_irqs (env0 dev) (bi0 start len type) ofst
     (fi\<lparr>fi_dfh_version := 1, fi_param_size := 16, fi_params := [0x1100000001, 0x1ffffffff]\<rparr>) =
   Inr (fi\<lparr>fi_dfh_version := 1, fi_param_size := 16, fi_params := [0x1100000001, 0x1ffffffff],
          fi_irq_base := 0xffffffff, fi_nr_irqs := 1\<rparr>)"
  by (simp add: dfl_eval param_id_of_def param_eop_def param_next_def env0_def bi0_def binfo_init_def info0_def
      irq_at_def)

text \<open>
  An MSI-X parameter block of one word, the header alone, makes \<^verbatim>\<open>parse_feature_irqs\<close> read the
  vectors from the word after the parameters it copied.
\<close>

theorem msix_read_past_params:
  "feature_irq_range env bi ofst (fi\<lparr>fi_dfh_version := 1, fi_param_size := 8, fi_params := [0x900000001]\<rparr>) =
     (ucast (field_get 31 0 (oob_param env)), ucast (field_get 63 32 (oob_param env)))"
  by (simp add: feature_irq_range_def find_param_def find_param_from.simps param_id_of_def field_get_def Let_def)

section \<open>Committing a feature device\<close>

text \<open>What the entry of the features array keeps of the collected feature.\<close>

definition feature_matches :: "dfl_env \<Rightarrow> int list \<Rightarrow> dfl_feature_info \<Rightarrow> dfl_feature \<Rightarrow> bool" where
  "feature_matches env tbl fi f \<longleftrightarrow>
     ft_id f = fi_fid fi \<and> ft_revision f = fi_revision fi \<and> ft_dfh_version f = fi_dfh_version fi \<and>
     ft_param_size f = fi_param_size fi \<and> ft_nr_irqs f = fi_nr_irqs fi \<and>
     map ctx_irq (ft_irq_ctx f) = map (\<lambda>i. irq_at env tbl (fi_irq_base fi + of_nat i)) [0..<unat (fi_nr_irqs fi)] \<and>
     (ft_resource_index f = -1 \<longleftrightarrow> fi_fid fi = FEATURE_ID_FIU_HEADER)"

text \<open>The resource a feature refers to by its index.\<close>

definition refers_to :: "(u64 \<times> u64) list \<Rightarrow> dfl_feature \<Rightarrow> dfl_feature_info \<Rightarrow> bool" where
  "refers_to rs f fi \<longleftrightarrow> ft_resource_index f = -1 \<or>
     (0 \<le> ft_resource_index f \<and> nat (ft_resource_index f) < length rs \<and>
      rs ! nat (ft_resource_index f) = (fi_res_start fi, fi_res_end fi))"

lemma fill_feature_ok:
  assumes "fill_feature env tbl fi n = Inr f"
  shows "feature_matches env tbl fi f \<and> ft_resource_index f = (if is_header_feature f then -1 else int n) \<and>
     (is_header_feature f \<longleftrightarrow> fi_fid fi = FEATURE_ID_FIU_HEADER) \<and> \<not> ft_dev f"
  using assms
  by (auto simp: fill_feature_def Let_def feature_matches_def is_header_feature_def feature_zero_def comp_def
      split: if_splits sum.splits)

lemma refers_to_append: "refers_to rs f fi \<Longrightarrow> refers_to (rs @ rs') f fi"
  by (auto simp: refers_to_def nth_append)

lemma fill_features_ok:
  assumes "fill_features env tbl fis fs rs = Inr (fs', rs')"
  shows "\<exists>new res. fs' = fs @ new \<and> rs' = rs @ res \<and> list_all2 (feature_matches env tbl) fis new \<and>
     list_all2 (refers_to rs') new fis \<and>
     res = map (\<lambda>fi. (fi_res_start fi, fi_res_end fi)) (filter (\<lambda>fi. fi_fid fi \<noteq> FEATURE_ID_FIU_HEADER) fis)"
  using assms
proof (induction fis arbitrary: fs rs)
  case (Cons fi fis)
  then obtain f where f: "fill_feature env tbl fi (length rs) = Inr f"
    and rest: "fill_features env tbl fis (fs @ [f])
        (if is_header_feature f then rs else rs @ [(fi_res_start fi, fi_res_end fi)]) = Inr (fs', rs')"
    by (auto split: sum.splits)
  note ok = fill_feature_ok [OF f]
  from Cons.IH [OF rest] obtain new res where *: "fs' = (fs @ [f]) @ new"
    "rs' = (if is_header_feature f then rs else rs @ [(fi_res_start fi, fi_res_end fi)]) @ res"
    "list_all2 (feature_matches env tbl) fis new" "list_all2 (refers_to rs') new fis"
    "res = map (\<lambda>fi. (fi_res_start fi, fi_res_end fi)) (filter (\<lambda>fi. fi_fid fi \<noteq> FEATURE_ID_FIU_HEADER) fis)"
    by blast
  have "refers_to rs' f fi" using ok *(2) by (auto simp: refers_to_def nth_append)
  with ok * show ?case
    by (intro exI [of _ "f # new"]
        exI [of _ "(if is_header_feature f then [] else [(fi_res_start fi, fi_res_end fi)]) @ res"]) auto
qed simp

text \<open>
  C11. Committing a feature device. When \<^verbatim>\<open>binfo_create_feature_dev_data\<close> succeeds, entry for entry the
  first features of the array are the collected ones in their order, with the interrupt numbers
  taken from the table; the resources are those of the features other than the FIU header, each
  such feature's index designates its own resource, and no collected feature is left behind.
\<close>

theorem commit_keeps_features:
  assumes "binfo_create_feature_dev_data env bi = (Inr fd, bi')"
  shows "let n = length (bi_sub_features bi) in
     list_all2 (feature_matches env (bi_irq_table bi)) (bi_sub_features bi) (take n (features fd)) \<and>
     list_all2 (refers_to (resources fd)) (take n (features fd)) (bi_sub_features bi) \<and>
     resources fd = map (\<lambda>fi. (fi_res_start fi, fi_res_end fi))
        (filter (\<lambda>fi. fi_fid fi \<noteq> FEATURE_ID_FIU_HEADER) (bi_sub_features bi)) \<and>
     bi_sub_features bi' = []"
  using assms
  by (auto simp: binfo_create_feature_dev_data_def Let_def split: option.splits if_splits sum.splits
      dest!: fill_features_ok dest: list_all2_lengthD)

theorem commit_keeps_features_witness:
  "\<exists>fd bi'. let bi = appended (bi0 0 0x1000 FME_ID)
        \<lparr>fi_fid = 7, fi_revision = 0, fi_dfh_version = 0, fi_guid = guid_null, fi_res_start = 0, fi_res_end = 0xfff,
         fi_irq_base = 0, fi_nr_irqs = 0, fi_param_size = 0, fi_params = []\<rparr>
     in binfo_create_feature_dev_data (env0 (\<lambda>_. 0)) bi = (Inr fd, bi') \<and> resources fd = [(0, 0xfff)]"
proof -
  let ?bi = "appended (bi0 0 0x1000 FME_ID)
        \<lparr>fi_fid = 7, fi_revision = 0, fi_dfh_version = 0, fi_guid = guid_null, fi_res_start = 0, fi_res_end = 0xfff,
         fi_irq_base = 0, fi_nr_irqs = 0, fi_param_size = 0, fi_params = []\<rparr>"
  have "\<exists>fd bi'. binfo_create_feature_dev_data (env0 (\<lambda>_. 0)) ?bi = (Inr fd, bi')"
    by (simp add: dfl_enum_eval appended_def bi0_def)
  then obtain fd bi' where "binfo_create_feature_dev_data (env0 (\<lambda>_. 0)) ?bi = (Inr fd, bi')" by blast
  with commit_keeps_features [OF this] show ?thesis
    by (auto simp: Let_def appended_def bi0_def binfo_init_def info0_def)
qed

section \<open>Well-formed containers\<close>

text \<open>
  A registered feature device: its arrays have the announced sizes and every feature points back to
  the device. The container keeps each device under its own kind. While building, the collected
  features fit the arrays that will be allocated for them.
\<close>

definition fdata_ok :: "dfl_id_type \<Rightarrow> dfl_feature_dev_data \<Rightarrow> bool" where
  "fdata_ok type fd \<longleftrightarrow> fd_type fd = type \<and> fd_dev fd \<and> length (features fd) = fd_num fd \<and>
     length (resources fd) \<le> fd_num fd \<and> (\<forall>f \<in> set (features fd). ft_dev f) \<and> disable_count fd = 0 \<and>
     \<not> excl_open fd \<and> open_count fd = 0 \<and> fd_id fd = FEATURE_DEV_ID_UNUSED"

definition cdev_ok :: "dfl_fpga_cdev \<Rightarrow> bool" where
  "cdev_ok cdev \<longleftrightarrow> (\<forall>fd. fme_dev cdev = Some fd \<longrightarrow> fdata_ok FME_ID fd) \<and>
     (\<forall>fd \<in> set (port_dev_list cdev). fdata_ok PORT_ID fd) \<and>
     (\<forall>fd \<in> set (priv_feat_dev_list cdev). fdata_ok PRIV_FEAT_ID fd) \<and> released_port_num cdev = 0"

definition binfo_ok :: "binfo \<Rightarrow> bool" where
  "binfo_ok bi \<longleftrightarrow> length (bi_sub_features bi) \<le> bi_feature_num bi \<and> cdev_ok (bi_cdev bi)"

lemma binfo_ok_update [simp]:
  "binfo_ok (bi\<lparr>bi_type := t\<rparr>) = binfo_ok bi" "binfo_ok (bi\<lparr>bi_mapped := b\<rparr>) = binfo_ok bi"
  "binfo_ok (bi\<lparr>bi_start := s\<rparr>) = binfo_ok bi" "binfo_ok (bi\<lparr>bi_len := s\<rparr>) = binfo_ok bi"
  by (simp_all add: binfo_ok_def)

lemma binfo_ok_reset: "binfo_ok bi \<Longrightarrow> binfo_ok (bi\<lparr>bi_type := t, bi_feature_num := 0, bi_sub_features := []\<rparr>)"
  by (simp add: binfo_ok_def)

lemma binfo_ok_appended: "binfo_ok bi \<Longrightarrow> binfo_ok (appended bi fi)"
  by (simp add: binfo_ok_def appended_def)

lemma add_feature_instance_ok:
  "add_feature_instance env bi ofst sz fid revision ver ps = (ret, bi') \<Longrightarrow> binfo_ok bi \<Longrightarrow> binfo_ok bi'"
  by (erule add_feature_instance_cases) (auto intro: binfo_ok_appended)

lemma create_feature_instance_ok:
  "create_feature_instance env bi ofst sz fid = Some (ret, bi') \<Longrightarrow> binfo_ok bi \<Longrightarrow> binfo_ok bi'"
  by (auto simp: create_feature_instance_def Let_def split: if_splits option.splits sum.splits
      dest: add_feature_instance_ok)

lemma fill_features_rest:
  "fill_features env tbl fis fs rs = Inl (e, rest) \<Longrightarrow> length rest \<le> length fis"
  by (induction fis arbitrary: fs rs) (auto split: sum.splits intro: le_SucI)

lemma create_dev_data_cases:
  assumes "binfo_create_feature_dev_data env bi = (r, bi')"
  obtains (fail) e rest ids where "r = Inl e" "bi' = bi\<lparr>bi_ids := ids, bi_sub_features := rest\<rparr>"
      "length rest \<le> length (bi_sub_features bi)"
  | (filled) type pid ids fs rs where "bi_type bi = Some type"
      "fill_features env (bi_irq_table bi) (bi_sub_features bi) [] [] = Inr (fs, rs)"
      "r = Inr \<lparr>fd_dev = False, fd_type = type, fd_pdev_id = pid, fd_id = FEATURE_DEV_ID_UNUSED,
             disable_count = 0, excl_open = False, open_count = 0, fd_num = bi_feature_num bi,
             features = fs @ replicate (bi_feature_num bi - length fs) feature_zero, resources = rs\<rparr>"
      "bi' = bi\<lparr>bi_ids := ids, bi_sub_features := []\<rparr>"
proof -
  have fail0: thesis if "r = Inl e" "bi' = bi" for e
    using fail [of e "bi_sub_features bi" "bi_ids bi"] that by simp
  show thesis
    using assms
    by (auto simp: binfo_create_feature_dev_data_def Let_def split: option.splits if_splits sum.splits
        dest: fill_features_rest intro: fail0 fail filled)
qed

lemma create_dev_data_ok:
  assumes "binfo_create_feature_dev_data env bi = (r, bi')" and "binfo_ok bi"
  shows "binfo_ok bi' \<and> bi_cdev bi' = bi_cdev bi \<and> bi_type bi' = bi_type bi \<and>
     (\<forall>fd type. r = Inr fd \<longrightarrow> bi_type bi = Some type \<longrightarrow>
        fdata_ok type (fd\<lparr>fd_dev := True, features := map (\<lambda>f. f\<lparr>ft_dev := True\<rparr>) (features fd)\<rparr>))"
  using assms(1)
proof (cases rule: create_dev_data_cases)
  case (filled type pid ids fs rs)
  from fill_features_ok [OF filled(2)] have "length fs = length (bi_sub_features bi)"
    "length rs \<le> length (bi_sub_features bi)"
    by (auto dest: list_all2_lengthD)
  with filled assms(2) show ?thesis by (auto simp: binfo_ok_def fdata_ok_def)
qed (use assms(2) in \<open>auto simp: binfo_ok_def\<close>)

lemma build_info_commit_dev_ok:
  assumes "build_info_commit_dev env bi = (ret, bi')" and "binfo_ok bi"
  shows "binfo_ok bi'"
proof (cases "binfo_create_feature_dev_data env bi")
  case (Pair r bi1)
  note ok = create_dev_data_ok [OF Pair assms(2)]
  from Pair show ?thesis
  proof (cases rule: create_dev_data_cases)
    case (fail e rest ids)
    with assms Pair ok show ?thesis by (simp add: build_info_commit_dev_def)
  next
    case (filled type pid ids fs rs)
    let ?up = "\<lambda>fd. fd\<lparr>fd_dev := True, features := map (\<lambda>f. f\<lparr>ft_dev := True\<rparr>) (features fd)\<rparr>"
    from filled(3) obtain fd where r: "r = Inr fd" "fd_type fd = type" by simp
    from filled(1) r ok have fd: "fdata_ok type (?up fd)" by simp
    have cd: "cdev_ok (bi_cdev bi1)" "length (bi_sub_features bi1) \<le> bi_feature_num bi1" "bi_type bi1 = Some type"
      using ok filled(1) by (auto simp: binfo_ok_def)
    have "build_info_commit_dev env bi = (case feature_dev_register (platform_add env) fd of
        (Some e, _) \<Rightarrow> (Some e, bi1)
      | (None, fd) \<Rightarrow> (None, bi1\<lparr>bi_cdev :=
          (if type = PORT_ID then (bi_cdev bi1)\<lparr>port_dev_list := fd # port_dev_list (bi_cdev bi1)\<rparr>
           else if type = PRIV_FEAT_ID then (bi_cdev bi1)\<lparr>priv_feat_dev_list := fd # priv_feat_dev_list (bi_cdev bi1)\<rparr>
           else (bi_cdev bi1)\<lparr>fme_dev := Some fd\<rparr>), bi_type := None\<rparr>))"
      using Pair r cd(3) by (subst build_info_commit_dev_def) (auto simp: Let_def split: option.splits prod.splits)
    with assms(1) fd cd ok show ?thesis
      by (cases type; cases "platform_add env type (fd_pdev_id fd)")
        (auto simp: feature_dev_register_def r(2) binfo_ok_def cdev_ok_def)
  qed
qed

lemmas parse_ok = create_feature_instance_ok build_info_commit_dev_ok binfo_ok_reset

lemma parse_feature_afu_ok:
  "parse_feature_afu env bi ofst = Some (ret, bi') \<Longrightarrow> binfo_ok bi \<Longrightarrow> binfo_ok bi'"
  by (auto simp: parse_feature_afu_def parse_feature_port_afu_def Let_def
      split: option.splits dfl_id_type.splits dest: parse_ok)

lemma parse_fiu_header_ok:
  assumes "parse_fiu_header env bi = Some (ret, bi')" and "binfo_ok bi"
  shows "binfo_ok bi'"
  using assms by (auto simp: parse_fiu_header_def Let_def split: option.splits prod.splits if_splits
      intro: parse_feature_afu_ok binfo_ok_reset dest!: create_feature_instance_ok)

lemma commit_complete_ok:
  "build_info_commit_dev env (bi\<lparr>bi_mapped := b\<rparr>) = (ret, bi') \<Longrightarrow> binfo_ok bi \<Longrightarrow> binfo_ok bi'"
  using build_info_commit_dev_ok [of env "bi\<lparr>bi_mapped := b\<rparr>"] by simp

lemma build_info_prepare_ok:
  "build_info_prepare env start len bi = (ret, bi') \<Longrightarrow> binfo_ok bi \<Longrightarrow> binfo_ok bi'"
  by (auto simp: build_info_prepare_def split: if_splits)

lemma parse_feature_fiu_ok:
  assumes "parse_feature_fiu env bi ofst = Some (ret, bi')" and "binfo_ok bi"
  shows "binfo_ok bi'"
proof (cases "bi_type bi = None")
  case True
  with assms show ?thesis by (simp add: parse_feature_fiu_def parse_fiu_header_ok)
next
  case False
  obtain r1 bi1 where c: "build_info_commit_dev env (build_info_complete bi) = (r1, bi1)" by fastforce
  obtain r2 bi2 where p: "build_info_prepare env (bi_start bi1 + ofst) (bi_len bi1 - ofst) bi1 = (r2, bi2)" by fastforce
  have ok1: "binfo_ok bi1" using build_info_commit_dev_ok [OF c] assms(2) by (simp add: build_info_complete_def)
  from build_info_prepare_ok [OF p this] ok1 show ?thesis
    using assms(1) False c p
    by (cases r1; cases r2) (auto simp: parse_feature_fiu_def intro: parse_fiu_header_ok)
qed

lemma parse_feature_ok:
  assumes "parse_feature env bi ofst = Some (ret, bi')" and "binfo_ok bi"
  shows "binfo_ok bi'"
  using assms
  by (auto simp: parse_feature_def parse_feature_private_def Let_def split: if_splits
      intro: parse_feature_afu_ok parse_feature_fiu_ok create_feature_instance_ok)

lemma parse_list_loop_ok:
  assumes "parse_list_loop env start end bi = Some (ret, bi')" and "binfo_ok bi"
  shows "binfo_ok bi'"
proof -
  have "binfo_ok bi \<longrightarrow> binfo_ok (snd (ret, bi'))"
  proof (rule parse_list_loop.raw_induct [where P = "\<lambda>env start end bi r. binfo_ok bi \<longrightarrow> binfo_ok (snd r)",
        OF _ assms(1)], rule impI)
    fix f env start "end" bi r
    assume IH: "\<And>env start end bi r. f env start end bi = Some r \<Longrightarrow> binfo_ok bi \<longrightarrow> binfo_ok (snd r)"
      and ok: "binfo_ok bi"
      and eq: "(if start < end then
        if end - start < DFH_SIZE then Some (Some EINVAL, bi)
        else Option.bind (parse_feature env bi (start - bi_start bi)) (\<lambda>(ret, bi).
          if ret \<noteq> None then Some (ret, bi)
          else let v = rd env (bi_start bi + start - bi_start bi + DFH);
                   ofst = ucast (dfh_next_ofst v) :: u32
               in if dfh_eol v \<or> ofst = 0 then Some (None, bi)
                  else f env (start + ucast ofst) end bi)
      else Some (None, bi)) = Some r"
    from eq show "binfo_ok (snd r)"
      by (auto simp: Let_def ok split: if_splits bind_splits
          dest!: parse_feature_ok [OF _ ok] dest: IH [rule_format])
  qed
  with assms(2) show ?thesis by simp
qed

lemma parse_feature_list_ok:
  assumes "parse_feature_list env start len bi = Some (ret, bi')" and "binfo_ok bi"
  shows "binfo_ok bi'"
proof -
  obtain r1 bi1 where p: "build_info_prepare env start len bi = (r1, bi1)" by fastforce
  with assms build_info_prepare_ok [OF p] show ?thesis
    by (cases r1) (auto simp: parse_feature_list_def Let_def split: if_splits bind_splits
        dest!: parse_list_loop_ok dest: commit_complete_ok simp: build_info_complete_def)
qed

lemma parse_feature_lists_ok:
  "parse_feature_lists env dfls bi = Some (ret, bi') \<Longrightarrow> binfo_ok bi \<Longrightarrow> binfo_ok bi'"
proof (induction dfls arbitrary: bi)
  case (Cons d dfls)
  then show ?case
    by (cases d) (auto split: if_splits bind_splits dest: parse_feature_list_ok)
qed simp

text \<open>
  C1. Enumeration builds a well-formed container: every feature device it registers is filed under its
  own kind, its features array and its resources fit the announced number of features, all its
  features point back to it, and no port counts as released. In particular no entry is ever
  written behind the arrays, whatever the device's registers contain.
\<close>

theorem enumerate_well_formed:
  assumes "dfl_fpga_feature_devs_enumerate env info ids = Some (Inr cdev)"
  shows "cdev_ok cdev"
proof -
  have "binfo_ok (binfo_init info ids)"
    by (simp add: binfo_ok_def binfo_init_def cdev_ok_def)
  with assms show ?thesis
    by (auto simp: dfl_fpga_feature_devs_enumerate_def binfo_ok_def
        split: if_splits option.splits bind_splits dest!: parse_feature_lists_ok)
qed

theorem enumerate_well_formed_witness:
  "\<exists>cdev. dfl_fpga_feature_devs_enumerate (env0 (\<lambda>a. if a = 0x80000 then 0x4000010010000000 else 0))
       (info0 [(0x80000, 0x1000)]) (\<lambda>_. []) = Some (Inr cdev) \<and> fme_dev cdev \<noteq> None \<and> cdev_ok cdev"
proof -
  have "\<exists>cdev. dfl_fpga_feature_devs_enumerate (env0 (\<lambda>a. if a = 0x80000 then 0x4000010010000000 else 0))
       (info0 [(0x80000, 0x1000)]) (\<lambda>_. []) = Some (Inr cdev) \<and> fme_dev cdev \<noteq> None"
    by (simp add: dfl_enum_eval)
  with enumerate_well_formed show ?thesis by blast
qed

end
