(* ===== verification/Dfl_Enum_Term.thy ===== *)
theory Dfl_Enum_Term
  imports Dfl_Enum_Props
begin

unbundle bit_operations_syntax

text \<open>
  Enumeration returns. The walks over device memory end on a device whose headers make progress, and
  the list walk moves forward inside its region. The region of the FIU being parsed always ends
  where the list ends.
\<close>

section \<open>Devices that make progress\<close>

text \<open>
  \<open>H\<close> holds the headers of the lists, \<open>S\<close> the headers of the parameter blocks of the version 1
  features among them.
\<close>

definition good_device :: "mmio \<Rightarrow> u64 set \<Rightarrow> u64 set \<Rightarrow> bool" where
  "good_device dev H S \<longleftrightarrow> header_chain dev H \<and> param_blocks dev S \<and>
     (\<forall>x \<in> H. ucast (dfh_version (dev x)) = (1 :: u8) \<longrightarrow> x + DFHv1_PARAM_HDR \<in> S)"

lemma dfh_get_param_size_total:
  assumes "good_device dev H S" and "base + DFHv1_PARAM_HDR \<in> S" and "unat maxsz \<le> 2 ^ 30"
  shows "\<exists>r. dfh_get_param_size dev base maxsz = Some r"
  using dfh_param_size_loop_total [of dev S maxsz 0 base] assms
  by (auto simp: dfh_get_param_size_def good_device_def)

section \<open>The region being parsed\<close>

text \<open>The region reaches to the end of the list and is at most half a gigabyte.\<close>

definition region_at :: "u64 \<Rightarrow> binfo \<Rightarrow> bool" where
  "region_at e bi \<longleftrightarrow> unat (bi_start bi) + unat (bi_len bi) = unat e \<and> unat (bi_len bi) \<le> 2 ^ 29 \<and>
     unat e + 2 ^ 32 \<le> 2 ^ 64"

definition same_region :: "binfo \<Rightarrow> binfo \<Rightarrow> bool" where
  "same_region bi bi' \<longleftrightarrow> bi_start bi' = bi_start bi \<and> bi_len bi' = bi_len bi"

lemma same_region_at: "same_region bi bi' \<Longrightarrow> region_at e bi' = region_at e bi"
  by (simp add: same_region_def region_at_def)

lemma create_feature_instance_region:
  "create_feature_instance env bi ofst sz fid = Some (ret, bi') \<Longrightarrow> same_region bi bi'"
  by (auto simp: create_feature_instance_def Let_def same_region_def appended_def
      split: if_splits option.splits sum.splits elim!: add_feature_instance_cases)

lemma parse_feature_afu_region:
  "parse_feature_afu env bi ofst = Some (ret, bi') \<Longrightarrow> same_region bi bi'"
  by (auto simp: parse_feature_afu_def parse_feature_port_afu_def Let_def same_region_def
      split: option.splits dfl_id_type.splits dest: create_feature_instance_region)

lemma build_info_commit_dev_region:
  assumes "build_info_commit_dev env bi = (ret, bi')"
  shows "same_region bi bi'"
proof (cases "binfo_create_feature_dev_data env bi")
  case (Pair r bi1)
  then have "same_region bi bi1"
    by (auto elim!: create_dev_data_cases simp: same_region_def)
  with assms Pair show ?thesis
    by (auto simp: build_info_commit_dev_def Let_def same_region_def split: sum.splits prod.splits option.splits)
qed


section \<open>Every step returns\<close>

lemma create_feature_instance_returns:
  assumes "good_device (rd env) H S" and "region_at e bi" and "unat ofst \<le> unat (bi_len bi)"
    and "bi_start bi + ofst \<in> H"
  shows "\<exists>ret bi'. create_feature_instance env bi ofst 0 fid = Some (ret, bi')"
proof -
  have a: "unat (bi_start bi + ofst) = unat (bi_start bi) + unat ofst"
    using assms(2,3) by (subst unat_add_lem [THEN iffD1]) (auto simp: region_at_def)
  have l: "unat (bi_start bi + bi_len bi) = unat e"
    using assms(2) by (subst unat_add_lem [THEN iffD1]) (auto simp: region_at_def)
  have "unat (bi_start bi + ofst) + 2 ^ 32 \<le> 2 ^ 64"
    "unat (bi_start bi + bi_len bi) \<le> unat (bi_start bi + ofst) + 2 ^ 29"
    using assms(2,3) a l by (auto simp: region_at_def)
  with feature_size_total [of "rd env" H "bi_start bi + ofst"] assms(1,4)
  obtain s where s: "feature_size (rd env) (bi_start bi + ofst) (bi_start bi + bi_len bi)
      (rd env (bi_start bi + ofst)) = Some s" "unat s \<le> 2 ^ 30" by (auto simp: good_device_def)
  have "\<exists>r. dfh_get_param_size (rd env) (bi_start bi + ofst) (ucast s) = Some r"
    if "ucast (dfh_version (rd env (bi_start bi + ofst))) = (1 :: u8)"
    using dfh_get_param_size_total [OF assms(1)] that assms(1,4) s(2) by (auto simp: good_device_def)
  then show ?thesis
    using s(1) by (auto simp: create_feature_instance_def Let_def split: sum.splits intro: prod.exhaust)
qed

lemma parse_feature_afu_returns: "\<exists>ret bi'. parse_feature_afu env bi ofst = Some (ret, bi')"
  by (auto simp: parse_feature_afu_def parse_feature_port_afu_def create_feature_instance_def Let_def
      split: option.splits dfl_id_type.splits intro: prod.exhaust)

lemma parse_fiu_header_returns:
  assumes "good_device (rd env) H S" and "region_at e bi" and "bi_start bi \<in> H"
  shows "\<exists>ret bi'. parse_fiu_header env bi = Some (ret, bi') \<and> same_region bi bi'"
proof (cases "dfh_id_to_type (ucast (dfh_id (rd env (bi_start bi + DFH))))")
  case None
  then show ?thesis by (simp add: parse_fiu_header_def same_region_def)
next
  case (Some type)
  let ?bi = "bi\<lparr>bi_type := Some type, bi_feature_num := 0, bi_sub_features := []\<rparr>"
  have "region_at e ?bi" using assms(2) by (simp add: region_at_def)
  then obtain r1 bi1 where c: "create_feature_instance env ?bi 0 0 0 = Some (r1, bi1)"
    using create_feature_instance_returns [OF assms(1), of e ?bi 0 0] assms(3) by auto
  then have s1: "same_region ?bi bi1" by (rule create_feature_instance_region)
  obtain r2 bi2 where p: "parse_feature_afu env bi1
      (ucast (ucast (field_get 23 0 (rd env (bi_start bi1 + NEXT_AFU))) :: u32)) = Some (r2, bi2)"
    using parse_feature_afu_returns by blast
  then have "same_region bi1 bi2" by (rule parse_feature_afu_region)
  with Some c s1 p show ?thesis
    by (cases r1) (auto simp: parse_fiu_header_def Let_def same_region_def)
qed

text \<open>One step of the walk leaves the region alone or moves its start to the current header.\<close>

lemma parse_feature_fiu_returns:
  assumes "good_device (rd env) H S" and "region_at e bi" and "unat ofst \<le> unat (bi_len bi)"
    and "bi_start bi \<in> H" and "bi_start bi + ofst \<in> H"
  shows "\<exists>ret bi'. parse_feature_fiu env bi ofst = Some (ret, bi') \<and> region_at e bi' \<and>
     unat (bi_start bi') \<le> unat (bi_start bi) + unat ofst \<and> bi_start bi' \<in> H"
proof (cases "bi_type bi = None")
  case True
  from parse_fiu_header_returns [OF assms(1,2,4)] True assms(2,4) show ?thesis
    by (auto simp: parse_feature_fiu_def region_at_def same_region_def)
next
  case False
  obtain r1 bi1 where c: "build_info_commit_dev env (build_info_complete bi) = (r1, bi1)" by fastforce
  then have s1: "bi_start bi1 = bi_start bi" "bi_len bi1 = bi_len bi"
    using build_info_commit_dev_region [OF c] by (simp_all add: same_region_def build_info_complete_def)
  then have at1: "region_at e bi1" using assms(2) by (simp add: region_at_def)
  obtain r2 bi2 where p: "build_info_prepare env (bi_start bi1 + ofst) (bi_len bi1 - ofst) bi1 = (r2, bi2)" by fastforce
  have a: "unat (bi_start bi + ofst) = unat (bi_start bi) + unat ofst"
    using assms(2,3) by (subst unat_add_lem [THEN iffD1]) (auto simp: region_at_def)
  have d: "unat (bi_len bi - ofst) = unat (bi_len bi) - unat ofst"
    using assms(3) by (simp add: unat_sub word_le_nat_alt)
  have at2: "region_at e bi2 \<and> unat (bi_start bi2) \<le> unat (bi_start bi) + unat ofst \<and> bi_start bi2 \<in> H"
    using p s1 at1 a d assms(2-5) by (auto simp: build_info_prepare_def region_at_def split: if_splits)
  obtain r3 bi3 where h: "parse_fiu_header env bi2 = Some (r3, bi3)" "same_region bi2 bi3"
    using parse_fiu_header_returns [OF assms(1)] at2 by blast
  from False c p h at1 at2 s1 same_region_at [OF h(2)] assms(4) show ?thesis
    by (cases r1; cases r2) (auto simp: parse_feature_fiu_def same_region_def)
qed

lemma parse_feature_returns:
  assumes "good_device (rd env) H S" and "region_at e bi" and "unat ofst \<le> unat (bi_len bi)"
    and "bi_start bi \<in> H" and "bi_start bi + ofst \<in> H"
  shows "\<exists>ret bi'. parse_feature env bi ofst = Some (ret, bi') \<and> region_at e bi' \<and>
     unat (bi_start bi') \<le> unat (bi_start bi) + unat ofst \<and> bi_start bi' \<in> H"
proof -
  have "region_at e (bi\<lparr>bi_type := t\<rparr>)" for t using assms(2) by (simp add: region_at_def)
  then have priv: "\<exists>ret bi'. create_feature_instance env b ofst 0 0 = Some (ret, bi') \<and> same_region b bi'"
    if "b = bi \<or> b = bi\<lparr>bi_type := t\<rparr>" for b t
    using create_feature_instance_returns [OF assms(1), of e b ofst 0] assms(2-5) that
      create_feature_instance_region by fastforce
  have "\<exists>ret bi'. parse_feature_private env bi ofst = Some (ret, bi') \<and> same_region bi bi'"
    using priv [of bi] priv [of "bi\<lparr>bi_type := Some PRIV_FEAT_ID\<rparr>"]
    by (auto simp: parse_feature_private_def Let_def same_region_def)
  moreover obtain ret bi' where "parse_feature_afu env bi ofst = Some (ret, bi')" "same_region bi bi'"
    using parse_feature_afu_returns parse_feature_afu_region by blast
  ultimately show ?thesis
    using parse_feature_fiu_returns [OF assms] assms(2,4)
    by (auto simp: parse_feature_def Let_def region_at_def same_region_def)
qed


lemma parse_list_loop_returns:
  assumes "good_device (rd env) H S" and "region_at e bi" and "unat (bi_start bi) \<le> unat start"
    and "bi_start bi \<in> H" and "start \<in> H"
  shows "\<exists>ret bi'. parse_list_loop env start e bi = Some (ret, bi')"
  using assms(2-5)
proof (induction "unat e - unat start" arbitrary: start bi rule: less_induct)
  case less
  show ?case
  proof (cases "start < e \<and> \<not> e - start < DFH_SIZE")
    case False
    then show ?thesis by (subst parse_list_loop.simps) auto
  next
    case True
    then have lt: "unat start < unat e" by (simp add: word_less_nat_alt)
    have d: "unat (start - bi_start bi) = unat start - unat (bi_start bi)"
      using less.prems(2) by (simp add: unat_sub word_le_nat_alt)
    then have "unat (start - bi_start bi) \<le> unat (bi_len bi)"
      using lt less.prems(1,2) by (auto simp: region_at_def)
    from parse_feature_returns [OF assms(1) less.prems(1) this] d less.prems(2-4)
    obtain ret bi' where p: "parse_feature env bi (start - bi_start bi) = Some (ret, bi')"
      "region_at e bi'" "unat (bi_start bi') \<le> unat start" "bi_start bi' \<in> H" by auto
    let ?v = "rd env (bi_start bi' + start - bi_start bi' + DFH)"
    let ?o = "ucast (dfh_next_ofst ?v) :: u32"
    show ?thesis
    proof (cases "ret \<noteq> None \<or> dfh_eol ?v \<or> ?o = 0")
      case True
      with p \<open>start < e \<and> \<not> e - start < DFH_SIZE\<close> show ?thesis
        by (subst parse_list_loop.simps) (auto simp: Let_def)
    next
      case False
      have "unat ?o < 2 ^ 24" using unat_dfh_next_ofst [of ?v] by (simp add: unat_ucast_next)
      then have s: "unat (start + ucast ?o) = unat start + unat ?o"
        using lt p(2) by (subst unat_add_lem [THEN iffD1]) (auto simp: region_at_def unat_ucast_next)
      moreover have "0 < unat ?o" using False by (simp add: unat_gt_0)
      ultimately have "unat e - unat (start + ucast ?o) < unat e - unat start" using lt by linarith
      moreover have "start + ucast ?o \<in> H"
        using False less.prems(4) assms(1) by (auto simp: good_device_def header_chain_def)
      ultimately have "\<exists>ret b. parse_list_loop env (start + ucast ?o) e bi' = Some (ret, b)"
        using less.hyps [OF _ p(2) _ p(4)] p(3) s by simp
      with p(1) False \<open>start < e \<and> \<not> e - start < DFH_SIZE\<close> show ?thesis
        by (subst parse_list_loop.simps) (simp add: Let_def)
    qed
  qed
qed

lemma parse_feature_list_returns:
  assumes "good_device (rd env) H S" and "start \<in> H" and "unat len \<le> 2 ^ 29" and "unat start + unat len + 2 ^ 32 \<le> 2 ^ 64"
  shows "\<exists>ret bi'. parse_feature_list env start len bi = Some (ret, bi')"
proof (cases "build_info_prepare env start len bi")
  case (Pair r bi1)
  show ?thesis
  proof (cases r)
    case None
    have e: "unat (start + len) = unat start + unat len"
      using assms(4) by (subst unat_add_lem [THEN iffD1]) auto
    from Pair None have "bi_start bi1 = start" "bi_len bi1 = len"
      by (auto simp: build_info_prepare_def split: if_splits)
    then have "region_at (start + len) bi1" "unat (bi_start bi1) \<le> unat start" "bi_start bi1 \<in> H"
      using assms(2-4) e by (simp_all add: region_at_def)
    from parse_list_loop_returns [OF assms(1) this assms(2)] Pair None show ?thesis
      by (auto simp: parse_feature_list_def Let_def intro: prod.exhaust)
  qed (use Pair in \<open>auto simp: parse_feature_list_def\<close>)
qed

lemma parse_feature_lists_returns:
  assumes "good_device (rd env) H S" and "\<forall>(start, len) \<in> set dfls. start \<in> H \<and> unat len \<le> 2 ^ 29 \<and> unat start + unat len + 2 ^ 32 \<le> 2 ^ 64"
  shows "\<exists>ret bi'. parse_feature_lists env dfls bi = Some (ret, bi')"
  using assms(2)
proof (induction dfls arbitrary: bi)
  case (Cons d dfls)
  obtain start len where d: "d = (start, len)" by fastforce
  obtain ret bi' where "parse_feature_list env start len bi = Some (ret, bi')"
    using parse_feature_list_returns [OF assms(1)] Cons.prems d by fastforce
  with Cons d show ?case by auto
qed simp

text \<open>
  C8. Enumeration returns. When the headers reachable from the starts of the lists make progress (an
  interface header has an offset or ends the list) and the parameter blocks of the version 1
  features among them stay below half a gigabyte, enumerating lists of at most half a
  gigabyte each ends with a container or an error, whatever else the registers hold.
\<close>

theorem enumerate_returns:
  assumes "good_device (rd env) H S"
    and "\<forall>(start, len) \<in> set (ei_dfls info). start \<in> H \<and> unat len \<le> 2 ^ 29 \<and> unat start + unat len + 2 ^ 32 \<le> 2 ^ 64"
  shows "\<exists>r. dfl_fpga_feature_devs_enumerate env info ids = Some r"
proof -
  obtain ret bi' where "parse_feature_lists env (ei_dfls info) (binfo_init info ids) = Some (ret, bi')"
    using parse_feature_lists_returns [OF assms] by blast
  then show ?thesis
    by (auto simp: dfl_fpga_feature_devs_enumerate_def split: option.splits)
qed

theorem enumerate_returns_witness:
  "\<exists>r. dfl_fpga_feature_devs_enumerate
       (env0 (\<lambda>a. if a = 0x80000 then 0x4000000010000000 else if a = 0x81000 then 0x3010010010000020
                   else if a = 0x81028 then 0x1900000001 else 0xffffffffffffffff))
       (info0 [(0x80000, 0x4000)]) (\<lambda>_. []) = Some r"
  by (rule enumerate_returns [where H = "{0x80000, 0x81000}" and S = "{0x81028}"])
    (simp_all add: env0_def info0_def good_device_def header_chain_def param_blocks_def param_next_def param_eop_def
      dfh_type_def dfh_next_ofst_def dfh_eol_def dfh_version_def field_get_def)

end
