(* ===== verification/Dfl_Port.thy ===== *)
theory Dfl_Port
  imports Dfl_Types Dfl_Reg Dfl_Enum
begin

unbundle bit_operations_syntax

text \<open>
  Ports of a container device: the use counter of a feature device (\<^verbatim>\<open>drivers/fpga/dfl.h\<close>), the
  list of port operations and the lookup of a port by its id, releasing a port from the physical
  function and assigning it back, and switching released ports to VF access
  (\<^verbatim>\<open>drivers/fpga/dfl.c\<close>). A port is named by its position in \<^verbatim>\<open>port_dev_list\<close>.
\<close>

section \<open>The use counter\<close>

definition dfl_feature_dev_use_begin :: "bool \<Rightarrow> dfl_feature_dev_data \<Rightarrow> dfl_feature_dev_data ret" where
  "dfl_feature_dev_use_begin excl fd =
     (if excl_open fd then (Some EBUSY, fd)
      else if excl then
        if open_count fd \<noteq> 0 then (Some EBUSY, fd)
        else (None, fd\<lparr>excl_open := True, open_count := open_count fd + 1\<rparr>)
      else (None, fd\<lparr>open_count := open_count fd + 1\<rparr>))"

definition dfl_feature_dev_use_end :: "dfl_feature_dev_data \<Rightarrow> dfl_feature_dev_data" where
  "dfl_feature_dev_use_end fd =
     (let fd = fd\<lparr>excl_open := False\<rparr>
      in if open_count fd \<le> 0 then fd else fd\<lparr>open_count := open_count fd - 1\<rparr>)"

definition dfl_feature_dev_use_count :: "dfl_feature_dev_data \<Rightarrow> int" where
  "dfl_feature_dev_use_count fd = open_count fd"

section \<open>Port operations\<close>

text \<open>
  \<^verbatim>\<open>po_owner\<close> is \<open>None\<close> for operations without a module, else the module's reference count;
  \<^verbatim>\<open>po_live\<close> tells whether the module still hands out references.
\<close>

record dfl_fpga_port_ops =
  po_name :: string
  po_owner :: "int option"
  po_live :: bool
  po_get_id :: "(dfl_feature_dev_data \<Rightarrow> int) option"

definition pdev_name :: "dfl_id_type \<Rightarrow> string" where
  "pdev_name type = (case type of FME_ID \<Rightarrow> ''dfl-fme'' | PORT_ID \<Rightarrow> ''dfl-port'' | PRIV_FEAT_ID \<Rightarrow> ''dfl-priv-feat'')"

definition dfl_fpga_port_ops_get ::
  "dfl_feature_dev_data \<Rightarrow> dfl_fpga_port_ops list \<Rightarrow> nat option \<times> dfl_fpga_port_ops list" where
  "dfl_fpga_port_ops_get fd opsl =
     (case find (\<lambda>i. pdev_name (fd_type fd) = po_name (opsl ! i)) [0..<length opsl] of
        None \<Rightarrow> (None, opsl)
      | Some i \<Rightarrow>
          (case po_owner (opsl ! i) of
             None \<Rightarrow> (Some i, opsl)
           | Some n \<Rightarrow> if po_live (opsl ! i) then (Some i, opsl[i := (opsl ! i)\<lparr>po_owner := Some (n + 1)\<rparr>])
                        else (None, opsl)))"

definition dfl_fpga_port_ops_put :: "nat option \<Rightarrow> dfl_fpga_port_ops list \<Rightarrow> dfl_fpga_port_ops list" where
  "dfl_fpga_port_ops_put ops opsl =
     (case ops of
        None \<Rightarrow> opsl
      | Some i \<Rightarrow>
          (case po_owner (opsl ! i) of
             None \<Rightarrow> opsl
           | Some n \<Rightarrow> opsl[i := (opsl ! i)\<lparr>po_owner := Some (n - 1)\<rparr>]))"

definition dfl_fpga_port_ops_add :: "dfl_fpga_port_ops \<Rightarrow> dfl_fpga_port_ops list \<Rightarrow> dfl_fpga_port_ops list" where
  "dfl_fpga_port_ops_add ops opsl = opsl @ [ops]"

text \<open>\<^verbatim>\<open>list_del\<close> takes the entry itself out, here the one at position \<open>i\<close>.\<close>

definition dfl_fpga_port_ops_del :: "nat \<Rightarrow> dfl_fpga_port_ops list \<Rightarrow> dfl_fpga_port_ops list" where
  "dfl_fpga_port_ops_del i opsl = take i opsl @ drop (Suc i) opsl"

section \<open>Finding a port\<close>

text \<open>\<^verbatim>\<open>dfl_fpga_check_port_id\<close>; the id is read from the device once and remembered.\<close>

definition dfl_fpga_check_port_id ::
  "int \<Rightarrow> dfl_feature_dev_data \<Rightarrow> dfl_fpga_port_ops list \<Rightarrow> bool \<times> dfl_feature_dev_data \<times> dfl_fpga_port_ops list" where
  "dfl_fpga_check_port_id port_id fd opsl =
     (if fd_id fd \<noteq> FEATURE_DEV_ID_UNUSED then (fd_id fd = port_id, fd, opsl)
      else case dfl_fpga_port_ops_get fd opsl of
        (None, opsl) \<Rightarrow> (False, fd, opsl)
      | (Some i, opsl) \<Rightarrow>
          (case po_get_id (opsl ! i) of
             None \<Rightarrow> (False, fd, opsl)
           | Some get_id \<Rightarrow>
               let fd = fd\<lparr>fd_id := get_id fd\<rparr>
               in (fd_id fd = port_id, fd, dfl_fpga_port_ops_put (Some i) opsl)))"

text \<open>\<^verbatim>\<open>__dfl_fpga_cdev_find_port_data\<close> with that match function: the position of the port.\<close>

fun find_port_data ::
  "int \<Rightarrow> dfl_feature_dev_data list \<Rightarrow> dfl_fpga_port_ops list
   \<Rightarrow> nat option \<times> dfl_feature_dev_data list \<times> dfl_fpga_port_ops list" where
  "find_port_data port_id [] opsl = (None, [], opsl)"
| "find_port_data port_id (fd # fds) opsl =
     (case dfl_fpga_check_port_id port_id fd opsl of
        (True, fd, opsl) \<Rightarrow> (Some 0, fd # fds, opsl)
      | (False, fd, opsl) \<Rightarrow>
          (case find_port_data port_id fds opsl of
             (r, fds, opsl) \<Rightarrow> (map_option Suc r, fd # fds, opsl)))"

section \<open>Releasing and assigning\<close>

record port_state =
  ps_cdev :: dfl_fpga_cdev
  ps_ops :: "dfl_fpga_port_ops list"

definition cdev_find_port :: "int \<Rightarrow> port_state \<Rightarrow> nat option \<times> port_state" where
  "cdev_find_port port_id ps =
     (case find_port_data port_id (port_dev_list (ps_cdev ps)) (ps_ops ps) of
        (r, fds, opsl) \<Rightarrow> (r, ps\<lparr>ps_cdev := (ps_cdev ps)\<lparr>port_dev_list := fds\<rparr>, ps_ops := opsl\<rparr>))"

abbreviation port_at :: "port_state \<Rightarrow> nat \<Rightarrow> dfl_feature_dev_data" where
  "port_at ps i \<equiv> port_dev_list (ps_cdev ps) ! i"

definition set_port :: "nat \<Rightarrow> dfl_feature_dev_data \<Rightarrow> int \<Rightarrow> port_state \<Rightarrow> port_state" where
  "set_port i fd released ps =
     ps\<lparr>ps_cdev := (ps_cdev ps)\<lparr>port_dev_list := (port_dev_list (ps_cdev ps))[i := fd],
                                released_port_num := released\<rparr>\<rparr>"

definition dfl_fpga_cdev_release_port :: "int \<Rightarrow> port_state \<Rightarrow> port_state ret" where
  "dfl_fpga_cdev_release_port port_id ps =
     (case cdev_find_port port_id ps of
        (None, ps) \<Rightarrow> (Some ENODEV, ps)
      | (Some i, ps) \<Rightarrow>
          if \<not> fd_dev (port_at ps i) then (Some EBUSY, ps)
          else (case dfl_feature_dev_use_begin True (port_at ps i) of
                  (Some e, _) \<Rightarrow> (Some e, ps)
                | (None, fd) \<Rightarrow>
                    (None, set_port i (feature_dev_unregister fd) (released_port_num (ps_cdev ps) + 1) ps)))"

definition dfl_fpga_cdev_assign_port ::
  "(dfl_id_type \<Rightarrow> nat \<Rightarrow> errno option) \<Rightarrow> int \<Rightarrow> port_state \<Rightarrow> port_state ret" where
  "dfl_fpga_cdev_assign_port add port_id ps =
     (case cdev_find_port port_id ps of
        (None, ps) \<Rightarrow> (Some ENODEV, ps)
      | (Some i, ps) \<Rightarrow>
          if fd_dev (port_at ps i) then (Some EBUSY, ps)
          else (case feature_dev_register add (port_at ps i) of
                  (Some e, fd) \<Rightarrow> (Some e, set_port i fd (released_port_num (ps_cdev ps)) ps)
                | (None, fd) \<Rightarrow>
                    (None, set_port i (dfl_feature_dev_use_end fd) (released_port_num (ps_cdev ps) - 1) ps)))"

section \<open>SR-IOV access modes\<close>

definition dfl_get_feature_by_id :: "dfl_feature_dev_data \<Rightarrow> u16 \<Rightarrow> dfl_feature option" where
  "dfl_get_feature_by_id fd i = find (\<lambda>f. ft_id f = i) (take (fd_num fd) (features fd))"

text \<open>\<open>None\<close> is the NULL pointer, after a warning.\<close>

definition dfl_get_feature_ioaddr_by_id :: "dfl_feature_dev_data \<Rightarrow> u16 \<Rightarrow> u64 option" where
  "dfl_get_feature_ioaddr_by_id fd i = Option.bind (dfl_get_feature_by_id fd i) ft_ioaddr"

definition FME_HDR_PORT_OFST :: "int \<Rightarrow> u64" where
  "FME_HDR_PORT_OFST n = 0x38 + of_int n * 8"

text \<open>\<open>None\<close> as an outer result is the access through a NULL pointer.\<close>

definition config_port_access_mode :: "dfl_feature_dev_data option \<Rightarrow> bool \<Rightarrow> mmio \<Rightarrow> int \<Rightarrow> mmio option" where
  "config_port_access_mode fme is_vf m port_id =
     (case Option.bind fme (\<lambda>fd. dfl_get_feature_ioaddr_by_id fd FEATURE_ID_FIU_HEADER) of
        None \<Rightarrow> None
      | Some base \<Rightarrow>
          let v = m (base + FME_HDR_PORT_OFST port_id);
              v = field_set 55 55 (if is_vf then 1 else 0) v
          in Some (m(base + FME_HDR_PORT_OFST port_id := v)))"

text \<open>The loops over the released ports.\<close>

fun config_ports :: "dfl_feature_dev_data option \<Rightarrow> bool \<Rightarrow> dfl_feature_dev_data list \<Rightarrow> mmio \<Rightarrow> mmio option" where
  "config_ports fme is_vf [] m = Some m"
| "config_ports fme is_vf (fd # fds) m =
     (if fd_dev fd then config_ports fme is_vf fds m
      else Option.bind (config_port_access_mode fme is_vf m (fd_id fd)) (config_ports fme is_vf fds))"

definition dfl_fpga_cdev_config_ports_pf :: "dfl_fpga_cdev \<Rightarrow> mmio \<Rightarrow> mmio option" where
  "dfl_fpga_cdev_config_ports_pf cdev m = config_ports (fme_dev cdev) False (port_dev_list cdev) m"

definition dfl_fpga_cdev_config_ports_vf :: "dfl_fpga_cdev \<Rightarrow> int \<Rightarrow> mmio \<Rightarrow> mmio ret option" where
  "dfl_fpga_cdev_config_ports_vf cdev num_vfs m =
     (if port_dev_list cdev = [] then Some (None, m)
      else
        let port_count = length (filter (\<lambda>fd. \<not> fd_dev fd) (port_dev_list cdev))
        in if port_count \<noteq> 0 \<and> released_port_num cdev \<noteq> num_vfs then Some (Some EINVAL, m)
           else map_option (Pair None) (config_ports (fme_dev cdev) True (port_dev_list cdev) m))"

end
