(* ===== verification/Dfl_Port_Props.thy ===== *)
theory Dfl_Port_Props
  imports Dfl_Port Dfl_Enum_Props
begin

unbundle bit_operations_syntax

text \<open>
  Properties of ports: the contract of the use counter and what it gives its clients, the step
  relation of a container whose ports are opened, closed, released and assigned, with its
  invariant, and the effect of switching ports between PF and VF access.
\<close>

section \<open>The contract of a use counter\<close>

locale use_counter =
  fixes begin_use :: "bool \<Rightarrow> 's \<Rightarrow> 's ret" and end_use :: "'s \<Rightarrow> 's"
    and uses :: "'s \<Rightarrow> int" and exclusive :: "'s \<Rightarrow> bool"
  assumes begin_ok: "begin_use e s = (None, s') \<Longrightarrow>
      \<not> exclusive s \<and> uses s' = uses s + 1 \<and> exclusive s' = e \<and> (e \<longrightarrow> uses s = 0)"
    and begin_err: "begin_use e s = (Some err, s') \<Longrightarrow>
      s' = s \<and> err = EBUSY \<and> (exclusive s \<or> e \<and> uses s \<noteq> 0)"
    and end_ok: "0 < uses s \<Longrightarrow> uses (end_use s) = uses s - 1 \<and> \<not> exclusive (end_use s)"
begin

text \<open>The users of a counter, each marked exclusive or shared, agree with its state.\<close>

definition accounts :: "'s \<Rightarrow> bool list \<Rightarrow> bool" where
  "accounts s us \<longleftrightarrow> uses s = int (length us) \<and> (exclusive s \<longrightarrow> us = [True]) \<and> (True \<in> set us \<longrightarrow> exclusive s)"

lemma accounts_begin: "accounts s us \<Longrightarrow> begin_use e s = (None, s') \<Longrightarrow> accounts s' (e # us)"
  using begin_ok [of e s s'] by (auto simp: accounts_def)

lemma accounts_end: "accounts s (us @ u # vs) \<Longrightarrow> accounts (end_use s) (us @ vs)"
  using end_ok [of s] by (cases us; cases vs) (auto simp: accounts_def)

lemma exclusive_alone: "accounts s us \<Longrightarrow> True \<in> set us \<Longrightarrow> us = [True]"
  by (simp add: accounts_def)

lemma accounts_begin_iff:
  "accounts s us \<Longrightarrow> (\<exists>s'. begin_use e s = (None, s')) \<longleftrightarrow> True \<notin> set us \<and> (e \<longrightarrow> us = [])"
  using begin_ok begin_err by (cases "begin_use e s"; cases "fst (begin_use e s)") (fastforce simp: accounts_def)+

end

interpretation dev_use: use_counter dfl_feature_dev_use_begin dfl_feature_dev_use_end open_count excl_open
  by unfold_locales
    (auto simp: dfl_feature_dev_use_begin_def dfl_feature_dev_use_end_def Let_def split: if_splits)

section \<open>Finding a port\<close>

lemma check_port_id_frame:
  assumes "dfl_fpga_check_port_id pid fd opsl = (b, fd', opsl')"
  shows "\<exists>i. fd' = fd\<lparr>fd_id := i\<rparr>" and "b \<Longrightarrow> fd_id fd' = pid"
proof -
  have keep: "\<exists>i. fd = fd\<lparr>fd_id := i\<rparr>" by (rule exI [of _ "fd_id fd"]) simp
  show "\<exists>i. fd' = fd\<lparr>fd_id := i\<rparr>"
    using assms keep by (auto simp: dfl_fpga_check_port_id_def Let_def split: if_splits prod.splits option.splits)
  show "fd_id fd' = pid" if b
    using assms that by (auto simp: dfl_fpga_check_port_id_def Let_def split: if_splits prod.splits option.splits)
qed

text \<open>A lookup changes nothing of the ports but their remembered ids.\<close>

definition same_but_id :: "dfl_feature_dev_data \<Rightarrow> dfl_feature_dev_data \<Rightarrow> bool" where
  "same_but_id fd fd' \<longleftrightarrow> (\<exists>i. fd' = fd\<lparr>fd_id := i\<rparr>)"

lemma same_but_id_refl: "same_but_id fd fd"
  unfolding same_but_id_def by (rule exI [of _ "fd_id fd"]) simp

lemma same_but_id_fields:
  "same_but_id fd fd' \<Longrightarrow> fd_dev fd' = fd_dev fd \<and> excl_open fd' = excl_open fd \<and> open_count fd' = open_count fd"
  by (auto simp: same_but_id_def)

lemma find_port_data_frame:
  assumes "find_port_data pid fds opsl = (r, fds', opsl')"
  shows "list_all2 same_but_id fds fds' \<and> (\<forall>i. r = Some i \<longrightarrow> i < length fds' \<and> fd_id (fds' ! i) = pid)"
  using assms
proof (induction fds arbitrary: opsl r fds' opsl')
  case (Cons fd fds)
  obtain b fd1 opsl1 where c: "dfl_fpga_check_port_id pid fd opsl = (b, fd1, opsl1)" by (metis prod_cases3)
  note f = check_port_id_frame [OF c]
  show ?case
  proof (cases b)
    case True
    have "same_but_id fd fd1" using f(1) by (simp add: same_but_id_def)
    with True Cons.prems c f show ?thesis by (auto simp: list_all2_same same_but_id_refl)
  next
    case False
    obtain r1 fds1 opsl2 where rec: "find_port_data pid fds opsl1 = (r1, fds1, opsl2)" by (metis prod_cases3)
    from Cons.IH [OF rec] Cons.prems c rec False f show ?thesis by (auto simp: same_but_id_def)
  qed
qed simp


lemma cdev_find_port_frame:
  assumes "cdev_find_port pid ps = (r, ps')"
  shows "list_all2 same_but_id (port_dev_list (ps_cdev ps)) (port_dev_list (ps_cdev ps'))"
    and "released_port_num (ps_cdev ps') = released_port_num (ps_cdev ps)"
    and "fme_dev (ps_cdev ps') = fme_dev (ps_cdev ps)"
    and "r = Some i \<Longrightarrow> i < length (port_dev_list (ps_cdev ps')) \<and> fd_id (port_at ps' i) = pid"
  using assms find_port_data_frame
  by (auto simp: cdev_find_port_def split: prod.splits)

section \<open>Ports in use\<close>

text \<open>
  The container with its openers: \<open>us ! i\<close> lists the open files of port \<open>i\<close>, each exclusive or
  not. A file can be opened only while the port's device exists.
\<close>

inductive port_step :: "port_state \<times> bool list list \<Rightarrow> port_state \<times> bool list list \<Rightarrow> bool" where
  port_open: "i < length (port_dev_list (ps_cdev ps)) \<Longrightarrow> fd_dev (port_at ps i) \<Longrightarrow>
     dfl_feature_dev_use_begin excl (port_at ps i) = (None, fd) \<Longrightarrow>
     port_step (ps, us) (set_port i fd (released_port_num (ps_cdev ps)) ps, us[i := excl # us ! i])"
| port_close: "i < length (port_dev_list (ps_cdev ps)) \<Longrightarrow> us ! i = xs @ x # ys \<Longrightarrow>
     port_step (ps, us) (set_port i (dfl_feature_dev_use_end (port_at ps i)) (released_port_num (ps_cdev ps)) ps,
       us[i := xs @ ys])"
| port_release: "dfl_fpga_cdev_release_port pid ps = (ret, ps') \<Longrightarrow> port_step (ps, us) (ps', us)"
| port_assign: "dfl_fpga_cdev_assign_port add pid ps = (ret, ps') \<Longrightarrow> port_step (ps, us) (ps', us)"

text \<open>Releasing a port makes the framework its exclusive user; the device is gone exactly then.\<close>

definition port_ok :: "dfl_feature_dev_data \<Rightarrow> bool list \<Rightarrow> bool" where
  "port_ok fd us \<longleftrightarrow> dev_use.accounts fd (if fd_dev fd then us else True # us)"

definition port_inv :: "port_state \<times> bool list list \<Rightarrow> bool" where
  "port_inv = (\<lambda>(ps, us). list_all2 port_ok (port_dev_list (ps_cdev ps)) us \<and>
     released_port_num (ps_cdev ps) = int (length (filter (\<lambda>fd. \<not> fd_dev fd) (port_dev_list (ps_cdev ps)))))"

lemma accounts_cong:
  "open_count fd' = open_count fd \<Longrightarrow> excl_open fd' = excl_open fd \<Longrightarrow> dev_use.accounts fd' us = dev_use.accounts fd us"
  by (simp add: dev_use.accounts_def)

lemma port_ok_released: "port_ok fd us \<Longrightarrow> \<not> fd_dev fd \<Longrightarrow> us = [] \<and> excl_open fd \<and> open_count fd = 1"
  using dev_use.exclusive_alone [of fd "True # us"] by (simp add: port_ok_def dev_use.accounts_def)

lemma port_ok_users:
  assumes "port_ok fd us"
  shows "(\<not> fd_dev fd \<longrightarrow> us = [] \<and> excl_open fd) \<and> (fd_dev fd \<longrightarrow> open_count fd = int (length us)) \<and>
     (True \<in> set us \<longrightarrow> us = [True])"
  using assms port_ok_released [OF assms] by (cases "fd_dev fd") (auto simp: port_ok_def dev_use.accounts_def)

lemma list_all2_port_ok_same:
  assumes "list_all2 same_but_id fds fds'" and "list_all2 port_ok fds us"
  shows "list_all2 port_ok fds' us"
    and "length (filter (\<lambda>fd. \<not> fd_dev fd) fds') = length (filter (\<lambda>fd. \<not> fd_dev fd) fds)"
proof -
  have "port_ok fd' u" if "same_but_id fd fd'" "port_ok fd u" for fd fd' u
    using that same_but_id_fields [OF that(1)] accounts_cong [of fd' fd] by (simp add: port_ok_def)
  with assms show "list_all2 port_ok fds' us"
    by (fastforce simp: list_all2_conv_all_nth)
  show "length (filter (\<lambda>fd. \<not> fd_dev fd) fds') = length (filter (\<lambda>fd. \<not> fd_dev fd) fds)"
    using assms(1) by (induction rule: list_all2_induct) (auto dest: same_but_id_fields)
qed

lemma find_port_inv:
  assumes "cdev_find_port pid ps = (r, ps')" and "port_inv (ps, us)"
  shows "port_inv (ps', us)"
proof -
  note f = cdev_find_port_frame [OF assms(1)]
  have "list_all2 port_ok (port_dev_list (ps_cdev ps)) us" using assms(2) by (simp add: port_inv_def)
  from list_all2_port_ok_same [OF f(1) this] f(2) assms(2) show ?thesis by (simp add: port_inv_def)
qed

lemma length_filter_update:
  assumes "i < length xs"
  shows "int (length (filter P (xs[i := x]))) = int (length (filter P xs)) - of_bool (P (xs ! i)) + of_bool (P x)"
  using assms
proof (induction xs arbitrary: i)
  case (Cons a xs)
  then show ?case by (cases i) (simp_all add: Cons.IH)
qed simp

lemma set_port_inv:
  assumes "port_inv (ps, us)" and "i < length (port_dev_list (ps_cdev ps))" and "port_ok fd u"
    and "rel = released_port_num (ps_cdev ps) - of_bool (\<not> fd_dev (port_at ps i)) + of_bool (\<not> fd_dev fd)"
  shows "port_inv (set_port i fd rel ps, us[i := u])"
  using assms by (auto simp: port_inv_def set_port_def length_filter_update intro: list_all2_update_cong)


lemma port_inv_at:
  assumes "port_inv (ps, us)" and "i < length (port_dev_list (ps_cdev ps))"
  shows "port_ok (port_at ps i) (us ! i)" and "us[i := us ! i] = us"
  using assms by (auto simp: port_inv_def list_all2_conv_all_nth)

lemma release_port_inv:
  assumes "dfl_fpga_cdev_release_port pid ps = (ret, ps')" and "port_inv (ps, us)"
  shows "port_inv (ps', us)"
proof -
  obtain r ps1 where f: "cdev_find_port pid ps = (r, ps1)" by fastforce
  note inv = find_port_inv [OF f assms(2)]
  show ?thesis
  proof (cases "\<exists>i fd. r = Some i \<and> fd_dev (port_at ps1 i) \<and> dfl_feature_dev_use_begin True (port_at ps1 i) = (None, fd)")
    case False
    with assms(1) f have "ps' = ps1"
      by (auto simp: dfl_fpga_cdev_release_port_def split: option.splits if_splits prod.splits)
    with inv show ?thesis by simp
  next
    case True
    then obtain i fd where i: "r = Some i" "fd_dev (port_at ps1 i)"
      "dfl_feature_dev_use_begin True (port_at ps1 i) = (None, fd)" by blast
    have l: "i < length (port_dev_list (ps_cdev ps1))" using cdev_find_port_frame(4) [OF f i(1)] by simp
    have "dev_use.accounts (port_at ps1 i) (us ! i)" using port_inv_at(1) [OF inv l] i(2) by (simp add: port_ok_def)
    from dev_use.accounts_begin [OF this i(3)]
    have "port_ok (feature_dev_unregister fd) (us ! i)"
      using accounts_cong [of "feature_dev_unregister fd" fd] by (simp add: port_ok_def feature_dev_unregister_def)
    from set_port_inv [OF inv l this refl] i(1-3) assms(1) f port_inv_at(2) [OF inv l] show ?thesis
      by (simp add: dfl_fpga_cdev_release_port_def feature_dev_unregister_def)
  qed
qed

lemma register_fields:
  "feature_dev_register add fd = (r, fd') \<Longrightarrow>
     fd_dev fd' = (r = None) \<and> open_count fd' = open_count fd \<and> excl_open fd' = excl_open fd"
  by (auto simp: feature_dev_register_def split: option.splits)

lemma use_end_dev [simp]: "fd_dev (dfl_feature_dev_use_end fd) = fd_dev fd"
  by (simp add: dfl_feature_dev_use_end_def Let_def)

lemma assign_port_inv:
  assumes "dfl_fpga_cdev_assign_port add pid ps = (ret, ps')" and "port_inv (ps, us)"
  shows "port_inv (ps', us)"
proof -
  obtain r ps1 where f: "cdev_find_port pid ps = (r, ps1)" by fastforce
  note inv = find_port_inv [OF f assms(2)]
  show ?thesis
  proof (cases "\<exists>i. r = Some i \<and> \<not> fd_dev (port_at ps1 i)")
    case False
    with assms(1) f have "ps' = ps1"
      by (auto simp: dfl_fpga_cdev_assign_port_def split: option.splits if_splits)
    with inv show ?thesis by simp
  next
    case True
    then obtain i where i: "r = Some i" "\<not> fd_dev (port_at ps1 i)" by blast
    have l: "i < length (port_dev_list (ps_cdev ps1))" using cdev_find_port_frame(4) [OF f i(1)] by simp
    have acc: "dev_use.accounts (port_at ps1 i) ([] @ True # us ! i)"
      using port_inv_at(1) [OF inv l] i(2) by (simp add: port_ok_def)
    obtain e fd where reg: "feature_dev_register add (port_at ps1 i) = (e, fd)" by fastforce
    note fields = register_fields [OF reg]
    have acc': "dev_use.accounts fd ([] @ True # us ! i)" using acc accounts_cong [of fd "port_at ps1 i"] fields by simp
    show ?thesis
    proof (cases e)
      case None
      have "port_ok (dfl_feature_dev_use_end fd) (us ! i)"
        using dev_use.accounts_end [OF acc'] fields None by (simp add: port_ok_def)
      from set_port_inv [OF inv l this refl] i assms(1) f port_inv_at(2) [OF inv l] reg None fields show ?thesis
        by (simp add: dfl_fpga_cdev_assign_port_def)
    next
      case (Some err)
      have "port_ok fd (us ! i)" using acc' fields Some by (simp add: port_ok_def)
      from set_port_inv [OF inv l this refl] i assms(1) f port_inv_at(2) [OF inv l] reg Some fields show ?thesis
        by (simp add: dfl_fpga_cdev_assign_port_def)
    qed
  qed
qed

lemma use_begin_dev: "dfl_feature_dev_use_begin excl fd = (r, fd') \<Longrightarrow> fd_dev fd' = fd_dev fd"
  by (auto simp: dfl_feature_dev_use_begin_def split: if_splits)

lemma port_step_inv: "port_step s s' \<Longrightarrow> port_inv s \<Longrightarrow> port_inv s'"
proof (induction rule: port_step.induct)
  case (port_open i ps excl fd us)
  have "port_ok fd (excl # us ! i)"
    using dev_use.accounts_begin [OF _ port_open(3)] port_inv_at(1) [OF port_open(4,1)] port_open(2)
      use_begin_dev [OF port_open(3)] by (simp add: port_ok_def)
  from set_port_inv [OF port_open(4,1) this] port_open(2) use_begin_dev [OF port_open(3)] show ?case by simp
next
  case (port_close i ps us xs x ys)
  note ok = port_inv_at(1) [OF port_close(3,1)]
  then have d: "fd_dev (port_at ps i)" using port_ok_released port_close(2) by fastforce
  then have "port_ok (dfl_feature_dev_use_end (port_at ps i)) (xs @ ys)"
    using dev_use.accounts_end [of "port_at ps i" xs x ys] ok port_close(2) by (simp add: port_ok_def)
  from set_port_inv [OF port_close(3,1) this] d show ?case by simp
qed (auto intro: release_port_inv assign_port_inv)


lemma port_reach_inv: "port_step\<^sup>*\<^sup>* s s' \<Longrightarrow> port_inv s \<Longrightarrow> port_inv s'"
  by (induction rule: rtranclp_induct) (auto intro: port_step_inv)

lemma initial_port_inv:
  assumes "cdev_ok cdev"
  shows "port_inv (\<lparr>ps_cdev = cdev, ps_ops = opsl\<rparr>, replicate (length (port_dev_list cdev)) [])"
proof -
  have "port_ok fd []" if "fd \<in> set (port_dev_list cdev)" for fd
    using assms that by (simp add: cdev_ok_def fdata_ok_def port_ok_def dev_use.accounts_def)
  moreover have "filter (\<lambda>fd. \<not> fd_dev fd) (port_dev_list cdev) = []"
    using assms by (simp add: cdev_ok_def fdata_ok_def filter_empty_conv)
  ultimately show ?thesis
    using assms by (simp add: port_inv_def cdev_ok_def list_all2_conv_all_nth)
qed

text \<open>
  C7. Ports over time. Start from an enumerated container and let its ports be opened, closed,
  released and assigned back in any order: the released counter always is the number of ports
  without a device, a released port has no open file and stays reserved, and an exclusive
  open file of a port is its only one.
\<close>

theorem reachable_ports_consistent:
  assumes "cdev_ok cdev"
    and "port_step\<^sup>*\<^sup>* (\<lparr>ps_cdev = cdev, ps_ops = opsl\<rparr>, replicate (length (port_dev_list cdev)) []) (ps, us)"
  shows "released_port_num (ps_cdev ps) = int (length (filter (\<lambda>fd. \<not> fd_dev fd) (port_dev_list (ps_cdev ps)))) \<and>
     length us = length (port_dev_list (ps_cdev ps)) \<and>
     (\<forall>i < length us. (\<not> fd_dev (port_at ps i) \<longrightarrow> us ! i = [] \<and> excl_open (port_at ps i)) \<and>
        (fd_dev (port_at ps i) \<longrightarrow> open_count (port_at ps i) = int (length (us ! i))) \<and>
        (True \<in> set (us ! i) \<longrightarrow> us ! i = [True]))"
proof -
  have inv: "port_inv (ps, us)" by (rule port_reach_inv [OF assms(2) initial_port_inv [OF assms(1)]])
  moreover have "length us = length (port_dev_list (ps_cdev ps))"
    using inv by (auto simp: port_inv_def dest: list_all2_lengthD)
  moreover note users = port_ok_users [OF port_inv_at(1) [OF inv]]
  ultimately show ?thesis by (intro conjI allI impI) (use users in \<open>simp_all add: port_inv_def\<close>)
qed

text \<open>
  A port is released exactly when it is idle: once the lookup finds it, the release succeeds
  if and only if the port's device exists and nobody has it open; in every other case the
  answer is \<^verbatim>\<open>-EBUSY\<close> and no port changes.
\<close>

theorem release_port_iff_idle:
  assumes "port_inv (ps, us)" and "cdev_find_port pid ps = (Some i, ps1)"
  shows "dfl_fpga_cdev_release_port pid ps =
     (if fd_dev (port_at ps1 i) \<and> us ! i = []
      then (None, set_port i (feature_dev_unregister ((port_at ps1 i)\<lparr>excl_open := True, open_count := 1\<rparr>))
                    (released_port_num (ps_cdev ps) + 1) ps1)
      else (Some EBUSY, ps1))"
proof -
  note inv = find_port_inv [OF assms(2,1)]
  have "i < length (port_dev_list (ps_cdev ps1))" using cdev_find_port_frame(4) [OF assms(2)] by simp
  from port_inv_at(1) [OF inv this] have ok: "port_ok (port_at ps1 i) (us ! i)" .
  have "\<not> excl_open (port_at ps1 i) \<and> open_count (port_at ps1 i) = 0 \<longleftrightarrow> us ! i = []" if "fd_dev (port_at ps1 i)"
    using ok that by (auto simp: port_ok_def dev_use.accounts_def)
  then show ?thesis
    using cdev_find_port_frame(2) [OF assms(2)] assms(2)
    by (auto simp: dfl_fpga_cdev_release_port_def dfl_feature_dev_use_begin_def)
qed

section \<open>Witnesses\<close>

definition port0 :: "int \<Rightarrow> dfl_feature_dev_data" where
  "port0 i = \<lparr>fd_dev = True, fd_type = PORT_ID, fd_pdev_id = 0, fd_id = i, disable_count = 0, excl_open = False,
     open_count = 0, fd_num = 0, features = [], resources = []\<rparr>"

definition cdev0 :: "dfl_feature_dev_data list \<Rightarrow> dfl_fpga_cdev" where
  "cdev0 ports = \<lparr>fme_dev = None, port_dev_list = ports, priv_feat_dev_list = [], released_port_num = 0\<rparr>"

definition ops0 :: "dfl_fpga_port_ops list" where
  "ops0 = [\<lparr>po_name = ''dfl-port'', po_owner = Some 0, po_live = True, po_get_id = Some (\<lambda>_. 3)\<rparr>]"

lemma cdev0_ok: "cdev_ok (cdev0 [port0 FEATURE_DEV_ID_UNUSED])"
  by (simp add: cdev_ok_def cdev0_def port0_def fdata_ok_def)

lemma find0: "cdev_find_port 3 \<lparr>ps_cdev = cdev0 [port0 FEATURE_DEV_ID_UNUSED], ps_ops = ops0\<rparr> =
   (Some 0, \<lparr>ps_cdev = cdev0 [port0 3], ps_ops = ops0\<rparr>)"
  by (simp add: cdev_find_port_def cdev0_def port0_def ops0_def dfl_fpga_check_port_id_def dfl_fpga_port_ops_get_def
      pdev_name_def dfl_fpga_port_ops_put_def)

theorem release_port_iff_idle_witness:
  "\<exists>ps'. dfl_fpga_cdev_release_port 3 \<lparr>ps_cdev = cdev0 [port0 FEATURE_DEV_ID_UNUSED], ps_ops = ops0\<rparr> = (None, ps') \<and>
     \<not> fd_dev (port_at ps' 0) \<and> released_port_num (ps_cdev ps') = 1"
  using release_port_iff_idle [OF initial_port_inv [OF cdev0_ok] find0]
  by (simp add: cdev0_def port0_def set_port_def feature_dev_unregister_def)

theorem reachable_ports_consistent_witness:
  "\<exists>ps us. port_step\<^sup>*\<^sup>* (\<lparr>ps_cdev = cdev0 [port0 FEATURE_DEV_ID_UNUSED], ps_ops = ops0\<rparr>, [[]]) (ps, us) \<and>
     \<not> fd_dev (port_at ps 0) \<and>
     released_port_num (ps_cdev ps) = int (length (filter (\<lambda>fd. \<not> fd_dev fd) (port_dev_list (ps_cdev ps))))"
proof -
  let ?ps = "\<lparr>ps_cdev = cdev0 [port0 FEATURE_DEV_ID_UNUSED], ps_ops = ops0\<rparr>"
  let ?fd = "feature_dev_unregister ((port0 3)\<lparr>excl_open := True, open_count := 1\<rparr>)"
  let ?ps' = "\<lparr>ps_cdev = (cdev0 [?fd])\<lparr>released_port_num := 1\<rparr>, ps_ops = ops0\<rparr>"
  have "dfl_fpga_cdev_release_port 3 ?ps = (None, ?ps')"
    unfolding dfl_fpga_cdev_release_port_def find0
    by (simp add: cdev0_def port0_def dfl_feature_dev_use_begin_def set_port_def)
  then have "port_step (?ps, [[]]) (?ps', [[]])" by (rule port_release)
  then have reach: "port_step\<^sup>*\<^sup>* (?ps, [[]]) (?ps', [[]])" by blast
  have "\<not> fd_dev (port_at ?ps' 0)" by (simp add: cdev0_def feature_dev_unregister_def)
  moreover have "replicate (length (port_dev_list (cdev0 [port0 FEATURE_DEV_ID_UNUSED]))) [] = [[]]"
    by (simp add: cdev0_def)
  moreover from reachable_ports_consistent [OF cdev0_ok] calculation(2) reach
  have "released_port_num (ps_cdev ?ps') = int (length (filter (\<lambda>fd. \<not> fd_dev fd) (port_dev_list (ps_cdev ?ps'))))"
    by metis
  ultimately have "released_port_num (ps_cdev ?ps') =
      int (length (filter (\<lambda>fd. \<not> fd_dev fd) (port_dev_list (ps_cdev ?ps')))) \<and> \<not> fd_dev (port_at ?ps' 0)"
    by blast
  with reach show ?thesis by blast
qed


section \<open>Access modes\<close>

lemma field_set_idem: "field_set hi lo x (field_set hi lo x v) = field_set hi lo x v"
  unfolding field_set_def by (rule bit_eqI) (auto simp: bit_simps)

text \<open>What the loop does to the FME's registers: it marks those of the released ports.\<close>

definition marked :: "u64 \<Rightarrow> bool \<Rightarrow> dfl_feature_dev_data list \<Rightarrow> mmio \<Rightarrow> mmio" where
  "marked base is_vf fds m =
     (\<lambda>a. if \<exists>fd \<in> set fds. \<not> fd_dev fd \<and> a = base + FME_HDR_PORT_OFST (fd_id fd)
          then field_set 55 55 (if is_vf then 1 else 0) (m a) else m a)"

lemma config_ports_marks:
  assumes "Option.bind fme (\<lambda>fd. dfl_get_feature_ioaddr_by_id fd FEATURE_ID_FIU_HEADER) = Some base"
  shows "config_ports fme is_vf fds m = Some (marked base is_vf fds m)"
proof (induction fds arbitrary: m)
  case (Cons fd fds)
  then show ?case
    using assms by (auto simp: config_port_access_mode_def Let_def marked_def fun_eq_iff field_set_idem)
qed (simp add: marked_def)

text \<open>
  C14. Switching released ports to VF access. With at least one released port, the request is refused
  with \<^verbatim>\<open>-EINVAL\<close> unless the number of VFs is the number of released ports; otherwise the
  access-control bit of each released port's register is set, every other bit of it and every
  other register keep their value. Without a released port any number of VFs is accepted.
\<close>

theorem config_ports_vf_exact:
  assumes "port_inv (ps, us)" and "cdev = ps_cdev ps"
    and "Option.bind (fme_dev cdev) (\<lambda>fd. dfl_get_feature_ioaddr_by_id fd FEATURE_ID_FIU_HEADER) = Some base"
  shows "\<exists>m'. dfl_fpga_cdev_config_ports_vf cdev num_vfs m =
       Some (if (\<exists>fd \<in> set (port_dev_list cdev). \<not> fd_dev fd) \<and>
                int (length (filter (\<lambda>fd. \<not> fd_dev fd) (port_dev_list cdev))) \<noteq> num_vfs
             then (Some EINVAL, m) else (None, m')) \<and>
     (\<forall>fd \<in> set (port_dev_list cdev). \<not> fd_dev fd \<longrightarrow>
        field_get 55 55 (m' (base + FME_HDR_PORT_OFST (fd_id fd))) = 1) \<and>
     (\<forall>a. field_get 54 0 (m' a) = field_get 54 0 (m a) \<and> field_get 63 56 (m' a) = field_get 63 56 (m a)) \<and>
     (\<forall>a. (\<forall>fd \<in> set (port_dev_list cdev). \<not> fd_dev fd \<longrightarrow> a \<noteq> base + FME_HDR_PORT_OFST (fd_id fd)) \<longrightarrow> m' a = m a)"
proof -
  let ?m = "marked base True (port_dev_list cdev) m"
  have "released_port_num cdev = int (length (filter (\<lambda>fd. \<not> fd_dev fd) (port_dev_list cdev)))"
    using assms(1,2) by (simp add: port_inv_def)
  moreover have "length (filter (\<lambda>fd. \<not> fd_dev fd) (port_dev_list cdev)) = 0 \<longleftrightarrow>
      \<not> (\<exists>fd \<in> set (port_dev_list cdev). \<not> fd_dev fd)"
    by (auto simp: filter_empty_conv)
  ultimately have "dfl_fpga_cdev_config_ports_vf cdev num_vfs m =
       Some (if (\<exists>fd \<in> set (port_dev_list cdev). \<not> fd_dev fd) \<and>
                int (length (filter (\<lambda>fd. \<not> fd_dev fd) (port_dev_list cdev))) \<noteq> num_vfs
             then (Some EINVAL, m) else (None, ?m))"
    using config_ports_marks [OF assms(3), of True "port_dev_list cdev" m]
    by (cases "port_dev_list cdev = []") (simp_all add: dfl_fpga_cdev_config_ports_vf_def Let_def marked_def)
  moreover have "field_get 55 55 (field_set 55 55 1 v) = 1" for v by (rule field_get_set_same) simp_all
  moreover have "field_get 54 0 (field_set 55 55 1 v) = field_get 54 0 v"
    "field_get 63 56 (field_set 55 55 1 v) = field_get 63 56 v" for v by (rule field_get_set_other, simp)+
  ultimately show ?thesis by (intro exI [of _ ?m]) (auto simp: marked_def)
qed

definition fme0 :: dfl_feature_dev_data where
  "fme0 = (port0 0)\<lparr>fd_type := FME_ID, fd_num := 1,
     features := [feature_zero\<lparr>ft_id := FEATURE_ID_FIU_HEADER, ft_ioaddr := Some 0x1000\<rparr>]\<rparr>"

theorem config_ports_vf_exact_witness:
  "\<exists>m'. dfl_fpga_cdev_config_ports_vf ((cdev0 [(port0 3)\<lparr>fd_dev := False, excl_open := True, open_count := 1\<rparr>])
        \<lparr>fme_dev := Some fme0, released_port_num := 1\<rparr>) 1 (\<lambda>_. 0) = Some (None, m') \<and>
     field_get 55 55 (m' 0x1050) = 1 \<and> m' 0x1048 = 0"
proof -
  let ?p = "(port0 3)\<lparr>fd_dev := False, excl_open := True, open_count := 1\<rparr>"
  let ?c = "(cdev0 [?p])\<lparr>fme_dev := Some fme0, released_port_num := 1\<rparr>"
  have inv: "port_inv (\<lparr>ps_cdev = ?c, ps_ops = []\<rparr>, [[]])"
    by (simp add: port_inv_def cdev0_def port0_def port_ok_def dev_use.accounts_def)
  have base: "Option.bind (fme_dev ?c) (\<lambda>fd. dfl_get_feature_ioaddr_by_id fd FEATURE_ID_FIU_HEADER) = Some 0x1000"
    by (simp add: cdev0_def fme0_def port0_def dfl_get_feature_ioaddr_by_id_def dfl_get_feature_by_id_def)
  have "port_dev_list ?c = [?p]" "\<not> fd_dev ?p" "FME_HDR_PORT_OFST (fd_id ?p) = 0x50"
    by (simp_all add: cdev0_def port0_def FME_HDR_PORT_OFST_def)
  with config_ports_vf_exact [OF inv _ base, of 1 "\<lambda>_. 0"] show ?thesis by force
qed

section \<open>References to port operations\<close>

lemma po_owner_same: "po_owner ops = n \<Longrightarrow> ops\<lparr>po_owner := n\<rparr> = ops"
  by simp

lemma ops_get_put:
  assumes "dfl_fpga_port_ops_get fd opsl = (Some i, opsl')"
  shows "i < length opsl \<and> po_get_id (opsl' ! i) = po_get_id (opsl ! i) \<and> dfl_fpga_port_ops_put (Some i) opsl' = opsl"
proof -
  have "i < length opsl" if "find P [0..<length opsl] = Some i" for P
    using that by (auto simp: find_Some_iff)
  with assms show ?thesis
    by (auto simp: dfl_fpga_port_ops_get_def dfl_fpga_port_ops_put_def po_owner_same list_update_id
        split: option.splits if_splits)
qed

lemma ops_get_None: "dfl_fpga_port_ops_get fd opsl = (None, opsl') \<Longrightarrow> opsl' = opsl"
  by (auto simp: dfl_fpga_port_ops_get_def split: option.splits if_splits)

lemma check_port_id_refs:
  assumes "\<forall>ops \<in> set opsl. po_get_id ops \<noteq> None" and "dfl_fpga_check_port_id pid fd opsl = (b, fd', opsl')"
  shows "opsl' = opsl"
proof (cases "dfl_fpga_port_ops_get fd opsl")
  case (Pair r opsl1)
  show ?thesis
  proof (cases r)
    case None
    with assms(2) Pair ops_get_None [of fd opsl] show ?thesis
      by (auto simp: dfl_fpga_check_port_id_def split: if_splits)
  next
    case (Some i)
    with Pair ops_get_put [of fd opsl i opsl1] have "po_get_id (opsl1 ! i) \<noteq> None"
      "dfl_fpga_port_ops_put (Some i) opsl1 = opsl"
      using assms(1) nth_mem by metis+
    with assms(2) Pair Some show ?thesis
      by (auto simp: dfl_fpga_check_port_id_def Let_def split: if_splits)
  qed
qed

lemma find_port_data_refs:
  assumes "\<forall>ops \<in> set opsl. po_get_id ops \<noteq> None" and "find_port_data pid fds opsl = (r, fds', opsl')"
  shows "opsl' = opsl"
  using assms
proof (induction fds arbitrary: r fds')
  case (Cons fd fds)
  obtain b fd1 opsl1 where c: "dfl_fpga_check_port_id pid fd opsl = (b, fd1, opsl1)" by (metis prod_cases3)
  with check_port_id_refs [OF assms(1) c] Cons show ?case by (auto split: bool.splits prod.splits)
qed simp

text \<open>
  A port lookup returns every module reference it takes, provided all registered port operations
  can read an id.
\<close>

theorem port_lookup_refs:
  assumes "\<forall>ops \<in> set (ps_ops ps). po_get_id ops \<noteq> None"
  shows "ps_ops (snd (cdev_find_port pid ps)) = ps_ops ps"
  using find_port_data_refs [OF assms] by (cases "find_port_data pid (port_dev_list (ps_cdev ps)) (ps_ops ps)")
    (auto simp: cdev_find_port_def)

theorem port_lookup_refs_witness:
  "ps_ops (snd (cdev_find_port 3 \<lparr>ps_cdev = cdev0 [port0 FEATURE_DEV_ID_UNUSED], ps_ops = ops0\<rparr>)) = ops0"
  using port_lookup_refs [of "\<lparr>ps_cdev = cdev0 [port0 FEATURE_DEV_ID_UNUSED], ps_ops = ops0\<rparr>" 3]
  by (simp add: ops0_def)

text \<open>
  Port operations without \<^verbatim>\<open>get_id\<close> keep one module reference for each lookup of an unidentified
  port: \<^verbatim>\<open>dfl_fpga_check_port_id\<close> returns before it puts them back.
\<close>

theorem port_ops_reference_leak:
  "dfl_fpga_check_port_id pid (port0 FEATURE_DEV_ID_UNUSED)
      [\<lparr>po_name = ''dfl-port'', po_owner = Some n, po_live = True, po_get_id = None\<rparr>] =
   (False, port0 FEATURE_DEV_ID_UNUSED,
      [\<lparr>po_name = ''dfl-port'', po_owner = Some (n + 1), po_live = True, po_get_id = None\<rparr>])"
  by (simp add: dfl_fpga_check_port_id_def dfl_fpga_port_ops_get_def port0_def pdev_name_def)

end
