(* ===== verification/Dfl_Irq.thy ===== *)
theory Dfl_Irq
  imports Dfl_Types Prelude "HOL-Library.Multiset"
begin

text \<open>
  Interrupt triggers of a sub feature (\<^verbatim>\<open>drivers/fpga/dfl.c\<close>: \<^verbatim>\<open>do_set_irq_trigger\<close>,
  \<^verbatim>\<open>dfl_fpga_set_irq_triggers\<close> and the two ioctls on them). Beside the feature the state holds what
  the kernel keeps for it: the installed handlers and the references to event files, so that
  leaks and double releases are visible. The name that an interrupt is requested with is only an
  allocation that may fail: its memory is not accounted for.
\<close>

section \<open>The triggers\<close>

text \<open>Names that can be allocated, event files by descriptor, requests the interrupt core grants.\<close>

record irq_env =
  name_ok :: "nat \<Rightarrow> bool"
  eventfd_ctx_fdget :: "int \<Rightarrow> errno + nat"
  request_irq :: "int \<Rightarrow> nat \<Rightarrow> errno option"

record irq_sys =
  sy_feature :: dfl_feature
  sy_handlers :: "(int \<times> nat) list"
  sy_refs :: "nat \<Rightarrow> int"

definition set_trigger :: "nat \<Rightarrow> nat option \<Rightarrow> irq_sys \<Rightarrow> irq_sys" where
  "set_trigger idx t s =
     (let f = sy_feature s
      in s\<lparr>sy_feature := f\<lparr>ft_irq_ctx := (ft_irq_ctx f)[idx := (ft_irq_ctx f ! idx)\<lparr>ctx_trigger := t\<rparr>]\<rparr>\<rparr>)"

text \<open>\<^verbatim>\<open>free_irq\<close> and \<^verbatim>\<open>eventfd_ctx_put\<close> of the trigger bound to an interrupt, if there is one.\<close>

definition drop_trigger :: "nat \<Rightarrow> irq_sys \<Rightarrow> irq_sys" where
  "drop_trigger idx s =
     (let ctx = ft_irq_ctx (sy_feature s) ! idx
      in case ctx_trigger ctx of
           None \<Rightarrow> s
         | Some t \<Rightarrow> set_trigger idx None
             (s\<lparr>sy_handlers := remove1 (ctx_irq ctx, t) (sy_handlers s), sy_refs := (sy_refs s)(t := sy_refs s t - 1)\<rparr>))"

definition do_set_irq_trigger :: "irq_env \<Rightarrow> nat \<Rightarrow> int \<Rightarrow> irq_sys \<Rightarrow> irq_sys ret" where
  "do_set_irq_trigger env idx fd s =
     (let irq = ctx_irq (ft_irq_ctx (sy_feature s) ! idx); s = drop_trigger idx s
      in if fd < 0 then (None, s)
         else if \<not> name_ok env idx then (Some ENOMEM, s)
         else case eventfd_ctx_fdget env fd of
           Inl e \<Rightarrow> (Some e, s)
         | Inr trigger \<Rightarrow>
             let s = s\<lparr>sy_refs := (sy_refs s)(trigger := sy_refs s trigger + 1)\<rparr>
             in (case request_irq env irq trigger of
                   None \<Rightarrow> (None, set_trigger idx (Some trigger) (s\<lparr>sy_handlers := (irq, trigger) # sy_handlers s\<rparr>))
                 | Some e \<Rightarrow> (Some e, s\<lparr>sy_refs := (sy_refs s)(trigger := sy_refs s trigger - 1)\<rparr>)))"

text \<open>\<^verbatim>\<open>while (i--) do_set_irq_trigger(feature, start + i, -1)\<close>\<close>

fun unbind_down :: "irq_env \<Rightarrow> nat \<Rightarrow> nat \<Rightarrow> irq_sys \<Rightarrow> irq_sys" where
  "unbind_down env start 0 s = s"
| "unbind_down env start (Suc i) s = unbind_down env start i (snd (do_set_irq_trigger env (start + i) (-1) s))"

text \<open>The loop of \<^verbatim>\<open>dfl_fpga_set_irq_triggers\<close> from \<open>i\<close> on, with the number of rounds left.\<close>

fun set_triggers_from :: "irq_env \<Rightarrow> nat \<Rightarrow> int list option \<Rightarrow> nat \<Rightarrow> nat \<Rightarrow> irq_sys \<Rightarrow> irq_sys ret" where
  "set_triggers_from env start fds i 0 s = (None, s)"
| "set_triggers_from env start fds i (Suc k) s =
     (case do_set_irq_trigger env (start + i) (case fds of None \<Rightarrow> -1 | Some l \<Rightarrow> l ! i) s of
        (None, s) \<Rightarrow> set_triggers_from env start fds (Suc i) k s
      | (Some e, s) \<Rightarrow> (Some e, unbind_down env start i s))"

definition dfl_fpga_set_irq_triggers :: "irq_env \<Rightarrow> u32 \<Rightarrow> u32 \<Rightarrow> int list option \<Rightarrow> irq_sys \<Rightarrow> irq_sys ret" where
  "dfl_fpga_set_irq_triggers env start cnt fds s =
     (if start + cnt < start then (Some EINVAL, s)
      else if start + cnt > ft_nr_irqs (sy_feature s) then (Some EINVAL, s)
      else set_triggers_from env (unat start) fds 0 (unat cnt) s)"

definition dfl_feature_ioctl_get_num_irqs :: "dfl_feature \<Rightarrow> u32" where
  "dfl_feature_ioctl_get_num_irqs feature = ft_nr_irqs feature"

text \<open>The header and the descriptors are read from user memory; both copies can fail.\<close>

definition dfl_feature_ioctl_set_irq ::
  "irq_env \<Rightarrow> (u32 \<times> u32) option \<Rightarrow> (nat \<Rightarrow> errno + int list) \<Rightarrow> irq_sys \<Rightarrow> irq_sys ret" where
  "dfl_feature_ioctl_set_irq env hdr memdup_user s =
     (let nr = ft_nr_irqs (sy_feature s)
      in if nr = 0 then (Some ENOENT, s)
         else case hdr of
           None \<Rightarrow> (Some EFAULT, s)
         | Some (start, cnt) \<Rightarrow>
             if cnt = 0 \<or> start + cnt > nr \<or> start + cnt < start then (Some EINVAL, s)
             else (case memdup_user (unat cnt) of
                     Inl e \<Rightarrow> (Some e, s)
                   | Inr fds \<Rightarrow> dfl_fpga_set_irq_triggers env start cnt (Some fds) s))"

section \<open>Accounting\<close>

text \<open>The contexts with a trigger are exactly the installed handlers, and each holds one reference.\<close>

definition bound :: "dfl_feature_irq_ctx list \<Rightarrow> (int \<times> nat) list" where
  "bound ctxs = map (\<lambda>c. (ctx_irq c, the (ctx_trigger c))) (filter (\<lambda>c. ctx_trigger c \<noteq> None) ctxs)"

definition irq_accounts :: "(nat \<Rightarrow> int) \<Rightarrow> irq_sys \<Rightarrow> bool" where
  "irq_accounts others s \<longleftrightarrow>
     mset (sy_handlers s) = mset (bound (ft_irq_ctx (sy_feature s))) \<and>
     (\<forall>t. sy_refs s t = others t + int (count (mset (map snd (bound (ft_irq_ctx (sy_feature s))))) t))"

text \<open>The trigger bound to the interrupt at a position.\<close>

abbreviation trigger_at :: "irq_sys \<Rightarrow> nat \<Rightarrow> nat option" where
  "trigger_at s i \<equiv> ctx_trigger (ft_irq_ctx (sy_feature s) ! i)"

abbreviation nr_ctx :: "irq_sys \<Rightarrow> nat" where
  "nr_ctx s \<equiv> length (ft_irq_ctx (sy_feature s))"

lemma mset_bound_update:
  assumes "i < length ctxs"
  shows "mset (bound (ctxs[i := (ctxs ! i)\<lparr>ctx_trigger := t\<rparr>])) + mset (bound [ctxs ! i]) =
     mset (bound ctxs) + mset (bound [(ctxs ! i)\<lparr>ctx_trigger := t\<rparr>])"
  using assms
proof (induction ctxs arbitrary: i)
  case (Cons c ctxs)
  show ?case
  proof (cases i)
    case (Suc j)
    with Cons have "mset (bound (ctxs[j := (ctxs ! j)\<lparr>ctx_trigger := t\<rparr>])) + mset (bound [ctxs ! j]) =
      mset (bound ctxs) + mset (bound [(ctxs ! j)\<lparr>ctx_trigger := t\<rparr>])" by simp
    with Suc show ?thesis by (cases "ctx_trigger c") (auto simp: bound_def)
  qed (auto simp: bound_def)
qed simp

lemma accounts_set_trigger:
  assumes "irq_accounts others s" and "i < nr_ctx s" and "trigger_at s i = None"
  shows "irq_accounts others (set_trigger i (Some t) (s\<lparr>sy_refs := (sy_refs s)(t := sy_refs s t + 1),
           sy_handlers := (ctx_irq (ft_irq_ctx (sy_feature s) ! i), t) # sy_handlers s\<rparr>))"
proof -
  have "mset (bound ((ft_irq_ctx (sy_feature s))[i := (ft_irq_ctx (sy_feature s) ! i)\<lparr>ctx_trigger := Some t\<rparr>])) =
      add_mset (ctx_irq (ft_irq_ctx (sy_feature s) ! i), t) (mset (bound (ft_irq_ctx (sy_feature s))))"
    using mset_bound_update [OF assms(2), of "Some t"] assms(3) by (simp add: bound_def)
  with assms(1) show ?thesis
    by (simp add: irq_accounts_def set_trigger_def Let_def flip: mset_map)
      (simp add: mset_map)
qed

lemma accounts_drop_trigger:
  assumes "irq_accounts others s" and "i < nr_ctx s"
  shows "irq_accounts others (drop_trigger i s)"
proof (cases "trigger_at s i")
  case None
  with assms show ?thesis by (simp add: drop_trigger_def Let_def)
next
  case (Some t)
  let ?c = "ft_irq_ctx (sy_feature s) ! i"
  let ?b = "bound ((ft_irq_ctx (sy_feature s))[i := ?c\<lparr>ctx_trigger := None\<rparr>])"
  have b: "mset (bound (ft_irq_ctx (sy_feature s))) = add_mset (ctx_irq ?c, t) (mset ?b)"
    using mset_bound_update [OF assms(2), of None] Some by (simp add: bound_def)
  have h: "mset (remove1 (ctx_irq ?c, t) (sy_handlers s)) = mset ?b"
    using assms(1) b by (simp add: irq_accounts_def)
  have "sy_refs s u = others u + int (count (image_mset snd (mset (bound (ft_irq_ctx (sy_feature s))))) u)" for u
    using assms(1) by (simp add: irq_accounts_def)
  then have r: "sy_refs s u = others u + int (count (add_mset t (image_mset snd (mset ?b))) u)" for u
    by (simp only: b image_mset_add_mset snd_conv)
  have "ft_irq_ctx (sy_feature (drop_trigger i s)) = (ft_irq_ctx (sy_feature s))[i := ?c\<lparr>ctx_trigger := None\<rparr>]"
    "sy_handlers (drop_trigger i s) = remove1 (ctx_irq ?c, t) (sy_handlers s)"
    "sy_refs (drop_trigger i s) = (sy_refs s)(t := sy_refs s t - 1)"
    using Some by (simp_all add: drop_trigger_def set_trigger_def Let_def)
  with h r show ?thesis by (simp add: irq_accounts_def)
qed

lemma nr_ctx_drop [simp]: "nr_ctx (drop_trigger i s) = nr_ctx s"
  by (simp add: drop_trigger_def set_trigger_def Let_def split: option.splits)

lemma nr_ctx_set [simp]: "nr_ctx (set_trigger i t s) = nr_ctx s"
  by (simp add: set_trigger_def Let_def)

lemma ctx_irq_drop [simp]: "ctx_irq (ft_irq_ctx (sy_feature (drop_trigger i s)) ! j) = ctx_irq (ft_irq_ctx (sy_feature s) ! j)"
  by (cases "i < nr_ctx s") (auto simp: drop_trigger_def set_trigger_def Let_def nth_list_update list_update_beyond split: option.splits)

lemma trigger_drop:
  "i < nr_ctx s \<Longrightarrow> trigger_at (drop_trigger i s) j = (if j = i then None else trigger_at s j)"
  by (auto simp: drop_trigger_def set_trigger_def Let_def nth_list_update split: option.splits)

text \<open>One interrupt: what is bound to it afterwards, and nothing else.\<close>

definition outcome :: "irq_env \<Rightarrow> int \<Rightarrow> nat \<Rightarrow> int \<Rightarrow> errno + nat option" where
  "outcome env irq idx fd =
     (if fd < 0 then Inr None else if \<not> name_ok env idx then Inl ENOMEM
      else case eventfd_ctx_fdget env fd of
        Inl e \<Rightarrow> Inl e
      | Inr t \<Rightarrow> (case request_irq env irq t of Some e \<Rightarrow> Inl e | None \<Rightarrow> Inr (Some t)))"

lemma do_set_irq_trigger_step:
  assumes "do_set_irq_trigger env i fd s = (r, s')" and "i < nr_ctx s" and "irq_accounts others s"
  shows "irq_accounts others s'" and "nr_ctx s' = nr_ctx s"
    and "ctx_irq (ft_irq_ctx (sy_feature s') ! j) = ctx_irq (ft_irq_ctx (sy_feature s) ! j)"
    and "r = (case outcome env (ctx_irq (ft_irq_ctx (sy_feature s) ! i)) i fd of Inl e \<Rightarrow> Some e | Inr _ \<Rightarrow> None)"
    and "trigger_at s' j = (if j = i then case outcome env (ctx_irq (ft_irq_ctx (sy_feature s) ! i)) i fd of
           Inl _ \<Rightarrow> None | Inr t \<Rightarrow> t else trigger_at s j)"
proof -
  note acc = accounts_drop_trigger [OF assms(3,2)]
  have refl: "irq_accounts others (drop_trigger i s\<lparr>sy_refs := sy_refs (drop_trigger i s)\<rparr>)" using acc by simp
  have set: "irq_accounts others (set_trigger i (Some t) (drop_trigger i s\<lparr>
      sy_refs := (sy_refs (drop_trigger i s))(t := sy_refs (drop_trigger i s) t + 1),
      sy_handlers := (ctx_irq (ft_irq_ctx (sy_feature s) ! i), t) # sy_handlers (drop_trigger i s)\<rparr>))" for t
    using accounts_set_trigger [OF acc, of i t] assms(2) by (simp add: trigger_drop)
  show "irq_accounts others s'"
    using assms(1) acc set by (auto simp: do_set_irq_trigger_def Let_def split: if_splits sum.splits option.splits)
  show "nr_ctx s' = nr_ctx s"
    using assms(1) by (auto simp: do_set_irq_trigger_def Let_def split: if_splits sum.splits option.splits)
  show "ctx_irq (ft_irq_ctx (sy_feature s') ! j) = ctx_irq (ft_irq_ctx (sy_feature s) ! j)"
    using assms(1,2) by (auto simp: do_set_irq_trigger_def Let_def set_trigger_def nth_list_update
        split: if_splits sum.splits option.splits)
  show "r = (case outcome env (ctx_irq (ft_irq_ctx (sy_feature s) ! i)) i fd of Inl e \<Rightarrow> Some e | Inr _ \<Rightarrow> None)"
    using assms(1) by (auto simp: do_set_irq_trigger_def Let_def outcome_def split: if_splits sum.splits option.splits)
  show "trigger_at s' j = (if j = i then case outcome env (ctx_irq (ft_irq_ctx (sy_feature s) ! i)) i fd of
           Inl _ \<Rightarrow> None | Inr t \<Rightarrow> t else trigger_at s j)"
    using assms(1,2) by (auto simp: do_set_irq_trigger_def Let_def outcome_def set_trigger_def trigger_drop
        nth_list_update split: if_splits sum.splits option.splits)
qed


section \<open>The loop\<close>

lemma unbind_down_step:
  assumes "start + i \<le> nr_ctx s" and "irq_accounts others s"
  shows "irq_accounts others (unbind_down env start i s) \<and>
     (\<forall>j. trigger_at (unbind_down env start i s) j = (if start \<le> j \<and> j < start + i then None else trigger_at s j))"
  using assms
proof (induction i arbitrary: s)
  case (Suc i)
  obtain r s1 where d: "do_set_irq_trigger env (start + i) (-1) s = (r, s1)" by fastforce
  have "start + i < nr_ctx s" using Suc.prems(1) by simp
  note st = do_set_irq_trigger_step [OF d this Suc.prems(2)]
  have "start + i \<le> nr_ctx s1" using st(2) Suc.prems(1) by simp
  from Suc.IH [OF this st(1)] st(5) d show ?case by (auto simp: outcome_def)
qed auto

text \<open>What is asked for the \<open>i\<close>-th interrupt of a request, and what comes of it.\<close>

definition wanted :: "irq_env \<Rightarrow> irq_sys \<Rightarrow> nat \<Rightarrow> int list option \<Rightarrow> nat \<Rightarrow> errno + nat option" where
  "wanted env s start fds i =
     outcome env (ctx_irq (ft_irq_ctx (sy_feature s) ! (start + i))) (start + i)
       (case fds of None \<Rightarrow> -1 | Some l \<Rightarrow> l ! i)"

lemma set_triggers_from_ok:
  assumes "start + i + k \<le> nr_ctx s" and "irq_accounts others s"
    and "\<forall>j < i + k. i \<le> j \<longrightarrow> (\<exists>t. wanted env s start fds j = Inr t)"
  shows "\<exists>s'. set_triggers_from env start fds i k s = (None, s') \<and> irq_accounts others s' \<and>
     (\<forall>j. trigger_at s' j =
        (if start + i \<le> j \<and> j < start + i + k then projr (wanted env s start fds (j - start)) else trigger_at s j))"
  using assms
proof (induction k arbitrary: i s)
  case (Suc k)
  obtain r s1 where d: "do_set_irq_trigger env (start + i) (case fds of None \<Rightarrow> -1 | Some l \<Rightarrow> l ! i) s = (r, s1)" by fastforce
  have "start + i < nr_ctx s" using Suc.prems(1) by simp
  note st = do_set_irq_trigger_step [OF d this Suc.prems(2)]
  obtain t where t: "wanted env s start fds i = Inr t" using Suc.prems(3) [rule_format, of i] by auto
  have w: "wanted env s1 start fds j = wanted env s start fds j" for j by (simp add: wanted_def st(3))
  have r: "r = None" using st(4) t by (simp add: wanted_def)
  have tr: "trigger_at s1 j = (if j = start + i then t else trigger_at s j)" for j
    using st(5) [of j] t by (simp add: wanted_def)
  have "start + Suc i + k \<le> nr_ctx s1" "\<forall>j < Suc i + k. Suc i \<le> j \<longrightarrow> (\<exists>t. wanted env s1 start fds j = Inr t)"
    using Suc.prems st(2) w by simp_all
  from Suc.IH [OF this(1) st(1) this(2)] d r tr w t show ?case by auto
qed auto

lemma set_triggers_from_err:
  assumes "start + i + k \<le> nr_ctx s" and "irq_accounts others s" and "i \<le> m" and "m < i + k"
    and "\<forall>j < m. i \<le> j \<longrightarrow> (\<exists>t. wanted env s start fds j = Inr t)" and "wanted env s start fds m = Inl e"
  shows "\<exists>s'. set_triggers_from env start fds i k s = (Some e, s') \<and> irq_accounts others s' \<and>
     (\<forall>j. trigger_at s' j = (if start \<le> j \<and> j \<le> start + m then None else trigger_at s j))"
  using assms
proof (induction k arbitrary: i s)
  case (Suc k)
  obtain r s1 where d: "do_set_irq_trigger env (start + i) (case fds of None \<Rightarrow> -1 | Some l \<Rightarrow> l ! i) s = (r, s1)" by fastforce
  have "start + i < nr_ctx s" using Suc.prems(1) by simp
  note st = do_set_irq_trigger_step [OF d this Suc.prems(2)]
  have w: "wanted env s1 start fds j = wanted env s start fds j" for j by (simp add: wanted_def st(3))
  show ?case
  proof (cases "i = m")
    case True
    from Suc.prems(6) have o: "outcome env (ctx_irq (ft_irq_ctx (sy_feature s) ! (start + i))) (start + i)
        (case fds of None \<Rightarrow> -1 | Some l \<Rightarrow> l ! i) = Inl e" unfolding wanted_def True .
    have "start + i \<le> nr_ctx s1" using st(2) Suc.prems(1) by simp
    from unbind_down_step [OF this st(1), of env] st(4,5) o d True show ?thesis by auto
  next
    case False
    then have m: "Suc i \<le> m" "m < Suc i + k" using Suc.prems(3,4) by simp_all
    obtain t where t: "wanted env s start fds i = Inr t" using Suc.prems(5) [rule_format, of i] m(1) by auto
    then have r: "r = None" using st(4) by (simp add: wanted_def)
    have tr: "trigger_at s1 j = (if j = start + i then t else trigger_at s j)" for j
      using st(5) [of j] t by (simp add: wanted_def)
    have "start + Suc i + k \<le> nr_ctx s1" "\<forall>j < m. Suc i \<le> j \<longrightarrow> (\<exists>t. wanted env s1 start fds j = Inr t)"
      "wanted env s1 start fds m = Inl e"
      using Suc.prems st(2) w by simp_all
    from Suc.IH [OF this(1) st(1) m this(2,3)] d r tr m(1) show ?thesis by auto
  qed
qed simp


lemma irq_range_guard:
  fixes a b n :: u32
  shows "a + b < a \<or> n < a + b \<longleftrightarrow> unat n < unat a + unat b"
proof (cases "unat a + unat b < 2 ^ 32")
  case True
  then have "unat (a + b) = unat a + unat b" by (simp add: unat_plus_if')
  then show ?thesis by (auto simp: word_less_nat_alt)
next
  case False
  then have "unat (a + b) = unat a + unat b - 2 ^ 32" by (simp add: unat_plus_if')
  moreover have "unat x < 2 ^ 32" for x :: u32 using unsigned_less [of x, where 'a = nat] by simp
  from this [of a] this [of b] this [of n] have "unat a < 2 ^ 32" "unat b < 2 ^ 32" "unat n < 2 ^ 32" .
  ultimately show ?thesis using False by (simp add: word_less_nat_alt) linarith
qed

text \<open>
  C9. Binding event files to interrupts. A request outside the feature's interrupts (the sum of start
  and count is not trusted to fit 32 bits) is refused without any change. Otherwise the request
  succeeds exactly when each of its interrupts can be bound, and then each has what was asked
  for; at the first failure, with its error, the interrupts up to and including the failing one
  are unbound and all the others are untouched. On every path the installed handlers are
  exactly the bound triggers and no reference to an event file is leaked or dropped twice.
\<close>

theorem set_irq_triggers_exact:
  assumes "irq_accounts others s" and "nr_ctx s = unat (ft_nr_irqs (sy_feature s))"
    and "dfl_fpga_set_irq_triggers env start cnt fds s = (r, s')"
  shows "irq_accounts others s' \<and>
     (if nr_ctx s < unat start + unat cnt then r = Some EINVAL \<and> s' = s
      else if \<forall>i < unat cnt. \<exists>t. wanted env s (unat start) fds i = Inr t
      then r = None \<and>
        (\<forall>j. trigger_at s' j = (if unat start \<le> j \<and> j < unat start + unat cnt
           then projr (wanted env s (unat start) fds (j - unat start)) else trigger_at s j))
      else \<exists>m < unat cnt. \<exists>e. wanted env s (unat start) fds m = Inl e \<and> r = Some e \<and>
        (\<forall>i < m. \<exists>t. wanted env s (unat start) fds i = Inr t) \<and>
        (\<forall>j. trigger_at s' j = (if unat start \<le> j \<and> j \<le> unat start + m then None else trigger_at s j)))"
proof (cases "nr_ctx s < unat start + unat cnt")
  case True
  with irq_range_guard [of start cnt "ft_nr_irqs (sy_feature s)"] assms show ?thesis
    by (auto simp: dfl_fpga_set_irq_triggers_def split: if_splits)
next
  case False
  with irq_range_guard [of start cnt "ft_nr_irqs (sy_feature s)"] assms(2,3)
  have loop: "set_triggers_from env (unat start) fds 0 (unat cnt) s = (r, s')"
    by (auto simp: dfl_fpga_set_irq_triggers_def split: if_splits)
  have l: "unat start + 0 + unat cnt \<le> nr_ctx s" using False by simp
  show ?thesis
  proof (cases "\<forall>i < unat cnt. \<exists>t. wanted env s (unat start) fds i = Inr t")
    case True
    then have all: "\<forall>j < 0 + unat cnt. 0 \<le> j \<longrightarrow> (\<exists>t. wanted env s (unat start) fds j = Inr t)" by simp
    from set_triggers_from_ok [OF l assms(1) this] loop show ?thesis using True False by simp
  next
    case bad: False
    define m where "m = (LEAST m. m < unat cnt \<and> (\<nexists>t. wanted env s (unat start) fds m = Inr t))"
    from bad have "\<exists>m. m < unat cnt \<and> (\<nexists>t. wanted env s (unat start) fds m = Inr t)" by blast
    from LeastI_ex [OF this] have m: "m < unat cnt \<and> (\<nexists>t. wanted env s (unat start) fds m = Inr t)"
      unfolding m_def .
    then obtain e where e: "wanted env s (unat start) fds m = Inl e"
      by (cases "wanted env s (unat start) fds m") auto
    have least: "\<exists>t. wanted env s (unat start) fds i = Inr t" if "i < m" for i
      using not_less_Least [of i "\<lambda>m. m < unat cnt \<and> (\<nexists>t. wanted env s (unat start) fds m = Inr t)"] that m
      by (auto simp: m_def)
    from set_triggers_from_err [OF l assms(1) _ _ _ e] m least loop
    have res: "r = Some e \<and> irq_accounts others s' \<and>
       (\<forall>j. trigger_at s' j = (if unat start \<le> j \<and> j \<le> unat start + m then None else trigger_at s j))" by simp
    show ?thesis
      unfolding if_not_P [OF False] if_not_P [OF bad] using m e least res by blast
  qed
qed

definition irq_env0 :: irq_env where
  "irq_env0 = \<lparr>name_ok = \<lambda>_. True, eventfd_ctx_fdget = \<lambda>fd. if fd = 9 then Inl (EOTHER 9) else Inr (nat fd),
     request_irq = \<lambda>_ _. None\<rparr>"

definition irq_sys0 :: irq_sys where
  "irq_sys0 = \<lparr>sy_feature = feature_zero\<lparr>ft_nr_irqs := 3, ft_irq_ctx :=
       [\<lparr>ctx_irq = 30, ctx_trigger = Some 5\<rparr>, \<lparr>ctx_irq = 31, ctx_trigger = None\<rparr>, \<lparr>ctx_irq = 32, ctx_trigger = Some 5\<rparr>]\<rparr>,
     sy_handlers = [(30, 5), (32, 5)], sy_refs = (\<lambda>_. 0)(5 := 2)\<rparr>"

theorem set_irq_triggers_exact_witness:
  "\<exists>s'. dfl_fpga_set_irq_triggers irq_env0 0 2 (Some [7, 9]) irq_sys0 = (Some (EOTHER 9), s') \<and>
     irq_accounts (\<lambda>_. 0) s' \<and> trigger_at s' 2 = Some 5"
proof -
  obtain r s' where run: "dfl_fpga_set_irq_triggers irq_env0 0 2 (Some [7, 9]) irq_sys0 = (r, s')" by fastforce
  have acc: "irq_accounts (\<lambda>_. 0) irq_sys0"
    by (simp add: irq_accounts_def irq_sys0_def bound_def feature_zero_def)
  have nr: "nr_ctx irq_sys0 = unat (ft_nr_irqs (sy_feature irq_sys0))"
    by (simp add: irq_sys0_def feature_zero_def)
  have l: "irq_accounts (\<lambda>_. 0) s'" using set_irq_triggers_exact [OF acc nr run] by blast
  have two: "set_triggers_from env start fds i 2 s = set_triggers_from env start fds i (Suc (Suc 0)) s" for env start fds i s
    by (simp add: numeral_2_eq_2)
  from run have "r = Some (EOTHER 9) \<and> trigger_at s' 2 = Some 5"
    by (auto simp: dfl_fpga_set_irq_triggers_def irq_sys0_def irq_env0_def feature_zero_def two
        do_set_irq_trigger_def drop_trigger_def set_trigger_def)
  with run l show ?thesis by blast
qed

end
