(* ===== verification/Dfl_Bus.thy ===== *)
theory Dfl_Bus
  imports Dfl_Types Dfl_Enum
begin

text \<open>
  Binding drivers to features (\<^verbatim>\<open>drivers/fpga/dfl.c\<close>): matching dfl devices and sub features against id
  tables, creating and removing the dfl devices of a feature device, initialising its sub
  features, and the character device regions of the framework.
\<close>

section \<open>Matching\<close>

record dfl_device_id =
  did_type :: u16
  did_feature_id :: u16
  did_guid :: guid

record dfl_device =
  dd_type :: u16
  dd_feature_id :: u16
  dd_guid :: guid

definition dfl_match_one_device :: "dfl_device_id \<Rightarrow> dfl_device \<Rightarrow> bool" where
  "dfl_match_one_device i ddev \<longleftrightarrow>
     (dfl_guid_is_valid (dd_guid ddev) \<and> did_guid i = dd_guid ddev) \<or>
     (did_type i = dd_type ddev \<and> did_feature_id i = dd_feature_id ddev)"

text \<open>
  \<^verbatim>\<open>dfl_bus_match\<close>: the entry that becomes \<^verbatim>\<open>id_entry\<close>. The table ends at the first entry without feature
  id and valid guid; running off a table without such an entry is not modelled as a read.
\<close>

fun dfl_bus_match :: "dfl_device_id list \<Rightarrow> dfl_device \<Rightarrow> dfl_device_id option" where
  "dfl_bus_match [] ddev = None"
| "dfl_bus_match (i # is) ddev =
     (if did_feature_id i \<noteq> 0 \<or> dfl_guid_is_valid (did_guid i) then
        if dfl_match_one_device i ddev then Some i else dfl_bus_match is ddev
      else None)"

record dfl_feature_id =
  fid_id :: u16
  fid_guid :: guid

definition dfl_feature_id_match :: "dfl_feature \<Rightarrow> dfl_feature_id \<Rightarrow> bool" where
  "dfl_feature_id_match f i \<longleftrightarrow>
     (dfl_guid_is_valid (ft_guid f) \<and> fid_guid i = ft_guid f) \<or> fid_id i = ft_id f"

fun dfl_feature_drv_match :: "dfl_feature \<Rightarrow> dfl_feature_id list \<Rightarrow> bool" where
  "dfl_feature_drv_match f [] = False"
| "dfl_feature_drv_match f (i # is) =
     (if fid_id i \<noteq> 0 \<or> dfl_guid_is_valid (fid_guid i) then
        dfl_feature_id_match f i \<or> dfl_feature_drv_match f is
      else False)"

section \<open>The dfl devices of a feature device\<close>

text \<open>
  Creating one device (\<^verbatim>\<open>dfl_dev_add\<close>) allocates, claims the resource and registers; its outcome
  is an input, the id of the device or the error after which it has undone itself.
\<close>

definition dfl_devs_remove :: "dfl_feature list \<Rightarrow> dfl_feature list" where
  "dfl_devs_remove fs = map (\<lambda>f. f\<lparr>ft_ddev := None\<rparr>) fs"

fun dfl_devs_add_loop :: "(dfl_feature \<Rightarrow> errno + nat) \<Rightarrow> dfl_feature list \<Rightarrow> dfl_feature list ret" where
  "dfl_devs_add_loop dfl_dev_add [] = (None, [])"
| "dfl_devs_add_loop dfl_dev_add (f # fs) =
     (if ft_ioaddr f \<noteq> None then apsnd ((#) f) (dfl_devs_add_loop dfl_dev_add fs)
      else if ft_ddev f \<noteq> None then (Some EEXIST, f # fs)
      else case dfl_dev_add f of
        Inl e \<Rightarrow> (Some e, f # fs)
      | Inr d \<Rightarrow> apsnd ((#) (f\<lparr>ft_ddev := Some d\<rparr>)) (dfl_devs_add_loop dfl_dev_add fs))"

definition dfl_devs_add :: "(dfl_feature \<Rightarrow> errno + nat) \<Rightarrow> dfl_feature list \<Rightarrow> dfl_feature list ret" where
  "dfl_devs_add dfl_dev_add fs =
     (case dfl_devs_add_loop dfl_dev_add fs of
        (None, fs) \<Rightarrow> (None, fs)
      | (Some e, fs) \<Rightarrow> (Some e, dfl_devs_remove fs))"

section \<open>Initialising sub features\<close>

text \<open>
  The operations of a sub feature driver, \<open>None\<close> where it has none. They see the features and the
  position of the one they are for, and act on what the feature device keeps besides; \<^verbatim>\<open>ft_ops\<close> and
  \<^verbatim>\<open>fdrv_ops\<close> number the operations.
\<close>

record 's dfl_feature_ops =
  fops_init :: "(dfl_feature list \<Rightarrow> nat \<Rightarrow> 's \<Rightarrow> 's ret) option"
  fops_uinit :: "(dfl_feature list \<Rightarrow> nat \<Rightarrow> 's \<Rightarrow> 's) option"

record dfl_feature_driver =
  fdrv_ids :: "dfl_feature_id list option"
  fdrv_ops :: nat

definition dfl_feature_instance_init ::
  "(int \<Rightarrow> errno + u64) \<Rightarrow> (nat \<Rightarrow> 's dfl_feature_ops) \<Rightarrow> dfl_feature_driver \<Rightarrow> nat \<Rightarrow> dfl_feature list \<times> 's
   \<Rightarrow> (dfl_feature list \<times> 's) ret" where
  "dfl_feature_instance_init ioremap ops drv i st =
     (case st of (fs, s) \<Rightarrow>
        (case (if is_header_feature (fs ! i) then Inr fs
               else (case ioremap (ft_resource_index (fs ! i)) of
                       Inl e \<Rightarrow> Inl e
                     | Inr base \<Rightarrow> Inr (fs[i := (fs ! i)\<lparr>ft_ioaddr := Some base\<rparr>]))) of
           Inl e \<Rightarrow> (Some e, (fs, s))
         | Inr fs \<Rightarrow>
             (case (case fops_init (ops (fdrv_ops drv)) of None \<Rightarrow> (None, s) | Some init \<Rightarrow> init fs i s) of
                (Some e, s) \<Rightarrow> (Some e, (fs, s))
              | (None, s) \<Rightarrow> (None, (fs[i := (fs ! i)\<lparr>ft_ops := Some (fdrv_ops drv)\<rparr>], s)))))"

definition drv_matches :: "dfl_feature_driver \<Rightarrow> dfl_feature \<Rightarrow> bool" where
  "drv_matches drv f = (case fdrv_ids drv of None \<Rightarrow> False | Some ids \<Rightarrow> dfl_feature_drv_match f ids)"

text \<open>One driver over \<open>k\<close> features from \<open>i\<close> on, then all drivers; an error ends both loops.\<close>

fun init_features ::
  "(int \<Rightarrow> errno + u64) \<Rightarrow> (nat \<Rightarrow> 's dfl_feature_ops) \<Rightarrow> dfl_feature_driver \<Rightarrow> nat \<Rightarrow> nat
   \<Rightarrow> dfl_feature list \<times> 's \<Rightarrow> (dfl_feature list \<times> 's) ret" where
  "init_features ioremap ops drv i 0 st = (None, st)"
| "init_features ioremap ops drv i (Suc k) st =
     (if drv_matches drv (fst st ! i) then
        (case dfl_feature_instance_init ioremap ops drv i st of
           (Some e, st) \<Rightarrow> (Some e, st)
         | (None, st) \<Rightarrow> init_features ioremap ops drv (Suc i) k st)
      else init_features ioremap ops drv (Suc i) k st)"

fun init_drivers ::
  "(int \<Rightarrow> errno + u64) \<Rightarrow> (nat \<Rightarrow> 's dfl_feature_ops) \<Rightarrow> dfl_feature_driver list
   \<Rightarrow> dfl_feature list \<times> 's \<Rightarrow> (dfl_feature list \<times> 's) ret" where
  "init_drivers ioremap ops [] st = (None, st)"
| "init_drivers ioremap ops (drv # drvs) st =
     (case init_features ioremap ops drv 0 (length (fst st)) st of
        (Some e, st) \<Rightarrow> (Some e, st)
      | (None, st) \<Rightarrow> init_drivers ioremap ops drvs st)"

text \<open>The uninit operations run for every feature that has operations bound.\<close>

fun uinit_features ::
  "(nat \<Rightarrow> 's dfl_feature_ops) \<Rightarrow> nat \<Rightarrow> nat \<Rightarrow> dfl_feature list \<times> 's \<Rightarrow> dfl_feature list \<times> 's" where
  "uinit_features ops i 0 st = st"
| "uinit_features ops i (Suc k) st =
     uinit_features ops (Suc i) k
       (case st of (fs, s) \<Rightarrow>
          (case ft_ops (fs ! i) of
             None \<Rightarrow> (fs, s)
           | Some n \<Rightarrow> (fs[i := (fs ! i)\<lparr>ft_ops := None\<rparr>],
                        case fops_uinit (ops n) of None \<Rightarrow> s | Some uinit \<Rightarrow> uinit fs i s)))"

definition dfl_fpga_dev_feature_uinit ::
  "(nat \<Rightarrow> 's dfl_feature_ops) \<Rightarrow> dfl_feature list \<times> 's \<Rightarrow> dfl_feature list \<times> 's" where
  "dfl_fpga_dev_feature_uinit ops st =
     uinit_features ops 0 (length (fst st)) (apfst dfl_devs_remove st)"

definition dfl_fpga_dev_feature_init ::
  "(int \<Rightarrow> errno + u64) \<Rightarrow> (dfl_feature \<Rightarrow> errno + nat) \<Rightarrow> (nat \<Rightarrow> 's dfl_feature_ops) \<Rightarrow> dfl_feature_driver list
   \<Rightarrow> dfl_feature list \<times> 's \<Rightarrow> (dfl_feature list \<times> 's) ret" where
  "dfl_fpga_dev_feature_init ioremap dfl_dev_add ops drvs st =
     (case init_drivers ioremap ops drvs st of
        (Some e, st) \<Rightarrow> (Some e, dfl_fpga_dev_feature_uinit ops st)
      | (None, (fs, s)) \<Rightarrow>
          (case dfl_devs_add dfl_dev_add fs of
             (Some e, fs) \<Rightarrow> (Some e, dfl_fpga_dev_feature_uinit ops (fs, s))
           | (None, fs) \<Rightarrow> (None, (fs, s))))"

section \<open>Character device regions\<close>

text \<open>The three regions by their major number, 0 while not allocated.\<close>

type_synonym chrdevs = "nat list"

definition dfl_chardev_uinit :: "chrdevs \<Rightarrow> chrdevs" where
  "dfl_chardev_uinit devts = map (\<lambda>_. 0) devts"

fun dfl_chardev_init_loop :: "(nat \<Rightarrow> errno + nat) \<Rightarrow> nat \<Rightarrow> nat \<Rightarrow> chrdevs \<Rightarrow> chrdevs ret" where
  "dfl_chardev_init_loop alloc i 0 devts = (None, devts)"
| "dfl_chardev_init_loop alloc i (Suc k) devts =
     (case alloc i of
        Inl e \<Rightarrow> (Some e, dfl_chardev_uinit devts)
      | Inr major \<Rightarrow> dfl_chardev_init_loop alloc (Suc i) k (devts[i := major]))"

definition dfl_chardev_init :: "(nat \<Rightarrow> errno + nat) \<Rightarrow> chrdevs \<Rightarrow> chrdevs ret" where
  "dfl_chardev_init alloc devts = dfl_chardev_init_loop alloc 0 3 devts"

text \<open>A device number is a major and a minor; an unknown kind has none.\<close>

definition dfl_get_devt :: "chrdevs \<Rightarrow> nat \<Rightarrow> nat \<Rightarrow> nat \<times> nat" where
  "dfl_get_devt devts type i = (if type \<ge> 3 then (0, 0) else (devts ! type, i))"


section \<open>Properties of matching\<close>

lemma dfl_bus_match_eq:
  "dfl_bus_match tbl ddev =
     find (\<lambda>i. dfl_match_one_device i ddev)
       (takeWhile (\<lambda>i. did_feature_id i \<noteq> 0 \<or> dfl_guid_is_valid (did_guid i)) tbl)"
  by (induction tbl) auto

lemma dfl_feature_drv_match_eq:
  "dfl_feature_drv_match f ids \<longleftrightarrow>
     (\<exists>i \<in> set (takeWhile (\<lambda>i. fid_id i \<noteq> 0 \<or> dfl_guid_is_valid (fid_guid i)) ids). dfl_feature_id_match f i)"
  by (induction ids) auto

text \<open>
  A driver is bound to a device by the first entry of its table, before the end mark, that
  matches it; the entry has the device's valid guid, or its type and feature id.
\<close>

theorem bus_match_first_entry:
  "(case dfl_bus_match tbl ddev of
      Some i \<Rightarrow> (\<exists>pre post. tbl = pre @ i # post \<and> (\<forall>j \<in> set pre. \<not> dfl_match_one_device j ddev)) \<and>
        (dfl_guid_is_valid (did_guid i) \<and> did_guid i = dd_guid ddev \<or>
         did_type i = dd_type ddev \<and> did_feature_id i = dd_feature_id ddev)
    | None \<Rightarrow> \<forall>j \<in> set (takeWhile (\<lambda>i. did_feature_id i \<noteq> 0 \<or> dfl_guid_is_valid (did_guid i)) tbl).
        \<not> dfl_match_one_device j ddev)"
proof (induction tbl)
  case (Cons j tbl)
  show ?case
  proof (cases "(did_feature_id j \<noteq> 0 \<or> dfl_guid_is_valid (did_guid j)) \<and> \<not> dfl_match_one_device j ddev")
    case True
    show ?thesis
    proof (cases "dfl_bus_match tbl ddev")
      case (Some i)
      with Cons obtain pre post where "tbl = pre @ i # post" "\<forall>j \<in> set pre. \<not> dfl_match_one_device j ddev"
        "dfl_guid_is_valid (did_guid i) \<and> did_guid i = dd_guid ddev \<or>
         did_type i = dd_type ddev \<and> did_feature_id i = dd_feature_id ddev" by auto
      moreover have "j # tbl = (j # pre) @ i # post" "\<forall>k \<in> set (j # pre). \<not> dfl_match_one_device k ddev"
        using calculation(1,2) True by simp_all
      moreover have "dfl_bus_match (j # tbl) ddev = Some i" using True Some by simp
      ultimately show ?thesis by (simp only: option.case) blast
    qed (use True Cons in auto)
  qed (auto simp: dfl_match_one_device_def intro: exI [of _ "[]"])
qed simp

theorem bus_match_first_entry_witness:
  "case dfl_bus_match [\<lparr>did_type = 0, did_feature_id = 5, did_guid = guid_null\<rparr>,
       \<lparr>did_type = 0, did_feature_id = 7, did_guid = guid_null\<rparr>] \<lparr>dd_type = 0, dd_feature_id = 7, dd_guid = guid_null\<rparr> of
     Some i \<Rightarrow> did_feature_id i = 7 | None \<Rightarrow> False"
  using bus_match_first_entry [of "[\<lparr>did_type = 0, did_feature_id = 5, did_guid = guid_null\<rparr>,
       \<lparr>did_type = 0, did_feature_id = 7, did_guid = guid_null\<rparr>]" "\<lparr>dd_type = 0, dd_feature_id = 7, dd_guid = guid_null\<rparr>"]
  by (simp add: dfl_match_one_device_def dfl_guid_is_valid_def)

text \<open>
  An id table entry that only names a guid also matches by its id, zero: a driver with such an
  entry is taken for every feature whose id is zero, in particular for the zeroed entries of
  a features array, whatever its guid.
\<close>

theorem guid_only_entry_matches_id_zero:
  assumes "dfl_guid_is_valid g" and "ft_id f = 0"
  shows "dfl_feature_drv_match f (\<lparr>fid_id = 0, fid_guid = g\<rparr> # ids)"
  using assms by (simp add: dfl_feature_id_match_def)

theorem guid_only_entry_matches_id_zero_witness:
  "dfl_feature_drv_match feature_zero [\<lparr>fid_id = 0, fid_guid = guid_null\<lparr>g_a := 1\<rparr>\<rparr>]"
  by (rule guid_only_entry_matches_id_zero) (simp_all add: dfl_guid_is_valid_def guid_null_def guid_invalid_def feature_zero_def)

section \<open>Properties of initialisation\<close>

lemma apsnd_eq: "apsnd g p = (a, b) \<longleftrightarrow> (\<exists>c. p = (a, c) \<and> b = g c)"
  by (cases p) auto

lemma dfl_devs_add_loop_ok:
  assumes "dfl_devs_add_loop add fs = (None, fs')"
  shows "length fs' = length fs \<and> (\<forall>f \<in> set fs'. ft_ioaddr f \<noteq> None \<or> ft_ddev f \<noteq> None)"
  using assms
proof (induction fs arbitrary: fs')
  case (Cons f fs)
  from Cons.prems obtain f' c where c: "fs' = f' # c" "dfl_devs_add_loop add fs = (None, c)"
    "ft_ioaddr f' \<noteq> None \<or> ft_ddev f' \<noteq> None"
    by (auto simp: apsnd_eq split: if_splits sum.splits)
  from Cons.IH [OF c(2)] c(1,3) show ?case by simp
qed simp

lemma instance_init_length:
  "dfl_feature_instance_init ioremap ops drv i st = (r, st') \<Longrightarrow> length (fst st') = length (fst st)"
  by (auto simp: dfl_feature_instance_init_def split: if_splits sum.splits option.splits prod.splits)

lemma init_features_length:
  "init_features ioremap ops drv i k st = (r, st') \<Longrightarrow> length (fst st') = length (fst st)"
proof (induction ioremap ops drv i k st rule: init_features.induct)
  case (2 ioremap ops drv i k st)
  show ?case
  proof (cases "drv_matches drv (fst st ! i)")
    case True
    obtain r1 st1 where c: "dfl_feature_instance_init ioremap ops drv i st = (r1, st1)" by (metis surj_pair)
    show ?thesis
    proof (cases r1)
      case None
      with 2 c True have "length (fst st') = length (fst st1)" by fastforce
      with instance_init_length [OF c] show ?thesis by simp
    qed (use 2 c True instance_init_length [OF c] in auto)
  qed (use 2 in auto)
qed simp

lemma init_drivers_length:
  "init_drivers ioremap ops drvs st = (r, st') \<Longrightarrow> length (fst st') = length (fst st)"
  by (induction drvs arbitrary: st) (auto split: prod.splits option.splits dest: init_features_length)

lemma uinit_features_unbound:
  assumes "uinit_features ops i k (fs, s) = (fs', s')" and "i + k \<le> length fs"
  shows "length fs' = length fs \<and> (\<forall>j < length fs. ft_ddev (fs' ! j) = ft_ddev (fs ! j) \<and>
     ft_ops (fs' ! j) = (if i \<le> j \<and> j < i + k then None else ft_ops (fs ! j)))"
  using assms
proof (induction k arbitrary: i fs s)
  case (Suc k)
  obtain fs1 s1 where c: "(case ft_ops (fs ! i) of None \<Rightarrow> (fs, s) | Some n \<Rightarrow>
      (fs[i := (fs ! i)\<lparr>ft_ops := None\<rparr>], case fops_uinit (ops n) of None \<Rightarrow> s | Some uinit \<Rightarrow> uinit fs i s)) = (fs1, s1)"
    by fastforce
  then have f1: "length fs1 = length fs" "\<forall>j < length fs. ft_ddev (fs1 ! j) = ft_ddev (fs ! j) \<and>
      ft_ops (fs1 ! j) = (if j = i then None else ft_ops (fs ! j))"
    by (auto simp: nth_list_update split: option.splits)
  from Suc.prems c have "uinit_features ops (Suc i) k (fs1, s1) = (fs', s')" "Suc i + k \<le> length fs1" using f1(1) by simp_all
  from Suc.IH [OF this] f1 show ?case by (auto simp: less_Suc_eq)
qed auto

lemma feature_uinit_unbound:
  assumes "dfl_fpga_dev_feature_uinit ops st = (fs', s')"
    and "f \<in> set fs'"
  shows "ft_ops f = None \<and> ft_ddev f = None"
proof -
  obtain fs s where st: "st = (fs, s)" by fastforce
  from assms(1) st have "uinit_features ops 0 (length fs) (dfl_devs_remove fs, s) = (fs', s')"
    by (simp add: dfl_fpga_dev_feature_uinit_def)
  from uinit_features_unbound [OF this] assms(2) show ?thesis
    by (auto simp: dfl_devs_remove_def in_set_conv_nth)
qed

text \<open>
  Initialising the sub features of a feature device is all or nothing. On success every feature is
  mapped by the framework or a driver, or exposed as a dfl device; on failure no driver
  operations are bound and no dfl device is left.
\<close>

theorem feature_init_all_or_nothing:
  "case dfl_fpga_dev_feature_init ioremap add ops drvs (fs, s) of
     (None, (fs', s')) \<Rightarrow> length fs' = length fs \<and> (\<forall>f \<in> set fs'. ft_ioaddr f \<noteq> None \<or> ft_ddev f \<noteq> None)
   | (Some e, (fs', s')) \<Rightarrow> \<forall>f \<in> set fs'. ft_ops f = None \<and> ft_ddev f = None"
proof -
  obtain r1 fs1 s1 where i: "init_drivers ioremap ops drvs (fs, s) = (r1, (fs1, s1))" by (metis prod_cases3)
  obtain r2 fs2 where d: "dfl_devs_add_loop add fs1 = (r2, fs2)" by fastforce
  show ?thesis
  proof (cases "r1 = None \<and> r2 = None")
    case True
    with i d dfl_devs_add_loop_ok [of add fs1 fs2] init_drivers_length [OF i] show ?thesis
      by (simp add: dfl_fpga_dev_feature_init_def dfl_devs_add_def)
  next
    case False
    with i d show ?thesis
      by (auto simp: dfl_fpga_dev_feature_init_def dfl_devs_add_def split: option.splits prod.splits dest: feature_uinit_unbound)
  qed
qed

text \<open>Operations that count how often they run.\<close>

definition counting_ops :: "nat \<Rightarrow> int dfl_feature_ops" where
  "counting_ops n = \<lparr>fops_init = Some (\<lambda>fs i s. (None, s + 1)), fops_uinit = Some (\<lambda>fs i s. s - 1)\<rparr>"

theorem feature_init_all_or_nothing_witness:
  "\<exists>f g. dfl_fpga_dev_feature_init (\<lambda>_. Inr 0x1000) (\<lambda>_. Inr 3) counting_ops
       [\<lparr>fdrv_ids = Some [\<lparr>fid_id = 7, fid_guid = guid_null\<rparr>], fdrv_ops = 1\<rparr>]
       ([feature_zero\<lparr>ft_id := 7\<rparr>, feature_zero\<lparr>ft_id := 8\<rparr>], 0) = (None, ([f, g], 1)) \<and>
     (ft_ioaddr f \<noteq> None \<or> ft_ddev f \<noteq> None) \<and> (ft_ioaddr g \<noteq> None \<or> ft_ddev g \<noteq> None)"
  using feature_init_all_or_nothing [where ioremap = "\<lambda>_. Inr 0x1000" and add = "\<lambda>_. Inr 3" and ops = counting_ops and
       drvs = "[\<lparr>fdrv_ids = Some [\<lparr>fid_id = 7, fid_guid = guid_null\<rparr>], fdrv_ops = 1\<rparr>]" and
       fs = "[feature_zero\<lparr>ft_id := 7\<rparr>, feature_zero\<lparr>ft_id := 8\<rparr>]" and s = 0]
  by (simp add: dfl_fpga_dev_feature_init_def feature_zero_def dfl_feature_id_match_def dfl_feature_instance_init_def
      is_header_feature_def dfl_devs_add_def dfl_guid_is_valid_def drv_matches_def counting_ops_def)

text \<open>What every operation keeps, the whole initialisation keeps.\<close>

definition ops_keep :: "('s \<Rightarrow> bool) \<Rightarrow> (nat \<Rightarrow> 's dfl_feature_ops) \<Rightarrow> bool" where
  "ops_keep P ops \<longleftrightarrow>
     (\<forall>n init fs i s. fops_init (ops n) = Some init \<longrightarrow> P s \<longrightarrow> P (snd (init fs i s))) \<and>
     (\<forall>n uinit fs i s. fops_uinit (ops n) = Some uinit \<longrightarrow> P s \<longrightarrow> P (uinit fs i s))"

lemma instance_init_keeps:
  assumes "dfl_feature_instance_init ioremap ops drv i st = (r, st')" and "ops_keep P ops" and "P (snd st)"
  shows "P (snd st')"
proof (cases "fops_init (ops (fdrv_ops drv))")
  case None
  with assms(1,3) show ?thesis
    by (auto simp: dfl_feature_instance_init_def split: if_splits sum.splits option.splits prod.splits)
next
  case (Some init)
  with assms(2) have "P (snd (init fs i s))" if "P s" for fs s
    using that by (auto simp: ops_keep_def)
  then have "\<And>fs s r s'. P s \<Longrightarrow> init fs i s = (r, s') \<Longrightarrow> P s'" by (metis snd_conv)
  with assms(1,3) Some show ?thesis
    by (auto simp: dfl_feature_instance_init_def split: if_splits sum.splits option.splits prod.splits)
qed

lemma init_features_keeps:
  "init_features ioremap ops drv i k st = (r, st') \<Longrightarrow> ops_keep P ops \<Longrightarrow> P (snd st) \<Longrightarrow> P (snd st')"
proof (induction ioremap ops drv i k st rule: init_features.induct)
  case (2 ioremap ops drv i k st)
  show ?case
  proof (cases "drv_matches drv (fst st ! i)")
    case True
    obtain r1 st1 where c: "dfl_feature_instance_init ioremap ops drv i st = (r1, st1)" by (metis surj_pair)
    note keep = instance_init_keeps [OF c "2.prems"(2,3)]
    show ?thesis
    proof (cases r1)
      case None
      with 2 c True keep show ?thesis by fastforce
    qed (use 2 c True keep in auto)
  qed (use 2 in auto)
qed simp

lemma init_drivers_keeps:
  "init_drivers ioremap ops drvs st = (r, st') \<Longrightarrow> ops_keep P ops \<Longrightarrow> P (snd st) \<Longrightarrow> P (snd st')"
proof (induction drvs arbitrary: st)
  case (Cons drv drvs)
  obtain r1 st1 where c: "init_features ioremap ops drv 0 (length (fst st)) st = (r1, st1)" by (metis surj_pair)
  with Cons init_features_keeps [OF c Cons.prems(2,3)] show ?case by (cases r1) auto
qed simp

lemma uinit_features_keeps:
  "ops_keep P ops \<Longrightarrow> P (snd st) \<Longrightarrow> P (snd (uinit_features ops i k st))"
proof (induction k arbitrary: i st)
  case (Suc k)
  have "P (snd (case st of (fs, s) \<Rightarrow> (case ft_ops (fs ! i) of None \<Rightarrow> (fs, s)
      | Some n \<Rightarrow> (fs[i := (fs ! i)\<lparr>ft_ops := None\<rparr>], case fops_uinit (ops n) of None \<Rightarrow> s | Some uinit \<Rightarrow> uinit fs i s))))"
    using Suc.prems by (auto simp: ops_keep_def split: option.splits prod.splits)
  from Suc.IH [OF Suc.prems(1) this] show ?case by simp
qed simp

lemma feature_uinit_keeps:
  "dfl_fpga_dev_feature_uinit ops st = (fs, s) \<Longrightarrow> ops_keep P ops \<Longrightarrow> P (snd st) \<Longrightarrow> P s"
  using uinit_features_keeps [of P ops "apfst dfl_devs_remove st" 0 "length (fst st)"]
  by (simp add: dfl_fpga_dev_feature_uinit_def)

text \<open>The whole of \<^verbatim>\<open>dfl_fpga_dev_feature_init\<close> for its users.\<close>

lemma feature_init_cases:
  assumes "dfl_fpga_dev_feature_init ioremap add ops drvs (fs, s) = (r, (fs', s'))" and "ops_keep P ops" and "P s"
  shows "P s'" and "r \<noteq> None \<Longrightarrow> f \<in> set fs' \<Longrightarrow> ft_ops f = None \<and> ft_ddev f = None"
    and "r = None \<Longrightarrow> f \<in> set fs' \<Longrightarrow> ft_ioaddr f \<noteq> None \<or> ft_ddev f \<noteq> None" and "r = None \<Longrightarrow> length fs' = length fs"
proof -
  obtain r1 fs1 s1 where i: "init_drivers ioremap ops drvs (fs, s) = (r1, (fs1, s1))" by (metis prod_cases3)
  obtain r2 fs2 where d: "dfl_devs_add_loop add fs1 = (r2, fs2)" by fastforce
  have p1: "P s1" using init_drivers_keeps [OF i assms(2)] assms(3) by simp
  have un: "P s3" if "dfl_fpga_dev_feature_uinit ops (fs2', s1) = (fs3, s3)" for fs2' fs3 s3
    using feature_uinit_keeps [OF that assms(2)] p1 by simp
  show "P s'" using assms(1) i d p1 un
    by (auto simp: dfl_fpga_dev_feature_init_def dfl_devs_add_def split: option.splits)
  show "r \<noteq> None \<Longrightarrow> f \<in> set fs' \<Longrightarrow> ft_ops f = None \<and> ft_ddev f = None"
    using assms(1) i d
    by (auto simp: dfl_fpga_dev_feature_init_def dfl_devs_add_def split: option.splits dest: feature_uinit_unbound)
  show "r = None \<Longrightarrow> f \<in> set fs' \<Longrightarrow> ft_ioaddr f \<noteq> None \<or> ft_ddev f \<noteq> None"
    using assms(1) i d dfl_devs_add_loop_ok [of add fs1 fs2]
    by (auto simp: dfl_fpga_dev_feature_init_def dfl_devs_add_def split: option.splits)
  show "r = None \<Longrightarrow> length fs' = length fs"
    using assms(1) i d dfl_devs_add_loop_ok [of add fs1 fs2] init_drivers_length [OF i]
    by (auto simp: dfl_fpga_dev_feature_init_def dfl_devs_add_def split: option.splits)
qed

lemma chardev_init_loop_length: "dfl_chardev_init_loop alloc i k devts = (r, devts') \<Longrightarrow> length devts' = length devts"
  by (induction k arbitrary: i devts) (auto simp: dfl_chardev_uinit_def split: sum.splits)

lemma chardev_init_loop_err: "dfl_chardev_init_loop alloc i k devts = (Some e, devts') \<Longrightarrow> \<forall>d \<in> set devts'. d = 0"
  by (induction k arbitrary: i devts) (auto simp: dfl_chardev_uinit_def split: sum.splits)

text \<open>
  The character device regions are allocated together: on success each of the three has the
  number the kernel gave it, on failure all of them are given back.
\<close>

theorem chardev_init_all_or_nothing:
  "case dfl_chardev_init alloc [0, 0, 0] of
     (None, devts) \<Rightarrow> \<exists>a b c. alloc 0 = Inr a \<and> alloc 1 = Inr b \<and> alloc 2 = Inr c \<and> devts = [a, b, c]
   | (Some e, devts) \<Rightarrow> devts = [0, 0, 0] \<and> (\<exists>i < 3. alloc i = Inl e)"
  by (auto simp: dfl_chardev_init_def numeral_3_eq_3 numeral_2_eq_2 dfl_chardev_uinit_def split: sum.splits)

end
