(* ===== verification/Afu_Region.thy ===== *)
theory Afu_Region
  imports Prelude
begin

unbundle bit_operations_syntax

text \<open>
  The MMIO regions of an AFU (\<^verbatim>\<open>drivers/fpga/dfl-afu-region.c\<close>): a list of regions, each with its own
  index and its own range of offsets in the device file. The interface its users rely on is a
  locale; its interpretation on the list is at the end.
\<close>

section \<open>Keyed stores\<close>

text \<open>
  A store of values under keys that only grows: adding under a key in use fails, and a failed
  addition changes nothing.
\<close>

locale keyed_store =
  fixes add :: "'k \<Rightarrow> 'a \<Rightarrow> 's \<Rightarrow> 's ret" and get :: "'s \<Rightarrow> 'k \<Rightarrow> 'v option" and holds :: "'a \<Rightarrow> 'v \<Rightarrow> bool"
  assumes add_ok: "add k a s = (None, s') \<Longrightarrow>
      get s k = None \<and> (\<exists>v. get s' k = Some v \<and> holds a v) \<and> (\<forall>k'. k' \<noteq> k \<longrightarrow> get s' k' = get s k')"
    and add_err: "add k a s = (Some e, s') \<Longrightarrow> s' = s"
    and add_used: "get s k = Some v \<Longrightarrow> fst (add k a s) \<noteq> None"
begin

fun add_all :: "('k \<times> 'a) list \<Rightarrow> 's \<Rightarrow> 's ret" where
  "add_all [] s = (None, s)"
| "add_all ((k, a) # kas) s = (case add k a s of (Some e, s) \<Rightarrow> (Some e, s) | (None, s) \<Rightarrow> add_all kas s)"

lemma add_keeps: "add k a s = (r, s') \<Longrightarrow> get s k' = Some v \<Longrightarrow> get s' k' = Some v"
  using add_ok [of k a s s'] add_err [of k a s] by (cases r; cases "k = k'") auto

lemma add_all_keeps: "add_all kas s = (r, s') \<Longrightarrow> get s k = Some v \<Longrightarrow> get s' k = Some v"
proof (induction kas arbitrary: s)
  case (Cons ka kas)
  obtain k' a where ka: "ka = (k', a)" by fastforce
  obtain r1 s1 where "add k' a s = (r1, s1)" by fastforce
  with Cons ka show ?case by (cases r1) (auto dest: add_keeps)
qed simp

lemma add_all_distinct:
  "add_all kas s = (None, s') \<Longrightarrow>
     distinct (map fst kas) \<and> (\<forall>(k, a) \<in> set kas. get s k = None \<and> (\<exists>v. get s' k = Some v \<and> holds a v))"
proof (induction kas arbitrary: s)
  case (Cons ka kas)
  obtain k a where ka: "ka = (k, a)" by fastforce
  obtain r1 s1 where c: "add k a s = (r1, s1)" by fastforce
  with Cons.prems ka have r: "r1 = None" "add_all kas s1 = (None, s')" by (auto split: option.splits)
  note ok = add_ok [OF c [unfolded r(1)]]
  then obtain v where v: "get s1 k = Some v" "holds a v" by blast
  have "get s' k = Some v" by (rule add_all_keeps [OF r(2) v(1)])
  moreover from Cons.IH [OF r(2)] v(1) have "k \<notin> fst ` set kas" by fastforce
  ultimately show ?case using ka ok v(2) Cons.IH [OF r(2)] by fastforce
qed simp

end

section \<open>The region list\<close>

record dfl_afu_mmio_region =
  rg_index :: u32
  rg_flags :: u32
  rg_size :: u64
  rg_offset :: u64
  rg_phys :: u64

record dfl_afu =
  region_cur_offset :: u64
  num_regions :: int
  num_umsgs :: u8
  regions :: "dfl_afu_mmio_region list"

definition afu_mmio_region_init :: "dfl_afu \<Rightarrow> dfl_afu" where
  "afu_mmio_region_init afu = afu\<lparr>regions := []\<rparr>"

definition get_region_by_index :: "dfl_afu \<Rightarrow> u32 \<Rightarrow> dfl_afu_mmio_region option" where
  "get_region_by_index afu region_index = find (\<lambda>r. rg_index r = region_index) (regions afu)"

definition afu_mmio_region_add :: "bool \<Rightarrow> u32 \<Rightarrow> u64 \<Rightarrow> u64 \<Rightarrow> u32 \<Rightarrow> dfl_afu \<Rightarrow> dfl_afu ret" where
  "afu_mmio_region_add kzalloc_ok region_index region_size phys flags afu =
     (if \<not> kzalloc_ok then (Some ENOMEM, afu)
      else if get_region_by_index afu region_index \<noteq> None then (Some EEXIST, afu)
      else (None, afu\<lparr>regions := \<lparr>rg_index = region_index, rg_flags = flags, rg_size = region_size,
                                  rg_offset = region_cur_offset afu, rg_phys = phys\<rparr> # regions afu,
                      region_cur_offset := region_cur_offset afu + page_align region_size,
                      num_regions := num_regions afu + 1\<rparr>))"

definition afu_mmio_region_destroy :: "dfl_afu \<Rightarrow> dfl_afu_mmio_region list" where
  "afu_mmio_region_destroy afu = regions afu"

definition afu_mmio_region_get_by_index :: "dfl_afu \<Rightarrow> u32 \<Rightarrow> errno + dfl_afu_mmio_region" where
  "afu_mmio_region_get_by_index afu region_index =
     (case get_region_by_index afu region_index of None \<Rightarrow> Inl EINVAL | Some r \<Rightarrow> Inr r)"

definition region_covers :: "u64 \<Rightarrow> u64 \<Rightarrow> dfl_afu_mmio_region \<Rightarrow> bool" where
  "region_covers offset sz r \<longleftrightarrow> rg_offset r \<le> offset \<and> rg_offset r + rg_size r \<ge> offset + sz"

definition afu_mmio_region_get_by_offset :: "dfl_afu \<Rightarrow> u64 \<Rightarrow> u64 \<Rightarrow> errno + dfl_afu_mmio_region" where
  "afu_mmio_region_get_by_offset afu offset sz =
     (case find (region_covers offset sz) (regions afu) of None \<Rightarrow> Inl EINVAL | Some r \<Rightarrow> Inr r)"

text \<open>The list is a keyed store of regions under their indices.\<close>

definition region_store_add :: "u32 \<Rightarrow> bool \<times> u64 \<times> u64 \<times> u32 \<Rightarrow> dfl_afu \<Rightarrow> dfl_afu ret" where
  "region_store_add k a afu = (case a of (ok, sz, phys, flags) \<Rightarrow> afu_mmio_region_add ok k sz phys flags afu)"

definition region_holds :: "bool \<times> u64 \<times> u64 \<times> u32 \<Rightarrow> dfl_afu_mmio_region \<Rightarrow> bool" where
  "region_holds a r \<longleftrightarrow> (case a of (ok, sz, phys, flags) \<Rightarrow> rg_size r = sz \<and> rg_phys r = phys \<and> rg_flags r = flags)"

interpretation mmio: keyed_store region_store_add get_region_by_index region_holds
  by unfold_locales
    (auto simp: region_store_add_def region_holds_def afu_mmio_region_add_def get_region_by_index_def split: if_splits)

section \<open>Disjoint offsets\<close>

text \<open>
  \<^verbatim>\<open>region_cur_offset\<close> counts in 64 bits; while the space handed out stays below \<open>2 ^ 64\<close>, the
  regions lie one after the other, each on its own pages.
\<close>

lemma unat_page_align:
  assumes "unat x + 4095 < 2 ^ 64"
  shows "unat (page_align x) = align_up (unat x) 4096"
proof -
  have "page_align x = push_bit 12 (drop_bit 12 (x + 4095))"
  proof -
    have e: "page_align x = (x + 4095) AND NOT (mask 12)"
      by (simp add: page_align_def mask_eq_exp_minus_1)
    show ?thesis unfolding e by (rule bit_eqI) (auto simp: bit_simps)
  qed
  then have "unat (page_align x) = unat (push_bit 12 (drop_bit 12 (x + 4095)))" by simp
  also have "... = take_bit 64 (push_bit 12 (drop_bit 12 (unat (x + 4095))))"
    using unsigned_less [of "x + 4095", where 'a = nat]
    by (simp add: unsigned_push_bit_eq unsigned_drop_bit_eq take_bit_nat_eq_self)
  also have "unat (x + 4095) = unat x + 4095" using assms by (subst unat_add_lem [THEN iffD1]) auto
  also have "push_bit 12 (drop_bit 12 (unat x + 4095)) = (unat x + 4095) div 4096 * 4096"
    by (simp add: push_bit_eq_mult drop_bit_eq_div)
  also have "take_bit 64 ((unat x + 4095) div 4096 * 4096) = (unat x + 4095) div 4096 * 4096"
  proof (rule take_bit_nat_eq_self)
    have "(unat x + 4095) div 4096 * 4096 \<le> unat x + 4095" by (rule div_times_less_eq_dividend)
    with assms show "(unat x + 4095) div 4096 * 4096 < 2 ^ 64" by linarith
  qed
  finally show ?thesis by (simp add: align_up_def)
qed


text \<open>\<open>before e rs\<close>: the regions of a list lie below the offset \<open>e\<close>, newest first, without overlap.\<close>

fun before :: "nat \<Rightarrow> dfl_afu_mmio_region list \<Rightarrow> bool" where
  "before e [] = True"
| "before e (r # rs) \<longleftrightarrow> unat (rg_offset r) + unat (rg_size r) \<le> e \<and> 4096 dvd unat (rg_offset r) \<and>
     before (unat (rg_offset r)) rs"

definition regions_inv :: "dfl_afu \<Rightarrow> bool" where
  "regions_inv afu \<longleftrightarrow> before (unat (region_cur_offset afu)) (regions afu) \<and> 4096 dvd unat (region_cur_offset afu) \<and>
     distinct (map rg_index (regions afu)) \<and> num_regions afu = int (length (regions afu))"

lemma before_mono: "before e rs \<Longrightarrow> e \<le> e' \<Longrightarrow> before e' rs"
  by (cases rs) auto

lemma before_member: "before e rs \<Longrightarrow> r \<in> set rs \<Longrightarrow> unat (rg_offset r) + unat (rg_size r) \<le> e \<and> 4096 dvd unat (rg_offset r)"
  by (induction rs arbitrary: e) fastforce+

lemma before_disjoint:
  "before e rs \<Longrightarrow> i < j \<Longrightarrow> j < length rs \<Longrightarrow>
     unat (rg_offset (rs ! j)) + unat (rg_size (rs ! j)) \<le> unat (rg_offset (rs ! i))"
proof (induction rs arbitrary: e i j)
  case (Cons r rs)
  show ?case
  proof (cases i)
    case 0
    with Cons.prems have "rs ! (j - 1) \<in> set rs" "before (unat (rg_offset r)) rs" by auto
    with before_member [of "unat (rg_offset r)" rs "rs ! (j - 1)"] 0 Cons.prems show ?thesis by (cases j) auto
  next
    case (Suc k)
    with Cons.IH [of "unat (rg_offset r)" k "j - 1"] Cons.prems show ?thesis by (cases j) auto
  qed
qed simp

lemma regions_inv_add:
  assumes "afu_mmio_region_add ok k sz phys flags afu = (None, afu')" and "regions_inv afu"
    and "unat (region_cur_offset afu) + align_up (unat sz) 4096 < 2 ^ 64"
  shows "regions_inv afu' \<and> unat (region_cur_offset afu') = unat (region_cur_offset afu) + align_up (unat sz) 4096"
proof -
  have "unat sz \<le> align_up (unat sz) 4096" by (rule align_up_ge) simp
  moreover have a: "4096 dvd align_up (unat sz) 4096" by (rule align_up_dvd)
  moreover have "align_up (unat sz) 4096 < 2 ^ 64" using assms(3) by simp
  moreover have "unat sz + 4095 < 2 ^ 64"
  proof (rule ccontr)
    assume "\<not> unat sz + 4095 < 2 ^ 64"
    then have "2 ^ 64 \<le> align_up (unat sz) 4096" by (simp add: align_up_def) 
    with \<open>align_up (unat sz) 4096 < 2 ^ 64\<close> show False by simp
  qed
  ultimately have u: "unat (region_cur_offset afu + page_align sz) = unat (region_cur_offset afu) + align_up (unat sz) 4096"
    using assms(3) by (subst unat_add_lem [THEN iffD1]) (simp_all add: unat_page_align)
  have "k \<notin> rg_index ` set (regions afu)"
    using assms(1) by (auto simp: afu_mmio_region_add_def get_region_by_index_def find_None_iff split: if_splits)
  with assms(1,2) u a \<open>unat sz \<le> align_up (unat sz) 4096\<close> show ?thesis
    by (auto simp: afu_mmio_region_add_def regions_inv_def split: if_splits)
qed


text \<open>The pages a list of additions needs.\<close>

definition space :: "(u32 \<times> bool \<times> u64 \<times> u64 \<times> u32) list \<Rightarrow> nat" where
  "space kas = sum_list (map (\<lambda>(k, ok, sz, phys, flags). align_up (unat sz) 4096) kas)"

lemma add_all_inv:
  assumes "mmio.add_all kas afu = (None, afu')" and "regions_inv afu"
    and "unat (region_cur_offset afu) + space kas < 2 ^ 64"
  shows "regions_inv afu' \<and> unat (region_cur_offset afu') = unat (region_cur_offset afu) + space kas"
  using assms
proof (induction kas arbitrary: afu)
  case (Cons ka kas)
  obtain k ok sz phys flags where ka: "ka = (k, ok, sz, phys, flags)" by (metis prod_cases5)
  obtain r afu1 where st: "region_store_add k (ok, sz, phys, flags) afu = (r, afu1)" by fastforce
  from Cons.prems(1) ka st have rest: "r = None" "mmio.add_all kas afu1 = (None, afu')"
    by (cases r; simp)+
  with st have c: "afu_mmio_region_add ok k sz phys flags afu = (None, afu1)" "mmio.add_all kas afu1 = (None, afu')"
    by (simp_all add: region_store_add_def)
  have "unat (region_cur_offset afu) + align_up (unat sz) 4096 < 2 ^ 64"
    using Cons.prems(3) ka by (simp add: space_def)
  with regions_inv_add [OF c(1) Cons.prems(2)] Cons.IH [OF c(2)] Cons.prems(3) ka show ?case
    by (simp add: space_def)
qed (simp add: space_def)

lemma covers_iff:
  assumes "before e rs" and "e < 2 ^ 64" and "r \<in> set rs" and "unat offset + unat sz < 2 ^ 64"
  shows "region_covers offset sz r \<longleftrightarrow>
     unat (rg_offset r) \<le> unat offset \<and> unat offset + unat sz \<le> unat (rg_offset r) + unat (rg_size r)"
proof -
  have "unat (rg_offset r) + unat (rg_size r) < 2 ^ 64" using before_member [OF assms(1,3)] assms(2) by simp
  then have "unat (rg_offset r + rg_size r) = unat (rg_offset r) + unat (rg_size r)"
    "unat (offset + sz) = unat offset + unat sz"
    using assms(4) by (subst unat_add_lem [THEN iffD1]; simp)+
  then show ?thesis by (simp add: region_covers_def word_le_nat_alt)
qed

text \<open>
  Lookups by offset. For a nonempty range that does not wrap, the region returned is the region
  that contains the range; there is at most one such region, and \<^verbatim>\<open>-EINVAL\<close> means there is none.
\<close>

theorem get_by_offset_exact:
  assumes "regions_inv afu" and "unat offset + unat sz < 2 ^ 64" and "0 < unat sz"
  shows "afu_mmio_region_get_by_offset afu offset sz = Inr r \<longleftrightarrow>
     r \<in> set (regions afu) \<and> unat (rg_offset r) \<le> unat offset \<and>
     unat offset + unat sz \<le> unat (rg_offset r) + unat (rg_size r)"
proof -
  let ?rs = "regions afu" and ?e = "unat (region_cur_offset afu)"
  have b: "before ?e ?rs" using assms(1) by (simp add: regions_inv_def)
  have e: "?e < 2 ^ 64" using unsigned_less [of "region_cur_offset afu", where 'a = nat] by simp
  note cov = covers_iff [OF b e _ assms(2)]
  have uniq: "i = j" if "i < length ?rs" "j < length ?rs" "region_covers offset sz (?rs ! i)" "region_covers offset sz (?rs ! j)" for i j
    using before_disjoint [OF b, of i j] before_disjoint [OF b, of j i] cov [of "?rs ! i"] cov [of "?rs ! j"] that assms(3)
    by (cases i j rule: linorder_cases) simp_all
  show ?thesis
  proof
    assume "afu_mmio_region_get_by_offset afu offset sz = Inr r"
    then have "find (region_covers offset sz) ?rs = Some r"
      by (auto simp: afu_mmio_region_get_by_offset_def split: option.splits)
    then have "r \<in> set ?rs" "region_covers offset sz r" by (auto simp: find_Some_iff)
    then show "r \<in> set ?rs \<and> unat (rg_offset r) \<le> unat offset \<and>
        unat offset + unat sz \<le> unat (rg_offset r) + unat (rg_size r)" using cov by blast
  next
    assume r: "r \<in> set ?rs \<and> unat (rg_offset r) \<le> unat offset \<and>
        unat offset + unat sz \<le> unat (rg_offset r) + unat (rg_size r)"
    then obtain j where j: "j < length ?rs" "r = ?rs ! j" by (auto simp: in_set_conv_nth)
    have c: "region_covers offset sz r" using r cov by blast
    have "find (region_covers offset sz) ?rs = Some (?rs ! j)"
      unfolding find_Some_iff using j c uniq by (intro exI [of _ j]) (metis less_trans nat_neq_iff)
    with j show "afu_mmio_region_get_by_offset afu offset sz = Inr r"
      by (simp add: afu_mmio_region_get_by_offset_def)
  qed
qed

text \<open>
  Regions added one after the other (while the space they need fits 64 bits) have different
  indices, are found again under them with their size, address and flags, start on pages of
  their own and do not overlap.
\<close>

theorem regions_added_disjoint:
  assumes "mmio.add_all kas (afu_mmio_region_init afu0) = (None, afu)"
    and "region_cur_offset afu0 = 0" and "num_regions afu0 = 0" and "space kas < 2 ^ 64"
  shows "distinct (map fst kas) \<and>
     (\<forall>(k, a) \<in> set kas. \<exists>r. afu_mmio_region_get_by_index afu k = Inr r \<and> region_holds a r) \<and>
     (\<forall>r \<in> set (regions afu). 4096 dvd unat (rg_offset r) \<and> unat (rg_offset r) + unat (rg_size r) \<le> space kas) \<and>
     (\<forall>i < length (regions afu). \<forall>j < i.
        unat (rg_offset (regions afu ! i)) + unat (rg_size (regions afu ! i)) \<le> unat (rg_offset (regions afu ! j))) \<and>
     num_regions afu = int (length (regions afu))"
proof -
  have "regions_inv (afu_mmio_region_init afu0)" using assms(2,3) by (simp add: regions_inv_def afu_mmio_region_init_def)
  with add_all_inv [OF assms(1)] assms(2,4) have inv: "regions_inv afu" "unat (region_cur_offset afu) = space kas"
    by (simp_all add: afu_mmio_region_init_def)
  have b: "before (space kas) (regions afu)" using inv by (simp add: regions_inv_def)
  have keys: "\<forall>(k, a) \<in> set kas. \<exists>r. afu_mmio_region_get_by_index afu k = Inr r \<and> region_holds a r"
    using mmio.add_all_distinct [OF assms(1)] by (fastforce simp: afu_mmio_region_get_by_index_def)
  show ?thesis
    using mmio.add_all_distinct [OF assms(1)] keys before_member [OF b] before_disjoint [OF b] inv(1)
    by (auto simp: regions_inv_def)
qed

definition afu0 :: dfl_afu where
  "afu0 = \<lparr>region_cur_offset = 0, num_regions = 0, num_umsgs = 0, regions = []\<rparr>"

lemma add_two:
  "mmio.add_all [(0, True, 0x1800, 0x80000, 7), (1, True, 0x1000, 0x90000, 3)] (afu_mmio_region_init afu0) =
     (None, \<lparr>region_cur_offset = 0x3000, num_regions = 2, num_umsgs = 0, regions =
        [\<lparr>rg_index = 1, rg_flags = 3, rg_size = 0x1000, rg_offset = 0x2000, rg_phys = 0x90000\<rparr>,
         \<lparr>rg_index = 0, rg_flags = 7, rg_size = 0x1800, rg_offset = 0, rg_phys = 0x80000\<rparr>]\<rparr>)"
  by (simp add: region_store_add_def afu_mmio_region_add_def get_region_by_index_def afu_mmio_region_init_def
      afu0_def page_align_def)

theorem regions_added_disjoint_witness:
  "\<exists>afu. mmio.add_all [(0, True, 0x1800, 0x80000, 7), (1, True, 0x1000, 0x90000, 3)] (afu_mmio_region_init afu0) = (None, afu) \<and>
     num_regions afu = int (length (regions afu)) \<and> num_regions afu = 2"
proof -
  have "region_cur_offset afu0 = 0" "num_regions afu0 = 0"
    "space [(0, True, 0x1800, 0x80000, 7), (1, True, 0x1000, 0x90000, 3)] < 2 ^ 64"
    by (simp_all add: afu0_def space_def align_up_def)
  from regions_added_disjoint [OF add_two this] show ?thesis unfolding add_two by simp
qed

theorem get_by_offset_exact_witness:
  "afu_mmio_region_get_by_offset (snd (mmio.add_all [(0, True, 0x1800, 0x80000, 7), (1, True, 0x1000, 0x90000, 3)]
       (afu_mmio_region_init afu0))) 0x2800 0x800 =
   Inr \<lparr>rg_index = 1, rg_flags = 3, rg_size = 0x1000, rg_offset = 0x2000, rg_phys = 0x90000\<rparr>"
  unfolding add_two snd_conv by (subst get_by_offset_exact) (simp_all add: regions_inv_def)

text \<open>
  A range that wraps around the end of the address space is taken to be inside any region that
  starts below it: the comparison adds offset and size in 64 bits.
\<close>

theorem get_by_offset_accepts_wrapped_range:
  "afu_mmio_region_get_by_offset \<lparr>region_cur_offset = 0x1000, num_regions = 1, num_umsgs = 0, regions =
       [\<lparr>rg_index = 0, rg_flags = 7, rg_size = 0x1000, rg_offset = 0, rg_phys = 0x80000\<rparr>]\<rparr> 0xfffffffffffff000 0x2000 =
   Inr \<lparr>rg_index = 0, rg_flags = 7, rg_size = 0x1000, rg_offset = 0, rg_phys = 0x80000\<rparr>"
  by (simp add: afu_mmio_region_get_by_offset_def region_covers_def)

end
