(* ===== verification/Mmio.thy ===== *)
theory Mmio
  imports Prelude
begin

text \<open>
  Register accesses. The device is a function of everything that has been read from and written to
  it: it gives the value of each read. The history grows with every access, so properties of the
  drivers are properties of histories.
\<close>

datatype io = RD u64 u64 | WR u64 u64

type_synonym history = "io list"
type_synonym device = "history \<Rightarrow> u64 \<Rightarrow> u64"

definition readq :: "device \<Rightarrow> u64 \<Rightarrow> history \<Rightarrow> u64 \<times> history" where
  "readq dev addr h = (let v = dev h addr in (v, h @ [RD addr v]))"

definition writeq :: "u64 \<Rightarrow> u64 \<Rightarrow> history \<Rightarrow> history" where
  "writeq v addr h = h @ [WR addr v]"

text \<open>
  \<^verbatim>\<open>readq_poll_timeout\<close>: reads until the condition holds, for as many reads as fit in the time-out;
  \<open>None\<close> is a time-out. The last value read is handed back with it.
\<close>

fun readq_poll :: "device \<Rightarrow> u64 \<Rightarrow> (u64 \<Rightarrow> bool) \<Rightarrow> nat \<Rightarrow> history \<Rightarrow> bool \<times> u64 \<times> history" where
  "readq_poll dev addr cond 0 h = (let (v, h) = readq dev addr h in (cond v, v, h))"
| "readq_poll dev addr cond (Suc n) h =
     (let (v, h) = readq dev addr h in if cond v then (True, v, h) else readq_poll dev addr cond n h)"

lemma readq_eq: "readq dev addr h = (dev h addr, h @ [RD addr (dev h addr)])"
  by (simp add: readq_def Let_def)

definition writes :: "u64 \<Rightarrow> history \<Rightarrow> u64 list" where
  "writes addr h = List.map_filter (\<lambda>x. case x of WR a v \<Rightarrow> if a = addr then Some v else None | RD a v \<Rightarrow> None) h"

lemma writes_append [simp]: "writes addr (h @ h') = writes addr h @ writes addr h'"
  by (simp add: writes_def map_filter_def)

lemma writes_simps [simp]:
  "writes addr [] = []" "writes addr (RD a v # h) = writes addr h"
  "writes addr (WR a v # h) = (if a = addr then v # writes addr h else writes addr h)"
  by (simp_all add: writes_def map_filter_simps)

text \<open>A poll only reads.\<close>

lemma readq_poll_reads:
  "readq_poll dev addr cond n h = (b, v, h') \<Longrightarrow>
     (\<exists>vs. h' = h @ map (RD addr) vs \<and> vs \<noteq> [] \<and> last vs = v \<and> b = cond v \<and> length vs \<le> Suc n)"
proof (induction n arbitrary: h)
  case 0
  then show ?case by (auto simp: readq_eq intro!: exI [of _ "[v]"])
next
  case (Suc n)
  show ?case
  proof (cases "cond (dev h addr)")
    case True
    with Suc.prems show ?thesis by (auto simp: readq_eq intro!: exI [of _ "[v]"])
  next
    case False
    with Suc.prems have "readq_poll dev addr cond n (h @ [RD addr (dev h addr)]) = (b, v, h')" by (simp add: readq_eq)
    from Suc.IH [OF this] obtain vs where "h' = h @ [RD addr (dev h addr)] @ map (RD addr) vs" "vs \<noteq> []" "last vs = v"
      "b = cond v" "length vs \<le> Suc n" by auto
    then show ?thesis by (intro exI [of _ "dev h addr # vs"]) simp
  qed
qed

lemma writes_reads [simp]: "writes a (map (RD addr) vs) = []"
  by (induction vs) auto

lemma readq_poll_writes: "readq_poll dev addr cond n h = (b, v, h') \<Longrightarrow> writes a h' = writes a h"
  by (auto dest!: readq_poll_reads)

end
