(* ===== verification/Dfl_Dev.thy ===== *)
theory Dfl_Dev
  imports Dfl_Port Dfl_Irq Mmio
begin

unbundle bit_operations_syntax

text \<open>
  What the drivers of feature devices share: the feature device with the history of its registers,
  register accesses relative to a feature, and the interrupts of all its features together. The
  states of the port, accelerator and management engine drivers extend these records.
\<close>

section \<open>Registers of a feature device\<close>

record dev_sys =
  dv_fdata :: dfl_feature_dev_data
  dv_hist :: history

text \<open>
  \<^verbatim>\<open>dfl_get_feature_ioaddr_by_id\<close> gives NULL, the address \<open>0\<close>, for a feature that is not mapped; an access
  from there is an access like any other here.
\<close>

definition feature_base :: "dfl_feature_dev_data \<Rightarrow> u16 \<Rightarrow> u64" where
  "feature_base fd i = (case dfl_get_feature_ioaddr_by_id fd i of None \<Rightarrow> 0 | Some base \<Rightarrow> base)"

definition rd :: "device \<Rightarrow> u64 \<Rightarrow> 'a dev_sys_scheme \<Rightarrow> u64 \<times> 'a dev_sys_scheme" where
  "rd dev addr s = (case readq dev addr (dv_hist s) of (v, h) \<Rightarrow> (v, s\<lparr>dv_hist := h\<rparr>))"

definition wr :: "u64 \<Rightarrow> u64 \<Rightarrow> 'a dev_sys_scheme \<Rightarrow> 'a dev_sys_scheme" where
  "wr v addr s = s\<lparr>dv_hist := writeq v addr (dv_hist s)\<rparr>"

lemma rd_eq: "rd dev a s = (dev (dv_hist s) a, s\<lparr>dv_hist := dv_hist s @ [RD a (dev (dv_hist s) a)]\<rparr>)"
  by (simp add: rd_def readq_eq)

lemma wr_eq: "wr v a s = s\<lparr>dv_hist := dv_hist s @ [WR a v]\<rparr>"
  by (simp add: wr_def writeq_def)

lemma rd_hist: "rd dev a s = (v, s') \<Longrightarrow> s' = s\<lparr>dv_hist := dv_hist s @ [RD a v]\<rparr>"
  by (auto simp: rd_eq)

text \<open>
  The new accesses of an operation; \<open>all_writes P a h t\<close>: every write to the address in the accesses
  \<open>t\<close> made after \<open>h\<close> meets the condition, which sees what happened before.
\<close>

fun all_writes :: "(history \<Rightarrow> u64 \<Rightarrow> bool) \<Rightarrow> u64 \<Rightarrow> history \<Rightarrow> history \<Rightarrow> bool" where
  "all_writes P a h [] = True"
| "all_writes P a h (RD b v # t) = all_writes P a (h @ [RD b v]) t"
| "all_writes P a h (WR b v # t) = ((b = a \<longrightarrow> P h v) \<and> all_writes P a (h @ [WR b v]) t)"

lemma all_writes_append [simp]: "all_writes P a h (t @ t') \<longleftrightarrow> all_writes P a h t \<and> all_writes P a (h @ t) t'"
proof (induction t arbitrary: h)
  case (Cons x t)
  then show ?case by (cases x) auto
qed simp

lemma all_writes_none: "writes a t = [] \<Longrightarrow> all_writes P a h t"
proof (induction t arbitrary: h)
  case (Cons x t)
  then show ?case by (cases x) (auto split: if_splits)
qed simp

section \<open>Interrupts of a feature device\<close>

text \<open>Per feature the handlers that are registered, and the references to event files.\<close>

record irq_dev_sys = dev_sys +
  dv_handlers :: "nat \<Rightarrow> (int \<times> nat) list"
  dv_refs :: "nat \<Rightarrow> int"

text \<open>The part of the state that the interrupts of the feature at a position are about.\<close>

definition feature_irqs :: "nat \<Rightarrow> 'a irq_dev_sys_scheme \<Rightarrow> irq_sys" where
  "feature_irqs i s = \<lparr>sy_feature = features (dv_fdata s) ! i, sy_handlers = dv_handlers s i, sy_refs = dv_refs s\<rparr>"

definition put_feature_irqs :: "nat \<Rightarrow> 'a irq_dev_sys_scheme \<Rightarrow> irq_sys \<Rightarrow> 'a irq_dev_sys_scheme" where
  "put_feature_irqs i s q =
     s\<lparr>dv_fdata := (dv_fdata s)\<lparr>features := (features (dv_fdata s))[i := sy_feature q]\<rparr>,
       dv_handlers := (dv_handlers s)(i := sy_handlers q), dv_refs := sy_refs q\<rparr>"

text \<open>The loop over the features that takes the triggers away; \<open>k\<close> features from \<open>i\<close> on.\<close>

fun release_triggers :: "irq_env \<Rightarrow> nat \<Rightarrow> nat \<Rightarrow> 'a irq_dev_sys_scheme \<Rightarrow> 'a irq_dev_sys_scheme" where
  "release_triggers env i 0 s = s"
| "release_triggers env i (Suc k) s =
     (case dfl_fpga_set_irq_triggers env 0 (ft_nr_irqs (features (dv_fdata s) ! i)) None (feature_irqs i s) of
        (_, q) \<Rightarrow> release_triggers env (Suc i) k (put_feature_irqs i s q))"

section \<open>Ioctls of sub features\<close>

text \<open>
  The loop by which a device file offers a command to the ioctl operations of \<open>k\<close> features from \<open>i\<close> on:
  the first that does not answer \<^verbatim>\<open>-ENODEV\<close> has handled it. \<open>None\<close> is a feature without the operation.
\<close>

fun features_ioctl ::
  "(nat \<Rightarrow> 's \<Rightarrow> ((errno option \<times> 'o) \<times> 's) option) \<Rightarrow> 'o \<Rightarrow> nat \<Rightarrow> nat \<Rightarrow> 's \<Rightarrow> (errno option \<times> 'o) \<times> 's" where
  "features_ioctl ioctl none i 0 s = ((Some EINVAL, none), s)"
| "features_ioctl ioctl none i (Suc k) s =
     (case ioctl i s of
        None \<Rightarrow> features_ioctl ioctl none (Suc i) k s
      | Some ((r, out), s) \<Rightarrow>
          if r \<noteq> Some ENODEV then ((r, out), s) else features_ioctl ioctl none (Suc i) k s)"

section \<open>Accounts of the interrupts\<close>

text \<open>The references to event files that a feature holds.\<close>

definition refs_of :: "dfl_feature \<Rightarrow> nat \<Rightarrow> int" where
  "refs_of f t = int (count (mset (map snd (bound (ft_irq_ctx f)))) t)"

definition irqs_of :: "'a irq_dev_sys_scheme \<Rightarrow> dfl_feature list" where
  "irqs_of s = features (dv_fdata s)"

text \<open>
  The accounts of all features: the handlers registered for a feature are its bound triggers, and
  the references are those of the features and those held elsewhere.
\<close>

definition feature_ok :: "dfl_feature \<Rightarrow> (int \<times> nat) list \<Rightarrow> bool" where
  "feature_ok f hs \<longleftrightarrow> mset hs = mset (bound (ft_irq_ctx f)) \<and> length (ft_irq_ctx f) = unat (ft_nr_irqs f)"

definition dev_irq_accounts :: "(nat \<Rightarrow> int) \<Rightarrow> 'a irq_dev_sys_scheme \<Rightarrow> bool" where
  "dev_irq_accounts others s \<longleftrightarrow>
     (\<forall>i < length (irqs_of s). feature_ok (irqs_of s ! i) (dv_handlers s i)) \<and>
     (\<forall>t. dv_refs s t = others t + sum_list (map (\<lambda>f. refs_of f t) (irqs_of s)))"

lemma clear_triggers_nr: "nr_ctx (snd (set_triggers_from env start None i k q)) = nr_ctx q"
  by (induction k arbitrary: i q) (simp_all add: do_set_irq_trigger_def Let_def)

lemma clear_feature:
  assumes "irq_accounts others q" and "nr_ctx q = unat (ft_nr_irqs (sy_feature q))"
  obtains q' where "dfl_fpga_set_irq_triggers env 0 (ft_nr_irqs (sy_feature q)) None q = (None, q')"
    and "sy_handlers q' = []" and "sy_refs q' = others" and "bound (ft_irq_ctx (sy_feature q')) = []"
proof -
  let ?n = "ft_nr_irqs (sy_feature q)"
  have w: "wanted env q 0 None j = Inr None" for j by (simp add: wanted_def outcome_def)
  have "0 + 0 + unat ?n \<le> nr_ctx q" using assms(2) by simp
  from set_triggers_from_ok [OF this assms(1), of env None] obtain q' where
    q': "set_triggers_from env 0 None 0 (unat ?n) q = (None, q')" "irq_accounts others q'"
    "\<And>j. j < nr_ctx q \<Longrightarrow> trigger_at q' j = None" using assms(2) by (auto simp: w)
  have "nr_ctx q' = nr_ctx q" using clear_triggers_nr [of env 0 0 "unat ?n" q] q'(1) by simp
  then have "\<forall>c \<in> set (ft_irq_ctx (sy_feature q')). ctx_trigger c = None" using q'(3) by (auto simp: in_set_conv_nth)
  then have b: "bound (ft_irq_ctx (sy_feature q')) = []" by (simp add: bound_def filter_empty_conv)
  then have "sy_handlers q' = []" "sy_refs q' = others" using q'(2) by (simp_all add: irq_accounts_def fun_eq_iff)
  with q'(1) b show thesis by (intro that [of q']) (simp_all add: dfl_fpga_set_irq_triggers_def)
qed

lemma sum_list_split_at:
  fixes f :: "'a \<Rightarrow> int"
  shows "i < length xs \<Longrightarrow> sum_list (map f (drop i xs)) = f (xs ! i) + sum_list (map f (drop (Suc i) xs))"
  by (simp add: Cons_nth_drop_Suc [symmetric])

text \<open>\<open>k\<close> features from \<open>i\<close> on are released; the references left are those of nobody.\<close>

lemma release_triggers_clears:
  assumes "i + k = length (irqs_of s)"
    and "\<forall>j < i + k. i \<le> j \<longrightarrow> feature_ok (irqs_of s ! j) (dv_handlers s j)"
    and "\<forall>t. dv_refs s t = others t + sum_list (map (\<lambda>f. refs_of f t) (drop i (irqs_of s)))"
  shows "\<exists>fs hs. release_triggers env i k s =
       s\<lparr>dv_fdata := (dv_fdata s)\<lparr>features := fs\<rparr>, dv_handlers := hs, dv_refs := others\<rparr> \<and>
     length fs = length (irqs_of s) \<and>
     (\<forall>j < i + k. if i \<le> j then hs j = [] \<and> bound (ft_irq_ctx (fs ! j)) = []
                  else hs j = dv_handlers s j \<and> fs ! j = irqs_of s ! j)"
  using assms
proof (induction k arbitrary: i s)
  case 0
  then have "dv_refs s = others" by auto
  with 0 show ?case by (intro exI [of _ "irqs_of s"] exI [of _ "dv_handlers s"]) (simp add: irqs_of_def)
next
  case (Suc k)
  let ?fs = "irqs_of s" and ?q = "feature_irqs i s"
  have f: "sy_feature ?q = ?fs ! i" "sy_handlers ?q = dv_handlers s i" "sy_refs ?q = dv_refs s"
    by (simp_all add: feature_irqs_def irqs_of_def)
  have i: "i < length ?fs" using Suc.prems(1) by simp
  have ok: "feature_ok (?fs ! i) (dv_handlers s i)" using Suc.prems(2) by simp
  let ?rest = "\<lambda>t. others t + sum_list (map (\<lambda>f. refs_of f t) (drop (Suc i) ?fs))"
  have "irq_accounts ?rest ?q"
    using ok Suc.prems(3) sum_list_split_at [OF i]
    by (simp add: irq_accounts_def f feature_ok_def refs_of_def)
  moreover have "nr_ctx ?q = unat (ft_nr_irqs (sy_feature ?q))" using ok by (simp add: f feature_ok_def)
  ultimately obtain q' where q': "dfl_fpga_set_irq_triggers env 0 (ft_nr_irqs (?fs ! i)) None ?q = (None, q')"
    "sy_handlers q' = []" "sy_refs q' = ?rest" "bound (ft_irq_ctx (sy_feature q')) = []"
    by (rule clear_feature [of _ _ env]) (simp only: f)
  let ?s1 = "put_feature_irqs i s q'"
  have fs1: "irqs_of ?s1 = ?fs[i := sy_feature q']" by (simp add: put_feature_irqs_def irqs_of_def)
  have "Suc i + k = length (irqs_of ?s1)" using Suc.prems(1) fs1 by simp
  moreover have "\<forall>j < Suc i + k. Suc i \<le> j \<longrightarrow> feature_ok (irqs_of ?s1 ! j) (dv_handlers ?s1 j)"
    using Suc.prems(2) fs1 by (simp add: put_feature_irqs_def)
  moreover have "\<forall>t. dv_refs ?s1 t = others t + sum_list (map (\<lambda>f. refs_of f t) (drop (Suc i) (irqs_of ?s1)))"
    using fs1 q'(3) by (simp add: put_feature_irqs_def)
  ultimately obtain fs hs where ih: "release_triggers env (Suc i) k ?s1 =
       ?s1\<lparr>dv_fdata := (dv_fdata ?s1)\<lparr>features := fs\<rparr>, dv_handlers := hs, dv_refs := others\<rparr>"
     "length fs = length (irqs_of ?s1)"
     "\<forall>j < Suc i + k. if Suc i \<le> j then hs j = [] \<and> bound (ft_irq_ctx (fs ! j)) = []
                  else hs j = dv_handlers ?s1 j \<and> fs ! j = irqs_of ?s1 ! j"
    using Suc.IH [of "Suc i" ?s1] by blast
  have "release_triggers env i (Suc k) s = s\<lparr>dv_fdata := (dv_fdata s)\<lparr>features := fs\<rparr>, dv_handlers := hs, dv_refs := others\<rparr>"
    using q'(1) ih(1) by (simp add: irqs_of_def put_feature_irqs_def)
  moreover have "if i \<le> j then hs j = [] \<and> bound (ft_irq_ctx (fs ! j)) = [] else hs j = dv_handlers s j \<and> fs ! j = ?fs ! j"
    if "j < i + Suc k" for j
  proof (cases "j = i")
    case True
    with ih(3) [rule_format, of i] i q'(2,4) fs1 show ?thesis by (simp add: put_feature_irqs_def)
  next
    case False
    with ih(3) [rule_format, of j] that fs1 show ?thesis by (cases "i < j") (auto simp: put_feature_irqs_def)
  qed
  moreover have "length fs = length ?fs" using ih(2) fs1 by simp
  ultimately show ?case by blast
qed

end
