(* ===== verification/Afu_Port.thy ===== *)
theory Afu_Port
  imports Dfl_Dev
begin

unbundle bit_operations_syntax

text \<open>
  The port of an accelerator: its reset (\<^verbatim>\<open>drivers/fpga/dfl-afu-main.c\<close>), the attributes of its header
  and its error reporting (\<^verbatim>\<open>drivers/fpga/dfl-afu-error.c\<close>). Each operation runs under the lock of the
  feature device and acts on the device through its registers.
\<close>

section \<open>Registers\<close>

abbreviation PORT_FEATURE_ID_HEADER :: u16 where "PORT_FEATURE_ID_HEADER \<equiv> 0xfe"
abbreviation PORT_FEATURE_ID_AFU :: u16 where "PORT_FEATURE_ID_AFU \<equiv> 0xff"
abbreviation PORT_FEATURE_ID_ERROR :: u16 where "PORT_FEATURE_ID_ERROR \<equiv> 0x10"
abbreviation PORT_FEATURE_ID_UINT :: u16 where "PORT_FEATURE_ID_UINT \<equiv> 0x12"
abbreviation PORT_FEATURE_ID_STP :: u16 where "PORT_FEATURE_ID_STP \<equiv> 0x13"

definition hdr_reg :: "dfl_feature_dev_data \<Rightarrow> u64 \<Rightarrow> u64" where
  "hdr_reg fd ofst = feature_base fd PORT_FEATURE_ID_HEADER + ofst"

definition err_reg :: "dfl_feature_dev_data \<Rightarrow> u64 \<Rightarrow> u64" where
  "err_reg fd ofst = feature_base fd PORT_FEATURE_ID_ERROR + ofst"

abbreviation PORT_HDR_CAP :: u64 where "PORT_HDR_CAP \<equiv> 0x30"
abbreviation PORT_HDR_CTRL :: u64 where "PORT_HDR_CTRL \<equiv> 0x38"
abbreviation PORT_HDR_STS :: u64 where "PORT_HDR_STS \<equiv> 0x40"
abbreviation PORT_HDR_USRCLK_CMD0 :: u64 where "PORT_HDR_USRCLK_CMD0 \<equiv> 0x50"
abbreviation PORT_HDR_USRCLK_CMD1 :: u64 where "PORT_HDR_USRCLK_CMD1 \<equiv> 0x58"
abbreviation PORT_HDR_USRCLK_STS0 :: u64 where "PORT_HDR_USRCLK_STS0 \<equiv> 0x60"
abbreviation PORT_HDR_USRCLK_STS1 :: u64 where "PORT_HDR_USRCLK_STS1 \<equiv> 0x68"

section \<open>Reset\<close>

text \<open>
  \<^verbatim>\<open>__afu_port_enable\<close> and \<^verbatim>\<open>__afu_port_disable\<close>. \<open>polls\<close> is the number of reads, less one, that fit in
  \<^verbatim>\<open>RST_POLL_TIMEOUT\<close>. The counter is an \<^verbatim>\<open>unsigned int\<close>; it keeps its new value when the device does
  not answer in time.
\<close>

definition wait_ack :: "device \<Rightarrow> nat \<Rightarrow> bool \<Rightarrow> 'a dev_sys_scheme \<Rightarrow> 'a dev_sys_scheme ret" where
  "wait_ack dev polls ack s =
     (case readq_poll dev (hdr_reg (dv_fdata s) PORT_HDR_CTRL) (\<lambda>v. bit v 4 = ack) polls (dv_hist s) of
        (ok, _, h) \<Rightarrow> (if ok then None else Some ETIMEDOUT, s\<lparr>dv_hist := h\<rparr>))"

definition afu_port_enable :: "device \<Rightarrow> nat \<Rightarrow> 'a dev_sys_scheme \<Rightarrow> 'a dev_sys_scheme ret" where
  "afu_port_enable dev polls s =
     (let fd = (dv_fdata s)\<lparr>disable_count := disable_count (dv_fdata s) - 1\<rparr>; s = s\<lparr>dv_fdata := fd\<rparr>
      in if disable_count fd \<noteq> 0 then (None, s)
         else (case rd dev (hdr_reg fd PORT_HDR_CTRL) s of
                 (v, s) \<Rightarrow> wait_ack dev polls False (wr (v AND NOT 1) (hdr_reg fd PORT_HDR_CTRL) s)))"

definition afu_port_disable :: "device \<Rightarrow> nat \<Rightarrow> 'a dev_sys_scheme \<Rightarrow> 'a dev_sys_scheme ret" where
  "afu_port_disable dev polls s =
     (let was = disable_count (dv_fdata s); fd = (dv_fdata s)\<lparr>disable_count := was + 1\<rparr>; s = s\<lparr>dv_fdata := fd\<rparr>
      in if was \<noteq> 0 then (None, s)
         else (case rd dev (hdr_reg fd PORT_HDR_CTRL) s of
                 (v, s) \<Rightarrow> wait_ack dev polls True (wr (v OR 1) (hdr_reg fd PORT_HDR_CTRL) s)))"

definition port_enable_set :: "device \<Rightarrow> nat \<Rightarrow> bool \<Rightarrow> 'a dev_sys_scheme \<Rightarrow> 'a dev_sys_scheme ret" where
  "port_enable_set dev polls enable s =
     (if enable then afu_port_enable dev polls s else afu_port_disable dev polls s)"

text \<open>\<^verbatim>\<open>__port_reset\<close>, and \<^verbatim>\<open>port_reset\<close>, which leaves ports alone that do not support it.\<close>

definition port_reset_locked :: "device \<Rightarrow> nat \<Rightarrow> 'a dev_sys_scheme \<Rightarrow> 'a dev_sys_scheme ret" where
  "port_reset_locked dev polls s =
     (case afu_port_disable dev polls s of
        (Some e, s) \<Rightarrow> (Some e, s)
      | (None, s) \<Rightarrow> afu_port_enable dev polls s)"

definition get_port_rev :: "device \<Rightarrow> 'a dev_sys_scheme \<Rightarrow> u8 \<times> 'a dev_sys_scheme" where
  "get_port_rev dev s =
     (case dfl_get_feature_ioaddr_by_id (dv_fdata s) PORT_FEATURE_ID_HEADER of
        None \<Rightarrow> (0xff, s)
      | Some base \<Rightarrow> (case rd dev base s of (v, s) \<Rightarrow> (ucast (dfh_revision v), s)))"

definition port_reset :: "device \<Rightarrow> nat \<Rightarrow> 'a dev_sys_scheme \<Rightarrow> 'a dev_sys_scheme ret" where
  "port_reset dev polls s =
     (case get_port_rev dev s of
        (rv, s) \<Rightarrow> if rv = 2 then (None, s) else if rv > 2 then (None, s) else port_reset_locked dev polls s)"

definition port_get_id :: "device \<Rightarrow> 'a dev_sys_scheme \<Rightarrow> int \<times> 'a dev_sys_scheme" where
  "port_get_id dev s =
     (case rd dev (hdr_reg (dv_fdata s) PORT_HDR_CAP) s of (v, s) \<Rightarrow> (uint (field_get 1 0 v), s))"

text \<open>The outcome of the reset at start-up is not looked at.\<close>

definition port_hdr_init :: "device \<Rightarrow> nat \<Rightarrow> 'a dev_sys_scheme \<Rightarrow> 'a dev_sys_scheme ret" where
  "port_hdr_init dev polls s =
     (case rd dev (feature_base (dv_fdata s) PORT_FEATURE_ID_HEADER) s of
        (v, s) \<Rightarrow> let rv = ucast (dfh_revision v) :: u8
                  in (None, if rv < 2 then snd (port_reset dev polls s) else s))"

section \<open>Attributes of the port header\<close>

text \<open>What a read of the attribute returns. The parsers of the values written are parameters.\<close>

definition id_show :: "device \<Rightarrow> 'a dev_sys_scheme \<Rightarrow> string \<times> 'a dev_sys_scheme" where
  "id_show dev s = (case port_get_id dev s of (i, s) \<Rightarrow> (decstr (nat i) @ newline, s))"

definition ltr_show :: "device \<Rightarrow> 'a dev_sys_scheme \<Rightarrow> string \<times> 'a dev_sys_scheme" where
  "ltr_show dev s =
     (case rd dev (hdr_reg (dv_fdata s) PORT_HDR_CTRL) s of (v, s) \<Rightarrow> (hexstr (field_get 2 2 v) @ newline, s))"

definition ltr_store ::
  "device \<Rightarrow> (string \<Rightarrow> bool option) \<Rightarrow> string \<Rightarrow> 'a dev_sys_scheme \<Rightarrow> (errno + nat) \<times> 'a dev_sys_scheme" where
  "ltr_store dev kstrtobool buf s =
     (case kstrtobool buf of
        None \<Rightarrow> (Inl EINVAL, s)
      | Some ltr \<Rightarrow>
          (case rd dev (hdr_reg (dv_fdata s) PORT_HDR_CTRL) s of
             (v, s) \<Rightarrow> (Inr (length buf),
                        wr (field_set 2 2 (if ltr then 1 else 0) v) (hdr_reg (dv_fdata s) PORT_HDR_CTRL) s)))"

definition ap1_event_show :: "device \<Rightarrow> 'a dev_sys_scheme \<Rightarrow> string \<times> 'a dev_sys_scheme" where
  "ap1_event_show dev s =
     (case rd dev (hdr_reg (dv_fdata s) PORT_HDR_STS) s of (v, s) \<Rightarrow> (hexstr (field_get 12 12 v) @ newline, s))"

definition ap2_event_show :: "device \<Rightarrow> 'a dev_sys_scheme \<Rightarrow> string \<times> 'a dev_sys_scheme" where
  "ap2_event_show dev s =
     (case rd dev (hdr_reg (dv_fdata s) PORT_HDR_STS) s of (v, s) \<Rightarrow> (hexstr (field_get 13 13 v) @ newline, s))"

text \<open>Only \<open>1\<close> is accepted; it is the mask of the event, written to the status register.\<close>

definition ap1_event_store ::
  "(string \<Rightarrow> bool option) \<Rightarrow> string \<Rightarrow> 'a dev_sys_scheme \<Rightarrow> (errno + nat) \<times> 'a dev_sys_scheme" where
  "ap1_event_store kstrtobool buf s =
     (if kstrtobool buf \<noteq> Some True then (Inl EINVAL, s)
      else (Inr (length buf), wr 0x1000 (hdr_reg (dv_fdata s) PORT_HDR_STS) s))"

definition ap2_event_store ::
  "(string \<Rightarrow> bool option) \<Rightarrow> string \<Rightarrow> 'a dev_sys_scheme \<Rightarrow> (errno + nat) \<times> 'a dev_sys_scheme" where
  "ap2_event_store kstrtobool buf s =
     (if kstrtobool buf \<noteq> Some True then (Inl EINVAL, s)
      else (Inr (length buf), wr 0x2000 (hdr_reg (dv_fdata s) PORT_HDR_STS) s))"

definition power_state_show :: "device \<Rightarrow> 'a dev_sys_scheme \<Rightarrow> string \<times> 'a dev_sys_scheme" where
  "power_state_show dev s =
     (case rd dev (hdr_reg (dv_fdata s) PORT_HDR_STS) s of
        (v, s) \<Rightarrow> (''0x'' @ hexstr (field_get 11 8 v) @ newline, s))"

definition userclk_freqcmd_store ::
  "(string \<Rightarrow> u64 option) \<Rightarrow> string \<Rightarrow> 'a dev_sys_scheme \<Rightarrow> (errno + nat) \<times> 'a dev_sys_scheme" where
  "userclk_freqcmd_store kstrtou64 buf s =
     (case kstrtou64 buf of
        None \<Rightarrow> (Inl EINVAL, s)
      | Some v \<Rightarrow> (Inr (length buf), wr v (hdr_reg (dv_fdata s) PORT_HDR_USRCLK_CMD0) s))"

definition userclk_freqcntrcmd_store ::
  "(string \<Rightarrow> u64 option) \<Rightarrow> string \<Rightarrow> 'a dev_sys_scheme \<Rightarrow> (errno + nat) \<times> 'a dev_sys_scheme" where
  "userclk_freqcntrcmd_store kstrtou64 buf s =
     (case kstrtou64 buf of
        None \<Rightarrow> (Inl EINVAL, s)
      | Some v \<Rightarrow> (Inr (length buf), wr v (hdr_reg (dv_fdata s) PORT_HDR_USRCLK_CMD1) s))"

definition userclk_freqsts_show :: "device \<Rightarrow> 'a dev_sys_scheme \<Rightarrow> string \<times> 'a dev_sys_scheme" where
  "userclk_freqsts_show dev s =
     (case rd dev (hdr_reg (dv_fdata s) PORT_HDR_USRCLK_STS0) s of (v, s) \<Rightarrow> (''0x'' @ hexstr v @ newline, s))"

definition userclk_freqcntrsts_show :: "device \<Rightarrow> 'a dev_sys_scheme \<Rightarrow> string \<times> 'a dev_sys_scheme" where
  "userclk_freqcntrsts_show dev s =
     (case rd dev (hdr_reg (dv_fdata s) PORT_HDR_USRCLK_STS1) s of (v, s) \<Rightarrow> (''0x'' @ hexstr v @ newline, s))"

datatype port_hdr_attr =
    Attr_id | Attr_ltr | Attr_ap1_event | Attr_ap2_event | Attr_power_state | Attr_userclk_freqcmd
  | Attr_userclk_freqcntrcmd | Attr_userclk_freqsts | Attr_userclk_freqcntrsts

text \<open>\<open>mode\<close> is the mode the attribute is declared with.\<close>

definition port_hdr_attrs_visible ::
  "device \<Rightarrow> port_hdr_attr \<Rightarrow> nat \<Rightarrow> 'a dev_sys_scheme \<Rightarrow> nat \<times> 'a dev_sys_scheme" where
  "port_hdr_attrs_visible dev attr mode s =
     (case rd dev (feature_base (dv_fdata s) PORT_FEATURE_ID_HEADER) s of
        (v, s) \<Rightarrow> (if (ucast (dfh_revision v) :: u8) > 0 \<and>
                       attr \<in> {Attr_userclk_freqcmd, Attr_userclk_freqcntrcmd, Attr_userclk_freqsts,
                               Attr_userclk_freqcntrsts}
                    then 0 else mode, s))"

text \<open>The identity of the accelerator cannot be read while its port is disabled.\<close>

definition afu_id_show :: "device \<Rightarrow> 'a dev_sys_scheme \<Rightarrow> (errno + string) \<times> 'a dev_sys_scheme" where
  "afu_id_show dev s =
     (if disable_count (dv_fdata s) \<noteq> 0 then (Inl EBUSY, s)
      else let base = feature_base (dv_fdata s) PORT_FEATURE_ID_AFU
           in case rd dev (base + 8) s of
                (guidl, s) \<Rightarrow> (case rd dev (base + 0x10) s of
                                 (guidh, s) \<Rightarrow> (Inr (hex16 guidh @ hex16 guidl @ newline), s)))"

definition port_afu_attrs_visible :: "nat \<Rightarrow> dfl_feature_dev_data \<Rightarrow> nat" where
  "port_afu_attrs_visible mode fd =
     (if dfl_get_feature_by_id fd PORT_FEATURE_ID_AFU = None then 0 else mode)"

section \<open>Errors of the port\<close>

abbreviation PORT_ERROR_MASK :: u64 where "PORT_ERROR_MASK \<equiv> 0x8"
abbreviation PORT_ERROR :: u64 where "PORT_ERROR \<equiv> 0x10"
abbreviation PORT_FIRST_ERROR :: u64 where "PORT_FIRST_ERROR \<equiv> 0x18"
abbreviation PORT_MALFORMED_REQ0 :: u64 where "PORT_MALFORMED_REQ0 \<equiv> 0x20"
abbreviation PORT_MALFORMED_REQ1 :: u64 where "PORT_MALFORMED_REQ1 \<equiv> 0x28"

definition afu_port_err_mask :: "bool \<Rightarrow> 'a dev_sys_scheme \<Rightarrow> 'a dev_sys_scheme" where
  "afu_port_err_mask m s = wr (if m then -1 else 0) (err_reg (dv_fdata s) PORT_ERROR_MASK) s"

text \<open>The errors are written back when they are the ones the user has seen.\<close>

definition port_err_write_back :: "device \<Rightarrow> u64 \<Rightarrow> 'a dev_sys_scheme \<Rightarrow> 'a dev_sys_scheme ret" where
  "port_err_write_back dev err s =
     (case rd dev (err_reg (dv_fdata s) PORT_ERROR) s of
        (v, s) \<Rightarrow>
          if v = err
          then (case rd dev (err_reg (dv_fdata s) PORT_FIRST_ERROR) (wr v (err_reg (dv_fdata s) PORT_ERROR) s) of
                  (v, s) \<Rightarrow> (None, wr v (err_reg (dv_fdata s) PORT_FIRST_ERROR) s))
          else (Some EINVAL, s))"

definition afu_port_err_clear :: "device \<Rightarrow> nat \<Rightarrow> u64 \<Rightarrow> 'a dev_sys_scheme \<Rightarrow> 'a dev_sys_scheme ret" where
  "afu_port_err_clear dev polls err s =
     (case rd dev (hdr_reg (dv_fdata s) PORT_HDR_STS) s of
        (v, s) \<Rightarrow>
          if field_get 11 8 v = 6 then (Some EBUSY, s)
          else (case afu_port_disable dev polls s of
                  (Some e, s) \<Rightarrow> (Some e, s)
                | (None, s) \<Rightarrow>
                    (case port_err_write_back dev err (afu_port_err_mask True s) of
                       (r, s) \<Rightarrow>
                         (case afu_port_enable dev polls (afu_port_err_mask False s) of
                            (Some e, s) \<Rightarrow> (Some e, s)
                          | (None, s) \<Rightarrow> (r, s)))))"

definition errors_show :: "device \<Rightarrow> 'a dev_sys_scheme \<Rightarrow> string \<times> 'a dev_sys_scheme" where
  "errors_show dev s =
     (case rd dev (err_reg (dv_fdata s) PORT_ERROR) s of (v, s) \<Rightarrow> (''0x'' @ hexstr v @ newline, s))"

definition errors_store ::
  "device \<Rightarrow> nat \<Rightarrow> (string \<Rightarrow> u64 option) \<Rightarrow> string \<Rightarrow> 'a dev_sys_scheme \<Rightarrow> (errno + nat) \<times> 'a dev_sys_scheme" where
  "errors_store dev polls kstrtou64 buff s =
     (case kstrtou64 buff of
        None \<Rightarrow> (Inl EINVAL, s)
      | Some v \<Rightarrow> (case afu_port_err_clear dev polls v s of
                     (Some e, s) \<Rightarrow> (Inl e, s)
                   | (None, s) \<Rightarrow> (Inr (length buff), s)))"

definition first_error_show :: "device \<Rightarrow> 'a dev_sys_scheme \<Rightarrow> string \<times> 'a dev_sys_scheme" where
  "first_error_show dev s =
     (case rd dev (err_reg (dv_fdata s) PORT_FIRST_ERROR) s of (v, s) \<Rightarrow> (''0x'' @ hexstr v @ newline, s))"

definition first_malformed_req_show :: "device \<Rightarrow> 'a dev_sys_scheme \<Rightarrow> string \<times> 'a dev_sys_scheme" where
  "first_malformed_req_show dev s =
     (case rd dev (err_reg (dv_fdata s) PORT_MALFORMED_REQ0) s of
        (req0, s) \<Rightarrow> (case rd dev (err_reg (dv_fdata s) PORT_MALFORMED_REQ1) s of
                        (req1, s) \<Rightarrow> (''0x'' @ hex16 req1 @ hex16 req0 @ newline, s)))"

definition port_err_revision_show :: "device \<Rightarrow> 'a dev_sys_scheme \<Rightarrow> string \<times> 'a dev_sys_scheme" where
  "port_err_revision_show dev s =
     (case rd dev (err_reg (dv_fdata s) 0) s of (v, s) \<Rightarrow> (decstr (unat (dfh_revision v)) @ newline, s))"

definition port_err_attrs_visible :: "nat \<Rightarrow> dfl_feature_dev_data \<Rightarrow> nat" where
  "port_err_attrs_visible mode fd =
     (if dfl_get_feature_by_id fd PORT_FEATURE_ID_ERROR = None then 0 else mode)"

definition port_err_init :: "'a dev_sys_scheme \<Rightarrow> 'a dev_sys_scheme ret" where
  "port_err_init s = (None, afu_port_err_mask False s)"

definition port_err_uinit :: "'a dev_sys_scheme \<Rightarrow> 'a dev_sys_scheme" where
  "port_err_uinit s = afu_port_err_mask True s"

end
