(* ===== verification/Afu_Dma.thy ===== *)
theory Afu_Dma
  imports Prelude "HOL-Library.Tree" "HOL-Library.Multiset"
begin

unbundle bit_operations_syntax

text \<open>
  DMA regions of an AFU (\<^verbatim>\<open>drivers/fpga/dfl-afu-dma-region.c\<close>, the code for kernels from 5.3 on): user
  memory that is pinned, mapped for DMA, and kept in a search tree by its bus address. The
  state holds the tree and what the kernel has given out for it: locked pages, page pins and
  DMA mappings. The rebalancing of the kernel's red-black trees is a parameter.
\<close>

section \<open>State\<close>

datatype dma_data_direction = DMA_BIDIRECTIONAL | DMA_TO_DEVICE | DMA_FROM_DEVICE

record dfl_afu_dma_region =
  r_user_addr :: u64
  r_length :: u64
  r_iova :: u64
  r_pages :: "u64 list"         \<comment> \<open>page frame numbers\<close>
  r_in_use :: bool
  r_direction :: dma_data_direction

type_synonym region_tree = "dfl_afu_dma_region tree"

record dma_sys =
  dma_regions :: region_tree
  locked_vm :: int
  pinned :: int
  mappings :: "(u64 \<times> u64 \<times> dma_data_direction) list"

record dma_env =
  kzalloc_ok :: bool
  account_locked_vm :: "int \<Rightarrow> errno option"
  kcalloc_ok :: "int \<Rightarrow> bool"
  pin_user_pages_fast :: "u64 \<Rightarrow> int \<Rightarrow> bool \<Rightarrow> errno + u64 list"
  dma_map_page :: "u64 \<Rightarrow> u64 \<Rightarrow> dma_data_direction \<Rightarrow> u64 option"
  rb_insert_color :: "region_tree \<Rightarrow> region_tree"
  rb_erase :: "dfl_afu_dma_region \<Rightarrow> region_tree \<Rightarrow> region_tree"

definition PFN_DOWN :: "u64 \<Rightarrow> u64" where
  "PFN_DOWN x = drop_bit 12 x"

text \<open>\<^verbatim>\<open>int npages = PFN_DOWN(region->length)\<close>, and the same value as a \<^verbatim>\<open>long\<close>.\<close>

definition int_npages :: "dfl_afu_dma_region \<Rightarrow> int" where
  "int_npages r = sint (ucast (PFN_DOWN (r_length r)) :: u32)"

definition long_npages :: "dfl_afu_dma_region \<Rightarrow> int" where
  "long_npages r = sint (PFN_DOWN (r_length r))"

section \<open>Pinning\<close>

definition afu_dma_pin_pages ::
  "dma_env \<Rightarrow> dfl_afu_dma_region \<Rightarrow> dma_sys \<Rightarrow> (errno + dfl_afu_dma_region) \<times> dma_sys" where
  "afu_dma_pin_pages env region s =
     (let npages = int_npages region
      in case account_locked_vm env npages of
           Some e \<Rightarrow> (Inl e, s)
         | None \<Rightarrow>
             let s = s\<lparr>locked_vm := locked_vm s + npages\<rparr>
             in if \<not> kcalloc_ok env npages then (Inl ENOMEM, s\<lparr>locked_vm := locked_vm s - npages\<rparr>)
                else (case pin_user_pages_fast env (r_user_addr region) npages (r_direction region \<noteq> DMA_TO_DEVICE) of
                        Inl e \<Rightarrow> (Inl e, s\<lparr>locked_vm := locked_vm s - npages\<rparr>)
                      | Inr pages \<Rightarrow>
                          let pin_count = int (length pages); s = s\<lparr>pinned := pinned s + pin_count\<rparr>
                          in if pin_count \<noteq> npages
                             then (Inl EFAULT, s\<lparr>pinned := pinned s - pin_count, locked_vm := locked_vm s - npages\<rparr>)
                             else (Inr (region\<lparr>r_pages := pages\<rparr>), s)))"

definition afu_dma_unpin_pages :: "dfl_afu_dma_region \<Rightarrow> dma_sys \<Rightarrow> dma_sys" where
  "afu_dma_unpin_pages region s =
     s\<lparr>pinned := pinned s - long_npages region, locked_vm := locked_vm s - long_npages region\<rparr>"

definition afu_dma_check_continuous_pages :: "dfl_afu_dma_region \<Rightarrow> bool" where
  "afu_dma_check_continuous_pages region \<longleftrightarrow>
     list_all (\<lambda>i. r_pages region ! i + 1 = r_pages region ! (i + 1)) [0..<nat (int_npages region - 1)]"

section \<open>The tree\<close>

definition dma_region_check_iova :: "dfl_afu_dma_region \<Rightarrow> u64 \<Rightarrow> u64 \<Rightarrow> bool" where
  "dma_region_check_iova region iova sz \<longleftrightarrow>
     (if sz = 0 \<and> r_iova region \<noteq> iova then False
      else r_iova region \<le> iova \<and> r_length region + r_iova region \<ge> iova + sz)"

text \<open>The descent of \<^verbatim>\<open>afu_dma_region_add\<close> and \<^verbatim>\<open>rb_link_node\<close>; \<open>None\<close> is \<^verbatim>\<open>-EEXIST\<close>.\<close>

fun dma_tree_link :: "dfl_afu_dma_region \<Rightarrow> region_tree \<Rightarrow> region_tree option" where
  "dma_tree_link region \<langle>\<rangle> = Some \<langle>\<langle>\<rangle>, region, \<langle>\<rangle>\<rangle>"
| "dma_tree_link region \<langle>l, this, r\<rangle> =
     (if dma_region_check_iova this (r_iova region) (r_length region) then None
      else if r_iova region < r_iova this then map_option (\<lambda>l'. \<langle>l', this, r\<rangle>) (dma_tree_link region l)
      else if r_iova region > r_iova this then map_option (\<lambda>r'. \<langle>l, this, r'\<rangle>) (dma_tree_link region r)
      else None)"

definition afu_dma_region_add :: "dma_env \<Rightarrow> dfl_afu_dma_region \<Rightarrow> dma_sys \<Rightarrow> dma_sys ret" where
  "afu_dma_region_add env region s =
     (case dma_tree_link region (dma_regions s) of
        None \<Rightarrow> (Some EEXIST, s)
      | Some t \<Rightarrow> (None, s\<lparr>dma_regions := rb_insert_color env t\<rparr>))"

definition afu_dma_region_remove :: "dma_env \<Rightarrow> dfl_afu_dma_region \<Rightarrow> dma_sys \<Rightarrow> dma_sys" where
  "afu_dma_region_remove env region s = s\<lparr>dma_regions := rb_erase env region (dma_regions s)\<rparr>"

fun dma_tree_find :: "region_tree \<Rightarrow> u64 \<Rightarrow> u64 \<Rightarrow> dfl_afu_dma_region option" where
  "dma_tree_find \<langle>\<rangle> iova sz = None"
| "dma_tree_find \<langle>l, region, r\<rangle> iova sz =
     (if dma_region_check_iova region iova sz then Some region
      else if iova < r_iova region then dma_tree_find l iova sz
      else if iova > r_iova region then dma_tree_find r iova sz
      else None)"

definition afu_dma_region_find :: "dma_sys \<Rightarrow> u64 \<Rightarrow> u64 \<Rightarrow> dfl_afu_dma_region option" where
  "afu_dma_region_find s iova sz = dma_tree_find (dma_regions s) iova sz"

definition afu_dma_region_find_iova :: "dma_sys \<Rightarrow> u64 \<Rightarrow> dfl_afu_dma_region option" where
  "afu_dma_region_find_iova s iova = afu_dma_region_find s iova 0"

definition dma_unmap_page :: "u64 \<Rightarrow> u64 \<Rightarrow> dma_data_direction \<Rightarrow> dma_sys \<Rightarrow> dma_sys" where
  "dma_unmap_page iova len dir s = s\<lparr>mappings := remove1 (iova, len, dir) (mappings s)\<rparr>"

text \<open>
  \<^verbatim>\<open>afu_dma_region_destroy\<close>: the iteration from \<^verbatim>\<open>rb_first\<close> by \<^verbatim>\<open>rb_next\<close> visits the regions in order.
  Pages of a region in the tree are never NULL.
\<close>

fun dma_destroy_list :: "dfl_afu_dma_region list \<Rightarrow> dma_sys \<Rightarrow> dma_sys" where
  "dma_destroy_list [] s = s"
| "dma_destroy_list (region # rs) s =
     (let s = (if r_iova region \<noteq> 0 then dma_unmap_page (r_iova region) (r_length region) DMA_BIDIRECTIONAL s else s)
      in dma_destroy_list rs (afu_dma_unpin_pages region s))"

definition afu_dma_region_destroy :: "dma_sys \<Rightarrow> dma_sys" where
  "afu_dma_region_destroy s = (dma_destroy_list (inorder (dma_regions s)) s)\<lparr>dma_regions := \<langle>\<rangle>\<rparr>"

section \<open>Mapping and unmapping\<close>

definition dma_flag_to_dir :: "u32 \<Rightarrow> dma_data_direction" where
  "dma_flag_to_dir flags =
     (let m = flags AND 3 in if m = 1 then DMA_TO_DEVICE else if m = 2 then DMA_FROM_DEVICE else DMA_BIDIRECTIONAL)"

definition afu_dma_map_region ::
  "dma_env \<Rightarrow> u64 \<Rightarrow> u64 \<Rightarrow> u32 \<Rightarrow> dma_sys \<Rightarrow> (errno + u64) \<times> dma_sys" where
  "afu_dma_map_region env user_addr len flags s =
     (if \<not> page_aligned user_addr \<or> \<not> page_aligned len \<or> len = 0 then (Inl EINVAL, s)
      else if user_addr + len < user_addr then (Inl EINVAL, s)
      else if \<not> kzalloc_ok env then (Inl ENOMEM, s)
      else
        let region = \<lparr>r_user_addr = user_addr, r_length = len, r_iova = 0, r_pages = [], r_in_use = False,
                      r_direction = dma_flag_to_dir flags\<rparr>
        in (case afu_dma_pin_pages env region s of
              (Inl e, s) \<Rightarrow> (Inl e, s)
            | (Inr region, s) \<Rightarrow>
                if \<not> afu_dma_check_continuous_pages region then (Inl EINVAL, afu_dma_unpin_pages region s)
                else (case dma_map_page env (r_pages region ! 0) (r_length region) (r_direction region) of
                        None \<Rightarrow> (Inl EFAULT, afu_dma_unpin_pages region s)
                      | Some iova \<Rightarrow>
                          let region = region\<lparr>r_iova := iova\<rparr>;
                              s = s\<lparr>mappings := (iova, r_length region, r_direction region) # mappings s\<rparr>
                          in (case afu_dma_region_add env region s of
                                (Some e, s) \<Rightarrow>
                                  (Inl e, afu_dma_unpin_pages region
                                            (dma_unmap_page iova (r_length region) (r_direction region) s))
                              | (None, s) \<Rightarrow> (Inr iova, s)))))"

definition afu_dma_unmap_region :: "dma_env \<Rightarrow> u64 \<Rightarrow> dma_sys \<Rightarrow> dma_sys ret" where
  "afu_dma_unmap_region env iova s =
     (case afu_dma_region_find_iova s iova of
        None \<Rightarrow> (Some EINVAL, s)
      | Some region \<Rightarrow>
          if r_in_use region then (Some EBUSY, s)
          else let s = afu_dma_region_remove env region s;
                   s = dma_unmap_page (r_iova region) (r_length region) (r_direction region) s
               in (None, afu_dma_unpin_pages region s))"

end
