(* ===== verification/Afu_Main.thy ===== *)
theory Afu_Main
  imports Afu_Port Afu_Region Afu_Dma Dfl_Bus
begin

unbundle bit_operations_syntax

text \<open>
  The driver of an accelerated function unit (\<^verbatim>\<open>drivers/fpga/dfl-afu-main.c\<close>): its device file with the
  ioctls and the mapping of register regions, its sub feature drivers, probing and removal. It puts
  the port, the register regions, the DMA regions, the interrupts and the sub features together.
\<close>

section \<open>State\<close>

text \<open>
  Besides the feature device and the register history: the private data, which is set between
  probing and removal, the DMA regions, per feature the interrupt handlers that are registered,
  the references to event files, and whether the device file is there.
\<close>

record afu_sys = irq_dev_sys +
  as_private :: bool
  as_afu :: dfl_afu
  as_dma :: dma_sys
  as_cdev :: bool

record afu_env =
  ae_dev :: device
  ae_polls :: nat
  ae_irq :: irq_env
  ae_dma :: dma_env
  ae_kzalloc :: bool
  ae_region_alloc :: "u32 \<Rightarrow> bool"
  ae_ioremap :: "int \<Rightarrow> errno + u64"
  ae_dfl_dev_add :: "dfl_feature \<Rightarrow> errno + nat"
  ae_cdev_add :: "errno option"

section \<open>Opening and closing\<close>

definition afu_open :: "bool \<Rightarrow> afu_sys \<Rightarrow> afu_sys ret" where
  "afu_open excl s =
     (case dfl_feature_dev_use_begin excl (dv_fdata s) of (r, fd) \<Rightarrow> (r, s\<lparr>dv_fdata := fd\<rparr>))"

definition afu_release :: "afu_env \<Rightarrow> afu_sys \<Rightarrow> afu_sys" where
  "afu_release env s =
     (let s = s\<lparr>dv_fdata := dfl_feature_dev_use_end (dv_fdata s)\<rparr>
      in if dfl_feature_dev_use_count (dv_fdata s) \<noteq> 0 then s
         else (let s = release_triggers (ae_irq env) 0 (length (features (dv_fdata s))) s
               in case get_port_rev (ae_dev env) s of
                    (rv, s) \<Rightarrow>
                      let s = (if rv < 2 then snd (port_reset_locked (ae_dev env) (ae_polls env) s) else s)
                      in s\<lparr>as_dma := afu_dma_region_destroy (as_dma s)\<rparr>))"

section \<open>The ioctls\<close>

text \<open>
  The structures that user programs pass. A copy from user memory is \<open>None\<close> when it faults; \<open>wr_ok\<close> tells
  whether the copy back succeeds. \<open>User_none\<close> is nothing copied back.
\<close>

record dfl_fpga_port_info =
  pi_argsz :: u32
  pi_flags :: u32
  pi_num_regions :: u32
  pi_num_umsgs :: u32

record dfl_fpga_port_region_info =
  ri_argsz :: u32
  ri_flags :: u32
  ri_index :: u32
  ri_padding :: u32
  ri_size :: u64
  ri_offset :: u64

record dfl_fpga_port_dma_map =
  dm_argsz :: u32
  dm_flags :: u32
  dm_user_addr :: u64
  dm_length :: u64
  dm_iova :: u64

record dfl_fpga_port_dma_unmap =
  du_argsz :: u32
  du_flags :: u32
  du_iova :: u64

datatype user_out =
    User_none
  | User_info dfl_fpga_port_info
  | User_region dfl_fpga_port_region_info
  | User_map dfl_fpga_port_dma_map
  | User_count u32

definition copy_back :: "bool \<Rightarrow> user_out \<Rightarrow> errno option \<times> user_out" where
  "copy_back wr_ok out = (if wr_ok then (None, out) else (Some EFAULT, User_none))"

definition afu_ioctl_get_info :: "dfl_fpga_port_info option \<Rightarrow> bool \<Rightarrow> afu_sys \<Rightarrow> errno option \<times> user_out" where
  "afu_ioctl_get_info arg wr_ok s =
     (case arg of
        None \<Rightarrow> (Some EFAULT, User_none)
      | Some info \<Rightarrow>
          if pi_argsz info < 16 then (Some EINVAL, User_none)
          else copy_back wr_ok (User_info (info\<lparr>pi_flags := 0, pi_num_regions := of_int (num_regions (as_afu s)),
                                                pi_num_umsgs := ucast (num_umsgs (as_afu s))\<rparr>)))"

definition afu_ioctl_get_region_info ::
  "dfl_fpga_port_region_info option \<Rightarrow> bool \<Rightarrow> afu_sys \<Rightarrow> errno option \<times> user_out" where
  "afu_ioctl_get_region_info arg wr_ok s =
     (case arg of
        None \<Rightarrow> (Some EFAULT, User_none)
      | Some rinfo \<Rightarrow>
          if ri_argsz rinfo < 32 \<or> ri_padding rinfo \<noteq> 0 then (Some EINVAL, User_none)
          else (case afu_mmio_region_get_by_index (as_afu s) (ri_index rinfo) of
                  Inl e \<Rightarrow> (Some e, User_none)
                | Inr region \<Rightarrow>
                    copy_back wr_ok (User_region (rinfo\<lparr>ri_flags := rg_flags region, ri_size := rg_size region,
                                                        ri_offset := rg_offset region\<rparr>))))"

definition afu_ioctl_dma_map ::
  "dma_env \<Rightarrow> dfl_fpga_port_dma_map option \<Rightarrow> bool \<Rightarrow> dma_sys \<Rightarrow> (errno option \<times> user_out) \<times> dma_sys" where
  "afu_ioctl_dma_map env arg wr_ok d =
     (case arg of
        None \<Rightarrow> ((Some EFAULT, User_none), d)
      | Some um \<Rightarrow>
          if dm_argsz um < 32 \<or> dm_flags um AND NOT 3 \<noteq> 0 then ((Some EINVAL, User_none), d)
          else (case afu_dma_map_region env (dm_user_addr um) (dm_length um) (dm_flags um) d of
                  (Inl e, d) \<Rightarrow> ((Some e, User_none), d)
                | (Inr iova, d) \<Rightarrow>
                    if wr_ok then ((None, User_map (um\<lparr>dm_iova := iova\<rparr>)), d)
                    else ((Some EFAULT, User_none), snd (afu_dma_unmap_region env iova d))))"

definition afu_ioctl_dma_unmap :: "dma_env \<Rightarrow> dfl_fpga_port_dma_unmap option \<Rightarrow> dma_sys \<Rightarrow> dma_sys ret" where
  "afu_ioctl_dma_unmap env arg d =
     (case arg of
        None \<Rightarrow> (Some EFAULT, d)
      | Some unmap \<Rightarrow>
          if du_argsz unmap < 16 \<or> du_flags unmap \<noteq> 0 then (Some EINVAL, d)
          else afu_dma_unmap_region env (du_iova unmap) d)"

text \<open>
  The commands with what they find in user memory. \<open>Other\<close> is any other number; a command that only
  a sub feature knows is handled by the first one that does.
\<close>

datatype afu_cmd =
    GET_API_VERSION
  | CHECK_EXTENSION
  | PORT_GET_INFO "dfl_fpga_port_info option"
  | PORT_GET_REGION_INFO "dfl_fpga_port_region_info option"
  | PORT_DMA_MAP "dfl_fpga_port_dma_map option"
  | PORT_DMA_UNMAP "dfl_fpga_port_dma_unmap option"
  | PORT_RESET bool \<comment> \<open>the argument is not zero\<close>
  | PORT_ERR_GET_IRQ_NUM
  | PORT_ERR_SET_IRQ "(u32 \<times> u32) option" "nat \<Rightarrow> errno + int list"
  | PORT_UINT_GET_IRQ_NUM
  | PORT_UINT_SET_IRQ "(u32 \<times> u32) option" "nat \<Rightarrow> errno + int list"
  | Other u32

type_synonym ioctl_result = "(errno option \<times> user_out) \<times> afu_sys"

definition set_irq_of :: "irq_env \<Rightarrow> nat \<Rightarrow> (u32 \<times> u32) option \<Rightarrow> (nat \<Rightarrow> errno + int list) \<Rightarrow> afu_sys \<Rightarrow> ioctl_result" where
  "set_irq_of env i hdr memdup_user s =
     (case dfl_feature_ioctl_set_irq env hdr memdup_user (feature_irqs i s) of
        (r, q) \<Rightarrow> ((r, User_none), put_feature_irqs i s q))"

definition get_irq_num_of :: "bool \<Rightarrow> nat \<Rightarrow> afu_sys \<Rightarrow> ioctl_result" where
  "get_irq_num_of wr_ok i s =
     (copy_back wr_ok (User_count (dfl_feature_ioctl_get_num_irqs (features (dv_fdata s) ! i))), s)"

definition port_hdr_ioctl :: "afu_env \<Rightarrow> afu_cmd \<Rightarrow> afu_sys \<Rightarrow> ioctl_result" where
  "port_hdr_ioctl env cmd s =
     (case cmd of
        PORT_RESET arg \<Rightarrow>
          if \<not> arg then (case port_reset (ae_dev env) (ae_polls env) s of (r, s) \<Rightarrow> ((r, User_none), s))
          else ((Some EINVAL, User_none), s)
      | _ \<Rightarrow> ((Some ENODEV, User_none), s))"

definition port_err_ioctl :: "afu_env \<Rightarrow> bool \<Rightarrow> nat \<Rightarrow> afu_cmd \<Rightarrow> afu_sys \<Rightarrow> ioctl_result" where
  "port_err_ioctl env wr_ok i cmd s =
     (case cmd of
        PORT_ERR_GET_IRQ_NUM \<Rightarrow> get_irq_num_of wr_ok i s
      | PORT_ERR_SET_IRQ hdr fds \<Rightarrow> set_irq_of (ae_irq env) i hdr fds s
      | _ \<Rightarrow> ((Some ENODEV, User_none), s))"

definition port_uint_ioctl :: "afu_env \<Rightarrow> bool \<Rightarrow> nat \<Rightarrow> afu_cmd \<Rightarrow> afu_sys \<Rightarrow> ioctl_result" where
  "port_uint_ioctl env wr_ok i cmd s =
     (case cmd of
        PORT_UINT_GET_IRQ_NUM \<Rightarrow> get_irq_num_of wr_ok i s
      | PORT_UINT_SET_IRQ hdr fds \<Rightarrow> set_irq_of (ae_irq env) i hdr fds s
      | _ \<Rightarrow> ((Some ENODEV, User_none), s))"

text \<open>
  The drivers of \<^verbatim>\<open>port_feature_drvs\<close> by their position: header, accelerator, errors, signal tap, user
  interrupts. The ioctl operation of a feature is the one its driver has, if any.
\<close>

definition feature_ioctl :: "afu_env \<Rightarrow> bool \<Rightarrow> nat \<Rightarrow> afu_cmd \<Rightarrow> afu_sys \<Rightarrow> ioctl_result option" where
  "feature_ioctl env wr_ok i cmd s =
     (case ft_ops (features (dv_fdata s) ! i) of
        None \<Rightarrow> None
      | Some n \<Rightarrow>
          if n = 0 then Some (port_hdr_ioctl env cmd s)
          else if n = 2 then Some (port_err_ioctl env wr_ok i cmd s)
          else if n = 4 then Some (port_uint_ioctl env wr_ok i cmd s)
          else None)"

text \<open>\<^verbatim>\<open>DFL_FPGA_API_VERSION\<close> is \<open>0\<close>, and there are no extensions.\<close>

definition afu_ioctl :: "afu_env \<Rightarrow> bool \<Rightarrow> afu_cmd \<Rightarrow> afu_sys \<Rightarrow> ioctl_result" where
  "afu_ioctl env wr_ok cmd s =
     (case cmd of
        GET_API_VERSION \<Rightarrow> ((None, User_none), s)
      | CHECK_EXTENSION \<Rightarrow> ((None, User_none), s)
      | PORT_GET_INFO arg \<Rightarrow> (afu_ioctl_get_info arg wr_ok s, s)
      | PORT_GET_REGION_INFO arg \<Rightarrow> (afu_ioctl_get_region_info arg wr_ok s, s)
      | PORT_DMA_MAP arg \<Rightarrow>
          (case afu_ioctl_dma_map (ae_dma env) arg wr_ok (as_dma s) of (r, d) \<Rightarrow> (r, s\<lparr>as_dma := d\<rparr>))
      | PORT_DMA_UNMAP arg \<Rightarrow>
          (case afu_ioctl_dma_unmap (ae_dma env) arg (as_dma s) of (r, d) \<Rightarrow> ((r, User_none), s\<lparr>as_dma := d\<rparr>))
      | _ \<Rightarrow> features_ioctl (\<lambda>i. feature_ioctl env wr_ok i cmd) User_none 0 (length (features (dv_fdata s))) s)"

section \<open>Mapping registers\<close>

record vm_area =
  vm_start :: u64
  vm_end :: u64
  vm_pgoff :: u64
  vm_shared :: bool
  vm_read :: bool
  vm_write :: bool

definition PFN_PHYS :: "u64 \<Rightarrow> u64" where
  "PFN_PHYS x = push_bit 12 x"

text \<open>
  The page frame number and the size handed to \<^verbatim>\<open>remap_pfn_range\<close>, or the error of \<^verbatim>\<open>afu_mmap\<close> itself.
\<close>

definition afu_mmap :: "vm_area \<Rightarrow> dfl_afu \<Rightarrow> errno + u64 \<times> u64" where
  "afu_mmap vma afu =
     (let sz = vm_end vma - vm_start vma
      in if \<not> vm_shared vma then Inl EINVAL
         else
           let offset = PFN_PHYS (vm_pgoff vma)
           in (case afu_mmio_region_get_by_offset afu offset sz of
                 Inl e \<Rightarrow> Inl e
               | Inr region \<Rightarrow>
                   if rg_flags region AND 4 = 0 then Inl EINVAL
                   else if vm_read vma \<and> rg_flags region AND 1 = 0 then Inl EPERM
                   else if vm_write vma \<and> rg_flags region AND 2 = 0 then Inl EPERM
                   else Inr (PFN_DOWN (rg_phys region + (offset - rg_offset region)), sz)))"

section \<open>Sub feature drivers\<close>

definition with_features :: "dfl_feature list \<Rightarrow> afu_sys \<Rightarrow> afu_sys" where
  "with_features fs s = s\<lparr>dv_fdata := (dv_fdata s)\<lparr>features := fs\<rparr>\<rparr>"

text \<open>The register range of a feature is a resource of the platform device, given as start and end.\<close>

definition add_feature_region :: "afu_env \<Rightarrow> u32 \<Rightarrow> dfl_feature \<Rightarrow> afu_sys \<Rightarrow> afu_sys ret" where
  "add_feature_region env index f s =
     (case resources (dv_fdata s) ! nat (ft_resource_index f) of
        (rstart, rend) \<Rightarrow>
          (case afu_mmio_region_add (ae_region_alloc env index) index (rend - rstart + 1) rstart 7 (as_afu s) of
             (r, afu) \<Rightarrow> (r, s\<lparr>as_afu := afu\<rparr>)))"

definition port_afu_init :: "afu_env \<Rightarrow> dfl_feature \<Rightarrow> afu_sys \<Rightarrow> afu_sys ret" where
  "port_afu_init env f s = add_feature_region env 0 f s"

definition port_stp_init :: "afu_env \<Rightarrow> dfl_feature \<Rightarrow> afu_sys \<Rightarrow> afu_sys ret" where
  "port_stp_init env f s = add_feature_region env 1 f s"

definition port_feature_ops :: "afu_env \<Rightarrow> nat \<Rightarrow> afu_sys dfl_feature_ops" where
  "port_feature_ops env n =
     (if n = 0 then \<lparr>fops_init = Some (\<lambda>fs i s. port_hdr_init (ae_dev env) (ae_polls env) (with_features fs s)),
                     fops_uinit = None\<rparr>
      else if n = 1 then \<lparr>fops_init = Some (\<lambda>fs i s. port_afu_init env (fs ! i) (with_features fs s)), fops_uinit = None\<rparr>
      else if n = 2 then \<lparr>fops_init = Some (\<lambda>fs i s. port_err_init (with_features fs s)),
                          fops_uinit = Some (\<lambda>fs i s. port_err_uinit (with_features fs s))\<rparr>
      else if n = 3 then \<lparr>fops_init = Some (\<lambda>fs i s. port_stp_init env (fs ! i) (with_features fs s)), fops_uinit = None\<rparr>
      else \<lparr>fops_init = None, fops_uinit = None\<rparr>)"

definition port_drv :: "u16 \<Rightarrow> nat \<Rightarrow> dfl_feature_driver" where
  "port_drv i n = \<lparr>fdrv_ids = Some [\<lparr>fid_id = i, fid_guid = guid_null\<rparr>, \<lparr>fid_id = 0, fid_guid = guid_null\<rparr>], fdrv_ops = n\<rparr>"

definition port_feature_drvs :: "dfl_feature_driver list" where
  "port_feature_drvs =
     [port_drv PORT_FEATURE_ID_HEADER 0, port_drv PORT_FEATURE_ID_AFU 1, port_drv PORT_FEATURE_ID_ERROR 2,
      port_drv PORT_FEATURE_ID_STP 3, port_drv PORT_FEATURE_ID_UINT 4]"

section \<open>Probing and removal\<close>

definition afu_dev_init :: "afu_env \<Rightarrow> afu_sys \<Rightarrow> afu_sys ret" where
  "afu_dev_init env s =
     (if \<not> ae_kzalloc env then (Some ENOMEM, s)
      else (None, s\<lparr>as_private := True,
                    as_afu := afu_mmio_region_init \<lparr>region_cur_offset = 0, num_regions = 0, num_umsgs = 0, regions = []\<rparr>,
                    as_dma := (as_dma s)\<lparr>dma_regions := \<langle>\<rangle>\<rparr>\<rparr>))"

text \<open>The regions go back to the allocator; the list head still names them, but nobody reads it again.\<close>

definition afu_dev_destroy :: "afu_sys \<Rightarrow> afu_sys" where
  "afu_dev_destroy s = s\<lparr>as_dma := afu_dma_region_destroy (as_dma s), as_private := False\<rparr>"

definition afu_feature_uinit :: "afu_env \<Rightarrow> afu_sys \<Rightarrow> afu_sys" where
  "afu_feature_uinit env s =
     (case dfl_fpga_dev_feature_uinit (port_feature_ops env) (features (dv_fdata s), s) of (fs, s) \<Rightarrow> with_features fs s)"

definition afu_probe :: "afu_env \<Rightarrow> afu_sys \<Rightarrow> afu_sys ret" where
  "afu_probe env s =
     (case afu_dev_init env s of
        (Some e, s) \<Rightarrow> (Some e, s)
      | (None, s) \<Rightarrow>
          (case dfl_fpga_dev_feature_init (ae_ioremap env) (ae_dfl_dev_add env) (port_feature_ops env) port_feature_drvs
                  (features (dv_fdata s), s) of
             (Some e, (fs, s)) \<Rightarrow> (Some e, afu_dev_destroy (with_features fs s))
           | (None, (fs, s)) \<Rightarrow>
               let s = with_features fs s
               in (case ae_cdev_add env of
                     Some e \<Rightarrow> (Some e, afu_dev_destroy (afu_feature_uinit env s))
                   | None \<Rightarrow> (None, s\<lparr>as_cdev := True\<rparr>))))"

definition afu_remove :: "afu_env \<Rightarrow> afu_sys \<Rightarrow> afu_sys" where
  "afu_remove env s = afu_dev_destroy (afu_feature_uinit env (s\<lparr>as_cdev := False\<rparr>))"

end
