(* ===== verification/Afu_Port_Props.thy ===== *)
theory Afu_Port_Props
  imports Afu_Port
begin

unbundle bit_operations_syntax

text \<open>
  Once a port has been reset at start-up, it is held in reset exactly while its disable counter is not
  zero; clearing errors happens under reset and mask; a reset that times out disables all later ones.
\<close>

section \<open>Register accesses\<close>

lemma base_count [simp]:
  "dfl_get_feature_ioaddr_by_id (fd\<lparr>disable_count := c\<rparr>) i = dfl_get_feature_ioaddr_by_id fd i"
  "hdr_reg (fd\<lparr>disable_count := c\<rparr>) x = hdr_reg fd x"
  "err_reg (fd\<lparr>disable_count := c\<rparr>) x = err_reg fd x"
  "feature_base (fd\<lparr>disable_count := c\<rparr>) i = feature_base fd i"
  by (simp_all add: hdr_reg_def err_reg_def feature_base_def dfl_get_feature_ioaddr_by_id_def dfl_get_feature_by_id_def)

lemma hdr_reg_eq [simp]: "hdr_reg fd x = hdr_reg fd y \<longleftrightarrow> x = y"
  by (simp add: hdr_reg_def)

lemma err_reg_eq [simp]: "err_reg fd x = err_reg fd y \<longleftrightarrow> x = y"
  by (simp add: err_reg_def)

text \<open>
  The registers of a port as it is used, and its last control word: the port is held in reset while the
  reset bit of that word is set. Before the first write the bit is whatever the hardware starts with; by
  the comment on \<^verbatim>\<open>__afu_port_enable\<close> it is set. The counter and the bit agree once the driver has written it.
\<close>

definition ctrl_writes :: "'a dev_sys_scheme \<Rightarrow> history \<Rightarrow> u64 list" where
  "ctrl_writes s h = writes (hdr_reg (dv_fdata s) PORT_HDR_CTRL) h"

definition held_in_reset :: "'a dev_sys_scheme \<Rightarrow> history \<Rightarrow> bool" where
  "held_in_reset s h \<longleftrightarrow> ctrl_writes s h \<noteq> [] \<and> bit (last (ctrl_writes s h)) 0"

definition reset_agrees :: "'a dev_sys_scheme \<Rightarrow> bool" where
  "reset_agrees s \<longleftrightarrow>
     ctrl_writes s (dv_hist s) \<noteq> [] \<and> held_in_reset s (dv_hist s) = (disable_count (dv_fdata s) \<noteq> 0)"

definition separate_regs :: "dfl_feature_dev_data \<Rightarrow> bool" where
  "separate_regs fd \<longleftrightarrow> (\<forall>x \<in> {PORT_ERROR_MASK, PORT_ERROR, PORT_FIRST_ERROR}. err_reg fd x \<noteq> hdr_reg fd PORT_HDR_CTRL)"

text \<open>The device gives back the reset bit last written, whatever it gave before any write.\<close>

definition reads_back_reset :: "device \<Rightarrow> u64 \<Rightarrow> bool" where
  "reads_back_reset dev a \<longleftrightarrow> (\<forall>h. writes a h \<noteq> [] \<longrightarrow> bit (dev h a) 0 = bit (last (writes a h)) 0)"

section \<open>What an operation adds\<close>

lemma wait_ack_reads:
  assumes "wait_ack dev polls ack s = (r, s')"
  obtains vs where "s' = s\<lparr>dv_hist := dv_hist s @ map (RD (hdr_reg (dv_fdata s) PORT_HDR_CTRL)) vs\<rparr>"
    and "r = (if bit (last vs) 4 = ack then None else Some ETIMEDOUT)"
proof -
  obtain ok v h where p: "readq_poll dev (hdr_reg (dv_fdata s) PORT_HDR_CTRL) (\<lambda>v. bit v 4 = ack) polls (dv_hist s) = (ok, v, h)"
    by (rule prod_cases3)
  from readq_poll_reads [OF p] obtain vs where "h = dv_hist s @ map (RD (hdr_reg (dv_fdata s) PORT_HDR_CTRL)) vs"
    "last vs = v" "ok = (bit v 4 = ack)" by auto
  with assms p that show thesis by (auto simp: wait_ack_def)
qed

text \<open>
  Disabling and enabling: the counter moves by one, and the hardware is touched when it leaves or
  reaches zero. \<open>t\<close> are the new accesses.
\<close>

lemma disable_cases:
  assumes "afu_port_disable dev polls s = (r, s')"
  obtains t where "s' = s\<lparr>dv_fdata := (dv_fdata s)\<lparr>disable_count := disable_count (dv_fdata s) + 1\<rparr>, dv_hist := dv_hist s @ t\<rparr>"
    and "if disable_count (dv_fdata s) \<noteq> 0 then t = [] \<and> r = None
         else \<exists>w. writes (hdr_reg (dv_fdata s) PORT_HDR_CTRL) t = [w] \<and> bit w 0"
    and "\<And>a. a \<noteq> hdr_reg (dv_fdata s) PORT_HDR_CTRL \<Longrightarrow> writes a t = []"
proof (cases "disable_count (dv_fdata s) = 0")
  case False
  with assms have "s' = s\<lparr>dv_fdata := (dv_fdata s)\<lparr>disable_count := disable_count (dv_fdata s) + 1\<rparr>\<rparr>" "r = None"
    by (auto simp: afu_port_disable_def Let_def)
  with False show thesis by (intro that [of "[]"]) simp_all
next
  case True
  let ?c = "hdr_reg (dv_fdata s) PORT_HDR_CTRL"
  let ?v = "dev (dv_hist s) ?c"
  let ?s1 = "s\<lparr>dv_fdata := (dv_fdata s)\<lparr>disable_count := 1\<rparr>, dv_hist := dv_hist s @ [RD ?c ?v, WR ?c (?v OR 1)]\<rparr>"
  from assms True have w: "wait_ack dev polls True ?s1 = (r, s')"
    by (simp add: afu_port_disable_def Let_def rd_eq wr_eq)
  obtain vs where vs: "s' = ?s1\<lparr>dv_hist := dv_hist ?s1 @ map (RD (hdr_reg (dv_fdata ?s1) PORT_HDR_CTRL)) vs\<rparr>"
    by (rule wait_ack_reads [OF w])
  show thesis
    by (rule that [of "[RD ?c ?v, WR ?c (?v OR 1)] @ map (RD ?c) vs"]) (use vs True in \<open>auto simp: bit_simps\<close>)
qed

lemma enable_cases:
  assumes "afu_port_enable dev polls s = (r, s')"
  obtains t where "s' = s\<lparr>dv_fdata := (dv_fdata s)\<lparr>disable_count := disable_count (dv_fdata s) - 1\<rparr>, dv_hist := dv_hist s @ t\<rparr>"
    and "if disable_count (dv_fdata s) \<noteq> 1 then t = [] \<and> r = None
         else \<exists>w. writes (hdr_reg (dv_fdata s) PORT_HDR_CTRL) t = [w] \<and> \<not> bit w 0"
    and "\<And>a. a \<noteq> hdr_reg (dv_fdata s) PORT_HDR_CTRL \<Longrightarrow> writes a t = []"
proof (cases "disable_count (dv_fdata s) = 1")
  case False
  then have "disable_count (dv_fdata s) - 1 \<noteq> 0" by simp
  with assms have "s' = s\<lparr>dv_fdata := (dv_fdata s)\<lparr>disable_count := disable_count (dv_fdata s) - 1\<rparr>\<rparr>" "r = None"
    by (auto simp: afu_port_enable_def Let_def)
  with False show thesis by (intro that [of "[]"]) simp_all
next
  case True
  let ?c = "hdr_reg (dv_fdata s) PORT_HDR_CTRL"
  let ?v = "dev (dv_hist s) ?c"
  let ?s1 = "s\<lparr>dv_fdata := (dv_fdata s)\<lparr>disable_count := 0\<rparr>, dv_hist := dv_hist s @ [RD ?c ?v, WR ?c (?v AND NOT 1)]\<rparr>"
  from assms True have w: "wait_ack dev polls False ?s1 = (r, s')"
    by (simp add: afu_port_enable_def Let_def rd_eq wr_eq)
  obtain vs where vs: "s' = ?s1\<lparr>dv_hist := dv_hist ?s1 @ map (RD (hdr_reg (dv_fdata ?s1) PORT_HDR_CTRL)) vs\<rparr>"
    by (rule wait_ack_reads [OF w])
  have "\<not> bit (?v AND NOT 1) 0" by (simp add: bit_simps)
  show thesis
    by (rule that [of "[RD ?c ?v, WR ?c (?v AND NOT 1)] @ map (RD ?c) vs"])
      (use vs True \<open>\<not> bit (?v AND NOT 1) 0\<close> in auto)
qed

lemma disable_agrees:
  assumes "afu_port_disable dev polls s = (r, s')" and "reset_agrees s" and "disable_count (dv_fdata s) \<noteq> -1"
  shows "reset_agrees s'" and "held_in_reset s' (dv_hist s')"
  by (rule disable_cases [OF assms(1)],
      use assms(2,3) in \<open>auto simp: reset_agrees_def held_in_reset_def ctrl_writes_def add_eq_0_iff2 split: if_splits\<close>)+

lemma enable_agrees:
  assumes "afu_port_enable dev polls s = (r, s')" and "reset_agrees s" and "disable_count (dv_fdata s) \<noteq> 0"
  shows "reset_agrees s'"
  by (rule enable_cases [OF assms(1)])
    (use assms(2,3) in \<open>auto simp: reset_agrees_def held_in_reset_def ctrl_writes_def split: if_splits\<close>)

section \<open>The counter and the reset bit\<close>

text \<open>
  Everything the driver does with a port, in any order. Enabling is for those who have disabled it
  before; the counter is assumed not to overflow.
\<close>

inductive port_step :: "device \<Rightarrow> nat \<Rightarrow> dev_sys \<Rightarrow> dev_sys \<Rightarrow> bool" for dev polls where
  Disable: "disable_count (dv_fdata s) \<noteq> -1 \<Longrightarrow> port_step dev polls s (snd (port_enable_set dev polls False s))"
| Enable: "disable_count (dv_fdata s) \<noteq> 0 \<Longrightarrow> port_step dev polls s (snd (port_enable_set dev polls True s))"
| Reset: "disable_count (dv_fdata s) \<noteq> -1 \<Longrightarrow> port_step dev polls s (snd (port_reset dev polls s))"
| Header_init: "disable_count (dv_fdata s) \<noteq> -1 \<Longrightarrow> port_step dev polls s (snd (port_hdr_init dev polls s))"
| Ltr: "port_step dev polls s (snd (ltr_store dev kstrtobool buf s))"
| Ap1: "port_step dev polls s (snd (ap1_event_store kstrtobool buf s))"
| Ap2: "port_step dev polls s (snd (ap2_event_store kstrtobool buf s))"
| Freq: "port_step dev polls s (snd (userclk_freqcmd_store kstrtou64 buf s))"
| Freqcnt: "port_step dev polls s (snd (userclk_freqcntrcmd_store kstrtou64 buf s))"
| Errors: "disable_count (dv_fdata s) \<noteq> -1 \<Longrightarrow> port_step dev polls s (snd (errors_store dev polls kstrtou64 buf s))"
| Error_init: "port_step dev polls s (snd (port_err_init s))"
| Error_uinit: "port_step dev polls s (port_err_uinit s)"
| Read: "port_step dev polls s (snd (afu_id_show dev s))"

inductive port_reach :: "device \<Rightarrow> nat \<Rightarrow> dev_sys \<Rightarrow> dev_sys \<Rightarrow> bool" for dev polls where
  Start: "port_reach dev polls s s"
| Step: "port_reach dev polls s s' \<Longrightarrow> port_step dev polls s' s'' \<Longrightarrow> port_reach dev polls s s''"

text \<open>What no operation changes: the registers are where they were.\<close>

definition same_regs :: "'a dev_sys_scheme \<Rightarrow> 'a dev_sys_scheme \<Rightarrow> bool" where
  "same_regs s s' \<longleftrightarrow> (dv_fdata s')\<lparr>disable_count := 0\<rparr> = (dv_fdata s)\<lparr>disable_count := 0\<rparr>"

lemma same_regs_refl [simp]: "same_regs s s"
  by (simp add: same_regs_def)

lemma same_regs_trans [trans]: "same_regs s s' \<Longrightarrow> same_regs s' s'' \<Longrightarrow> same_regs s s''"
  by (simp add: same_regs_def)

lemma same_regs_eq:
  assumes "same_regs s s'"
  shows "hdr_reg (dv_fdata s') x = hdr_reg (dv_fdata s) x" and "err_reg (dv_fdata s') x = err_reg (dv_fdata s) x"
proof -
  have "dv_fdata s' = (dv_fdata s)\<lparr>disable_count := disable_count (dv_fdata s')\<rparr>"
    using assms by (cases "dv_fdata s"; cases "dv_fdata s'") (simp add: same_regs_def)
  then show "hdr_reg (dv_fdata s') x = hdr_reg (dv_fdata s) x" "err_reg (dv_fdata s') x = err_reg (dv_fdata s) x"
    by (metis base_count(2)) (metis \<open>dv_fdata s' = _\<close> base_count(3))
qed

text \<open>An operation that keeps the counter and writes elsewhere keeps the agreement.\<close>

lemma agrees_frame:
  assumes "dv_hist s' = dv_hist s @ t" and "dv_fdata s' = dv_fdata s" and "writes (hdr_reg (dv_fdata s) PORT_HDR_CTRL) t = []"
  shows "reset_agrees s' = reset_agrees s"
  using assms by (simp add: reset_agrees_def held_in_reset_def ctrl_writes_def)

definition port_good :: "dev_sys \<Rightarrow> dev_sys \<Rightarrow> bool" where
  "port_good s s' \<longleftrightarrow> same_regs s s' \<and> (reset_agrees s \<longrightarrow> reset_agrees s')"

lemma agrees_wr:
  "a \<noteq> hdr_reg (dv_fdata s) PORT_HDR_CTRL \<Longrightarrow> reset_agrees (wr v a s) = reset_agrees s"
  by (rule agrees_frame [where t = "[WR a v]"]) (simp_all add: wr_eq)

lemma agrees_rd: "rd dev a s = (v, s') \<Longrightarrow> reset_agrees s' = reset_agrees s"
  by (rule agrees_frame [where t = "[RD a v]"]) (auto simp: rd_eq)

lemma fdata_rd_wr [simp]: "dv_fdata (wr v a s) = dv_fdata s" "dv_fdata (snd (rd dev a s)) = dv_fdata s"
  by (auto simp: wr_eq rd_eq)

lemma count_disable: "afu_port_disable dev polls s = (r, s') \<Longrightarrow> dv_fdata s' = (dv_fdata s)\<lparr>disable_count := disable_count (dv_fdata s) + 1\<rparr>"
  by (erule disable_cases) simp

lemma count_enable: "afu_port_enable dev polls s = (r, s') \<Longrightarrow> dv_fdata s' = (dv_fdata s)\<lparr>disable_count := disable_count (dv_fdata s) - 1\<rparr>"
  by (erule enable_cases) simp

lemma good_disable:
  "disable_count (dv_fdata s) \<noteq> -1 \<Longrightarrow> port_good s (snd (afu_port_disable dev polls s))"
  using disable_agrees [of dev polls s "fst (afu_port_disable dev polls s)" "snd (afu_port_disable dev polls s)"]
    count_disable [of dev polls s "fst (afu_port_disable dev polls s)" "snd (afu_port_disable dev polls s)"]
  by (simp add: port_good_def same_regs_def)

lemma good_enable:
  "disable_count (dv_fdata s) \<noteq> 0 \<Longrightarrow> port_good s (snd (afu_port_enable dev polls s))"
  using enable_agrees [of dev polls s "fst (afu_port_enable dev polls s)" "snd (afu_port_enable dev polls s)"]
    count_enable [of dev polls s "fst (afu_port_enable dev polls s)" "snd (afu_port_enable dev polls s)"]
  by (simp add: port_good_def same_regs_def)

lemma port_good_refl [simp]: "port_good s s"
  by (simp add: port_good_def)

lemma port_good_trans [trans]: "port_good s s' \<Longrightarrow> port_good s' s'' \<Longrightarrow> port_good s s''"
  by (auto simp: port_good_def intro: same_regs_trans)

lemma good_rd: "port_good s (snd (rd dev a s))"
  using agrees_rd [of dev a s "fst (rd dev a s)" "snd (rd dev a s)"]
  by (simp add: port_good_def same_regs_def)

lemma good_wr: "a \<noteq> hdr_reg (dv_fdata s) PORT_HDR_CTRL \<Longrightarrow> port_good s (wr v a s)"
  by (simp add: port_good_def same_regs_def agrees_wr)

lemma good_reset_locked:
  assumes "disable_count (dv_fdata s) \<noteq> -1"
  shows "port_good s (snd (port_reset_locked dev polls s))"
proof -
  obtain r1 s1 where d: "afu_port_disable dev polls s = (r1, s1)" by fastforce
  have g: "port_good s s1" using good_disable [OF assms, of dev polls] d by simp
  have "disable_count (dv_fdata s1) \<noteq> 0" using count_disable [OF d] assms by (simp add: add_eq_0_iff2)
  from port_good_trans [OF g good_enable [OF this, of dev polls]] g d show ?thesis
    by (cases r1) (simp_all add: port_reset_locked_def)
qed

lemma get_port_rev_reads:
  assumes "get_port_rev dev s = (rv, s')"
  shows "\<exists>t. s' = s\<lparr>dv_hist := dv_hist s @ t\<rparr> \<and> (\<forall>a. writes a t = [])"
proof (cases "dfl_get_feature_ioaddr_by_id (dv_fdata s) PORT_FEATURE_ID_HEADER")
  case None
  with assms show ?thesis by (intro exI [of _ "[]"]) (auto simp: get_port_rev_def)
next
  case (Some base)
  with assms show ?thesis by (intro exI [of _ "[RD base (dev (dv_hist s) base)]"]) (auto simp: get_port_rev_def rd_eq)
qed

lemma good_reset:
  assumes "disable_count (dv_fdata s) \<noteq> -1"
  shows "port_good s (snd (port_reset dev polls s))"
proof -
  obtain rv s1 where g: "get_port_rev dev s = (rv, s1)" by fastforce
  from get_port_rev_reads [OF g] obtain t where t: "s1 = s\<lparr>dv_hist := dv_hist s @ t\<rparr>" "\<forall>a. writes a t = []" by blast
  have "reset_agrees s1 = reset_agrees s" by (rule agrees_frame [where t = t]) (simp_all add: t)
  with t(1) have s1: "port_good s s1" by (simp add: port_good_def same_regs_def)
  have "port_good s1 (snd (port_reset_locked dev polls s1))" using assms t(1) by (intro good_reset_locked) simp
  from port_good_trans [OF s1 this] s1 show ?thesis by (simp add: port_reset_def g)
qed

section \<open>Clearing errors\<close>

lemma write_back_cases:
  assumes "port_err_write_back dev err s = (r, s')"
  obtains t where "s' = s\<lparr>dv_hist := dv_hist s @ t\<rparr>"
    and "r = None \<longrightarrow> writes (err_reg (dv_fdata s) PORT_ERROR) t = [err]"
    and "r \<noteq> None \<longrightarrow> r = Some EINVAL \<and> (\<forall>a. writes a t = [])"
    and "\<And>a. a \<noteq> err_reg (dv_fdata s) PORT_ERROR \<Longrightarrow> a \<noteq> err_reg (dv_fdata s) PORT_FIRST_ERROR \<Longrightarrow> writes a t = []"
    and "\<And>P h. (\<And>k. (\<And>a. writes a k = []) \<Longrightarrow> P (h @ k) err) \<Longrightarrow>
           all_writes P (err_reg (dv_fdata s) PORT_ERROR) h t"
proof -
  let ?e = "err_reg (dv_fdata s) PORT_ERROR" and ?f = "err_reg (dv_fdata s) PORT_FIRST_ERROR"
  let ?v = "dev (dv_hist s) ?e"
  let ?h = "dv_hist s @ [RD ?e ?v, WR ?e ?v]"
  show thesis
  proof (cases "?v = err")
    case True
    with assms have "s' = s\<lparr>dv_hist := dv_hist s @ [RD ?e ?v, WR ?e err, RD ?f (dev ?h ?f), WR ?f (dev ?h ?f)]\<rparr>" "r = None"
      by (auto simp: port_err_write_back_def rd_eq wr_eq)
    with True show thesis by (intro that [of "[RD ?e ?v, WR ?e err, RD ?f (dev ?h ?f), WR ?f (dev ?h ?f)]"]) auto
  next
    case False
    with assms have "s' = s\<lparr>dv_hist := dv_hist s @ [RD ?e ?v]\<rparr>" "r = Some EINVAL"
      by (auto simp: port_err_write_back_def rd_eq wr_eq)
    then show thesis by (intro that [of "[RD ?e ?v]"]) auto
  qed
qed

lemma held_same: "same_regs s s' \<Longrightarrow> held_in_reset s' h = held_in_reset s h"
  by (simp add: held_in_reset_def ctrl_writes_def same_regs_eq)

text \<open>The steps of \<^verbatim>\<open>afu_port_err_clear\<close>.\<close>

lemma err_clear_cases:
  assumes "afu_port_err_clear dev polls err s = (r, s')"
  obtains (ap6) "r = Some EBUSY" "s' = snd (rd dev (hdr_reg (dv_fdata s) PORT_HDR_STS) s)"
  | (stuck) e s1 where "s1 = snd (rd dev (hdr_reg (dv_fdata s) PORT_HDR_STS) s)"
      "afu_port_disable dev polls s1 = (Some e, s')" "r = Some e"
  | (clear) s1 s2 r3 s3 r4 where "s1 = snd (rd dev (hdr_reg (dv_fdata s) PORT_HDR_STS) s)"
      "afu_port_disable dev polls s1 = (None, s2)"
      "port_err_write_back dev err (afu_port_err_mask True s2) = (r3, s3)"
      "afu_port_enable dev polls (afu_port_err_mask False s3) = (r4, s')"
      "r = (if r4 = None then r3 else r4)"
proof -
  let ?s1 = "snd (rd dev (hdr_reg (dv_fdata s) PORT_HDR_STS) s)"
  obtain rd2 s2 where d: "afu_port_disable dev polls ?s1 = (rd2, s2)" by fastforce
  obtain r3 s3 where w: "port_err_write_back dev err (afu_port_err_mask True s2) = (r3, s3)" by fastforce
  obtain r4 s4 where e: "afu_port_enable dev polls (afu_port_err_mask False s3) = (r4, s4)" by fastforce
  from assms show thesis
    using ap6 stuck [OF refl, of "the rd2"] clear [OF refl, of s2 r3 s3 r4] d w e
    by (cases rd2; cases r4) (auto simp: afu_port_err_clear_def case_prod_beta split: if_splits)
qed

lemma good_mask: "separate_regs (dv_fdata s) \<Longrightarrow> port_good s (afu_port_err_mask b s)"
  by (auto simp: afu_port_err_mask_def separate_regs_def intro: good_wr)

lemma separate_same: "same_regs s s' \<Longrightarrow> separate_regs (dv_fdata s') = separate_regs (dv_fdata s)"
  by (simp add: separate_regs_def same_regs_eq)

lemma good_write_back:
  assumes "port_err_write_back dev err s = (r, s')" and "separate_regs (dv_fdata s)"
  shows "port_good s s'" and "disable_count (dv_fdata s') = disable_count (dv_fdata s)"
proof -
  have "hdr_reg (dv_fdata s) PORT_HDR_CTRL \<noteq> err_reg (dv_fdata s) PORT_ERROR"
    "hdr_reg (dv_fdata s) PORT_HDR_CTRL \<noteq> err_reg (dv_fdata s) PORT_FIRST_ERROR"
    using assms(2) by (auto simp: separate_regs_def dest: sym)
  with assms(1) obtain t where t: "s' = s\<lparr>dv_hist := dv_hist s @ t\<rparr>" "writes (hdr_reg (dv_fdata s) PORT_HDR_CTRL) t = []"
    by (elim write_back_cases) simp
  have "reset_agrees s' = reset_agrees s" by (rule agrees_frame [where t = t]) (simp_all add: t)
  with t(1) show "port_good s s'" "disable_count (dv_fdata s') = disable_count (dv_fdata s)"
    by (simp_all add: port_good_def same_regs_def)
qed

lemma good_err_clear:
  assumes "separate_regs (dv_fdata s)" and "disable_count (dv_fdata s) \<noteq> -1"
  shows "port_good s (snd (afu_port_err_clear dev polls err s))"
proof -
  obtain r s' where run: "afu_port_err_clear dev polls err s = (r, s')" by fastforce
  from run have "port_good s s'"
  proof (cases rule: err_clear_cases)
    case ap6
    then show ?thesis by (simp add: good_rd)
  next
    case (stuck e s1)
    have "port_good s s1" unfolding stuck(1) by (rule good_rd)
    also have "port_good s1 s'" using good_disable [of s1 dev polls] assms(2) stuck by simp
    finally show ?thesis .
  next
    case (clear s1 s2 r3 s3 r4)
    have "port_good s s1" unfolding clear(1) by (rule good_rd)
    also have "port_good s1 s2" using good_disable [of s1 dev polls] assms(2) clear by simp
    finally have g2: "port_good s s2" .
    then have sep: "separate_regs (dv_fdata s2)" using assms(1) by (simp add: port_good_def separate_same [of s s2])
    have c: "disable_count (dv_fdata s2) \<noteq> 0" using count_disable [OF clear(2)] assms(2) clear(1)
      by (simp add: add_eq_0_iff2)
    let ?m = "afu_port_err_mask True s2"
    have m: "dv_fdata ?m = dv_fdata s2" by (simp add: afu_port_err_mask_def)
    note wb = good_write_back [OF clear(3), unfolded m, OF sep]
    have sep3: "separate_regs (dv_fdata s3)" using wb(1) sep m by (simp add: port_good_def separate_same [of ?m s3])
    have "port_good s2 ?m" by (rule good_mask [OF sep])
    also note wb(1)
    also have "port_good s3 (afu_port_err_mask False s3)" by (rule good_mask [OF sep3])
    also have "port_good (afu_port_err_mask False s3) s'"
      using good_enable [of "afu_port_err_mask False s3" dev polls] wb(2) c clear(4) by (simp add: afu_port_err_mask_def)
    finally show ?thesis using g2 port_good_trans by blast
  qed
  with run show ?thesis by simp
qed

text \<open>Every write to the error register happens in reset, with the errors masked, and writes back what the user saw.\<close>

definition shielded :: "dev_sys \<Rightarrow> u64 \<Rightarrow> history \<Rightarrow> u64 \<Rightarrow> bool" where
  "shielded s err h v \<longleftrightarrow> v = err \<and> held_in_reset s h \<and>
     writes (err_reg (dv_fdata s) PORT_ERROR_MASK) h \<noteq> [] \<and> last (writes (err_reg (dv_fdata s) PORT_ERROR_MASK) h) = -1"

lemma held_no_write:
  "writes (hdr_reg (dv_fdata s) PORT_HDR_CTRL) t = [] \<Longrightarrow> held_in_reset s (h @ t) = held_in_reset s h"
  by (simp add: held_in_reset_def ctrl_writes_def)

lemma err_clear_tail:
  assumes "port_err_write_back dev err (afu_port_err_mask True s) = (r3, s3)"
    and "afu_port_enable dev polls (afu_port_err_mask False s3) = (r4, s')"
    and "held_in_reset s (dv_hist s)" and "separate_regs (dv_fdata s)"
  shows "\<exists>t. s' = s\<lparr>dv_fdata := (dv_fdata s)\<lparr>disable_count := disable_count (dv_fdata s) - 1\<rparr>, dv_hist := dv_hist s @ t\<rparr> \<and>
     all_writes (shielded s err) (err_reg (dv_fdata s) PORT_ERROR) (dv_hist s) t \<and>
     (r3 = None \<longrightarrow> writes (err_reg (dv_fdata s) PORT_ERROR) t = [err]) \<and>
     writes (err_reg (dv_fdata s) PORT_ERROR_MASK) t = [-1, 0]"
proof -
  let ?e = "err_reg (dv_fdata s) PORT_ERROR" and ?m = "err_reg (dv_fdata s) PORT_ERROR_MASK"
    and ?c = "hdr_reg (dv_fdata s) PORT_HDR_CTRL"
  have ne: "?e \<noteq> ?c" "?m \<noteq> ?c" "err_reg (dv_fdata s) PORT_FIRST_ERROR \<noteq> ?c" using assms(4) by (auto simp: separate_regs_def)
  have m2: "afu_port_err_mask True s = s\<lparr>dv_hist := dv_hist s @ [WR ?m (-1)]\<rparr>"
    by (simp add: afu_port_err_mask_def wr_eq)
  obtain t3 where t3: "s3 = s\<lparr>dv_hist := dv_hist s @ [WR ?m (-1)] @ t3\<rparr>"
    "r3 = None \<longrightarrow> writes ?e t3 = [err]"
    "\<And>a. a \<noteq> ?e \<Longrightarrow> a \<noteq> err_reg (dv_fdata s) PORT_FIRST_ERROR \<Longrightarrow> writes a t3 = []"
    "\<And>P h. (\<And>k. (\<And>a. writes a k = []) \<Longrightarrow> P (h @ k) err) \<Longrightarrow> all_writes P ?e h t3"
    by (rule write_back_cases [OF assms(1), unfolded m2]) simp
  have m3: "afu_port_err_mask False s3 = s3\<lparr>dv_hist := dv_hist s3 @ [WR ?m 0]\<rparr>"
    using t3(1) by (simp add: afu_port_err_mask_def wr_eq)
  obtain t4 where t4: "s' = s3\<lparr>dv_fdata := (dv_fdata s3)\<lparr>disable_count := disable_count (dv_fdata s3) - 1\<rparr>,
      dv_hist := dv_hist s3 @ [WR ?m 0] @ t4\<rparr>" "\<And>a. a \<noteq> ?c \<Longrightarrow> writes a t4 = []"
    by (rule enable_cases [OF assms(2), unfolded m3]) (use t3(1) in simp)
  let ?t = "[WR ?m (-1)] @ t3 @ [WR ?m 0] @ t4"
  have "all_writes (shielded s err) ?e (dv_hist s @ [WR ?m (-1)]) t3"
    by (rule t3(4)) (use assms(3) ne in \<open>simp add: shielded_def held_in_reset_def ctrl_writes_def\<close>)
  with ne t4(2) have "all_writes (shielded s err) ?e (dv_hist s) ?t" by (simp add: all_writes_none)
  moreover have "r3 = None \<Longrightarrow> writes ?e ?t = [err]" "writes ?m ?t = [-1, 0]"
    using ne t3(2,3) t4(2) by (auto split: if_splits)
  ultimately show ?thesis using t3(1) t4(1) by (intro exI [of _ ?t]) simp
qed

lemma err_clear_trace:
  assumes "afu_port_err_clear dev polls err s = (r, s')" and "separate_regs (dv_fdata s)"
    and "reset_agrees s" and "disable_count (dv_fdata s) \<noteq> -1"
  shows "\<exists>t. dv_hist s' = dv_hist s @ t \<and>
     all_writes (shielded s err) (err_reg (dv_fdata s) PORT_ERROR) (dv_hist s) t \<and>
     (r = None \<longrightarrow> writes (err_reg (dv_fdata s) PORT_ERROR) t = [err] \<and>
        writes (err_reg (dv_fdata s) PORT_ERROR_MASK) t = [-1, 0] \<and>
        disable_count (dv_fdata s') = disable_count (dv_fdata s))"
proof -
  let ?e = "err_reg (dv_fdata s) PORT_ERROR" and ?c = "hdr_reg (dv_fdata s) PORT_HDR_CTRL"
  have ne: "?e \<noteq> ?c" "err_reg (dv_fdata s) PORT_ERROR_MASK \<noteq> ?c" using assms(2) by (auto simp: separate_regs_def)
  obtain v1 s1 where rd: "rd dev (hdr_reg (dv_fdata s) PORT_HDR_STS) s = (v1, s1)" by fastforce
  note s1 = rd_hist [OF rd]
  have a1: "reset_agrees s1" using good_rd [of s dev "hdr_reg (dv_fdata s) PORT_HDR_STS"] rd assms(3) by (simp add: port_good_def)
  from assms(1) show ?thesis
  proof (cases rule: err_clear_cases)
    case ap6
    with s1 rd show ?thesis by simp
  next
    case (stuck e s1')
    then have "afu_port_disable dev polls s1 = (Some e, s')" using rd by simp
    then obtain t where "dv_hist s' = dv_hist s1 @ t" "writes ?e t = []"
      using ne s1 by (elim disable_cases) simp
    with stuck(3) s1 show ?thesis by (auto intro!: all_writes_none)
  next
    case (clear s1' s2 r3 s3 r4)
    then have d: "afu_port_disable dev polls s1 = (None, s2)" using rd by simp
    with assms(4) s1 have held: "held_in_reset s2 (dv_hist s2)" by (intro disable_agrees(2) [OF d a1]) simp
    from d obtain t2 where t2: "s2 = s1\<lparr>dv_fdata := (dv_fdata s1)\<lparr>disable_count := disable_count (dv_fdata s1) + 1\<rparr>,
        dv_hist := dv_hist s1 @ t2\<rparr>" "\<And>a. a \<noteq> ?c \<Longrightarrow> writes a t2 = []"
      using s1 by (elim disable_cases) simp
    have regs: "same_regs s s2" using t2(1) s1 by (simp add: same_regs_def)
    then have "separate_regs (dv_fdata s2)" "shielded s2 err = shielded s err"
      using assms(2) by (auto simp: separate_same [OF regs] shielded_def [abs_def] same_regs_eq [OF regs] held_same [OF regs])
    with err_clear_tail [OF clear(3,4) held] obtain t where t:
      "s' = s2\<lparr>dv_fdata := (dv_fdata s2)\<lparr>disable_count := disable_count (dv_fdata s2) - 1\<rparr>, dv_hist := dv_hist s2 @ t\<rparr>"
      "all_writes (shielded s err) ?e (dv_hist s2) t" "r3 = None \<longrightarrow> writes ?e t = [err]"
      "writes (err_reg (dv_fdata s) PORT_ERROR_MASK) t = [-1, 0]"
      by (auto simp: same_regs_eq [OF regs])
    let ?t = "RD (hdr_reg (dv_fdata s) PORT_HDR_STS) v1 # t2 @ t"
    have "all_writes (shielded s err) ?e (dv_hist s) ?t"
      using t(2) t2 ne s1 by (simp add: all_writes_none)
    with t t2 ne s1 clear(5) show ?thesis by (intro exI [of _ ?t]) (auto split: if_splits)
  qed
qed

section \<open>Every step keeps the agreement\<close>

lemma good_ltr:
  assumes "reads_back_reset dev (hdr_reg (dv_fdata s) PORT_HDR_CTRL)"
  shows "port_good s (snd (ltr_store dev kstrtobool buf s))"
proof (cases "kstrtobool buf")
  case None
  then show ?thesis by (simp add: ltr_store_def)
next
  case (Some b)
  let ?c = "hdr_reg (dv_fdata s) PORT_HDR_CTRL"
  let ?v = "dev (dv_hist s) ?c"
  have "bit (field_set 2 2 x ?v) 0 = bit ?v 0" for x
    by (simp add: field_set_def field_prep_def field_mask_def bit_simps)
  then have "held_in_reset s (dv_hist s @ [RD ?c ?v, WR ?c (field_set 2 2 x ?v)]) = held_in_reset s (dv_hist s)"
    if "ctrl_writes s (dv_hist s) \<noteq> []" for x
    using assms that by (simp add: held_in_reset_def ctrl_writes_def reads_back_reset_def)
  with Some show ?thesis
    by (auto simp: ltr_store_def rd_eq wr_eq port_good_def same_regs_def reset_agrees_def)
      (auto simp: held_in_reset_def ctrl_writes_def)
qed

lemma good_errors_store:
  assumes "separate_regs (dv_fdata s)" and "disable_count (dv_fdata s) \<noteq> -1"
  shows "port_good s (snd (errors_store dev polls kstrtou64 buf s))"
proof (cases "kstrtou64 buf")
  case (Some v)
  obtain r s1 where c: "afu_port_err_clear dev polls v s = (r, s1)" by fastforce
  with good_err_clear [OF assms, of dev polls v] Some show ?thesis by (cases r) (simp_all add: errors_store_def)
qed (simp add: errors_store_def)

lemma good_hdr_init:
  assumes "disable_count (dv_fdata s) \<noteq> -1"
  shows "port_good s (snd (port_hdr_init dev polls s))"
proof -
  obtain v s1 where rd: "rd dev (feature_base (dv_fdata s) PORT_FEATURE_ID_HEADER) s = (v, s1)" by fastforce
  with good_rd [of s dev] have g: "port_good s s1" by (metis snd_conv)
  have "port_good s1 (snd (port_reset dev polls s1))" by (rule good_reset) (use assms rd_hist [OF rd] in simp)
  from port_good_trans [OF g this] g show ?thesis by (simp add: port_hdr_init_def rd Let_def)
qed

lemma good_id_show: "port_good s (snd (afu_id_show dev s))"
proof (cases "disable_count (dv_fdata s) = 0")
  case True
  let ?b = "feature_base (dv_fdata s) PORT_FEATURE_ID_AFU"
  have "snd (afu_id_show dev s) = snd (rd dev (?b + 0x10) (snd (rd dev (?b + 8) s)))"
    using True by (simp add: afu_id_show_def Let_def case_prod_beta)
  with port_good_trans [OF good_rd good_rd] show ?thesis by simp
qed (simp add: afu_id_show_def)

lemma good_step:
  assumes "port_step dev polls s s'" and "separate_regs (dv_fdata s)"
    and "reads_back_reset dev (hdr_reg (dv_fdata s) PORT_HDR_CTRL)"
  shows "port_good s s'"
  using assms(1)
proof cases
  case (Ap1 kstrtobool buf)
  then show ?thesis by (simp add: ap1_event_store_def good_wr)
next
  case (Ap2 kstrtobool buf)
  then show ?thesis by (simp add: ap2_event_store_def good_wr)
next
  case (Freq kstrtou64 buf)
  then show ?thesis by (simp add: userclk_freqcmd_store_def good_wr split: option.splits)
next
  case (Freqcnt kstrtou64 buf)
  then show ?thesis by (simp add: userclk_freqcntrcmd_store_def good_wr split: option.splits)
qed (simp_all add: port_enable_set_def good_disable good_enable good_reset good_hdr_init good_ltr assms good_errors_store
  good_id_show port_err_init_def port_err_uinit_def good_mask)

text \<open>
  The reset at start-up brings counter and bit together, whatever the bit was: also when the device does
  not answer in time. It is made on ports of the revisions that support it.
\<close>

definition resets_at_start :: "device \<Rightarrow> dfl_feature_dev_data \<Rightarrow> bool" where
  "resets_at_start dev fd \<longleftrightarrow>
     (\<exists>base. dfl_get_feature_ioaddr_by_id fd PORT_FEATURE_ID_HEADER = Some base \<and>
        (\<forall>h. (ucast (dfh_revision (dev h base)) :: u8) < 2))"

lemma reset_locked_agrees:
  fixes s :: dev_sys
  assumes "disable_count (dv_fdata s) = 0"
  shows "reset_agrees (snd (port_reset_locked dev polls s)) \<and> same_regs s (snd (port_reset_locked dev polls s))"
proof -
  obtain r1 s1 where d: "afu_port_disable dev polls s = (r1, s1)" by fastforce
  have s1: "reset_agrees s1" "disable_count (dv_fdata s1) \<noteq> 0" "same_regs s s1"
    by (rule disable_cases [OF d],
        use assms in \<open>auto simp: reset_agrees_def held_in_reset_def ctrl_writes_def same_regs_def\<close>)+
  from good_enable [OF s1(2), of dev polls] s1 d show ?thesis
    by (cases r1) (auto simp: port_reset_locked_def port_good_def intro: same_regs_trans)
qed

lemma hdr_init_agrees:
  fixes s :: dev_sys
  assumes "resets_at_start dev (dv_fdata s)" and "disable_count (dv_fdata s) = 0"
  shows "reset_agrees (snd (port_hdr_init dev polls s)) \<and> same_regs s (snd (port_hdr_init dev polls s))"
proof -
  obtain base where b: "dfl_get_feature_ioaddr_by_id (dv_fdata s) PORT_FEATURE_ID_HEADER = Some base"
    and old: "\<And>h. (ucast (dfh_revision (dev h base)) :: u8) < 2" using assms(1) by (auto simp: resets_at_start_def)
  have fb: "feature_base (dv_fdata s) PORT_FEATURE_ID_HEADER = base" by (simp add: feature_base_def b)
  obtain s2 where s2: "s2 = snd (rd dev base (snd (rd dev base s)))" by simp
  have keep: "dv_fdata s2 = dv_fdata s" "same_regs s s2" by (simp_all add: s2 rd_eq same_regs_def)
  have "\<not> (2::u8) < ucast (dfh_revision (dev h base))" "ucast (dfh_revision (dev h base)) \<noteq> (2::u8)" for h
    using old [of h] by auto
  then have "snd (port_hdr_init dev polls s) = snd (port_reset_locked dev polls s2)"
    using old by (simp add: port_hdr_init_def fb port_reset_def get_port_rev_def rd_eq b s2 Let_def)
  with reset_locked_agrees [of s2 dev polls] keep assms(2) show ?thesis by (auto intro: same_regs_trans)
qed

text \<open>
  C27. From the reset at start-up on (\<^verbatim>\<open>port_hdr_init\<close>, on the revisions of the port that have it), whatever
  is done with a port, by any number of users and in any order, its soft reset bit is set exactly while
  its disable counter is not zero: also when the device does not answer in time, and also when attributes
  are written in between. The counter counts those who have disabled the port, and the resets that timed
  out half-way, which nobody takes back (\<open>reset_stuck_after_timeout\<close> below). The bit may be anything before
  start-up; then the device is assumed to give back the bit that was written, the error registers to lie
  apart from the control register, and the counter not to overflow.
\<close>

theorem port_reset_while_disabled:
  assumes "resets_at_start dev (dv_fdata s0)" and "disable_count (dv_fdata s0) = 0"
    and "port_hdr_init dev polls s0 = (r, s)" and "port_reach dev polls s s'"
    and "separate_regs (dv_fdata s0)" and "reads_back_reset dev (hdr_reg (dv_fdata s0) PORT_HDR_CTRL)"
  shows "held_in_reset s' (dv_hist s') \<longleftrightarrow> disable_count (dv_fdata s') \<noteq> 0"
proof -
  have s: "reset_agrees s" "same_regs s0 s" using hdr_init_agrees [OF assms(1,2), of polls] assms(3) by simp_all
  have "separate_regs (dv_fdata s)" "reads_back_reset dev (hdr_reg (dv_fdata s) PORT_HDR_CTRL)"
    using assms(5,6) by (simp_all add: separate_same [OF s(2)] same_regs_eq [OF s(2)])
  with assms(4) have "port_good s s'"
  proof induction
    case (Step s s' s'')
    have good: "port_good s s'" using Step.IH Step.prems by simp
    then have regs: "same_regs s s'" by (simp add: port_good_def)
    have "port_good s' s''"
      by (rule good_step [OF Step.hyps(2)])
        (use Step.prems in \<open>simp_all add: separate_same [OF regs] same_regs_eq [OF regs]\<close>)
    with good show ?case by (rule port_good_trans)
  qed simp
  with s(1) show ?thesis by (simp add: port_good_def reset_agrees_def)
qed

text \<open>
  Clearing the errors of a port. The error register is only written while the port is held in
  reset and the errors are masked, and only with the value the user passed, which the device must
  still show; success means that it was written exactly once, that the mask was set and taken away
  again, and that the port is as disabled as before.
\<close>

theorem err_clear_under_reset:
  fixes s s' :: dev_sys
  assumes "afu_port_err_clear dev polls err s = (r, s')" and "separate_regs (dv_fdata s)"
    and "reset_agrees s" and "disable_count (dv_fdata s) \<noteq> -1"
  shows "\<exists>t. dv_hist s' = dv_hist s @ t \<and>
     all_writes (\<lambda>h v. v = err \<and> held_in_reset s h \<and> writes (err_reg (dv_fdata s) PORT_ERROR_MASK) h \<noteq> [] \<and>
                  last (writes (err_reg (dv_fdata s) PORT_ERROR_MASK) h) = -1)
       (err_reg (dv_fdata s) PORT_ERROR) (dv_hist s) t \<and>
     (r = None \<longrightarrow> writes (err_reg (dv_fdata s) PORT_ERROR) t = [err] \<and>
        writes (err_reg (dv_fdata s) PORT_ERROR_MASK) t = [-1, 0] \<and>
        disable_count (dv_fdata s') = disable_count (dv_fdata s))"
  using err_clear_trace [OF assms] unfolding shielded_def [abs_def] .

text \<open>
  A reset whose first half times out leaves the port counted as disabled. From then on every
  reset of the port reports success without touching the control register, and the identity of
  the accelerator stays unreadable.
\<close>

theorem reset_stuck_after_timeout:
  assumes "disable_count (dv_fdata s) = 0" and "afu_port_disable dev polls s = (Some e, s1)"
    and "dv_fdata s2 = dv_fdata s1"
  shows "port_reset_locked dev polls s = (Some e, s1) \<and> port_reset_locked dev' polls' s2 = (None, s2) \<and>
     afu_id_show dev' s2 = (Inl EBUSY, s2)"
proof (intro conjI)
  show "port_reset_locked dev polls s = (Some e, s1)" by (simp add: port_reset_locked_def assms(2))
  have c: "disable_count (dv_fdata s2) = 1" using assms(1,3) count_disable [OF assms(2)] by simp
  then have "afu_port_disable dev' polls' s2 = (None, s2\<lparr>dv_fdata := (dv_fdata s2)\<lparr>disable_count := 2\<rparr>\<rparr>)"
    by (simp add: afu_port_disable_def Let_def)
  moreover have "afu_port_enable dev' polls' (s2\<lparr>dv_fdata := (dv_fdata s2)\<lparr>disable_count := 2\<rparr>\<rparr>) =
      (None, s2\<lparr>dv_fdata := (dv_fdata s2)\<lparr>disable_count := 1\<rparr>\<rparr>)"
    by (simp add: afu_port_enable_def Let_def)
  ultimately show "port_reset_locked dev' polls' s2 = (None, s2)" using c
    by (cases s2; cases "dv_fdata s2") (simp add: port_reset_locked_def)
  show "afu_id_show dev' s2 = (Inl EBUSY, s2)" using c by (simp add: afu_id_show_def)
qed

section \<open>A port\<close>

text \<open>A port with its header at \<open>0x1000\<close> and its error feature at \<open>0x2000\<close>, and devices for it.\<close>

definition port_fd0 :: dfl_feature_dev_data where
  "port_fd0 = \<lparr>fd_dev = True, fd_type = PORT_ID, fd_pdev_id = 0, fd_id = 0, disable_count = 0, excl_open = False,
     open_count = 0, fd_num = 2,
     features = [feature_zero\<lparr>ft_id := 0xfe, ft_ioaddr := Some 0x1000\<rparr>, feature_zero\<lparr>ft_id := 0x10, ft_ioaddr := Some 0x2000\<rparr>],
     resources = []\<rparr>"

definition port_sys0 :: dev_sys where
  "port_sys0 = \<lparr>dv_fdata = port_fd0, dv_hist = []\<rparr>"

text \<open>The device keeps the port in reset until it is told otherwise.\<close>

definition port_dev0 :: device where
  "port_dev0 h a =
     (if a = 0x1038 then if writes a h = [] \<or> bit (last (writes a h)) 0 then 0x11 else 0
      else if a = 0x2010 then 5 else 0)"

definition port_sys1 :: dev_sys where
  "port_sys1 = snd (port_hdr_init port_dev0 3 port_sys0)"

lemma port0_regs: "hdr_reg port_fd0 x = 0x1000 + x" "err_reg port_fd0 x = 0x2000 + x"
  by (simp_all add: hdr_reg_def err_reg_def feature_base_def dfl_get_feature_ioaddr_by_id_def dfl_get_feature_by_id_def
      port_fd0_def feature_zero_def)

lemma port0_ok:
  "separate_regs port_fd0" "reads_back_reset port_dev0 (hdr_reg port_fd0 PORT_HDR_CTRL)" "resets_at_start port_dev0 port_fd0"
  "dv_fdata port_sys0 = port_fd0" "disable_count port_fd0 = 0"
proof -
  show "separate_regs port_fd0" by (simp add: separate_regs_def port0_regs)
  show "reads_back_reset port_dev0 (hdr_reg port_fd0 PORT_HDR_CTRL)"
    by (simp add: port0_regs reads_back_reset_def port_dev0_def)
  show "resets_at_start port_dev0 port_fd0"
    by (simp add: resets_at_start_def port_fd0_def port_dev0_def dfl_get_feature_ioaddr_by_id_def
        dfl_get_feature_by_id_def feature_zero_def dfh_revision_def field_get_def)
qed (simp_all add: port_sys0_def port_fd0_def)

lemma port1_ok: "reset_agrees port_sys1" "same_regs port_sys0 port_sys1"
  using hdr_init_agrees [of port_dev0 port_sys0 3] by (simp_all add: port_sys1_def port0_ok)

lemma port1_count: "disable_count (dv_fdata port_sys1) = 0"
  by code_simp

theorem port_reset_while_disabled_witness:
  "let s = snd (port_enable_set port_dev0 3 False port_sys1)
   in disable_count (dv_fdata s) = 1 \<and> held_in_reset s (dv_hist s) \<and> \<not> held_in_reset port_sys1 (dv_hist port_sys1)"
proof -
  let ?s = "snd (port_enable_set port_dev0 3 False port_sys1)"
  have "port_step port_dev0 3 port_sys1 ?s" by (rule port_step.Disable) (simp add: port1_count)
  then have reach: "port_reach port_dev0 3 port_sys1 ?s" by (rule port_reach.Step [OF port_reach.Start])
  obtain r where init: "port_hdr_init port_dev0 3 port_sys0 = (r, port_sys1)" by (metis port_sys1_def prod.collapse)
  have "held_in_reset s (dv_hist s) \<longleftrightarrow> disable_count (dv_fdata s) \<noteq> 0" if "port_reach port_dev0 3 port_sys1 s" for s
    by (rule port_reset_while_disabled [OF _ _ init that]) (simp_all add: port0_ok)
  note this [OF reach] this [OF port_reach.Start]
  moreover have "disable_count (dv_fdata ?s) = 1"
    using count_disable [of port_dev0 3 port_sys1 "fst (afu_port_disable port_dev0 3 port_sys1)" ?s]
    by (simp add: port_enable_set_def port1_count)
  ultimately show ?thesis using port1_count by (simp add: Let_def)
qed

lemma port1_clear: "fst (afu_port_err_clear port_dev0 3 5 port_sys1) = None"
  by code_simp

theorem err_clear_under_reset_witness:
  "\<exists>t. dv_hist (snd (afu_port_err_clear port_dev0 3 5 port_sys1)) = dv_hist port_sys1 @ t \<and>
     writes 0x2010 t = [5] \<and> writes 0x2008 t = [-1, 0]"
proof -
  obtain s' where run: "afu_port_err_clear port_dev0 3 5 port_sys1 = (None, s')"
    using port1_clear by (metis prod.collapse)
  have regs: "separate_regs (dv_fdata port_sys1)" "err_reg (dv_fdata port_sys1) x = 0x2000 + x" for x
    using port0_ok(1) by (simp_all add: separate_same [OF port1_ok(2)] same_regs_eq [OF port1_ok(2)] port0_ok(4) port0_regs)
  have "disable_count (dv_fdata port_sys1) \<noteq> -1" by (simp add: port1_count)
  from err_clear_under_reset [OF run regs(1) port1_ok(1) this] run show ?thesis by (auto simp: regs(2))
qed

definition port_dev1 :: device where
  "port_dev1 h a = 0"

theorem reset_stuck_after_timeout_witness:
  "let s = snd (port_reset_locked port_dev1 1 port_sys0)
   in fst (port_reset_locked port_dev1 1 port_sys0) = Some ETIMEDOUT \<and> port_reset_locked port_dev0 3 s = (None, s)"
proof -
  have c: "disable_count (dv_fdata port_sys0) = 0" by (simp add: port_sys0_def port_fd0_def)
  obtain r s1 where d: "afu_port_disable port_dev1 1 port_sys0 = (r, s1)" by fastforce
  then have "r = Some ETIMEDOUT"
    by (auto simp: afu_port_disable_def Let_def c rd_eq wr_eq wait_ack_def port_dev1_def readq_eq)
  with d have d: "afu_port_disable port_dev1 1 port_sys0 = (Some ETIMEDOUT, s1)" by simp
  from reset_stuck_after_timeout [OF c d refl, of port_dev0 3] show ?thesis by (simp add: Let_def)
qed

end
