(* ===== verification/Afu_Dma_Props.thy ===== *)
theory Afu_Dma_Props
  imports Afu_Dma
begin

unbundle bit_operations_syntax

text \<open>
  Properties of the DMA regions: what mapping and unmapping do to the locked pages, the pins and the
  mappings; when the search by address finds a region; and where the page counts and the unmap
  direction do not agree.
\<close>

section \<open>The search tree\<close>

text \<open>What the code relies on of the kernel's red-black trees: rebalancing keeps the order.\<close>

definition rb_ok :: "dma_env \<Rightarrow> bool" where
  "rb_ok env \<longleftrightarrow> (\<forall>t. inorder (rb_insert_color env t) = inorder t) \<and>
     (\<forall>t r. r \<in> set_tree t \<longrightarrow> inorder (rb_erase env r t) = remove1 r (inorder t))"

definition ordered :: "region_tree \<Rightarrow> bool" where
  "ordered t \<longleftrightarrow> sorted_wrt (<) (map r_iova (inorder t))"

lemma ordered_node:
  "ordered \<langle>l, x, r\<rangle> \<longleftrightarrow> ordered l \<and> ordered r \<and> (\<forall>y \<in> set_tree l. r_iova y < r_iova x) \<and>
     (\<forall>y \<in> set_tree r. r_iova x < r_iova y)"
  by (auto simp: ordered_def sorted_wrt_append) (meson order.strict_trans)

lemma link_inorder:
  assumes "dma_tree_link region t = Some t'" and "ordered t"
  shows "\<exists>xs ys. inorder t = xs @ ys \<and> inorder t' = xs @ region # ys" and "ordered t'"
proof -
  have "(\<exists>xs ys. inorder t = xs @ ys \<and> inorder t' = xs @ region # ys) \<and> ordered t' \<and>
      set_tree t' = insert region (set_tree t)"
    using assms
  proof (induction t arbitrary: t')
    case Leaf
    then show ?case by (auto simp: ordered_def)
  next
    case (Node l x r)
    consider (left) l' where "r_iova region < r_iova x" "dma_tree_link region l = Some l'" "t' = \<langle>l', x, r\<rangle>"
      | (right) r' where "r_iova region > r_iova x" "dma_tree_link region r = Some r'" "t' = \<langle>l, x, r'\<rangle>"
      using Node.prems(1) by (auto split: if_splits)
    then show ?case
    proof cases
      case left
      with Node.IH(1) [OF left(2)] Node.prems(2) obtain xs ys where
        "inorder l = xs @ ys" "inorder l' = xs @ region # ys" "ordered l'" "set_tree l' = insert region (set_tree l)"
        by (auto simp: ordered_node)
      moreover have "inorder \<langle>l, x, r\<rangle> = xs @ (ys @ x # inorder r) \<and> inorder t' = xs @ region # (ys @ x # inorder r)"
        using calculation(1,2) left(3) by simp
      moreover have "ordered t' \<and> set_tree t' = insert region (set_tree \<langle>l, x, r\<rangle>)"
        using left calculation(3,4) Node.prems(2) by (auto simp: ordered_node)
      ultimately show ?thesis by blast
    next
      case right
      with Node.IH(2) [OF right(2)] Node.prems(2) obtain xs ys where
        "inorder r = xs @ ys" "inorder r' = xs @ region # ys" "ordered r'" "set_tree r' = insert region (set_tree r)"
        by (auto simp: ordered_node)
      moreover have "inorder \<langle>l, x, r\<rangle> = (inorder l @ x # xs) @ ys \<and> inorder t' = (inorder l @ x # xs) @ region # ys"
        using calculation(1,2) right(3) by simp
      moreover have "ordered t' \<and> set_tree t' = insert region (set_tree \<langle>l, x, r\<rangle>)"
        using right calculation(3,4) Node.prems(2) by (auto simp: ordered_node)
      ultimately show ?thesis by blast
    qed
  qed
  then show "\<exists>xs ys. inorder t = xs @ ys \<and> inorder t' = xs @ region # ys" and "ordered t'" by blast+
qed

lemma find_sound:
  "dma_tree_find t iova sz = Some r \<Longrightarrow> r \<in> set_tree t \<and> dma_region_check_iova r iova sz"
  by (induction t) (auto split: if_splits)

text \<open>A region that starts at the address is found, unless it reaches the end of the address space.\<close>

lemma check_iova_exact:
  assumes "unat (r_iova r) + unat (r_length r) < 2 ^ 64"
  shows "dma_region_check_iova r iova 0 \<longleftrightarrow> r_iova r = iova"
proof -
  have "unat (r_length r + r_iova r) = unat (r_length r) + unat (r_iova r)"
    using assms by (subst unat_add_lem [THEN iffD1]) auto
  then have "unat (r_iova r) \<le> unat (r_length r + r_iova r)" by linarith
  then have "r_iova r \<le> r_length r + r_iova r" unfolding word_le_nat_alt .
  then show ?thesis
    unfolding dma_region_check_iova_def by (cases "r_iova r = iova") simp_all
qed

lemma find_iova_complete:
  assumes "ordered t" and "r \<in> set_tree t" and "\<forall>x \<in> set_tree t. unat (r_iova x) + unat (r_length x) < 2 ^ 64"
  shows "dma_tree_find t (r_iova r) 0 = Some r"
  using assms
proof (induction t)
  case (Node l x rt)
  have x: "dma_region_check_iova x (r_iova r) 0 \<longleftrightarrow> r_iova x = r_iova r"
    by (rule check_iova_exact) (use Node.prems(3) in simp)
  show ?case
  proof (cases "r = x")
    case False
    with Node.prems(1,2) consider "r \<in> set_tree l" "r_iova r < r_iova x" | "r \<in> set_tree rt" "r_iova x < r_iova r"
      by (auto simp: ordered_node)
    then show ?thesis
    proof cases
      case 1
      then have "r_iova x \<noteq> r_iova r" by auto
      with 1 Node.prems x Node.IH(1) show ?thesis by (simp add: ordered_node)
    next
      case 2
      then have "\<not> r_iova r < r_iova x" "r_iova x \<noteq> r_iova r" by auto
      with 2 Node.prems x Node.IH(2) show ?thesis by (simp add: ordered_node)
    qed
  qed (use x in simp)
qed simp


section \<open>Accounting\<close>

text \<open>Lengths whose number of pages fits an \<^verbatim>\<open>int\<close>.\<close>

definition small_len :: "u64 \<Rightarrow> bool" where
  "small_len len \<longleftrightarrow> unat len < 2 ^ 43"

lemma npages_small:
  assumes "small_len (r_length r)"
  shows "int_npages r = int (unat (r_length r) div 4096)" and "long_npages r = int (unat (r_length r) div 4096)"
proof -
  let ?p = "PFN_DOWN (r_length r)"
  have "unat ?p = drop_bit 12 (unat (r_length r))" using unsigned_less [of "r_length r", where 'a = nat]
    by (simp add: PFN_DOWN_def unsigned_drop_bit_eq take_bit_nat_eq_self)
  then have u: "unat ?p = unat (r_length r) div 4096" by (simp add: drop_bit_eq_div)
  then have b: "unat ?p < 2 ^ 31" using assms by (simp add: small_len_def)
  have uc: "unat (ucast ?p :: u32) = unat ?p" using b by (simp add: unsigned_ucast_eq take_bit_nat_eq_self)
  have s32: "sint x = int (unat x)" if "unat x < 2 ^ 31" for x :: u32
  proof -
    have "int (unat x) < int (2 ^ 31)" using that by (simp only: of_nat_less_iff)
    then have "uint x < 2 ^ 31" by simp
    moreover have "- (2 ^ 31) \<le> uint x" by (rule order_trans [of _ 0]) simp_all
    ultimately show ?thesis using signed_take_bit_int_eq_self [of 31 "uint x"] by (simp add: sint_uint)
  qed
  have s64: "sint x = int (unat x)" if "unat x < 2 ^ 63" for x :: u64
  proof -
    have "int (unat x) < int (2 ^ 63)" using that by (simp only: of_nat_less_iff)
    then have "uint x < 2 ^ 63" by simp
    moreover have "- (2 ^ 63) \<le> uint x" by (rule order_trans [of _ 0]) simp_all
    ultimately show ?thesis using signed_take_bit_int_eq_self [of 63 "uint x"] by (simp add: sint_uint)
  qed
  show "int_npages r = int (unat (r_length r) div 4096)"
    unfolding int_npages_def using s32 [of "ucast ?p"] uc b u by simp
  show "long_npages r = int (unat (r_length r) div 4096)"
    unfolding long_npages_def using s64 [of ?p] b u by simp
qed

text \<open>
  What the regions of the tree account for, beside what others hold: their pages are locked and
  pinned once each, and each has one mapping with its own address, length and direction.
\<close>

definition mapping_of :: "dfl_afu_dma_region \<Rightarrow> u64 \<times> u64 \<times> dma_data_direction" where
  "mapping_of r = (r_iova r, r_length r, r_direction r)"

definition dma_accounts :: "int \<Rightarrow> int \<Rightarrow> (u64 \<times> u64 \<times> dma_data_direction) multiset \<Rightarrow> dma_sys \<Rightarrow> bool" where
  "dma_accounts locked pins maps s \<longleftrightarrow>
     (let rs = inorder (dma_regions s)
      in locked_vm s = locked + sum_list (map long_npages rs) \<and> pinned s = pins + sum_list (map long_npages rs) \<and>
         mset (mappings s) = maps + mset (map mapping_of rs) \<and> ordered (dma_regions s))"

lemma pin_pages_err: "afu_dma_pin_pages env r s = (Inl e, s') \<Longrightarrow> s' = s"
  by (auto simp: afu_dma_pin_pages_def Let_def split: option.splits if_splits sum.splits)

lemma pin_pages_ok:
  assumes "afu_dma_pin_pages env r s = (Inr r', s')" and "small_len (r_length r)"
  shows "\<exists>pages. r' = r\<lparr>r_pages := pages\<rparr> \<and> int (length pages) = long_npages r \<and>
     s' = s\<lparr>locked_vm := locked_vm s + long_npages r, pinned := pinned s + long_npages r\<rparr>"
  using assms npages_small [OF assms(2)]
  by (auto simp: afu_dma_pin_pages_def Let_def split: option.splits if_splits sum.splits)

lemma unpin_pin:
  "afu_dma_unpin_pages (r\<lparr>r_pages := pages\<rparr>) (s\<lparr>locked_vm := locked_vm s + long_npages r, pinned := pinned s + long_npages r\<rparr>) = s"
  by (simp add: afu_dma_unpin_pages_def long_npages_def)

definition new_region :: "u64 \<Rightarrow> u64 \<Rightarrow> u32 \<Rightarrow> dfl_afu_dma_region" where
  "new_region user_addr len flags = \<lparr>r_user_addr = user_addr, r_length = len, r_iova = 0, r_pages = [], r_in_use = False,
     r_direction = dma_flag_to_dir flags\<rparr>"

text \<open>What happens once the pages are pinned and mapped.\<close>

lemma map_region_mapped:
  assumes "page_aligned user_addr" "page_aligned len" "len \<noteq> 0" "\<not> user_addr + len < user_addr" "kzalloc_ok env"
    and "afu_dma_pin_pages env (new_region user_addr len flags) s = (Inr r, s1)" and "afu_dma_check_continuous_pages r"
    and "dma_map_page env (r_pages r ! 0) (r_length r) (r_direction r) = Some iova"
  shows "afu_dma_map_region env user_addr len flags s =
     (let r = r\<lparr>r_iova := iova\<rparr>; s2 = s1\<lparr>mappings := (iova, r_length r, r_direction r) # mappings s1\<rparr>
      in case dma_tree_link r (dma_regions s1) of
           None \<Rightarrow> (Inl EEXIST, afu_dma_unpin_pages r (dma_unmap_page iova (r_length r) (r_direction r) s2))
         | Some t \<Rightarrow> (Inr iova, s2\<lparr>dma_regions := rb_insert_color env t\<rparr>))"
  using assms by (simp add: afu_dma_map_region_def new_region_def afu_dma_region_add_def Let_def split: option.split)

text \<open>The two outcomes of mapping: nothing at all, or one region more.\<close>

lemma map_region_cases:
  assumes "afu_dma_map_region env user_addr len flags s = (res, s')" and "small_len len"
  obtains (failed) e where "res = Inl e" "s' = s"
  | (mapped) iova pages r t where "res = Inr iova" "r = (new_region user_addr len flags)\<lparr>r_pages := pages, r_iova := iova\<rparr>"
      "page_aligned user_addr" "page_aligned len" "len \<noteq> 0" "dma_tree_link r (dma_regions s) = Some t"
      "s' = s\<lparr>dma_regions := rb_insert_color env t, locked_vm := locked_vm s + long_npages r,
              pinned := pinned s + long_npages r, mappings := (iova, len, r_direction r) # mappings s\<rparr>"
      "dma_map_page env (pages ! 0) len (r_direction r) = Some iova"
proof (cases "page_aligned user_addr \<and> page_aligned len \<and> len \<noteq> 0 \<and> \<not> user_addr + len < user_addr \<and> kzalloc_ok env")
  case False
  with assms(1) failed show thesis by (auto simp: afu_dma_map_region_def split: if_splits)
next
  case guards: True
  let ?r = "new_region user_addr len flags"
  obtain p s1 where pin: "afu_dma_pin_pages env ?r s = (p, s1)" by fastforce
  show thesis
  proof (cases p)
    case (Inl e)
    with pin_pages_err [of env ?r s e s1] pin guards assms(1) have "res = Inl e" "s' = s"
      by (auto simp: afu_dma_map_region_def new_region_def)
    with failed show thesis by blast
  next
    case (Inr r1)
    have "small_len (r_length ?r)" using assms(2) by (simp add: new_region_def)
    with pin_pages_ok [of env ?r s r1 s1] pin Inr obtain pages where r1: "r1 = ?r\<lparr>r_pages := pages\<rparr>"
      and s1: "s1 = s\<lparr>locked_vm := locked_vm s + long_npages ?r, pinned := pinned s + long_npages ?r\<rparr>" by auto
    have un: "afu_dma_unpin_pages r1 s1 = s" unfolding r1 s1 by (rule unpin_pin)
    have len: "r_length r1 = len" by (simp add: r1 new_region_def)
    show thesis
    proof (cases "afu_dma_check_continuous_pages r1 \<and> dma_map_page env (r_pages r1 ! 0) (r_length r1) (r_direction r1) \<noteq> None")
      case False
      with guards pin Inr un assms(1) failed show thesis by (auto simp: afu_dma_map_region_def new_region_def split: if_splits)
    next
      case True
      then obtain iova where iova: "dma_map_page env (r_pages r1 ! 0) (r_length r1) (r_direction r1) = Some iova" by auto
      let ?r2 = "r1\<lparr>r_iova := iova\<rparr>"
      have run: "afu_dma_map_region env user_addr len flags s = (res, s')" by (rule assms(1))
      have u2: "afu_dma_unpin_pages ?r2 (dma_unmap_page iova (r_length ?r2) (r_direction ?r2)
          (s1\<lparr>mappings := (iova, r_length ?r2, r_direction ?r2) # mappings s1\<rparr>)) = s"
        by (simp add: r1 s1 dma_unmap_page_def afu_dma_unpin_pages_def long_npages_def)
      note eq = map_region_mapped [of user_addr len env flags s r1 s1 iova, unfolded run Let_def u2]
      show thesis
      proof (cases "dma_tree_link ?r2 (dma_regions s1)")
        case None
        with eq guards pin Inr True iova failed show thesis by simp
      next
        case (Some t)
        have "long_npages ?r2 = long_npages ?r" by (simp add: r1 long_npages_def)
        with eq guards pin Inr True iova Some show thesis
          by (intro mapped [of iova ?r2 pages t]) (simp_all add: r1 s1 new_region_def)
      qed
    qed
  qed
qed

lemma region_added:
  assumes "rb_ok env" and "dma_accounts locked pins maps s" and "dma_tree_link r (dma_regions s) = Some t"
    and "s' = s\<lparr>dma_regions := rb_insert_color env t, locked_vm := locked_vm s + long_npages r,
              pinned := pinned s + long_npages r, mappings := (iova, len, r_direction r) # mappings s\<rparr>"
    and "r_iova r = iova" and "r_length r = len"
  obtains xs ys where "inorder (dma_regions s) = xs @ ys" and "inorder (dma_regions s') = xs @ r # ys"
    and "dma_accounts locked pins maps s'"
proof -
  have "ordered (dma_regions s)" using assms(2) by (simp add: dma_accounts_def Let_def)
  with assms(3) obtain xs ys where l: "inorder (dma_regions s) = xs @ ys" "inorder t = xs @ r # ys" "ordered t"
    using link_inorder by blast
  have ord: "inorder (rb_insert_color env t) = inorder t" using assms(1) by (simp add: rb_ok_def)
  have "dma_accounts locked pins maps s'"
    using assms(2,4,5,6) l ord by (simp add: dma_accounts_def Let_def ordered_def mapping_of_def)
  with l ord assms(4) show thesis by (intro that [of xs ys]) simp_all
qed

text \<open>
  C20. Mapping a region of user memory below 8 TB (\<open>small_len\<close>: its page count fits an \<^verbatim>\<open>int\<close>; for larger
  ones see \<open>page_count_truncated\<close> below). On failure, at
  whatever step, everything is as before: no page stays locked or pinned and no mapping is
  left. On success one region is added to the tree, starting at the returned address, page
  aligned, of the given length, and the accounts still balance.
\<close>

theorem map_region_transactional:
  assumes "rb_ok env" and "dma_accounts locked pins maps s" and "small_len len"
  shows "case afu_dma_map_region env user_addr len flags s of
     (Inl e, s') \<Rightarrow> s' = s
   | (Inr iova, s') \<Rightarrow> dma_accounts locked pins maps s' \<and> page_aligned user_addr \<and> page_aligned len \<and> len \<noteq> 0 \<and>
       (\<exists>r xs ys. inorder (dma_regions s) = xs @ ys \<and> inorder (dma_regions s') = xs @ r # ys \<and>
          r_iova r = iova \<and> r_length r = len \<and> r_user_addr r = user_addr \<and> r_direction r = dma_flag_to_dir flags \<and>
          \<not> r_in_use r)"
proof -
  obtain res s' where run: "afu_dma_map_region env user_addr len flags s = (res, s')" by fastforce
  from run assms(3) show ?thesis
  proof (cases rule: map_region_cases)
    case (failed e)
    with run show ?thesis by simp
  next
    case (mapped iova pages r t)
    from region_added [OF assms(1,2) mapped(6,7)] mapped(2) obtain xs ys where
      "inorder (dma_regions s) = xs @ ys" "inorder (dma_regions s') = xs @ r # ys" "dma_accounts locked pins maps s'"
      by (auto simp: new_region_def)
    moreover have "r_iova r = iova \<and> r_length r = len \<and> r_user_addr r = user_addr \<and>
        r_direction r = dma_flag_to_dir flags \<and> \<not> r_in_use r" by (simp add: mapped(2) new_region_def)
    ultimately show ?thesis unfolding run mapped(1) prod.case sum.case using mapped(3-5) by blast
  qed
qed

section \<open>Unmapping and lookups\<close>

lemma sum_list_remove1:
  fixes f :: "'a \<Rightarrow> int"
  shows "x \<in> set xs \<Longrightarrow> sum_list (map f (remove1 x xs)) = sum_list (map f xs) - f x"
  by (induction xs) auto

lemma sorted_remove1: "sorted_wrt (<) (map f xs) \<Longrightarrow> sorted_wrt (<) (map f (remove1 x xs))"
  by (induction xs) (auto dest: notin_set_remove1 in_set_remove1 [THEN iffD1, rotated] set_remove1_subset [THEN subsetD])

text \<open>
  Unmapping by address. When no region reaches the end of the address space, the address of a
  region finds that region; it is unmapped unless it is in use, and then exactly its page locks,
  its pins, its mapping and its place in the tree are given back.
\<close>

theorem unmap_region_exact:
  assumes "rb_ok env" and "dma_accounts locked pins maps s" and "r \<in> set_tree (dma_regions s)"
    and "\<forall>x \<in> set_tree (dma_regions s). unat (r_iova x) + unat (r_length x) < 2 ^ 64"
  shows "if r_in_use r then afu_dma_unmap_region env (r_iova r) s = (Some EBUSY, s)
     else \<exists>s'. afu_dma_unmap_region env (r_iova r) s = (None, s') \<and> dma_accounts locked pins maps s' \<and>
       inorder (dma_regions s') = remove1 r (inorder (dma_regions s)) \<and>
       locked_vm s' = locked_vm s - long_npages r \<and> pinned s' = pinned s - long_npages r"
proof -
  have ord: "ordered (dma_regions s)" using assms(2) by (simp add: dma_accounts_def Let_def)
  have f: "afu_dma_region_find_iova s (r_iova r) = Some r"
    using find_iova_complete [OF ord assms(3,4)] by (simp add: afu_dma_region_find_iova_def afu_dma_region_find_def)
  show ?thesis
  proof (cases "r_in_use r")
    case True
    with f show ?thesis by (simp add: afu_dma_unmap_region_def)
  next
    case False
    let ?t = "rb_erase env r (dma_regions s)"
    let ?s' = "s\<lparr>dma_regions := ?t, mappings := remove1 (mapping_of r) (mappings s), pinned := pinned s - long_npages r,
                 locked_vm := locked_vm s - long_npages r\<rparr>"
    have run: "afu_dma_unmap_region env (r_iova r) s = (None, ?s')"
      using f False by (simp add: afu_dma_unmap_region_def afu_dma_region_remove_def dma_unmap_page_def
          afu_dma_unpin_pages_def mapping_of_def Let_def)
    have i: "inorder ?t = remove1 r (inorder (dma_regions s))" using assms(1,3) by (simp add: rb_ok_def)
    have m: "r \<in> set (inorder (dma_regions s))" using assms(3) by simp
    have "mset (map mapping_of (remove1 r (inorder (dma_regions s)))) =
        mset (map mapping_of (inorder (dma_regions s))) - {#mapping_of r#}"
      using m by (simp add: image_mset_Diff)
    then have "mset (mappings s) - {#mapping_of r#} = maps + mset (map mapping_of (remove1 r (inorder (dma_regions s))))"
      using assms(2) m by (simp add: dma_accounts_def Let_def)
    then have "dma_accounts locked pins maps ?s'"
      using assms(2) i m ord by (simp add: dma_accounts_def Let_def sum_list_remove1 ordered_def sorted_remove1)
    with run i False show ?thesis by auto
  qed
qed

text \<open>Regions that do not overlap and do not reach the end of the address space.\<close>

definition no_overlap :: "region_tree \<Rightarrow> bool" where
  "no_overlap t \<longleftrightarrow> ordered t \<and> (\<forall>x \<in> set_tree t. unat (r_iova x) + unat (r_length x) < 2 ^ 64) \<and>
     (\<forall>x \<in> set_tree t. \<forall>y \<in> set_tree t. r_iova x < r_iova y \<longrightarrow> unat (r_iova x) + unat (r_length x) \<le> unat (r_iova y))"

lemma check_iova_contains:
  assumes "unat (r_iova r) + unat (r_length r) < 2 ^ 64" and "unat iova + unat sz < 2 ^ 64" and "0 < unat sz"
  shows "dma_region_check_iova r iova sz \<longleftrightarrow>
     unat (r_iova r) \<le> unat iova \<and> unat iova + unat sz \<le> unat (r_iova r) + unat (r_length r)"
proof -
  have a: "unat (r_length r + r_iova r) = unat (r_length r) + unat (r_iova r)"
    using assms(1) by (subst unat_add_lem [THEN iffD1]) auto
  have b: "unat (iova + sz) = unat iova + unat sz"
    using assms(2) by (subst unat_add_lem [THEN iffD1]) auto
  have "sz \<noteq> 0" using assms(3) by auto
  then have "dma_region_check_iova r iova sz \<longleftrightarrow> unat (r_iova r) \<le> unat iova \<and> unat (iova + sz) \<le> unat (r_length r + r_iova r)"
    by (simp add: dma_region_check_iova_def word_le_nat_alt)
  then show ?thesis unfolding a b by (simp only: add.commute)
qed

lemma no_overlap_node: "no_overlap \<langle>l, x, r\<rangle> \<Longrightarrow> no_overlap l \<and> no_overlap r"
  by (simp add: no_overlap_def ordered_node)

lemma find_range_complete:
  assumes "no_overlap t" and "r \<in> set_tree t" and "unat iova + unat sz < 2 ^ 64" and "0 < unat sz"
    and "unat (r_iova r) \<le> unat iova" and "unat iova + unat sz \<le> unat (r_iova r) + unat (r_length r)"
  shows "dma_tree_find t iova sz = Some r"
  using assms(1,2)
proof (induction t)
  case (Node lt x rt)
  have nx: "unat (r_iova x) + unat (r_length x) < 2 ^ 64" using Node.prems(1) by (simp add: no_overlap_def)
  note cx = check_iova_contains [OF nx assms(3,4)]
  show ?case
  proof (cases "r = x")
    case True
    with cx assms(5,6) show ?thesis by simp
  next
    case False
    then consider "r \<in> set_tree lt" | "r \<in> set_tree rt" using Node.prems(2) by auto
    then show ?thesis
    proof cases
      case 1
      then have "r_iova r < r_iova x" using Node.prems(1) by (simp add: no_overlap_def ordered_node)
      moreover have "unat (r_iova r) + unat (r_length r) \<le> unat (r_iova x)"
        using calculation 1 Node.prems(1) by (simp add: no_overlap_def)
      moreover have "\<not> dma_region_check_iova x iova sz" "iova < r_iova x"
        using cx calculation(2) assms(4-6) by (auto simp: word_less_nat_alt)
      ultimately show ?thesis using Node.IH(1) 1 no_overlap_node [OF Node.prems(1)] by simp
    next
      case 2
      then have "r_iova x < r_iova r" using Node.prems(1) by (simp add: no_overlap_def ordered_node)
      moreover have "unat (r_iova x) + unat (r_length x) \<le> unat (r_iova r)"
        using calculation 2 Node.prems(1) by (simp add: no_overlap_def)
      moreover have "\<not> dma_region_check_iova x iova sz" "r_iova x < iova" "\<not> iova < r_iova x"
        using cx calculation assms(4-6) by (auto simp: word_less_nat_alt)
      ultimately show ?thesis using Node.IH(2) 2 no_overlap_node [OF Node.prems(1)] by simp
    qed
  qed
qed simp

text \<open>
  Finding a region. While regions do not overlap, \<^verbatim>\<open>afu_dma_region_find\<close> returns, for a nonempty area
  that does not wrap, exactly the region that contains it, and nothing if there is none.
\<close>

theorem region_find_exact:
  assumes "no_overlap (dma_regions s)" and "unat iova + unat sz < 2 ^ 64" and "0 < unat sz"
  shows "afu_dma_region_find s iova sz = Some r \<longleftrightarrow>
     r \<in> set_tree (dma_regions s) \<and> unat (r_iova r) \<le> unat iova \<and>
     unat iova + unat sz \<le> unat (r_iova r) + unat (r_length r)"
proof
  assume "afu_dma_region_find s iova sz = Some r"
  then have f: "r \<in> set_tree (dma_regions s)" "dma_region_check_iova r iova sz"
    using find_sound by (auto simp: afu_dma_region_find_def)
  have "unat (r_iova r) + unat (r_length r) < 2 ^ 64" using f(1) assms(1) by (simp add: no_overlap_def)
  from check_iova_contains [OF this assms(2,3)] f
  show "r \<in> set_tree (dma_regions s) \<and> unat (r_iova r) \<le> unat iova \<and>
     unat iova + unat sz \<le> unat (r_iova r) + unat (r_length r)" by simp
qed (use find_range_complete [OF assms(1) _ assms(2,3)] in \<open>simp add: afu_dma_region_find_def\<close>)


section \<open>Witnesses\<close>

fun tree_of :: "'a list \<Rightarrow> 'a tree" where
  "tree_of [] = \<langle>\<rangle>"
| "tree_of (x # xs) = \<langle>\<langle>\<rangle>, x, tree_of xs\<rangle>"

lemma inorder_tree_of [simp]: "inorder (tree_of xs) = xs"
  by (induction xs) simp_all

text \<open>A machine without address translation that grants every request; pages follow each other.\<close>

definition dma_env0 :: dma_env where
  "dma_env0 = \<lparr>kzalloc_ok = True, account_locked_vm = \<lambda>_. None, kcalloc_ok = \<lambda>_. True,
     pin_user_pages_fast = \<lambda>addr n _. Inr (map (\<lambda>k. PFN_DOWN addr + of_nat k) [0..<nat n]),
     dma_map_page = \<lambda>pfn _ _. Some (pfn * 4096), rb_insert_color = \<lambda>t. t,
     rb_erase = \<lambda>r t. tree_of (remove1 r (inorder t))\<rparr>"

definition dma_sys0 :: dma_sys where
  "dma_sys0 = \<lparr>dma_regions = \<langle>\<rangle>, locked_vm = 0, pinned = 0, mappings = []\<rparr>"

lemma rb_ok0: "rb_ok dma_env0"
  by (simp add: rb_ok_def dma_env0_def)

lemma accounts0: "dma_accounts 0 0 {#} dma_sys0"
  by (simp add: dma_accounts_def dma_sys0_def ordered_def)

definition region0 :: dfl_afu_dma_region where
  "region0 = \<lparr>r_user_addr = 0x7000, r_length = 0x2000, r_iova = 0x7000, r_pages = [7, 8], r_in_use = False,
     r_direction = DMA_TO_DEVICE\<rparr>"

lemma map_region0:
  "afu_dma_map_region dma_env0 0x7000 0x2000 1 dma_sys0 =
     (Inr 0x7000, \<lparr>dma_regions = \<langle>\<langle>\<rangle>, region0, \<langle>\<rangle>\<rangle>, locked_vm = 2, pinned = 2,
        mappings = [(0x7000, 0x2000, DMA_TO_DEVICE)]\<rparr>)"
  by (simp add: afu_dma_map_region_def page_aligned_def afu_dma_pin_pages_def dma_env0_def dma_sys0_def int_npages_def
      PFN_DOWN_def dma_flag_to_dir_def afu_dma_check_continuous_pages_def afu_dma_region_add_def region0_def
      upt_rec)


theorem map_region_transactional_witness:
  "\<exists>s'. afu_dma_map_region dma_env0 0x7000 0x2000 1 dma_sys0 = (Inr 0x7000, s') \<and> dma_accounts 0 0 {#} s' \<and>
     (\<exists>r. inorder (dma_regions s') = [r] \<and> r_iova r = 0x7000)"
proof -
  have "small_len 0x2000" by (simp add: small_len_def)
  from map_region_transactional [OF rb_ok0 accounts0 this, of "0x7000" 1]
  have "dma_accounts 0 0 {#} (snd (afu_dma_map_region dma_env0 0x7000 0x2000 1 dma_sys0))"
    unfolding map_region0 by simp
  then show ?thesis unfolding map_region0 by (simp add: region0_def)
qed

theorem unmap_region_exact_witness:
  "\<exists>s'. afu_dma_unmap_region dma_env0 0x7000 (snd (afu_dma_map_region dma_env0 0x7000 0x2000 1 dma_sys0)) = (None, s') \<and>
     locked_vm s' = 0 \<and> pinned s' = 0 \<and> dma_accounts 0 0 {#} s'"
proof -
  let ?s = "\<lparr>dma_regions = \<langle>\<langle>\<rangle>, region0, \<langle>\<rangle>\<rangle>, locked_vm = 2, pinned = 2, mappings = [(0x7000, 0x2000, DMA_TO_DEVICE)]\<rparr>"
  have n: "long_npages region0 = 2" by (simp add: long_npages_def region0_def PFN_DOWN_def)
  have acc: "dma_accounts 0 0 {#} ?s"
    by (simp add: dma_accounts_def n ordered_def mapping_of_def) (simp add: region0_def)
  have l: "\<forall>x \<in> set_tree (dma_regions ?s). unat (r_iova x) + unat (r_length x) < 2 ^ 64"
    by (simp add: region0_def)
  have "region0 \<in> set_tree (dma_regions ?s)" by simp
  from unmap_region_exact [OF rb_ok0 acc this l] have "\<not> r_in_use region0 \<Longrightarrow>
    \<exists>s'. afu_dma_unmap_region dma_env0 (r_iova region0) ?s = (None, s') \<and> dma_accounts 0 0 {#} s' \<and>
       locked_vm s' = locked_vm ?s - long_npages region0 \<and> pinned s' = pinned ?s - long_npages region0" by auto
  moreover have "\<not> r_in_use region0" "r_iova region0 = 0x7000" by (simp_all add: region0_def)
  ultimately show ?thesis unfolding map_region0 by (auto simp: n)
qed

theorem region_find_exact_witness:
  "afu_dma_region_find (snd (afu_dma_map_region dma_env0 0x7000 0x2000 1 dma_sys0)) 0x7800 0x1000 = Some region0"
proof -
  have "no_overlap \<langle>\<langle>\<rangle>, region0, \<langle>\<rangle>\<rangle>" by (simp add: no_overlap_def ordered_def) (simp add: region0_def)
  then show ?thesis unfolding map_region0 snd_conv
    by (subst region_find_exact) (simp_all add: region0_def)
qed

section \<open>Where the counts and directions do not agree\<close>

text \<open>
  The page count of a region is cut to an \<^verbatim>\<open>int\<close> when its pages are pinned. Mapping 16 TB and one
  page pins and locks a single page, but the whole length is mapped for DMA and the region is
  accepted; giving it back unpins 4294967297 pages.
\<close>

theorem page_count_truncated:
  "\<exists>s'. afu_dma_map_region dma_env0 0x7000 0x100000001000 0 dma_sys0 = (Inr 0x7000, s') \<and>
     pinned s' = 1 \<and> locked_vm s' = 1 \<and> mappings s' = [(0x7000, 0x100000001000, DMA_BIDIRECTIONAL)] \<and>
     pinned (afu_dma_region_destroy s') = 1 - 4294967297"
  by (simp add: afu_dma_map_region_def page_aligned_def afu_dma_pin_pages_def dma_env0_def dma_sys0_def int_npages_def
      PFN_DOWN_def dma_flag_to_dir_def afu_dma_check_continuous_pages_def afu_dma_region_add_def upt_rec
      afu_dma_region_destroy_def dma_unmap_page_def afu_dma_unpin_pages_def long_npages_def)

text \<open>
  Destroying all regions unmaps each of them as bidirectional: a region that was mapped in one
  direction only keeps its mapping, while its pages are unpinned.
\<close>

theorem destroy_unmaps_bidirectional:
  "let s = afu_dma_region_destroy (snd (afu_dma_map_region dma_env0 0x7000 0x2000 1 dma_sys0))
   in pinned s = 0 \<and> dma_regions s = \<langle>\<rangle> \<and> mappings s = [(0x7000, 0x2000, DMA_TO_DEVICE)]"
  unfolding map_region0
  by (simp add: afu_dma_region_destroy_def dma_unmap_page_def afu_dma_unpin_pages_def long_npages_def PFN_DOWN_def region0_def)

text \<open>
  Regions may overlap (on a machine without address translation, when pages are mapped twice),
  because adding a region only looks for an older region that contains it. A lookup then misses
  a region that contains the area: the descent has passed it.
\<close>

theorem find_misses_overlapping_region:
  "let s1 = snd (afu_dma_map_region dma_env0 0x3000 0x1000 0 dma_sys0);
       s2 = snd (afu_dma_map_region dma_env0 0x1000 0x5000 0 s1)
   in (0x1000, 0x5000) \<in> (\<lambda>r. (r_iova r, r_length r)) ` set_tree (dma_regions s2) \<and>
      afu_dma_region_find s2 0x5000 0x100 = None"
  by (simp add: afu_dma_map_region_def page_aligned_def afu_dma_pin_pages_def dma_env0_def dma_sys0_def int_npages_def
      PFN_DOWN_def dma_flag_to_dir_def afu_dma_check_continuous_pages_def afu_dma_region_add_def upt_rec
      dma_region_check_iova_def afu_dma_region_find_def)

end
