(* ===== verification/Afu_Main_Props.thy ===== *)
theory Afu_Main_Props
  imports Afu_Main Afu_Port_Props Afu_Dma_Props
begin

unbundle bit_operations_syntax

text \<open>
  What the device file of an accelerator lets its users do: the registers they can map, the memory
  they can hand to the device, what is left when the last of them closes it, and what a failed
  probe leaves.
\<close>

section \<open>Mapping registers\<close>

lemma unat_PFN_PHYS_dvd: "4096 dvd unat (PFN_PHYS x)"
proof -
  have "take_bit 12 (unat (push_bit 12 x)) = unat (take_bit 12 (push_bit 12 x))" by (simp add: unsigned_take_bit_eq)
  also have "take_bit 12 (push_bit 12 x) = (0 :: u64)" by (rule bit_eqI) (auto simp: bit_simps)
  finally show ?thesis by (simp add: PFN_PHYS_def take_bit_eq_mod dvd_eq_mod_eq_0)
qed

lemma unat_PFN_DOWN: "unat (PFN_DOWN x) = unat x div 4096"
  by (simp add: PFN_DOWN_def drop_bit_eq_div unat_div)

lemma mmap_guards:
  assumes "afu_mmap vma afu = Inr (pfn, sz)"
  obtains region where "afu_mmio_region_get_by_offset afu (PFN_PHYS (vm_pgoff vma)) sz = Inr region"
    and "sz = vm_end vma - vm_start vma" and "vm_shared vma" and "rg_flags region AND 4 \<noteq> 0"
    and "vm_read vma \<longrightarrow> rg_flags region AND 1 \<noteq> 0" and "vm_write vma \<longrightarrow> rg_flags region AND 2 \<noteq> 0"
    and "pfn = PFN_DOWN (rg_phys region + (PFN_PHYS (vm_pgoff vma) - rg_offset region))"
  using assms by (auto simp: afu_mmap_def Let_def split: if_splits sum.splits)

text \<open>
  C29. Mapping the registers of an accelerator. What a user gets to see lies within the physical range of
  one region that may be mapped, and with no more than the accesses the region allows. The range
  of the request is nonempty and does not wrap, as the kernel makes sure before it calls the
  driver; regions start on page boundaries of physical memory and do not wrap either.
\<close>

theorem mmap_stays_in_region:
  assumes "afu_mmap vma afu = Inr (pfn, sz)" and "regions_inv afu"
    and "vm_start vma < vm_end vma" and "unat (PFN_PHYS (vm_pgoff vma)) + unat (vm_end vma - vm_start vma) < 2 ^ 64"
    and "\<forall>r \<in> set (regions afu). 4096 dvd unat (rg_phys r) \<and> unat (rg_phys r) + unat (rg_size r) < 2 ^ 64"
  shows "\<exists>r \<in> set (regions afu). rg_flags r AND 4 \<noteq> 0 \<and> vm_shared vma \<and>
     (vm_read vma \<longrightarrow> rg_flags r AND 1 \<noteq> 0) \<and> (vm_write vma \<longrightarrow> rg_flags r AND 2 \<noteq> 0) \<and>
     unat (rg_phys r) \<le> unat pfn * 4096 \<and> unat pfn * 4096 + unat sz \<le> unat (rg_phys r) + unat (rg_size r)"
proof -
  let ?o = "PFN_PHYS (vm_pgoff vma)"
  from assms(1) obtain r where r: "afu_mmio_region_get_by_offset afu ?o sz = Inr r" "sz = vm_end vma - vm_start vma"
    "vm_shared vma" "rg_flags r AND 4 \<noteq> 0" "vm_read vma \<longrightarrow> rg_flags r AND 1 \<noteq> 0" "vm_write vma \<longrightarrow> rg_flags r AND 2 \<noteq> 0"
    "pfn = PFN_DOWN (rg_phys r + (?o - rg_offset r))" by (rule mmap_guards)
  have "sz \<noteq> 0" using r(2) assms(3) by auto
  then have "0 < unat sz" by (simp add: unat_gt_0)
  moreover have "unat ?o + unat sz < 2 ^ 64" using assms(4) r(2) by simp
  ultimately have in_r: "r \<in> set (regions afu)" "unat (rg_offset r) \<le> unat ?o"
    "unat ?o + unat sz \<le> unat (rg_offset r) + unat (rg_size r)"
    using get_by_offset_exact [OF assms(2), of ?o sz r] r(1) by simp_all
  have phys: "4096 dvd unat (rg_phys r)" "unat (rg_phys r) + unat (rg_size r) < 2 ^ 64" using assms(5) in_r(1) by auto
  have "4096 dvd unat (rg_offset r)" using assms(2) in_r(1) before_member by (auto simp: regions_inv_def)
  then have d: "4096 dvd unat (rg_phys r) + (unat ?o - unat (rg_offset r))"
    using phys(1) unat_PFN_PHYS_dvd by (intro dvd_add dvd_diff_nat)
  have sub: "unat (?o - rg_offset r) = unat ?o - unat (rg_offset r)" using in_r(2) by (simp add: unat_sub word_le_nat_alt)
  have "unat (rg_phys r + (?o - rg_offset r)) = unat (rg_phys r) + (unat ?o - unat (rg_offset r))"
    using phys(2) in_r(3) sub by (subst unat_add_lem [THEN iffD1]) auto
  then have "unat pfn * 4096 = unat (rg_phys r) + (unat ?o - unat (rg_offset r))"
    using d by (simp add: r(7) unat_PFN_DOWN)
  with in_r r(3-6) show ?thesis by (intro bexI [of _ r]) auto
qed

section \<open>Memory for the device\<close>

lemma unmap_found:
  assumes "afu_dma_region_find_iova d iova = Some r" and "\<not> r_in_use r"
  shows "afu_dma_unmap_region env iova d = (None, d\<lparr>dma_regions := rb_erase env r (dma_regions d),
     mappings := remove1 (mapping_of r) (mappings d), pinned := pinned d - long_npages r, locked_vm := locked_vm d - long_npages r\<rparr>)"
  using assms by (simp add: afu_dma_unmap_region_def afu_dma_region_remove_def dma_unmap_page_def afu_dma_unpin_pages_def
      mapping_of_def Let_def)

definition same_dma :: "dma_sys \<Rightarrow> dma_sys \<Rightarrow> bool" where
  "same_dma d d' \<longleftrightarrow> inorder (dma_regions d') = inorder (dma_regions d) \<and> locked_vm d' = locked_vm d \<and>
     pinned d' = pinned d \<and> mappings d' = mappings d"

text \<open>Bus addresses end before the address space does.\<close>

definition no_wrap :: "dma_env \<Rightarrow> dma_sys \<Rightarrow> bool" where
  "no_wrap env d \<longleftrightarrow> (\<forall>x \<in> set_tree (dma_regions d). unat (r_iova x) + unat (r_length x) < 2 ^ 64) \<and>
     (\<forall>p len dir iova. dma_map_page env p len dir = Some iova \<longrightarrow> unat iova + unat len < 2 ^ 64)"

text \<open>A region that has just been mapped is the one its address finds, and unmapping it undoes everything.\<close>

lemma map_unmap_same:
  assumes "rb_ok env" and "dma_accounts locked pins maps d"
    and "\<forall>x \<in> set_tree (dma_regions d). unat (r_iova x) + unat (r_length x) < 2 ^ 64"
    and "dma_tree_link r (dma_regions d) = Some t" and "unat (r_iova r) + unat (r_length r) < 2 ^ 64" and "\<not> r_in_use r"
    and "d1 = d\<lparr>dma_regions := rb_insert_color env t, locked_vm := locked_vm d + long_npages r,
              pinned := pinned d + long_npages r, mappings := (r_iova r, r_length r, r_direction r) # mappings d\<rparr>"
  shows "same_dma d (snd (afu_dma_unmap_region env (r_iova r) d1))"
proof -
  from region_added [OF assms(1,2,4,7) refl refl] obtain xs ys where l: "inorder (dma_regions d) = xs @ ys"
    "inorder (dma_regions d1) = xs @ r # ys" "dma_accounts locked pins maps d1" .
  have set1: "set_tree (dma_regions d1) = insert r (set_tree (dma_regions d))"
    using l(1,2) by (metis Un_insert_right list.simps(15) set_append set_inorder)
  have "ordered (dma_regions d1)" using l(3) by (simp add: dma_accounts_def Let_def)
  moreover have "r \<in> set_tree (dma_regions d1)" using set1 by simp
  moreover have "\<forall>x \<in> set_tree (dma_regions d1). unat (r_iova x) + unat (r_length x) < 2 ^ 64"
    using set1 assms(3,5) by simp
  ultimately have "dma_tree_find (dma_regions d1) (r_iova r) 0 = Some r" by (rule find_iova_complete)
  then have f: "afu_dma_region_find_iova d1 (r_iova r) = Some r"
    by (simp add: afu_dma_region_find_iova_def afu_dma_region_find_def)
  have "inorder (rb_erase env r (dma_regions d1)) = remove1 r (inorder (dma_regions d1))"
    using assms(1) set1 by (simp add: rb_ok_def)
  moreover have "r \<notin> set xs"
    using \<open>ordered (dma_regions d1)\<close> l(2) by (auto simp: ordered_def sorted_wrt_append)
  ultimately have "inorder (rb_erase env r (dma_regions d1)) = xs @ ys" using l(2) by (simp add: remove1_append)
  with l(1) show ?thesis unfolding unmap_found [OF f assms(6)]
    by (simp add: same_dma_def mapping_of_def assms(7))
qed

text \<open>
  The ioctl that maps user memory is all or nothing up to the last step: when the address cannot be
  copied back to the user, the mapping that has just been made is taken down, and the regions,
  the page locks, the pins and the mappings are the ones from before. On success the user has the
  address of a region of the length asked for.
\<close>

theorem dma_map_ioctl_transactional:
  assumes "rb_ok env" and "dma_accounts locked pins maps d" and "no_wrap env d" and "small_len (dm_length um)"
    and "afu_ioctl_dma_map env (Some um) wr_ok d = ((r, out), d')"
  shows "case r of
     Some e \<Rightarrow> out = User_none \<and> same_dma d d'
   | None \<Rightarrow> wr_ok \<and> dma_accounts locked pins maps d' \<and>
       (\<exists>x xs ys. out = User_map (um\<lparr>dm_iova := r_iova x\<rparr>) \<and> r_length x = dm_length um \<and> r_user_addr x = dm_user_addr um \<and>
          inorder (dma_regions d) = xs @ ys \<and> inorder (dma_regions d') = xs @ x # ys)"
proof -
  have same: "same_dma d d" by (simp add: same_dma_def)
  obtain res d1 where run: "afu_dma_map_region env (dm_user_addr um) (dm_length um) (dm_flags um) d = (res, d1)" by fastforce
  show ?thesis
  proof (cases "dm_argsz um < 32 \<or> dm_flags um AND NOT 3 \<noteq> 0")
    case True
    with assms(5) same show ?thesis by (auto simp: afu_ioctl_dma_map_def)
  next
    case False
    from run assms(4) show ?thesis
    proof (cases rule: map_region_cases)
      case (failed e)
      with False run assms(5) same show ?thesis by (auto simp: afu_ioctl_dma_map_def)
    next
      case (mapped iova pages x t)
      have x: "r_iova x = iova" "r_length x = dm_length um" "r_user_addr x = dm_user_addr um" "\<not> r_in_use x"
        by (simp_all add: mapped(2) new_region_def)
      have d1: "d1 = d\<lparr>dma_regions := rb_insert_color env t, locked_vm := locked_vm d + long_npages x,
          pinned := pinned d + long_npages x, mappings := (r_iova x, r_length x, r_direction x) # mappings d\<rparr>"
        using mapped(7) x by simp
      show ?thesis
      proof (cases wr_ok)
        case True
        from region_added [OF assms(1,2) mapped(6) d1 refl refl] obtain xs ys where l:
          "inorder (dma_regions d) = xs @ ys" "inorder (dma_regions d1) = xs @ x # ys" "dma_accounts locked pins maps d1" .
        have "r = None" "out = User_map (um\<lparr>dm_iova := iova\<rparr>)" "d' = d1"
          using False True run assms(5) mapped(1) by (auto simp: afu_ioctl_dma_map_def)
        with True l x show ?thesis by auto
      next
        case refused: False
        have w: "unat (r_iova x) + unat (r_length x) < 2 ^ 64"
          using assms(3) mapped(8) x(1,2) by (simp add: no_wrap_def)
        have "same_dma d (snd (afu_dma_unmap_region env (r_iova x) d1))"
          by (rule map_unmap_same [OF assms(1,2) _ mapped(6) w x(4) d1]) (use assms(3) in \<open>simp add: no_wrap_def\<close>)
        moreover have "r = Some EFAULT" "out = User_none" "d' = snd (afu_dma_unmap_region env (r_iova x) d1)"
          using False refused run assms(5) mapped(1) x(1) by (auto simp: afu_ioctl_dma_map_def)
        ultimately show ?thesis by simp
      qed
    qed
  qed
qed

section \<open>Closing the device file\<close>

lemma destroy_gives_back:
  "locked_vm (dma_destroy_list rs d) = locked_vm d - sum_list (map long_npages rs) \<and>
   pinned (dma_destroy_list rs d) = pinned d - sum_list (map long_npages rs)"
  by (induction rs arbitrary: d) (simp_all add: afu_dma_unpin_pages_def dma_unmap_page_def Let_def)

lemma destroy_accounts:
  assumes "dma_accounts locked pins maps d"
  shows "dma_regions (afu_dma_region_destroy d) = \<langle>\<rangle>" and "locked_vm (afu_dma_region_destroy d) = locked"
    and "pinned (afu_dma_region_destroy d) = pins"
  using assms destroy_gives_back [of "inorder (dma_regions d)" d]
  by (simp_all add: afu_dma_region_destroy_def dma_accounts_def Let_def)

text \<open>Operations on the port leave the rest of the state alone.\<close>

definition rest_same :: "afu_sys \<Rightarrow> afu_sys \<Rightarrow> bool" where
  "rest_same s s' \<longleftrightarrow> (\<exists>c h. s' = s\<lparr>dv_fdata := (dv_fdata s)\<lparr>disable_count := c\<rparr>, dv_hist := h\<rparr>)"

lemma rest_sameI: "s' = s\<lparr>dv_fdata := (dv_fdata s)\<lparr>disable_count := c\<rparr>, dv_hist := h\<rparr> \<Longrightarrow> rest_same s s'"
  by (auto simp: rest_same_def)

lemma rest_same_trans:
  assumes "rest_same s s'" and "rest_same s' s''"
  shows "rest_same s s''"
proof -
  from assms obtain c h c' h' where "s' = s\<lparr>dv_fdata := (dv_fdata s)\<lparr>disable_count := c\<rparr>, dv_hist := h\<rparr>"
    "s'' = s'\<lparr>dv_fdata := (dv_fdata s')\<lparr>disable_count := c'\<rparr>, dv_hist := h'\<rparr>" by (auto simp: rest_same_def)
  then show ?thesis by (intro rest_sameI [where c = c' and h = h']) simp
qed

lemma rest_same_rev: "rest_same s (snd (get_port_rev dev s))"
proof -
  obtain rv s1 where g: "get_port_rev dev s = (rv, s1)" by fastforce
  from get_port_rev_reads [OF g] obtain t where "s1 = s\<lparr>dv_hist := dv_hist s @ t\<rparr>" by blast
  with g show ?thesis by (intro rest_sameI [where c = "disable_count (dv_fdata s)" and h = "dv_hist s @ t"]) simp
qed

lemma rest_same_reset: "rest_same s (snd (port_reset_locked dev polls s))"
proof -
  obtain r1 s1 where d: "afu_port_disable dev polls s = (r1, s1)" by fastforce
  obtain r2 s2 where e: "afu_port_enable dev polls s1 = (r2, s2)" by fastforce
  have "rest_same s s1" by (rule disable_cases [OF d]) (auto intro: rest_sameI)
  moreover have "rest_same s1 s2" by (rule enable_cases [OF e]) (auto intro: rest_sameI)
  ultimately show ?thesis using rest_same_trans d e by (cases r1) (auto simp: port_reset_locked_def)
qed

text \<open>
  C28. When the last user of an accelerator closes its device file, everything the users were given
  comes back, whatever state the port is in: no interrupt has a trigger or a handler any more,
  every reference to an event file is dropped, no DMA region is left, and all page locks and pins
  are undone. Somebody else having it open, nothing but the use count changes.
\<close>

theorem release_gives_back:
  assumes "dev_irq_accounts others s" and "dma_accounts locked pins maps (as_dma s)" and "0 < open_count (dv_fdata s)"
  shows "if open_count (dv_fdata s) = 1 then
       open_count (dv_fdata (afu_release env s)) = 0 \<and> \<not> excl_open (dv_fdata (afu_release env s)) \<and>
       (\<forall>i < length (irqs_of s). dv_handlers (afu_release env s) i = [] \<and>
          bound (ft_irq_ctx (irqs_of (afu_release env s) ! i)) = []) \<and>
       dv_refs (afu_release env s) = others \<and> dma_regions (as_dma (afu_release env s)) = \<langle>\<rangle> \<and>
       locked_vm (as_dma (afu_release env s)) = locked \<and> pinned (as_dma (afu_release env s)) = pins
     else afu_release env s =
       s\<lparr>dv_fdata := (dv_fdata s)\<lparr>excl_open := False, open_count := open_count (dv_fdata s) - 1\<rparr>\<rparr>"
proof (cases "open_count (dv_fdata s) = 1")
  case False
  with assms(3) show ?thesis
    by (simp add: afu_release_def dfl_feature_dev_use_end_def dfl_feature_dev_use_count_def Let_def)
next
  case True
  let ?s0 = "s\<lparr>dv_fdata := (dv_fdata s)\<lparr>excl_open := False, open_count := 0\<rparr>\<rparr>"
  have s0: "s\<lparr>dv_fdata := dfl_feature_dev_use_end (dv_fdata s)\<rparr> = ?s0" "dfl_feature_dev_use_count (dv_fdata ?s0) = 0"
    using True by (simp_all add: dfl_feature_dev_use_end_def dfl_feature_dev_use_count_def Let_def)
  have irqs: "irqs_of ?s0 = irqs_of s" "dv_handlers ?s0 = dv_handlers s" by (simp_all add: irqs_of_def)
  obtain fs hs where rel: "release_triggers (ae_irq env) 0 (length (irqs_of s)) ?s0 =
       ?s0\<lparr>dv_fdata := (dv_fdata ?s0)\<lparr>features := fs\<rparr>, dv_handlers := hs, dv_refs := others\<rparr>"
     "\<forall>j < length (irqs_of s). hs j = [] \<and> bound (ft_irq_ctx (fs ! j)) = []"
    using release_triggers_clears [of 0 "length (irqs_of s)" ?s0 others "ae_irq env"] assms(1)
    by (auto simp: irqs dev_irq_accounts_def)
  let ?s1 = "?s0\<lparr>dv_fdata := (dv_fdata ?s0)\<lparr>features := fs\<rparr>, dv_handlers := hs, dv_refs := others\<rparr>"
  obtain rv s2 where g: "get_port_rev (ae_dev env) ?s1 = (rv, s2)" by fastforce
  let ?s3 = "if rv < 2 then snd (port_reset_locked (ae_dev env) (ae_polls env) s2) else s2"
  have "rest_same ?s1 s2" using rest_same_rev [of ?s1 "ae_dev env"] g by simp
  then have "rest_same ?s1 ?s3" using rest_same_trans [OF _ rest_same_reset] by simp
  then obtain c h where s3: "?s3 = ?s1\<lparr>dv_fdata := (dv_fdata ?s1)\<lparr>disable_count := c\<rparr>, dv_hist := h\<rparr>"
    unfolding rest_same_def by blast
  have "afu_release env s = ?s3\<lparr>as_dma := afu_dma_region_destroy (as_dma ?s3)\<rparr>"
    unfolding afu_release_def Let_def s0(1) using s0(2) rel(1) g by (simp add: irqs_of_def)
  then have run: "afu_release env s = ?s1\<lparr>dv_fdata := (dv_fdata ?s1)\<lparr>disable_count := c\<rparr>, dv_hist := h,
      as_dma := afu_dma_region_destroy (as_dma s)\<rparr>" unfolding s3 by simp
  show ?thesis unfolding if_P [OF True] run using rel(2) destroy_accounts [OF assms(2)] by (simp add: irqs_of_def)
qed

section \<open>Probing\<close>

text \<open>No sub feature driver touches the device file or the private pointer.\<close>

lemma rest_same_kept: "rest_same s s' \<Longrightarrow> as_cdev s' = as_cdev s \<and> as_private s' = as_private s"
  by (auto simp: rest_same_def)

lemma rest_same_rd: "rest_same s (snd (rd dev a s))"
  by (rule rest_sameI [where c = "disable_count (dv_fdata s)"]) (simp add: rd_eq)

lemma rest_same_wr: "rest_same s (wr v a s)"
  by (rule rest_sameI [where c = "disable_count (dv_fdata s)"]) (simp add: wr_eq)

lemma rest_same_port_reset: "rest_same s (snd (port_reset dev polls s))"
proof -
  obtain rv s1 where g: "get_port_rev dev s = (rv, s1)" by fastforce
  with rest_same_rev [of s dev] have "rest_same s s1" by simp
  with rest_same_trans [OF this rest_same_reset] g show ?thesis by (simp add: port_reset_def)
qed

lemma rest_same_hdr_init: "rest_same s (snd (port_hdr_init dev polls s))"
proof -
  let ?s1 = "snd (rd dev (feature_base (dv_fdata s) PORT_FEATURE_ID_HEADER) s)"
  have "rest_same s ?s1" by (rule rest_same_rd)
  with rest_same_trans [OF this rest_same_port_reset] show ?thesis
    by (simp add: port_hdr_init_def case_prod_beta Let_def)
qed

lemma add_feature_region_kept:
  "as_cdev (snd (add_feature_region env index f s)) = as_cdev s \<and>
   as_private (snd (add_feature_region env index f s)) = as_private s"
  by (simp add: add_feature_region_def split: prod.split)

lemma port_ops_keep: "ops_keep (\<lambda>s. as_cdev s = c \<and> as_private s = p) (port_feature_ops env)"
proof -
  have "as_cdev (with_features fs s) = as_cdev s \<and> as_private (with_features fs s) = as_private s" for fs s
    by (simp add: with_features_def)
  then show ?thesis
    using rest_same_kept [OF rest_same_hdr_init] rest_same_kept [OF rest_same_wr] add_feature_region_kept
    by (auto simp: ops_keep_def port_feature_ops_def port_err_init_def port_err_uinit_def afu_port_err_mask_def
        port_afu_init_def port_stp_init_def split: if_splits)
qed

lemma feature_uinit_after:
  assumes "s' = afu_feature_uinit env s"
  shows "as_cdev s' = as_cdev s" and "f \<in> set (irqs_of s') \<Longrightarrow> ft_ops f = None \<and> ft_ddev f = None"
proof -
  obtain fs s1 where u: "dfl_fpga_dev_feature_uinit (port_feature_ops env) (features (dv_fdata s), s) = (fs, s1)" by fastforce
  with assms have s': "s' = with_features fs s1" by (simp add: afu_feature_uinit_def)
  show "as_cdev s' = as_cdev s"
    using feature_uinit_keeps [OF u port_ops_keep, of "as_cdev s" "as_private s"] s' by (simp add: with_features_def)
  show "f \<in> set (irqs_of s') \<Longrightarrow> ft_ops f = None \<and> ft_ddev f = None"
    using feature_uinit_unbound [OF u] s' by (simp add: with_features_def irqs_of_def)
qed

lemma dev_destroy_after:
  "as_cdev (afu_dev_destroy s) = as_cdev s" "\<not> as_private (afu_dev_destroy s)" "irqs_of (afu_dev_destroy s) = irqs_of s"
  "dma_regions (as_dma (afu_dev_destroy s)) = \<langle>\<rangle>"
  by (simp_all add: afu_dev_destroy_def irqs_of_def afu_dma_region_destroy_def)

text \<open>
  Probing an accelerator is all or nothing. On success its device file is there, it has its private
  data, and every sub feature is mapped or exposed as a dfl device. On failure, at whatever step,
  no device file appears, the private data is gone, no driver operations stay bound, and neither
  dfl devices nor DMA regions are left.
\<close>

theorem probe_all_or_nothing:
  assumes "\<not> as_cdev s" and "\<not> as_private s" and "dma_regions (as_dma s) = \<langle>\<rangle>"
    and "\<forall>f \<in> set (irqs_of s). ft_ops f = None \<and> ft_ddev f = None"
    and "afu_probe env s = (r, s')"
  shows "(as_cdev s' \<longleftrightarrow> r = None) \<and> (as_private s' \<longleftrightarrow> r = None) \<and>
     (\<forall>f \<in> set (irqs_of s'). if r = None then ft_ioaddr f \<noteq> None \<or> ft_ddev f \<noteq> None
                             else ft_ops f = None \<and> ft_ddev f = None) \<and>
     (r \<noteq> None \<longrightarrow> dma_regions (as_dma s') = \<langle>\<rangle>)"
proof (cases "ae_kzalloc env")
  case False
  with assms show ?thesis by (auto simp: afu_probe_def afu_dev_init_def)
next
  case True
  obtain s1 where i: "afu_dev_init env s = (None, s1)" "as_cdev s1 = as_cdev s" "as_private s1"
    using True by (auto simp: afu_dev_init_def)
  obtain r2 fs s2 where f: "dfl_fpga_dev_feature_init (ae_ioremap env) (ae_dfl_dev_add env) (port_feature_ops env)
      port_feature_drvs (features (dv_fdata s1), s1) = (r2, (fs, s2))" by (metis prod_cases3)
  note fc = feature_init_cases [OF f port_ops_keep [of "False" True], simplified]
  have kept: "\<not> as_cdev s2" "as_private s2" using fc(1) i assms(1) by simp_all
  have w: "irqs_of (with_features fs s2) = fs" "as_cdev (with_features fs s2) = as_cdev s2"
    "as_private (with_features fs s2) = as_private s2" by (simp_all add: with_features_def irqs_of_def)
  show ?thesis
  proof (cases "r2 = None")
    case False
    then have "r = r2" "s' = afu_dev_destroy (with_features fs s2)" using assms(5) i(1) f by (auto simp: afu_probe_def)
    with False kept fc(2) i assms(1) show ?thesis by (auto simp: dev_destroy_after w)
  next
    case ok: True
    show ?thesis
    proof (cases "ae_cdev_add env")
      case None
      then have "r = None" "s' = (with_features fs s2)\<lparr>as_cdev := True\<rparr>"
        using assms(5) i(1) f ok by (auto simp: afu_probe_def Let_def)
      with ok kept fc(3) i assms(1) show ?thesis by (auto simp: w irqs_of_def with_features_def)
    next
      case (Some e)
      then have "r = Some e" "s' = afu_dev_destroy (afu_feature_uinit env (with_features fs s2))"
        using assms(5) i(1) f ok by (auto simp: afu_probe_def Let_def)
      with kept feature_uinit_after [OF refl, where env = env and s = "with_features fs s2"] show ?thesis by (simp add: dev_destroy_after w)
    qed
  qed
qed

section \<open>An accelerator\<close>

text \<open>
  A port with a header and an error feature that has two interrupts, one of them bound, and one
  region of memory mapped for DMA.
\<close>

definition afu_fd0 :: dfl_feature_dev_data where
  "afu_fd0 = port_fd0\<lparr>open_count := 1, features :=
     [feature_zero\<lparr>ft_id := 0xfe, ft_ioaddr := Some 0x1000\<rparr>,
      feature_zero\<lparr>ft_id := 0x10, ft_ioaddr := Some 0x2000, ft_nr_irqs := 2,
        ft_irq_ctx := [\<lparr>ctx_irq = 30, ctx_trigger = None\<rparr>, \<lparr>ctx_irq = 31, ctx_trigger = Some 5\<rparr>]\<rparr>]\<rparr>"

definition dma_sys1 :: dma_sys where
  "dma_sys1 = \<lparr>dma_regions = \<langle>\<langle>\<rangle>, region0, \<langle>\<rangle>\<rangle>, locked_vm = 2, pinned = 2, mappings = [(0x7000, 0x2000, DMA_TO_DEVICE)]\<rparr>"

lemma accounts1: "dma_accounts 0 0 {#} dma_sys1"
proof -
  have n: "long_npages region0 = 2" by (simp add: long_npages_def region0_def PFN_DOWN_def)
  show ?thesis by (simp add: dma_accounts_def n ordered_def mapping_of_def dma_sys1_def) (simp add: region0_def)
qed

definition dma_env1 :: dma_env where
  "dma_env1 = dma_env0\<lparr>dma_map_page := \<lambda>pfn len _.
     if unat (pfn * 4096) + unat len < 2 ^ 64 then Some (pfn * 4096) else None\<rparr>"

definition afu_env0 :: afu_env where
  "afu_env0 = \<lparr>ae_dev = port_dev0, ae_polls = 3, ae_irq = irq_env0, ae_dma = dma_env1, ae_kzalloc = True,
     ae_region_alloc = \<lambda>_. True, ae_ioremap = \<lambda>_. Inr 0x9000, ae_dfl_dev_add = \<lambda>_. Inr 1, ae_cdev_add = Some EBUSY\<rparr>"

definition afu_sys0 :: afu_sys where
  "afu_sys0 = \<lparr>dv_fdata = afu_fd0, dv_hist = [], dv_handlers = (\<lambda>_. [])(1 := [(31, 5)]), dv_refs = (\<lambda>_. 0)(5 := 1),
     as_private = False, as_afu = afu0, as_dma = dma_sys1, as_cdev = False\<rparr>"

theorem mmap_stays_in_region_witness:
  "\<exists>pfn. afu_mmap \<lparr>vm_start = 0x10000, vm_end = 0x11000, vm_pgoff = 2, vm_shared = True, vm_read = True, vm_write = True\<rparr>
       (snd (mmio.add_all [(0, True, 0x1800, 0x80000, 7), (1, True, 0x1000, 0x90000, 7)] afu0)) = Inr (pfn, 0x1000) \<and>
     unat pfn * 4096 = 0x90000"
proof -
  let ?afu = "\<lparr>region_cur_offset = 0x3000, num_regions = 2, num_umsgs = 0, regions =
        [\<lparr>rg_index = 1, rg_flags = 7, rg_size = 0x1000, rg_offset = 0x2000, rg_phys = 0x90000\<rparr>,
         \<lparr>rg_index = 0, rg_flags = 7, rg_size = 0x1800, rg_offset = 0, rg_phys = 0x80000\<rparr>]\<rparr>"
  let ?vma = "\<lparr>vm_start = 0x10000, vm_end = 0x11000, vm_pgoff = 2, vm_shared = True, vm_read = True, vm_write = True\<rparr>"
  have e: "snd (mmio.add_all [(0, True, 0x1800, 0x80000, 7), (1, True, 0x1000, 0x90000, 7)] afu0) = ?afu"
    by (simp add: region_store_add_def afu_mmio_region_add_def get_region_by_index_def afu0_def page_align_def)
  have run: "afu_mmap ?vma ?afu = Inr (0x90, 0x1000)"
    by (simp add: afu_mmap_def Let_def PFN_PHYS_def PFN_DOWN_def afu_mmio_region_get_by_offset_def region_covers_def)
  have inv: "regions_inv ?afu" by (simp add: regions_inv_def)
  have "4096 dvd unat (0x90000 :: u64)" "4096 dvd unat (0x80000 :: u64)" by simp_all
  then have "\<exists>r \<in> set (regions ?afu). unat (rg_phys r) \<le> unat (0x90 :: u64) * 4096"
    using mmap_stays_in_region [OF run inv] by (simp add: PFN_PHYS_def)
  then show ?thesis unfolding e run by simp
qed

theorem dma_map_ioctl_transactional_witness:
  "\<exists>d'. afu_ioctl_dma_map dma_env1 (Some \<lparr>dm_argsz = 32, dm_flags = 1, dm_user_addr = 0x5000, dm_length = 0x1000, dm_iova = 0\<rparr>)
       False dma_sys1 = ((Some EFAULT, User_none), d') \<and> same_dma dma_sys1 d'"
proof -
  let ?um = "\<lparr>dm_argsz = 32, dm_flags = 1, dm_user_addr = 0x5000, dm_length = 0x1000, dm_iova = 0\<rparr> :: dfl_fpga_port_dma_map"
  have ok: "rb_ok dma_env1" using rb_ok0 by (simp add: rb_ok_def dma_env1_def)
  have nw: "no_wrap dma_env1 dma_sys1"
    by (auto simp: no_wrap_def dma_env1_def dma_sys1_def region0_def split: if_splits)
  have small: "small_len (dm_length ?um)" by (simp add: small_len_def)
  obtain r out d' where run: "afu_ioctl_dma_map dma_env1 (Some ?um) False dma_sys1 = ((r, out), d')" by (metis surj_pair)
  from dma_map_ioctl_transactional [OF ok accounts1 nw small run] obtain e where e: "r = Some e" "out = User_none" "same_dma dma_sys1 d'"
    by (cases r) auto
  have "fst (fst (afu_ioctl_dma_map dma_env1 (Some ?um) False dma_sys1)) = Some EFAULT"
    by (simp add: afu_ioctl_dma_map_def afu_dma_map_region_def page_aligned_def afu_dma_pin_pages_def dma_env1_def dma_env0_def
        dma_sys1_def int_npages_def PFN_DOWN_def dma_flag_to_dir_def afu_dma_check_continuous_pages_def
        afu_dma_region_add_def region0_def dma_region_check_iova_def upt_rec)
  with run e show ?thesis by simp
qed

theorem release_gives_back_witness:
  "dv_refs (afu_release afu_env0 afu_sys0) 5 = 0 \<and> pinned (as_dma (afu_release afu_env0 afu_sys0)) = 0 \<and>
   dv_handlers (afu_release afu_env0 afu_sys0) 1 = []"
proof -
  have "dev_irq_accounts (\<lambda>_. 0) afu_sys0"
    by (auto simp: dev_irq_accounts_def afu_sys0_def irqs_of_def afu_fd0_def feature_ok_def feature_zero_def bound_def
        refs_of_def less_Suc_eq)
  moreover have "dma_accounts 0 0 {#} (as_dma afu_sys0)" using accounts1 by (simp add: afu_sys0_def)
  moreover have "open_count (dv_fdata afu_sys0) = 1" "length (irqs_of afu_sys0) = 2"
    by (simp_all add: afu_sys0_def afu_fd0_def irqs_of_def)
  ultimately show ?thesis using release_gives_back [of "\<lambda>_. 0" afu_sys0 0 0 "{#}" afu_env0] by simp
qed

theorem probe_all_or_nothing_witness:
  "\<exists>e. fst (afu_probe afu_env0 (afu_sys0\<lparr>as_dma := dma_sys0\<rparr>)) = Some e \<and>
     \<not> as_private (snd (afu_probe afu_env0 (afu_sys0\<lparr>as_dma := dma_sys0\<rparr>)))"
proof -
  let ?s = "afu_sys0\<lparr>as_dma := dma_sys0\<rparr>"
  obtain r s' where run: "afu_probe afu_env0 ?s = (r, s')" by fastforce
  have "r \<noteq> None" using run
    by (auto simp: afu_probe_def afu_env0_def Let_def split: option.splits prod.splits)
  with probe_all_or_nothing [OF _ _ _ _ run] run show ?thesis
    by (auto simp: afu_sys0_def dma_sys0_def irqs_of_def afu_fd0_def feature_zero_def)
qed

end
