(* ===== verification/Fme_Error.thy ===== *)
theory Fme_Error
  imports Dfl_Dev
begin

unbundle bit_operations_syntax

text \<open>
  Global errors of the FPGA management engine (\<^verbatim>\<open>drivers/fpga/dfl-fme-error.c\<close>): the attributes that
  show, clear and inject errors, and the masks around them.
\<close>

section \<open>Registers\<close>

abbreviation FME_FEATURE_ID_GLOBAL_ERR :: u16 where "FME_FEATURE_ID_GLOBAL_ERR \<equiv> 4"

definition gerr_reg :: "dfl_feature_dev_data \<Rightarrow> u64 \<Rightarrow> u64" where
  "gerr_reg fd ofst = feature_base fd FME_FEATURE_ID_GLOBAL_ERR + ofst"

abbreviation FME_ERROR_MASK :: u64 where "FME_ERROR_MASK \<equiv> 0x8"
abbreviation FME_ERROR :: u64 where "FME_ERROR \<equiv> 0x10"
abbreviation PCIE0_ERROR_MASK :: u64 where "PCIE0_ERROR_MASK \<equiv> 0x18"
abbreviation PCIE0_ERROR :: u64 where "PCIE0_ERROR \<equiv> 0x20"
abbreviation PCIE1_ERROR_MASK :: u64 where "PCIE1_ERROR_MASK \<equiv> 0x28"
abbreviation PCIE1_ERROR :: u64 where "PCIE1_ERROR \<equiv> 0x30"
abbreviation FME_FIRST_ERROR :: u64 where "FME_FIRST_ERROR \<equiv> 0x38"
abbreviation FME_NEXT_ERROR :: u64 where "FME_NEXT_ERROR \<equiv> 0x40"
abbreviation RAS_NONFAT_ERROR_MASK :: u64 where "RAS_NONFAT_ERROR_MASK \<equiv> 0x48"
abbreviation RAS_NONFAT_ERROR :: u64 where "RAS_NONFAT_ERROR \<equiv> 0x50"
abbreviation RAS_CATFAT_ERROR_MASK :: u64 where "RAS_CATFAT_ERROR_MASK \<equiv> 0x58"
abbreviation RAS_CATFAT_ERROR :: u64 where "RAS_CATFAT_ERROR \<equiv> 0x60"
abbreviation RAS_ERROR_INJECT :: u64 where "RAS_ERROR_INJECT \<equiv> 0x68"
abbreviation MBP_ERROR :: u64 where "MBP_ERROR \<equiv> 0x40"

section \<open>Showing errors\<close>

definition gerr_show :: "device \<Rightarrow> u64 \<Rightarrow> 'a dev_sys_scheme \<Rightarrow> string \<times> 'a dev_sys_scheme" where
  "gerr_show dev ofst s =
     (case rd dev (gerr_reg (dv_fdata s) ofst) s of (v, s) \<Rightarrow> (''0x'' @ hexstr v @ newline, s))"

definition pcie0_errors_show :: "device \<Rightarrow> 'a dev_sys_scheme \<Rightarrow> string \<times> 'a dev_sys_scheme" where
  "pcie0_errors_show dev s = gerr_show dev PCIE0_ERROR s"

definition pcie1_errors_show :: "device \<Rightarrow> 'a dev_sys_scheme \<Rightarrow> string \<times> 'a dev_sys_scheme" where
  "pcie1_errors_show dev s = gerr_show dev PCIE1_ERROR s"

definition nonfatal_errors_show :: "device \<Rightarrow> 'a dev_sys_scheme \<Rightarrow> string \<times> 'a dev_sys_scheme" where
  "nonfatal_errors_show dev s = gerr_show dev RAS_NONFAT_ERROR s"

definition catfatal_errors_show :: "device \<Rightarrow> 'a dev_sys_scheme \<Rightarrow> string \<times> 'a dev_sys_scheme" where
  "catfatal_errors_show dev s = gerr_show dev RAS_CATFAT_ERROR s"

definition fme_errors_show :: "device \<Rightarrow> 'a dev_sys_scheme \<Rightarrow> string \<times> 'a dev_sys_scheme" where
  "fme_errors_show dev s = gerr_show dev FME_ERROR s"

definition fme_first_error_show :: "device \<Rightarrow> 'a dev_sys_scheme \<Rightarrow> string \<times> 'a dev_sys_scheme" where
  "fme_first_error_show dev s = gerr_show dev FME_FIRST_ERROR s"

definition fme_next_error_show :: "device \<Rightarrow> 'a dev_sys_scheme \<Rightarrow> string \<times> 'a dev_sys_scheme" where
  "fme_next_error_show dev s = gerr_show dev FME_NEXT_ERROR s"

definition fme_err_revision_show :: "device \<Rightarrow> 'a dev_sys_scheme \<Rightarrow> string \<times> 'a dev_sys_scheme" where
  "fme_err_revision_show dev s =
     (case rd dev (gerr_reg (dv_fdata s) 0) s of (v, s) \<Rightarrow> (decstr (unat (dfh_revision v)) @ newline, s))"

definition inject_errors_show :: "device \<Rightarrow> 'a dev_sys_scheme \<Rightarrow> string \<times> 'a dev_sys_scheme" where
  "inject_errors_show dev s =
     (case rd dev (gerr_reg (dv_fdata s) RAS_ERROR_INJECT) s of
        (v, s) \<Rightarrow> (''0x'' @ hexstr (field_get 2 0 v) @ newline, s))"

definition fme_global_err_attrs_visible :: "nat \<Rightarrow> dfl_feature_dev_data \<Rightarrow> nat" where
  "fme_global_err_attrs_visible mode fd =
     (if dfl_get_feature_by_id fd FME_FEATURE_ID_GLOBAL_ERR = None then 0 else mode)"

section \<open>Clearing and injecting errors\<close>

text \<open>
  Mask the errors of a register, and write them back if they are the ones the user has seen. The
  attributes differ in how they unmask.
\<close>

definition clear_masked ::
  "device \<Rightarrow> u64 \<Rightarrow> u64 \<Rightarrow> u64 \<Rightarrow> 'a dev_sys_scheme \<Rightarrow> 'a dev_sys_scheme ret" where
  "clear_masked dev mreg ereg val s =
     (case rd dev ereg (wr (-1) mreg s) of
        (v, s) \<Rightarrow> if val = v then (None, wr v ereg s) else (Some EINVAL, s))"

definition stored :: "nat \<Rightarrow> 's ret \<Rightarrow> (errno + nat) \<times> 's" where
  "stored n rs = (case rs of (None, s) \<Rightarrow> (Inr n, s) | (Some e, s) \<Rightarrow> (Inl e, s))"

definition pcie0_errors_store ::
  "device \<Rightarrow> (string \<Rightarrow> u64 option) \<Rightarrow> string \<Rightarrow> 'a dev_sys_scheme \<Rightarrow> (errno + nat) \<times> 'a dev_sys_scheme" where
  "pcie0_errors_store dev kstrtou64 buf s =
     (case kstrtou64 buf of
        None \<Rightarrow> (Inl EINVAL, s)
      | Some val \<Rightarrow>
          (case clear_masked dev (gerr_reg (dv_fdata s) PCIE0_ERROR_MASK) (gerr_reg (dv_fdata s) PCIE0_ERROR) val s of
             (r, s) \<Rightarrow> stored (length buf) (r, wr 0 (gerr_reg (dv_fdata s) PCIE0_ERROR_MASK) s)))"

definition pcie1_errors_store ::
  "device \<Rightarrow> (string \<Rightarrow> u64 option) \<Rightarrow> string \<Rightarrow> 'a dev_sys_scheme \<Rightarrow> (errno + nat) \<times> 'a dev_sys_scheme" where
  "pcie1_errors_store dev kstrtou64 buf s =
     (case kstrtou64 buf of
        None \<Rightarrow> (Inl EINVAL, s)
      | Some val \<Rightarrow>
          (case clear_masked dev (gerr_reg (dv_fdata s) PCIE1_ERROR_MASK) (gerr_reg (dv_fdata s) PCIE1_ERROR) val s of
             (r, s) \<Rightarrow> stored (length buf) (r, wr 0 (gerr_reg (dv_fdata s) PCIE1_ERROR_MASK) s)))"

text \<open>On revision 0 the error \<^verbatim>\<open>MBP_ERROR\<close> stays masked.\<close>

definition gerr_revision :: "device \<Rightarrow> 'a dev_sys_scheme \<Rightarrow> u64 \<times> 'a dev_sys_scheme" where
  "gerr_revision dev s = (case rd dev (gerr_reg (dv_fdata s) 0) s of (v, s) \<Rightarrow> (dfh_revision v, s))"

definition fme_errors_store ::
  "device \<Rightarrow> (string \<Rightarrow> u64 option) \<Rightarrow> string \<Rightarrow> 'a dev_sys_scheme \<Rightarrow> (errno + nat) \<times> 'a dev_sys_scheme" where
  "fme_errors_store dev kstrtou64 buf s =
     (case kstrtou64 buf of
        None \<Rightarrow> (Inl EINVAL, s)
      | Some val \<Rightarrow>
          (case clear_masked dev (gerr_reg (dv_fdata s) FME_ERROR_MASK) (gerr_reg (dv_fdata s) FME_ERROR) val s of
             (r, s) \<Rightarrow>
               (case gerr_revision dev s of
                  (rv, s) \<Rightarrow> stored (length buf)
                    (r, wr (if rv \<noteq> 0 then 0 else MBP_ERROR) (gerr_reg (dv_fdata s) FME_ERROR_MASK) s))))"

definition inject_errors_store ::
  "device \<Rightarrow> (string \<Rightarrow> u8 option) \<Rightarrow> string \<Rightarrow> 'a dev_sys_scheme \<Rightarrow> (errno + nat) \<times> 'a dev_sys_scheme" where
  "inject_errors_store dev kstrtou8 buf s =
     (case kstrtou8 buf of
        None \<Rightarrow> (Inl EINVAL, s)
      | Some inject_error \<Rightarrow>
          if inject_error AND NOT 7 \<noteq> 0 then (Inl EINVAL, s)
          else (case rd dev (gerr_reg (dv_fdata s) RAS_ERROR_INJECT) s of
                  (v, s) \<Rightarrow> (Inr (length buf),
                             wr (field_set 2 0 (ucast inject_error) v) (gerr_reg (dv_fdata s) RAS_ERROR_INJECT) s)))"

section \<open>Masking all errors\<close>

definition fme_err_mask :: "device \<Rightarrow> bool \<Rightarrow> 'a dev_sys_scheme \<Rightarrow> 'a dev_sys_scheme" where
  "fme_err_mask dev m s =
     (case gerr_revision dev s of
        (rv, s) \<Rightarrow>
          let reg = gerr_reg (dv_fdata s); v = (if m then -1 else 0 :: u64);
              s = wr (if rv \<noteq> 0 then v else if m then -1 else MBP_ERROR) (reg FME_ERROR_MASK) s;
              s = wr v (reg PCIE0_ERROR_MASK) s;
              s = wr v (reg PCIE1_ERROR_MASK) s;
              s = wr v (reg RAS_NONFAT_ERROR_MASK) s
          in wr v (reg RAS_CATFAT_ERROR_MASK) s)"

definition fme_global_err_init :: "device \<Rightarrow> 'a dev_sys_scheme \<Rightarrow> 'a dev_sys_scheme ret" where
  "fme_global_err_init dev s = (None, fme_err_mask dev False s)"

definition fme_global_err_uinit :: "device \<Rightarrow> 'a dev_sys_scheme \<Rightarrow> 'a dev_sys_scheme" where
  "fme_global_err_uinit dev s = fme_err_mask dev True s"

section \<open>The masks between operations\<close>

lemma gerr_reg_eq [simp]: "gerr_reg fd x = gerr_reg fd y \<longleftrightarrow> x = y"
  by (simp add: gerr_reg_def)

text \<open>Everything the driver does with the error feature between init and uninit.\<close>

inductive gerr_step :: "device \<Rightarrow> dev_sys \<Rightarrow> dev_sys \<Rightarrow> bool" for dev where
  Pcie0: "gerr_step dev s (snd (pcie0_errors_store dev kstrtou64 buf s))"
| Pcie1: "gerr_step dev s (snd (pcie1_errors_store dev kstrtou64 buf s))"
| Fme: "gerr_step dev s (snd (fme_errors_store dev kstrtou64 buf s))"
| Inject: "gerr_step dev s (snd (inject_errors_store dev kstrtou8 buf s))"
| Show: "gerr_step dev s (snd (gerr_show dev ofst s))"

inductive gerr_reach :: "device \<Rightarrow> dev_sys \<Rightarrow> dev_sys \<Rightarrow> bool" for dev where
  Start: "gerr_reach dev s s"
| Step: "gerr_reach dev s s' \<Longrightarrow> gerr_step dev s' s'' \<Longrightarrow> gerr_reach dev s s''"

definition last_write :: "u64 \<Rightarrow> history \<Rightarrow> u64 option" where
  "last_write a h = (if writes a h = [] then None else Some (last (writes a h)))"

text \<open>The device is what it says it is: its revision does not change.\<close>

definition constant_revision :: "device \<Rightarrow> u64 \<Rightarrow> u64 \<Rightarrow> bool" where
  "constant_revision dev a rv \<longleftrightarrow> (\<forall>h. dfh_revision (dev h a) = rv)"

definition unmasked_value :: "u64 \<Rightarrow> u64 \<Rightarrow> u64" where
  "unmasked_value rv ofst = (if ofst = FME_ERROR_MASK \<and> rv = 0 then MBP_ERROR else 0)"

abbreviation mask_regs :: "u64 list" where
  "mask_regs \<equiv> [FME_ERROR_MASK, PCIE0_ERROR_MASK, PCIE1_ERROR_MASK, RAS_NONFAT_ERROR_MASK, RAS_CATFAT_ERROR_MASK]"

definition masks_open :: "u64 \<Rightarrow> dev_sys \<Rightarrow> bool" where
  "masks_open rv s \<longleftrightarrow>
     (\<forall>x \<in> set mask_regs. last_write (gerr_reg (dv_fdata s) x) (dv_hist s) = Some (unmasked_value rv x))"

text \<open>
  Clearing, in one place: the history of a clear, and what is written in it. \<open>m\<close> and \<open>e\<close> are the mask
  and the error register.
\<close>

lemma clear_masked_hist:
  assumes "clear_masked dev (gerr_reg (dv_fdata s) m) (gerr_reg (dv_fdata s) e) val s = (r, s')" and "m \<noteq> e"
  obtains t where "s' = s\<lparr>dv_hist := dv_hist s @ [WR (gerr_reg (dv_fdata s) m) (-1)] @ t\<rparr>"
    and "\<And>a. a \<noteq> gerr_reg (dv_fdata s) e \<Longrightarrow> writes a t = []"
    and "writes (gerr_reg (dv_fdata s) e) t = (if r = None then [val] else [])" and "r \<noteq> None \<longrightarrow> r = Some EINVAL"
proof -
  let ?m = "gerr_reg (dv_fdata s) m" and ?e = "gerr_reg (dv_fdata s) e"
  let ?v = "dev (dv_hist s @ [WR ?m (-1)]) ?e"
  show thesis
  proof (cases "val = ?v")
    case True
    with assms have "s' = s\<lparr>dv_hist := dv_hist s @ [WR ?m (-1)] @ [RD ?e val, WR ?e val]\<rparr>" "r = None"
      by (auto simp: clear_masked_def rd_eq wr_eq)
    then show thesis by (intro that [of "[RD ?e val, WR ?e val]"]) simp_all
  next
    case False
    with assms have "s' = s\<lparr>dv_hist := dv_hist s @ [WR ?m (-1)] @ [RD ?e ?v]\<rparr>" "r = Some EINVAL"
      by (auto simp: clear_masked_def rd_eq wr_eq)
    then show thesis by (intro that [of "[RD ?e ?v]"]) simp_all
  qed
qed

lemma last_write_append:
  "last_write a (h @ t) = (if writes a t = [] then last_write a h else Some (last (writes a t)))"
  by (simp add: last_write_def)

lemma all_writes_while:
  "writes m t = [] \<Longrightarrow> (\<And>k v. writes m k = [] \<Longrightarrow> P (h @ k) v) \<Longrightarrow> all_writes P a h t"
proof (induction t arbitrary: h)
  case (Cons x t)
  have "P ((h @ [x]) @ k) v" if "writes m k = []" for k v
    using Cons.prems(2) [of "x # k" v] Cons.prems(1) that by (cases x) (auto split: if_splits)
  moreover have "writes m t = []" using Cons.prems(1) by (cases x) (auto split: if_splits)
  moreover have "P h v" for v using Cons.prems(2) [of "[]" v] by simp
  ultimately show ?case using Cons.IH [of "h @ [x]"] by (cases x) simp_all
qed simp

text \<open>The error registers with their masks.\<close>

abbreviation cleared_regs :: "(u64 \<times> u64) list" where
  "cleared_regs \<equiv> [(FME_ERROR, FME_ERROR_MASK), (PCIE0_ERROR, PCIE0_ERROR_MASK), (PCIE1_ERROR, PCIE1_ERROR_MASK)]"

definition cleared_masked :: "dev_sys \<Rightarrow> bool" where
  "cleared_masked s \<longleftrightarrow>
     (\<forall>e m. (e, m) \<in> set cleared_regs \<longrightarrow>
        all_writes (\<lambda>h v. last_write (gerr_reg (dv_fdata s) m) h = Some (-1)) (gerr_reg (dv_fdata s) e) [] (dv_hist s))"

definition gerr_inv :: "u64 \<Rightarrow> dev_sys \<Rightarrow> bool" where
  "gerr_inv rv s \<longleftrightarrow> masks_open rv s \<and> cleared_masked s"

text \<open>What is appended to the history decides whether the invariant stays.\<close>

lemma cleared_append:
  assumes "cleared_masked s" and "\<And>e m. (e, m) \<in> set cleared_regs \<Longrightarrow>
      all_writes (\<lambda>h v. last_write (gerr_reg (dv_fdata s) m) h = Some (-1)) (gerr_reg (dv_fdata s) e) (dv_hist s) t"
  shows "cleared_masked (s\<lparr>dv_hist := dv_hist s @ t\<rparr>)"
  unfolding cleared_masked_def
proof (intro allI impI)
  fix e m assume em: "(e, m) \<in> set cleared_regs"
  have "all_writes (\<lambda>h v. last_write (gerr_reg (dv_fdata s) m) h = Some (-1)) (gerr_reg (dv_fdata s) e) [] (dv_hist s)"
    using assms(1) em unfolding cleared_masked_def by blast
  with assms(2) [OF em] show "all_writes (\<lambda>h v. last_write (gerr_reg (dv_fdata (s\<lparr>dv_hist := dv_hist s @ t\<rparr>)) m) h = Some (-1))
      (gerr_reg (dv_fdata (s\<lparr>dv_hist := dv_hist s @ t\<rparr>)) e) [] (dv_hist (s\<lparr>dv_hist := dv_hist s @ t\<rparr>))" by simp
qed

lemma gerr_inv_append:
  assumes "gerr_inv rv s" and "s' = s\<lparr>dv_hist := dv_hist s @ t\<rparr>"
    and "\<And>x. x \<in> set mask_regs \<Longrightarrow> writes (gerr_reg (dv_fdata s) x) t = [] \<or>
           last (writes (gerr_reg (dv_fdata s) x) t) = unmasked_value rv x \<and> writes (gerr_reg (dv_fdata s) x) t \<noteq> []"
    and "\<And>e m. (e, m) \<in> set cleared_regs \<Longrightarrow>
           all_writes (\<lambda>h v. last_write (gerr_reg (dv_fdata s) m) h = Some (-1)) (gerr_reg (dv_fdata s) e) (dv_hist s) t"
  shows "gerr_inv rv s'"
proof -
  have "masks_open rv s'" unfolding masks_open_def
  proof
    fix x assume x: "x \<in> set mask_regs"
    from assms(1) x have "last_write (gerr_reg (dv_fdata s) x) (dv_hist s) = Some (unmasked_value rv x)"
      unfolding gerr_inv_def masks_open_def by blast
    with assms(3) [OF x] show "last_write (gerr_reg (dv_fdata s') x) (dv_hist s') = Some (unmasked_value rv x)"
      by (auto simp: assms(2) last_write_append)
  qed
  moreover have "cleared_masked s'" unfolding assms(2)
    by (rule cleared_append) (use assms(1,4) in \<open>auto simp: gerr_inv_def\<close>)
  ultimately show ?thesis by (simp add: gerr_inv_def)
qed

text \<open>A clear followed by unmasking keeps it; so does an access to another register.\<close>

lemma clear_keeps:
  assumes "gerr_inv rv s" and "(e, m) \<in> set cleared_regs"
    and "clear_masked dev (gerr_reg (dv_fdata s) m) (gerr_reg (dv_fdata s) e) val s = (r, s1)"
    and "s' = s1\<lparr>dv_hist := dv_hist s1 @ t1 @ [WR (gerr_reg (dv_fdata s) m) (unmasked_value rv m)]\<rparr>"
    and "\<And>a. writes a t1 = []"
  shows "gerr_inv rv s'"
proof -
  have ne: "m \<noteq> e" "\<And>x. x \<in> set mask_regs \<Longrightarrow> x \<noteq> e" using assms(2) by auto
  from clear_masked_hist [OF assms(3) ne(1)] obtain t where t:
    "s1 = s\<lparr>dv_hist := dv_hist s @ [WR (gerr_reg (dv_fdata s) m) (-1)] @ t\<rparr>"
    "\<And>a. a \<noteq> gerr_reg (dv_fdata s) e \<Longrightarrow> writes a t = []" by metis
  let ?u = "[WR (gerr_reg (dv_fdata s) m) (-1)] @ t @ t1 @ [WR (gerr_reg (dv_fdata s) m) (unmasked_value rv m)]"
  show ?thesis
  proof (rule gerr_inv_append [OF assms(1), where t = ?u])
    show "s' = s\<lparr>dv_hist := dv_hist s @ ?u\<rparr>" using t(1) assms(4) by simp
  next
    fix x assume "x \<in> set mask_regs"
    then have "gerr_reg (dv_fdata s) x \<noteq> gerr_reg (dv_fdata s) e" using ne(2) by simp
    with t(2) assms(5) show "writes (gerr_reg (dv_fdata s) x) ?u = [] \<or>
        last (writes (gerr_reg (dv_fdata s) x) ?u) = unmasked_value rv x \<and> writes (gerr_reg (dv_fdata s) x) ?u \<noteq> []" by simp
  next
    fix e' m' assume em: "(e', m') \<in> set cleared_regs"
    show "all_writes (\<lambda>h v. last_write (gerr_reg (dv_fdata s) m') h = Some (-1)) (gerr_reg (dv_fdata s) e') (dv_hist s) ?u"
    proof (cases "e' = e")
      case True
      then have "m' = m" using em assms(2) by auto
      let ?P = "\<lambda>h v. last_write (gerr_reg (dv_fdata s) m) h = Some (-1)"
      have "gerr_reg (dv_fdata s) m \<noteq> gerr_reg (dv_fdata s) e" using ne(1) by simp
      then have "writes (gerr_reg (dv_fdata s) m) t = []" by (rule t(2))
      then have "all_writes ?P (gerr_reg (dv_fdata s) e) (dv_hist s @ [WR (gerr_reg (dv_fdata s) m) (-1)]) t"
        by (rule all_writes_while) (simp add: last_write_def)
      then show ?thesis using True \<open>m' = m\<close> ne(1) assms(5) by (simp add: all_writes_none)
    next
      case False
      then have "writes (gerr_reg (dv_fdata s) e') ?u = []" using em assms(2,5) t(2) by auto
      then show ?thesis by (rule all_writes_none)
    qed
  qed
qed

lemma gerr_revision_eq:
  "gerr_revision dev s = (dfh_revision (dev (dv_hist s) (gerr_reg (dv_fdata s) 0)),
     s\<lparr>dv_hist := dv_hist s @ [RD (gerr_reg (dv_fdata s) 0) (dev (dv_hist s) (gerr_reg (dv_fdata s) 0))]\<rparr>)"
  by (simp add: gerr_revision_def rd_eq)

lemma err_mask_False:
  assumes "constant_revision dev (gerr_reg (dv_fdata s) 0) rv"
  shows "\<exists>v. fme_err_mask dev False s = s\<lparr>dv_hist := dv_hist s @ RD (gerr_reg (dv_fdata s) 0) v #
     map (\<lambda>x. WR (gerr_reg (dv_fdata s) x) (unmasked_value rv x)) mask_regs\<rparr>"
  using assms
  by (intro exI [of _ "dev (dv_hist s) (gerr_reg (dv_fdata s) 0)"])
    (simp add: fme_err_mask_def gerr_revision_eq wr_eq Let_def constant_revision_def unmasked_value_def)

lemma err_mask_opens:
  assumes "constant_revision dev (gerr_reg (dv_fdata s) 0) rv" and "cleared_masked s"
  shows "gerr_inv rv (fme_err_mask dev False s)"
proof -
  from err_mask_False [OF assms(1)] obtain v where m: "fme_err_mask dev False s = s\<lparr>dv_hist := dv_hist s @
     RD (gerr_reg (dv_fdata s) 0) v # map (\<lambda>x. WR (gerr_reg (dv_fdata s) x) (unmasked_value rv x)) mask_regs\<rparr>"
    (is "_ = s\<lparr>dv_hist := dv_hist s @ ?t\<rparr>") by blast
  have "masks_open rv (s\<lparr>dv_hist := dv_hist s @ ?t\<rparr>)"
    by (simp add: masks_open_def last_write_append)
  moreover have "writes (gerr_reg (dv_fdata s) e) ?t = []" if "(e, m) \<in> set cleared_regs" for e m
    using that by auto
  then have "cleared_masked (s\<lparr>dv_hist := dv_hist s @ ?t\<rparr>)"
    by (intro cleared_append [OF assms(2)] all_writes_none)
  ultimately show ?thesis unfolding m gerr_inv_def by simp
qed

lemma fdata_clear: "clear_masked dev a b val s = (r, s') \<Longrightarrow> dv_fdata s' = dv_fdata s"
  by (auto simp: clear_masked_def rd_eq wr_eq split: if_splits)

lemma snd_stored [simp]: "snd (stored n (r, s)) = s"
  by (cases r) (simp_all add: stored_def)

lemma gerr_step_keeps:
  assumes "gerr_step dev s s'" and "gerr_inv rv s" and "constant_revision dev (gerr_reg (dv_fdata s) 0) rv"
  shows "gerr_inv rv s' \<and> dv_fdata s' = dv_fdata s"
  using assms(1)
proof cases
  case (Pcie0 kstrtou64 buf)
  show ?thesis
  proof (cases "kstrtou64 buf")
    case (Some val)
    obtain r s1 where c: "clear_masked dev (gerr_reg (dv_fdata s) PCIE0_ERROR_MASK) (gerr_reg (dv_fdata s) PCIE0_ERROR) val s = (r, s1)"
      by fastforce
    have S: "s' = s1\<lparr>dv_hist := dv_hist s1 @ [] @ [WR (gerr_reg (dv_fdata s) PCIE0_ERROR_MASK) (unmasked_value rv PCIE0_ERROR_MASK)]\<rparr>"
      by (simp add: Pcie0 pcie0_errors_store_def Some c wr_eq fdata_clear [OF c] unmasked_value_def)
    from clear_keeps [OF assms(2) _ c S] show ?thesis using fdata_clear [OF c] S by simp
  qed (simp add: Pcie0 pcie0_errors_store_def assms(2))
next
  case (Pcie1 kstrtou64 buf)
  show ?thesis
  proof (cases "kstrtou64 buf")
    case (Some val)
    obtain r s1 where c: "clear_masked dev (gerr_reg (dv_fdata s) PCIE1_ERROR_MASK) (gerr_reg (dv_fdata s) PCIE1_ERROR) val s = (r, s1)"
      by fastforce
    have S: "s' = s1\<lparr>dv_hist := dv_hist s1 @ [] @ [WR (gerr_reg (dv_fdata s) PCIE1_ERROR_MASK) (unmasked_value rv PCIE1_ERROR_MASK)]\<rparr>"
      by (simp add: Pcie1 pcie1_errors_store_def Some c wr_eq fdata_clear [OF c] unmasked_value_def)
    from clear_keeps [OF assms(2) _ c S] show ?thesis using fdata_clear [OF c] S by simp
  qed (simp add: Pcie1 pcie1_errors_store_def assms(2))
next
  case (Fme kstrtou64 buf)
  show ?thesis
  proof (cases "kstrtou64 buf")
    case (Some val)
    obtain r s1 where c: "clear_masked dev (gerr_reg (dv_fdata s) FME_ERROR_MASK) (gerr_reg (dv_fdata s) FME_ERROR) val s = (r, s1)"
      by fastforce
    let ?v = "dev (dv_hist s1) (gerr_reg (dv_fdata s) 0)"
    have rv: "dfh_revision ?v = rv" using assms(3) by (simp add: constant_revision_def)
    have S: "s' = s1\<lparr>dv_hist := dv_hist s1 @ [RD (gerr_reg (dv_fdata s) 0) ?v] @
        [WR (gerr_reg (dv_fdata s) FME_ERROR_MASK) (unmasked_value rv FME_ERROR_MASK)]\<rparr>"
      by (simp add: Fme fme_errors_store_def Some c gerr_revision_eq wr_eq fdata_clear [OF c] unmasked_value_def rv)
    from clear_keeps [OF assms(2) _ c S] show ?thesis using fdata_clear [OF c] S by simp
  qed (simp add: Fme fme_errors_store_def assms(2))
next
  case (Inject kstrtou8 buf)
  show ?thesis
  proof (cases "kstrtou8 buf")
    case (Some b)
    show ?thesis
    proof (cases "b AND NOT 7 = 0")
      case True
      let ?i = "gerr_reg (dv_fdata s) RAS_ERROR_INJECT"
      let ?t = "[RD ?i (dev (dv_hist s) ?i), WR ?i (field_set 2 0 (ucast b) (dev (dv_hist s) ?i))]"
      have s': "s' = s\<lparr>dv_hist := dv_hist s @ ?t\<rparr>"
        using True by (simp add: Inject inject_errors_store_def Some rd_eq wr_eq)
      have "gerr_inv rv s'" by (rule gerr_inv_append [OF assms(2) s']) auto
      with s' show ?thesis by simp
    qed (use assms(2) in \<open>simp add: Inject inject_errors_store_def Some\<close>)
  qed (simp add: Inject inject_errors_store_def assms(2))
next
  case (Show ofst)
  have s': "s' = s\<lparr>dv_hist := dv_hist s @ [RD (gerr_reg (dv_fdata s) ofst) (dev (dv_hist s) (gerr_reg (dv_fdata s) ofst))]\<rparr>"
    by (simp add: Show gerr_show_def rd_eq)
  have "gerr_inv rv s'" by (rule gerr_inv_append [OF assms(2) s']) auto
  with s' show ?thesis by simp
qed

text \<open>
  C35. From its initialisation on, whatever is cleared, injected or shown in whatever order, the error
  registers of the management engine are only written while the errors they hold are masked, and
  between the operations the masks are open again: all of them, save that on revision 0 the one
  error that must stay masked stays masked, also after the other errors have been cleared.
\<close>

theorem gerr_masks_kept:
  assumes "gerr_reach dev (snd (fme_global_err_init dev s0)) s" and "cleared_masked s0"
    and "constant_revision dev (gerr_reg (dv_fdata s0) 0) rv"
  shows "(\<forall>x \<in> set mask_regs. last_write (gerr_reg (dv_fdata s) x) (dv_hist s) =
       Some (if x = FME_ERROR_MASK \<and> rv = 0 then MBP_ERROR else 0)) \<and> cleared_masked s"
proof -
  let ?s1 = "snd (fme_global_err_init dev s0)"
  have "gerr_inv rv ?s1" using err_mask_opens [OF assms(3,2)] by (simp add: fme_global_err_init_def)
  moreover have "dv_fdata ?s1 = dv_fdata s0"
    using err_mask_False [OF assms(3)] by (auto simp: fme_global_err_init_def)
  moreover have "gerr_reach dev s1 s \<Longrightarrow> gerr_inv rv s1 \<Longrightarrow> constant_revision dev (gerr_reg (dv_fdata s1) 0) rv \<Longrightarrow>
      gerr_inv rv s \<and> dv_fdata s = dv_fdata s1" for s1
  proof (induction rule: gerr_reach.induct)
    case (Step s s' s'')
    then have "gerr_inv rv s' \<and> dv_fdata s' = dv_fdata s" by simp
    with gerr_step_keeps [OF Step.hyps(2), of rv] Step.prems(2) show ?case by simp
  qed simp
  ultimately have "gerr_inv rv s" using assms(1,3) by simp
  then show ?thesis by (simp add: gerr_inv_def masks_open_def unmasked_value_def)
qed

definition gerr_sys0 :: dev_sys where
  "gerr_sys0 = \<lparr>dv_fdata = \<lparr>fd_dev = True, fd_type = FME_ID, fd_pdev_id = 0, fd_id = 0, disable_count = 0,
     excl_open = False, open_count = 0, fd_num = 1,
     features = [feature_zero\<lparr>ft_id := 4, ft_ioaddr := Some 0x4000\<rparr>], resources = []\<rparr>, dv_hist = []\<rparr>"

theorem gerr_masks_kept_witness:
  "last_write 0x4008 (dv_hist (snd (fme_errors_store (\<lambda>h a. 0) (\<lambda>_. Some 3) ''3''
     (snd (fme_global_err_init (\<lambda>h a. 0) gerr_sys0))))) = Some 0x40"
proof -
  let ?dev = "(\<lambda>h a. 0) :: device"
  let ?s1 = "snd (fme_global_err_init ?dev gerr_sys0)"
  let ?s = "snd (fme_errors_store ?dev (\<lambda>_. Some 3) ''3'' ?s1)"
  have "gerr_reach ?dev ?s1 ?s" by (rule gerr_reach.Step [OF gerr_reach.Start gerr_step.Fme])
  moreover have "cleared_masked gerr_sys0" by (simp add: cleared_masked_def gerr_sys0_def)
  moreover have "constant_revision ?dev (gerr_reg (dv_fdata gerr_sys0) 0) 0"
    by (simp add: constant_revision_def dfh_revision_def field_get_def)
  ultimately have "last_write (gerr_reg (dv_fdata ?s) FME_ERROR_MASK) (dv_hist ?s) = Some MBP_ERROR"
    using gerr_masks_kept [of ?dev gerr_sys0 ?s 0] by simp
  moreover have "dv_fdata ?s = dv_fdata gerr_sys0"
    by (simp add: fme_errors_store_def fme_global_err_init_def fme_err_mask_def clear_masked_def gerr_revision_eq rd_eq wr_eq Let_def)
  ultimately show ?thesis
    by (simp add: gerr_reg_def feature_base_def dfl_get_feature_ioaddr_by_id_def dfl_get_feature_by_id_def gerr_sys0_def feature_zero_def)
qed

end
