(* ===== verification/Fpga_Mgr.thy ===== *)
theory Fpga_Mgr
  imports Prelude
begin

unbundle bit_operations_syntax

text \<open>
  The FPGA manager core (\<^verbatim>\<open>drivers/fpga/fpga-mgr.c\<close>): how an image is parsed and streamed to a low
  level driver. The driver is a record of optional operations over a state of its own. A buffer
  is the list of its bytes, so \<^verbatim>\<open>count\<close> is its length; a scatter list is the list of the
  fragments its mapping iterator yields.
\<close>

section \<open>Data\<close>

datatype fpga_mgr_states =
    FPGA_MGR_STATE_UNKNOWN | FPGA_MGR_STATE_POWER_OFF | FPGA_MGR_STATE_POWER_UP | FPGA_MGR_STATE_RESET
  | FPGA_MGR_STATE_FIRMWARE_REQ | FPGA_MGR_STATE_FIRMWARE_REQ_ERR
  | FPGA_MGR_STATE_PARSE_HEADER | FPGA_MGR_STATE_PARSE_HEADER_ERR
  | FPGA_MGR_STATE_WRITE_INIT | FPGA_MGR_STATE_WRITE_INIT_ERR
  | FPGA_MGR_STATE_WRITE | FPGA_MGR_STATE_WRITE_ERR
  | FPGA_MGR_STATE_WRITE_COMPLETE | FPGA_MGR_STATE_WRITE_COMPLETE_ERR
  | FPGA_MGR_STATE_OPERATING

type_synonym bytes = "byte list"
type_synonym sg_table = "bytes list"

text \<open>A buffer is its address and its bytes; \<^verbatim>\<open>info->buf\<close> and \<^verbatim>\<open>info->count\<close> are one field.\<close>

record fpga_image_info =
  info_flags :: u32
  config_complete_timeout_us :: u32
  firmware_name :: "string option"
  info_sgt :: "sg_table option"
  info_buf :: "(u64 \<times> bytes) option"
  header_size :: u64
  data_size :: u64
  region_id :: int

record 'd fpga_manager_ops =
  initial_header_size :: u64
  skip_header :: bool
  op_state :: "('d \<Rightarrow> fpga_mgr_states) option"
  op_status :: "('d \<Rightarrow> u64) option"
  op_parse_header :: "(fpga_image_info \<Rightarrow> bytes \<Rightarrow> 'd \<Rightarrow> errno option \<times> fpga_image_info \<times> 'd) option"
  op_write_init :: "(fpga_image_info \<Rightarrow> bytes \<Rightarrow> 'd \<Rightarrow> errno option \<times> fpga_image_info \<times> 'd) option"
  op_write :: "(bytes \<Rightarrow> 'd \<Rightarrow> errno option \<times> 'd) option"
  op_write_sg :: "(sg_table \<Rightarrow> 'd \<Rightarrow> errno option \<times> 'd) option"
  op_write_complete :: "(fpga_image_info \<Rightarrow> 'd \<Rightarrow> errno option \<times> 'd) option"
  op_fpga_remove :: "('d \<Rightarrow> 'd) option"

text \<open>
  The manager: its state and its driver's. The flag \<open>overread\<close> is a ghost: it records that the
  driver was handed a range that leaves the image.
\<close>

record 'd fpga_manager =
  mgr_state :: fpga_mgr_states
  drv :: 'd
  overread :: bool

text \<open>
  Outcomes of the kernel calls (allocation, page lookup, the page list's table, the firmware loader), and
  the memory that follows a buffer.
\<close>

record fpga_env =
  kmalloc_ok :: bool
  krealloc_ok :: "u64 \<Rightarrow> bool"
  to_page :: "u64 \<Rightarrow> u64 option"
  sg_alloc_table_from_pages :: "u64 list \<Rightarrow> u64 \<Rightarrow> u64 \<Rightarrow> errno + sg_table"
  request_firmware :: "string \<Rightarrow> errno + u64 \<times> bytes"
  behind :: "nat \<Rightarrow> byte"

section \<open>The driver's operations\<close>

definition fpga_mgr_fpga_remove :: "'d fpga_manager_ops \<Rightarrow> 'd \<Rightarrow> 'd" where
  "fpga_mgr_fpga_remove mops d = (case op_fpga_remove mops of Some f \<Rightarrow> f d | None \<Rightarrow> d)"

definition fpga_mgr_state :: "'d fpga_manager_ops \<Rightarrow> 'd \<Rightarrow> fpga_mgr_states" where
  "fpga_mgr_state mops d = (case op_state mops of Some f \<Rightarrow> f d | None \<Rightarrow> FPGA_MGR_STATE_UNKNOWN)"

definition fpga_mgr_status :: "'d fpga_manager_ops \<Rightarrow> 'd \<Rightarrow> u64" where
  "fpga_mgr_status mops d = (case op_status mops of Some f \<Rightarrow> f d | None \<Rightarrow> 0)"

definition fpga_mgr_write :: "'d fpga_manager_ops \<Rightarrow> bytes \<Rightarrow> 'd \<Rightarrow> errno option \<times> 'd" where
  "fpga_mgr_write mops buf d = (case op_write mops of Some f \<Rightarrow> f buf d | None \<Rightarrow> (Some EOPNOTSUPP, d))"

definition fpga_mgr_parse_header ::
  "'d fpga_manager_ops \<Rightarrow> fpga_image_info \<Rightarrow> bytes \<Rightarrow> 'd \<Rightarrow> errno option \<times> fpga_image_info \<times> 'd" where
  "fpga_mgr_parse_header mops info buf d =
     (case op_parse_header mops of Some f \<Rightarrow> f info buf d | None \<Rightarrow> (None, info, d))"

definition fpga_mgr_write_init ::
  "'d fpga_manager_ops \<Rightarrow> fpga_image_info \<Rightarrow> bytes \<Rightarrow> 'd \<Rightarrow> errno option \<times> fpga_image_info \<times> 'd" where
  "fpga_mgr_write_init mops info buf d =
     (case op_write_init mops of Some f \<Rightarrow> f info buf d | None \<Rightarrow> (None, info, d))"

definition fpga_mgr_write_sg :: "'d fpga_manager_ops \<Rightarrow> sg_table \<Rightarrow> 'd \<Rightarrow> errno option \<times> 'd" where
  "fpga_mgr_write_sg mops sgt d = (case op_write_sg mops of Some f \<Rightarrow> f sgt d | None \<Rightarrow> (Some EOPNOTSUPP, d))"

definition call_write_complete :: "'d fpga_manager_ops \<Rightarrow> fpga_image_info \<Rightarrow> 'd \<Rightarrow> errno option \<times> 'd" where
  "call_write_complete mops info d = (case op_write_complete mops of Some f \<Rightarrow> f info d | None \<Rightarrow> (None, d))"

definition fpga_mgr_write_complete ::
  "'d fpga_manager_ops \<Rightarrow> fpga_image_info \<Rightarrow> 'd fpga_manager \<Rightarrow> 'd fpga_manager ret" where
  "fpga_mgr_write_complete mops info mgr =
     (case call_write_complete mops info (drv mgr) of
        (Some e, d) \<Rightarrow> (Some e, mgr\<lparr>drv := d, mgr_state := FPGA_MGR_STATE_WRITE_COMPLETE_ERR\<rparr>)
      | (None, d) \<Rightarrow> (None, mgr\<lparr>drv := d, mgr_state := FPGA_MGR_STATE_OPERATING\<rparr>))"

section \<open>Parsing the header\<close>

text \<open>A call that may change the image information and the manager.\<close>

type_synonym 'd step = "errno option \<times> fpga_image_info \<times> 'd fpga_manager"

definition fpga_mgr_parse_header_mapped ::
  "'d fpga_manager_ops \<Rightarrow> fpga_image_info \<Rightarrow> bytes \<Rightarrow> 'd fpga_manager \<Rightarrow> 'd step" where
  "fpga_mgr_parse_header_mapped mops info buf mgr =
     (let (ret, info, d) = fpga_mgr_parse_header mops info buf (drv mgr);
          ret = (if header_size info + data_size info > of_nat (length buf) then Some EINVAL else ret);
          st = (if ret \<noteq> None then FPGA_MGR_STATE_PARSE_HEADER_ERR else FPGA_MGR_STATE_PARSE_HEADER)
      in (ret, info, mgr\<lparr>drv := d, mgr_state := st\<rparr>))"

definition fpga_mgr_parse_header_sg_first ::
  "'d fpga_manager_ops \<Rightarrow> fpga_image_info \<Rightarrow> sg_table \<Rightarrow> 'd fpga_manager \<Rightarrow> 'd step" where
  "fpga_mgr_parse_header_sg_first mops info sgt mgr =
     (let (ret, info, d) =
            (case sgt of
               frag # _ \<Rightarrow> if of_nat (length frag) \<ge> header_size info then fpga_mgr_parse_header mops info frag (drv mgr)
                           else (Some EAGAIN, info, drv mgr)
             | [] \<Rightarrow> (Some EAGAIN, info, drv mgr));
          st = (if ret \<noteq> None \<and> ret \<noteq> Some EAGAIN then FPGA_MGR_STATE_PARSE_HEADER_ERR else FPGA_MGR_STATE_PARSE_HEADER)
      in (ret, info, mgr\<lparr>drv := d, mgr_state := st\<rparr>))"

text \<open>\<^verbatim>\<open>sg_pcopy_to_buffer\<close>: the bytes it copies; their number is what it returns.\<close>

definition sg_pcopy_to_buffer :: "sg_table \<Rightarrow> u64 \<Rightarrow> u64 \<Rightarrow> bytes" where
  "sg_pcopy_to_buffer sgt buflen skip = take (unat buflen) (drop (unat skip) (concat sgt))"

lemma sg_pcopy_complete:
  assumes "hsize < new" and "length (sg_pcopy_to_buffer sgt (new - hsize) hsize) = unat (new - hsize)"
  shows "unat new \<le> length (concat sgt)" and "sg_pcopy_to_buffer sgt (new - hsize) hsize = drop (unat hsize) (take (unat new) (concat sgt))"
proof -
  have s: "unat (new - hsize) = unat new - unat hsize" using assms(1) by (simp add: unat_sub)
  have lt: "unat hsize < unat new" using assms(1) by (simp add: word_less_nat_alt)
  show "unat new \<le> length (concat sgt)"
    using assms(2) lt unfolding sg_pcopy_to_buffer_def s by (simp add: min_def split: if_splits)
  show "sg_pcopy_to_buffer sgt (new - hsize) hsize = drop (unat hsize) (take (unat new) (concat sgt))"
    unfolding sg_pcopy_to_buffer_def s by (simp add: drop_take)
qed

text \<open>
  The loop of \<^verbatim>\<open>fpga_mgr_parse_header_sg\<close>: \<open>buf\<close> holds the first \<open>hsize\<close> bytes of the image. Each round
  copies more of it, so it ends when the image does.
\<close>

function parse_header_sg_loop ::
  "fpga_env \<Rightarrow> 'd fpga_manager_ops \<Rightarrow> sg_table \<Rightarrow> fpga_image_info \<Rightarrow> bytes \<Rightarrow> u64 \<Rightarrow> 'd
     \<Rightarrow> (errno + bytes) \<times> fpga_image_info \<times> 'd" where
  "parse_header_sg_loop env mops sgt info buf hsize d =
     (let new_header_size = header_size info
      in if new_header_size \<le> hsize then (Inl EFAULT, info, d)
         else if \<not> krealloc_ok env new_header_size then (Inl ENOMEM, info, d)
         else let more = sg_pcopy_to_buffer sgt (new_header_size - hsize) hsize
              in if length more \<noteq> unat (new_header_size - hsize) then (Inl EFAULT, info, d)
                 else (case fpga_mgr_parse_header mops info (buf @ more) d of
                         (None, info, d) \<Rightarrow> (Inr (buf @ more), info, d)
                       | (Some e, info, d) \<Rightarrow>
                           if e = EAGAIN then parse_header_sg_loop env mops sgt info (buf @ more) new_header_size d
                           else (Inl e, info, d)))"
  by pat_completeness auto

termination
proof (relation "measure (\<lambda>(env, mops, sgt, info, buf, hsize, d). length (concat sgt) - unat hsize)", goal_cases)
  case (2 env mops sgt info buf hsize d new more r rest e info' d')
  then have "hsize < new" and "length (sg_pcopy_to_buffer sgt (new - hsize) hsize) = unat (new - hsize)" by auto
  from sg_pcopy_complete(1) [OF this] this(1) show ?case by (auto simp: word_less_nat_alt)
qed simp

declare parse_header_sg_loop.simps [simp del]

definition fpga_mgr_parse_header_sg ::
  "fpga_env \<Rightarrow> 'd fpga_manager_ops \<Rightarrow> fpga_image_info \<Rightarrow> sg_table \<Rightarrow> 'd fpga_manager
     \<Rightarrow> (errno + bytes) \<times> fpga_image_info \<times> 'd fpga_manager" where
  "fpga_mgr_parse_header_sg env mops info sgt mgr =
     (case parse_header_sg_loop env mops sgt info [] 0 (drv mgr) of
        (Inl e, info, d) \<Rightarrow> (Inl e, info, mgr\<lparr>drv := d, mgr_state := FPGA_MGR_STATE_PARSE_HEADER_ERR\<rparr>)
      | (Inr buf, info, d) \<Rightarrow> (Inr buf, info, mgr\<lparr>drv := d\<rparr>))"

section \<open>Preparing the device\<close>

text \<open>A NULL buffer of size 0 is the empty list.\<close>

definition fpga_mgr_write_init_buf ::
  "'d fpga_manager_ops \<Rightarrow> fpga_image_info \<Rightarrow> bytes \<Rightarrow> 'd fpga_manager \<Rightarrow> 'd step" where
  "fpga_mgr_write_init_buf mops info buf mgr =
     (let (ret, info, d) =
            (if header_size info > of_nat (length buf) then (Some EINVAL, info, drv mgr)
             else if header_size info = 0 then fpga_mgr_write_init mops info [] (drv mgr)
             else fpga_mgr_write_init mops info buf (drv mgr));
          st = (if ret \<noteq> None then FPGA_MGR_STATE_WRITE_INIT_ERR else FPGA_MGR_STATE_WRITE_INIT)
      in (ret, info, mgr\<lparr>drv := d, mgr_state := st\<rparr>))"

definition prepare_copied ::
  "fpga_env \<Rightarrow> 'd fpga_manager_ops \<Rightarrow> fpga_image_info \<Rightarrow> sg_table \<Rightarrow> 'd fpga_manager \<Rightarrow> 'd step" where
  "prepare_copied env mops info sgt mgr =
     (case fpga_mgr_parse_header_sg env mops info sgt mgr of
        (Inl e, info, mgr) \<Rightarrow> (Some e, info, mgr)
      | (Inr buf, info, mgr) \<Rightarrow> fpga_mgr_write_init_buf mops info buf mgr)"

definition fpga_mgr_prepare_sg ::
  "fpga_env \<Rightarrow> 'd fpga_manager_ops \<Rightarrow> fpga_image_info \<Rightarrow> sg_table \<Rightarrow> 'd fpga_manager \<Rightarrow> 'd step" where
  "fpga_mgr_prepare_sg env mops info sgt mgr =
     (if initial_header_size mops = 0 \<and> op_parse_header mops = None then fpga_mgr_write_init_buf mops info [] mgr
      else (case fpga_mgr_parse_header_sg_first mops info sgt mgr of
              (None, info, mgr) \<Rightarrow>
                (case sgt of frag # _ \<Rightarrow> fpga_mgr_write_init_buf mops info frag mgr
                 | [] \<Rightarrow> prepare_copied env mops info sgt mgr)
            | (Some e, info, mgr) \<Rightarrow>
                if e \<noteq> EAGAIN then (Some e, info, mgr) else prepare_copied env mops info sgt mgr))"

section \<open>Loading an image\<close>

text \<open>\<^verbatim>\<open>sg_miter_skip\<close>: the fragments still to come, \<open>None\<close> when the list ends first.\<close>

fun sg_miter_skip :: "sg_table \<Rightarrow> nat \<Rightarrow> sg_table option" where
  "sg_miter_skip frags 0 = Some frags"
| "sg_miter_skip [] (Suc n) = None"
| "sg_miter_skip (frag # frags) (Suc n) =
     (if Suc n < length frag then Some (drop (Suc n) frag # frags) else sg_miter_skip frags (Suc n - length frag))"

fun write_fragments ::
  "'d fpga_manager_ops \<Rightarrow> u64 \<Rightarrow> u64 \<Rightarrow> sg_table \<Rightarrow> 'd \<Rightarrow> errno option \<times> 'd" where
  "write_fragments mops dsize cnt [] d = (None, d)"
| "write_fragments mops dsize cnt (frag # frags) d =
     (let len = (if dsize \<noteq> 0 then min (of_nat (length frag)) (dsize - cnt) else of_nat (length frag))
      in case fpga_mgr_write mops (take (unat len) frag) d of
           (Some e, d) \<Rightarrow> (Some e, d)
         | (None, d) \<Rightarrow>
             if dsize \<noteq> 0 \<and> cnt + len \<ge> dsize then (None, d) else write_fragments mops dsize (cnt + len) frags d)"

definition write_sgt :: "'d fpga_manager_ops \<Rightarrow> fpga_image_info \<Rightarrow> sg_table \<Rightarrow> 'd \<Rightarrow> errno option \<times> 'd" where
  "write_sgt mops info sgt d =
     (if op_write_sg mops \<noteq> None then fpga_mgr_write_sg mops sgt d
      else (case (if skip_header mops then sg_miter_skip sgt (unat (header_size info)) else Some sgt) of
              None \<Rightarrow> (Some EINVAL, d)
            | Some frags \<Rightarrow> write_fragments mops (data_size info) 0 frags d))"

definition fpga_mgr_buf_load_sg ::
  "fpga_env \<Rightarrow> 'd fpga_manager_ops \<Rightarrow> fpga_image_info \<Rightarrow> sg_table \<Rightarrow> 'd fpga_manager \<Rightarrow> 'd step" where
  "fpga_mgr_buf_load_sg env mops info sgt mgr =
     (case fpga_mgr_prepare_sg env mops info sgt mgr of
        (Some e, info, mgr) \<Rightarrow> (Some e, info, mgr)
      | (None, info, mgr) \<Rightarrow>
          (case write_sgt mops info sgt (drv mgr) of
             (Some e, d) \<Rightarrow> (Some e, info, mgr\<lparr>drv := d, mgr_state := FPGA_MGR_STATE_WRITE_ERR\<rparr>)
           | (None, d) \<Rightarrow>
               (case fpga_mgr_write_complete mops info (mgr\<lparr>drv := d, mgr_state := FPGA_MGR_STATE_WRITE\<rparr>) of
                  (ret, mgr) \<Rightarrow> (ret, info, mgr))))"

text \<open>The range \<^verbatim>\<open>buf\<close>, \<^verbatim>\<open>count\<close> that \<^verbatim>\<open>fpga_mgr_buf_load_mapped\<close> hands to the driver.\<close>

definition mapped_start :: "'d fpga_manager_ops \<Rightarrow> fpga_image_info \<Rightarrow> u64" where
  "mapped_start mops info = (if skip_header mops then header_size info else 0)"

definition mapped_count :: "'d fpga_manager_ops \<Rightarrow> fpga_image_info \<Rightarrow> u64 \<Rightarrow> u64" where
  "mapped_count mops info cnt =
     (let cnt = (if skip_header mops then cnt - header_size info else cnt)
      in if data_size info \<noteq> 0 then data_size info else cnt)"

text \<open>The bytes of a range of memory that starts in a buffer; it may go on behind its end.\<close>

definition mem_range :: "(nat \<Rightarrow> byte) \<Rightarrow> bytes \<Rightarrow> nat \<Rightarrow> nat \<Rightarrow> bytes" where
  "mem_range after buf start cnt =
     map (\<lambda>i. if i < length buf then buf ! i else after (i - length buf)) [start ..< start + cnt]"

lemma mem_range_inside: "start + cnt \<le> length buf \<Longrightarrow> mem_range after buf start cnt = take cnt (drop start buf)"
  by (rule nth_equalityI) (simp_all add: mem_range_def)

definition fpga_mgr_buf_load_mapped ::
  "fpga_env \<Rightarrow> 'd fpga_manager_ops \<Rightarrow> fpga_image_info \<Rightarrow> bytes \<Rightarrow> 'd fpga_manager \<Rightarrow> 'd step" where
  "fpga_mgr_buf_load_mapped env mops info buf mgr =
     (case fpga_mgr_parse_header_mapped mops info buf mgr of
        (Some e, info, mgr) \<Rightarrow> (Some e, info, mgr)
      | (None, info, mgr) \<Rightarrow>
          (case fpga_mgr_write_init_buf mops info buf mgr of
             (Some e, info, mgr) \<Rightarrow> (Some e, info, mgr)
           | (None, info, mgr) \<Rightarrow>
               let start = unat (mapped_start mops info); cnt = unat (mapped_count mops info (of_nat (length buf)));
                   mgr = mgr\<lparr>overread := overread mgr \<or> start + cnt > length buf\<rparr>
               in (case fpga_mgr_write mops (mem_range (behind env) buf start cnt) (drv mgr) of
                     (Some e, d) \<Rightarrow> (Some e, info, mgr\<lparr>drv := d, mgr_state := FPGA_MGR_STATE_WRITE_ERR\<rparr>)
                   | (None, d) \<Rightarrow>
                       (case fpga_mgr_write_complete mops info (mgr\<lparr>drv := d, mgr_state := FPGA_MGR_STATE_WRITE\<rparr>) of
                          (ret, mgr) \<Rightarrow> (ret, info, mgr)))))"

text \<open>The pages of a buffer, from its address and length; \<open>None\<close> is a page that is not found.\<close>

definition nr_pages :: "u64 \<Rightarrow> u64 \<Rightarrow> nat" where
  "nr_pages addr cnt =
     nat (sint (ucast ((addr + cnt + 4095) div 4096 - addr div 4096) :: u32))"

fun collect_pages :: "fpga_env \<Rightarrow> u64 \<Rightarrow> nat \<Rightarrow> u64 list option" where
  "collect_pages env p 0 = Some []"
| "collect_pages env p (Suc n) =
     (case to_page env p of
        None \<Rightarrow> None
      | Some pg \<Rightarrow> map_option ((#) pg) (collect_pages env (p + 4096) n))"

definition fpga_mgr_buf_load ::
  "fpga_env \<Rightarrow> 'd fpga_manager_ops \<Rightarrow> fpga_image_info \<Rightarrow> u64 \<times> bytes \<Rightarrow> 'd fpga_manager \<Rightarrow> 'd step" where
  "fpga_mgr_buf_load env mops info ab mgr =
     (case ab of (addr, buf) \<Rightarrow>
        if op_write mops \<noteq> None then fpga_mgr_buf_load_mapped env mops info buf mgr
        else if \<not> kmalloc_ok env then (Some ENOMEM, info, mgr)
        else (case collect_pages env (addr AND NOT 4095) (nr_pages addr (of_nat (length buf))) of
                None \<Rightarrow> (Some EFAULT, info, mgr)
              | Some pages \<Rightarrow>
                  (case sg_alloc_table_from_pages env pages (addr AND 4095) (of_nat (length buf)) of
                     Inl e \<Rightarrow> (Some e, info, mgr)
                   | Inr sgt \<Rightarrow> fpga_mgr_buf_load_sg env mops info sgt mgr)))"

definition fpga_mgr_firmware_load ::
  "fpga_env \<Rightarrow> 'd fpga_manager_ops \<Rightarrow> fpga_image_info \<Rightarrow> string \<Rightarrow> 'd fpga_manager \<Rightarrow> 'd step" where
  "fpga_mgr_firmware_load env mops info image_name mgr =
     (case request_firmware env image_name of
        Inl e \<Rightarrow> (Some e, info, mgr\<lparr>mgr_state := FPGA_MGR_STATE_FIRMWARE_REQ_ERR\<rparr>)
      | Inr fw \<Rightarrow> fpga_mgr_buf_load env mops info fw (mgr\<lparr>mgr_state := FPGA_MGR_STATE_FIRMWARE_REQ\<rparr>))"

definition fpga_mgr_load ::
  "fpga_env \<Rightarrow> 'd fpga_manager_ops \<Rightarrow> fpga_image_info \<Rightarrow> 'd fpga_manager \<Rightarrow> 'd step" where
  "fpga_mgr_load env mops info mgr =
     (let info = info\<lparr>header_size := initial_header_size mops\<rparr>
      in case info_sgt info of
           Some sgt \<Rightarrow> fpga_mgr_buf_load_sg env mops info sgt mgr
         | None \<Rightarrow>
             (case info_buf info of
                Some (addr, b # bs) \<Rightarrow> fpga_mgr_buf_load env mops info (addr, b # bs) mgr
              | _ \<Rightarrow>
                  (case firmware_name info of
                     Some image_name \<Rightarrow> fpga_mgr_firmware_load env mops info image_name mgr
                   | None \<Rightarrow> (Some EINVAL, info, mgr))))"

end
