(* ===== verification/Fpga_Class.thy ===== *)
theory Fpga_Class
  imports Fpga_Mgr
begin

text \<open>
  Devices of the FPGA classes: managers, bridges and regions are created, found, referenced and
  released in the same way (\<^verbatim>\<open>fpga-mgr.c\<close>, \<^verbatim>\<open>fpga-bridge.c\<close>, \<^verbatim>\<open>fpga-region.c\<close>). A class holds its id
  allocator, the number of structures allocated and the device objects with their reference
  counts. The contract of a register function is a locale.
\<close>

section \<open>Classes and references\<close>

record 'o dev_obj =
  o_id :: int
  o_refs :: nat
  o_parent :: nat
  o_body :: 'o

record 'o dev_class =
  cl_ida :: "int set"
  cl_live :: int
  cl_objs :: "'o dev_obj list"
  cl_mods :: int       \<comment> \<open>module references taken on behalf of the users\<close>

record class_env =
  kzalloc_ok :: bool
  ida_alloc :: "int set \<Rightarrow> errno + int"
  dev_set_name :: "int \<Rightarrow> errno option"
  device_register :: "int \<Rightarrow> errno option"
  try_module_get :: "nat \<Rightarrow> bool"

definition ida_ok :: "class_env \<Rightarrow> bool" where
  "ida_ok env \<longleftrightarrow> (\<forall>used n. ida_alloc env used = Inr n \<longrightarrow> n \<notin> used)"

definition class_inv :: "'o dev_class \<Rightarrow> bool" where
  "class_inv cls \<longleftrightarrow> cl_ida cls = o_id ` set (cl_objs cls) \<and> distinct (map o_id (cl_objs cls)) \<and>
     cl_live cls = int (length (cl_objs cls)) \<and> (\<forall>x \<in> set (cl_objs cls). 0 < o_refs x)"

definition dev_release :: "int \<Rightarrow> 'o dev_class \<Rightarrow> 'o dev_class" where
  "dev_release n cls = cls\<lparr>cl_ida := cl_ida cls - {n}, cl_live := cl_live cls - 1,
     cl_objs := filter (\<lambda>x. o_id x \<noteq> n) (cl_objs cls)\<rparr>"

definition obj_at :: "'o dev_class \<Rightarrow> int \<Rightarrow> 'o dev_obj option" where
  "obj_at cls n = find (\<lambda>x. o_id x = n) (cl_objs cls)"

definition set_obj :: "int \<Rightarrow> ('o dev_obj \<Rightarrow> 'o dev_obj) \<Rightarrow> 'o dev_class \<Rightarrow> 'o dev_class" where
  "set_obj n f cls = cls\<lparr>cl_objs := map (\<lambda>x. if o_id x = n then f x else x) (cl_objs cls)\<rparr>"

definition get_device :: "int \<Rightarrow> 'o dev_class \<Rightarrow> 'o dev_class" where
  "get_device n cls = set_obj n (\<lambda>x. x\<lparr>o_refs := o_refs x + 1\<rparr>) cls"

definition put_device :: "int \<Rightarrow> 'o dev_class \<Rightarrow> 'o dev_class" where
  "put_device n cls =
     (case obj_at cls n of
        None \<Rightarrow> cls
      | Some x \<Rightarrow> if o_refs x \<le> 1 then dev_release n cls else set_obj n (\<lambda>x. x\<lparr>o_refs := o_refs x - 1\<rparr>) cls)"

text \<open>\<^verbatim>\<open>class_find_device\<close> by the parent device; the object found gets a reference.\<close>

definition class_find_device :: "nat \<Rightarrow> 'o dev_class \<Rightarrow> int option \<times> 'o dev_class" where
  "class_find_device parent cls =
     (case find (\<lambda>x. o_parent x = parent) (cl_objs cls) of
        None \<Rightarrow> (None, cls)
      | Some x \<Rightarrow> (Some (o_id x), get_device (o_id x) cls))"

text \<open>The tail shared by the register functions, from \<^verbatim>\<open>kzalloc\<close> on.\<close>

definition class_register :: "class_env \<Rightarrow> nat \<Rightarrow> 'o \<Rightarrow> 'o dev_class \<Rightarrow> (errno + int) \<times> 'o dev_class" where
  "class_register env parent body cls =
     (if \<not> kzalloc_ok env then (Inl ENOMEM, cls)
      else
        let cls = cls\<lparr>cl_live := cl_live cls + 1\<rparr>
        in (case ida_alloc env (cl_ida cls) of
             Inl e \<Rightarrow> (Inl e, cls\<lparr>cl_live := cl_live cls - 1\<rparr>)
           | Inr n \<Rightarrow>
               let cls = cls\<lparr>cl_ida := insert n (cl_ida cls)\<rparr>
               in (case dev_set_name env n of
                    Some e \<Rightarrow> (Inl e, cls\<lparr>cl_ida := cl_ida cls - {n}, cl_live := cl_live cls - 1\<rparr>)
                  | None \<Rightarrow>
                      let cls = cls\<lparr>cl_objs := \<lparr>o_id = n, o_refs = 1, o_parent = parent, o_body = body\<rparr> # cl_objs cls\<rparr>
                      in (case device_register env n of
                           Some e \<Rightarrow> (Inl e, put_device n cls)
                         | None \<Rightarrow> (Inr n, cls)))))"

definition device_unregister :: "int \<Rightarrow> 'o dev_class \<Rightarrow> 'o dev_class" where
  "device_unregister n cls = put_device n cls"

section \<open>The contract of a register function\<close>

locale device_class =
  fixes register :: "class_env \<Rightarrow> 'a \<Rightarrow> 'o dev_class \<Rightarrow> (errno + int) \<times> 'o dev_class"
    and parent_of :: "'a \<Rightarrow> nat"
  assumes register_err: "ida_ok env \<Longrightarrow> class_inv cls \<Longrightarrow> register env a cls = (Inl e, cls') \<Longrightarrow> cls' = cls"
    and register_new: "ida_ok env \<Longrightarrow> register env a cls = (Inr n, cls') \<Longrightarrow>
      n \<notin> cl_ida cls \<and> cl_ida cls' = insert n (cl_ida cls) \<and> cl_live cls' = cl_live cls + 1 \<and> cl_mods cls' = cl_mods cls \<and>
      (\<exists>x. cl_objs cls' = x # cl_objs cls \<and> o_id x = n \<and> o_refs x = 1 \<and> o_parent x = parent_of a)"
begin

lemma register_inv:
  assumes "ida_ok env" and "class_inv cls" and "register env a cls = (r, cls')"
  shows "class_inv cls'"
proof (cases r)
  case (Inl e)
  with register_err [OF assms(1,2)] assms(2,3) show ?thesis by blast
next
  case (Inr n)
  with register_new [OF assms(1)] assms(3) obtain x where
    "n \<notin> cl_ida cls" "cl_ida cls' = insert n (cl_ida cls)" "cl_live cls' = cl_live cls + 1"
    "cl_objs cls' = x # cl_objs cls" "o_id x = n" "o_refs x = 1" by metis
  with assms(2) show ?thesis by (auto simp: class_inv_def)
qed

text \<open>A device that nobody else references goes away with its registration, without a trace.\<close>

lemma register_unregister:
  assumes "ida_ok env" and "class_inv cls" and "register env a cls = (Inr n, cls')"
  shows "device_unregister n cls' = cls"
proof -
  obtain x where x: "n \<notin> cl_ida cls" "cl_ida cls' = insert n (cl_ida cls)" "cl_live cls' = cl_live cls + 1"
      "cl_mods cls' = cl_mods cls" "cl_objs cls' = x # cl_objs cls" "o_id x = n" "o_refs x = 1"
    using register_new [OF assms(1,3)] by blast
  have f: "filter (\<lambda>y. o_id y \<noteq> n) (cl_objs cls) = cl_objs cls"
    using x(1) assms(2) by (auto simp: class_inv_def filter_id_conv)
  have "put_device n cls' = dev_release n cls'" using x by (simp add: put_device_def obj_at_def)
  also have "\<dots> = cls"
    using x(1-6) f by (cases cls; cases cls') (simp add: dev_release_def)
  finally show ?thesis by (simp add: device_unregister_def)
qed

text \<open>Registering can be found by its parent as long as no older device has that parent.\<close>

lemma register_find:
  assumes "ida_ok env" and "register env a cls = (Inr n, cls')"
  shows "fst (class_find_device (parent_of a) cls') = Some n"
  using register_new [OF assms] by (auto simp: class_find_device_def)

end

lemma class_register_err:
  assumes "ida_ok env" and "class_inv cls" and "class_register env parent body cls = (Inl e, cls')"
  shows "cls' = cls"
proof -
  have new: "ida_alloc env (cl_ida cls) = Inr n \<Longrightarrow> n \<notin> cl_ida cls" for n using assms(1) by (simp add: ida_ok_def)
  have f: "n \<notin> cl_ida cls \<Longrightarrow> filter (\<lambda>y. o_id y \<noteq> n) (cl_objs cls) = cl_objs cls" for n
    using assms(2) by (auto simp: class_inv_def filter_id_conv)
  show ?thesis
    using assms(3)
    by (auto simp: class_register_def Let_def put_device_def obj_at_def dev_release_def new f
        split: if_splits sum.splits option.splits)
qed

lemma class_register_new:
  assumes "ida_ok env" and "class_register env parent body cls = (Inr n, cls')"
  shows "n \<notin> cl_ida cls \<and> cl_ida cls' = insert n (cl_ida cls) \<and> cl_live cls' = cl_live cls + 1 \<and> cl_mods cls' = cl_mods cls \<and>
    cl_objs cls' = \<lparr>o_id = n, o_refs = 1, o_parent = parent, o_body = body\<rparr> # cl_objs cls"
  using assms by (auto simp: class_register_def Let_def ida_ok_def split: if_splits sum.splits option.splits)

section \<open>References keep objects\<close>

lemma find_id:
  "distinct (map o_id xs) \<Longrightarrow> x \<in> set xs \<Longrightarrow> find (\<lambda>y. o_id y = o_id x) xs = Some x"
  by (induction xs) (auto simp: image_iff)

lemma set_obj_ids:
  assumes "\<And>x. o_id (f x) = o_id x"
  shows "map o_id (cl_objs (set_obj n f cls)) = map o_id (cl_objs cls)"
  by (simp add: set_obj_def assms)

lemma set_obj_inv:
  assumes "class_inv cls" and "\<And>x. o_id (f x) = o_id x"
    and "\<And>x. x \<in> set (cl_objs cls) \<Longrightarrow> o_id x = n \<Longrightarrow> 0 < o_refs (f x)"
  shows "class_inv (set_obj n f cls)"
proof -
  note ids = set_obj_ids [where n = n and cls = cls, OF assms(2)]
  from arg_cong [OF ids, of set] have "o_id ` set (cl_objs (set_obj n f cls)) = o_id ` set (cl_objs cls)" by simp
  moreover have "cl_ida (set_obj n f cls) = cl_ida cls" "cl_live (set_obj n f cls) = cl_live cls"
    "length (cl_objs (set_obj n f cls)) = length (cl_objs cls)" by (simp_all add: set_obj_def)
  moreover have "\<forall>x \<in> set (cl_objs (set_obj n f cls)). 0 < o_refs x"
    using assms(1,3) by (auto simp: set_obj_def class_inv_def)
  ultimately show ?thesis using assms(1) ids unfolding class_inv_def by metis
qed

lemma get_device_inv: "class_inv cls \<Longrightarrow> class_inv (get_device n cls)"
  unfolding get_device_def by (rule set_obj_inv) auto

lemma put_device_inv:
  assumes "class_inv cls"
  shows "class_inv (put_device n cls)"
proof (cases "obj_at cls n")
  case (Some x)
  then have x: "x \<in> set (cl_objs cls)" "o_id x = n" by (auto simp: obj_at_def find_Some_iff)
  have uniq: "y = x" if "y \<in> set (cl_objs cls)" "o_id y = n" for y
    using assms x that by (auto simp: class_inv_def distinct_map inj_on_def)
  show ?thesis
  proof (cases "o_refs x \<le> 1")
    case True
    have "length (filter (\<lambda>y. o_id y \<noteq> n) xs) + 1 = length xs"
      if "distinct (map o_id xs)" "n \<in> o_id ` set xs" for xs :: "'a dev_obj list"
      using that
    proof (induction xs)
      case (Cons y ys)
      show ?case
      proof (cases "o_id y = n")
        case True
        with Cons.prems have "n \<notin> o_id ` set ys" by auto
        then have "filter (\<lambda>y. o_id y \<noteq> n) ys = ys" by (intro filter_True) blast
        with True show ?thesis by simp
      qed (use Cons in auto)
    qed simp
    from this [of "cl_objs cls"] x assms True Some show ?thesis
      by (auto simp: put_device_def dev_release_def class_inv_def distinct_map inj_on_def)
  next
    case False
    then have "class_inv (set_obj n (\<lambda>y. y\<lparr>o_refs := o_refs y - 1\<rparr>) cls)"
      by (intro set_obj_inv [OF assms]) (auto dest: uniq)
    with False Some show ?thesis by (simp add: put_device_def)
  qed
qed (use assms in \<open>simp add: put_device_def\<close>)

text \<open>Taking and giving back a reference is without effect, whatever the count.\<close>

lemma put_get_device:
  assumes "class_inv cls" and "n \<in> cl_ida cls"
  shows "put_device n (get_device n cls) = cls"
proof -
  obtain x where x: "x \<in> set (cl_objs cls)" "o_id x = n" using assms by (auto simp: class_inv_def)
  have "obj_at (get_device n cls) n = Some (x\<lparr>o_refs := o_refs x + 1\<rparr>)"
  proof -
    have "find (\<lambda>y. o_id y = n) (map (\<lambda>y. if o_id y = n then y\<lparr>o_refs := Suc (o_refs y)\<rparr> else y) ys) =
        map_option (\<lambda>y. y\<lparr>o_refs := Suc (o_refs y)\<rparr>) (find (\<lambda>y. o_id y = n) ys)" for ys :: "'a dev_obj list"
      by (induction ys) auto
    moreover have "find (\<lambda>y. o_id y = n) (cl_objs cls) = Some x"
      using find_id [OF _ x(1)] x(2) assms(1) by (simp add: class_inv_def)
    ultimately show ?thesis by (simp add: obj_at_def get_device_def set_obj_def)
  qed
  moreover have "0 < o_refs x" using assms(1) x(1) by (simp add: class_inv_def)
  moreover have "map ((\<lambda>y. if o_id y = n then y\<lparr>o_refs := o_refs y - Suc 0\<rparr> else y) \<circ>
      (\<lambda>y. if o_id y = n then y\<lparr>o_refs := Suc (o_refs y)\<rparr> else y)) (cl_objs cls) = cl_objs cls"
    by (rule map_idI) auto
  ultimately show ?thesis by (simp add: put_device_def get_device_def set_obj_def)
qed

section \<open>Managers\<close>

record 'd fpga_manager_info =
  mi_name :: "string option"
  mi_mops :: "'d fpga_manager_ops option"
  mi_parent :: nat

record 'd fpga_mgr_dev =
  md_name :: string
  md_mops :: "'d fpga_manager_ops"
  md_state :: fpga_mgr_states
  md_locked :: bool

text \<open>The state of the device \<open>d\<close> is read while the manager is registered.\<close>

definition fpga_mgr_register_full ::
  "'d \<Rightarrow> class_env \<Rightarrow> 'd fpga_manager_info \<Rightarrow> 'd fpga_mgr_dev dev_class \<Rightarrow> (errno + int) \<times> 'd fpga_mgr_dev dev_class" where
  "fpga_mgr_register_full d env info cls =
     (case (mi_mops info, mi_name info) of
        (Some mops, Some (c # cs)) \<Rightarrow>
          class_register env (mi_parent info)
            \<lparr>md_name = c # cs, md_mops = mops, md_state = fpga_mgr_state mops d, md_locked = False\<rparr> cls
      | _ \<Rightarrow> (Inl EINVAL, cls))"

definition fpga_mgr_register ::
  "'d \<Rightarrow> class_env \<Rightarrow> nat \<Rightarrow> string option \<Rightarrow> 'd fpga_manager_ops option \<Rightarrow> 'd fpga_mgr_dev dev_class
     \<Rightarrow> (errno + int) \<times> 'd fpga_mgr_dev dev_class" where
  "fpga_mgr_register d env parent nm mops cls =
     fpga_mgr_register_full d env \<lparr>mi_name = nm, mi_mops = mops, mi_parent = parent\<rparr> cls"

interpretation mgr_class: device_class "fpga_mgr_register_full d" mi_parent for d
proof
  show "cls' = cls" if "ida_ok env" "class_inv cls" "fpga_mgr_register_full d env a cls = (Inl e, cls')" for env cls a e cls'
    using that class_register_err [OF that(1,2)] by (auto simp: fpga_mgr_register_full_def split: option.splits list.splits)
next
  fix env a cls n and cls' :: "'a fpga_mgr_dev dev_class"
  assume "ida_ok env" "fpga_mgr_register_full d env a cls = (Inr n, cls')"
  then show "n \<notin> cl_ida cls \<and> cl_ida cls' = insert n (cl_ida cls) \<and> cl_live cls' = cl_live cls + 1 \<and> cl_mods cls' = cl_mods cls \<and>
      (\<exists>x. cl_objs cls' = x # cl_objs cls \<and> o_id x = n \<and> o_refs x = 1 \<and> o_parent x = mi_parent a)"
    by (auto simp: fpga_mgr_register_full_def split: option.splits list.splits dest!: class_register_new)
qed

definition fpga_mgr_unregister :: "int \<Rightarrow> 'd \<Rightarrow> 'd fpga_mgr_dev dev_class \<Rightarrow> 'd \<times> 'd fpga_mgr_dev dev_class" where
  "fpga_mgr_unregister n d cls =
     (case obj_at cls n of None \<Rightarrow> (d, cls)
      | Some x \<Rightarrow> (fpga_mgr_fpga_remove (md_mops (o_body x)) d, device_unregister n cls))"

definition fpga_mgr_get :: "class_env \<Rightarrow> nat \<Rightarrow> 'd fpga_mgr_dev dev_class \<Rightarrow> (errno + int) \<times> 'd fpga_mgr_dev dev_class" where
  "fpga_mgr_get env parent cls =
     (case class_find_device parent cls of
        (None, cls) \<Rightarrow> (Inl ENODEV, cls)
      | (Some n, cls) \<Rightarrow>
          if \<not> try_module_get env parent then (Inl ENODEV, put_device n cls)
          else (Inr n, cls\<lparr>cl_mods := cl_mods cls + 1\<rparr>))"

definition fpga_mgr_put :: "int \<Rightarrow> 'd fpga_mgr_dev dev_class \<Rightarrow> 'd fpga_mgr_dev dev_class" where
  "fpga_mgr_put n cls = put_device n (cls\<lparr>cl_mods := cl_mods cls - 1\<rparr>)"

definition set_locked :: "bool \<Rightarrow> int \<Rightarrow> 'd fpga_mgr_dev dev_class \<Rightarrow> 'd fpga_mgr_dev dev_class" where
  "set_locked b n cls = set_obj n (\<lambda>x. x\<lparr>o_body := (o_body x)\<lparr>md_locked := b\<rparr>\<rparr>) cls"

definition fpga_mgr_lock :: "int \<Rightarrow> 'd fpga_mgr_dev dev_class \<Rightarrow> 'd fpga_mgr_dev dev_class ret" where
  "fpga_mgr_lock n cls =
     (case obj_at cls n of
        Some x \<Rightarrow> if md_locked (o_body x) then (Some EBUSY, cls) else (None, set_locked True n cls)
      | None \<Rightarrow> (Some EBUSY, cls))"

definition fpga_mgr_unlock :: "int \<Rightarrow> 'd fpga_mgr_dev dev_class \<Rightarrow> 'd fpga_mgr_dev dev_class" where
  "fpga_mgr_unlock n cls = set_locked False n cls"

text \<open>Users of managers, in any interleaving: the allocator, the structures and the references always agree.\<close>

inductive mgr_step :: "'d fpga_mgr_dev dev_class \<Rightarrow> 'd fpga_mgr_dev dev_class \<Rightarrow> bool" where
  registers: "ida_ok env \<Longrightarrow> fpga_mgr_register_full d env info cls = (r, cls') \<Longrightarrow> mgr_step cls cls'"
| unregisters: "mgr_step cls (snd (fpga_mgr_unregister n d cls))"
| gets: "mgr_step cls (snd (fpga_mgr_get env parent cls))"
| puts: "mgr_step cls (fpga_mgr_put n cls)"
| locks: "mgr_step cls (snd (fpga_mgr_lock n cls))"
| unlocks: "mgr_step cls (fpga_mgr_unlock n cls)"

lemma class_inv_mods [simp]: "class_inv (cls\<lparr>cl_mods := m\<rparr>) \<longleftrightarrow> class_inv cls"
  by (simp add: class_inv_def)

lemma set_locked_inv: "class_inv cls \<Longrightarrow> class_inv (set_locked b n cls)"
  unfolding set_locked_def by (rule set_obj_inv) (auto simp: class_inv_def)

lemma mgr_step_inv: "mgr_step cls cls' \<Longrightarrow> class_inv cls \<Longrightarrow> class_inv cls'"
proof (induction rule: mgr_step.induct)
  case (registers env d info cls r cls')
  from mgr_class.register_inv [OF registers(1) registers(3) registers(2)] show ?case .
next
  case (unregisters cls n d)
  then show ?case by (auto simp: fpga_mgr_unregister_def device_unregister_def put_device_inv split: option.splits)
next
  case (gets cls env parent)
  then show ?case
    by (auto simp: fpga_mgr_get_def class_find_device_def get_device_inv put_device_inv split: option.splits)
next
  case (puts cls n)
  then show ?case by (simp add: fpga_mgr_put_def put_device_inv)
next
  case (locks cls n)
  then show ?case by (auto simp: fpga_mgr_lock_def set_locked_inv split: option.splits)
qed (simp add: fpga_mgr_unlock_def set_locked_inv)

section \<open>What user space sees\<close>

fun state_str :: "fpga_mgr_states \<Rightarrow> string" where
  "state_str FPGA_MGR_STATE_UNKNOWN = ''unknown''"
| "state_str FPGA_MGR_STATE_POWER_OFF = ''power off''"
| "state_str FPGA_MGR_STATE_POWER_UP = ''power up''"
| "state_str FPGA_MGR_STATE_RESET = ''reset''"
| "state_str FPGA_MGR_STATE_FIRMWARE_REQ = ''firmware request''"
| "state_str FPGA_MGR_STATE_FIRMWARE_REQ_ERR = ''firmware request error''"
| "state_str FPGA_MGR_STATE_PARSE_HEADER = ''parse header''"
| "state_str FPGA_MGR_STATE_PARSE_HEADER_ERR = ''parse header error''"
| "state_str FPGA_MGR_STATE_WRITE_INIT = ''write init''"
| "state_str FPGA_MGR_STATE_WRITE_INIT_ERR = ''write init error''"
| "state_str FPGA_MGR_STATE_WRITE = ''write''"
| "state_str FPGA_MGR_STATE_WRITE_ERR = ''write error''"
| "state_str FPGA_MGR_STATE_WRITE_COMPLETE = ''write complete''"
| "state_str FPGA_MGR_STATE_WRITE_COMPLETE_ERR = ''write complete error''"
| "state_str FPGA_MGR_STATE_OPERATING = ''operating''"

text \<open>The lines of \<^verbatim>\<open>status_show\<close>, each ended by a newline.\<close>

definition status_lines :: "u64 \<Rightarrow> string list" where
  "status_lines status =
     (if bit status 0 then [''reconfig operation error''] else []) @
     (if bit status 1 then [''reconfig CRC error''] else []) @
     (if bit status 2 then [''reconfig incompatible image''] else []) @
     (if bit status 3 then [''reconfig IP protocol error''] else []) @
     (if bit status 4 then [''reconfig fifo overflow error''] else [])"

text \<open>The text shown tells every state apart.\<close>

lemma state_str_inj: "state_str a = state_str b \<longleftrightarrow> a = b"
  by (cases a; cases b; simp)

end
