(* ===== verification/Fpga_Mgr_Props.thy ===== *)
theory Fpga_Mgr_Props
  imports Fpga_Mgr "HOL-Library.Sublist"
begin

text \<open>
  What loading an image does: the states it ends in, and the bytes the driver is given, the same
  for a scatter list and a contiguous buffer.
\<close>

section \<open>The bytes of an image\<close>

definition image_data :: "'d fpga_manager_ops \<Rightarrow> fpga_image_info \<Rightarrow> bytes \<Rightarrow> bytes" where
  "image_data mops info img =
     (let bs = (if skip_header mops then drop (unat (header_size info)) img else img)
      in if data_size info \<noteq> 0 then take (unat (data_size info)) bs else bs)"

definition image_of :: "fpga_env \<Rightarrow> fpga_image_info \<Rightarrow> bytes option" where
  "image_of env info =
     (case info_sgt info of
        Some sgt \<Rightarrow> Some (concat sgt)
      | None \<Rightarrow>
          (case info_buf info of
             Some (addr, b # bs) \<Rightarrow> Some (b # bs)
           | _ \<Rightarrow>
               (case firmware_name info of
                  Some nm \<Rightarrow> (case request_firmware env nm of Inr (addr, bs) \<Rightarrow> Some bs | Inl e \<Rightarrow> None)
                | None \<Rightarrow> None)))"

text \<open>A sequence of successful writes.\<close>

fun write_chunks :: "'d fpga_manager_ops \<Rightarrow> bytes list \<Rightarrow> 'd \<Rightarrow> 'd option" where
  "write_chunks mops [] d = Some d"
| "write_chunks mops (c # cs) d =
     (case fpga_mgr_write mops c d of (Some e, d) \<Rightarrow> None | (None, d) \<Rightarrow> write_chunks mops cs d)"

text \<open>The header was parsed and the device prepared, each from a beginning of the image, the second
  from one that holds the whole header.\<close>

definition prepared :: "'d fpga_manager_ops \<Rightarrow> bytes \<Rightarrow> fpga_image_info \<Rightarrow> 'd \<Rightarrow> bool" where
  "prepared mops img info' d' \<longleftrightarrow>
     (\<exists>info0 b0 d0 info1 d1 b1. prefix b0 img \<and> fpga_mgr_parse_header mops info0 b0 d0 = (None, info1, d1) \<and>
        prefix b1 img \<and> unat (header_size info1) \<le> length b1 \<and>
        fpga_mgr_write_init mops info1 b1 d1 = (None, info', d'))"

lemma sg_miter_skip_drop: "sg_miter_skip sgt n = Some frags \<Longrightarrow> concat frags = drop n (concat sgt)"
proof (induction sgt n rule: sg_miter_skip.induct)
  case (3 frag sgt n)
  then show ?case by (auto split: if_splits)
qed auto

lemma unat_frag: "n < 2 ^ 64 \<Longrightarrow> unat (of_nat n :: u64) = n"
  by (simp add: unat_of_nat take_bit_nat_eq_self)

lemma write_fragments_exact:
  assumes "write_fragments mops dsize cnt frags d = (None, d')"
    and "unat cnt + length (concat frags) < 2 ^ 64" and "dsize \<noteq> 0 \<longrightarrow> cnt < dsize"
  shows "\<exists>cs. write_chunks mops cs d = Some d' \<and>
     concat cs = (if dsize \<noteq> 0 then take (unat dsize - unat cnt) (concat frags) else concat frags)"
  using assms
proof (induction mops dsize cnt frags d rule: write_fragments.induct)
  case (1 mops dsize cnt d)
  then show ?case by (auto intro: exI [of _ "[]"])
next
  case (2 mops dsize cnt frag frags d)
  define len where "len = (if dsize \<noteq> 0 then min (of_nat (length frag)) (dsize - cnt) else of_nat (length frag))"
  have fl: "unat (of_nat (length frag) :: u64) = length frag" using "2.prems"(2) by (intro unat_frag) simp
  have ul: "unat len = (if dsize \<noteq> 0 then min (length frag) (unat dsize - unat cnt) else length frag)"
  proof (cases "dsize = 0")
    case False
    then have "unat (dsize - cnt) = unat dsize - unat cnt" using "2.prems"(3) by (simp add: unat_sub)
    with False show ?thesis by (simp add: len_def min_def fl word_le_nat_alt)
  qed (simp add: len_def fl)
  have uc: "unat (cnt + len) = unat cnt + unat len"
    by (rule unat_add_lem [THEN iffD1]) (use ul "2.prems"(2) in auto)
  obtain r d1 where w: "fpga_mgr_write mops (take (unat len) frag) d = (r, d1)" by fastforce
  have step: "(case fpga_mgr_write mops (take (unat len) frag) d of
           (Some e, d) \<Rightarrow> (Some e, d)
         | (None, d) \<Rightarrow>
             if dsize \<noteq> 0 \<and> cnt + len \<ge> dsize then (None, d) else write_fragments mops dsize (cnt + len) frags d) =
      (None, d')"
    using "2.prems"(1) by (simp only: write_fragments.simps Let_def len_def)
  have r: "r = None" using step w by (cases r) auto
  show ?case
  proof (cases "dsize \<noteq> 0 \<and> cnt + len \<ge> dsize")
    case True
    then have d1: "d1 = d'" using step w r by simp
    have "unat dsize \<le> unat cnt + unat len" using True uc by (simp add: word_le_nat_alt)
    with ul True have "unat dsize - unat cnt \<le> length frag" "unat len = unat dsize - unat cnt" by auto
    then have "write_chunks mops [take (unat len) frag] d = Some d' \<and>
        concat [take (unat len) frag] = take (unat dsize - unat cnt) (concat (frag # frags))"
      using w r d1 by simp
    then show ?thesis using True by (intro exI [of _ "[take (unat len) frag]"]) (simp only: not_False_eq_True if_True)
  next
    case False
    then have run: "write_fragments mops dsize (cnt + len) frags d1 = (None, d')"
      using step w r by (simp only: option.case prod.case if_False)
    have whole: "unat len = length frag"
    proof (cases "dsize \<noteq> 0")
      case True
      with False have "unat cnt + unat len < unat dsize" using uc by (simp add: word_less_nat_alt not_le)
      with ul True show ?thesis by auto
    qed (use ul in simp)
    have "\<exists>cs. write_chunks mops cs d1 = Some d' \<and>
        concat cs = (if dsize \<noteq> 0 then take (unat dsize - unat (cnt + len)) (concat frags) else concat frags)"
      by (rule "2.IH" [OF len_def w [symmetric, unfolded r] refl _ run])
        (use False "2.prems"(2) uc whole in auto)
    then obtain cs where cs: "write_chunks mops cs d1 = Some d'"
      "concat cs = (if dsize \<noteq> 0 then take (unat dsize - unat (cnt + len)) (concat frags) else concat frags)" by blast
    then have "write_chunks mops (frag # cs) d = Some d'" using w r whole by simp
    moreover have "concat (frag # cs) =
        (if dsize \<noteq> 0 then take (unat dsize - unat cnt) (concat (frag # frags)) else concat (frag # frags))"
      using cs(2) uc whole False by (auto simp: not_le word_less_nat_alt)
    ultimately show ?thesis by blast
  qed
qed

section \<open>Each step\<close>

lemma write_sgt_exact:
  assumes "write_sgt mops info sgt d = (None, d')" and "op_write_sg mops = None" and "length (concat sgt) < 2 ^ 64"
  shows "\<exists>cs. write_chunks mops cs d = Some d' \<and> concat cs = image_data mops info (concat sgt)"
proof -
  obtain frags where f: "(if skip_header mops then sg_miter_skip sgt (unat (header_size info)) else Some sgt) = Some frags"
      "write_fragments mops (data_size info) 0 frags d = (None, d')"
    using assms(1,2) by (auto simp: write_sgt_def split: option.splits if_splits)
  have c: "concat frags = (if skip_header mops then drop (unat (header_size info)) (concat sgt) else concat sgt)"
    using f(1) by (auto split: if_splits dest: sg_miter_skip_drop)
  then have "length (concat frags) < 2 ^ 64" using assms(3) by (auto split: if_splits)
  from write_fragments_exact [OF f(2)] this
  show ?thesis unfolding image_data_def Let_def c [symmetric] by (auto simp: word_greater_zero_iff)
qed

lemma write_init_buf_exact:
  assumes "fpga_mgr_write_init_buf mops info buf mgr = (None, info', mgr')" and "length buf < 2 ^ 64"
  shows "\<exists>b. prefix b buf \<and> unat (header_size info) \<le> length b \<and>
      fpga_mgr_write_init mops info b (drv mgr) = (None, info', drv mgr')"
proof (cases "header_size info = 0")
  case True
  with assms(1) have "fpga_mgr_write_init mops info [] (drv mgr) = (None, info', drv mgr')"
    by (auto simp: fpga_mgr_write_init_buf_def Let_def split: prod.splits)
  with True show ?thesis by (intro exI [of _ "[]"]) simp
next
  case False
  have "\<not> header_size info > of_nat (length buf)" using assms(1) by (auto simp: fpga_mgr_write_init_buf_def)
  then have le: "unat (header_size info) \<le> length buf" by (simp add: word_less_nat_alt unat_frag [OF assms(2)])
  have "fpga_mgr_write_init mops info buf (drv mgr) = (None, info', drv mgr')"
    using assms(1) False by (auto simp: fpga_mgr_write_init_buf_def Let_def split: prod.splits if_splits)
  with le show ?thesis by (intro exI [of _ buf]) simp
qed

lemma prepared_by:
  assumes "fpga_mgr_write_init_buf mops info1 buf mgr = (None, info', mgr')" and "length img < 2 ^ 64"
    and "prefix buf img" and "fpga_mgr_parse_header mops info0 b0 d0 = (None, info1, drv mgr)" and "prefix b0 img"
  shows "prepared mops img info' (drv mgr')"
proof -
  have "length buf < 2 ^ 64" using assms(2,3) prefix_length_le by fastforce
  from write_init_buf_exact [OF assms(1) this] obtain b where
    "prefix b buf" "unat (header_size info1) \<le> length b" "fpga_mgr_write_init mops info1 b (drv mgr) = (None, info', drv mgr')"
    by blast
  with assms(3-5) show ?thesis unfolding prepared_def by (blast intro: prefix_order.trans)
qed

lemma parse_header_sg_loop_exact:
  assumes "parse_header_sg_loop env mops sgt info buf hsize d = (Inr buf', info', d')"
    and "buf = take (unat hsize) (concat sgt)" and "unat hsize \<le> length (concat sgt)"
  shows "prefix buf' (concat sgt) \<and> (\<exists>info0 d0. fpga_mgr_parse_header mops info0 buf' d0 = (None, info', d'))"
  using assms
proof (induction env mops sgt info buf hsize d rule: parse_header_sg_loop.induct)
  case (1 env mops sgt info buf hsize d)
  define new where "new = header_size info"
  define more where "more = sg_pcopy_to_buffer sgt (new - hsize) hsize"
  note run = "1.prems"(1) [unfolded parse_header_sg_loop.simps [of _ _ _ info] Let_def, folded new_def, folded more_def]
  have ok: "\<not> new \<le> hsize" "krealloc_ok env new" "length more = unat (new - hsize)" using run by (auto split: if_splits)
  note cp = sg_pcopy_complete [of hsize new sgt, folded more_def, OF _ ok(3)]
  have lt: "hsize < new" using ok(1) by simp
  then have le: "unat hsize \<le> unat new" by (simp add: word_less_nat_alt)
  have more: "more = drop (unat hsize) (take (unat new) (concat sgt))" and len: "unat new \<le> length (concat sgt)" using cp lt by auto
  have buf: "buf @ more = take (unat new) (concat sgt)"
    using "1.prems"(2) le more by (metis append_take_drop_id min.absorb1 take_take)
  obtain r info1 d1 where p: "fpga_mgr_parse_header mops info (buf @ more) d = (r, info1, d1)" using prod_cases3 by blast
  show ?case
  proof (cases r)
    case None
    with run ok p have "buf' = buf @ more" "info' = info1" "d' = d1" by auto
    with p None show ?thesis unfolding buf by (auto simp: take_is_prefix)
  next
    case (Some e)
    with run ok p have e: "e = EAGAIN" "parse_header_sg_loop env mops sgt info1 (buf @ more) new d1 = (Inr buf', info', d')"
      by (auto split: if_splits)
    show ?thesis
      by (rule "1.IH" [OF new_def _ _ more_def _ p [symmetric, unfolded Some] refl refl e(1) e(2) buf len]) (use ok in auto)
  qed
qed

lemma prepare_copied_exact:
  assumes "prepare_copied env mops info sgt mgr = (None, info', mgr')" and "length (concat sgt) < 2 ^ 64"
  shows "prepared mops (concat sgt) info' (drv mgr')"
proof -
  obtain buf info1 mgr1 where p: "fpga_mgr_parse_header_sg env mops info sgt mgr = (Inr buf, info1, mgr1)"
      "fpga_mgr_write_init_buf mops info1 buf mgr1 = (None, info', mgr')"
    using assms(1) by (auto simp: prepare_copied_def split: prod.splits sum.splits)
  then have "parse_header_sg_loop env mops sgt info [] 0 (drv mgr) = (Inr buf, info1, drv mgr1)"
    by (auto simp: fpga_mgr_parse_header_sg_def split: prod.splits sum.splits)
  from parse_header_sg_loop_exact [OF this] obtain info0 d0 where
    "prefix buf (concat sgt)" "fpga_mgr_parse_header mops info0 buf d0 = (None, info1, drv mgr1)" by auto
  with prepared_by [OF p(2) assms(2)] show ?thesis by blast
qed

lemma prepare_sg_exact:
  assumes "fpga_mgr_prepare_sg env mops info sgt mgr = (None, info', mgr')" and "length (concat sgt) < 2 ^ 64"
  shows "prepared mops (concat sgt) info' (drv mgr')"
proof (cases "initial_header_size mops = 0 \<and> op_parse_header mops = None")
  case True
  then have "fpga_mgr_parse_header mops info [] (drv mgr) = (None, info, drv mgr)"
    "fpga_mgr_write_init_buf mops info [] mgr = (None, info', mgr')"
    using assms(1) by (auto simp: fpga_mgr_parse_header_def fpga_mgr_prepare_sg_def)
  from prepared_by [OF this(2) assms(2) _ this(1)] show ?thesis by simp
next
  case False
  obtain r info1 mgr1 where f: "fpga_mgr_parse_header_sg_first mops info sgt mgr = (r, info1, mgr1)" using prod_cases3 by blast
  show ?thesis
  proof (cases "r = None \<and> sgt \<noteq> []")
    case True
    then obtain frag frags where s: "sgt = frag # frags" by (cases sgt) auto
    have w: "fpga_mgr_write_init_buf mops info1 frag mgr1 = (None, info', mgr')"
      using assms(1) f True s False by (auto simp: fpga_mgr_prepare_sg_def)
    have "fpga_mgr_parse_header mops info frag (drv mgr) = (None, info1, drv mgr1)"
      using f True s by (auto simp: fpga_mgr_parse_header_sg_first_def Let_def split: if_splits prod.splits)
    with prepared_by [OF w assms(2)] s show ?thesis by auto
  next
    case c: False
    then have "prepare_copied env mops info1 sgt mgr1 = (None, info', mgr')"
      using assms(1) f False
      by (cases r; cases sgt) (auto simp: fpga_mgr_prepare_sg_def split: if_splits)
    from prepare_copied_exact [OF this assms(2)] show ?thesis .
  qed
qed

section \<open>A whole load\<close>

definition streamed :: "'d fpga_manager_ops \<Rightarrow> bytes \<Rightarrow> fpga_image_info \<Rightarrow> 'd \<Rightarrow> bool" where
  "streamed mops img info' d' \<longleftrightarrow>
     (\<exists>d0 chunks d1. prepared mops img info' d0 \<and> write_chunks mops chunks d0 = Some d1 \<and>
        concat chunks = image_data mops info' img \<and> call_write_complete mops info' d1 = (None, d'))"

lemma write_complete_ok:
  "fpga_mgr_write_complete mops info mgr = (None, mgr') \<Longrightarrow>
     call_write_complete mops info (drv mgr) = (None, drv mgr') \<and> mgr_state mgr' = FPGA_MGR_STATE_OPERATING"
  by (auto simp: fpga_mgr_write_complete_def split: prod.splits option.splits)

lemma buf_load_sg_exact:
  assumes "fpga_mgr_buf_load_sg env mops info sgt mgr = (None, info', mgr')" and "op_write_sg mops = None"
    and "length (concat sgt) < 2 ^ 64"
  shows "streamed mops (concat sgt) info' (drv mgr')"
proof -
  obtain r info1 mgr1 where p: "fpga_mgr_prepare_sg env mops info sgt mgr = (r, info1, mgr1)" using prod_cases3 by blast
  obtain rw d1 where w: "write_sgt mops info1 sgt (drv mgr1) = (rw, d1)" by fastforce
  have ok: "r = None" "rw = None" "info' = info1"
    "fpga_mgr_write_complete mops info1 (mgr1\<lparr>drv := d1, mgr_state := FPGA_MGR_STATE_WRITE\<rparr>) = (None, mgr')"
    using assms(1) p w by (auto simp: fpga_mgr_buf_load_sg_def split: option.splits prod.splits)
  from write_sgt_exact [OF w [unfolded ok(2)] assms(2,3)] prepare_sg_exact [OF p [unfolded ok(1)] assms(3)]
    write_complete_ok [OF ok(4)] ok(3)
  show ?thesis unfolding streamed_def by auto
qed

lemma mapped_slice:
  assumes "length buf < 2 ^ 64"
  shows "take (unat (mapped_count mops info (of_nat (length buf)))) (drop (unat (mapped_start mops info)) buf) = image_data mops info buf"
proof (cases "data_size info = 0 \<and> skip_header mops")
  case True
  show ?thesis
  proof (cases "unat (header_size info) \<le> length buf")
    case le: True
    then have "header_size info \<le> of_nat (length buf)" by (simp add: word_le_nat_alt unat_frag [OF assms])
    then have "unat (of_nat (length buf) - header_size info) = length buf - unat (header_size info)"
      by (simp add: unat_sub unat_frag [OF assms])
    then show ?thesis using True by (simp add: mapped_count_def mapped_start_def image_data_def)
  qed (use True in \<open>simp add: mapped_start_def image_data_def\<close>)
qed (auto simp: mapped_count_def mapped_start_def image_data_def unat_frag [OF assms] Let_def)

lemma load_cases:
  assumes "fpga_mgr_load env mops info mgr = (r, info', mgr')"
  obtains (sg) sgt info1 where "info_sgt info = Some sgt" "fpga_mgr_buf_load_sg env mops info1 sgt mgr = (r, info', mgr')"
      "info1 = info\<lparr>header_size := initial_header_size mops\<rparr>"
  | (buf) addr b bs info1 where "info_sgt info = None" "info_buf info = Some (addr, b # bs)"
      "fpga_mgr_buf_load env mops info1 (addr, b # bs) mgr = (r, info', mgr')"
      "info1 = info\<lparr>header_size := initial_header_size mops\<rparr>"
  | (fw) nm info1 where "info_sgt info = None" "\<nexists>addr b bs. info_buf info = Some (addr, b # bs)" "firmware_name info = Some nm"
      "fpga_mgr_firmware_load env mops info1 nm mgr = (r, info', mgr')"
      "info1 = info\<lparr>header_size := initial_header_size mops\<rparr>"
  | (no_image) "r = Some EINVAL" "mgr' = mgr" "image_of env info = None"
proof (cases "info_sgt info")
  case None
  note n = None
  show ?thesis
  proof (cases "\<exists>addr b bs. info_buf info = Some (addr, b # bs)")
    case True
    with assms None buf show ?thesis by (auto simp: fpga_mgr_load_def)
  next
    case False
    then have "info_buf info = None \<or> (\<exists>addr. info_buf info = Some (addr, []))"
      by (metis neq_Nil_conv not_None_eq prod.collapse)
    with assms None False show ?thesis
      by (cases "firmware_name info") (auto simp: fpga_mgr_load_def image_of_def intro: fw no_image)
  qed
qed (use assms sg in \<open>auto simp: fpga_mgr_load_def\<close>)

section \<open>The calls of a load\<close>

text \<open>
  The calls that a driver sees, from one state of the image information and of the device to another: its
  parser asks for more of the header, takes it, refuses it; the device gets ready or not; and it is given
  the data, or refuses some.
\<close>

type_synonym 'd dev_state = "fpga_image_info \<times> 'd"

definition asks_more :: "'d fpga_manager_ops \<Rightarrow> 'd dev_state \<Rightarrow> 'd dev_state \<Rightarrow> bool" where
  "asks_more mops s s' \<longleftrightarrow> (\<exists>b. fpga_mgr_parse_header mops (fst s) b (snd s) = (Some EAGAIN, s'))"

definition header_parsed :: "'d fpga_manager_ops \<Rightarrow> 'd dev_state \<Rightarrow> 'd dev_state \<Rightarrow> bool" where
  "header_parsed mops s s' \<longleftrightarrow>
     (\<exists>s1 b. (asks_more mops)\<^sup>*\<^sup>* s s1 \<and> fpga_mgr_parse_header mops (fst s1) b (snd s1) = (None, s'))"

text \<open>The parser failed, or the sizes it found are beyond the image, or the header could not be copied.\<close>

definition parse_refused ::
  "fpga_env \<Rightarrow> 'd fpga_manager_ops \<Rightarrow> bytes option \<Rightarrow> errno \<Rightarrow> 'd dev_state \<Rightarrow> 'd dev_state \<Rightarrow> bool" where
  "parse_refused env mops img e s s' \<longleftrightarrow>
     (\<exists>s1. (asks_more mops)\<^sup>*\<^sup>* s s1 \<and>
        ((\<exists>b r. fpga_mgr_parse_header mops (fst s1) b (snd s1) = (r, s') \<and>
            (r = Some e \<or>
             e = EINVAL \<and> (\<exists>bs. img = Some bs \<and> header_size (fst s') + data_size (fst s') > of_nat (length bs)))) \<or>
         s' = s1 \<and> (e = EFAULT \<or> e = ENOMEM \<and> \<not> krealloc_ok env (header_size (fst s')))))"

definition device_ready :: "'d fpga_manager_ops \<Rightarrow> 'd dev_state \<Rightarrow> 'd dev_state \<Rightarrow> bool" where
  "device_ready mops s s' \<longleftrightarrow>
     (\<exists>s1 b. header_parsed mops s s1 \<and> fpga_mgr_write_init mops (fst s1) b (snd s1) = (None, s'))"

text \<open>The driver failed to prepare the device, or the buffer does not hold the header.\<close>

definition init_refused :: "'d fpga_manager_ops \<Rightarrow> errno \<Rightarrow> 'd dev_state \<Rightarrow> 'd dev_state \<Rightarrow> bool" where
  "init_refused mops e s s' \<longleftrightarrow>
     (\<exists>s1. header_parsed mops s s1 \<and>
        ((\<exists>b. fpga_mgr_write_init mops (fst s1) b (snd s1) = (Some e, s')) \<or>
         s' = s1 \<and> e = EINVAL \<and> header_size (fst s1) \<noteq> 0))"

definition data_given :: "'d fpga_manager_ops \<Rightarrow> 'd \<Rightarrow> 'd \<Rightarrow> bool" where
  "data_given mops d d' \<longleftrightarrow> (\<exists>cs. write_chunks mops cs d = Some d') \<or> (\<exists>sgt. fpga_mgr_write_sg mops sgt d = (None, d'))"

text \<open>A write failed, or the header that is to be skipped is longer than the scatter list.\<close>

definition data_refused :: "'d fpga_manager_ops \<Rightarrow> errno \<Rightarrow> 'd \<Rightarrow> 'd \<Rightarrow> bool" where
  "data_refused mops e d d' \<longleftrightarrow>
     (\<exists>cs c d1. write_chunks mops cs d = Some d1 \<and> fpga_mgr_write mops c d1 = (Some e, d')) \<or>
     op_write_sg mops \<noteq> None \<and> (\<exists>sgt. fpga_mgr_write_sg mops sgt d = (Some e, d')) \<or>
     e = EINVAL \<and> skip_header mops \<and> d' = d"

text \<open>What each error state stands for.\<close>

definition failed_step ::
  "fpga_env \<Rightarrow> 'd fpga_manager_ops \<Rightarrow> fpga_image_info \<Rightarrow> 'd dev_state \<Rightarrow> fpga_mgr_states \<Rightarrow> errno \<Rightarrow> 'd dev_state \<Rightarrow> bool" where
  "failed_step env mops info s st e s' =
     (case st of
        FPGA_MGR_STATE_FIRMWARE_REQ_ERR \<Rightarrow> s' = s \<and> (\<exists>nm. firmware_name info = Some nm \<and> request_firmware env nm = Inl e)
      | FPGA_MGR_STATE_PARSE_HEADER_ERR \<Rightarrow> parse_refused env mops (image_of env info) e s s'
      | FPGA_MGR_STATE_WRITE_INIT_ERR \<Rightarrow> init_refused mops e s s'
      | FPGA_MGR_STATE_WRITE_ERR \<Rightarrow> (\<exists>d. device_ready mops s (fst s', d) \<and> data_refused mops e d (snd s'))
      | FPGA_MGR_STATE_WRITE_COMPLETE_ERR \<Rightarrow>
          (\<exists>d d1. device_ready mops s (fst s', d) \<and> data_given mops d d1 \<and> call_write_complete mops (fst s') d1 = (Some e, snd s'))
      | _ \<Rightarrow> False)"

definition load_finished :: "'d fpga_manager_ops \<Rightarrow> 'd dev_state \<Rightarrow> 'd dev_state \<Rightarrow> bool" where
  "load_finished mops s s' \<longleftrightarrow>
     (\<exists>d d1. device_ready mops s (fst s', d) \<and> data_given mops d d1 \<and> call_write_complete mops (fst s') d1 = (None, snd s'))"

definition load_outcome ::
  "fpga_env \<Rightarrow> 'd fpga_manager_ops \<Rightarrow> fpga_image_info \<Rightarrow> 'd dev_state \<Rightarrow> errno option \<Rightarrow> fpga_image_info \<Rightarrow> 'd fpga_manager \<Rightarrow> bool" where
  "load_outcome env mops info s r info' mgr' =
     (case r of
        None \<Rightarrow> mgr_state mgr' = FPGA_MGR_STATE_OPERATING \<and> load_finished mops s (info', drv mgr')
      | Some e \<Rightarrow> failed_step env mops info s (mgr_state mgr') e (info', drv mgr'))"

lemma parsed_step:
  "(asks_more mops)\<^sup>*\<^sup>* (info, d) (info1, d1) \<Longrightarrow> fpga_mgr_parse_header mops info1 b d1 = (None, info', d') \<Longrightarrow>
     header_parsed mops (info, d) (info', d')"
  unfolding header_parsed_def by (intro exI [of _ "(info1, d1)"] exI [of _ b]) simp

lemma refused_copy:
  "(asks_more mops)\<^sup>*\<^sup>* s s' \<Longrightarrow> e = EFAULT \<or> e = ENOMEM \<and> \<not> krealloc_ok env (header_size (fst s')) \<Longrightarrow>
     parse_refused env mops img e s s'"
  unfolding parse_refused_def by blast

lemma ready_step:
  "header_parsed mops s (info1, d1) \<Longrightarrow> fpga_mgr_write_init mops info1 b d1 = (None, info', d') \<Longrightarrow> device_ready mops s (info', d')"
  unfolding device_ready_def by (intro exI [of _ "(info1, d1)"] exI [of _ b]) simp

lemma write_complete_state:
  "fpga_mgr_write_complete mops info mgr = (r, mgr') \<Longrightarrow>
     call_write_complete mops info (drv mgr) = (r, drv mgr') \<and> overread mgr' = overread mgr \<and>
     mgr_state mgr' = (if r = None then FPGA_MGR_STATE_OPERATING else FPGA_MGR_STATE_WRITE_COMPLETE_ERR)"
  by (auto simp: fpga_mgr_write_complete_def split: prod.splits option.splits)

lemma write_init_buf_state:
  assumes "fpga_mgr_write_init_buf mops info buf mgr = (r, info', mgr')" and "header_parsed mops s (info, drv mgr)"
  shows "overread mgr' = overread mgr \<and>
    (case r of None \<Rightarrow> device_ready mops s (info', drv mgr')
     | Some e \<Rightarrow> mgr_state mgr' = FPGA_MGR_STATE_WRITE_INIT_ERR \<and> init_refused mops e s (info', drv mgr'))"
proof (cases "header_size info > of_nat (length buf)")
  case True
  with assms(1) have "r = Some EINVAL" "info' = info" "drv mgr' = drv mgr" "overread mgr' = overread mgr"
    "mgr_state mgr' = FPGA_MGR_STATE_WRITE_INIT_ERR" by (auto simp: fpga_mgr_write_init_buf_def)
  moreover have "header_size info \<noteq> 0" using True by auto
  ultimately show ?thesis using assms(2) unfolding init_refused_def by auto
next
  case False
  define b where "b = (if header_size info = 0 then [] else buf)"
  obtain ri info1 d1 where i: "fpga_mgr_write_init mops info b (drv mgr) = (ri, info1, d1)" using prod_cases3 by blast
  have o: "r = ri" "info' = info1" "drv mgr' = d1" "overread mgr' = overread mgr"
    "ri \<noteq> None \<longrightarrow> mgr_state mgr' = FPGA_MGR_STATE_WRITE_INIT_ERR"
    using assms(1) i False by (auto simp: fpga_mgr_write_init_buf_def b_def split: if_splits)
  show ?thesis
  proof (cases ri)
    case None
    with o i ready_step [OF assms(2)] show ?thesis by auto
  next
    case (Some e)
    with i have "init_refused mops e s (info1, d1)"
      unfolding init_refused_def using assms(2) by (intro exI [of _ "(info, drv mgr)"]) auto
    with o Some show ?thesis by simp
  qed
qed

lemma parse_header_mapped_state:
  assumes "fpga_mgr_parse_header_mapped mops info buf mgr = (r, info', mgr')"
  shows "overread mgr' = overread mgr \<and>
    (case r of None \<Rightarrow> header_parsed mops (info, drv mgr) (info', drv mgr')
     | Some e \<Rightarrow> mgr_state mgr' = FPGA_MGR_STATE_PARSE_HEADER_ERR \<and>
         parse_refused env mops (Some buf) e (info, drv mgr) (info', drv mgr'))"
proof -
  obtain rp info1 d1 where p: "fpga_mgr_parse_header mops info buf (drv mgr) = (rp, info1, d1)" using prod_cases3 by blast
  have o: "r = (if header_size info1 + data_size info1 > of_nat (length buf) then Some EINVAL else rp)" "info' = info1"
    "drv mgr' = d1" "overread mgr' = overread mgr" "r \<noteq> None \<longrightarrow> mgr_state mgr' = FPGA_MGR_STATE_PARSE_HEADER_ERR"
    using assms p by (auto simp: fpga_mgr_parse_header_mapped_def Let_def)
  show ?thesis
  proof (cases r)
    case None
    with o p show ?thesis using parsed_step [of mops info "drv mgr" info "drv mgr" buf info1 d1] by (auto split: if_splits)
  next
    case (Some e)
    with o have "rp = Some e \<or> e = EINVAL \<and> header_size info1 + data_size info1 > of_nat (length buf)" by (auto split: if_splits)
    with p have "parse_refused env mops (Some buf) e (info, drv mgr) (info1, d1)"
      unfolding parse_refused_def by (intro exI [of _ "(info, drv mgr)"]) auto
    with o(2-5) Some show ?thesis by simp
  qed
qed

lemma parse_header_sg_loop_calls:
  assumes "parse_header_sg_loop env mops sgt info buf hsize d = (r, info', d')" and "(asks_more mops)\<^sup>*\<^sup>* s (info, d)"
  shows "case r of Inl e \<Rightarrow> parse_refused env mops img e s (info', d') | Inr b \<Rightarrow> header_parsed mops s (info', d')"
  using assms
proof (induction env mops sgt info buf hsize d rule: parse_header_sg_loop.induct)
  case (1 env mops sgt info buf hsize d)
  define new where "new = header_size info"
  define more where "more = sg_pcopy_to_buffer sgt (new - hsize) hsize"
  note run = "1.prems"(1) [unfolded parse_header_sg_loop.simps [of _ _ _ info] Let_def, folded new_def, folded more_def]
  show ?case
  proof (cases "\<not> new \<le> hsize \<and> krealloc_ok env new \<and> length more = unat (new - hsize)")
    case False
    then have "info' = info \<and> d' = d \<and> (r = Inl EFAULT \<or> r = Inl ENOMEM \<and> \<not> krealloc_ok env new)"
      using run by (auto split: if_splits)
    then obtain e where "info' = info" "d' = d" "r = Inl e" "e = EFAULT \<or> e = ENOMEM \<and> \<not> krealloc_ok env (header_size info)"
      by (auto simp: new_def)
    with refused_copy [OF "1.prems"(2), of e env img] show ?thesis by simp
  next
    case True
    obtain rp info1 d1 where p: "fpga_mgr_parse_header mops info (buf @ more) d = (rp, info1, d1)" using prod_cases3 by blast
    show ?thesis
    proof (cases "rp = Some EAGAIN")
      case again: True
      then have again_run: "parse_header_sg_loop env mops sgt info1 (buf @ more) new d1 = (r, info', d')" using run p True by simp
      have "asks_more mops (info, d) (info1, d1)" using p again by (auto simp: asks_more_def)
      with "1.prems"(2) have "(asks_more mops)\<^sup>*\<^sup>* s (info1, d1)" by (rule rtranclp.rtrancl_into_rtrancl)
      from "1.IH" [OF new_def _ _ more_def _ p [symmetric, unfolded again] refl refl refl again_run this] True show ?thesis by simp
    next
      case False
      show ?thesis
      proof (cases rp)
        case None
        with run p True have "r = Inr (buf @ more)" "info' = info1" "d' = d1" by auto
        moreover have "header_parsed mops s (info1, d1)"
          unfolding header_parsed_def using None p "1.prems"(2) by (intro exI [of _ "(info, d)"]) auto
        ultimately show ?thesis by simp
      next
        case (Some e)
        with run p True False have "r = Inl e" "info' = info1" "d' = d1" by auto
        moreover have "parse_refused env mops img e s (info1, d1)"
          unfolding parse_refused_def using Some p "1.prems"(2) by (intro exI [of _ "(info, d)"]) auto
        ultimately show ?thesis by simp
      qed
    qed
  qed
qed

text \<open>Everything before the data: the device is ready, or the manager names the step that failed.\<close>

definition prepare_outcome ::
  "fpga_env \<Rightarrow> 'd fpga_manager_ops \<Rightarrow> bytes option \<Rightarrow> 'd dev_state \<Rightarrow> errno option \<Rightarrow> fpga_image_info \<Rightarrow> 'd fpga_manager \<Rightarrow> bool" where
  "prepare_outcome env mops img s r info' mgr' =
     (case r of
        None \<Rightarrow> device_ready mops s (info', drv mgr')
      | Some e \<Rightarrow> mgr_state mgr' = FPGA_MGR_STATE_PARSE_HEADER_ERR \<and> parse_refused env mops img e s (info', drv mgr') \<or>
          mgr_state mgr' = FPGA_MGR_STATE_WRITE_INIT_ERR \<and> init_refused mops e s (info', drv mgr'))"

lemma init_buf_outcome:
  assumes "fpga_mgr_write_init_buf mops info buf mgr = (r, info', mgr')" and "header_parsed mops s (info, drv mgr)"
  shows "prepare_outcome env mops img s r info' mgr' \<and> overread mgr' = overread mgr"
  using write_init_buf_state [OF assms] by (cases r) (simp_all add: prepare_outcome_def)

lemma prepare_copied_state:
  assumes "prepare_copied env mops info sgt mgr = (r, info', mgr')" and "(asks_more mops)\<^sup>*\<^sup>* s (info, drv mgr)"
  shows "prepare_outcome env mops img s r info' mgr' \<and> overread mgr' = overread mgr"
proof -
  obtain rp info1 d1 where l: "parse_header_sg_loop env mops sgt info [] 0 (drv mgr) = (rp, info1, d1)" using prod_cases3 by blast
  note calls = parse_header_sg_loop_calls [OF l assms(2), where img = img]
  show ?thesis
  proof (cases rp)
    case (Inl e)
    with assms(1) l have "r = Some e" "info' = info1" "mgr' = mgr\<lparr>drv := d1, mgr_state := FPGA_MGR_STATE_PARSE_HEADER_ERR\<rparr>"
      by (auto simp: prepare_copied_def fpga_mgr_parse_header_sg_def)
    with calls Inl show ?thesis by (simp add: prepare_outcome_def)
  next
    case (Inr buf)
    with assms(1) l have "fpga_mgr_write_init_buf mops info1 buf (mgr\<lparr>drv := d1\<rparr>) = (r, info', mgr')"
      by (auto simp: prepare_copied_def fpga_mgr_parse_header_sg_def)
    from init_buf_outcome [OF this, where env = env and img = img] calls Inr show ?thesis by simp
  qed
qed

lemma parse_header_sg_first_state:
  assumes "fpga_mgr_parse_header_sg_first mops info sgt mgr = (r, info', mgr')"
  shows "overread mgr' = overread mgr \<and>
    (case r of
       None \<Rightarrow> sgt \<noteq> [] \<and> header_parsed mops (info, drv mgr) (info', drv mgr')
     | Some e \<Rightarrow> if e = EAGAIN then (asks_more mops)\<^sup>*\<^sup>* (info, drv mgr) (info', drv mgr')
         else mgr_state mgr' = FPGA_MGR_STATE_PARSE_HEADER_ERR \<and> parse_refused env mops img e (info, drv mgr) (info', drv mgr'))"
proof (cases "\<exists>frag frags. sgt = frag # frags \<and> of_nat (length frag) \<ge> header_size info")
  case True
  then obtain frag frags where s: "sgt = frag # frags" "of_nat (length frag) \<ge> header_size info" by blast
  obtain rp info1 d1 where p: "fpga_mgr_parse_header mops info frag (drv mgr) = (rp, info1, d1)" using prod_cases3 by blast
  have o: "r = rp" "info' = info1" "drv mgr' = d1" "overread mgr' = overread mgr"
    "rp \<noteq> None \<and> rp \<noteq> Some EAGAIN \<longrightarrow> mgr_state mgr' = FPGA_MGR_STATE_PARSE_HEADER_ERR"
    using assms s p by (auto simp: fpga_mgr_parse_header_sg_first_def split: if_splits)
  show ?thesis
  proof (cases rp)
    case None
    with o p s show ?thesis using parsed_step [of mops info "drv mgr" info "drv mgr" frag info1 d1] by simp
  next
    case (Some e)
    have "e = EAGAIN \<Longrightarrow> asks_more mops (info, drv mgr) (info1, d1)" using p Some by (auto simp: asks_more_def)
    moreover have "parse_refused env mops img e (info, drv mgr) (info1, d1)"
      unfolding parse_refused_def using p Some by (intro exI [of _ "(info, drv mgr)"]) auto
    ultimately show ?thesis using o Some by auto
  qed
next
  case False
  with assms have "r = Some EAGAIN" "info' = info" "drv mgr' = drv mgr" "overread mgr' = overread mgr"
    by (auto simp: fpga_mgr_parse_header_sg_first_def split: list.splits if_splits)
  then show ?thesis by simp
qed

lemma prepare_sg_state:
  assumes "fpga_mgr_prepare_sg env mops info sgt mgr = (r, info', mgr')"
  shows "prepare_outcome env mops img (info, drv mgr) r info' mgr' \<and> overread mgr' = overread mgr"
proof (cases "initial_header_size mops = 0 \<and> op_parse_header mops = None")
  case True
  then have "fpga_mgr_parse_header mops info [] (drv mgr) = (None, info, drv mgr)"
    "fpga_mgr_write_init_buf mops info [] mgr = (r, info', mgr')"
    using assms by (auto simp: fpga_mgr_prepare_sg_def fpga_mgr_parse_header_def)
  from init_buf_outcome [OF this(2) parsed_step [OF rtranclp.rtrancl_refl this(1)]] show ?thesis .
next
  case False
  obtain r1 info1 mgr1 where f: "fpga_mgr_parse_header_sg_first mops info sgt mgr = (r1, info1, mgr1)" using prod_cases3 by blast
  note st = parse_header_sg_first_state [OF f, where env = env and img = img]
  have run: "(case (r1, info1, mgr1) of
       (None, info, mgr) \<Rightarrow>
         (case sgt of frag # _ \<Rightarrow> fpga_mgr_write_init_buf mops info frag mgr | [] \<Rightarrow> prepare_copied env mops info sgt mgr)
     | (Some e, info, mgr) \<Rightarrow> if e \<noteq> EAGAIN then (Some e, info, mgr) else prepare_copied env mops info sgt mgr) = (r, info', mgr')"
    using assms unfolding fpga_mgr_prepare_sg_def if_not_P [OF False] f .
  show ?thesis
  proof (cases r1)
    case None
    with st obtain frag frags where "sgt = frag # frags" by (cases sgt) auto
    with run None have "fpga_mgr_write_init_buf mops info1 frag mgr1 = (r, info', mgr')" by simp
    from init_buf_outcome [OF this, of "(info, drv mgr)" env img] st None show ?thesis by simp
  next
    case (Some e)
    show ?thesis
    proof (cases "e = EAGAIN")
      case True
      with run Some have "prepare_copied env mops info1 sgt mgr1 = (r, info', mgr')" by simp
      from prepare_copied_state [OF this, of "(info, drv mgr)" img] st Some True show ?thesis by simp
    next
      case False
      with run Some have "r = Some e" "info' = info1" "mgr' = mgr1" by auto
      with st Some False show ?thesis by (simp add: prepare_outcome_def)
    qed
  qed
qed

lemma prepare_failed:
  "prepare_outcome env mops (image_of env info) s (Some e) info' mgr' \<Longrightarrow> load_outcome env mops info s (Some e) info' mgr'"
  by (auto simp: prepare_outcome_def load_outcome_def failed_step_def)

lemma write_fragments_calls:
  "write_fragments mops dsize cnt frags d = (r, d') \<Longrightarrow>
     (case r of None \<Rightarrow> \<exists>cs. write_chunks mops cs d = Some d'
      | Some e \<Rightarrow> \<exists>cs c d1. write_chunks mops cs d = Some d1 \<and> fpga_mgr_write mops c d1 = (Some e, d'))"
proof (induction mops dsize cnt frags d rule: write_fragments.induct)
  case (1 mops dsize cnt d)
  then have "r = None" "write_chunks mops [] d = Some d'" by auto
  then show ?case by (simp del: write_chunks.simps) blast
next
  case (2 mops dsize cnt frag frags d)
  define len where "len = (if dsize \<noteq> 0 then min (of_nat (length frag)) (dsize - cnt) else of_nat (length frag))"
  obtain rw d1 where w: "fpga_mgr_write mops (take (unat len) frag) d = (rw, d1)" by fastforce
  have run: "(case (rw, d1) of (Some e, d) \<Rightarrow> (Some e, d)
         | (None, d) \<Rightarrow> if dsize \<noteq> 0 \<and> cnt + len \<ge> dsize then (None, d) else write_fragments mops dsize (cnt + len) frags d) = (r, d')"
    using "2.prems" unfolding write_fragments.simps Let_def len_def [symmetric] w .
  show ?case
  proof (cases rw)
    case (Some e)
    with run have "r = Some e" "d' = d1" by auto
    moreover have "write_chunks mops [] d = Some d \<and> fpga_mgr_write mops (take (unat len) frag) d = (Some e, d1)" using w Some by simp
    ultimately show ?thesis by (simp del: write_chunks.simps) blast
  next
    case None
    have step: "write_chunks mops (take (unat len) frag # cs) d = write_chunks mops cs d1" for cs using w None by simp
    show ?thesis
    proof (cases "dsize \<noteq> 0 \<and> cnt + len \<ge> dsize")
      case True
      with run None have "r = None" "d' = d1" by auto
      with step [of "[]"] show ?thesis by (auto simp del: write_chunks.simps simp: write_chunks.simps(1))
    next
      case False
      with run None have "write_fragments mops dsize (cnt + len) frags d1 = (r, d')" by (simp only: option.case prod.case if_False)
      from "2.IH" [OF len_def w [symmetric, unfolded None] refl False this] step show ?thesis
        by (cases r) (simp_all del: write_chunks.simps, metis+)
    qed
  qed
qed

lemma write_sgt_calls:
  assumes "write_sgt mops info sgt d = (r, d')"
  shows "case r of None \<Rightarrow> data_given mops d d' | Some e \<Rightarrow> data_refused mops e d d'"
proof (cases "op_write_sg mops \<noteq> None")
  case True
  with assms show ?thesis by (cases r) (auto simp: write_sgt_def data_given_def data_refused_def)
next
  case False
  show ?thesis
  proof (cases "if skip_header mops then sg_miter_skip sgt (unat (header_size info)) else Some sgt")
    case None
    with assms False have "r = Some EINVAL" "d' = d" by (simp_all add: write_sgt_def)
    moreover have "skip_header mops" using None by (simp split: if_splits)
    ultimately show ?thesis by (simp add: data_refused_def)
  next
    case (Some frags)
    with assms False have "write_fragments mops (data_size info) 0 frags d = (r, d')" by (simp add: write_sgt_def)
    from write_fragments_calls [OF this] show ?thesis by (cases r) (auto simp: data_given_def data_refused_def)
  qed
qed

lemma complete_outcome:
  assumes "fpga_mgr_write_complete mops info' mgr = (r, mgr')" and "device_ready mops s (info', d)" and "data_given mops d (drv mgr)"
  shows "load_outcome env mops info s r info' mgr' \<and> overread mgr' = overread mgr"
  using write_complete_state [OF assms(1)] assms(2,3)
  by (cases r) (auto simp: load_outcome_def load_finished_def failed_step_def)

lemma write_failed:
  "device_ready mops s (info', d) \<Longrightarrow> data_refused mops e d (drv mgr') \<Longrightarrow> mgr_state mgr' = FPGA_MGR_STATE_WRITE_ERR \<Longrightarrow>
     load_outcome env mops info s (Some e) info' mgr'"
  by (auto simp: load_outcome_def failed_step_def)

lemma buf_load_sg_state:
  assumes "fpga_mgr_buf_load_sg env mops info sgt mgr = (r, info', mgr')"
  shows "load_outcome env mops info0 (info, drv mgr) r info' mgr' \<and> overread mgr' = overread mgr"
proof -
  obtain rp info1 mgr1 where p: "fpga_mgr_prepare_sg env mops info sgt mgr = (rp, info1, mgr1)" using prod_cases3 by blast
  note st = prepare_sg_state [OF p, where img = "image_of env info0"]
  show ?thesis
  proof (cases rp)
    case (Some e)
    with assms p have "r = Some e" "info' = info1" "mgr' = mgr1" by (auto simp: fpga_mgr_buf_load_sg_def)
    with st Some prepare_failed show ?thesis by blast
  next
    case None
    then have ready: "device_ready mops (info, drv mgr) (info1, drv mgr1)" using st by (simp add: prepare_outcome_def)
    obtain rw d1 where w: "write_sgt mops info1 sgt (drv mgr1) = (rw, d1)" by fastforce
    show ?thesis
    proof (cases rw)
      case (Some e)
      with assms p None w have "r = Some e" "info' = info1" "mgr' = mgr1\<lparr>drv := d1, mgr_state := FPGA_MGR_STATE_WRITE_ERR\<rparr>"
        by (auto simp: fpga_mgr_buf_load_sg_def)
      with write_failed [OF ready, of e mgr'] write_sgt_calls [OF w] Some st show ?thesis by simp
    next
      case none: None
      with assms p None w have "fpga_mgr_write_complete mops info1 (mgr1\<lparr>drv := d1, mgr_state := FPGA_MGR_STATE_WRITE\<rparr>) = (r, mgr')"
        "info' = info1" by (auto simp: fpga_mgr_buf_load_sg_def split: prod.splits)
      with complete_outcome [OF this(1) ready] write_sgt_calls [OF w] none st show ?thesis by simp
    qed
  qed
qed

text \<open>The calls of the mapped path, in order, each result handed on.\<close>

lemma buf_load_mapped_cases:
  assumes "fpga_mgr_buf_load_mapped env mops info buf mgr = (r, info', mgr')"
  obtains (parse) e where "fpga_mgr_parse_header_mapped mops info buf mgr = (Some e, info', mgr')" "r = Some e"
  | (init) info1 mgr1 e where "fpga_mgr_parse_header_mapped mops info buf mgr = (None, info1, mgr1)"
      "fpga_mgr_write_init_buf mops info1 buf mgr1 = (Some e, info', mgr')" "r = Some e"
  | (written) info1 mgr1 mgr2 mgr3 rw d1 where "fpga_mgr_parse_header_mapped mops info buf mgr = (None, info1, mgr1)"
      "fpga_mgr_write_init_buf mops info1 buf mgr1 = (None, info', mgr2)"
      "mgr3 = mgr2\<lparr>overread := overread mgr2 \<or> unat (mapped_start mops info') +
         unat (mapped_count mops info' (of_nat (length buf))) > length buf\<rparr>"
      "fpga_mgr_write mops (mem_range (behind env) buf (unat (mapped_start mops info'))
         (unat (mapped_count mops info' (of_nat (length buf))))) (drv mgr2) = (rw, d1)"
      "case rw of Some e \<Rightarrow> r = Some e \<and> mgr' = mgr3\<lparr>drv := d1, mgr_state := FPGA_MGR_STATE_WRITE_ERR\<rparr>
       | None \<Rightarrow> fpga_mgr_write_complete mops info' (mgr3\<lparr>drv := d1, mgr_state := FPGA_MGR_STATE_WRITE\<rparr>) = (r, mgr')"
proof -
  obtain rp info1 mgr1 where p: "fpga_mgr_parse_header_mapped mops info buf mgr = (rp, info1, mgr1)" using prod_cases3 by blast
  obtain ri info2 mgr2 where i: "fpga_mgr_write_init_buf mops info1 buf mgr1 = (ri, info2, mgr2)" using prod_cases3 by blast
  obtain rw d1 where w: "fpga_mgr_write mops (mem_range (behind env) buf (unat (mapped_start mops info2))
      (unat (mapped_count mops info2 (of_nat (length buf))))) (drv mgr2) = (rw, d1)" by fastforce
  show ?thesis
  proof (cases rp; cases ri)
    assume r: "rp = None" "ri = None"
    then have "info' = info2" using assms p i w
      by (auto simp: fpga_mgr_buf_load_mapped_def Let_def split: option.splits prod.splits)
    with assms p i w r show ?thesis
      by (intro written [OF p [unfolded r] _ refl]) (auto simp: fpga_mgr_buf_load_mapped_def Let_def split: option.splits prod.splits)
  qed (use assms p i in \<open>auto simp: fpga_mgr_buf_load_mapped_def intro: parse init\<close>)
qed

lemma buf_load_mapped_state:
  assumes "fpga_mgr_buf_load_mapped env mops info buf mgr = (r, info', mgr')" and img: "image_of env info0 = Some buf"
  shows "load_outcome env mops info0 (info, drv mgr) r info' mgr'"
  using assms(1)
proof (cases rule: buf_load_mapped_cases)
  case (parse e)
  with parse_header_mapped_state [OF parse(1), of env] show ?thesis by (simp add: load_outcome_def failed_step_def img)
next
  case (init info1 mgr1 e)
  from parse_header_mapped_state [OF init(1)] have "header_parsed mops (info, drv mgr) (info1, drv mgr1)" by simp
  from write_init_buf_state [OF init(2) this] init(3) show ?thesis by (simp add: load_outcome_def failed_step_def)
next
  case (written info1 mgr1 mgr2 mgr3 rw d1)
  from parse_header_mapped_state [OF written(1)] have "header_parsed mops (info, drv mgr) (info1, drv mgr1)" by simp
  from write_init_buf_state [OF written(2) this] have ready: "device_ready mops (info, drv mgr) (info', drv mgr2)" by simp
  show ?thesis
  proof (cases rw)
    case None
    have "write_chunks mops [mem_range (behind env) buf (unat (mapped_start mops info'))
        (unat (mapped_count mops info' (of_nat (length buf))))] (drv mgr2) = Some d1" using written(4) None by simp
    then have "data_given mops (drv mgr2) d1" unfolding data_given_def by blast
    with complete_outcome [OF _ ready] written(5) None show ?thesis by simp
  next
    case (Some e)
    have "write_chunks mops [] (drv mgr2) = Some (drv mgr2)" by simp
    with written(4) Some have "data_refused mops e (drv mgr2) d1" unfolding data_refused_def by blast
    with write_failed [OF ready] written(5) Some show ?thesis by simp
  qed
qed

section \<open>The bytes that the driver is given\<close>

text \<open>
  What keeps the mapped path inside the image: the sizes that the parser reports (without a parser, those
  the load starts from) do not add up past 64 bits, and preparing the device does not change them.
\<close>

definition sizes_ok :: "'d fpga_manager_ops \<Rightarrow> fpga_image_info \<Rightarrow> bool" where
  "sizes_ok mops info \<longleftrightarrow>
     (if op_parse_header mops = None then unat (initial_header_size mops) + unat (data_size info) < 2 ^ 64
      else (\<forall>info buf d info' d'. fpga_mgr_parse_header mops info buf d = (None, info', d') \<longrightarrow>
        unat (header_size info') + unat (data_size info') < 2 ^ 64)) \<and>
     (\<forall>info buf d info' d'. fpga_mgr_write_init mops info buf d = (None, info', d') \<longrightarrow>
        header_size info' = header_size info \<and> data_size info' = data_size info)"

lemma sizes_okD:
  assumes "sizes_ok mops info0"
  shows "fpga_mgr_parse_header mops (info0\<lparr>header_size := initial_header_size mops\<rparr>) buf d = (None, info', d') \<Longrightarrow>
      unat (header_size info') + unat (data_size info') < 2 ^ 64"
    and "fpga_mgr_write_init mops info buf d = (None, info', d') \<Longrightarrow>
       header_size info' = header_size info \<and> data_size info' = data_size info"
proof -
  assume p: "fpga_mgr_parse_header mops (info0\<lparr>header_size := initial_header_size mops\<rparr>) buf d = (None, info', d')"
  show "unat (header_size info') + unat (data_size info') < 2 ^ 64"
  proof (cases "op_parse_header mops = None")
    case True
    with p assms show ?thesis by (auto simp: fpga_mgr_parse_header_def sizes_ok_def)
  next
    case False
    with p assms show ?thesis unfolding sizes_ok_def by metis
  qed
qed (use assms in \<open>unfold sizes_ok_def, blast\<close>)

text \<open>Then the range that the driver is handed lies in the buffer.\<close>

lemma mapped_range_inside:
  assumes "fpga_mgr_parse_header_mapped mops (info0\<lparr>header_size := initial_header_size mops\<rparr>) buf mgr = (None, info1, mgr1)"
    and "fpga_mgr_write_init_buf mops info1 buf mgr1 = (None, info', mgr2)" and "sizes_ok mops info0" and "length buf < 2 ^ 64"
  shows "unat (mapped_start mops info') + unat (mapped_count mops info' (of_nat (length buf))) \<le> length buf"
proof -
  let ?info = "info0\<lparr>header_size := initial_header_size mops\<rparr>"
  have p: "fpga_mgr_parse_header mops ?info buf (drv mgr) = (None, info1, drv mgr1)"
    "header_size info1 + data_size info1 \<le> of_nat (length buf)"
    using assms(1) by (auto simp: fpga_mgr_parse_header_mapped_def Let_def split: if_splits prod.splits)
  obtain b where "fpga_mgr_write_init mops info1 b (drv mgr1) = (None, info', drv mgr2)"
    using write_init_buf_exact [OF assms(2,4)] by blast
  from sizes_okD(2) [OF assms(3) this]
  have same: "header_size info' = header_size info1" "data_size info' = data_size info1" by simp_all
  have "unat (header_size info1) + unat (data_size info1) < 2 ^ 64" by (rule sizes_okD(1) [OF assms(3) p(1)])
  then have "unat (header_size info1 + data_size info1) = unat (header_size info1) + unat (data_size info1)"
    by (intro unat_add_lem [THEN iffD1]) simp
  then have le: "unat (header_size info1) + unat (data_size info1) \<le> length buf"
    using p(2) by (simp add: word_le_nat_alt unat_frag [OF assms(4)])
  then have "header_size info1 \<le> of_nat (length buf)" by (simp add: word_le_nat_alt unat_frag [OF assms(4)])
  then have sub: "unat (of_nat (length buf) - header_size info1) = length buf - unat (header_size info1)"
    by (simp add: unat_sub unat_frag [OF assms(4)])
  show ?thesis using le sub by (auto simp: mapped_start_def mapped_count_def same unat_frag [OF assms(4)] Let_def)
qed

lemma mapped_bytes:
  assumes "unat (mapped_start mops info) + unat (mapped_count mops info (of_nat (length buf))) \<le> length buf" and "length buf < 2 ^ 64"
  shows "mem_range after buf (unat (mapped_start mops info)) (unat (mapped_count mops info (of_nat (length buf)))) =
    image_data mops info buf"
  by (simp add: mem_range_inside [OF assms(1)] mapped_slice [OF assms(2)])

lemma buf_load_mapped_exact:
  assumes "fpga_mgr_buf_load_mapped env mops (info0\<lparr>header_size := initial_header_size mops\<rparr>) buf mgr = (None, info', mgr')"
    and "sizes_ok mops info0" and "length buf < 2 ^ 64"
  shows "streamed mops buf info' (drv mgr')"
  using assms(1)
proof (cases rule: buf_load_mapped_cases)
  case (written info1 mgr1 mgr2 mgr3 rw d1)
  note range = mapped_bytes [OF mapped_range_inside [OF written(1,2) assms(2,3)] assms(3)]
  have ok: "rw = None" "fpga_mgr_write_complete mops info' (mgr3\<lparr>drv := d1, mgr_state := FPGA_MGR_STATE_WRITE\<rparr>) = (None, mgr')"
    using written(5) by (auto split: option.splits)
  have "fpga_mgr_parse_header mops (info0\<lparr>header_size := initial_header_size mops\<rparr>) buf (drv mgr) = (None, info1, drv mgr1)"
    using written(1) by (auto simp: fpga_mgr_parse_header_mapped_def Let_def split: if_splits prod.splits)
  from prepared_by [OF written(2) assms(3) _ this] have "prepared mops buf info' (drv mgr2)" by simp
  moreover have "write_chunks mops [image_data mops info' buf] (drv mgr2) = Some d1" using written(4) ok(1) range by simp
  moreover have "concat [image_data mops info' buf] = image_data mops info' buf" by simp
  moreover have "call_write_complete mops info' d1 = (None, drv mgr')" using write_complete_ok [OF ok(2)] by simp
  ultimately show ?thesis unfolding streamed_def by blast
qed auto

lemma load_streamed:
  assumes "fpga_mgr_load env mops info mgr = (None, info', mgr')"
    and "op_write mops \<noteq> None" and "op_write_sg mops = None" and "image_of env info = Some img" and "length img < 2 ^ 64"
    and "info_sgt info = None \<longrightarrow> sizes_ok mops info"
  shows "streamed mops img info' (drv mgr')"
  using assms(1)
proof (cases rule: load_cases)
  case (sg sgt info1)
  then have "img = concat sgt" using assms(4) by (simp add: image_of_def)
  with buf_load_sg_exact [OF sg(2) assms(3)] assms(5) show ?thesis by simp
next
  case (buf addr b bs info1)
  then have "img = b # bs" using assms(4) by (simp add: image_of_def)
  with buf assms(2) have
    "fpga_mgr_buf_load_mapped env mops (info\<lparr>header_size := initial_header_size mops\<rparr>) img mgr = (None, info', mgr')"
    by (auto simp: fpga_mgr_buf_load_def)
  from buf_load_mapped_exact [OF this _ assms(5)] assms(6) buf(1) show ?thesis by simp
next
  case (fw nm info1)
  then obtain addr where f: "request_firmware env nm = Inr (addr, img)"
    using assms(4) by (auto simp: image_of_def split: option.splits prod.splits sum.splits list.splits)
  then have "fpga_mgr_buf_load_mapped env mops (info\<lparr>header_size := initial_header_size mops\<rparr>) img
      (mgr\<lparr>mgr_state := FPGA_MGR_STATE_FIRMWARE_REQ\<rparr>) = (None, info', mgr')"
    using fw(4,5) assms(2) by (auto simp: fpga_mgr_firmware_load_def fpga_mgr_buf_load_def)
  from buf_load_mapped_exact [OF this _ assms(5)] assms(6) fw(1) show ?thesis by simp
qed auto

section \<open>How a load ends\<close>

lemma buf_load_state:
  assumes "fpga_mgr_buf_load env mops info ab mgr = (r, info', mgr')" and "image_of env info0 = Some (snd ab)"
  shows "load_outcome env mops info0 (info, drv mgr) r info' mgr' \<or> r \<noteq> None \<and> mgr' = mgr \<and> op_write mops = None"
proof -
  obtain addr buf where ab: "ab = (addr, buf)" by fastforce
  consider (mapped) "fpga_mgr_buf_load_mapped env mops info buf mgr = (r, info', mgr')"
    | (early) "r \<noteq> None" "mgr' = mgr" "op_write mops = None"
    | (sg) sgt where "fpga_mgr_buf_load_sg env mops info sgt mgr = (r, info', mgr')"
    using assms(1) ab by (auto simp: fpga_mgr_buf_load_def split: if_splits option.splits sum.splits)
  then show ?thesis
  proof cases
    case mapped
    from buf_load_mapped_state [OF this] assms(2) ab show ?thesis by simp
  next
    case (sg sgt)
    from buf_load_sg_state [OF this] show ?thesis by blast
  qed auto
qed

text \<open>No call of the driver was made: there is no image, or a buffer could not be turned into pages.\<close>

definition device_untouched ::
  "fpga_env \<Rightarrow> 'd fpga_manager_ops \<Rightarrow> fpga_image_info \<Rightarrow> 'd fpga_manager \<Rightarrow> errno option \<Rightarrow> 'd fpga_manager \<Rightarrow> bool" where
  "device_untouched env mops info mgr r mgr' \<longleftrightarrow>
     (r = Some EINVAL \<and> image_of env info = None \<and> mgr' = mgr) \<or>
     (r \<noteq> None \<and> info_sgt info = None \<and> op_write mops = None \<and> drv mgr' = drv mgr \<and>
        mgr_state mgr' \<in> {mgr_state mgr, FPGA_MGR_STATE_FIRMWARE_REQ})"

lemma load_state:
  assumes "fpga_mgr_load env mops info mgr = (r, info', mgr')"
  shows "load_outcome env mops info (info\<lparr>header_size := initial_header_size mops\<rparr>, drv mgr) r info' mgr' \<or>
    device_untouched env mops info mgr r mgr'"
  using assms
proof (cases rule: load_cases)
  case (sg sgt info1)
  from buf_load_sg_state [OF sg(2)] sg(3) show ?thesis by simp
next
  case (buf addr b bs info1)
  then have "image_of env info = Some (snd (addr, b # bs))" by (simp add: image_of_def)
  from buf_load_state [OF buf(3) this] buf(1,4) show ?thesis by (auto simp: device_untouched_def)
next
  case (fw nm info1)
  show ?thesis
  proof (cases "request_firmware env nm")
    case (Inl e)
    with fw have "r = Some e" "info' = info\<lparr>header_size := initial_header_size mops\<rparr>"
      "mgr' = mgr\<lparr>mgr_state := FPGA_MGR_STATE_FIRMWARE_REQ_ERR\<rparr>" by (auto simp: fpga_mgr_firmware_load_def)
    with fw(3) Inl show ?thesis by (simp add: load_outcome_def failed_step_def)
  next
    case (Inr f)
    with fw(4) have l: "fpga_mgr_buf_load env mops info1 f (mgr\<lparr>mgr_state := FPGA_MGR_STATE_FIRMWARE_REQ\<rparr>) = (r, info', mgr')"
      by (simp add: fpga_mgr_firmware_load_def)
    have "image_of env info = Some (snd f)"
      using fw(1-3) Inr by (auto simp: image_of_def split: option.splits prod.splits list.splits)
    from buf_load_state [OF l this] fw(1,5) show ?thesis by (auto simp: device_untouched_def)
  qed
qed (simp add: device_untouched_def)

lemma load_operating:
  "fpga_mgr_load env mops info mgr = (None, info', mgr') \<Longrightarrow> mgr_state mgr' = FPGA_MGR_STATE_OPERATING"
  by (auto dest!: load_state simp: load_outcome_def device_untouched_def)

text \<open>
  C21. Loading an image through a driver that has a write operation, from a scatter list, from a buffer or
  from a firmware file. When it succeeds, the driver has parsed a beginning of the image, has been
  prepared with a beginning that holds the whole header, and has then been given, whatever the
  cuts between the writes, exactly the bytes of the image without the skipped header, up to the
  data size; its completion step succeeded and the manager is operating. For a buffer or a file this needs
  a driver whose sizes do not add up past 64 bits, and that does not change them later: what follows the
  buffer in memory is a parameter, and would be handed out otherwise.
\<close>

theorem load_streams_image:
  assumes "fpga_mgr_load env mops info mgr = (None, info', mgr')"
    and "op_write mops \<noteq> None" and "op_write_sg mops = None" and "image_of env info = Some img" and "length img < 2 ^ 64"
    and "info_sgt info = None \<longrightarrow> sizes_ok mops info"
  shows "mgr_state mgr' = FPGA_MGR_STATE_OPERATING \<and> streamed mops img info' (drv mgr')"
  using load_operating [OF assms(1)] load_streamed [OF assms] by simp

text \<open>
  C22. How a load ends, by the calls of the driver that were made. On success its parser took a header, maybe
  after it asked for more, the device was prepared and given data, the completion step succeeded, and the
  manager is operating. On an error the state of the manager names the step: the firmware loader failed with
  this error and the driver was not called; the parser failed with it, or found sizes beyond the image, or
  the header could not be copied; after the header was parsed, the device could not be prepared; after it was
  prepared, a write failed; after the data was given, the completion step failed. Or else no call was made and
  the state names no step: there was no image, or the driver takes only scatter lists and a buffer could not
  be turned into one.
\<close>

theorem load_ends_in_named_state:
  assumes "fpga_mgr_load env mops info mgr = (r, info', mgr')"
  shows "(case r of
       None \<Rightarrow> mgr_state mgr' = FPGA_MGR_STATE_OPERATING \<and>
         load_finished mops (info\<lparr>header_size := initial_header_size mops\<rparr>, drv mgr) (info', drv mgr')
     | Some e \<Rightarrow> failed_step env mops info (info\<lparr>header_size := initial_header_size mops\<rparr>, drv mgr)
         (mgr_state mgr') e (info', drv mgr')) \<or>
     device_untouched env mops info mgr r mgr'"
  using load_state [OF assms] by (simp add: load_outcome_def)

section \<open>No byte behind the image\<close>

lemma buf_load_mapped_in_image:
  assumes "fpga_mgr_buf_load_mapped env mops (info0\<lparr>header_size := initial_header_size mops\<rparr>) buf mgr = (r, info', mgr')"
    and "sizes_ok mops info0" and "length buf < 2 ^ 64"
  shows "overread mgr' = overread mgr"
  using assms(1)
proof (cases rule: buf_load_mapped_cases)
  case (parse e)
  from parse_header_mapped_state [OF parse(1)] show ?thesis by simp
next
  case (init info1 mgr1 e)
  from parse_header_mapped_state [OF init(1)] write_init_buf_state [OF init(2), of "(info0\<lparr>header_size := initial_header_size mops\<rparr>, drv mgr)"]
  show ?thesis by simp
next
  case (written info1 mgr1 mgr2 mgr3 rw d1)
  from mapped_range_inside [OF written(1,2) assms(2,3)] written(3)
    parse_header_mapped_state [OF written(1)] write_init_buf_state [OF written(2), of "(info0\<lparr>header_size := initial_header_size mops\<rparr>, drv mgr)"]
  have m3: "overread mgr3 = overread mgr" by simp
  show ?thesis
  proof (cases rw)
    case None
    with written(5) m3 show ?thesis by (auto dest!: write_complete_state)
  qed (use written(5) m3 in auto)
qed

lemma buf_load_in_image:
  assumes "fpga_mgr_buf_load env mops (info0\<lparr>header_size := initial_header_size mops\<rparr>) (addr, buf) mgr = (r, info', mgr')"
    and "sizes_ok mops info0" and "length buf < 2 ^ 64"
  shows "overread mgr' = overread mgr"
proof -
  let ?info = "info0\<lparr>header_size := initial_header_size mops\<rparr>"
  consider (mapped) "fpga_mgr_buf_load_mapped env mops ?info buf mgr = (r, info', mgr')"
    | (early) "mgr' = mgr"
    | (sg) sgt where "fpga_mgr_buf_load_sg env mops ?info sgt mgr = (r, info', mgr')"
    using assms(1) by (auto simp: fpga_mgr_buf_load_def split: if_splits option.splits sum.splits)
  then show ?thesis
  proof cases
    case mapped
    from buf_load_mapped_in_image [OF this assms(2,3)] show ?thesis .
  next
    case (sg sgt)
    from buf_load_sg_state [OF sg] show ?thesis by simp
  qed simp
qed

text \<open>
  Whatever the outcome of a load, the driver is never handed memory behind the image, provided the
  sizes it reports for a header do not wrap and do not change.
\<close>

theorem load_stays_in_image:
  assumes "fpga_mgr_load env mops info mgr = (r, info', mgr')" and "sizes_ok mops info"
    and "\<forall>img. image_of env info = Some img \<longrightarrow> length img < 2 ^ 64"
  shows "overread mgr' = overread mgr"
  using assms(1)
proof (cases rule: load_cases)
  case (sg sgt info1)
  from buf_load_sg_state [OF sg(2)] show ?thesis by simp
next
  case (buf addr b bs info1)
  then have "length (b # bs) < 2 ^ 64" using assms(3) by (simp add: image_of_def)
  from buf_load_in_image [OF buf(3) [unfolded buf(4)] assms(2) this] show ?thesis .
next
  case (fw nm info1)
  show ?thesis
  proof (cases "request_firmware env nm")
    case (Inl e)
    with fw(4) show ?thesis by (auto simp: fpga_mgr_firmware_load_def)
  next
    case (Inr fw')
    obtain addr img where fw': "fw' = (addr, img)" by fastforce
    have "length img < 2 ^ 64"
      using assms(3) fw(1-3) Inr fw' by (auto simp: image_of_def split: option.splits prod.splits list.splits)
    moreover have "fpga_mgr_buf_load env mops (info\<lparr>header_size := initial_header_size mops\<rparr>) (addr, img)
        (mgr\<lparr>mgr_state := FPGA_MGR_STATE_FIRMWARE_REQ\<rparr>) = (r, info', mgr')"
      using fw(4,5) Inr fw' by (simp add: fpga_mgr_firmware_load_def)
    ultimately show ?thesis using buf_load_in_image [OF _ assms(2)] by fastforce
  qed
qed simp

section \<open>Witnesses, and what the two paths check\<close>

text \<open>A driver that logs what it is given: a header of two bytes, \<open>n\<close> bytes of data.\<close>

definition log_ops :: "u64 \<Rightarrow> bytes list fpga_manager_ops" where
  "log_ops n = \<lparr>initial_header_size = 1, skip_header = True, op_state = None, op_status = None,
     op_parse_header = Some (\<lambda>info buf d. if length buf < 2 then (Some EAGAIN, info\<lparr>header_size := 2\<rparr>, d)
        else (None, info\<lparr>header_size := 2, data_size := n\<rparr>, d)),
     op_write_init = None, op_write = Some (\<lambda>b d. (None, d @ [b])), op_write_sg = None, op_write_complete = None,
     op_fpga_remove = None\<rparr>"

definition fpga_env0 :: fpga_env where
  "fpga_env0 = \<lparr>kmalloc_ok = True, krealloc_ok = \<lambda>_. True, to_page = Some,
     sg_alloc_table_from_pages = \<lambda>_ _ _. Inl ENOMEM, request_firmware = \<lambda>_. Inl ENOENT, behind = \<lambda>_. 0xEE\<rparr>"

definition info_sg :: fpga_image_info where
  "info_sg = \<lparr>info_flags = 0, config_complete_timeout_us = 0, firmware_name = None, info_sgt = Some [[1], [2, 3], [4, 5, 6]], info_buf = None,
     header_size = 0, data_size = 0, region_id = 0\<rparr>"

definition info_mapped :: fpga_image_info where
  "info_mapped = info_sg\<lparr>info_sgt := None, info_buf := Some (0x1000, [1, 2, 3, 4, 5, 6])\<rparr>"

definition mgr_log :: "bytes list fpga_manager" where
  "mgr_log = \<lparr>mgr_state = FPGA_MGR_STATE_POWER_UP, drv = [], overread = False\<rparr>"

lemmas load_eval =
  log_ops_def fpga_env0_def info_sg_def mgr_log_def fpga_mgr_load_def fpga_mgr_buf_load_sg_def fpga_mgr_prepare_sg_def
  fpga_mgr_parse_header_sg_first_def prepare_copied_def fpga_mgr_parse_header_sg_def parse_header_sg_loop.simps
  sg_pcopy_to_buffer_def fpga_mgr_write_init_buf_def fpga_mgr_write_init_def fpga_mgr_parse_header_def
  write_sgt_def fpga_mgr_write_def fpga_mgr_write_complete_def call_write_complete_def
  info_mapped_def fpga_mgr_buf_load_def fpga_mgr_buf_load_mapped_def fpga_mgr_parse_header_mapped_def
  mapped_start_def mapped_count_def

lemma skip_two: "sg_miter_skip [[a], [b, c], frag] 2 = Some [[c], frag]"
  by (simp add: numeral_2_eq_2)

lemma load_sg_log:
  "fpga_mgr_load fpga_env0 (log_ops 3) info_sg mgr_log =
     (None, info_sg\<lparr>header_size := 2, data_size := 3\<rparr>,
      \<lparr>mgr_state = FPGA_MGR_STATE_OPERATING, drv = [[3], [4, 5]], overread = False\<rparr>)"
  by (simp add: load_eval skip_two) (simp add: word_le_nat_alt)

lemma log_sizes_ok: "sizes_ok (log_ops 3) info"
  by (auto simp: sizes_ok_def log_ops_def fpga_mgr_parse_header_def fpga_mgr_write_init_def split: if_splits)

lemma load_mapped_log:
  "fpga_mgr_load fpga_env0 (log_ops 3) info_mapped mgr_log =
     (None, info_mapped\<lparr>header_size := 2, data_size := 3\<rparr>,
      \<lparr>mgr_state = FPGA_MGR_STATE_OPERATING, drv = [[3, 4, 5]], overread = False\<rparr>)"
  by (simp add: load_eval mem_range_inside)

theorem load_streams_image_witness:
  "streamed (log_ops 3) [1, 2, 3, 4, 5, 6] (info_sg\<lparr>header_size := 2, data_size := 3\<rparr>) [[3], [4, 5]] \<and>
   streamed (log_ops 3) [1, 2, 3, 4, 5, 6] (info_mapped\<lparr>header_size := 2, data_size := 3\<rparr>) [[3, 4, 5]] \<and>
   image_data (log_ops 3) (info_sg\<lparr>header_size := 2, data_size := 3\<rparr>) [1, 2, 3, 4, 5, 6] = [3, 4, 5]"
proof -
  have i: "image_of fpga_env0 info_sg = Some [1, 2, 3, 4, 5, 6]" by (simp add: image_of_def info_sg_def)
  have m: "image_of fpga_env0 info_mapped = Some [1, 2, 3, 4, 5, 6]" by (simp add: image_of_def info_mapped_def info_sg_def)
  from load_streams_image [OF load_sg_log _ _ i] load_streams_image [OF load_mapped_log _ _ m] log_sizes_ok show ?thesis
    by (simp add: log_ops_def) (simp add: image_data_def info_sg_def)
qed

text \<open>A driver that cannot prepare the device.\<close>

definition stuck_ops :: "bytes list fpga_manager_ops" where
  "stuck_ops = (log_ops 3)\<lparr>op_write_init := Some (\<lambda>info buf d. (Some EBUSY, info, d @ [buf]))\<rparr>"

lemma load_stuck:
  "fpga_mgr_load fpga_env0 stuck_ops info_mapped mgr_log =
     (Some EBUSY, info_mapped\<lparr>header_size := 2, data_size := 3\<rparr>,
      \<lparr>mgr_state = FPGA_MGR_STATE_WRITE_INIT_ERR, drv = [[1, 2, 3, 4, 5, 6]], overread = False\<rparr>)"
  by (simp add: load_eval stuck_ops_def)

theorem load_ends_in_named_state_witness:
  "init_refused stuck_ops EBUSY (info_mapped\<lparr>header_size := 1\<rparr>, [])
     (info_mapped\<lparr>header_size := 2, data_size := 3\<rparr>, [[1, 2, 3, 4, 5, 6]])"
proof -
  have "image_of fpga_env0 info_mapped \<noteq> None" "op_write stuck_ops \<noteq> None" "initial_header_size stuck_ops = 1" "drv mgr_log = []"
    by (simp_all add: image_of_def info_mapped_def info_sg_def stuck_ops_def log_ops_def mgr_log_def)
  with load_ends_in_named_state [OF load_stuck] show ?thesis by (simp add: failed_step_def device_untouched_def)
qed

theorem load_stays_in_image_witness:
  "\<not> overread (snd (snd (fpga_mgr_load fpga_env0 (log_ops 3) info_mapped mgr_log)))"
  using load_stays_in_image [OF load_mapped_log log_sizes_ok]
  by (simp add: load_mapped_log)

text \<open>
  The sum of the two sizes is not checked for wrap-around: a header of 2 bytes that announces
  \<open>2 ^ 64 - 2\<close> bytes of data passes the check, and the driver is handed all of that range, although the
  buffer has six bytes: behind its last four come those that happen to follow it.
\<close>

lemma mem_range_bytes:
  "length (mem_range after buf start cnt) = cnt"
  "i < cnt \<Longrightarrow> mem_range after buf start cnt ! i =
     (if start + i < length buf then buf ! (start + i) else after (start + i - length buf))"
  by (simp_all add: mem_range_def)

lemma load_wrapped:
  "fpga_mgr_load fpga_env0 (log_ops (- 2)) info_mapped mgr_log =
     (None, info_mapped\<lparr>header_size := 2, data_size := - 2\<rparr>,
      \<lparr>mgr_state = FPGA_MGR_STATE_OPERATING, drv = [mem_range (\<lambda>_. 0xEE) [1, 2, 3, 4, 5, 6] 2 (unat (- 2 :: u64))], overread = True\<rparr>)"
  by (simp add: load_eval)

theorem header_sizes_wrap:
  "\<exists>info' mgr' bs. fpga_mgr_load fpga_env0 (log_ops (- 2)) info_mapped mgr_log = (None, info', mgr') \<and>
     drv mgr' = [bs] \<and> length bs = 2 ^ 64 - 2 \<and> bs ! 3 = 6 \<and> bs ! 4 = 0xEE"
proof -
  let ?bs = "mem_range (\<lambda>_. 0xEE) [1, 2, 3, 4, 5, 6] 2 (unat (- 2 :: u64))"
  have n: "unat (- 2 :: u64) = 2 ^ 64 - 2" by simp
  have "length ?bs = 2 ^ 64 - 2" "?bs ! 3 = 6" "?bs ! 4 = 0xEE" unfolding n by (simp_all add: mem_range_bytes)
  with load_wrapped show ?thesis by (metis fpga_manager.select_convs(2))
qed

text \<open>
  An image shorter than its header announces is refused when it is contiguous, but accepted when it
  comes as a scatter list: the manager is operating with four of the hundred bytes written.
\<close>

theorem short_image_accepted_from_sg:
  "fst (fpga_mgr_load fpga_env0 (log_ops 100) info_mapped mgr_log) = Some EINVAL \<and>
   (case fpga_mgr_load fpga_env0 (log_ops 100) info_sg mgr_log of
      (r, info', mgr') \<Rightarrow> r = None \<and> mgr_state mgr' = FPGA_MGR_STATE_OPERATING \<and> data_size info' = 100 \<and> concat (drv mgr') = [3, 4, 5, 6])"
  by (simp add: load_eval skip_two) (simp add: word_le_nat_alt)

end
