(* ===== verification/Fme_Mgr.thy ===== *)
theory Fme_Mgr
  imports Mmio Fpga_Class Fpga_Mgr_Props
begin

unbundle bit_operations_syntax

text \<open>
  The FPGA manager of the FME (\<^verbatim>\<open>drivers/fpga/dfl-fme-mgr.c\<close>): partial reconfiguration through the
  registers of the PR engine. Its state is its private data and the history of the engine.
\<close>

section \<open>Registers\<close>

abbreviation FME_PR_CTRL :: u64 where "FME_PR_CTRL \<equiv> 0x8"
abbreviation FME_PR_STS :: u64 where "FME_PR_STS \<equiv> 0x10"
abbreviation FME_PR_DATA :: u64 where "FME_PR_DATA \<equiv> 0x18"
abbreviation FME_PR_ERR :: u64 where "FME_PR_ERR \<equiv> 0x20"
abbreviation FME_PR_INTFC_ID_L :: u64 where "FME_PR_INTFC_ID_L \<equiv> 0xA8"
abbreviation FME_PR_INTFC_ID_H :: u64 where "FME_PR_INTFC_ID_H \<equiv> 0xB0"

abbreviation PR_WAIT_TIMEOUT :: nat where "PR_WAIT_TIMEOUT \<equiv> 8000000"

abbreviation pr_credit_of :: "u64 \<Rightarrow> nat" where "pr_credit_of v \<equiv> unat (field_get 8 0 v)"

record fme_mgr_priv =
  ioaddr :: u64
  pr_error :: u64
  io :: history

section \<open>Errors\<close>

definition pr_error_to_mgr_status :: "u64 \<Rightarrow> u64" where
  "pr_error_to_mgr_status err =
     (let status = 0;
          status = (if bit err 0 then status OR 1 else status);
          status = (if bit err 1 then status OR 2 else status);
          status = (if bit err 2 then status OR 4 else status);
          status = (if bit err 3 then status OR 8 else status)
      in if bit err 4 then status OR 16 else status)"

definition fme_mgr_pr_error_handle :: "device \<Rightarrow> u64 \<Rightarrow> history \<Rightarrow> u64 \<times> history" where
  "fme_mgr_pr_error_handle dev fme_pr h =
     (let (pr_status, h) = readq dev (fme_pr + FME_PR_STS) h
      in if \<not> bit pr_status 16 then (0, h)
         else let (pr_err, h) = readq dev (fme_pr + FME_PR_ERR) h
              in (pr_err, writeq pr_err (fme_pr + FME_PR_ERR) h))"

text \<open>Setting and clearing bits of a register.\<close>

definition set_bits64 :: "device \<Rightarrow> u64 \<Rightarrow> u64 \<Rightarrow> history \<Rightarrow> history" where
  "set_bits64 dev addr m h = (let (v, h) = readq dev addr h in writeq (v OR m) addr h)"

definition clear_bits64 :: "device \<Rightarrow> u64 \<Rightarrow> u64 \<Rightarrow> history \<Rightarrow> history" where
  "clear_bits64 dev addr m h = (let (v, h) = readq dev addr h in writeq (v AND NOT m) addr h)"

section \<open>Preparing\<close>

text \<open>\<open>polls\<close> is the number of reads that fit in \<^verbatim>\<open>PR_WAIT_TIMEOUT\<close>.\<close>

definition fme_mgr_write_init ::
  "device \<Rightarrow> nat \<Rightarrow> fpga_image_info \<Rightarrow> bytes \<Rightarrow> fme_mgr_priv \<Rightarrow> errno option \<times> fpga_image_info \<times> fme_mgr_priv" where
  "fme_mgr_write_init dev polls info buf priv =
     (if \<not> bit (info_flags info) 0 then (Some EINVAL, info, priv)
      else
        let fme_pr = ioaddr priv;
            h = set_bits64 dev (fme_pr + FME_PR_CTRL) 1 (io priv)
        in (case readq_poll dev (fme_pr + FME_PR_CTRL) (\<lambda>v. bit v 4) polls h of
              (ok, _, h) \<Rightarrow>
                if \<not> ok then (Some ETIMEDOUT, info, priv\<lparr>io := h\<rparr>)
                else
                  let h = clear_bits64 dev (fme_pr + FME_PR_CTRL) 1 h
                  in (case readq_poll dev (fme_pr + FME_PR_STS) (\<lambda>v. \<not> bit v 16) polls h of
                        (ok, _, h) \<Rightarrow>
                          (case fme_mgr_pr_error_handle dev fme_pr h of
                             (err, h) \<Rightarrow>
                               if \<not> ok then (Some ETIMEDOUT, info, priv\<lparr>io := h, pr_error := err\<rparr>)
                               else
                                 let (v, h) = readq dev (fme_pr + FME_PR_CTRL) h;
                                     h = writeq (field_set 9 7 (of_int (region_id info)) v) (fme_pr + FME_PR_CTRL) h
                                 in (None, info, priv\<lparr>io := h, pr_error := err\<rparr>)))))"

section \<open>Writing\<close>

text \<open>\<^verbatim>\<open>memcpy(&pr_data, buf, chunk_size)\<close> on a cleared \<^verbatim>\<open>pr_data\<close>, little endian.\<close>

fun le_word :: "bytes \<Rightarrow> u64" where
  "le_word [] = 0"
| "le_word (b # bs) = ucast b OR push_bit 8 (le_word bs)"

function pr_wait_credit :: "device \<Rightarrow> u64 \<Rightarrow> nat \<Rightarrow> nat \<Rightarrow> history \<Rightarrow> (nat \<times> nat) option \<times> history" where
  "pr_wait_credit dev fme_pr delay pr_credit h =
     (if pr_credit > 1 then (Some (delay, pr_credit), h)
      else if delay > PR_WAIT_TIMEOUT then (None, h)
      else let (pr_status, h) = readq dev (fme_pr + FME_PR_STS) h
           in pr_wait_credit dev fme_pr (delay + 1) (pr_credit_of pr_status) h)"
  by pat_completeness auto
termination by (relation "measure (\<lambda>(dev, fme_pr, delay, pr_credit, h). PR_WAIT_TIMEOUT + 1 - delay)") auto

declare pr_wait_credit.simps [simp del]

function pr_push :: "device \<Rightarrow> u64 \<Rightarrow> bytes \<Rightarrow> nat \<Rightarrow> nat \<Rightarrow> history \<Rightarrow> errno option \<times> history" where
  "pr_push dev fme_pr buf delay pr_credit h =
     (if buf = [] then (None, h)
      else (case pr_wait_credit dev fme_pr delay pr_credit h of
              (None, h) \<Rightarrow> (Some ETIMEDOUT, h)
            | (Some (delay, pr_credit), h) \<Rightarrow>
                let chunk_size = min (length buf) 4
                in pr_push dev fme_pr (drop chunk_size buf) delay (pr_credit - 1)
                     (writeq (le_word (take chunk_size buf)) (fme_pr + FME_PR_DATA) h)))"
  by pat_completeness auto
termination
  by (relation "measure (\<lambda>(dev, fme_pr, buf, delay, pr_credit, h). length buf)") (auto simp: min_def)

declare pr_push.simps [simp del]

definition fme_mgr_write :: "device \<Rightarrow> bytes \<Rightarrow> fme_mgr_priv \<Rightarrow> errno option \<times> fme_mgr_priv" where
  "fme_mgr_write dev buf priv =
     (let fme_pr = ioaddr priv;
          h = set_bits64 dev (fme_pr + FME_PR_CTRL) (2 ^ 12) (io priv);
          (pr_status, h) = readq dev (fme_pr + FME_PR_STS) h
      in case pr_push dev fme_pr buf 0 (pr_credit_of pr_status) h of (ret, h) \<Rightarrow> (ret, priv\<lparr>io := h\<rparr>))"

section \<open>Completing\<close>

definition fme_mgr_write_complete :: "device \<Rightarrow> nat \<Rightarrow> fpga_image_info \<Rightarrow> fme_mgr_priv \<Rightarrow> errno option \<times> fme_mgr_priv" where
  "fme_mgr_write_complete dev polls info priv =
     (let fme_pr = ioaddr priv;
          h = set_bits64 dev (fme_pr + FME_PR_CTRL) (2 ^ 13) (io priv)
      in case readq_poll dev (fme_pr + FME_PR_CTRL) (\<lambda>v. \<not> bit v 12) polls h of
           (ok, _, h) \<Rightarrow>
             if \<not> ok then (Some ETIMEDOUT, priv\<lparr>io := h\<rparr>)
             else (case fme_mgr_pr_error_handle dev fme_pr h of
                     (err, h) \<Rightarrow> (if err \<noteq> 0 then Some EIO else None, priv\<lparr>io := h, pr_error := err\<rparr>)))"

definition fme_mgr_status :: "fme_mgr_priv \<Rightarrow> u64" where
  "fme_mgr_status priv = pr_error_to_mgr_status (pr_error priv)"

definition fme_mgr_ops :: "device \<Rightarrow> nat \<Rightarrow> fme_mgr_priv fpga_manager_ops" where
  "fme_mgr_ops dev polls = \<lparr>initial_header_size = 0, skip_header = False, op_state = None, op_status = Some fme_mgr_status,
     op_parse_header = None, op_write_init = Some (fme_mgr_write_init dev polls), op_write = Some (fme_mgr_write dev),
     op_write_sg = None, op_write_complete = Some (fme_mgr_write_complete dev polls), op_fpga_remove = None\<rparr>"

text \<open>The compatibility id, low word first.\<close>

definition fme_mgr_get_compat_id :: "device \<Rightarrow> u64 \<Rightarrow> history \<Rightarrow> (u64 \<times> u64) \<times> history" where
  "fme_mgr_get_compat_id dev fme_pr h =
     (let (id_l, h) = readq dev (fme_pr + FME_PR_INTFC_ID_L) h; (id_h, h) = readq dev (fme_pr + FME_PR_INTFC_ID_H) h
      in ((id_h, id_l), h))"

text \<open>
  \<^verbatim>\<open>fme_mgr_probe\<close>: the address comes from the platform data, or else from a mapped resource, which
  may fail; \<open>None\<close> and \<open>False\<close> are failed allocations.
\<close>

record fme_probe_env =
  pe_priv_ok :: bool
  pe_compat_ok :: bool
  pe_ioremap :: "errno + u64"

definition fme_mgr_probe ::
  "device \<Rightarrow> nat \<Rightarrow> fme_probe_env \<Rightarrow> class_env \<Rightarrow> nat \<Rightarrow> u64 \<Rightarrow> history \<Rightarrow> fme_mgr_priv fpga_mgr_dev dev_class
     \<Rightarrow> (errno + (int \<times> u64 \<times> u64)) \<times> history \<times> fme_mgr_priv fpga_mgr_dev dev_class" where
  "fme_mgr_probe dev polls penv env parent pdata_ioaddr h cls =
     (if \<not> pe_priv_ok penv then (Inl ENOMEM, h, cls)
      else (case (if pdata_ioaddr \<noteq> 0 then Inr pdata_ioaddr else pe_ioremap penv) of
              Inl e \<Rightarrow> (Inl e, h, cls)
            | Inr addr \<Rightarrow>
                if \<not> pe_compat_ok penv then (Inl ENOMEM, h, cls)
                else
                  let ((id_h, id_l), h) = fme_mgr_get_compat_id dev addr h
                  in (case fpga_mgr_register_full \<lparr>ioaddr = addr, pr_error = 0, io = h\<rparr> env
                             \<lparr>mi_name = Some ''DFL FME FPGA Manager'', mi_mops = Some (fme_mgr_ops dev polls), mi_parent = parent\<rparr> cls of
                        (Inl e, cls) \<Rightarrow> (Inl e, h, cls)
                      | (Inr n, cls) \<Rightarrow> (Inr (n, id_h, id_l), h, cls))))"

end
