(* ===== verification/Fme_Mgr_Props.thy ===== *)
theory Fme_Mgr_Props
  imports Fme_Mgr
begin

unbundle bit_operations_syntax

text \<open>
  What the PR engine sees: the words of the image, in order and only while it has credit, and an
  error for every way it can fail.
\<close>

section \<open>Words of an image\<close>

function chunks4 :: "bytes \<Rightarrow> bytes list" where
  "chunks4 bs = (if bs = [] then [] else take 4 bs # chunks4 (drop 4 bs))"
  by pat_completeness auto
termination by (relation "measure length") auto

declare chunks4.simps [simp del]

text \<open>The bytes an engine takes out of a word, of which the last may have fewer than four.\<close>

fun word_bytes :: "nat \<Rightarrow> u64 \<Rightarrow> bytes" where
  "word_bytes 0 w = []"
| "word_bytes (Suc n) w = ucast w # word_bytes n (drop_bit 8 w)"

lemma bit_le_word: "bit (le_word bs) i \<Longrightarrow> i < 8 * length bs"
proof (induction bs arbitrary: i)
  case (Cons b bs)
  then have "bit b i \<or> 8 \<le> i \<and> bit (le_word bs) (i - 8)" by (auto simp: bit_simps)
  then show ?case
  proof
    assume "bit b i"
    then have "i < 8" by (auto dest: bit_imp_le_length)
    then show ?thesis by simp
  next
    assume i: "8 \<le> i \<and> bit (le_word bs) (i - 8)"
    then have "i - 8 < 8 * length bs" using Cons.IH by blast
    with i show ?thesis by simp
  qed
qed simp

lemma le_word_bytes: "length bs \<le> 8 \<Longrightarrow> word_bytes (length bs) (le_word bs) = bs"
proof (induction bs)
  case (Cons b bs)
  have "(ucast (ucast b OR push_bit 8 (le_word bs) :: u64) :: byte) = b"
    by (rule bit_eqI) (auto simp: bit_simps)
  moreover have "drop_bit 8 (ucast b OR push_bit 8 (le_word bs)) = le_word bs AND mask 56"
    by (rule bit_eqI) (auto simp: bit_simps dest: bit_imp_le_length)
  moreover have "le_word bs AND mask 56 = le_word bs" if "length bs \<le> 7"
    using that by (intro bit_eqI) (auto simp: bit_simps dest: bit_le_word)
  ultimately show ?case using Cons by simp
qed simp

section \<open>Pushing\<close>

lemma wait_credit_reads:
  assumes "pr_wait_credit dev fme_pr delay c h = (r, h')"
  shows "\<exists>vs. h' = h @ map (RD (fme_pr + FME_PR_STS)) vs \<and> length vs \<le> PR_WAIT_TIMEOUT + 1 - delay \<and>
     (case r of
        Some (delay', c') \<Rightarrow> c' > 1 \<and> c' = (if vs = [] then c else pr_credit_of (last vs)) \<and> delay' = delay + length vs
      | None \<Rightarrow> delay + length vs = max delay (PR_WAIT_TIMEOUT + 1) \<and> (\<forall>v \<in> set vs. pr_credit_of v \<le> 1))"
  using assms
proof (induction dev fme_pr delay c h rule: pr_wait_credit.induct)
  case (1 dev fme_pr delay c h)
  let ?v = "dev h (fme_pr + FME_PR_STS)"
  show ?case
  proof (cases "c > 1 \<or> delay > PR_WAIT_TIMEOUT")
    case True
    then have "(r, h') = (if c > 1 then Some (delay, c) else None, h)"
      using "1.prems" by (subst (asm) pr_wait_credit.simps) (auto split: if_splits)
    with True show ?thesis by (intro exI [of _ "[]"]) auto
  next
    case False
    then have "pr_wait_credit dev fme_pr (delay + 1) (pr_credit_of ?v) (h @ [RD (fme_pr + FME_PR_STS) ?v]) = (r, h')"
      using "1.prems" by (subst (asm) pr_wait_credit.simps) (simp add: readq_eq)
    from "1.IH" [OF _ _ readq_eq [symmetric] refl this] False
    obtain vs where vs: "h' = h @ [RD (fme_pr + FME_PR_STS) ?v] @ map (RD (fme_pr + FME_PR_STS)) vs"
        "length vs \<le> PR_WAIT_TIMEOUT + 1 - (delay + 1)"
        "case r of Some (delay', c') \<Rightarrow> c' > 1 \<and> c' = (if vs = [] then pr_credit_of ?v else pr_credit_of (last vs)) \<and> delay' = delay + 1 + length vs
         | None \<Rightarrow> delay + 1 + length vs = max (delay + 1) (PR_WAIT_TIMEOUT + 1) \<and> (\<forall>v \<in> set vs. pr_credit_of v \<le> 1)" by auto
    have first: "pr_credit_of ?v \<le> 1" if "r = None"
    proof (rule ccontr)
      assume "\<not> pr_credit_of ?v \<le> 1"
      then show False
        using \<open>pr_wait_credit dev fme_pr (delay + 1) (pr_credit_of ?v) _ = (r, h')\<close> that
        by (subst (asm) pr_wait_credit.simps) simp
    qed
    show ?thesis using vs False first by (intro exI [of _ "?v # vs"]) (auto split: option.splits)
  qed
qed

text \<open>
  The rule of the engine, read off a history: a word is pushed only while the credit, as last read
  less the words pushed since, is more than one.
\<close>

fun respects_credit :: "u64 \<Rightarrow> nat \<Rightarrow> history \<Rightarrow> bool" where
  "respects_credit fme_pr c [] \<longleftrightarrow> True"
| "respects_credit fme_pr c (RD a v # h) \<longleftrightarrow> respects_credit fme_pr (if a = fme_pr + FME_PR_STS then pr_credit_of v else c) h"
| "respects_credit fme_pr c (WR a v # h) \<longleftrightarrow>
     (if a = fme_pr + FME_PR_DATA then c > 1 \<and> respects_credit fme_pr (c - 1) h else respects_credit fme_pr c h)"

lemma respects_reads:
  "respects_credit fme_pr c (map (RD (fme_pr + FME_PR_STS)) vs @ h) \<longleftrightarrow>
     respects_credit fme_pr (if vs = [] then c else pr_credit_of (last vs)) h"
  by (induction vs arbitrary: c) auto

lemma pr_push_exact:
  assumes "pr_push dev fme_pr buf delay c h = (r, h')"
  shows "\<exists>g. h' = h @ g \<and> respects_credit fme_pr c g \<and>
     (if r = None then writes (fme_pr + FME_PR_DATA) g = map le_word (chunks4 buf)
      else r = Some ETIMEDOUT \<and> (\<exists>k < length (chunks4 buf). writes (fme_pr + FME_PR_DATA) g = take k (map le_word (chunks4 buf))))"
  using assms
proof (induction dev fme_pr buf delay c h rule: pr_push.induct)
  case (1 dev fme_pr buf delay c h)
  show ?case
  proof (cases "buf = []")
    case True
    with "1.prems" show ?thesis by (simp add: pr_push.simps chunks4.simps)
  next
    case False
    obtain w h1 where w: "pr_wait_credit dev fme_pr delay c h = (w, h1)" by fastforce
    from wait_credit_reads [OF w] obtain vs where vs: "h1 = h @ map (RD (fme_pr + FME_PR_STS)) vs"
      "w \<noteq> None \<Longrightarrow> snd (the w) > 1 \<and> snd (the w) = (if vs = [] then c else pr_credit_of (last vs))"
      by fastforce
    have cons: "chunks4 buf = take 4 buf # chunks4 (drop 4 buf)" using False by (simp add: chunks4.simps [of buf])
    have min4: "drop (min (length buf) 4) buf = drop 4 buf" "take (min (length buf) 4) buf = take 4 buf" by (simp_all add: min_def)
    show ?thesis
    proof (cases w)
      case None
      with "1.prems" False w have "r = Some ETIMEDOUT" "h' = h1" by (auto simp: pr_push.simps [of _ _ buf])
      with vs cons respects_reads [of fme_pr c vs "[]"] show ?thesis by auto
    next
      case (Some dc)
      obtain d' c' where dc: "dc = (d', c')" by fastforce
      let ?h2 = "writeq (le_word (take 4 buf)) (fme_pr + FME_PR_DATA) h1"
      have run: "pr_push dev fme_pr (drop 4 buf) d' (c' - 1) ?h2 = (r, h')"
        using "1.prems" False w Some dc min4 by (subst (asm) pr_push.simps) simp
      have "\<exists>g. h' = ?h2 @ g \<and> respects_credit fme_pr (c' - 1) g \<and>
          (if r = None then writes (fme_pr + FME_PR_DATA) g = map le_word (chunks4 (drop 4 buf))
           else r = Some ETIMEDOUT \<and>
             (\<exists>k < length (chunks4 (drop 4 buf)). writes (fme_pr + FME_PR_DATA) g = take k (map le_word (chunks4 (drop 4 buf)))))"
        using "1.IH" [OF False w [symmetric, unfolded Some dc] refl refl refl] run unfolding min4 by blast
      then obtain g where g: "h' = ?h2 @ g" "respects_credit fme_pr (c' - 1) g"
          "if r = None then writes (fme_pr + FME_PR_DATA) g = map le_word (chunks4 (drop 4 buf))
           else r = Some ETIMEDOUT \<and>
             (\<exists>k < length (chunks4 (drop 4 buf)). writes (fme_pr + FME_PR_DATA) g = take k (map le_word (chunks4 (drop 4 buf))))"
        by blast
      let ?g = "map (RD (fme_pr + FME_PR_STS)) vs @ WR (fme_pr + FME_PR_DATA) (le_word (take 4 buf)) # g"
      have "h' = h @ ?g" using g(1) vs(1) by (simp add: writeq_def)
      moreover have "respects_credit fme_pr c ?g" using vs(2) g(2) Some dc by (simp add: respects_reads)
      moreover have "writes (fme_pr + FME_PR_DATA) ?g = le_word (take 4 buf) # writes (fme_pr + FME_PR_DATA) g" by simp
      moreover have "if r = None then writes (fme_pr + FME_PR_DATA) ?g = map le_word (chunks4 buf)
          else r = Some ETIMEDOUT \<and> (\<exists>k < length (chunks4 buf). writes (fme_pr + FME_PR_DATA) ?g = take k (map le_word (chunks4 buf)))"
      proof (cases r)
        case (Some e)
        with g(3) obtain k where "r = Some ETIMEDOUT" "k < length (chunks4 (drop 4 buf))"
          "writes (fme_pr + FME_PR_DATA) g = take k (map le_word (chunks4 (drop 4 buf)))" by auto
        then have "Suc k < length (chunks4 buf) \<and> writes (fme_pr + FME_PR_DATA) ?g = take (Suc k) (map le_word (chunks4 buf))"
          using cons by simp
        with \<open>r = Some ETIMEDOUT\<close> show ?thesis by auto
      qed (use g(3) cons in simp)
      ultimately show ?thesis by blast
    qed
  qed
qed

lemma fme_write_exact:
  assumes "fme_mgr_write dev buf priv = (r, priv')"
  shows "ioaddr priv' = ioaddr priv" and "\<exists>g. io priv' = io priv @ g \<and> respects_credit (ioaddr priv) 0 g \<and>
    (if r = None then writes (ioaddr priv + FME_PR_DATA) g = map le_word (chunks4 buf)
     else r = Some ETIMEDOUT \<and>
       (\<exists>k < length (chunks4 buf). writes (ioaddr priv + FME_PR_DATA) g = take k (map le_word (chunks4 buf))))"
proof -
  let ?pr = "ioaddr priv"
  let ?v = "dev (io priv) (?pr + FME_PR_CTRL)"
  let ?h1 = "io priv @ [RD (?pr + FME_PR_CTRL) ?v, WR (?pr + FME_PR_CTRL) (?v OR 2 ^ 12)]"
  let ?st = "dev ?h1 (?pr + FME_PR_STS)"
  let ?g1 = "[RD (?pr + FME_PR_CTRL) ?v, WR (?pr + FME_PR_CTRL) (?v OR 2 ^ 12), RD (?pr + FME_PR_STS) ?st]"
  obtain r1 h' where p: "pr_push dev ?pr buf 0 (pr_credit_of ?st) (io priv @ ?g1) = (r1, h')" by fastforce
  have run: "r = r1" "priv' = priv\<lparr>io := h'\<rparr>"
    using assms p by (simp_all add: fme_mgr_write_def set_bits64_def readq_eq writeq_def)
  from pr_push_exact [OF p] obtain g where g: "h' = (io priv @ ?g1) @ g" "respects_credit ?pr (pr_credit_of ?st) g"
    "if r1 = None then writes (?pr + FME_PR_DATA) g = map le_word (chunks4 buf)
     else r1 = Some ETIMEDOUT \<and> (\<exists>k < length (chunks4 buf). writes (?pr + FME_PR_DATA) g = take k (map le_word (chunks4 buf)))"
    by blast
  show "ioaddr priv' = ioaddr priv" by (simp add: run)
  have "io priv' = io priv @ (?g1 @ g)" using g(1) run(2) by simp
  moreover have "respects_credit ?pr 0 (?g1 @ g)" using g(2) by simp
  moreover have "writes (?pr + FME_PR_DATA) (?g1 @ g) = writes (?pr + FME_PR_DATA) g" by simp
  ultimately show "\<exists>g. io priv' = io priv @ g \<and> respects_credit ?pr 0 g \<and>
    (if r = None then writes (?pr + FME_PR_DATA) g = map le_word (chunks4 buf)
     else r = Some ETIMEDOUT \<and>
       (\<exists>k < length (chunks4 buf). writes (?pr + FME_PR_DATA) g = take k (map le_word (chunks4 buf))))"
    using g(3) run(1) by (intro exI [of _ "?g1 @ g"]) presburger
qed

text \<open>
  C26. Writing to the PR engine. On success the words of the buffer have been pushed, all of them and in
  order; a time-out is the only error, with a proper beginning pushed. In both cases the engine's
  credit was respected: no word was pushed with a credit of one or less.
\<close>

theorem fme_write_respects_credit:
  assumes "fme_mgr_write dev buf priv = (r, priv')"
  shows "\<exists>g. io priv' = io priv @ g \<and> respects_credit (ioaddr priv) 0 g \<and>
    (if r = None then writes (ioaddr priv + FME_PR_DATA) g = map le_word (chunks4 buf)
     else r = Some ETIMEDOUT \<and>
       (\<exists>k < length (chunks4 buf). writes (ioaddr priv + FME_PR_DATA) g = take k (map le_word (chunks4 buf))))"
  using assms by (rule fme_write_exact(2))

section \<open>The whole load\<close>

lemma take_word_bytes: "take n (word_bytes m w) = word_bytes (min n m) w"
proof (induction m arbitrary: n w)
  case (Suc m)
  then show ?case by (cases n) simp_all
qed simp

lemma length_word_bytes [simp]: "length (word_bytes n w) = n"
  by (induction n arbitrary: w) simp_all

text \<open>An engine that takes four bytes out of every word gets the image back, padded at the end.\<close>

lemma chunks4_decode: "take (length bs) (concat (map (word_bytes 4) (map le_word (chunks4 bs)))) = bs"
proof (induction bs rule: chunks4.induct)
  case (1 bs)
  show ?case
  proof (cases "bs = []")
    case False
    have c: "chunks4 bs = take 4 bs # chunks4 (drop 4 bs)" using False by (simp add: chunks4.simps [of bs])
    have w: "word_bytes (length (take 4 bs)) (le_word (take 4 bs)) = take 4 bs" by (rule le_word_bytes) simp
    show ?thesis
    proof (cases "length bs \<le> 4")
      case True
      then have "take (length bs) (word_bytes 4 (le_word bs)) = bs" using w by (simp add: take_word_bytes min_def)
      with True c show ?thesis by simp
    next
      case long: False
      then have "word_bytes 4 (le_word (take 4 bs)) = take 4 bs" using w by simp
      then have "take (length bs) (concat (map (word_bytes 4) (map le_word (chunks4 bs)))) =
          take 4 bs @ take (length (drop 4 bs)) (concat (map (word_bytes 4) (map le_word (chunks4 (drop 4 bs)))))"
        using long c by simp
      also have "\<dots> = bs" using "1.IH" [OF False] by simp
      finally show ?thesis .
    qed
  qed simp
qed

lemma error_handle_writes:
  "fme_mgr_pr_error_handle dev pr h = (err, h') \<Longrightarrow> writes (pr + FME_PR_DATA) h' = writes (pr + FME_PR_DATA) h"
  by (auto simp: fme_mgr_pr_error_handle_def readq_eq writeq_def split: if_splits)

lemma write_init_frame:
  assumes "fme_mgr_write_init dev polls info buf priv = (r, info', priv')"
  shows "info' = info \<and> ioaddr priv' = ioaddr priv \<and>
    writes (ioaddr priv + FME_PR_DATA) (io priv') = writes (ioaddr priv + FME_PR_DATA) (io priv)"
  using assms
  by (auto simp: fme_mgr_write_init_def set_bits64_def clear_bits64_def readq_eq writeq_def Let_def
      split: if_splits prod.splits dest!: readq_poll_writes [where a = "ioaddr priv + FME_PR_DATA"] error_handle_writes)

lemma write_complete_frame:
  assumes "fme_mgr_write_complete dev polls info priv = (None, priv')"
  shows "ioaddr priv' = ioaddr priv \<and> pr_error priv' = 0 \<and>
    writes (ioaddr priv + FME_PR_DATA) (io priv') = writes (ioaddr priv + FME_PR_DATA) (io priv)"
  using assms
  by (auto simp: fme_mgr_write_complete_def set_bits64_def readq_eq writeq_def Let_def
      split: if_splits prod.splits dest!: readq_poll_writes [where a = "ioaddr priv + FME_PR_DATA"] error_handle_writes)

lemma fme_buf_load:
  assumes "fpga_mgr_buf_load env (fme_mgr_ops dev polls) info (addr, img) mgr = (None, info', mgr')"
    and "header_size info = 0" and "data_size info = 0" and "length img < 2 ^ 64"
  shows "mgr_state mgr' = FPGA_MGR_STATE_OPERATING \<and> pr_error (drv mgr') = 0 \<and>
    writes (ioaddr (drv mgr) + FME_PR_DATA) (io (drv mgr')) =
      writes (ioaddr (drv mgr) + FME_PR_DATA) (io (drv mgr)) @ map le_word (chunks4 img)"
proof -
  let ?mops = "fme_mgr_ops dev polls"
  have ops: "op_write ?mops = Some (fme_mgr_write dev)" "op_parse_header ?mops = None" "skip_header ?mops = False"
    "op_write_init ?mops = Some (fme_mgr_write_init dev polls)" "op_write_complete ?mops = Some (fme_mgr_write_complete dev polls)"
    by (simp_all add: fme_mgr_ops_def)
  have run: "fpga_mgr_buf_load_mapped env ?mops info img mgr = (None, info', mgr')"
    using assms(1) by (simp add: fpga_mgr_buf_load_def ops)
  show ?thesis
    using run
  proof (cases rule: buf_load_mapped_cases)
    case (written info1 mgr1 mgr2 mgr3 rw d1)
    have 1: "info1 = info" "drv mgr1 = drv mgr"
      using written(1) by (auto simp: fpga_mgr_parse_header_mapped_def fpga_mgr_parse_header_def ops Let_def split: if_splits)
    obtain ri info2 p2 where i: "fme_mgr_write_init dev polls info [] (drv mgr) = (ri, info2, p2)" using prod_cases3 by blast
    have 2: "info' = info" "drv mgr2 = p2"
      using written(2) i write_init_frame [OF i]
      by (auto simp: fpga_mgr_write_init_buf_def fpga_mgr_write_init_def ops 1 assms(2) Let_def)
    have 3: "rw = None" "fpga_mgr_write_complete ?mops info' (mgr3\<lparr>drv := d1, mgr_state := FPGA_MGR_STATE_WRITE\<rparr>) = (None, mgr')"
      using written(5) by (auto split: option.splits)
    have inside: "unat (mapped_start ?mops info') + unat (mapped_count ?mops info' (of_nat (length img))) \<le> length img"
      by (simp add: mapped_start_def mapped_count_def ops 2 assms(3) unat_frag [OF assms(4)])
    have "mem_range (behind env) img (unat (mapped_start ?mops info')) (unat (mapped_count ?mops info' (of_nat (length img)))) = img"
      unfolding mapped_bytes [OF inside assms(4)] by (simp add: image_data_def ops 2 assms(3))
    then have w: "fme_mgr_write dev img p2 = (None, d1)" using written(4) 2 3 by (simp add: fpga_mgr_write_def ops)
    obtain g where g: "io d1 = io p2 @ g" "writes (ioaddr p2 + FME_PR_DATA) g = map le_word (chunks4 img)"
      using fme_write_exact(2) [OF w] by auto
    note c = write_complete_ok [OF 3(2)]
    then have "fme_mgr_write_complete dev polls info' d1 = (None, drv mgr')" by (simp add: call_write_complete_def ops)
    from write_complete_frame [OF this] c g fme_write_exact(1) [OF w] write_init_frame [OF i]
    show ?thesis by simp
  qed auto
qed

text \<open>
  Partial reconfiguration end to end, from a buffer or a firmware file through the manager core to the
  registers. When the load succeeds, the manager is operating, the engine reports no error, and the
  words it was given since, each cut into four bytes, are the image, padded at the end.
\<close>

theorem fme_load_pushes_image:
  assumes "fpga_mgr_load env (fme_mgr_ops dev polls) info mgr = (None, info', mgr')" and "info_sgt info = None"
    and "data_size info = 0" and "image_of env info = Some img" and "length img < 2 ^ 64"
  shows "mgr_state mgr' = FPGA_MGR_STATE_OPERATING \<and> pr_error (drv mgr') = 0 \<and>
    (\<exists>ws. writes (ioaddr (drv mgr) + FME_PR_DATA) (io (drv mgr')) =
        writes (ioaddr (drv mgr) + FME_PR_DATA) (io (drv mgr)) @ ws \<and>
      take (length img) (concat (map (word_bytes 4) ws)) = img)"
proof -
  obtain addr info1 mgr1 where l: "fpga_mgr_buf_load env (fme_mgr_ops dev polls) info1 (addr, img) mgr1 = (None, info', mgr')"
      "header_size info1 = 0" "data_size info1 = 0" "drv mgr1 = drv mgr"
    using assms(1)
  proof (cases rule: load_cases)
    case (buf addr b bs info1)
    with assms show ?thesis by (intro that [of info1 addr mgr]) (auto simp: image_of_def fme_mgr_ops_def)
  next
    case (fw nm info1)
    then obtain addr where f: "request_firmware env nm = Inr (addr, img)"
      using assms(4) by (auto simp: image_of_def split: option.splits prod.splits sum.splits list.splits)
    with fw assms(3) show ?thesis
      by (intro that [of info1 addr "mgr\<lparr>mgr_state := FPGA_MGR_STATE_FIRMWARE_REQ\<rparr>"])
        (auto simp: fpga_mgr_firmware_load_def fme_mgr_ops_def)
  qed (use assms(2) in auto)
  from fme_buf_load [OF l(1-3) assms(5)] chunks4_decode [of img] show ?thesis
    unfolding l(4) by blast
qed

text \<open>The status bits are the error bits of the engine.\<close>

lemma bit_consts:
  "bit (2 :: u64) i \<longleftrightarrow> i = 1" "bit (4 :: u64) i \<longleftrightarrow> i = 2" "bit (8 :: u64) i \<longleftrightarrow> i = 3" "bit (16 :: u64) i \<longleftrightarrow> i = 4"
  using bit_exp_iff [of 1 i, where 'a = "64 word"] bit_exp_iff [of 2 i, where 'a = "64 word"]
    bit_exp_iff [of 3 i, where 'a = "64 word"] bit_exp_iff [of 4 i, where 'a = "64 word"]
  by auto

lemma bit_31: "bit (31 :: u64) i \<longleftrightarrow> i < 5"
  using bit_mask_iff [of 5 i, where 'a = "64 word"] by (auto simp: mask_eq_exp_minus_1)

lemma pr_error_to_mgr_status_mask: "pr_error_to_mgr_status err = err AND 31"
proof (rule bit_eqI)
  fix i :: nat
  have lt: "i < 5 \<longleftrightarrow> i = 0 \<or> i = 1 \<or> i = 2 \<or> i = 3 \<or> i = 4" by arith
  have zero: "bit (0 :: u64) i \<longleftrightarrow> False" by simp
  have one: "bit (1 :: u64) i \<longleftrightarrow> i = 0" by (simp add: bit_1_iff)
  have "bit (pr_error_to_mgr_status err) i \<longleftrightarrow>
      bit err 0 \<and> i = 0 \<or> bit err 1 \<and> i = 1 \<or> bit err 2 \<and> i = 2 \<or> bit err 3 \<and> i = 3 \<or> bit err 4 \<and> i = 4"
    unfolding pr_error_to_mgr_status_def Let_def
    by (cases "bit err 0"; cases "bit err 1"; cases "bit err 2"; cases "bit err 3"; cases "bit err 4")
      (simp_all only: if_True if_False bit_or_iff bit_consts one zero disj_assoc simp_thms)
  then show "bit (pr_error_to_mgr_status err) i \<longleftrightarrow> bit (err AND 31) i"
    unfolding bit_and_iff bit_31 lt by blast
qed

section \<open>Witnesses\<close>

text \<open>An engine that acknowledges at once and always has credit.\<close>

definition ready_engine :: device where
  "ready_engine h a = (if a = FME_PR_CTRL then 16 else if a = FME_PR_STS then 511 else 0)"

definition fme_mgr0 :: "fme_mgr_priv fpga_manager" where
  "fme_mgr0 = \<lparr>mgr_state = FPGA_MGR_STATE_UNKNOWN, drv = \<lparr>ioaddr = 0, pr_error = 0, io = []\<rparr>, overread = False\<rparr>"

definition pr_info0 :: fpga_image_info where
  "pr_info0 = \<lparr>info_flags = 1, config_complete_timeout_us = 0, firmware_name = None, info_sgt = None, info_buf = Some (0x8000, [1, 2, 3, 4, 5]),
     header_size = 0, data_size = 0, region_id = 1\<rparr>"

lemma fme_load0:
  "\<exists>h. fpga_mgr_load fpga_env0 (fme_mgr_ops ready_engine 0) pr_info0 fme_mgr0 =
     (None, pr_info0, \<lparr>mgr_state = FPGA_MGR_STATE_OPERATING, drv = \<lparr>ioaddr = 0, pr_error = 0, io = h\<rparr>, overread = False\<rparr>) \<and>
     writes FME_PR_DATA h = [0x04030201, 5]"
  by (simp add: fpga_mgr_load_def pr_info0_def fpga_mgr_buf_load_def fme_mgr_ops_def fpga_mgr_buf_load_mapped_def
    fpga_mgr_parse_header_mapped_def fpga_mgr_parse_header_def fpga_mgr_write_init_buf_def fpga_mgr_write_init_def
    fme_mgr_write_init_def fme_mgr0_def set_bits64_def clear_bits64_def readq_eq writeq_def ready_engine_def fme_mgr_pr_error_handle_def
    mapped_start_def mapped_count_def mem_range_inside fpga_mgr_write_def fme_mgr_write_def pr_push.simps pr_wait_credit.simps field_get_def
    fpga_mgr_write_complete_def call_write_complete_def fme_mgr_write_complete_def field_set_def field_mask_def field_prep_def)

theorem fme_load_pushes_image_witness:
  "\<exists>ws. take 5 (concat (map (word_bytes 4) ws)) = [1, 2, 3, 4, 5] \<and> ws = [0x04030201, 5]"
proof -
  obtain h where h: "fpga_mgr_load fpga_env0 (fme_mgr_ops ready_engine 0) pr_info0 fme_mgr0 =
     (None, pr_info0, \<lparr>mgr_state = FPGA_MGR_STATE_OPERATING, drv = \<lparr>ioaddr = 0, pr_error = 0, io = h\<rparr>, overread = False\<rparr>)"
     "writes FME_PR_DATA h = [0x04030201, 5]" using fme_load0 by blast
  have "image_of fpga_env0 pr_info0 = Some [1, 2, 3, 4, 5]" by (simp add: image_of_def pr_info0_def)
  from fme_load_pushes_image [OF h(1) _ _ this] h(2) show ?thesis by (simp add: pr_info0_def fme_mgr0_def)
qed

definition fme_priv0 :: fme_mgr_priv where
  "fme_priv0 = \<lparr>ioaddr = 0, pr_error = 0, io = []\<rparr>"

theorem fme_write_respects_credit_witness:
  "\<exists>g. io (snd (fme_mgr_write ready_engine [1, 2, 3, 4, 5] fme_priv0)) = g \<and> respects_credit 0 0 g \<and>
     writes FME_PR_DATA g = [0x04030201, 5]"
proof -
  have c: "chunks4 [1, 2, 3, 4, 5] = [[1, 2, 3, 4], [5]]" by (simp add: chunks4.simps)
  have "fst (fme_mgr_write ready_engine [1, 2, 3, 4, 5] fme_priv0) = None"
    by (simp add: fme_mgr_write_def fme_priv0_def set_bits64_def readq_eq writeq_def ready_engine_def
        pr_push.simps pr_wait_credit.simps field_get_def)
  then have "fme_mgr_write ready_engine [1, 2, 3, 4, 5] fme_priv0 =
      (None, snd (fme_mgr_write ready_engine [1, 2, 3, 4, 5] fme_priv0))" by (metis prod.collapse)
  from fme_write_respects_credit [OF this] show ?thesis by (simp add: c fme_priv0_def)
qed

end
