(* ===== verification/Fpga_Bridge.thy ===== *)
theory Fpga_Bridge
  imports Fpga_Class
begin

text \<open>
  Bridges (\<^verbatim>\<open>drivers/fpga/fpga-bridge.c\<close>): each is held exclusively through its mutex, with a device
  and a module reference, and switches traffic on hardware of a state \<^typ>\<open>'h\<close> of its own.
  Finding a bridge by its device tree node is not modelled, it differs in the key only.
\<close>

section \<open>One bridge\<close>

record 'h fpga_bridge_ops =
  enable_show :: "('h \<Rightarrow> int) option"
  enable_set :: "(bool \<Rightarrow> 'h \<Rightarrow> errno option \<times> 'h) option"
  fpga_bridge_remove :: "('h \<Rightarrow> 'h) option"

record 'h fpga_bridge =
  br_name :: string
  br_mutex :: bool
  br_ops :: "'h fpga_bridge_ops"
  br_info :: "fpga_image_info option"

type_synonym 'h br_class = "'h fpga_bridge dev_class"

definition fpga_bridge_enable :: "'h fpga_bridge \<Rightarrow> 'h \<Rightarrow> errno option \<times> 'h" where
  "fpga_bridge_enable bridge h = (case enable_set (br_ops bridge) of Some f \<Rightarrow> f True h | None \<Rightarrow> (None, h))"

definition fpga_bridge_disable :: "'h fpga_bridge \<Rightarrow> 'h \<Rightarrow> errno option \<times> 'h" where
  "fpga_bridge_disable bridge h = (case enable_set (br_ops bridge) of Some f \<Rightarrow> f False h | None \<Rightarrow> (None, h))"

definition set_bridge :: "int \<Rightarrow> ('h fpga_bridge \<Rightarrow> 'h fpga_bridge) \<Rightarrow> 'h br_class \<Rightarrow> 'h br_class" where
  "set_bridge n f cls = set_obj n (\<lambda>x. x\<lparr>o_body := f (o_body x)\<rparr>) cls"

text \<open>\<^verbatim>\<open>__fpga_bridge_get\<close> on a device whose reference is already taken.\<close>

definition fpga_bridge_get_dev ::
  "class_env \<Rightarrow> int \<Rightarrow> fpga_image_info option \<Rightarrow> 'h br_class \<Rightarrow> (errno + int) \<times> 'h br_class" where
  "fpga_bridge_get_dev env n info cls =
     (let cls = set_bridge n (\<lambda>b. b\<lparr>br_info := info\<rparr>) cls
      in case obj_at cls n of
           None \<Rightarrow> (Inl ENODEV, cls)
         | Some x \<Rightarrow>
             if br_mutex (o_body x) then (Inl EBUSY, put_device n cls)
             else let cls = set_bridge n (\<lambda>b. b\<lparr>br_mutex := True\<rparr>) cls
                  in if \<not> try_module_get env (o_parent x)
                     then (Inl ENODEV, put_device n (set_bridge n (\<lambda>b. b\<lparr>br_mutex := False\<rparr>) cls))
                     else (Inr n, cls\<lparr>cl_mods := cl_mods cls + 1\<rparr>))"

definition fpga_bridge_get ::
  "class_env \<Rightarrow> nat \<Rightarrow> fpga_image_info option \<Rightarrow> 'h br_class \<Rightarrow> (errno + int) \<times> 'h br_class" where
  "fpga_bridge_get env dev info cls =
     (case class_find_device dev cls of
        (None, cls) \<Rightarrow> (Inl ENODEV, cls)
      | (Some n, cls) \<Rightarrow> fpga_bridge_get_dev env n info cls)"

definition fpga_bridge_put :: "int \<Rightarrow> 'h br_class \<Rightarrow> 'h br_class" where
  "fpga_bridge_put n cls =
     (let cls = set_bridge n (\<lambda>b. b\<lparr>br_info := None\<rparr>) cls;
          cls = cls\<lparr>cl_mods := cl_mods cls - 1\<rparr>;
          cls = set_bridge n (\<lambda>b. b\<lparr>br_mutex := False\<rparr>) cls
      in put_device n cls)"

section \<open>Lists of bridges\<close>

definition bridge_at :: "'h br_class \<Rightarrow> int \<Rightarrow> 'h fpga_bridge option" where
  "bridge_at cls n = map_option o_body (obj_at cls n)"

fun fpga_bridges_enable :: "'h br_class \<Rightarrow> int list \<Rightarrow> 'h \<Rightarrow> errno option \<times> 'h" where
  "fpga_bridges_enable cls [] h = (None, h)"
| "fpga_bridges_enable cls (n # ns) h =
     (case (case bridge_at cls n of Some b \<Rightarrow> fpga_bridge_enable b h | None \<Rightarrow> (None, h)) of
        (Some e, h) \<Rightarrow> (Some e, h)
      | (None, h) \<Rightarrow> fpga_bridges_enable cls ns h)"

fun fpga_bridges_disable :: "'h br_class \<Rightarrow> int list \<Rightarrow> 'h \<Rightarrow> errno option \<times> 'h" where
  "fpga_bridges_disable cls [] h = (None, h)"
| "fpga_bridges_disable cls (n # ns) h =
     (case (case bridge_at cls n of Some b \<Rightarrow> fpga_bridge_disable b h | None \<Rightarrow> (None, h)) of
        (Some e, h) \<Rightarrow> (Some e, h)
      | (None, h) \<Rightarrow> fpga_bridges_disable cls ns h)"

fun fpga_bridges_put :: "int list \<Rightarrow> 'h br_class \<Rightarrow> int list \<times> 'h br_class" where
  "fpga_bridges_put [] cls = ([], cls)"
| "fpga_bridges_put (n # ns) cls = fpga_bridges_put ns (fpga_bridge_put n cls)"

definition fpga_bridge_get_to_list ::
  "class_env \<Rightarrow> nat \<Rightarrow> fpga_image_info option \<Rightarrow> int list \<times> 'h br_class \<Rightarrow> errno option \<times> int list \<times> 'h br_class" where
  "fpga_bridge_get_to_list env dev info lc =
     (case lc of (ns, cls) \<Rightarrow>
        (case fpga_bridge_get env dev info cls of
           (Inl e, cls) \<Rightarrow> (Some e, ns, cls)
         | (Inr n, cls) \<Rightarrow> (None, n # ns, cls)))"

section \<open>Registration\<close>

record 'h bridge_info =
  bi_parent :: nat
  bi_name :: "string option"
  bi_ops :: "'h fpga_bridge_ops option"

definition fpga_bridge_register ::
  "class_env \<Rightarrow> 'h bridge_info \<Rightarrow> 'h br_class \<Rightarrow> (errno + int) \<times> 'h br_class" where
  "fpga_bridge_register env info cls =
     (case (bi_ops info, bi_name info) of
        (Some ops, Some (c # cs)) \<Rightarrow>
          class_register env (bi_parent info) \<lparr>br_name = c # cs, br_mutex = False, br_ops = ops, br_info = None\<rparr> cls
      | _ \<Rightarrow> (Inl EINVAL, cls))"

definition fpga_bridge_unregister :: "int \<Rightarrow> 'h \<Rightarrow> 'h br_class \<Rightarrow> 'h \<times> 'h br_class" where
  "fpga_bridge_unregister n h cls =
     (case bridge_at cls n of
        None \<Rightarrow> (h, cls)
      | Some b \<Rightarrow> (case fpga_bridge_remove (br_ops b) of Some f \<Rightarrow> f h | None \<Rightarrow> h, device_unregister n cls))"

interpretation bridge_class: device_class fpga_bridge_register bi_parent
proof
  show "cls' = cls" if "ida_ok env" "class_inv cls" "fpga_bridge_register env a cls = (Inl e, cls')"
    for env a e and cls cls' :: "'h br_class"
    using that class_register_err [OF that(1,2)] by (auto simp: fpga_bridge_register_def split: option.splits list.splits)
next
  fix env a cls n and cls' :: "'h br_class"
  assume "ida_ok env" "fpga_bridge_register env a cls = (Inr n, cls')"
  then show "n \<notin> cl_ida cls \<and> cl_ida cls' = insert n (cl_ida cls) \<and> cl_live cls' = cl_live cls + 1 \<and> cl_mods cls' = cl_mods cls \<and>
      (\<exists>x. cl_objs cls' = x # cl_objs cls \<and> o_id x = n \<and> o_refs x = 1 \<and> o_parent x = bi_parent a)"
    by (auto simp: fpga_bridge_register_def split: option.splits list.splits dest!: class_register_new)
qed

section \<open>Taking and giving back a bridge\<close>

text \<open>The value of \<^verbatim>\<open>state\<close> in sysfs: an error of the driver, or whether the bridge is enabled.\<close>

definition bridge_state_show :: "'h fpga_bridge \<Rightarrow> 'h \<Rightarrow> int + string" where
  "bridge_state_show b h =
     (let st = (case enable_show (br_ops b) of Some f \<Rightarrow> f h | None \<Rightarrow> 1)
      in if st < 0 then Inl st else Inr (if st \<noteq> 0 then ''enabled'' else ''disabled''))"

lemma find_map_upd:
  assumes "\<And>x. o_id (f x) = o_id x"
  shows "find (\<lambda>x. o_id x = m) (map (\<lambda>x. if o_id x = n then f x else x) xs) =
    map_option (\<lambda>x. if m = n then f x else x) (find (\<lambda>x. o_id x = m) xs)"
  using assms by (induction xs) auto

lemma obj_at_set_obj:
  assumes "\<And>x. o_id (f x) = o_id x"
  shows "obj_at (set_obj n f cls) m = map_option (\<lambda>x. if m = n then f x else x) (obj_at cls m)"
  unfolding obj_at_def set_obj_def using find_map_upd [OF assms] by simp

lemma set_obj_set_obj:
  assumes "\<And>x. o_id (g x) = o_id x"
  shows "set_obj n f (set_obj n g cls) = set_obj n (f \<circ> g) cls"
  by (simp add: set_obj_def o_def assms if_distrib cong: if_cong)

lemma set_obj_cong:
  assumes "class_inv cls" and "obj_at cls n = Some x" and "f x = g x"
  shows "set_obj n f cls = set_obj n g cls"
proof -
  have "y = x" if "y \<in> set (cl_objs cls)" "o_id y = n" for y
    using find_id [OF _ that(1)] that(2) assms(1,2) by (simp add: class_inv_def obj_at_def)
  then have "map (\<lambda>y. if o_id y = n then f y else y) (cl_objs cls) = map (\<lambda>y. if o_id y = n then g y else y) (cl_objs cls)"
    using assms(3) by (intro map_cong) auto
  then show ?thesis by (simp add: set_obj_def)
qed

lemma set_obj_same: "(\<And>x. f x = x) \<Longrightarrow> set_obj n f cls = cls"
  by (simp add: set_obj_def map_idI)

lemma obj_at_id: "obj_at cls n = Some x \<Longrightarrow> x \<in> set (cl_objs cls) \<and> o_id x = n"
  by (auto simp: obj_at_def find_Some_iff)

lemma obj_at_refs: "class_inv cls \<Longrightarrow> obj_at cls n = Some x \<Longrightarrow> 0 < o_refs x"
  by (auto dest: obj_at_id simp: class_inv_def)

lemma put_device_set_obj:
  assumes "class_inv cls" and "obj_at cls n = Some x" and "o_id (f x) = o_id x" and "1 < o_refs (f x)"
    and "\<And>x. o_id (f x) = o_id x"
  shows "put_device n (set_obj n f cls) = set_obj n (\<lambda>x. (f x)\<lparr>o_refs := o_refs (f x) - 1\<rparr>) cls"
  using assms(2,4) obj_at_set_obj [of f n cls n, OF assms(5)]
  by (simp add: put_device_def set_obj_set_obj [OF assms(5)] o_def)

lemma get_put_device_frame:
  assumes "class_inv cls" and "obj_at cls n = Some x"
  shows "put_device n (set_bridge n f (get_device n cls)) = set_bridge n f cls"
proof -
  have "0 < o_refs x" using assms by (rule obj_at_refs)
  then have "put_device n (set_obj n (\<lambda>x. x\<lparr>o_refs := o_refs x + 1, o_body := f (o_body x)\<rparr>) cls) =
      set_obj n (\<lambda>x. x\<lparr>o_body := f (o_body x)\<rparr>) cls"
    by (subst put_device_set_obj [OF assms]) simp_all
  then show ?thesis by (simp add: set_bridge_def get_device_def set_obj_set_obj o_def)
qed

text \<open>Bridges up to the image information they point to.\<close>

definition forget :: "'h br_class \<Rightarrow> 'h br_class" where
  "forget cls = cls\<lparr>cl_objs := map (\<lambda>x. x\<lparr>o_body := (o_body x)\<lparr>br_info := None\<rparr>\<rparr>) (cl_objs cls)\<rparr>"

lemma forget_set_info: "forget (set_bridge n (\<lambda>b. b\<lparr>br_info := i\<rparr>) cls) = forget cls"
  by (simp add: forget_def set_bridge_def set_obj_def o_def if_distrib cong: if_cong)

lemma set_bridge_inv: "class_inv cls \<Longrightarrow> class_inv (set_bridge n f cls)"
  unfolding set_bridge_def by (rule set_obj_inv) (auto simp: class_inv_def)

lemma class_find_device_Some:
  assumes "class_find_device dev cls = (Some n, cls')" and "class_inv cls"
  obtains x where "obj_at cls n = Some x" "o_parent x = dev" "cls' = get_device n cls"
proof -
  obtain x where x: "find (\<lambda>x. o_parent x = dev) (cl_objs cls) = Some x" "n = o_id x" "cls' = get_device n cls"
    using assms(1) by (auto simp: class_find_device_def split: option.splits)
  then have "x \<in> set (cl_objs cls)" "o_parent x = dev" by (auto simp: find_Some_iff)
  moreover have "obj_at cls n = Some x"
    using find_id [OF _ calculation(1)] x(2) assms(2) by (simp add: class_inv_def obj_at_def)
  ultimately show thesis using x(3) that by blast
qed

lemma cl_mods_frame [simp]:
  "cl_mods (set_bridge n f cls) = cl_mods cls" "cl_mods (get_device n cls) = cl_mods cls"
  by (simp_all add: set_bridge_def set_obj_def get_device_def)

lemma cl_mods_update:
  "set_bridge n f (cls\<lparr>cl_mods := k\<rparr>) = (set_bridge n f cls)\<lparr>cl_mods := k\<rparr>"
  "put_device n (cls\<lparr>cl_mods := k\<rparr>) = (put_device n cls)\<lparr>cl_mods := k\<rparr>"
  by (auto simp: set_bridge_def set_obj_def put_device_def dev_release_def obj_at_def split: option.splits)

lemma set_bridge_merge: "set_bridge n f (set_bridge n g cls) = set_bridge n (f \<circ> g) cls"
  by (simp add: set_bridge_def set_obj_set_obj o_def)

text \<open>What getting a bridge does to the class, case by case.\<close>

lemma bridge_get_cases:
  assumes "fpga_bridge_get env dev info cls = (r, cls')" and "class_inv cls"
  obtains (none) "r = Inl ENODEV" "cls' = cls"
  | (busy) n x where "obj_at cls n = Some x" "br_mutex (o_body x)" "r = Inl EBUSY"
      "cls' = set_bridge n (\<lambda>b. b\<lparr>br_info := info\<rparr>) cls"
  | (no_module) n x where "obj_at cls n = Some x" "\<not> br_mutex (o_body x)" "r = Inl ENODEV"
      "cls' = set_bridge n (\<lambda>b. b\<lparr>br_info := info, br_mutex := False\<rparr>) cls"
  | (got) n x where "obj_at cls n = Some x" "\<not> br_mutex (o_body x)" "r = Inr n"
      "cls' = (set_bridge n (\<lambda>b. b\<lparr>br_info := info, br_mutex := True\<rparr>) (get_device n cls))\<lparr>cl_mods := cl_mods cls + 1\<rparr>"
proof -
  obtain rn cls1 where f: "class_find_device dev cls = (rn, cls1)" by fastforce
  show ?thesis
  proof (cases rn)
    case None
    then have "cls1 = cls" using f by (auto simp: class_find_device_def split: option.splits)
    with assms(1) f None none show ?thesis by (simp add: fpga_bridge_get_def)
  next
    case (Some n)
    obtain x where x: "obj_at cls n = Some x" "cls1 = get_device n cls"
      using class_find_device_Some [OF f [unfolded Some] assms(2)] by blast
    have run: "fpga_bridge_get_dev env n info (get_device n cls) = (r, cls')"
      using assms(1) f Some x by (simp add: fpga_bridge_get_def)
    have at: "obj_at (set_bridge n (\<lambda>b. b\<lparr>br_info := info\<rparr>) (get_device n cls)) n =
        Some (x\<lparr>o_refs := o_refs x + 1, o_body := (o_body x)\<lparr>br_info := info\<rparr>\<rparr>)"
      using x(1) by (simp add: set_bridge_def get_device_def obj_at_set_obj)
    note put = get_put_device_frame [OF assms(2) x(1)]
    show ?thesis
    proof (cases "br_mutex (o_body x)")
      case True
      with run at have "r = Inl EBUSY" "cls' = set_bridge n (\<lambda>b. b\<lparr>br_info := info\<rparr>) cls"
        by (simp_all add: fpga_bridge_get_dev_def Let_def put)
      with x(1) True busy show ?thesis by blast
    next
      case False
      show ?thesis
      proof (cases "try_module_get env (o_parent x)")
        case True
        with run at False have "r = Inr n"
          "cls' = (set_bridge n (\<lambda>b. b\<lparr>br_info := info, br_mutex := True\<rparr>) (get_device n cls))\<lparr>cl_mods := cl_mods cls + 1\<rparr>"
          by (simp_all add: fpga_bridge_get_dev_def Let_def set_bridge_merge o_def)
        with x(1) False got show ?thesis by blast
      next
        case nomod: False
        with run at False have "r = Inl ENODEV" "cls' = set_bridge n (\<lambda>b. b\<lparr>br_info := info, br_mutex := False\<rparr>) cls"
          by (simp_all add: fpga_bridge_get_dev_def Let_def set_bridge_merge o_def put)
        with x(1) False no_module show ?thesis by blast
      qed
    qed
  qed
qed

lemma forget_unlocked:
  assumes "class_inv cls" and "obj_at cls n = Some x" and "br_mutex (o_body x) = m"
  shows "forget (set_bridge n (\<lambda>b. b\<lparr>br_info := i, br_mutex := m\<rparr>) cls) = forget cls"
proof -
  have "set_bridge n (\<lambda>b. b\<lparr>br_info := i, br_mutex := m\<rparr>) cls = set_bridge n (\<lambda>b. b\<lparr>br_info := i\<rparr>) cls"
    unfolding set_bridge_def by (rule set_obj_cong [OF assms(1,2)]) (use assms(3) in simp)
  then show ?thesis by (simp add: forget_set_info)
qed

lemma bridge_get_error:
  assumes "fpga_bridge_get env dev info cls = (Inl e, cls')" and "class_inv cls"
  shows "forget cls' = forget cls \<and> class_inv cls'"
  using assms(1,2)
  by (cases rule: bridge_get_cases) (auto simp: forget_set_info forget_unlocked set_bridge_inv assms(2))

lemma bridge_get_put:
  assumes "fpga_bridge_get env dev info cls = (Inr n, cls')" and "class_inv cls"
  shows "fpga_bridge_put n cls' = set_bridge n (\<lambda>b. b\<lparr>br_info := None\<rparr>) cls \<and> class_inv cls'"
  using assms(1,2)
proof (cases rule: bridge_get_cases)
  case (got m x)
  let ?g = "set_bridge n (\<lambda>b. b\<lparr>br_info := info, br_mutex := True\<rparr>) (get_device n cls)"
  have "fpga_bridge_put n cls' = (put_device n (set_bridge n (\<lambda>b. b\<lparr>br_info := None, br_mutex := False\<rparr>) (get_device n cls)))\<lparr>cl_mods := cl_mods cls\<rparr>"
    using got by (simp add: fpga_bridge_put_def Let_def cl_mods_update set_bridge_merge o_def)
  also have "\<dots> = (set_bridge n (\<lambda>b. b\<lparr>br_info := None, br_mutex := False\<rparr>) cls)\<lparr>cl_mods := cl_mods cls\<rparr>"
    using got get_put_device_frame [OF assms(2)] by simp
  also have "set_bridge n (\<lambda>b. b\<lparr>br_info := None, br_mutex := False\<rparr>) cls = set_bridge n (\<lambda>b. b\<lparr>br_info := None\<rparr>) cls"
    unfolding set_bridge_def by (rule set_obj_cong [OF assms(2)]) (use got in auto)
  finally have "fpga_bridge_put n cls' = set_bridge n (\<lambda>b. b\<lparr>br_info := None\<rparr>) cls"
    by (simp add: set_bridge_def set_obj_def)
  moreover have "class_inv cls'" using got assms(2) by (simp add: set_bridge_inv get_device_inv)
  ultimately show ?thesis by simp
qed auto

section \<open>The information of a bridge that is in use\<close>

text \<open>A bridge whose hardware is one bit.\<close>

definition bridge0 :: "bool fpga_bridge" where
  "bridge0 = \<lparr>br_name = ''b'', br_mutex = False,
     br_ops = \<lparr>enable_show = Some (\<lambda>h. if h then 1 else 0), enable_set = Some (\<lambda>en h. (None, en)), fpga_bridge_remove = None\<rparr>,
     br_info = None\<rparr>"

definition bridges0 :: "bool br_class" where
  "bridges0 = \<lparr>cl_ida = {0}, cl_live = 1, cl_objs = [\<lparr>o_id = 0, o_refs = 1, o_parent = 7, o_body = bridge0\<rparr>], cl_mods = 0\<rparr>"

definition class_env0 :: class_env where
  "class_env0 = \<lparr>kzalloc_ok = True, ida_alloc = \<lambda>s. if 0 \<in> s then Inl ENOMEM else Inr 0, dev_set_name = \<lambda>_. None,
     device_register = \<lambda>_. None, try_module_get = \<lambda>_. True\<rparr>"

definition image_info0 :: "nat \<Rightarrow> fpga_image_info" where
  "image_info0 r = \<lparr>info_flags = 0, config_complete_timeout_us = 0, firmware_name = None, info_sgt = None, info_buf = None, header_size = 0, data_size = 0,
     region_id = int r\<rparr>"

text \<open>
  The information is stored before the mutex is tried: a user who is turned away with \<^verbatim>\<open>-EBUSY\<close> has
  replaced the image information of the user who holds the bridge.
\<close>

theorem busy_get_overwrites_info:
  "let (r1, cls1) = fpga_bridge_get class_env0 7 (Some (image_info0 1)) bridges0;
       (r2, cls2) = fpga_bridge_get class_env0 7 (Some (image_info0 2)) cls1
   in r1 = Inr 0 \<and> map_option br_info (bridge_at cls1 0) = Some (Some (image_info0 1)) \<and>
      r2 = Inl EBUSY \<and> map_option br_info (bridge_at cls2 0) = Some (Some (image_info0 2))"
  by (simp add: fpga_bridge_get_def class_find_device_def bridges0_def get_device_def set_obj_def fpga_bridge_get_dev_def
      set_bridge_def obj_at_def bridge0_def class_env0_def bridge_at_def put_device_def)

end
