(* ===== verification/Fpga_Region.thy ===== *)
theory Fpga_Region
  imports Fpga_Bridge Fpga_Mgr_Props
begin

text \<open>
  Programming a region (\<^verbatim>\<open>drivers/fpga/fpga-region.c\<close>): the region, its manager and its bridges are
  taken exclusively, the bridges are switched off while the image is loaded, and everything but
  the bridges is given back.
\<close>

section \<open>The region and its world\<close>

record ('d, 'h) region_sys =
  rg_mutex :: bool
  rg_refs :: int
  rg_mods :: int
  rg_mgr_cls :: "'d fpga_mgr_dev dev_class"
  rg_mgr :: "'d fpga_manager"
  rg_br_cls :: "'h br_class"
  bridge_list :: "int list"
  rg_hw :: 'h
  rg_info :: fpga_image_info

text \<open>
  The region's manager with its operations, its optional \<^verbatim>\<open>get_bridges\<close> (on the list and the
  bridges, with the region's image information), and the outcomes of the calls it makes. The manager's
  driver works on the hardware behind the bridges: what its operations do may depend on how these are
  switched, so they are given by the state of the bridges' hardware.
\<close>

record ('d, 'h) region_env =
  re_fpga :: fpga_env
  re_mops :: "'h \<Rightarrow> 'd fpga_manager_ops"
  re_mgr_id :: int
  re_module :: bool
  get_bridges :: "(fpga_image_info \<Rightarrow> int list \<times> 'h br_class \<Rightarrow> errno option \<times> int list \<times> 'h br_class) option"

definition fpga_region_get :: "('d, 'h) region_env \<Rightarrow> ('d, 'h) region_sys \<Rightarrow> ('d, 'h) region_sys ret" where
  "fpga_region_get env s =
     (if rg_mutex s then (Some EBUSY, s)
      else
        let s = s\<lparr>rg_mutex := True, rg_refs := rg_refs s + 1\<rparr>
        in if \<not> re_module env then (Some ENODEV, s\<lparr>rg_refs := rg_refs s - 1, rg_mutex := False\<rparr>)
           else (None, s\<lparr>rg_mods := rg_mods s + 1\<rparr>))"

definition fpga_region_put :: "('d, 'h) region_sys \<Rightarrow> ('d, 'h) region_sys" where
  "fpga_region_put s = s\<lparr>rg_mods := rg_mods s - 1, rg_refs := rg_refs s - 1, rg_mutex := False\<rparr>"

definition region_mgr_lock :: "('d, 'h) region_env \<Rightarrow> ('d, 'h) region_sys \<Rightarrow> ('d, 'h) region_sys ret" where
  "region_mgr_lock env s =
     (case fpga_mgr_lock (re_mgr_id env) (rg_mgr_cls s) of (r, cls) \<Rightarrow> (r, s\<lparr>rg_mgr_cls := cls\<rparr>))"

definition region_mgr_unlock :: "('d, 'h) region_env \<Rightarrow> ('d, 'h) region_sys \<Rightarrow> ('d, 'h) region_sys" where
  "region_mgr_unlock env s = s\<lparr>rg_mgr_cls := fpga_mgr_unlock (re_mgr_id env) (rg_mgr_cls s)\<rparr>"

definition region_bridges_put :: "('d, 'h) region_sys \<Rightarrow> ('d, 'h) region_sys" where
  "region_bridges_put s =
     (case fpga_bridges_put (bridge_list s) (rg_br_cls s) of (ns, cls) \<Rightarrow> s\<lparr>bridge_list := ns, rg_br_cls := cls\<rparr>)"

text \<open>The list of bridges and the bridges after \<^verbatim>\<open>get_bridges\<close>, or its error.\<close>

definition region_get_bridges :: "('d, 'h) region_env \<Rightarrow> ('d, 'h) region_sys \<Rightarrow> errno option \<times> int list \<times> 'h br_class" where
  "region_get_bridges env s =
     (case get_bridges env of
        None \<Rightarrow> (None, bridge_list s, rg_br_cls s)
      | Some get \<Rightarrow> get (rg_info s) (bridge_list s, rg_br_cls s))"

definition err_put_br :: "('d, 'h) region_env \<Rightarrow> ('d, 'h) region_sys \<Rightarrow> ('d, 'h) region_sys" where
  "err_put_br env s = (if get_bridges env \<noteq> None then region_bridges_put s else s)"

text \<open>From \<^verbatim>\<open>fpga_bridges_disable\<close> to the last \<^verbatim>\<open>fpga_bridges_enable\<close>, with the bridges at hand.\<close>

definition region_load :: "('d, 'h) region_env \<Rightarrow> ('d, 'h) region_sys \<Rightarrow> ('d, 'h) region_sys ret" where
  "region_load env s =
     (case fpga_bridges_disable (rg_br_cls s) (bridge_list s) (rg_hw s) of
        (Some e, h) \<Rightarrow> (Some e, s\<lparr>rg_hw := h\<rparr>)
      | (None, h) \<Rightarrow>
          (case fpga_mgr_load (re_fpga env) (re_mops env h) (rg_info s) (rg_mgr s) of
             (Some e, info, mgr) \<Rightarrow> (Some e, s\<lparr>rg_hw := h, rg_info := info, rg_mgr := mgr\<rparr>)
           | (None, info, mgr) \<Rightarrow>
               (case fpga_bridges_enable (rg_br_cls s) (bridge_list s) h of
                  (r, h) \<Rightarrow> (r, s\<lparr>rg_hw := h, rg_info := info, rg_mgr := mgr\<rparr>))))"

definition fpga_region_program_fpga :: "('d, 'h) region_env \<Rightarrow> ('d, 'h) region_sys \<Rightarrow> ('d, 'h) region_sys ret" where
  "fpga_region_program_fpga env s =
     (case fpga_region_get env s of
        (Some e, s) \<Rightarrow> (Some e, s)
      | (None, s) \<Rightarrow>
          (case region_mgr_lock env s of
             (Some e, s) \<Rightarrow> (Some e, fpga_region_put s)
           | (None, s) \<Rightarrow>
               (case region_get_bridges env s of
                  (Some e, ns, cls) \<Rightarrow>
                    (Some e, fpga_region_put (region_mgr_unlock env (s\<lparr>bridge_list := ns, rg_br_cls := cls\<rparr>)))
                | (None, ns, cls) \<Rightarrow>
                    (case region_load env (s\<lparr>bridge_list := ns, rg_br_cls := cls\<rparr>) of
                       (Some e, s) \<Rightarrow> (Some e, fpga_region_put (region_mgr_unlock env (err_put_br env s)))
                     | (None, s) \<Rightarrow> (None, fpga_region_put (region_mgr_unlock env s))))))"

section \<open>Exclusive references\<close>

text \<open>
  A resource that is taken by one user at a time: taking it fails without effect, and giving it
  back undoes the taking, whatever the holder has done to the rest of the state in between.
\<close>

locale exclusive =
  fixes get :: "'s \<Rightarrow> errno option \<times> 's" and put :: "'s \<Rightarrow> 's" and inv :: "'s \<Rightarrow> bool" and same :: "'s \<Rightarrow> 's \<Rightarrow> bool"
  assumes get_err: "get s = (Some e, s') \<Longrightarrow> s' = s"
    and get_put: "inv s \<Longrightarrow> get s = (None, s') \<Longrightarrow> same s' s'' \<Longrightarrow> same s (put s'')"
    and get_inv: "inv s \<Longrightarrow> get s = (None, s') \<Longrightarrow> inv s'"
    and get_twice: "inv s \<Longrightarrow> get s = (None, s') \<Longrightarrow> same s' s'' \<Longrightarrow> fst (get s'') = Some EBUSY"
    and same_refl: "same s s"
begin

definition held_during :: "('s \<Rightarrow> errno option \<times> 's) \<Rightarrow> 's \<Rightarrow> errno option \<times> 's" where
  "held_during body s =
     (case get s of (Some e, s) \<Rightarrow> (Some e, s) | (None, s) \<Rightarrow> (case body s of (r, s) \<Rightarrow> (r, put s)))"

lemma held_during_same:
  assumes "inv s" and "\<And>s r s'. body s = (r, s') \<Longrightarrow> inv s \<Longrightarrow> same s s'"
  shows "same s (snd (held_during body s))"
proof -
  obtain r s1 where g: "get s = (r, s1)" by fastforce
  show ?thesis
  proof (cases r)
    case None
    obtain r2 s2 where b: "body s1 = (r2, s2)" by fastforce
    have "same s1 s2" by (rule assms(2) [OF b]) (use get_inv [OF assms(1)] g None in simp)
    with get_put [OF assms(1)] g None b show ?thesis by (simp add: held_during_def)
  next
    case (Some e)
    with get_err g same_refl show ?thesis by (auto simp: held_during_def)
  qed
qed

lemma held_during_busy: "get s = (Some e, s') \<Longrightarrow> held_during body s = (Some e, s)"
  using get_err by (fastforce simp: held_during_def)

end

definition same_region :: "('d, 'h) region_sys \<Rightarrow> ('d, 'h) region_sys \<Rightarrow> bool" where
  "same_region s s' \<longleftrightarrow> rg_mutex s' = rg_mutex s \<and> rg_refs s' = rg_refs s \<and> rg_mods s' = rg_mods s"

interpretation region_ref: exclusive "fpga_region_get env" fpga_region_put "\<lambda>s. True" same_region for env
  by unfold_locales (auto simp: fpga_region_get_def fpga_region_put_def same_region_def Let_def split: if_splits)

definition mgr_ok :: "('d, 'h) region_env \<Rightarrow> ('d, 'h) region_sys \<Rightarrow> bool" where
  "mgr_ok env s \<longleftrightarrow> class_inv (rg_mgr_cls s)"

definition same_mgr :: "('d, 'h) region_sys \<Rightarrow> ('d, 'h) region_sys \<Rightarrow> bool" where
  "same_mgr s s' \<longleftrightarrow> rg_mgr_cls s' = rg_mgr_cls s"

lemma unlock_lock:
  assumes "class_inv cls" and "fpga_mgr_lock n cls = (None, cls')"
  shows "fpga_mgr_unlock n cls' = cls" and "class_inv cls'" and "fpga_mgr_lock n cls' = (Some EBUSY, cls')"
proof -
  obtain x where x: "obj_at cls n = Some x" "\<not> md_locked (o_body x)" "cls' = set_locked True n cls"
    using assms(2) by (auto simp: fpga_mgr_lock_def split: option.splits if_splits)
  have "fpga_mgr_unlock n cls' = set_obj n (\<lambda>x. x\<lparr>o_body := (o_body x)\<lparr>md_locked := False\<rparr>\<rparr>) cls"
    by (simp add: fpga_mgr_unlock_def set_locked_def x(3) set_obj_set_obj o_def)
  also have "\<dots> = set_obj n (\<lambda>x. x) cls" by (rule set_obj_cong [OF assms(1) x(1)]) (use x(2) in simp)
  finally show "fpga_mgr_unlock n cls' = cls" by (simp add: set_obj_same)
  show "class_inv cls'" using assms(1) x(3) by (simp add: set_locked_inv)
  show "fpga_mgr_lock n cls' = (Some EBUSY, cls')"
    using x by (simp add: fpga_mgr_lock_def set_locked_def obj_at_set_obj)
qed

interpretation mgr_ref: exclusive "region_mgr_lock env" "region_mgr_unlock env" "mgr_ok env" same_mgr for env
proof
  show "s' = s" if "region_mgr_lock env s = (Some e, s')" for s s' :: "('a, 'b) region_sys" and e
    using that by (auto simp: region_mgr_lock_def fpga_mgr_lock_def split: prod.splits option.splits if_splits)
next
  fix s s' s'' :: "('a, 'b) region_sys"
  assume a: "mgr_ok env s" "region_mgr_lock env s = (None, s')"
  then have l: "fpga_mgr_lock (re_mgr_id env) (rg_mgr_cls s) = (None, rg_mgr_cls s')" "class_inv (rg_mgr_cls s)"
    by (auto simp: region_mgr_lock_def mgr_ok_def split: prod.splits)
  note u = unlock_lock [OF l(2,1)]
  show "mgr_ok env s'" using u(2) by (simp add: mgr_ok_def)
  assume "same_mgr s' s''"
  then have s: "rg_mgr_cls s'' = rg_mgr_cls s'" by (simp add: same_mgr_def)
  show "same_mgr s (region_mgr_unlock env s'')" using u(1) s by (simp add: same_mgr_def region_mgr_unlock_def)
  show "fst (region_mgr_lock env s'') = Some EBUSY" using u(3) s by (simp add: region_mgr_lock_def)
qed (simp add: same_mgr_def)

section \<open>Programming\<close>

text \<open>What happens while region and manager are held.\<close>

definition region_body :: "('d, 'h) region_env \<Rightarrow> ('d, 'h) region_sys \<Rightarrow> ('d, 'h) region_sys ret" where
  "region_body env s =
     (case region_get_bridges env s of
        (Some e, ns, cls) \<Rightarrow> (Some e, s\<lparr>bridge_list := ns, rg_br_cls := cls\<rparr>)
      | (None, ns, cls) \<Rightarrow>
          (case region_load env (s\<lparr>bridge_list := ns, rg_br_cls := cls\<rparr>) of
             (Some e, s) \<Rightarrow> (Some e, err_put_br env s)
           | (None, s) \<Rightarrow> (None, s)))"

lemma program_eq:
  "fpga_region_program_fpga env s =
     region_ref.held_during env (mgr_ref.held_during env (region_body env)) s"
  by (auto simp: fpga_region_program_fpga_def region_ref.held_during_def mgr_ref.held_during_def region_body_def
      split: prod.splits option.splits)

lemma region_load_frame:
  "region_load env s = (r, s') \<Longrightarrow> same_region s s' \<and> same_mgr s s' \<and> bridge_list s' = bridge_list s \<and> rg_br_cls s' = rg_br_cls s"
  by (auto simp: region_load_def same_region_def same_mgr_def split: prod.splits option.splits)

lemma err_put_br_frame:
  "same_region s (err_put_br env s) \<and> same_mgr s (err_put_br env s) \<and> rg_mgr (err_put_br env s) = rg_mgr s \<and>
   rg_hw (err_put_br env s) = rg_hw s \<and> rg_info (err_put_br env s) = rg_info s"
  by (simp add: err_put_br_def region_bridges_put_def same_region_def same_mgr_def split: prod.splits)

lemma region_body_frame:
  assumes "region_body env s = (r, s')"
  shows "same_region s s' \<and> same_mgr s s'"
proof -
  obtain rb ns cls where g: "region_get_bridges env s = (rb, ns, cls)" using prod_cases3 by blast
  let ?s1 = "s\<lparr>bridge_list := ns, rg_br_cls := cls\<rparr>"
  obtain rl s2 where l: "region_load env ?s1 = (rl, s2)" by fastforce
  have f: "same_region s ?s1" "same_mgr s ?s1" by (simp_all add: same_region_def same_mgr_def)
  show ?thesis
  proof (cases rb)
    case None
    with assms g l have "s' = s2 \<or> s' = err_put_br env s2" by (cases rl) (auto simp: region_body_def)
    with f region_load_frame [OF l] err_put_br_frame [of s2 env] show ?thesis
      by (auto simp: same_region_def same_mgr_def)
  qed (use assms g f in \<open>auto simp: region_body_def\<close>)
qed

lemma program_cases:
  assumes "fpga_region_program_fpga env s = (r, s')"
  obtains (refused) e where "r = Some e" "rg_mgr s' = rg_mgr s" "rg_hw s' = rg_hw s"
  | (body) s1 s2 where "rg_mgr s1 = rg_mgr s" "rg_hw s1 = rg_hw s" "rg_info s1 = rg_info s" "bridge_list s1 = bridge_list s"
      "rg_br_cls s1 = rg_br_cls s" "region_body env s1 = (r, s2)" "s' = fpga_region_put (region_mgr_unlock env s2)"
proof -
  obtain rg s1 where g: "fpga_region_get env s = (rg, s1)" by fastforce
  obtain rm s2 where m: "region_mgr_lock env s1 = (rm, s2)" by fastforce
  obtain rb s3 where b: "region_body env s2 = (rb, s3)" by fastforce
  have run: "region_ref.held_during env (mgr_ref.held_during env (region_body env)) s = (r, s')"
    using assms by (simp only: program_eq)
  have f1: "rg_mgr s1 = rg_mgr s" "rg_hw s1 = rg_hw s" "rg_info s1 = rg_info s" "bridge_list s1 = bridge_list s"
      "rg_br_cls s1 = rg_br_cls s"
    using g by (auto simp: fpga_region_get_def Let_def split: if_splits)
  have f2: "rg_mgr s2 = rg_mgr s1" "rg_hw s2 = rg_hw s1" "rg_info s2 = rg_info s1" "bridge_list s2 = bridge_list s1"
      "rg_br_cls s2 = rg_br_cls s1"
    using m by (auto simp: region_mgr_lock_def split: prod.splits)
  show ?thesis
  proof (cases "rg = None \<and> rm = None")
    case True
    with run g m b have "r = rb" "s' = fpga_region_put (region_mgr_unlock env s3)"
      by (simp_all add: region_ref.held_during_def mgr_ref.held_during_def)
    with f1 f2 b show ?thesis by (intro body [of s2 s3]) simp_all
  next
    case False
    then have "(\<exists>e. r = Some e) \<and> rg_mgr s' = rg_mgr s \<and> rg_hw s' = rg_hw s"
      using run g m f1 f2
      by (cases rg; cases rm)
        (auto simp: region_ref.held_during_def mgr_ref.held_during_def fpga_region_put_def)
    then show ?thesis using refused by blast
  qed
qed

lemma program_same_region: "same_region s (snd (fpga_region_program_fpga env s))"
  unfolding program_eq
proof (rule region_ref.held_during_same)
  fix s1 r1 s2
  assume "mgr_ref.held_during env (region_body env) s1 = (r1, s2)"
  then show "same_region s1 s2"
    by (auto simp: mgr_ref.held_during_def region_mgr_lock_def region_mgr_unlock_def same_region_def
        split: prod.splits option.splits dest!: region_body_frame)
qed simp

lemma program_same_mgr:
  assumes "mgr_ok env s"
  shows "same_mgr s (snd (fpga_region_program_fpga env s))"
proof -
  obtain r s1 where g: "fpga_region_get env s = (r, s1)" by fastforce
  then have f: "same_mgr s s1" by (auto simp: fpga_region_get_def same_mgr_def Let_def split: if_splits)
  then have ok: "mgr_ok env s1" using assms by (simp add: mgr_ok_def same_mgr_def)
  have "same_mgr s1 (snd (mgr_ref.held_during env (region_body env) s1))"
    by (rule mgr_ref.held_during_same [OF ok]) (use region_body_frame in blast)
  with f g show ?thesis
    unfolding program_eq region_ref.held_during_def
    by (cases r) (auto simp: same_mgr_def fpga_region_put_def split: prod.splits)
qed

section \<open>The bridges around a load\<close>

text \<open>
  What bridges owe: by a predicate \<open>on\<close> of the hardware, a call of \<^verbatim>\<open>enable_set\<close> that succeeds has switched
  this bridge as asked for, and no other. A bridge without the operation cannot be switched.
\<close>

definition bridges_switch :: "'h br_class \<Rightarrow> (int \<Rightarrow> 'h \<Rightarrow> bool) \<Rightarrow> bool" where
  "bridges_switch cls on \<longleftrightarrow>
     (\<forall>n b f en h h'. bridge_at cls n = Some b \<longrightarrow> enable_set (br_ops b) = Some f \<longrightarrow> f en h = (None, h') \<longrightarrow>
        on n h' = en \<and> (\<forall>m. m \<noteq> n \<longrightarrow> on m h' = on m h))"

definition switchable :: "'h br_class \<Rightarrow> int \<Rightarrow> bool" where
  "switchable cls n \<longleftrightarrow> (\<exists>b. bridge_at cls n = Some b \<and> enable_set (br_ops b) \<noteq> None)"

definition all_off :: "'h br_class \<Rightarrow> (int \<Rightarrow> 'h \<Rightarrow> bool) \<Rightarrow> int list \<Rightarrow> 'h \<Rightarrow> bool" where
  "all_off cls on ns h \<longleftrightarrow> (\<forall>n\<in>set ns. switchable cls n \<longrightarrow> \<not> on n h)"

definition all_on :: "'h br_class \<Rightarrow> (int \<Rightarrow> 'h \<Rightarrow> bool) \<Rightarrow> int list \<Rightarrow> 'h \<Rightarrow> bool" where
  "all_on cls on ns h \<longleftrightarrow> (\<forall>n\<in>set ns. switchable cls n \<longrightarrow> on n h)"

lemma switch_one:
  assumes "bridges_switch cls on"
    and "(case bridge_at cls n of Some b \<Rightarrow> (case enable_set (br_ops b) of Some f \<Rightarrow> f en h | None \<Rightarrow> (None, h)) | None \<Rightarrow> (None, h)) = (None, h')"
  shows "(switchable cls n \<longrightarrow> on n h' = en) \<and> (\<forall>m. on m h = en \<longrightarrow> on m h' = en)"
proof (cases "switchable cls n")
  case True
  then obtain b f where "bridge_at cls n = Some b" "enable_set (br_ops b) = Some f" by (auto simp: switchable_def)
  with assms have "on n h' = en \<and> (\<forall>m. m \<noteq> n \<longrightarrow> on m h' = on m h)" unfolding bridges_switch_def by fastforce
  then show ?thesis by metis
next
  case False
  with assms(2) have "h' = h" by (auto simp: switchable_def split: option.splits)
  with False show ?thesis by simp
qed

lemma bridges_disable_off:
  assumes "bridges_switch cls on"
  shows "fpga_bridges_disable cls ns h = (None, h') \<Longrightarrow> all_off cls on ns h' \<and> (\<forall>m. \<not> on m h \<longrightarrow> \<not> on m h')"
proof (induction ns arbitrary: h)
  case (Cons n ns)
  then obtain h1 where 1: "(case bridge_at cls n of Some b \<Rightarrow> fpga_bridge_disable b h | None \<Rightarrow> (None, h)) = (None, h1)"
    and 2: "fpga_bridges_disable cls ns h1 = (None, h')" by (auto split: prod.splits option.splits)
  have "(switchable cls n \<longrightarrow> on n h1 = False) \<and> (\<forall>m. on m h = False \<longrightarrow> on m h1 = False)"
    by (rule switch_one [OF assms]) (use 1 in \<open>auto simp: fpga_bridge_disable_def split: option.splits\<close>)
  with Cons.IH [OF 2] show ?case by (auto simp: all_off_def)
qed (simp add: all_off_def)

lemma bridges_enable_on:
  assumes "bridges_switch cls on"
  shows "fpga_bridges_enable cls ns h = (None, h') \<Longrightarrow> all_on cls on ns h' \<and> (\<forall>m. on m h \<longrightarrow> on m h')"
proof (induction ns arbitrary: h)
  case (Cons n ns)
  then obtain h1 where 1: "(case bridge_at cls n of Some b \<Rightarrow> fpga_bridge_enable b h | None \<Rightarrow> (None, h)) = (None, h1)"
    and 2: "fpga_bridges_enable cls ns h1 = (None, h')" by (auto split: prod.splits option.splits)
  have "(switchable cls n \<longrightarrow> on n h1 = True) \<and> (\<forall>m. on m h = True \<longrightarrow> on m h1 = True)"
    by (rule switch_one [OF assms]) (use 1 in \<open>auto simp: fpga_bridge_enable_def split: option.splits\<close>)
  with Cons.IH [OF 2] show ?case by (auto simp: all_on_def)
qed (simp add: all_on_def)

text \<open>Another driver, that may differ where a bridge of the list is on.\<close>

definition guarded ::
  "'h br_class \<Rightarrow> (int \<Rightarrow> 'h \<Rightarrow> bool) \<Rightarrow> int list \<Rightarrow> ('h \<Rightarrow> 'd fpga_manager_ops) \<Rightarrow> ('d, 'h) region_env \<Rightarrow> ('d, 'h) region_env" where
  "guarded cls on ns other env = env\<lparr>re_mops := \<lambda>h. if all_off cls on ns h then re_mops env h else other h\<rparr>"

definition bridges_kept ::
  "('d, 'h) region_env \<Rightarrow> (int \<Rightarrow> 'h \<Rightarrow> bool) \<Rightarrow> 'h br_class \<Rightarrow> int list \<Rightarrow> ('d, 'h) region_sys \<Rightarrow> ('d, 'h) region_sys \<Rightarrow> errno option \<Rightarrow> bool" where
  "bridges_kept env on cls ns s s' r \<longleftrightarrow>
     (r = None \<longrightarrow> mgr_state (rg_mgr s') = FPGA_MGR_STATE_OPERATING \<and> all_on cls on ns (rg_hw s')) \<and>
     (rg_mgr s' \<noteq> rg_mgr s \<longrightarrow> mgr_state (rg_mgr s') \<noteq> FPGA_MGR_STATE_OPERATING \<longrightarrow> all_off cls on ns (rg_hw s'))"

lemma region_load_switched:
  assumes "region_load env s = (r, s')" and "bridges_switch (rg_br_cls s) on"
  shows "bridges_kept env on (rg_br_cls s) (bridge_list s) s s' r \<and>
    region_load (guarded (rg_br_cls s) on (bridge_list s) other env) s = (r, s')"
proof -
  obtain rd h1 where d: "fpga_bridges_disable (rg_br_cls s) (bridge_list s) (rg_hw s) = (rd, h1)" by fastforce
  show ?thesis
  proof (cases rd)
    case (Some e)
    with assms(1) d have "r = Some e" "rg_mgr s' = rg_mgr s" by (auto simp: region_load_def)
    moreover have "region_load (guarded (rg_br_cls s) on (bridge_list s) other env) s = (r, s')"
      using assms(1) d Some by (auto simp: region_load_def)
    ultimately show ?thesis by (simp add: bridges_kept_def)
  next
    case None
    have off: "all_off (rg_br_cls s) on (bridge_list s) h1" using bridges_disable_off [OF assms(2) d [unfolded None]] by simp
    obtain rl info mgr where l: "fpga_mgr_load (re_fpga env) (re_mops env h1) (rg_info s) (rg_mgr s) = (rl, info, mgr)"
      using prod_cases3 by blast
    obtain re h2 where e: "fpga_bridges_enable (rg_br_cls s) (bridge_list s) h1 = (re, h2)" by fastforce
    have same: "region_load (guarded (rg_br_cls s) on (bridge_list s) other env) s = (r, s')"
      using assms(1) d None off by (simp add: region_load_def guarded_def)
    have "bridges_kept env on (rg_br_cls s) (bridge_list s) s s' r"
    proof (cases rl)
      case Some
      with assms(1) d None l off show ?thesis by (auto simp: region_load_def bridges_kept_def)
    next
      case n: None
      have "mgr_state mgr = FPGA_MGR_STATE_OPERATING" using load_operating l n by blast
      moreover have "r = re" "s' = s\<lparr>rg_hw := h2, rg_info := info, rg_mgr := mgr\<rparr>"
        using assms(1) d None l n e by (auto simp: region_load_def)
      ultimately show ?thesis using bridges_enable_on [OF assms(2)] e by (auto simp: bridges_kept_def)
    qed
    with same show ?thesis by simp
  qed
qed

lemma region_body_switched:
  assumes "region_body env s = (r, s')" and "region_get_bridges env s = (rb, ns, cls)" and "bridges_switch cls on"
  shows "bridges_kept env on cls ns s s' r \<and> region_body (guarded cls on ns other env) s = (r, s')"
proof -
  have g: "region_get_bridges (guarded cls on ns other env) s = (rb, ns, cls)"
    using assms(2) by (simp add: region_get_bridges_def guarded_def)
  have put: "err_put_br (guarded cls on ns other env) t = err_put_br env t" for t by (simp add: err_put_br_def guarded_def)
  show ?thesis
  proof (cases rb)
    case (Some e)
    with assms(1,2) g show ?thesis by (auto simp: region_body_def bridges_kept_def)
  next
    case None
    let ?s = "s\<lparr>bridge_list := ns, rg_br_cls := cls\<rparr>"
    obtain rl s2 where l: "region_load env ?s = (rl, s2)" by fastforce
    from region_load_switched [OF l, of on other] assms(3) have
      k: "bridges_kept env on cls ns ?s s2 rl" "region_load (guarded cls on ns other env) ?s = (rl, s2)" by simp_all
    have "r = rl" "s' = (if rl = None then s2 else err_put_br env s2)"
      using assms(1,2) None l by (cases rl; auto simp: region_body_def)+
    moreover have "region_body (guarded cls on ns other env) s = (rl, if rl = None then s2 else err_put_br env s2)"
      using g None k(2) put by (cases rl) (auto simp: region_body_def)
    ultimately show ?thesis using k(1) err_put_br_frame [of s2 env] by (auto simp: bridges_kept_def)
  qed
qed

lemma region_get_bridges_frame:
  assumes "rg_info s1 = rg_info s" and "bridge_list s1 = bridge_list s" and "rg_br_cls s1 = rg_br_cls s"
  shows "region_get_bridges env s1 = region_get_bridges env s"
  using assms by (cases "get_bridges env") (simp_all add: region_get_bridges_def)

lemma program_switched:
  assumes "fpga_region_program_fpga env s = (r, s')" and "region_get_bridges env s = (rb, ns, cls)" and "bridges_switch cls on"
  shows "bridges_kept env on cls ns s s' r \<and> fpga_region_program_fpga (guarded cls on ns other env) s = (r, s')"
proof -
  let ?env = "guarded cls on ns other env"
  obtain rg s1 where g: "fpga_region_get env s = (rg, s1)" by fastforce
  obtain rm s2 where m: "region_mgr_lock env s1 = (rm, s2)" by fastforce
  obtain rt s3 where b: "region_body env s2 = (rt, s3)" by fastforce
  have g': "fpga_region_get ?env s = (rg, s1)" and m': "region_mgr_lock ?env s1 = (rm, s2)"
    and u': "region_mgr_unlock ?env t = region_mgr_unlock env t" for t
    using g m by (simp_all add: fpga_region_get_def region_mgr_lock_def region_mgr_unlock_def guarded_def Let_def
      cong: if_cong)
  have f1: "rg_mgr s1 = rg_mgr s" "rg_info s1 = rg_info s" "bridge_list s1 = bridge_list s" "rg_br_cls s1 = rg_br_cls s"
    using g by (auto simp: fpga_region_get_def Let_def split: if_splits)
  have f2: "rg_mgr s2 = rg_mgr s1" "rg_info s2 = rg_info s1" "bridge_list s2 = bridge_list s1" "rg_br_cls s2 = rg_br_cls s1"
    using m by (auto simp: region_mgr_lock_def split: prod.splits)
  have "region_get_bridges env s2 = (rb, ns, cls)"
    using assms(2) f1 f2 by (simp add: region_get_bridges_frame [of s2 s])
  note k = region_body_switched [OF b this assms(3), of other]
  show ?thesis
  proof (cases "rg = None \<and> rm = None")
    case True
    have "r = rt" "s' = fpga_region_put (region_mgr_unlock env s3)"
      using assms(1) g m b True by (simp_all add: program_eq region_ref.held_during_def mgr_ref.held_during_def)
    moreover have "fpga_region_program_fpga ?env s = (rt, fpga_region_put (region_mgr_unlock env s3))"
      using g' m' u' k True by (simp add: program_eq region_ref.held_during_def mgr_ref.held_during_def)
    ultimately show ?thesis using k f1 f2 by (simp add: bridges_kept_def fpga_region_put_def region_mgr_unlock_def)
  next
    case False
    have "fpga_region_program_fpga ?env s = (r, s')"
      using assms(1) g m g' m' False
      by (cases rg; cases rm) (auto simp: program_eq region_ref.held_during_def mgr_ref.held_during_def)
    moreover obtain e where "r = Some e" "rg_mgr s' = rg_mgr s"
      using assms(1) g m f1 f2 False
      by (cases rg; cases rm)
        (auto simp: program_eq region_ref.held_during_def mgr_ref.held_during_def fpga_region_put_def)
    ultimately show ?thesis by (simp add: bridges_kept_def)
  qed
qed

text \<open>
  C25. Programming a region, for bridges whose operation switches them as asked when it succeeds, and for any
  driver of the manager. The region and the manager are as free or as held as before. The driver works only
  while every bridge of the region that can be switched is off: whatever else it would do while one is on makes
  no difference. On success the manager is operating and all these bridges are on; if the manager was
  touched and is not operating, they are still off. The bridges are those that \<^verbatim>\<open>get_bridges\<close> finds.
\<close>

theorem region_program_safe:
  assumes "fpga_region_program_fpga env s = (r, s')" and "mgr_ok env s"
    and "region_get_bridges env s = (rb, ns, cls)" and "bridges_switch cls on"
  shows "same_region s s' \<and> same_mgr s s' \<and>
    (\<forall>other. fpga_region_program_fpga (env\<lparr>re_mops := \<lambda>h. if all_off cls on ns h then re_mops env h else other h\<rparr>) s = (r, s')) \<and>
    (r = None \<longrightarrow> mgr_state (rg_mgr s') = FPGA_MGR_STATE_OPERATING \<and> all_on cls on ns (rg_hw s')) \<and>
    (rg_mgr s' \<noteq> rg_mgr s \<longrightarrow> mgr_state (rg_mgr s') \<noteq> FPGA_MGR_STATE_OPERATING \<longrightarrow> all_off cls on ns (rg_hw s'))"
  using program_same_region [of s env] program_same_mgr [OF assms(2)] program_switched [OF assms(1,3,4)] assms(1)
  by (auto simp: bridges_kept_def guarded_def)

section \<open>Registration\<close>

record region_info =
  ri_parent :: nat
  ri_mgr :: int
  ri_compat_id :: "(u64 \<times> u64) option"
  ri_get_bridges :: bool      \<comment> \<open>whether \<^verbatim>\<open>get_bridges\<close> is given\<close>

record fpga_region =
  rd_mgr :: int
  rd_compat_id :: "(u64 \<times> u64) option"
  rd_get_bridges :: bool
  rd_bridges :: "int list"

definition fpga_region_register_full ::
  "class_env \<Rightarrow> region_info \<Rightarrow> fpga_region dev_class \<Rightarrow> (errno + int) \<times> fpga_region dev_class" where
  "fpga_region_register_full env info cls =
     class_register env (ri_parent info)
       \<lparr>rd_mgr = ri_mgr info, rd_compat_id = ri_compat_id info, rd_get_bridges = ri_get_bridges info, rd_bridges = []\<rparr> cls"

definition fpga_region_register ::
  "class_env \<Rightarrow> nat \<Rightarrow> int \<Rightarrow> bool \<Rightarrow> fpga_region dev_class \<Rightarrow> (errno + int) \<times> fpga_region dev_class" where
  "fpga_region_register env parent mgr get cls =
     fpga_region_register_full env \<lparr>ri_parent = parent, ri_mgr = mgr, ri_compat_id = None, ri_get_bridges = get\<rparr> cls"

definition fpga_region_unregister :: "int \<Rightarrow> fpga_region dev_class \<Rightarrow> fpga_region dev_class" where
  "fpga_region_unregister n cls = device_unregister n cls"

definition fpga_region_class_find :: "nat \<Rightarrow> fpga_region dev_class \<Rightarrow> int option \<times> fpga_region dev_class" where
  "fpga_region_class_find parent cls = class_find_device parent cls"

interpretation region_class: device_class fpga_region_register_full ri_parent
  by unfold_locales
    (auto simp: fpga_region_register_full_def dest: class_register_err class_register_new)

text \<open>The value of \<^verbatim>\<open>compat_id\<close> in sysfs: 32 hexadecimal digits of the two words and a newline.\<close>

definition compat_id_show :: "fpga_region \<Rightarrow> errno + string" where
  "compat_id_show r = (case rd_compat_id r of None \<Rightarrow> Inl ENOENT | Some (h, l) \<Rightarrow> Inr (hex16 h @ hex16 l @ [CHR 0x0A]))"

end
