(* ===== verification/Fme_Pr.thy ===== *)
theory Fme_Pr
  imports Fme_Mgr_Props Fpga_Region Dfl_Port
begin

unbundle bit_operations_syntax

text \<open>
  Partial reconfiguration of a port (\<^verbatim>\<open>drivers/fpga/dfl-fme-pr.c\<close>, \<^verbatim>\<open>dfl-fme-region.c\<close>): the devices the
  FME creates for its ports, and the ioctl that programs the region of a port.
\<close>

section \<open>The devices of an FME\<close>

datatype fme_kind = FME_MGR | FME_BRIDGE | FME_REGION

text \<open>Outcomes of creating the platform device of a kind for a port.\<close>

record pdev_env =
  pd_kzalloc :: "fme_kind \<Rightarrow> int \<Rightarrow> bool"
  pd_alloc :: "fme_kind \<Rightarrow> int \<Rightarrow> bool"
  pd_add_data :: "fme_kind \<Rightarrow> int \<Rightarrow> errno option"
  pd_add :: "fme_kind \<Rightarrow> int \<Rightarrow> errno option"

text \<open>
  The private data of the FME: its manager, and the lists of bridges and regions, each by port.
  \<open>pdevs\<close> are the platform devices that exist.
\<close>

record dfl_fme =
  fme_mgr :: bool
  fme_bridge_list :: "int list"
  fme_region_list :: "int list"
  pdevs :: "(fme_kind \<times> int) list"

definition create_pdev :: "pdev_env \<Rightarrow> fme_kind \<Rightarrow> int \<Rightarrow> dfl_fme \<Rightarrow> dfl_fme ret" where
  "create_pdev env k port fme =
     (if \<not> pd_alloc env k port then (Some ENOMEM, fme)
      else (case pd_add_data env k port of
              Some e \<Rightarrow> (Some e, fme)
            | None \<Rightarrow>
                (case pd_add env k port of
                   Some e \<Rightarrow> (Some e, fme)
                 | None \<Rightarrow> (None, fme\<lparr>pdevs := (k, port) # pdevs fme\<rparr>))))"

definition unregister_pdev :: "fme_kind \<Rightarrow> int \<Rightarrow> dfl_fme \<Rightarrow> dfl_fme" where
  "unregister_pdev k port fme = fme\<lparr>pdevs := remove1 (k, port) (pdevs fme)\<rparr>"

definition dfl_fme_create_mgr :: "pdev_env \<Rightarrow> bool \<Rightarrow> dfl_fme \<Rightarrow> dfl_fme ret" where
  "dfl_fme_create_mgr env has_ioaddr fme = (if \<not> has_ioaddr then (Some ENODEV, fme) else create_pdev env FME_MGR 0 fme)"

definition dfl_fme_destroy_mgr :: "dfl_fme \<Rightarrow> dfl_fme" where
  "dfl_fme_destroy_mgr fme = unregister_pdev FME_MGR 0 fme"

definition dfl_fme_create_bridge :: "pdev_env \<Rightarrow> int \<Rightarrow> dfl_fme \<Rightarrow> dfl_fme ret" where
  "dfl_fme_create_bridge env port fme =
     (if \<not> pd_kzalloc env FME_BRIDGE port then (Some ENOMEM, fme) else create_pdev env FME_BRIDGE port fme)"

definition dfl_fme_create_region :: "pdev_env \<Rightarrow> int \<Rightarrow> dfl_fme \<Rightarrow> dfl_fme ret" where
  "dfl_fme_create_region env port fme =
     (if \<not> pd_kzalloc env FME_REGION port then (Some ENOMEM, fme) else create_pdev env FME_REGION port fme)"

fun destroy_pdevs :: "fme_kind \<Rightarrow> int list \<Rightarrow> dfl_fme \<Rightarrow> dfl_fme" where
  "destroy_pdevs k [] fme = fme"
| "destroy_pdevs k (port # ports) fme = destroy_pdevs k ports (unregister_pdev k port fme)"

definition dfl_fme_destroy_bridges :: "dfl_fme \<Rightarrow> dfl_fme" where
  "dfl_fme_destroy_bridges fme = (destroy_pdevs FME_BRIDGE (fme_bridge_list fme) fme)\<lparr>fme_bridge_list := []\<rparr>"

definition dfl_fme_destroy_regions :: "dfl_fme \<Rightarrow> dfl_fme" where
  "dfl_fme_destroy_regions fme = (destroy_pdevs FME_REGION (fme_region_list fme) fme)\<lparr>fme_region_list := []\<rparr>"

text \<open>\<open>hdr\<close> is the mapped FME header; the loop runs over the remaining port numbers.\<close>

fun create_ports :: "pdev_env \<Rightarrow> mmio \<Rightarrow> u64 \<Rightarrow> int list \<Rightarrow> dfl_fme \<Rightarrow> dfl_fme ret" where
  "create_ports env m hdr [] fme = (None, fme)"
| "create_ports env m hdr (i # is) fme =
     (if \<not> bit (m (hdr + FME_HDR_PORT_OFST i)) 60 then create_ports env m hdr is fme
      else (case dfl_fme_create_bridge env i fme of
              (Some e, fme) \<Rightarrow> (Some e, fme)
            | (None, fme) \<Rightarrow>
                (case dfl_fme_create_region env i (fme\<lparr>fme_bridge_list := i # fme_bridge_list fme\<rparr>) of
                   (Some e, fme) \<Rightarrow> (Some e, fme)
                 | (None, fme) \<Rightarrow> create_ports env m hdr is (fme\<lparr>fme_region_list := i # fme_region_list fme\<rparr>))))"

definition num_ports :: "mmio \<Rightarrow> u64 \<Rightarrow> nat" where
  "num_ports m hdr = unat (field_get 19 17 (m (hdr + 0x30)))"

definition pr_mgmt_init :: "pdev_env \<Rightarrow> mmio \<Rightarrow> u64 \<Rightarrow> bool \<Rightarrow> dfl_fme \<Rightarrow> dfl_fme ret" where
  "pr_mgmt_init env m hdr has_ioaddr fme =
     (let fme = fme\<lparr>fme_region_list := [], fme_bridge_list := []\<rparr>
      in case dfl_fme_create_mgr env has_ioaddr fme of
           (Some _, fme) \<Rightarrow> (Some ENODEV, fme)
         | (None, fme) \<Rightarrow>
             (case create_ports env m hdr (map int [0..<num_ports m hdr]) (fme\<lparr>fme_mgr := True\<rparr>) of
                (Some e, fme) \<Rightarrow> (Some e, dfl_fme_destroy_mgr (dfl_fme_destroy_bridges (dfl_fme_destroy_regions fme)))
              | (None, fme) \<Rightarrow> (None, fme)))"

definition pr_mgmt_uinit :: "dfl_fme \<Rightarrow> dfl_fme" where
  "pr_mgmt_uinit fme = dfl_fme_destroy_mgr (dfl_fme_destroy_bridges (dfl_fme_destroy_regions fme))"

section \<open>Programming a port\<close>

text \<open>What belongs to one region, and what all regions of the FME share.\<close>

record region_own =
  own_mutex :: bool
  own_refs :: int
  own_mods :: int
  own_bridges :: "int list"
  own_info :: "fpga_image_info option"

record ('d, 'h) fme_world =
  fw_fme :: "dfl_fme option"               \<comment> \<open>\<open>None\<close> once the FME device is gone\<close>
  fw_regions :: "fpga_region dev_class"
  fw_own :: "int \<Rightarrow> region_own"             \<comment> \<open>by region device\<close>
  fw_mgr_cls :: "'d fpga_mgr_dev dev_class"
  fw_mgr :: "'d fpga_manager"
  fw_br_cls :: "'h br_class"
  fw_hw :: 'h
  fw_infos :: int                          \<comment> \<open>image informations allocated and not freed\<close>

definition region_view :: "int \<Rightarrow> fpga_image_info \<Rightarrow> ('d, 'h) fme_world \<Rightarrow> ('d, 'h) region_sys" where
  "region_view n info w = \<lparr>rg_mutex = own_mutex (fw_own w n), rg_refs = own_refs (fw_own w n), rg_mods = own_mods (fw_own w n),
     rg_mgr_cls = fw_mgr_cls w, rg_mgr = fw_mgr w, rg_br_cls = fw_br_cls w, bridge_list = own_bridges (fw_own w n),
     rg_hw = fw_hw w, rg_info = info\<rparr>"

definition region_store :: "int \<Rightarrow> ('d, 'h) region_sys \<Rightarrow> ('d, 'h) fme_world \<Rightarrow> ('d, 'h) fme_world" where
  "region_store n s w = w\<lparr>fw_own := (fw_own w)(n := \<lparr>own_mutex = rg_mutex s, own_refs = rg_refs s, own_mods = rg_mods s,
       own_bridges = bridge_list s, own_info = Some (rg_info s)\<rparr>),
     fw_mgr_cls := rg_mgr_cls s, fw_mgr := rg_mgr s, fw_br_cls := rg_br_cls s, fw_hw := rg_hw s\<rparr>"

text \<open>\<^verbatim>\<open>dfl-fme-region.c\<close>: the bridge of a region is the one on its bridge platform device.\<close>

definition fme_region_get_bridges ::
  "class_env \<Rightarrow> nat \<Rightarrow> fpga_image_info \<Rightarrow> int list \<times> 'h br_class \<Rightarrow> errno option \<times> int list \<times> 'h br_class" where
  "fme_region_get_bridges env br info lc = fpga_bridge_get_to_list env br (Some info) lc"

record dfl_fpga_fme_port_pr =
  pr_argsz :: u32
  pr_flags :: u32
  pr_port_id :: u32
  pr_buffer_size :: u32
  pr_buffer_address :: u64

text \<open>
  The environment: user memory, allocations, the platform devices of regions and bridges by port,
  and what programming a region needs.
\<close>

record ('d, 'h) pr_env =
  copy_port_pr :: "dfl_fpga_fme_port_pr option"
  vmalloc_ok :: "u32 \<Rightarrow> bool"
  copy_buffer :: "u64 \<Rightarrow> u32 \<Rightarrow> (u64 \<times> bytes) option"
  info_alloc_ok :: bool
  region_pdev :: "int \<Rightarrow> nat"
  bridge_pdev :: "int \<Rightarrow> nat"
  pr_class :: class_env
  pr_region :: "('d, 'h) region_env"

definition dfl_fme_region_find_by_port_id :: "dfl_fme \<Rightarrow> int \<Rightarrow> int option" where
  "dfl_fme_region_find_by_port_id fme port = find (\<lambda>p. p = port) (fme_region_list fme)"

definition dfl_fme_region_find ::
  "('d, 'h) pr_env \<Rightarrow> dfl_fme \<Rightarrow> int \<Rightarrow> fpga_region dev_class \<Rightarrow> int option \<times> fpga_region dev_class" where
  "dfl_fme_region_find env fme port cls =
     (case dfl_fme_region_find_by_port_id fme port of
        None \<Rightarrow> (None, cls)
      | Some p \<Rightarrow> fpga_region_class_find (region_pdev env p) cls)"

definition pr_image_info :: "dfl_fpga_fme_port_pr \<Rightarrow> u64 \<times> bytes \<Rightarrow> fpga_image_info" where
  "pr_image_info port_pr ab = \<lparr>info_flags = 1, config_complete_timeout_us = 0, firmware_name = None, info_sgt = None, info_buf = Some ab,
     header_size = 0, data_size = 0, region_id = sint (pr_port_id port_pr)\<rparr>"

definition program_port ::
  "('d, 'h) pr_env \<Rightarrow> dfl_fpga_fme_port_pr \<Rightarrow> u64 \<times> bytes \<Rightarrow> int \<Rightarrow> ('d, 'h) fme_world \<Rightarrow> ('d, 'h) fme_world ret" where
  "program_port env port_pr ab n w =
     (let w = w\<lparr>fw_infos := fw_infos w - (if own_info (fw_own w n) \<noteq> None then 1 else 0)\<rparr>;
          renv = (pr_region env)\<lparr>get_bridges := Some (fme_region_get_bridges (pr_class env) (bridge_pdev env (sint (pr_port_id port_pr))))\<rparr>
      in case fpga_region_program_fpga renv (region_view n (pr_image_info port_pr ab) w) of
           (r, s) \<Rightarrow>
             let w = region_store n (region_bridges_put s) w
             in (r, w\<lparr>fw_regions := put_device n (fw_regions w)\<rparr>))"

definition fme_pr :: "('d, 'h) pr_env \<Rightarrow> mmio \<Rightarrow> u64 \<Rightarrow> ('d, 'h) fme_world \<Rightarrow> ('d, 'h) fme_world ret" where
  "fme_pr env m hdr w =
     (case copy_port_pr env of
        None \<Rightarrow> (Some EFAULT, w)
      | Some port_pr \<Rightarrow>
          if pr_argsz port_pr < 24 \<or> pr_flags port_pr \<noteq> 0 \<or> pr_buffer_size port_pr = 0 then (Some EINVAL, w)
          else if unat (pr_port_id port_pr) \<ge> num_ports m hdr then (Some EINVAL, w)
          else if \<not> vmalloc_ok env (pr_buffer_size port_pr) then (Some ENOMEM, w)
          else (case copy_buffer env (pr_buffer_address port_pr) (pr_buffer_size port_pr) of
                  None \<Rightarrow> (Some EFAULT, w)
                | Some ab \<Rightarrow>
                    if \<not> info_alloc_ok env then (Some ENOMEM, w)
                    else
                      let w = w\<lparr>fw_infos := fw_infos w + 1\<rparr>
                      in (case fw_fme w of
                            None \<Rightarrow> (Some EINVAL, w)
                          | Some fme \<Rightarrow>
                              (case dfl_fme_region_find env fme (sint (pr_port_id port_pr)) (fw_regions w) of
                                 (None, cls) \<Rightarrow> (Some EINVAL, w\<lparr>fw_regions := cls\<rparr>)
                               | (Some n, cls) \<Rightarrow> program_port env port_pr ab n (w\<lparr>fw_regions := cls\<rparr>)))))"

section \<open>The bridge of a port\<close>

text \<open>
  \<^verbatim>\<open>dfl-fme-br.c\<close>: the port and its operations are looked up on first use and kept. \<open>enable_port\<close> is the
  \<^verbatim>\<open>enable_set\<close> of operations, by position in their list.
\<close>

record fme_br_priv =
  br_port_id :: int
  br_port :: "nat option"
  br_port_ops :: "nat option"

definition fme_bridge_enable_set ::
  "(nat \<Rightarrow> (nat \<Rightarrow> bool \<Rightarrow> port_state \<Rightarrow> port_state ret) option) \<Rightarrow> bool \<Rightarrow> fme_br_priv \<times> port_state
     \<Rightarrow> errno option \<times> fme_br_priv \<times> port_state" where
  "fme_bridge_enable_set enable_port enable ps0 =
     (case ps0 of (priv, ps) \<Rightarrow>
        (case (case br_port priv of Some i \<Rightarrow> (Some i, ps) | None \<Rightarrow> cdev_find_port (br_port_id priv) ps) of
           (None, ps) \<Rightarrow> (Some ENODEV, priv, ps)
         | (Some i, ps) \<Rightarrow>
             let priv = priv\<lparr>br_port := Some i\<rparr>
             in (case br_port_ops priv of
                   Some k \<Rightarrow>
                     (case enable_port k of
                        Some f \<Rightarrow> (case f i enable ps of (r, ps) \<Rightarrow> (r, priv, ps))
                      | None \<Rightarrow> (Some ENOENT, priv, ps))
                 | None \<Rightarrow>
                     (case dfl_fpga_port_ops_get (port_at ps i) (ps_ops ps) of
                        (None, opsl) \<Rightarrow> (Some ENOENT, priv, ps\<lparr>ps_ops := opsl\<rparr>)
                      | (Some k, opsl) \<Rightarrow>
                          let ps = ps\<lparr>ps_ops := opsl\<rparr>
                          in (case enable_port k of
                                None \<Rightarrow> (Some ENOENT, priv, ps)
                              | Some f \<Rightarrow>
                                  (case f i enable ps of (r, ps) \<Rightarrow> (r, priv\<lparr>br_port_ops := Some k\<rparr>, ps)))))))"

definition fme_br_remove :: "fme_br_priv \<Rightarrow> dfl_fpga_port_ops list \<Rightarrow> dfl_fpga_port_ops list" where
  "fme_br_remove priv opsl = (if br_port_ops priv \<noteq> None then dfl_fpga_port_ops_put (br_port_ops priv) opsl else opsl)"

end
