(* ===== verification/Fme_Main.thy ===== *)
theory Fme_Main
  imports Fme_Error Fme_Pr Dfl_Bus
begin

unbundle bit_operations_syntax

text \<open>
  The driver of the FPGA management engine (\<^verbatim>\<open>drivers/fpga/dfl-fme-main.c\<close>): attributes of its header,
  thermal and power monitoring, its device file, and probing. It puts the ports of the container,
  partial reconfiguration and the global errors together.
\<close>

section \<open>Attributes of the header\<close>

definition fme_hdr_reg :: "dfl_feature_dev_data \<Rightarrow> u64 \<Rightarrow> u64" where
  "fme_hdr_reg fd ofst = feature_base fd FEATURE_ID_FIU_HEADER + ofst"

abbreviation FME_HDR_CAP :: u64 where "FME_HDR_CAP \<equiv> 0x30"

definition hdr_cap_show :: "device \<Rightarrow> nat \<Rightarrow> nat \<Rightarrow> 'a dev_sys_scheme \<Rightarrow> string \<times> 'a dev_sys_scheme" where
  "hdr_cap_show dev hi lo s =
     (case rd dev (fme_hdr_reg (dv_fdata s) FME_HDR_CAP) s of
        (v, s) \<Rightarrow> (decstr (unat (field_get hi lo v)) @ newline, s))"

definition ports_num_show :: "device \<Rightarrow> 'a dev_sys_scheme \<Rightarrow> string \<times> 'a dev_sys_scheme" where
  "ports_num_show dev s = hdr_cap_show dev 19 17 s"

definition cache_size_show :: "device \<Rightarrow> 'a dev_sys_scheme \<Rightarrow> string \<times> 'a dev_sys_scheme" where
  "cache_size_show dev s = hdr_cap_show dev 43 32 s"

definition fabric_version_show :: "device \<Rightarrow> 'a dev_sys_scheme \<Rightarrow> string \<times> 'a dev_sys_scheme" where
  "fabric_version_show dev s = hdr_cap_show dev 7 0 s"

definition socket_id_show :: "device \<Rightarrow> 'a dev_sys_scheme \<Rightarrow> string \<times> 'a dev_sys_scheme" where
  "socket_id_show dev s = hdr_cap_show dev 8 8 s"

definition bitstream_id_show :: "device \<Rightarrow> 'a dev_sys_scheme \<Rightarrow> string \<times> 'a dev_sys_scheme" where
  "bitstream_id_show dev s =
     (case rd dev (fme_hdr_reg (dv_fdata s) 0x60) s of (v, s) \<Rightarrow> (''0x'' @ hexstr v @ newline, s))"

definition bitstream_metadata_show :: "device \<Rightarrow> 'a dev_sys_scheme \<Rightarrow> string \<times> 'a dev_sys_scheme" where
  "bitstream_metadata_show dev s =
     (case rd dev (fme_hdr_reg (dv_fdata s) 0x68) s of (v, s) \<Rightarrow> (''0x'' @ hexstr v @ newline, s))"

section \<open>Thermal monitoring\<close>

text \<open>\<open>base\<close> is \<^verbatim>\<open>feature->ioaddr\<close>. Values are in the units of the hwmon interface, as a \<^verbatim>\<open>long\<close>.\<close>

datatype temp_attr =
    hwmon_temp_input | hwmon_temp_max | hwmon_temp_crit | hwmon_temp_emergency
  | hwmon_temp_max_alarm | hwmon_temp_crit_alarm | hwmon_temp_other

definition fme_thermal_throttle_support :: "device \<Rightarrow> u64 \<Rightarrow> 'a dev_sys_scheme \<Rightarrow> bool \<times> 'a dev_sys_scheme" where
  "fme_thermal_throttle_support dev base s =
     (case rd dev (base + 0x20) s of (v, s) \<Rightarrow> (field_get 0 0 v = 0, s))"

definition thermal_hwmon_attrs_visible ::
  "device \<Rightarrow> u64 \<Rightarrow> temp_attr \<Rightarrow> 'a dev_sys_scheme \<Rightarrow> nat \<times> 'a dev_sys_scheme" where
  "thermal_hwmon_attrs_visible dev base attr s =
     (if attr = hwmon_temp_input then (292, s)
      else (case fme_thermal_throttle_support dev base s of (b, s) \<Rightarrow> (if b then 292 else 0, s)))"

definition thermal_hwmon_read ::
  "device \<Rightarrow> u64 \<Rightarrow> temp_attr \<Rightarrow> 'a dev_sys_scheme \<Rightarrow> (errno + int) \<times> 'a dev_sys_scheme" where
  "thermal_hwmon_read dev base attr s =
     (case attr of
        hwmon_temp_input \<Rightarrow> (case rd dev (base + 0x10) s of (v, s) \<Rightarrow> (Inr (sint (field_get 6 0 v * 1000)), s))
      | hwmon_temp_max \<Rightarrow> (case rd dev (base + 8) s of (v, s) \<Rightarrow> (Inr (sint (field_get 6 0 v * 1000)), s))
      | hwmon_temp_crit \<Rightarrow> (case rd dev (base + 8) s of (v, s) \<Rightarrow> (Inr (sint (field_get 14 8 v * 1000)), s))
      | hwmon_temp_emergency \<Rightarrow> (case rd dev (base + 8) s of (v, s) \<Rightarrow> (Inr (sint (field_get 30 24 v * 1000)), s))
      | hwmon_temp_max_alarm \<Rightarrow> (case rd dev (base + 8) s of (v, s) \<Rightarrow> (Inr (sint (field_get 32 32 v)), s))
      | hwmon_temp_crit_alarm \<Rightarrow> (case rd dev (base + 8) s of (v, s) \<Rightarrow> (Inr (sint (field_get 33 33 v)), s))
      | hwmon_temp_other \<Rightarrow> (Inl EOPNOTSUPP, s))"

definition temp1_max_policy_show :: "device \<Rightarrow> u64 \<Rightarrow> 'a dev_sys_scheme \<Rightarrow> string \<times> 'a dev_sys_scheme" where
  "temp1_max_policy_show dev base s =
     (case rd dev (base + 8) s of (v, s) \<Rightarrow> (decstr (unat (field_get 44 44 v)) @ newline, s))"

definition thermal_extra_attrs_visible ::
  "device \<Rightarrow> u64 \<Rightarrow> nat \<Rightarrow> 'a dev_sys_scheme \<Rightarrow> nat \<times> 'a dev_sys_scheme" where
  "thermal_extra_attrs_visible dev base mode s =
     (case fme_thermal_throttle_support dev base s of (b, s) \<Rightarrow> (if b then mode else 0, s))"

section \<open>Power monitoring\<close>

datatype power_attr =
    hwmon_power_input | hwmon_power_max | hwmon_power_crit
  | hwmon_power_max_alarm | hwmon_power_crit_alarm | hwmon_power_other

definition power_hwmon_read ::
  "device \<Rightarrow> u64 \<Rightarrow> power_attr \<Rightarrow> 'a dev_sys_scheme \<Rightarrow> (errno + int) \<times> 'a dev_sys_scheme" where
  "power_hwmon_read dev base attr s =
     (case attr of
        hwmon_power_input \<Rightarrow> (case rd dev (base + 8) s of (v, s) \<Rightarrow> (Inr (sint (field_get 17 0 v * 1000000)), s))
      | hwmon_power_max \<Rightarrow> (case rd dev (base + 0x10) s of (v, s) \<Rightarrow> (Inr (sint (field_get 6 0 v * 1000000)), s))
      | hwmon_power_crit \<Rightarrow> (case rd dev (base + 0x10) s of (v, s) \<Rightarrow> (Inr (sint (field_get 14 8 v * 1000000)), s))
      | hwmon_power_max_alarm \<Rightarrow> (case rd dev (base + 0x10) s of (v, s) \<Rightarrow> (Inr (sint (field_get 16 16 v)), s))
      | hwmon_power_crit_alarm \<Rightarrow> (case rd dev (base + 0x10) s of (v, s) \<Rightarrow> (Inr (sint (field_get 17 17 v)), s))
      | hwmon_power_other \<Rightarrow> (Inl EOPNOTSUPP, s))"

text \<open>
  \<^verbatim>\<open>clamp_val(val / MICRO, 0, PWR_THRESHOLD_MAX)\<close>: \<^verbatim>\<open>MICRO\<close> is an \<^verbatim>\<open>unsigned long\<close>, so that both the
  division and the clamping are unsigned.
\<close>

definition pwr_threshold :: "u64 \<Rightarrow> u64" where
  "pwr_threshold val = min (val div 1000000) 0x7f"

definition power_hwmon_write ::
  "device \<Rightarrow> u64 \<Rightarrow> power_attr \<Rightarrow> u64 \<Rightarrow> 'a dev_sys_scheme \<Rightarrow> 'a dev_sys_scheme ret" where
  "power_hwmon_write dev base attr val s =
     (let val = pwr_threshold val
      in if attr = hwmon_power_max then
           (case rd dev (base + 0x10) s of (v, s) \<Rightarrow> (None, wr (field_set 6 0 val v) (base + 0x10) s))
         else if attr = hwmon_power_crit then
           (case rd dev (base + 0x10) s of (v, s) \<Rightarrow> (None, wr (field_set 14 8 val v) (base + 0x10) s))
         else (Some EOPNOTSUPP, s))"

definition power_hwmon_attrs_visible :: "power_attr \<Rightarrow> nat" where
  "power_hwmon_attrs_visible attr =
     (if attr \<in> {hwmon_power_input, hwmon_power_max_alarm, hwmon_power_crit_alarm} then 292
      else if attr \<in> {hwmon_power_max, hwmon_power_crit} then 420 else 0)"

definition pwr_limit_show :: "device \<Rightarrow> u64 \<Rightarrow> 'a dev_sys_scheme \<Rightarrow> string \<times> 'a dev_sys_scheme" where
  "pwr_limit_show dev addr s =
     (case rd dev addr s of
        (v, s) \<Rightarrow> let limit = (if field_get 15 15 v \<noteq> 0 then ucast (field_get 14 0 v) else 0) :: u16
                  in (decstr (unat ((ucast limit :: u32) * 100000)) @ newline, s))"

definition power1_xeon_limit_show :: "device \<Rightarrow> u64 \<Rightarrow> 'a dev_sys_scheme \<Rightarrow> string \<times> 'a dev_sys_scheme" where
  "power1_xeon_limit_show dev base s = pwr_limit_show dev (base + 0x18) s"

definition power1_fpga_limit_show :: "device \<Rightarrow> u64 \<Rightarrow> 'a dev_sys_scheme \<Rightarrow> string \<times> 'a dev_sys_scheme" where
  "power1_fpga_limit_show dev base s = pwr_limit_show dev (base + 0x20) s"

definition power1_ltr_show :: "device \<Rightarrow> u64 \<Rightarrow> 'a dev_sys_scheme \<Rightarrow> string \<times> 'a dev_sys_scheme" where
  "power1_ltr_show dev base s =
     (case rd dev (base + 8) s of (v, s) \<Rightarrow> (decstr (unat (field_get 18 18 v)) @ newline, s))"

section \<open>The driver\<close>

text \<open>
  The state: the feature device of the engine with its interrupts, the ports of the container, the
  world of partial reconfiguration (whose \<^verbatim>\<open>fw_fme\<close> is the private data of the engine), and whether the
  device file is there. Register reads of the reconfiguration code see the device as it is after the
  history so far.
\<close>

record ('d, 'h) fme_sys = irq_dev_sys +
  fs_ports :: port_state
  fs_world :: "('d, 'h) fme_world"
  fs_cdev :: bool

record ('d, 'h) fme_env =
  fe_dev :: device
  fe_irq :: irq_env
  fe_kzalloc :: bool
  fe_ioremap :: "int \<Rightarrow> errno + u64"
  fe_dfl_dev_add :: "dfl_feature \<Rightarrow> errno + nat"
  fe_cdev_add :: "errno option"
  fe_pdev :: pdev_env
  fe_pr :: "('d, 'h) pr_env"
  fe_platform_add :: "dfl_id_type \<Rightarrow> nat \<Rightarrow> errno option"
  fe_hwmon :: "nat \<Rightarrow> errno option"      \<comment> \<open>registering the monitor of a driver\<close>
  fe_perf_init :: "errno option"

definition fme_hdr_base :: "('d, 'h) fme_sys \<Rightarrow> u64" where
  "fme_hdr_base s = feature_base (dv_fdata s) FEATURE_ID_FIU_HEADER"

text \<open>The commands of the device file with what they find in user memory.\<close>

datatype fme_cmd =
    FME_GET_API_VERSION
  | FME_CHECK_EXTENSION
  | FME_PORT_RELEASE "int option"
  | FME_PORT_ASSIGN "int option"
  | FME_PORT_PR
  | FME_ERR_GET_IRQ_NUM
  | FME_ERR_SET_IRQ "(u32 \<times> u32) option" "nat \<Rightarrow> errno + int list"
  | FME_Other u32

text \<open>The result of an ioctl, and the number copied back to the user.\<close>

type_synonym ('d, 'h) fme_result = "(errno option \<times> u32 option) \<times> ('d, 'h) fme_sys"

definition fme_hdr_ioctl_release_port :: "int option \<Rightarrow> ('d, 'h) fme_sys \<Rightarrow> ('d, 'h) fme_result" where
  "fme_hdr_ioctl_release_port arg s =
     (case arg of
        None \<Rightarrow> ((Some EFAULT, None), s)
      | Some port_id \<Rightarrow> (case dfl_fpga_cdev_release_port port_id (fs_ports s) of (r, ps) \<Rightarrow> ((r, None), s\<lparr>fs_ports := ps\<rparr>)))"

definition fme_hdr_ioctl_assign_port ::
  "('d, 'h) fme_env \<Rightarrow> int option \<Rightarrow> ('d, 'h) fme_sys \<Rightarrow> ('d, 'h) fme_result" where
  "fme_hdr_ioctl_assign_port env arg s =
     (case arg of
        None \<Rightarrow> ((Some EFAULT, None), s)
      | Some port_id \<Rightarrow>
          (case dfl_fpga_cdev_assign_port (fe_platform_add env) port_id (fs_ports s) of
             (r, ps) \<Rightarrow> ((r, None), s\<lparr>fs_ports := ps\<rparr>)))"

definition fme_hdr_ioctl :: "('d, 'h) fme_env \<Rightarrow> fme_cmd \<Rightarrow> ('d, 'h) fme_sys \<Rightarrow> ('d, 'h) fme_result" where
  "fme_hdr_ioctl env cmd s =
     (case cmd of
        FME_PORT_RELEASE arg \<Rightarrow> fme_hdr_ioctl_release_port arg s
      | FME_PORT_ASSIGN arg \<Rightarrow> fme_hdr_ioctl_assign_port env arg s
      | _ \<Rightarrow> ((Some ENODEV, None), s))"

definition fme_pr_ioctl :: "('d, 'h) fme_env \<Rightarrow> fme_cmd \<Rightarrow> ('d, 'h) fme_sys \<Rightarrow> ('d, 'h) fme_result" where
  "fme_pr_ioctl env cmd s =
     (case cmd of
        FME_PORT_PR \<Rightarrow>
          (case fme_pr (fe_pr env) (fe_dev env (dv_hist s)) (fme_hdr_base s) (fs_world s) of
             (r, w) \<Rightarrow> ((r, None), s\<lparr>fs_world := w\<rparr>))
      | _ \<Rightarrow> ((Some ENODEV, None), s))"

definition fme_global_error_ioctl ::
  "('d, 'h) fme_env \<Rightarrow> bool \<Rightarrow> nat \<Rightarrow> fme_cmd \<Rightarrow> ('d, 'h) fme_sys \<Rightarrow> ('d, 'h) fme_result" where
  "fme_global_error_ioctl env wr_ok i cmd s =
     (case cmd of
        FME_ERR_GET_IRQ_NUM \<Rightarrow>
          if wr_ok then ((None, Some (dfl_feature_ioctl_get_num_irqs (features (dv_fdata s) ! i))), s)
          else ((Some EFAULT, None), s)
      | FME_ERR_SET_IRQ hdr fds \<Rightarrow>
          (case dfl_feature_ioctl_set_irq (fe_irq env) hdr fds (feature_irqs i s) of
             (r, q) \<Rightarrow> ((r, None), put_feature_irqs i s q))
      | _ \<Rightarrow> ((Some ENODEV, None), s))"

text \<open>
  The drivers of \<^verbatim>\<open>fme_feature_drvs\<close> by their position: header, partial reconfiguration, global errors,
  thermal and power management, performance counters. The last three have no ioctl.
\<close>

definition fme_feature_ioctl ::
  "('d, 'h) fme_env \<Rightarrow> bool \<Rightarrow> fme_cmd \<Rightarrow> nat \<Rightarrow> ('d, 'h) fme_sys \<Rightarrow> ('d, 'h) fme_result option" where
  "fme_feature_ioctl env wr_ok cmd i s =
     (case ft_ops (features (dv_fdata s) ! i) of
        None \<Rightarrow> None
      | Some n \<Rightarrow>
          if n = 0 then Some (fme_hdr_ioctl env cmd s)
          else if n = 1 then Some (fme_pr_ioctl env cmd s)
          else if n = 2 then Some (fme_global_error_ioctl env wr_ok i cmd s)
          else None)"

definition fme_ioctl :: "('d, 'h) fme_env \<Rightarrow> bool \<Rightarrow> fme_cmd \<Rightarrow> ('d, 'h) fme_sys \<Rightarrow> ('d, 'h) fme_result" where
  "fme_ioctl env wr_ok cmd s =
     (case cmd of
        FME_GET_API_VERSION \<Rightarrow> ((None, None), s)
      | FME_CHECK_EXTENSION \<Rightarrow> ((None, None), s)
      | _ \<Rightarrow> features_ioctl (fme_feature_ioctl env wr_ok cmd) None 0 (length (features (dv_fdata s))) s)"

definition fme_open :: "bool \<Rightarrow> ('d, 'h) fme_sys \<Rightarrow> ('d, 'h) fme_sys ret" where
  "fme_open excl s = (case dfl_feature_dev_use_begin excl (dv_fdata s) of (r, fd) \<Rightarrow> (r, s\<lparr>dv_fdata := fd\<rparr>))"

definition fme_release :: "('d, 'h) fme_env \<Rightarrow> ('d, 'h) fme_sys \<Rightarrow> ('d, 'h) fme_sys" where
  "fme_release env s =
     (let s = s\<lparr>dv_fdata := dfl_feature_dev_use_end (dv_fdata s)\<rparr>
      in if dfl_feature_dev_use_count (dv_fdata s) \<noteq> 0 then s
         else release_triggers (fe_irq env) 0 (length (features (dv_fdata s))) s)"

text \<open>The operations of the sub feature drivers. Registering a monitor is the kernel's.\<close>

definition fme_with_features :: "dfl_feature list \<Rightarrow> ('d, 'h) fme_sys \<Rightarrow> ('d, 'h) fme_sys" where
  "fme_with_features fs s = s\<lparr>dv_fdata := (dv_fdata s)\<lparr>features := fs\<rparr>\<rparr>"

definition fme_pr_mgmt_init :: "('d, 'h) fme_env \<Rightarrow> dfl_feature \<Rightarrow> ('d, 'h) fme_sys \<Rightarrow> ('d, 'h) fme_sys ret" where
  "fme_pr_mgmt_init env f s =
     (case fw_fme (fs_world s) of
        None \<Rightarrow> (Some EFAULT, s)
      | Some fme \<Rightarrow>
          (case pr_mgmt_init (fe_pdev env) (fe_dev env (dv_hist s)) (fme_hdr_base s) (ft_ioaddr f \<noteq> None) fme of
             (r, fme) \<Rightarrow> (r, s\<lparr>fs_world := (fs_world s)\<lparr>fw_fme := Some fme\<rparr>\<rparr>)))"

definition fme_pr_mgmt_uinit :: "('d, 'h) fme_sys \<Rightarrow> ('d, 'h) fme_sys" where
  "fme_pr_mgmt_uinit s = s\<lparr>fs_world := (fs_world s)\<lparr>fw_fme := map_option pr_mgmt_uinit (fw_fme (fs_world s))\<rparr>\<rparr>"

definition fme_feature_ops :: "('d, 'h) fme_env \<Rightarrow> nat \<Rightarrow> ('d, 'h) fme_sys dfl_feature_ops" where
  "fme_feature_ops env n =
     (if n = 1 then \<lparr>fops_init = Some (\<lambda>fs i s. fme_pr_mgmt_init env (fs ! i) (fme_with_features fs s)),
                     fops_uinit = Some (\<lambda>fs i s. fme_pr_mgmt_uinit (fme_with_features fs s))\<rparr>
      else if n = 2 then \<lparr>fops_init = Some (\<lambda>fs i s. fme_global_err_init (fe_dev env) (fme_with_features fs s)),
                          fops_uinit = Some (\<lambda>fs i s. fme_global_err_uinit (fe_dev env) (fme_with_features fs s))\<rparr>
      else if n = 3 \<or> n = 4 then \<lparr>fops_init = Some (\<lambda>fs i s. (fe_hwmon env n, s)), fops_uinit = None\<rparr>
      else if n = 5 then \<lparr>fops_init = Some (\<lambda>fs i s. (fe_perf_init env, s)), fops_uinit = None\<rparr>
      else \<lparr>fops_init = None, fops_uinit = None\<rparr>)"

definition fme_drv :: "u16 list \<Rightarrow> nat \<Rightarrow> dfl_feature_driver" where
  "fme_drv is n = \<lparr>fdrv_ids = Some (map (\<lambda>i. \<lparr>fid_id = i, fid_guid = guid_null\<rparr>) (is @ [0])), fdrv_ops = n\<rparr>"

definition fme_feature_drvs :: "dfl_feature_driver list" where
  "fme_feature_drvs =
     [fme_drv [FEATURE_ID_FIU_HEADER] 0, fme_drv [5] 1, fme_drv [FME_FEATURE_ID_GLOBAL_ERR] 2, fme_drv [1] 3,
      fme_drv [2] 4, fme_drv [3, 7] 5]"

section \<open>Probing and removal\<close>

definition fme_dev_init :: "('d, 'h) fme_env \<Rightarrow> ('d, 'h) fme_sys \<Rightarrow> ('d, 'h) fme_sys ret" where
  "fme_dev_init env s =
     (if \<not> fe_kzalloc env then (Some ENOMEM, s)
      else (None, s\<lparr>fs_world := (fs_world s)\<lparr>fw_fme :=
              Some \<lparr>fme_mgr = False, fme_bridge_list = [], fme_region_list = [], pdevs = []\<rparr>\<rparr>\<rparr>))"

definition fme_dev_destroy :: "('d, 'h) fme_sys \<Rightarrow> ('d, 'h) fme_sys" where
  "fme_dev_destroy s = s\<lparr>fs_world := (fs_world s)\<lparr>fw_fme := None\<rparr>\<rparr>"

definition fme_feature_uinit :: "('d, 'h) fme_env \<Rightarrow> ('d, 'h) fme_sys \<Rightarrow> ('d, 'h) fme_sys" where
  "fme_feature_uinit env s =
     (case dfl_fpga_dev_feature_uinit (fme_feature_ops env) (features (dv_fdata s), s) of
        (fs, s) \<Rightarrow> fme_with_features fs s)"

definition fme_probe :: "('d, 'h) fme_env \<Rightarrow> ('d, 'h) fme_sys \<Rightarrow> ('d, 'h) fme_sys ret" where
  "fme_probe env s =
     (case fme_dev_init env s of
        (Some e, s) \<Rightarrow> (Some e, s)
      | (None, s) \<Rightarrow>
          (case dfl_fpga_dev_feature_init (fe_ioremap env) (fe_dfl_dev_add env) (fme_feature_ops env) fme_feature_drvs
                  (features (dv_fdata s), s) of
             (Some e, (fs, s)) \<Rightarrow> (Some e, fme_dev_destroy (fme_with_features fs s))
           | (None, (fs, s)) \<Rightarrow>
               let s = fme_with_features fs s
               in (case fe_cdev_add env of
                     Some e \<Rightarrow> (Some e, fme_dev_destroy (fme_feature_uinit env s))
                   | None \<Rightarrow> (None, s\<lparr>fs_cdev := True\<rparr>))))"

definition fme_remove :: "('d, 'h) fme_env \<Rightarrow> ('d, 'h) fme_sys \<Rightarrow> ('d, 'h) fme_sys" where
  "fme_remove env s = fme_dev_destroy (fme_feature_uinit env (s\<lparr>fs_cdev := False\<rparr>))"

section \<open>Properties\<close>

text \<open>A \<^verbatim>\<open>long\<close> and the same bits as an \<^verbatim>\<open>unsigned long\<close>.\<close>

lemma long_unsigned:
  fixes x :: u64
  shows "0 \<le> sint x \<Longrightarrow> unat x = nat (sint x)" and "sint x < 0 \<Longrightarrow> 2 ^ 63 \<le> unat x"
proof -
  have u: "0 \<le> uint x" "uint x < 2 ^ 64" using unsigned_less [of x, where 'a = int] by simp_all
  have e: "sint x = uint x - 2 ^ 64 * of_bool (bit (uint x) 63)"
    using u by (simp add: sint_uint signed_take_bit_eq_take_bit_minus take_bit_int_eq_self)
  have "bit (uint x) 63 \<longleftrightarrow> 2 ^ 63 \<le> uint x"
  proof (cases "2 ^ 63 \<le> uint x")
    case True
    with u have "uint x div 2 ^ 63 = 1" by (intro div_pos_pos_trivial [THEN trans] int_div_pos_eq [where r = "uint x - 2 ^ 63"]) simp_all
    with True show ?thesis by (simp add: bit_iff_odd)
  next
    case False
    with u show ?thesis by (simp add: bit_iff_odd)
  qed
  then have d: "sint x = (if 2 ^ 63 \<le> uint x then uint x - 2 ^ 64 else uint x)" using e by simp
  have n: "unat x = nat (uint x)" by simp
  show "unat x = nat (sint x)" if "0 \<le> sint x"
    using that u d n by (cases "2 ^ 63 \<le> uint x") simp_all
  show "2 ^ 63 \<le> unat x" if "sint x < 0"
  proof -
    have "2 ^ 63 \<le> uint x" using that u d by (cases "2 ^ 63 \<le> uint x") simp_all
    moreover have "int (unat x) = uint x" by simp
    ultimately have "int (2 ^ 63) \<le> int (unat x)" by (simp only: of_nat_power of_nat_numeral)
    then show ?thesis by (simp only: of_nat_le_iff)
  qed
qed

lemma pwr_threshold_int:
  "unat (pwr_threshold val) = (if 0 \<le> sint val then min 127 (nat (sint val) div 1000000) else 127)"
proof -
  have "unat (val div 1000000) = unat val div 1000000" by (simp add: unat_div)
  then have m: "unat (pwr_threshold val) = min (unat val div 1000000) 127"
    by (auto simp: pwr_threshold_def min_def word_le_nat_alt)
  show ?thesis
  proof (cases "0 \<le> sint val")
    case True
    with m long_unsigned(1) show ?thesis by (simp add: min.commute)
  next
    case False
    then have "2 ^ 63 \<le> unat val" using long_unsigned(2) by simp
    then have "(2 ^ 63) div 1000000 \<le> unat val div 1000000" by (rule div_le_mono)
    with m False show ?thesis by (simp add: min_def)
  qed
qed

text \<open>
  Setting a power limit, given in microwatts. The register gets the whole watts of the value, at most
  127 of them, in the field of the limit and nothing else changes; but a negative value, meant to be
  cut off at zero, sets the highest limit, because the division is by an unsigned constant.
\<close>

theorem power_limit_set:
  assumes "attr = hwmon_power_max \<or> attr = hwmon_power_crit"
    and "power_hwmon_write dev base attr val s = (r, s')"
  shows "r = None \<and> (\<exists>v w. dv_hist s' = dv_hist s @ [RD (base + 0x10) v, WR (base + 0x10) w] \<and>
     unat (if attr = hwmon_power_max then field_get 6 0 w else field_get 14 8 w) =
       (if 0 \<le> sint val then min 127 (nat (sint val) div 1000000) else 127) \<and>
     (\<forall>hi lo. (if attr = hwmon_power_max then 6 < lo else hi < 8 \<or> 14 < lo) \<longrightarrow> field_get hi lo w = field_get hi lo v))"
proof -
  let ?t = "pwr_threshold val" and ?v = "dev (dv_hist s) (base + 0x10)"
  have t: "unat ?t < 2 ^ 7" by (auto simp: pwr_threshold_int min_def)
  have f: "field_get 6 0 (field_set 6 0 ?t ?v) = ?t" "field_get 14 8 (field_set 14 8 ?t ?v) = ?t"
    by (rule field_get_set_same; use t in simp)+
  have run: "r = None" "dv_hist s' = dv_hist s @ [RD (base + 0x10) ?v,
      WR (base + 0x10) (if attr = hwmon_power_max then field_set 6 0 ?t ?v else field_set 14 8 ?t ?v)]"
    using assms by (auto simp: power_hwmon_write_def Let_def rd_eq wr_eq)
  have other: "(if attr = hwmon_power_max then 6 < lo else hi < 8 \<or> 14 < lo) \<Longrightarrow>
      field_get hi lo (if attr = hwmon_power_max then field_set 6 0 ?t ?v else field_set 14 8 ?t ?v) = field_get hi lo ?v" for hi lo
    by (auto intro: field_get_set_other split: if_splits)
  have "unat (if attr = hwmon_power_max then field_get 6 0 (if attr = hwmon_power_max then field_set 6 0 ?t ?v else field_set 14 8 ?t ?v)
      else field_get 14 8 (if attr = hwmon_power_max then field_set 6 0 ?t ?v else field_set 14 8 ?t ?v)) = unat ?t"
    by (simp add: f)
  with run other show ?thesis unfolding pwr_threshold_int by blast
qed

theorem power_limit_set_witness:
  "\<exists>v w. dv_hist (snd (power_hwmon_write (\<lambda>h a. 0) 0x3000 hwmon_power_max (-5) gerr_sys0)) =
     [RD 0x3010 v, WR 0x3010 w] \<and> unat (field_get 6 0 w) = 127"
proof -
  obtain r s' where run: "power_hwmon_write (\<lambda>h a. 0) 0x3000 hwmon_power_max (-5) gerr_sys0 = (r, s')" by fastforce
  have "dv_hist gerr_sys0 = []" by (simp add: gerr_sys0_def)
  with power_limit_set [OF _ run] run show ?thesis by auto
qed

section \<open>Ports through the device file\<close>

lemma features_ioctl_skip:
  "(\<And>j. i \<le> j \<Longrightarrow> j < i + k \<Longrightarrow> ioctl j s = None \<or> ioctl j s = Some ((Some ENODEV, none), s)) \<Longrightarrow>
   features_ioctl ioctl none i k s = ((Some EINVAL, none), s)"
proof (induction k arbitrary: i)
  case (Suc k)
  from Suc.prems [of i] have "ioctl i s = None \<or> ioctl i s = Some ((Some ENODEV, none), s)" by simp
  moreover have "features_ioctl ioctl none (Suc i) k s = ((Some EINVAL, none), s)" using Suc.prems by (intro Suc.IH) simp
  ultimately show ?case by auto
qed simp

lemma features_ioctl_at:
  assumes "m < k" and "\<And>j. i \<le> j \<Longrightarrow> j < i + m \<Longrightarrow> ioctl j s = None \<or> ioctl j s = Some ((Some ENODEV, none), s)"
    and "ioctl (i + m) s = Some ((r, none), s1)"
    and "\<And>j. i + m < j \<Longrightarrow> j < i + k \<Longrightarrow> ioctl j s1 = None \<or> ioctl j s1 = Some ((Some ENODEV, none), s1)"
  shows "features_ioctl ioctl none i k s = ((if r = Some ENODEV then Some EINVAL else r, none), s1)"
  using assms
proof (induction m arbitrary: i k)
  case 0
  then obtain k' where k: "k = Suc k'" by (cases k) auto
  have "features_ioctl ioctl none (Suc i) k' s1 = ((Some EINVAL, none), s1)"
    by (rule features_ioctl_skip) (use 0(4) k in simp)
  with 0(3) k show ?case by simp
next
  case (Suc m)
  then obtain k' where k: "k = Suc k'" by (cases k) auto
  have "features_ioctl ioctl none (Suc i) k' s = ((if r = Some ENODEV then Some EINVAL else r, none), s1)"
    by (rule Suc.IH) (use Suc.prems k in auto)
  moreover have "ioctl i s = None \<or> ioctl i s = Some ((Some ENODEV, none), s)" using Suc.prems(2) [of i] by simp
  ultimately show ?case using k by auto
qed

end
