(* ===== verification/Fme_Pr_Props.thy ===== *)
theory Fme_Pr_Props
  imports Fme_Pr "HOL-Library.Multiset"
begin

unbundle bit_operations_syntax

text \<open>
  Partial reconfiguration as a whole: the ioctl gives back all it takes, a success means that the
  user's bytes have reached the engine, and the devices of an FME are created together or not at
  all.
\<close>

section \<open>What programming a region leaves behind\<close>

lemma program_success:
  assumes "fpga_region_program_fpga env s = (None, s')"
  shows "\<exists>h. fpga_mgr_load (re_fpga env) (re_mops env h) (rg_info s) (rg_mgr s) = (None, rg_info s', rg_mgr s')"
  using assms
proof (cases rule: program_cases)
  case (body s1 s2)
  obtain rb ns cls where g: "region_get_bridges env s1 = (rb, ns, cls)" using prod_cases3 by blast
  obtain rl s3 where l: "region_load env (s1\<lparr>bridge_list := ns, rg_br_cls := cls\<rparr>) = (rl, s3)" by fastforce
  have "rb = None" "rl = None" "s2 = s3" using body(6) g l by (auto simp: region_body_def split: option.splits)
  with l body(1,3) have "\<exists>h. fpga_mgr_load (re_fpga env) (re_mops env h) (rg_info s) (rg_mgr s) = (None, rg_info s2, rg_mgr s2)"
    by (auto simp: region_load_def split: prod.splits option.splits)
  then show ?thesis by (simp add: body(7) fpga_region_put_def region_mgr_unlock_def)
qed simp

text \<open>Bridges taken through the list and put back: only what they point to may differ.\<close>

lemma get_to_list_put:
  assumes "fpga_bridge_get_to_list env dev info ([], cls) = (r, ns, cls')" and "class_inv cls"
  shows "class_inv cls' \<and> class_inv (snd (fpga_bridges_put ns cls')) \<and> forget (snd (fpga_bridges_put ns cls')) = forget cls \<and>
    fst (fpga_bridges_put ns cls') = [] \<and> (r \<noteq> None \<longrightarrow> ns = [])"
proof -
  obtain q cls1 where g: "fpga_bridge_get env dev info cls = (q, cls1)" by fastforce
  show ?thesis
  proof (cases q)
    case (Inl e)
    with assms g bridge_get_error [OF g [unfolded Inl] assms(2)] show ?thesis by (auto simp: fpga_bridge_get_to_list_def)
  next
    case (Inr n)
    note p = bridge_get_put [OF g [unfolded Inr] assms(2)]
    from assms(1) g Inr have "r = None" "ns = [n]" "cls' = cls1" by (auto simp: fpga_bridge_get_to_list_def)
    with p assms(2) show ?thesis by (simp add: set_bridge_inv forget_set_info)
  qed
qed

lemma region_load_infos: "region_load env s = (r, s') \<Longrightarrow> rg_br_cls s' = rg_br_cls s \<and> bridge_list s' = bridge_list s"
  using region_load_frame by blast

lemma program_bridges:
  assumes "fpga_region_program_fpga env s = (r, s')" and "get_bridges env = Some (fme_region_get_bridges cenv br)"
    and "bridge_list s = []" and "class_inv (rg_br_cls s)"
  shows "forget (rg_br_cls (region_bridges_put s')) = forget (rg_br_cls s) \<and> class_inv (rg_br_cls (region_bridges_put s')) \<and>
    bridge_list (region_bridges_put s') = []"
proof -
  have put: "rg_br_cls (region_bridges_put t) = snd (fpga_bridges_put (bridge_list t) (rg_br_cls t))"
    "bridge_list (region_bridges_put t) = fst (fpga_bridges_put (bridge_list t) (rg_br_cls t))" for t :: "('a, 'b) region_sys"
    by (simp_all add: region_bridges_put_def split: prod.splits)
  obtain rg s1 where g: "fpga_region_get env s = (rg, s1)" by fastforce
  obtain rm s2 where m: "region_mgr_lock env s1 = (rm, s2)" by fastforce
  obtain rb s3 where b: "region_body env s2 = (rb, s3)" by fastforce
  have run: "region_ref.held_during env (mgr_ref.held_during env (region_body env)) s = (r, s')"
    using assms(1) by (simp only: program_eq)
  have f1: "bridge_list s1 = [] \<and> rg_br_cls s1 = rg_br_cls s"
    using g assms(3) by (auto simp: fpga_region_get_def Let_def split: if_splits)
  have f2: "bridge_list s2 = [] \<and> rg_br_cls s2 = rg_br_cls s"
    using m f1 by (auto simp: region_mgr_lock_def split: prod.splits)
  obtain q ns cls where l: "fpga_bridge_get_to_list cenv br (Some (rg_info s2)) ([], rg_br_cls s) = (q, ns, cls)"
    using prod_cases3 by blast
  note lp = get_to_list_put [OF l assms(4)]
  have body: "bridge_list s3 = ns \<and> rg_br_cls s3 = cls \<or>
      bridge_list s3 = fst (fpga_bridges_put ns cls) \<and> rg_br_cls s3 = snd (fpga_bridges_put ns cls)"
  proof (cases q)
    case None
    obtain rl s4 where rl: "region_load env (s2\<lparr>bridge_list := ns, rg_br_cls := cls\<rparr>) = (rl, s4)" by fastforce
    with b l f2 assms(2) None have "s3 = s4 \<or> s3 = err_put_br env s4"
      by (cases rl) (auto simp: region_body_def region_get_bridges_def fme_region_get_bridges_def)
    with region_load_infos [OF rl] put [of s4] assms(2) show ?thesis by (auto simp: err_put_br_def)
  qed (use b l f2 assms(2) in \<open>auto simp: region_body_def region_get_bridges_def fme_region_get_bridges_def\<close>)
  have "bridge_list s' = [] \<and> rg_br_cls s' = rg_br_cls s \<or> bridge_list s' = bridge_list s3 \<and> rg_br_cls s' = rg_br_cls s3"
    using run g m b f1 f2
    by (cases rg; cases rm)
      (auto simp: region_ref.held_during_def mgr_ref.held_during_def fpga_region_put_def region_mgr_unlock_def assms(3)
        fpga_region_get_def Let_def split: if_splits)
  then show ?thesis
    unfolding put using body lp assms(4) by auto
qed

section \<open>The ioctl\<close>

definition fme_world_inv :: "('d, 'h) fme_world \<Rightarrow> bool" where
  "fme_world_inv w \<longleftrightarrow> class_inv (fw_regions w) \<and> class_inv (fw_mgr_cls w) \<and> class_inv (fw_br_cls w) \<and>
     (\<forall>n. own_bridges (fw_own w n) = [])"

text \<open>Everything an ioctl takes, up to the image informations kept.\<close>

definition same_holdings :: "('d, 'h) fme_world \<Rightarrow> ('d, 'h) fme_world \<Rightarrow> bool" where
  "same_holdings w w' \<longleftrightarrow> fw_regions w' = fw_regions w \<and> fw_mgr_cls w' = fw_mgr_cls w \<and>
     forget (fw_br_cls w') = forget (fw_br_cls w) \<and>
     (\<forall>n. own_mutex (fw_own w' n) = own_mutex (fw_own w n) \<and> own_refs (fw_own w' n) = own_refs (fw_own w n) \<and>
          own_mods (fw_own w' n) = own_mods (fw_own w n))"

lemma program_port_holdings:
  assumes "program_port env port_pr ab n w = (r, w')" and "fme_world_inv w" and "fw_regions w = get_device n cls"
    and "class_inv cls" and "n \<in> cl_ida cls"
  shows "fme_world_inv w' \<and> same_holdings (w\<lparr>fw_regions := cls\<rparr>) w'"
proof -
  let ?info = "pr_image_info port_pr ab"
  let ?w1 = "w\<lparr>fw_infos := fw_infos w - (if own_info (fw_own w n) \<noteq> None then 1 else 0)\<rparr>"
  let ?renv = "(pr_region env)\<lparr>get_bridges := Some (fme_region_get_bridges (pr_class env) (bridge_pdev env (sint (pr_port_id port_pr))))\<rparr>"
  let ?s = "region_view n ?info ?w1"
  obtain rp s where p: "fpga_region_program_fpga ?renv ?s = (rp, s)" by fastforce
  have w': "w' = (region_store n (region_bridges_put s) ?w1)\<lparr>fw_regions := put_device n (fw_regions w)\<rparr>"
    using assms(1) p by (simp add: program_port_def Let_def region_store_def split: if_splits)
  have view: "bridge_list ?s = []" "rg_br_cls ?s = fw_br_cls w" "class_inv (rg_br_cls ?s)" "mgr_ok ?renv ?s"
    "rg_mgr_cls ?s = fw_mgr_cls w" "rg_mutex ?s = own_mutex (fw_own w n)" "rg_refs ?s = own_refs (fw_own w n)"
    "rg_mods ?s = own_mods (fw_own w n)"
    using assms(2) by (simp_all add: region_view_def fme_world_inv_def mgr_ok_def)
  have "get_bridges ?renv = Some (fme_region_get_bridges (pr_class env) (bridge_pdev env (sint (pr_port_id port_pr))))" by simp
  note br = program_bridges [OF p this view(1,3)]
  have frame: "same_region ?s s" "same_mgr ?s s"
    using program_same_region [of ?s ?renv] program_same_mgr [OF view(4)] p by simp_all
  have put: "rg_mutex (region_bridges_put s) = rg_mutex s" "rg_refs (region_bridges_put s) = rg_refs s"
    "rg_mods (region_bridges_put s) = rg_mods s" "rg_mgr_cls (region_bridges_put s) = rg_mgr_cls s"
    by (simp_all add: region_bridges_put_def split: prod.splits)
  have reg: "put_device n (fw_regions w) = cls" unfolding assms(3) by (rule put_get_device [OF assms(4,5)])
  show ?thesis
    using br frame put reg view assms(2,4)
    by (auto simp: w' fme_world_inv_def same_holdings_def region_store_def same_region_def same_mgr_def)
qed

lemma region_find_cases:
  assumes "dfl_fme_region_find env fme port cls = (r, cls')" and "class_inv cls"
  shows "case r of None \<Rightarrow> cls' = cls | Some n \<Rightarrow> cls' = get_device n cls \<and> n \<in> cl_ida cls"
proof (cases r)
  case (Some n)
  then obtain p where "class_find_device (region_pdev env p) cls = (Some n, cls')"
    using assms(1) by (auto simp: dfl_fme_region_find_def fpga_region_class_find_def split: option.splits)
  from class_find_device_Some [OF this assms(2)] obtain x where "obj_at cls n = Some x" "cls' = get_device n cls" by blast
  with Some assms(2) obj_at_id [of cls n x] show ?thesis by (auto simp: class_inv_def)
qed (use assms(1) in \<open>auto simp: dfl_fme_region_find_def fpga_region_class_find_def class_find_device_def split: option.splits\<close>)

lemma fme_pr_cases:
  assumes "fme_pr env m hdr w = (r, w')" and "class_inv (fw_regions w)"
  obtains (refused) e k where "r = Some e" "w' = w\<lparr>fw_infos := k\<rparr>"
  | (programmed) port_pr ab n w1 where "copy_port_pr env = Some port_pr"
      "copy_buffer env (pr_buffer_address port_pr) (pr_buffer_size port_pr) = Some ab"
      "program_port env port_pr ab n w1 = (r, w')"
      "w1 = w\<lparr>fw_infos := fw_infos w + 1, fw_regions := get_device n (fw_regions w)\<rparr>" "n \<in> cl_ida (fw_regions w)"
proof (cases "copy_port_pr env")
  case None
  with assms(1) show ?thesis by (intro refused [of EFAULT "fw_infos w"]) (simp_all add: fme_pr_def)
next
  case (Some port_pr)
  note some = Some
  let ?bad = "pr_argsz port_pr < 24 \<or> pr_flags port_pr \<noteq> 0 \<or> pr_buffer_size port_pr = 0 \<or>
      unat (pr_port_id port_pr) \<ge> num_ports m hdr \<or> \<not> vmalloc_ok env (pr_buffer_size port_pr) \<or>
      copy_buffer env (pr_buffer_address port_pr) (pr_buffer_size port_pr) = None \<or> \<not> info_alloc_ok env"
  show ?thesis
  proof (cases ?bad)
    case True
    with assms(1) Some have "w' = w \<and> r \<noteq> None" by (auto simp: fme_pr_def split: if_splits option.splits)
    then show ?thesis by (auto intro: refused [of _ "fw_infos w"])
  next
    case False
    then obtain ab where ab: "copy_buffer env (pr_buffer_address port_pr) (pr_buffer_size port_pr) = Some ab" by auto
    let ?w1 = "w\<lparr>fw_infos := fw_infos w + 1\<rparr>"
    have run: "(case fw_fme w of None \<Rightarrow> (Some EINVAL, ?w1)
        | Some fme \<Rightarrow> (case dfl_fme_region_find env fme (sint (pr_port_id port_pr)) (fw_regions ?w1) of
             (None, cls) \<Rightarrow> (Some EINVAL, ?w1\<lparr>fw_regions := cls\<rparr>)
           | (Some n, cls) \<Rightarrow> program_port env port_pr ab n (?w1\<lparr>fw_regions := cls\<rparr>))) = (r, w')"
      using assms(1) some False ab by (simp add: fme_pr_def Let_def)
    show ?thesis
    proof (cases "fw_fme w")
      case None
      with run show ?thesis by (auto intro: refused [of EINVAL "fw_infos w + 1"])
    next
      case fme: (Some fme)
      obtain q cls where f: "dfl_fme_region_find env fme (sint (pr_port_id port_pr)) (fw_regions w) = (q, cls)" by fastforce
      note fc = region_find_cases [OF f assms(2)]
      show ?thesis
      proof (cases q)
        case None
        with run fme f fc have "r = Some EINVAL" "w' = w\<lparr>fw_infos := fw_infos w + 1\<rparr>" by auto
        then show ?thesis by (rule refused)
      next
        case (Some n)
        with run fme f fc some ab show ?thesis by (intro programmed [OF some ab]) auto
      qed
    qed
  qed
qed

text \<open>
  C24. The ioctl for partial reconfiguration, whatever its outcome and whatever the drivers below do:
  the region, the manager and the bridges are as free as before, with all references given back,
  so that the next request finds the same situation.
\<close>

theorem fme_pr_gives_back:
  assumes "fme_pr env m hdr w = (r, w')" and "fme_world_inv w"
  shows "fme_world_inv w' \<and> same_holdings w w'"
proof -
  have ci: "class_inv (fw_regions w)" using assms(2) by (simp add: fme_world_inv_def)
  show ?thesis
    using assms(1) ci
  proof (cases rule: fme_pr_cases)
    case (refused e k)
    with assms(2) show ?thesis by (simp add: fme_world_inv_def same_holdings_def)
  next
    case (programmed port_pr ab n w1)
    have inv: "fme_world_inv w1" using assms(2) programmed(4) by (simp add: fme_world_inv_def get_device_inv)
    have "fw_regions w1 = get_device n (fw_regions w)" by (simp add: programmed(4))
    from program_port_holdings [OF programmed(3) inv this ci programmed(5)]
    show ?thesis by (auto simp: programmed(4) same_holdings_def)
  qed
qed

text \<open>
  C23. Success of the ioctl, with the FME's own manager: the manager is operating, the engine reports no
  error, and the words pushed to it since are the user's buffer.
\<close>

theorem fme_pr_success_programs_buffer:
  assumes "fme_pr env m hdr w = (None, w')" and "class_inv (fw_regions w)"
    and "re_mops (pr_region env) = (\<lambda>h. fme_mgr_ops (dev h) polls)"
    and "\<forall>a k b. copy_buffer env a k = Some b \<longrightarrow> length (snd b) = unat k"
  shows "\<exists>port_pr addr img ws. copy_port_pr env = Some port_pr \<and>
    copy_buffer env (pr_buffer_address port_pr) (pr_buffer_size port_pr) = Some (addr, img) \<and>
    mgr_state (fw_mgr w') = FPGA_MGR_STATE_OPERATING \<and> pr_error (drv (fw_mgr w')) = 0 \<and>
    writes (ioaddr (drv (fw_mgr w)) + FME_PR_DATA) (io (drv (fw_mgr w'))) =
      writes (ioaddr (drv (fw_mgr w)) + FME_PR_DATA) (io (drv (fw_mgr w))) @ ws \<and>
    take (length img) (concat (map (word_bytes 4) ws)) = img"
  using assms(1,2)
proof (cases rule: fme_pr_cases)
  case (programmed port_pr ab n w1)
  obtain addr img where ab: "ab = (addr, img)" by fastforce
  let ?info = "pr_image_info port_pr ab"
  let ?w1 = "w1\<lparr>fw_infos := fw_infos w1 - (if own_info (fw_own w1 n) \<noteq> None then 1 else 0)\<rparr>"
  let ?renv = "(pr_region env)\<lparr>get_bridges := Some (fme_region_get_bridges (pr_class env) (bridge_pdev env (sint (pr_port_id port_pr))))\<rparr>"
  obtain rp s where p: "fpga_region_program_fpga ?renv (region_view n ?info ?w1) = (rp, s)" by fastforce
  have ok: "rp = None" "fw_mgr w' = rg_mgr s"
    using programmed(3) p by (auto simp: program_port_def Let_def region_store_def region_bridges_put_def split: if_splits prod.splits)
  obtain h where l: "fpga_mgr_load (re_fpga (pr_region env)) (fme_mgr_ops (dev h) polls) ?info (fw_mgr w) = (None, rg_info s, rg_mgr s)"
    using program_success [OF p [unfolded ok(1)]] by (auto simp: assms(3) region_view_def programmed(4))
  have len: "length img < 2 ^ 64"
  proof -
    have "length img = unat (pr_buffer_size port_pr)" using assms(4) programmed(2) ab by fastforce
    also have "\<dots> < 2 ^ 32" using unsigned_less [of "pr_buffer_size port_pr", where 'a = nat] by simp
    finally show ?thesis by simp
  qed
  have "fpga_mgr_buf_load (re_fpga (pr_region env)) (fme_mgr_ops (dev h) polls) (?info\<lparr>header_size := 0\<rparr>) (addr, img) (fw_mgr w) =
      (None, rg_info s, rg_mgr s)"
    using l by (cases img) (simp_all add: fpga_mgr_load_def pr_image_info_def ab fme_mgr_ops_def)
  from fme_buf_load [OF this _ _ len] chunks4_decode [of img] ok(2) programmed(1,2) ab
  show ?thesis by (auto simp: pr_image_info_def)
qed simp

section \<open>The devices of an FME\<close>

text \<open>The platform devices are those there before, the manager, and one per entry of the lists.\<close>

definition devices_ok :: "(fme_kind \<times> int) multiset \<Rightarrow> dfl_fme \<Rightarrow> bool" where
  "devices_ok base fme \<longleftrightarrow> mset (pdevs fme) = base + {#(FME_MGR, 0)#} + image_mset (Pair FME_BRIDGE) (mset (fme_bridge_list fme)) +
     image_mset (Pair FME_REGION) (mset (fme_region_list fme))"

lemma create_pdev_exact:
  "create_pdev env k port fme = (r, fme') \<Longrightarrow> fme' = (if r = None then fme\<lparr>pdevs := (k, port) # pdevs fme\<rparr> else fme)"
  by (auto simp: create_pdev_def split: if_splits option.splits)

lemma destroy_pdevs_exact:
  "mset (pdevs (destroy_pdevs k ports fme)) = mset (pdevs fme) - image_mset (Pair k) (mset ports) \<and>
   fme_bridge_list (destroy_pdevs k ports fme) = fme_bridge_list fme \<and>
   fme_region_list (destroy_pdevs k ports fme) = fme_region_list fme"
  by (induction ports arbitrary: fme) (simp_all add: unregister_pdev_def)

lemma teardown:
  assumes "devices_ok base fme"
  shows "mset (pdevs (pr_mgmt_uinit fme)) = base \<and> fme_bridge_list (pr_mgmt_uinit fme) = [] \<and>
    fme_region_list (pr_mgmt_uinit fme) = []"
  using assms
  by (simp add: pr_mgmt_uinit_def dfl_fme_destroy_regions_def dfl_fme_destroy_bridges_def dfl_fme_destroy_mgr_def
      unregister_pdev_def destroy_pdevs_exact devices_ok_def)

lemma create_ports_exact:
  assumes "create_ports env m hdr is fme = (r, fme')" and "devices_ok base fme"
  shows "devices_ok base fme' \<and>
    (r = None \<longrightarrow> (let ports = rev (filter (\<lambda>i. bit (m (hdr + FME_HDR_PORT_OFST i)) 60) is)
      in fme_region_list fme' = ports @ fme_region_list fme \<and> fme_bridge_list fme' = ports @ fme_bridge_list fme))"
  using assms
proof (induction "is" arbitrary: fme)
  case (Cons i "is")
  show ?case
  proof (cases "bit (m (hdr + FME_HDR_PORT_OFST i)) 60")
    case False
    with Cons show ?thesis by simp
  next
    case True
    obtain rb fme1 where b: "dfl_fme_create_bridge env i fme = (rb, fme1)" by fastforce
    then have fme1: "fme1 = (if rb = None then fme\<lparr>pdevs := (FME_BRIDGE, i) # pdevs fme\<rparr> else fme)"
      by (auto simp: dfl_fme_create_bridge_def dest: create_pdev_exact split: if_splits)
    let ?fme1 = "fme1\<lparr>fme_bridge_list := i # fme_bridge_list fme1\<rparr>"
    obtain rr fme2 where g: "dfl_fme_create_region env i ?fme1 = (rr, fme2)" by fastforce
    then have fme2: "fme2 = (if rr = None then ?fme1\<lparr>pdevs := (FME_REGION, i) # pdevs ?fme1\<rparr> else ?fme1)"
      by (auto simp: dfl_fme_create_region_def dest: create_pdev_exact split: if_splits)
    let ?fme2 = "fme2\<lparr>fme_region_list := i # fme_region_list fme2\<rparr>"
    consider (bridge) e where "rb = Some e" "r = Some e" "fme' = fme"
      | (region) e where "rb = None" "rr = Some e" "r = Some e" "fme' = ?fme1"
      | (both) "rb = None" "rr = None" "create_ports env m hdr is ?fme2 = (r, fme')"
      using Cons.prems(1) True b g fme1 fme2 by (cases rb; cases rr) auto
    then show ?thesis
    proof cases
      case region
      with Cons.prems(2) fme1 show ?thesis by (simp add: devices_ok_def)
    next
      case both
      have "devices_ok base ?fme2" using Cons.prems(2) fme1 fme2 both(1,2) by (simp add: devices_ok_def)
      from Cons.IH [OF both(3) this] show ?thesis using True fme1 fme2 both(1,2) by (simp add: Let_def)
    qed (use Cons.prems(2) in simp)
  qed
qed simp

text \<open>
  The devices of an FME come together or not at all: a failure at any port leaves exactly the devices
  there were. On success there are one bridge and one region for each port that is implemented, the
  manager, and nothing else, and removing the feature leaves what there was before.
\<close>

theorem pr_mgmt_init_all_or_nothing:
  assumes "pr_mgmt_init env m hdr has_ioaddr fme = (r, fme')"
  shows "if r = None
    then (let ports = rev (filter (\<lambda>i. bit (m (hdr + FME_HDR_PORT_OFST i)) 60) (map int [0..<num_ports m hdr]))
      in fme_region_list fme' = ports \<and> fme_bridge_list fme' = ports \<and> devices_ok (mset (pdevs fme)) fme' \<and>
         mset (pdevs (pr_mgmt_uinit fme')) = mset (pdevs fme))
    else mset (pdevs fme') = mset (pdevs fme) \<and> fme_region_list fme' = [] \<and> fme_bridge_list fme' = []"
proof -
  let ?fme0 = "fme\<lparr>fme_region_list := [], fme_bridge_list := []\<rparr>"
  obtain rm fme1 where c: "dfl_fme_create_mgr env has_ioaddr ?fme0 = (rm, fme1)" by fastforce
  then have fme1: "fme1 = (if rm = None then ?fme0\<lparr>pdevs := (FME_MGR, 0) # pdevs fme\<rparr> else ?fme0)"
    by (auto simp: dfl_fme_create_mgr_def dest!: create_pdev_exact split: if_splits)
  show ?thesis
  proof (cases rm)
    case (Some e)
    with assms c fme1 show ?thesis by (auto simp: pr_mgmt_init_def Let_def)
  next
    case None
    obtain rp fme2 where p: "create_ports env m hdr (map int [0..<num_ports m hdr]) (fme1\<lparr>fme_mgr := True\<rparr>) = (rp, fme2)"
      by fastforce
    have "devices_ok (mset (pdevs fme)) (fme1\<lparr>fme_mgr := True\<rparr>)" using fme1 None by (simp add: devices_ok_def)
    note cp = create_ports_exact [OF p this]
    show ?thesis
    proof (cases rp)
      case (Some e)
      then have "r = Some e" "fme' = pr_mgmt_uinit fme2"
        using assms c None p by (auto simp: pr_mgmt_init_def Let_def pr_mgmt_uinit_def)
      with teardown cp show ?thesis by (metis option.distinct(1))
    next
      case n: None
      with assms c None p have "r = None" "fme' = fme2" by (auto simp: pr_mgmt_init_def Let_def)
      with cp n teardown fme1 None show ?thesis by (simp add: Let_def)
    qed
  qed
qed

section \<open>Witnesses\<close>

text \<open>
  One port, number 1, on an engine that is ready while the bridge of the port is off; the user sends five
  bytes.
\<close>

definition engine0 :: "bool \<Rightarrow> device" where
  "engine0 h = (if h then \<lambda>_ _. 0 else ready_engine)"

definition region_env0 :: "(fme_mgr_priv, bool) region_env" where
  "region_env0 = \<lparr>re_fpga = fpga_env0, re_mops = \<lambda>h. fme_mgr_ops (engine0 h) 0, re_mgr_id = 0, re_module = True, get_bridges = None\<rparr>"

definition fme_hdr0 :: mmio where
  "fme_hdr0 a = (if a = 0x30 then 0x40000 else if a = 0x40 then 2 ^ 60 else 0)"

definition pr_env0 :: "u32 \<Rightarrow> (fme_mgr_priv, bool) pr_env" where
  "pr_env0 port = \<lparr>copy_port_pr = Some \<lparr>pr_argsz = 24, pr_flags = 0, pr_port_id = port, pr_buffer_size = 5, pr_buffer_address = 0x1000\<rparr>,
     vmalloc_ok = \<lambda>_. True, copy_buffer = \<lambda>a k. if k = 5 then Some (0x8000, [1, 2, 3, 4, 5]) else None, info_alloc_ok = True,
     region_pdev = \<lambda>_. 5, bridge_pdev = \<lambda>_. 7, pr_class = class_env0, pr_region = region_env0\<rparr>"

definition fme0 :: dfl_fme where
  "fme0 = \<lparr>fme_mgr = True, fme_bridge_list = [1], fme_region_list = [1], pdevs = [(FME_REGION, 1), (FME_BRIDGE, 1), (FME_MGR, 0)]\<rparr>"

definition world0 :: "(fme_mgr_priv, bool) fme_world" where
  "world0 = \<lparr>fw_fme = Some fme0,
     fw_regions = \<lparr>cl_ida = {0}, cl_live = 1, cl_objs = [\<lparr>o_id = 0, o_refs = 1, o_parent = 5,
       o_body = \<lparr>rd_mgr = 0, rd_compat_id = None, rd_get_bridges = True, rd_bridges = []\<rparr>\<rparr>], cl_mods = 0\<rparr>,
     fw_own = \<lambda>_. \<lparr>own_mutex = False, own_refs = 0, own_mods = 0, own_bridges = [], own_info = None\<rparr>,
     fw_mgr_cls = \<lparr>cl_ida = {0}, cl_live = 1, cl_objs = [\<lparr>o_id = 0, o_refs = 1, o_parent = 3,
       o_body = \<lparr>md_name = ''m'', md_mops = fme_mgr_ops ready_engine 0, md_state = FPGA_MGR_STATE_UNKNOWN, md_locked = False\<rparr>\<rparr>],
       cl_mods = 1\<rparr>,
     fw_mgr = fme_mgr0, fw_br_cls = bridges0, fw_hw = True, fw_infos = 0\<rparr>"

lemma world0_inv: "fme_world_inv world0"
  by (simp add: fme_world_inv_def world0_def class_inv_def bridges0_def)

lemma num_ports0: "num_ports fme_hdr0 0 = 2"
  by (simp add: num_ports_def fme_hdr0_def field_get_def)

lemmas region_eval =
  fpga_region_program_fpga_def fpga_region_get_def region_mgr_lock_def fpga_mgr_lock_def obj_at_def set_locked_def set_obj_def
  fme_region_get_bridges_def fpga_bridge_get_to_list_def fpga_bridge_get_def class_find_device_def get_device_def
  region_get_bridges_def fpga_bridge_get_dev_def set_bridge_def region_load_def engine0_def bridge_at_def fpga_bridge_disable_def fpga_bridge_enable_def

lemma region_program0:
  "fst (fpga_region_program_fpga (region_env0\<lparr>get_bridges := Some (fme_region_get_bridges class_env0 7)\<rparr>)
     (region_view 0 pr_info0 world0)) = None"
proof -
  obtain h where "fpga_mgr_load fpga_env0 (fme_mgr_ops ready_engine 0) pr_info0 fme_mgr0 =
     (None, pr_info0, \<lparr>mgr_state = FPGA_MGR_STATE_OPERATING, drv = \<lparr>ioaddr = 0, pr_error = 0, io = h\<rparr>, overread = False\<rparr>)"
    using fme_load0 by blast
  then show ?thesis
    by (simp add: region_eval region_env0_def region_view_def world0_def bridges0_def bridge0_def class_env0_def)
qed

theorem region_program_safe_witness:
  "\<exists>s'. fpga_region_program_fpga (region_env0\<lparr>get_bridges := Some (fme_region_get_bridges class_env0 7)\<rparr>)
      (region_view 0 pr_info0 world0) = (None, s') \<and> mgr_state (rg_mgr s') = FPGA_MGR_STATE_OPERATING \<and> \<not> rg_mutex s' \<and> rg_hw s'"
proof -
  let ?env = "region_env0\<lparr>get_bridges := Some (fme_region_get_bridges class_env0 7)\<rparr>"
  let ?s = "region_view 0 pr_info0 world0"
  obtain s' where p: "fpga_region_program_fpga ?env ?s = (None, s')"
    using region_program0 by (metis prod.collapse)
  have ok: "mgr_ok ?env ?s" by (simp add: mgr_ok_def region_view_def world0_def class_inv_def)
  obtain cls where cls: "region_get_bridges ?env ?s = (None, [0], cls)" "bridge_at cls 0 = Some (bridge0\<lparr>br_info := Some pr_info0, br_mutex := True\<rparr>)"
    "\<And>n. n \<noteq> 0 \<Longrightarrow> bridge_at cls n = None"
    by (simp add: region_eval region_view_def world0_def bridges0_def bridge0_def class_env0_def)
  let ?on = "\<lambda>n h. n = 0 \<and> h"
  have sw: "bridges_switch cls ?on"
    unfolding bridges_switch_def
  proof (intro allI impI)
    fix n b f en h h'
    assume b: "bridge_at cls n = Some b" "enable_set (br_ops b) = Some f" "f en h = (None, h')"
    then have "n = 0" using cls(3) [of n] by (cases "n = 0") auto
    with b cls(2) show "(n = 0 \<and> h') = en \<and> (\<forall>m. m \<noteq> n \<longrightarrow> (m = 0 \<and> h') = (m = 0 \<and> h))" by (auto simp: bridge0_def)
  qed
  have "switchable cls 0" using cls(2) by (simp add: switchable_def bridge0_def)
  with region_program_safe [OF p ok cls(1) sw] p show ?thesis by (auto simp: same_region_def region_view_def world0_def all_on_def)
qed

lemma fme_pr0: "fst (fme_pr (pr_env0 1) fme_hdr0 0 world0) = None"
proof -
  have info: "pr_image_info \<lparr>pr_argsz = 24, pr_flags = 0, pr_port_id = 1, pr_buffer_size = 5, pr_buffer_address = 0x1000\<rparr>
      (0x8000, [1, 2, 3, 4, 5]) = pr_info0" by (simp add: pr_image_info_def pr_info0_def)
  have view: "region_view 0 pr_info0 (world0\<lparr>fw_regions := c, fw_infos := k\<rparr>) = region_view 0 pr_info0 world0" for k c
    by (simp add: region_view_def)
  obtain s' where p: "fpga_region_program_fpga (region_env0\<lparr>get_bridges := Some (fme_region_get_bridges class_env0 7)\<rparr>)
      (region_view 0 pr_info0 world0) = (None, s')"
    using region_program0 by (metis prod.collapse)
  have find: "dfl_fme_region_find (pr_env0 1) fme0 1 (fw_regions world0) = (Some 0, get_device 0 (fw_regions world0))"
    by (simp add: dfl_fme_region_find_def dfl_fme_region_find_by_port_id_def fme0_def pr_env0_def fpga_region_class_find_def
        class_find_device_def world0_def)
  have own: "own_info (fw_own world0 0) = None" and fme: "fw_fme world0 = Some fme0" by (simp_all add: world0_def)
  show ?thesis
    using find
    by (simp add: fme_pr_def pr_env0_def num_ports0 fme program_port_def info own view p Let_def split: prod.splits)
qed

theorem fme_pr_gives_back_witness:
  "fme_world_inv (snd (fme_pr (pr_env0 1) fme_hdr0 0 world0)) \<and> same_holdings world0 (snd (fme_pr (pr_env0 1) fme_hdr0 0 world0))"
  by (rule fme_pr_gives_back [OF _ world0_inv]) (rule prod.collapse [symmetric])

theorem fme_pr_success_programs_buffer_witness:
  "\<exists>ws. writes FME_PR_DATA (io (drv (fw_mgr (snd (fme_pr (pr_env0 1) fme_hdr0 0 world0))))) = ws \<and>
     take 5 (concat (map (word_bytes 4) ws)) = [1, 2, 3, 4, 5]"
proof -
  obtain w' where p: "fme_pr (pr_env0 1) fme_hdr0 0 world0 = (None, w')" using fme_pr0 by (metis prod.collapse)
  have c: "class_inv (fw_regions world0)" using world0_inv by (simp add: fme_world_inv_def)
  have m: "re_mops (pr_region (pr_env0 1)) = (\<lambda>h. fme_mgr_ops (engine0 h) 0)" by (simp add: pr_env0_def region_env0_def)
  have l: "\<forall>a k b. copy_buffer (pr_env0 1) a k = Some b \<longrightarrow> length (snd b) = unat k" by (auto simp: pr_env0_def)
  from fme_pr_success_programs_buffer [OF p c m l] obtain port_pr addr img ws where
    "copy_port_pr (pr_env0 1) = Some port_pr" "copy_buffer (pr_env0 1) (pr_buffer_address port_pr) (pr_buffer_size port_pr) = Some (addr, img)"
    "writes (ioaddr (drv (fw_mgr world0)) + FME_PR_DATA) (io (drv (fw_mgr w'))) =
       writes (ioaddr (drv (fw_mgr world0)) + FME_PR_DATA) (io (drv (fw_mgr world0))) @ ws"
    and dec: "take (length img) (concat (map (word_bytes 4) ws)) = img" by blast
  moreover have "fw_mgr world0 = fme_mgr0" by (simp add: world0_def)
  moreover have img: "img = [1, 2, 3, 4, 5]" using calculation(1,2) by (auto simp: pr_env0_def)
  ultimately have "writes FME_PR_DATA (io (drv (fw_mgr w'))) = ws" by (simp add: fme_mgr0_def)
  moreover have "length img = 5" by (simp add: img)
  ultimately show ?thesis using p dec [unfolded \<open>length img = 5\<close>] img by simp
qed

definition pdev_env0 :: pdev_env where
  "pdev_env0 = \<lparr>pd_kzalloc = \<lambda>_ _. True, pd_alloc = \<lambda>_ _. True, pd_add_data = \<lambda>_ _. None, pd_add = \<lambda>_ _. None\<rparr>"

definition fme_new :: dfl_fme where
  "fme_new = \<lparr>fme_mgr = False, fme_bridge_list = [], fme_region_list = [], pdevs = []\<rparr>"

lemma pr_mgmt_init0: "pr_mgmt_init pdev_env0 fme_hdr0 0 True fme_new = (None, fme0)"
  by (simp add: pr_mgmt_init_def num_ports0 dfl_fme_create_mgr_def create_pdev_def pdev_env0_def fme_new_def upt_rec
      FME_HDR_PORT_OFST_def fme_hdr0_def dfl_fme_create_bridge_def dfl_fme_create_region_def fme0_def)

theorem pr_mgmt_init_all_or_nothing_witness:
  "pr_mgmt_init pdev_env0 fme_hdr0 0 True fme_new = (None, fme0) \<and> devices_ok {#} fme0 \<and> mset (pdevs (pr_mgmt_uinit fme0)) = {#}"
  using pr_mgmt_init_all_or_nothing [OF pr_mgmt_init0] pr_mgmt_init0 by (simp add: Let_def fme_new_def)

text \<open>
  Port 0 is within the number of ports but not implemented, so it has no region. The request fails,
  and the image information allocated for it is neither freed nor reachable from any region.
\<close>

theorem fme_pr_leaks_info:
  "case fme_pr (pr_env0 0) fme_hdr0 0 world0 of
     (r, w') \<Rightarrow> r = Some EINVAL \<and> fw_infos w' = fw_infos world0 + 1 \<and> fw_own w' = fw_own world0"
  by (simp add: fme_pr_def num_ports0) (simp add: pr_env0_def num_ports0 world0_def fme0_def dfl_fme_region_find_def dfl_fme_region_find_by_port_id_def)

end
