(* ===== verification/Fme_Main_Props.thy ===== *)
theory Fme_Main_Props
  imports Fme_Main Fme_Pr_Props Dfl_Port_Props
begin

text \<open>
  The device file of the management engine: ports are released and assigned through it, and the last
  user to close it leaves no interrupt bound.
\<close>

section \<open>Ports through the device file\<close>

text \<open>One feature of the engine is bound to the driver of the header.\<close>

definition header_at :: "nat \<Rightarrow> dfl_feature list \<Rightarrow> bool" where
  "header_at h fs \<longleftrightarrow> h < length fs \<and> ft_ops (fs ! h) = Some 0 \<and>
     (\<forall>j < length fs. j \<noteq> h \<longrightarrow> ft_ops (fs ! j) \<noteq> Some 0)"

lemma port_cmd_others:
  assumes "cmd = FME_PORT_RELEASE arg \<or> cmd = FME_PORT_ASSIGN arg" and "ft_ops (features (dv_fdata s) ! j) \<noteq> Some 0"
  shows "fme_feature_ioctl env wr_ok cmd j s = None \<or>
     fme_feature_ioctl env wr_ok cmd j s = Some ((Some ENODEV, None), s)"
  using assms by (auto simp: fme_feature_ioctl_def fme_pr_ioctl_def fme_global_error_ioctl_def split: option.splits)

lemma port_cmd_dispatch:
  assumes "header_at h (features (dv_fdata s))" and "cmd = FME_PORT_RELEASE arg \<or> cmd = FME_PORT_ASSIGN arg"
    and "fme_hdr_ioctl env cmd s = ((r, None), s')" and "dv_fdata s' = dv_fdata s"
  shows "fme_ioctl env wr_ok cmd s = ((if r = Some ENODEV then Some EINVAL else r, None), s')"
proof -
  let ?n = "length (features (dv_fdata s))"
  have "features_ioctl (fme_feature_ioctl env wr_ok cmd) None 0 ?n s =
      ((if r = Some ENODEV then Some EINVAL else r, None), s')"
  proof (rule features_ioctl_at [where m = h])
    show "h < ?n" using assms(1) by (simp add: header_at_def)
    show "fme_feature_ioctl env wr_ok cmd (0 + h) s = Some ((r, None), s')"
      using assms(1,3) by (simp add: fme_feature_ioctl_def header_at_def)
  next
    fix j assume "j < 0 + h"
    then show "fme_feature_ioctl env wr_ok cmd j s = None \<or> fme_feature_ioctl env wr_ok cmd j s = Some ((Some ENODEV, None), s)"
      using assms(1) by (intro port_cmd_others [OF assms(2)]) (simp add: header_at_def)
  next
    fix j assume "0 + h < j" "j < 0 + ?n"
    then show "fme_feature_ioctl env wr_ok cmd j s' = None \<or> fme_feature_ioctl env wr_ok cmd j s' = Some ((Some ENODEV, None), s')"
      using assms(1,4) by (intro port_cmd_others [OF assms(2)]) (simp add: header_at_def)
  qed
  with assms(2) show ?thesis by (auto simp: fme_ioctl_def)
qed

text \<open>
  C33. Releasing and assigning a port through the device file is exactly the operation on the ports of
  the container, whatever other sub features the engine has; with one difference: the error for a
  port that is not there is the code that means \<open>not my command\<close> to the loop over the sub features,
  which goes on and in the end reports an invalid argument.
\<close>

theorem port_ioctls_exact:
  assumes "header_at h (features (dv_fdata s))"
    and "dfl_fpga_cdev_release_port i (fs_ports s) = (r, ps)"
    and "dfl_fpga_cdev_assign_port (fe_platform_add env) j (fs_ports s) = (q, ps')"
  shows "fme_ioctl env wr_ok (FME_PORT_RELEASE (Some i)) s =
       ((if r = Some ENODEV then Some EINVAL else r, None), s\<lparr>fs_ports := ps\<rparr>) \<and>
     fme_ioctl env wr_ok (FME_PORT_ASSIGN (Some j)) s =
       ((if q = Some ENODEV then Some EINVAL else q, None), s\<lparr>fs_ports := ps'\<rparr>)"
proof
  show "fme_ioctl env wr_ok (FME_PORT_RELEASE (Some i)) s =
      ((if r = Some ENODEV then Some EINVAL else r, None), s\<lparr>fs_ports := ps\<rparr>)"
    by (rule port_cmd_dispatch [OF assms(1)])
      (simp_all add: fme_hdr_ioctl_def fme_hdr_ioctl_release_port_def assms(2))
  show "fme_ioctl env wr_ok (FME_PORT_ASSIGN (Some j)) s =
      ((if q = Some ENODEV then Some EINVAL else q, None), s\<lparr>fs_ports := ps'\<rparr>)"
    by (rule port_cmd_dispatch [OF assms(1)])
      (simp_all add: fme_hdr_ioctl_def fme_hdr_ioctl_assign_port_def assms(3))
qed

section \<open>Closing the device file\<close>

theorem fme_release_clears:
  assumes "dev_irq_accounts others s" and "open_count (dv_fdata s) = 1"
  shows "\<forall>i < length (irqs_of s). dv_handlers (fme_release env s) i = [] \<and>
       bound (ft_irq_ctx (irqs_of (fme_release env s) ! i)) = []"
    and "dv_refs (fme_release env s) = others"
proof -
  let ?s0 = "s\<lparr>dv_fdata := (dv_fdata s)\<lparr>excl_open := False, open_count := 0\<rparr>\<rparr>"
  have irqs: "irqs_of ?s0 = irqs_of s" "dv_handlers ?s0 = dv_handlers s" by (simp_all add: irqs_of_def)
  have run: "fme_release env s = release_triggers (fe_irq env) 0 (length (irqs_of s)) ?s0"
    using assms(2) by (simp add: fme_release_def dfl_feature_dev_use_end_def dfl_feature_dev_use_count_def irqs_of_def Let_def)
  obtain fs hs where "release_triggers (fe_irq env) 0 (length (irqs_of s)) ?s0 =
       ?s0\<lparr>dv_fdata := (dv_fdata ?s0)\<lparr>features := fs\<rparr>, dv_handlers := hs, dv_refs := others\<rparr>"
     "\<forall>j < length (irqs_of s). hs j = [] \<and> bound (ft_irq_ctx (fs ! j)) = []"
    using release_triggers_clears [of 0 "length (irqs_of s)" ?s0 others "fe_irq env"] assms(1)
    by (auto simp: irqs dev_irq_accounts_def)
  then show "\<forall>i < length (irqs_of s). dv_handlers (fme_release env s) i = [] \<and>
       bound (ft_irq_ctx (irqs_of (fme_release env s) ! i)) = []" and "dv_refs (fme_release env s) = others"
    by (simp_all add: run irqs_of_def)
qed

section \<open>An engine\<close>

text \<open>An engine whose second feature is its header, with one port in its container.\<close>

definition fme_sys0 :: "(fme_mgr_priv, bool) fme_sys" where
  "fme_sys0 = \<lparr>dv_fdata = (dv_fdata gerr_sys0)\<lparr>features :=
       [feature_zero\<lparr>ft_id := 4, ft_ioaddr := Some 0x4000, ft_ops := Some 2\<rparr>,
        feature_zero\<lparr>ft_id := 0xfe, ft_ioaddr := Some 0x1000, ft_ops := Some 0\<rparr>]\<rparr>,
     dv_hist = [], dv_handlers = \<lambda>_. [], dv_refs = \<lambda>_. 0,
     fs_ports = \<lparr>ps_cdev = cdev0 [port0 0], ps_ops = ops0\<rparr>, fs_world = world0, fs_cdev = True\<rparr>"

definition fme_env0 :: "(fme_mgr_priv, bool) fme_env" where
  "fme_env0 = \<lparr>fe_dev = \<lambda>h a. 0, fe_irq = irq_env0, fe_kzalloc = True, fe_ioremap = \<lambda>_. Inr 0x9000,
     fe_dfl_dev_add = \<lambda>_. Inr 1, fe_cdev_add = None, fe_pdev = pdev_env0, fe_pr = pr_env0 0,
     fe_platform_add = \<lambda>_ _. None, fe_hwmon = \<lambda>_. None, fe_perf_init = None\<rparr>"

theorem port_ioctls_exact_witness:
  "\<exists>s'. fme_ioctl fme_env0 True (FME_PORT_RELEASE (Some 7)) fme_sys0 = ((Some EINVAL, None), s')"
proof -
  obtain r ps where rel: "dfl_fpga_cdev_release_port 7 (fs_ports fme_sys0) = (r, ps)" by fastforce
  then have "r = Some ENODEV"
    by (auto simp: fme_sys0_def dfl_fpga_cdev_release_port_def cdev_find_port_def cdev0_def port0_def dfl_fpga_check_port_id_def)
  moreover obtain q ps' where "dfl_fpga_cdev_assign_port (fe_platform_add fme_env0) 7 (fs_ports fme_sys0) = (q, ps')" by fastforce
  moreover have "header_at 1 (features (dv_fdata fme_sys0))"
    by (auto simp: header_at_def fme_sys0_def feature_zero_def less_Suc_eq)
  ultimately show ?thesis using port_ioctls_exact [OF _ rel] by fastforce
qed

end
