(* ===== verification/M10bmc.thy ===== *)
theory M10bmc
  imports Prelude
begin

unbundle bit_operations_syntax

text \<open>
  The board management controller (\<^verbatim>\<open>drivers/mfd/intel-m10-bmc-core.c\<close>, \<^verbatim>\<open>include/linux/mfd/intel-m10-bmc.h\<close>):
  system registers behind a register map, the firmware state that makes some of them unavailable,
  and the operations on flash memory that some boards have.
\<close>

section \<open>Register maps\<close>

text \<open>
  The register map core of the kernel is a parameter: the outcome of every access as a function of all
  accesses so far. The history has the accesses with their outcomes.
\<close>

datatype regio =
    RM_Read u32 "errno + u32"
  | RM_Update u32 u32 u32 "errno option"        \<comment> \<open>\<^verbatim>\<open>regmap_update_bits\<close>: register, mask, value\<close>
  | RM_Write u32 u32 "errno option"
  | RM_Bulk_Write u32 "byte list" "errno option"
  | RM_Bulk_Read u32 u32 "errno + byte list"

type_synonym reghist = "regio list"

record regmap_env =
  rm_read :: "reghist \<Rightarrow> u32 \<Rightarrow> errno + u32"
  rm_update :: "reghist \<Rightarrow> u32 \<Rightarrow> u32 \<Rightarrow> u32 \<Rightarrow> errno option"
  rm_write :: "reghist \<Rightarrow> u32 \<Rightarrow> u32 \<Rightarrow> errno option"
  rm_bulk_write :: "reghist \<Rightarrow> u32 \<Rightarrow> byte list \<Rightarrow> errno option"
  rm_bulk_read :: "reghist \<Rightarrow> u32 \<Rightarrow> u32 \<Rightarrow> errno + byte list"
  rm_stride :: u32

section \<open>The controller\<close>

datatype m10bmc_fw_state =
    M10BMC_FW_STATE_NORMAL
  | M10BMC_FW_STATE_SEC_UPDATE_PREPARE
  | M10BMC_FW_STATE_SEC_UPDATE_WRITE
  | M10BMC_FW_STATE_SEC_UPDATE_PROGRAM
  | M10BMC_FW_RETIMER_EEPROM_LOAD

record m10bmc_csr_map =
  csr_base :: u32
  csr_build_version :: u32
  csr_fw_version :: u32
  csr_mac_low :: u32
  csr_mac_high :: u32
  csr_doorbell :: u32
  csr_auth_result :: u32
  csr_bmc_prog_addr :: u32
  csr_bmc_reh_addr :: u32
  csr_bmc_magic :: u32
  csr_sr_prog_addr :: u32
  csr_sr_reh_addr :: u32
  csr_sr_magic :: u32
  csr_pr_prog_addr :: u32
  csr_pr_reh_addr :: u32
  csr_pr_magic :: u32
  csr_rsu_update_counter :: u32
  csr_pr_sdm_reh_reg :: u32
  csr_pr_sdm_csk_reg :: u32
  csr_sr_sdm_reh_reg :: u32
  csr_sr_sdm_csk_reg :: u32
  csr_staging_size :: u32

record intel_m10bmc_platform_info =
  handshake_sys_reg_ranges :: "(u32 \<times> u32) list"
  csr_map :: m10bmc_csr_map

text \<open>Operations on flash memory, over a state of their own; the write gets the whole buffer.\<close>

record 'f flash_bulk_ops =
  fl_read :: "u32 \<Rightarrow> u32 \<Rightarrow> 'f \<Rightarrow> (errno + byte list) \<times> 'f"
  fl_write :: "byte list \<Rightarrow> u32 \<Rightarrow> u32 \<Rightarrow> 'f \<Rightarrow> 'f ret"
  fl_lock_write :: "'f \<Rightarrow> 'f ret"
  fl_unlock_write :: "'f \<Rightarrow> 'f"

text \<open>The state: accesses so far, the firmware state, the state of the flash operations.\<close>

record 'f m10bmc =
  mb_hist :: reghist
  bmcfw_state :: m10bmc_fw_state
  mb_flash :: 'f

text \<open>What does not change: the register map, the board, and whether it has flash operations.\<close>

record 'f m10bmc_env =
  mb_regmap :: regmap_env
  mb_info :: intel_m10bmc_platform_info
  mb_flash_ops :: "'f flash_bulk_ops option"

definition regmap_read :: "('f, 'e) m10bmc_env_scheme \<Rightarrow> u32 \<Rightarrow> ('f, 'a) m10bmc_scheme \<Rightarrow> (errno + u32) \<times> ('f, 'a) m10bmc_scheme" where
  "regmap_read env addr s =
     (let v = rm_read (mb_regmap env) (mb_hist s) addr in (v, s\<lparr>mb_hist := mb_hist s @ [RM_Read addr v]\<rparr>))"

definition regmap_update_bits ::
  "('f, 'e) m10bmc_env_scheme \<Rightarrow> u32 \<Rightarrow> u32 \<Rightarrow> u32 \<Rightarrow> ('f, 'a) m10bmc_scheme \<Rightarrow> ('f, 'a) m10bmc_scheme ret" where
  "regmap_update_bits env addr msk val s =
     (let r = rm_update (mb_regmap env) (mb_hist s) addr msk val
      in (r, s\<lparr>mb_hist := mb_hist s @ [RM_Update addr msk val r]\<rparr>))"

definition regmap_write ::
  "('f, 'e) m10bmc_env_scheme \<Rightarrow> u32 \<Rightarrow> u32 \<Rightarrow> ('f, 'a) m10bmc_scheme \<Rightarrow> ('f, 'a) m10bmc_scheme ret" where
  "regmap_write env addr val s =
     (let r = rm_write (mb_regmap env) (mb_hist s) addr val
      in (r, s\<lparr>mb_hist := mb_hist s @ [RM_Write addr val r]\<rparr>))"

definition regmap_bulk_write ::
  "('f, 'e) m10bmc_env_scheme \<Rightarrow> u32 \<Rightarrow> byte list \<Rightarrow> ('f, 'a) m10bmc_scheme \<Rightarrow> ('f, 'a) m10bmc_scheme ret" where
  "regmap_bulk_write env addr bytes s =
     (let r = rm_bulk_write (mb_regmap env) (mb_hist s) addr bytes
      in (r, s\<lparr>mb_hist := mb_hist s @ [RM_Bulk_Write addr bytes r]\<rparr>))"

definition regmap_bulk_read ::
  "('f, 'e) m10bmc_env_scheme \<Rightarrow> u32 \<Rightarrow> u32 \<Rightarrow> ('f, 'a) m10bmc_scheme \<Rightarrow> (errno + byte list) \<times> ('f, 'a) m10bmc_scheme" where
  "regmap_bulk_read env addr n s =
     (let r = rm_bulk_read (mb_regmap env) (mb_hist s) addr n
      in (r, s\<lparr>mb_hist := mb_hist s @ [RM_Bulk_Read addr n r]\<rparr>))"

text \<open>
  \<^verbatim>\<open>read_poll_timeout\<close>: the operation until the condition holds, for as many times as fit in the
  time-out and once more; and \<^verbatim>\<open>regmap_read_poll_timeout\<close> on a register, which also stops at an error.
\<close>

fun read_poll :: "('s \<Rightarrow> 'v \<times> 's) \<Rightarrow> ('v \<Rightarrow> bool) \<Rightarrow> nat \<Rightarrow> 's \<Rightarrow> (errno option \<times> 'v) \<times> 's" where
  "read_poll f cond 0 s = (case f s of (v, s) \<Rightarrow> ((if cond v then None else Some ETIMEDOUT, v), s))"
| "read_poll f cond (Suc n) s =
     (case f s of (v, s) \<Rightarrow> if cond v then ((None, v), s) else read_poll f cond n s)"

definition regmap_read_poll ::
  "('f, 'e) m10bmc_env_scheme \<Rightarrow> u32 \<Rightarrow> (u32 \<Rightarrow> bool) \<Rightarrow> nat \<Rightarrow> ('f, 'a) m10bmc_scheme \<Rightarrow> (errno + u32) \<times> ('f, 'a) m10bmc_scheme" where
  "regmap_read_poll env addr cond n s =
     (case read_poll (regmap_read env addr) (\<lambda>v. case v of Inl e \<Rightarrow> True | Inr v \<Rightarrow> cond v) n s of
        ((r, v), s) \<Rightarrow>
          (case v of Inl e \<Rightarrow> (Inl e, s) | Inr v \<Rightarrow> (case r of Some e \<Rightarrow> (Inl e, s) | None \<Rightarrow> (Inr v, s))))"

section \<open>System registers\<close>

abbreviation csrs :: "('f, 'e) m10bmc_env_scheme \<Rightarrow> m10bmc_csr_map" where
  "csrs env \<equiv> csr_map (mb_info env)"

definition m10bmc_raw_read ::
  "('f, 'e) m10bmc_env_scheme \<Rightarrow> u32 \<Rightarrow> ('f, 'a) m10bmc_scheme \<Rightarrow> (errno + u32) \<times> ('f, 'a) m10bmc_scheme" where
  "m10bmc_raw_read env addr s = regmap_read env addr s"

definition m10bmc_fw_state_set ::
  "('f, 'e) m10bmc_env_scheme \<Rightarrow> m10bmc_fw_state \<Rightarrow> ('f, 'a) m10bmc_scheme \<Rightarrow> ('f, 'a) m10bmc_scheme" where
  "m10bmc_fw_state_set env new_state s =
     (if handshake_sys_reg_ranges (mb_info env) = [] then s else s\<lparr>bmcfw_state := new_state\<rparr>)"

definition m10bmc_reg_always_available :: "('f, 'e) m10bmc_env_scheme \<Rightarrow> u32 \<Rightarrow> bool" where
  "m10bmc_reg_always_available env offset \<longleftrightarrow>
     handshake_sys_reg_ranges (mb_info env) = [] \<or>
     \<not> list_ex (\<lambda>(a, b). a \<le> offset \<and> offset \<le> b) (handshake_sys_reg_ranges (mb_info env))"

definition m10bmc_handshake_reg_unavailable :: "('f, 'a) m10bmc_scheme \<Rightarrow> bool" where
  "m10bmc_handshake_reg_unavailable s \<longleftrightarrow>
     bmcfw_state s = M10BMC_FW_STATE_SEC_UPDATE_PREPARE \<or> bmcfw_state s = M10BMC_FW_STATE_SEC_UPDATE_WRITE \<or>
     bmcfw_state s = M10BMC_FW_RETIMER_EEPROM_LOAD"

definition m10bmc_sys_read ::
  "('f, 'e) m10bmc_env_scheme \<Rightarrow> u32 \<Rightarrow> ('f, 'a) m10bmc_scheme \<Rightarrow> (errno + u32) \<times> ('f, 'a) m10bmc_scheme" where
  "m10bmc_sys_read env offset s =
     (if m10bmc_reg_always_available env offset then m10bmc_raw_read env (csr_base (csrs env) + offset) s
      else if m10bmc_handshake_reg_unavailable s then (Inl EBUSY, s)
      else m10bmc_raw_read env (csr_base (csrs env) + offset) s)"

definition m10bmc_sys_update_bits ::
  "('f, 'e) m10bmc_env_scheme \<Rightarrow> u32 \<Rightarrow> u32 \<Rightarrow> u32 \<Rightarrow> ('f, 'a) m10bmc_scheme \<Rightarrow> ('f, 'a) m10bmc_scheme ret" where
  "m10bmc_sys_update_bits env offset msk val s =
     (if m10bmc_reg_always_available env offset then regmap_update_bits env (csr_base (csrs env) + offset) msk val s
      else if m10bmc_handshake_reg_unavailable s then (Some EBUSY, s)
      else regmap_update_bits env (csr_base (csrs env) + offset) msk val s)"

section \<open>Attributes\<close>

definition field32 :: "nat \<Rightarrow> nat \<Rightarrow> u32 \<Rightarrow> u32" where
  "field32 hi lo v = take_bit (hi + 1 - lo) (drop_bit lo v)"

definition field_prep32 :: "nat \<Rightarrow> u32 \<Rightarrow> u32" where
  "field_prep32 lo v = push_bit lo v"

type_synonym ('f, 'a) shown = "(errno + string) \<times> ('f, 'a) m10bmc_scheme"

definition sys_show :: "('f, 'e) m10bmc_env_scheme \<Rightarrow> u32 \<Rightarrow> (u32 \<Rightarrow> string) \<Rightarrow> ('f, 'a) m10bmc_scheme \<Rightarrow> ('f, 'a) shown" where
  "sys_show env offset fmt s =
     (case m10bmc_sys_read env offset s of (Inl e, s) \<Rightarrow> (Inl e, s) | (Inr v, s) \<Rightarrow> (Inr (fmt v), s))"

definition hex32 :: "u32 \<Rightarrow> string" where
  "hex32 v = hexstr (ucast v)"

definition bmc_version_show :: "('f, 'e) m10bmc_env_scheme \<Rightarrow> ('f, 'a) m10bmc_scheme \<Rightarrow> ('f, 'a) shown" where
  "bmc_version_show env s = sys_show env (csr_build_version (csrs env)) (\<lambda>v. ''0x'' @ hex32 v @ newline) s"

definition bmcfw_version_show :: "('f, 'e) m10bmc_env_scheme \<Rightarrow> ('f, 'a) m10bmc_scheme \<Rightarrow> ('f, 'a) shown" where
  "bmcfw_version_show env s = sys_show env (csr_fw_version (csrs env)) (\<lambda>v. ''0x'' @ hex32 v @ newline) s"

text \<open>\<^verbatim>\<open>%02x\<close> of a byte.\<close>

definition hex2 :: "byte \<Rightarrow> string" where
  "hex2 b = [hex_digit (unat (drop_bit 4 b)), hex_digit (unat (take_bit 4 b))]"

definition mac_address_show :: "('f, 'e) m10bmc_env_scheme \<Rightarrow> ('f, 'a) m10bmc_scheme \<Rightarrow> ('f, 'a) shown" where
  "mac_address_show env s =
     (case m10bmc_sys_read env (csr_mac_low (csrs env)) s of
        (Inl e, s) \<Rightarrow> (Inl e, s)
      | (Inr low, s) \<Rightarrow>
          (case m10bmc_sys_read env (csr_mac_high (csrs env)) s of
             (Inl e, s) \<Rightarrow> (Inl e, s)
           | (Inr high, s) \<Rightarrow>
               (Inr (hex2 (ucast (field32 31 24 low)) @ '':'' @ hex2 (ucast (field32 23 16 low)) @ '':'' @
                     hex2 (ucast (field32 15 8 low)) @ '':'' @ hex2 (ucast (field32 7 0 low)) @ '':'' @
                     hex2 (ucast (field32 7 0 high)) @ '':'' @ hex2 (ucast (field32 15 8 high)) @ newline), s)))"

definition mac_count_show :: "('f, 'e) m10bmc_env_scheme \<Rightarrow> ('f, 'a) m10bmc_scheme \<Rightarrow> ('f, 'a) shown" where
  "mac_count_show env s =
     sys_show env (csr_mac_high (csrs env)) (\<lambda>v. decstr (unat (ucast (field32 23 16 v) :: byte)) @ newline) s"


section \<open>Boards\<close>

text \<open>The register maps of the boards, and the registers that the firmware serves.\<close>

definition m10bmc_n3000_csr_map :: m10bmc_csr_map where
  "m10bmc_n3000_csr_map =
     \<lparr>csr_base = 0x300800, csr_build_version = 0x68, csr_fw_version = 0, csr_mac_low = 0x10, csr_mac_high = 0x14,
      csr_doorbell = 0x400, csr_auth_result = 0x404,
      csr_bmc_prog_addr = 0x17ffc000, csr_bmc_reh_addr = 0x17ffc004, csr_bmc_magic = 0x5746,
      csr_sr_prog_addr = 0x17ffd000, csr_sr_reh_addr = 0x17ffd004, csr_sr_magic = 0x5253,
      csr_pr_prog_addr = 0x17ffe000, csr_pr_reh_addr = 0x17ffe004, csr_pr_magic = 0x5250,
      csr_rsu_update_counter = 0x17ffb000,
      csr_pr_sdm_reh_reg = 0, csr_pr_sdm_csk_reg = 0, csr_sr_sdm_reh_reg = 0, csr_sr_sdm_csk_reg = 0,
      csr_staging_size = 0x3800000\<rparr>"

definition m10bmc_n6000_csr_map :: m10bmc_csr_map where
  "m10bmc_n6000_csr_map =
     \<lparr>csr_base = 0, csr_build_version = 0, csr_fw_version = 4, csr_mac_low = 0x20, csr_mac_high = 0x24,
      csr_doorbell = 0x1c0, csr_auth_result = 0x1c4,
      csr_bmc_prog_addr = 0x7ffc000, csr_bmc_reh_addr = 0x7ffc004, csr_bmc_magic = 0x5746,
      csr_sr_prog_addr = 0x7ffd000, csr_sr_reh_addr = 0x7ffd004, csr_sr_magic = 0x5253,
      csr_pr_prog_addr = 0x7ffe000, csr_pr_reh_addr = 0x7ffe004, csr_pr_magic = 0x5250,
      csr_rsu_update_counter = 0x7ff5000,
      csr_pr_sdm_reh_reg = 0x87c, csr_pr_sdm_csk_reg = 0x8ac, csr_sr_sdm_reh_reg = 0x848, csr_sr_sdm_csk_reg = 0x878,
      csr_staging_size = 0x3800000\<rparr>"

definition m10bmc_c6100_csr_map :: m10bmc_csr_map where
  "m10bmc_c6100_csr_map = m10bmc_n6000_csr_map
     \<lparr>csr_bmc_prog_addr := 0x00830000, csr_bmc_reh_addr := 0x00830004,
      csr_sr_prog_addr := 0x00820000, csr_sr_reh_addr := 0x00820004,
      csr_pr_prog_addr := 0x00810000, csr_pr_reh_addr := 0x00810004, csr_rsu_update_counter := 0x00860000\<rparr>"

definition m10bmc_spi_n3000 :: intel_m10bmc_platform_info where
  "m10bmc_spi_n3000 = \<lparr>handshake_sys_reg_ranges = [(0x100, 0x250)], csr_map = m10bmc_n3000_csr_map\<rparr>"

definition m10bmc_spi_d5005 :: intel_m10bmc_platform_info where
  "m10bmc_spi_d5005 = \<lparr>handshake_sys_reg_ranges = [(0x100, 0x300)], csr_map = m10bmc_n3000_csr_map\<rparr>"

definition m10bmc_pmci_n6000 :: intel_m10bmc_platform_info where
  "m10bmc_pmci_n6000 = \<lparr>handshake_sys_reg_ranges = [], csr_map = m10bmc_n6000_csr_map\<rparr>"

definition m10bmc_pmci_c6100 :: intel_m10bmc_platform_info where
  "m10bmc_pmci_c6100 = \<lparr>handshake_sys_reg_ranges = [], csr_map = m10bmc_c6100_csr_map\<rparr>"

text \<open>Boards older than the driver have a version in the register where new ones have all ones.\<close>

definition check_m10bmc_version :: "('f, 'e) m10bmc_env_scheme \<Rightarrow> ('f, 'a) m10bmc_scheme \<Rightarrow> ('f, 'a) m10bmc_scheme ret" where
  "check_m10bmc_version env s =
     (case m10bmc_raw_read env 0x300468 s of
        (Inl e, s) \<Rightarrow> (Some ENODEV, s)
      | (Inr v, s) \<Rightarrow> if v \<noteq> 0xffffffff then (Some ENODEV, s) else (None, s))"

end
