(* ===== verification/Image_Load.thy ===== *)
theory Image_Load
  imports Prelude
begin

text \<open>
  The image load framework (\<^verbatim>\<open>drivers/fpga/fpga-image-load.c\<close>): a user hands a buffer to a device file,
  a worker thread passes it to the driver of the device, and an event file is signalled at the end.
  The worker is cut into the steps between which a user can get in: each step is a section under the
  lock of the device, a call of the driver, or accesses without the lock in between.
\<close>

section \<open>Drivers\<close>

datatype fw_upload_err =
    FW_UPLOAD_ERR_NONE | FW_UPLOAD_ERR_HW_ERROR | FW_UPLOAD_ERR_TIMEOUT | FW_UPLOAD_ERR_CANCELED
  | FW_UPLOAD_ERR_BUSY | FW_UPLOAD_ERR_INVALID_SIZE | FW_UPLOAD_ERR_RW_ERROR | FW_UPLOAD_ERR_WEAROUT
  | FW_UPLOAD_ERR_MAX

datatype fw_upload_prog =
    FW_UPLOAD_PROG_IDLE | FW_UPLOAD_PROG_RECEIVING | FW_UPLOAD_PROG_PREPARING
  | FW_UPLOAD_PROG_TRANSFERRING | FW_UPLOAD_PROG_PROGRAMMING | FW_UPLOAD_PROG_MAX

text \<open>
  The operations of a driver over its own state \<open>'d\<close>. The write operation gets the whole buffer, the
  offset, the size that remains and the variable \<^verbatim>\<open>written\<close> as it is, which it may set.
\<close>

record 'd fw_upload_ops =
  up_prepare :: "byte list \<Rightarrow> u32 \<Rightarrow> 'd \<Rightarrow> fw_upload_err \<times> 'd"
  up_write :: "byte list \<Rightarrow> u32 \<Rightarrow> u32 \<Rightarrow> u32 \<Rightarrow> 'd \<Rightarrow> (fw_upload_err \<times> u32) \<times> 'd"
  up_poll_complete :: "'d \<Rightarrow> fw_upload_err \<times> 'd"
  up_cancel :: "'d \<Rightarrow> 'd"
  up_cleanup :: "('d \<Rightarrow> 'd) option"

section \<open>State\<close>

record fw_upload_priv =
  fw_data :: "byte list option"      \<comment> \<open>\<^verbatim>\<open>data\<close>, a pointer that can be NULL\<close>
  remaining_size :: u32
  progress :: fw_upload_prog
  err_progress :: fw_upload_prog
  err_code :: fw_upload_err
  finished :: "nat option"           \<comment> \<open>the event file, by its context\<close>

text \<open>
  Where the worker is in \<^verbatim>\<open>fw_upload_main\<close>, with its local variables \<open>offset\<close>, \<open>written\<close> and \<open>ret\<close>.
  \<open>W_Oops\<close>: it has used a NULL event file.
\<close>

datatype worker =
    W_Idle
  | W_Queued
  | W_Prepare
  | W_PrepareFailed fw_upload_err
  | W_Prepared
  | W_Loop u32 u32
  | W_Written u32 fw_upload_err u32
  | W_Program
  | W_Poll
  | W_PollFailed fw_upload_err
  | W_Done
  | W_Putdev
  | W_Complete
  | W_Put
  | W_Oops

text \<open>The calls of the driver, as it sees them: the history of the upload.\<close>

datatype up_call =
    C_Prepare u32 fw_upload_err
  | C_Write u32 u32 fw_upload_err u32
  | C_Poll fw_upload_err
  | C_Cancel
  | C_Cleanup

text \<open>
  The device: whether the file is open or being closed, the worker and whether it has been queued
  again, the state of the driver; then the accounts of what the code acquires, and the history of
  calls since the last buffer was accepted.
\<close>

record 'd image_load = fw_upload_priv +
  opened :: bool
  closing :: bool
  worker :: worker
  requeued :: bool
  ddev :: 'd
  parent_refs :: int
  live_bufs :: int
  event_refs :: "nat \<Rightarrow> int"
  event_signals :: "nat \<Rightarrow> nat"
  calls :: "up_call list"
  total_size :: u32
  upload_image :: "byte list"
  accepted :: "nat \<Rightarrow> nat"        \<comment> \<open>buffers accepted, by event file\<close>

definition ptr_bytes :: "byte list option \<Rightarrow> byte list" where
  "ptr_bytes p = (case p of None \<Rightarrow> [] | Some b \<Rightarrow> b)"

section \<open>The worker\<close>

definition fw_upload_update_progress :: "fw_upload_prog \<Rightarrow> 'd image_load \<Rightarrow> 'd image_load" where
  "fw_upload_update_progress new_progress s = s\<lparr>progress := new_progress\<rparr>"

definition fw_upload_set_error :: "fw_upload_err \<Rightarrow> 'd image_load \<Rightarrow> 'd image_load" where
  "fw_upload_set_error e s = s\<lparr>err_progress := progress s, err_code := e\<rparr>"

definition fw_upload_prog_complete :: "'d image_load \<Rightarrow> 'd image_load" where
  "fw_upload_prog_complete s =
     (let s = s\<lparr>progress := FW_UPLOAD_PROG_IDLE\<rparr>
      in case finished s of
           None \<Rightarrow> s\<lparr>worker := W_Oops\<rparr>
         | Some ev \<Rightarrow> s\<lparr>event_signals := (event_signals s)(ev := Suc (event_signals s ev)), worker := W_Put\<rparr>)"

text \<open>The end of \<^verbatim>\<open>fw_upload_main\<close>; if the work was queued while it ran, it runs again.\<close>

definition worker_end :: "'d image_load \<Rightarrow> 'd image_load" where
  "worker_end s = (if requeued s then s\<lparr>worker := W_Queued, requeued := False\<rparr> else s\<lparr>worker := W_Idle\<rparr>)"

definition logged :: "up_call \<Rightarrow> 'd \<Rightarrow> 'd image_load \<Rightarrow> 'd image_load" where
  "logged c d s = s\<lparr>ddev := d, calls := calls s @ [c]\<rparr>"

text \<open>One step of \<^verbatim>\<open>fw_upload_main\<close>.\<close>

definition worker_step :: "'d fw_upload_ops \<Rightarrow> 'd image_load \<Rightarrow> 'd image_load option" where
  "worker_step ops s =
     (case worker s of
        W_Idle \<Rightarrow> None
      | W_Queued \<Rightarrow> Some (fw_upload_update_progress FW_UPLOAD_PROG_PREPARING (s\<lparr>worker := W_Prepare\<rparr>))
      | W_Prepare \<Rightarrow>
          (case up_prepare ops (ptr_bytes (fw_data s)) (remaining_size s) (ddev s) of
             (ret, d) \<Rightarrow>
               let s = logged (C_Prepare (remaining_size s) ret) d s
               in Some (s\<lparr>worker := if ret \<noteq> FW_UPLOAD_ERR_NONE then W_PrepareFailed ret else W_Prepared\<rparr>))
      | W_PrepareFailed ret \<Rightarrow> Some (fw_upload_set_error ret (s\<lparr>worker := W_Putdev\<rparr>))
      | W_Prepared \<Rightarrow> Some (fw_upload_update_progress FW_UPLOAD_PROG_TRANSFERRING (s\<lparr>worker := W_Loop 0 0\<rparr>))
      | W_Loop offset written \<Rightarrow>
          if remaining_size s = 0 then Some (s\<lparr>worker := W_Program\<rparr>)
          else (case up_write ops (ptr_bytes (fw_data s)) offset (remaining_size s) written (ddev s) of
                  ((ret, written), d) \<Rightarrow>
                    Some ((logged (C_Write offset (remaining_size s) ret written) d s)\<lparr>worker := W_Written offset ret written\<rparr>))
      | W_Written offset ret written \<Rightarrow>
          if ret \<noteq> FW_UPLOAD_ERR_NONE \<or> written = 0 then
            Some (fw_upload_set_error (if ret = FW_UPLOAD_ERR_NONE then FW_UPLOAD_ERR_RW_ERROR else ret)
                    (s\<lparr>worker := W_Done\<rparr>))
          else Some (s\<lparr>remaining_size := remaining_size s - written, worker := W_Loop (offset + written) written\<rparr>)
      | W_Program \<Rightarrow> Some (fw_upload_update_progress FW_UPLOAD_PROG_PROGRAMMING (s\<lparr>worker := W_Poll\<rparr>))
      | W_Poll \<Rightarrow>
          (case up_poll_complete ops (ddev s) of
             (ret, d) \<Rightarrow>
               Some ((logged (C_Poll ret) d s)\<lparr>worker := if ret \<noteq> FW_UPLOAD_ERR_NONE then W_PollFailed ret else W_Done\<rparr>))
      | W_PollFailed ret \<Rightarrow> Some (fw_upload_set_error ret (s\<lparr>worker := W_Done\<rparr>))
      | W_Done \<Rightarrow>
          (case up_cleanup ops of
             None \<Rightarrow> Some (s\<lparr>worker := W_Putdev\<rparr>)
           | Some cleanup \<Rightarrow> Some ((logged C_Cleanup (cleanup (ddev s)) s)\<lparr>worker := W_Putdev\<rparr>))
      | W_Putdev \<Rightarrow>
          Some (s\<lparr>parent_refs := parent_refs s - 1,
                  live_bufs := live_bufs s - (if fw_data s = None then 0 else 1), fw_data := None, worker := W_Complete\<rparr>)
      | W_Complete \<Rightarrow> Some (fw_upload_prog_complete s)
      | W_Put \<Rightarrow>
          (case finished s of
             None \<Rightarrow> Some (s\<lparr>worker := W_Oops\<rparr>)
           | Some ev \<Rightarrow>
               Some (worker_end (s\<lparr>event_refs := (event_refs s)(ev := event_refs s ev - 1), finished := None\<rparr>)))
      | W_Oops \<Rightarrow> None)"

section \<open>The device file\<close>

text \<open>
  What \<^verbatim>\<open>FPGA_IMAGE_LOAD_WRITE\<close> finds in user memory: the request (\<open>None\<close> if it cannot be copied) and the
  bytes of the buffer (likewise); the outcome of the allocation and the event file of a descriptor.
\<close>

record fpga_image_write =
  wb_flags :: u32
  wb_size :: u32
  wb_evtfd :: int

record write_env =
  we_wb :: "fpga_image_write option"
  we_vzalloc :: bool
  we_buf :: "byte list option"
  we_eventfd :: "int \<Rightarrow> errno + nat"

definition queue_work :: "'d image_load \<Rightarrow> 'd image_load" where
  "queue_work s =
     (if worker s = W_Idle then s\<lparr>worker := W_Queued\<rparr>
      else if worker s = W_Queued then s else s\<lparr>requeued := True\<rparr>)"

definition fpga_image_load_ioctl_write :: "write_env \<Rightarrow> 'd image_load \<Rightarrow> 'd image_load ret" where
  "fpga_image_load_ioctl_write env s =
     (case we_wb env of
        None \<Rightarrow> (Some EFAULT, s)
      | Some wb \<Rightarrow>
          if wb_flags wb \<noteq> 0 then (Some EINVAL, s)
          else if wb_size wb = 0 then (Some EINVAL, s)
          else if wb_evtfd wb < 0 then (Some EINVAL, s)
          else if \<not> we_vzalloc env then (Some ENOMEM, s)
          else (case we_buf env of
                  None \<Rightarrow> (Some EFAULT, s)
                | Some buf \<Rightarrow>
                    (case we_eventfd env (wb_evtfd wb) of
                       Inl e \<Rightarrow> (Some e, s\<lparr>finished := None\<rparr>)
                     | Inr ev \<Rightarrow>
                         (None, queue_work (s\<lparr>finished := Some ev, event_refs := (event_refs s)(ev := event_refs s ev + 1),
                            parent_refs := parent_refs s + 1, progress := FW_UPLOAD_PROG_RECEIVING,
                            err_code := FW_UPLOAD_ERR_NONE, remaining_size := wb_size wb, fw_data := Some buf,
                            live_bufs := live_bufs s + 1, calls := [], total_size := wb_size wb, upload_image := buf,
                            accepted := (accepted s)(ev := Suc (accepted s ev))\<rparr>)))))"

primrec fw_upload_progress :: "fw_upload_prog \<Rightarrow> u32" where
  "fw_upload_progress FW_UPLOAD_PROG_IDLE = 0"
| "fw_upload_progress FW_UPLOAD_PROG_RECEIVING = 1"
| "fw_upload_progress FW_UPLOAD_PROG_PREPARING = 2"
| "fw_upload_progress FW_UPLOAD_PROG_TRANSFERRING = 3"
| "fw_upload_progress FW_UPLOAD_PROG_PROGRAMMING = 4"
| "fw_upload_progress FW_UPLOAD_PROG_MAX = 5"

primrec fw_upload_error :: "fw_upload_err \<Rightarrow> u32" where
  "fw_upload_error FW_UPLOAD_ERR_NONE = 0"
| "fw_upload_error FW_UPLOAD_ERR_HW_ERROR = 1"
| "fw_upload_error FW_UPLOAD_ERR_TIMEOUT = 2"
| "fw_upload_error FW_UPLOAD_ERR_CANCELED = 3"
| "fw_upload_error FW_UPLOAD_ERR_BUSY = 4"
| "fw_upload_error FW_UPLOAD_ERR_INVALID_SIZE = 5"
| "fw_upload_error FW_UPLOAD_ERR_RW_ERROR = 6"
| "fw_upload_error FW_UPLOAD_ERR_WEAROUT = 7"
| "fw_upload_error FW_UPLOAD_ERR_MAX = 8"

record fpga_image_status =
  st_remaining_size :: u32
  st_progress :: u32
  st_err_progress :: u32
  st_err_code :: u32

definition fpga_image_load_ioctl_status :: "bool \<Rightarrow> 'd image_load \<Rightarrow> errno + fpga_image_status" where
  "fpga_image_load_ioctl_status copy_ok s =
     (if \<not> copy_ok then Inl EFAULT
      else Inr \<lparr>st_remaining_size = remaining_size s, st_progress = fw_upload_progress (progress s),
                st_err_progress = fw_upload_progress (err_progress s), st_err_code = fw_upload_error (err_code s)\<rparr>)"

definition fpga_image_load_ioctl_cancel :: "'d fw_upload_ops \<Rightarrow> 'd image_load \<Rightarrow> 'd image_load ret" where
  "fpga_image_load_ioctl_cancel ops s =
     (if progress s = FW_UPLOAD_PROG_IDLE then (Some ENODEV, s)
      else (None, logged C_Cancel (up_cancel ops (ddev s)) s))"

definition fpga_image_load_open :: "'d image_load \<Rightarrow> 'd image_load ret" where
  "fpga_image_load_open s = (if opened s then (Some EBUSY, s) else (None, s\<lparr>opened := True\<rparr>))"

text \<open>
  Closing cancels an upload and waits for the worker (\<^verbatim>\<open>flush_work\<close>): the part before and the part after
  the wait. Closing an idle device does not wait.
\<close>

definition fpga_image_load_release :: "'d fw_upload_ops \<Rightarrow> 'd image_load \<Rightarrow> 'd image_load" where
  "fpga_image_load_release ops s =
     (if progress s = FW_UPLOAD_PROG_IDLE then s\<lparr>opened := False\<rparr>
      else (logged C_Cancel (up_cancel ops (ddev s)) s)\<lparr>closing := True\<rparr>)"

definition flushed :: "'d image_load \<Rightarrow> 'd image_load option" where
  "flushed s = (if worker s = W_Idle then Some (s\<lparr>opened := False, closing := False\<rparr>) else None)"

datatype image_cmd = IMAGE_LOAD_WRITE write_env | IMAGE_LOAD_STATUS bool | IMAGE_LOAD_CANCEL | IMAGE_LOAD_other u32

definition fpga_image_load_ioctl ::
  "'d fw_upload_ops \<Rightarrow> image_cmd \<Rightarrow> 'd image_load \<Rightarrow> (errno option \<times> fpga_image_status option) \<times> 'd image_load" where
  "fpga_image_load_ioctl ops cmd s =
     (case cmd of
        IMAGE_LOAD_WRITE env \<Rightarrow> (case fpga_image_load_ioctl_write env s of (r, s) \<Rightarrow> ((r, None), s))
      | IMAGE_LOAD_STATUS copy_ok \<Rightarrow>
          (case fpga_image_load_ioctl_status copy_ok s of Inl e \<Rightarrow> ((Some e, None), s) | Inr st \<Rightarrow> ((None, Some st), s))
      | IMAGE_LOAD_CANCEL \<Rightarrow> (case fpga_image_load_ioctl_cancel ops s of (r, s) \<Rightarrow> ((r, None), s))
      | IMAGE_LOAD_other c \<Rightarrow> ((Some ENOTTY, None), s))"

end
