(* ===== verification/M10bmc_Sec.thy ===== *)
theory M10bmc_Sec
  imports M10bmc Image_Load
begin

unbundle bit_operations_syntax

text \<open>
  Secure update of a board (\<^verbatim>\<open>drivers/fpga/intel-m10-bmc-sec-update.c\<close>): the driver behind the image load
  framework, which talks to the controller through a doorbell register.
\<close>

section \<open>State and boards\<close>

text \<open>The three kinds of boards, each with its \<^verbatim>\<open>m10bmc_sec_ops\<close>.\<close>

datatype sec_board = M10SEC_N3000 | M10SEC_D5005 | M10SEC_N6000

record 'f m10bmc_sec = "'f m10bmc" +
  cancel_request :: bool

text \<open>The numbers of polls that fit in the time-outs.\<close>

record 'f sec_env = "'f m10bmc_env" +
  se_board :: sec_board
  se_handshake_polls :: nat
  se_prepare_polls :: nat
  se_complete_polls :: nat
  se_pkvl_load_polls :: nat
  se_pkvl_preload_polls :: nat
  se_cancelled :: "reghist \<Rightarrow> bool"      \<comment> \<open>whether a user has cancelled by then, in the middle of preparing\<close>

section \<open>Status of an update\<close>

abbreviation DRBL_RSU_REQUEST :: u32 where "DRBL_RSU_REQUEST \<equiv> 0x1"
abbreviation DRBL_HOST_STATUS :: u32 where "DRBL_HOST_STATUS \<equiv> 0xf00"
abbreviation HOST_STATUS_IDLE :: u32 where "HOST_STATUS_IDLE \<equiv> 0"
abbreviation HOST_STATUS_WRITE_DONE :: u32 where "HOST_STATUS_WRITE_DONE \<equiv> 1"
abbreviation HOST_STATUS_ABORT_RSU :: u32 where "HOST_STATUS_ABORT_RSU \<equiv> 2"
abbreviation RSU_PROG_IDLE :: u32 where "RSU_PROG_IDLE \<equiv> 0"
abbreviation RSU_PROG_PREPARE :: u32 where "RSU_PROG_PREPARE \<equiv> 1"
abbreviation RSU_PROG_READY :: u32 where "RSU_PROG_READY \<equiv> 3"
abbreviation RSU_PROG_AUTHENTICATING :: u32 where "RSU_PROG_AUTHENTICATING \<equiv> 4"
abbreviation RSU_PROG_COPYING :: u32 where "RSU_PROG_COPYING \<equiv> 5"
abbreviation RSU_PROG_UPDATE_CANCEL :: u32 where "RSU_PROG_UPDATE_CANCEL \<equiv> 6"
abbreviation RSU_PROG_PROGRAM_KEY_HASH :: u32 where "RSU_PROG_PROGRAM_KEY_HASH \<equiv> 7"
abbreviation RSU_PROG_RSU_DONE :: u32 where "RSU_PROG_RSU_DONE \<equiv> 8"
abbreviation RSU_PROG_PKVL_PROM_DONE :: u32 where "RSU_PROG_PKVL_PROM_DONE \<equiv> 9"
abbreviation RSU_STAT_NORMAL :: u32 where "RSU_STAT_NORMAL \<equiv> 0"
abbreviation RSU_STAT_PKVL_REJECT :: u32 where "RSU_STAT_PKVL_REJECT \<equiv> 5"
abbreviation RSU_STAT_ERASE_FAIL :: u32 where "RSU_STAT_ERASE_FAIL \<equiv> 7"
abbreviation RSU_STAT_WEAROUT :: u32 where "RSU_STAT_WEAROUT \<equiv> 8"
abbreviation RSU_STAT_SDM_PR_FAILED :: u32 where "RSU_STAT_SDM_PR_FAILED \<equiv> 0x23"
abbreviation RSU_STAT_SDM_SR_SDM_FAILED :: u32 where "RSU_STAT_SDM_SR_SDM_FAILED \<equiv> 0x33"
abbreviation RSU_STAT_SDM_KEY_FAILED :: u32 where "RSU_STAT_SDM_KEY_FAILED \<equiv> 0x43"
abbreviation RSU_STAT_NIOS_OK :: u32 where "RSU_STAT_NIOS_OK \<equiv> 0x80"
abbreviation RSU_STAT_USER_OK :: u32 where "RSU_STAT_USER_OK \<equiv> 0x81"
abbreviation RSU_STAT_FACTORY_OK :: u32 where "RSU_STAT_FACTORY_OK \<equiv> 0x82"

definition rsu_prog :: "u32 \<Rightarrow> u32" where
  "rsu_prog doorbell = field32 7 4 doorbell"

definition m10bmc_sec_n3000_rsu_status :: "'f sec_env \<Rightarrow> 'f m10bmc_sec \<Rightarrow> (errno + u32) \<times> 'f m10bmc_sec" where
  "m10bmc_sec_n3000_rsu_status env s =
     (case m10bmc_sys_read env (csr_doorbell (csrs env)) s of
        (Inl e, s) \<Rightarrow> (Inl e, s) | (Inr doorbell, s) \<Rightarrow> (Inr (field32 23 16 doorbell), s))"

definition m10bmc_sec_n6000_rsu_status :: "'f sec_env \<Rightarrow> 'f m10bmc_sec \<Rightarrow> (errno + u32) \<times> 'f m10bmc_sec" where
  "m10bmc_sec_n6000_rsu_status env s =
     (case m10bmc_sys_read env (csr_auth_result (csrs env)) s of
        (Inl e, s) \<Rightarrow> (Inl e, s) | (Inr auth_result, s) \<Rightarrow> (Inr (field32 23 16 auth_result), s))"

definition rsu_status :: "'f sec_env \<Rightarrow> 'f m10bmc_sec \<Rightarrow> (errno + u32) \<times> 'f m10bmc_sec" where
  "rsu_status env s =
     (if se_board env = M10SEC_N6000 then m10bmc_sec_n6000_rsu_status env s else m10bmc_sec_n3000_rsu_status env s)"

text \<open>Logging reads registers, whose values go to the log only.\<close>

definition log_read :: "'f sec_env \<Rightarrow> u32 \<Rightarrow> 'f m10bmc_sec \<Rightarrow> 'f m10bmc_sec" where
  "log_read env offset s = snd (m10bmc_sys_read env offset s)"

definition log_error_regs :: "'f sec_env \<Rightarrow> 'f m10bmc_sec \<Rightarrow> 'f m10bmc_sec" where
  "log_error_regs env s =
     (case rsu_status env (log_read env (csr_auth_result (csrs env)) s) of
        (Inl e, s) \<Rightarrow> s
      | (Inr status, s) \<Rightarrow>
          if status = RSU_STAT_SDM_PR_FAILED then log_read env 0x820 s
          else if status = RSU_STAT_SDM_SR_SDM_FAILED \<or> status = RSU_STAT_SDM_KEY_FAILED
          then log_read env 0x828 (log_read env 0x824 s)
          else s)"

text \<open>The doorbell, the progress in it, and the status.\<close>

definition m10bmc_sec_progress_status ::
  "'f sec_env \<Rightarrow> 'f m10bmc_sec \<Rightarrow> (errno + u32 \<times> u32 \<times> u32) \<times> 'f m10bmc_sec" where
  "m10bmc_sec_progress_status env s =
     (case m10bmc_sys_read env (csr_doorbell (csrs env)) s of
        (Inl e, s) \<Rightarrow> (Inl e, s)
      | (Inr doorbell, s) \<Rightarrow>
          (case rsu_status env s of
             (Inl e, s) \<Rightarrow> (Inl e, s)
           | (Inr status, s) \<Rightarrow> (Inr (doorbell, rsu_prog doorbell, status), s)))"

definition rsu_status_ok :: "u32 \<Rightarrow> bool" where
  "rsu_status_ok status \<longleftrightarrow>
     status = RSU_STAT_NORMAL \<or> status = RSU_STAT_NIOS_OK \<or> status = RSU_STAT_USER_OK \<or> status = RSU_STAT_FACTORY_OK"

definition rsu_progress_done :: "u32 \<Rightarrow> bool" where
  "rsu_progress_done prog \<longleftrightarrow> prog = RSU_PROG_IDLE \<or> prog = RSU_PROG_RSU_DONE"

definition rsu_progress_busy :: "u32 \<Rightarrow> bool" where
  "rsu_progress_busy prog \<longleftrightarrow>
     prog = RSU_PROG_AUTHENTICATING \<or> prog = RSU_PROG_COPYING \<or> prog = RSU_PROG_UPDATE_CANCEL \<or>
     prog = RSU_PROG_PROGRAM_KEY_HASH"

section \<open>Steps of an update\<close>

definition rsu_check_idle :: "'f sec_env \<Rightarrow> 'f m10bmc_sec \<Rightarrow> fw_upload_err \<times> 'f m10bmc_sec" where
  "rsu_check_idle env s =
     (case m10bmc_sys_read env (csr_doorbell (csrs env)) s of
        (Inl e, s) \<Rightarrow> (FW_UPLOAD_ERR_RW_ERROR, s)
      | (Inr doorbell, s) \<Rightarrow>
          if \<not> rsu_progress_done (rsu_prog doorbell) then (FW_UPLOAD_ERR_BUSY, log_error_regs env s)
          else (FW_UPLOAD_ERR_NONE, s))"

definition rsu_start_done :: "u32 \<Rightarrow> u32 \<Rightarrow> u32 \<Rightarrow> bool" where
  "rsu_start_done doorbell_reg prog status \<longleftrightarrow>
     doorbell_reg AND DRBL_RSU_REQUEST = 0 \<and>
     (status = RSU_STAT_ERASE_FAIL \<or> status = RSU_STAT_WEAROUT \<or> \<not> rsu_progress_done prog)"

definition rsu_update_init :: "'f sec_env \<Rightarrow> 'f m10bmc_sec \<Rightarrow> fw_upload_err \<times> 'f m10bmc_sec" where
  "rsu_update_init env s =
     (case m10bmc_sys_update_bits env (csr_doorbell (csrs env)) (DRBL_RSU_REQUEST OR DRBL_HOST_STATUS)
             (DRBL_RSU_REQUEST OR field_prep32 8 HOST_STATUS_IDLE) s of
        (Some e, s) \<Rightarrow> (FW_UPLOAD_ERR_RW_ERROR, s)
      | (None, s) \<Rightarrow>
          (case read_poll (m10bmc_sec_progress_status env)
                  (\<lambda>v. case v of Inl e \<Rightarrow> True | Inr (doorbell, prog, status) \<Rightarrow> rsu_start_done doorbell prog status)
                  (se_handshake_polls env) s of
             ((Some e, v), s) \<Rightarrow> (FW_UPLOAD_ERR_TIMEOUT, log_error_regs env s)
           | ((None, Inl e), s) \<Rightarrow> (FW_UPLOAD_ERR_RW_ERROR, s)
           | ((None, Inr (doorbell, prog, status)), s) \<Rightarrow>
               if status = RSU_STAT_WEAROUT then (FW_UPLOAD_ERR_WEAROUT, s)
               else if status = RSU_STAT_ERASE_FAIL then (FW_UPLOAD_ERR_HW_ERROR, log_error_regs env s)
               else (FW_UPLOAD_ERR_NONE, s)))"

text \<open>The loop of \<^verbatim>\<open>rsu_prog_ready\<close>, with the number of reads that fit in the time-out.\<close>

fun prog_ready_loop :: "'f sec_env \<Rightarrow> nat \<Rightarrow> u32 \<Rightarrow> 'f m10bmc_sec \<Rightarrow> (errno + u32) \<times> 'f m10bmc_sec" where
  "prog_ready_loop env 0 doorbell s = (Inr doorbell, s)"
| "prog_ready_loop env (Suc n) doorbell s =
     (if rsu_prog doorbell = RSU_PROG_PREPARE then
        (case m10bmc_sys_read env (csr_doorbell (csrs env)) s of
           (Inl e, s) \<Rightarrow> (Inl e, s) | (Inr doorbell, s) \<Rightarrow> prog_ready_loop env n doorbell s)
      else (Inr doorbell, s))"

definition rsu_prog_ready :: "'f sec_env \<Rightarrow> 'f m10bmc_sec \<Rightarrow> fw_upload_err \<times> 'f m10bmc_sec" where
  "rsu_prog_ready env s =
     (case m10bmc_sys_read env (csr_doorbell (csrs env)) s of
        (Inl e, s) \<Rightarrow> (FW_UPLOAD_ERR_RW_ERROR, s)
      | (Inr doorbell, s) \<Rightarrow>
          (case prog_ready_loop env (se_prepare_polls env) doorbell s of
             (Inl e, s) \<Rightarrow> (FW_UPLOAD_ERR_RW_ERROR, s)
           | (Inr doorbell, s) \<Rightarrow>
               if rsu_prog doorbell = RSU_PROG_PREPARE then (FW_UPLOAD_ERR_TIMEOUT, log_error_regs env s)
               else if rsu_prog doorbell \<noteq> RSU_PROG_READY then (FW_UPLOAD_ERR_HW_ERROR, log_error_regs env s)
               else (FW_UPLOAD_ERR_NONE, s)))"

definition rsu_send_data :: "'f sec_env \<Rightarrow> 'f m10bmc_sec \<Rightarrow> fw_upload_err \<times> 'f m10bmc_sec" where
  "rsu_send_data env s =
     (case m10bmc_sys_update_bits env (csr_doorbell (csrs env)) DRBL_HOST_STATUS
             (field_prep32 8 HOST_STATUS_WRITE_DONE) s of
        (Some e, s) \<Rightarrow> (FW_UPLOAD_ERR_RW_ERROR, s)
      | (None, s) \<Rightarrow>
          (case regmap_read_poll env (csr_base (csrs env) + csr_doorbell (csrs env)) (\<lambda>v. rsu_prog v \<noteq> RSU_PROG_READY)
                  (se_handshake_polls env) s of
             (Inl e, s) \<Rightarrow> if e = ETIMEDOUT then (FW_UPLOAD_ERR_TIMEOUT, log_error_regs env s) else (FW_UPLOAD_ERR_RW_ERROR, s)
           | (Inr doorbell, s) \<Rightarrow>
               (case rsu_status env s of
                  (Inl e, s) \<Rightarrow> (FW_UPLOAD_ERR_HW_ERROR, s)
                | (Inr status, s) \<Rightarrow>
                    if \<not> rsu_status_ok status then (FW_UPLOAD_ERR_HW_ERROR, log_error_regs env s)
                    else (FW_UPLOAD_ERR_NONE, s))))"

definition rsu_check_complete :: "'f sec_env \<Rightarrow> 'f m10bmc_sec \<Rightarrow> 'f m10bmc_sec ret" where
  "rsu_check_complete env s =
     (case m10bmc_sec_progress_status env s of
        (Inl e, s) \<Rightarrow> (Some EIO, s)
      | (Inr (doorbell, prog, status), s) \<Rightarrow>
          if \<not> rsu_status_ok status then (Some EINVAL, s)
          else if rsu_progress_done prog then (None, s)
          else if rsu_progress_busy prog then (Some EAGAIN, s)
          else (Some EINVAL, s))"

definition rsu_cancel :: "'f sec_env \<Rightarrow> 'f m10bmc_sec \<Rightarrow> fw_upload_err \<times> 'f m10bmc_sec" where
  "rsu_cancel env s =
     (case m10bmc_sys_read env (csr_doorbell (csrs env)) s of
        (Inl e, s) \<Rightarrow> (FW_UPLOAD_ERR_RW_ERROR, s)
      | (Inr doorbell, s) \<Rightarrow>
          if rsu_prog doorbell \<noteq> RSU_PROG_READY then (FW_UPLOAD_ERR_BUSY, s)
          else (case m10bmc_sys_update_bits env (csr_doorbell (csrs env)) DRBL_HOST_STATUS
                       (field_prep32 8 HOST_STATUS_ABORT_RSU) s of
                  (Some e, s) \<Rightarrow> (FW_UPLOAD_ERR_RW_ERROR, s)
                | (None, s) \<Rightarrow> (FW_UPLOAD_ERR_CANCELED, s)))"

section \<open>Flash memory\<close>

abbreviation M10BMC_STAGING_BASE :: u32 where "M10BMC_STAGING_BASE \<equiv> 0x18000000"

text \<open>
  \<^verbatim>\<open>memcpy\<close> of the bytes that are not a whole register into a word that is zero. The bytes are taken at
  \<open>leftover_offset\<close> of the buffer as the code has it, not of the block at \<open>offset\<close>.
\<close>

definition leftover_word :: "byte list \<Rightarrow> nat \<Rightarrow> nat \<Rightarrow> u32" where
  "leftover_word buf ofst n = le32_to_cpu (take n (drop ofst buf) @ replicate (4 - n) 0)"

definition m10bmc_sec_write :: "'f sec_env \<Rightarrow> byte list \<Rightarrow> u32 \<Rightarrow> u32 \<Rightarrow> 'f m10bmc_sec \<Rightarrow> 'f m10bmc_sec ret" where
  "m10bmc_sec_write env buf offset sz s =
     (let stride = rm_stride (mb_regmap env); write_count = sz div stride;
          leftover_offset = write_count * stride; leftover_size = sz - leftover_offset
      in case mb_flash_ops env of
           Some ops \<Rightarrow> (case fl_write ops buf offset sz (mb_flash s) of (r, f) \<Rightarrow> (r, s\<lparr>mb_flash := f\<rparr>))
         | None \<Rightarrow>
             if stride > 4 then (Some EINVAL, s)
             else (case regmap_bulk_write env (M10BMC_STAGING_BASE + offset)
                          (take (unat leftover_offset) (drop (unat offset) buf)) s of
                     (Some e, s) \<Rightarrow> (Some e, s)
                   | (None, s) \<Rightarrow>
                       if leftover_size \<noteq> 0 then
                         regmap_write env (M10BMC_STAGING_BASE + offset + leftover_offset)
                           (leftover_word buf (unat leftover_offset) (unat leftover_size)) s
                       else (None, s)))"

definition m10bmc_sec_read :: "'f sec_env \<Rightarrow> u32 \<Rightarrow> u32 \<Rightarrow> 'f m10bmc_sec \<Rightarrow> (errno + byte list) \<times> 'f m10bmc_sec" where
  "m10bmc_sec_read env addr sz s =
     (let stride = rm_stride (mb_regmap env); read_count = sz div stride;
          leftover_offset = read_count * stride; leftover_size = sz - leftover_offset
      in case mb_flash_ops env of
           Some ops \<Rightarrow> (case fl_read ops addr sz (mb_flash s) of (r, f) \<Rightarrow> (r, s\<lparr>mb_flash := f\<rparr>))
         | None \<Rightarrow>
             if stride > 4 then (Inl EINVAL, s)
             else (case regmap_bulk_read env addr read_count s of
                     (Inl e, s) \<Rightarrow> (Inl e, s)
                   | (Inr bytes, s) \<Rightarrow>
                       if leftover_size \<noteq> 0 then
                         (case regmap_read env (addr + leftover_offset) s of
                            (Inl e, s) \<Rightarrow> (Inl e, s)
                          | (Inr v, s) \<Rightarrow> (Inr (bytes @ take (unat leftover_size) (cpu_to_le32 v)), s))
                       else (Inr bytes, s)))"

section \<open>Upload operations\<close>

definition lock_flash :: "'f sec_env \<Rightarrow> 'f m10bmc_sec \<Rightarrow> 'f m10bmc_sec ret" where
  "lock_flash env s =
     (case mb_flash_ops env of
        None \<Rightarrow> (None, s)
      | Some ops \<Rightarrow> (case fl_lock_write ops (mb_flash s) of (r, f) \<Rightarrow> (r, s\<lparr>mb_flash := f\<rparr>)))"

definition unlock_flash :: "'f sec_env \<Rightarrow> 'f m10bmc_sec \<Rightarrow> 'f m10bmc_sec" where
  "unlock_flash env s =
     (case mb_flash_ops env of None \<Rightarrow> s | Some ops \<Rightarrow> s\<lparr>mb_flash := fl_unlock_write ops (mb_flash s)\<rparr>)"

definition fw_state_exit :: "'f sec_env \<Rightarrow> 'f m10bmc_sec \<Rightarrow> 'f m10bmc_sec" where
  "fw_state_exit env s = unlock_flash env (m10bmc_fw_state_set env M10BMC_FW_STATE_NORMAL s)"

text \<open>
  Cancelling only sets a flag. Users can do so while the operations run; only prepare reads the flag
  after it has started.
\<close>

definition m10bmc_sec_cancel :: "'f m10bmc_sec \<Rightarrow> 'f m10bmc_sec" where
  "m10bmc_sec_cancel s = s\<lparr>cancel_request := True\<rparr>"

definition cancelled_meanwhile :: "'f sec_env \<Rightarrow> 'f m10bmc_sec \<Rightarrow> 'f m10bmc_sec" where
  "cancelled_meanwhile env s = (if se_cancelled env (mb_hist s) then m10bmc_sec_cancel s else s)"

definition m10bmc_sec_prepare :: "'f sec_env \<Rightarrow> byte list \<Rightarrow> u32 \<Rightarrow> 'f m10bmc_sec \<Rightarrow> fw_upload_err \<times> 'f m10bmc_sec" where
  "m10bmc_sec_prepare env data sz s =
     (let s = s\<lparr>cancel_request := False\<rparr>
      in if sz = 0 \<or> sz > csr_staging_size (csrs env) then (FW_UPLOAD_ERR_INVALID_SIZE, s)
         else (case lock_flash env s of
                 (Some e, s) \<Rightarrow> (FW_UPLOAD_ERR_BUSY, s)
               | (None, s) \<Rightarrow>
                   (case rsu_check_idle env s of
                      (ret, s) \<Rightarrow>
                        if ret \<noteq> FW_UPLOAD_ERR_NONE then (ret, unlock_flash env s)
                        else (case rsu_update_init env (m10bmc_fw_state_set env M10BMC_FW_STATE_SEC_UPDATE_PREPARE s) of
                                (ret, s) \<Rightarrow>
                                  if ret \<noteq> FW_UPLOAD_ERR_NONE then (ret, fw_state_exit env s)
                                  else (case rsu_prog_ready env s of
                                          (ret, s) \<Rightarrow>
                                            if ret \<noteq> FW_UPLOAD_ERR_NONE then (ret, fw_state_exit env s)
                                            else if cancel_request (cancelled_meanwhile env s) then
                                              (case rsu_cancel env (cancelled_meanwhile env s) of (ret, s) \<Rightarrow> (ret, fw_state_exit env s))
                                            else (FW_UPLOAD_ERR_NONE,
                                                  m10bmc_fw_state_set env M10BMC_FW_STATE_SEC_UPDATE_WRITE s))))))"

abbreviation WRITE_BLOCK_SIZE :: u32 where "WRITE_BLOCK_SIZE \<equiv> 0x4000"

definition m10bmc_sec_fw_write ::
  "'f sec_env \<Rightarrow> byte list \<Rightarrow> u32 \<Rightarrow> u32 \<Rightarrow> u32 \<Rightarrow> 'f m10bmc_sec \<Rightarrow> (fw_upload_err \<times> u32) \<times> 'f m10bmc_sec" where
  "m10bmc_sec_fw_write env data offset sz written s =
     (if cancel_request s then (case rsu_cancel env s of (ret, s) \<Rightarrow> ((ret, written), s))
      else (case m10bmc_sys_read env (csr_doorbell (csrs env)) s of
              (Inl e, s) \<Rightarrow> ((FW_UPLOAD_ERR_RW_ERROR, written), s)
            | (Inr doorbell, s) \<Rightarrow>
                if rsu_prog doorbell \<noteq> RSU_PROG_READY then ((FW_UPLOAD_ERR_HW_ERROR, written), log_error_regs env s)
                else let blk_size = min WRITE_BLOCK_SIZE sz
                     in (case m10bmc_sec_write env data offset blk_size s of
                           (Some e, s) \<Rightarrow> ((FW_UPLOAD_ERR_RW_ERROR, written), s)
                         | (None, s) \<Rightarrow> ((FW_UPLOAD_ERR_NONE, blk_size), s))))"

text \<open>The loop that waits for the update to complete; at least one check.\<close>

fun complete_loop :: "'f sec_env \<Rightarrow> nat \<Rightarrow> 'f m10bmc_sec \<Rightarrow> 'f m10bmc_sec ret" where
  "complete_loop env 0 s = rsu_check_complete env s"
| "complete_loop env (Suc n) s =
     (case rsu_check_complete env s of (r, s) \<Rightarrow> if r = Some EAGAIN then complete_loop env n s else (r, s))"

definition m10bmc_sec_poll_complete :: "'f sec_env \<Rightarrow> 'f m10bmc_sec \<Rightarrow> fw_upload_err \<times> 'f m10bmc_sec" where
  "m10bmc_sec_poll_complete env s =
     (if cancel_request s then rsu_cancel env s
      else (case rsu_send_data env (m10bmc_fw_state_set env M10BMC_FW_STATE_SEC_UPDATE_PROGRAM s) of
              (result, s) \<Rightarrow>
                if result \<noteq> FW_UPLOAD_ERR_NONE then (result, s)
                else (case complete_loop env (se_complete_polls env) s of
                        (Some e, s) \<Rightarrow>
                          if e = EAGAIN then (FW_UPLOAD_ERR_TIMEOUT, log_error_regs env s)
                          else if e = EIO then (FW_UPLOAD_ERR_RW_ERROR, s)
                          else (FW_UPLOAD_ERR_HW_ERROR, log_error_regs env s)
                      | (None, s) \<Rightarrow> (FW_UPLOAD_ERR_NONE, s))))"

definition m10bmc_sec_cleanup :: "'f sec_env \<Rightarrow> 'f m10bmc_sec \<Rightarrow> 'f m10bmc_sec" where
  "m10bmc_sec_cleanup env s =
     unlock_flash env (m10bmc_fw_state_set env M10BMC_FW_STATE_NORMAL (snd (rsu_cancel env s)))"

definition m10bmc_ops :: "'f sec_env \<Rightarrow> 'f m10bmc_sec fw_upload_ops" where
  "m10bmc_ops env =
     \<lparr>up_prepare = m10bmc_sec_prepare env, up_write = m10bmc_sec_fw_write env,
      up_poll_complete = m10bmc_sec_poll_complete env, up_cancel = m10bmc_sec_cancel,
      up_cleanup = Some (m10bmc_sec_cleanup env)\<rparr>"

end
