(* ===== verification/M10bmc_Security.thy ===== *)
theory M10bmc_Security
  imports M10bmc_Sec
begin

unbundle bit_operations_syntax

text \<open>
  Security attributes of a board (\<^verbatim>\<open>drivers/fpga/intel-m10-bmc-sec-update.c\<close>): keys and counters that are
  kept in flash memory or in the security device manager (SDM).
\<close>

section \<open>Root entry hashes\<close>

definition show_root_entry_hash :: "'f sec_env \<Rightarrow> u32 \<Rightarrow> u32 \<Rightarrow> u32 \<Rightarrow> 'f m10bmc_sec \<Rightarrow> (errno + string) \<times> 'f m10bmc_sec" where
  "show_root_entry_hash env exp_magic prog_addr reh_addr s =
     (case m10bmc_sec_read env prog_addr 4 s of
        (Inl e, s) \<Rightarrow> (Inl e, s)
      | (Inr bs, s) \<Rightarrow>
          let magic = le32_to_cpu bs; sha_num_bytes = field32 31 16 magic div 8
          in if field32 15 0 magic \<noteq> exp_magic then (Inr (''hash not programmed'' @ newline), s)
             else if sha_num_bytes \<noteq> 32 \<and> sha_num_bytes \<noteq> 48 then (Inl EINVAL, s)
             else (case m10bmc_sec_read env reh_addr sha_num_bytes s of
                     (Inl e, s) \<Rightarrow> (Inl e, s)
                   | (Inr hash, s) \<Rightarrow> (Inr (concat (map (\<lambda>i. hex2 (hash ! i)) [0..<unat sha_num_bytes]) @ newline), s)))"

definition bmc_root_entry_hash_show :: "'f sec_env \<Rightarrow> 'f m10bmc_sec \<Rightarrow> (errno + string) \<times> 'f m10bmc_sec" where
  "bmc_root_entry_hash_show env =
     show_root_entry_hash env (csr_bmc_magic (csrs env)) (csr_bmc_prog_addr (csrs env)) (csr_bmc_reh_addr (csrs env))"

definition sr_root_entry_hash_show :: "'f sec_env \<Rightarrow> 'f m10bmc_sec \<Rightarrow> (errno + string) \<times> 'f m10bmc_sec" where
  "sr_root_entry_hash_show env =
     show_root_entry_hash env (csr_sr_magic (csrs env)) (csr_sr_prog_addr (csrs env)) (csr_sr_reh_addr (csrs env))"

definition pr_root_entry_hash_show :: "'f sec_env \<Rightarrow> 'f m10bmc_sec \<Rightarrow> (errno + string) \<times> 'f m10bmc_sec" where
  "pr_root_entry_hash_show env =
     show_root_entry_hash env (csr_pr_magic (csrs env)) (csr_pr_prog_addr (csrs env)) (csr_pr_reh_addr (csrs env))"

section \<open>The security device manager\<close>

abbreviation M10BMC_PMCI_SDM_CTRL :: u32 where "M10BMC_PMCI_SDM_CTRL \<equiv> 0x234"

definition sdm_check_config_status :: "'f sec_env \<Rightarrow> 'f m10bmc_sec \<Rightarrow> (errno + u32) \<times> 'f m10bmc_sec" where
  "sdm_check_config_status env s =
     (case m10bmc_sys_read env M10BMC_PMCI_SDM_CTRL s of
        (Inl e, s) \<Rightarrow> (Inl EIO, s) | (Inr val, s) \<Rightarrow> (Inr (field32 2 2 val), s))"

definition sdm_trigger_prov_data :: "'f sec_env \<Rightarrow> 'f m10bmc_sec \<Rightarrow> 'f m10bmc_sec ret" where
  "sdm_trigger_prov_data env s =
     (case m10bmc_sys_update_bits env M10BMC_PMCI_SDM_CTRL 0xff0 (field_prep32 4 3) s of
        (Some e, s) \<Rightarrow> (Some e, s)
      | (None, s) \<Rightarrow>
          (case m10bmc_sys_update_bits env M10BMC_PMCI_SDM_CTRL 1 1 s of
             (Some e, s) \<Rightarrow> (Some e, s)
           | (None, s) \<Rightarrow>
               (case regmap_read_poll env (csr_base (csrs env) + M10BMC_PMCI_SDM_CTRL) (\<lambda>cmd. field32 15 12 cmd = 0)
                       (se_handshake_polls env) s of
                  (Inl e, s) \<Rightarrow> (Some e, s)
                | (Inr cmd, s) \<Rightarrow>
                    if field32 23 16 cmd \<noteq> 0 then (Some EIO, s)
                    else (case regmap_read_poll env (csr_base (csrs env) + M10BMC_PMCI_SDM_CTRL) (\<lambda>cmd. cmd AND 4 \<noteq> 0)
                                 (2 * se_handshake_polls env) s of
                            (Inl e, s) \<Rightarrow> (Some e, s) | (Inr cmd, s) \<Rightarrow> (None, s)))))"

text \<open>\<^verbatim>\<open>%08x\<close>\<close>

definition hex8 :: "u32 \<Rightarrow> string" where
  "hex8 v = map (\<lambda>i. hex_digit (unat (take_bit 4 (drop_bit (4 * i) v)))) (rev [0..<8])"

fun show_keys :: "'f sec_env \<Rightarrow> u32 \<Rightarrow> nat \<Rightarrow> nat \<Rightarrow> string \<Rightarrow> 'f m10bmc_sec \<Rightarrow> (errno + string) \<times> 'f m10bmc_sec" where
  "show_keys env start i 0 buf s = (Inr (buf @ newline), s)"
| "show_keys env start i (Suc n) buf s =
     (case m10bmc_sys_read env (csr_base (csrs env) + start + of_nat i * 4) s of
        (Inl e, s) \<Rightarrow> (Inl e, s) | (Inr key, s) \<Rightarrow> show_keys env start (Suc i) n (buf @ hex8 key) s)"

text \<open>\<^verbatim>\<open>flush_work\<close> has waited for the work that triggers the SDM.\<close>

definition show_sdm_root_entry_hash :: "'f sec_env \<Rightarrow> u32 \<Rightarrow> 'f m10bmc_sec \<Rightarrow> (errno + string) \<times> 'f m10bmc_sec" where
  "show_sdm_root_entry_hash env start s =
     (case sdm_check_config_status env s of
        (Inl e, s) \<Rightarrow> (Inl EIO, s)
      | (Inr done_bit, s) \<Rightarrow> if done_bit = 0 then (Inl EIO, s) else show_keys env start 0 12 ''0x'' s)"

definition show_sdm_canceled_csk :: "'f sec_env \<Rightarrow> u32 \<Rightarrow> 'f m10bmc_sec \<Rightarrow> (errno + string) \<times> 'f m10bmc_sec" where
  "show_sdm_canceled_csk env addr s =
     (case m10bmc_sys_read env (csr_base (csrs env) + addr) s of
        (Inl e, s) \<Rightarrow> (Inl e, s) | (Inr val, s) \<Rightarrow> (Inr (hex8 val @ newline), s))"

definition sdm_field_show :: "'f sec_env \<Rightarrow> u32 \<Rightarrow> nat \<Rightarrow> nat \<Rightarrow> 'f m10bmc_sec \<Rightarrow> (errno + string) \<times> 'f m10bmc_sec" where
  "sdm_field_show env reg hi lo s =
     (case m10bmc_sys_read env (csr_base (csrs env) + reg) s of
        (Inl e, s) \<Rightarrow> (Inl e, s) | (Inr status, s) \<Rightarrow> (Inr (''0x'' @ hex32 (field32 hi lo status) @ newline), s))"

definition sdm_sr_provision_status_show :: "'f sec_env \<Rightarrow> 'f m10bmc_sec \<Rightarrow> (errno + string) \<times> 'f m10bmc_sec" where
  "sdm_sr_provision_status_show env = sdm_field_show env 0x230 23 16"

definition sdm_sr_cancel_status_show :: "'f sec_env \<Rightarrow> 'f m10bmc_sec \<Rightarrow> (errno + string) \<times> 'f m10bmc_sec" where
  "sdm_sr_cancel_status_show env = sdm_field_show env 0x23c 18 8"

definition sdm_pr_provision_status_show :: "'f sec_env \<Rightarrow> 'f m10bmc_sec \<Rightarrow> (errno + string) \<times> 'f m10bmc_sec" where
  "sdm_pr_provision_status_show env = sdm_field_show env 0x238 23 16"

definition sdm_pr_cancel_status_show :: "'f sec_env \<Rightarrow> 'f m10bmc_sec \<Rightarrow> (errno + string) \<times> 'f m10bmc_sec" where
  "sdm_pr_cancel_status_show env = sdm_field_show env 0x240 18 8"

section \<open>Bit vectors\<close>

text \<open>
  Cancelled keys are zeros in a vector of 128 bits in flash memory; the file lists them. How the kernel
  prints a set of bits is a parameter.
\<close>

definition csk_map :: "byte list \<Rightarrow> bool list" where
  "csk_map bs = map (\<lambda>i. \<not> bit (le32_to_cpu (drop (4 * (i div 32)) bs)) (i mod 32)) [0..<128]"

definition show_canceled_csk :: "'f sec_env \<Rightarrow> (bool list \<Rightarrow> string) \<Rightarrow> u32 \<Rightarrow> 'f m10bmc_sec \<Rightarrow> (errno + string) \<times> 'f m10bmc_sec" where
  "show_canceled_csk env print_bits addr s =
     (case m10bmc_sec_read env addr 16 s of
        (Inl e, s) \<Rightarrow> (Inl e, s) | (Inr bs, s) \<Rightarrow> (Inr (print_bits (csk_map bs)), s))"

definition bmc_canceled_csks_show :: "'f sec_env \<Rightarrow> (bool list \<Rightarrow> string) \<Rightarrow> 'f m10bmc_sec \<Rightarrow> (errno + string) \<times> 'f m10bmc_sec" where
  "bmc_canceled_csks_show env print_bits = show_canceled_csk env print_bits (csr_bmc_prog_addr (csrs env) + 0x34)"

definition sr_canceled_csks_show :: "'f sec_env \<Rightarrow> (bool list \<Rightarrow> string) \<Rightarrow> 'f m10bmc_sec \<Rightarrow> (errno + string) \<times> 'f m10bmc_sec" where
  "sr_canceled_csks_show env print_bits = show_canceled_csk env print_bits (csr_sr_prog_addr (csrs env) + 0x34)"

definition pr_canceled_csks_show :: "'f sec_env \<Rightarrow> (bool list \<Rightarrow> string) \<Rightarrow> 'f m10bmc_sec \<Rightarrow> (errno + string) \<times> 'f m10bmc_sec" where
  "pr_canceled_csks_show env print_bits = show_canceled_csk env print_bits (csr_pr_prog_addr (csrs env) + 0x34)"

text \<open>The flash count: the zeros in a vector of 4096 bytes.\<close>

definition bitmap_weight :: "byte list \<Rightarrow> nat" where
  "bitmap_weight bs = sum_list (map (\<lambda>b. length (filter (bit b) [0..<8])) bs)"

definition flash_count_show :: "'f sec_env \<Rightarrow> bool \<Rightarrow> 'f m10bmc_sec \<Rightarrow> (errno + string) \<times> 'f m10bmc_sec" where
  "flash_count_show env kmalloc_ok s =
     (if \<not> kmalloc_ok then (Inl ENOMEM, s)
      else (case m10bmc_sec_read env (csr_rsu_update_counter (csrs env)) 4096 s of
              (Inl e, s) \<Rightarrow> (Inl e, s)
            | (Inr bs, s) \<Rightarrow> (Inr (decstr (32768 - bitmap_weight bs) @ newline), s)))"

section \<open>Visibility\<close>

datatype security_attr =
    A_flash_count | A_bmc_root_entry_hash | A_sr_root_entry_hash | A_pr_root_entry_hash
  | A_bmc_canceled_csks | A_sr_canceled_csks | A_pr_canceled_csks
  | A_sdm_sr_provision_status | A_sdm_sr_cancel_status | A_sdm_pr_provision_status | A_sdm_pr_cancel_status
  | A_pr_sdm_root_entry_hash | A_pr_sdm_canceled_csks | A_sr_sdm_root_entry_hash | A_sr_sdm_canceled_csks

definition sec_visible :: "sec_board \<Rightarrow> bool" where
  "sec_visible b \<longleftrightarrow> b = M10SEC_N6000"

definition m10bmc_security_is_visible :: "sec_board \<Rightarrow> security_attr \<Rightarrow> bool" where
  "m10bmc_security_is_visible b a \<longleftrightarrow>
     \<not> (\<not> sec_visible b \<and>
        a \<in> {A_sdm_sr_provision_status, A_sdm_sr_cancel_status, A_sdm_pr_provision_status, A_sdm_pr_cancel_status,
             A_pr_sdm_root_entry_hash, A_pr_sdm_canceled_csks, A_sr_sdm_root_entry_hash, A_sr_sdm_canceled_csks})"

section \<open>Reading only reads\<close>

text \<open>
  What reading an attribute may do to a board: the register accesses of a read, nothing to the firmware
  state and the cancel flag.
\<close>

definition security_show :: "'f sec_env \<Rightarrow> (bool list \<Rightarrow> string) \<Rightarrow> security_attr \<Rightarrow> 'f m10bmc_sec \<Rightarrow> (errno + string) \<times> 'f m10bmc_sec" where
  "security_show env print_bits a =
     (case a of
        A_flash_count \<Rightarrow> flash_count_show env True
      | A_bmc_root_entry_hash \<Rightarrow> bmc_root_entry_hash_show env
      | A_sr_root_entry_hash \<Rightarrow> sr_root_entry_hash_show env
      | A_pr_root_entry_hash \<Rightarrow> pr_root_entry_hash_show env
      | A_bmc_canceled_csks \<Rightarrow> bmc_canceled_csks_show env print_bits
      | A_sr_canceled_csks \<Rightarrow> sr_canceled_csks_show env print_bits
      | A_pr_canceled_csks \<Rightarrow> pr_canceled_csks_show env print_bits
      | A_sdm_sr_provision_status \<Rightarrow> sdm_sr_provision_status_show env
      | A_sdm_sr_cancel_status \<Rightarrow> sdm_sr_cancel_status_show env
      | A_sdm_pr_provision_status \<Rightarrow> sdm_pr_provision_status_show env
      | A_sdm_pr_cancel_status \<Rightarrow> sdm_pr_cancel_status_show env
      | A_pr_sdm_root_entry_hash \<Rightarrow> show_sdm_root_entry_hash env (csr_pr_sdm_reh_reg (csrs env))
      | A_pr_sdm_canceled_csks \<Rightarrow> show_sdm_canceled_csk env (csr_pr_sdm_csk_reg (csrs env))
      | A_sr_sdm_root_entry_hash \<Rightarrow> show_sdm_root_entry_hash env (csr_sr_sdm_reh_reg (csrs env))
      | A_sr_sdm_canceled_csks \<Rightarrow> show_sdm_canceled_csk env (csr_sr_sdm_csk_reg (csrs env)))"

end
