(* ===== verification/M10bmc_Pmci.thy ===== *)
theory M10bmc_Pmci
  imports M10bmc
begin

unbundle bit_operations_syntax

text \<open>
  Flash memory of a board behind its management interface (\<^verbatim>\<open>drivers/mfd/intel-m10-bmc-pmci.c\<close>): blocks go
  through a FIFO, words at a time, and a lock keeps reads out while the memory is written.
\<close>

section \<open>Registers\<close>

text \<open>32-bit accesses, with a device that sees all accesses so far, as for 64-bit ones.\<close>

datatype io32 = RD32 u64 u32 | WR32 u64 u32

record pmci =
  pm_hist :: "io32 list"
  flash_busy :: bool
  pm_bmc :: "unit m10bmc"      \<comment> \<open>the register map, for the multiplexer of the flash memory\<close>

record pmci_env =
  pm_base :: u64
  pm_dev :: "io32 list \<Rightarrow> u64 \<Rightarrow> u32"
  pm_polls :: nat
  pm_bmc_env :: "unit m10bmc_env"

definition readl :: "pmci_env \<Rightarrow> u64 \<Rightarrow> pmci \<Rightarrow> u32 \<times> pmci" where
  "readl env addr s = (let v = pm_dev env (pm_hist s) addr in (v, s\<lparr>pm_hist := pm_hist s @ [RD32 addr v]\<rparr>))"

definition writel :: "u32 \<Rightarrow> u64 \<Rightarrow> pmci \<Rightarrow> pmci" where
  "writel v addr s = s\<lparr>pm_hist := pm_hist s @ [WR32 addr v]\<rparr>"

abbreviation FLASH_CTRL :: "pmci_env \<Rightarrow> u64" where "FLASH_CTRL env \<equiv> pm_base env + 0x40"
abbreviation FLASH_ADDR :: "pmci_env \<Rightarrow> u64" where "FLASH_ADDR env \<equiv> pm_base env + 0x44"
abbreviation FLASH_FIFO :: "pmci_env \<Rightarrow> u64" where "FLASH_FIFO env \<equiv> pm_base env + 0x800"

section \<open>The FIFO\<close>

fun pmci_write_fifo :: "u64 \<Rightarrow> u32 list \<Rightarrow> pmci \<Rightarrow> pmci" where
  "pmci_write_fifo base [] s = s"
| "pmci_write_fifo base (w # ws) s = pmci_write_fifo base ws (writel w base s)"

fun pmci_read_fifo :: "pmci_env \<Rightarrow> u64 \<Rightarrow> nat \<Rightarrow> pmci \<Rightarrow> u32 list \<times> pmci" where
  "pmci_read_fifo env base 0 s = ([], s)"
| "pmci_read_fifo env base (Suc n) s =
     (case readl env base s of (v, s) \<Rightarrow> (case pmci_read_fifo env base n s of (vs, s) \<Rightarrow> (v # vs, s)))"

definition pmci_get_write_space :: "pmci_env \<Rightarrow> pmci \<Rightarrow> u32 \<times> pmci" where
  "pmci_get_write_space env s =
     (case read_poll (readl env (FLASH_CTRL env)) (\<lambda>v. field32 13 4 v = 0x200) (pm_polls env) s of
        ((Some e, v), s) \<Rightarrow> (0, s)
      | ((None, v), s) \<Rightarrow> (field32 13 4 v * 4, s))"

text \<open>The \<open>n\<close> words at an offset of a buffer, and a remainder in a word that is zero.\<close>

definition buf_words :: "byte list \<Rightarrow> nat \<Rightarrow> nat \<Rightarrow> u32 list" where
  "buf_words buf ofst n = map (\<lambda>i. le32_to_cpu (drop (ofst + 4 * i) buf)) [0..<n]"

definition remainder_word :: "byte list \<Rightarrow> nat \<Rightarrow> nat \<Rightarrow> u32" where
  "remainder_word buf ofst n = le32_to_cpu (take n (drop ofst buf) @ replicate (4 - n) 0)"

lemma block_less:
  fixes sz blk :: u32
  assumes "blk \<le> sz" and "blk \<noteq> 0"
  shows "unat (sz - blk) < unat sz"
proof -
  have "unat (sz - blk) = unat sz - unat blk" "0 < unat blk" "unat blk \<le> unat sz"
    using assms by (simp_all add: unat_sub word_le_nat_alt unat_gt_0)
  then show ?thesis by simp
qed

text \<open>
  The loop of \<^verbatim>\<open>pmci_flash_bulk_write\<close> with its variables \<open>offset\<close> and \<open>size\<close>; the result is where it
  leaves them. Every round takes at least a byte, since it gives up when there is no space.
\<close>

function bulk_write_loop :: "pmci_env \<Rightarrow> byte list \<Rightarrow> u32 \<Rightarrow> u32 \<Rightarrow> pmci \<Rightarrow> (errno + u32 \<times> u32) \<times> pmci" where
  "bulk_write_loop env buf offset sz s =
     (if sz = 0 then (Inr (offset, sz), s)
      else (case pmci_get_write_space env s of
              (space, s) \<Rightarrow>
                let blk_size = min space sz
                in if blk_size = 0 then (Inl EIO, s)
                   else if sz < 4 then (Inr (offset, sz), s)
                   else bulk_write_loop env buf (offset + blk_size) (sz - blk_size)
                          (pmci_write_fifo (FLASH_FIFO env) (buf_words buf (unat offset) (unat (blk_size div 4))) s)))"
  by pat_completeness auto
termination
proof (relation "measure (\<lambda>(env, buf, offset, sz, s). unat sz)", simp)
  fix env :: pmci_env and buf :: "byte list" and offset sz :: u32 and s :: pmci and p and space s1 blk_size
  assume "sz \<noteq> 0" and "blk_size = min space sz" and "blk_size \<noteq> 0"
  then have "unat (sz - blk_size) < unat sz" by (intro block_less) auto
  then show "((env, buf, offset + blk_size, sz - blk_size,
      pmci_write_fifo (FLASH_FIFO env) (buf_words buf (unat offset) (unat (blk_size div 4))) s1), env, buf, offset, sz, s)
      \<in> measure (\<lambda>(env, buf, offset, sz, s). unat sz)" by simp
qed

declare bulk_write_loop.simps [simp del]

definition pmci_flash_bulk_write :: "pmci_env \<Rightarrow> byte list \<Rightarrow> u32 \<Rightarrow> pmci \<Rightarrow> pmci ret" where
  "pmci_flash_bulk_write env buf sz s =
     (case bulk_write_loop env buf 0 sz s of
        (Inl e, s) \<Rightarrow> (Some e, s)
      | (Inr (offset, sz), s) \<Rightarrow>
          (None, if sz \<noteq> 0 then pmci_write_fifo (FLASH_FIFO env) [remainder_word buf (unat offset) (unat sz)] s else s))"

text \<open>
  Reading likewise, into a buffer that has some contents; \<open>read_start\<close> is one round up to the words that
  are read.
\<close>

definition read_start :: "pmci_env \<Rightarrow> u32 \<Rightarrow> u32 \<Rightarrow> pmci \<Rightarrow> errno option \<times> pmci" where
  "read_start env addr read_count s =
     (case read_poll (readl env (FLASH_CTRL env)) (\<lambda>v. v AND 4 = 0) (pm_polls env)
             (writel (field_prep32 16 read_count OR 2) (FLASH_CTRL env) (writel addr (FLASH_ADDR env) s)) of
        ((r, v), s) \<Rightarrow> (r, s))"

function bulk_read_loop ::
  "pmci_env \<Rightarrow> u32 \<Rightarrow> u32 \<Rightarrow> u32 \<Rightarrow> byte list \<Rightarrow> pmci \<Rightarrow> (errno + u32 \<times> u32 \<times> byte list) \<times> pmci" where
  "bulk_read_loop env addr offset sz buf s =
     (if sz = 0 then (Inr (offset, sz, buf), s)
      else let blk_size = min sz 0x800; full_read_count = blk_size div 4;
               read_count = (if full_read_count * 4 < blk_size then full_read_count + 1 else full_read_count)
           in case read_start env (addr + offset) read_count s of
                (Some e, s) \<Rightarrow> (Inl e, s)
              | (None, s) \<Rightarrow>
                  (case pmci_read_fifo env (FLASH_FIFO env) (unat full_read_count) s of
                     (ws, s) \<Rightarrow>
                       let buf = write_at buf (unat offset) (concat (map cpu_to_le32 ws))
                       in if full_read_count < read_count then (Inr (offset + blk_size, sz - blk_size, buf), s)
                          else bulk_read_loop env addr (offset + blk_size) (sz - blk_size) buf (writel 0 (FLASH_CTRL env) s)))"
  by pat_completeness auto
termination
proof (relation "measure (\<lambda>(env, addr, offset, sz, buf, s). unat sz)", simp)
  fix env :: pmci_env and addr offset sz :: u32 and buf buf' :: "byte list" and s s1 :: pmci
    and blk_size fc rc :: u32 and p1 p2 r ws
  assume "sz \<noteq> 0" and "blk_size = min sz 0x800"
  then have "unat (sz - blk_size) < unat sz" by (intro block_less) (auto simp: min_def)
  then show "((env, addr, offset + blk_size, sz - blk_size, buf', writel 0 (FLASH_CTRL env) s1), env, addr, offset, sz, buf, s)
      \<in> measure (\<lambda>(env, addr, offset, sz, buf, s). unat sz)" by simp
qed

declare bulk_read_loop.simps [simp del]

definition pmci_flash_bulk_read ::
  "pmci_env \<Rightarrow> u32 \<Rightarrow> u32 \<Rightarrow> byte list \<Rightarrow> pmci \<Rightarrow> (errno + byte list) \<times> pmci" where
  "pmci_flash_bulk_read env addr sz buf s =
     (case bulk_read_loop env addr 0 sz buf s of
        (Inl e, s) \<Rightarrow> (Inl e, s)
      | (Inr (offset, sz, buf), s) \<Rightarrow>
          if sz \<noteq> 0 then
            (case readl env (FLASH_FIFO env) s of
               (tmp, s) \<Rightarrow> (Inr (write_at buf (unat offset) (take (unat sz) (cpu_to_le32 tmp))), writel 0 (FLASH_CTRL env) s))
          else (Inr buf, s))"

section \<open>Lock and multiplexer\<close>

definition m10bmc_pmci_set_flash_host_mux :: "pmci_env \<Rightarrow> bool \<Rightarrow> pmci \<Rightarrow> pmci ret" where
  "m10bmc_pmci_set_flash_host_mux env request s =
     (case regmap_update_bits (pm_bmc_env env) 0x1d0 0x20 (field_prep32 5 (if request then 1 else 0)) (pm_bmc s) of
        (Some e, b) \<Rightarrow> (Some e, s\<lparr>pm_bmc := b\<rparr>)
      | (None, b) \<Rightarrow>
          (case regmap_read_poll (pm_bmc_env env) 0x1d0
                  (\<lambda>ctrl. if request then field32 2 0 ctrl = 2 else field32 2 0 ctrl \<noteq> 2) (pm_polls env) b of
             (Inl e, b) \<Rightarrow> (Some e, s\<lparr>pm_bmc := b\<rparr>)
           | (Inr v, b) \<Rightarrow> (None, s\<lparr>pm_bmc := b\<rparr>)))"

definition m10bmc_pmci_flash_read ::
  "pmci_env \<Rightarrow> byte list \<Rightarrow> u32 \<Rightarrow> u32 \<Rightarrow> pmci \<Rightarrow> (errno + byte list) \<times> pmci" where
  "m10bmc_pmci_flash_read env buf addr sz s =
     (if flash_busy s then (Inl EBUSY, s)
      else (case (case m10bmc_pmci_set_flash_host_mux env True s of
                    (Some e, s) \<Rightarrow> (Inl e, s)
                  | (None, s) \<Rightarrow> pmci_flash_bulk_read env addr sz buf s) of
              (ret, s) \<Rightarrow>
                (case m10bmc_pmci_set_flash_host_mux env False s of
                   (ret2, s) \<Rightarrow>
                     (case ret of Inl e \<Rightarrow> (Inl e, s)
                      | Inr bytes \<Rightarrow> (case ret2 of Some e \<Rightarrow> (Inl e, s) | None \<Rightarrow> (Inr bytes, s))))))"

definition m10bmc_pmci_flash_write :: "pmci_env \<Rightarrow> byte list \<Rightarrow> u32 \<Rightarrow> u32 \<Rightarrow> pmci \<Rightarrow> pmci ret" where
  "m10bmc_pmci_flash_write env buf offset sz s = pmci_flash_bulk_write env (drop (unat offset) buf) sz s"

definition m10bmc_pmci_flash_lock :: "pmci \<Rightarrow> pmci ret" where
  "m10bmc_pmci_flash_lock s = (if flash_busy s then (Some EBUSY, s) else (None, s\<lparr>flash_busy := True\<rparr>))"

definition m10bmc_pmci_flash_unlock :: "pmci \<Rightarrow> pmci" where
  "m10bmc_pmci_flash_unlock s = s\<lparr>flash_busy := False\<rparr>"

text \<open>A read is into a buffer as the caller has it, here of zeros.\<close>

definition m10bmc_pmci_flash_bulk_ops :: "pmci_env \<Rightarrow> pmci flash_bulk_ops" where
  "m10bmc_pmci_flash_bulk_ops env =
     \<lparr>fl_read = \<lambda>addr sz. m10bmc_pmci_flash_read env (replicate (unat sz) 0) addr sz,
      fl_write = m10bmc_pmci_flash_write env, fl_lock_write = m10bmc_pmci_flash_lock,
      fl_unlock_write = m10bmc_pmci_flash_unlock\<rparr>"

end
