(* ===== verification/M10bmc_Boards.thy ===== *)
theory M10bmc_Boards
  imports M10bmc_Sec M10bmc_Pmci
begin

unbundle bit_operations_syntax

text \<open>The boards that the theorems are about: a register map that reaches the flash memory, or a FIFO.\<close>

section \<open>Boards\<close>

text \<open>An environment made that of a board; registers are four bytes apart on all of them.\<close>

definition n3000_env :: "unit sec_env \<Rightarrow> unit sec_env" where
  "n3000_env e = e\<lparr>mb_regmap := (mb_regmap e)\<lparr>rm_stride := 4\<rparr>, mb_info := m10bmc_spi_n3000, mb_flash_ops := None,
     se_board := M10SEC_N3000\<rparr>"

definition n6000_env :: "pmci_env \<Rightarrow> pmci sec_env \<Rightarrow> pmci sec_env" where
  "n6000_env pe e = e\<lparr>mb_regmap := (mb_regmap e)\<lparr>rm_stride := 4\<rparr>, mb_info := m10bmc_pmci_n6000,
     mb_flash_ops := Some (m10bmc_pmci_flash_bulk_ops pe), se_board := M10SEC_N6000\<rparr>"

abbreviation n3000_doorbell :: u32 where "n3000_doorbell \<equiv> 0x300c00"

lemma n3000_sys [simp]:
  "m10bmc_sys_read (n3000_env e) 0x400 s = regmap_read (n3000_env e) n3000_doorbell s"
  "m10bmc_sys_update_bits (n3000_env e) 0x400 m v s = regmap_update_bits (n3000_env e) n3000_doorbell m v s"
  by (simp_all add: m10bmc_sys_read_def m10bmc_sys_update_bits_def m10bmc_raw_read_def m10bmc_reg_always_available_def
      n3000_env_def m10bmc_spi_n3000_def m10bmc_n3000_csr_map_def)

lemma n3000_csr [simp]:
  "csr_doorbell (csrs (n3000_env e)) = 0x400" "csr_base (csrs (n3000_env e)) = 0x300800"
  "csr_staging_size (csrs (n3000_env e)) = 0x3800000" "se_board (n3000_env e) = M10SEC_N3000"
  by (simp_all add: n3000_env_def m10bmc_spi_n3000_def m10bmc_n3000_csr_map_def)

lemma n6000_csr [simp]:
  "csr_base (csrs (n6000_env pe e)) = 0" "csr_doorbell (csrs (n6000_env pe e)) = 0x1c0"
  "handshake_sys_reg_ranges (mb_info (n6000_env pe e)) = []" "se_board (n6000_env pe e) = M10SEC_N6000"
  by (simp_all add: n6000_env_def m10bmc_pmci_n6000_def m10bmc_n6000_csr_map_def)

lemma n6000_sys [simp]:
  "m10bmc_sys_read (n6000_env pe e) a s = regmap_read (n6000_env pe e) a s"
  "m10bmc_sys_update_bits (n6000_env pe e) a m v s = regmap_update_bits (n6000_env pe e) a m v s"
  by (simp_all add: m10bmc_sys_read_def m10bmc_sys_update_bits_def m10bmc_raw_read_def m10bmc_reg_always_available_def)

end
