(* ===== verification/Image_Load_Props.thy ===== *)
theory Image_Load_Props
  imports Image_Load
begin

text \<open>
  Uploads from the side of the driver, of the user and of the accounts: the order in which a driver is
  called, what is acquired and given back, and that an upload ends.
\<close>

section \<open>The order of calls\<close>

text \<open>
  What a driver may rely on, as an automaton over the calls it sees: one prepare for the whole size,
  writes that follow each other up to the size, one poll, one cleanup if the prepare succeeded.
\<close>

datatype up_phase =
    P_New
  | P_Ready u32
  | P_Broken fw_upload_err
  | P_Programmed
  | P_Failed fw_upload_err
  | P_Complete

fun up_next :: "u32 \<Rightarrow> up_phase \<Rightarrow> up_call \<Rightarrow> up_phase option" where
  "up_next sz ph C_Cancel = Some ph"
| "up_next sz P_New (C_Prepare n e) =
     (if n = sz then Some (if e = FW_UPLOAD_ERR_NONE then P_Ready 0 else P_Failed e) else None)"
| "up_next sz (P_Ready offset) (C_Write off n e w) =
     (if off = offset \<and> n = sz - offset \<and> n \<noteq> 0 \<and> (e = FW_UPLOAD_ERR_NONE \<longrightarrow> w \<le> n)
      then Some (if e = FW_UPLOAD_ERR_NONE \<and> w \<noteq> 0 then P_Ready (offset + w)
                 else P_Broken (if e = FW_UPLOAD_ERR_NONE then FW_UPLOAD_ERR_RW_ERROR else e))
      else None)"
| "up_next sz (P_Ready offset) (C_Poll e) =
     (if offset = sz then Some (if e = FW_UPLOAD_ERR_NONE then P_Programmed else P_Broken e) else None)"
| "up_next sz (P_Broken e) C_Cleanup = Some (P_Failed e)"
| "up_next sz P_Programmed C_Cleanup = Some P_Complete"
| "up_next sz ph c = None"

fun up_run :: "u32 \<Rightarrow> up_phase \<Rightarrow> up_call list \<Rightarrow> up_phase option" where
  "up_run sz ph [] = Some ph"
| "up_run sz ph (c # cs) = (case up_next sz ph c of None \<Rightarrow> None | Some ph \<Rightarrow> up_run sz ph cs)"

lemma up_run_snoc: "up_run sz ph (cs @ [c]) = (case up_run sz ph cs of None \<Rightarrow> None | Some ph \<Rightarrow> up_next sz ph c)"
  by (induction cs arbitrary: ph) (auto split: option.splits)

text \<open>A block written moves the offset and what remains by the same amount, without wrap-around.\<close>

lemma advance:
  fixes w rest offset sz :: u32
  assumes "w \<le> rest" and "unat offset + unat rest = unat sz"
  shows "unat (offset + w) + unat (rest - w) = unat sz"
proof -
  have "unat (rest - w) = unat rest - unat w" "unat w \<le> unat rest"
    using assms(1) by (simp_all add: unat_sub word_le_nat_alt)
  moreover have "unat (offset + w) = unat offset + unat w"
    by (rule unat_add_lem [THEN iffD1]) (use assms unsigned_less [of sz, where 'a = nat] calculation(2) in simp)
  ultimately show ?thesis using assms(2) by simp
qed

lemma rest_unique:
  fixes rest offset sz :: u32
  assumes "unat offset + unat rest = unat sz"
  shows "rest = sz - offset"
proof -
  have "(of_nat (unat offset + unat rest) :: u32) = of_nat (unat sz)" using assms by (rule arg_cong)
  then show ?thesis by (simp add: algebra_simps)
qed

lemma advance_le:
  fixes w offset sz :: u32
  assumes "offset \<le> sz" and "w \<le> sz - offset"
  shows "offset + w \<le> sz"
proof -
  have "unat offset + unat (sz - offset) = unat sz" using assms(1) by (simp add: unat_sub word_le_nat_alt)
  from advance [OF assms(2) this] show ?thesis by (simp add: word_le_nat_alt)
qed

text \<open>Such calls stay inside the buffer.\<close>

lemma up_run_ready:
  "up_run sz ph cs = Some ph' \<Longrightarrow> (\<And>o1. ph = P_Ready o1 \<Longrightarrow> o1 \<le> sz) \<Longrightarrow> C_Write off n e w \<in> set cs \<Longrightarrow>
   unat off + unat n = unat sz"
proof (induction cs arbitrary: ph)
  case (Cons c cs)
  then obtain ph1 where ph1: "up_next sz ph c = Some ph1" "up_run sz ph1 cs = Some ph'" by (auto split: option.splits)
  have le: "o1 \<le> sz" if o1: "ph1 = P_Ready o1" for o1
  proof (cases c)
    case (C_Write x n' e' w')
    with ph1(1) o1 have "ph = P_Ready x" "w' \<le> sz - x" "o1 = x + w'"
      by (cases ph; auto split: if_splits)+
    moreover from this have "x \<le> sz" using Cons.prems(2) by blast
    ultimately show ?thesis
      by (simp add: advance_le)
  next
    case (C_Prepare n' e')
    with ph1(1) o1 have "o1 = 0" by (cases ph; auto split: if_splits)
    then show ?thesis by simp
  qed (use ph1(1) o1 Cons.prems(2) in \<open>cases ph; auto split: if_splits\<close>)+
  show ?case
  proof (cases "c = C_Write off n e w")
    case True
    with ph1(1) have "ph = P_Ready off" "n = sz - off" by (cases ph; auto split: if_splits)+
    with Cons.prems(2) [of off] show ?thesis by (simp add: unat_sub word_le_nat_alt)
  next
    case False
    with Cons.prems(3) have "C_Write off n e w \<in> set cs" by simp
    with Cons.IH [OF ph1(2)] le show ?thesis by blast
  qed
qed simp

text \<open>The phase of an upload that is over, with the error the user is told.\<close>

definition settled :: "'d fw_upload_ops \<Rightarrow> up_phase \<Rightarrow> fw_upload_err \<Rightarrow> bool" where
  "settled ops ph e \<longleftrightarrow>
     (e = FW_UPLOAD_ERR_NONE \<and> (ph = P_Complete \<or> up_cleanup ops = None \<and> ph = P_Programmed)) \<or>
     (e \<noteq> FW_UPLOAD_ERR_NONE \<and> (ph = P_Failed e \<or> up_cleanup ops = None \<and> ph = P_Broken e))"

section \<open>Interleavings\<close>

definition image_load_init :: "'d \<Rightarrow> 'd image_load" where
  "image_load_init d =
     \<lparr>fw_data = None, remaining_size = 0, progress = FW_UPLOAD_PROG_IDLE, err_progress = FW_UPLOAD_PROG_IDLE,
      err_code = FW_UPLOAD_ERR_NONE, finished = None, opened = False, closing = False, worker = W_Idle,
      requeued = False, ddev = d, parent_refs = 0, live_bufs = 0, event_refs = \<lambda>_. 0, event_signals = \<lambda>_. 0,
      calls = [], total_size = 0, upload_image = [], accepted = \<lambda>_. 0\<rparr>"

text \<open>
  Any user who has the file open may do anything with it at any time. \<^verbatim>\<open>copy_from_user\<close> fills the buffer
  that was allocated, so the bytes copied are as many as the user says. What is known of the users besides
  is the argument \<open>may\<close>: nothing at all (\<open>anyhow\<close>), or that they are polite: they start an upload
  only when the worker is done with the last one. The interface does not show users when that is (see
  \<open>early_write_oops\<close> below).
\<close>

definition copied :: "image_cmd \<Rightarrow> bool" where
  "copied cmd \<longleftrightarrow>
     (case cmd of
        IMAGE_LOAD_WRITE env \<Rightarrow>
          (case we_wb env of None \<Rightarrow> True | Some wb \<Rightarrow>
             (case we_buf env of None \<Rightarrow> True | Some b \<Rightarrow> length b = unat (wb_size wb)))
      | _ \<Rightarrow> True)"

definition anyhow :: "image_cmd \<Rightarrow> 'd image_load \<Rightarrow> bool" where
  "anyhow cmd s \<longleftrightarrow> True"

definition polite :: "image_cmd \<Rightarrow> 'd image_load \<Rightarrow> bool" where
  "polite cmd s \<longleftrightarrow> (case cmd of IMAGE_LOAD_WRITE env \<Rightarrow> worker s = W_Idle | _ \<Rightarrow> True)"

inductive user_step ::
  "(image_cmd \<Rightarrow> 'd image_load \<Rightarrow> bool) \<Rightarrow> 'd fw_upload_ops \<Rightarrow> 'd image_load \<Rightarrow> 'd image_load \<Rightarrow> bool" for may ops where
  Open: "fpga_image_load_open s = (None, s') \<Longrightarrow> user_step may ops s s'"
| Ioctl: "opened s \<Longrightarrow> \<not> closing s \<Longrightarrow> copied cmd \<Longrightarrow> may cmd s \<Longrightarrow>
    fpga_image_load_ioctl ops cmd s = (out, s') \<Longrightarrow> user_step may ops s s'"
| Release: "opened s \<Longrightarrow> \<not> closing s \<Longrightarrow> user_step may ops s (fpga_image_load_release ops s)"
| Flushed: "closing s \<Longrightarrow> flushed s = Some s' \<Longrightarrow> user_step may ops s s'"

inductive il_reach ::
  "(image_cmd \<Rightarrow> 'd image_load \<Rightarrow> bool) \<Rightarrow> 'd fw_upload_ops \<Rightarrow> 'd \<Rightarrow> 'd image_load \<Rightarrow> bool" for may ops d where
  Init: "il_reach may ops d (image_load_init d)"
| Worker: "il_reach may ops d s \<Longrightarrow> worker_step ops s = Some s' \<Longrightarrow> il_reach may ops d s'"
| User: "il_reach may ops d s \<Longrightarrow> user_step may ops s s' \<Longrightarrow> il_reach may ops d s'"

text \<open>What holds for users of any manners holds for those of good ones.\<close>

lemma user_step_anyhow: "user_step may ops s s' \<Longrightarrow> user_step anyhow ops s s'"
  by (erule user_step.cases) (auto simp: anyhow_def intro: user_step.intros)

lemma il_reach_anyhow: "il_reach may ops d s \<Longrightarrow> il_reach anyhow ops d s"
  by (induction rule: il_reach.induct) (auto intro: il_reach.intros user_step_anyhow)

section \<open>The invariant\<close>

text \<open>What the worker holds: the reference to the parent and the buffer until \<^verbatim>\<open>put_device\<close>.\<close>

definition holding :: "worker \<Rightarrow> bool" where
  "holding w \<longleftrightarrow> w \<notin> {W_Idle, W_Complete, W_Put, W_Oops}"

definition upload_accounts :: "'d image_load \<Rightarrow> bool" where
  "upload_accounts s \<longleftrightarrow>
     worker s \<noteq> W_Oops \<and> \<not> requeued s \<and>
     parent_refs s = of_bool (holding (worker s)) \<and> live_bufs s = of_bool (holding (worker s)) \<and>
     (fw_data s \<noteq> None \<longleftrightarrow> holding (worker s)) \<and> (finished s \<noteq> None \<longleftrightarrow> worker s \<noteq> W_Idle) \<and>
     event_refs s = (\<lambda>ev. of_bool (finished s = Some ev)) \<and>
     (\<forall>ev. accepted s ev = event_signals s ev + of_bool (finished s = Some ev \<and> worker s \<noteq> W_Put)) \<and>
     (progress s = FW_UPLOAD_PROG_IDLE \<longleftrightarrow> worker s \<in> {W_Idle, W_Put})"

text \<open>
  Where the driver is when the worker is at a point, how much is left then, and what is known of the
  error. \<open>fits\<close>: what was written is at most what was asked for.
\<close>

definition at_phase :: "'d fw_upload_ops \<Rightarrow> up_phase \<Rightarrow> 'd image_load \<Rightarrow> bool" where
  "at_phase ops ph s =
     (case worker s of
        W_Idle \<Rightarrow> calls s = [] \<or> settled ops ph (err_code s)
      | W_Queued \<Rightarrow> ph = P_New \<and> remaining_size s = total_size s \<and> err_code s = FW_UPLOAD_ERR_NONE
      | W_Prepare \<Rightarrow> ph = P_New \<and> remaining_size s = total_size s \<and> err_code s = FW_UPLOAD_ERR_NONE
      | W_PrepareFailed e \<Rightarrow> ph = P_Failed e \<and> e \<noteq> FW_UPLOAD_ERR_NONE
      | W_Prepared \<Rightarrow> ph = P_Ready 0 \<and> remaining_size s = total_size s \<and> err_code s = FW_UPLOAD_ERR_NONE
      | W_Loop offset _ \<Rightarrow> ph = P_Ready offset \<and> unat offset + unat (remaining_size s) = unat (total_size s) \<and>
          err_code s = FW_UPLOAD_ERR_NONE
      | W_Written offset e w \<Rightarrow>
          ph = (if e = FW_UPLOAD_ERR_NONE \<and> w \<noteq> 0 then P_Ready (offset + w)
                else P_Broken (if e = FW_UPLOAD_ERR_NONE then FW_UPLOAD_ERR_RW_ERROR else e)) \<and>
          unat offset + unat (remaining_size s) = unat (total_size s) \<and> err_code s = FW_UPLOAD_ERR_NONE \<and>
          (e = FW_UPLOAD_ERR_NONE \<longrightarrow> w \<le> remaining_size s)
      | W_Program \<Rightarrow> ph = P_Ready (total_size s) \<and> err_code s = FW_UPLOAD_ERR_NONE
      | W_Poll \<Rightarrow> ph = P_Ready (total_size s) \<and> err_code s = FW_UPLOAD_ERR_NONE
      | W_PollFailed e \<Rightarrow> ph = P_Broken e \<and> e \<noteq> FW_UPLOAD_ERR_NONE
      | W_Done \<Rightarrow> if err_code s = FW_UPLOAD_ERR_NONE then ph = P_Programmed else ph = P_Broken (err_code s)
      | W_Putdev \<Rightarrow> settled ops ph (err_code s)
      | W_Complete \<Rightarrow> settled ops ph (err_code s)
      | W_Put \<Rightarrow> settled ops ph (err_code s)
      | W_Oops \<Rightarrow> False)"

text \<open>Between a successful prepare and the cleanup the driver is at work.\<close>

definition at_work :: "worker \<Rightarrow> bool" where
  "at_work w \<longleftrightarrow> (case w of W_Prepared \<Rightarrow> True | W_Loop _ _ \<Rightarrow> True | W_Written _ _ _ \<Rightarrow> True | W_Program \<Rightarrow> True
     | W_Poll \<Rightarrow> True | W_PollFailed _ \<Rightarrow> True | W_Done \<Rightarrow> True | _ \<Rightarrow> False)"

definition upload_inv :: "'d fw_upload_ops \<Rightarrow> ('d \<Rightarrow> bool) \<Rightarrow> ('d \<Rightarrow> bool) \<Rightarrow> 'd image_load \<Rightarrow> bool" where
  "upload_inv ops idle active s \<longleftrightarrow>
     upload_accounts s \<and> (\<exists>ph. up_run (total_size s) P_New (calls s) = Some ph \<and> at_phase ops ph s) \<and>
     (\<forall>b. fw_data s = Some b \<longrightarrow> length b = unat (total_size s)) \<and>
     (if at_work (worker s) then active (ddev s) else idle (ddev s))"

text \<open>How many steps the worker still has, at most, with \<open>r\<close> bytes to go.\<close>

fun work_left :: "worker \<Rightarrow> nat \<Rightarrow> nat" where
  "work_left W_Idle r = 0"
| "work_left W_Put r = 1"
| "work_left W_Complete r = 2"
| "work_left W_Putdev r = 3"
| "work_left W_Done r = 4"
| "work_left (W_PollFailed e) r = 5"
| "work_left W_Poll r = 6"
| "work_left W_Program r = 7"
| "work_left (W_PrepareFailed e) r = 4"
| "work_left (W_Loop offset w) r = 2 * r + 8"
| "work_left (W_Written offset e w) r = 2 * r + 7"
| "work_left W_Prepared r = 2 * r + 9"
| "work_left W_Prepare r = 2 * r + 10"
| "work_left W_Queued r = 2 * r + 11"
| "work_left W_Oops r = 0"

text \<open>A run in which an upload goes on: \<open>n\<close> steps of the worker, and users in between.\<close>

inductive upload_run ::
  "(image_cmd \<Rightarrow> 'd image_load \<Rightarrow> bool) \<Rightarrow> 'd fw_upload_ops \<Rightarrow> 'd image_load \<Rightarrow> nat \<Rightarrow> 'd image_load \<Rightarrow> bool"
  for may ops s where
  Here: "upload_run may ops s 0 s"
| Work: "upload_run may ops s n s1 \<Longrightarrow> worker_step ops s1 = Some s2 \<Longrightarrow> upload_run may ops s (Suc n) s2"
| Meanwhile: "upload_run may ops s n s1 \<Longrightarrow> worker s1 \<noteq> W_Idle \<Longrightarrow> user_step may ops s1 s2 \<Longrightarrow> upload_run may ops s n s2"

lemma user_keeps_work:
  assumes "user_step polite ops s s'" and "worker s \<noteq> W_Idle"
  shows "worker s' = worker s \<and> remaining_size s' = remaining_size s"
  using assms(1)
proof cases
  case (Ioctl cmd out)
  with assms(2) show ?thesis
    by (cases cmd) (auto simp: polite_def fpga_image_load_ioctl_def fpga_image_load_ioctl_cancel_def logged_def
        split: if_splits sum.splits)
qed (use assms(2) in \<open>auto simp: fpga_image_load_open_def fpga_image_load_release_def flushed_def logged_def split: if_splits\<close>)

section \<open>The contract of a driver\<close>

text \<open>
  A driver is idle or at work. The framework promises calls in order and ranges inside the buffer;
  the driver promises that it is at work exactly from a successful prepare to its cleanup, and that it
  does not claim to have written more than it was asked to.
\<close>

locale upload_driver =
  fixes ops :: "'d fw_upload_ops" and idle :: "'d \<Rightarrow> bool" and active :: "'d \<Rightarrow> bool"
  assumes prepare_law: "idle d \<Longrightarrow> up_prepare ops data n d = (e, d') \<Longrightarrow> length data = unat n \<Longrightarrow>
      if e = FW_UPLOAD_ERR_NONE then active d' else idle d'"
    and write_law: "active d \<Longrightarrow> up_write ops data offset n w d = ((e, w'), d') \<Longrightarrow>
      unat offset + unat n = length data \<Longrightarrow> active d' \<and> (e = FW_UPLOAD_ERR_NONE \<longrightarrow> w' \<le> n)"
    and poll_law: "active d \<Longrightarrow> up_poll_complete ops d = (e, d') \<Longrightarrow> active d'"
    and cancel_idle: "idle d \<Longrightarrow> idle (up_cancel ops d)"
    and cancel_active: "active d \<Longrightarrow> active (up_cancel ops d)"
    and cleanup_law: "active d \<Longrightarrow> idle (case up_cleanup ops of None \<Rightarrow> d | Some cleanup \<Rightarrow> cleanup d)"
begin

lemmas inv_defs = upload_inv_def upload_accounts_def at_phase_def at_work_def holding_def

lemma worker_keeps:
  assumes inv: "upload_inv ops idle active s" and step: "worker_step ops s = Some s'"
  shows "upload_inv ops idle active s'"
proof (cases "worker s")
  case W_Idle
  with step show ?thesis by (simp add: worker_step_def)
next
  case W_Queued
  then have s': "s' = fw_upload_update_progress FW_UPLOAD_PROG_PREPARING (s\<lparr>worker := W_Prepare\<rparr>)"
    using step by (simp add: worker_step_def)
  show ?thesis using inv W_Queued by (simp add: s' fw_upload_update_progress_def inv_defs)
next
  case W_Prepare
  obtain ret d where p: "up_prepare ops (ptr_bytes (fw_data s)) (remaining_size s) (ddev s) = (ret, d)" by fastforce
  from inv W_Prepare have "length (ptr_bytes (fw_data s)) = unat (remaining_size s)" "idle (ddev s)"
    by (auto simp: inv_defs ptr_bytes_def)
  with prepare_law [OF _ p] have d: "if ret = FW_UPLOAD_ERR_NONE then active d else idle d" by blast
  have s': "s' = (logged (C_Prepare (remaining_size s) ret) d s)
      \<lparr>worker := if ret \<noteq> FW_UPLOAD_ERR_NONE then W_PrepareFailed ret else W_Prepared\<rparr>"
    using step W_Prepare by (simp add: worker_step_def p Let_def)
  show ?thesis
    by (cases "ret = FW_UPLOAD_ERR_NONE") (use inv W_Prepare d in \<open>auto simp: s' logged_def inv_defs up_run_snoc\<close>)
next
  case (W_PrepareFailed e)
  then have s': "s' = fw_upload_set_error e (s\<lparr>worker := W_Putdev\<rparr>)" using step by (simp add: worker_step_def)
  show ?thesis using inv W_PrepareFailed by (auto simp: s' fw_upload_set_error_def inv_defs settled_def)
next
  case W_Prepared
  then have s': "s' = fw_upload_update_progress FW_UPLOAD_PROG_TRANSFERRING (s\<lparr>worker := W_Loop 0 0\<rparr>)"
    using step by (simp add: worker_step_def)
  show ?thesis using inv W_Prepared by (auto simp: s' fw_upload_update_progress_def inv_defs)
next
  case (W_Loop offset written)
  show ?thesis
  proof (cases "remaining_size s = 0")
    case True
    with inv W_Loop have "offset = total_size s" by (auto simp: inv_defs word_unat_eq_iff)
    moreover have s': "s' = s\<lparr>worker := W_Program\<rparr>" using step W_Loop True by (simp add: worker_step_def)
    ultimately show ?thesis using inv W_Loop by (auto simp: s' inv_defs)
  next
    case False
    obtain ret w d where p: "up_write ops (ptr_bytes (fw_data s)) offset (remaining_size s) written (ddev s) = ((ret, w), d)"
      by (metis prod.exhaust)
    have r: "unat offset + unat (remaining_size s) = unat (total_size s)" "active (ddev s)"
      using inv W_Loop by (auto simp: inv_defs)
    moreover have "length (ptr_bytes (fw_data s)) = unat (total_size s)"
      using inv W_Loop by (auto simp: inv_defs ptr_bytes_def)
    ultimately have d: "active d" "ret = FW_UPLOAD_ERR_NONE \<longrightarrow> w \<le> remaining_size s"
      using write_law [OF _ p] by auto
    have n: "total_size s - offset = remaining_size s" using rest_unique [OF r(1)] by (rule sym)
    have s': "s' = (logged (C_Write offset (remaining_size s) ret w) d s)\<lparr>worker := W_Written offset ret w\<rparr>"
      using step W_Loop False by (simp add: worker_step_def p)
    show ?thesis
      by (use False inv W_Loop d r n in \<open>auto simp: s' logged_def inv_defs up_run_snoc\<close>)
  qed
next
  case (W_Written offset e w)
  show ?thesis
  proof (cases "e = FW_UPLOAD_ERR_NONE \<and> w \<noteq> 0")
    case True
    with inv W_Written have le: "w \<le> remaining_size s" "unat offset + unat (remaining_size s) = unat (total_size s)"
      by (auto simp: inv_defs)
    have "unat (offset + w) + unat (remaining_size s - w) = unat (total_size s)"
      by (rule advance [OF le])
    moreover have s': "s' = s\<lparr>remaining_size := remaining_size s - w, worker := W_Loop (offset + w) w\<rparr>"
      using step W_Written True by (simp add: worker_step_def)
    ultimately show ?thesis using True inv W_Written by (auto simp: s' inv_defs)
  next
    case False
    then have s': "s' = fw_upload_set_error (if e = FW_UPLOAD_ERR_NONE then FW_UPLOAD_ERR_RW_ERROR else e) (s\<lparr>worker := W_Done\<rparr>)"
      using step W_Written by (auto simp: worker_step_def)
    show ?thesis using False inv W_Written by (auto simp: s' fw_upload_set_error_def inv_defs)
  qed
next
  case W_Program
  then have s': "s' = fw_upload_update_progress FW_UPLOAD_PROG_PROGRAMMING (s\<lparr>worker := W_Poll\<rparr>)"
    using step by (simp add: worker_step_def)
  show ?thesis using inv W_Program by (auto simp: s' fw_upload_update_progress_def inv_defs)
next
  case W_Poll
  obtain ret d where p: "up_poll_complete ops (ddev s) = (ret, d)" by fastforce
  from inv W_Poll have "active (ddev s)" by (auto simp: inv_defs)
  with poll_law [OF _ p] have d: "active d" by blast
  have s': "s' = (logged (C_Poll ret) d s)\<lparr>worker := if ret \<noteq> FW_UPLOAD_ERR_NONE then W_PollFailed ret else W_Done\<rparr>"
    using step W_Poll by (simp add: worker_step_def p)
  show ?thesis
    by (cases "ret = FW_UPLOAD_ERR_NONE") (use inv W_Poll d in \<open>auto simp: s' logged_def inv_defs up_run_snoc\<close>)
next
  case (W_PollFailed e)
  then have s': "s' = fw_upload_set_error e (s\<lparr>worker := W_Done\<rparr>)" using step by (simp add: worker_step_def)
  show ?thesis using inv W_PollFailed by (auto simp: s' fw_upload_set_error_def inv_defs)
next
  case W_Done
  have "idle (case up_cleanup ops of None \<Rightarrow> ddev s | Some cleanup \<Rightarrow> cleanup (ddev s))"
    using inv W_Done by (intro cleanup_law) (auto simp: inv_defs)
  moreover have s': "s' = (case up_cleanup ops of None \<Rightarrow> s\<lparr>worker := W_Putdev\<rparr>
      | Some cleanup \<Rightarrow> (logged C_Cleanup (cleanup (ddev s)) s)\<lparr>worker := W_Putdev\<rparr>)"
    using step W_Done by (auto simp: worker_step_def split: option.splits)
  ultimately show ?thesis using inv W_Done
    by (cases "up_cleanup ops"; cases "err_code s = FW_UPLOAD_ERR_NONE")
      (auto simp: s' logged_def inv_defs up_run_snoc settled_def)
next
  case W_Putdev
  then have s': "s' = s\<lparr>parent_refs := parent_refs s - 1, live_bufs := live_bufs s - (if fw_data s = None then 0 else 1),
      fw_data := None, worker := W_Complete\<rparr>" using step by (simp add: worker_step_def)
  show ?thesis using inv W_Putdev by (auto simp: s' inv_defs)
next
  case W_Complete
  then have s': "s' = fw_upload_prog_complete s" using step by (simp add: worker_step_def)
  show ?thesis using inv W_Complete by (auto simp: s' fw_upload_prog_complete_def inv_defs)
next
  case W_Put
  then obtain ev where ev: "finished s = Some ev" using inv by (auto simp: inv_defs)
  with step W_Put have s': "s' = worker_end (s\<lparr>event_refs := (event_refs s)(ev := event_refs s ev - 1), finished := None\<rparr>)"
    by (simp add: worker_step_def)
  show ?thesis using inv W_Put ev
    by (cases "err_code s = FW_UPLOAD_ERR_NONE") (auto simp: s' worker_end_def inv_defs fun_eq_iff)
next
  case W_Oops
  with step show ?thesis by (simp add: worker_step_def)
qed

lemma inv_file [simp]:
  "upload_inv ops idle active (s\<lparr>opened := a\<rparr>) = upload_inv ops idle active s"
  "upload_inv ops idle active (s\<lparr>closing := a\<rparr>) = upload_inv ops idle active s"
  by (cases "worker s"; simp add: inv_defs)+

lemma cancel_keeps:
  assumes "upload_inv ops idle active s" and "progress s \<noteq> FW_UPLOAD_PROG_IDLE"
  shows "upload_inv ops idle active (logged C_Cancel (up_cancel ops (ddev s)) s)"
  using assms cancel_idle [of "ddev s"] cancel_active [of "ddev s"]
  by (cases "worker s") (auto simp: logged_def inv_defs up_run_snoc)

lemma write_keeps:
  assumes inv: "upload_inv ops idle active s" and "polite (IMAGE_LOAD_WRITE env) s" and "copied (IMAGE_LOAD_WRITE env)"
    and run: "fpga_image_load_ioctl_write env s = (r, s')"
  shows "upload_inv ops idle active s'"
proof (cases "s' = s")
  case False
  from assms(2) have idle_worker: "worker s = W_Idle" by (simp add: polite_def)
  with inv have f: "finished s = None" by (simp add: inv_defs)
  with False run obtain wb b ev where wb: "we_wb env = Some wb" "we_buf env = Some b"
    "we_eventfd env (wb_evtfd wb) = Inr ev" "wb_size wb \<noteq> 0"
    and s': "s' = queue_work (s\<lparr>finished := Some ev, event_refs := (event_refs s)(ev := event_refs s ev + 1),
      parent_refs := parent_refs s + 1, progress := FW_UPLOAD_PROG_RECEIVING, err_code := FW_UPLOAD_ERR_NONE,
      remaining_size := wb_size wb, fw_data := Some b, live_bufs := live_bufs s + 1, calls := [],
      total_size := wb_size wb, upload_image := b, accepted := (accepted s)(ev := Suc (accepted s ev))\<rparr>)"
    by (auto simp: fpga_image_load_ioctl_write_def split: option.splits if_splits sum.splits)
  from assms(3) wb have "length b = unat (wb_size wb)" by (simp add: copied_def)
  with inv idle_worker f show ?thesis by (auto simp: s' queue_work_def inv_defs)
qed (use inv in simp)

lemma user_keeps:
  assumes "user_step polite ops s s'" and "upload_inv ops idle active s"
  shows "upload_inv ops idle active s'"
  using assms(1)
proof cases
  case Open
  with assms(2) show ?thesis by (auto simp: fpga_image_load_open_def split: if_splits)
next
  case (Ioctl cmd out)
  show ?thesis
  proof (cases cmd)
    case (IMAGE_LOAD_WRITE env)
    obtain r where "fpga_image_load_ioctl_write env s = (r, s')"
      using Ioctl(5) IMAGE_LOAD_WRITE by (auto simp: fpga_image_load_ioctl_def split: prod.splits)
    with write_keeps [OF assms(2)] Ioctl(3,4) IMAGE_LOAD_WRITE show ?thesis by blast
  next
    case IMAGE_LOAD_CANCEL
    with Ioctl(5) assms(2) cancel_keeps show ?thesis
      by (auto simp: fpga_image_load_ioctl_def fpga_image_load_ioctl_cancel_def split: if_splits)
  qed (use Ioctl(5) assms(2) in \<open>auto simp: fpga_image_load_ioctl_def split: sum.splits\<close>)
next
  case Release
  show ?thesis
  proof (cases "progress s = FW_UPLOAD_PROG_IDLE")
    case False
    from cancel_keeps [OF assms(2) False] show ?thesis by (simp add: Release fpga_image_load_release_def False)
  qed (use assms(2) in \<open>simp add: Release fpga_image_load_release_def\<close>)
next
  case Flushed
  with assms(2) show ?thesis by (auto simp: flushed_def split: if_splits)
qed

lemma reach_inv: "il_reach polite ops d s \<Longrightarrow> idle d \<Longrightarrow> upload_inv ops idle active s"
proof (induction rule: il_reach.induct)
  case Init
  then show ?case by (simp add: image_load_init_def inv_defs)
qed (auto intro: worker_keeps user_keeps)

lemma worker_not_stuck:
  assumes "upload_inv ops idle active s" and "worker s \<noteq> W_Idle"
  shows "\<exists>s'. worker_step ops s = Some s'"
  using assms by (cases "worker s") (auto simp: worker_step_def inv_defs Let_def split: option.splits prod.splits)

lemma worker_advances:
  assumes "upload_inv ops idle active s" and "worker_step ops s = Some s'"
  shows "work_left (worker s') (unat (remaining_size s')) < work_left (worker s) (unat (remaining_size s))"
proof (cases "worker s")
  case (W_Written offset e w)
  show ?thesis
  proof (cases "e = FW_UPLOAD_ERR_NONE \<and> w \<noteq> 0")
    case True
    with W_Written assms(1) have w: "w \<le> remaining_size s" by (auto simp: inv_defs)
    have "unat w \<noteq> 0" using True by (simp add: unat_eq_0)
    with w have "unat (remaining_size s - w) < unat (remaining_size s)"
      by (simp add: unat_sub word_le_nat_alt)
    with True W_Written assms(2) show ?thesis by (auto simp: worker_step_def)
  next
    case False
    with W_Written assms(2) show ?thesis by (auto simp: worker_step_def fw_upload_set_error_def)
  qed
qed (use assms in \<open>auto simp: worker_step_def fw_upload_update_progress_def fw_upload_set_error_def logged_def
    fw_upload_prog_complete_def worker_end_def inv_defs Let_def split: prod.splits option.splits if_splits\<close>)

lemma run_bounded:
  assumes "upload_run polite ops s n s'" and "upload_inv ops idle active s"
  shows "upload_inv ops idle active s' \<and>
     n + work_left (worker s') (unat (remaining_size s')) \<le> work_left (worker s) (unat (remaining_size s))"
  using assms
proof (induction rule: upload_run.induct)
  case (Work n s1 s2)
  with worker_keeps [OF _ Work(2)] worker_advances [OF _ Work(2)] show ?case by auto
next
  case (Meanwhile n s1 s2)
  with user_keeps [OF Meanwhile(3)] user_keeps_work [OF Meanwhile(3,2)] show ?case by auto
qed simp

end

section \<open>Drivers and arbitrary users\<close>

text \<open>
  A driver whose operations move it between idle and at work whatever buffer, offset and size it is given
  is at work exactly while the worker is between its prepare and its cleanup, however users behave: also
  when they start a second upload in the middle of the first.
\<close>

locale upload_states =
  fixes ops :: "'d fw_upload_ops" and idle :: "'d \<Rightarrow> bool" and active :: "'d \<Rightarrow> bool"
  assumes prepare_any: "idle d \<Longrightarrow> up_prepare ops data n d = (e, d') \<Longrightarrow>
      if e = FW_UPLOAD_ERR_NONE then active d' else idle d'"
    and write_any: "active d \<Longrightarrow> up_write ops data offset n w d = (r, d') \<Longrightarrow> active d'"
    and poll_any: "active d \<Longrightarrow> up_poll_complete ops d = (e, d') \<Longrightarrow> active d'"
    and cancel_any: "idle d \<Longrightarrow> idle (up_cancel ops d)" "active d \<Longrightarrow> active (up_cancel ops d)"
    and cleanup_any: "active d \<Longrightarrow> idle (case up_cleanup ops of None \<Rightarrow> d | Some cleanup \<Rightarrow> cleanup d)"
begin

definition state_follows :: "'d image_load \<Rightarrow> bool" where
  "state_follows s \<longleftrightarrow> (if at_work (worker s) then active (ddev s) else idle (ddev s))"

lemma worker_follows:
  assumes "state_follows s" and "worker_step ops s = Some s'"
  shows "state_follows s'"
proof (cases "worker s")
  case W_Prepare
  obtain e d where "up_prepare ops (ptr_bytes (fw_data s)) (remaining_size s) (ddev s) = (e, d)" by fastforce
  with W_Prepare assms prepare_any [OF _ this] show ?thesis
    by (cases "e = FW_UPLOAD_ERR_NONE") (auto simp: worker_step_def state_follows_def at_work_def logged_def Let_def)
next
  case (W_Loop offset w)
  obtain e w' d where "up_write ops (ptr_bytes (fw_data s)) offset (remaining_size s) w (ddev s) = ((e, w'), d)"
    by (metis prod.exhaust)
  with W_Loop assms write_any [OF _ this] show ?thesis
    by (auto simp: worker_step_def state_follows_def at_work_def logged_def split: if_splits)
next
  case W_Poll
  obtain e d where "up_poll_complete ops (ddev s) = (e, d)" by fastforce
  with W_Poll assms poll_any [OF _ this] show ?thesis
    by (cases "e = FW_UPLOAD_ERR_NONE") (auto simp: worker_step_def state_follows_def at_work_def logged_def)
next
  case W_Done
  with assms cleanup_any [of "ddev s"] show ?thesis
    by (auto simp: worker_step_def state_follows_def at_work_def logged_def split: option.splits)
qed (use assms in \<open>auto simp: worker_step_def state_follows_def at_work_def fw_upload_update_progress_def
    fw_upload_set_error_def fw_upload_prog_complete_def worker_end_def Let_def split: option.splits if_splits\<close>)

lemma cancel_follows: "state_follows s \<Longrightarrow> state_follows (logged C_Cancel (up_cancel ops (ddev s)) s)"
  using cancel_any [of "ddev s"] by (simp add: state_follows_def logged_def)

lemma write_follows:
  assumes "state_follows s" and "fpga_image_load_ioctl_write env s = (r, s')"
  shows "state_follows s'"
  using assms by (auto simp: fpga_image_load_ioctl_write_def queue_work_def state_follows_def at_work_def
      split: option.splits if_splits sum.splits)

lemma user_follows:
  assumes "user_step may ops s s'" and "state_follows s"
  shows "state_follows s'"
  using assms(1)
proof cases
  case (Ioctl cmd out)
  with assms(2) show ?thesis
    by (cases cmd) (auto simp: fpga_image_load_ioctl_def fpga_image_load_ioctl_cancel_def
        split: prod.splits sum.splits if_splits dest: write_follows cancel_follows)
next
  case Release
  with assms(2) cancel_follows [OF assms(2)] show ?thesis
    by (simp add: fpga_image_load_release_def state_follows_def)
qed (use assms(2) in \<open>auto simp: fpga_image_load_open_def flushed_def state_follows_def split: if_splits\<close>)

lemma reach_follows: "il_reach may ops d s \<Longrightarrow> idle d \<Longrightarrow> state_follows s"
proof (induction rule: il_reach.induct)
  case Init
  then show ?case by (simp add: state_follows_def image_load_init_def at_work_def)
qed (auto intro: worker_follows user_follows)

end

section \<open>Uploads\<close>

text \<open>
  C3. For users that start an upload only when the worker is done with the last one (\<open>polite\<close>; they may
  ask, cancel, close and open at any time), and for a driver that keeps its contract: the driver sees
  every upload as the protocol has it, one prepare, writes that follow each other and stay inside the
  buffer, one poll after all of it is written, one cleanup. When the worker is done, the upload has been
  programmed and no error is shown, or the driver was told to clean up (or never prepared) and the error
  shown is the one the driver reported. Without the condition on the users it is false: see
  \<open>second_write_accepted\<close> below.
\<close>

theorem upload_refines_protocol:
  assumes "upload_driver ops idle active" and "idle d" and "il_reach polite ops d s"
  shows "\<exists>ph. up_run (total_size s) P_New (calls s) = Some ph \<and>
       (worker s = W_Idle \<longrightarrow> calls s = [] \<or> settled ops ph (err_code s)) \<and>
       (\<forall>off n e w. C_Write off n e w \<in> set (calls s) \<longrightarrow> unat off + unat n = unat (total_size s))"
proof -
  have inv: "upload_inv ops idle active s" by (rule upload_driver.reach_inv [OF assms(1,3,2)])
  then obtain ph where ph: "up_run (total_size s) P_New (calls s) = Some ph" "at_phase ops ph s"
    by (auto simp: upload_inv_def)
  moreover have "unat off + unat n = unat (total_size s)" if "C_Write off n e w \<in> set (calls s)" for off n e w
    using up_run_ready [OF ph(1) _ that] by simp
  ultimately show ?thesis by (auto simp: at_phase_def)
qed

text \<open>
  C36. For users that start an upload only when the worker is done with the last one (\<open>polite\<close>), and for
  a driver that keeps its contract, the accounts are balanced at every moment: the worker holds the one
  reference to the parent and the one buffer until it is through, the event file is referenced exactly
  while it is remembered, and has been signalled once for every buffer accepted, but for the one under
  way. Between uploads nothing is held. Without the condition on the users an event file can be lost and
  a NULL one used: see \<open>second_write_accepted\<close>, \<open>early_write_oops\<close> and \<open>bad_event_file_oops\<close> below.
\<close>

theorem upload_accounts_balanced:
  assumes "upload_driver ops idle active" and "idle d" and "il_reach polite ops d s"
  shows "parent_refs s = of_bool (holding (worker s)) \<and> live_bufs s = of_bool (fw_data s \<noteq> None) \<and>
     event_refs s = (\<lambda>ev. of_bool (finished s = Some ev)) \<and>
     (\<forall>ev. accepted s ev = event_signals s ev + of_bool (finished s = Some ev \<and> progress s \<noteq> FW_UPLOAD_PROG_IDLE)) \<and>
     (worker s = W_Idle \<longrightarrow> fw_data s = None \<and> finished s = None \<and> idle (ddev s)) \<and> worker s \<noteq> W_Oops"
proof -
  have inv: "upload_inv ops idle active s" by (rule upload_driver.reach_inv [OF assms(1,3,2)])
  then have a: "upload_accounts s" and i: "worker s = W_Idle \<longrightarrow> idle (ddev s)"
    by (auto simp: upload_inv_def at_work_def split: if_splits)
  moreover have "(finished s = Some ev \<and> progress s \<noteq> FW_UPLOAD_PROG_IDLE) = (finished s = Some ev \<and> worker s \<noteq> W_Put)" for ev
    using a by (auto simp: upload_accounts_def)
  ultimately show ?thesis by (auto simp: upload_accounts_def holding_def)
qed

text \<open>
  C5. An upload ends when no other upload is started while it is at work (\<open>polite\<close>) and the driver keeps
  its contract, also when users cancel or close the device or ask for the status in between: the worker
  is never stuck, and is done after at most two steps for every byte that is left and eleven more. So
  closing the device returns.
\<close>

theorem upload_ends:
  assumes "upload_driver ops idle active" and "idle d" and "il_reach polite ops d s" and "upload_run polite ops s n s'"
  shows "n \<le> 2 * unat (remaining_size s) + 11 \<and> (worker s' = W_Idle \<or> (\<exists>s''. worker_step ops s' = Some s'')) \<and>
     (n = 2 * unat (remaining_size s) + 11 \<longrightarrow> worker s' = W_Idle)"
proof -
  have inv: "upload_inv ops idle active s" by (rule upload_driver.reach_inv [OF assms(1,3,2)])
  from upload_driver.run_bounded [OF assms(1,4) inv]
  have inv': "upload_inv ops idle active s'"
    and n: "n + work_left (worker s') (unat (remaining_size s')) \<le> work_left (worker s) (unat (remaining_size s))" by auto
  have "work_left (worker s) (unat (remaining_size s)) \<le> 2 * unat (remaining_size s) + 11"
    by (cases "worker s") simp_all
  moreover have "worker s' = W_Idle" if "work_left (worker s') (unat (remaining_size s')) = 0"
    using that inv' by (cases "worker s'") (simp_all add: upload_inv_def upload_accounts_def)
  ultimately show ?thesis using n upload_driver.worker_not_stuck [OF assms(1) inv'] by fastforce
qed

section \<open>A driver in memory\<close>

text \<open>A driver that keeps what is written, a byte at a time; it can be told to fail.\<close>

definition ram_ops :: "(bool \<times> byte list) fw_upload_ops" where
  "ram_ops = \<lparr>up_prepare = \<lambda>data n d. (FW_UPLOAD_ERR_NONE, (True, [])),
     up_write = \<lambda>data offset n w d. ((FW_UPLOAD_ERR_NONE, min n 1), (fst d, snd d @ take 1 (drop (unat offset) data))),
     up_poll_complete = \<lambda>d. (FW_UPLOAD_ERR_NONE, d), up_cancel = \<lambda>d. d, up_cleanup = Some (\<lambda>d. (False, snd d))\<rparr>"

interpretation ram: upload_states ram_ops "\<lambda>d. \<not> fst d" fst
  by unfold_locales (auto simp: ram_ops_def)

lemma ram_driver: "upload_driver ram_ops (\<lambda>d. \<not> fst d) fst"
  by unfold_locales (auto simp: ram_ops_def)

definition write_env0 :: write_env where
  "write_env0 = \<lparr>we_wb = Some \<lparr>wb_flags = 0, wb_size = 1, wb_evtfd = 3\<rparr>, we_vzalloc = True, we_buf = Some [7],
     we_eventfd = \<lambda>fd. Inr 9\<rparr>"

fun worker_steps :: "'d fw_upload_ops \<Rightarrow> nat \<Rightarrow> 'd image_load \<Rightarrow> 'd image_load option" where
  "worker_steps ops 0 s = Some s"
| "worker_steps ops (Suc n) s = (case worker_step ops s of None \<Rightarrow> None | Some s \<Rightarrow> worker_steps ops n s)"

lemma steps_reach: "il_reach may ops d s \<Longrightarrow> worker_steps ops n s = Some s' \<Longrightarrow> il_reach may ops d s'"
  by (induction n arbitrary: s) (auto split: option.splits intro: il_reach.Worker)

lemma steps_run: "upload_run may ops s0 m s \<Longrightarrow> worker_steps ops n s = Some s' \<Longrightarrow> upload_run may ops s0 (m + n) s'"
proof (induction n arbitrary: m s)
  case (Suc n)
  then obtain s1 where "worker_step ops s = Some s1" "worker_steps ops n s1 = Some s'" by (auto split: option.splits)
  with Suc.IH [of "Suc m" s1] upload_run.Work [OF Suc.prems(1)] show ?case by simp
qed simp

definition upload0 :: "(bool \<times> byte list) image_load" where
  "upload0 = snd (fpga_image_load_ioctl_write write_env0 (snd (fpga_image_load_open (image_load_init (False, [])))))"

lemmas upload0_simps = upload0_def write_env0_def image_load_init_def fpga_image_load_open_def
  fpga_image_load_ioctl_write_def queue_work_def

lemma upload0_reach: "il_reach polite ram_ops (False, []) upload0"
proof -
  let ?s0 = "image_load_init (False, [])" and ?env = write_env0
  let ?s1 = "snd (fpga_image_load_open ?s0)"
  have "il_reach polite ram_ops (False, []) ?s1"
    by (rule il_reach.User [OF il_reach.Init], rule user_step.Open)
      (simp add: image_load_init_def fpga_image_load_open_def)
  moreover have "user_step polite ram_ops ?s1 upload0"
    by (rule user_step.Ioctl [where cmd = "IMAGE_LOAD_WRITE write_env0" and out = "(None, None)"])
      (simp_all add: upload0_simps polite_def copied_def fpga_image_load_ioctl_def)
  ultimately show ?thesis by (rule il_reach.User)
qed

lemmas step_simps = worker_step_def fw_upload_update_progress_def fw_upload_set_error_def logged_def
  fw_upload_prog_complete_def worker_end_def ptr_bytes_def ram_ops_def

lemma upload0_run: "\<exists>s'. worker_steps ram_ops 12 upload0 = Some s' \<and> worker s' = W_Idle \<and> snd (ddev s') = [7] \<and>
  event_signals s' 9 = 1 \<and> calls s' = [C_Prepare 1 FW_UPLOAD_ERR_NONE, C_Write 0 1 FW_UPLOAD_ERR_NONE 1,
     C_Poll FW_UPLOAD_ERR_NONE, C_Cleanup]"
  by (simp add: upload0_simps numeral_nat step_simps)

theorem upload_refines_protocol_witness:
  "\<exists>s ph. il_reach polite ram_ops (False, []) s \<and> worker s = W_Idle \<and> calls s \<noteq> [] \<and>
     up_run (total_size s) P_New (calls s) = Some ph \<and> settled ram_ops ph (err_code s)"
proof -
  obtain s where s: "worker_steps ram_ops 12 upload0 = Some s" "worker s = W_Idle" "calls s \<noteq> []"
    using upload0_run by fastforce
  then have r: "il_reach polite ram_ops (False, []) s" using steps_reach [OF upload0_reach] by blast
  with upload_refines_protocol [OF ram_driver _ r] s show ?thesis by auto
qed

theorem upload_accounts_balanced_witness:
  "parent_refs upload0 = 1 \<and> event_refs upload0 9 = 1"
proof -
  have "worker upload0 = W_Queued \<and> finished upload0 = Some 9" by (simp add: upload0_simps)
  with upload_accounts_balanced [OF ram_driver _ upload0_reach] show ?thesis by (simp add: holding_def)
qed

theorem upload_ends_witness:
  "\<exists>s. upload_run polite ram_ops upload0 12 s \<and> worker s = W_Idle \<and> (12::nat) \<le> 2 * unat (remaining_size upload0) + 11"
proof -
  obtain s where s: "worker_steps ram_ops 12 upload0 = Some s" "worker s = W_Idle" using upload0_run by fastforce
  have run: "upload_run polite ram_ops upload0 12 s" using steps_run [OF upload_run.Here s(1)] by simp
  with upload_ends [OF ram_driver _ upload0_reach run] s(2) show ?thesis by auto
qed

section \<open>Impolite users\<close>

text \<open>
  A second buffer is accepted while an upload is under way: the reference to the first event file is
  never given back, nor is the first buffer freed, and a worker in its loop goes on at its old offset
  with the size of the new buffer, behind whose end it will let the driver read.
\<close>

theorem second_write_accepted:
  assumes "worker s = W_Loop offset w" and "finished s = Some ev" and "0 < offset"
    and "we_wb env = Some wb" and "wb_flags wb = 0" and "wb_size wb \<noteq> 0" and "0 \<le> wb_evtfd wb" and "we_vzalloc env"
    and "we_buf env = Some b" and "length b = unat (wb_size wb)" and "we_eventfd env (wb_evtfd wb) = Inr ev'" and "ev' \<noteq> ev"
  shows "\<exists>s'. fpga_image_load_ioctl_write env s = (None, s') \<and> finished s' = Some ev' \<and> event_refs s' ev = event_refs s ev \<and>
     live_bufs s' = live_bufs s + 1 \<and> worker s' = W_Loop offset w \<and> fw_data s' = Some b \<and>
     length b < unat offset + unat (remaining_size s')"
  using assms by (auto simp: fpga_image_load_ioctl_write_def queue_work_def word_less_nat_alt)

text \<open>
  A user who starts the next upload as soon as the event is signalled can be faster than the worker,
  which then puts the new event file and forgets it: the next upload ends in a use of NULL. So does
  an upload during which a write with a descriptor that is no event file is tried.
\<close>

theorem early_write_oops:
  "\<exists>s1 s2. worker_steps ram_ops 11 upload0 = Some s1 \<and> event_signals s1 9 = 1 \<and> progress s1 = FW_UPLOAD_PROG_IDLE \<and>
     fpga_image_load_ioctl_write write_env0 s1 = (None, s2) \<and>
     (\<exists>s3. worker_steps ram_ops 12 s2 = Some s3 \<and> worker s3 = W_Oops)"
  by (simp add: upload0_simps numeral_nat step_simps)

theorem bad_event_file_oops:
  "\<exists>s1. fpga_image_load_ioctl_write (write_env0\<lparr>we_eventfd := \<lambda>fd. Inl EINVAL\<rparr>) upload0 = (Some EINVAL, s1) \<and>
     (\<exists>s2. worker_steps ram_ops 11 s1 = Some s2 \<and> worker s2 = W_Oops)"
  by (simp add: upload0_simps numeral_nat step_simps)

end
