(* ===== verification/M10bmc_Sec_Props.thy ===== *)
theory M10bmc_Sec_Props
  imports M10bmc_Sec Image_Load_Props
begin

text \<open>
  The secure update driver meets the contract of the image load framework: it holds the flash memory
  and leaves the normal firmware state exactly while an upload is at work, whatever the registers give.
\<close>

section \<open>Accesses only\<close>

text \<open>Most operations do nothing but read and update registers; they write no data.\<close>

definition stores :: "regio \<Rightarrow> bool" where
  "stores x \<longleftrightarrow> (case x of RM_Write _ _ _ \<Rightarrow> True | RM_Bulk_Write _ _ _ \<Rightarrow> True | _ \<Rightarrow> False)"

definition accesses :: "'f m10bmc_sec \<Rightarrow> 'f m10bmc_sec \<Rightarrow> bool" where
  "accesses s s' \<longleftrightarrow> (\<exists>t. s' = s\<lparr>mb_hist := mb_hist s @ t\<rparr> \<and> (\<forall>x \<in> set t. \<not> stores x))"

named_theorems quiet \<open>operations that only access registers\<close>

lemma accesses_refl [simp]: "accesses s s"
  by (auto simp: accesses_def intro: exI [of _ "[]"])

lemma accesses_trans [trans]:
  assumes "accesses s s'" and "accesses s' s''"
  shows "accesses s s''"
proof -
  from assms obtain t t' where "s' = s\<lparr>mb_hist := mb_hist s @ t\<rparr>" "s'' = s'\<lparr>mb_hist := mb_hist s' @ t'\<rparr>"
    "\<forall>x \<in> set t. \<not> stores x" "\<forall>x \<in> set t'. \<not> stores x" by (auto simp: accesses_def)
  then show ?thesis by (auto simp: accesses_def intro!: exI [of _ "t @ t'"])
qed

lemma accessesD: "accesses s s' \<Longrightarrow> mb_flash s' = mb_flash s \<and> bmcfw_state s' = bmcfw_state s \<and> cancel_request s' = cancel_request s"
  by (auto simp: accesses_def)

lemma quiet_regmap [quiet]:
  "regmap_read env a s = (v, s') \<Longrightarrow> accesses s s'"
  "regmap_update_bits env a m x s = (r, s') \<Longrightarrow> accesses s s'"
  "regmap_bulk_read env a n s = (q, s') \<Longrightarrow> accesses s s'"
  by (auto simp: accesses_def stores_def regmap_read_def regmap_update_bits_def regmap_bulk_read_def Let_def)

lemma quiet_sys_read [quiet]: "m10bmc_sys_read env a s = (v, s') \<Longrightarrow> accesses s s'"
  by (auto simp: m10bmc_sys_read_def m10bmc_raw_read_def quiet split: if_splits)

lemma quiet_sys_update [quiet]: "m10bmc_sys_update_bits env a m x s = (r, s') \<Longrightarrow> accesses s s'"
  by (auto simp: m10bmc_sys_update_bits_def quiet split: if_splits)

lemma quiet_rsu_status [quiet]: "rsu_status env s = (v, s') \<Longrightarrow> accesses s s'"
  by (auto simp: rsu_status_def m10bmc_sec_n3000_rsu_status_def m10bmc_sec_n6000_rsu_status_def dest: quiet
      split: if_splits prod.splits sum.splits)

lemma quiet_log_read: "accesses s (log_read env a s)"
  unfolding log_read_def by (rule quiet_sys_read [OF surjective_pairing])

lemma quiet_log: "accesses s (log_error_regs env s)"
proof -
  let ?s0 = "log_read env (csr_auth_result (csrs env)) s"
  obtain v s1 where v: "rsu_status env ?s0 = (v, s1)" by fastforce
  have "accesses s ?s0" by (rule quiet_log_read)
  also have "accesses ?s0 s1" by (rule quiet_rsu_status [OF v])
  finally have "accesses s s1" .
  moreover have "accesses s1 (log_read env a (log_read env b s1))" for a b
    by (rule accesses_trans [OF quiet_log_read quiet_log_read])
  ultimately show ?thesis using accesses_trans [OF _ quiet_log_read]
    by (auto simp: log_error_regs_def v split: sum.splits intro: accesses_trans)
qed

lemma quiet_progress [quiet]: "m10bmc_sec_progress_status env s = (v, s') \<Longrightarrow> accesses s s'"
  by (auto simp: m10bmc_sec_progress_status_def dest!: quiet split: prod.splits sum.splits intro: accesses_trans)

lemma quiet_read_poll:
  assumes "\<And>s v s'. f s = (v, s') \<Longrightarrow> accesses s s'"
  shows "read_poll f c n s = (v, s') \<Longrightarrow> accesses s s'"
proof (induction n arbitrary: s)
  case 0
  then show ?case by (auto split: prod.splits dest: assms)
next
  case (Suc n)
  obtain w s1 where w: "f s = (w, s1)" by fastforce
  with Suc assms [OF w] show ?case by (auto split: if_splits intro: accesses_trans)
qed

lemma quiet_regmap_poll [quiet]: "regmap_read_poll env a c n s = (v, s') \<Longrightarrow> accesses s s'"
  using quiet_read_poll [of "regmap_read env a", OF quiet_regmap(1)]
  by (fastforce simp: regmap_read_poll_def split: prod.splits sum.splits option.splits)


text \<open>\<open>accesses s\<close> at the end of a chain, with or without logging.\<close>

lemma quiet_then_log: "accesses s s' \<Longrightarrow> accesses s (log_error_regs env s')"
  by (rule accesses_trans [OF _ quiet_log])

lemma quiet_check_idle [quiet]: "rsu_check_idle env s = (v, s') \<Longrightarrow> accesses s s'"
  by (auto simp: rsu_check_idle_def dest!: quiet_sys_read intro: quiet_then_log split: prod.splits sum.splits if_splits)

lemma quiet_cancel [quiet]: "rsu_cancel env s = (v, s') \<Longrightarrow> accesses s s'"
  by (auto simp: rsu_cancel_def dest!: quiet_sys_read quiet_sys_update intro: accesses_trans
      split: prod.splits sum.splits option.splits if_splits)

lemma quiet_update_init [quiet]:
  assumes "rsu_update_init env s = (v, s')"
  shows "accesses s s'"
proof -
  let ?c = "\<lambda>v. case v of Inl e \<Rightarrow> True | Inr (doorbell, prog, status) \<Rightarrow> rsu_start_done doorbell prog status"
  obtain r s1 where u: "m10bmc_sys_update_bits env (csr_doorbell (csrs env)) (DRBL_RSU_REQUEST OR DRBL_HOST_STATUS)
      (DRBL_RSU_REQUEST OR field_prep32 8 HOST_STATUS_IDLE) s = (r, s1)" by fastforce
  obtain q w s2 where p: "read_poll (m10bmc_sec_progress_status env) ?c (se_handshake_polls env) s1 = ((q, w), s2)"
    by (metis prod.exhaust)
  have a: "accesses s s1" by (rule quiet_sys_update [OF u])
  then have b: "accesses s s2" by (rule accesses_trans) (rule quiet_read_poll [OF quiet_progress p])
  from assms u p a b show ?thesis
    by (auto simp: rsu_update_init_def quiet_then_log split: option.splits sum.splits if_splits)
qed

lemma quiet_ready_loop: "prog_ready_loop env n doorbell s = (v, s') \<Longrightarrow> accesses s s'"
proof (induction n arbitrary: doorbell s)
  case (Suc n)
  obtain w s1 where w: "m10bmc_sys_read env (csr_doorbell (csrs env)) s = (w, s1)" by fastforce
  from quiet_sys_read [OF w] Suc w show ?case by (auto split: if_splits sum.splits intro: accesses_trans)
qed simp

lemma quiet_prog_ready [quiet]: "rsu_prog_ready env s = (v, s') \<Longrightarrow> accesses s s'"
  by (auto simp: rsu_prog_ready_def dest!: quiet_sys_read quiet_ready_loop intro: accesses_trans quiet_then_log
      split: prod.splits sum.splits if_splits)

lemma quiet_send_data [quiet]:
  assumes "rsu_send_data env s = (v, s')"
  shows "accesses s s'"
proof -
  obtain r s1 where u: "m10bmc_sys_update_bits env (csr_doorbell (csrs env)) DRBL_HOST_STATUS
      (field_prep32 8 HOST_STATUS_WRITE_DONE) s = (r, s1)" by fastforce
  obtain w s2 where p: "regmap_read_poll env (csr_base (csrs env) + csr_doorbell (csrs env))
      (\<lambda>v. rsu_prog v \<noteq> RSU_PROG_READY) (se_handshake_polls env) s1 = (w, s2)" by fastforce
  obtain x s3 where st: "rsu_status env s2 = (x, s3)" by fastforce
  have a: "accesses s s1" by (rule quiet_sys_update [OF u])
  then have b: "accesses s s2" by (rule accesses_trans) (rule quiet_regmap_poll [OF p])
  then have c: "accesses s s3" by (rule accesses_trans) (rule quiet_rsu_status [OF st])
  from assms u p st a b c show ?thesis
    by (auto simp: rsu_send_data_def quiet_then_log split: option.splits sum.splits if_splits)
qed

lemma quiet_check_complete [quiet]: "rsu_check_complete env s = (v, s') \<Longrightarrow> accesses s s'"
  by (auto simp: rsu_check_complete_def dest!: quiet_progress split: prod.splits sum.splits if_splits)

lemma quiet_complete_loop [quiet]: "complete_loop env n s = (v, s') \<Longrightarrow> accesses s s'"
proof (induction n arbitrary: s)
  case 0
  then show ?case by (simp add: quiet_check_complete)
next
  case (Suc n)
  obtain r s1 where r: "rsu_check_complete env s = (r, s1)" by fastforce
  from quiet_check_complete [OF r] Suc r show ?case by (auto split: if_splits intro: accesses_trans)
qed


text \<open>Preparing forgets a cancel that came before it.\<close>

lemma early_cancel_lost: "m10bmc_sec_prepare env data n (m10bmc_sec_cancel s) = m10bmc_sec_prepare env data n s"
  by (simp add: m10bmc_sec_prepare_def m10bmc_sec_cancel_def Let_def)

section \<open>Holding the flash memory\<close>

text \<open>What the driver relies on in the flash operations of a board, if it has some.\<close>

locale flash_lock =
  fixes env :: "'f sec_env" and locked :: "'f \<Rightarrow> bool"
  assumes flash_lock_law: "mb_flash_ops env = Some fops \<Longrightarrow> \<not> locked f \<Longrightarrow> fl_lock_write fops f = (r, f') \<Longrightarrow> locked f' = (r = None)"
    and flash_unlock_law: "mb_flash_ops env = Some fops \<Longrightarrow> locked f \<Longrightarrow> \<not> locked (fl_unlock_write fops f)"
    and flash_write_law: "mb_flash_ops env = Some fops \<Longrightarrow> locked f \<Longrightarrow> fl_write fops buf offset sz f = (r, f') \<Longrightarrow> locked f'"

text \<open>
  Between updates and within one: the lock, and the firmware state on boards that keep it.
\<close>

definition flash_held :: "'f sec_env \<Rightarrow> ('f \<Rightarrow> bool) \<Rightarrow> bool \<Rightarrow> 'f m10bmc_sec \<Rightarrow> bool" where
  "flash_held env locked b s \<longleftrightarrow> (mb_flash_ops env \<noteq> None \<longrightarrow> locked (mb_flash s) = b)"

definition fw_state_in :: "'f sec_env \<Rightarrow> m10bmc_fw_state list \<Rightarrow> 'f m10bmc_sec \<Rightarrow> bool" where
  "fw_state_in env sts s \<longleftrightarrow> (handshake_sys_reg_ranges (mb_info env) \<noteq> [] \<longrightarrow> bmcfw_state s \<in> set sts)"

definition sec_idle :: "'f sec_env \<Rightarrow> ('f \<Rightarrow> bool) \<Rightarrow> 'f m10bmc_sec \<Rightarrow> bool" where
  "sec_idle env locked s \<longleftrightarrow> flash_held env locked False s \<and> fw_state_in env [M10BMC_FW_STATE_NORMAL] s"

definition sec_active :: "'f sec_env \<Rightarrow> ('f \<Rightarrow> bool) \<Rightarrow> 'f m10bmc_sec \<Rightarrow> bool" where
  "sec_active env locked s \<longleftrightarrow> flash_held env locked True s \<and>
     fw_state_in env [M10BMC_FW_STATE_SEC_UPDATE_WRITE, M10BMC_FW_STATE_SEC_UPDATE_PROGRAM] s"

lemma accesses_held: "accesses s s' \<Longrightarrow> flash_held env locked b s' = flash_held env locked b s"
  by (auto simp: accesses_def flash_held_def)

lemma accesses_state: "accesses s s' \<Longrightarrow> fw_state_in env sts s' = fw_state_in env sts s"
  by (auto simp: accesses_def fw_state_in_def)

lemma accesses_idle: "accesses s s' \<Longrightarrow> sec_idle env locked s' = sec_idle env locked s"
  by (simp add: sec_idle_def accesses_held accesses_state)

lemma accesses_active: "accesses s s' \<Longrightarrow> sec_active env locked s' = sec_active env locked s"
  by (simp add: sec_active_def accesses_held accesses_state)

lemma held_state_set [simp]: "flash_held env locked b (m10bmc_fw_state_set env st s) = flash_held env locked b s"
  by (simp add: flash_held_def m10bmc_fw_state_set_def)

lemma state_in_set [simp]: "fw_state_in env sts (m10bmc_fw_state_set env st s) = (handshake_sys_reg_ranges (mb_info env) = [] \<or> st \<in> set sts)"
  by (auto simp: fw_state_in_def m10bmc_fw_state_set_def)

lemma cancel_request_frame [simp]:
  "flash_held env locked b (s\<lparr>cancel_request := c\<rparr>) = flash_held env locked b s"
  "fw_state_in env sts (s\<lparr>cancel_request := c\<rparr>) = fw_state_in env sts s"
  by (simp_all add: flash_held_def fw_state_in_def)

lemma meanwhile_frame [simp]:
  "flash_held env locked b (cancelled_meanwhile env s) = flash_held env locked b s"
  "fw_state_in env sts (cancelled_meanwhile env s) = fw_state_in env sts s"
  by (simp_all add: cancelled_meanwhile_def m10bmc_sec_cancel_def)

context flash_lock
begin

lemma lock_flash_held:
  assumes "lock_flash env s = (r, s')" and "flash_held env locked False s"
  shows "flash_held env locked (r = None) s' \<and> (\<forall>sts. fw_state_in env sts s' = fw_state_in env sts s)"
  using assms flash_lock_law [of _ "mb_flash s"]
  by (auto simp: lock_flash_def flash_held_def fw_state_in_def split: option.splits prod.splits)

lemma unlock_flash_held:
  assumes "flash_held env locked True s"
  shows "flash_held env locked False (unlock_flash env s) \<and> (\<forall>sts. fw_state_in env sts (unlock_flash env s) = fw_state_in env sts s)"
  using assms flash_unlock_law [of _ "mb_flash s"]
  by (auto simp: unlock_flash_def flash_held_def fw_state_in_def split: option.splits)

lemma exit_idle: "flash_held env locked True s \<Longrightarrow> sec_idle env locked (fw_state_exit env s)"
  using unlock_flash_held [of "m10bmc_fw_state_set env M10BMC_FW_STATE_NORMAL s"]
  by (simp add: fw_state_exit_def sec_idle_def)

lemma sec_write_held:
  assumes "m10bmc_sec_write env buf offset sz s = (r, s')" and "flash_held env locked True s"
  shows "flash_held env locked True s' \<and> (\<forall>sts. fw_state_in env sts s' = fw_state_in env sts s)"
proof (cases "mb_flash_ops env")
  case None
  with assms show ?thesis
    by (auto simp: m10bmc_sec_write_def regmap_bulk_write_def regmap_write_def flash_held_def fw_state_in_def Let_def
        split: if_splits option.splits prod.splits)
next
  case (Some fops)
  with assms flash_write_law [OF Some, of "mb_flash s"] show ?thesis
    by (auto simp: m10bmc_sec_write_def flash_held_def fw_state_in_def Let_def split: prod.splits)
qed

lemma prepare_contract:
  assumes "sec_idle env locked s" and "m10bmc_sec_prepare env data sz s = (ret, s')"
  shows "if ret = FW_UPLOAD_ERR_NONE then sec_active env locked s' else sec_idle env locked s'"
proof (cases "sz = 0 \<or> sz > csr_staging_size (csrs env)")
  case True
  with assms show ?thesis by (auto simp: m10bmc_sec_prepare_def sec_idle_def Let_def)
next
  case False
  let ?s0 = "s\<lparr>cancel_request := False\<rparr>"
  obtain r s1 where l: "lock_flash env ?s0 = (r, s1)" by fastforce
  have s1: "flash_held env locked (r = None) s1" "fw_state_in env [M10BMC_FW_STATE_NORMAL] s1"
    using lock_flash_held [OF l] assms(1) by (simp_all add: sec_idle_def)
  show ?thesis
  proof (cases r)
    case (Some e)
    with False assms(2) l s1 show ?thesis by (auto simp: m10bmc_sec_prepare_def Let_def sec_idle_def)
  next
    case None
    obtain r2 s2 where c: "rsu_check_idle env s1 = (r2, s2)" by fastforce
    have s2: "flash_held env locked True s2" "fw_state_in env [M10BMC_FW_STATE_NORMAL] s2"
      using quiet_check_idle [OF c] s1 None by (simp_all add: accesses_held accesses_state)
    show ?thesis
    proof (cases "r2 = FW_UPLOAD_ERR_NONE")
      case False
      with \<open>\<not> (sz = 0 \<or> sz > csr_staging_size (csrs env))\<close> assms(2) l c None s2 unlock_flash_held [OF s2(1)] show ?thesis
        by (auto simp: m10bmc_sec_prepare_def Let_def sec_idle_def)
    next
      case True
      let ?s2 = "m10bmc_fw_state_set env M10BMC_FW_STATE_SEC_UPDATE_PREPARE s2"
      obtain r3 s3 where u: "rsu_update_init env ?s2 = (r3, s3)" by fastforce
      obtain r4 s4 where y: "rsu_prog_ready env s3 = (r4, s4)" by fastforce
      let ?s4 = "cancelled_meanwhile env s4"
      obtain r5 s5 where x: "rsu_cancel env ?s4 = (r5, s5)" by fastforce
      have s3: "flash_held env locked True s3" using quiet_update_init [OF u] s2 by (simp add: accesses_held)
      have s4: "flash_held env locked True s4" using quiet_prog_ready [OF y] s3 by (simp add: accesses_held)
      have s5: "flash_held env locked True s5" using quiet_cancel [OF x] s4 by (simp add: accesses_held)
      have "r5 \<noteq> FW_UPLOAD_ERR_NONE"
        using x by (auto simp: rsu_cancel_def split: prod.splits sum.splits option.splits if_splits)
      with False None True assms(2) l c u y x show ?thesis
        using exit_idle [OF s3] exit_idle [OF s4] exit_idle [OF s5] s4
        by (auto simp: m10bmc_sec_prepare_def Let_def sec_active_def split: if_splits)
    qed
  qed
qed

lemma write_contract:
  assumes "sec_active env locked s" and "m10bmc_sec_fw_write env data offset sz w s = ((ret, w'), s')"
  shows "sec_active env locked s' \<and> (ret = FW_UPLOAD_ERR_NONE \<longrightarrow> w' \<le> sz)"
proof (cases "cancel_request s")
  case True
  obtain r s1 where x: "rsu_cancel env s = (r, s1)" by fastforce
  have "r \<noteq> FW_UPLOAD_ERR_NONE"
    using x by (auto simp: rsu_cancel_def split: prod.splits sum.splits option.splits if_splits)
  with True assms x accesses_active [OF quiet_cancel [OF x]] show ?thesis by (auto simp: m10bmc_sec_fw_write_def)
next
  case False
  obtain v s1 where v: "m10bmc_sys_read env (csr_doorbell (csrs env)) s = (v, s1)" by fastforce
  have s1: "sec_active env locked s1" using accesses_active [OF quiet_sys_read [OF v]] assms(1) by simp
  obtain r s2 where x: "m10bmc_sec_write env data offset (min WRITE_BLOCK_SIZE sz) s1 = (r, s2)" by fastforce
  have s2: "sec_active env locked s2"
    using sec_write_held [OF x] s1 by (simp add: sec_active_def)
  from False assms(2) v x s1 s2 accesses_active [OF quiet_log, of env locked env s1] show ?thesis
    by (auto simp: m10bmc_sec_fw_write_def Let_def split: sum.splits option.splits if_splits)
qed

lemma poll_contract:
  assumes "sec_active env locked s" and "m10bmc_sec_poll_complete env s = (ret, s')"
  shows "sec_active env locked s'"
proof (cases "cancel_request s")
  case True
  then have "rsu_cancel env s = (ret, s')" using assms(2) by (simp add: m10bmc_sec_poll_complete_def)
  from accesses_active [OF quiet_cancel [OF this]] assms(1) show ?thesis by simp
next
  case False
  let ?s0 = "m10bmc_fw_state_set env M10BMC_FW_STATE_SEC_UPDATE_PROGRAM s"
  have s0: "sec_active env locked ?s0" using assms(1) by (simp add: sec_active_def)
  obtain r s1 where d: "rsu_send_data env ?s0 = (r, s1)" by fastforce
  have s1: "sec_active env locked s1" using accesses_active [OF quiet_send_data [OF d]] s0 by simp
  obtain q s2 where c: "complete_loop env (se_complete_polls env) s1 = (q, s2)" by fastforce
  have s2: "sec_active env locked s2" using accesses_active [OF quiet_complete_loop [OF c]] s1 by simp
  from False assms(2) d c s1 s2 accesses_active [OF quiet_log, of env locked env s2] show ?thesis
    by (auto simp: m10bmc_sec_poll_complete_def split: option.splits if_splits)
qed

lemma cleanup_contract: "sec_active env locked s \<Longrightarrow> sec_idle env locked (m10bmc_sec_cleanup env s)"
proof -
  assume a: "sec_active env locked s"
  obtain r s1 where x: "rsu_cancel env s = (r, s1)" by fastforce
  have "flash_held env locked True s1" using a quiet_cancel [OF x] by (simp add: sec_active_def accesses_held)
  from exit_idle [OF this] show ?thesis by (simp add: m10bmc_sec_cleanup_def fw_state_exit_def x)
qed

end

sublocale flash_lock \<subseteq> upload_driver "m10bmc_ops env" "sec_idle env locked" "sec_active env locked"
proof unfold_locales
  fix d :: "'f m10bmc_sec" and data n e d'
  assume "sec_idle env locked d" and "up_prepare (m10bmc_ops env) data n d = (e, d')"
  then show "if e = FW_UPLOAD_ERR_NONE then sec_active env locked d' else sec_idle env locked d'"
    using prepare_contract by (simp add: m10bmc_ops_def)
next
  fix d :: "'f m10bmc_sec" and data offset n w e w' d'
  assume "sec_active env locked d" and "up_write (m10bmc_ops env) data offset n w d = ((e, w'), d')"
  then show "sec_active env locked d' \<and> (e = FW_UPLOAD_ERR_NONE \<longrightarrow> w' \<le> n)"
    using write_contract by (simp add: m10bmc_ops_def)
next
  fix d :: "'f m10bmc_sec" and e d'
  assume "sec_active env locked d" and "up_poll_complete (m10bmc_ops env) d = (e, d')"
  then show "sec_active env locked d'" using poll_contract by (simp add: m10bmc_ops_def)
next
  fix d :: "'f m10bmc_sec" assume "sec_idle env locked d"
  then show "sec_idle env locked (up_cancel (m10bmc_ops env) d)"
    by (simp add: m10bmc_ops_def m10bmc_sec_cancel_def sec_idle_def)
next
  fix d :: "'f m10bmc_sec" assume "sec_active env locked d"
  then show "sec_active env locked (up_cancel (m10bmc_ops env) d)"
    by (simp add: m10bmc_ops_def m10bmc_sec_cancel_def sec_active_def)
next
  fix d :: "'f m10bmc_sec" assume "sec_active env locked d"
  then show "sec_idle env locked (case up_cleanup (m10bmc_ops env) of None \<Rightarrow> d | Some cleanup \<Rightarrow> cleanup d)"
    using cleanup_contract by (simp add: m10bmc_ops_def)
qed

text \<open>The same for users of any manners: no operation looks at how long the buffer is.\<close>

sublocale flash_lock \<subseteq> any: upload_states "m10bmc_ops env" "sec_idle env locked" "sec_active env locked"
proof unfold_locales
  fix d :: "'f m10bmc_sec" and data n e d'
  assume "sec_idle env locked d" and "up_prepare (m10bmc_ops env) data n d = (e, d')"
  then show "if e = FW_UPLOAD_ERR_NONE then sec_active env locked d' else sec_idle env locked d'"
    using prepare_contract by (simp add: m10bmc_ops_def)
next
  fix d :: "'f m10bmc_sec" and data offset n w r d'
  assume "sec_active env locked d" and "up_write (m10bmc_ops env) data offset n w d = (r, d')"
  then show "sec_active env locked d'" using write_contract by (cases r) (simp add: m10bmc_ops_def)
qed (use poll_law cancel_idle cancel_active cleanup_law in blast)+

end
