(* ===== verification/M10bmc_Pmci_Props.thy ===== *)
theory M10bmc_Pmci_Props
  imports M10bmc_Pmci
begin

unbundle bit_operations_syntax

text \<open>What a write to the flash memory of a board pushes to its FIFO.\<close>

section \<open>Words and bytes\<close>

lemma byte_bit:
  fixes b :: byte
  assumes "8 \<le> n"
  shows "\<not> bit b n"
proof
  assume "bit b n"
  then have "n < LENGTH(8)" by (rule bit_imp_le_length)
  with assms show False by simp
qed

lemma cpu_to_le32_to_cpu:
  assumes "4 \<le> length bs"
  shows "cpu_to_le32 (le32_to_cpu bs) = take 4 bs"
proof -
  have "take 4 bs = [bs ! 0, bs ! 1, bs ! 2, bs ! 3]"
    using assms by (simp add: list_eq_iff_nth_eq less_Suc_eq numeral_eq_Suc)
  moreover have "cpu_to_le32 (le32_to_cpu bs) = [bs ! 0, bs ! 1, bs ! 2, bs ! 3]"
    unfolding cpu_to_le32_def le32_to_cpu_def
    by (auto intro!: bit_eqI simp: bit_simps byte_bit)
  ultimately show ?thesis by simp
qed

abbreviation bytes_of :: "u32 list \<Rightarrow> byte list" where
  "bytes_of ws \<equiv> concat (map cpu_to_le32 ws)"

lemma bytes_of_buf_words: "ofst + 4 * n \<le> length buf \<Longrightarrow> bytes_of (buf_words buf ofst n) = take (4 * n) (drop ofst buf)"
proof (induction n)
  case (Suc n)
  have "bytes_of (buf_words buf ofst (Suc n)) = bytes_of (buf_words buf ofst n) @ cpu_to_le32 (le32_to_cpu (drop (ofst + 4 * n) buf))"
    by (simp add: buf_words_def)
  also have "\<dots> = take (4 * n) (drop ofst buf) @ take 4 (drop (4 * n) (drop ofst buf))"
    using Suc by (simp add: cpu_to_le32_to_cpu add.commute)
  also have "\<dots> = take (4 * n + 4) (drop ofst buf)" by (simp only: take_add)
  finally show ?case by (simp add: add.commute)
qed (simp add: buf_words_def)

lemma bytes_of_remainder:
  "n < 4 \<Longrightarrow> ofst + n \<le> length buf \<Longrightarrow> bytes_of [remainder_word buf ofst n] = take n (drop ofst buf) @ replicate (4 - n) 0"
  by (simp add: remainder_word_def cpu_to_le32_to_cpu)

section \<open>What goes into the FIFO\<close>

definition pushed :: "u64 \<Rightarrow> io32 list \<Rightarrow> u32 list" where
  "pushed addr h = List.map_filter (\<lambda>x. case x of WR32 a v \<Rightarrow> if a = addr then Some v else None | RD32 a v \<Rightarrow> None) h"

lemma pushed_append [simp]: "pushed addr (h @ h') = pushed addr h @ pushed addr h'"
  by (simp add: pushed_def map_filter_def)

lemma pushed_simps [simp]:
  "pushed addr [] = []" "pushed addr (RD32 a v # h) = pushed addr h"
  "pushed addr (WR32 a v # h) = (if a = addr then v # pushed addr h else pushed addr h)"
  by (simp_all add: pushed_def map_filter_simps)

abbreviation fifo_bytes :: "pmci_env \<Rightarrow> pmci \<Rightarrow> byte list" where
  "fifo_bytes env s \<equiv> bytes_of (pushed (FLASH_FIFO env) (pm_hist s))"

lemma fifo_bytes_write: "fifo_bytes env (pmci_write_fifo (FLASH_FIFO env) ws s) = fifo_bytes env s @ bytes_of ws"
  by (induction ws arbitrary: s) (simp_all add: writel_def)

lemma write_fifo_busy [simp]: "flash_busy (pmci_write_fifo base ws s) = flash_busy s"
  by (induction ws arbitrary: s) (simp_all add: writel_def)

lemma poll_pushed:
  "read_poll (readl env a) c n s = ((r, v), s') \<Longrightarrow>
     pushed x (pm_hist s') = pushed x (pm_hist s) \<and> flash_busy s' = flash_busy s \<and> (r = None \<longrightarrow> c v)"
  by (induction n arbitrary: s) (auto simp: readl_def Let_def split: if_splits)

text \<open>The space is that of the whole FIFO, or none.\<close>

lemma write_space:
  assumes "pmci_get_write_space env s = (space, s')"
  shows "(space = 0 \<or> space = 0x800) \<and> fifo_bytes env s' = fifo_bytes env s \<and> flash_busy s' = flash_busy s"
proof -
  obtain r v s1 where p: "read_poll (readl env (FLASH_CTRL env)) (\<lambda>v. field32 13 4 v = 0x200) (pm_polls env) s = ((r, v), s1)"
    by (metis prod.exhaust)
  with poll_pushed [OF p] assms show ?thesis by (auto simp: pmci_get_write_space_def split: option.splits)
qed

text \<open>
  The loop writes the whole words, and leaves a remainder of one to three bytes only if nothing else
  is left of the last round.
\<close>

definition left_over :: "nat \<Rightarrow> nat" where
  "left_over n = (if n mod 2048 < 4 then n mod 2048 else 0)"

lemma left_over_less: "left_over n < 4" "left_over n \<le> n"
  by (auto simp: left_over_def intro: order_trans [OF mod_less_eq_dividend])

lemma bulk_write_loop_pushes:
  "bulk_write_loop env buf offset sz s = (Inr (offset', sz'), s') \<Longrightarrow> unat offset + unat sz \<le> length buf \<Longrightarrow>
   length buf < 2 ^ 32 \<Longrightarrow>
   unat sz' = left_over (unat sz) \<and> unat offset' + unat sz' = unat offset + unat sz \<and>
   fifo_bytes env s' = fifo_bytes env s @ take (4 * (unat sz div 4)) (drop (unat offset) buf)"
proof (induction env buf offset sz s rule: bulk_write_loop.induct)
  case (1 env buf offset sz s)
  show ?case
  proof (cases "sz = 0")
    case True
    with 1(2) show ?thesis by (simp add: bulk_write_loop.simps [of env buf offset 0 s] left_over_def)
  next
    case False
    obtain space s1 where sp: "pmci_get_write_space env s = (space, s1)" by fastforce
    from write_space [OF sp] have space: "space = 0 \<or> space = 0x800" "fifo_bytes env s1 = fifo_bytes env s" by auto
    with 1(2) False sp have full: "space = 0x800"
      by (auto simp: bulk_write_loop.simps [of env buf offset sz s] split: if_splits)
    let ?blk = "min space sz"
    have blk: "?blk \<noteq> 0" using full False by (simp add: min_def)
    show ?thesis
    proof (cases "sz < 4")
      case True
      then have lt: "unat sz < 4" by (simp add: word_less_nat_alt)
      with 1(2) False sp blk True have "offset' = offset" "sz' = sz" "s' = s1"
        by (auto simp: bulk_write_loop.simps [of env buf offset sz s] Let_def split: if_splits)
      with lt space show ?thesis by (simp add: left_over_def)
    next
      case False': False
      let ?s2 = "pmci_write_fifo (FLASH_FIFO env) (buf_words buf (unat offset) (unat (?blk div 4))) s1"
      have step: "bulk_write_loop env buf (offset + ?blk) (sz - ?blk) ?s2 = (Inr (offset', sz'), s')"
        using 1(2) False False' sp blk by (simp add: bulk_write_loop.simps [of env buf offset sz s] Let_def)
      have b: "unat ?blk = min 2048 (unat sz)" by (simp add: full min_def word_le_nat_alt)
      have rest: "unat (sz - ?blk) = unat sz - unat ?blk" by (simp add: unat_sub word_le_nat_alt b)
      have ofs: "unat (offset + ?blk) = unat offset + unat ?blk"
        by (rule unat_add_lem [THEN iffD1]) (use 1(3,4) b in simp)
      have four: "4 \<le> unat sz" using False' by (simp add: word_less_nat_alt)
      have d4: "unat (?blk div 4) = unat ?blk div 4" by (simp add: unat_div)
      have "unat (offset + ?blk) + unat (sz - ?blk) \<le> length buf" using 1(3) rest ofs b by simp
      from 1(1) [OF False sp [symmetric] refl blk False' step this 1(4)] have
        ih: "unat sz' = left_over (unat (sz - ?blk))" "unat offset' + unat sz' = unat (offset + ?blk) + unat (sz - ?blk)"
          "fifo_bytes env s' = fifo_bytes env ?s2 @ take (4 * (unat (sz - ?blk) div 4)) (drop (unat (offset + ?blk)) buf)"
        by blast+
      have inbuf: "unat offset + 4 * (unat ?blk div 4) \<le> length buf" using 1(3) b by simp
      have "fifo_bytes env ?s2 = fifo_bytes env s @ take (4 * (unat ?blk div 4)) (drop (unat offset) buf)"
        by (simp add: fifo_bytes_write space d4 bytes_of_buf_words [OF inbuf])
      moreover have "take (4 * (unat ?blk div 4)) (drop (unat offset) buf) @
          take (4 * (unat (sz - ?blk) div 4)) (drop (unat (offset + ?blk)) buf) = take (4 * (unat sz div 4)) (drop (unat offset) buf)"
      proof (cases "2048 \<le> unat sz")
        case True
        then have "4 * (unat sz div 4) = 2048 + 4 * ((unat sz - 2048) div 4)" by presburger
        with True show ?thesis by (simp add: b rest ofs take_add add.commute)
      next
        case False
        then show ?thesis by (simp add: b rest)
      qed
      moreover have "left_over (unat (sz - ?blk)) = left_over (unat sz)"
      proof (cases "2048 \<le> unat sz")
        case True
        then have "(unat sz - 2048) mod 2048 = unat sz mod 2048" by (simp add: le_mod_geq)
        with True show ?thesis by (simp add: left_over_def b rest)
      next
        case False
        with four show ?thesis by (simp add: left_over_def b rest)
      qed
      ultimately show ?thesis using ih rest ofs b by simp
    qed
  qed
qed

text \<open>
  C39. A write to the flash memory that succeeds has pushed the words of the block in order to the FIFO.
  A remainder of one to three bytes is pushed as a last word, filled with zeros, if it comes after whole
  rounds of the FIFO; behind a shorter round it is dropped, and the write succeeds all the same.
\<close>

theorem pmci_write_exact:
  assumes "pmci_flash_bulk_write env buf sz s = (None, s')" and "unat sz \<le> length buf" and "length buf < 2 ^ 32"
  shows "fifo_bytes env s' = fifo_bytes env s @ take (unat sz - unat sz mod 4) buf @
     (if unat sz mod 4 = 0 \<or> 4 \<le> unat sz mod 2048 then []
      else drop (unat sz - unat sz mod 4) (take (unat sz) buf) @ replicate (4 - unat sz mod 4) 0)"
proof -
  obtain ofs z s1 where loop: "bulk_write_loop env buf 0 sz s = (Inr (ofs, z), s1)"
    and s': "s' = (if z \<noteq> 0 then pmci_write_fifo (FLASH_FIFO env) [remainder_word buf (unat ofs) (unat z)] s1 else s1)"
    using assms(1) by (auto simp: pmci_flash_bulk_write_def split: prod.splits sum.splits)
  from bulk_write_loop_pushes [OF loop] assms(2,3)
  have z: "unat z = left_over (unat sz)" "unat ofs + unat z = unat sz"
    and bytes: "fifo_bytes env s1 = fifo_bytes env s @ take (4 * (unat sz div 4)) buf" by auto
  have whole: "4 * (unat sz div 4) = unat sz - unat sz mod 4" by (simp add: minus_mod_eq_mult_div [symmetric])
  have m: "unat sz mod 2048 mod 4 = unat sz mod 4" by (simp add: mod_mod_cancel)
  show ?thesis
  proof (cases "unat sz mod 4 = 0 \<or> 4 \<le> unat sz mod 2048")
    case True
    have "left_over (unat sz) = 0"
    proof (cases "unat sz mod 2048 < 4")
      case small: True
      then have "unat sz mod 2048 = unat sz mod 2048 mod 4" by simp
      with True m small show ?thesis by (simp add: left_over_def)
    qed (simp add: left_over_def)
    then have "z = 0" using z(1) by (simp add: unat_eq_0)
    with True bytes whole show ?thesis by (simp add: s')
  next
    case False
    then have lt: "unat sz mod 2048 < 4" by simp
    then have "unat sz mod 2048 = unat sz mod 4" using m by simp
    with lt z False have zz: "unat z = unat sz mod 4" "z \<noteq> 0" and o: "unat ofs = unat sz - unat sz mod 4"
      by (auto simp: left_over_def)
    have "bytes_of [remainder_word buf (unat ofs) (unat z)] = take (unat z) (drop (unat ofs) buf) @ replicate (4 - unat z) 0"
      by (rule bytes_of_remainder) (use zz z assms(2) in \<open>simp_all\<close>)
    moreover have "drop (unat sz - unat sz mod 4) (take (unat sz) buf) = take (unat z) (drop (unat ofs) buf)"
      using zz o z(2) by (simp add: drop_take)
    ultimately show ?thesis using False bytes whole zz
      by (simp only: s' fifo_bytes_write if_True if_False not_False_eq_True append_assoc)
  qed
qed

text \<open>A device whose FIFO is always empty. Of six bytes it gets four.\<close>

definition pmci_env0 :: pmci_env where
  "pmci_env0 = \<lparr>pm_base = 0, pm_dev = \<lambda>h a. 0x2000, pm_polls = 0,
     pm_bmc_env = \<lparr>mb_regmap = \<lparr>rm_read = \<lambda>h a. Inr 0, rm_update = \<lambda>h a m v. None, rm_write = \<lambda>h a v. None,
       rm_bulk_write = \<lambda>h a b. None, rm_bulk_read = \<lambda>h a n. Inl EIO, rm_stride = 4\<rparr>,
       mb_info = m10bmc_pmci_n6000, mb_flash_ops = None\<rparr>\<rparr>"

definition pmci0 :: pmci where
  "pmci0 = \<lparr>pm_hist = [], flash_busy = True, pm_bmc = \<lparr>mb_hist = [], bmcfw_state = M10BMC_FW_STATE_NORMAL, mb_flash = ()\<rparr>\<rparr>"

lemma space0: "pmci_get_write_space pmci_env0 s = (0x800, s\<lparr>pm_hist := pm_hist s @ [RD32 0x40 0x2000]\<rparr>)"
  by (simp add: pmci_get_write_space_def readl_def pmci_env0_def field32_def take_bit_eq_mod drop_bit_eq_div)

theorem pmci_write_exact_witness:
  "\<exists>s'. pmci_flash_bulk_write pmci_env0 [1, 2, 3, 4, 5, 6] 6 pmci0 = (None, s') \<and> fifo_bytes pmci_env0 s' = [1, 2, 3, 4]"
proof -
  have "\<exists>s'. bulk_write_loop pmci_env0 [1, 2, 3, 4, 5, 6] 0 6 pmci0 = (Inr (6, 0), s')"
    by (simp add: bulk_write_loop.simps [of pmci_env0 _ 0 6] bulk_write_loop.simps [of pmci_env0 _ 6 0] space0)
  then obtain s' where run: "pmci_flash_bulk_write pmci_env0 [1, 2, 3, 4, 5, 6] 6 pmci0 = (None, s')"
    by (auto simp: pmci_flash_bulk_write_def)
  with pmci_write_exact [OF run] show ?thesis by (simp add: pmci0_def)
qed

end
