(* ===== verification/Image_Load_Data.thy ===== *)
theory Image_Load_Data
  imports Image_Load_Props
begin

text \<open>
  What becomes of the bytes: a driver that stores what it is given, and programs what is stored, has
  programmed the buffer of the user when an upload ends without an error.
\<close>

section \<open>Drivers that store\<close>

text \<open>
  \<open>stored data n\<close>: the first \<open>n\<close> bytes are where the driver keeps them. \<open>good\<close> are the buffers for
  which it promises this.
\<close>

locale upload_storer = upload_driver ops idle active
  for ops :: "'d fw_upload_ops" and idle :: "'d \<Rightarrow> bool" and active :: "'d \<Rightarrow> bool" +
  fixes good :: "byte list \<Rightarrow> bool" and stored :: "byte list \<Rightarrow> nat \<Rightarrow> 'd \<Rightarrow> bool" and programmed :: "byte list \<Rightarrow> 'd \<Rightarrow> bool"
  assumes prepare_stores: "idle d \<Longrightarrow> up_prepare ops data n d = (FW_UPLOAD_ERR_NONE, d') \<Longrightarrow> length data = unat n \<Longrightarrow>
      good data \<Longrightarrow> stored data 0 d'"
    and write_stores: "active d \<Longrightarrow> stored data (unat offset) d \<Longrightarrow> good data \<Longrightarrow>
      up_write ops data offset n w d = ((FW_UPLOAD_ERR_NONE, w'), d') \<Longrightarrow> unat offset + unat n = length data \<Longrightarrow>
      stored data (unat offset + unat w') d'"
    and poll_programs: "active d \<Longrightarrow> stored data (length data) d \<Longrightarrow> good data \<Longrightarrow>
      up_poll_complete ops d = (FW_UPLOAD_ERR_NONE, d') \<Longrightarrow> programmed data d'"
    and cancel_stores: "active d \<Longrightarrow> stored data k d \<Longrightarrow> stored data k (up_cancel ops d)"
    and cancel_programmed: "programmed data d \<Longrightarrow> programmed data (up_cancel ops d)"
    and cleanup_programmed: "active d \<Longrightarrow> programmed data d \<Longrightarrow> up_cleanup ops = Some cleanup \<Longrightarrow> programmed data (cleanup d)"
begin

definition data_at :: "'d image_load \<Rightarrow> bool" where
  "data_at s \<longleftrightarrow>
     (case worker s of
        W_Prepared \<Rightarrow> stored (upload_image s) 0 (ddev s)
      | W_Loop offset _ \<Rightarrow> stored (upload_image s) (unat offset) (ddev s)
      | W_Written offset e w \<Rightarrow> e = FW_UPLOAD_ERR_NONE \<longrightarrow> stored (upload_image s) (unat offset + unat w) (ddev s)
      | W_Program \<Rightarrow> stored (upload_image s) (length (upload_image s)) (ddev s)
      | W_Poll \<Rightarrow> stored (upload_image s) (length (upload_image s)) (ddev s)
      | W_Done \<Rightarrow> err_code s = FW_UPLOAD_ERR_NONE \<longrightarrow> programmed (upload_image s) (ddev s)
      | W_Putdev \<Rightarrow> err_code s = FW_UPLOAD_ERR_NONE \<longrightarrow> programmed (upload_image s) (ddev s)
      | W_Complete \<Rightarrow> err_code s = FW_UPLOAD_ERR_NONE \<longrightarrow> programmed (upload_image s) (ddev s)
      | W_Put \<Rightarrow> err_code s = FW_UPLOAD_ERR_NONE \<longrightarrow> programmed (upload_image s) (ddev s)
      | W_Idle \<Rightarrow> calls s \<noteq> [] \<longrightarrow> err_code s = FW_UPLOAD_ERR_NONE \<longrightarrow> programmed (upload_image s) (ddev s)
      | _ \<Rightarrow> True)"

definition data_inv :: "'d image_load \<Rightarrow> bool" where
  "data_inv s \<longleftrightarrow> upload_inv ops idle active s \<and> (\<forall>b. fw_data s = Some b \<longrightarrow> b = upload_image s) \<and> (good (upload_image s) \<longrightarrow> data_at s)"

lemma holding_data:
  assumes "data_inv s" and "holding (worker s)"
  shows "fw_data s = Some (upload_image s)" and "length (upload_image s) = unat (total_size s)"
  using assms by (auto simp: data_inv_def upload_inv_def upload_accounts_def)

lemma worker_keeps_data:
  assumes inv: "data_inv s" and step: "worker_step ops s = Some s'"
  shows "data_inv s'"
proof -
  have ui: "upload_inv ops idle active s" using inv by (simp add: data_inv_def)
  have same: "upload_image s' = upload_image s" "\<forall>b. fw_data s' = Some b \<longrightarrow> b = upload_image s"
    using inv step by (auto simp: data_inv_def worker_step_def fw_upload_update_progress_def fw_upload_set_error_def logged_def
        fw_upload_prog_complete_def worker_end_def Let_def split: worker.splits prod.splits option.splits if_splits)
  have "data_at s'" if g: "good (upload_image s)"
  proof -
    have at: "data_at s" using inv g by (simp add: data_inv_def)
    show ?thesis
    proof (cases "worker s")
      case W_Prepare
      then have h: "holding (worker s)" by (simp add: holding_def)
      obtain ret d where p: "up_prepare ops (ptr_bytes (fw_data s)) (remaining_size s) (ddev s) = (ret, d)" by fastforce
      have "remaining_size s = total_size s" "idle (ddev s)" using ui W_Prepare by (auto simp: inv_defs)
      with p prepare_stores [of "ddev s" "upload_image s" "remaining_size s" d] holding_data [OF inv h] g
      have "ret = FW_UPLOAD_ERR_NONE \<longrightarrow> stored (upload_image s) 0 d" by (simp add: ptr_bytes_def)
      moreover have "s' = (logged (C_Prepare (remaining_size s) ret) d s)
          \<lparr>worker := if ret \<noteq> FW_UPLOAD_ERR_NONE then W_PrepareFailed ret else W_Prepared\<rparr>"
        using step W_Prepare by (simp add: worker_step_def p Let_def)
      ultimately show ?thesis by (simp add: data_at_def logged_def)
    next
      case (W_Loop offset written)
      then have h: "holding (worker s)" by (simp add: holding_def)
      have off: "unat offset + unat (remaining_size s) = unat (total_size s)" "active (ddev s)"
        using ui W_Loop by (auto simp: inv_defs)
      have st: "stored (upload_image s) (unat offset) (ddev s)" using at W_Loop by (simp add: data_at_def)
      show ?thesis
      proof (cases "remaining_size s = 0")
        case True
        then have "s' = s\<lparr>worker := W_Program\<rparr>" using step W_Loop by (simp add: worker_step_def)
        with True st off holding_data [OF inv h] show ?thesis by (simp add: data_at_def)
      next
        case False
        obtain ret w d where p: "up_write ops (ptr_bytes (fw_data s)) offset (remaining_size s) written (ddev s) = ((ret, w), d)"
          by (metis prod.exhaust)
        have "ret = FW_UPLOAD_ERR_NONE \<longrightarrow> stored (upload_image s) (unat offset + unat w) d"
          using write_stores [OF off(2) st g] p off(1) holding_data [OF inv h] by (auto simp: ptr_bytes_def)
        moreover have "s' = (logged (C_Write offset (remaining_size s) ret w) d s)\<lparr>worker := W_Written offset ret w\<rparr>"
          using step W_Loop False by (simp add: worker_step_def p)
        ultimately show ?thesis by (simp add: data_at_def logged_def)
      qed
    next
      case (W_Written offset e w)
      then have h: "holding (worker s)" by (simp add: holding_def)
      show ?thesis
      proof (cases "e = FW_UPLOAD_ERR_NONE \<and> w \<noteq> 0")
        case True
        then have le: "w \<le> remaining_size s" "unat offset + unat (remaining_size s) = unat (total_size s)"
          using ui W_Written by (auto simp: inv_defs)
        have "unat (remaining_size s - w) + unat w = unat (remaining_size s)"
          using le(1) by (simp add: unat_sub word_le_nat_alt)
        then have "unat (offset + w) = unat offset + unat w" using advance [OF le] le(2) by simp
        moreover have "s' = s\<lparr>remaining_size := remaining_size s - w, worker := W_Loop (offset + w) w\<rparr>"
          using step W_Written True by (simp add: worker_step_def)
        ultimately show ?thesis using True at W_Written by (simp add: data_at_def)
      next
        case False
        then have "s' = fw_upload_set_error (if e = FW_UPLOAD_ERR_NONE then FW_UPLOAD_ERR_RW_ERROR else e) (s\<lparr>worker := W_Done\<rparr>)"
          using step W_Written by (auto simp: worker_step_def)
        then show ?thesis by (simp add: data_at_def fw_upload_set_error_def)
      qed
    next
      case W_Poll
      then have h: "holding (worker s)" by (simp add: holding_def)
      obtain ret d where p: "up_poll_complete ops (ddev s) = (ret, d)" by fastforce
      have "active (ddev s)" using ui W_Poll by (auto simp: inv_defs)
      with p poll_programs [of "ddev s" "upload_image s" d] at g W_Poll
      have "ret = FW_UPLOAD_ERR_NONE \<longrightarrow> programmed (upload_image s) d" by (simp add: data_at_def)
      moreover have "s' = (logged (C_Poll ret) d s)\<lparr>worker := if ret \<noteq> FW_UPLOAD_ERR_NONE then W_PollFailed ret else W_Done\<rparr>"
        using step W_Poll by (simp add: worker_step_def p)
      ultimately show ?thesis by (simp add: data_at_def logged_def)
    next
      case W_Done
      have a: "active (ddev s)" using ui W_Done by (auto simp: inv_defs)
      show ?thesis
      proof (cases "up_cleanup ops")
        case None
        with step W_Done at show ?thesis by (auto simp: worker_step_def data_at_def)
      next
        case (Some c)
        then have "s' = (logged C_Cleanup (c (ddev s)) s)\<lparr>worker := W_Putdev\<rparr>"
          using step W_Done by (simp add: worker_step_def)
        with at W_Done cleanup_programmed [OF a _ Some] show ?thesis by (simp add: data_at_def logged_def)
      qed
    next
      case W_Queued
      with step show ?thesis by (auto simp: worker_step_def data_at_def fw_upload_update_progress_def)
    next
      case (W_PrepareFailed e)
      then have "e \<noteq> FW_UPLOAD_ERR_NONE" using ui by (auto simp: inv_defs)
      with W_PrepareFailed step show ?thesis by (auto simp: worker_step_def data_at_def fw_upload_set_error_def)
    next
      case W_Prepared
      with step at show ?thesis by (auto simp: worker_step_def data_at_def fw_upload_update_progress_def)
    next
      case W_Program
      with step at show ?thesis by (auto simp: worker_step_def data_at_def fw_upload_update_progress_def)
    next
      case (W_PollFailed e)
      then have "e \<noteq> FW_UPLOAD_ERR_NONE" using ui by (auto simp: inv_defs)
      with W_PollFailed step show ?thesis by (auto simp: worker_step_def data_at_def fw_upload_set_error_def)
    next
      case W_Putdev
      with step at show ?thesis by (auto simp: worker_step_def data_at_def)
    next
      case W_Complete
      then obtain ev where "finished s = Some ev" using ui by (auto simp: inv_defs)
      with W_Complete step at show ?thesis by (auto simp: worker_step_def data_at_def fw_upload_prog_complete_def)
    next
      case W_Put
      then obtain ev where "finished s = Some ev" "\<not> requeued s" using ui by (auto simp: inv_defs)
      with W_Put step at show ?thesis by (auto simp: worker_step_def data_at_def worker_end_def)
    qed (use step in \<open>simp_all add: worker_step_def\<close>)
  qed
  with same worker_keeps [OF ui step] show ?thesis by (simp add: data_inv_def)
qed

lemma cancel_keeps_data:
  assumes "data_inv s" and "progress s \<noteq> FW_UPLOAD_PROG_IDLE"
  shows "data_inv (logged C_Cancel (up_cancel ops (ddev s)) s)"
proof -
  have ui: "upload_inv ops idle active s" using assms(1) by (simp add: data_inv_def)
  have "worker s \<noteq> W_Idle" using ui assms(2) by (auto simp: upload_inv_def upload_accounts_def)
  moreover have "at_work (worker s) \<longrightarrow> active (ddev s)" using ui by (simp add: upload_inv_def)
  ultimately have "data_at s \<longrightarrow> data_at (logged C_Cancel (up_cancel ops (ddev s)) s)"
    by (cases "worker s") (auto simp: data_at_def logged_def at_work_def intro: cancel_stores cancel_programmed)
  with assms cancel_keeps [OF ui assms(2)] show ?thesis by (auto simp: data_inv_def logged_def)
qed

lemma data_inv_file [simp]:
  "data_inv (s\<lparr>opened := a\<rparr>) = data_inv s" "data_inv (s\<lparr>closing := a\<rparr>) = data_inv s"
  by (cases "worker s"; simp add: data_inv_def data_at_def)+

lemma user_keeps_data:
  assumes "user_step polite ops s s'" and inv: "data_inv s"
  shows "data_inv s'"
  using assms(1)
proof cases
  case Open
  with inv show ?thesis by (auto simp: fpga_image_load_open_def split: if_splits)
next
  case (Ioctl cmd out)
  show ?thesis
  proof (cases cmd)
    case (IMAGE_LOAD_WRITE env)
    obtain r where w: "fpga_image_load_ioctl_write env s = (r, s')"
      using Ioctl(5) IMAGE_LOAD_WRITE by (auto simp: fpga_image_load_ioctl_def split: prod.splits)
    have ui: "upload_inv ops idle active s" using inv by (simp add: data_inv_def)
    have "worker s = W_Idle" using Ioctl(4) IMAGE_LOAD_WRITE by (simp add: polite_def)
    moreover from this have "finished s = None" using ui by (simp add: inv_defs)
    ultimately have "s' = s \<or> worker s' = W_Queued \<and> (\<forall>b. fw_data s' = Some b \<longrightarrow> b = upload_image s')"
      using w by (auto simp: fpga_image_load_ioctl_write_def queue_work_def split: option.splits if_splits sum.splits)
    then show ?thesis
    proof
      assume s': "worker s' = W_Queued \<and> (\<forall>b. fw_data s' = Some b \<longrightarrow> b = upload_image s')"
      with user_keeps [OF assms(1) ui] show ?thesis by (simp add: data_inv_def data_at_def)
    qed (use inv in simp)
  next
    case IMAGE_LOAD_CANCEL
    with Ioctl(5) inv cancel_keeps_data show ?thesis
      by (auto simp: fpga_image_load_ioctl_def fpga_image_load_ioctl_cancel_def split: if_splits)
  qed (use Ioctl(5) inv in \<open>auto simp: fpga_image_load_ioctl_def split: sum.splits\<close>)
next
  case Release
  show ?thesis
  proof (cases "progress s = FW_UPLOAD_PROG_IDLE")
    case False
    from cancel_keeps_data [OF inv False] show ?thesis by (simp add: Release fpga_image_load_release_def False)
  qed (use inv in \<open>simp add: Release fpga_image_load_release_def\<close>)
next
  case Flushed
  with inv show ?thesis by (auto simp: flushed_def split: if_splits)
qed

lemma reach_data: "il_reach polite ops d s \<Longrightarrow> idle d \<Longrightarrow> data_inv s"
proof (induction rule: il_reach.induct)
  case Init
  have "upload_inv ops idle active (image_load_init d)" by (rule reach_inv [OF il_reach.Init Init])
  then show ?case by (simp add: data_inv_def data_at_def image_load_init_def)
qed (auto intro: worker_keeps_data user_keeps_data)

text \<open>The buffer of an upload that ended without an error has been programmed.\<close>

lemma success_programs:
  assumes "il_reach polite ops d s" and "idle d" and "worker s = W_Idle" and "calls s \<noteq> []" and "err_code s = FW_UPLOAD_ERR_NONE"
    and "good (upload_image s)"
  shows "programmed (upload_image s) (ddev s)"
  using reach_data [OF assms(1,2)] assms(3-) by (simp add: data_inv_def data_at_def)

end

end
