(* ===== verification/M10bmc_Update.thy ===== *)
theory M10bmc_Update
  imports M10bmc_Security M10bmc_Boards M10bmc_Sec_Props M10bmc_Pmci_Props Image_Load_Data
begin

unbundle bit_operations_syntax

text \<open>
  Updates of whole boards: the image load framework, the secure update driver and the access to the
  flash memory together, once with a register map that reaches the memory, once through the FIFO.
\<close>

section \<open>The contract of the driver\<close>

lemma bulk_write_busy:
  "bulk_write_loop env buf offset sz s = (r, s') \<Longrightarrow> flash_busy s' = flash_busy s"
proof (induction env buf offset sz s rule: bulk_write_loop.induct)
  case (1 env buf offset sz s)
  obtain space s1 where sp: "pmci_get_write_space env s = (space, s1)" by fastforce
  with write_space [OF sp] have b: "flash_busy s1 = flash_busy s" by simp
  show ?case
  proof (cases "sz = 0 \<or> min space sz = 0 \<or> sz < 4")
    case True
    with 1(2) sp b show ?thesis by (auto simp: bulk_write_loop.simps [of env buf offset sz s] Let_def split: if_splits)
  next
    case False
    then have f: "sz \<noteq> 0" "min space sz \<noteq> 0" "\<not> sz < 4" by auto
    with 1(2) sp have "bulk_write_loop env buf (offset + min space sz) (sz - min space sz)
        (pmci_write_fifo (FLASH_FIFO env) (buf_words buf (unat offset) (unat (min space sz div 4))) s1) = (r, s')"
      by (simp add: bulk_write_loop.simps [of env buf offset sz s] Let_def)
    from 1(1) [OF f(1) sp [symmetric] refl f(2,3) this] b show ?thesis by simp
  qed
qed

interpretation n3000: flash_lock "n3000_env e" "\<lambda>f. False" for e
  by unfold_locales (simp_all add: n3000_env_def)

interpretation n6000: flash_lock "n6000_env pe e" flash_busy for pe e
  by unfold_locales
    (auto simp: n6000_env_def m10bmc_pmci_flash_bulk_ops_def m10bmc_pmci_flash_lock_def m10bmc_pmci_flash_unlock_def
      m10bmc_pmci_flash_write_def pmci_flash_bulk_write_def writel_def
      split: if_splits prod.splits sum.splits dest!: bulk_write_busy)

section \<open>The memory behind a register map\<close>

definition store_at :: "u32 \<Rightarrow> byte list \<Rightarrow> (u32 \<Rightarrow> byte option) \<Rightarrow> u32 \<Rightarrow> byte option" where
  "store_at a bs m = (\<lambda>x. if unat (x - a) < length bs then Some (bs ! unat (x - a)) else m x)"

fun mem_step :: "regio \<Rightarrow> (u32 \<Rightarrow> byte option) \<Rightarrow> u32 \<Rightarrow> byte option" where
  "mem_step (RM_Bulk_Write a bs None) m = store_at a bs m"
| "mem_step (RM_Write a v None) m = store_at a (cpu_to_le32 v) m"
| "mem_step x m = m"

definition memory :: "reghist \<Rightarrow> u32 \<Rightarrow> byte option" where
  "memory h = fold mem_step h (\<lambda>_. None)"

lemma memory_snoc: "memory (h @ [x]) = mem_step x (memory h)"
  by (simp add: memory_def)

lemma memory_two: "memory (h @ [x, y]) = mem_step y (mem_step x (memory h))"
  by (simp add: memory_def)

lemma memory_quiet: "\<forall>x \<in> set t. \<not> stores x \<Longrightarrow> memory (h @ t) = memory h"
proof (induction t rule: rev_induct)
  case (snoc x t)
  then have "memory (h @ t) = memory h" "\<not> stores x" by simp_all
  moreover from this have "mem_step x m = m" for m by (cases x) (simp_all add: stores_def)
  ultimately show ?case by (simp add: memory_snoc flip: append_assoc)
qed simp

text \<open>The first \<open>n\<close> bytes of an image are in the staging area.\<close>

definition staged :: "byte list \<Rightarrow> nat \<Rightarrow> (u32 \<Rightarrow> byte option) \<Rightarrow> bool" where
  "staged img n m \<longleftrightarrow> (\<forall>i < n. m (M10BMC_STAGING_BASE + of_nat i) = Some (img ! i))"

lemma staged_extend:
  assumes "staged img n m" and "k \<le> length bs" and "n + k \<le> length img" and "take k bs = take k (drop n img)"
    and "n + length bs < 2 ^ 31"
  shows "staged img (n + k) (store_at (M10BMC_STAGING_BASE + of_nat n) bs m)"
  unfolding staged_def
proof (intro allI impI)
  fix i assume i: "i < n + k"
  let ?x = "M10BMC_STAGING_BASE + of_nat i - (M10BMC_STAGING_BASE + of_nat n) :: u32"
  have x: "?x = of_nat i - of_nat n" by simp
  show "store_at (M10BMC_STAGING_BASE + of_nat n) bs m (M10BMC_STAGING_BASE + of_nat i) = Some (img ! i)"
  proof (cases "i < n")
    case True
    let ?k = "2 ^ 32 - (n - i) :: nat"
    have "(of_nat ?k :: u32) = of_nat (2 ^ 32) - of_nat (n - i)" by (rule of_nat_diff) (use assms(5) in simp)
    also have "(of_nat (2 ^ 32) :: u32) = 0" by (simp only: of_nat_power of_nat_numeral) simp
    finally have "?x = of_nat ?k" using True by (simp add: x of_nat_diff)
    moreover have "?k < 2 ^ 32" using True by simp
    ultimately have "unat ?x = ?k" by (simp add: unsigned_of_nat take_bit_nat_eq_self)
    then have "\<not> unat ?x < length bs" using assms(5) by simp
    with True assms(1) show ?thesis by (simp add: store_at_def staged_def)
  next
    case False
    have "?x = of_nat (i - n)" using False by (simp add: x of_nat_diff)
    then have u: "unat ?x = i - n" using i assms(2,5) by (simp add: unsigned_of_nat take_bit_nat_eq_self)
    have "bs ! (i - n) = take k bs ! (i - n)" using False i by simp
    also have "\<dots> = img ! i" using False i assms(3,4) by simp
    finally show ?thesis using u False i assms(2) by (auto simp: store_at_def)
  qed
qed


section \<open>A board behind a register map\<close>

text \<open>
  Images whose size is a multiple of a register, or that fit into one block: for others the last bytes
  are taken from the wrong place.
\<close>

definition block_image :: "byte list \<Rightarrow> bool" where
  "block_image img \<longleftrightarrow> length img mod 4 = 0 \<or> length img \<le> 0x4000"

definition n3000_stored :: "byte list \<Rightarrow> nat \<Rightarrow> unit m10bmc_sec \<Rightarrow> bool" where
  "n3000_stored img n d \<longleftrightarrow> staged img n (memory (mb_hist d)) \<and> n \<le> length img \<and> length img \<le> 0x3800000 \<and>
     (n = length img \<or> n mod 0x4000 = 0)"

lemma accesses_memory: "accesses s s' \<Longrightarrow> memory (mb_hist s') = memory (mb_hist s)"
  by (auto simp: accesses_def memory_quiet)

lemma accesses_stored: "accesses s s' \<Longrightarrow> n3000_stored img n s' = n3000_stored img n s"
  by (simp add: n3000_stored_def accesses_memory)

lemma n3000_write_hist:
  assumes "m10bmc_sec_write (n3000_env e) img offset blk s = (None, s')" and lo: "lo = blk div 4 * 4"
  shows "mb_hist s' = mb_hist s @ [RM_Bulk_Write (M10BMC_STAGING_BASE + offset) (take (unat lo) (drop (unat offset) img)) None] @
    (if blk - lo = 0 then []
     else [RM_Write (M10BMC_STAGING_BASE + offset + lo) (leftover_word img (unat lo) (unat (blk - lo))) None])"
proof -
  let ?a = "M10BMC_STAGING_BASE + offset" and ?env = "n3000_env e"
  obtain r s1 where b: "regmap_bulk_write ?env ?a (take (unat lo) (drop (unat offset) img)) s = (r, s1)" by fastforce
  obtain q s2 where w: "regmap_write ?env (?a + lo) (leftover_word img (unat lo) (unat (blk - lo))) s1 = (q, s2)" by fastforce
  have f: "rm_stride (mb_regmap ?env) = 4" "mb_flash_ops ?env = None" by (simp_all add: n3000_env_def)
  have "(case (r, s1) of (Some e, s) \<Rightarrow> (Some e, s) | (None, s) \<Rightarrow> if blk - lo \<noteq> 0 then (q, s2) else (None, s)) = (None, s')"
    using assms(1) b w unfolding m10bmc_sec_write_def Let_def f lo [symmetric] by (auto split: option.splits if_splits)
  then have "r = None" "if blk - lo \<noteq> 0 then q = None \<and> s' = s2 else s' = s1" by (auto split: option.splits if_splits)
  with b w show ?thesis by (auto simp: regmap_bulk_write_def regmap_write_def Let_def)
qed

lemma multiple_of_4:
  fixes n z :: nat
  shows "n mod 0x4000 = 0 \<Longrightarrow> (n + z) mod 4 = 0 \<Longrightarrow> z mod 4 = 0"
  using dvd_trans [of 4 "0x4000" n] dvd_add_right_iff [of 4 n z] by (simp add: dvd_eq_mod_eq_0)

lemma sec_write_stores:
  assumes "n3000_stored img (unat offset) s" and "block_image img" and "unat offset + unat sz = length img"
    and "m10bmc_sec_write (n3000_env e) img offset (min WRITE_BLOCK_SIZE sz) s = (None, s')"
  shows "n3000_stored img (unat offset + unat (min WRITE_BLOCK_SIZE sz)) s'"
proof -
  obtain blk lo where blk_def: "blk = min WRITE_BLOCK_SIZE sz" and lo_def: "lo = blk div 4 * 4" by simp
  let ?n = "unat offset" and ?m = "memory (mb_hist s)"
  have st: "staged img ?n ?m" "length img \<le> 0x3800000" "?n = length img \<or> ?n mod 0x4000 = 0" "?n \<le> length img"
    using assms(1) by (simp_all add: n3000_stored_def)
  have b: "unat blk = min 0x4000 (unat sz)" by (simp add: blk_def min_def word_le_nat_alt)
  have d: "unat (blk div 4) = unat blk div 4" by (simp add: unat_div)
  have "unat blk div 4 * 4 < 2 ^ 32" using b by simp
  then have lo: "unat lo = unat blk div 4 * 4" by (simp only: lo_def unat_word_ariths d) (simp add: unat_word_ariths d)
  let ?bs = "take (unat lo) (drop ?n img)"
  have lbs: "length ?bs = unat lo" using assms(3) lo b by simp
  let ?a = "M10BMC_STAGING_BASE + of_nat ?n" and ?m1 = "store_at (M10BMC_STAGING_BASE + of_nat ?n) ?bs ?m"
  have a: "M10BMC_STAGING_BASE + offset = ?a" by simp
  have st1: "staged img (?n + unat lo) ?m1"
    by (rule staged_extend [OF st(1)]) (use lbs lo b st(2) assms(3) in simp_all)
  have left: "unat (blk - lo) = unat blk mod 4"
    using unat_sub [of lo blk] by (simp only: lo word_le_nat_alt minus_div_mult_eq_mod div_times_less_eq_dividend)
  have next_pos: "?n + unat blk \<le> length img \<and> (?n + unat blk = length img \<or> (?n + unat blk) mod 0x4000 = 0)"
  proof (cases "0x4000 \<le> unat sz")
    case True
    then have "?n mod 0x4000 = 0" using st(3) assms(3) by auto
    with True b assms(3) show ?thesis by (simp add: mod_add_left_eq [symmetric])
  next
    case False
    with b assms(3) show ?thesis by simp
  qed
  note h = n3000_write_hist [OF assms(4) [folded blk_def] lo_def]
  have "n3000_stored img (?n + unat blk) s'"
  proof (cases "blk - lo = 0")
    case True
    then have whole: "unat lo = unat blk" using left lo by (metis add.right_neutral div_mult_mod_eq unat_0)
    from h have "mb_hist s' = mb_hist s @ [RM_Bulk_Write ?a ?bs None]" by (simp only: True a simp_thms if_True append_Nil2)
    with st1 next_pos st(2) show "n3000_stored img (?n + unat blk) s'" by (simp add: n3000_stored_def memory_snoc whole)
  next
    case False
    then have r: "unat blk mod 4 \<noteq> 0" using left by (metis unat_eq_zero)
    have small: "unat sz < 0x4000"
    proof (rule ccontr)
      assume "\<not> unat sz < 0x4000"
      with b have "unat blk = 0x4000" by simp
      with r show False by simp
    qed
    then have blk: "unat blk = unat sz" using b by simp
    have n0: "?n = 0"
    proof -
      have "?n \<noteq> length img" using r blk assms(3) by auto
      then have n: "?n mod 0x4000 = 0" using st(3) by simp
      have "length img mod 4 \<noteq> 0"
      proof
        assume "length img mod 4 = 0"
        with n multiple_of_4 [of ?n "unat sz"] r blk assms(3) show False by simp
      qed
      then have "length img \<le> 0x4000" using assms(2) by (simp add: block_image_def)
      moreover have "0 < unat sz" using r blk by (cases "unat sz") auto
      ultimately have "?n < 0x4000" using assms(3) by simp
      with n show ?thesis by simp
    qed
    let ?w = "leftover_word img (unat lo) (unat (blk - lo))"
    from h have h: "mb_hist s' = mb_hist s @ [RM_Bulk_Write ?a ?bs None, RM_Write (?a + lo) ?w None]"
      by (simp only: False a simp_thms if_False append_Cons append_Nil)
    let ?k = "unat (blk - lo)"
    have k: "?k < 4" "unat lo + ?k = unat sz" using left lo blk by simp_all
    have "cpu_to_le32 ?w = take ?k (drop (unat lo) img) @ replicate (4 - ?k) 0"
      using k assms(3) n0 by (simp add: leftover_word_def cpu_to_le32_to_cpu)
    moreover have "length (take ?k (drop (unat lo) img)) = ?k" using k assms(3) n0 by simp
    ultimately have w: "take ?k (cpu_to_le32 ?w) = take ?k (drop (unat lo) img)" by simp
    have "staged img (unat lo + ?k) (store_at (M10BMC_STAGING_BASE + of_nat (unat lo)) (cpu_to_le32 ?w) ?m1)"
      by (rule staged_extend) (use st1 n0 k w lo b st(2) assms(3) in simp_all)
    with h n0 k blk next_pos st(2) show "n3000_stored img (?n + unat blk) s'" by (simp add: n3000_stored_def memory_two)
  qed
  then show ?thesis by (simp add: blk_def)
qed


text \<open>
  What a success says: at some point the image was in the staging area, the board was told that it was
  complete, nothing was stored since, and two readings of the doorbell had the progress done and a status
  of success.
\<close>

definition n3000_programmed :: "byte list \<Rightarrow> unit m10bmc_sec \<Rightarrow> bool" where
  "n3000_programmed img d \<longleftrightarrow>
     (\<exists>h1 h2 h3 v w.
        mb_hist d = h1 @ [RM_Update n3000_doorbell DRBL_HOST_STATUS 0x100 None] @ h2 @
          [RM_Read n3000_doorbell (Inr v), RM_Read n3000_doorbell (Inr w)] @ h3 \<and>
        staged img (length img) (memory h1) \<and> (\<forall>x \<in> set (h2 @ h3). \<not> stores x) \<and>
        rsu_progress_done (rsu_prog v) \<and> rsu_status_ok (field32 23 16 w))"

lemma n3000_check_complete:
  assumes "rsu_check_complete (n3000_env e) s = (None, s')"
  shows "\<exists>v w. mb_hist s' = mb_hist s @ [RM_Read n3000_doorbell (Inr v), RM_Read n3000_doorbell (Inr w)] \<and>
    rsu_progress_done (rsu_prog v) \<and> rsu_status_ok (field32 23 16 w)"
  using assms by (auto simp: rsu_check_complete_def m10bmc_sec_progress_status_def rsu_status_def m10bmc_sec_n3000_rsu_status_def
      regmap_read_def Let_def split: sum.splits if_splits)

lemma complete_loop_done:
  "complete_loop env n s = (None, s') \<Longrightarrow> \<exists>s1. accesses s s1 \<and> rsu_check_complete env s1 = (None, s')"
proof (induction n arbitrary: s)
  case 0
  then show ?case by (auto intro!: exI [of _ s])
next
  case (Suc n)
  obtain r s1 where r: "rsu_check_complete env s = (r, s1)" by fastforce
  show ?case
  proof (cases "r = Some EAGAIN")
    case True
    with Suc.prems r Suc.IH obtain s2 where "accesses s1 s2" "rsu_check_complete env s2 = (None, s')" by auto
    with accesses_trans [OF quiet_check_complete [OF r]] show ?thesis by blast
  qed (use Suc.prems r in \<open>auto intro: exI [of _ s]\<close>)
qed

lemma n3000_send_data:
  assumes "rsu_send_data (n3000_env e) s = (FW_UPLOAD_ERR_NONE, s')"
  shows "\<exists>t. mb_hist s' = mb_hist s @ [RM_Update n3000_doorbell DRBL_HOST_STATUS 0x100 None] @ t \<and> (\<forall>x \<in> set t. \<not> stores x)"
proof -
  let ?env = "n3000_env e"
  obtain r s1 where u: "regmap_update_bits ?env n3000_doorbell DRBL_HOST_STATUS 0x100 s = (r, s1)" by fastforce
  obtain w s2 where p: "regmap_read_poll ?env n3000_doorbell (\<lambda>v. rsu_prog v \<noteq> RSU_PROG_READY) (se_handshake_polls ?env) s1 = (w, s2)"
    by fastforce
  obtain x s3 where st: "rsu_status ?env s2 = (x, s3)" by fastforce
  have "r = None \<and> s' = s3"
    using assms u p st by (auto simp: rsu_send_data_def field_prep32_def split: option.splits sum.splits if_splits)
  moreover have "mb_hist s1 = mb_hist s @ [RM_Update n3000_doorbell DRBL_HOST_STATUS 0x100 r]"
    using u by (auto simp: regmap_update_bits_def Let_def)
  moreover have "accesses s1 s3" by (rule accesses_trans [OF quiet_regmap_poll [OF p] quiet_rsu_status [OF st]])
  ultimately show ?thesis by (auto simp: accesses_def)
qed

lemma rsu_cancel_error: "rsu_cancel env s = (r, s') \<Longrightarrow> r \<noteq> FW_UPLOAD_ERR_NONE"
  by (auto simp: rsu_cancel_def split: prod.splits sum.splits option.splits if_splits)

lemma n3000_poll_programs:
  assumes "n3000_stored img (length img) s" and "m10bmc_sec_poll_complete (n3000_env e) s = (FW_UPLOAD_ERR_NONE, s')"
  shows "n3000_programmed img s'"
proof -
  let ?env = "n3000_env e" and ?s0 = "m10bmc_fw_state_set (n3000_env e) M10BMC_FW_STATE_SEC_UPDATE_PROGRAM s"
  have c: "\<not> cancel_request s" using assms(2) by (auto simp: m10bmc_sec_poll_complete_def dest: rsu_cancel_error)
  obtain r s1 where d: "rsu_send_data ?env ?s0 = (r, s1)" by fastforce
  obtain q s2 where l: "complete_loop ?env (se_complete_polls ?env) s1 = (q, s2)" by fastforce
  have ok: "r = FW_UPLOAD_ERR_NONE \<and> q = None \<and> s' = s2"
    using assms(2) c d l by (auto simp: m10bmc_sec_poll_complete_def split: if_splits option.splits)
  have "mb_hist ?s0 = mb_hist s" by (simp add: m10bmc_fw_state_set_def)
  with n3000_send_data [of e ?s0 s1] d ok obtain t where
    t: "mb_hist s1 = mb_hist s @ [RM_Update n3000_doorbell DRBL_HOST_STATUS 0x100 None] @ t" "\<forall>x \<in> set t. \<not> stores x" by auto
  from complete_loop_done [of ?env "se_complete_polls ?env" s1 s2] l ok obtain s3 where
    s3: "accesses s1 s3" "rsu_check_complete ?env s3 = (None, s2)" by auto
  from s3(1) obtain t' where t': "mb_hist s3 = mb_hist s1 @ t'" "\<forall>x \<in> set t'. \<not> stores x" by (auto simp: accesses_def)
  from n3000_check_complete [OF s3(2)] obtain v w where
    h: "mb_hist s2 = mb_hist s3 @ [RM_Read n3000_doorbell (Inr v), RM_Read n3000_doorbell (Inr w)]"
    "rsu_progress_done (rsu_prog v)" "rsu_status_ok (field32 23 16 w)" by blast
  show ?thesis
    unfolding n3000_programmed_def
    by (rule exI [of _ "mb_hist s"], rule exI [of _ "t @ t'"], rule exI [of _ "[]"], rule exI [of _ v], rule exI [of _ w])
      (use h t t' ok assms(1) in \<open>auto simp: n3000_stored_def\<close>)
qed

lemma accesses_programmed: "accesses s s' \<Longrightarrow> n3000_programmed img s \<Longrightarrow> n3000_programmed img s'"
  unfolding accesses_def n3000_programmed_def by fastforce

lemma n3000_cleanup_programmed: "n3000_programmed img s \<Longrightarrow> n3000_programmed img (m10bmc_sec_cleanup (n3000_env e) s)"
proof -
  assume p: "n3000_programmed img s"
  obtain r s1 where x: "rsu_cancel (n3000_env e) s = (r, s1)" by fastforce
  have "n3000_programmed img s1" by (rule accesses_programmed [OF quiet_cancel [OF x] p])
  moreover have "mb_hist (unlock_flash (n3000_env e) (m10bmc_fw_state_set (n3000_env e) st d)) = mb_hist d" for st d
    by (simp add: unlock_flash_def n3000_env_def m10bmc_fw_state_set_def)
  ultimately show ?thesis by (simp add: m10bmc_sec_cleanup_def x n3000_programmed_def)
qed

lemma n3000_prepare_stores:
  assumes "m10bmc_sec_prepare (n3000_env e) img sz s = (FW_UPLOAD_ERR_NONE, s')" and "length img = unat sz"
  shows "n3000_stored img 0 s'"
proof -
  have "sz \<le> 0x3800000" using assms(1) by (auto simp: m10bmc_sec_prepare_def Let_def split: if_splits)
  then show ?thesis using assms(2) by (simp add: n3000_stored_def staged_def word_le_nat_alt)
qed

lemma n3000_fw_write_stores:
  assumes "n3000_stored img (unat offset) s" and "block_image img" and "unat offset + unat sz = length img"
    and "m10bmc_sec_fw_write (n3000_env e) img offset sz w s = ((FW_UPLOAD_ERR_NONE, w'), s')"
  shows "n3000_stored img (unat offset + unat w') s'"
proof -
  obtain v s1 where v: "regmap_read (n3000_env e) n3000_doorbell s = (v, s1)" by fastforce
  have "m10bmc_sec_write (n3000_env e) img offset (min WRITE_BLOCK_SIZE sz) s1 = (None, s') \<and> w' = min WRITE_BLOCK_SIZE sz"
    using assms(4) v
    by (auto simp: m10bmc_sec_fw_write_def Let_def dest: rsu_cancel_error split: if_splits sum.splits prod.splits option.splits)
  moreover have "n3000_stored img (unat offset) s1" using accesses_stored [OF quiet_regmap(1) [OF v]] assms(1) by simp
  ultimately show ?thesis using sec_write_stores [OF _ assms(2,3)] by blast
qed

lemma n3000_cancel [simp]:
  "n3000_stored img k (m10bmc_sec_cancel s) = n3000_stored img k s"
  "n3000_programmed img (m10bmc_sec_cancel s) = n3000_programmed img s"
  by (simp_all add: n3000_stored_def n3000_programmed_def m10bmc_sec_cancel_def)

interpretation n3000_up: upload_storer "m10bmc_ops (n3000_env e)" "sec_idle (n3000_env e) (\<lambda>f. False)"
  "sec_active (n3000_env e) (\<lambda>f. False)" block_image n3000_stored n3000_programmed for e
  by unfold_locales
    (auto simp: m10bmc_ops_def intro: n3000_prepare_stores n3000_fw_write_stores n3000_poll_programs n3000_cleanup_programmed)


section \<open>What an update does to a board\<close>

text \<open>
  C2. For every buffer whose size is a multiple of four or at most one block (\<open>block_image\<close>), and users
  that start an upload only when the worker is done with the last one (\<open>polite\<close>): when an upload to an
  N3000 ends without an error, the whole buffer of the user has been in the staging area, byte by byte,
  when the board was told that it was complete; nothing was stored there afterwards, and the board then
  reported progress done and a status of success. So for every register map and every interleaving of the
  worker with such users, who may ask, cancel and close at any time. Buffers of other sizes end with bytes
  from the wrong place: \<open>tail_from_start\<close> below.
\<close>

theorem n3000_upload_exact:
  assumes "sec_idle (n3000_env e) (\<lambda>f. False) d" and "il_reach polite (m10bmc_ops (n3000_env e)) d s"
    and "worker s = W_Idle" and "calls s \<noteq> []" and "err_code s = FW_UPLOAD_ERR_NONE" and "block_image (upload_image s)"
  shows "n3000_programmed (upload_image s) (ddev s)"
  by (rule n3000_up.success_programs [OF assms(2,1,3-6)])

text \<open>The attributes that are read from flash memory.\<close>

definition flash_attrs :: "security_attr list" where
  "flash_attrs = [A_flash_count, A_bmc_root_entry_hash, A_sr_root_entry_hash, A_pr_root_entry_hash, A_bmc_canceled_csks,
     A_sr_canceled_csks, A_pr_canceled_csks]"

lemma n6000_read_busy:
  assumes "flash_busy (mb_flash s)"
  shows "m10bmc_sec_read (n6000_env pe e) addr n s = (Inl EBUSY, s)"
  using assms by (simp add: m10bmc_sec_read_def n6000_env_def m10bmc_pmci_flash_bulk_ops_def m10bmc_pmci_flash_read_def Let_def)

lemmas flash_shows = security_show_def flash_count_show_def bmc_root_entry_hash_show_def sr_root_entry_hash_show_def
  pr_root_entry_hash_show_def show_root_entry_hash_def bmc_canceled_csks_show_def sr_canceled_csks_show_def
  pr_canceled_csks_show_def show_canceled_csk_def

text \<open>
  C4. On an N6000 the host has the flash memory exactly from a successful prepare to the cleanup,
  whatever users do, also when they start a second upload in the middle of one: it is given back however
  an upload ends, also one that fails or is cancelled. While it is held, the keys and counters in flash
  memory cannot be read: that fails with \<open>EBUSY\<close> and touches nothing.
\<close>

theorem n6000_flash_given_back:
  assumes "\<not> flash_busy (mb_flash d)" and "il_reach may (m10bmc_ops (n6000_env pe e)) d s"
  shows "flash_busy (mb_flash (ddev s)) = at_work (worker s) \<and>
    (at_work (worker s) \<longrightarrow> (\<forall>a \<in> set flash_attrs. security_show (n6000_env pe e) prt a (ddev s) = (Inl EBUSY, ddev s)))"
proof -
  have ne: "mb_flash_ops (n6000_env pe e) \<noteq> None" and h: "handshake_sys_reg_ranges (mb_info (n6000_env pe e)) = []"
    by (simp_all add: n6000_env_def m10bmc_pmci_n6000_def)
  have "sec_idle (n6000_env pe e) flash_busy d"
    using assms(1) h by (simp add: sec_idle_def flash_held_def fw_state_in_def)
  from n6000.any.reach_follows [OF assms(2) this] ne have "flash_busy (mb_flash (ddev s)) = at_work (worker s)"
    by (auto simp: n6000.any.state_follows_def sec_idle_def sec_active_def flash_held_def split: if_splits)
  moreover have "\<forall>a \<in> set flash_attrs. security_show (n6000_env pe e) prt a (ddev s) = (Inl EBUSY, ddev s)"
    if "flash_busy (mb_flash (ddev s))"
    by (simp add: flash_attrs_def flash_shows n6000_read_busy [OF that])
  ultimately show ?thesis by blast
qed

section \<open>A board\<close>

text \<open>
  A board with a register map that always works and a doorbell that follows the updates: idle, ready
  after a request, done after the data.
\<close>

definition board_doorbell :: "reghist \<Rightarrow> u32" where
  "board_doorbell h =
     fold (\<lambda>x db. case x of RM_Update _ m v _ \<Rightarrow> if m = 0xf00 then 0x80 else 0x30 | _ \<Rightarrow> db) h 0"

definition board :: "unit sec_env" where
  "board = n3000_env \<lparr>mb_regmap = \<lparr>rm_read = \<lambda>h a. Inr (board_doorbell h), rm_update = \<lambda>h a m v. None,
       rm_write = \<lambda>h a v. None, rm_bulk_write = \<lambda>h a b. None, rm_bulk_read = \<lambda>h a n. Inl EIO, rm_stride = 4\<rparr>,
     mb_info = m10bmc_spi_n3000, mb_flash_ops = None, se_board = M10SEC_N3000, se_handshake_polls = 1,
     se_prepare_polls = 1, se_complete_polls = 1, se_pkvl_load_polls = 1, se_pkvl_preload_polls = 1, se_cancelled = \<lambda>h. False\<rparr>"

definition board_sec :: "unit m10bmc_sec" where
  "board_sec = \<lparr>mb_hist = [], bmcfw_state = M10BMC_FW_STATE_NORMAL, mb_flash = (), cancel_request = False\<rparr>"

definition board_write :: write_env where
  "board_write = \<lparr>we_wb = Some \<lparr>wb_flags = 0, wb_size = 6, wb_evtfd = 3\<rparr>, we_vzalloc = True, we_buf = Some [1, 2, 3, 4, 5, 6],
     we_eventfd = \<lambda>fd. Inr 9\<rparr>"

definition board0 :: "unit m10bmc_sec image_load" where
  "board0 = snd (fpga_image_load_ioctl_write board_write (snd (fpga_image_load_open (image_load_init board_sec))))"

lemmas board0_simps = board0_def board_write_def board_sec_def image_load_init_def fpga_image_load_open_def
  fpga_image_load_ioctl_write_def queue_work_def

lemma board0_reach: "il_reach polite (m10bmc_ops board) board_sec board0"
proof -
  let ?s0 = "image_load_init board_sec"
  let ?s1 = "snd (fpga_image_load_open ?s0)"
  have "il_reach polite (m10bmc_ops board) board_sec ?s1"
    by (rule il_reach.User [OF il_reach.Init], rule user_step.Open)
      (simp add: image_load_init_def fpga_image_load_open_def)
  moreover have "user_step polite (m10bmc_ops board) ?s1 board0"
    by (rule user_step.Ioctl [where cmd = "IMAGE_LOAD_WRITE board_write" and out = "(None, None)"])
      (simp_all add: board0_simps polite_def copied_def fpga_image_load_ioctl_def)
  ultimately show ?thesis by (rule il_reach.User)
qed


lemma board0_run: "case worker_steps (m10bmc_ops board) 12 board0 of None \<Rightarrow> False
   | Some s \<Rightarrow> worker s = W_Idle \<and> calls s \<noteq> [] \<and> err_code s = FW_UPLOAD_ERR_NONE \<and> upload_image s = [1, 2, 3, 4, 5, 6]"
  by code_simp


lemma board_n3000: "board = n3000_env board"
  by (simp add: board_def n3000_env_def)

lemma board_idle: "sec_idle board (\<lambda>f. False) board_sec"
  by (simp add: sec_idle_def flash_held_def fw_state_in_def board_sec_def)

theorem n3000_upload_exact_witness:
  "\<exists>s. worker_steps (m10bmc_ops board) 12 board0 = Some s \<and> n3000_programmed [1, 2, 3, 4, 5, 6] (ddev s)"
proof -
  obtain s where s: "worker_steps (m10bmc_ops board) 12 board0 = Some s" "worker s = W_Idle" "calls s \<noteq> []"
    "err_code s = FW_UPLOAD_ERR_NONE" "upload_image s = [1, 2, 3, 4, 5, 6]" using board0_run by (auto split: option.splits)
  have "il_reach polite (m10bmc_ops board) board_sec s" by (rule steps_reach [OF board0_reach s(1)])
  with n3000_upload_exact [of board board_sec s] s board_idle show ?thesis
    by (simp add: board_n3000 [symmetric] block_image_def)
qed

definition n6000_board :: "pmci sec_env" where
  "n6000_board = n6000_env pmci_env0 \<lparr>mb_regmap = mb_regmap board, mb_info = m10bmc_pmci_n6000, mb_flash_ops = None,
     se_board = M10SEC_N6000, se_handshake_polls = 1, se_prepare_polls = 1, se_complete_polls = 1, se_pkvl_load_polls = 1,
     se_pkvl_preload_polls = 1, se_cancelled = \<lambda>h. False\<rparr>"

definition n6000_sec :: "pmci m10bmc_sec" where
  "n6000_sec = \<lparr>mb_hist = [], bmcfw_state = M10BMC_FW_STATE_NORMAL, mb_flash = pmci0\<lparr>flash_busy := False\<rparr>, cancel_request = False\<rparr>"

definition n6000_board0 :: "pmci m10bmc_sec image_load" where
  "n6000_board0 = snd (fpga_image_load_ioctl_write board_write (snd (fpga_image_load_open (image_load_init n6000_sec))))"

lemma n6000_board0_reach: "il_reach polite (m10bmc_ops n6000_board) n6000_sec n6000_board0"
proof -
  let ?s1 = "snd (fpga_image_load_open (image_load_init n6000_sec))"
  have "il_reach polite (m10bmc_ops n6000_board) n6000_sec ?s1"
    by (rule il_reach.User [OF il_reach.Init], rule user_step.Open)
      (simp add: image_load_init_def fpga_image_load_open_def)
  moreover have "user_step polite (m10bmc_ops n6000_board) ?s1 n6000_board0"
    by (rule user_step.Ioctl [where cmd = "IMAGE_LOAD_WRITE board_write" and out = "(None, None)"])
      (simp_all add: n6000_board0_def board0_simps polite_def copied_def fpga_image_load_ioctl_def)
  ultimately show ?thesis by (rule il_reach.User)
qed

lemma n6000_board0_runs:
  "map_option worker (worker_steps (m10bmc_ops n6000_board) 2 n6000_board0) = Some W_Prepared"
  "map_option worker (worker_steps (m10bmc_ops n6000_board) 12 n6000_board0) = Some W_Idle"
  by code_simp+

theorem n6000_flash_given_back_witness:
  "map_option (\<lambda>s. (flash_busy (mb_flash (ddev s)), fst (flash_count_show n6000_board True (ddev s))))
     (worker_steps (m10bmc_ops n6000_board) 2 n6000_board0) = Some (True, Inl EBUSY) \<and>
   map_option (\<lambda>s. flash_busy (mb_flash (ddev s))) (worker_steps (m10bmc_ops n6000_board) 12 n6000_board0) = Some False"
proof -
  have env: "n6000_board = n6000_env pmci_env0 n6000_board" by (simp add: n6000_board_def n6000_env_def)
  have "flash_busy (mb_flash (ddev s)) = at_work (worker s) \<and>
      (at_work (worker s) \<longrightarrow> (\<forall>a \<in> set flash_attrs. security_show n6000_board (\<lambda>b. []) a (ddev s) = (Inl EBUSY, ddev s)))"
    if "worker_steps (m10bmc_ops n6000_board) n n6000_board0 = Some s" for n s
    using n6000_flash_given_back [of n6000_sec polite pmci_env0 n6000_board s "\<lambda>b. []"] steps_reach [OF n6000_board0_reach that]
    unfolding env [symmetric] by (simp add: n6000_sec_def)
  with n6000_board0_runs show ?thesis by (fastforce simp: at_work_def flash_attrs_def security_show_def)
qed

section \<open>The end of an image\<close>

text \<open>
  The last bytes of an image that are less than a register are taken from the start of the buffer, not
  from where the block is: only in the first block is that the same place.
\<close>

lemma tail_from_start:
  assumes "m10bmc_sec_write (n3000_env e) img offset sz s = (None, s')" and "0 < sz" and "sz < 4"
  shows "mb_hist s' = mb_hist s @ [RM_Bulk_Write (M10BMC_STAGING_BASE + offset) [] None,
    RM_Write (M10BMC_STAGING_BASE + offset) (leftover_word img 0 (unat sz)) None]"
proof -
  have "sz div 4 = 0" using assms(3) by (simp add: div_word_less)
  with n3000_write_hist [OF assms(1) refl] assms(2) show ?thesis by (simp add: word_gt_0)
qed

end
