(* ===== verification/M10bmc_Image.thy ===== *)
theory M10bmc_Image
  imports M10bmc_Sec
begin

unbundle bit_operations_syntax

text \<open>
  Control of the images of a board (\<^verbatim>\<open>drivers/fpga/intel-m10-bmc-sec-update.c\<close>): loading an image from
  flash memory, the retimers, and the images that the board starts from when it is powered on.
\<close>

section \<open>Loading an image\<close>

abbreviation DRBL_PKVL_EEPROM_LOAD_SEC :: u32 where "DRBL_PKVL_EEPROM_LOAD_SEC \<equiv> 0x1000000"
abbreviation DRBL_CONFIG_SEL :: u32 where "DRBL_CONFIG_SEL \<equiv> 0x10000000"
abbreviation DRBL_REBOOT_REQ :: u32 where "DRBL_REBOOT_REQ \<equiv> 0x20000000"
abbreviation DRBL_REBOOT_DISABLED :: u32 where "DRBL_REBOOT_DISABLED \<equiv> 0x40000000"
abbreviation PMCI_DRBL_REBOOT_DISABLED :: u32 where "PMCI_DRBL_REBOOT_DISABLED \<equiv> 0x2"

definition m10bmc_sec_bmc_image_load :: "'f sec_env \<Rightarrow> u32 \<Rightarrow> 'f m10bmc_sec \<Rightarrow> 'f m10bmc_sec ret" where
  "m10bmc_sec_bmc_image_load env val s =
     (if val > 1 then (Some EINVAL, s)
      else (case m10bmc_sys_read env (csr_doorbell (csrs env)) s of
              (Inl e, s) \<Rightarrow> (Some e, s)
            | (Inr doorbell, s) \<Rightarrow>
                if doorbell AND DRBL_REBOOT_DISABLED \<noteq> 0 then (Some EBUSY, s)
                else m10bmc_sys_update_bits env (csr_doorbell (csrs env)) (DRBL_CONFIG_SEL OR DRBL_REBOOT_REQ)
                       (field_prep32 28 val OR DRBL_REBOOT_REQ) s))"

definition m10bmc_n6000_sec_bmc_image_load :: "'f sec_env \<Rightarrow> u32 \<Rightarrow> 'f m10bmc_sec \<Rightarrow> 'f m10bmc_sec ret" where
  "m10bmc_n6000_sec_bmc_image_load env val s =
     (if val > 1 then (Some EINVAL, s)
      else (case m10bmc_sys_read env (csr_doorbell (csrs env)) s of
              (Inl e, s) \<Rightarrow> (Some e, s)
            | (Inr doorbell, s) \<Rightarrow>
                if doorbell AND PMCI_DRBL_REBOOT_DISABLED \<noteq> 0 then (Some EBUSY, s)
                else regmap_update_bits env (csr_base (csrs env) + 0xfc) 0x3 (field_prep32 1 val OR 0x1) s))"

definition pmci_sec_fpga_image_load :: "'f sec_env \<Rightarrow> u32 \<Rightarrow> 'f m10bmc_sec \<Rightarrow> 'f m10bmc_sec ret" where
  "pmci_sec_fpga_image_load env val s =
     (if val > 2 then (Some EINVAL, s)
      else (case regmap_update_bits env (csr_base (csrs env) + 0xb8) 0x800000 0 s of
              (Some e, s) \<Rightarrow> (Some e, s)
            | (None, s) \<Rightarrow>
                regmap_update_bits env (csr_base (csrs env) + 0xb8) 0xf00000 (field_prep32 20 val OR 0x800000) s))"

definition pmci_sec_sdm_sr_image_load :: "'f sec_env \<Rightarrow> 'f m10bmc_sec \<Rightarrow> 'f m10bmc_sec ret" where
  "pmci_sec_sdm_sr_image_load env s = regmap_update_bits env (csr_base (csrs env) + 0x230) 1 1 s"

definition pmci_sec_sdm_sr_cancel :: "'f sec_env \<Rightarrow> 'f m10bmc_sec \<Rightarrow> 'f m10bmc_sec ret" where
  "pmci_sec_sdm_sr_cancel env s = regmap_update_bits env (csr_base (csrs env) + 0x23c) 1 1 s"

definition pmci_sec_sdm_pr_image_load :: "'f sec_env \<Rightarrow> 'f m10bmc_sec \<Rightarrow> 'f m10bmc_sec ret" where
  "pmci_sec_sdm_pr_image_load env s = regmap_update_bits env (csr_base (csrs env) + 0x238) 1 1 s"

definition pmci_sec_sdm_pr_cancel :: "'f sec_env \<Rightarrow> 'f m10bmc_sec \<Rightarrow> 'f m10bmc_sec ret" where
  "pmci_sec_sdm_pr_cancel env s = regmap_update_bits env (csr_base (csrs env) + 0x240) 1 1 s"

section \<open>Retimers\<close>

definition retimer_check_idle :: "'f sec_env \<Rightarrow> 'f m10bmc_sec \<Rightarrow> 'f m10bmc_sec ret" where
  "retimer_check_idle env s =
     (case m10bmc_sys_read env (csr_doorbell (csrs env)) s of
        (Inl e, s) \<Rightarrow> (Some EIO, s)
      | (Inr doorbell, s) \<Rightarrow>
          if rsu_prog doorbell \<noteq> RSU_PROG_IDLE \<and> rsu_prog doorbell \<noteq> RSU_PROG_RSU_DONE \<and>
             rsu_prog doorbell \<noteq> RSU_PROG_PKVL_PROM_DONE then (Some EBUSY, log_error_regs env s)
          else (None, s))"

definition trigger_retimer_eeprom_load :: "'f sec_env \<Rightarrow> 'f m10bmc_sec \<Rightarrow> 'f m10bmc_sec ret" where
  "trigger_retimer_eeprom_load env s =
     (case m10bmc_sys_update_bits env (csr_doorbell (csrs env)) DRBL_PKVL_EEPROM_LOAD_SEC DRBL_PKVL_EEPROM_LOAD_SEC s of
        (Some e, s) \<Rightarrow> (Some e, s)
      | (None, s) \<Rightarrow>
          (case regmap_read_poll env (csr_base (csrs env) + csr_doorbell (csrs env))
                  (\<lambda>v. v AND DRBL_PKVL_EEPROM_LOAD_SEC = 0) (se_pkvl_load_polls env) s of
             (Inl e, s) \<Rightarrow>
               if e = ETIMEDOUT then
                 (Some ENODEV, snd (m10bmc_sys_update_bits env (csr_doorbell (csrs env)) DRBL_PKVL_EEPROM_LOAD_SEC 0 s))
               else (Some e, s)
           | (Inr v, s) \<Rightarrow> (None, s)))"

text \<open>
  The result of \<^verbatim>\<open>read_poll_timeout\<close> is \<^verbatim>\<open>ret\<close>, that of the last operation \<^verbatim>\<open>err\<close>; on an error the code
  returns the former.
\<close>

definition poll_retimer_eeprom_load_done :: "'f sec_env \<Rightarrow> 'f m10bmc_sec \<Rightarrow> 'f m10bmc_sec ret" where
  "poll_retimer_eeprom_load_done env s =
     (case read_poll (m10bmc_sec_progress_status env)
             (\<lambda>v. case v of Inl e \<Rightarrow> True
                | Inr (doorbell, prog, status) \<Rightarrow> prog = RSU_PROG_PKVL_PROM_DONE \<or> status = RSU_STAT_PKVL_REJECT)
             (se_pkvl_preload_polls env) s of
        ((Some e, v), s) \<Rightarrow> (Some e, s)
      | ((None, Inl e), s) \<Rightarrow> (None, s)
      | ((None, Inr (doorbell, prog, status)), s) \<Rightarrow>
          if status = RSU_STAT_PKVL_REJECT then (Some ECANCELED, s) else (None, s))"

abbreviation M10BMC_PKVL_PRELOAD :: u32 where "M10BMC_PKVL_PRELOAD \<equiv> 0x1010000"
abbreviation M10BMC_PKVL_UPG_STATUS_MASK :: u32 where "M10BMC_PKVL_UPG_STATUS_MASK \<equiv> 0x17170000"
abbreviation M10BMC_PKVL_UPG_STATUS_GOOD :: u32 where "M10BMC_PKVL_UPG_STATUS_GOOD \<equiv> 0x11110000"

definition poll_retimer_preload_done :: "'f sec_env \<Rightarrow> 'f m10bmc_sec \<Rightarrow> 'f m10bmc_sec ret" where
  "poll_retimer_preload_done env s =
     (case regmap_read_poll env (csr_base (csrs env) + 0x80) (\<lambda>v. v AND M10BMC_PKVL_PRELOAD = M10BMC_PKVL_PRELOAD)
             (se_pkvl_preload_polls env) s of
        (Inl e, s) \<Rightarrow> (Some e, s)
      | (Inr v, s) \<Rightarrow>
          if v AND M10BMC_PKVL_UPG_STATUS_MASK \<noteq> M10BMC_PKVL_UPG_STATUS_GOOD then (Some EIO, s) else (None, s))"

definition m10bmc_sec_retimer_eeprom_load :: "'f sec_env \<Rightarrow> 'f m10bmc_sec \<Rightarrow> 'f m10bmc_sec ret" where
  "m10bmc_sec_retimer_eeprom_load env s =
     (case (case retimer_check_idle env (m10bmc_fw_state_set env M10BMC_FW_RETIMER_EEPROM_LOAD s) of
              (Some e, s) \<Rightarrow> (Some e, s)
            | (None, s) \<Rightarrow>
                (case trigger_retimer_eeprom_load env s of
                   (Some e, s) \<Rightarrow> (Some e, s)
                 | (None, s) \<Rightarrow>
                     (case poll_retimer_eeprom_load_done env s of
                        (Some e, s) \<Rightarrow> (Some e, s)
                      | (None, s) \<Rightarrow> poll_retimer_preload_done env s))) of
        (ret, s) \<Rightarrow> (ret, m10bmc_fw_state_set env M10BMC_FW_STATE_NORMAL s))"

section \<open>The control files\<close>

text \<open>
  Texts are C strings: up to the first NUL. \<^verbatim>\<open>sysfs_streq\<close> of the kernel compares them up to a newline at
  the end of one of them; \<^verbatim>\<open>strsep\<close> cuts at every separator and gives empty tokens, too.
\<close>

definition c_string :: "string \<Rightarrow> string" where
  "c_string buf = takeWhile (\<lambda>c. c \<noteq> CHR 0x00) buf"

definition sysfs_streq :: "string \<Rightarrow> string \<Rightarrow> bool" where
  "sysfs_streq a b \<longleftrightarrow> a = b \<or> a = b @ newline \<or> b = a @ newline"

fun strsep_tokens :: "string \<Rightarrow> string \<Rightarrow> string list" where
  "strsep_tokens seps [] = [[]]"
| "strsep_tokens seps (c # cs) =
     (if c \<in> set seps then [] # strsep_tokens seps cs
      else (case strsep_tokens seps cs of [] \<Rightarrow> [[c]] | t # ts \<Rightarrow> (c # t) # ts))"

definition image_load_hndlrs :: "'f sec_env \<Rightarrow> (string \<times> ('f m10bmc_sec \<Rightarrow> 'f m10bmc_sec ret)) list" where
  "image_load_hndlrs env =
     (case se_board env of
        M10SEC_N3000 \<Rightarrow>
          [(''bmc_factory'', m10bmc_sec_bmc_image_load env 1), (''bmc_user'', m10bmc_sec_bmc_image_load env 0),
           (''retimer_fw'', m10bmc_sec_retimer_eeprom_load env)]
      | M10SEC_D5005 \<Rightarrow>
          [(''bmc_factory'', m10bmc_sec_bmc_image_load env 0), (''bmc_user'', m10bmc_sec_bmc_image_load env 1)]
      | M10SEC_N6000 \<Rightarrow>
          [(''bmc_factory'', m10bmc_n6000_sec_bmc_image_load env 0), (''bmc_user'', m10bmc_n6000_sec_bmc_image_load env 1),
           (''fpga_factory'', pmci_sec_fpga_image_load env 0), (''fpga_user1'', pmci_sec_fpga_image_load env 1),
           (''fpga_user2'', pmci_sec_fpga_image_load env 2), (''sdm_sr'', pmci_sec_sdm_sr_image_load env),
           (''sdm_sr_cancel'', pmci_sec_sdm_sr_cancel env), (''sdm_pr'', pmci_sec_sdm_pr_image_load env),
           (''sdm_pr_cancel'', pmci_sec_sdm_pr_cancel env)])"

text \<open>Names with a space behind each, the last of which becomes a newline.\<close>

definition name_list :: "string list \<Rightarrow> string" where
  "name_list names = (let txt = concat (map (\<lambda>n. n @ '' '') names) in txt[length txt - 1 := CHR 0x0A])"

definition available_images_show :: "'f sec_env \<Rightarrow> string" where
  "available_images_show env = name_list (map fst (image_load_hndlrs env))"

definition image_load_store :: "'f sec_env \<Rightarrow> string \<Rightarrow> 'f m10bmc_sec \<Rightarrow> 'f m10bmc_sec ret" where
  "image_load_store env buf s =
     (case find (\<lambda>hndlr. sysfs_streq (c_string buf) (fst hndlr)) (image_load_hndlrs env) of
        None \<Rightarrow> (Some EINVAL, s)
      | Some hndlr \<Rightarrow> snd hndlr s)"

section \<open>Power-on images\<close>

datatype fpga_image = FPGA_FACTORY | FPGA_USER1 | FPGA_USER2 | FPGA_MAX

definition fpga_image_names :: "string list" where
  "fpga_image_names = [''fpga_factory'', ''fpga_user1'', ''fpga_user2'']"

primrec image_nr :: "fpga_image \<Rightarrow> nat" where
  "image_nr FPGA_FACTORY = 0"
| "image_nr FPGA_USER1 = 1"
| "image_nr FPGA_USER2 = 2"
| "image_nr FPGA_MAX = 3"

definition avail_image_mask :: u32 where
  "avail_image_mask = 0x7"

definition fpga_image_by_name :: "string \<Rightarrow> fpga_image" where
  "fpga_image_by_name name =
     (case find (\<lambda>i. sysfs_streq name (fpga_image_names ! image_nr i)) [FPGA_FACTORY, FPGA_USER1, FPGA_USER2] of
        None \<Rightarrow> FPGA_MAX | Some i \<Rightarrow> i)"

text \<open>The loop over the tokens, with the mask of images still allowed and the next index.\<close>

fun fpga_images_loop :: "string list \<Rightarrow> u32 \<Rightarrow> nat \<Rightarrow> fpga_image list \<Rightarrow> errno option \<times> nat \<times> fpga_image list" where
  "fpga_images_loop [] image_mask i images = (None, i, images)"
| "fpga_images_loop (t # ts) image_mask i images =
     (let img = fpga_image_by_name t
      in if img = FPGA_MAX \<or> \<not> bit image_mask (image_nr img) then (Some EINVAL, i, images)
         else fpga_images_loop ts (unset_bit (image_nr img) image_mask) (Suc i) (images[i := img]))"

definition fpga_images :: "string \<Rightarrow> fpga_image list \<Rightarrow> errno option \<times> fpga_image list" where
  "fpga_images names images =
     (case fpga_images_loop (strsep_tokens ('' '' @ newline) names) avail_image_mask 0 images of
        (Some e, i, images) \<Rightarrow> (Some e, images)
      | (None, i, images) \<Rightarrow> (if i = 0 then Some EINVAL else None, images))"

abbreviation M10BMC_PMCI_FPGA_POC :: u32 where "M10BMC_PMCI_FPGA_POC \<equiv> 0xb0"
abbreviation M10BMC_PMCI_FPGA_POC_STS_BL :: u32 where "M10BMC_PMCI_FPGA_POC_STS_BL \<equiv> 0xb4"
abbreviation PMCI_FACTORY_IMAGE_SEL :: u32 where "PMCI_FACTORY_IMAGE_SEL \<equiv> 0x80000000"
abbreviation PMCI_USER_IMAGE_PAGE :: u32 where "PMCI_USER_IMAGE_PAGE \<equiv> 0x700"

text \<open>The page of the user image: as asked for, or else the one that is in force.\<close>

definition user_page :: "'f sec_env \<Rightarrow> fpga_image \<Rightarrow> 'f m10bmc_sec \<Rightarrow> (errno + u32) \<times> 'f m10bmc_sec" where
  "user_page env img s =
     (if img = FPGA_USER1 \<or> img = FPGA_USER2 then (Inr (if img = FPGA_USER1 then 1 else 2), s)
      else (case m10bmc_sys_read env M10BMC_PMCI_FPGA_POC_STS_BL s of
              (Inl e, s) \<Rightarrow> (Inl e, s)
            | (Inr val, s) \<Rightarrow> (Inr (if field32 10 8 val = 1 then 1 else 2), s)))"

definition pmci_set_power_on_image :: "'f sec_env \<Rightarrow> fpga_image list \<Rightarrow> 'f m10bmc_sec \<Rightarrow> 'f m10bmc_sec ret" where
  "pmci_set_power_on_image env images s =
     (if images ! 1 = FPGA_FACTORY then (Some EINVAL, s)
      else let first_user = (if images ! 0 = FPGA_FACTORY then 1 else 0);
               poc = (if images ! 0 = FPGA_FACTORY then PMCI_FACTORY_IMAGE_SEL else 0)
           in case user_page env (images ! first_user) s of
                (Inl e, s) \<Rightarrow> (Some e, s)
              | (Inr page, s) \<Rightarrow>
                  (case m10bmc_sys_update_bits env (csr_base (csrs env) + M10BMC_PMCI_FPGA_POC)
                          (PMCI_FACTORY_IMAGE_SEL OR PMCI_USER_IMAGE_PAGE OR 1) (poc OR field_prep32 8 page OR 1) s of
                     (Some e, s) \<Rightarrow> (Some e, s)
                   | (None, s) \<Rightarrow>
                       (case regmap_read_poll env (csr_base (csrs env) + M10BMC_PMCI_FPGA_POC) (\<lambda>v. v AND 1 = 0)
                               (se_handshake_polls env) s of
                          (Inl e, s) \<Rightarrow> (Some EIO, s)
                        | (Inr poc, s) \<Rightarrow> if field32 5 4 poc \<noteq> 1 then (Some EIO, s) else (None, s))))"

definition pmci_get_power_on_image :: "'f sec_env \<Rightarrow> 'f m10bmc_sec \<Rightarrow> (errno + string) \<times> 'f m10bmc_sec" where
  "pmci_get_power_on_image env s =
     (case m10bmc_sys_read env M10BMC_PMCI_FPGA_POC_STS_BL s of
        (Inl e, s) \<Rightarrow> (Inl e, s)
      | (Inr poc, s) \<Rightarrow>
          let factory = poc AND PMCI_FACTORY_IMAGE_SEL \<noteq> 0;
              image_names = (if factory then [fpga_image_names ! 0] else []) @
                (if field32 10 8 poc = 1 then [fpga_image_names ! 1, fpga_image_names ! 2]
                 else [fpga_image_names ! 2, fpga_image_names ! 1]) @
                (if factory then [] else [fpga_image_names ! 0])
          in (Inr (image_names ! 0 @ '' '' @ image_names ! 1 @ '' '' @ image_names ! 2 @ newline), s))"

definition available_power_on_images_show :: string where
  "available_power_on_images_show =
     name_list (map (\<lambda>i. fpga_image_names ! i) (filter (bit avail_image_mask) [0..<3]))"

text \<open>Writing: a copy of the text is cut into names; \<open>None\<close> is a copy that could not be allocated.\<close>

definition power_on_image_store :: "'f sec_env \<Rightarrow> string option \<Rightarrow> 'f m10bmc_sec \<Rightarrow> 'f m10bmc_sec ret" where
  "power_on_image_store env tokens s =
     (case tokens of
        None \<Rightarrow> (Some ENOMEM, s)
      | Some tokens \<Rightarrow>
          (case fpga_images (c_string tokens) [FPGA_MAX, FPGA_MAX, FPGA_MAX] of
             (Some e, images) \<Rightarrow> (Some e, s)
           | (None, images) \<Rightarrow> pmci_set_power_on_image env images s))"

definition fpga_boot_image_show :: "'f sec_env \<Rightarrow> 'f m10bmc_sec \<Rightarrow> (errno + string) \<times> 'f m10bmc_sec" where
  "fpga_boot_image_show env s =
     (case m10bmc_sys_read env (csr_base (csrs env) + 0xa0) s of
        (Inl e, s) \<Rightarrow> (Inl e, s)
      | (Inr status, s) \<Rightarrow>
          if field32 3 3 status = 0 then (Inl EINVAL, s)
          else if field32 2 0 status \<ge> 3 then (Inl EINVAL, s)
          else (Inr (fpga_image_names ! unat (field32 2 0 status) @ newline), s))"

datatype control_attr = A_available_images | A_image_load | A_power_on_image | A_available_power_on_images | A_fpga_boot_image

definition m10bmc_image_is_visible :: "sec_board \<Rightarrow> control_attr \<Rightarrow> bool" where
  "m10bmc_image_is_visible b a \<longleftrightarrow>
     b = M10SEC_N6000 \<or> a \<notin> {A_power_on_image, A_available_power_on_images, A_fpga_boot_image}"

end
