(* ===== verification/M10bmc_Interleave.thy ===== *)
theory M10bmc_Interleave
  imports M10bmc_Update M10bmc_Image
begin

text \<open>
  The firmware state of a board between all who change it: an upload, whose prepare operation is cut into
  the steps between which others get in, and any number of retimer loads (\<^verbatim>\<open>retimer_fw\<close> written to
  \<^verbatim>\<open>image_load\<close>, \<^verbatim>\<open>drivers/fpga/intel-m10-bmc-sec-update.c\<close>), cut likewise. Neither takes a lock that keeps
  the other out.
\<close>

section \<open>Preparing an upload, step by step\<close>

text \<open>
  Where \<^verbatim>\<open>m10bmc_sec_prepare\<close> is: about to lock and check the size, to check the doorbell, to set the
  state, to start the update, to wait, to look at the cancel flag, to cancel, to set the state; then its
  exits \<^verbatim>\<open>fw_state_exit\<close> and \<^verbatim>\<open>unlock_flash\<close>, and its return.
\<close>

datatype prep_pc =
    PR_Start | PR_Check_idle | PR_State | PR_Init | PR_Ready | PR_Check_cancel | PR_Cancel | PR_Write_state
  | PR_Exit fw_upload_err | PR_Unlock fw_upload_err | PR_Ret fw_upload_err

definition goto_on :: "fw_upload_err \<Rightarrow> (fw_upload_err \<Rightarrow> prep_pc) \<Rightarrow> prep_pc \<Rightarrow> prep_pc" where
  "goto_on ret exit_pc pc = (if ret \<noteq> FW_UPLOAD_ERR_NONE then exit_pc ret else pc)"

fun prepare_step :: "'f sec_env \<Rightarrow> u32 \<Rightarrow> prep_pc \<Rightarrow> 'f m10bmc_sec \<Rightarrow> prep_pc \<times> 'f m10bmc_sec" where
  "prepare_step env sz PR_Start s =
     (let s = s\<lparr>cancel_request := False\<rparr>
      in if sz = 0 \<or> sz > csr_staging_size (csrs env) then (PR_Ret FW_UPLOAD_ERR_INVALID_SIZE, s)
         else (case lock_flash env s of
                 (Some e, s) \<Rightarrow> (PR_Ret FW_UPLOAD_ERR_BUSY, s) | (None, s) \<Rightarrow> (PR_Check_idle, s)))"
| "prepare_step env sz PR_Check_idle s = (case rsu_check_idle env s of (ret, s) \<Rightarrow> (goto_on ret PR_Unlock PR_State, s))"
| "prepare_step env sz PR_State s = (PR_Init, m10bmc_fw_state_set env M10BMC_FW_STATE_SEC_UPDATE_PREPARE s)"
| "prepare_step env sz PR_Init s = (case rsu_update_init env s of (ret, s) \<Rightarrow> (goto_on ret PR_Exit PR_Ready, s))"
| "prepare_step env sz PR_Ready s = (case rsu_prog_ready env s of (ret, s) \<Rightarrow> (goto_on ret PR_Exit PR_Check_cancel, s))"
| "prepare_step env sz PR_Check_cancel s = (if cancel_request s then PR_Cancel else PR_Write_state, s)"
| "prepare_step env sz PR_Cancel s = (case rsu_cancel env s of (ret, s) \<Rightarrow> (PR_Exit ret, s))"
| "prepare_step env sz PR_Write_state s =
     (PR_Ret FW_UPLOAD_ERR_NONE, m10bmc_fw_state_set env M10BMC_FW_STATE_SEC_UPDATE_WRITE s)"
| "prepare_step env sz (PR_Exit ret) s = (PR_Unlock ret, m10bmc_fw_state_set env M10BMC_FW_STATE_NORMAL s)"
| "prepare_step env sz (PR_Unlock ret) s = (PR_Ret ret, unlock_flash env s)"
| "prepare_step env sz (PR_Ret ret) s = (PR_Ret ret, s)"

fun prepare_steps :: "'f sec_env \<Rightarrow> u32 \<Rightarrow> nat \<Rightarrow> prep_pc \<times> 'f m10bmc_sec \<Rightarrow> prep_pc \<times> 'f m10bmc_sec" where
  "prepare_steps env sz 0 ps = ps"
| "prepare_steps env sz (Suc n) (pc, s) = prepare_steps env sz n (prepare_step env sz pc s)"

lemma prepare_steps_ret [simp]: "prepare_steps env sz n (PR_Ret ret, s) = (PR_Ret ret, s)"
  by (induction n) auto

text \<open>When nobody gets in between, the steps are the operation: after nine it has returned.\<close>

lemma prepare_steps_refine:
  assumes "\<And>h. \<not> se_cancelled env h"
  shows "prepare_steps env sz 9 (PR_Start, s) = (case m10bmc_sec_prepare env data sz s of (ret, s) \<Rightarrow> (PR_Ret ret, s))"
  by (simp add: m10bmc_sec_prepare_def goto_on_def cancelled_meanwhile_def fw_state_exit_def numeral_nat assms Let_def
      split: prod.splits option.splits)

section \<open>Loading the retimers, step by step\<close>

datatype retimer_pc =
    RT_Start | RT_Check_idle | RT_Trigger | RT_Poll_load | RT_Poll_preload | RT_Exit "errno option" | RT_Ret "errno option"

definition exit_on :: "errno option \<Rightarrow> retimer_pc \<Rightarrow> retimer_pc" where
  "exit_on ret pc = (if ret \<noteq> None then RT_Exit ret else pc)"

fun retimer_step :: "'f sec_env \<Rightarrow> retimer_pc \<Rightarrow> 'f m10bmc_sec \<Rightarrow> retimer_pc \<times> 'f m10bmc_sec" where
  "retimer_step env RT_Start s = (RT_Check_idle, m10bmc_fw_state_set env M10BMC_FW_RETIMER_EEPROM_LOAD s)"
| "retimer_step env RT_Check_idle s = (case retimer_check_idle env s of (ret, s) \<Rightarrow> (exit_on ret RT_Trigger, s))"
| "retimer_step env RT_Trigger s = (case trigger_retimer_eeprom_load env s of (ret, s) \<Rightarrow> (exit_on ret RT_Poll_load, s))"
| "retimer_step env RT_Poll_load s = (case poll_retimer_eeprom_load_done env s of (ret, s) \<Rightarrow> (exit_on ret RT_Poll_preload, s))"
| "retimer_step env RT_Poll_preload s = (case poll_retimer_preload_done env s of (ret, s) \<Rightarrow> (RT_Exit ret, s))"
| "retimer_step env (RT_Exit ret) s = (RT_Ret ret, m10bmc_fw_state_set env M10BMC_FW_STATE_NORMAL s)"
| "retimer_step env (RT_Ret ret) s = (RT_Ret ret, s)"

fun retimer_steps :: "'f sec_env \<Rightarrow> nat \<Rightarrow> retimer_pc \<times> 'f m10bmc_sec \<Rightarrow> retimer_pc \<times> 'f m10bmc_sec" where
  "retimer_steps env 0 ps = ps"
| "retimer_steps env (Suc n) (pc, s) = retimer_steps env n (retimer_step env pc s)"

lemma retimer_steps_ret [simp]: "retimer_steps env n (RT_Ret ret, s) = (RT_Ret ret, s)"
  by (induction n) auto

lemma retimer_steps_refine:
  "retimer_steps env 6 (RT_Start, s) = (case m10bmc_sec_retimer_eeprom_load env s of (ret, s) \<Rightarrow> (RT_Ret ret, s))"
  by (simp add: m10bmc_sec_retimer_eeprom_load_def exit_on_def numeral_nat split: prod.splits option.splits)

section \<open>All together\<close>

text \<open>
  The device with its upload, the prepare operation if the worker is in it, with the size it was called
  with, and the retimer loads under way, each on behalf of a user of its own.
\<close>

record 'f sec_device =
  up :: "'f m10bmc_sec image_load"
  prep :: "(u32 \<times> prep_pc) option"
  loads :: "retimer_pc list"

datatype sec_choice = Ch_Worker | Ch_Load_start | Ch_Load nat | Ch_Load_end nat

definition prepared :: "u32 \<Rightarrow> fw_upload_err \<Rightarrow> 'd image_load \<Rightarrow> 'd image_load" where
  "prepared sz ret u =
     (logged (C_Prepare sz ret) (ddev u) u)\<lparr>worker := if ret \<noteq> FW_UPLOAD_ERR_NONE then W_PrepareFailed ret else W_Prepared\<rparr>"

definition worker_choice :: "'f sec_env \<Rightarrow> 'f sec_device \<Rightarrow> 'f sec_device option" where
  "worker_choice env b =
     (case prep b of
        None \<Rightarrow>
          if worker (up b) = W_Prepare then Some (b\<lparr>prep := Some (remaining_size (up b), PR_Start)\<rparr>)
          else map_option (\<lambda>u. b\<lparr>up := u\<rparr>) (worker_step (m10bmc_ops env) (up b))
      | Some (sz, pc) \<Rightarrow>
          (case pc of
             PR_Ret ret \<Rightarrow> Some (b\<lparr>up := prepared sz ret (up b), prep := None\<rparr>)
           | _ \<Rightarrow>
               (case prepare_step env sz pc (ddev (up b)) of
                  (pc, d) \<Rightarrow> Some (b\<lparr>up := (up b)\<lparr>ddev := d\<rparr>, prep := Some (sz, pc)\<rparr>))))"

text \<open>The file \<^verbatim>\<open>image_load\<close> starts a retimer load only on a board that has the handler.\<close>

definition sec_do :: "'f sec_env \<Rightarrow> sec_choice \<Rightarrow> 'f sec_device \<Rightarrow> 'f sec_device option" where
  "sec_do env c b =
     (case c of
        Ch_Worker \<Rightarrow> worker_choice env b
      | Ch_Load_start \<Rightarrow>
          if ''retimer_fw'' \<in> fst ` set (image_load_hndlrs env) then Some (b\<lparr>loads := loads b @ [RT_Start]\<rparr>) else None
      | Ch_Load i \<Rightarrow>
          if i < length (loads b) then
            (case retimer_step env (loads b ! i) (ddev (up b)) of
               (pc, d) \<Rightarrow> Some (b\<lparr>up := (up b)\<lparr>ddev := d\<rparr>, loads := (loads b)[i := pc]\<rparr>))
          else None
      | Ch_Load_end i \<Rightarrow>
          if i < length (loads b) \<and> (case loads b ! i of RT_Ret ret \<Rightarrow> True | _ \<Rightarrow> False)
          then Some (b\<lparr>loads := take i (loads b) @ drop (Suc i) (loads b)\<rparr>) else None)"

text \<open>
  Users of the upload may do anything (\<open>anyhow\<close>); everything else that is done with the board only
  accesses registers: the attributes that are read, the sensors, the other handlers of \<^verbatim>\<open>image_load\<close>.
\<close>

inductive sec_reach :: "'f sec_env \<Rightarrow> 'f m10bmc_sec \<Rightarrow> 'f sec_device \<Rightarrow> bool" for env d where
  Init: "sec_reach env d \<lparr>up = image_load_init d, prep = None, loads = []\<rparr>"
| Do: "sec_reach env d b \<Longrightarrow> sec_do env c b = Some b' \<Longrightarrow> sec_reach env d b'"
| User: "sec_reach env d b \<Longrightarrow> user_step anyhow (m10bmc_ops env) (up b) u \<Longrightarrow> sec_reach env d (b\<lparr>up := u\<rparr>)"
| Other: "sec_reach env d b \<Longrightarrow> accesses (ddev (up b)) d' \<Longrightarrow> sec_reach env d (b\<lparr>up := (up b)\<lparr>ddev := d'\<rparr>\<rparr>)"

text \<open>A prepare that nobody gets into is the one step of the worker.\<close>

fun worker_choices :: "'f sec_env \<Rightarrow> nat \<Rightarrow> 'f sec_device \<Rightarrow> 'f sec_device option" where
  "worker_choices env 0 b = Some b"
| "worker_choices env (Suc n) b = (case sec_do env Ch_Worker b of None \<Rightarrow> None | Some b \<Rightarrow> worker_choices env n b)"

lemma same_ddev: "ddev u = d \<Longrightarrow> u\<lparr>ddev := d\<rparr> = u"
  by auto

lemma choices_prepare:
  assumes "prep b = Some (sz, pc)" and "prepare_steps env sz n (pc, ddev (up b)) = (PR_Ret ret, d)"
  shows "\<exists>m. worker_choices env m b = Some (b\<lparr>up := prepared sz ret ((up b)\<lparr>ddev := d\<rparr>), prep := None\<rparr>)"
  using assms
proof (induction n arbitrary: pc b)
  case 0
  then have "worker_choices env 1 b = Some (b\<lparr>up := prepared sz ret ((up b)\<lparr>ddev := d\<rparr>), prep := None\<rparr>)"
    by (simp add: sec_do_def worker_choice_def same_ddev)
  then show ?case by blast
next
  case (Suc n)
  show ?case
  proof (cases "\<exists>ret'. pc = PR_Ret ret'")
    case True
    with Suc.prems have "worker_choices env 1 b = Some (b\<lparr>up := prepared sz ret ((up b)\<lparr>ddev := d\<rparr>), prep := None\<rparr>)"
      by (auto simp: sec_do_def worker_choice_def same_ddev)
    then show ?thesis by blast
  next
    case False
    obtain pc' d' where st: "prepare_step env sz pc (ddev (up b)) = (pc', d')" by fastforce
    let ?b = "b\<lparr>up := (up b)\<lparr>ddev := d'\<rparr>, prep := Some (sz, pc')\<rparr>"
    have do1: "sec_do env Ch_Worker b = Some ?b"
      using False Suc.prems(1) st by (cases pc) (simp_all add: sec_do_def worker_choice_def del: prepare_step.simps)
    from Suc.IH [of ?b pc'] Suc.prems st obtain m where
      "worker_choices env m ?b = Some (b\<lparr>up := prepared sz ret ((up b)\<lparr>ddev := d\<rparr>), prep := None\<rparr>)" by auto
    with do1 have "worker_choices env (Suc m) b = Some (b\<lparr>up := prepared sz ret ((up b)\<lparr>ddev := d\<rparr>), prep := None\<rparr>)"
      by simp
    then show ?thesis by blast
  qed
qed

lemma worker_choices_refine:
  assumes "\<And>h. \<not> se_cancelled env h" and "prep b = None" and "worker_step (m10bmc_ops env) (up b) = Some u"
  shows "\<exists>m. worker_choices env m b = Some (b\<lparr>up := u\<rparr>)"
proof (cases "worker (up b) = W_Prepare")
  case True
  let ?sz = "remaining_size (up b)" and ?data = "ptr_bytes (fw_data (up b))"
  obtain ret d where p: "m10bmc_sec_prepare env ?data ?sz (ddev (up b)) = (ret, d)" by fastforce
  have u: "u = prepared ?sz ret ((up b)\<lparr>ddev := d\<rparr>)"
    using assms(3) True p by (simp add: worker_step_def m10bmc_ops_def prepared_def logged_def Let_def)
  have "prepare_steps env ?sz 9 (PR_Start, ddev (up b)) = (PR_Ret ret, d)"
    using prepare_steps_refine [OF assms(1), of ?sz "ddev (up b)" ?data] p by simp
  from choices_prepare [of "b\<lparr>prep := Some (?sz, PR_Start)\<rparr>" ?sz PR_Start env 9 ret d] this obtain m where
    "worker_choices env m (b\<lparr>prep := Some (?sz, PR_Start)\<rparr>) = Some (b\<lparr>up := u, prep := None\<rparr>)" by (auto simp: u)
  then have "worker_choices env (Suc m) b = Some (b\<lparr>up := u\<rparr>)"
    using True assms(2) by (simp add: sec_do_def worker_choice_def)
  then show ?thesis by blast
next
  case False
  then have "worker_choices env 1 b = Some (b\<lparr>up := u\<rparr>)"
    using assms(2,3) by (simp add: sec_do_def worker_choice_def)
  then show ?thesis by blast
qed

section \<open>Who is at work\<close>

text \<open>
  The state is in the hands of an upload from the moment that prepare has set it until prepare gives up or
  the cleanup is done, and in those of a retimer load from its first step to its last but one.
\<close>

definition preparing :: "prep_pc \<Rightarrow> bool" where
  "preparing pc \<longleftrightarrow>
     (case pc of PR_Init \<Rightarrow> True | PR_Ready \<Rightarrow> True | PR_Check_cancel \<Rightarrow> True | PR_Cancel \<Rightarrow> True | PR_Write_state \<Rightarrow> True
        | PR_Exit ret \<Rightarrow> True | PR_Ret ret \<Rightarrow> ret = FW_UPLOAD_ERR_NONE | _ \<Rightarrow> False)"

definition retiming :: "retimer_pc \<Rightarrow> bool" where
  "retiming pc \<longleftrightarrow> (case pc of RT_Start \<Rightarrow> False | RT_Ret ret \<Rightarrow> False | _ \<Rightarrow> True)"

definition upload_at_work :: "'f sec_device \<Rightarrow> bool" where
  "upload_at_work b \<longleftrightarrow> at_work (worker (up b)) \<or> (case prep b of None \<Rightarrow> False | Some (sz, pc) \<Rightarrow> preparing pc)"

definition load_at_work :: "'f sec_device \<Rightarrow> bool" where
  "load_at_work b \<longleftrightarrow> list_ex retiming (loads b)"

definition sec_device_inv :: "'f sec_env \<Rightarrow> 'f sec_device \<Rightarrow> bool" where
  "sec_device_inv env b \<longleftrightarrow>
     (prep b \<noteq> None \<longrightarrow> worker (up b) = W_Prepare) \<and>
     (upload_at_work b \<or> load_at_work b \<or> fw_state_in env [M10BMC_FW_STATE_NORMAL] (ddev (up b)))"

lemma state_in_frame [simp]:
  "fw_state_in env sts (d\<lparr>mb_hist := h\<rparr>) = fw_state_in env sts d"
  "fw_state_in env sts (unlock_flash env d) = fw_state_in env sts d"
  by (auto simp: fw_state_in_def unlock_flash_def split: option.splits)

lemma lock_state: "lock_flash env d = (r, d') \<Longrightarrow> fw_state_in env sts d' = fw_state_in env sts d"
  by (auto simp: lock_flash_def fw_state_in_def split: option.splits prod.splits)

lemma cleanup_state: "fw_state_in env [M10BMC_FW_STATE_NORMAL] (m10bmc_sec_cleanup env d)"
  by (simp add: m10bmc_sec_cleanup_def)

lemma prepare_step_state:
  assumes "prepare_step env sz pc d = (pc', d')" and "\<And>ret. pc \<noteq> PR_Ret ret"
    and "preparing pc \<or> fw_state_in env [M10BMC_FW_STATE_NORMAL] d"
  shows "preparing pc' \<or> fw_state_in env [M10BMC_FW_STATE_NORMAL] d'"
  using assms
  by (cases pc) (auto simp: preparing_def goto_on_def Let_def lock_state accesses_state
      dest!: quiet_check_idle split: if_splits option.splits prod.splits)

lemma retimer_step_state:
  assumes "retimer_step env pc d = (pc', d')"
  shows "retiming pc' \<or> fw_state_in env [M10BMC_FW_STATE_NORMAL] d' \<or> (\<exists>ret. pc = RT_Ret ret)"
  using assms by (cases pc) (auto simp: retiming_def exit_on_def split: if_splits prod.splits)

lemma worker_step_state:
  assumes "worker_step (m10bmc_ops env) u = Some u'" and "worker u \<noteq> W_Prepare"
    and "at_work (worker u) \<or> fw_state_in env [M10BMC_FW_STATE_NORMAL] (ddev u)"
  shows "at_work (worker u') \<or> fw_state_in env [M10BMC_FW_STATE_NORMAL] (ddev u')"
  using assms by (cases "worker u") (auto simp: worker_step_def at_work_def logged_def fw_upload_update_progress_def
      fw_upload_set_error_def fw_upload_prog_complete_def worker_end_def m10bmc_ops_def cleanup_state Let_def
      split: if_splits option.splits prod.splits)

lemma user_state:
  assumes "user_step may (m10bmc_ops env) u u'"
  shows "(worker u' = worker u \<or> worker u = W_Idle \<and> worker u' = W_Queued) \<and>
    fw_state_in env sts (ddev u') = fw_state_in env sts (ddev u)"
proof -
  have c: "fw_state_in env sts (up_cancel (m10bmc_ops env) d) = fw_state_in env sts d" for d
    by (simp add: m10bmc_ops_def m10bmc_sec_cancel_def)
  from assms show ?thesis
  proof cases
    case (Ioctl cmd out)
    then show ?thesis
      by (cases cmd) (auto simp: c fpga_image_load_ioctl_def fpga_image_load_ioctl_cancel_def fpga_image_load_ioctl_write_def
          queue_work_def logged_def split: prod.splits option.splits sum.splits if_splits)
  qed (auto simp: c fpga_image_load_open_def fpga_image_load_release_def flushed_def logged_def split: if_splits)
qed

section \<open>The invariant\<close>

lemma worker_choice_inv:
  assumes "sec_device_inv env b" and "worker_choice env b = Some b'"
  shows "sec_device_inv env b'"
proof (cases "prep b")
  case None
  show ?thesis
  proof (cases "worker (up b) = W_Prepare")
    case True
    with None assms show ?thesis
      by (auto simp: worker_choice_def sec_device_inv_def upload_at_work_def load_at_work_def preparing_def at_work_def)
  next
    case False
    then obtain u where u: "worker_step (m10bmc_ops env) (up b) = Some u" "b' = b\<lparr>up := u\<rparr>"
      using None assms(2) by (auto simp: worker_choice_def)
    have "at_work (worker u) \<or> load_at_work b \<or> fw_state_in env [M10BMC_FW_STATE_NORMAL] (ddev u)"
    proof (cases "at_work (worker (up b)) \<or> fw_state_in env [M10BMC_FW_STATE_NORMAL] (ddev (up b))")
      case True
      from worker_step_state [OF u(1) False True] show ?thesis by blast
    qed (use None assms(1) in \<open>simp add: sec_device_inv_def upload_at_work_def\<close>)
    with None u(2) show ?thesis by (simp add: sec_device_inv_def upload_at_work_def load_at_work_def)
  qed
next
  case (Some p)
  then obtain sz pc where p: "prep b = Some (sz, pc)" by (cases p) auto
  have w: "worker (up b) = W_Prepare" using p assms(1) by (simp add: sec_device_inv_def)
  show ?thesis
  proof (cases "\<exists>ret. pc = PR_Ret ret")
    case True
    then obtain ret where ret: "pc = PR_Ret ret" by blast
    with p assms(2) have b': "b' = b\<lparr>up := prepared sz ret (up b), prep := None\<rparr>" by (simp add: worker_choice_def)
    show ?thesis using assms(1) p ret w
      by (cases "ret = FW_UPLOAD_ERR_NONE") (auto simp: b' sec_device_inv_def upload_at_work_def load_at_work_def preparing_def
          prepared_def logged_def at_work_def)
  next
    case False
    obtain pc' d where st: "prepare_step env sz pc (ddev (up b)) = (pc', d)" by fastforce
    have b': "b' = b\<lparr>up := (up b)\<lparr>ddev := d\<rparr>, prep := Some (sz, pc')\<rparr>"
      using assms(2) False p st by (cases pc) (simp_all add: worker_choice_def del: prepare_step.simps)
    have "preparing pc' \<or> load_at_work b \<or> fw_state_in env [M10BMC_FW_STATE_NORMAL] d"
    proof (cases "preparing pc \<or> fw_state_in env [M10BMC_FW_STATE_NORMAL] (ddev (up b))")
      case True
      from prepare_step_state [OF st _ True] False show ?thesis by blast
    qed (use p w assms(1) in \<open>simp add: sec_device_inv_def upload_at_work_def at_work_def\<close>)
    with p w show ?thesis by (auto simp: b' sec_device_inv_def upload_at_work_def load_at_work_def)
  qed
qed

lemma list_ex_update: "i < length xs \<Longrightarrow> list_ex P (xs[i := x]) \<longleftrightarrow> P x \<or> (\<exists>j < length xs. j \<noteq> i \<and> P (xs ! j))"
  by (auto simp: list_ex_length nth_list_update)

lemma load_inv:
  assumes "sec_device_inv env b" and i: "i < length (loads b)"
    and st: "retimer_step env (loads b ! i) (ddev (up b)) = (pc, d)"
  shows "sec_device_inv env (b\<lparr>up := (up b)\<lparr>ddev := d\<rparr>, loads := (loads b)[i := pc]\<rparr>)"
proof -
  have "upload_at_work b \<or> list_ex retiming ((loads b)[i := pc]) \<or> fw_state_in env [M10BMC_FW_STATE_NORMAL] d"
  proof (cases "\<exists>ret. loads b ! i = RT_Ret ret")
    case True
    then obtain ret where r: "loads b ! i = RT_Ret ret" by blast
    with st have "pc = loads b ! i" "d = ddev (up b)" by simp_all
    with assms(1) show ?thesis by (auto simp: sec_device_inv_def load_at_work_def)
  next
    case False
    from retimer_step_state [OF st] False show ?thesis using i by (auto simp: list_ex_update)
  qed
  with assms(1) show ?thesis by (auto simp: sec_device_inv_def upload_at_work_def load_at_work_def)
qed

lemma load_end_inv:
  assumes "sec_device_inv env b" and "i < length (loads b)" and "loads b ! i = RT_Ret ret"
  shows "sec_device_inv env (b\<lparr>loads := take i (loads b) @ drop (Suc i) (loads b)\<rparr>)"
proof -
  have "list_ex retiming (loads b) = list_ex retiming (take i (loads b) @ loads b ! i # drop (Suc i) (loads b))"
    using assms(2) by (simp add: id_take_nth_drop [symmetric])
  also have "\<dots> = list_ex retiming (take i (loads b) @ drop (Suc i) (loads b))"
    using assms(3) by (simp add: retiming_def)
  finally show ?thesis using assms(1) by (simp add: sec_device_inv_def upload_at_work_def load_at_work_def)
qed

lemma sec_do_inv:
  assumes "sec_device_inv env b" and "sec_do env c b = Some b'"
  shows "sec_device_inv env b'"
proof (cases c)
  case Ch_Worker
  with assms show ?thesis using worker_choice_inv by (simp add: sec_do_def)
next
  case Ch_Load_start
  with assms show ?thesis
    by (auto simp: sec_do_def sec_device_inv_def upload_at_work_def load_at_work_def retiming_def split: if_splits)
next
  case (Ch_Load i)
  with assms load_inv [OF assms(1)] show ?thesis by (auto simp: sec_do_def split: if_splits prod.splits)
next
  case (Ch_Load_end i)
  with assms load_end_inv [OF assms(1)] show ?thesis by (auto simp: sec_do_def split: if_splits retimer_pc.splits)
qed

lemma sec_reach_inv:
  assumes "sec_reach env d b" and "bmcfw_state d = M10BMC_FW_STATE_NORMAL"
  shows "sec_device_inv env b"
  using assms
proof (induction rule: sec_reach.induct)
  case Init
  then show ?case by (simp add: sec_device_inv_def fw_state_in_def image_load_init_def)
next
  case (Do b c b')
  then show ?case using sec_do_inv by blast
next
  case (User b u)
  then have inv: "sec_device_inv env b" by simp
  have w: "worker u = worker (up b) \<or> worker (up b) = W_Idle \<and> worker u = W_Queued"
    and st: "fw_state_in env [M10BMC_FW_STATE_NORMAL] (ddev u) = fw_state_in env [M10BMC_FW_STATE_NORMAL] (ddev (up b))"
    using user_state [OF User(2)] by blast+
  from w have "at_work (worker u) = at_work (worker (up b))" by (auto simp: at_work_def)
  with inv w st show ?case by (auto simp: sec_device_inv_def upload_at_work_def load_at_work_def)
next
  case (Other b d')
  then show ?case by (simp add: sec_device_inv_def upload_at_work_def load_at_work_def accesses_state)
qed

text \<open>
  C40. On an N3000, at every moment of every interleaving of uploads, retimer loads and whatever else is
  done with the board: when no upload is at work (from the step in which prepare makes registers unavailable
  until prepare gives up, or else until the cleanup is done) and no retimer load is (from its first step to
  the one that ends it), the firmware state is normal, and every register can be read. So the registers
  always come back, however uploads and loads end and overlap; users may do anything, also start a second
  upload in the middle of one.
\<close>

theorem n3000_registers_back:
  assumes "sec_reach (n3000_env e) d b" and "bmcfw_state d = M10BMC_FW_STATE_NORMAL"
    and "\<not> upload_at_work b" and "\<not> load_at_work b"
  shows "bmcfw_state (ddev (up b)) = M10BMC_FW_STATE_NORMAL \<and>
    m10bmc_sys_read (n3000_env e) a (ddev (up b)) = regmap_read (n3000_env e) (0x300800 + a) (ddev (up b))"
proof -
  have "handshake_sys_reg_ranges (mb_info (n3000_env e)) \<noteq> []" by (simp add: n3000_env_def m10bmc_spi_n3000_def)
  with sec_reach_inv [OF assms(1,2)] assms(3,4) have "bmcfw_state (ddev (up b)) = M10BMC_FW_STATE_NORMAL"
    by (simp add: sec_device_inv_def fw_state_in_def)
  then show ?thesis by (simp add: m10bmc_sys_read_def m10bmc_raw_read_def m10bmc_handshake_reg_unavailable_def)
qed

section \<open>A retimer load in the middle of an upload\<close>

fun sec_run :: "'f sec_env \<Rightarrow> sec_choice list \<Rightarrow> 'f sec_device \<Rightarrow> 'f sec_device option" where
  "sec_run env [] b = Some b"
| "sec_run env (c # cs) b = (case sec_do env c b of None \<Rightarrow> None | Some b \<Rightarrow> sec_run env cs b)"

lemma sec_run_reach: "sec_reach env d b \<Longrightarrow> sec_run env cs b = Some b' \<Longrightarrow> sec_reach env d b'"
  by (induction cs arbitrary: b) (auto split: option.splits intro: sec_reach.Do)

definition device0 :: "unit sec_device" where
  "device0 = \<lparr>up = board0, prep = None, loads = []\<rparr>"

lemma device0_reach: "sec_reach board board_sec device0"
proof -
  let ?s1 = "snd (fpga_image_load_open (image_load_init board_sec))"
  have "sec_reach board board_sec (\<lparr>up = image_load_init board_sec, prep = None, loads = []\<rparr>\<lparr>up := ?s1\<rparr>)"
    by (rule sec_reach.User [OF sec_reach.Init]) (auto simp: fpga_image_load_open_def image_load_init_def intro!: user_step.Open)
  moreover have "user_step anyhow (m10bmc_ops board) ?s1 board0"
    by (rule user_step.Ioctl [where cmd = "IMAGE_LOAD_WRITE board_write" and out = "(None, None)"])
      (simp_all add: board0_simps anyhow_def copied_def fpga_image_load_ioctl_def)
  ultimately show ?thesis using sec_reach.User [of board board_sec _ board0] by (fastforce simp: device0_def)
qed

text \<open>
  An upload up to where it may write; a retimer load that is refused because of it; the rest of the upload.
\<close>

definition to_write :: "sec_choice list" where
  "to_write = replicate 10 Ch_Worker"

definition refused_load :: "sec_choice list" where
  "refused_load = [Ch_Load_start, Ch_Load 0, Ch_Load 0, Ch_Load 0]"

definition to_end :: "sec_choice list" where
  "to_end = Ch_Load_end 0 # replicate 10 Ch_Worker"

lemma run_states:
  "map_option (\<lambda>b. (worker (up b), bmcfw_state (ddev (up b)), loads b)) (sec_run board to_write device0) =
     Some (W_Prepared, M10BMC_FW_STATE_SEC_UPDATE_WRITE, [])"
  "map_option (\<lambda>b. (worker (up b), bmcfw_state (ddev (up b)), loads b)) (sec_run board (to_write @ refused_load) device0) =
     Some (W_Prepared, M10BMC_FW_STATE_NORMAL, [RT_Ret (Some EBUSY)])"
  "map_option (\<lambda>b. (worker (up b), err_code (up b), prep b, loads b)) (sec_run board (to_write @ refused_load @ to_end) device0) =
     Some (W_Idle, FW_UPLOAD_ERR_NONE, None, [])"
  by code_simp+

theorem n3000_registers_back_witness:
  "\<exists>b. sec_run board (to_write @ refused_load @ to_end) device0 = Some b \<and> worker (up b) = W_Idle \<and>
     err_code (up b) = FW_UPLOAD_ERR_NONE \<and> bmcfw_state (ddev (up b)) = M10BMC_FW_STATE_NORMAL \<and>
     m10bmc_sys_read board 0x110 (ddev (up b)) = regmap_read board 0x300910 (ddev (up b))"
proof -
  obtain b where b: "sec_run board (to_write @ refused_load @ to_end) device0 = Some b" "worker (up b) = W_Idle"
    "err_code (up b) = FW_UPLOAD_ERR_NONE" "prep b = None" "loads b = []" using run_states(3) by auto
  have "\<not> upload_at_work b" "\<not> load_at_work b" using b by (simp_all add: upload_at_work_def load_at_work_def at_work_def)
  with n3000_registers_back [of board board_sec b, where a = "0x110"] sec_run_reach [OF device0_reach b(1)] b show ?thesis
    by (simp add: board_n3000 [symmetric] board_sec_def)
qed

text \<open>
  The refused load has made the registers available that the update had made unavailable: the worker is
  about to write, and a register that the firmware serves is read all the same, with \<open>EBUSY\<close> before.
\<close>

theorem refused_load_unprotects:
  "map_option (\<lambda>b. fst (m10bmc_sys_read board 0x110 (ddev (up b)))) (sec_run board to_write device0) = Some (Inl EBUSY)"
  "map_option (\<lambda>b. (worker (up b), fst (m10bmc_sys_read board 0x110 (ddev (up b)))))
     (sec_run board (to_write @ refused_load) device0) = Some (W_Prepared, Inr 0x30)"
  by code_simp+

end
