(* ===== verification/M10bmc_Image_Props.thy ===== *)
theory M10bmc_Image_Props
  imports M10bmc_Image M10bmc_Boards M10bmc_Sec_Props M10bmc_Pmci_Props
begin

unbundle bit_operations_syntax

text \<open>Power-on sequences are written as they are read, and what a retimer load says.\<close>

section \<open>Tokens and names\<close>

lemma token_no_sep: "t \<in> set (strsep_tokens seps buf) \<Longrightarrow> c \<in> set t \<Longrightarrow> c \<notin> set seps"
proof (induction buf arbitrary: t)
  case (Cons d buf)
  then show ?case by (cases "strsep_tokens seps buf") (fastforce split: if_splits)+
qed simp

lemma sysfs_streq_plain: "CHR 0x0A \<notin> set a \<Longrightarrow> CHR 0x0A \<notin> set b \<Longrightarrow> sysfs_streq a b \<longleftrightarrow> a = b"
  by (auto simp: sysfs_streq_def)

lemma by_name_cases:
  "fpga_image_by_name t =
     (if sysfs_streq t ''fpga_factory'' then FPGA_FACTORY else if sysfs_streq t ''fpga_user1'' then FPGA_USER1
      else if sysfs_streq t ''fpga_user2'' then FPGA_USER2 else FPGA_MAX)"
  by (simp add: fpga_image_by_name_def fpga_image_names_def)

lemma by_name:
  assumes "CHR 0x0A \<notin> set t" and "fpga_image_by_name t \<noteq> FPGA_MAX"
  shows "t = fpga_image_names ! image_nr (fpga_image_by_name t)"
  using assms(2) by (simp add: by_name_cases sysfs_streq_plain assms(1) fpga_image_names_def split: if_splits)

text \<open>The loop writes only into the array, and what it writes are different images in the order of the tokens.\<close>

lemma distinct_images: "distinct xs \<Longrightarrow> FPGA_MAX \<notin> set xs \<Longrightarrow> length xs \<le> 3"
proof -
  assume d: "distinct xs" and "FPGA_MAX \<notin> set xs"
  then have "set xs \<subseteq> {FPGA_FACTORY, FPGA_USER1, FPGA_USER2}" using fpga_image.exhaust by blast
  then have "card (set xs) \<le> card {FPGA_FACTORY, FPGA_USER1, FPGA_USER2}" by (intro card_mono) auto
  with d show ?thesis by (simp add: distinct_card)
qed

lemma image_nr_inj [simp]: "image_nr a = image_nr b \<longleftrightarrow> a = b"
  by (cases a; cases b) simp_all

lemma fpga_images_loop_exact:
  assumes "fpga_images_loop ts m (length xs) (xs @ replicate (3 - length xs) FPGA_MAX) = (None, n, images)"
    and "distinct xs" and "FPGA_MAX \<notin> set xs" and "\<forall>img. img \<noteq> FPGA_MAX \<longrightarrow> bit m (image_nr img) = (img \<notin> set xs)"
  shows "images = xs @ map fpga_image_by_name ts @ replicate (3 - length xs - length ts) FPGA_MAX \<and> n = length xs + length ts \<and>
     distinct (xs @ map fpga_image_by_name ts) \<and> FPGA_MAX \<notin> set (xs @ map fpga_image_by_name ts)"
  using assms
proof (induction ts arbitrary: m xs)
  case (Cons t ts)
  let ?img = "fpga_image_by_name t"
  from Cons.prems(1) have img: "?img \<noteq> FPGA_MAX" "bit m (image_nr ?img)"
    and run: "fpga_images_loop ts (unset_bit (image_nr ?img) m) (Suc (length xs)) ((xs @ replicate (3 - length xs) FPGA_MAX)[length xs := ?img]) = (None, n, images)"
    by (auto simp: Let_def split: if_splits)
  let ?xs = "xs @ [?img]"
  have d: "distinct ?xs" "FPGA_MAX \<notin> set ?xs" using img Cons.prems(2-4) by auto
  from distinct_images [OF this] have "length xs < 3" by simp
  then have arr: "(xs @ replicate (3 - length xs) FPGA_MAX)[length xs := ?img] = ?xs @ replicate (3 - length ?xs) FPGA_MAX"
    by (cases "3 - length xs") (auto simp: list_update_append)
  have "\<forall>i. i \<noteq> FPGA_MAX \<longrightarrow> bit (unset_bit (image_nr ?img) m) (image_nr i) = (i \<notin> set ?xs)"
    using Cons.prems(4) by (auto simp: bit_unset_bit_iff)
  with Cons.IH [of "unset_bit (image_nr ?img) m" ?xs] run d show ?case by (simp add: arr)
qed auto

lemma mask_bits: "img \<noteq> FPGA_MAX \<Longrightarrow> bit avail_image_mask (image_nr img)"
  by (cases img) (simp_all add: avail_image_mask_def)

text \<open>What is accepted: names separated by single blanks or newlines, none twice.\<close>

lemma fpga_images_accepted:
  assumes "fpga_images buf [FPGA_MAX, FPGA_MAX, FPGA_MAX] = (None, images)"
  defines "ts \<equiv> strsep_tokens ('' '' @ newline) buf"
  shows "\<exists>ims. ts = map (\<lambda>i. fpga_image_names ! image_nr i) ims \<and> images = ims @ replicate (3 - length ims) FPGA_MAX \<and>
     ims \<noteq> [] \<and> length ims \<le> 3 \<and> distinct ims \<and> FPGA_MAX \<notin> set ims"
proof -
  let ?ims = "map fpga_image_by_name ts"
  obtain n where run: "fpga_images_loop ts avail_image_mask 0 [FPGA_MAX, FPGA_MAX, FPGA_MAX] = (None, n, images)" and "n \<noteq> 0"
    using assms(1) unfolding fpga_images_def ts_def [symmetric] by (auto split: prod.splits option.splits if_splits)
  have "images = [] @ ?ims @ replicate (3 - length ([] :: fpga_image list) - length ts) FPGA_MAX \<and> n = length ([] :: fpga_image list) + length ts \<and>
     distinct ([] @ ?ims) \<and> FPGA_MAX \<notin> set ([] @ ?ims)"
    by (rule fpga_images_loop_exact [where m = avail_image_mask]) (use run mask_bits in \<open>simp_all add: numeral_eq_Suc\<close>)
  then have r: "images = ?ims @ replicate (3 - length ts) FPGA_MAX" "n = length ts" "distinct ?ims" "FPGA_MAX \<notin> set ?ims" by simp_all
  have "map (\<lambda>t. fpga_image_names ! image_nr (fpga_image_by_name t)) ts = ts"
  proof (rule map_idI)
    fix t assume t: "t \<in> set ts"
    then have "CHR 0x0A \<notin> set t" using token_no_sep [of t "'' '' @ newline" buf] unfolding ts_def by auto
    moreover have "fpga_image_by_name t \<noteq> FPGA_MAX" using r(4) t by force
    ultimately show "fpga_image_names ! image_nr (fpga_image_by_name t) = t" using by_name by metis
  qed
  then have "map (\<lambda>i. fpga_image_names ! image_nr i) ?ims = ts" by (simp add: comp_def)
  with r \<open>n \<noteq> 0\<close> distinct_images [OF r(3,4)] show ?thesis by (intro exI [of _ ?ims]) auto
qed


section \<open>Writing and reading a sequence\<close>

text \<open>A sequence that is set has gone to the register, with a page for the user image.\<close>

definition poc_value :: "bool \<Rightarrow> u32 \<Rightarrow> u32" where
  "poc_value factory page = (if factory then PMCI_FACTORY_IMAGE_SEL else 0) OR field_prep32 8 page OR 1"

lemma user_page_ok:
  "user_page env img s = (Inr page, s') \<Longrightarrow>
     (page = 1 \<or> page = 2) \<and> (img = FPGA_USER1 \<longrightarrow> page = 1) \<and> (img = FPGA_USER2 \<longrightarrow> page = 2) \<and> (\<exists>t. mb_hist s' = mb_hist s @ t)"
  by (auto simp: user_page_def m10bmc_sys_read_def m10bmc_raw_read_def regmap_read_def Let_def split: if_splits sum.splits prod.splits)

lemma set_power_on:
  assumes "pmci_set_power_on_image (n6000_env pe e) [a, b, c] s = (None, s')"
  shows "b \<noteq> FPGA_FACTORY \<and> (\<exists>page. (page = 1 \<or> page = 2) \<and>
     ((if a = FPGA_FACTORY then b else a) = FPGA_USER1 \<longrightarrow> page = 1) \<and>
     ((if a = FPGA_FACTORY then b else a) = FPGA_USER2 \<longrightarrow> page = 2) \<and>
     RM_Update M10BMC_PMCI_FPGA_POC 0x80000701 (poc_value (a = FPGA_FACTORY) page) None \<in> set (drop (length (mb_hist s)) (mb_hist s')))"
proof -
  let ?env = "n6000_env pe e" and ?img = "if a = FPGA_FACTORY then b else a"
  have b: "b \<noteq> FPGA_FACTORY" using assms by (auto simp: pmci_set_power_on_image_def)
  have nth: "[a, b, c] ! (if [a, b, c] ! 0 = FPGA_FACTORY then 1 else 0) = ?img" by simp
  obtain r s1 where u: "user_page ?env ?img s = (r, s1)" by fastforce
  obtain page where r: "r = Inr page"
    using assms b u unfolding pmci_set_power_on_image_def Let_def nth by (auto split: sum.splits)
  obtain q s2 where w: "regmap_update_bits ?env M10BMC_PMCI_FPGA_POC 0x80000701 (poc_value (a = FPGA_FACTORY) page) s1 = (q, s2)" by fastforce
  obtain v s3 where p: "regmap_read_poll ?env M10BMC_PMCI_FPGA_POC (\<lambda>v. v AND 1 = 0) (se_handshake_polls ?env) s2 = (v, s3)"
    by fastforce
  have "q = None \<and> s' = s3"
    using assms b u r w p unfolding pmci_set_power_on_image_def Let_def nth
    by (simp add: poc_value_def split: option.splits sum.splits if_splits)
  moreover obtain t where "mb_hist s1 = mb_hist s @ t" using user_page_ok [of ?env ?img s page s1] u r by blast
  moreover have "mb_hist s2 = mb_hist s1 @ [RM_Update M10BMC_PMCI_FPGA_POC 0x80000701 (poc_value (a = FPGA_FACTORY) page) q]"
    using w by (auto simp: regmap_update_bits_def Let_def)
  moreover obtain t' where "mb_hist s3 = mb_hist s2 @ t'" using quiet_regmap_poll [OF p] by (auto simp: accesses_def)
  ultimately show ?thesis using user_page_ok [of ?env ?img s page s1] u r b by (intro conjI exI [of _ page]) auto
qed

lemma poc_fields:
  assumes "st AND 0x80000700 = poc_value f page AND 0x80000700" and "page = 1 \<or> page = 2"
  shows "(st AND PMCI_FACTORY_IMAGE_SEL \<noteq> 0) = f" and "(field32 10 8 st = 1) = (page = 1)"
proof -
  have a: "v AND PMCI_FACTORY_IMAGE_SEL = (v AND 0x80000700) AND PMCI_FACTORY_IMAGE_SEL" for v :: u32
    by (simp add: and.assoc)
  show "(st AND PMCI_FACTORY_IMAGE_SEL \<noteq> 0) = f"
    unfolding a [of st] assms(1) using assms(2) by (auto simp: poc_value_def field_prep32_def)
  have m: "(0x700 :: u32) = push_bit 8 (mask 3)" by (simp add: mask_eq_exp_minus_1)
  have "field32 10 8 v = drop_bit 8 (v AND 0x700)" for v
    unfolding m by (rule bit_eqI) (auto simp: field32_def bit_simps)
  moreover have "v AND 0x700 = (v AND 0x80000700) AND 0x700" for v :: u32 by (simp add: and.assoc)
  ultimately have fld: "field32 10 8 v = drop_bit 8 ((v AND 0x80000700) AND 0x700)" for v by metis
  show "(field32 10 8 st = 1) = (page = 1)"
    unfolding fld [of st] assms(1) using assms(2) by (auto simp: poc_value_def field_prep32_def)
qed


text \<open>The order that is shown for the fields of the register.\<close>

definition shown_order :: "bool \<Rightarrow> bool \<Rightarrow> fpga_image list" where
  "shown_order factory first =
     (if factory then [FPGA_FACTORY] else []) @ (if first then [FPGA_USER1, FPGA_USER2] else [FPGA_USER2, FPGA_USER1]) @
     (if factory then [] else [FPGA_FACTORY])"

abbreviation img_name :: "fpga_image \<Rightarrow> string" where
  "img_name i \<equiv> fpga_image_names ! image_nr i"

lemma get_power_on:
  assumes "rm_read (mb_regmap e) (mb_hist s) M10BMC_PMCI_FPGA_POC_STS_BL = Inr st"
    and "ns = map img_name (shown_order (st AND PMCI_FACTORY_IMAGE_SEL \<noteq> 0) (field32 10 8 st = 1))"
  shows "fst (pmci_get_power_on_image (n6000_env pe e) s) = Inr (ns ! 0 @ '' '' @ ns ! 1 @ '' '' @ ns ! 2 @ newline)"
proof -
  have "regmap_read (n6000_env pe e) M10BMC_PMCI_FPGA_POC_STS_BL s =
      (Inr st, s\<lparr>mb_hist := mb_hist s @ [RM_Read M10BMC_PMCI_FPGA_POC_STS_BL (Inr st)]\<rparr>)"
    using assms(1) by (simp add: regmap_read_def n6000_env_def Let_def)
  then show ?thesis using assms(2)
    by (auto simp: pmci_get_power_on_image_def shown_order_def Let_def)
qed

lemma accepted_prefix:
  assumes "ims @ replicate (3 - length ims) FPGA_MAX = [a, b, c]" and "ims \<noteq> []" and "distinct ims" and "FPGA_MAX \<notin> set ims"
    and "b \<noteq> FPGA_FACTORY" and "(if a = FPGA_FACTORY then b else a) = FPGA_USER1 \<longrightarrow> first"
    and "(if a = FPGA_FACTORY then b else a) = FPGA_USER2 \<longrightarrow> \<not> first"
  shows "\<exists>rest. shown_order (a = FPGA_FACTORY) first = ims @ rest"
proof -
  have "ims = [a] \<and> b = FPGA_MAX \<or> ims = [a, b] \<and> c = FPGA_MAX \<or> ims = [a, b, c]"
    using assms(1,2) by (cases ims; cases "tl ims"; cases "tl (tl ims)"; cases "tl (tl (tl ims))") (auto simp: numeral_eq_Suc)
  with assms(3-7) show ?thesis
    by (cases a; cases b; cases c) (auto simp: shown_order_def)
qed

text \<open>
  C37. Setting the power-on images and reading them back agree on every sequence: if writing a text
  succeeds, and the board then has the fields of the register as they were written, the file shows a
  sequence of all three images that begins with the names in the order they were written; the board
  fills in the rest.
\<close>

theorem power_on_image_roundtrip:
  assumes "power_on_image_store (n6000_env pe e) (Some buf) s = (None, s')"
    and "rm_read (mb_regmap e) (mb_hist s') M10BMC_PMCI_FPGA_POC_STS_BL = Inr st"
    and "\<And>x r. RM_Update M10BMC_PMCI_FPGA_POC 0x80000701 x r \<in> set (drop (length (mb_hist s)) (mb_hist s')) \<Longrightarrow>
      st AND 0x80000700 = x AND 0x80000700"
  shows "\<exists>n0 n1 n2 rest. fst (pmci_get_power_on_image (n6000_env pe e) s') = Inr (n0 @ '' '' @ n1 @ '' '' @ n2 @ newline) \<and>
     [n0, n1, n2] = strsep_tokens ('' '' @ newline) (c_string buf) @ rest \<and> set [n0, n1, n2] = set fpga_image_names"
proof -
  obtain images where im: "fpga_images (c_string buf) [FPGA_MAX, FPGA_MAX, FPGA_MAX] = (None, images)"
    and set: "pmci_set_power_on_image (n6000_env pe e) images s = (None, s')"
    using assms(1) by (auto simp: power_on_image_store_def split: prod.splits option.splits)
  from fpga_images_accepted [OF im] obtain ims where
    ims: "strsep_tokens ('' '' @ newline) (c_string buf) = map img_name ims" "images = ims @ replicate (3 - length ims) FPGA_MAX"
      "ims \<noteq> []" "length ims \<le> 3" "distinct ims" "FPGA_MAX \<notin> set ims" by auto
  then have "length images = 3" by simp
  then obtain a b c where abc: "images = [a, b, c]" by (auto simp: numeral_eq_Suc length_Suc_conv)
  from set_power_on [OF set [unfolded abc]] obtain page where
    page: "b \<noteq> FPGA_FACTORY" "page = 1 \<or> page = 2" "(if a = FPGA_FACTORY then b else a) = FPGA_USER1 \<longrightarrow> page = 1"
      "(if a = FPGA_FACTORY then b else a) = FPGA_USER2 \<longrightarrow> page = 2"
      "RM_Update M10BMC_PMCI_FPGA_POC 0x80000701 (poc_value (a = FPGA_FACTORY) page) None \<in> set (drop (length (mb_hist s)) (mb_hist s'))"
    by blast
  note st = poc_fields [OF assms(3) [OF page(5)] page(2)]
  let ?o = "shown_order (a = FPGA_FACTORY) (page = 1)"
  have "\<exists>rest. ?o = ims @ rest"
    by (rule accepted_prefix [where b = b and c = c]) (use ims page abc in auto)
  then obtain rest where rest: "?o = ims @ rest" by blast
  have "length ?o = 3" by (simp add: shown_order_def)
  then obtain o0 o1 o2 where o: "?o = [o0, o1, o2]" by (auto simp: numeral_eq_Suc length_Suc_conv)
  have "set (map img_name ?o) = set fpga_image_names" by (auto simp: shown_order_def fpga_image_names_def)
  moreover have "fst (pmci_get_power_on_image (n6000_env pe e) s') =
      Inr (img_name o0 @ '' '' @ img_name o1 @ '' '' @ img_name o2 @ newline)"
    using get_power_on [OF assms(2) refl, of pe] by (simp add: st o)
  moreover have "[img_name o0, img_name o1, img_name o2] = strsep_tokens ('' '' @ newline) (c_string buf) @ map img_name rest"
    using arg_cong [OF rest, of "map img_name"] by (simp only: o ims(1) list.map map_append)
  ultimately show ?thesis unfolding o
    by (intro exI [of _ "img_name o0"] exI [of _ "img_name o1"] exI [of _ "img_name o2"] exI [of _ "map img_name rest"]) simp
qed


text \<open>A board with the factory image first and the second user image behind it.\<close>

definition poc_env :: "pmci sec_env" where
  "poc_env = n6000_env pmci_env0 \<lparr>mb_regmap = \<lparr>rm_read = \<lambda>h a. Inr (if a = 0xb4 then 0x80000200 else 0x10),
       rm_update = \<lambda>h a m v. None, rm_write = \<lambda>h a v. None, rm_bulk_write = \<lambda>h a b. None, rm_bulk_read = \<lambda>h a n. Inl EIO,
       rm_stride = 4\<rparr>,
     mb_info = m10bmc_pmci_n6000, mb_flash_ops = None, se_board = M10SEC_N6000, se_handshake_polls = 1,
     se_prepare_polls = 1, se_complete_polls = 1, se_pkvl_load_polls = 1, se_pkvl_preload_polls = 1, se_cancelled = \<lambda>h. False\<rparr>"

definition poc_sec :: "pmci m10bmc_sec" where
  "poc_sec = \<lparr>mb_hist = [], bmcfw_state = M10BMC_FW_STATE_NORMAL, mb_flash = pmci0, cancel_request = False\<rparr>"

lemma poc_run:
  "fst (power_on_image_store poc_env (Some ''fpga_factory fpga_user2'') poc_sec) = None"
  "mb_hist (snd (power_on_image_store poc_env (Some ''fpga_factory fpga_user2'') poc_sec)) =
     [RM_Update 0xb0 0x80000701 0x80000201 None, RM_Read 0xb0 (Inr 0x10)]"
  "strsep_tokens ('' '' @ newline) (c_string ''fpga_factory fpga_user2'') = [''fpga_factory'', ''fpga_user2'']"
  by code_simp+

theorem power_on_image_roundtrip_witness:
  "\<exists>n2. fst (pmci_get_power_on_image poc_env (snd (power_on_image_store poc_env (Some ''fpga_factory fpga_user2'') poc_sec))) =
     Inr (''fpga_factory'' @ '' '' @ ''fpga_user2'' @ '' '' @ n2 @ newline)"
proof -
  let ?s' = "snd (power_on_image_store poc_env (Some ''fpga_factory fpga_user2'') poc_sec)"
  have env: "poc_env = n6000_env pmci_env0 poc_env" by (simp add: poc_env_def n6000_env_def)
  have "power_on_image_store (n6000_env pmci_env0 poc_env) (Some ''fpga_factory fpga_user2'') poc_sec = (None, ?s')"
    using poc_run(1) env by (metis prod.collapse)
  moreover have "rm_read (mb_regmap poc_env) (mb_hist ?s') M10BMC_PMCI_FPGA_POC_STS_BL = Inr 0x80000200"
    by (simp add: poc_env_def n6000_env_def)
  moreover have "(0x80000200 :: u32) AND 0x80000700 = x AND 0x80000700"
    if "RM_Update M10BMC_PMCI_FPGA_POC 0x80000701 x r \<in> set (drop (length (mb_hist poc_sec)) (mb_hist ?s'))" for x r
    using that by (simp add: poc_run(2)) (simp add: poc_sec_def)
  ultimately show ?thesis
    using power_on_image_roundtrip [of pmci_env0 poc_env "''fpga_factory fpga_user2''" poc_sec ?s' "0x80000200"]
    unfolding poc_run(3) env [symmetric] by auto
qed

text \<open>
  A text with a newline at the end, as \<^verbatim>\<open>echo\<close> writes it, has an empty name behind it and is refused.
\<close>

lemma power_on_image_newline:
  "fst (power_on_image_store poc_env (Some (''fpga_user1'' @ newline)) poc_sec) = Some EINVAL"
  by code_simp

section \<open>Retimers\<close>

lemma read_poll_last:
  assumes "\<And>s v s'. f s = (v, s') \<Longrightarrow> accesses s s'"
  shows "read_poll f c n s = ((None, v), s') \<Longrightarrow> \<exists>s1. accesses s s1 \<and> f s1 = (v, s') \<and> c v"
proof (induction n arbitrary: s)
  case 0
  then show ?case by (auto split: prod.splits if_splits intro!: exI [of _ s])
next
  case (Suc n)
  obtain w s1 where w: "f s = (w, s1)" by fastforce
  show ?case
  proof (cases "c w")
    case True
    with Suc.prems w show ?thesis by (auto intro!: exI [of _ s])
  next
    case False
    with Suc.prems w Suc.IH [of s1] obtain s2 where "accesses s1 s2" "f s2 = (v, s')" "c v" by auto
    with accesses_trans [OF assms [OF w]] show ?thesis by blast
  qed
qed

lemma regmap_poll_last:
  fixes s :: "'f m10bmc_sec"
  assumes "regmap_read_poll env a c n s = (Inr v, s')"
  shows "\<exists>h. mb_hist s' = mb_hist s @ h @ [RM_Read a (Inr v)] \<and> c v"
proof -
  let ?c = "\<lambda>v :: errno + u32. case v of Inl e \<Rightarrow> True | Inr v \<Rightarrow> c v"
  have p: "read_poll (regmap_read env a) ?c n s = ((None, Inr v), s')"
    using assms by (auto simp: regmap_read_poll_def split: prod.splits sum.splits option.splits)
  have "\<exists>s1. accesses s s1 \<and> regmap_read env a s1 = (Inr v, s') \<and> ?c (Inr v)"
    by (rule read_poll_last [OF _ p]) (rule quiet_regmap(1))
  then obtain s1 where "accesses s s1" "regmap_read env a s1 = (Inr v, s')" "c v" by auto
  then show ?thesis by (auto simp: accesses_def regmap_read_def Let_def)
qed

text \<open>What the last poll of the progress has seen: done, or an error of a read.\<close>

definition load_seen :: "reghist \<Rightarrow> bool" where
  "load_seen x \<longleftrightarrow>
     (\<exists>p q. x = [RM_Read n3000_doorbell (Inr p), RM_Read n3000_doorbell (Inr q)] \<and>
        rsu_prog p = RSU_PROG_PKVL_PROM_DONE \<and> field32 23 16 q \<noteq> RSU_STAT_PKVL_REJECT) \<or>
     (\<exists>p e. x = [RM_Read n3000_doorbell (Inl e)] \<or> x = [RM_Read n3000_doorbell (Inr p), RM_Read n3000_doorbell (Inl e)])"

lemma eeprom_load_done:
  assumes "poll_retimer_eeprom_load_done (n3000_env e) s = (None, s')"
  shows "\<exists>h x. mb_hist s' = mb_hist s @ h @ x \<and> load_seen x"
proof -
  let ?env = "n3000_env e"
  let ?c = "\<lambda>v. case v of Inl e \<Rightarrow> True
      | Inr (doorbell, prog, status) \<Rightarrow> prog = RSU_PROG_PKVL_PROM_DONE \<or> status = RSU_STAT_PKVL_REJECT"
  obtain v where p: "read_poll (m10bmc_sec_progress_status ?env) ?c (se_pkvl_preload_polls ?env) s = ((None, v), s')"
    and ok: "case v of Inl e \<Rightarrow> True | Inr (doorbell, prog, status) \<Rightarrow> status \<noteq> RSU_STAT_PKVL_REJECT"
    using assms by (auto simp: poll_retimer_eeprom_load_done_def split: prod.splits option.splits sum.splits if_splits)
  have "\<exists>s1. accesses s s1 \<and> m10bmc_sec_progress_status ?env s1 = (v, s') \<and> ?c v"
    by (rule read_poll_last [OF _ p]) (rule quiet_progress)
  then obtain s1 where s1: "accesses s s1" "m10bmc_sec_progress_status ?env s1 = (v, s')" "?c v" by blast
  from s1(2) have "\<exists>x. mb_hist s' = mb_hist s1 @ x \<and> load_seen x"
    using s1(3) ok
    by (auto simp: m10bmc_sec_progress_status_def rsu_status_def m10bmc_sec_n3000_rsu_status_def regmap_read_def Let_def
        load_seen_def split: sum.splits)
  then obtain x where x: "mb_hist s' = mb_hist s1 @ x" "load_seen x" by blast
  moreover obtain h where "mb_hist s1 = mb_hist s @ h" using s1(1) by (auto simp: accesses_def)
  ultimately have "mb_hist s' = mb_hist s @ h @ x \<and> load_seen x" by simp
  then show ?thesis by blast
qed

lemma retimer_triggered:
  assumes "trigger_retimer_eeprom_load (n3000_env e) s = (None, s')"
  shows "\<exists>h v. mb_hist s' = mb_hist s @ [RM_Update n3000_doorbell DRBL_PKVL_EEPROM_LOAD_SEC DRBL_PKVL_EEPROM_LOAD_SEC None] @ h @
    [RM_Read n3000_doorbell (Inr v)] \<and> v AND DRBL_PKVL_EEPROM_LOAD_SEC = 0"
proof -
  let ?env = "n3000_env e"
  obtain r s1 where u: "regmap_update_bits ?env n3000_doorbell DRBL_PKVL_EEPROM_LOAD_SEC DRBL_PKVL_EEPROM_LOAD_SEC s = (r, s1)"
    by fastforce
  with assms obtain v where r: "r = None"
    and p: "regmap_read_poll ?env n3000_doorbell (\<lambda>v. v AND DRBL_PKVL_EEPROM_LOAD_SEC = 0) (se_pkvl_load_polls ?env) s1 = (Inr v, s')"
    by (auto simp: trigger_retimer_eeprom_load_def split: option.splits prod.splits sum.splits if_splits)
  from regmap_poll_last [OF p] obtain h where "mb_hist s' = mb_hist s1 @ h @ [RM_Read n3000_doorbell (Inr v)]"
    "v AND DRBL_PKVL_EEPROM_LOAD_SEC = 0" by blast
  moreover have "mb_hist s1 = mb_hist s @ [RM_Update n3000_doorbell DRBL_PKVL_EEPROM_LOAD_SEC DRBL_PKVL_EEPROM_LOAD_SEC None]"
    using u r by (auto simp: regmap_update_bits_def Let_def)
  ultimately show ?thesis by auto
qed

lemma preload_done:
  fixes s :: "unit m10bmc_sec"
  assumes "poll_retimer_preload_done (n3000_env e) s = (None, s')"
  shows "\<exists>h v. mb_hist s' = mb_hist s @ h @ [RM_Read 0x300880 (Inr v)] \<and> v AND M10BMC_PKVL_UPG_STATUS_MASK = M10BMC_PKVL_UPG_STATUS_GOOD"
proof -
  obtain v where "regmap_read_poll (n3000_env e) 0x300880 (\<lambda>v. v AND M10BMC_PKVL_PRELOAD = M10BMC_PKVL_PRELOAD)
      (se_pkvl_preload_polls (n3000_env e)) s = (Inr v, s')" "v AND M10BMC_PKVL_UPG_STATUS_MASK = M10BMC_PKVL_UPG_STATUS_GOOD"
    using assms by (auto simp: poll_retimer_preload_done_def split: prod.splits sum.splits if_splits)
  from regmap_poll_last [OF this(1)] this(2) show ?thesis by blast
qed

lemma retimer_idle:
  assumes "retimer_check_idle (n3000_env e) s = (None, s')"
  shows "\<exists>d. mb_hist s' = mb_hist s @ [RM_Read n3000_doorbell (Inr d)] \<and>
    rsu_prog d \<in> {RSU_PROG_IDLE, RSU_PROG_RSU_DONE, RSU_PROG_PKVL_PROM_DONE}"
  using assms by (auto simp: retimer_check_idle_def regmap_read_def Let_def split: sum.splits if_splits)

text \<open>
  Loading the retimers of an N3000 leaves the firmware state normal, whatever comes of it. It succeeds
  only if the board was idle, took the request, and in the end had both retimers loaded without an error;
  in between the board has said that the update is over and not a duplicate, or else the doorbell could
  not be read: the code takes that error for a success of this step.
\<close>

theorem retimer_load_says:
  assumes "m10bmc_sec_retimer_eeprom_load (n3000_env e) s = (r, s')"
  shows "bmcfw_state s' = M10BMC_FW_STATE_NORMAL \<and>
    (r = None \<longrightarrow>
      (\<exists>d h1 v h2 x h3 w. mb_hist s' = mb_hist s @ [RM_Read n3000_doorbell (Inr d),
          RM_Update n3000_doorbell DRBL_PKVL_EEPROM_LOAD_SEC DRBL_PKVL_EEPROM_LOAD_SEC None] @ h1 @
          [RM_Read n3000_doorbell (Inr v)] @ h2 @ x @ h3 @ [RM_Read 0x300880 (Inr w)] \<and>
        rsu_prog d \<in> {RSU_PROG_IDLE, RSU_PROG_RSU_DONE, RSU_PROG_PKVL_PROM_DONE} \<and>
        v AND DRBL_PKVL_EEPROM_LOAD_SEC = 0 \<and> load_seen x \<and>
        w AND M10BMC_PKVL_UPG_STATUS_MASK = M10BMC_PKVL_UPG_STATUS_GOOD))"
proof (intro conjI impI)
  let ?env = "n3000_env e"
  have ne: "handshake_sys_reg_ranges (mb_info ?env) \<noteq> []" by (simp add: n3000_env_def m10bmc_spi_n3000_def)
  then show "bmcfw_state s' = M10BMC_FW_STATE_NORMAL"
    using assms by (auto simp: m10bmc_sec_retimer_eeprom_load_def m10bmc_fw_state_set_def split: prod.splits)
  assume r: "r = None"
  let ?s0 = "m10bmc_fw_state_set ?env M10BMC_FW_RETIMER_EEPROM_LOAD s"
  obtain s4 where s': "s' = m10bmc_fw_state_set ?env M10BMC_FW_STATE_NORMAL s4" and
    steps: "(case retimer_check_idle ?env ?s0 of (Some e, s) \<Rightarrow> (Some e, s) | (None, s) \<Rightarrow>
       (case trigger_retimer_eeprom_load ?env s of (Some e, s) \<Rightarrow> (Some e, s) | (None, s) \<Rightarrow>
       (case poll_retimer_eeprom_load_done ?env s of (Some e, s) \<Rightarrow> (Some e, s)
        | (None, s) \<Rightarrow> poll_retimer_preload_done ?env s))) = (None, s4)"
    using assms r by (auto simp: m10bmc_sec_retimer_eeprom_load_def split: prod.splits)
  from steps obtain s1 s2 s3 where ch: "retimer_check_idle ?env ?s0 = (None, s1)" "trigger_retimer_eeprom_load ?env s1 = (None, s2)"
    "poll_retimer_eeprom_load_done ?env s2 = (None, s3)" "poll_retimer_preload_done ?env s3 = (None, s4)"
    by (auto split: prod.splits option.splits)
  from retimer_idle [OF ch(1)] obtain d where d: "mb_hist s1 = mb_hist ?s0 @ [RM_Read n3000_doorbell (Inr d)]"
    "rsu_prog d \<in> {RSU_PROG_IDLE, RSU_PROG_RSU_DONE, RSU_PROG_PKVL_PROM_DONE}" by blast
  from retimer_triggered [OF ch(2)] obtain h1 v where
    v: "mb_hist s2 = mb_hist s1 @ [RM_Update n3000_doorbell DRBL_PKVL_EEPROM_LOAD_SEC DRBL_PKVL_EEPROM_LOAD_SEC None] @ h1 @
      [RM_Read n3000_doorbell (Inr v)]" "v AND DRBL_PKVL_EEPROM_LOAD_SEC = 0" by blast
  from eeprom_load_done [OF ch(3)] obtain h2 x where x: "mb_hist s3 = mb_hist s2 @ h2 @ x" "load_seen x" by blast
  from preload_done [OF ch(4)] obtain h3 w where w: "mb_hist s4 = mb_hist s3 @ h3 @ [RM_Read 0x300880 (Inr w)]"
    "w AND M10BMC_PKVL_UPG_STATUS_MASK = M10BMC_PKVL_UPG_STATUS_GOOD" by blast
  have frame: "mb_hist (m10bmc_fw_state_set ?env st z) = mb_hist z" for st and z :: "unit m10bmc_sec"
    by (simp add: m10bmc_fw_state_set_def)
  show "\<exists>d h1 v h2 x h3 w. mb_hist s' = mb_hist s @ [RM_Read n3000_doorbell (Inr d),
          RM_Update n3000_doorbell DRBL_PKVL_EEPROM_LOAD_SEC DRBL_PKVL_EEPROM_LOAD_SEC None] @ h1 @
          [RM_Read n3000_doorbell (Inr v)] @ h2 @ x @ h3 @ [RM_Read 0x300880 (Inr w)] \<and>
        rsu_prog d \<in> {RSU_PROG_IDLE, RSU_PROG_RSU_DONE, RSU_PROG_PKVL_PROM_DONE} \<and>
        v AND DRBL_PKVL_EEPROM_LOAD_SEC = 0 \<and> load_seen x \<and>
        w AND M10BMC_PKVL_UPG_STATUS_MASK = M10BMC_PKVL_UPG_STATUS_GOOD"
    by (rule exI [of _ d], rule exI [of _ h1], rule exI [of _ v], rule exI [of _ h2], rule exI [of _ x], rule exI [of _ h3],
        rule exI [of _ w]) (use d v x w in \<open>simp add: s' frame\<close>)
qed

text \<open>A board whose doorbell fails once the update has been asked for: the load is a success.\<close>

definition lost_env :: "unit sec_env" where
  "lost_env = n3000_env \<lparr>mb_regmap = \<lparr>rm_read = \<lambda>h a. if a = 0x300880 then Inr 0x11110000 else if length h \<le> 2 then Inr 0 else Inl EIO,
       rm_update = \<lambda>h a m v. None, rm_write = \<lambda>h a v. None, rm_bulk_write = \<lambda>h a b. None, rm_bulk_read = \<lambda>h a n. Inl EIO,
       rm_stride = 4\<rparr>,
     mb_info = m10bmc_spi_n3000, mb_flash_ops = None, se_board = M10SEC_N3000, se_handshake_polls = 1,
     se_prepare_polls = 1, se_complete_polls = 1, se_pkvl_load_polls = 1, se_pkvl_preload_polls = 1, se_cancelled = \<lambda>h. False\<rparr>"

definition lost_sec :: "unit m10bmc_sec" where
  "lost_sec = \<lparr>mb_hist = [], bmcfw_state = M10BMC_FW_STATE_NORMAL, mb_flash = (), cancel_request = False\<rparr>"

lemma lost_run:
  "fst (m10bmc_sec_retimer_eeprom_load lost_env lost_sec) = None"
  "RM_Read n3000_doorbell (Inl EIO) \<in> set (mb_hist (snd (m10bmc_sec_retimer_eeprom_load lost_env lost_sec)))"
  by code_simp+

theorem retimer_load_says_witness:
  "bmcfw_state (snd (m10bmc_sec_retimer_eeprom_load lost_env lost_sec)) = M10BMC_FW_STATE_NORMAL \<and>
   (\<exists>w. RM_Read 0x300880 (Inr w) \<in> set (mb_hist (snd (m10bmc_sec_retimer_eeprom_load lost_env lost_sec))) \<and>
     w AND M10BMC_PKVL_UPG_STATUS_MASK = M10BMC_PKVL_UPG_STATUS_GOOD)"
proof -
  have env: "lost_env = n3000_env lost_env" by (simp add: lost_env_def n3000_env_def)
  then have "m10bmc_sec_retimer_eeprom_load (n3000_env lost_env) lost_sec =
      (None, snd (m10bmc_sec_retimer_eeprom_load lost_env lost_sec))" using lost_run(1) by (metis prod.collapse)
  from retimer_load_says [OF this] show ?thesis by fastforce
qed

end
