(* ===== verification/Image_Load_Reg.thy ===== *)
theory Image_Load_Reg
  imports Image_Load M10bmc_Security
begin

text \<open>
  How an image load device comes and goes (\<^verbatim>\<open>drivers/fpga/fpga-image-load.c\<close>), and with it the secure
  update driver of a board (\<^verbatim>\<open>drivers/fpga/intel-m10-bmc-sec-update.c\<close>): what is acquired in which order and
  what is given back on every error.
\<close>

section \<open>The image load device\<close>

text \<open>
  Accounts: references to the module, allocations alive, identifiers taken; whether the device and its
  file are registered, and the references to the device. A registered device has a reference from the
  list of its parent beside that of its creator.
\<close>

record image_reg =
  ir_mods :: int
  ir_mem :: int
  ir_ids :: int
  ir_dev :: bool
  ir_dev_refs :: int
  ir_cdev :: bool

text \<open>The outcomes of what the code calls; \<open>re_alloc n\<close>: the \<open>n\<close>-th allocation.\<close>

record image_reg_env =
  re_ops_ok :: bool
  re_module_get :: bool
  re_alloc :: "nat \<Rightarrow> bool"
  re_xa_alloc :: "errno option"
  re_set_name :: "errno option"
  re_device_register :: "errno option"
  re_cdev_add :: "errno option"

definition fpga_image_load_dev_release :: "('a) image_reg_scheme \<Rightarrow> 'a image_reg_scheme" where
  "fpga_image_load_dev_release r = r\<lparr>ir_ids := ir_ids r - 1, ir_mem := ir_mem r - 3\<rparr>"

definition put_image_dev :: "'a image_reg_scheme \<Rightarrow> 'a image_reg_scheme" where
  "put_image_dev r =
     (let r = r\<lparr>ir_dev_refs := ir_dev_refs r - 1\<rparr>
      in if ir_dev_refs r = 0 then fpga_image_load_dev_release r else r)"

definition module_put_image :: "'a image_reg_scheme \<Rightarrow> 'a image_reg_scheme" where
  "module_put_image r = r\<lparr>ir_mods := ir_mods r - 1\<rparr>"

definition fpga_image_load_register :: "image_reg_env \<Rightarrow> 'a image_reg_scheme \<Rightarrow> 'a image_reg_scheme ret" where
  "fpga_image_load_register env r =
     (if \<not> re_ops_ok env then (Some ENOMEM, r)
      else if \<not> re_module_get env then (Some EFAULT, r)
      else let r1 = r\<lparr>ir_mods := ir_mods r + 1\<rparr>; r2 = r1\<lparr>ir_mem := ir_mem r1 + 1\<rparr>; r3 = r2\<lparr>ir_mem := ir_mem r2 + 1\<rparr>;
               r4 = r3\<lparr>ir_mem := ir_mem r3 + 1\<rparr>; r5 = r4\<lparr>ir_ids := ir_ids r4 + 1\<rparr>
           in if \<not> re_alloc env 0 then (Some ENOMEM, module_put_image r1)
              else if \<not> re_alloc env 1 then (Some ENOMEM, module_put_image (r2\<lparr>ir_mem := ir_mem r2 - 1\<rparr>))
              else if \<not> re_alloc env 2 then (Some ENOMEM, module_put_image (r3\<lparr>ir_mem := ir_mem r3 - 2\<rparr>))
              else (case re_xa_alloc env of
                      Some e \<Rightarrow> (Some e, module_put_image (r4\<lparr>ir_mem := ir_mem r4 - 3\<rparr>))
                    | None \<Rightarrow>
                        (case re_set_name env of
                           Some e \<Rightarrow> (Some e, module_put_image (r5\<lparr>ir_ids := ir_ids r5 - 1, ir_mem := ir_mem r5 - 3\<rparr>))
                         | None \<Rightarrow>
                             (case re_device_register env of
                                Some e \<Rightarrow> (Some e, module_put_image (put_image_dev (r5\<lparr>ir_dev_refs := 1\<rparr>)))
                              | None \<Rightarrow>
                                  (case re_cdev_add env of
                                     Some e \<Rightarrow> (Some e, module_put_image (put_image_dev (r5\<lparr>ir_dev := True, ir_dev_refs := 2\<rparr>)))
                                   | None \<Rightarrow> (None, r5\<lparr>ir_dev := True, ir_dev_refs := 2, ir_cdev := True\<rparr>))))))"

text \<open>
  Unregistering cancels an upload and waits for the worker, as closing does; the wait is over when the
  worker is idle. Then the file, the device and the module reference go.
\<close>

definition unregister_cancels :: "'d fw_upload_ops \<Rightarrow> 'd image_load \<Rightarrow> 'd image_load" where
  "unregister_cancels ops s =
     (if progress s = FW_UPLOAD_PROG_IDLE then s else logged C_Cancel (up_cancel ops (ddev s)) s)"

definition fpga_image_load_unregister :: "'a image_reg_scheme \<Rightarrow> 'a image_reg_scheme" where
  "fpga_image_load_unregister r =
     module_put_image (put_image_dev (put_image_dev (r\<lparr>ir_cdev := False, ir_dev := False\<rparr>)))"

section \<open>The secure update driver\<close>

text \<open>
  The driver's data (allocated for as long as it is bound), its work for the SDM (queued until it is
  waited for), names and identifiers.
\<close>

record sec_reg = image_reg +
  sg_data :: bool
  sg_work :: bool
  sg_names :: int
  sg_ids :: int

record sec_reg_env = image_reg_env +
  sr_kzalloc :: bool
  sr_xa_alloc :: "errno option"
  sr_name :: bool

text \<open>When probing fails, the driver core frees the data.\<close>

definition sec_probe_failed :: "errno \<Rightarrow> sec_reg \<Rightarrow> sec_reg ret" where
  "sec_probe_failed e s = (Some e, s\<lparr>sg_data := False\<rparr>)"

definition m10bmc_sec_probe :: "sec_board \<Rightarrow> sec_reg_env \<Rightarrow> sec_reg \<Rightarrow> sec_reg ret" where
  "m10bmc_sec_probe b env s =
     (if \<not> sr_kzalloc env then (Some ENOMEM, s)
      else let s1 = s\<lparr>sg_data := True\<rparr>; s2 = (if sec_visible b then s1\<lparr>sg_work := True\<rparr> else s1)
           in (case sr_xa_alloc env of
                 Some e \<Rightarrow> sec_probe_failed e s2
               | None \<Rightarrow>
                   if \<not> sr_name env then sec_probe_failed ENOMEM s2
                   else (case fpga_image_load_register (image_reg_env.truncate env)
                                (s2\<lparr>sg_ids := sg_ids s2 + 1, sg_names := sg_names s2 + 1\<rparr>) of
                           (Some e, s3) \<Rightarrow> sec_probe_failed e (s3\<lparr>sg_names := sg_names s3 - 1, sg_ids := sg_ids s3 - 1\<rparr>)
                         | (None, s3) \<Rightarrow> (None, s3))))"

definition m10bmc_sec_remove :: "sec_board \<Rightarrow> sec_reg \<Rightarrow> sec_reg" where
  "m10bmc_sec_remove b s =
     (let s1 = fpga_image_load_unregister (if sec_visible b then s\<lparr>sg_work := False\<rparr> else s)
      in s1\<lparr>sg_names := sg_names s1 - 1, sg_ids := sg_ids s1 - 1, sg_data := False\<rparr>)"

section \<open>All or nothing\<close>

definition unbound :: "sec_reg \<Rightarrow> bool" where
  "unbound s \<longleftrightarrow> \<not> ir_dev s \<and> ir_dev_refs s = 0 \<and> \<not> ir_cdev s \<and> \<not> sg_data s \<and> \<not> sg_work s"

definition bound :: "sec_board \<Rightarrow> sec_reg \<Rightarrow> sec_reg" where
  "bound b s = s\<lparr>ir_mods := ir_mods s + 1, ir_mem := ir_mem s + 3, ir_ids := ir_ids s + 1, ir_dev := True, ir_dev_refs := 2,
     ir_cdev := True, sg_data := True, sg_work := sec_visible b, sg_names := sg_names s + 1, sg_ids := sg_ids s + 1\<rparr>"

lemma image_reg_id [simp]:
  "r\<lparr>ir_mods := ir_mods r\<rparr> = r" "r\<lparr>ir_mem := ir_mem r\<rparr> = r" "r\<lparr>ir_ids := ir_ids r\<rparr> = r"
  "ir_dev_refs r = 0 \<Longrightarrow> r\<lparr>ir_dev_refs := 0\<rparr> = r"
  by simp_all

text \<open>What the registration of the device leaves behind: nothing, unless its file could not be added.\<close>

lemma image_register_cases:
  fixes r :: "'a image_reg_scheme"
  assumes "fpga_image_load_register env r = (res, r')" and "\<not> ir_dev r" and "ir_dev_refs r = 0" and "\<not> ir_cdev r"
  shows "res = None \<and> re_cdev_add env = None \<and>
      r' = r\<lparr>ir_mods := ir_mods r + 1, ir_mem := ir_mem r + 3, ir_ids := ir_ids r + 1, ir_dev := True,
        ir_dev_refs := 2, ir_cdev := True\<rparr> \<or>
    res \<noteq> None \<and> r' = r \<or>
    res \<noteq> None \<and> re_cdev_add env \<noteq> None \<and> r' = r\<lparr>ir_mem := ir_mem r + 3, ir_ids := ir_ids r + 1, ir_dev := True, ir_dev_refs := 1\<rparr>"
proof (cases "re_ops_ok env \<and> re_module_get env \<and> re_alloc env 0 \<and> re_alloc env 1 \<and> re_alloc env 2 \<and>
    re_xa_alloc env = None \<and> re_set_name env = None \<and> re_device_register env = None")
  case True
  with assms show ?thesis
    by (cases "re_cdev_add env") (auto simp: fpga_image_load_register_def module_put_image_def put_image_dev_def)
next
  case False
  then have "snd (fpga_image_load_register env r) = r"
    using assms(3)
    by (auto simp: fpga_image_load_register_def Let_def module_put_image_def put_image_dev_def fpga_image_load_dev_release_def
        split: option.split)
  moreover have "fst (fpga_image_load_register env r) \<noteq> None"
    using False by (auto simp: fpga_image_load_register_def Let_def split: option.split)
  ultimately show ?thesis using assms(1) by auto
qed


text \<open>
  Binding the secure update driver to a board takes everything it needs, and removing it gives all of
  it back; when binding fails nothing is left behind, with two exceptions: on boards with an SDM the work
  that was queued for it is not waited for, although its data is freed, and when the file of the image
  load device cannot be added, the device stays registered, with its memory and identifier but without
  the reference to the module.
\<close>

theorem sec_probe_all_or_nothing:
  assumes "m10bmc_sec_probe b env s = (r, s')" and "unbound s"
  shows "if r = None then s' = bound b s \<and> m10bmc_sec_remove b s' = s
    else s' = s\<lparr>sg_work := sec_visible b \<and> sr_kzalloc env\<rparr> \<or>
      re_cdev_add env \<noteq> None \<and> s' = s\<lparr>sg_work := sec_visible b, ir_mem := ir_mem s + 3, ir_ids := ir_ids s + 1,
        ir_dev := True, ir_dev_refs := 1\<rparr>"
proof -
  let ?e = "image_reg_env.truncate env"
  let ?s2 = "s\<lparr>sg_data := True, sg_work := sec_visible b, sg_names := sg_names s + 1, sg_ids := sg_ids s + 1\<rparr>"
  have u: "\<not> ir_dev s" "ir_dev_refs s = 0" "\<not> ir_cdev s" "\<not> sg_data s" "\<not> sg_work s" using assms(2) by (auto simp: unbound_def)
  have eq: "s\<lparr>sg_work := sg_work s\<rparr> = s" "s\<lparr>sg_data := sg_data s\<rparr> = s" "s\<lparr>sg_names := sg_names s\<rparr> = s" "s\<lparr>sg_ids := sg_ids s\<rparr> = s"
    by simp_all
  have early: "s\<lparr>sg_data := False\<rparr> = s" "s\<lparr>sg_work := False\<rparr> = s" using u(4,5) eq by simp_all
  show ?thesis
  proof (cases "sr_kzalloc env \<and> sr_xa_alloc env = None \<and> sr_name env")
    case False
    with assms(1) u early show ?thesis
      by (auto simp: m10bmc_sec_probe_def sec_probe_failed_def Let_def split: if_splits option.splits)
  next
    case True
    obtain q s3 where reg: "fpga_image_load_register ?e ?s2 = (q, s3)" by fastforce
    have w: "(if sec_visible b then s\<lparr>sg_data := True\<rparr>\<lparr>sg_work := True\<rparr> else s\<lparr>sg_data := True\<rparr>)
        \<lparr>sg_ids := sg_ids s + 1, sg_names := sg_names s + 1\<rparr> = ?s2"
      using u(5) eq(1) by (cases s) auto
    have p: "(r, s') = (case q of Some e \<Rightarrow> sec_probe_failed e (s3\<lparr>sg_names := sg_names s3 - 1, sg_ids := sg_ids s3 - 1\<rparr>)
        | None \<Rightarrow> (None, s3))"
      using assms(1) True reg w by (simp add: m10bmc_sec_probe_def Let_def if_distrib [of sg_ids] if_distrib [of sg_names] cong: if_cong)
    have c: "re_cdev_add ?e = re_cdev_add env" by (simp add: image_reg_env.truncate_def)
    from image_register_cases [OF reg] u
    consider "q = None" "s3 = ?s2\<lparr>ir_mods := ir_mods s + 1, ir_mem := ir_mem s + 3, ir_ids := ir_ids s + 1, ir_dev := True,
          ir_dev_refs := 2, ir_cdev := True\<rparr>"
      | "q \<noteq> None" "s3 = ?s2"
      | "q \<noteq> None" "re_cdev_add env \<noteq> None" "s3 = ?s2\<lparr>ir_mem := ir_mem s + 3, ir_ids := ir_ids s + 1, ir_dev := True, ir_dev_refs := 1\<rparr>"
      by (auto simp: c)
    then show ?thesis
    proof cases
      case 1
      with p have s': "r = None" "s' = bound b s" by (simp_all add: bound_def)
      have "m10bmc_sec_remove b (bound b s) = s"
        using u by (cases s) (simp add: m10bmc_sec_remove_def bound_def fpga_image_load_unregister_def module_put_image_def
            put_image_dev_def fpga_image_load_dev_release_def Let_def)
      with s' show ?thesis by simp
    next
      case 2
      with p True u show ?thesis by (cases s) (auto simp: sec_probe_failed_def)
    next
      case 3
      with p True u show ?thesis by (cases s) (auto simp: sec_probe_failed_def)
    qed
  qed
qed

definition probe_env0 :: "errno option \<Rightarrow> sec_reg_env" where
  "probe_env0 cdev = \<lparr>re_ops_ok = True, re_module_get = True, re_alloc = \<lambda>n. True, re_xa_alloc = None, re_set_name = None,
     re_device_register = None, re_cdev_add = cdev, sr_kzalloc = True, sr_xa_alloc = None, sr_name = True\<rparr>"

definition sec_reg0 :: sec_reg where
  "sec_reg0 = \<lparr>ir_mods = 0, ir_mem = 0, ir_ids = 0, ir_dev = False, ir_dev_refs = 0, ir_cdev = False,
     sg_data = False, sg_work = False, sg_names = 0, sg_ids = 0\<rparr>"

theorem sec_probe_all_or_nothing_witness:
  "fst (m10bmc_sec_probe M10SEC_N6000 (probe_env0 None) sec_reg0) = None \<and>
   m10bmc_sec_remove M10SEC_N6000 (snd (m10bmc_sec_probe M10SEC_N6000 (probe_env0 None) sec_reg0)) = sec_reg0"
proof -
  have "fst (m10bmc_sec_probe M10SEC_N6000 (probe_env0 None) sec_reg0) = None" by code_simp
  moreover have "unbound sec_reg0" by (simp add: unbound_def sec_reg0_def)
  ultimately show ?thesis
    using sec_probe_all_or_nothing [of M10SEC_N6000 "probe_env0 None" sec_reg0] by (auto simp: prod_eq_iff)
qed

text \<open>
  With a file that cannot be added, the device is there without its module; without an identifier, the
  work is queued and its data gone.
\<close>

lemma cdev_failure_keeps_device:
  "snd (m10bmc_sec_probe M10SEC_N3000 (probe_env0 (Some EBUSY)) sec_reg0) = sec_reg0\<lparr>ir_mem := 3, ir_ids := 1, ir_dev := True, ir_dev_refs := 1\<rparr>"
  by (simp add: m10bmc_sec_probe_def probe_env0_def sec_reg0_def sec_visible_def fpga_image_load_register_def image_reg_env.truncate_def
      module_put_image_def put_image_dev_def sec_probe_failed_def)

lemma probe_failure_keeps_work:
  "snd (m10bmc_sec_probe M10SEC_N6000 (probe_env0 None\<lparr>sr_xa_alloc := Some EBUSY\<rparr>) sec_reg0) = sec_reg0\<lparr>sg_work := True\<rparr>"
  by (simp add: m10bmc_sec_probe_def probe_env0_def sec_reg0_def sec_visible_def sec_probe_failed_def)

end
