(* ===== verification/Dfl_Pci.thy ===== *)
theory Dfl_Pci
  imports Dfl_Enum Dfl_Port
begin

unbundle bit_operations_syntax

text \<open>
  Devices that carry feature lists: PCIe functions (\<^verbatim>\<open>drivers/fpga/dfl-pci.c\<close>), which tell where their lists
  are in the configuration space or in the FME's registers, and platform devices
  (\<^verbatim>\<open>drivers/fpga/dfl-platform.c\<close>), which are one list. Both fill the enumeration information, have it
  enumerated and keep the container device.

  The configuration space, the resources of the BARs and the outcomes of the PCI core are inputs. A mapping
  of BAR 0 is at the bus address of the BAR, as in enumeration. What is allocated or enabled through
  managed resources is undone by the driver core. Error reporting, set up for kernels before 6.3 only, is
  left out.
\<close>

section \<open>Environment and state\<close>

record pci_env =
  pe_vsec :: u16                       \<comment> \<open>\<^verbatim>\<open>pci_find_vsec_capability\<close>; 0 when there is none\<close>
  pe_config :: "nat \<Rightarrow> u32"           \<comment> \<open>\<^verbatim>\<open>pci_read_config_dword\<close>\<close>
  pe_start :: "nat \<Rightarrow> u64"
  pe_len :: "nat \<Rightarrow> u64"
  pe_map_bar0 :: bool
  pe_dfl_alloc :: "nat \<Rightarrow> bool"       \<comment> \<open>the allocation of the entry for a list in this BAR\<close>
  pe_enable :: "errno option"
  pe_dma_mask :: "nat \<Rightarrow> errno option"
  pe_drvdata_ok :: bool
  pe_info_ok :: bool
  pe_msix_count :: int
  pe_alloc_vectors :: "errno option"
  pe_table_ok :: bool
  pe_kmemdup_ok :: bool
  pe_irq_vector :: "nat \<Rightarrow> int"
  pe_is_pf :: bool
  pe_enable_sriov :: "nat \<Rightarrow> errno option"
  pe_dfl :: dfl_env

record cci =
  cc_cdev :: "dfl_fpga_cdev option"    \<comment> \<open>\<^verbatim>\<open>drvdata->cdev\<close>\<close>
  cc_drvdata :: bool
  cc_vectors :: int                     \<comment> \<open>allocated interrupt vectors\<close>
  cc_dev_refs :: int                    \<comment> \<open>references of enumeration informations to the device\<close>
  cc_vfs :: nat                         \<comment> \<open>enabled virtual functions\<close>
  cc_mem :: mmio                        \<comment> \<open>registers that are written: the access bits of ports\<close>

section \<open>Enumeration information and removal\<close>

definition dfl_fpga_enum_info_alloc :: "bool \<Rightarrow> cci \<Rightarrow> dfl_fpga_enum_info option \<times> cci" where
  "dfl_fpga_enum_info_alloc kzalloc_ok s =
     (let s = s\<lparr>cc_dev_refs := cc_dev_refs s + 1\<rparr>
      in if \<not> kzalloc_ok then (None, s\<lparr>cc_dev_refs := cc_dev_refs s - 1\<rparr>)
         else (Some \<lparr>ei_dev = True, ei_dfls = [], ei_nr_irqs = 0, ei_irq_table = None\<rparr>, s))"

definition dfl_fpga_enum_info_free :: "cci \<Rightarrow> cci" where
  "dfl_fpga_enum_info_free s = s\<lparr>cc_dev_refs := cc_dev_refs s - 1\<rparr>"

text \<open>The feature devices that are children of the container's region are those that are registered.\<close>

definition remove_feature_devs :: "dfl_fpga_cdev \<Rightarrow> dfl_fpga_cdev" where
  "remove_feature_devs cdev =
     (let remove_feature_dev = (\<lambda>fd. if fd_dev fd then feature_dev_unregister fd else fd)
      in cdev\<lparr>fme_dev := map_option remove_feature_dev (fme_dev cdev),
              port_dev_list := map remove_feature_dev (port_dev_list cdev),
              priv_feat_dev_list := map remove_feature_dev (priv_feat_dev_list cdev)\<rparr>)"

section \<open>Feature lists in the configuration space\<close>

abbreviation PCI_VNDR_DFLS_CNT :: nat where "PCI_VNDR_DFLS_CNT \<equiv> 0x8"
abbreviation PCI_VNDR_DFLS_RES :: nat where "PCI_VNDR_DFLS_RES \<equiv> 0xc"
abbreviation PCI_STD_NUM_BARS :: nat where "PCI_STD_NUM_BARS \<equiv> 6"
abbreviation PCI_CFG_SPACE_EXP_SIZE :: nat where "PCI_CFG_SPACE_EXP_SIZE \<equiv> 4096"

definition vsec_bir :: "u32 \<Rightarrow> nat" where
  "vsec_bir dfl_res = unat (dfl_res AND 7)"

definition vsec_offset :: "u32 \<Rightarrow> u32" where
  "vsec_offset dfl_res = dfl_res AND NOT 7"

text \<open>The loop over the entries of the capability; \<open>bars\<close> is the mask of the BARs seen.\<close>

fun vsec_loop :: "pci_env \<Rightarrow> nat \<Rightarrow> nat \<Rightarrow> u32 \<Rightarrow> dfl_fpga_enum_info \<Rightarrow> dfl_fpga_enum_info ret" where
  "vsec_loop env 0 dfl_res_off bars info = (None, info)"
| "vsec_loop env (Suc n) dfl_res_off bars info =
     (let dfl_res = pe_config env dfl_res_off; bir = vsec_bir dfl_res
      in if bir \<ge> PCI_STD_NUM_BARS then (Some EINVAL, info)
         else if bit bars bir then (Some EINVAL, info)
         else let len = pe_len env bir; offset = ucast (vsec_offset dfl_res)
              in if offset \<ge> len then (Some EINVAL, info)
                 else vsec_loop env n (dfl_res_off + 4) (set_bit bir bars)
                        (snd (dfl_fpga_enum_info_add_dfl (pe_dfl_alloc env bir) (pe_start env bir + offset)
                               (len - offset) info)))"

definition find_dfls_by_vsec :: "pci_env \<Rightarrow> dfl_fpga_enum_info \<Rightarrow> dfl_fpga_enum_info ret" where
  "find_dfls_by_vsec env info =
     (let voff = unat (pe_vsec env)
      in if voff = 0 then (Some ENODEV, info)
         else let dfl_cnt = unat (pe_config env (voff + PCI_VNDR_DFLS_CNT))
              in if dfl_cnt > PCI_STD_NUM_BARS then (Some EINVAL, info)
                 else let dfl_res_off = voff + PCI_VNDR_DFLS_RES
                      in if dfl_res_off + dfl_cnt * 4 > PCI_CFG_SPACE_EXP_SIZE then (Some EINVAL, info)
                         else vsec_loop env dfl_cnt dfl_res_off 0 info)"

section \<open>Feature lists from BAR 0\<close>

definition dfl_feature_is_fme :: "dfl_env \<Rightarrow> u64 \<Rightarrow> bool" where
  "dfl_feature_is_fme env base \<longleftrightarrow> (let v = rd env (base + DFH) in dfh_type v = DFH_TYPE_FIU \<and> dfh_id v = 0)"

definition dfl_feature_is_port :: "dfl_env \<Rightarrow> u64 \<Rightarrow> bool" where
  "dfl_feature_is_port env base \<longleftrightarrow> (let v = rd env (base + DFH) in dfh_type v = DFH_TYPE_FIU \<and> dfh_id v = 1)"

definition dfl_feature_is_private :: "dfl_env \<Rightarrow> u64 \<Rightarrow> bool" where
  "dfl_feature_is_private env base \<longleftrightarrow> dfh_type (rd env (base + DFH)) = DFH_TYPE_PRIVATE"

abbreviation FME_PORT_OFST_BAR_SKIP :: nat where "FME_PORT_OFST_BAR_SKIP \<equiv> 7"

text \<open>The loop over the ports of the FME.\<close>

fun port_loop :: "pci_env \<Rightarrow> u64 \<Rightarrow> nat list \<Rightarrow> u32 \<Rightarrow> dfl_fpga_enum_info \<Rightarrow> dfl_fpga_enum_info ret" where
  "port_loop env base [] bars info = (None, info)"
| "port_loop env base (i # is') bars info =
     (let v = rd (pe_dfl env) (base + FME_HDR_PORT_OFST (int i))
      in if \<not> bit v 60 then port_loop env base is' bars info
         else let bar = unat (field_get 34 32 v); offset = field_get 23 0 v
              in if bar = FME_PORT_OFST_BAR_SKIP then port_loop env base is' bars info
                 else if bar \<ge> PCI_STD_NUM_BARS then (Some EINVAL, info)
                 else if bit bars bar then port_loop env base is' bars info
                 else let start = pe_start env bar + offset; len = pe_len env bar
                      in if offset \<ge> len then port_loop env base is' bars info
                         else port_loop env base is' (set_bit bar bars)
                                (snd (dfl_fpga_enum_info_add_dfl (pe_dfl_alloc env bar) start (len - offset) info)))"

definition add_bar0 :: "pci_env \<Rightarrow> dfl_fpga_enum_info \<Rightarrow> dfl_fpga_enum_info" where
  "add_bar0 env info = snd (dfl_fpga_enum_info_add_dfl (pe_dfl_alloc env 0) (pe_start env 0) (pe_len env 0) info)"

definition find_dfls_by_default :: "pci_env \<Rightarrow> dfl_fpga_enum_info \<Rightarrow> dfl_fpga_enum_info ret" where
  "find_dfls_by_default env info =
     (if \<not> pe_map_bar0 env then (Some ENOMEM, info)
      else let base = pe_start env 0
           in if dfl_feature_is_fme (pe_dfl env) base then
                let port_num = unat (field_get 19 17 (rd (pe_dfl env) (base + 0x30)))
                in port_loop env base [0..<port_num] (set_bit 0 0) (add_bar0 env info)
              else if dfl_feature_is_port (pe_dfl env) base then (None, add_bar0 env info)
              else if dfl_feature_is_private (pe_dfl env) base then (None, add_bar0 env info)
              else if dfh_type (rd (pe_dfl env) (base + DFH)) \<noteq> DFH_TYPE_AFU then (Some ENODEV, info)
              else (None, info))"

definition find_dfls :: "pci_env \<Rightarrow> dfl_fpga_enum_info \<Rightarrow> dfl_fpga_enum_info ret" where
  "find_dfls env info =
     (case find_dfls_by_vsec env info of
        (ret, info) \<Rightarrow> if ret = Some ENODEV then find_dfls_by_default env info else (ret, info))"

section \<open>Interrupts\<close>

definition cci_pci_alloc_irq :: "pci_env \<Rightarrow> cci \<Rightarrow> (errno + int) \<times> cci" where
  "cci_pci_alloc_irq env s =
     (let nvec = pe_msix_count env
      in if nvec \<le> 0 then (Inr 0, s)
         else case pe_alloc_vectors env of
                Some e \<Rightarrow> (Inl e, s)
              | None \<Rightarrow> (Inr nvec, s\<lparr>cc_vectors := nvec\<rparr>))"

definition cci_pci_free_irq :: "cci \<Rightarrow> cci" where
  "cci_pci_free_irq s = s\<lparr>cc_vectors := 0\<rparr>"

definition cci_pci_create_irq_table :: "pci_env \<Rightarrow> nat \<Rightarrow> int list option" where
  "cci_pci_create_irq_table env nvec = (if \<not> pe_table_ok env then None else Some (map (pe_irq_vector env) [0..<nvec]))"

section \<open>Enumeration\<close>

definition cci_add_irqs :: "pci_env \<Rightarrow> int \<Rightarrow> dfl_fpga_enum_info \<Rightarrow> dfl_fpga_enum_info ret" where
  "cci_add_irqs env nvec info =
     (if nvec = 0 then (None, info)
      else case cci_pci_create_irq_table env (nat nvec) of
             None \<Rightarrow> (Some ENOMEM, info)
           | Some irq_table \<Rightarrow> dfl_fpga_enum_info_add_irq (pe_kmemdup_ok env) (of_int nvec) (Some irq_table) info)"

definition cci_enumerate_feature_devs :: "pci_env \<Rightarrow> (dfl_id_type \<Rightarrow> nat list) \<Rightarrow> cci \<Rightarrow> cci ret option" where
  "cci_enumerate_feature_devs env ids s =
     (case dfl_fpga_enum_info_alloc (pe_info_ok env) s of
        (None, s) \<Rightarrow> Some (Some ENOMEM, s)
      | (Some info, s) \<Rightarrow>
          (case cci_pci_alloc_irq env s of
             (Inl e, s) \<Rightarrow> Some (Some e, dfl_fpga_enum_info_free s)
           | (Inr nvec, s) \<Rightarrow>
               let irq_free_exit = (\<lambda>e. (Some e, dfl_fpga_enum_info_free (cci_pci_free_irq s)))
               in (case cci_add_irqs env nvec info of
                     (Some e, _) \<Rightarrow> Some (irq_free_exit e)
                   | (None, info) \<Rightarrow>
                       (case find_dfls env info of
                          (Some e, _) \<Rightarrow> Some (irq_free_exit e)
                        | (None, info) \<Rightarrow>
                            map_option (\<lambda>r. case r of
                                Inl e \<Rightarrow> irq_free_exit e
                              | Inr cdev \<Rightarrow> (None, dfl_fpga_enum_info_free (s\<lparr>cc_cdev := Some cdev\<rparr>)))
                              (dfl_fpga_feature_devs_enumerate (pe_dfl env) info ids)))))"

section \<open>Probing, virtual functions and removal\<close>

definition cci_init_drvdata :: "pci_env \<Rightarrow> cci \<Rightarrow> cci ret" where
  "cci_init_drvdata env s = (if \<not> pe_drvdata_ok env then (Some ENOMEM, s) else (None, s\<lparr>cc_drvdata := True\<rparr>))"

definition cci_pci_probe :: "pci_env \<Rightarrow> (dfl_id_type \<Rightarrow> nat list) \<Rightarrow> cci \<Rightarrow> cci ret option" where
  "cci_pci_probe env ids s =
     (case pe_enable env of
        Some e \<Rightarrow> Some (Some e, s)
      | None \<Rightarrow>
          (case (if pe_dma_mask env 64 \<noteq> None then pe_dma_mask env 32 else None) of
             Some e \<Rightarrow> Some (Some e, s)
           | None \<Rightarrow>
               (case cci_init_drvdata env s of
                  (Some e, s) \<Rightarrow> Some (Some e, s)
                | (None, s) \<Rightarrow> cci_enumerate_feature_devs env ids s)))"

text \<open>The result is the number of virtual functions. \<open>None\<close> is a use of the missing FME or container.\<close>

definition cci_pci_sriov_configure :: "pci_env \<Rightarrow> nat \<Rightarrow> cci \<Rightarrow> ((errno + nat) \<times> cci) option" where
  "cci_pci_sriov_configure env num_vfs s =
     Option.bind (cc_cdev s) (\<lambda>cdev.
       if num_vfs = 0 then
         map_option (\<lambda>m. (Inr 0, s\<lparr>cc_vfs := 0, cc_mem := m\<rparr>)) (dfl_fpga_cdev_config_ports_pf cdev (cc_mem s))
       else
         Option.bind (dfl_fpga_cdev_config_ports_vf cdev (int num_vfs) (cc_mem s)) (\<lambda>(ret, m).
           case ret of
             Some e \<Rightarrow> Some (Inl e, s\<lparr>cc_mem := m\<rparr>)
           | None \<Rightarrow>
               (case pe_enable_sriov env num_vfs of
                  Some e \<Rightarrow> map_option (\<lambda>m. (Inl e, s\<lparr>cc_mem := m\<rparr>)) (dfl_fpga_cdev_config_ports_pf cdev m)
                | None \<Rightarrow> Some (Inr num_vfs, s\<lparr>cc_vfs := num_vfs, cc_mem := m\<rparr>))))"

text \<open>The container as it is when it is freed, and the state without it.\<close>

definition dfl_fpga_feature_devs_remove :: "cci \<Rightarrow> dfl_fpga_cdev option \<times> cci" where
  "dfl_fpga_feature_devs_remove s = (map_option remove_feature_devs (cc_cdev s), s\<lparr>cc_cdev := None\<rparr>)"

definition cci_remove_feature_devs :: "cci \<Rightarrow> dfl_fpga_cdev option \<times> cci" where
  "cci_remove_feature_devs s = (case dfl_fpga_feature_devs_remove s of (cdev, s) \<Rightarrow> (cdev, cci_pci_free_irq s))"

definition cci_pci_remove :: "pci_env \<Rightarrow> cci \<Rightarrow> (dfl_fpga_cdev option \<times> cci) option" where
  "cci_pci_remove env s =
     (if pe_is_pf env then map_option (\<lambda>(_, s). cci_remove_feature_devs s) (cci_pci_sriov_configure env 0 s)
      else Some (cci_remove_feature_devs s))"

section \<open>Platform devices\<close>

record plat_env =
  pl_location :: "errno + u64 \<times> u64"   \<comment> \<open>\<^verbatim>\<open>of_address_to_resource\<close>: start and end\<close>
  pl_request_ok :: bool
  pl_iomap_ok :: bool
  pl_dfl_alloc :: bool
  pl_dma_mask :: "nat \<Rightarrow> errno option"
  pl_drvdata_ok :: bool
  pl_info_ok :: bool
  pl_dfl :: dfl_env

definition dfl_platform_process_dfl_node ::
  "plat_env \<Rightarrow> u64 \<times> u64 \<Rightarrow> dfl_fpga_enum_info \<Rightarrow> dfl_fpga_enum_info ret" where
  "dfl_platform_process_dfl_node env dfl_location info =
     (let start = fst dfl_location; len = snd dfl_location - fst dfl_location + 1
      in if \<not> pl_request_ok env then (Some EINVAL, info)
         else if \<not> pl_iomap_ok env then (Some ENOMEM, info)
         else (None, snd (dfl_fpga_enum_info_add_dfl (pl_dfl_alloc env) start len info)))"

definition dfl_platform_enumerate_feature_devs ::
  "plat_env \<Rightarrow> u64 \<times> u64 \<Rightarrow> (dfl_id_type \<Rightarrow> nat list) \<Rightarrow> cci \<Rightarrow> cci ret option" where
  "dfl_platform_enumerate_feature_devs env dfl_location ids s =
     (case dfl_fpga_enum_info_alloc (pl_info_ok env) s of
        (None, s) \<Rightarrow> Some (Some ENOMEM, s)
      | (Some info, s) \<Rightarrow>
          (case dfl_platform_process_dfl_node env dfl_location info of
             (Some e, _) \<Rightarrow> Some (Some e, dfl_fpga_enum_info_free s)
           | (None, info) \<Rightarrow>
               map_option (\<lambda>r. case r of
                   Inl e \<Rightarrow> (Some e, dfl_fpga_enum_info_free s)
                 | Inr cdev \<Rightarrow> (None, dfl_fpga_enum_info_free (s\<lparr>cc_cdev := Some cdev\<rparr>)))
                 (dfl_fpga_feature_devs_enumerate (pl_dfl env) info ids)))"

definition dfl_platform_init_drvdata :: "plat_env \<Rightarrow> cci \<Rightarrow> cci ret" where
  "dfl_platform_init_drvdata env s =
     (if \<not> pl_drvdata_ok env then (Some ENOMEM, s) else (None, s\<lparr>cc_drvdata := True\<rparr>))"

definition dfl_platform_probe :: "plat_env \<Rightarrow> (dfl_id_type \<Rightarrow> nat list) \<Rightarrow> cci \<Rightarrow> cci ret option" where
  "dfl_platform_probe env ids s =
     (case pl_location env of
        Inl e \<Rightarrow> Some (Some EINVAL, s)
      | Inr (start, end') \<Rightarrow>
          if start = 0 \<or> end' = 0 \<or> end' \<le> start then Some (Some EINVAL, s)
          else
            (case (if pl_dma_mask env 64 \<noteq> None then pl_dma_mask env 32 else None) of
               Some e \<Rightarrow> Some (Some e, s)
             | None \<Rightarrow>
                 (case dfl_platform_init_drvdata env s of
                    (Some e, s) \<Rightarrow> Some (Some e, s)
                  | (None, s) \<Rightarrow> dfl_platform_enumerate_feature_devs env (start, end') ids s)))"

definition dfl_platform_remove :: "cci \<Rightarrow> dfl_fpga_cdev option \<times> cci" where
  "dfl_platform_remove s = dfl_fpga_feature_devs_remove s"

end
