(* ===== verification/Dfl_Pci_Props.thy ===== *)
theory Dfl_Pci_Props
  imports Dfl_Pci Dfl_Enum_Term Dfl_Port_Props
begin

unbundle bit_operations_syntax

text \<open>
  What a PCIe function contributes to enumeration: lists that lie in its BARs, at most one in each;
  exactly the lists of a valid capability; all or nothing when it is probed; and ports in the access mode
  that its virtual functions need.
\<close>

section \<open>Lists lie in BARs\<close>

text \<open>A list takes a BAR from some offset to its end.\<close>

definition in_bar :: "pci_env \<Rightarrow> u64 \<times> u64 \<Rightarrow> nat \<Rightarrow> bool" where
  "in_bar env dfl b \<longleftrightarrow>
     b < PCI_STD_NUM_BARS \<and> (\<exists>ofst. ofst \<le> pe_len env b \<and> dfl = (pe_start env b + ofst, pe_len env b - ofst))"

text \<open>Lists in distinct BARs, none of which is in the mask \<open>bars\<close>.\<close>

definition bar_lists :: "pci_env \<Rightarrow> u32 \<Rightarrow> (u64 \<times> u64) list \<Rightarrow> bool" where
  "bar_lists env bars ds \<longleftrightarrow> (\<exists>bs. list_all2 (in_bar env) ds bs \<and> distinct bs \<and> (\<forall>b \<in> set bs. \<not> bit bars b))"

lemma bar_lists_Nil [simp]: "bar_lists env bars []"
  by (simp add: bar_lists_def)

lemma bar_lists_mono: "bar_lists env (set_bit b bars) ds \<Longrightarrow> bar_lists env bars ds"
  by (auto simp: bar_lists_def bit_set_bit_iff)

lemma bar_lists_Cons:
  assumes "in_bar env d b" and "\<not> bit bars b" and "bar_lists env (set_bit b bars) ds"
  shows "bar_lists env bars (d # ds)"
proof -
  from assms(3) obtain bs where "list_all2 (in_bar env) ds bs" "distinct bs" "\<forall>c \<in> set bs. \<not> bit (set_bit b bars) c"
    by (auto simp: bar_lists_def)
  moreover from assms(1) have "b < 32" by (simp add: in_bar_def)
  ultimately show ?thesis
    using assms(1,2) by (auto simp: bar_lists_def bit_set_bit_iff intro!: exI [of _ "b # bs"])
qed

lemma add_dfl_eq:
  "snd (dfl_fpga_enum_info_add_dfl ok start len info) = info\<lparr>ei_dfls := ei_dfls info @ (if ok then [(start, len)] else [])\<rparr>"
  by (simp add: dfl_fpga_enum_info_add_dfl_def)

text \<open>One step of either loop: the list that is added, and what the loop adds behind it.\<close>

lemma bar_lists_add:
  assumes "b < PCI_STD_NUM_BARS" and "\<not> bit bars b" and "ofst < pe_len env b" and "bar_lists env (set_bit b bars) ds"
  shows "bar_lists env bars ((if ok then [(pe_start env b + ofst, pe_len env b - ofst)] else []) @ ds)"
proof -
  have "in_bar env (pe_start env b + ofst, pe_len env b - ofst) b"
    using assms(1,3) by (auto simp: in_bar_def intro!: exI [of _ ofst])
  with assms(2,4) show ?thesis by (auto intro: bar_lists_Cons bar_lists_mono)
qed

lemma vsec_loop_in_bars:
  "vsec_loop env n off bars info = (r, info') \<Longrightarrow> \<exists>ds. ei_dfls info' = ei_dfls info @ ds \<and> bar_lists env bars ds"
proof (induction n arbitrary: off bars info)
  case (Suc n)
  let ?res = "pe_config env off" and ?b = "vsec_bir (pe_config env off)"
  let ?o = "ucast (vsec_offset (pe_config env off)) :: u64"
  show ?case
  proof (cases "\<not> ?b \<ge> PCI_STD_NUM_BARS \<and> \<not> bit bars ?b \<and> \<not> pe_len env ?b \<le> ?o")
    case True
    let ?d = "if pe_dfl_alloc env ?b then [(pe_start env ?b + ?o, pe_len env ?b - ?o)] else []"
    have "vsec_loop env n (off + 4) (set_bit ?b bars) (info\<lparr>ei_dfls := ei_dfls info @ ?d\<rparr>) = (r, info')"
      using Suc.prems True by (simp add: Let_def add_dfl_eq split del: if_split)
    from Suc.IH [OF this] obtain ds where ds: "ei_dfls info' = ei_dfls info @ ?d @ ds" "bar_lists env (set_bit ?b bars) ds"
      by auto
    have "bar_lists env bars (?d @ ds)" using True by (intro bar_lists_add ds(2)) (simp_all add: linorder_not_le)
    with ds(1) show ?thesis by blast
  next
    case False
    with Suc.prems have "info' = info" by (auto simp: Let_def split: if_splits)
    then show ?thesis by simp
  qed
qed simp

lemma port_nr_skip: "\<not> PCI_STD_NUM_BARS \<le> b \<Longrightarrow> b \<noteq> FME_PORT_OFST_BAR_SKIP"
  by simp

lemma port_loop_in_bars:
  "port_loop env base ps bars info = (r, info') \<Longrightarrow> \<exists>ds. ei_dfls info' = ei_dfls info @ ds \<and> bar_lists env bars ds"
proof (induction ps arbitrary: bars info)
  case (Cons i ps)
  let ?v = "rd (pe_dfl env) (base + FME_HDR_PORT_OFST (int i))"
  let ?b = "unat (field_get 34 32 ?v)" and ?o = "field_get 23 0 ?v"
  show ?case
  proof (cases "bit ?v 60 \<and> \<not> ?b \<ge> PCI_STD_NUM_BARS \<and> \<not> bit bars ?b \<and> \<not> pe_len env ?b \<le> ?o")
    case True
    let ?d = "if pe_dfl_alloc env ?b then [(pe_start env ?b + ?o, pe_len env ?b - ?o)] else []"
    have "port_loop env base ps (set_bit ?b bars) (info\<lparr>ei_dfls := ei_dfls info @ ?d\<rparr>) = (r, info')"
      using Cons.prems True by (simp add: Let_def add_dfl_eq port_nr_skip split del: if_split)
    from Cons.IH [OF this] obtain ds where ds: "ei_dfls info' = ei_dfls info @ ?d @ ds" "bar_lists env (set_bit ?b bars) ds"
      by auto
    have "bar_lists env bars (?d @ ds)" using True by (intro bar_lists_add ds(2)) (simp_all add: linorder_not_le)
    with ds(1) show ?thesis by blast
  next
    case False
    with Cons.prems have "info' = info \<or> port_loop env base ps bars info = (r, info')"
      by (auto simp: Let_def split: if_splits)
    then show ?thesis using Cons.IH by fastforce
  qed
qed simp

text \<open>The number of ports is a field of three bits; behind the fifth port register is the bitstream identifier.\<close>

lemma port_registers_run_over:
  "FME_HDR_PORT_OFST 5 = 0x60" "unat (field_get 19 17 0xE0000) = 7"
  by (simp_all add: FME_HDR_PORT_OFST_def field_get_def)

lemma default_in_bars:
  assumes "find_dfls_by_default env info = (r, info')"
  shows "\<exists>ds. ei_dfls info' = ei_dfls info @ ds \<and> bar_lists env 0 ds"
proof -
  let ?d = "if pe_dfl_alloc env 0 then [(pe_start env 0, pe_len env 0)] else []"
  have d: "bar_lists env 0 (?d @ ds)" if "bar_lists env (set_bit 0 0) ds" for ds
    using that bar_lists_Cons [of env "(pe_start env 0, pe_len env 0)" 0 0 ds] bar_lists_mono [of env 0 0 ds]
    by (auto simp: in_bar_def intro: exI [of _ 0])
  consider (same) "info' = info" | (bar0) "info' = add_bar0 env info"
    | (fme) ps where "port_loop env (pe_start env 0) ps (set_bit 0 0) (add_bar0 env info) = (r, info')"
    using assms by (auto simp: find_dfls_by_default_def Let_def split: if_splits)
  then show ?thesis
  proof cases
    case same
    then show ?thesis by simp
  next
    case bar0
    with d [of "[]"] show ?thesis by (auto simp: add_bar0_def add_dfl_eq)
  next
    case fme
    from port_loop_in_bars [OF this] obtain ds where "ei_dfls info' = ei_dfls info @ ?d @ ds" "bar_lists env (set_bit 0 0) ds"
      by (auto simp: add_bar0_def add_dfl_eq)
    with d show ?thesis by blast
  qed
qed

lemma find_dfls_in_bars:
  assumes "find_dfls env info = (r, info')"
  shows "\<exists>ds. ei_dfls info' = ei_dfls info @ ds \<and> bar_lists env 0 ds"
proof (cases "fst (find_dfls_by_vsec env info) = Some ENODEV")
  case True
  then have "\<exists>info1. find_dfls_by_default env info1 = (r, info') \<and> snd (find_dfls_by_vsec env info) = info1"
    using assms by (auto simp: find_dfls_def split: prod.splits if_splits)
  moreover have "snd (find_dfls_by_vsec env info) = info \<or>
      (\<exists>n off. vsec_loop env n off 0 info = find_dfls_by_vsec env info)"
    by (auto simp: find_dfls_by_vsec_def Let_def)
  moreover have "fst (vsec_loop env n off bars i) \<noteq> Some ENODEV" for n off bars i
    by (induction n arbitrary: off bars i) (auto simp: Let_def)
  ultimately show ?thesis using default_in_bars True by metis
next
  case False
  then have v: "find_dfls_by_vsec env info = (r, info')"
    using assms by (auto simp: find_dfls_def split: prod.splits if_splits)
  then consider "info' = info" | n off where "vsec_loop env n off 0 info = (r, info')"
    by (auto simp: find_dfls_by_vsec_def Let_def split: if_splits)
  then show ?thesis by cases (auto dest: vsec_loop_in_bars)
qed

text \<open>
  C17. Whatever the configuration space and the registers of the FME hold, each feature list that is found
  takes a BAR from some offset to its end, and no two lists are in the same BAR.
\<close>

theorem dfls_lie_in_bars:
  "\<exists>ds bs. ei_dfls (snd (find_dfls env info)) = ei_dfls info @ ds \<and> distinct bs \<and>
     list_all2 (\<lambda>(start, len) b. b < 6 \<and> len \<le> pe_len env b \<and> start + len = pe_start env b + pe_len env b) ds bs"
proof -
  obtain ds bs where ds: "ei_dfls (snd (find_dfls env info)) = ei_dfls info @ ds" "distinct bs" "list_all2 (in_bar env) ds bs"
    using find_dfls_in_bars [of env info "fst (find_dfls env info)" "snd (find_dfls env info)"]
    by (auto simp: bar_lists_def)
  have "(\<lambda>(start, len) b. b < 6 \<and> len \<le> pe_len env b \<and> start + len = pe_start env b + pe_len env b) d b"
    if "in_bar env d b" for d b
    using that by (auto simp: in_bar_def word_sub_le)
  with ds show ?thesis by (blast intro: list_all2_mono)
qed

section \<open>The capability\<close>

text \<open>The list that an entry of the capability stands for, and when the entry is valid.\<close>

definition vsec_dfl :: "pci_env \<Rightarrow> u32 \<Rightarrow> u64 \<times> u64" where
  "vsec_dfl env e =
     (pe_start env (vsec_bir e) + ucast (vsec_offset e), pe_len env (vsec_bir e) - ucast (vsec_offset e))"

definition vsec_valid :: "pci_env \<Rightarrow> u32 \<Rightarrow> bool" where
  "vsec_valid env e \<longleftrightarrow> vsec_bir e < PCI_STD_NUM_BARS \<and> ucast (vsec_offset e) < pe_len env (vsec_bir e)"

lemma entries_Suc: "map (\<lambda>i. c (off + 4 * i)) [0..<Suc n] = c off # map (\<lambda>i. c (off + 4 + 4 * i)) [0..<n]"
  for c :: "nat \<Rightarrow> 'a" and off :: nat
  by (simp add: upt_conv_Cons map_Suc_upt [symmetric] ac_simps del: upt_Suc)

lemma vsec_loop_exact:
  "vsec_loop env n off bars info = (None, info') \<longleftrightarrow>
     (let es = map (\<lambda>i. pe_config env (off + 4 * i)) [0..<n]
      in (\<forall>e \<in> set es. vsec_valid env e \<and> \<not> bit bars (vsec_bir e)) \<and> distinct (map vsec_bir es) \<and>
         info' = info\<lparr>ei_dfls := ei_dfls info @ map (vsec_dfl env) (filter (pe_dfl_alloc env \<circ> vsec_bir) es)\<rparr>)"
proof (induction n arbitrary: off bars info)
  case 0
  then show ?case by auto
next
  case (Suc n)
  let ?e = "pe_config env off" and ?es = "map (\<lambda>i. pe_config env (off + 4 + 4 * i)) [0..<n]"
  show ?case
  proof (cases "vsec_valid env ?e \<and> \<not> bit bars (vsec_bir ?e)")
    case True
    let ?info = "info\<lparr>ei_dfls := ei_dfls info @ (if pe_dfl_alloc env (vsec_bir ?e) then [vsec_dfl env ?e] else [])\<rparr>"
    from True have b: "vsec_bir ?e < 32" by (simp add: vsec_valid_def)
    have "vsec_loop env (Suc n) off bars info = vsec_loop env n (off + 4) (set_bit (vsec_bir ?e) bars) ?info"
      using True by (simp add: Let_def add_dfl_eq vsec_valid_def vsec_dfl_def linorder_not_le [symmetric] cong: if_cong split del: if_split)
    then show ?thesis
      using True b by (auto simp: Suc.IH entries_Suc Let_def bit_set_bit_iff simp del: upt_Suc vsec_loop.simps)
  next
    case False
    then have "fst (vsec_loop env (Suc n) off bars info) \<noteq> None"
      by (auto simp: Let_def vsec_valid_def linorder_not_le)
    with False show ?thesis by (auto simp: entries_Suc Let_def simp del: upt_Suc vsec_loop.simps)
  qed
qed

text \<open>
  The capability is accepted exactly when it is there, has at most six entries that fit in the
  configuration space, and every entry names another BAR and an offset inside it. Then the lists are
  those of its entries in order, but for entries that cannot be allocated: they are left out without an
  error.
\<close>

theorem vsec_exact:
  "find_dfls_by_vsec env info = (None, info') \<longleftrightarrow>
     (let voff = unat (pe_vsec env); n = unat (pe_config env (voff + 8));
          es = map (\<lambda>i. pe_config env (voff + 12 + 4 * i)) [0..<n]
      in voff \<noteq> 0 \<and> n \<le> 6 \<and> voff + 12 + 4 * n \<le> 4096 \<and>
         (\<forall>e \<in> set es. vsec_bir e < 6 \<and> ucast (vsec_offset e) < pe_len env (vsec_bir e)) \<and> distinct (map vsec_bir es) \<and>
         info' = info\<lparr>ei_dfls := ei_dfls info @ map (vsec_dfl env) (filter (pe_dfl_alloc env \<circ> vsec_bir) es)\<rparr>)"
  by (auto simp: find_dfls_by_vsec_def vsec_loop_exact vsec_valid_def Let_def)

text \<open>One list in BAR 2; the same capability with a list that starts at the end of its BAR is refused.\<close>

definition pci0 :: "nat \<Rightarrow> pci_env" where
  "pci0 len = \<lparr>pe_vsec = 0x100, pe_config = \<lambda>a. if a = 0x108 then 1 else 0x1002,
     pe_start = \<lambda>b. of_nat b * 0x100000, pe_len = \<lambda>b. of_nat len, pe_map_bar0 = True, pe_dfl_alloc = \<lambda>_. True,
     pe_enable = None, pe_dma_mask = \<lambda>_. None, pe_drvdata_ok = True, pe_info_ok = True, pe_msix_count = 2,
     pe_alloc_vectors = None, pe_table_ok = True, pe_kmemdup_ok = True, pe_irq_vector = \<lambda>i. 40 + int i,
     pe_is_pf = True, pe_enable_sriov = \<lambda>_. None,
     pe_dfl = env0 (\<lambda>a. if a = 0x201000 then 0x4000010010000000 else 0)\<rparr>"

lemma pci0_fields:
  "pe_info_ok (pci0 n)" "pe_msix_count (pci0 n) = 2" "pe_alloc_vectors (pci0 n) = None" "pe_table_ok (pci0 n)"
  "pe_kmemdup_ok (pci0 n)" "pe_irq_vector (pci0 n) = (\<lambda>i. 40 + int i)" "pe_enable (pci0 n) = None"
  "pe_dma_mask (pci0 n) = (\<lambda>_. None)" "pe_drvdata_ok (pci0 n)"
  "pe_dfl (pci0 n) = env0 (\<lambda>a. if a = 0x201000 then 0x4000010010000000 else 0)"
  by (simp_all add: pci0_def)

lemma vsec_examples:
  "find_dfls_by_vsec (pci0 0x2000) (info0 []) = (None, info0 [(0x201000, 0x1000)])"
  "find_dfls_by_vsec (pci0 0x1000) (info0 []) = (Some EINVAL, info0 [])"
  by (code_simp)+

section \<open>Probing and removal\<close>

lemmas cci_simps = cci_pci_free_irq_def dfl_fpga_enum_info_free_def dfl_fpga_enum_info_alloc_def cci_pci_alloc_irq_def

lemma add_irqs_dfls:
  "cci_add_irqs env nvec info = (None, info') \<Longrightarrow> ei_dfls info' = ei_dfls info"
  by (auto simp: cci_add_irqs_def dfl_fpga_enum_info_add_irq_def split: if_splits option.splits)

lemma alloc_irq_cases:
  assumes "cci_pci_alloc_irq env s = (x, s')" and "cc_vectors s = 0"
  shows "s' = s \<and> (\<exists>e. x = Inl e) \<or> s' = s\<lparr>cc_vectors := max 0 (pe_msix_count env)\<rparr> \<and> (\<exists>n. x = Inr n)"
  using assms by (cases s) (auto simp: cci_pci_alloc_irq_def Let_def max_def split: if_splits option.splits)

lemma enumerate_feature_devs_cases:
  assumes "cci_enumerate_feature_devs env ids s = Some (r, s')" and "cc_vectors s = 0" and "cc_cdev s = None"
  shows "(\<exists>e. r = Some e \<and> cc_dev_refs s' = cc_dev_refs s \<and> cc_vectors s' = 0 \<and> cc_cdev s' = None) \<or>
     (\<exists>info0 info cdev. r = None \<and> cc_dev_refs s' = cc_dev_refs s \<and> cc_vectors s' = max 0 (pe_msix_count env) \<and>
        cc_cdev s' = Some cdev \<and> dfl_fpga_feature_devs_enumerate (pe_dfl env) info ids = Some (Inr cdev) \<and>
        find_dfls env info0 = (None, info) \<and> ei_dfls info0 = [])"
proof -
  let ?i = "\<lparr>ei_dev = True, ei_dfls = [], ei_nr_irqs = 0, ei_irq_table = None\<rparr>"
  obtain x s2 where a: "cci_pci_alloc_irq env (s\<lparr>cc_dev_refs := cc_dev_refs s + 1\<rparr>) = (x, s2)" by force
  note s2 = alloc_irq_cases [OF a, simplified, OF assms(2)]
  show ?thesis
  proof (cases "pe_info_ok env")
    case False
    with assms show ?thesis by (auto simp: cci_enumerate_feature_devs_def dfl_fpga_enum_info_alloc_def)
  next
    case ok: True
    show ?thesis
    proof (cases x)
      case (Inl e)
      with assms a ok s2 show ?thesis
        by (auto simp: cci_enumerate_feature_devs_def dfl_fpga_enum_info_alloc_def dfl_fpga_enum_info_free_def)
    next
      case (Inr n)
      obtain y info1 where i: "cci_add_irqs env n ?i = (y, info1)" by force
      obtain z info2 where f: "find_dfls env info1 = (z, info2)" by force
      have e: "cci_enumerate_feature_devs env ids s =
          (case y of Some e \<Rightarrow> Some (Some e, dfl_fpga_enum_info_free (cci_pci_free_irq s2))
           | None \<Rightarrow> (case z of Some e \<Rightarrow> Some (Some e, dfl_fpga_enum_info_free (cci_pci_free_irq s2))
             | None \<Rightarrow> map_option (\<lambda>r. case r of Inl e \<Rightarrow> (Some e, dfl_fpga_enum_info_free (cci_pci_free_irq s2))
                 | Inr cdev \<Rightarrow> (None, dfl_fpga_enum_info_free (s2\<lparr>cc_cdev := Some cdev\<rparr>)))
                 (dfl_fpga_feature_devs_enumerate (pe_dfl env) info2 ids)))"
        by (simp add: cci_enumerate_feature_devs_def dfl_fpga_enum_info_alloc_def ok a Inr i f Let_def split: option.split)
      from s2 Inr have "cc_dev_refs s2 = cc_dev_refs s + 1" "cc_vectors s2 = max 0 (pe_msix_count env)" "cc_cdev s2 = None"
        using assms(3) by auto
      moreover have "ei_dfls info1 = []" if "y = None" using add_irqs_dfls that i by fastforce
      ultimately show ?thesis
        using assms(1) f unfolding e
        by (cases y; cases z; cases "dfl_fpga_feature_devs_enumerate (pe_dfl env) info2 ids")
          (auto simp: dfl_fpga_enum_info_free_def cci_pci_free_irq_def split: sum.split_asm, blast)
    qed
  qed
qed

text \<open>
  C18. Probing a PCIe function is all or nothing: on an error no interrupt vector is allocated and there is no
  container device; on success all vectors of the function are allocated and the container is what
  enumeration makes of lists that lie in distinct BARs. In every case the reference of the enumeration
  information is given back.
\<close>

theorem pci_probe_all_or_nothing:
  assumes "cci_pci_probe env ids s = Some (r, s')" and "cc_vectors s = 0" and "cc_cdev s = None"
  shows "cc_dev_refs s' = cc_dev_refs s \<and>
     (if r \<noteq> None then cc_vectors s' = 0 \<and> cc_cdev s' = None
      else cc_vectors s' = max 0 (pe_msix_count env) \<and>
        (\<exists>info bs cdev. cc_cdev s' = Some cdev \<and>
           dfl_fpga_feature_devs_enumerate (pe_dfl env) info ids = Some (Inr cdev) \<and>
           distinct bs \<and> list_all2 (in_bar env) (ei_dfls info) bs))"
proof -
  let ?fail = "\<exists>e. r = Some e \<and> cc_dev_refs s' = cc_dev_refs s \<and> cc_vectors s' = 0 \<and> cc_cdev s' = None"
  let ?ok = "\<exists>info0 info cdev. r = None \<and> cc_dev_refs s' = cc_dev_refs s \<and> cc_vectors s' = max 0 (pe_msix_count env) \<and>
      cc_cdev s' = Some cdev \<and> dfl_fpga_feature_devs_enumerate (pe_dfl env) info ids = Some (Inr cdev) \<and>
      find_dfls env info0 = (None, info) \<and> ei_dfls info0 = []"
  have e: "cci_enumerate_feature_devs env ids (s\<lparr>cc_drvdata := True\<rparr>) = Some (r, s') \<or> (s' = s \<and> r \<noteq> None)"
    using assms(1) by (auto simp: cci_pci_probe_def cci_init_drvdata_def split: option.splits prod.splits if_splits)
  have "?fail \<or> ?ok"
  proof (cases "cci_enumerate_feature_devs env ids (s\<lparr>cc_drvdata := True\<rparr>) = Some (r, s')")
    case True
    have "cc_vectors (s\<lparr>cc_drvdata := True\<rparr>) = 0" "cc_cdev (s\<lparr>cc_drvdata := True\<rparr>) = None"
      "cc_dev_refs (s\<lparr>cc_drvdata := True\<rparr>) = cc_dev_refs s"
      using assms(2,3) by simp_all
    from enumerate_feature_devs_cases [OF True this(1,2), unfolded this(3)] show ?thesis .
  next
    case False
    with e have "s' = s" "r \<noteq> None" by blast+
    with assms(2,3) have ?fail by simp
    then show ?thesis by (rule disjI1)
  qed
  moreover have "?thesis" if ok: ?ok
  proof -
    from ok obtain i0 info cdev where *: "r = None" "cc_dev_refs s' = cc_dev_refs s" "cc_vectors s' = max 0 (pe_msix_count env)"
      "cc_cdev s' = Some cdev" "dfl_fpga_feature_devs_enumerate (pe_dfl env) info ids = Some (Inr cdev)"
      "find_dfls env i0 = (None, info)" "ei_dfls i0 = []" by blast
    from find_dfls_in_bars [OF *(6)] *(7) have "bar_lists env 0 (ei_dfls info)" by auto
    then obtain bs where "distinct bs" "list_all2 (in_bar env) (ei_dfls info) bs" unfolding bar_lists_def by blast
    with *(1-5) show ?thesis by simp blast
  qed
  moreover have "?thesis" if ?fail
    using that by (elim exE conjE) simp
  ultimately show ?thesis by blast
qed

definition cci0 :: "dfl_fpga_cdev option \<Rightarrow> cci" where
  "cci0 cdev = \<lparr>cc_cdev = cdev, cc_drvdata = False, cc_vectors = 0, cc_dev_refs = 0, cc_vfs = 0, cc_mem = \<lambda>_. 0\<rparr>"

theorem pci_probe_all_or_nothing_witness:
  "\<exists>s' info bs cdev. cci_pci_probe (pci0 0x2000) (\<lambda>_. []) (cci0 None) = Some (None, s') \<and> cc_dev_refs s' = 0 \<and>
     cc_vectors s' = 2 \<and> cc_cdev s' = Some cdev \<and>
     dfl_fpga_feature_devs_enumerate (pe_dfl (pci0 0x2000)) info (\<lambda>_. []) = Some (Inr cdev) \<and>
     distinct bs \<and> list_all2 (in_bar (pci0 0x2000)) (ei_dfls info) bs"
proof -
  have v: "find_dfls (pci0 0x2000) i = (None, i\<lparr>ei_dfls := ei_dfls i @ [(0x201000, 0x1000)]\<rparr>)" for i
    by (simp add: find_dfls_def find_dfls_by_vsec_def pci0_def Let_def vsec_bir_def vsec_offset_def
        dfl_fpga_enum_info_add_dfl_def)
  have "\<exists>s'. cci_pci_probe (pci0 0x2000) (\<lambda>_. []) (cci0 None) = Some (None, s')"
    by (simp add: cci_pci_probe_def cci_init_drvdata_def cci_enumerate_feature_devs_def v pci0_fields cci0_def
        cci_simps cci_add_irqs_def cci_pci_create_irq_table_def dfl_fpga_enum_info_add_irq_def)
      (simp add: dfl_enum_eval)
  then obtain s' where p: "cci_pci_probe (pci0 0x2000) (\<lambda>_. []) (cci0 None) = Some (None, s')" ..
  moreover have "cc_vectors (cci0 None) = 0" "cc_cdev (cci0 None) = None" "cc_dev_refs (cci0 None) = 0"
    "max 0 (pe_msix_count (pci0 0x2000)) = 2" by (simp_all add: cci0_def pci0_def)
  ultimately show ?thesis using pci_probe_all_or_nothing [OF p] by auto
qed

text \<open>Removing a function gives back the vectors and the container, with no feature device left.\<close>

lemma pci_remove_gives_back:
  assumes "cci_pci_remove env s = Some (cdev, s')" and "cc_cdev s \<noteq> None"
  shows "cc_cdev s' = None \<and> cc_vectors s' = 0 \<and> (pe_is_pf env \<longrightarrow> cc_vfs s' = 0) \<and>
     (\<exists>c. cdev = Some c \<and> (\<forall>fd \<in> set_option (fme_dev c) \<union> set (port_dev_list c) \<union> set (priv_feat_dev_list c). \<not> fd_dev fd))"
  using assms by (auto simp: cci_pci_remove_def cci_remove_feature_devs_def dfl_fpga_feature_devs_remove_def cci_pci_free_irq_def
      cci_pci_sriov_configure_def remove_feature_devs_def feature_dev_unregister_def Let_def split: if_splits)

section \<open>Virtual functions\<close>

abbreviation released_ports :: "dfl_fpga_cdev \<Rightarrow> dfl_feature_dev_data list" where
  "released_ports cdev \<equiv> filter (\<lambda>fd. \<not> fd_dev fd) (port_dev_list cdev)"

lemma config_ports_pf_marks:
  assumes "Option.bind (fme_dev cdev) (\<lambda>fd. dfl_get_feature_ioaddr_by_id fd FEATURE_ID_FIU_HEADER) = Some base"
  shows "dfl_fpga_cdev_config_ports_pf cdev m = Some (marked base False (port_dev_list cdev) m)"
  by (simp add: dfl_fpga_cdev_config_ports_pf_def config_ports_marks [OF assms])

lemma config_ports_vf_marks:
  assumes "port_inv (\<lparr>ps_cdev = cdev, ps_ops = ops\<rparr>, us)"
    and "Option.bind (fme_dev cdev) (\<lambda>fd. dfl_get_feature_ioaddr_by_id fd FEATURE_ID_FIU_HEADER) = Some base"
  shows "dfl_fpga_cdev_config_ports_vf cdev n m =
     Some (if released_ports cdev \<noteq> [] \<and> int (length (released_ports cdev)) \<noteq> n then (Some EINVAL, m)
           else (None, marked base True (port_dev_list cdev) m))"
proof -
  have "released_port_num cdev = int (length (released_ports cdev))" using assms(1) by (simp add: port_inv_def)
  then show ?thesis
    by (cases "port_dev_list cdev = []")
      (auto simp: dfl_fpga_cdev_config_ports_vf_def Let_def marked_def config_ports_marks [OF assms(2)])
qed

lemma marked_bits:
  "fd \<in> set fds \<Longrightarrow> \<not> fd_dev fd \<Longrightarrow>
     field_get 55 55 (marked base v fds m (base + FME_HDR_PORT_OFST (fd_id fd))) = (if v then 1 else 0)"
  "field_get 54 0 (marked base v fds m a) = field_get 54 0 (m a)"
  "field_get 63 56 (marked base v fds m a) = field_get 63 56 (m a)"
  by (auto simp: marked_def field_get_set_same field_get_set_other)

lemma marked_marked: "marked base v fds (marked base w fds m) = marked base v fds m"
  by (auto simp: marked_def fun_eq_iff field_set_def field_prep_def field_mask_def bit_eq_iff bit_simps)

text \<open>What is kept of the registers: all bits but the access bit of released ports.\<close>

definition same_but_access :: "u64 \<Rightarrow> dfl_fpga_cdev \<Rightarrow> mmio \<Rightarrow> mmio \<Rightarrow> bool" where
  "same_but_access base cdev m m' \<longleftrightarrow>
     (\<forall>a. field_get 54 0 (m' a) = field_get 54 0 (m a) \<and> field_get 63 56 (m' a) = field_get 63 56 (m a)) \<and>
     (\<forall>a. (\<forall>fd \<in> set (released_ports cdev). a \<noteq> base + FME_HDR_PORT_OFST (fd_id fd)) \<longrightarrow> m' a = m a)"

lemma same_but_access_marked:
  "same_but_access base cdev m m" "same_but_access base cdev m (marked base v (port_dev_list cdev) m)"
  by (auto simp: same_but_access_def marked_bits) (auto simp: marked_def)

lemma sriov_configure_eq:
  assumes "cc_cdev s = Some cdev" and "port_inv (\<lparr>ps_cdev = cdev, ps_ops = ops\<rparr>, us)"
    and "Option.bind (fme_dev cdev) (\<lambda>fd. dfl_get_feature_ioaddr_by_id fd FEATURE_ID_FIU_HEADER) = Some base"
  shows "cci_pci_sriov_configure env n s =
     (let mk = (\<lambda>v. marked base v (port_dev_list cdev) (cc_mem s))
      in Some (if n = 0 then (Inr 0, s\<lparr>cc_vfs := 0, cc_mem := mk False\<rparr>)
               else if released_ports cdev \<noteq> [] \<and> length (released_ports cdev) \<noteq> n then (Inl EINVAL, s)
               else case pe_enable_sriov env n of
                      Some e \<Rightarrow> (Inl e, s\<lparr>cc_mem := mk False\<rparr>)
                    | None \<Rightarrow> (Inr n, s\<lparr>cc_vfs := n, cc_mem := mk True\<rparr>)))"
proof -
  have "s\<lparr>cc_mem := cc_mem s\<rparr> = s" by simp
  then show ?thesis
    by (simp add: cci_pci_sriov_configure_def assms(1) config_ports_pf_marks [OF assms(3)]
        config_ports_vf_marks [OF assms(2,3)] marked_marked Let_def split: option.split)
qed

text \<open>
  C14. Setting the number of virtual functions. A number other than zero is refused when ports are released
  and their number differs; it fails when the PCI core fails, and then no virtual function is added and
  every released port is in PF access mode again. On success the released ports are in VF access mode, or in
  PF mode for number zero. No other register bit changes.
\<close>

theorem sriov_configure_exact:
  assumes "cc_cdev s = Some cdev" and "port_inv (\<lparr>ps_cdev = cdev, ps_ops = ops\<rparr>, us)"
    and "Option.bind (fme_dev cdev) (\<lambda>fd. dfl_get_feature_ioaddr_by_id fd FEATURE_ID_FIU_HEADER) = Some base"
  shows "\<exists>r s'. cci_pci_sriov_configure env n s = Some (r, s') \<and>
     r = (if n = 0 then Inr 0
          else if released_ports cdev \<noteq> [] \<and> length (released_ports cdev) \<noteq> n then Inl EINVAL
          else case pe_enable_sriov env n of Some e \<Rightarrow> Inl e | None \<Rightarrow> Inr n) \<and>
     cc_vfs s' = (case r of Inl _ \<Rightarrow> cc_vfs s | Inr k \<Rightarrow> k) \<and>
     (s' = s \<or> (\<forall>fd \<in> set (released_ports cdev).
        field_get 55 55 (cc_mem s' (base + FME_HDR_PORT_OFST (fd_id fd))) = (if isl r \<or> n = 0 then 0 else 1))) \<and>
     same_but_access base cdev (cc_mem s) (cc_mem s')"
  unfolding sriov_configure_eq [OF assms]
  by (auto simp: Let_def marked_bits same_but_access_marked split: option.split)

theorem sriov_configure_exact_witness:
  "\<exists>s'. cci_pci_sriov_configure (pci0 0) 1
       (cci0 (Some ((cdev0 [(port0 3)\<lparr>fd_dev := False, excl_open := True, open_count := 1\<rparr>])
          \<lparr>fme_dev := Some fme0, released_port_num := 1\<rparr>))) = Some (Inr 1, s') \<and>
     cc_vfs s' = 1 \<and> field_get 55 55 (cc_mem s' 0x1050) = 1 \<and> cc_mem s' 0x1048 = 0"
proof -
  let ?p = "(port0 3)\<lparr>fd_dev := False, excl_open := True, open_count := 1\<rparr>"
  let ?c = "(cdev0 [?p])\<lparr>fme_dev := Some fme0, released_port_num := 1\<rparr>"
  have inv: "port_inv (\<lparr>ps_cdev = ?c, ps_ops = []\<rparr>, [[]])"
    by (simp add: port_inv_def cdev0_def port0_def port_ok_def dev_use.accounts_def)
  have base: "Option.bind (fme_dev ?c) (\<lambda>fd. dfl_get_feature_ioaddr_by_id fd FEATURE_ID_FIU_HEADER) = Some 0x1000"
    by (simp add: cdev0_def fme0_def port0_def dfl_get_feature_ioaddr_by_id_def dfl_get_feature_by_id_def)
  have c: "cc_cdev (cci0 (Some ?c)) = Some ?c" "cc_mem (cci0 (Some ?c)) = (\<lambda>_. 0)" "cc_vfs (cci0 (Some ?c)) \<noteq> 1"
    by (simp_all add: cci0_def)
  have "port_dev_list ?c = [?p]" "\<not> fd_dev ?p" "FME_HDR_PORT_OFST (fd_id ?p) = 0x50" "pe_enable_sriov (pci0 0) 1 = None"
    by (simp_all add: cdev0_def port0_def FME_HDR_PORT_OFST_def pci0_def)
  with sriov_configure_exact [OF c(1) inv base, of "pci0 0" 1] c(2,3) show ?thesis
    by (force simp: same_but_access_def)
qed

section \<open>Platform devices\<close>

text \<open>
  A platform device is one list that starts where its resource starts and ends where it ends. Probing it
  gives the reference of the enumeration information back; on an error there is no container.
\<close>

lemma platform_probe_all_or_nothing:
  assumes "dfl_platform_probe env ids s = Some (r, s')" and "cc_cdev s = None"
  shows "cc_dev_refs s' = cc_dev_refs s \<and> (r \<noteq> None \<longrightarrow> cc_cdev s' = None) \<and>
     (r = None \<longrightarrow> (\<exists>start end' info cdev. pl_location env = Inr (start, end') \<and> start < end' \<and>
        ei_dfls info = (if pl_dfl_alloc env then [(start, end' - start + 1)] else []) \<and>
        dfl_fpga_feature_devs_enumerate (pl_dfl env) info ids = Some (Inr cdev) \<and> cc_cdev s' = Some cdev))"
proof (cases "\<exists>start end'. pl_location env = Inr (start, end') \<and> start \<noteq> 0 \<and> end' \<noteq> 0 \<and> \<not> end' \<le> start")
  case True
  then obtain start end' where l: "pl_location env = Inr (start, end')" "start \<noteq> 0" "end' \<noteq> 0" "\<not> end' \<le> start" by blast
  let ?i = "\<lparr>ei_dev = True, ei_dfls = if pl_dfl_alloc env then [(start, end' - start + 1)] else [],
      ei_nr_irqs = 0, ei_irq_table = None\<rparr>"
  show ?thesis
  proof (cases "s' = s \<and> r \<noteq> None \<or> s' = s\<lparr>cc_drvdata := True\<rparr> \<and> r \<noteq> None")
    case True
    with assms(2) show ?thesis by auto
  next
    case False
    then have "map_option (\<lambda>r. case r of Inl e \<Rightarrow> (Some e, s\<lparr>cc_drvdata := True\<rparr>)
          | Inr cdev \<Rightarrow> (None, s\<lparr>cc_drvdata := True, cc_cdev := Some cdev\<rparr>))
        (dfl_fpga_feature_devs_enumerate (pl_dfl env) ?i ids) = Some (r, s')"
      using assms(1) l by (auto simp: dfl_platform_probe_def dfl_platform_init_drvdata_def
          dfl_platform_enumerate_feature_devs_def dfl_fpga_enum_info_alloc_def dfl_platform_process_dfl_node_def
          dfl_fpga_enum_info_add_dfl_def dfl_fpga_enum_info_free_def Let_def fun_eq_iff
          split: option.splits if_splits sum.splits)
    with False l obtain cdev where "dfl_fpga_feature_devs_enumerate (pl_dfl env) ?i ids = Some (Inr cdev)" "r = None"
      "s' = s\<lparr>cc_drvdata := True, cc_cdev := Some cdev\<rparr>"
      by (cases "dfl_fpga_feature_devs_enumerate (pl_dfl env) ?i ids") (auto split: sum.split_asm)
    with l show ?thesis by (auto intro!: exI [of _ ?i] simp: linorder_not_le)
  qed
next
  case False
  with assms have "s' = s \<and> r \<noteq> None"
    by (auto simp: dfl_platform_probe_def split: sum.split_asm prod.split_asm if_splits)
  with assms(2) show ?thesis by auto
qed

end
