(* ===== verification/Regmap_Indirect.thy ===== *)
theory Regmap_Indirect
  imports M10bmc_Pmci
begin

unbundle bit_operations_syntax

text \<open>
  The indirect register map (\<^verbatim>\<open>drivers/base/regmap/regmap-indirect-register.c\<close>), through which the
  registers of an N6000's board management controller are reached: a mailbox of a command, an address, a
  read and a write register. A command is acknowledged by the device and then cleared.

  The device is a function of all accesses so far. The number of polls that fit in a time-out is an input.
\<close>

section \<open>The mailbox\<close>

record indirect_ctx =
  ix_base :: u64
  ix_dev :: "io32 list \<Rightarrow> u64 \<Rightarrow> u32"
  ix_polls :: nat

abbreviation (input) INDIRECT_CMD_CLR :: u32 where "INDIRECT_CMD_CLR \<equiv> 0"
abbreviation (input) INDIRECT_CMD_RD :: u32 where "INDIRECT_CMD_RD \<equiv> 1"
abbreviation (input) INDIRECT_CMD_WR :: u32 where "INDIRECT_CMD_WR \<equiv> 2"
abbreviation (input) INDIRECT_CMD_ACK :: u32 where "INDIRECT_CMD_ACK \<equiv> 4"

abbreviation CMD_REG :: "indirect_ctx \<Rightarrow> u64" where "CMD_REG ctx \<equiv> ix_base ctx"
abbreviation ADDR_REG :: "indirect_ctx \<Rightarrow> u64" where "ADDR_REG ctx \<equiv> ix_base ctx + 0x4"
abbreviation RD_REG :: "indirect_ctx \<Rightarrow> u64" where "RD_REG ctx \<equiv> ix_base ctx + 0x8"
abbreviation WR_REG :: "indirect_ctx \<Rightarrow> u64" where "WR_REG ctx \<equiv> ix_base ctx + 0xc"

definition ix_readl :: "indirect_ctx \<Rightarrow> u64 \<Rightarrow> io32 list \<Rightarrow> u32 \<times> io32 list" where
  "ix_readl ctx addr h = (let v = ix_dev ctx h addr in (v, h @ [RD32 addr v]))"

definition ix_writel :: "u32 \<Rightarrow> u64 \<Rightarrow> io32 list \<Rightarrow> io32 list" where
  "ix_writel v addr h = h @ [WR32 addr v]"

definition indirect_bus_clear_cmd :: "indirect_ctx \<Rightarrow> io32 list \<Rightarrow> errno option \<times> io32 list" where
  "indirect_bus_clear_cmd ctx h =
     (case read_poll (ix_readl ctx (CMD_REG ctx)) (\<lambda>cmd. cmd = INDIRECT_CMD_CLR) (ix_polls ctx)
             (ix_writel INDIRECT_CMD_CLR (CMD_REG ctx) h) of
        ((ret, cmd), h) \<Rightarrow> (ret, h))"

text \<open>The wait for the acknowledgement, which reads and writes share.\<close>

definition indirect_wait_ack :: "indirect_ctx \<Rightarrow> io32 list \<Rightarrow> errno option \<times> io32 list" where
  "indirect_wait_ack ctx h =
     (case read_poll (ix_readl ctx (CMD_REG ctx)) (\<lambda>ack. ack AND INDIRECT_CMD_ACK = INDIRECT_CMD_ACK) (ix_polls ctx) h of
        ((ret, ack), h) \<Rightarrow> (ret, h))"

definition indirect_bus_reg_read :: "indirect_ctx \<Rightarrow> u32 \<Rightarrow> io32 list \<Rightarrow> (errno + u32) \<times> io32 list" where
  "indirect_bus_reg_read ctx reg h =
     (let h1 = snd (ix_readl ctx (CMD_REG ctx) h);
          h2 = ix_writel INDIRECT_CMD_RD (CMD_REG ctx) (ix_writel reg (ADDR_REG ctx) h1)
      in (case indirect_wait_ack ctx h2 of
            (ret, h3) \<Rightarrow>
              (case (if ret \<noteq> None then (0, h3) else ix_readl ctx (RD_REG ctx) h3) of
                 (tmpval, h4) \<Rightarrow>
                   (case indirect_bus_clear_cmd ctx h4 of
                      (ret2, h5) \<Rightarrow>
                        (case ret of Some e \<Rightarrow> (Inl e, h5)
                         | None \<Rightarrow> (case ret2 of Some e \<Rightarrow> (Inl e, h5) | None \<Rightarrow> (Inr tmpval, h5)))))))"

definition indirect_bus_reg_write :: "indirect_ctx \<Rightarrow> u32 \<Rightarrow> u32 \<Rightarrow> io32 list \<Rightarrow> errno option \<times> io32 list" where
  "indirect_bus_reg_write ctx reg val h =
     (let h1 = snd (ix_readl ctx (CMD_REG ctx) h);
          h2 = ix_writel INDIRECT_CMD_WR (CMD_REG ctx)
                 (ix_writel reg (ADDR_REG ctx) (ix_writel val (WR_REG ctx) h1))
      in (case indirect_wait_ack ctx h2 of
            (ret, h3) \<Rightarrow>
              (case indirect_bus_clear_cmd ctx h3 of
                 (ret2, h4) \<Rightarrow> (if ret \<noteq> None then ret else ret2, h4))))"

text \<open>
  \<^verbatim>\<open>devm_regmap_init_indirect_register\<close>, up to the call of the register map core: \<open>None\<close> is NULL. The
  result of clearing the command is not looked at.
\<close>

definition indirect_register_init ::
  "bool \<Rightarrow> u64 \<Rightarrow> (io32 list \<Rightarrow> u64 \<Rightarrow> u32) \<Rightarrow> nat \<Rightarrow> io32 list \<Rightarrow> indirect_ctx option \<times> io32 list" where
  "indirect_register_init kzalloc_ok base dev polls h =
     (if \<not> kzalloc_ok then (None, h)
      else let ctx = \<lparr>ix_base = base, ix_dev = dev, ix_polls = polls\<rparr>
           in (Some ctx, snd (indirect_bus_clear_cmd ctx h)))"

section \<open>Polls\<close>

lemma ix_readl_eq: "ix_readl ctx a h = (ix_dev ctx h a, h @ [RD32 a (ix_dev ctx h a)])"
  by (simp add: ix_readl_def Let_def)

text \<open>The history after some reads of the command register.\<close>

fun polled :: "indirect_ctx \<Rightarrow> io32 list \<Rightarrow> nat \<Rightarrow> io32 list" where
  "polled ctx h 0 = h"
| "polled ctx h (Suc n) = polled ctx (snd (ix_readl ctx (CMD_REG ctx) h)) n"

definition cmd_after :: "indirect_ctx \<Rightarrow> io32 list \<Rightarrow> nat \<Rightarrow> u32" where
  "cmd_after ctx h n = ix_dev ctx (polled ctx h n) (CMD_REG ctx)"

lemma cmd_after_simps [simp]:
  "cmd_after ctx h 0 = ix_dev ctx h (CMD_REG ctx)"
  "cmd_after ctx h (Suc n) = cmd_after ctx (snd (ix_readl ctx (CMD_REG ctx) h)) n"
  by (simp_all add: cmd_after_def)

lemma poll_stops:
  assumes "n \<le> N" and "cond (cmd_after ctx h n)"
  shows "\<exists>k \<le> N. cond (cmd_after ctx h k) \<and>
     read_poll (ix_readl ctx (CMD_REG ctx)) cond N h = ((None, cmd_after ctx h k), polled ctx h (Suc k))"
  using assms
proof (induction N arbitrary: n h)
  case 0
  then show ?case by (simp add: ix_readl_eq)
next
  case (Suc N)
  show ?case
  proof (cases "cond (ix_dev ctx h (CMD_REG ctx))")
    case True
    then show ?thesis by (intro exI [of _ 0]) (simp add: ix_readl_eq)
  next
    case False
    with Suc.prems obtain m where m: "n = Suc m" by (cases n) auto
    let ?h = "snd (ix_readl ctx (CMD_REG ctx) h)"
    from Suc.IH [of m ?h] Suc.prems m obtain k where "k \<le> N" "cond (cmd_after ctx ?h k)"
      "read_poll (ix_readl ctx (CMD_REG ctx)) cond N ?h = ((None, cmd_after ctx ?h k), polled ctx ?h (Suc k))"
      by (auto simp del: polled.simps)
    with False show ?thesis by (intro exI [of _ "Suc k"]) (simp add: ix_readl_eq [of ctx "CMD_REG ctx" h])
  qed
qed

text \<open>What a poll does to the history of any device.\<close>

lemma poll_reads:
  "read_poll (ix_readl ctx a) cond N h = ((r, v), h') \<Longrightarrow>
     \<exists>vs. h' = h @ map (RD32 a) vs \<and> vs \<noteq> [] \<and> last vs = v \<and> (r = None \<longleftrightarrow> cond v) \<and> length vs \<le> Suc N"
proof (induction N arbitrary: h)
  case 0
  then show ?case by (auto simp: ix_readl_eq split: if_splits intro!: exI [of _ "[v]"])
next
  case (Suc N)
  show ?case
  proof (cases "cond (ix_dev ctx h a)")
    case True
    with Suc.prems show ?thesis by (auto simp: ix_readl_eq intro!: exI [of _ "[v]"])
  next
    case False
    with Suc.prems have "read_poll (ix_readl ctx a) cond N (h @ [RD32 a (ix_dev ctx h a)]) = ((r, v), h')"
      by (simp add: ix_readl_eq [of ctx a h])
    from Suc.IH [OF this] obtain vs where "h' = h @ [RD32 a (ix_dev ctx h a)] @ map (RD32 a) vs" "vs \<noteq> []" "last vs = v"
      "r = None \<longleftrightarrow> cond v" "length vs \<le> Suc N" by auto
    then show ?thesis by (intro exI [of _ "ix_dev ctx h a # vs"]) simp
  qed
qed

lemma indirect_ack_reads:
  assumes "indirect_wait_ack ctx h = (r, h')"
  shows "\<exists>vs. h' = h @ map (RD32 (CMD_REG ctx)) vs \<and> vs \<noteq> [] \<and> (r = None \<longleftrightarrow> last vs AND 4 = 4)"
  using assms by (auto simp: indirect_wait_ack_def split: prod.splits dest!: poll_reads)

lemma clear_cmd_reads:
  assumes "indirect_bus_clear_cmd ctx h = (r, h')"
  shows "\<exists>vs. h' = h @ WR32 (CMD_REG ctx) 0 # map (RD32 (CMD_REG ctx)) vs \<and> vs \<noteq> [] \<and> (r = None \<longleftrightarrow> last vs = 0)"
  using assms by (auto simp: indirect_bus_clear_cmd_def ix_writel_def split: prod.splits dest!: poll_reads)

section \<open>The protocol\<close>

text \<open>
  Whatever the device answers, an access leaves the mailbox alone: the last thing written is the clear
  command, once, also after a time-out. A read that succeeds returns what the read register held after the
  device had acknowledged and before the command was cleared, and then the device has shown a clear
  command register.
\<close>

theorem indirect_read_protocol:
  "\<exists>c as ds cs. snd (indirect_bus_reg_read ctx reg h) =
       h @ [RD32 (CMD_REG ctx) c, WR32 (ADDR_REG ctx) reg, WR32 (CMD_REG ctx) 1] @ map (RD32 (CMD_REG ctx)) as @
       map (RD32 (RD_REG ctx)) ds @ WR32 (CMD_REG ctx) 0 # map (RD32 (CMD_REG ctx)) cs \<and>
     as \<noteq> [] \<and> cs \<noteq> [] \<and> length ds = (if last as AND 4 = 4 then 1 else 0) \<and>
     (case fst (indirect_bus_reg_read ctx reg h) of
        Inr v \<Rightarrow> last as AND 4 = 4 \<and> last cs = 0 \<and> ds = [v]
      | Inl _ \<Rightarrow> last as AND 4 \<noteq> 4 \<or> last cs \<noteq> 0)"
proof -
  let ?c = "ix_dev ctx h (CMD_REG ctx)"
  let ?h2 = "h @ [RD32 (CMD_REG ctx) ?c, WR32 (ADDR_REG ctx) reg, WR32 (CMD_REG ctx) 1]"
  obtain r h3 where w: "indirect_wait_ack ctx ?h2 = (r, h3)" by force
  from indirect_ack_reads [OF w] obtain as where as: "h3 = ?h2 @ map (RD32 (CMD_REG ctx)) as" "as \<noteq> []"
    "r = None \<longleftrightarrow> last as AND 4 = 4" by blast
  obtain v h4 where t: "(if r \<noteq> None then (0, h3) else ix_readl ctx (RD_REG ctx) h3) = (v, h4)" by force
  obtain r2 h5 where c: "indirect_bus_clear_cmd ctx h4 = (r2, h5)" by force
  from clear_cmd_reads [OF c] obtain cs where cs: "h5 = h4 @ WR32 (CMD_REG ctx) 0 # map (RD32 (CMD_REG ctx)) cs" "cs \<noteq> []"
    "r2 = None \<longleftrightarrow> last cs = 0" by blast
  have run: "indirect_bus_reg_read ctx reg h =
      (case r of Some e \<Rightarrow> (Inl e, h5) | None \<Rightarrow> (case r2 of Some e \<Rightarrow> (Inl e, h5) | None \<Rightarrow> (Inr v, h5)))"
    using w t c by (simp add: indirect_bus_reg_read_def ix_readl_eq [of ctx "CMD_REG ctx"] ix_writel_def)
  have "h4 = h3 @ map (RD32 (RD_REG ctx)) (if r = None then [v] else [])"
    using t by (auto simp: ix_readl_eq split: if_splits)
  then show ?thesis unfolding run using as cs
    by - (rule exI [of _ ?c], rule exI [of _ as], rule exI [of _ "if r = None then [v] else []"], rule exI [of _ cs],
      cases r; cases r2; simp)
qed

theorem indirect_write_protocol:
  "\<exists>c as cs. snd (indirect_bus_reg_write ctx reg val h) =
       h @ [RD32 (CMD_REG ctx) c, WR32 (WR_REG ctx) val, WR32 (ADDR_REG ctx) reg, WR32 (CMD_REG ctx) 2] @
       map (RD32 (CMD_REG ctx)) as @ WR32 (CMD_REG ctx) 0 # map (RD32 (CMD_REG ctx)) cs \<and>
     as \<noteq> [] \<and> cs \<noteq> [] \<and>
     (fst (indirect_bus_reg_write ctx reg val h) = None \<longleftrightarrow> last as AND 4 = 4 \<and> last cs = 0)"
proof -
  let ?c = "ix_dev ctx h (CMD_REG ctx)"
  let ?h2 = "h @ [RD32 (CMD_REG ctx) ?c, WR32 (WR_REG ctx) val, WR32 (ADDR_REG ctx) reg, WR32 (CMD_REG ctx) 2]"
  obtain r h3 where w: "indirect_wait_ack ctx ?h2 = (r, h3)" by force
  from indirect_ack_reads [OF w] obtain as where as: "h3 = ?h2 @ map (RD32 (CMD_REG ctx)) as" "as \<noteq> []"
    "r = None \<longleftrightarrow> last as AND 4 = 4" by blast
  obtain r2 h4 where c: "indirect_bus_clear_cmd ctx h3 = (r2, h4)" by force
  from clear_cmd_reads [OF c] obtain cs where cs: "h4 = h3 @ WR32 (CMD_REG ctx) 0 # map (RD32 (CMD_REG ctx)) cs" "cs \<noteq> []"
    "r2 = None \<longleftrightarrow> last cs = 0" by blast
  have run: "indirect_bus_reg_write ctx reg val h = (if r \<noteq> None then r else r2, h4)"
    using w c by (simp add: indirect_bus_reg_write_def ix_readl_eq ix_writel_def)
  show ?thesis unfolding run using as cs
    by - (rule exI [of _ ?c], rule exI [of _ as], rule exI [of _ cs], simp)
qed

section \<open>A device that keeps registers\<close>

text \<open>
  The mailbox is free when the last command written is the clear command and the command register has
  shown it since. The history is looked at from its end; \<open>seen\<close>: whether it has been shown.
\<close>

fun free_since :: "indirect_ctx \<Rightarrow> bool \<Rightarrow> io32 list \<Rightarrow> bool" where
  "free_since ctx seen [] = False"
| "free_since ctx seen (RD32 a v # h) = free_since ctx (seen \<or> a = CMD_REG ctx \<and> v = INDIRECT_CMD_CLR) h"
| "free_since ctx seen (WR32 a v # h) =
     (if a = CMD_REG ctx then v = INDIRECT_CMD_CLR \<and> seen else free_since ctx seen h)"

definition mailbox_free :: "indirect_ctx \<Rightarrow> io32 list \<Rightarrow> bool" where
  "mailbox_free ctx h = free_since ctx False (rev h)"

lemma free_since_mono: "free_since ctx seen h \<Longrightarrow> free_since ctx (seen' \<or> seen) h"
proof (induction h arbitrary: seen)
  case (Cons x h)
  show ?case
  proof (cases x)
    case (RD32 a v)
    with Cons.prems Cons.IH [of "seen \<or> a = CMD_REG ctx \<and> v = 0"] show ?thesis by (simp add: disj_assoc)
  qed (use Cons in \<open>auto split: if_splits\<close>)
qed simp

lemma free_since_reads:
  "free_since ctx seen (map (RD32 (CMD_REG ctx)) vs @ h) = free_since ctx (seen \<or> 0 \<in> set vs) h"
  by (induction vs arbitrary: seen) auto

lemma free_read: "mailbox_free ctx h \<Longrightarrow> mailbox_free ctx (h @ [RD32 a v])"
  using free_since_mono [of ctx False "rev h" "a = CMD_REG ctx \<and> v = 0"] by (simp add: mailbox_free_def)

lemma free_cleared: "0 \<in> set vs \<Longrightarrow> mailbox_free ctx (h @ WR32 (CMD_REG ctx) 0 # map (RD32 (CMD_REG ctx)) vs)"
  by (simp add: mailbox_free_def free_since_reads rev_map)

text \<open>
  A device that works as the protocol asks, for some registers behind it, which are a function of the
  accesses so far. When the mailbox is free, a command is acknowledged before the time-out, and the
  registers are read and written when it is; clearing the command always shows in time. Of a command given
  while the mailbox is not free, nothing is known.
\<close>

definition mailbox :: "indirect_ctx \<Rightarrow> (io32 list \<Rightarrow> u32 \<Rightarrow> u32) \<Rightarrow> bool" where
  "mailbox ctx regs \<longleftrightarrow>
     (\<forall>h v. regs (h @ [RD32 (CMD_REG ctx) v]) = regs h \<and> regs (h @ [RD32 (RD_REG ctx) v]) = regs h) \<and>
     (\<forall>h reg. mailbox_free ctx h \<longrightarrow> (let c = h @ [WR32 (ADDR_REG ctx) reg, WR32 (CMD_REG ctx) 1]
        in (\<exists>n \<le> ix_polls ctx. cmd_after ctx c n AND 4 = 4) \<and>
           (\<forall>n. cmd_after ctx c n AND 4 = 4 \<longrightarrow>
              ix_dev ctx (polled ctx c (Suc n)) (RD_REG ctx) = regs h reg \<and> regs (polled ctx c (Suc n)) = regs h))) \<and>
     (\<forall>h reg val. mailbox_free ctx h \<longrightarrow>
        (let c = h @ [WR32 (WR_REG ctx) val, WR32 (ADDR_REG ctx) reg, WR32 (CMD_REG ctx) 2]
         in (\<exists>n \<le> ix_polls ctx. cmd_after ctx c n AND 4 = 4) \<and>
            (\<forall>n. cmd_after ctx c n AND 4 = 4 \<longrightarrow> regs (polled ctx c (Suc n)) = (regs h)(reg := val)))) \<and>
     (\<forall>h. let c = h @ [WR32 (CMD_REG ctx) 0]
        in (\<exists>n \<le> ix_polls ctx. cmd_after ctx c n = 0) \<and>
           (\<forall>n. cmd_after ctx c n = 0 \<longrightarrow> regs (polled ctx c (Suc n)) = regs h))"

lemma mailboxD:
  assumes "mailbox ctx regs"
  shows "regs (h @ [RD32 (CMD_REG ctx) v]) = regs h" "regs (h @ [RD32 (RD_REG ctx) v]) = regs h"
    "mailbox_free ctx h \<Longrightarrow>
       \<exists>n \<le> ix_polls ctx. cmd_after ctx (h @ [WR32 (ADDR_REG ctx) reg, WR32 (CMD_REG ctx) 1]) n AND 4 = 4"
    "mailbox_free ctx h \<Longrightarrow> cmd_after ctx (h @ [WR32 (ADDR_REG ctx) reg, WR32 (CMD_REG ctx) 1]) n AND 4 = 4 \<Longrightarrow>
       ix_dev ctx (polled ctx (h @ [WR32 (ADDR_REG ctx) reg, WR32 (CMD_REG ctx) 1]) (Suc n)) (RD_REG ctx) = regs h reg \<and>
       regs (polled ctx (h @ [WR32 (ADDR_REG ctx) reg, WR32 (CMD_REG ctx) 1]) (Suc n)) = regs h"
    "mailbox_free ctx h \<Longrightarrow> \<exists>n \<le> ix_polls ctx. cmd_after ctx
       (h @ [WR32 (WR_REG ctx) val, WR32 (ADDR_REG ctx) reg, WR32 (CMD_REG ctx) 2]) n AND 4 = 4"
    "mailbox_free ctx h \<Longrightarrow> cmd_after ctx (h @ [WR32 (WR_REG ctx) val, WR32 (ADDR_REG ctx) reg, WR32 (CMD_REG ctx) 2]) n AND 4 = 4 \<Longrightarrow>
       regs (polled ctx (h @ [WR32 (WR_REG ctx) val, WR32 (ADDR_REG ctx) reg, WR32 (CMD_REG ctx) 2]) (Suc n)) = (regs h)(reg := val)"
    "\<exists>n \<le> ix_polls ctx. cmd_after ctx (h @ [WR32 (CMD_REG ctx) 0]) n = 0"
    "cmd_after ctx (h @ [WR32 (CMD_REG ctx) 0]) n = 0 \<Longrightarrow>
       regs (polled ctx (h @ [WR32 (CMD_REG ctx) 0]) (Suc n)) = regs h"
  using assms unfolding mailbox_def Let_def by blast+

lemma mailbox_clear:
  assumes "mailbox ctx regs"
  shows "\<exists>h'. indirect_bus_clear_cmd ctx h = (None, h') \<and> regs h' = regs h \<and> mailbox_free ctx h'"
proof -
  obtain n where "n \<le> ix_polls ctx" "cmd_after ctx (h @ [WR32 (CMD_REG ctx) 0]) n = 0" using mailboxD(7) [OF assms] by blast
  from poll_stops [OF this(1), of "\<lambda>cmd. cmd = 0", OF this(2)] mailboxD(8) [OF assms]
  obtain h' where h': "indirect_bus_clear_cmd ctx h = (None, h')" "regs h' = regs h"
    by (auto simp: indirect_bus_clear_cmd_def ix_writel_def simp del: polled.simps)
  from clear_cmd_reads [OF h'(1)] obtain vs where
    "h' = h @ WR32 (CMD_REG ctx) 0 # map (RD32 (CMD_REG ctx)) vs" "vs \<noteq> []" "last vs = 0" by auto
  moreover from this have "0 \<in> set vs" using last_in_set [of vs] by simp
  ultimately show ?thesis using h' free_cleared by blast
qed

lemma mailbox_wait:
  assumes "\<exists>n \<le> ix_polls ctx. cmd_after ctx h n AND 4 = 4"
  shows "\<exists>k. cmd_after ctx h k AND 4 = 4 \<and> indirect_wait_ack ctx h = (None, polled ctx h (Suc k))"
proof -
  from assms obtain n where "n \<le> ix_polls ctx" "cmd_after ctx h n AND 4 = 4" by blast
  from poll_stops [OF this(1), of "\<lambda>ack. ack AND 4 = 4", OF this(2)] show ?thesis
    by (auto simp: indirect_wait_ack_def simp del: polled.simps)
qed

lemma mailbox_read:
  assumes "mailbox ctx regs" and "mailbox_free ctx h"
  shows "\<exists>h'. indirect_bus_reg_read ctx reg h = (Inr (regs h reg), h') \<and> regs h' = regs h \<and> mailbox_free ctx h'"
proof -
  let ?h1 = "h @ [RD32 (CMD_REG ctx) (ix_dev ctx h (CMD_REG ctx))]"
  let ?h2 = "?h1 @ [WR32 (ADDR_REG ctx) reg, WR32 (CMD_REG ctx) 1]"
  obtain k where k: "cmd_after ctx ?h2 k AND 4 = 4" "indirect_wait_ack ctx ?h2 = (None, polled ctx ?h2 (Suc k))"
    using mailbox_wait [OF mailboxD(3) [OF assms(1) free_read [OF assms(2)]]] by blast
  obtain h3 where h3: "h3 = polled ctx ?h2 (Suc k)" by simp
  from mailboxD(4) [OF assms(1) free_read [OF assms(2)] k(1)] mailboxD(1) [OF assms(1)] have r: "ix_dev ctx h3 (RD_REG ctx) = regs h reg" "regs h3 = regs h"
    unfolding h3 by metis+
  obtain h5 where c: "indirect_bus_clear_cmd ctx (h3 @ [RD32 (RD_REG ctx) (regs h reg)]) = (None, h5)"
    "regs h5 = regs (h3 @ [RD32 (RD_REG ctx) (regs h reg)])" "mailbox_free ctx h5" using mailbox_clear [OF assms(1)] by blast
  from k(2) have w: "indirect_wait_ack ctx (h @ [RD32 (CMD_REG ctx) (ix_dev ctx h (CMD_REG ctx)), WR32 (ADDR_REG ctx) reg,
      WR32 (CMD_REG ctx) 1]) = (None, h3)" unfolding h3 by simp
  have "indirect_bus_reg_read ctx reg h = (Inr (regs h reg), h5)"
    by (simp add: indirect_bus_reg_read_def ix_writel_def ix_readl_eq w r(1) c(1))
  with c(2,3) r(2) mailboxD(2) [OF assms(1)] show ?thesis by simp
qed

lemma mailbox_write:
  assumes "mailbox ctx regs" and "mailbox_free ctx h"
  shows "\<exists>h'. indirect_bus_reg_write ctx reg val h = (None, h') \<and> regs h' = (regs h)(reg := val) \<and> mailbox_free ctx h'"
proof -
  let ?h1 = "h @ [RD32 (CMD_REG ctx) (ix_dev ctx h (CMD_REG ctx))]"
  let ?h2 = "?h1 @ [WR32 (WR_REG ctx) val, WR32 (ADDR_REG ctx) reg, WR32 (CMD_REG ctx) 2]"
  obtain k where k: "cmd_after ctx ?h2 k AND 4 = 4" "indirect_wait_ack ctx ?h2 = (None, polled ctx ?h2 (Suc k))"
    using mailbox_wait [OF mailboxD(5) [OF assms(1) free_read [OF assms(2)]]] by blast
  obtain h3 where h3: "h3 = polled ctx ?h2 (Suc k)" by simp
  from mailboxD(6) [OF assms(1) free_read [OF assms(2)] k(1)] mailboxD(1) [OF assms(1)] have r: "regs h3 = (regs h)(reg := val)"
    unfolding h3 by metis
  obtain h5 where c: "indirect_bus_clear_cmd ctx h3 = (None, h5)" "regs h5 = regs h3" "mailbox_free ctx h5"
    using mailbox_clear [OF assms(1)] by blast
  from k(2) have w: "indirect_wait_ack ctx (h @ [RD32 (CMD_REG ctx) (ix_dev ctx h (CMD_REG ctx)), WR32 (WR_REG ctx) val,
      WR32 (ADDR_REG ctx) reg, WR32 (CMD_REG ctx) 2]) = (None, h3)" unfolding h3 by simp
  have "indirect_bus_reg_write ctx reg val h = (None, h5)"
    by (simp add: indirect_bus_reg_write_def ix_writel_def ix_readl_eq w c(1))
  with c(2,3) r show ?thesis by simp
qed

lemma init_frees:
  assumes "mailbox ctx regs" and "indirect_register_init True (ix_base ctx) (ix_dev ctx) (ix_polls ctx) h0 = (Some ctx, h)"
  shows "mailbox_free ctx h \<and> regs h = regs h0"
proof -
  have "h = snd (indirect_bus_clear_cmd ctx h0)" using assms(2) by (cases ctx) (auto simp: indirect_register_init_def Let_def)
  with mailbox_clear [OF assms(1), of h0] show ?thesis by auto
qed

text \<open>Any sequence of accesses, and what it is on registers.\<close>

datatype regop = Get u32 | Put u32 u32

fun run_indirect :: "indirect_ctx \<Rightarrow> regop list \<Rightarrow> io32 list \<Rightarrow> (errno + u32 option) list \<times> io32 list" where
  "run_indirect ctx [] h = ([], h)"
| "run_indirect ctx (Get reg # ops) h =
     (case indirect_bus_reg_read ctx reg h of (r, h) \<Rightarrow>
        (case run_indirect ctx ops h of (rs, h) \<Rightarrow> (map_sum id Some r # rs, h)))"
| "run_indirect ctx (Put reg v # ops) h =
     (case indirect_bus_reg_write ctx reg v h of (r, h) \<Rightarrow>
        (case run_indirect ctx ops h of (rs, h) \<Rightarrow> ((case r of Some e \<Rightarrow> Inl e | None \<Rightarrow> Inr None) # rs, h)))"

fun run_regs :: "regop list \<Rightarrow> (u32 \<Rightarrow> u32) \<Rightarrow> u32 option list \<times> (u32 \<Rightarrow> u32)" where
  "run_regs [] f = ([], f)"
| "run_regs (Get reg # ops) f = (case run_regs ops f of (rs, g) \<Rightarrow> (Some (f reg) # rs, g))"
| "run_regs (Put reg v # ops) f = (case run_regs ops (f(reg := v)) of (rs, g) \<Rightarrow> (None # rs, g))"

lemma run_indirect_regs:
  assumes "mailbox ctx regs"
  shows "mailbox_free ctx h \<Longrightarrow> fst (run_indirect ctx ops h) = map Inr (fst (run_regs ops (regs h))) \<and>
     regs (snd (run_indirect ctx ops h)) = snd (run_regs ops (regs h))"
proof (induction ops arbitrary: h)
  case (Cons op ops)
  show ?case
  proof (cases op)
    case (Get reg)
    obtain h' where "indirect_bus_reg_read ctx reg h = (Inr (regs h reg), h')" "regs h' = regs h" "mailbox_free ctx h'"
      using mailbox_read [OF assms Cons.prems] by blast
    with Cons.IH [of h'] Get show ?thesis by (simp add: case_prod_beta)
  next
    case (Put reg v)
    obtain h' where "indirect_bus_reg_write ctx reg v h = (None, h')" and r: "regs h' = (regs h)(reg := v)"
      and f: "mailbox_free ctx h'" using mailbox_write [OF assms Cons.prems] by blast
    with Cons.IH [OF f, unfolded r] Put show ?thesis by (simp add: case_prod_beta del: fun_upd_apply)
  qed
qed simp

text \<open>
  C38. From the initialisation of the register map on, which clears the command, any sequence of reads and
  writes behind the mailbox of a device that keeps the protocol succeeds and returns what it does on
  registers that simply hold what was last written to them. The device need only work when it is given a
  command after the last one was cleared and has shown that it was: every access leaves it like that.
\<close>

theorem indirect_refines_registers:
  assumes "mailbox ctx regs" and "indirect_register_init True (ix_base ctx) (ix_dev ctx) (ix_polls ctx) h0 = (Some ctx, h)"
  shows "fst (run_indirect ctx ops h) = map Inr (fst (run_regs ops (regs h0))) \<and>
     regs (snd (run_indirect ctx ops h)) = snd (run_regs ops (regs h0))"
  using run_indirect_regs [OF assms(1), of h ops] init_frees [OF assms] by simp

text \<open>
  A device that acknowledges at the second poll, and that ignores a command while it has one that is not
  cleared.
\<close>

record mbox =
  mb_cmd :: u32
  mb_addr :: u32
  mb_wr :: u32
  mb_reads :: nat
  mb_regs :: "u32 \<Rightarrow> u32"

fun mbox_step :: "mbox \<Rightarrow> io32 \<Rightarrow> mbox" where
  "mbox_step s (RD32 a v) = (if a = 0 then s\<lparr>mb_reads := mb_reads s + 1\<rparr> else s)"
| "mbox_step s (WR32 a v) =
     (if a = 0 then
        (if v = 0 then s\<lparr>mb_cmd := 0, mb_reads := 0\<rparr>
         else if mb_cmd s \<noteq> 0 then s
         else s\<lparr>mb_cmd := v, mb_reads := 0, mb_regs := if v = 2 then (mb_regs s)(mb_addr s := mb_wr s) else mb_regs s\<rparr>)
      else if a = 4 then s\<lparr>mb_addr := v\<rparr> else if a = 12 then s\<lparr>mb_wr := v\<rparr> else s)"

definition mbox_run :: "io32 list \<Rightarrow> mbox" where
  "mbox_run = foldl mbox_step \<lparr>mb_cmd = 0, mb_addr = 0, mb_wr = 0, mb_reads = 0, mb_regs = \<lambda>_. 0\<rparr>"

definition mbox0 :: indirect_ctx where
  "mbox0 = \<lparr>ix_base = 0,
     ix_dev = \<lambda>h a. let s = mbox_run h in
       if a = 0 then if mb_cmd s = 0 \<or> mb_reads s = 0 then mb_cmd s else mb_cmd s OR 4
       else if a = 8 then mb_regs s (mb_addr s) else 0,
     ix_polls = 1\<rparr>"

lemma mbox0_fields:
  "ix_base mbox0 = 0" "ix_polls mbox0 = 1"
  "ix_dev mbox0 h 0 = (if mb_cmd (mbox_run h) = 0 \<or> mb_reads (mbox_run h) = 0 then mb_cmd (mbox_run h)
     else mb_cmd (mbox_run h) OR 4)"
  "ix_dev mbox0 h 8 = mb_regs (mbox_run h) (mb_addr (mbox_run h))"
  by (simp_all add: mbox0_def Let_def)

lemma mbox_run_append [simp]: "mbox_run (h @ xs) = foldl mbox_step (mbox_run h) xs"
  by (simp add: mbox_run_def)

lemma mbox_polled: "mbox_run (polled mbox0 h n) = (mbox_run h)\<lparr>mb_reads := mb_reads (mbox_run h) + n\<rparr>"
  by (induction n arbitrary: h) (simp_all add: ix_readl_eq mbox0_fields)

lemma mbox_free_since: "free_since mbox0 seen (rev h) \<Longrightarrow> mb_cmd (mbox_run h) = 0"
proof (induction h arbitrary: seen rule: rev_induct)
  case (snoc x h)
  then show ?case by (cases x) (auto simp: mbox0_fields split: if_splits)
qed simp

lemma mbox_free: "mailbox_free mbox0 h \<Longrightarrow> mb_cmd (mbox_run h) = 0"
  by (auto simp: mailbox_free_def intro: mbox_free_since)

lemma mbox0_mailbox: "mailbox mbox0 (mb_regs \<circ> mbox_run)"
  unfolding mailbox_def Let_def
  by (intro conjI allI impI exI [of _ "1::nat"])
    (simp_all add: mbox0_fields cmd_after_def mbox_polled mbox_free del: polled.simps)

definition mbox_start :: "io32 list" where
  "mbox_start = snd (indirect_register_init True 0 (ix_dev mbox0) 1 [WR32 0 1])"

theorem indirect_refines_registers_witness:
  "fst (run_indirect mbox0 [Put 0x10 7, Get 0x10, Put 0x10 9, Get 0x14, Get 0x10] mbox_start) =
     [Inr None, Inr (Some 7), Inr None, Inr (Some 0), Inr (Some 9)]"
proof -
  have "indirect_register_init True (ix_base mbox0) (ix_dev mbox0) (ix_polls mbox0) [WR32 0 1] = (Some mbox0, mbox_start)"
    by (simp add: mbox_start_def indirect_register_init_def mbox0_fields Let_def)
  from indirect_refines_registers [OF mbox0_mailbox this, of "[Put 0x10 7, Get 0x10, Put 0x10 9, Get 0x14, Get 0x10]"]
  show ?thesis by (simp add: mbox_run_def)
qed

text \<open>Why the command has to be cleared: this device loses a write that does not find the mailbox free.\<close>

lemma uncleared_write_lost:
  "case indirect_bus_reg_write mbox0 0x10 7 [WR32 0 2] of (r, h) \<Rightarrow> r = None \<and> mb_regs (mbox_run h) 0x10 = 0"
  by code_simp

end
