(* ===== verification/Dfl_Device.thy ===== *)
theory Dfl_Device
  imports Dfl_Bus
begin

unbundle bit_operations_syntax

text \<open>
  Devices on the DFL bus (\<^verbatim>\<open>drivers/fpga/dfl.c\<close>): \<^verbatim>\<open>dfl_dev_add\<close> makes one from a feature, step by step with
  what it takes at each step, \<^verbatim>\<open>release_dfl_dev\<close> gives that back; the devices of a feature device are added
  and removed together. Then what the driver core calls on them, and the registration of their drivers.
\<close>

section \<open>State\<close>

text \<open>Blocks of memory are named by the device they belong to.\<close>

datatype block = B_ddev nat | B_params nat | B_irqs nat

record dfl_dev = dfl_device +
  dd_id :: nat
  dd_name :: string
  dd_revision :: u8
  dd_dfh_version :: u8
  dd_cdev :: bool                            \<comment> \<open>the container of the feature device is known\<close>
  dd_params :: "u64 list option"
  dd_param_size :: nat
  dd_mmio_res :: "u64 \<times> u64"
  dd_claimed :: bool                         \<comment> \<open>\<^verbatim>\<open>mmio_res.parent\<close> is set\<close>
  dd_irqs :: "int list option"
  dd_num_irqs :: u32

record dfl_bus =
  db_ids :: "nat list"                       \<comment> \<open>ids in use, \<^verbatim>\<open>dfl_device_ida\<close>\<close>
  db_blocks :: "block list"
  db_claimed :: "(nat \<times> u64 \<times> u64) list"     \<comment> \<open>resources inserted by devices\<close>
  db_devs :: "dfl_dev list"                  \<comment> \<open>registered devices\<close>

text \<open>The outcomes for each feature. The parent resource of an index outside the array is an input, too.\<close>

record dev_env =
  dv_kzalloc :: "dfl_feature \<Rightarrow> bool"
  dv_ida :: "nat list \<Rightarrow> errno + nat"
  dv_set_name :: "dfl_feature \<Rightarrow> errno option"
  dv_kmemdup :: "dfl_feature \<Rightarrow> bool"
  dv_insert :: "dfl_feature \<Rightarrow> (nat \<times> u64 \<times> u64) list \<Rightarrow> errno option"
  dv_kcalloc :: "dfl_feature \<Rightarrow> bool"
  dv_device_add :: "dfl_feature \<Rightarrow> errno option"
  dv_oob_res :: "int \<Rightarrow> u64 \<times> u64"

definition dfl_type_number :: "dfl_id_type \<Rightarrow> u16" where
  "dfl_type_number t = (case t of FME_ID \<Rightarrow> 0 | PORT_ID \<Rightarrow> 1 | PRIV_FEAT_ID \<Rightarrow> 2)"

section \<open>One device\<close>

definition alloc_block :: "block \<Rightarrow> dfl_bus \<Rightarrow> dfl_bus" where
  "alloc_block b s = s\<lparr>db_blocks := b # db_blocks s\<rparr>"

definition free_block :: "block \<Rightarrow> dfl_bus \<Rightarrow> dfl_bus" where
  "free_block b s = s\<lparr>db_blocks := remove1 b (db_blocks s)\<rparr>"

text \<open>Freeing NULL does nothing.\<close>

definition release_dfl_dev :: "dfl_dev \<Rightarrow> dfl_bus \<Rightarrow> dfl_bus" where
  "release_dfl_dev ddev s =
     (let s1 = (if dd_claimed ddev then s\<lparr>db_claimed := remove1 (dd_id ddev, dd_mmio_res ddev) (db_claimed s)\<rparr> else s);
          s2 = (if dd_params ddev \<noteq> None then free_block (B_params (dd_id ddev)) s1 else s1);
          s3 = s2\<lparr>db_ids := remove1 (dd_id ddev) (db_ids s2)\<rparr>;
          s4 = (if dd_irqs ddev \<noteq> None then free_block (B_irqs (dd_id ddev)) s3 else s3)
      in free_block (B_ddev (dd_id ddev)) s4)"

text \<open>A new device is zeroed.\<close>

definition dfl_dev_zero :: "nat \<Rightarrow> dfl_dev" where
  "dfl_dev_zero i =
     \<lparr>dd_type = 0, dd_feature_id = 0, dd_guid = guid_null, dd_id = i, dd_name = [], dd_revision = 0, dd_dfh_version = 0,
      dd_cdev = False, dd_params = None, dd_param_size = 0, dd_mmio_res = (0, 0), dd_claimed = False, dd_irqs = None,
      dd_num_irqs = 0\<rparr>"

definition parent_res :: "dev_env \<Rightarrow> dfl_feature_dev_data \<Rightarrow> dfl_feature \<Rightarrow> u64 \<times> u64" where
  "parent_res env fdata f =
     (let i = ft_resource_index f
      in if 0 \<le> i \<and> nat i < length (resources fdata) then resources fdata ! nat i else dv_oob_res env i)"

text \<open>
  The steps after the id has been taken, each with the device and the bus it leaves; an error comes with the
  device as it is then, for \<^verbatim>\<open>put_device\<close> to release.
\<close>

type_synonym dev_step = "dfl_dev \<times> dfl_bus \<Rightarrow> errno option \<times> dfl_dev \<times> dfl_bus"

definition dev_set_ident :: "dev_env \<Rightarrow> dfl_feature_dev_data \<Rightarrow> dfl_feature \<Rightarrow> dev_step" where
  "dev_set_ident env fdata f = (\<lambda>(ddev, s).
     case dv_set_name env f of
       Some e \<Rightarrow> (Some e, ddev, s)
     | None \<Rightarrow>
         (None, ddev\<lparr>dd_name := ''dfl_dev.'' @ decstr (dd_id ddev), dd_type := dfl_type_number (fd_type fdata),
            dd_feature_id := ft_id f, dd_revision := ft_revision f, dd_dfh_version := ft_dfh_version f, dd_cdev := True\<rparr>, s))"

definition dev_copy_params :: "dev_env \<Rightarrow> dfl_feature \<Rightarrow> dev_step" where
  "dev_copy_params env f = (\<lambda>(ddev, s).
     if ft_param_size f = 0 then (None, ddev, s)
     else if \<not> dv_kmemdup env f then (Some ENOMEM, ddev, s)
     else (None, ddev\<lparr>dd_params := Some (ft_params f), dd_param_size := ft_param_size f\<rparr>,
           alloc_block (B_params (dd_id ddev)) s))"

definition dev_claim_mmio :: "dev_env \<Rightarrow> dfl_feature_dev_data \<Rightarrow> dfl_feature \<Rightarrow> dev_step" where
  "dev_claim_mmio env fdata f = (\<lambda>(ddev, s).
     let ddev1 = (if dd_dfh_version ddev = 1 then ddev\<lparr>dd_guid := ft_guid f\<rparr> else ddev);
         ddev2 = ddev1\<lparr>dd_mmio_res := parent_res env fdata f\<rparr>
     in (case dv_insert env f (db_claimed s) of
           Some e \<Rightarrow> (Some e, ddev2, s)
         | None \<Rightarrow> (None, ddev2\<lparr>dd_claimed := True\<rparr>,
                    s\<lparr>db_claimed := (dd_id ddev2, dd_mmio_res ddev2) # db_claimed s\<rparr>)))"

definition dev_copy_irqs :: "dev_env \<Rightarrow> dfl_feature \<Rightarrow> dev_step" where
  "dev_copy_irqs env f = (\<lambda>(ddev, s).
     if ft_nr_irqs f = 0 then (None, ddev, s)
     else if \<not> dv_kcalloc env f then (Some ENOMEM, ddev, s)
     else (None, ddev\<lparr>dd_irqs := Some (map ctx_irq (take (unat (ft_nr_irqs f)) (ft_irq_ctx f))),
                      dd_num_irqs := ft_nr_irqs f\<rparr>,
           alloc_block (B_irqs (dd_id ddev)) s))"

definition dev_register :: "dev_env \<Rightarrow> dfl_feature \<Rightarrow> dev_step" where
  "dev_register env f = (\<lambda>(ddev, s).
     case dv_device_add env f of
       Some e \<Rightarrow> (Some e, ddev, s)
     | None \<Rightarrow> (None, ddev, s\<lparr>db_devs := ddev # db_devs s\<rparr>))"

fun dev_steps :: "dev_step list \<Rightarrow> dev_step" where
  "dev_steps [] st = (None, st)"
| "dev_steps (step # steps) st =
     (case step st of (Some e, st) \<Rightarrow> (Some e, st) | (None, st) \<Rightarrow> dev_steps steps st)"

definition dfl_dev_add :: "dev_env \<Rightarrow> dfl_feature_dev_data \<Rightarrow> dfl_feature \<Rightarrow> dfl_bus \<Rightarrow> (errno + nat) \<times> dfl_bus" where
  "dfl_dev_add env fdata f s =
     (if \<not> dv_kzalloc env f then (Inl ENOMEM, s)
      else case dv_ida env (db_ids s) of
             Inl e \<Rightarrow> (Inl e, s)
           | Inr i \<Rightarrow>
               (case dev_steps [dev_set_ident env fdata f, dev_copy_params env f, dev_claim_mmio env fdata f,
                                dev_copy_irqs env f, dev_register env f]
                       (dfl_dev_zero i, alloc_block (B_ddev i) (s\<lparr>db_ids := i # db_ids s\<rparr>)) of
                  (Some e, ddev, s) \<Rightarrow> (Inl e, release_dfl_dev ddev s)
                | (None, ddev, s) \<Rightarrow> (Inr (dd_id ddev), s)))"

text \<open>\<^verbatim>\<open>device_unregister\<close>: off the bus, and released with the last reference.\<close>

definition dfl_dev_unregister :: "nat \<Rightarrow> dfl_bus \<Rightarrow> dfl_bus" where
  "dfl_dev_unregister i s =
     (case find (\<lambda>d. dd_id d = i) (db_devs s) of
        None \<Rightarrow> s
      | Some ddev \<Rightarrow> release_dfl_dev ddev (s\<lparr>db_devs := remove1 ddev (db_devs s)\<rparr>))"

section \<open>The devices of a feature device\<close>

fun bus_devs_remove :: "dfl_feature list \<Rightarrow> dfl_bus \<Rightarrow> dfl_feature list \<times> dfl_bus" where
  "bus_devs_remove [] s = ([], s)"
| "bus_devs_remove (f # fs) s =
     (case ft_ddev f of
        None \<Rightarrow> apfst ((#) f) (bus_devs_remove fs s)
      | Some i \<Rightarrow> apfst ((#) (f\<lparr>ft_ddev := None\<rparr>)) (bus_devs_remove fs (dfl_dev_unregister i s)))"

fun bus_devs_add_loop ::
  "dev_env \<Rightarrow> dfl_feature_dev_data \<Rightarrow> dfl_feature list \<Rightarrow> dfl_bus \<Rightarrow> errno option \<times> dfl_feature list \<times> dfl_bus" where
  "bus_devs_add_loop env fdata [] s = (None, [], s)"
| "bus_devs_add_loop env fdata (f # fs) s =
     (if ft_ioaddr f \<noteq> None then apsnd (apfst ((#) f)) (bus_devs_add_loop env fdata fs s)
      else if ft_ddev f \<noteq> None then (Some EEXIST, f # fs, s)
      else case dfl_dev_add env fdata f s of
             (Inl e, s) \<Rightarrow> (Some e, f # fs, s)
           | (Inr i, s) \<Rightarrow> apsnd (apfst ((#) (f\<lparr>ft_ddev := Some i\<rparr>))) (bus_devs_add_loop env fdata fs s))"

definition bus_devs_add :: "dev_env \<Rightarrow> dfl_feature_dev_data \<Rightarrow> dfl_bus \<Rightarrow> errno option \<times> dfl_feature_dev_data \<times> dfl_bus" where
  "bus_devs_add env fdata s =
     (case bus_devs_add_loop env fdata (features fdata) s of
        (None, fs, s) \<Rightarrow> (None, fdata\<lparr>features := fs\<rparr>, s)
      | (Some e, fs, s) \<Rightarrow> (case bus_devs_remove fs s of (fs, s) \<Rightarrow> (Some e, fdata\<lparr>features := fs\<rparr>, s)))"

section \<open>Drivers and attributes\<close>

text \<open>A driver acts on a device and on a state of its own.\<close>

record 's dfl_driver =
  drv_id_table :: "dfl_device_id list option"
  drv_probe :: "(dfl_dev \<Rightarrow> 's \<Rightarrow> 's ret) option"
  drv_remove :: "(dfl_dev \<Rightarrow> 's \<Rightarrow> 's) option"
  drv_owner :: "nat option"

text \<open>\<open>None\<close> as an outer result is the call of a missing function.\<close>

definition dfl_bus_probe :: "'s dfl_driver \<Rightarrow> dfl_dev \<Rightarrow> 's \<Rightarrow> 's ret option" where
  "dfl_bus_probe ddrv ddev s = map_option (\<lambda>probe. probe ddev s) (drv_probe ddrv)"

definition dfl_bus_remove :: "'s dfl_driver \<Rightarrow> dfl_dev \<Rightarrow> 's \<Rightarrow> 's" where
  "dfl_bus_remove ddrv ddev s = (case drv_remove ddrv of None \<Rightarrow> s | Some remove \<Rightarrow> remove ddev s)"

definition dfl_driver_register ::
  "errno option \<Rightarrow> nat \<Rightarrow> 's dfl_driver option \<Rightarrow> 's dfl_driver list \<Rightarrow> 's dfl_driver list ret" where
  "dfl_driver_register driver_register owner dfl_drv drvs =
     (case dfl_drv of
        None \<Rightarrow> (Some EINVAL, drvs)
      | Some drv \<Rightarrow>
          if drv_probe drv = None \<or> drv_id_table drv = None then (Some EINVAL, drvs)
          else (case driver_register of
                  Some e \<Rightarrow> (Some e, drvs)
                | None \<Rightarrow> (None, drv\<lparr>drv_owner := Some owner\<rparr> # drvs)))"

definition dfl_dev_get_base_dev :: "dfl_dev option \<Rightarrow> 'd \<Rightarrow> 'd option" where
  "dfl_dev_get_base_dev dfl_dev parent =
     (case dfl_dev of None \<Rightarrow> None | Some d \<Rightarrow> if \<not> dd_cdev d then None else Some parent)"

definition type_show :: "dfl_dev \<Rightarrow> string" where
  "type_show ddev = ''0x'' @ hexstr (ucast (dd_type ddev)) @ newline"

definition feature_id_show :: "dfl_dev \<Rightarrow> string" where
  "feature_id_show ddev = ''0x'' @ hexstr (ucast (dd_feature_id ddev)) @ newline"

end
