(* ===== verification/Dfl_Device_Props.thy ===== *)
theory Dfl_Device_Props
  imports Dfl_Device Dfl_Enum_Props
begin

unbundle bit_operations_syntax

text \<open>
  What adding and removing devices on the DFL bus does to ids, memory, resources and the list of devices: a
  feature device gets one device for each feature that it does not drive itself, or nothing is left of any.
\<close>

section \<open>A bus with one more device\<close>

definition blocks_of :: "dfl_dev \<Rightarrow> block list" where
  "blocks_of d = (if dd_irqs d = None then [] else [B_irqs (dd_id d)]) @
     (if dd_params d = None then [] else [B_params (dd_id d)]) @ [B_ddev (dd_id d)]"

definition with_dev :: "dfl_dev \<Rightarrow> dfl_bus \<Rightarrow> dfl_bus" where
  "with_dev d s = s\<lparr>db_ids := dd_id d # db_ids s, db_blocks := blocks_of d @ db_blocks s,
     db_claimed := (dd_id d, dd_mmio_res d) # db_claimed s, db_devs := d # db_devs s\<rparr>"

definition block_owner :: "block \<Rightarrow> nat" where
  "block_owner b = (case b of B_ddev i \<Rightarrow> i | B_params i \<Rightarrow> i | B_irqs i \<Rightarrow> i)"

definition bus_wf :: "dfl_bus \<Rightarrow> bool" where
  "bus_wf s \<longleftrightarrow> block_owner ` set (db_blocks s) \<subseteq> set (db_ids s) \<and> fst ` set (db_claimed s) \<subseteq> set (db_ids s) \<and>
     dd_id ` set (db_devs s) \<subseteq> set (db_ids s)"

text \<open>\<^verbatim>\<open>ida_alloc\<close> gives an id that is not in use.\<close>

definition ida_fresh :: "dev_env \<Rightarrow> bool" where
  "ida_fresh env \<longleftrightarrow> (\<forall>ids i. dv_ida env ids = Inr i \<longrightarrow> i \<notin> set ids)"

text \<open>The device that stands for a feature.\<close>

definition dev_of :: "dev_env \<Rightarrow> dfl_feature_dev_data \<Rightarrow> dfl_feature \<Rightarrow> nat \<Rightarrow> dfl_dev" where
  "dev_of env fdata f i =
     \<lparr>dd_type = dfl_type_number (fd_type fdata), dd_feature_id = ft_id f,
      dd_guid = if ft_dfh_version f = 1 then ft_guid f else guid_null, dd_id = i, dd_name = ''dfl_dev.'' @ decstr i,
      dd_revision = ft_revision f, dd_dfh_version = ft_dfh_version f, dd_cdev = True,
      dd_params = if ft_param_size f = 0 then None else Some (ft_params f), dd_param_size = ft_param_size f,
      dd_mmio_res = parent_res env fdata f, dd_claimed = True,
      dd_irqs = if ft_nr_irqs f = 0 then None else Some (map ctx_irq (take (unat (ft_nr_irqs f)) (ft_irq_ctx f))),
      dd_num_irqs = ft_nr_irqs f\<rparr>"

lemma dev_of_simps [simp]: "dd_id (dev_of env fdata f i) = i" "dd_claimed (dev_of env fdata f i)"
  by (simp_all add: dev_of_def)

lemma bus_wf_with_dev: "bus_wf s \<Longrightarrow> bus_wf (with_dev d s)"
  by (auto simp: bus_wf_def with_dev_def blocks_of_def block_owner_def)

section \<open>Adding one device\<close>

lemmas dev_step_defs = dev_set_ident_def dev_copy_params_def dev_claim_mmio_def dev_copy_irqs_def dev_register_def
  alloc_block_def dfl_dev_zero_def

lemma fresh_remove:
  assumes "bus_wf s" and "i \<notin> set (db_ids s)"
  shows "remove1 (B_ddev i) (db_blocks s) = db_blocks s" "remove1 (B_params i) (db_blocks s) = db_blocks s"
    "remove1 (B_irqs i) (db_blocks s) = db_blocks s" "remove1 (i, r) (db_claimed s) = db_claimed s"
    "find (\<lambda>d. dd_id d = i) (db_devs s) = None"
  using assms by (auto simp: bus_wf_def block_owner_def find_None_iff intro!: remove1_idem split: block.splits)

lemma dev_add_ok:
  assumes "dfl_dev_add env fdata f s = (Inr i, s')"
  shows "dv_ida env (db_ids s) = Inr i \<and> s' = with_dev (dev_of env fdata f i) s"
proof -
  from assms obtain j where j: "dv_ida env (db_ids s) = Inr j" "dv_kzalloc env f"
    by (auto simp: dfl_dev_add_def split: if_splits sum.splits)
  from assms j have "i = j" and "s' = with_dev (dev_of env fdata f i) s"
    by (auto simp: dfl_dev_add_def dev_step_defs Let_def with_dev_def blocks_of_def dev_of_def split: if_splits option.splits)
  with j show ?thesis by simp
qed

lemma dev_add_error:
  assumes "dfl_dev_add env fdata f s = (Inl e, s')" and "bus_wf s" and "ida_fresh env"
  shows "s' = s"
proof (cases "dv_kzalloc env f \<and> (\<exists>i. dv_ida env (db_ids s) = Inr i)")
  case True
  then obtain i where i: "dv_ida env (db_ids s) = Inr i" "dv_kzalloc env f" by blast
  with assms(3) have "i \<notin> set (db_ids s)" by (simp add: ida_fresh_def)
  from fresh_remove [OF assms(2) this] i assms(1) show ?thesis
    by (auto simp: dfl_dev_add_def dev_step_defs Let_def release_dfl_dev_def free_block_def split: if_splits option.splits)
next
  case False
  with assms(1) show ?thesis by (auto simp: dfl_dev_add_def split: if_splits sum.splits)
qed

section \<open>Removing devices\<close>

lemma unregister_with_dev:
  assumes "bus_wf s" and "dd_id d \<notin> set (db_ids s)" and "dd_claimed d"
  shows "dfl_dev_unregister (dd_id d) (with_dev d s) = s"
  using fresh_remove [OF assms(1,2)] assms(3)
  by (auto simp: dfl_dev_unregister_def with_dev_def release_dfl_dev_def free_block_def blocks_of_def Let_def)

lemma remove1_blocks_of: "block_owner b \<noteq> dd_id d \<Longrightarrow> remove1 b (blocks_of d @ bs) = blocks_of d @ remove1 b bs"
  by (auto simp: blocks_of_def block_owner_def remove1_append)

lemma release_with_dev:
  "dd_id d \<noteq> dd_id x \<Longrightarrow> release_dfl_dev x (with_dev d s) = with_dev d (release_dfl_dev x s)"
  by (auto simp: release_dfl_dev_def with_dev_def free_block_def Let_def remove1_blocks_of block_owner_def)

lemma unregister_commutes:
  assumes "dd_id d \<noteq> i"
  shows "dfl_dev_unregister i (with_dev d s) = with_dev d (dfl_dev_unregister i s)"
proof (cases "find (\<lambda>d. dd_id d = i) (db_devs s)")
  case None
  with assms show ?thesis by (simp add: dfl_dev_unregister_def with_dev_def)
next
  case (Some x)
  then have x: "dd_id x = i" by (auto simp: find_Some_iff)
  with assms have "d \<noteq> x" by auto
  with assms Some have "dfl_dev_unregister i (with_dev d s) =
      release_dfl_dev x (with_dev d (s\<lparr>db_devs := remove1 x (db_devs s)\<rparr>))"
    by (simp add: dfl_dev_unregister_def with_dev_def)
  with assms Some x show ?thesis by (simp add: release_with_dev dfl_dev_unregister_def)
qed

lemma unregister_fold:
  "i \<notin> dd_id ` set ds \<Longrightarrow> dfl_dev_unregister i (fold with_dev ds s) = fold with_dev ds (dfl_dev_unregister i s)"
  by (induction ds arbitrary: s) (auto simp: unregister_commutes)

text \<open>Devices that can be added one after the other: distinct ids that are not in use.\<close>

definition addable :: "dfl_dev list \<Rightarrow> dfl_bus \<Rightarrow> bool" where
  "addable ds s \<longleftrightarrow> distinct (map dd_id ds) \<and> (\<forall>d \<in> set ds. dd_id d \<notin> set (db_ids s) \<and> dd_claimed d)"

lemma addable_Cons: "addable (d # ds) s \<longleftrightarrow> dd_id d \<notin> set (db_ids s) \<and> dd_claimed d \<and> addable ds (with_dev d s)"
  by (auto simp: addable_def with_dev_def image_iff)

lemma remove_added:
  assumes "bus_wf s" and "addable ds s" and "List.map_filter ft_ddev fs = map dd_id ds"
  shows "bus_devs_remove fs (fold with_dev ds s) = (map (\<lambda>f. f\<lparr>ft_ddev := None\<rparr>) fs, s)"
  using assms
proof (induction fs arbitrary: ds)
  case Nil
  then show ?case by (simp add: map_filter_simps)
next
  case (Cons f fs)
  show ?case
  proof (cases "ft_ddev f")
    case None
    with Cons.prems Cons.IH [of ds] have "bus_devs_remove fs (fold with_dev ds s) = (map (\<lambda>f. f\<lparr>ft_ddev := None\<rparr>) fs, s)"
      by (simp add: map_filter_simps)
    moreover from None have "f\<lparr>ft_ddev := None\<rparr> = f" by simp
    ultimately show ?thesis using None by simp
  next
    case (Some i)
    with Cons.prems(3) obtain d ds' where ds: "ds = d # ds'" "dd_id d = i" "List.map_filter ft_ddev fs = map dd_id ds'"
      by (auto simp: map_filter_simps)
    from Cons.prems(2) ds have d: "i \<notin> dd_id ` set ds'" "i \<notin> set (db_ids s)" "dd_claimed d" "addable ds' s"
      by (auto simp: addable_def)
    have "dfl_dev_unregister i (fold with_dev ds s) = fold with_dev ds' s"
      using unregister_with_dev [OF Cons.prems(1), of d] d ds by (simp add: unregister_fold)
    with Cons.IH [OF Cons.prems(1) d(4) ds(3)] Some show ?thesis by simp
  qed
qed

section \<open>Adding the devices of a feature device\<close>

lemma add_loop_cases:
  assumes "bus_devs_add_loop env fdata fs s = (r, fs', s')" and "bus_wf s" and "ida_fresh env"
    and "\<forall>f \<in> set fs. ft_ddev f = None"
  shows "\<exists>ds. s' = fold with_dev ds s \<and> addable ds s \<and> List.map_filter ft_ddev fs' = map dd_id ds \<and>
     map (\<lambda>f. f\<lparr>ft_ddev := None\<rparr>) fs' = fs \<and>
     (r = None \<longrightarrow> ds = map2 (dev_of env fdata) (filter (\<lambda>f. ft_ioaddr f = None) fs) (map dd_id ds) \<and>
        length ds = length (filter (\<lambda>f. ft_ioaddr f = None) fs) \<and>
        (\<forall>f \<in> set fs'. ft_ddev f = None \<longleftrightarrow> ft_ioaddr f \<noteq> None))"
  using assms
proof (induction fs arbitrary: r fs' s)
  case Nil
  then show ?case by (auto simp: map_filter_simps addable_def intro!: exI [of _ "[]"])
next
  case (Cons f fs)
  from Cons.prems(4) have n: "ft_ddev f = None" "f\<lparr>ft_ddev := None\<rparr> = f" "\<forall>f \<in> set fs. ft_ddev f = None" by auto
  from n(3) have m: "List.map_filter ft_ddev fs = []" "map (\<lambda>f. f\<lparr>ft_ddev := None\<rparr>) fs = fs"
    by (auto simp: map_filter_def filter_empty_conv intro: map_idI)
  show ?case
  proof (cases "ft_ioaddr f")
    case (Some a)
    with Cons.prems(1) obtain fs1 where "bus_devs_add_loop env fdata fs s = (r, fs1, s')" "fs' = f # fs1"
      by (auto simp: apsnd_def apfst_def map_prod_def split: prod.splits)
    with Cons.IH [OF _ Cons.prems(2,3) n(3)] n Some show ?thesis by (fastforce simp: map_filter_simps)
  next
    case io: None
    obtain x s1 where a: "dfl_dev_add env fdata f s = (x, s1)" by force
    show ?thesis
    proof (cases x)
      case (Inl e)
      with Cons.prems a io n have "r = Some e" "fs' = f # fs" "s' = s1" by auto
      moreover from dev_add_error [OF _ Cons.prems(2,3)] a Inl have "s1 = s" by blast
      ultimately show ?thesis using n m by (intro exI [of _ "[]"]) (simp add: map_filter_simps addable_def)
    next
      case (Inr i)
      let ?d = "dev_of env fdata f i"
      from dev_add_ok a Inr have i: "dv_ida env (db_ids s) = Inr i" "s1 = with_dev ?d s" by blast+
      with Cons.prems(3) have fr: "i \<notin> set (db_ids s)" by (simp add: ida_fresh_def)
      from Cons.prems(1) a io n Inr obtain fs1 where
        l: "bus_devs_add_loop env fdata fs (with_dev ?d s) = (r, fs1, s')" "fs' = f\<lparr>ft_ddev := Some i\<rparr> # fs1"
        unfolding i by (auto simp: apsnd_def apfst_def map_prod_def split: prod.splits)
      from Cons.IH [OF l(1) bus_wf_with_dev [OF Cons.prems(2)] Cons.prems(3) n(3)] obtain ds where
        ds: "s' = fold with_dev ds (with_dev ?d s)" "addable ds (with_dev ?d s)" "List.map_filter ft_ddev fs1 = map dd_id ds"
          "map (\<lambda>f. f\<lparr>ft_ddev := None\<rparr>) fs1 = fs"
          "r = None \<longrightarrow> ds = map2 (dev_of env fdata) (filter (\<lambda>f. ft_ioaddr f = None) fs) (map dd_id ds) \<and>
             length ds = length (filter (\<lambda>f. ft_ioaddr f = None) fs) \<and>
             (\<forall>f \<in> set fs1. ft_ddev f = None \<longleftrightarrow> ft_ioaddr f \<noteq> None)" by blast
      from fr ds(2) have "addable (?d # ds) s" by (simp add: addable_Cons)
      with ds io n l(2) show ?thesis
        by (intro exI [of _ "?d # ds"]) (simp add: map_filter_simps)
    qed
  qed
qed

text \<open>
  C15. Adding the devices of a feature device on the bus. On success every feature that the feature device
  has not mapped itself has a device of its own, with the type, id, guid, parameters, register range and
  interrupts of the feature, in the order of the features and under ids that were not in use. On an error
  no feature has a device, and ids, memory, claimed resources and the list of devices are as before, with
  whatever had been added taken back. Removing the devices after a success does the same.
\<close>

theorem bus_devs_add_all_or_nothing:
  assumes "bus_devs_add env fdata s = (r, fdata', s')" and "bus_wf s" and "ida_fresh env"
    and "\<forall>f \<in> set (features fdata). ft_ddev f = None"
  shows "if r \<noteq> None then s' = s \<and> fdata' = fdata
     else \<exists>ds. s' = fold with_dev ds s \<and> List.map_filter ft_ddev (features fdata') = map dd_id ds \<and>
       ds = map2 (dev_of env fdata) (filter (\<lambda>f. ft_ioaddr f = None) (features fdata)) (map dd_id ds) \<and>
       length ds = length (filter (\<lambda>f. ft_ioaddr f = None) (features fdata)) \<and>
       distinct (map dd_id ds @ db_ids s) = distinct (db_ids s) \<and>
       (\<forall>f \<in> set (features fdata'). ft_ddev f = None \<longleftrightarrow> ft_ioaddr f \<noteq> None) \<and>
       bus_devs_remove (features fdata') s' = (features fdata, s)"
proof -
  obtain fs1 s1 where l: "bus_devs_add_loop env fdata (features fdata) s = (r, fs1, s1)"
    using assms(1) by (cases "bus_devs_add_loop env fdata (features fdata) s")
      (auto simp: bus_devs_add_def split: prod.splits option.splits)
  from add_loop_cases [OF this assms(2-4)] obtain ds where
    ds: "s1 = fold with_dev ds s" "addable ds s" "List.map_filter ft_ddev fs1 = map dd_id ds"
      "map (\<lambda>f. f\<lparr>ft_ddev := None\<rparr>) fs1 = features fdata"
      "r = None \<longrightarrow> ds = map2 (dev_of env fdata) (filter (\<lambda>f. ft_ioaddr f = None) (features fdata)) (map dd_id ds) \<and>
         length ds = length (filter (\<lambda>f. ft_ioaddr f = None) (features fdata)) \<and>
         (\<forall>f \<in> set fs1. ft_ddev f = None \<longleftrightarrow> ft_ioaddr f \<noteq> None)" by blast
  have rem: "bus_devs_remove fs1 s1 = (features fdata, s)"
    using remove_added [OF assms(2) ds(2,3)] ds(1,4) by simp
  show ?thesis
  proof (cases r)
    case (Some e)
    with assms(1) l rem have "s' = s" "fdata' = fdata" by (auto simp: bus_devs_add_def)
    with Some show ?thesis by simp
  next
    case None
    with assms(1) l have "s' = s1" "fdata' = fdata\<lparr>features := fs1\<rparr>" by (auto simp: bus_devs_add_def)
    moreover from ds(2) have "distinct (map dd_id ds @ db_ids s) = distinct (db_ids s)" by (auto simp: addable_def)
    ultimately show ?thesis using None ds rem by (intro if_not_P [THEN iffD2]) (auto intro!: exI [of _ ds])
  qed
qed

text \<open>A feature device with a header that it drives itself and one feature with an interrupt.\<close>

definition dev_env0 :: dev_env where
  "dev_env0 = \<lparr>dv_kzalloc = \<lambda>_. True, dv_ida = \<lambda>ids. Inr (Suc (foldr max ids 0)), dv_set_name = \<lambda>_. None,
     dv_kmemdup = \<lambda>_. True, dv_insert = \<lambda>_ _. None, dv_kcalloc = \<lambda>_. True, dv_device_add = \<lambda>_. None,
     dv_oob_res = \<lambda>_. (0, 0)\<rparr>"

definition fdata0 :: dfl_feature_dev_data where
  "fdata0 = \<lparr>fd_dev = True, fd_type = PORT_ID, fd_pdev_id = 0, fd_id = 0, disable_count = 0, excl_open = False,
     open_count = 0, fd_num = 2,
     features = [feature_zero\<lparr>ft_id := 0xfe, ft_resource_index := -1, ft_ioaddr := Some 0x80000\<rparr>,
       feature_zero\<lparr>ft_id := 0x20, ft_nr_irqs := 1, ft_irq_ctx := [\<lparr>ctx_irq = 44, ctx_trigger = None\<rparr>]\<rparr>],
     resources = [(0x81000, 0x81fff)]\<rparr>"

definition bus0 :: dfl_bus where
  "bus0 = \<lparr>db_ids = [], db_blocks = [], db_claimed = [], db_devs = []\<rparr>"

lemma dev_env0_fresh: "ida_fresh dev_env0"
proof -
  have "i \<in> set ids \<Longrightarrow> i \<le> foldr max ids (0::nat)" for i ids by (induction ids) auto
  then show ?thesis by (fastforce simp: ida_fresh_def dev_env0_def)
qed

theorem bus_devs_add_all_or_nothing_witness:
  "\<exists>d fdata' s'. bus_devs_add dev_env0 fdata0 bus0 = (None, fdata', s') \<and> dd_irqs d = Some [44] \<and>
     dd_feature_id d = 0x20 \<and> dd_mmio_res d = (0x81000, 0x81fff) \<and> s' = with_dev d bus0 \<and>
     bus_devs_remove (features fdata') s' = (features fdata0, bus0)"
proof -
  have r: "fst (bus_devs_add dev_env0 fdata0 bus0) = None" by code_simp
  obtain fdata' s' where a: "bus_devs_add dev_env0 fdata0 bus0 = (None, fdata', s')"
    using r by (cases "bus_devs_add dev_env0 fdata0 bus0") auto
  have "bus_wf bus0" "\<forall>f \<in> set (features fdata0). ft_ddev f = None"
    by (simp_all add: bus_wf_def bus0_def fdata0_def feature_zero_def)
  from bus_devs_add_all_or_nothing [OF a this(1) dev_env0_fresh this(2)] obtain ds where
    ds: "s' = fold with_dev ds bus0"
      "ds = map2 (dev_of dev_env0 fdata0) (filter (\<lambda>f. ft_ioaddr f = None) (features fdata0)) (map dd_id ds)"
      "length ds = length (filter (\<lambda>f. ft_ioaddr f = None) (features fdata0))"
      "bus_devs_remove (features fdata') s' = (features fdata0, bus0)" by (simp only: simp_thms if_False) blast
  let ?f = "feature_zero\<lparr>ft_id := 0x20, ft_nr_irqs := 1, ft_irq_ctx := [\<lparr>ctx_irq = 44, ctx_trigger = None\<rparr>]\<rparr>"
  have f: "filter (\<lambda>f. ft_ioaddr f = None) (features fdata0) = [?f]" by (simp add: fdata0_def feature_zero_def)
  with ds(3) obtain d where d: "ds = [d]" by (auto simp: length_Suc_conv)
  have "ds = [dev_of dev_env0 fdata0 ?f (dd_id d)]" by (subst ds(2)) (simp only: f d list.map zip.simps split list.case)
  then obtain i where i: "ds = [dev_of dev_env0 fdata0 ?f i]" by blast
  have "dd_irqs (dev_of dev_env0 fdata0 ?f i) = Some [44]" "dd_feature_id (dev_of dev_env0 fdata0 ?f i) = 0x20"
    "dd_mmio_res (dev_of dev_env0 fdata0 ?f i) = (0x81000, 0x81fff)"
    by (simp_all add: dev_of_def parent_res_def fdata0_def feature_zero_def)
  with a ds(1,4) i show ?thesis by (intro exI [of _ "dev_of dev_env0 fdata0 ?f i"]) simp
qed

end
