(* ===== verification/Dfl_Alias.thy ===== *)
theory Dfl_Alias
  imports Dfl_Device
begin

unbundle bit_operations_syntax

text \<open>
  Loading the driver of a DFL device. When a device appears, the kernel tells its alias to user space
  (\<^verbatim>\<open>dfl_bus_uevent\<close> in \<^verbatim>\<open>drivers/fpga/dfl.c\<close>); the modules carry alias patterns, made from the tables of
  the drivers when they are built (\<^verbatim>\<open>do_dfl_entry\<close> in \<^verbatim>\<open>scripts/mod/file2alias.c\<close>), and user space loads
  the modules with a pattern that matches. Once loaded, the bus decides by \<^verbatim>\<open>dfl_bus_match\<close>.
\<close>

section \<open>Text\<close>

text \<open>The formats \<^verbatim>\<open>%04X\<close> and \<^verbatim>\<open>%02X\<close>.\<close>

definition hex_upper :: "nat \<Rightarrow> char" where
  "hex_upper n = ''0123456789ABCDEF'' ! n"

definition X04 :: "u16 \<Rightarrow> string" where
  "X04 v = map (\<lambda>i. hex_upper (unat v div 16 ^ i mod 16)) [3, 2, 1, 0]"

definition X02 :: "u8 \<Rightarrow> string" where
  "X02 v = map (\<lambda>i. hex_upper (unat v div 16 ^ i mod 16)) [1, 0]"

text \<open>The bytes of a guid in memory, and its text; \<^verbatim>\<open>%pUL\<close> of the kernel prints the same.\<close>

definition guid_bytes :: "guid \<Rightarrow> byte list" where
  "guid_bytes g = cpu_to_le32 (g_a g) @ [ucast (g_b g), ucast (drop_bit 8 (g_b g))] @
     [ucast (g_c g), ucast (drop_bit 8 (g_c g))] @ g_d g"

definition add_guid :: "string \<Rightarrow> guid \<Rightarrow> string" where
  "add_guid str g =
     (let b = (\<lambda>i. X02 (guid_bytes g ! i))
      in str @ b 3 @ b 2 @ b 1 @ b 0 @ ''-'' @ b 5 @ b 4 @ ''-'' @ b 7 @ b 6 @ ''-'' @ b 8 @ b 9 @ ''-'' @
         b 10 @ b 11 @ b 12 @ b 13 @ b 14 @ b 15)"

definition add_wildcard :: "string \<Rightarrow> string" where
  "add_wildcard str = (if last str \<noteq> CHR ''*'' then str @ ''*'' else str)"

section \<open>The alias of a device\<close>

definition dfl_alias_base :: "u16 \<Rightarrow> u16 \<Rightarrow> string" where
  "dfl_alias_base t fid = ''dfl:t'' @ X04 t @ ''f'' @ X04 fid"

text \<open>\<^verbatim>\<open>scnprintf\<close> cuts its text to what the size it is given leaves; each call is given 64.\<close>

definition scnprintf :: "nat \<Rightarrow> string \<Rightarrow> string" where
  "scnprintf n s = take (n - 1) s"

definition dfl_uevent_alias :: "'a dfl_device_scheme \<Rightarrow> string" where
  "dfl_uevent_alias ddev =
     (let alias = scnprintf 64 (dfl_alias_base (dd_type ddev) (dd_feature_id ddev))
      in if dd_guid ddev \<noteq> guid_null then alias @ scnprintf 64 (add_guid ''g{'' (dd_guid ddev) @ ''}'') else alias)"

definition dfl_bus_uevent :: "'a dfl_device_scheme \<Rightarrow> string" where
  "dfl_bus_uevent ddev = ''MODALIAS='' @ dfl_uevent_alias ddev"

definition guid_show :: "dfl_dev \<Rightarrow> errno + string" where
  "guid_show ddev = (if dd_dfh_version ddev = 0 then Inl ENOENT else Inr (add_guid [] (dd_guid ddev) @ newline))"

section \<open>The patterns of a driver\<close>

text \<open>\<open>None\<close>: the entry is not valid and gives no alias.\<close>

definition do_dfl_entry :: "dfl_device_id \<Rightarrow> string option" where
  "do_dfl_entry i =
     (if did_feature_id i = 0 \<and> did_guid i = guid_null then None
      else let alias = (if did_feature_id i = 0 then ''dfl:t*f*'' else dfl_alias_base (did_type i) (did_feature_id i));
               alias = (if did_guid i \<noteq> guid_null then add_guid (alias @ ''g{'') (did_guid i) @ ''}'' else alias)
           in Some (add_wildcard alias))"

text \<open>The loop of \<^verbatim>\<open>do_table\<close>, which leaves out the terminator at the end of the table.\<close>

definition do_table :: "dfl_device_id list \<Rightarrow> string list" where
  "do_table tbl = List.map_filter do_dfl_entry (butlast tbl)"

text \<open>Patterns of user space: a star stands for any text, every other character that occurs here for itself.\<close>

fun glob :: "string \<Rightarrow> string \<Rightarrow> bool" where
  "glob [] s \<longleftrightarrow> s = []"
| "glob (c # p) s \<longleftrightarrow>
     (if c = CHR ''*'' then list_ex (\<lambda>k. glob p (drop k s)) [0..<Suc (length s)]
      else (case s of [] \<Rightarrow> False | d # s' \<Rightarrow> c = d \<and> glob p s'))"

declare glob.simps [simp del]

definition module_loaded :: "dfl_device_id list \<Rightarrow> 'a dfl_device_scheme \<Rightarrow> bool" where
  "module_loaded tbl ddev \<longleftrightarrow> (\<exists>p \<in> set (do_table tbl). glob p (dfl_uevent_alias ddev))"

section \<open>Texts have fixed lengths\<close>

lemma length_text [simp]: "length (X04 v) = 4" "length (X02 b) = 2" "length (add_guid str g) = length str + 36"
  "length (dfl_alias_base t fid) = 14"
  by (simp_all add: X04_def X02_def add_guid_def Let_def dfl_alias_base_def)

lemma uevent_alias:
  "dfl_uevent_alias ddev = dfl_alias_base (dd_type ddev) (dd_feature_id ddev) @
     (if dd_guid ddev = guid_null then [] else add_guid ''g{'' (dd_guid ddev) @ ''}'')"
  by (simp add: dfl_uevent_alias_def scnprintf_def Let_def)

text \<open>
  The alias of a device is never cut: it takes at most 53 of the 64 bytes it has, with its end mark,
  although the second call is told that all 64 bytes are left.
\<close>

lemma alias_fits: "length (dfl_uevent_alias ddev) + 1 \<le> 54"
  by (simp add: uevent_alias)

section \<open>Patterns\<close>

lemma glob_star: "glob ''*'' s"
  by (auto simp: glob.simps list_ex_iff intro!: bexI [of _ "length s"])

lemma glob_literal: "CHR ''*'' \<notin> set p \<Longrightarrow> glob (p @ q) (p @ s) = glob q s"
  by (induction p) (auto simp: glob.simps)

lemma glob_literal_start: "CHR ''*'' \<notin> set p \<Longrightarrow> glob (p @ q) s \<Longrightarrow> \<exists>s'. s = p @ s' \<and> glob q s'"
  by (induction p arbitrary: s) (auto simp: glob.simps split: list.splits)

lemma glob_skip: "glob p s \<Longrightarrow> glob (CHR ''*'' # p) (t @ s)"
  by (auto simp: glob.simps list_ex_iff intro!: bexI [of _ "length t"])

lemma hex_upper_cases: "n < 16 \<Longrightarrow> hex_upper n \<in> set ''0123456789ABCDEF''"
  by (simp only: hex_upper_def, rule nth_mem) simp

lemma text_no_star: "CHR ''*'' \<notin> set (X04 v)" "CHR ''*'' \<notin> set (X02 b)"
proof -
  have "hex_upper (n mod 16) \<noteq> CHR ''*''" for n
    using hex_upper_cases [of "n mod 16"] by auto
  then show "CHR ''*'' \<notin> set (X04 v)" "CHR ''*'' \<notin> set (X02 b)" by (auto simp: X04_def X02_def) metis+
qed

lemma guid_no_star: "CHR ''*'' \<notin> set str \<Longrightarrow> CHR ''*'' \<notin> set (add_guid str g)"
  using text_no_star(2) by (auto simp: add_guid_def Let_def)

lemma add_guid_append: "add_guid (s @ t) g = s @ add_guid t g"
  by (simp add: add_guid_def Let_def)

lemma hex_upper_inj: "n < 16 \<Longrightarrow> m < 16 \<Longrightarrow> hex_upper n = hex_upper m \<Longrightarrow> n = m"
  by (simp add: hex_upper_def nth_eq_iff_index_eq)

lemma digit16: "n mod 16 = m mod 16 \<Longrightarrow> n div 16 = m div 16 \<Longrightarrow> n = m" for n m :: nat
  by (metis div_mult_mod_eq)

lemma digits16:
  fixes n m :: nat
  assumes "n < 65536" "m < 65536" "n div 4096 mod 16 = m div 4096 mod 16" "n div 256 mod 16 = m div 256 mod 16"
    "n div 16 mod 16 = m div 16 mod 16" "n mod 16 = m mod 16"
  shows "n = m"
proof -
  have "n div 4096 < 16" "m div 4096 < 16" using assms(1,2) by simp_all
  with assms(3) have "n div 4096 = m div 4096" by (metis mod_less)
  then have "n div 256 div 16 = m div 256 div 16" using div_mult2_eq [of n 256 16] div_mult2_eq [of m 256 16] by simp
  with assms(4) have "n div 256 = m div 256" by (rule digit16)
  then have "n div 16 div 16 = m div 16 div 16" using div_mult2_eq [of n 16 16] div_mult2_eq [of m 16 16] by simp
  with assms(5) have "n div 16 = m div 16" by (rule digit16)
  with assms(6) show ?thesis by (rule digit16)
qed

lemma hex_upper_mod: "hex_upper (n mod 16) = hex_upper (m mod 16) \<longleftrightarrow> n mod 16 = m mod 16"
  using hex_upper_inj [of "n mod 16" "m mod 16"] by auto

lemma X04_nat:
  "map (\<lambda>i. hex_upper (n div 16 ^ i mod 16)) [3, 2, 1, 0] = map (\<lambda>i. hex_upper (m div 16 ^ i mod 16)) [3, 2, 1, 0] \<longleftrightarrow>
     n div 4096 mod 16 = m div 4096 mod 16 \<and> n div 256 mod 16 = m div 256 mod 16 \<and>
     n div 16 mod 16 = m div 16 mod 16 \<and> n mod 16 = m mod 16"
  by (simp only: list.map list.inject hex_upper_mod) simp

lemma X04_inj: "X04 v = X04 w \<longleftrightarrow> v = w"
proof
  assume "X04 v = X04 w"
  then have "unat v = unat w"
    unfolding X04_def X04_nat using digits16 [of "unat v" "unat w"]
      unsigned_less [of v, where ?'a = nat] unsigned_less [of w, where ?'a = nat] by simp
  then show "v = w" by (simp only: word_unat_eq_iff)
qed simp

section \<open>Patterns and the bus agree\<close>

lemma alias_base_inj: "dfl_alias_base t fid @ s = dfl_alias_base t' fid' @ s' \<longleftrightarrow> t = t' \<and> fid = fid' \<and> s = s'"
  by (auto simp: dfl_alias_base_def X04_inj append_eq_append_conv)

lemma alias_base_no_star: "CHR ''*'' \<notin> set (dfl_alias_base t fid)"
  by (simp add: dfl_alias_base_def text_no_star)

lemma alias_base_last: "last (dfl_alias_base t fid) \<noteq> CHR ''*''"
  by (metis alias_base_no_star last_in_set length_text(4) list.size(3) zero_neq_numeral)

text \<open>An entry by feature id alone: its pattern matches the devices of its type and feature id.\<close>

lemma id_entry_pattern:
  assumes "did_feature_id i \<noteq> 0" and "did_guid i = guid_null"
  shows "\<exists>p. do_dfl_entry i = Some p \<and>
     (glob p (dfl_uevent_alias ddev) \<longleftrightarrow> did_type i = dd_type ddev \<and> did_feature_id i = dd_feature_id ddev)"
proof -
  have p: "do_dfl_entry i = Some (dfl_alias_base (did_type i) (did_feature_id i) @ ''*'')"
    using assms by (simp add: do_dfl_entry_def add_wildcard_def alias_base_last)
  obtain s where "dfl_uevent_alias ddev = dfl_alias_base (dd_type ddev) (dd_feature_id ddev) @ s"
    using uevent_alias by blast
  then have "glob (dfl_alias_base (did_type i) (did_feature_id i) @ ''*'') (dfl_uevent_alias ddev) \<longleftrightarrow>
      did_type i = dd_type ddev \<and> did_feature_id i = dd_feature_id ddev"
    by (auto simp: glob_literal [OF alias_base_no_star] glob_star alias_base_inj
        dest!: glob_literal_start [OF alias_base_no_star])
  with p show ?thesis by blast
qed

lemma id_entry_match:
  "did_guid i = guid_null \<Longrightarrow>
     dfl_match_one_device i (ddev :: dfl_device) \<longleftrightarrow> did_type i = dd_type ddev \<and> did_feature_id i = dd_feature_id ddev"
  by (auto simp: dfl_match_one_device_def dfl_guid_is_valid_def)

text \<open>An entry by guid alone: its pattern matches the devices with that guid.\<close>

lemma guid_entry_pattern:
  assumes "did_feature_id i = 0" and "did_guid i = dd_guid ddev" and "did_guid i \<noteq> guid_null"
  shows "\<exists>p. do_dfl_entry i = Some p \<and> glob p (dfl_uevent_alias ddev)"
proof -
  let ?g = "add_guid ''g{'' (did_guid i) @ ''}''"
  have g: "add_guid (s @ ''g{'') (did_guid i) @ ''}'' = s @ ?g" for s by (simp only: add_guid_append append_assoc)
  have "last (''dfl:t*f*'' @ ?g) \<noteq> CHR ''*''" by simp
  then have p: "do_dfl_entry i = Some (''dfl:t'' @ CHR ''*'' # ''f'' @ CHR ''*'' # ?g @ ''*'')"
    using assms(1,3) unfolding do_dfl_entry_def Let_def by (simp add: g [of "''dfl:t*f*''", simplified] add_wildcard_def)
  have e: "dfl_uevent_alias ddev = ''dfl:t'' @ X04 (dd_type ddev) @ ''f'' @ X04 (dd_feature_id ddev) @ ?g @ []"
    using assms(2,3) by (simp add: uevent_alias dfl_alias_base_def)
  have "CHR ''*'' \<notin> set ?g" by (simp add: guid_no_star)
  then have "glob (?g @ ''*'') (?g @ [])" by (rule glob_literal [THEN iffD2]) (rule glob_star)
  then have "glob (CHR ''*'' # ?g @ ''*'') (X04 (dd_feature_id ddev) @ ?g @ [])" by (rule glob_skip)
  then have "glob (''f'' @ CHR ''*'' # ?g @ ''*'') (''f'' @ X04 (dd_feature_id ddev) @ ?g @ [])"
    by (intro glob_literal [THEN iffD2]) simp_all
  then have "glob (CHR ''*'' # ''f'' @ CHR ''*'' # ?g @ ''*'') (X04 (dd_type ddev) @ ''f'' @ X04 (dd_feature_id ddev) @ ?g @ [])"
    by (rule glob_skip)
  then have "glob (''dfl:t'' @ CHR ''*'' # ''f'' @ CHR ''*'' # ?g @ ''*'') (dfl_uevent_alias ddev)"
    unfolding e by (intro glob_literal [THEN iffD2]) simp_all
  with p show ?thesis by blast
qed

lemma bus_match_iff:
  "\<forall>i \<in> set es. did_feature_id i \<noteq> 0 \<or> dfl_guid_is_valid (did_guid i) \<Longrightarrow>
     did_feature_id t = 0 \<Longrightarrow> did_guid t = guid_null \<Longrightarrow>
     dfl_bus_match (es @ [t]) ddev = find (\<lambda>i. dfl_match_one_device i ddev) es"
  by (induction es) (auto simp: dfl_guid_is_valid_def)

text \<open>
  C16. For a table of entries by feature id, ended by an empty entry, as all but one of the drivers have it,
  user space loads the module for exactly those devices that the bus then matches with the driver: the
  aliases made when the module is built and the alias that the kernel sends agree with the bus.
\<close>

theorem modules_loaded_exactly:
  assumes "\<forall>i \<in> set es. did_feature_id i \<noteq> 0 \<and> did_guid i = guid_null"
    and "did_feature_id t = 0" and "did_guid t = guid_null"
  shows "module_loaded (es @ [t]) (ddev :: dfl_device) \<longleftrightarrow> dfl_bus_match (es @ [t]) ddev \<noteq> None"
proof -
  have "module_loaded (es @ [t]) ddev \<longleftrightarrow> (\<exists>i \<in> set es. \<exists>p. do_dfl_entry i = Some p \<and> glob p (dfl_uevent_alias ddev))"
    by (force simp: module_loaded_def do_table_def map_filter_def)
  also have "\<dots> \<longleftrightarrow> (\<exists>i \<in> set es. did_type i = dd_type ddev \<and> did_feature_id i = dd_feature_id ddev)"
    using assms(1) id_entry_pattern by (metis option.inject)
  also have "\<dots> \<longleftrightarrow> (\<exists>i \<in> set es. dfl_match_one_device i ddev)"
    using assms(1) id_entry_match by metis
  also have "\<dots> \<longleftrightarrow> dfl_bus_match (es @ [t]) ddev \<noteq> None"
    using assms by (subst bus_match_iff) (auto simp: find_None_iff)
  finally show ?thesis .
qed

text \<open>The table of the UIO driver (\<^verbatim>\<open>drivers/uio/uio_dfl.c\<close>).\<close>

definition uio_dfl_ids :: "dfl_device_id list" where
  "uio_dfl_ids =
     [\<lparr>did_type = 0, did_feature_id = 0x10, did_guid = guid_null\<rparr>,
      \<lparr>did_type = 0, did_feature_id = 0x15, did_guid = guid_null\<rparr>,
      \<lparr>did_type = 0, did_feature_id = 0x20, did_guid = guid_null\<rparr>,
      \<lparr>did_type = 0, did_feature_id = 0x23, did_guid = guid_null\<rparr>,
      \<lparr>did_type = 1, did_feature_id = 0x14, did_guid = guid_null\<rparr>,
      \<lparr>did_type = 0, did_feature_id = 0, did_guid = guid_null\<rparr>]"

theorem modules_loaded_exactly_witness:
  "\<not> module_loaded uio_dfl_ids \<lparr>dd_type = 0, dd_feature_id = 0x14, dd_guid = guid_null\<rparr> \<and>
   module_loaded uio_dfl_ids \<lparr>dd_type = 1, dd_feature_id = 0x14, dd_guid = guid_null\<rparr>"
proof -
  let ?t = "\<lparr>did_type = 0, did_feature_id = 0, did_guid = guid_null\<rparr>"
  have e: "uio_dfl_ids = butlast uio_dfl_ids @ [?t]" and "\<forall>i \<in> set (butlast uio_dfl_ids). did_feature_id i \<noteq> 0 \<and> did_guid i = guid_null"
    by (simp_all add: uio_dfl_ids_def)
  from modules_loaded_exactly [OF this(2), of ?t, simplified, folded e]
  show ?thesis by (simp add: uio_dfl_ids_def dfl_match_one_device_def dfl_guid_is_valid_def)
qed

text \<open>
  The table of the UART driver (\<^verbatim>\<open>drivers/tty/serial/8250/8250_dfl.c\<close>) has an entry with a feature id and
  a guid. The bus takes either as a match, the pattern asks for both: a UART behind a port, which the bus
  would match by its guid, and one without guid, which it would match by its id, do not load the module.
\<close>

definition dfl_uart_ids :: "dfl_device_id list" where
  "dfl_uart_ids =
     [\<lparr>did_type = 0, did_feature_id = 0x24,
       did_guid = \<lparr>g_a = 0x9e6641a6, g_b = 0xca26, g_c = 0xcc04, g_d = [0xe1, 0xdf, 0x0d, 0x4a, 0xce, 0x8e, 0x48, 0x6c]\<rparr>\<rparr>,
      \<lparr>did_type = 0, did_feature_id = 0, did_guid = guid_null\<rparr>]"

lemma uart_not_loaded:
  assumes "ddev = \<lparr>dd_type = 1, dd_feature_id = 0x24, dd_guid = did_guid (hd dfl_uart_ids)\<rparr> \<or>
    ddev = \<lparr>dd_type = 0, dd_feature_id = 0x24, dd_guid = guid_null\<rparr>"
  shows "dfl_bus_match dfl_uart_ids ddev \<noteq> None \<and> \<not> module_loaded dfl_uart_ids ddev"
proof -
  have "dfl_bus_match dfl_uart_ids \<lparr>dd_type = 1, dd_feature_id = 0x24, dd_guid = did_guid (hd dfl_uart_ids)\<rparr> \<noteq> None"
    "dfl_bus_match dfl_uart_ids \<lparr>dd_type = 0, dd_feature_id = 0x24, dd_guid = guid_null\<rparr> \<noteq> None"
    "\<not> module_loaded dfl_uart_ids \<lparr>dd_type = 1, dd_feature_id = 0x24, dd_guid = did_guid (hd dfl_uart_ids)\<rparr>"
    "\<not> module_loaded dfl_uart_ids \<lparr>dd_type = 0, dd_feature_id = 0x24, dd_guid = guid_null\<rparr>"
    by code_simp+
  with assms show ?thesis by blast
qed

end
