(* ===== verification/Fme_Perf.thy ===== *)
theory Fme_Perf
  imports Mmio
begin

unbundle bit_operations_syntax

text \<open>
  Performance counters of the FPGA management engine (\<^verbatim>\<open>drivers/fpga/dfl-fme-perf.c\<close>): events of five
  kinds, which counters are shared by selecting one event at a time, and the mode of the fabric counters,
  which watch all ports or one. The performance core of the kernel calls the operations on events.

  The device is a function of the history of accesses, and the number of polls that fit in a time-out is an
  input. \<open>None\<close> as an outer result is a loop that does not end.
\<close>

section \<open>State\<close>

record fme_perf_priv =
  pf_hist :: history
  pf_ioaddr :: u64
  pf_id :: u16
  fab_users :: u32
  fab_port_id :: u32
  pf_cpu :: int

record perf_env =
  pfe_dev :: device
  pfe_polls :: nat

abbreviation (input) FME_FEATURE_ID_GLOBAL_IPERF :: u16 where "FME_FEATURE_ID_GLOBAL_IPERF \<equiv> 0x3"
abbreviation (input) FME_FEATURE_ID_GLOBAL_DPERF :: u16 where "FME_FEATURE_ID_GLOBAL_DPERF \<equiv> 0x7"

abbreviation (input) CACHE_CTRL :: u64 where "CACHE_CTRL \<equiv> 0x8"
abbreviation (input) CACHE_CNTR0 :: u64 where "CACHE_CNTR0 \<equiv> 0x10"
abbreviation (input) CACHE_CNTR1 :: u64 where "CACHE_CNTR1 \<equiv> 0x18"
abbreviation (input) FAB_CTRL :: u64 where "FAB_CTRL \<equiv> 0x20"
abbreviation (input) FAB_CNTR :: u64 where "FAB_CNTR \<equiv> 0x28"
abbreviation (input) CLK_CNTR :: u64 where "CLK_CNTR \<equiv> 0x30"
abbreviation (input) VTD_CTRL :: u64 where "VTD_CTRL \<equiv> 0x38"
abbreviation (input) VTD_CNTR :: u64 where "VTD_CNTR \<equiv> 0x40"
abbreviation (input) VTD_SIP_CTRL :: u64 where "VTD_SIP_CTRL \<equiv> 0x48"
abbreviation (input) VTD_SIP_CNTR :: u64 where "VTD_SIP_CNTR \<equiv> 0x50"

abbreviation (input) CACHE_EVNT_MAX :: u32 where "CACHE_EVNT_MAX \<equiv> 0xa"
abbreviation (input) FAB_EVNT_MAX :: u32 where "FAB_EVNT_MAX \<equiv> 0x7"
abbreviation (input) BASIC_EVNT_MAX :: u32 where "BASIC_EVNT_MAX \<equiv> 0x0"
abbreviation (input) VTD_EVNT_MAX :: u32 where "VTD_EVNT_MAX \<equiv> 0x6"
abbreviation (input) VTD_SIP_EVNT_MAX :: u32 where "VTD_SIP_EVNT_MAX \<equiv> 0xa"
abbreviation (input) FME_PORTID_ROOT :: u32 where "FME_PORTID_ROOT \<equiv> 0xff"

definition pf_readq :: "perf_env \<Rightarrow> u64 \<Rightarrow> fme_perf_priv \<Rightarrow> u64 \<times> fme_perf_priv" where
  "pf_readq env ofst s =
     (case readq (pfe_dev env) (pf_ioaddr s + ofst) (pf_hist s) of (v, h) \<Rightarrow> (v, s\<lparr>pf_hist := h\<rparr>))"

definition pf_writeq :: "u64 \<Rightarrow> u64 \<Rightarrow> fme_perf_priv \<Rightarrow> fme_perf_priv" where
  "pf_writeq v ofst s = s\<lparr>pf_hist := writeq v (pf_ioaddr s + ofst) (pf_hist s)\<rparr>"

text \<open>A 32-bit read has the low half of the register.\<close>

definition pf_readl :: "perf_env \<Rightarrow> u64 \<Rightarrow> fme_perf_priv \<Rightarrow> u32 \<times> fme_perf_priv" where
  "pf_readl env ofst s = (case pf_readq env ofst s of (v, s) \<Rightarrow> (ucast v, s))"

section \<open>Counters\<close>

definition is_portid_root :: "u32 \<Rightarrow> bool" where
  "is_portid_root portid \<longleftrightarrow> portid = FME_PORTID_ROOT"

definition is_portid_port :: "u32 \<Rightarrow> bool" where
  "is_portid_port portid \<longleftrightarrow> portid < 1"

definition is_portid_root_or_port :: "u32 \<Rightarrow> bool" where
  "is_portid_root_or_port portid \<longleftrightarrow> is_portid_root portid \<or> is_portid_port portid"

partial_function (option) fme_read_perf_cntr_reg ::
  "perf_env \<Rightarrow> u64 \<Rightarrow> fme_perf_priv \<Rightarrow> (u64 \<times> fme_perf_priv) option" where
  "fme_read_perf_cntr_reg env ofst s =
     (case pf_readq env ofst s of (v, s1) \<Rightarrow>
        (case pf_readl env ofst s1 of (low, s2) \<Rightarrow>
           if (ucast v :: u32) > low then fme_read_perf_cntr_reg env ofst s2 else Some (v, s2)))"

text \<open>
  Selecting an event, which all counters but the clock share: the control register is read, some bits are
  cleared and set, and the counter register is polled until it shows the event.
\<close>

definition select_event :: "perf_env \<Rightarrow> u64 \<Rightarrow> u64 \<Rightarrow> u64 \<Rightarrow> u64 \<Rightarrow> u32 \<Rightarrow> fme_perf_priv \<Rightarrow> bool \<times> fme_perf_priv" where
  "select_event env ctrl clear prep cntr event s =
     (case pf_readq env ctrl s of (v, s1) \<Rightarrow>
        let s2 = pf_writeq ((v AND NOT clear) OR prep) ctrl s1
        in (case readq_poll (pfe_dev env) (pf_ioaddr s2 + cntr) (\<lambda>v. field_get 63 60 v = ucast event) (pfe_polls env) (pf_hist s2) of
              (b, v, h) \<Rightarrow> (b, s2\<lparr>pf_hist := h\<rparr>)))"

definition basic_event_init :: "u32 \<Rightarrow> u32 \<Rightarrow> fme_perf_priv \<Rightarrow> fme_perf_priv ret" where
  "basic_event_init event portid s = (if event \<le> BASIC_EVNT_MAX \<and> is_portid_root portid then (None, s) else (Some EINVAL, s))"

definition basic_read_event_counter :: "perf_env \<Rightarrow> u32 \<Rightarrow> u32 \<Rightarrow> fme_perf_priv \<Rightarrow> (u64 \<times> fme_perf_priv) option" where
  "basic_read_event_counter env event portid s = fme_read_perf_cntr_reg env CLK_CNTR s"

definition cache_event_init :: "u32 \<Rightarrow> u32 \<Rightarrow> fme_perf_priv \<Rightarrow> fme_perf_priv ret" where
  "cache_event_init event portid s =
     (if pf_id s = FME_FEATURE_ID_GLOBAL_IPERF \<and> event \<le> CACHE_EVNT_MAX \<and> is_portid_root portid then (None, s)
      else (Some EINVAL, s))"

definition cache_read_event_counter :: "perf_env \<Rightarrow> u32 \<Rightarrow> u32 \<Rightarrow> fme_perf_priv \<Rightarrow> (u64 \<times> fme_perf_priv) option" where
  "cache_read_event_counter env event portid s =
     (let channel = (if event = 1 \<or> event = 3 \<or> event = 6 \<or> event = 7 then 1 else 0)
      in (case select_event env CACHE_CTRL (field_mask 20 20 OR field_mask 19 16)
                 (field_prep 20 20 channel OR field_prep 19 16 (ucast event)) CACHE_CNTR0 event s of
            (ok, s) \<Rightarrow>
              if \<not> ok then Some (0, s)
              else Option.bind (fme_read_perf_cntr_reg env CACHE_CNTR0 s) (\<lambda>(v0, s).
                   Option.bind (fme_read_perf_cntr_reg env CACHE_CNTR1 s) (\<lambda>(v1, s).
                   Some (field_get 47 0 v0 + field_get 47 0 v1, s)))))"

definition is_fabric_event_supported :: "u32 \<Rightarrow> u32 \<Rightarrow> fme_perf_priv \<Rightarrow> bool" where
  "is_fabric_event_supported event portid s \<longleftrightarrow>
     \<not> (event > FAB_EVNT_MAX \<or> \<not> is_portid_root_or_port portid) \<and>
     \<not> (pf_id s = FME_FEATURE_ID_GLOBAL_DPERF \<and> (event = 2 \<or> event = 4 \<or> event = 3 \<or> event = 5))"

definition fabric_event_init :: "perf_env \<Rightarrow> u32 \<Rightarrow> u32 \<Rightarrow> fme_perf_priv \<Rightarrow> fme_perf_priv ret" where
  "fabric_event_init env event portid s =
     (if \<not> is_fabric_event_supported event portid s then (Some EINVAL, s)
      else if fab_users s \<noteq> 0 \<and> fab_port_id s \<noteq> portid then (Some EOPNOTSUPP, s)
      else
        let s = s\<lparr>fab_users := fab_users s + 1\<rparr>
        in if fab_port_id s = portid then (None, s)
           else (case pf_readq env FAB_CTRL (s\<lparr>fab_port_id := portid\<rparr>) of (v, s) \<Rightarrow>
             let v = v AND NOT (field_mask 23 23 OR field_mask 21 20);
                 v = (if is_portid_root portid then v OR field_prep 23 23 0
                      else (v OR field_prep 23 23 1) OR field_prep 21 20 (ucast portid))
             in (None, pf_writeq v FAB_CTRL s)))"

definition fabric_event_destroy :: "u32 \<Rightarrow> u32 \<Rightarrow> fme_perf_priv \<Rightarrow> fme_perf_priv" where
  "fabric_event_destroy event portid s = s\<lparr>fab_users := fab_users s - 1\<rparr>"

definition fabric_read_event_counter :: "perf_env \<Rightarrow> u32 \<Rightarrow> u32 \<Rightarrow> fme_perf_priv \<Rightarrow> (u64 \<times> fme_perf_priv) option" where
  "fabric_read_event_counter env event portid s =
     (case select_event env FAB_CTRL (field_mask 19 16) (field_prep 19 16 (ucast event)) FAB_CNTR event s of
        (ok, s) \<Rightarrow>
          if \<not> ok then Some (0, s)
          else map_option (\<lambda>(v, s). (field_get 59 0 v, s)) (fme_read_perf_cntr_reg env FAB_CNTR s))"

definition vtd_event_init :: "u32 \<Rightarrow> u32 \<Rightarrow> fme_perf_priv \<Rightarrow> fme_perf_priv ret" where
  "vtd_event_init event portid s =
     (if pf_id s = FME_FEATURE_ID_GLOBAL_IPERF \<and> event \<le> VTD_EVNT_MAX \<and> is_portid_port portid then (None, s)
      else (Some EINVAL, s))"

definition vtd_read_event_counter :: "perf_env \<Rightarrow> u32 \<Rightarrow> u32 \<Rightarrow> fme_perf_priv \<Rightarrow> (u64 \<times> fme_perf_priv) option" where
  "vtd_read_event_counter env event portid s =
     (let event = event + portid * (VTD_EVNT_MAX + 1)
      in (case select_event env VTD_CTRL (field_mask 19 16) (field_prep 19 16 (ucast event)) VTD_CNTR event s of
            (ok, s) \<Rightarrow>
              if \<not> ok then Some (0, s)
              else map_option (\<lambda>(v, s). (field_get 47 0 v, s)) (fme_read_perf_cntr_reg env VTD_CNTR s)))"

definition vtd_sip_event_init :: "u32 \<Rightarrow> u32 \<Rightarrow> fme_perf_priv \<Rightarrow> fme_perf_priv ret" where
  "vtd_sip_event_init event portid s =
     (if pf_id s = FME_FEATURE_ID_GLOBAL_IPERF \<and> event \<le> VTD_SIP_EVNT_MAX \<and> is_portid_root portid then (None, s)
      else (Some EINVAL, s))"

definition vtd_sip_read_event_counter :: "perf_env \<Rightarrow> u32 \<Rightarrow> u32 \<Rightarrow> fme_perf_priv \<Rightarrow> (u64 \<times> fme_perf_priv) option" where
  "vtd_sip_read_event_counter env event portid s =
     (case select_event env VTD_SIP_CTRL (field_mask 19 16) (field_prep 19 16 (ucast event)) VTD_SIP_CNTR event s of
        (ok, s) \<Rightarrow>
          if \<not> ok then Some (0, s)
          else map_option (\<lambda>(v, s). (field_get 47 0 v, s)) (fme_read_perf_cntr_reg env VTD_SIP_CNTR s))"

section \<open>Events\<close>

record fme_perf_event_ops =
  event_init :: "u32 \<Rightarrow> u32 \<Rightarrow> fme_perf_priv \<Rightarrow> fme_perf_priv ret"
  event_destroy :: "(u32 \<Rightarrow> u32 \<Rightarrow> fme_perf_priv \<Rightarrow> fme_perf_priv) option"
  read_counter :: "u32 \<Rightarrow> u32 \<Rightarrow> fme_perf_priv \<Rightarrow> (u64 \<times> fme_perf_priv) option"

definition perf_event_ops :: "perf_env \<Rightarrow> fme_perf_event_ops list" where
  "perf_event_ops env =
     [\<lparr>event_init = basic_event_init, event_destroy = None, read_counter = basic_read_event_counter env\<rparr>,
      \<lparr>event_init = cache_event_init, event_destroy = None, read_counter = cache_read_event_counter env\<rparr>,
      \<lparr>event_init = fabric_event_init env, event_destroy = Some fabric_event_destroy,
       read_counter = fabric_read_event_counter env\<rparr>,
      \<lparr>event_init = vtd_event_init, event_destroy = None, read_counter = vtd_read_event_counter env\<rparr>,
      \<lparr>event_init = vtd_sip_event_init, event_destroy = None, read_counter = vtd_sip_read_event_counter env\<rparr>]"

definition get_event_ops :: "perf_env \<Rightarrow> u32 \<Rightarrow> fme_perf_event_ops option" where
  "get_event_ops env evtype = (if evtype > 4 then None else Some (perf_event_ops env ! unat evtype))"

definition get_event :: "u64 \<Rightarrow> u32" where "get_event config = ucast (field_get 11 0 config)"
definition get_evtype :: "u64 \<Rightarrow> u32" where "get_evtype config = ucast (field_get 15 12 config)"
definition get_portid :: "u64 \<Rightarrow> u32" where "get_portid config = ucast (field_get 23 16 config)"

text \<open>What the performance core asks for, and what the driver keeps in \<^verbatim>\<open>event->hw\<close>.\<close>

record perf_event =
  ev_type_matches :: bool      \<comment> \<open>\<^verbatim>\<open>attr.type\<close> is the type of this unit\<close>
  ev_sampling :: bool
  ev_task :: bool
  ev_cpu :: int
  ev_config :: u64
  hw_event_base :: u32
  hw_idx :: u32
  hw_config_base :: u32
  prev_count :: u64
  ev_count :: u64

definition fme_perf_event_init :: "perf_env \<Rightarrow> perf_event \<Rightarrow> fme_perf_priv \<Rightarrow> errno option \<times> perf_event \<times> fme_perf_priv" where
  "fme_perf_event_init env ev s =
     (if \<not> ev_type_matches ev then (Some ENOENT, ev, s)
      else if ev_sampling ev \<or> ev_task ev then (Some EINVAL, ev, s)
      else if ev_cpu ev < 0 then (Some EINVAL, ev, s)
      else if ev_cpu ev \<noteq> pf_cpu s then (Some EINVAL, ev, s)
      else
        let eventid = get_event (ev_config ev); portid = get_portid (ev_config ev); evtype = get_evtype (ev_config ev)
        in (case get_event_ops env evtype of
              None \<Rightarrow> (Some EINVAL, ev, s)
            | Some ops \<Rightarrow>
                (case event_init ops eventid portid s of
                   (r, s) \<Rightarrow> (r, ev\<lparr>hw_event_base := evtype, hw_idx := eventid, hw_config_base := portid\<rparr>, s))))"

text \<open>The operations below are called with events that have been initialised: \<open>None\<close> is NULL otherwise.\<close>

definition fme_perf_event_destroy :: "perf_env \<Rightarrow> perf_event \<Rightarrow> fme_perf_priv \<Rightarrow> fme_perf_priv option" where
  "fme_perf_event_destroy env ev s =
     map_option (\<lambda>ops. case event_destroy ops of None \<Rightarrow> s | Some destroy \<Rightarrow> destroy (hw_idx ev) (hw_config_base ev) s)
       (get_event_ops env (hw_event_base ev))"

definition fme_perf_event_update :: "perf_env \<Rightarrow> perf_event \<Rightarrow> fme_perf_priv \<Rightarrow> (perf_event \<times> fme_perf_priv) option" where
  "fme_perf_event_update env ev s =
     Option.bind (get_event_ops env (hw_event_base ev)) (\<lambda>ops.
     Option.bind (read_counter ops (hw_idx ev) (hw_config_base ev) s) (\<lambda>(now, s).
       let delta = now - prev_count ev
       in Some (ev\<lparr>ev_count := ev_count ev + delta\<rparr>, s)))"

definition fme_perf_event_start :: "perf_env \<Rightarrow> perf_event \<Rightarrow> fme_perf_priv \<Rightarrow> (perf_event \<times> fme_perf_priv) option" where
  "fme_perf_event_start env ev s =
     Option.bind (get_event_ops env (hw_event_base ev)) (\<lambda>ops.
     map_option (\<lambda>(count, s). (ev\<lparr>prev_count := count\<rparr>, s)) (read_counter ops (hw_idx ev) (hw_config_base ev) s))"

definition fme_perf_event_stop :: "perf_env \<Rightarrow> perf_event \<Rightarrow> fme_perf_priv \<Rightarrow> (perf_event \<times> fme_perf_priv) option" where
  "fme_perf_event_stop env ev s = fme_perf_event_update env ev s"

definition fme_perf_event_add :: "perf_env \<Rightarrow> bool \<Rightarrow> perf_event \<Rightarrow> fme_perf_priv \<Rightarrow> (perf_event \<times> fme_perf_priv) option" where
  "fme_perf_event_add env start ev s = (if start then fme_perf_event_start env ev s else Some (ev, s))"

definition fme_perf_event_del :: "perf_env \<Rightarrow> perf_event \<Rightarrow> fme_perf_priv \<Rightarrow> (perf_event \<times> fme_perf_priv) option" where
  "fme_perf_event_del env ev s = fme_perf_event_stop env ev s"

definition fme_perf_event_read :: "perf_env \<Rightarrow> perf_event \<Rightarrow> fme_perf_priv \<Rightarrow> (perf_event \<times> fme_perf_priv) option" where
  "fme_perf_event_read env ev s = fme_perf_event_update env ev s"

section \<open>Event attributes\<close>

definition FME_EVENT_CONFIG :: "u64 \<Rightarrow> u64 \<Rightarrow> u64" where
  "FME_EVENT_CONFIG event type =
     (event AND field_mask 11 0) OR (push_bit 12 type AND field_mask 15 12) OR push_bit 16 0xff"

definition FME_PORT_EVENT_CONFIG :: "u64 \<Rightarrow> u64 \<Rightarrow> u64" where
  "FME_PORT_EVENT_CONFIG event type = (event AND field_mask 11 0) OR (push_bit 12 type AND field_mask 15 12)"

definition fme_perf_basic_events :: "(string \<times> u64) list" where
  "fme_perf_basic_events = [(''clock'', FME_EVENT_CONFIG 0 0)]"

definition fme_perf_cache_events :: "(string \<times> u64) list" where
  "fme_perf_cache_events =
     map (apsnd (\<lambda>e. FME_EVENT_CONFIG e 1))
       [(''cache_read_hit'', 0), (''cache_read_miss'', 2), (''cache_write_hit'', 1), (''cache_write_miss'', 3),
        (''cache_hold_request'', 5), (''cache_tx_req_stall'', 8), (''cache_rx_req_stall'', 9), (''cache_eviction'', 10),
        (''cache_data_write_port_contention'', 6), (''cache_tag_write_port_contention'', 7)]"

definition fme_perf_fabric_events :: "(string \<times> u64) list" where
  "fme_perf_fabric_events =
     (let fab = [(''pcie0_read'', 0), (''pcie0_write'', 1), (''pcie1_read'', 2), (''pcie1_write'', 3), (''upi_read'', 4),
                 (''upi_write'', 5), (''mmio_read'', 6), (''mmio_write'', 7)]
      in map (\<lambda>(n, e). (''fab_'' @ n, FME_EVENT_CONFIG e 2)) fab @
         map (\<lambda>(n, e). (''fab_port_'' @ n, FME_PORT_EVENT_CONFIG e 2)) fab)"

definition fme_perf_vtd_events :: "(string \<times> u64) list" where
  "fme_perf_vtd_events =
     map (\<lambda>(n, e). (''vtd_port_'' @ n, FME_PORT_EVENT_CONFIG e 3))
       [(''read_transaction'', 0), (''write_transaction'', 1), (''devtlb_read_hit'', 2), (''devtlb_write_hit'', 3),
        (''devtlb_4k_fill'', 4), (''devtlb_2m_fill'', 5), (''devtlb_1g_fill'', 6)]"

definition fme_perf_vtd_sip_events :: "(string \<times> u64) list" where
  "fme_perf_vtd_sip_events =
     map (\<lambda>(n, e). (''vtd_sip_'' @ n, FME_EVENT_CONFIG e 4))
       [(''iotlb_4k_hit'', 0), (''iotlb_2m_hit'', 1), (''iotlb_1g_hit'', 2), (''slpwc_l3_hit'', 3), (''slpwc_l4_hit'', 4),
        (''rcc_hit'', 5), (''iotlb_4k_miss'', 6), (''iotlb_2m_miss'', 7), (''iotlb_1g_miss'', 8), (''slpwc_l3_miss'', 9),
        (''slpwc_l4_miss'', 10), (''rcc_miss'', 11)]"

definition fme_perf_events_visible :: "fme_perf_priv \<Rightarrow> bool" where
  "fme_perf_events_visible s \<longleftrightarrow> pf_id s = FME_FEATURE_ID_GLOBAL_IPERF"

definition fme_perf_fabric_events_visible :: "fme_perf_priv \<Rightarrow> string \<times> u64 \<Rightarrow> bool" where
  "fme_perf_fabric_events_visible s eattr = is_fabric_event_supported (get_event (snd eattr)) (get_portid (snd eattr)) s"

text \<open>The groups with what each shows.\<close>

definition fme_perf_events_groups :: "fme_perf_priv \<Rightarrow> (string \<times> u64) list" where
  "fme_perf_events_groups s =
     (let vis = (\<lambda>es. if fme_perf_events_visible s then es else [])
      in fme_perf_basic_events @ vis fme_perf_cache_events @
         filter (fme_perf_fabric_events_visible s) fme_perf_fabric_events @
         vis fme_perf_vtd_events @ vis fme_perf_vtd_sip_events)"

definition hex02 :: "u64 \<Rightarrow> string" where
  "hex02 v = (let t = hexstr v in replicate (2 - length t) (CHR ''0'') @ t)"

definition fme_perf_event_show :: "u64 \<Rightarrow> string" where
  "fme_perf_event_show config =
     ''event=0x'' @ hex02 (ucast (get_event config)) @ '',evtype=0x'' @ hex02 (ucast (get_evtype config)) @
     (if \<not> is_portid_root (get_portid config) then '',portid=?'' else '',portid=0x'' @ hex02 (ucast FME_PORTID_ROOT)) @ newline"

section \<open>Bringing the unit up\<close>

definition fme_perf_setup_hardware :: "perf_env \<Rightarrow> fme_perf_priv \<Rightarrow> fme_perf_priv" where
  "fme_perf_setup_hardware env s =
     (case pf_readq env FAB_CTRL s of (v, s) \<Rightarrow>
        if field_get 23 23 v = 0 then s\<lparr>fab_port_id := FME_PORTID_ROOT\<rparr>
        else s\<lparr>fab_port_id := ucast (field_get 21 20 v)\<rparr>)"

text \<open>What is registered with the kernel, and the outcomes.\<close>

record perf_sys =
  hp_states :: int             \<comment> \<open>states for CPU hotplug\<close>
  hp_instances :: int
  perf_pmus :: int
  perf_priv :: "fme_perf_priv option"   \<comment> \<open>\<^verbatim>\<open>feature->priv\<close>\<close>

record perf_init_env =
  pi_kzalloc :: bool
  pi_hp_state :: "errno option"
  pi_hp_instance :: "errno option"
  pi_pmu :: "errno option"
  pi_cpu :: int
  pi_perf :: perf_env

definition fme_perf_pmu_register :: "perf_init_env \<Rightarrow> fme_perf_priv \<Rightarrow> perf_sys \<Rightarrow> errno option \<times> fme_perf_priv \<times> perf_sys" where
  "fme_perf_pmu_register env priv s =
     (let priv = fme_perf_setup_hardware (pi_perf env) priv
      in (case pi_pmu env of
            Some e \<Rightarrow> (Some e, priv, s)
          | None \<Rightarrow> (None, priv, s\<lparr>perf_pmus := perf_pmus s + 1\<rparr>)))"

definition fme_perf_init :: "perf_init_env \<Rightarrow> u64 \<Rightarrow> u16 \<Rightarrow> history \<Rightarrow> perf_sys \<Rightarrow> perf_sys ret" where
  "fme_perf_init env ioaddr i h s =
     (if \<not> pi_kzalloc env then (Some ENOMEM, s)
      else
        let priv = \<lparr>pf_hist = h, pf_ioaddr = ioaddr, pf_id = i, fab_users = 0, fab_port_id = 0, pf_cpu = pi_cpu env\<rparr>
        in (case pi_hp_state env of
              Some e \<Rightarrow> (Some e, s)
            | None \<Rightarrow>
                let s1 = s\<lparr>hp_states := hp_states s + 1\<rparr>
                in (case pi_hp_instance env of
                      Some e \<Rightarrow> (Some e, s1\<lparr>hp_states := hp_states s1 - 1\<rparr>)
                    | None \<Rightarrow>
                        let s2 = s1\<lparr>hp_instances := hp_instances s1 + 1\<rparr>
                        in (case fme_perf_pmu_register env priv s2 of
                              (Some e, _, s3) \<Rightarrow>
                                (Some e, s3\<lparr>hp_instances := hp_instances s3 - 1, hp_states := hp_states s3 - 1\<rparr>)
                            | (None, priv, s3) \<Rightarrow> (None, s3\<lparr>perf_priv := Some priv\<rparr>)))))"

definition fme_perf_uinit :: "perf_sys \<Rightarrow> perf_sys" where
  "fme_perf_uinit s = s\<lparr>perf_pmus := perf_pmus s - 1, hp_instances := hp_instances s - 1, hp_states := hp_states s - 1\<rparr>"

text \<open>The unit moves to another CPU when its own goes down: \<open>any_but\<close> is the mask of CPUs that are online.\<close>

definition fme_perf_offline_cpu :: "(int \<Rightarrow> int option) \<Rightarrow> int \<Rightarrow> fme_perf_priv \<Rightarrow> fme_perf_priv" where
  "fme_perf_offline_cpu any_but cpu s =
     (if cpu \<noteq> pf_cpu s then s
      else (case any_but cpu of None \<Rightarrow> s | Some target \<Rightarrow> s\<lparr>pf_cpu := target\<rparr>))"

end
