(* ===== verification/Fme_Perf_Props.thy ===== *)
theory Fme_Perf_Props
  imports Fme_Perf
begin

unbundle bit_operations_syntax

text \<open>
  Performance counters: which of the events shown to users can be opened, the mode of the fabric counters
  while they are in use, and what is counted.
\<close>

section \<open>Events that are shown\<close>

text \<open>Whether an event can be opened, by one that asks for it properly while no fabric event is open.\<close>

definition opens :: "perf_env \<Rightarrow> fme_perf_priv \<Rightarrow> string \<times> u64 \<Rightarrow> bool" where
  "opens env s eattr \<longleftrightarrow>
     (let ev = \<lparr>ev_type_matches = True, ev_sampling = False, ev_task = False, ev_cpu = pf_cpu s, ev_config = snd eattr,
                hw_event_base = 0, hw_idx = 0, hw_config_base = 0, prev_count = 0, ev_count = 0\<rparr>
      in fst (fme_perf_event_init env ev (s\<lparr>fab_users := 0\<rparr>)) = None)"

lemmas event_tables = fme_perf_basic_events_def fme_perf_cache_events_def fme_perf_fabric_events_def
  fme_perf_vtd_events_def fme_perf_vtd_sip_events_def

lemma fabric_init_opens:
  "fst (fabric_event_init env event portid (s\<lparr>fab_users := 0\<rparr>)) = None \<longleftrightarrow> is_fabric_event_supported event portid s"
  by (simp add: fabric_event_init_def is_fabric_event_supported_def Let_def case_prod_beta)

lemma opens_iff:
  assumes "0 \<le> pf_cpu s" and "get_evtype c = t" and "get_event c = e" and "get_portid c = p" and "t \<le> 4"
  shows "opens env s (n, c) \<longleftrightarrow> fst (event_init (perf_event_ops env ! unat t) e p (s\<lparr>fab_users := 0\<rparr>)) = None"
proof -
  from assms(5) have "\<not> 4 < t" by simp
  with assms(1-4) show ?thesis
    by (simp add: opens_def fme_perf_event_init_def get_event_ops_def Let_def case_prod_beta)
qed

lemma opens_ops:
  "fst (event_init (perf_event_ops env ! 0) e p s) = None \<longleftrightarrow> e \<le> BASIC_EVNT_MAX \<and> is_portid_root p"
  "fst (event_init (perf_event_ops env ! Suc 0) e p s) = None \<longleftrightarrow> pf_id s = 3 \<and> e \<le> CACHE_EVNT_MAX \<and> is_portid_root p"
  "fst (event_init (perf_event_ops env ! 2) e p (s\<lparr>fab_users := 0\<rparr>)) = None \<longleftrightarrow> is_fabric_event_supported e p s"
  "fst (event_init (perf_event_ops env ! 3) e p s) = None \<longleftrightarrow> pf_id s = 3 \<and> e \<le> VTD_EVNT_MAX \<and> is_portid_port p"
  "fst (event_init (perf_event_ops env ! 4) e p s) = None \<longleftrightarrow> pf_id s = 3 \<and> e \<le> VTD_SIP_EVNT_MAX \<and> is_portid_root p"
  by (simp_all add: perf_event_ops_def fabric_init_opens basic_event_init_def cache_event_init_def vtd_event_init_def
      vtd_sip_event_init_def)

text \<open>Kind, event and port of each table.\<close>

definition decoded :: "string \<times> u64 \<Rightarrow> string \<times> u32 \<times> u32 \<times> u32" where
  "decoded e = (fst e, get_evtype (snd e), get_event (snd e), get_portid (snd e))"

lemma decoded_tables:
  "list_all (\<lambda>(n, t, e, p). t = 0 \<and> e = 0 \<and> p = 0xff \<and> n \<noteq> ''vtd_sip_rcc_miss'') (map decoded fme_perf_basic_events)"
  "list_all (\<lambda>(n, t, e, p). t = 1 \<and> e \<le> 10 \<and> p = 0xff \<and> n \<noteq> ''vtd_sip_rcc_miss'') (map decoded fme_perf_cache_events)"
  "list_all (\<lambda>(n, t, e, p). t = 2 \<and> n \<noteq> ''vtd_sip_rcc_miss'') (map decoded fme_perf_fabric_events)"
  "list_all (\<lambda>(n, t, e, p). t = 3 \<and> e \<le> 6 \<and> p = 0 \<and> n \<noteq> ''vtd_sip_rcc_miss'') (map decoded fme_perf_vtd_events)"
  "list_all (\<lambda>(n, t, e, p). t = 4 \<and> (e \<le> 10 \<longleftrightarrow> n \<noteq> ''vtd_sip_rcc_miss'') \<and> p = 0xff) (map decoded fme_perf_vtd_sip_events)"
  by code_simp+

lemma decoded_in:
  assumes "list_all (\<lambda>(n, t, e, p). P n t e p) (map decoded es)" and "(n, c) \<in> set es"
  shows "P n (get_evtype c) (get_event c) (get_portid c)"
  using assms by (auto simp: list_all_iff decoded_def)

text \<open>
  C33. Of the events that are shown to users, on either kind of counter block, all can be opened by somebody
  who asks for them as the driver wants it, but one: the misses of the VT-d root cache are shown and always
  refused, because the largest event the driver accepts is the one before.
\<close>

theorem shown_events_open:
  assumes "0 \<le> pf_cpu s" and "eattr \<in> set (fme_perf_events_groups s)"
  shows "opens env s eattr \<longleftrightarrow> fst eattr \<noteq> ''vtd_sip_rcc_miss''"
proof -
  obtain n c where e: "eattr = (n, c)" by (cases eattr)
  consider (basic) "(n, c) \<in> set fme_perf_basic_events" | (cache) "pf_id s = 3" "(n, c) \<in> set fme_perf_cache_events"
    | (fab) "fme_perf_fabric_events_visible s (n, c)" "(n, c) \<in> set fme_perf_fabric_events"
    | (vtd) "pf_id s = 3" "(n, c) \<in> set fme_perf_vtd_events" | (sip) "pf_id s = 3" "(n, c) \<in> set fme_perf_vtd_sip_events"
    using assms(2) e by (auto simp: fme_perf_events_groups_def fme_perf_events_visible_def Let_def split: if_splits)
  then show ?thesis
  proof cases
    case basic
    from decoded_in [OF decoded_tables(1) this] show ?thesis
      unfolding e by (auto simp: opens_iff [OF assms(1)] opens_ops is_portid_root_def)
  next
    case cache
    from decoded_in [OF decoded_tables(2) cache(2)] cache(1) show ?thesis
      unfolding e by (auto simp: opens_iff [OF assms(1)] opens_ops is_portid_root_def)
  next
    case fab
    from decoded_in [OF decoded_tables(3) fab(2)] fab(1) show ?thesis
      unfolding e by (auto simp: opens_iff [OF assms(1)] opens_ops fme_perf_fabric_events_visible_def)
  next
    case vtd
    from decoded_in [OF decoded_tables(4) vtd(2)] vtd(1) show ?thesis
      unfolding e by (auto simp: opens_iff [OF assms(1)] opens_ops is_portid_port_def)
  next
    case sip
    from decoded_in [OF decoded_tables(5) sip(2)] sip(1) show ?thesis
      unfolding e by (auto simp: opens_iff [OF assms(1)] opens_ops is_portid_root_def)
  qed
qed

definition perf0 :: "u16 \<Rightarrow> fme_perf_priv" where
  "perf0 i = \<lparr>pf_hist = [], pf_ioaddr = 0x1000, pf_id = i, fab_users = 0, fab_port_id = 0xff, pf_cpu = 0\<rparr>"

definition perf_env0 :: "device \<Rightarrow> perf_env" where
  "perf_env0 dev = \<lparr>pfe_dev = dev, pfe_polls = 1\<rparr>"

theorem shown_events_open_witness:
  "\<not> opens (perf_env0 (\<lambda>_ _. 0)) (perf0 3) (''vtd_sip_rcc_miss'', 0xff400b) \<and>
   opens (perf_env0 (\<lambda>_ _. 0)) (perf0 3) (''vtd_sip_rcc_hit'', 0xff4005)"
proof -
  have "(''vtd_sip_rcc_miss'', 0xff400b) \<in> set (fme_perf_events_groups (perf0 3)) \<and>
      (''vtd_sip_rcc_hit'', 0xff4005) \<in> set (fme_perf_events_groups (perf0 3))"
    by code_simp
  moreover have "0 \<le> pf_cpu (perf0 3)" by (simp add: perf0_def)
  ultimately show ?thesis using shown_events_open by fastforce
qed

section \<open>The mode of the fabric counters\<close>

text \<open>What the control register of the fabric counters says: all ports, or one.\<close>

definition reg_mode :: "u64 \<Rightarrow> u32" where
  "reg_mode v = (if field_get 23 23 v = 0 then FME_PORTID_ROOT else ucast (field_get 21 20 v))"

definition fab_mode :: "perf_env \<Rightarrow> fme_perf_priv \<Rightarrow> u32" where
  "fab_mode env s = reg_mode (pfe_dev env (pf_hist s) (pf_ioaddr s + FAB_CTRL))"

text \<open>A register that reads as it was last written.\<close>

definition keeps_register :: "device \<Rightarrow> u64 \<Rightarrow> bool" where
  "keeps_register dev a \<longleftrightarrow>
     (\<forall>h v. dev (h @ [WR a v]) a = v) \<and> (\<forall>h b v. b \<noteq> a \<longrightarrow> dev (h @ [WR b v]) a = dev h a) \<and>
     (\<forall>h b v. dev (h @ [RD b v]) a = dev h a)"

lemma keeps_reads: "keeps_register dev a \<Longrightarrow> dev (h @ map (RD b) vs) a = dev h a"
  by (induction vs arbitrary: h rule: rev_induct) (simp_all add: keeps_register_def flip: append_assoc)

text \<open>Steps that leave the mode and the users of the fabric counters alone.\<close>

definition fab_same :: "perf_env \<Rightarrow> fme_perf_priv \<Rightarrow> fme_perf_priv \<Rightarrow> bool" where
  "fab_same env s s' \<longleftrightarrow> pf_ioaddr s' = pf_ioaddr s \<and> pf_id s' = pf_id s \<and> fab_users s' = fab_users s \<and>
     fab_port_id s' = fab_port_id s \<and> fab_mode env s' = fab_mode env s"

lemma fab_same_refl: "fab_same env s s"
  by (simp add: fab_same_def)

lemma fab_same_trans: "fab_same env s t \<Longrightarrow> fab_same env t u \<Longrightarrow> fab_same env s u"
  by (simp add: fab_same_def)

abbreviation fab_kept :: "perf_env \<Rightarrow> fme_perf_priv \<Rightarrow> bool" where
  "fab_kept env s \<equiv> keeps_register (pfe_dev env) (pf_ioaddr s + FAB_CTRL)"

lemma fab_kept_same: "fab_same env s s' \<Longrightarrow> fab_kept env s' \<longleftrightarrow> fab_kept env s"
  by (simp add: fab_same_def)

lemma readq_same:
  assumes "fab_kept env s" and "pf_readq env ofst s = (v, s')"
  shows "fab_same env s s'"
  using assms by (auto simp: pf_readq_def readq_def Let_def fab_same_def fab_mode_def keeps_register_def)

lemma readl_same:
  assumes "fab_kept env s" and "pf_readl env ofst s = (v, s')"
  shows "fab_same env s s'"
  using assms readq_same [OF assms(1)] by (auto simp: pf_readl_def split: prod.splits)

lemma writeq_same:
  assumes "fab_kept env s" and "ofst \<noteq> FAB_CTRL"
  shows "fab_same env s (pf_writeq v ofst s)"
  using assms by (auto simp: pf_writeq_def writeq_def fab_same_def fab_mode_def keeps_register_def)

lemma mode_write:
  assumes "fab_kept env s"
  shows "fab_mode env (pf_writeq v FAB_CTRL s) = reg_mode v"
  using assms by (auto simp: pf_writeq_def writeq_def fab_mode_def keeps_register_def)

lemma writeq_frame: "pf_ioaddr (pf_writeq v o' s) = pf_ioaddr s" "pf_id (pf_writeq v o' s) = pf_id s"
  "fab_users (pf_writeq v o' s) = fab_users s" "fab_port_id (pf_writeq v o' s) = fab_port_id s"
  "pf_cpu (pf_writeq v o' s) = pf_cpu s"
  by (simp_all add: pf_writeq_def)

lemma event_bits_keep_mode:
  "reg_mode ((v AND NOT (field_mask 19 16)) OR field_prep 19 16 e) = reg_mode v"
proof -
  have "field_get hi lo ((v AND NOT (field_mask 19 16)) OR field_prep 19 16 e) = field_get hi lo v" if "19 < lo" "hi < 64" for hi lo
    unfolding field_get_def field_prep_def field_mask_def
    by (rule bit_eqI) (use that in \<open>auto simp: bit_simps dest: bit_imp_le_length\<close>)
  then show ?thesis by (simp add: reg_mode_def)
qed

lemma cntr_reg_same:
  assumes "fme_read_perf_cntr_reg env ofst s = Some r" and "fab_kept env s"
  shows "fab_same env s (snd r)"
proof -
  have "fab_kept env s \<longrightarrow> fab_same env s (snd r)"
  proof (rule fme_read_perf_cntr_reg.raw_induct [where P = "\<lambda>env ofst s r. fab_kept env s \<longrightarrow> fab_same env s (snd r)",
        OF _ assms(1)])
    fix f :: "perf_env \<Rightarrow> u64 \<Rightarrow> fme_perf_priv \<Rightarrow> (u64 \<times> fme_perf_priv) option" and env ofst s r
    assume IH: "\<And>env ofst s r. f env ofst s = Some r \<Longrightarrow> fab_kept env s \<longrightarrow> fab_same env s (snd r)"
      and eq: "(case pf_readq env ofst s of (v, s1) \<Rightarrow> case pf_readl env ofst s1 of (low, s2) \<Rightarrow>
        if low < (ucast v :: u32) then f env ofst s2 else Some (v, s2)) = Some r"
    obtain w s1 where r: "pf_readq env ofst s = (w, s1)" by force
    obtain low s2 where l: "pf_readl env ofst s1 = (low, s2)" by force
    show "fab_kept env s \<longrightarrow> fab_same env s (snd r)"
    proof
      assume k: "fab_kept env s"
      note s1 = readq_same [OF k r]
      have k1: "fab_kept env s1" using s1 k by (simp add: fab_kept_same)
      from s1 readl_same [OF k1 l] have s2: "fab_same env s s2" by (rule fab_same_trans)
      have "(if low < (ucast w :: u32) then f env ofst s2 else Some (w, s2)) = Some r"
        using eq unfolding r prod.case l .
      then consider "f env ofst s2 = Some r" | "r = (w, s2)" by (metis option.inject)
      then show "fab_same env s (snd r)"
      proof cases
        case 1
        have "fab_kept env s2" by (rule iffD2 [OF fab_kept_same [OF s2] k])
        with IH [OF 1] have "fab_same env s2 (snd r)" by blast
        with s2 show ?thesis by (rule fab_same_trans)
      qed (simp add: s2)
    qed
  qed
  with assms(2) show ?thesis by blast
qed

lemma poll_same:
  assumes "fab_kept env s" and "readq_poll (pfe_dev env) a c n (pf_hist s) = (b, v, h)"
  shows "fab_same env s (s\<lparr>pf_hist := h\<rparr>)"
  using readq_poll_reads [OF assms(2)] keeps_reads [OF assms(1)] by (auto simp: fab_same_def fab_mode_def)

lemma select_same:
  assumes "fab_kept env s" and "select_event env ctrl clear prep cntr event s = (ok, s')"
    and "ctrl = FAB_CTRL \<longrightarrow> clear = field_mask 19 16 \<and> (\<exists>e. prep = field_prep 19 16 e)"
  shows "fab_same env s s'"
proof -
  obtain v s1 where r: "pf_readq env ctrl s = (v, s1)" by force
  let ?s2 = "pf_writeq ((v AND NOT clear) OR prep) ctrl s1"
  obtain w h where p: "readq_poll (pfe_dev env) (pf_ioaddr ?s2 + cntr) (\<lambda>v. field_get 63 60 v = ucast event) (pfe_polls env)
      (pf_hist ?s2) = (ok, w, h)" and s': "s' = ?s2\<lparr>pf_hist := h\<rparr>"
    using assms(2) r by (auto simp: select_event_def Let_def split: prod.splits)
  note s1 = readq_same [OF assms(1) r]
  have k1: "fab_kept env s1" using s1 assms(1) by (simp add: fab_kept_same)
  have "fab_same env s1 ?s2"
  proof (cases "ctrl = FAB_CTRL")
    case True
    with r have v: "v = pfe_dev env (pf_hist s) (pf_ioaddr s + FAB_CTRL)" by (auto simp: pf_readq_def readq_def Let_def)
    have "fab_mode env s1 = reg_mode v"
      using s1 unfolding v fab_same_def fab_mode_def [of env s] by blast
    moreover from True assms(3) have "fab_mode env ?s2 = reg_mode v"
      by (auto simp: mode_write [OF k1] event_bits_keep_mode)
    ultimately show ?thesis unfolding fab_same_def by (simp add: writeq_frame)
  next
    case False
    then show ?thesis by (rule writeq_same [OF k1])
  qed
  with s1 have s2: "fab_same env s ?s2" by (rule fab_same_trans)
  then have "fab_kept env ?s2" using assms(1) by (simp add: fab_kept_same)
  from poll_same [OF this p] have "fab_same env ?s2 s'" unfolding s' .
  with s2 show ?thesis by (rule fab_same_trans)
qed

text \<open>Reading a counter of any kind leaves the mode alone.\<close>

lemma counter_after_select:
  assumes k: "fab_kept env s"
    and sel: "select_event env ctrl clear prep cntr event s = (ok, s1)"
    and c: "ctrl = FAB_CTRL \<longrightarrow> clear = field_mask 19 16 \<and> (\<exists>e. prep = field_prep 19 16 e)"
  shows "fab_same env s s1 \<and> (\<forall>o' r. fme_read_perf_cntr_reg env o' s1 = Some r \<longrightarrow> fab_same env s (snd r))"
proof -
  from select_same [OF k sel c] have s1: "fab_same env s s1" .
  have k1: "fab_kept env s1" by (rule iffD2 [OF fab_kept_same [OF s1] k])
  with s1 show ?thesis by (blast intro: fab_same_trans cntr_reg_same)
qed

lemma cache_read_same:
  assumes k: "fab_kept env s" and r: "cache_read_event_counter env e p s = Some (v, s')"
  shows "fab_same env s s'"
proof -
  obtain ch where r': "(case select_event env CACHE_CTRL (field_mask 20 20 OR field_mask 19 16)
      (field_prep 20 20 ch OR field_prep 19 16 (ucast e)) CACHE_CNTR0 e s of (ok, s) \<Rightarrow>
      if \<not> ok then Some (0, s) else Option.bind (fme_read_perf_cntr_reg env CACHE_CNTR0 s) (\<lambda>(v0, s).
        Option.bind (fme_read_perf_cntr_reg env CACHE_CNTR1 s) (\<lambda>(v1, s). Some (field_get 47 0 v0 + field_get 47 0 v1, s))))
      = Some (v, s')"
    using r unfolding cache_read_event_counter_def Let_def by blast
  obtain ok s1 where sel: "select_event env CACHE_CTRL (field_mask 20 20 OR field_mask 19 16)
      (field_prep 20 20 ch OR field_prep 19 16 (ucast e)) CACHE_CNTR0 e s = (ok, s1)" by force
  from counter_after_select [OF k sel] have s1: "fab_same env s s1"
    and n: "\<And>o' r. fme_read_perf_cntr_reg env o' s1 = Some r \<Longrightarrow> fab_same env s (snd r)" by auto
  show ?thesis
  proof (cases ok)
    case True
    then obtain v0 s2 v1 where 0: "fme_read_perf_cntr_reg env CACHE_CNTR0 s1 = Some (v0, s2)"
      and 1: "fme_read_perf_cntr_reg env CACHE_CNTR1 s2 = Some (v1, s')"
      using r' unfolding sel by (auto simp: Option.bind_eq_Some_conv)
    from n [OF 0] have s2: "fab_same env s s2" by simp
    from cntr_reg_same [OF 1 iffD2 [OF fab_kept_same [OF s2] k]] have "fab_same env s2 s'" by simp
    with s2 show ?thesis by (rule fab_same_trans)
  next
    case False
    with r' s1 show ?thesis unfolding sel by simp
  qed
qed

lemma shared_read_same:
  assumes k: "fab_kept env s" and sel: "select_event env ctrl clear prep cntr event s = (ok, s1)"
    and c: "ctrl = FAB_CTRL \<longrightarrow> clear = field_mask 19 16 \<and> (\<exists>e. prep = field_prep 19 16 e)"
    and r: "(if \<not> ok then Some (0, s1) else map_option (\<lambda>(v, s). (f v, s)) (fme_read_perf_cntr_reg env cntr s1)) = Some (v, s')"
  shows "fab_same env s s'"
  using counter_after_select [OF k sel c] r by (auto split: if_splits)

lemma fabric_read_same:
  assumes "fab_kept env s" and "fabric_read_event_counter env e p s = Some (v, s')"
  shows "fab_same env s s'"
proof -
  obtain ok s1 where sel: "select_event env FAB_CTRL (field_mask 19 16) (field_prep 19 16 (ucast e)) FAB_CNTR e s = (ok, s1)"
    by force
  show ?thesis
    by (rule shared_read_same [OF assms(1) sel, where f = "field_get 59 0" and v = v])
      (use assms(2) in \<open>auto simp: fabric_read_event_counter_def sel\<close>)
qed

lemma vtd_read_same:
  assumes "fab_kept env s" and "vtd_read_event_counter env e p s = Some (v, s')"
  shows "fab_same env s s'"
proof -
  obtain ok s1 where sel: "select_event env VTD_CTRL (field_mask 19 16) (field_prep 19 16 (ucast (e + p * 7))) VTD_CNTR
      (e + p * 7) s = (ok, s1)"
    by force
  show ?thesis
    by (rule shared_read_same [OF assms(1) sel, where f = "field_get 47 0" and v = v])
      (use assms(2) in \<open>auto simp: vtd_read_event_counter_def sel\<close>)
qed

lemma vtd_sip_read_same:
  assumes "fab_kept env s" and "vtd_sip_read_event_counter env e p s = Some (v, s')"
  shows "fab_same env s s'"
proof -
  obtain ok s1 where sel: "select_event env VTD_SIP_CTRL (field_mask 19 16) (field_prep 19 16 (ucast e)) VTD_SIP_CNTR e s = (ok, s1)"
    by force
  show ?thesis
    by (rule shared_read_same [OF assms(1) sel, where f = "field_get 47 0" and v = v])
      (use assms(2) in \<open>auto simp: vtd_sip_read_event_counter_def sel\<close>)
qed

lemma basic_read_same:
  assumes "fab_kept env s" and "basic_read_event_counter env e p s = Some (v, s')"
  shows "fab_same env s s'"
  using cntr_reg_same [of env CLK_CNTR s "(v, s')"] assms by (simp add: basic_read_event_counter_def)

lemma read_counter_same:
  assumes "fab_kept env s" and "get_event_ops env t = Some ops" and "read_counter ops e p s = Some (v, s')"
  shows "fab_same env s s'"
proof -
  have "ops \<in> set (perf_event_ops env)"
  proof -
    from assms(2) have "ops = perf_event_ops env ! unat t" and "\<not> 4 < t" by (auto simp: get_event_ops_def split: if_splits)
    moreover from this(2) have "unat t < length (perf_event_ops env)" by (simp add: word_less_nat_alt perf_event_ops_def)
    ultimately show ?thesis by simp
  qed
  with assms(1,3) show ?thesis
    by (auto simp: perf_event_ops_def dest: basic_read_same cache_read_same fabric_read_same vtd_read_same vtd_sip_read_same)
qed

text \<open>
  What can happen to the unit while it is in use: events are opened and closed, started, counted and moved
  to another CPU. Fewer events are open than the 32 bits of \<^verbatim>\<open>fab_users\<close> can count.
\<close>

inductive perf_step :: "perf_env \<Rightarrow> fme_perf_priv \<times> perf_event list \<Rightarrow> fme_perf_priv \<times> perf_event list \<Rightarrow> bool" for env where
  opened: "fme_perf_event_init env ev s = (None, ev', s') \<Longrightarrow> length evs + 1 < 2 ^ 32 \<Longrightarrow>
    perf_step env (s, evs) (s', ev' # evs)"
| refused: "fme_perf_event_init env ev s = (Some e, ev', s') \<Longrightarrow> perf_step env (s, evs) (s', evs)"
| closed: "fme_perf_event_destroy env ev s = Some s' \<Longrightarrow> perf_step env (s, es @ ev # es') (s', es @ es')"
| started: "fme_perf_event_start env ev s = Some (ev', s') \<Longrightarrow> perf_step env (s, es @ ev # es') (s', es @ ev' # es')"
| counted: "fme_perf_event_update env ev s = Some (ev', s') \<Longrightarrow> perf_step env (s, es @ ev # es') (s', es @ ev' # es')"
| offline: "perf_step env (s, evs) (fme_perf_offline_cpu any_but cpu s, evs)"

inductive_cases perf_stepE: "perf_step env st st'"

definition is_fab :: "perf_event \<Rightarrow> bool" where
  "is_fab ev \<longleftrightarrow> hw_event_base ev = 2"

definition fab_inv :: "perf_env \<Rightarrow> fme_perf_priv \<times> perf_event list \<Rightarrow> bool" where
  "fab_inv env st \<longleftrightarrow> (case st of (s, evs) \<Rightarrow>
     fab_kept env s \<and> length evs < 2 ^ 32 \<and> fab_users s = of_nat (length (filter is_fab evs)) \<and>
     (\<forall>ev \<in> set evs. is_fab ev \<longrightarrow> hw_config_base ev = fab_port_id s) \<and> fab_mode env s = fab_port_id s)"

lemma fab_inv_same:
  assumes "fab_inv env (s, es @ ev # es')" and "fab_same env s s'"
    and "hw_event_base ev' = hw_event_base ev" and "hw_config_base ev' = hw_config_base ev"
  shows "fab_inv env (s', es @ ev' # es')"
  using assms by (auto simp: fab_inv_def fab_same_def is_fab_def)

lemma start_same:
  assumes "fab_kept env s" and "fme_perf_event_start env ev s = Some (ev', s')"
  shows "fab_same env s s' \<and> hw_event_base ev' = hw_event_base ev \<and> hw_config_base ev' = hw_config_base ev"
  using assms by (auto simp: fme_perf_event_start_def Option.bind_eq_Some_conv dest: read_counter_same)

lemma update_same:
  assumes "fab_kept env s" and "fme_perf_event_update env ev s = Some (ev', s')"
  shows "fab_same env s s' \<and> hw_event_base ev' = hw_event_base ev \<and> hw_config_base ev' = hw_config_base ev"
  using assms by (auto simp: fme_perf_event_update_def Option.bind_eq_Some_conv Let_def dest: read_counter_same)

text \<open>Opening an event of another kind does nothing to the unit; a fabric event joins those of its port.\<close>

lemma init_cases:
  assumes "fme_perf_event_init env ev s = (r, ev', s')"
  shows "s' = s \<and> (r = None \<longrightarrow> hw_event_base ev' \<noteq> 2) \<or>
    hw_event_base ev' = 2 \<and> fabric_event_init env (get_event (ev_config ev)) (hw_config_base ev') s = (r, s')"
proof (cases "get_event_ops env (get_evtype (ev_config ev))")
  case None
  with assms show ?thesis by (auto simp: fme_perf_event_init_def Let_def split: if_splits)
next
  case (Some ops)
  obtain t where t: "t = get_evtype (ev_config ev)" by simp
  from Some t have ops: "ops = perf_event_ops env ! unat t" and "\<not> 4 < t"
    by (auto simp: get_event_ops_def split: if_splits)
  then have "unat t < 5" by (simp add: word_less_nat_alt)
  then have "unat t = 0 \<or> unat t = 1 \<or> unat t = 2 \<or> unat t = 3 \<or> unat t = 4" by linarith
  then have "t = 0 \<or> t = 1 \<or> t = 2 \<or> t = 3 \<or> t = 4" by (simp add: word_unat_eq_iff)
  then consider "t = 0" | "t = 1" | "t = 2" | "t = 3" | "t = 4" by blast
  then show ?thesis
    using assms Some ops unfolding fme_perf_event_init_def Let_def t [symmetric]
    by cases (auto simp: perf_event_ops_def basic_event_init_def cache_event_init_def vtd_event_init_def
        vtd_sip_event_init_def split: if_splits prod.splits)
qed

lemma filter_none: "of_nat (length (filter P xs)) = (0 :: u32) \<Longrightarrow> length xs < 2 ^ 32 \<Longrightarrow> filter P xs = []"
proof -
  assume z: "of_nat (length (filter P xs)) = (0 :: u32)" and l: "length xs < 2 ^ 32"
  have "length (filter P xs) < 2 ^ 32" using l length_filter_le [of P xs] by linarith
  with of_nat_inverse [OF z] have "length (filter P xs) = 0" by simp
  then show ?thesis by simp
qed

lemma bit_23: "bit (field_prep 23 23 1) 23"
  unfolding field_prep_def field_mask_def by (simp add: bit_simps)

lemma field_get_bit:
  assumes "bit v n" and "n < 64"
  shows "field_get n n v \<noteq> 0"
proof
  assume "field_get n n v = 0"
  then have "\<not> bit (take_bit 1 (drop_bit n v)) 0" unfolding field_get_def by (simp only: add_diff_cancel_left') simp
  with assms show False by (simp only: bit_take_bit_iff bit_drop_bit_eq) simp
qed

text \<open>The mode that is written for the ports the driver allows.\<close>

lemma mode_written:
  assumes "is_portid_root_or_port p"
  shows "reg_mode (let v = v AND NOT (field_mask 23 23 OR field_mask 21 20) in
    if is_portid_root p then v OR field_prep 23 23 0 else (v OR field_prep 23 23 1) OR field_prep 21 20 (ucast p)) = p"
proof -
  have z: "p = 0" if "\<not> is_portid_root p" using assms that by (simp add: is_portid_root_or_port_def is_portid_port_def)
  show ?thesis
  proof (cases "is_portid_root p")
    case True
    have "field_get 23 23 ((v AND NOT (field_mask 23 23 OR field_mask 21 20)) OR field_prep 23 23 0) = 0"
      unfolding field_get_def field_prep_def field_mask_def by (rule bit_eqI) (auto simp: bit_simps)
    with True show ?thesis by (simp add: reg_mode_def is_portid_root_def)
  next
    case False
    have "bit (((v AND NOT (field_mask 23 23 OR field_mask 21 20)) OR field_prep 23 23 1) OR field_prep 21 20 0) 23"
      by (simp add: bit_or_iff bit_23)
    then have n: "field_get 23 23 (((v AND NOT (field_mask 23 23 OR field_mask 21 20)) OR field_prep 23 23 1) OR field_prep 21 20 0) \<noteq> 0"
      by (rule field_get_bit) simp
    have "field_get 21 20 (((v AND NOT (field_mask 23 23 OR field_mask 21 20)) OR field_prep 23 23 1) OR field_prep 21 20 0) = 0"
      unfolding field_get_def field_prep_def field_mask_def by (rule bit_eqI) (auto simp: bit_simps)
    with n z [OF False] False show ?thesis by (simp add: reg_mode_def)
  qed
qed

lemma fabric_init_inv:
  assumes inv: "fab_inv env (s, evs)" and i: "fabric_event_init env e p s = (None, s')"
    and ev: "is_fab ev" "hw_config_base ev = p" and l: "length evs + 1 < 2 ^ 32"
  shows "fab_inv env (s', ev # evs)"
proof -
  from inv have k: "fab_kept env s" and u: "fab_users s = of_nat (length (filter is_fab evs))"
    and same: "\<forall>ev \<in> set evs. is_fab ev \<longrightarrow> hw_config_base ev = fab_port_id s" and m: "fab_mode env s = fab_port_id s"
    by (auto simp: fab_inv_def)
  from i have sup: "is_fabric_event_supported e p s" and share: "fab_users s = 0 \<or> fab_port_id s = p"
    by (auto simp: fabric_event_init_def split: if_splits)
  show ?thesis
  proof (cases "fab_port_id s = p")
    case True
    with i sup have "s' = s\<lparr>fab_users := fab_users s + 1\<rparr>" by (simp add: fabric_event_init_def)
    with True ev l k u same m show ?thesis by (auto simp: fab_inv_def fab_mode_def)
  next
    case False
    with share u l have none: "filter is_fab evs = []" by (intro filter_none) auto
    from share False have u0: "fab_users s = 0" by simp
    obtain s1 where s1: "s1 = s\<lparr>fab_users := 1, fab_port_id := p\<rparr>" by simp
    obtain v s2 where r: "pf_readq env FAB_CTRL s1 = (v, s2)" by force
    have k1: "fab_kept env s1" using k s1 by simp
    from readq_same [OF k1 r] have same2: "fab_same env s1 s2" .
    have k2: "fab_kept env s2" by (rule iffD2 [OF fab_kept_same [OF same2] k1])
    obtain w where w: "w = (let v = v AND NOT (field_mask 23 23 OR field_mask 21 20) in
      if is_portid_root p then v OR field_prep 23 23 0 else (v OR field_prep 23 23 1) OR field_prep 21 20 (ucast p))" by simp
    have s': "s' = pf_writeq w FAB_CTRL s2"
      using i sup u0 False r by (simp add: fabric_event_init_def Let_def w flip: s1 split del: if_split)
    from sup have "is_portid_root_or_port p" by (auto simp: is_fabric_event_supported_def)
    from mode_written [OF this, of v] have "reg_mode w = p" unfolding w .
    then have "fab_mode env s' = p" unfolding s' by (simp add: mode_write [OF k2])
    moreover have "fab_users s' = 1" "fab_port_id s' = p" "fab_kept env s'"
      using same2 s1 u none k2 unfolding s' by (simp_all add: writeq_frame fab_same_def)
    ultimately show ?thesis using none ev l by (auto simp: fab_inv_def filter_empty_conv)
  qed
qed

lemma init_frame:
  assumes "fabric_event_init env e p s = (Some x, s')"
  shows "s' = s"
  using assms by (auto simp: fabric_event_init_def Let_def split: if_splits prod.splits)

lemma destroy_inv:
  assumes inv: "fab_inv env (s, es @ ev # es')" and d: "fme_perf_event_destroy env ev s = Some s'"
  shows "fab_inv env (s', es @ es')"
proof (cases "is_fab ev")
  case True
  with d have "s' = s\<lparr>fab_users := fab_users s - 1\<rparr>"
    by (simp add: is_fab_def fme_perf_event_destroy_def get_event_ops_def perf_event_ops_def fabric_event_destroy_def)
  with True inv show ?thesis by (auto simp: fab_inv_def fab_mode_def)
next
  case False
  obtain t where t: "t = hw_event_base ev" by simp
  from d t have "\<not> 4 < t" by (auto simp: fme_perf_event_destroy_def get_event_ops_def split: if_splits)
  then have "unat t < 5" by (simp add: word_less_nat_alt)
  then have "unat t = 0 \<or> unat t = 1 \<or> unat t = 2 \<or> unat t = 3 \<or> unat t = 4" by linarith
  with False t have "t = 0 \<or> t = 1 \<or> t = 3 \<or> t = 4" by (auto simp: word_unat_eq_iff is_fab_def)
  then have "s' = s" using d t
    by (elim disjE) (simp_all add: fme_perf_event_destroy_def get_event_ops_def perf_event_ops_def)
  with False inv show ?thesis by (auto simp: fab_inv_def)
qed

lemma perf_step_inv:
  assumes "perf_step env st st'" and "fab_inv env st"
  shows "fab_inv env st'"
  using assms(1)
proof cases
  case (opened ev s ev' s' evs)
  from init_cases [OF opened(3)] show ?thesis
  proof
    assume "s' = s \<and> (None = None \<longrightarrow> hw_event_base ev' \<noteq> 2)"
    with opened assms(2) show ?thesis by (auto simp: fab_inv_def is_fab_def)
  next
    assume "hw_event_base ev' = 2 \<and> fabric_event_init env (get_event (ev_config ev)) (hw_config_base ev') s = (None, s')"
    with opened assms(2) show ?thesis by (auto intro!: fabric_init_inv simp: is_fab_def)
  qed
next
  case (refused ev s e ev' s' evs)
  from init_cases [OF refused(3)] have "s' = s" by (auto dest: init_frame)
  with refused assms(2) show ?thesis by simp
next
  case (closed ev s s' es es')
  with assms(2) show ?thesis by (auto intro: destroy_inv)
next
  case (started ev s ev' s' es es')
  with assms(2) have "fab_kept env s" by (simp add: fab_inv_def)
  from start_same [OF this started(3)] assms(2) started(1,2) show ?thesis by (auto intro: fab_inv_same)
next
  case (counted ev s ev' s' es es')
  with assms(2) have "fab_kept env s" by (simp add: fab_inv_def)
  from update_same [OF this counted(3)] assms(2) counted(1,2) show ?thesis by (auto intro: fab_inv_same)
next
  case (offline s evs any_but cpu)
  with assms(2) show ?thesis by (auto simp: fab_inv_def fab_mode_def fme_perf_offline_cpu_def split: option.splits)
qed

lemma perf_steps_inv:
  assumes "(perf_step env)\<^sup>*\<^sup>* st st'" and "fab_inv env st"
  shows "fab_inv env st'"
  using assms by (induction rule: rtranclp_induct) (auto intro: perf_step_inv)

lemma registered_inv:
  assumes "fme_perf_pmu_register ie priv sys = (r, s0, sys')" and "fab_users priv = 0"
    and k: "fab_kept (pi_perf ie) priv"
  shows "fab_inv (pi_perf ie) (s0, [])"
proof -
  obtain v s1 where r: "pf_readq (pi_perf ie) FAB_CTRL priv = (v, s1)" by force
  from r have v: "v = pfe_dev (pi_perf ie) (pf_hist priv) (pf_ioaddr priv + FAB_CTRL)"
    by (auto simp: pf_readq_def readq_def Let_def)
  from readq_same [OF k r] have s1: "fab_same (pi_perf ie) priv s1" .
  then have m: "fab_mode (pi_perf ie) s1 = reg_mode v" unfolding v fab_same_def fab_mode_def [of _ priv] by blast
  from s1 assms(2) have "fab_users s1 = 0" "fab_kept (pi_perf ie) s1" using k by (simp_all add: fab_same_def)
  moreover have "s0 = (s1\<lparr>fab_port_id := reg_mode v\<rparr>)"
    using assms(1) r by (auto simp: fme_perf_pmu_register_def fme_perf_setup_hardware_def reg_mode_def Let_def split: option.splits)
  ultimately show ?thesis using m by (simp add: fab_inv_def fab_mode_def)
qed

text \<open>
  C34. Whatever happens to the unit from its registration on, the driver counts the fabric events that are
  open, and all of them count in the mode that they asked for: the control register of the fabric counters
  says all ports, or the port, of each.
\<close>

theorem fabric_mode_shared:
  assumes "fme_perf_pmu_register ie priv sys = (r, s0, sys')" and "fab_users priv = 0"
    and "keeps_register (pfe_dev (pi_perf ie)) (pf_ioaddr priv + FAB_CTRL)"
    and "(perf_step (pi_perf ie))\<^sup>*\<^sup>* (s0, []) (s, evs)"
  shows "fab_users s = of_nat (length (filter is_fab evs)) \<and>
    (\<forall>ev \<in> set evs. hw_event_base ev = 2 \<longrightarrow> hw_config_base ev = fab_mode (pi_perf ie) s)"
  using perf_steps_inv [OF assms(4) registered_inv [OF assms(1-3)]] by (auto simp: fab_inv_def is_fab_def)

text \<open>A device whose registers keep what is written to them, and an event that watches port 0 on it.\<close>

definition ram :: device where
  "ram h a = foldl (\<lambda>v ac. case ac of WR b w \<Rightarrow> if b = a then w else v | RD b w \<Rightarrow> v) 0 h"

definition perf_ie0 :: perf_init_env where
  "perf_ie0 = \<lparr>pi_kzalloc = True, pi_hp_state = None, pi_hp_instance = None, pi_pmu = None, pi_cpu = 0, pi_perf = perf_env0 ram\<rparr>"

definition fab_event0 :: perf_event where
  "fab_event0 = \<lparr>ev_type_matches = True, ev_sampling = False, ev_task = False, ev_cpu = 0, ev_config = 0x002001,
     hw_event_base = 0, hw_idx = 0, hw_config_base = 0, prev_count = 0, ev_count = 0\<rparr>"

lemma ram_keeps: "keeps_register ram a"
  by (simp add: keeps_register_def ram_def)

theorem fabric_mode_shared_witness:
  "fab_mode (perf_env0 ram) (snd (snd (fme_perf_event_init (perf_env0 ram) fab_event0
     (fst (snd (fme_perf_pmu_register perf_ie0 (perf0 3) \<lparr>hp_states = 0, hp_instances = 0, perf_pmus = 0, perf_priv = None\<rparr>)))))) = 0"
proof -
  obtain sys :: perf_sys where sys: "sys = \<lparr>hp_states = 0, hp_instances = 0, perf_pmus = 0, perf_priv = None\<rparr>" by simp
  obtain r s0 sys' where reg: "fme_perf_pmu_register perf_ie0 (perf0 3) sys = (r, s0, sys')" by (metis prod_cases3)
  obtain r' ev' s where i: "fme_perf_event_init (perf_env0 ram) fab_event0 s0 = (r', ev', s)" by (metis prod_cases3)
  have "fst (fme_perf_event_init (perf_env0 ram) fab_event0 (fst (snd (fme_perf_pmu_register perf_ie0 (perf0 3)
      \<lparr>hp_states = 0, hp_instances = 0, perf_pmus = 0, perf_priv = None\<rparr>)))) = None"
    "hw_event_base (fst (snd (fme_perf_event_init (perf_env0 ram) fab_event0 (fst (snd (fme_perf_pmu_register perf_ie0 (perf0 3)
      \<lparr>hp_states = 0, hp_instances = 0, perf_pmus = 0, perf_priv = None\<rparr>)))))) = 2"
    "hw_config_base (fst (snd (fme_perf_event_init (perf_env0 ram) fab_event0 (fst (snd (fme_perf_pmu_register perf_ie0 (perf0 3)
      \<lparr>hp_states = 0, hp_instances = 0, perf_pmus = 0, perf_priv = None\<rparr>)))))) = 0"
    by code_simp+
  with reg i have ok: "r' = None" "hw_event_base ev' = 2" "hw_config_base ev' = 0" by (simp_all flip: sys)
  have "perf_step (perf_env0 ram) (s0, []) (s, [ev'])"
    by (rule perf_step.opened [OF i [unfolded ok(1)]]) simp
  then have run: "(perf_step (pi_perf perf_ie0))\<^sup>*\<^sup>* (s0, []) (s, [ev'])" by (simp add: perf_ie0_def)
  have "keeps_register (pfe_dev (pi_perf perf_ie0)) (pf_ioaddr (perf0 3) + FAB_CTRL)"
    by (simp add: perf_ie0_def perf_env0_def ram_keeps)
  from fabric_mode_shared [OF reg _ this run] ok have "fab_mode (perf_env0 ram) s = 0"
    by (simp add: perf0_def perf_ie0_def)
  with reg i show ?thesis by (simp flip: sys)
qed

section \<open>What is counted\<close>

text \<open>
  The count that users see runs ahead of the counter: what an event has counted since it was started is
  added again each time it is read, because the value it is compared with stays the one from its start.
\<close>

theorem reads_count_again:
  assumes "get_event_ops env (hw_event_base ev) = Some ops"
    and "fme_perf_event_start env ev s = Some (ev1, s1)"
    and "fme_perf_event_read env ev1 s1 = Some (ev2, s2)" and "fme_perf_event_read env ev2 s2 = Some (ev3, s3)"
  shows "\<exists>c0 c1 c2. read_counter ops (hw_idx ev) (hw_config_base ev) s = Some (c0, s1) \<and>
    read_counter ops (hw_idx ev) (hw_config_base ev) s1 = Some (c1, s2) \<and>
    read_counter ops (hw_idx ev) (hw_config_base ev) s2 = Some (c2, s3) \<and>
    ev_count ev2 = ev_count ev + (c1 - c0) \<and> ev_count ev3 = ev_count ev + (c2 - c0) + (c1 - c0)"
  using assms by (auto simp: fme_perf_event_start_def fme_perf_event_read_def fme_perf_event_update_def Option.bind_eq_Some_conv
      Let_def)

lemma init_all_or_nothing:
  "case fme_perf_init ie a i h s of
     (Some e, s') \<Rightarrow> s' = s
   | (None, s') \<Rightarrow> fme_perf_uinit s' = s\<lparr>perf_priv := perf_priv s'\<rparr> \<and> perf_priv s' \<noteq> None"
  by (auto simp: fme_perf_init_def fme_perf_uinit_def fme_perf_pmu_register_def Let_def split: option.splits)

end
