(* ===== verification/M10bmc_Sensors.thy ===== *)
theory M10bmc_Sensors
  imports M10bmc
begin

text \<open>
  Board monitoring (\<^verbatim>\<open>drivers/hwmon/intel-m10-bmc-hwmon.c\<close>): the sensors of each kind of board, in tables with
  the registers of each sensor beside tables that tell the hardware monitoring core which values of it to
  show, and reading a value, a limit or a limit with its hysteresis through the system registers of the
  board management controller.

  Replicated entries of the tables are written once. The outer \<open>None\<close> of a result is an access behind the end
  of a table.
\<close>

section \<open>Sensors\<close>

datatype hwmon_sensor_types = hwmon_temp | hwmon_in | hwmon_curr | hwmon_power | hwmon_other_type

text \<open>The attributes of a sensor, which are numbered for each type alike.\<close>

datatype hwmon_attr =
    hwmon_input | hwmon_max | hwmon_max_hyst | hwmon_crit | hwmon_crit_hyst | hwmon_min | hwmon_label | hwmon_other_attr

record m10bmc_sdata =
  reg_input :: u32
  reg_max :: u32
  reg_crit :: u32
  reg_hyst :: u32
  reg_min :: u32
  multiplier :: u32
  sd_label :: string

abbreviation (input) sdata :: "u32 \<Rightarrow> u32 \<Rightarrow> u32 \<Rightarrow> u32 \<Rightarrow> u32 \<Rightarrow> u32 \<Rightarrow> string \<Rightarrow> m10bmc_sdata" where
  "sdata i mx c h mn m l \<equiv>
     \<lparr>reg_input = i, reg_max = mx, reg_crit = c, reg_hyst = h, reg_min = mn, multiplier = m, sd_label = l\<rparr>"

record m10bmc_hwmon_board_data =
  tables :: "hwmon_sensor_types \<rightharpoonup> m10bmc_sdata list"
  hinfo :: "(hwmon_sensor_types \<times> hwmon_attr list list) list"    \<comment> \<open>what is shown of each channel\<close>

section \<open>Tables of the boards\<close>

definition n3000bmc_temp_tbl :: "m10bmc_sdata list" where
  "n3000bmc_temp_tbl =
     [sdata 0x100 0x104 0x108 0x10c 0 500 ''Board Temperature'',
      sdata 0x110 0x114 0x118 0 0 500 ''FPGA Die Temperature'',
      sdata 0x11c 0x124 0x120 0 0 500 ''QSFP0 Temperature'',
      sdata 0x12c 0x134 0x130 0 0 500 ''QSFP1 Temperature'',
      sdata 0x168 0 0 0 0 500 ''Retimer A Temperature'',
      sdata 0x16c 0 0 0 0 500 ''Retimer A SerDes Temperature'',
      sdata 0x170 0 0 0 0 500 ''Retimer B Temperature'',
      sdata 0x174 0 0 0 0 500 ''Retimer B SerDes Temperature'']"

definition n3000bmc_in_tbl :: "m10bmc_sdata list" where
  "n3000bmc_in_tbl =
     [sdata 0x128 0 0 0 0 1 ''QSFP0 Supply Voltage'',
      sdata 0x138 0 0 0 0 1 ''QSFP1 Supply Voltage'',
      sdata 0x13c 0 0 0 0 1 ''FPGA Core Voltage'',
      sdata 0x144 0 0 0 0 1 ''12V Backplane Voltage'',
      sdata 0x14c 0 0 0 0 1 ''1.2V Voltage'',
      sdata 0x150 0 0 0 0 1 ''12V AUX Voltage'',
      sdata 0x158 0 0 0 0 1 ''1.8V Voltage'',
      sdata 0x15c 0 0 0 0 1 ''3.3V Voltage'']"

definition n3000bmc_curr_tbl :: "m10bmc_sdata list" where
  "n3000bmc_curr_tbl =
     [sdata 0x140 0 0 0 0 1 ''FPGA Core Current'',
      sdata 0x148 0 0 0 0 1 ''12V Backplane Current'',
      sdata 0x154 0 0 0 0 1 ''12V AUX Current'']"

definition n3000bmc_power_tbl :: "m10bmc_sdata list" where
  "n3000bmc_power_tbl =
     [sdata 0x160 0 0 0 0 1000 ''Board Power'']"

definition n3000bmc_hinfo :: "(hwmon_sensor_types \<times> hwmon_attr list list) list" where
  "n3000bmc_hinfo =
     [(hwmon_temp, [[hwmon_input, hwmon_max, hwmon_max_hyst, hwmon_crit, hwmon_crit_hyst, hwmon_label]] @
        replicate 3 [hwmon_input, hwmon_max, hwmon_crit, hwmon_label] @
        replicate 4 [hwmon_input, hwmon_label]),
      (hwmon_in, replicate 8 [hwmon_input, hwmon_label]),
      (hwmon_curr, replicate 3 [hwmon_input, hwmon_label]),
      (hwmon_power, [[hwmon_input, hwmon_label]])]"

definition d5005bmc_temp_tbl :: "m10bmc_sdata list" where
  "d5005bmc_temp_tbl =
     [sdata 0x100 0x104 0x108 0x10c 0 500 ''Board Inlet Air Temperature'',
      sdata 0x110 0x114 0x118 0 0 500 ''FPGA Core Temperature'',
      sdata 0x11c 0x120 0x124 0x128 0 500 ''Board Exhaust Air Temperature'',
      sdata 0x12c 0x130 0x134 0 0 500 ''FPGA Transceiver Temperature'',
      sdata 0x138 0x13c 0x140 0x144 0 500 ''RDIMM0 Temperature'',
      sdata 0x148 0x14c 0x150 0x154 0 500 ''RDIMM1 Temperature'',
      sdata 0x158 0x15c 0x160 0x164 0 500 ''RDIMM2 Temperature'',
      sdata 0x168 0x16c 0x170 0x174 0 500 ''RDIMM3 Temperature'',
      sdata 0x178 0x17c 0x180 0 0 500 ''QSFP0 Temperature'',
      sdata 0x188 0x18c 0x190 0 0 500 ''QSFP1 Temperature'',
      sdata 0x1a0 0x1a4 0x1a8 0 0 500 ''3.3v Temperature'',
      sdata 0x1bc 0x1c0 0x1c4 0 0 500 ''VCCERAM Temperature'',
      sdata 0x1d8 0x1dc 0x1e0 0 0 500 ''VCCR Temperature'',
      sdata 0x1f4 0x1f8 0x1fc 0 0 500 ''VCCT Temperature'',
      sdata 0x210 0x214 0x218 0 0 500 ''1.8v Temperature'',
      sdata 0x22c 0x230 0x234 0 0 500 ''12v Backplane Temperature'',
      sdata 0x248 0x24c 0x250 0 0 500 ''12v AUX Temperature'']"

definition d5005bmc_in_tbl :: "m10bmc_sdata list" where
  "d5005bmc_in_tbl =
     [sdata 0x184 0 0 0 0 1 ''QSFP0 Supply Voltage'',
      sdata 0x194 0 0 0 0 1 ''QSFP1 Supply Voltage'',
      sdata 0x198 0 0 0 0 1 ''FPGA Core Voltage'',
      sdata 0x1ac 0x1b0 0x1b4 0 0 1 ''3.3v Voltage'',
      sdata 0x1c8 0x1cc 0x1d0 0 0 1 ''VCCERAM Voltage'',
      sdata 0x1e4 0x1e8 0x1ec 0 0 1 ''VCCR Voltage'',
      sdata 0x200 0x204 0x208 0 0 1 ''VCCT Voltage'',
      sdata 0x21c 0x220 0x224 0 0 1 ''1.8v Voltage'',
      sdata 0x238 0 0 0 0x23c 1 ''12v Backplane Voltage'',
      sdata 0x254 0 0 0 0x258 1 ''12v AUX Voltage'']"

definition d5005bmc_curr_tbl :: "m10bmc_sdata list" where
  "d5005bmc_curr_tbl =
     [sdata 0x19c 0 0 0 0 1 ''FPGA Core Current'',
      sdata 0x1b8 0 0 0 0 1 ''3.3v Current'',
      sdata 0x1d4 0 0 0 0 1 ''VCCERAM Current'',
      sdata 0x1f0 0 0 0 0 1 ''VCCR Current'',
      sdata 0x20c 0 0 0 0 1 ''VCCT Current'',
      sdata 0x228 0 0 0 0 1 ''1.8v Current'',
      sdata 0x240 0x244 0 0 0 1 ''12v Backplane Current'',
      sdata 0x25c 0x260 0 0 0 1 ''12v AUX Current'']"

definition n3000bmc_hwmon_bdata :: m10bmc_hwmon_board_data where
  "n3000bmc_hwmon_bdata = \<lparr>tables = [hwmon_temp \<mapsto> n3000bmc_temp_tbl, hwmon_in \<mapsto> n3000bmc_in_tbl, hwmon_curr \<mapsto> n3000bmc_curr_tbl, hwmon_power \<mapsto> n3000bmc_power_tbl],
     hinfo = n3000bmc_hinfo\<rparr>"

definition d5005bmc_hinfo :: "(hwmon_sensor_types \<times> hwmon_attr list list) list" where
  "d5005bmc_hinfo =
     [(hwmon_temp, [[hwmon_input, hwmon_max, hwmon_max_hyst, hwmon_crit, hwmon_crit_hyst, hwmon_label]] @
        [[hwmon_input, hwmon_max, hwmon_crit, hwmon_label]] @
        [[hwmon_input, hwmon_max, hwmon_max_hyst, hwmon_crit, hwmon_crit_hyst, hwmon_label]] @
        [[hwmon_input, hwmon_max, hwmon_crit, hwmon_label]] @
        replicate 4 [hwmon_input, hwmon_max, hwmon_max_hyst, hwmon_crit, hwmon_crit_hyst, hwmon_label] @
        replicate 9 [hwmon_input, hwmon_max, hwmon_crit, hwmon_label]),
      (hwmon_in, replicate 3 [hwmon_input, hwmon_label] @
        replicate 5 [hwmon_input, hwmon_max, hwmon_crit, hwmon_label] @
        replicate 2 [hwmon_input, hwmon_min, hwmon_label]),
      (hwmon_curr, replicate 6 [hwmon_input, hwmon_label] @
        replicate 2 [hwmon_input, hwmon_max, hwmon_label])]"

definition d5005bmc_hwmon_bdata :: m10bmc_hwmon_board_data where
  "d5005bmc_hwmon_bdata = \<lparr>tables = [hwmon_temp \<mapsto> d5005bmc_temp_tbl, hwmon_in \<mapsto> d5005bmc_in_tbl, hwmon_curr \<mapsto> d5005bmc_curr_tbl],
     hinfo = d5005bmc_hinfo\<rparr>"

definition n5010bmc_temp_tbl :: "m10bmc_sdata list" where
  "n5010bmc_temp_tbl =
     [sdata 0x100 0 0x104 0 0 1000 ''Board Local Temperature'',
      sdata 0x108 0 0x10c 0 0 1000 ''FPGA 1 Temperature'',
      sdata 0x110 0 0x114 0 0 1000 ''FPGA 2 Temperature'',
      sdata 0x118 0 0 0 0 1000 ''Card Top Temperature'',
      sdata 0x11c 0 0 0 0 1000 ''Card Bottom Temperature'',
      sdata 0x128 0 0 0 0 1000 ''FPGA 1.2V Temperature'',
      sdata 0x134 0 0 0 0 1000 ''FPGA 5V Temperature'',
      sdata 0x140 0 0 0 0 1000 ''FPGA 0.9V Temperature'',
      sdata 0x14c 0 0 0 0 1000 ''FPGA 0.85V Temperature'',
      sdata 0x158 0 0 0 0 1000 ''AUX 12V Temperature'',
      sdata 0x164 0 0 0 0 1000 ''Backplane 12V Temperature'',
      sdata 0x1a8 0 0 0 0 1000 ''QSFP28-1 Temperature'',
      sdata 0x1ac 0 0 0 0 1000 ''QSFP28-2 Temperature'',
      sdata 0x1b0 0 0 0 0 1000 ''QSFP28-3 Temperature'',
      sdata 0x1b4 0 0 0 0 1000 ''QSFP28-4 Temperature'',
      sdata 0x1b8 0 0 0 0 1000 ''CVL1 Internal Temperature'',
      sdata 0x1bc 0 0 0 0 1000 ''CVL2 Internal Temperature'']"

definition n5010bmc_in_tbl :: "m10bmc_sdata list" where
  "n5010bmc_in_tbl =
     [sdata 0x120 0 0 0 0 1 ''FPGA 1.2V Voltage'',
      sdata 0x12c 0 0 0 0 1 ''FPGA 5V Voltage'',
      sdata 0x138 0 0 0 0 1 ''FPGA 0.9V Voltage'',
      sdata 0x144 0 0 0 0 1 ''FPGA 0.85V Voltage'',
      sdata 0x150 0 0 0 0 1 ''AUX 12V Voltage'',
      sdata 0x15c 0 0 0 0 1 ''Backplane 12V Voltage'',
      sdata 0x16c 0 0 0 0 1 ''DDR4 1.2V Voltage'',
      sdata 0x17c 0 0 0 0 1 ''FPGA 1.8V Voltage'',
      sdata 0x184 0 0 0 0 1 ''QDR 1.3V Voltage'',
      sdata 0x18c 0 0 0 0 1 ''CVL1 0.8V Voltage'',
      sdata 0x194 0 0 0 0 1 ''CVL1 1.05V Voltage'',
      sdata 0x19c 0 0 0 0 1 ''CVL2 1.05V Voltage'',
      sdata 0x1a4 0 0 0 0 1 ''CVL2 0.8V Voltage'']"

definition n5010bmc_curr_tbl :: "m10bmc_sdata list" where
  "n5010bmc_curr_tbl =
     [sdata 0x124 0 0 0 0 1 ''FPGA 1.2V Current'',
      sdata 0x130 0 0 0 0 1 ''FPGA 5V Current'',
      sdata 0x13c 0 0 0 0 1 ''FPGA 0.9V Current'',
      sdata 0x148 0 0 0 0 1 ''FPGA 0.85V Current'',
      sdata 0x154 0 0 0 0 1 ''AUX 12V Current'',
      sdata 0x160 0 0 0 0 1 ''Backplane 12V Current'',
      sdata 0x168 0 0 0 0 1 ''DDR4 1.2V Current'',
      sdata 0x178 0 0 0 0 1 ''FPGA 1.8V Current'',
      sdata 0x180 0 0 0 0 1 ''QDR 1.3V Current'',
      sdata 0x188 0 0 0 0 1 ''CVL1 0.8V Current'',
      sdata 0x190 0 0 0 0 1 ''CVL1 1.05V Current'',
      sdata 0x198 0 0 0 0 1 ''CVL2 1.05V Current'',
      sdata 0x1a0 0 0 0 0 1 ''CVL2 0.8V Current'']"

definition n5010bmc_hinfo :: "(hwmon_sensor_types \<times> hwmon_attr list list) list" where
  "n5010bmc_hinfo =
     [(hwmon_temp, replicate 3 [hwmon_input, hwmon_crit, hwmon_label] @
        replicate 14 [hwmon_input, hwmon_label]),
      (hwmon_in, replicate 13 [hwmon_input, hwmon_label]),
      (hwmon_curr, replicate 13 [hwmon_input, hwmon_label])]"

definition n5010bmc_hwmon_bdata :: m10bmc_hwmon_board_data where
  "n5010bmc_hwmon_bdata = \<lparr>tables = [hwmon_temp \<mapsto> n5010bmc_temp_tbl, hwmon_in \<mapsto> n5010bmc_in_tbl, hwmon_curr \<mapsto> n5010bmc_curr_tbl],
     hinfo = n5010bmc_hinfo\<rparr>"

definition n5014bmc_temp_tbl :: "m10bmc_sdata list" where
  "n5014bmc_temp_tbl =
     [sdata 0x100 0 0x104 0 0 125 ''Board Front Temperature'',
      sdata 0x108 0 0x10c 0 0 125 ''FPGA Core Temperature'',
      sdata 0x110 0 0x114 0 0 125 ''FPGA P-TILE Temperature'',
      sdata 0x118 0 0x11c 0 0 125 ''FPGA E-TILE Temperature'',
      sdata 0x120 0 0 0 0 1000 ''Board Middle Temperature'',
      sdata 0x124 0 0 0 0 1000 ''Board Rear Temperature'',
      sdata 0x130 0 0 0 0 1000 ''1V2 FPGA Temperature'',
      sdata 0x13c 0 0 0 0 1000 ''5V FPGA Temperature'',
      sdata 0x148 0 0 0 0 1000 ''0V9 FPGA Temperature'',
      sdata 0x154 0 0 0 0 1000 ''0V85 FPGA Temperature'',
      sdata 0x160 0 0 0 0 1000 ''12V AUX Temperature'',
      sdata 0x16c 0 0 0 0 1000 ''12V PCIE Temperature'',
      sdata 0x1b0 0 0 0 0 1000 ''QSFP28-1 Temperature'',
      sdata 0x1b4 0 0 0 0 1000 ''QSFP28-2 Temperature'',
      sdata 0x1b8 0 0 0 0 1000 ''QSFP28-3 Temperature'',
      sdata 0x1bc 0 0 0 0 1000 ''QSFP28-4 Temperature'',
      sdata 0x1c0 0 0 0 0 1000 ''CVL1 Internal Temperature'',
      sdata 0x1c4 0 0 0 0 1000 ''CVL2 Internal Temperature'']"

definition n5014bmc_in_tbl :: "m10bmc_sdata list" where
  "n5014bmc_in_tbl =
     [sdata 0x128 0 0 0 0 1 ''1V2 FPGA Voltage'',
      sdata 0x134 0 0 0 0 1 ''5V FPGA Voltage'',
      sdata 0x140 0 0 0 0 1 ''0V9 FPGA Voltage'',
      sdata 0x14c 0 0 0 0 1 ''0V85 FPGA Voltage'',
      sdata 0x158 0 0 0 0 1 ''12V AUX Voltage'',
      sdata 0x164 0 0 0 0 1 ''12V PCIE Voltage'',
      sdata 0x174 0 0 0 0 1 ''CVL2 0V9 Voltage'',
      sdata 0x17c 0 0 0 0 1 ''1V2 Voltage'',
      sdata 0x184 0 0 0 0 1 ''FPGA 1V8 Voltage'',
      sdata 0x194 0 0 0 0 1 ''CVL1 0V8 Voltage'',
      sdata 0x19c 0 0 0 0 1 ''CVL1 0V9 Voltage'',
      sdata 0x1a4 0 0 0 0 1 ''CVL2 0V8 Voltage'',
      sdata 0x1ac 0 0 0 0 1 ''CVL1/2 AVDD_ETH 0V9 Voltage'']"

definition n5014bmc_curr_tbl :: "m10bmc_sdata list" where
  "n5014bmc_curr_tbl =
     [sdata 0x12c 0 0 0 0 1 ''1V2 FPGA Current'',
      sdata 0x138 0 0 0 0 1 ''5V FPGA Current'',
      sdata 0x144 0 0 0 0 1 ''0V9 FPGA Current'',
      sdata 0x150 0 0 0 0 1 ''0V85 FPGA Current'',
      sdata 0x15c 0 0 0 0 1 ''12V AUX Current'',
      sdata 0x168 0 0 0 0 1 ''12V PCIE Current'',
      sdata 0x170 0 0 0 0 1 ''CVL2 0V9 Current'',
      sdata 0x178 0 0 0 0 1 ''1V2 Current'',
      sdata 0x180 0 0 0 0 1 ''FPGA 1V8 Current'',
      sdata 0x190 0 0 0 0 1 ''CVL1 0V8 Current'',
      sdata 0x198 0 0 0 0 1 ''CVL1 0V9 Current'',
      sdata 0x1a0 0 0 0 0 1 ''CVL2 0V8 Current'',
      sdata 0x1a8 0 0 0 0 1 ''CVL1/2 AVDD_ETH 0V9 Current'']"

definition n5014bmc_hinfo :: "(hwmon_sensor_types \<times> hwmon_attr list list) list" where
  "n5014bmc_hinfo =
     [(hwmon_temp, replicate 4 [hwmon_input, hwmon_crit, hwmon_label] @
        replicate 14 [hwmon_input, hwmon_label]),
      (hwmon_in, replicate 13 [hwmon_input, hwmon_label]),
      (hwmon_curr, replicate 13 [hwmon_input, hwmon_label])]"

definition n5014bmc_hwmon_bdata :: m10bmc_hwmon_board_data where
  "n5014bmc_hwmon_bdata = \<lparr>tables = [hwmon_temp \<mapsto> n5014bmc_temp_tbl, hwmon_in \<mapsto> n5014bmc_in_tbl, hwmon_curr \<mapsto> n5014bmc_curr_tbl],
     hinfo = n5014bmc_hinfo\<rparr>"

definition n6000bmc_temp_tbl :: "m10bmc_sdata list" where
  "n6000bmc_temp_tbl =
     [sdata 0x444 0x448 0x44c 0 0 500 ''FPGA E-TILE Temperature #1'',
      sdata 0x450 0x454 0x458 0 0 500 ''FPGA E-TILE Temperature #2'',
      sdata 0x45c 0x460 0x464 0 0 500 ''FPGA E-TILE Temperature #3'',
      sdata 0x468 0x46c 0x470 0 0 500 ''FPGA E-TILE Temperature #4'',
      sdata 0x474 0x478 0x47c 0 0 500 ''FPGA P-TILE Temperature'',
      sdata 0x484 0x488 0x48c 0 0 500 ''FPGA FABRIC Digital Temperature #1'',
      sdata 0x490 0x494 0x498 0 0 500 ''FPGA FABRIC Digital Temperature #2'',
      sdata 0x49c 0x4a0 0x4a4 0 0 500 ''FPGA FABRIC Digital Temperature #3'',
      sdata 0x4a8 0x4ac 0x4b0 0 0 500 ''FPGA FABRIC Digital Temperature #4'',
      sdata 0x4b4 0x4b8 0x4bc 0 0 500 ''FPGA FABRIC Digital Temperature #5'',
      sdata 0x4c0 0x4c4 0x4c8 0 0 500 ''FPGA FABRIC Remote Digital Temperature #1'',
      sdata 0x4cc 0x4d0 0x4d4 0 0 500 ''FPGA FABRIC Remote Digital Temperature #2'',
      sdata 0x4d8 0x4dc 0x4e0 0 0 500 ''FPGA FABRIC Remote Digital Temperature #3'',
      sdata 0x4e4 0x4e8 0x4ec 0 0 500 ''FPGA FABRIC Remote Digital Temperature #4'',
      sdata 0x4f0 0x4f4 0x4f8 0x52c 0 500 ''Board Top Near FPGA Temperature'',
      sdata 0x4fc 0x500 0x504 0x52c 0 500 ''Board Bottom Near CVL Temperature'',
      sdata 0x508 0x50c 0x510 0x52c 0 500 ''Board Top East Near VRs Temperature'',
      sdata 0x514 0x518 0x51c 0x52c 0 500 ''CVL Die Temperature'',
      sdata 0x520 0x524 0x528 0x52c 0 500 ''Board Rear Side Temperature'',
      sdata 0x530 0x534 0x538 0x52c 0 500 ''Board Front Side Temperature'',
      sdata 0x53c 0x540 0x544 0 0 500 ''QSFP1 Case Temperature'',
      sdata 0x548 0x54c 0x550 0 0 500 ''QSFP2 Case Temperature'',
      sdata 0x554 0 0 0 0 500 ''FPGA Core Voltage Phase 0 VR Temperature'',
      sdata 0x560 0 0 0 0 500 ''FPGA Core Voltage Phase 1 VR Temperature'',
      sdata 0x56c 0 0 0 0 500 ''FPGA Core Voltage Phase 2 VR Temperature'',
      sdata 0x578 0 0 0 0 500 ''FPGA Core Voltage VR Controller Temperature'',
      sdata 0x584 0 0 0 0 500 ''FPGA VCCH VR Temperature'',
      sdata 0x590 0 0 0 0 500 ''FPGA VCC_1V2 VR Temperature'',
      sdata 0x59c 0 0 0 0 500 ''FPGA VCCH, VCC_1V2 VR Controller Temperature'',
      sdata 0x5a8 0 0 0 0 500 ''3V3 VR Temperature'',
      sdata 0x5b4 0 0 0 0 500 ''CVL Core Voltage VR Temperature'',
      sdata 0x5c4 0x5c8 0x5cc 0x5c0 0 500 ''FPGA P-Tile Temperature [Remote]'',
      sdata 0x5d0 0x5d4 0x5d8 0x5c0 0 500 ''FPGA E-Tile Temperature [Remote]'',
      sdata 0x5dc 0x5e0 0x5e4 0x5c0 0 500 ''FPGA SDM Temperature [Remote]'',
      sdata 0x5e8 0x5ec 0x5f0 0x5c0 0 500 ''FPGA Corner Temperature [Remote]'']"

definition n6000bmc_in_tbl :: "m10bmc_sdata list" where
  "n6000bmc_in_tbl =
     [sdata 0x5f4 0 0 0 0 1 ''Inlet 12V PCIe Rail Voltage'',
      sdata 0x60c 0 0 0 0 1 ''Inlet 12V Aux Rail Voltage'',
      sdata 0x624 0 0 0 0 1 ''Inlet 3V3 PCIe Rail Voltage'',
      sdata 0x63c 0 0 0 0 1 ''FPGA Core Voltage Rail Voltage'',
      sdata 0x644 0 0 0 0 1 ''FPGA VCCH Rail Voltage'',
      sdata 0x64c 0 0 0 0 1 ''FPGA VCC_1V2 Rail Voltage'',
      sdata 0x654 0 0 0 0 1 ''FPGA VCCH_GXER_1V1, VCCA_1V8 Voltage'',
      sdata 0x664 0 0 0 0 1 ''FPGA VCCIO_1V2 Voltage'',
      sdata 0x674 0 0 0 0 1 ''CVL Non Core Rails Inlet Voltage'',
      sdata 0x684 0 0 0 0 1 ''MAX10 & Board CLK PWR 3V3 Inlet Voltage'',
      sdata 0x694 0 0 0 0 1 ''CVL Core Voltage Rail Voltage'',
      sdata 0x6ac 0 0 0 0 1 ''Board 3V3 VR Voltage'',
      sdata 0x6b4 0 0 0 0 1 ''QSFP 3V3 Rail Voltage'',
      sdata 0x6c4 0 0 0 0 1 ''QSFP (Primary) Supply Rail Voltage'',
      sdata 0x6c8 0 0 0 0 1 ''QSFP (Secondary) Supply Rail Voltage'',
      sdata 0x6cc 0 0 0 0 1 ''VCCCLK_GXER_2V5 Voltage'',
      sdata 0x6d0 0 0 0 0 1 ''AVDDH_1V1_CVL Voltage'',
      sdata 0x6d4 0 0 0 0 1 ''VDDH_1V8_CVL Voltage'',
      sdata 0x6d8 0 0 0 0 1 ''VCCA_PLL Voltage'',
      sdata 0x6e0 0 0 0 0 1 ''VCCRT_GXER_0V9 Voltage'',
      sdata 0x6e8 0 0 0 0 1 ''VCCRT_GXPL_0V9 Voltage'',
      sdata 0x6f0 0 0 0 0 1 ''VCCH_GXPL_1V8 Voltage'',
      sdata 0x6f4 0 0 0 0 1 ''VCCPT_1V8 Voltage'',
      sdata 0x6fc 0 0 0 0 1 ''VCC_3V3_M10 Voltage'',
      sdata 0x700 0 0 0 0 1 ''VCC_1V8_M10 Voltage'',
      sdata 0x704 0 0 0 0 1 ''VCC_1V2_EMIF1_2_3 Voltage'',
      sdata 0x70c 0 0 0 0 1 ''VCC_1V2_EMIF4_5 Voltage'',
      sdata 0x714 0 0 0 0 1 ''VCCA_1V8 Voltage'',
      sdata 0x718 0 0 0 0 1 ''VCCH_GXER_1V1 Voltage'',
      sdata 0x71c 0 0 0 0 1 ''AVDD_ETH_0V9_CVL Voltage'',
      sdata 0x720 0 0 0 0 1 ''AVDD_PCIE_0V9_CVL Voltage'']"

definition n6000bmc_curr_tbl :: "m10bmc_sdata list" where
  "n6000bmc_curr_tbl =
     [sdata 0x600 0x604 0x608 0 0 1 ''Inlet 12V PCIe Rail Current'',
      sdata 0x618 0x61c 0x620 0 0 1 ''Inlet 12V Aux Rail Current'',
      sdata 0x630 0x634 0x638 0 0 1 ''Inlet 3V3 PCIe Rail Current'',
      sdata 0x640 0 0 0 0 1 ''FPGA Core Voltage Rail Current'',
      sdata 0x648 0 0 0 0 1 ''FPGA VCCH Rail Current'',
      sdata 0x650 0 0 0 0 1 ''FPGA VCC_1V2 Rail Current'',
      sdata 0x658 0x65c 0x660 0 0 1 ''FPGA VCCH_GXER_1V1, VCCA_1V8 Current'',
      sdata 0x668 0x66c 0x670 0 0 1 ''FPGA VCCIO_1V2 Current'',
      sdata 0x678 0x67c 0x680 0 0 1 ''CVL Non Core Rails Inlet Current'',
      sdata 0x688 0x68c 0x690 0 0 1 ''MAX10 & Board CLK PWR 3V3 Inlet Current'',
      sdata 0x698 0 0 0 0 1 ''CVL Core Voltage Rail Current'',
      sdata 0x6b0 0 0 0 0 1 ''Board 3V3 VR Current'',
      sdata 0x6b8 0x6bc 0x6c0 0 0 1 ''QSFP 3V3 Rail Current'']"

definition n6000bmc_power_tbl :: "m10bmc_sdata list" where
  "n6000bmc_power_tbl =
     [sdata 0x724 0 0 0 0 1000 ''Board Power'']"

definition n6000bmc_hinfo :: "(hwmon_sensor_types \<times> hwmon_attr list list) list" where
  "n6000bmc_hinfo =
     [(hwmon_temp, replicate 14 [hwmon_input, hwmon_max, hwmon_crit, hwmon_label] @
        replicate 6 [hwmon_input, hwmon_max, hwmon_max_hyst, hwmon_crit, hwmon_crit_hyst, hwmon_label] @
        replicate 2 [hwmon_input, hwmon_max, hwmon_crit, hwmon_label] @
        replicate 9 [hwmon_input, hwmon_label] @
        replicate 4 [hwmon_input, hwmon_max, hwmon_max_hyst, hwmon_crit, hwmon_crit_hyst, hwmon_label]),
      (hwmon_in, replicate 31 [hwmon_input, hwmon_label]),
      (hwmon_curr, replicate 3 [hwmon_input, hwmon_max, hwmon_crit, hwmon_label] @
        replicate 3 [hwmon_input, hwmon_label] @
        replicate 4 [hwmon_input, hwmon_max, hwmon_crit, hwmon_label] @
        replicate 2 [hwmon_input, hwmon_label] @
        [[hwmon_input, hwmon_max, hwmon_crit, hwmon_label]]),
      (hwmon_power, [[hwmon_input, hwmon_label]])]"

definition n6000bmc_hwmon_bdata :: m10bmc_hwmon_board_data where
  "n6000bmc_hwmon_bdata = \<lparr>tables = [hwmon_temp \<mapsto> n6000bmc_temp_tbl, hwmon_in \<mapsto> n6000bmc_in_tbl, hwmon_curr \<mapsto> n6000bmc_curr_tbl, hwmon_power \<mapsto> n6000bmc_power_tbl],
     hinfo = n6000bmc_hinfo\<rparr>"

definition c6100bmc_temp_tbl :: "m10bmc_sdata list" where
  "c6100bmc_temp_tbl =
     [sdata 0x440 0 0 0 0 500 ''FPGA E-TILE Max Temperature'',
      sdata 0x444 0x448 0x44c 0 0 500 ''FPGA E-TILE Temperature #1'',
      sdata 0x450 0x454 0x458 0 0 500 ''FPGA E-TILE Temperature #2'',
      sdata 0x45c 0x460 0x464 0 0 500 ''FPGA E-TILE Temperature #3'',
      sdata 0x468 0x46c 0x470 0 0 500 ''FPGA E-TILE Temperature #4'',
      sdata 0x474 0x478 0x47c 0 0 500 ''FPGA P-TILE Temperature'',
      sdata 0x5b4 0x5b8 0x5bc 0 0 500 ''FPGA P-TILE2 DTS Temperature'',
      sdata 0x480 0 0 0 0 500 ''FPGA FABRIC Max Temperature'',
      sdata 0x484 0x488 0x48c 0 0 500 ''FPGA FABRIC Digital Temperature#1'',
      sdata 0x490 0x494 0x498 0 0 500 ''FPGA FABRIC Digital Temperature#2'',
      sdata 0x49c 0x4a0 0x4a4 0 0 500 ''FPGA FABRIC Digital Temperature#3'',
      sdata 0x4a8 0x4ac 0x4b0 0 0 500 ''FPGA FABRIC Digital Temperature#4'',
      sdata 0x4b4 0x4b8 0x4bc 0 0 500 ''FPGA FABRIC Digital Temperature#5'',
      sdata 0x4d8 0x4dc 0x4e0 0 0 500 ''FPGA FABRIC Remote Digital Temperature#3'',
      sdata 0x4e4 0x4e8 0x4ec 0 0 500 ''FPGA FABRIC Remote Digital Temperature#4'',
      sdata 0x4fc 0x500 0x504 0x5c0 0 500 ''Board Bottom Temperature'',
      sdata 0x5e8 0x5ec 0x5f0 0x5c0 0 500 ''FPGA Corner (SDM) Temperature [Remote]'',
      sdata 0x5dc 0x5e0 0x5e4 0x5c0 0 500 ''FPGA Core Fabric Temperature [Remote]'',
      sdata 0x5c4 0x5c8 0x5cc 0x5c0 0 500 ''FPGA P-Tile Temperature [Remote]'',
      sdata 0x5d0 0x5d4 0x5d8 0x5c0 0 500 ''FPGA E-Tile Temperature [Remote]'',
      sdata 0x4f0 0x4f4 0x4f8 0x52c 0 500 ''Board Top Temperature'',
      sdata 0x520 0x524 0x528 0x52c 0 500 ''Board Rear Side Temperature'',
      sdata 0x530 0x534 0x538 0x52c 0 500 ''Board Front Side Temperature'',
      sdata 0x508 0x50c 0x510 0x52c 0 500 ''FPGA Ambient Temperature'',
      sdata 0x514 0x518 0x51c 0x52c 0 500 ''FPGA PTILE2 External Temperature'',
      sdata 0x53c 0x540 0x544 0 0 500 ''QSFP1 Temperature'',
      sdata 0x548 0x54c 0x550 0 0 500 ''QSFP2 Temperature'',
      sdata 0x728 0x72c 0x730 0 0 500 ''Virt FPGA Temperature'',
      sdata 0x758 0x750 0x754 0 0 15 ''SOC Package Temperature'']"

definition c6100bmc_in_tbl :: "m10bmc_sdata list" where
  "c6100bmc_in_tbl =
     [sdata 0x5f4 0 0 0 0 1 ''Inlet 12V PCIe Rail Voltage'',
      sdata 0x60c 0 0 0 0 1 ''Inlet 12V Aux Rail Voltage'',
      sdata 0x624 0 0 0 0 1 ''Inlet 3V3 PCIe Rail Voltage'',
      sdata 0x6b4 0 0 0 0 1 ''QSFP 3V3 Rail Voltage'',
      sdata 0x6c4 0 0 0 0 1 ''QSFP (Primary) Supply Rail Voltage'',
      sdata 0x6c8 0 0 0 0 1 ''QSFP (Secondary) Supply Rail Voltage'']"

definition c6100bmc_curr_tbl :: "m10bmc_sdata list" where
  "c6100bmc_curr_tbl =
     [sdata 0x600 0x604 0x608 0 0 1 ''Inlet 12V PCIe Rail Current'',
      sdata 0x618 0x61c 0x620 0 0 1 ''Inlet 12V Aux Rail Current'',
      sdata 0x630 0x634 0x638 0 0 1 ''Inlet 3V3 PCIe Rail Current'',
      sdata 0x6b8 0x6bc 0x6c0 0 0 1 ''QSFP 3V3 Rail Current'']"

definition c6100bmc_power_tbl :: "m10bmc_sdata list" where
  "c6100bmc_power_tbl =
     [sdata 0x724 0 0 0 0 1 ''Board Power'',
      sdata 0x788 0 0 0 0 1 ''SOC Package Power'',
      sdata 0x694 0 0 0 0 1 ''FPGA Package Power'']"

definition c6100bmc_hinfo :: "(hwmon_sensor_types \<times> hwmon_attr list list) list" where
  "c6100bmc_hinfo =
     [(hwmon_temp, [[hwmon_input, hwmon_label]] @
        replicate 6 [hwmon_input, hwmon_max, hwmon_crit, hwmon_label] @
        [[hwmon_input, hwmon_label]] @
        replicate 7 [hwmon_input, hwmon_max, hwmon_crit, hwmon_label] @
        replicate 10 [hwmon_input, hwmon_max, hwmon_max_hyst, hwmon_crit, hwmon_crit_hyst, hwmon_label] @
        replicate 4 [hwmon_input, hwmon_label]),
      (hwmon_in, replicate 6 [hwmon_input, hwmon_label]),
      (hwmon_curr, replicate 4 [hwmon_input, hwmon_max, hwmon_crit, hwmon_label]),
      (hwmon_power, replicate 3 [hwmon_input, hwmon_label])]"

definition c6100bmc_hwmon_bdata :: m10bmc_hwmon_board_data where
  "c6100bmc_hwmon_bdata = \<lparr>tables = [hwmon_temp \<mapsto> c6100bmc_temp_tbl, hwmon_in \<mapsto> c6100bmc_in_tbl, hwmon_curr \<mapsto> c6100bmc_curr_tbl, hwmon_power \<mapsto> c6100bmc_power_tbl],
     hinfo = c6100bmc_hinfo\<rparr>"

definition cmcbmc_temp_tbl :: "m10bmc_sdata list" where
  "cmcbmc_temp_tbl =
     [sdata 0x440 0 0 0 0 500 ''FPGA R-TILE Max Temperature'',
      sdata 0x444 0x448 0x44c 0 0 500 ''FPGA R-TILE Temperature #1'',
      sdata 0x450 0x454 0x458 0 0 500 ''FPGA R-TILE Temperature #2'',
      sdata 0x45c 0x460 0x464 0 0 500 ''FPGA R-TILE Temperature #3'',
      sdata 0x468 0x46c 0x470 0 0 500 ''FPGA R-TILE Temperature #4'',
      sdata 0x474 0x478 0x47c 0 0 500 ''FPGA R-TILE Temperature #5'',
      sdata 0x480 0x484 0x488 0 0 500 ''FPGA R-TILE Temperature #6'',
      sdata 0x48c 0 0 0 0 500 ''FPGA F-TILE Max Temperature'',
      sdata 0x490 0x494 0x498 0 0 500 ''FPGA F-TILE Temperature #1'',
      sdata 0x49c 0x4a0 0x4a4 0 0 500 ''FPGA F-TILE Temperature #2'',
      sdata 0x4a8 0x4ac 0x4b0 0 0 500 ''FPGA F-TILE Temperature #3'',
      sdata 0x4b4 0x4b8 0x4bc 0 0 500 ''FPGA F-TILE Temperature #4'',
      sdata 0x4c0 0x4c4 0x4c8 0 0 500 ''FPGA F-TILE Temperature #5'',
      sdata 0x4cc 0 0 0 0 500 ''FPGA FABRIC Max Temperature'',
      sdata 0x4d0 0x4d4 0x4d8 0 0 500 ''FPGA FABRIC Digital Temperature#1'',
      sdata 0x4dc 0x4e0 0x4e4 0 0 500 ''FPGA FABRIC Digital Temperature#2'',
      sdata 0x4e8 0x4ec 0x4f0 0 0 500 ''FPGA FABRIC Digital Temperature#3'',
      sdata 0x4f4 0x4f8 0x4fc 0 0 500 ''FPGA FABRIC Digital Temperature#4'',
      sdata 0x500 0x504 0x508 0 0 500 ''FPGA FABRIC Digital Temperature#5'',
      sdata 0x50c 0x510 0x514 0 0 500 ''FPGA FABRIC Remote Digital Temperature#1'',
      sdata 0x518 0x51c 0x520 0 0 500 ''FPGA FABRIC Remote Digital Temperature#2'',
      sdata 0x524 0x528 0x52c 0 0 500 ''FPGA FABRIC Remote Digital Temperature#3'',
      sdata 0x530 0x534 0x538 0 0 500 ''FPGA FABRIC Remote Digital Temperature#4'',
      sdata 0x588 0x58c 0x590 0 0 500 ''FPGA Core A (SDM) Temperature [Remote]'',
      sdata 0x594 0x598 0x59c 0 0 500 ''FPGA Core C Temperature [Remote]'',
      sdata 0x5a0 0x5a4 0x5a8 0 0 500 ''FPGA F-Tile Temperature [Remote]'',
      sdata 0x5ac 0x5b0 0x5b4 0 0 500 ''Board Temperature #1'',
      sdata 0x5d0 0x5d4 0x5d8 0 0 500 ''FPGA R-Tile 14C Temperature [Remote]'',
      sdata 0x5dc 0x5e0 0x5e4 0 0 500 ''FPGA R-Tile 15C Temperature [Remote]'',
      sdata 0x5f4 0x5f8 0x5fc 0 0 500 ''Board Temperature #2'',
      sdata 0x600 0 0 0 0 500 ''FPGA VCC_HSSI_GXR VR Temperature'',
      sdata 0x60c 0 0 0 0 500 ''FPGA VCCR_CORE VR Temperature'',
      sdata 0x618 0 0 0 0 500 ''FPGA VCC_HSSI_GXF Temperature'',
      sdata 0x728 0x72c 0x730 0 0 500 ''FPGA Virtual Sensor Temperature'']"

definition cmcbmc_in_tbl :: "m10bmc_sdata list" where
  "cmcbmc_in_tbl =
     [sdata 0x624 0 0 0 0 1 ''FPGA VCC_HSSI_GXR Rail Voltage'',
      sdata 0x63c 0 0 0 0 1 ''FPGA VCCR_CORE Rail Voltage'',
      sdata 0x654 0 0 0 0 1 ''FPGA VCC_HSSI_GXF Rail Voltage'']"

definition cmcbmc_curr_tbl :: "m10bmc_sdata list" where
  "cmcbmc_curr_tbl =
     [sdata 0x630 0 0 0 0 1 ''FPGA VCC_HSSI_GXR Voltage Rail Current'',
      sdata 0x648 0 0 0 0 1 ''FPGA VCCR_CORE Voltage Rail Current'',
      sdata 0x660 0 0 0 0 1 ''FPGA VCC_HSSI_GXF Voltage Rail Current'']"

definition cmcbmc_hinfo :: "(hwmon_sensor_types \<times> hwmon_attr list list) list" where
  "cmcbmc_hinfo =
     [(hwmon_temp, [[hwmon_input, hwmon_label]] @
        replicate 6 [hwmon_input, hwmon_max, hwmon_crit, hwmon_label] @
        [[hwmon_input, hwmon_label]] @
        replicate 5 [hwmon_input, hwmon_max, hwmon_crit, hwmon_label] @
        [[hwmon_input, hwmon_label]] @
        replicate 16 [hwmon_input, hwmon_max, hwmon_crit, hwmon_label] @
        replicate 3 [hwmon_input, hwmon_label] @
        [[hwmon_input, hwmon_max, hwmon_crit, hwmon_label]]),
      (hwmon_in, replicate 3 [hwmon_input, hwmon_label]),
      (hwmon_curr, replicate 3 [hwmon_input, hwmon_label])]"

definition cmcbmc_hwmon_bdata :: m10bmc_hwmon_board_data where
  "cmcbmc_hwmon_bdata = \<lparr>tables = [hwmon_temp \<mapsto> cmcbmc_temp_tbl, hwmon_in \<mapsto> cmcbmc_in_tbl, hwmon_curr \<mapsto> cmcbmc_curr_tbl],
     hinfo = cmcbmc_hinfo\<rparr>"

section \<open>Reading sensors\<close>

text \<open>The hardware monitoring core shows an attribute if this is not zero.\<close>

definition m10bmc_hwmon_is_visible :: "hwmon_sensor_types \<Rightarrow> hwmon_attr \<Rightarrow> nat \<Rightarrow> nat" where
  "m10bmc_hwmon_is_visible type attr channel = 292"    \<comment> \<open>0444\<close>

definition find_sensor_data :: "m10bmc_hwmon_board_data \<Rightarrow> hwmon_sensor_types \<Rightarrow> nat \<Rightarrow> (errno + m10bmc_sdata) option" where
  "find_sensor_data bd type channel =
     (case tables bd type of
        None \<Rightarrow> Some (Inl EOPNOTSUPP)
      | Some tbl \<Rightarrow> if channel < length tbl then Some (Inr (tbl ! channel)) else None)"

text \<open>The product is one of unsigned 32-bit integers, which becomes a (64-bit) \<^verbatim>\<open>long\<close>.\<close>

definition do_sensor_read ::
  "('f, 'e) m10bmc_env_scheme \<Rightarrow> m10bmc_sdata \<Rightarrow> u32 \<Rightarrow> ('f, 'a) m10bmc_scheme \<Rightarrow> (errno + int) \<times> ('f, 'a) m10bmc_scheme" where
  "do_sensor_read env data regoff s =
     (case m10bmc_sys_read env regoff s of
        (Inl e, s) \<Rightarrow> (Inl e, s)
      | (Inr regval, s) \<Rightarrow>
          if regval = 0xdeadbeef then (Inl ENODATA, s) else (Inr (uint (regval * multiplier data)), s))"

text \<open>The registers of an attribute and its hysteresis; \<open>None\<close> is an attribute that the driver does not know.\<close>

definition sensor_regs :: "hwmon_sensor_types \<Rightarrow> hwmon_attr \<Rightarrow> m10bmc_sdata \<Rightarrow> (u32 \<times> u32) option" where
  "sensor_regs type attr data =
     (case type of
        hwmon_temp \<Rightarrow>
          (case attr of
             hwmon_input \<Rightarrow> Some (reg_input data, 0)
           | hwmon_max_hyst \<Rightarrow> Some (reg_max data, reg_hyst data)
           | hwmon_max \<Rightarrow> Some (reg_max data, 0)
           | hwmon_crit_hyst \<Rightarrow> Some (reg_crit data, reg_hyst data)
           | hwmon_crit \<Rightarrow> Some (reg_crit data, 0)
           | _ \<Rightarrow> None)
      | hwmon_in \<Rightarrow>
          (case attr of
             hwmon_input \<Rightarrow> Some (reg_input data, 0)
           | hwmon_max \<Rightarrow> Some (reg_max data, 0)
           | hwmon_crit \<Rightarrow> Some (reg_crit data, 0)
           | hwmon_min \<Rightarrow> Some (reg_min data, 0)
           | _ \<Rightarrow> None)
      | hwmon_curr \<Rightarrow>
          (case attr of
             hwmon_input \<Rightarrow> Some (reg_input data, 0)
           | hwmon_max \<Rightarrow> Some (reg_max data, 0)
           | hwmon_crit \<Rightarrow> Some (reg_crit data, 0)
           | _ \<Rightarrow> None)
      | hwmon_power \<Rightarrow>
          (case attr of
             hwmon_input \<Rightarrow> Some (reg_input data, 0)
           | _ \<Rightarrow> None)
      | hwmon_other_type \<Rightarrow> None)"

definition m10bmc_hwmon_read ::
  "('f, 'e) m10bmc_env_scheme \<Rightarrow> m10bmc_hwmon_board_data \<Rightarrow> hwmon_sensor_types \<Rightarrow> hwmon_attr \<Rightarrow> nat \<Rightarrow>
    ('f, 'a) m10bmc_scheme \<Rightarrow> ((errno + int) \<times> ('f, 'a) m10bmc_scheme) option" where
  "m10bmc_hwmon_read env bd type attr channel s =
     (case find_sensor_data bd type channel of
        None \<Rightarrow> None
      | Some (Inl e) \<Rightarrow> Some (Inl e, s)
      | Some (Inr data) \<Rightarrow>
          (case sensor_regs type attr data of
             None \<Rightarrow> Some (Inl EOPNOTSUPP, s)
           | Some (reg, hyst) \<Rightarrow>
               if reg = 0 then Some (Inl EOPNOTSUPP, s)
               else
                 Some (case do_sensor_read env data reg s of
                         (Inl e, s) \<Rightarrow> (Inl e, s)
                       | (Inr value, s) \<Rightarrow>
                           if hyst \<noteq> 0 then
                             (case do_sensor_read env data hyst s of
                                (Inl e, s) \<Rightarrow> (Inl e, s)
                              | (Inr h, s) \<Rightarrow> (Inr (value - h), s))
                           else (Inr value, s))))"

definition m10bmc_hwmon_read_string ::
  "m10bmc_hwmon_board_data \<Rightarrow> hwmon_sensor_types \<Rightarrow> hwmon_attr \<Rightarrow> nat \<Rightarrow> (errno + string) option" where
  "m10bmc_hwmon_read_string bd type attr channel =
     (case find_sensor_data bd type channel of
        None \<Rightarrow> None
      | Some (Inl e) \<Rightarrow> Some (Inl e)
      | Some (Inr data) \<Rightarrow> Some (Inr (sd_label data)))"

section \<open>Binding\<close>

definition intel_m10bmc_hwmon_ids :: "(string \<times> m10bmc_hwmon_board_data) list" where
  "intel_m10bmc_hwmon_ids =
     [(''n3000bmc-hwmon'', n3000bmc_hwmon_bdata), (''d5005bmc-hwmon'', d5005bmc_hwmon_bdata),
      (''n5010bmc-hwmon'', n5010bmc_hwmon_bdata), (''n5014bmc-hwmon'', n5014bmc_hwmon_bdata),
      (''n6000bmc-hwmon'', n6000bmc_hwmon_bdata), (''c6100bmc-hwmon'', c6100bmc_hwmon_bdata),
      (''cmcbmc-hwmon'', cmcbmc_hwmon_bdata)]"

text \<open>
  What probing registers: the name and the tables. Which characters a name cannot have is a matter of the
  hardware monitoring core (\<^verbatim>\<open>hwmon_is_bad_char\<close>).
\<close>

record hwmon_env =
  hw_kzalloc :: bool
  hw_kstrdup :: bool
  hw_register :: "string \<Rightarrow> errno option"
  hwmon_is_bad_char :: "char \<Rightarrow> bool"

definition m10bmc_hwmon_probe ::
  "hwmon_env \<Rightarrow> string \<times> m10bmc_hwmon_board_data \<Rightarrow> errno + string \<times> (hwmon_sensor_types \<times> hwmon_attr list list) list" where
  "m10bmc_hwmon_probe env i =
     (if \<not> hw_kzalloc env then Inl ENOMEM
      else if \<not> hw_kstrdup env then Inl ENOMEM
      else
        let hw_name = map (\<lambda>c. if hwmon_is_bad_char env c then CHR ''_'' else c) (fst i)
        in (case hw_register env hw_name of Some e \<Rightarrow> Inl e | None \<Rightarrow> Inr (hw_name, hinfo (snd i))))"

text \<open>The attributes that the hardware monitoring core makes of what is registered.\<close>

definition shown_attrs :: "m10bmc_hwmon_board_data \<Rightarrow> (hwmon_sensor_types \<times> nat \<times> hwmon_attr) list" where
  "shown_attrs bd =
     concat (map (\<lambda>(type, chans). concat (map2 (\<lambda>i attrs. map (\<lambda>a. (type, i, a))
         (filter (\<lambda>a. m10bmc_hwmon_is_visible type a i \<noteq> 0) attrs)) [0..<length chans] chans)) (hinfo bd))"

section \<open>What is shown can be read\<close>

text \<open>The check of one attribute against the table of sensors.\<close>

definition attr_ok :: "m10bmc_hwmon_board_data \<Rightarrow> hwmon_sensor_types \<times> nat \<times> hwmon_attr \<Rightarrow> bool" where
  "attr_ok bd tia = (case tia of (type, i, a) \<Rightarrow>
     (case tables bd type of
        None \<Rightarrow> False
      | Some tbl \<Rightarrow> i < length tbl \<and>
          (if a = hwmon_label then sd_label (tbl ! i) \<noteq> []
           else (case sensor_regs type a (tbl ! i) of
                   None \<Rightarrow> False
                 | Some (r, h) \<Rightarrow> r \<noteq> 0 \<and> (h = 0) = (a \<noteq> hwmon_max_hyst \<and> a \<noteq> hwmon_crit_hyst)))))"

lemma boards_ok:
  "list_all (attr_ok n3000bmc_hwmon_bdata) (shown_attrs n3000bmc_hwmon_bdata)"
  "list_all (attr_ok d5005bmc_hwmon_bdata) (shown_attrs d5005bmc_hwmon_bdata)"
  "list_all (attr_ok n5010bmc_hwmon_bdata) (shown_attrs n5010bmc_hwmon_bdata)"
  "list_all (attr_ok n5014bmc_hwmon_bdata) (shown_attrs n5014bmc_hwmon_bdata)"
  "list_all (attr_ok n6000bmc_hwmon_bdata) (shown_attrs n6000bmc_hwmon_bdata)"
  "list_all (attr_ok c6100bmc_hwmon_bdata) (shown_attrs c6100bmc_hwmon_bdata)"
  "list_all (attr_ok cmcbmc_hwmon_bdata) (shown_attrs cmcbmc_hwmon_bdata)"
  by code_simp+

lemma shown_ok:
  assumes "(n, bd) \<in> set intel_m10bmc_hwmon_ids" and "x \<in> set (shown_attrs bd)"
  shows "attr_ok bd x"
  using assms boards_ok unfolding list_all_iff by (auto simp: intel_m10bmc_hwmon_ids_def)

text \<open>
  What a user gets who reads a value: the register with its factor, less the register of the hysteresis if
  there is one; no data while the controller has no valid value.
\<close>

definition valid_reading :: "errno + u32 \<Rightarrow> errno + u32" where
  "valid_reading r = (case r of Inl e \<Rightarrow> Inl e | Inr v \<Rightarrow> if v = 0xdeadbeef then Inl ENODATA else Inr v)"

definition sensor_value ::
  "('f, 'e) m10bmc_env_scheme \<Rightarrow> u32 \<Rightarrow> u32 \<Rightarrow> u32 \<Rightarrow> ('f, 'a) m10bmc_scheme \<Rightarrow> (errno + int) \<times> ('f, 'a) m10bmc_scheme" where
  "sensor_value env m reg hyst s =
     (case apfst valid_reading (m10bmc_sys_read env reg s) of
        (Inl e, s) \<Rightarrow> (Inl e, s)
      | (Inr v, s) \<Rightarrow>
          if hyst = 0 then (Inr (uint (v * m)), s)
          else (case apfst valid_reading (m10bmc_sys_read env hyst s) of
                  (Inl e, s) \<Rightarrow> (Inl e, s)
                | (Inr h, s) \<Rightarrow> (Inr (uint (v * m) - uint (h * m)), s)))"

lemma read_is_sensor_value:
  assumes "find_sensor_data bd type i = Some (Inr data)" and "sensor_regs type a data = Some (reg, hyst)" and "reg \<noteq> 0"
  shows "m10bmc_hwmon_read env bd type a i s = Some (sensor_value env (multiplier data) reg hyst s)"
  using assms by (auto simp: m10bmc_hwmon_read_def sensor_value_def do_sensor_read_def valid_reading_def apfst_def
      split: sum.splits prod.splits if_splits)

text \<open>
  C30. Every attribute that is shown of any of the boards can be read: its channel has an entry in the table of
  sensors, a label has a text, and a value has a register, with one for the hysteresis exactly if the
  attribute is one with hysteresis. Reading returns the value of these registers.
\<close>

theorem shown_sensors_read:
  assumes "(n, bd) \<in> set intel_m10bmc_hwmon_ids" and "(type, i, a) \<in> set (shown_attrs bd)"
  shows "\<exists>data. find_sensor_data bd type i = Some (Inr data) \<and>
    (if a = hwmon_label then m10bmc_hwmon_read_string bd type a i = Some (Inr (sd_label data)) \<and> sd_label data \<noteq> []
     else \<exists>reg hyst. sensor_regs type a data = Some (reg, hyst) \<and> reg \<noteq> 0 \<and>
       (hyst \<noteq> 0 \<longleftrightarrow> a = hwmon_max_hyst \<or> a = hwmon_crit_hyst) \<and>
       m10bmc_hwmon_read env bd type a i s = Some (sensor_value env (multiplier data) reg hyst s))"
proof -
  from shown_ok [OF assms] obtain tbl where t: "tables bd type = Some tbl" and i: "i < length tbl"
    and ok: "if a = hwmon_label then sd_label (tbl ! i) \<noteq> []
      else (case sensor_regs type a (tbl ! i) of None \<Rightarrow> False
            | Some (r, h) \<Rightarrow> r \<noteq> 0 \<and> (h = 0) = (a \<noteq> hwmon_max_hyst \<and> a \<noteq> hwmon_crit_hyst))"
    by (auto simp: attr_ok_def split: option.splits)
  from t i have f: "find_sensor_data bd type i = Some (Inr (tbl ! i))" by (simp add: find_sensor_data_def)
  show ?thesis
  proof (cases "a = hwmon_label")
    case True
    with f ok show ?thesis by (simp add: m10bmc_hwmon_read_string_def)
  next
    case False
    with ok obtain r h where "sensor_regs type a (tbl ! i) = Some (r, h)" and "r \<noteq> 0"
      and "h = 0 \<longleftrightarrow> a \<noteq> hwmon_max_hyst \<and> a \<noteq> hwmon_crit_hyst"
      by (auto split: option.splits)
    with False f show ?thesis by (auto simp: read_is_sensor_value)
  qed
qed

text \<open>The highest temperature of the FPGA of an N3000, on a register map where each register reads as its address.\<close>

definition sensor_env0 :: "unit m10bmc_env" where
  "sensor_env0 = \<lparr>mb_regmap = \<lparr>rm_read = (\<lambda>h a. Inr (a - 0x300800)), rm_update = (\<lambda>h a m v. None), rm_write = (\<lambda>h a v. None),
     rm_bulk_write = (\<lambda>h a v. None), rm_bulk_read = (\<lambda>h a n. Inr []), rm_stride = 4\<rparr>,
     mb_info = m10bmc_spi_n3000, mb_flash_ops = None\<rparr>"

definition sensor_s0 :: "unit m10bmc" where
  "sensor_s0 = \<lparr>mb_hist = [], bmcfw_state = M10BMC_FW_STATE_NORMAL, mb_flash = ()\<rparr>"

theorem shown_sensors_read_witness:
  "map_option fst (m10bmc_hwmon_read sensor_env0 n3000bmc_hwmon_bdata hwmon_temp hwmon_max_hyst 0 sensor_s0) =
     Some (Inr (0x104 * 500 - 0x10c * 500))"
proof -
  have "(''n3000bmc-hwmon'', n3000bmc_hwmon_bdata) \<in> set intel_m10bmc_hwmon_ids" by (simp add: intel_m10bmc_hwmon_ids_def)
  moreover have "(hwmon_temp, 0, hwmon_max_hyst) \<in> set (shown_attrs n3000bmc_hwmon_bdata)" by code_simp
  ultimately obtain data reg hyst where f: "find_sensor_data n3000bmc_hwmon_bdata hwmon_temp 0 = Some (Inr data)"
    and r: "sensor_regs hwmon_temp hwmon_max_hyst data = Some (reg, hyst)"
    and v: "m10bmc_hwmon_read sensor_env0 n3000bmc_hwmon_bdata hwmon_temp hwmon_max_hyst 0 sensor_s0 =
      Some (sensor_value sensor_env0 (multiplier data) reg hyst sensor_s0)"
    using shown_sensors_read [of "''n3000bmc-hwmon''" n3000bmc_hwmon_bdata hwmon_temp 0 hwmon_max_hyst sensor_env0 sensor_s0]
    by auto
  from f r have "multiplier data = 500 \<and> reg = 0x104 \<and> hyst = 0x10c"
    by (auto simp: find_sensor_data_def n3000bmc_hwmon_bdata_def n3000bmc_temp_tbl_def sensor_regs_def)
  moreover have "fst (sensor_value sensor_env0 500 0x104 0x10c sensor_s0) = Inr (0x104 * 500 - 0x10c * 500)" by code_simp
  ultimately show ?thesis using v by simp
qed

text \<open>
  The other way round, one board has limits that are not shown: the highest and the critical temperature of
  four sensors of a C6100.
\<close>

lemma c6100_limits_hidden:
  "list_all (\<lambda>i. reg_max (c6100bmc_temp_tbl ! i) \<noteq> 0 \<and> reg_crit (c6100bmc_temp_tbl ! i) \<noteq> 0 \<and>
     filter (\<lambda>(t, j, a). t = hwmon_temp \<and> j = i) (shown_attrs c6100bmc_hwmon_bdata) =
       [(hwmon_temp, i, hwmon_input), (hwmon_temp, i, hwmon_label)]) [25, 26, 27, 28]"
  by code_simp

text \<open>The product of a register and its factor has the 32 bits of its operands: a reading below zero is a large number.\<close>

lemma reading_below_zero:
  "fst (do_sensor_read (sensor_env0\<lparr>mb_regmap := (mb_regmap sensor_env0)\<lparr>rm_read := (\<lambda>h a. Inr (- 2))\<rparr>\<rparr>)
     (n3000bmc_temp_tbl ! 0) 0x100 sensor_s0) = Inr (2 ^ 32 - 1000)"
  by code_simp

lemma registered_name_good:
  assumes "m10bmc_hwmon_probe env i = Inr (name, h)" and "\<not> hwmon_is_bad_char env CHR ''_''"
  shows "list_all (\<lambda>c. \<not> hwmon_is_bad_char env c) name \<and> length name = length (fst i) \<and> h = hinfo (snd i)"
  using assms by (auto simp: m10bmc_hwmon_probe_def Let_def list_all_iff split: if_splits option.splits)

end
