(* ===== verification/Dfl_Cxl.thy ===== *)
theory Dfl_Cxl
  imports Afu_Dma
begin

unbundle bit_operations_syntax

text \<open>
  The host exerciser for CXL caches (\<^verbatim>\<open>drivers/fpga/dfl-cxl-cache.c\<close>, the code for kernels from 5.13 on): a
  device file that maps the registers of the device, pins buffers of the user and writes their physical
  address to registers that the user names.

  The state holds the tree of buffers with what the kernel has given out for them, the writes to registers,
  and the areas of user memory that were made read-only. The rebalancing of the kernel's red-black trees and
  the outcomes of the kernel's functions are parameters.
\<close>

section \<open>State\<close>

record dfl_cxl_cache_buffer_region =
  cr_flags :: u32
  cr_user_addr :: u64
  cr_length :: u64
  cr_pages :: "u64 list"        \<comment> \<open>page frame numbers\<close>
  cr_phys :: u64

record dfl_cxl_cache_region_info =
  ri_flags :: u32
  ri_size :: u64
  ri_offset :: u64

record dfl_cxl_cache =
  cx_opened :: bool
  cx_regions :: "dfl_cxl_cache_buffer_region tree"
  cx_locked_vm :: int
  cx_pinned :: int
  cx_writes :: "(u64 \<times> u64) list"       \<comment> \<open>offset and value of each write, in order\<close>
  cx_read_only :: "(u64 \<times> u64) list"    \<comment> \<open>areas of user memory, from and to\<close>

record cxl_env =
  ce_rinfo :: dfl_cxl_cache_region_info
  ce_mmio_start :: u64
  ce_kzalloc_ok :: bool
  ce_account_locked_vm :: "int \<Rightarrow> errno option"
  ce_kcalloc_ok :: "int \<Rightarrow> bool"
  ce_pin_user_pages_fast :: "u64 \<Rightarrow> int \<Rightarrow> bool \<Rightarrow> errno + u64 list"
  ce_vma_lookup :: "u64 \<Rightarrow> (u64 \<times> u64) option"
  ce_rb_insert_color :: "dfl_cxl_cache_buffer_region tree \<Rightarrow> dfl_cxl_cache_buffer_region tree"
  ce_rb_erase :: "dfl_cxl_cache_buffer_region \<Rightarrow> dfl_cxl_cache_buffer_region tree \<Rightarrow> dfl_cxl_cache_buffer_region tree"
  ce_remap :: "u64 \<Rightarrow> u64 \<Rightarrow> errno option"

abbreviation (input) DFL_CXL_CACHE_REGION_READ :: u32 where "DFL_CXL_CACHE_REGION_READ \<equiv> 1"
abbreviation (input) DFL_CXL_CACHE_REGION_WRITE :: u32 where "DFL_CXL_CACHE_REGION_WRITE \<equiv> 2"
abbreviation (input) DFL_CXL_CACHE_REGION_MMAP :: u32 where "DFL_CXL_CACHE_REGION_MMAP \<equiv> 4"
abbreviation (input) DFL_CXL_BUFFER_MAP_WRITABLE :: u32 where "DFL_CXL_BUFFER_MAP_WRITABLE \<equiv> 1"
abbreviation (input) DFL_ARRAY_MAX_SIZE :: nat where "DFL_ARRAY_MAX_SIZE \<equiv> 16"

definition dfl_cxl_cache_open :: "dfl_cxl_cache \<Rightarrow> dfl_cxl_cache ret" where
  "dfl_cxl_cache_open s = (if cx_opened s then (Some EBUSY, s) else (None, s\<lparr>cx_opened := True\<rparr>))"

section \<open>Pinning\<close>

text \<open>\<^verbatim>\<open>const int npages = PFN_DOWN(length)\<close>, and the same value as a \<^verbatim>\<open>long\<close>.\<close>

definition cxl_int_npages :: "u64 \<Rightarrow> int" where
  "cxl_int_npages len = sint (ucast (PFN_DOWN len) :: u32)"

definition cxl_long_npages :: "u64 \<Rightarrow> int" where
  "cxl_long_npages len = sint (PFN_DOWN len)"

text \<open>The pages of a region that is unpinned are never NULL: only pinned regions get here.\<close>

definition cxl_cache_unpin_pages :: "u64 \<Rightarrow> dfl_cxl_cache \<Rightarrow> dfl_cxl_cache" where
  "cxl_cache_unpin_pages len s =
     s\<lparr>cx_pinned := cx_pinned s - cxl_long_npages len, cx_locked_vm := cx_locked_vm s - cxl_long_npages len\<rparr>"

definition cxl_cache_check_continuous_pages :: "u64 list \<Rightarrow> u64 \<Rightarrow> bool" where
  "cxl_cache_check_continuous_pages pages len \<longleftrightarrow>
     list_all (\<lambda>i. pages ! i + 1 = pages ! (i + 1)) [0..<nat (cxl_int_npages len - 1)]"

definition cxl_cache_dma_pin_pages ::
  "cxl_env \<Rightarrow> dfl_cxl_cache_buffer_region \<Rightarrow> dfl_cxl_cache \<Rightarrow> (errno + dfl_cxl_cache_buffer_region) \<times> dfl_cxl_cache" where
  "cxl_cache_dma_pin_pages env region s =
     (let npages = cxl_int_npages (cr_length region)
      in case ce_account_locked_vm env npages of
           Some e \<Rightarrow> (Inl e, s)
         | None \<Rightarrow>
             let s = s\<lparr>cx_locked_vm := cx_locked_vm s + npages\<rparr>
             in if \<not> ce_kcalloc_ok env npages then (Inl ENOMEM, s\<lparr>cx_locked_vm := cx_locked_vm s - npages\<rparr>)
                else (case ce_pin_user_pages_fast env (cr_user_addr region) npages
                             (cr_flags region AND DFL_CXL_BUFFER_MAP_WRITABLE \<noteq> 0) of
                        Inl e \<Rightarrow> (Inl EFAULT, s\<lparr>cx_locked_vm := cx_locked_vm s - npages\<rparr>)
                      | Inr pages \<Rightarrow>
                          let n = int (length pages); s = s\<lparr>cx_pinned := cx_pinned s + n\<rparr>
                          in if n = npages then (Inr (region\<lparr>cr_pages := pages\<rparr>), s)
                             else
                               let s = (if n > 0 then s\<lparr>cx_pinned := cx_pinned s - n\<rparr> else s)
                               in (Inl EFAULT, s\<lparr>cx_locked_vm := cx_locked_vm s - npages\<rparr>)))"

section \<open>The tree\<close>

definition dma_region_check_user_addr :: "dfl_cxl_cache_buffer_region \<Rightarrow> u64 \<Rightarrow> u64 \<Rightarrow> bool" where
  "dma_region_check_user_addr region user_addr sz \<longleftrightarrow>
     (if sz = 0 \<and> cr_user_addr region \<noteq> user_addr then False
      else cr_user_addr region \<le> user_addr \<and> cr_length region + cr_user_addr region \<ge> user_addr + sz)"

fun cxl_tree_find :: "dfl_cxl_cache_buffer_region tree \<Rightarrow> u64 \<Rightarrow> u64 \<Rightarrow> dfl_cxl_cache_buffer_region option" where
  "cxl_tree_find \<langle>\<rangle> user_addr sz = None"
| "cxl_tree_find \<langle>l, region, r\<rangle> user_addr sz =
     (if dma_region_check_user_addr region user_addr sz then Some region
      else if user_addr < cr_user_addr region then cxl_tree_find l user_addr sz
      else if user_addr > cr_user_addr region then cxl_tree_find r user_addr sz
      else None)"

definition cxl_cache_dma_region_find :: "dfl_cxl_cache \<Rightarrow> u64 \<Rightarrow> u64 \<Rightarrow> dfl_cxl_cache_buffer_region option" where
  "cxl_cache_dma_region_find s user_addr sz = cxl_tree_find (cx_regions s) user_addr sz"

text \<open>The descent of \<^verbatim>\<open>cxl_cache_dma_region_add\<close> and \<^verbatim>\<open>rb_link_node\<close>; \<open>None\<close> is \<^verbatim>\<open>-EEXIST\<close>.\<close>

fun cxl_tree_link ::
  "dfl_cxl_cache_buffer_region \<Rightarrow> dfl_cxl_cache_buffer_region tree \<Rightarrow> dfl_cxl_cache_buffer_region tree option" where
  "cxl_tree_link region \<langle>\<rangle> = Some \<langle>\<langle>\<rangle>, region, \<langle>\<rangle>\<rangle>"
| "cxl_tree_link region \<langle>l, this, r\<rangle> =
     (if dma_region_check_user_addr this (cr_user_addr region) (cr_length region) then None
      else if cr_user_addr region < cr_user_addr this then map_option (\<lambda>l'. \<langle>l', this, r\<rangle>) (cxl_tree_link region l)
      else if cr_user_addr region > cr_user_addr this then map_option (\<lambda>r'. \<langle>l, this, r'\<rangle>) (cxl_tree_link region r)
      else None)"

definition cxl_cache_dma_region_add :: "cxl_env \<Rightarrow> dfl_cxl_cache_buffer_region \<Rightarrow> dfl_cxl_cache \<Rightarrow> dfl_cxl_cache ret" where
  "cxl_cache_dma_region_add env region s =
     (case cxl_tree_link region (cx_regions s) of
        None \<Rightarrow> (Some EEXIST, s)
      | Some t \<Rightarrow> (None, s\<lparr>cx_regions := ce_rb_insert_color env t\<rparr>))"

definition cxl_cache_dma_region_remove :: "cxl_env \<Rightarrow> dfl_cxl_cache_buffer_region \<Rightarrow> dfl_cxl_cache \<Rightarrow> dfl_cxl_cache" where
  "cxl_cache_dma_region_remove env region s = s\<lparr>cx_regions := ce_rb_erase env region (cx_regions s)\<rparr>"

section \<open>Device file\<close>

text \<open>The area of user memory that holds the buffer is made read-only, as a whole.\<close>

definition cxl_cache_set_region_read_only :: "cxl_env \<Rightarrow> dfl_cxl_cache_buffer_region \<Rightarrow> dfl_cxl_cache \<Rightarrow> dfl_cxl_cache ret" where
  "cxl_cache_set_region_read_only env region s =
     (case ce_vma_lookup env (cr_user_addr region) of
        None \<Rightarrow> (Some EINVAL, s)
      | Some vma \<Rightarrow> (None, s\<lparr>cx_read_only := vma # cx_read_only s\<rparr>))"

text \<open>Arguments of the ioctls: the structure in user memory, \<open>None\<close> if it cannot be read.\<close>

record dfl_cxl_cache_buffer_map =
  bm_argsz :: u32
  bm_flags :: u32
  bm_user_addr :: u64
  bm_length :: u64
  bm_csr_array :: "u64 list"    \<comment> \<open>16 of them\<close>

definition write_csrs :: "cxl_env \<Rightarrow> u64 list \<Rightarrow> u64 \<Rightarrow> dfl_cxl_cache \<Rightarrow> dfl_cxl_cache" where
  "write_csrs env csr_array v s =
     foldl (\<lambda>s i. let csr = csr_array ! i
                  in if csr \<noteq> 0 \<and> csr < ri_size (ce_rinfo env) then s\<lparr>cx_writes := cx_writes s @ [(csr, v)]\<rparr> else s)
       s [0..<DFL_ARRAY_MAX_SIZE]"

text \<open>
  In the source the physical address is stored in the region behind the pointer that is in the tree; here it
  is part of what is added. The size of the arguments is 152 bytes for both ioctls.
\<close>

definition cxl_cache_ioctl_numa_buffer_map ::
  "cxl_env \<Rightarrow> dfl_cxl_cache_buffer_map option \<Rightarrow> dfl_cxl_cache \<Rightarrow> dfl_cxl_cache ret" where
  "cxl_cache_ioctl_numa_buffer_map env arg s =
     (case arg of
        None \<Rightarrow> (Some EFAULT, s)
      | Some dma_map \<Rightarrow>
          if bm_argsz dma_map < 152 then (Some EINVAL, s)
          else if \<not> page_aligned (bm_user_addr dma_map) \<or> \<not> page_aligned (bm_length dma_map) \<or> bm_length dma_map = 0
          then (Some EINVAL, s)
          else if bm_user_addr dma_map + bm_length dma_map < bm_user_addr dma_map then (Some EINVAL, s)
          else if \<not> ce_kzalloc_ok env then (Some ENOMEM, s)
          else
            let region = \<lparr>cr_flags = bm_flags dma_map, cr_user_addr = bm_user_addr dma_map, cr_length = bm_length dma_map,
                          cr_pages = [], cr_phys = 0\<rparr>
            in (case cxl_cache_dma_pin_pages env region s of
                  (Inl e, s) \<Rightarrow> (Some e, s)
                | (Inr region, s) \<Rightarrow>
                    if \<not> cxl_cache_check_continuous_pages (cr_pages region) (cr_length region)
                    then (Some EINVAL, cxl_cache_unpin_pages (cr_length region) s)
                    else
                      (case (if cr_flags region AND DFL_CXL_BUFFER_MAP_WRITABLE = 0
                             then cxl_cache_set_region_read_only env region s else (None, s)) of
                         (Some e, s) \<Rightarrow> (Some e, cxl_cache_unpin_pages (cr_length region) s)
                       | (None, s) \<Rightarrow>
                           let region = region\<lparr>cr_phys := push_bit 12 (cr_pages region ! 0)\<rparr>
                           in (case cxl_cache_dma_region_add env region s of
                                 (Some e, s) \<Rightarrow> (Some e, cxl_cache_unpin_pages (cr_length region) s)
                               | (None, s) \<Rightarrow> (None, write_csrs env (bm_csr_array dma_map) (cr_phys region) s)))))"

definition cxl_cache_ioctl_numa_buffer_unmap ::
  "cxl_env \<Rightarrow> dfl_cxl_cache_buffer_map option \<Rightarrow> dfl_cxl_cache \<Rightarrow> dfl_cxl_cache ret" where
  "cxl_cache_ioctl_numa_buffer_unmap env arg s =
     (case arg of
        None \<Rightarrow> (Some EFAULT, s)
      | Some dma_unmap \<Rightarrow>
          if bm_argsz dma_unmap < 152 then (Some EINVAL, s)
          else
            (case cxl_cache_dma_region_find s (bm_user_addr dma_unmap) (bm_length dma_unmap) of
               None \<Rightarrow> (Some EINVAL, s)
             | Some region \<Rightarrow>
                 let s = cxl_cache_unpin_pages (cr_length region) (cxl_cache_dma_region_remove env region s)
                 in (None, write_csrs env (bm_csr_array dma_unmap) 0 s)))"

text \<open>Mapping the registers: what is asked for, and the page frame and size that are mapped.\<close>

record cxl_vma =
  cv_start :: u64
  cv_end :: u64
  cv_pgoff :: u64
  cv_shared :: bool
  cv_read :: bool
  cv_write :: bool

definition dfl_cxl_cache_mmap :: "cxl_env \<Rightarrow> cxl_vma \<Rightarrow> errno + u64 \<times> u64" where
  "dfl_cxl_cache_mmap env vma =
     (let sz = cv_end vma - cv_start vma; flags = ri_flags (ce_rinfo env)
      in if \<not> cv_shared vma then Inl EINVAL
         else if flags AND DFL_CXL_CACHE_REGION_MMAP = 0 then Inl EINVAL
         else if cv_read vma \<and> flags AND DFL_CXL_CACHE_REGION_READ = 0 then Inl EPERM
         else if cv_write vma \<and> flags AND DFL_CXL_CACHE_REGION_WRITE = 0 then Inl EPERM
         else
           let offset = push_bit 12 (cv_pgoff vma);
               pfn = PFN_DOWN (ce_mmio_start env + (offset - ri_offset (ce_rinfo env)))
           in (case ce_remap env pfn sz of Some e \<Rightarrow> Inl e | None \<Rightarrow> Inr (pfn, sz)))"

text \<open>The regions are visited in order.\<close>

definition cxl_cache_dma_region_destroy :: "dfl_cxl_cache \<Rightarrow> dfl_cxl_cache" where
  "cxl_cache_dma_region_destroy s =
     (foldl (\<lambda>s region. cxl_cache_unpin_pages (cr_length region) s) s (inorder (cx_regions s)))\<lparr>cx_regions := \<langle>\<rangle>\<rparr>"

definition dfl_cxl_cache_release :: "dfl_cxl_cache \<Rightarrow> dfl_cxl_cache" where
  "dfl_cxl_cache_release s = (cxl_cache_dma_region_destroy s)\<lparr>cx_opened := False\<rparr>"

definition cxl_cache_ioctl_get_region_info ::
  "cxl_env \<Rightarrow> bool \<Rightarrow> u32 option \<Rightarrow> errno + u32 \<times> dfl_cxl_cache_region_info" where
  "cxl_cache_ioctl_get_region_info env copied arg =
     (case arg of
        None \<Rightarrow> Inl EFAULT
      | Some argsz \<Rightarrow>
          if argsz < 24 then Inl EINVAL else if \<not> copied then Inl EFAULT else Inr (argsz, ce_rinfo env))"

text \<open>
  The ioctls with their arguments. The result is the value that is returned, beside the information on the
  region that one of them copies to the user.
\<close>

datatype cxl_cmd =
    DFL_FPGA_GET_API_VERSION
  | DFL_FPGA_CHECK_EXTENSION
  | DFL_CXL_CACHE_GET_REGION_INFO bool "u32 option"
  | DFL_CXL_CACHE_NUMA_BUFFER_MAP "dfl_cxl_cache_buffer_map option"
  | DFL_CXL_CACHE_NUMA_BUFFER_UNMAP "dfl_cxl_cache_buffer_map option"
  | CXL_OTHER_CMD

text \<open>The number of the first ioctl, \<^verbatim>\<open>_IO(0xB6, 0)\<close>.\<close>

abbreviation (input) API_VERSION_CMD :: int where "API_VERSION_CMD \<equiv> 0xB600"

definition dfl_cxl_cache_ioctl ::
  "cxl_env \<Rightarrow> cxl_cmd \<Rightarrow> dfl_cxl_cache \<Rightarrow> ((errno + int) \<times> (u32 \<times> dfl_cxl_cache_region_info) option) \<times> dfl_cxl_cache" where
  "dfl_cxl_cache_ioctl env cmd s =
     (case cmd of
        DFL_FPGA_GET_API_VERSION \<Rightarrow> ((Inr API_VERSION_CMD, None), s)
      | DFL_FPGA_CHECK_EXTENSION \<Rightarrow> ((Inr 0, None), s)
      | DFL_CXL_CACHE_GET_REGION_INFO copied arg \<Rightarrow>
          (case cxl_cache_ioctl_get_region_info env copied arg of
             Inl e \<Rightarrow> ((Inl e, None), s) | Inr info \<Rightarrow> ((Inr 0, Some info), s))
      | DFL_CXL_CACHE_NUMA_BUFFER_MAP arg \<Rightarrow>
          (case cxl_cache_ioctl_numa_buffer_map env arg s of
             (Some e, s) \<Rightarrow> ((Inl e, None), s) | (None, s) \<Rightarrow> ((Inr 0, None), s))
      | DFL_CXL_CACHE_NUMA_BUFFER_UNMAP arg \<Rightarrow>
          (case cxl_cache_ioctl_numa_buffer_unmap env arg s of
             (Some e, s) \<Rightarrow> ((Inl e, None), s) | (None, s) \<Rightarrow> ((Inr 0, None), s))
      | CXL_OTHER_CMD \<Rightarrow> ((Inl EINVAL, None), s))"

section \<open>Binding\<close>

text \<open>What all devices of the driver share, and the outcomes while one is probed.\<close>

record cxl_class =
  cc_class :: bool
  cc_devt :: bool               \<comment> \<open>a range of device numbers is held\<close>
  cc_devices :: int
  cc_nodes :: "int list"        \<comment> \<open>minor numbers of the devices that exist\<close>
  cc_cdevs :: "int list"

record cxl_probe_env =
  cp_class_create :: "errno option"
  cp_alloc_chrdev :: "errno option"
  cp_ioremap :: "errno option"
  cp_kzalloc :: bool
  cp_device_create :: "errno option"
  cp_cdev_add :: "errno option"
  cp_mmio_size :: u64

definition cxl_cache_chardev_init ::
  "cxl_probe_env \<Rightarrow> cxl_class \<Rightarrow> errno option \<times> (int \<times> dfl_cxl_cache_region_info) \<times> cxl_class" where
  "cxl_cache_chardev_init env s =
     (let i = cc_devices s; s = s\<lparr>cc_devices := cc_devices s + 1\<rparr>;
          rinfo = \<lparr>ri_flags = DFL_CXL_CACHE_REGION_READ OR DFL_CXL_CACHE_REGION_WRITE OR DFL_CXL_CACHE_REGION_MMAP,
                   ri_size = cp_mmio_size env, ri_offset = 0\<rparr>
      in case cp_device_create env of
           Some e \<Rightarrow> (Some e, (i, rinfo), s)
         | None \<Rightarrow>
             let s = s\<lparr>cc_nodes := i # cc_nodes s\<rparr>
             in (case cp_cdev_add env of
                   Some e \<Rightarrow> (Some e, (i, rinfo), s)
                 | None \<Rightarrow> (None, (i, rinfo), s\<lparr>cc_cdevs := i # cc_cdevs s\<rparr>)))"

definition dfl_cxl_cache_probe ::
  "cxl_probe_env \<Rightarrow> cxl_class \<Rightarrow> (errno + int \<times> dfl_cxl_cache_region_info) \<times> cxl_class" where
  "dfl_cxl_cache_probe env s =
     (case (if cc_class s then (None, s)
            else (case cp_class_create env of Some e \<Rightarrow> (Some e, s) | None \<Rightarrow> (None, s\<lparr>cc_class := True\<rparr>))) of
        (Some e, s) \<Rightarrow> (Inl e, s)
      | (None, s) \<Rightarrow>
          (case (if cc_devt s then (None, s)
                 else (case cp_alloc_chrdev env of Some e \<Rightarrow> (Some e, s) | None \<Rightarrow> (None, s\<lparr>cc_devt := True\<rparr>))) of
             (Some e, s) \<Rightarrow> (Inl e, s)
           | (None, s) \<Rightarrow>
               (case cp_ioremap env of
                  Some e \<Rightarrow> (Inl e, s)
                | None \<Rightarrow>
                    if \<not> cp_kzalloc env then (Inl ENOMEM, s)
                    else (case cxl_cache_chardev_init env s of
                            (Some e, _, s) \<Rightarrow> (Inl e, s)
                          | (None, d, s) \<Rightarrow> (Inr d, s)))))"

text \<open>Destroying the device puts its last reference, and that deletes the character device.\<close>

definition dfl_cxl_cache_remove :: "int \<Rightarrow> cxl_class \<Rightarrow> cxl_class" where
  "dfl_cxl_cache_remove i s =
     (let s = s\<lparr>cc_nodes := remove1 i (cc_nodes s), cc_cdevs := remove1 i (cc_cdevs s)\<rparr>;
          n = cc_devices s; s = s\<lparr>cc_devices := n - 1\<rparr>
      in if n = 0 then s\<lparr>cc_class := False, cc_devt := False\<rparr> else s)"

end
