(* ===== verification/Dfl_Cxl_Props.thy ===== *)
theory Dfl_Cxl_Props
  imports Dfl_Cxl Afu_Dma_Props
begin

unbundle bit_operations_syntax

text \<open>
  The device file of the host exerciser: what is locked and pinned, whatever users do with it; what they can
  map; and what the registers of the device hold when buffers are gone.
\<close>

section \<open>Buffers\<close>

text \<open>What the code relies on of the kernel's red-black trees.\<close>

definition cxl_rb_ok :: "cxl_env \<Rightarrow> bool" where
  "cxl_rb_ok env \<longleftrightarrow> (\<forall>t. inorder (ce_rb_insert_color env t) = inorder t) \<and>
     (\<forall>t r. r \<in> set_tree t \<longrightarrow> inorder (ce_rb_erase env r t) = remove1 r (inorder t))"

lemma cxl_link_mset: "cxl_tree_link r t = Some t' \<Longrightarrow> mset (inorder t') = add_mset r (mset (inorder t))"
  by (induction t arbitrary: t') (auto split: if_splits)

lemma cxl_find_sound: "cxl_tree_find t a sz = Some r \<Longrightarrow> r \<in> set_tree t \<and> dma_region_check_user_addr r a sz"
  by (induction t) (auto split: if_splits)

lemma cxl_npages_small:
  assumes "small_len len"
  shows "cxl_int_npages len = cxl_long_npages len"
  using npages_small [of "region0\<lparr>r_length := len\<rparr>"] assms
  by (simp add: cxl_int_npages_def cxl_long_npages_def int_npages_def long_npages_def)

text \<open>
  A buffer that is held: its pages follow each other in memory, there are as many as its length says, and
  the address that is given to the device is the one of the first.
\<close>

definition cxl_buffer_ok :: "dfl_cxl_cache_buffer_region \<Rightarrow> bool" where
  "cxl_buffer_ok r \<longleftrightarrow> int (length (cr_pages r)) = cxl_long_npages (cr_length r) \<and>
     (\<forall>i. Suc i < length (cr_pages r) \<longrightarrow> cr_pages r ! Suc i = cr_pages r ! i + 1) \<and>
     cr_phys r = push_bit 12 (cr_pages r ! 0)"

definition cxl_inv :: "int \<Rightarrow> int \<Rightarrow> dfl_cxl_cache \<Rightarrow> bool" where
  "cxl_inv locked pins s \<longleftrightarrow>
     (let pages = sum_mset (image_mset (\<lambda>r. int (length (cr_pages r))) (mset (inorder (cx_regions s))))
      in cx_locked_vm s = locked + pages \<and> cx_pinned s = pins + pages \<and>
         (\<forall>r \<in> set_tree (cx_regions s). cxl_buffer_ok r) \<and> (\<not> cx_opened s \<longrightarrow> cx_regions s = \<langle>\<rangle>))"

lemma write_csrs_frame:
  "cx_opened (write_csrs env cs v s) = cx_opened s" "cx_regions (write_csrs env cs v s) = cx_regions s"
  "cx_locked_vm (write_csrs env cs v s) = cx_locked_vm s" "cx_pinned (write_csrs env cs v s) = cx_pinned s"
proof -
  have "(let s' = foldl (\<lambda>s i. let csr = cs ! i in if csr \<noteq> 0 \<and> csr < ri_size (ce_rinfo env)
      then s\<lparr>cx_writes := cx_writes s @ [(csr, v)]\<rparr> else s) s is'
    in cx_opened s' = cx_opened s \<and> cx_regions s' = cx_regions s \<and> cx_locked_vm s' = cx_locked_vm s \<and>
       cx_pinned s' = cx_pinned s)" for is'
    by (induction is' arbitrary: s) (simp_all add: Let_def)
  then show "cx_opened (write_csrs env cs v s) = cx_opened s" "cx_regions (write_csrs env cs v s) = cx_regions s"
    "cx_locked_vm (write_csrs env cs v s) = cx_locked_vm s" "cx_pinned (write_csrs env cs v s) = cx_pinned s"
    unfolding write_csrs_def by (simp_all add: Let_def)
qed

lemma pin_buffer_err: "cxl_cache_dma_pin_pages env r s = (Inl e, s') \<Longrightarrow> s' = s"
  by (auto simp: cxl_cache_dma_pin_pages_def Let_def split: option.splits if_splits sum.splits)

lemma pin_buffer_ok:
  assumes "cxl_cache_dma_pin_pages env r s = (Inr r', s')" and "small_len (cr_length r)"
  shows "\<exists>pages. r' = r\<lparr>cr_pages := pages\<rparr> \<and> int (length pages) = cxl_long_npages (cr_length r) \<and>
     s' = s\<lparr>cx_locked_vm := cx_locked_vm s + int (length pages), cx_pinned := cx_pinned s + int (length pages)\<rparr>"
  using assms cxl_npages_small [OF assms(2)]
  by (auto simp: cxl_cache_dma_pin_pages_def Let_def split: option.splits if_splits sum.splits)

lemma continuous_buffer:
  assumes "cxl_cache_check_continuous_pages pages len" and "int (length pages) = cxl_long_npages len" and "small_len len"
    and "Suc i < length pages"
  shows "pages ! Suc i = pages ! i + 1"
  using assms cxl_npages_small [OF assms(3)] by (auto simp: cxl_cache_check_continuous_pages_def list_all_iff)

text \<open>The two outcomes of mapping: nothing is held, or one buffer more. User memory may have become read-only in either.\<close>

lemma cxl_map_cases:
  assumes run: "cxl_cache_ioctl_numa_buffer_map env (Some bm) s = (res, s')" and small: "small_len (bm_length bm)"
  obtains (failed) e ro where "res = Some e" "s' = s\<lparr>cx_read_only := ro\<rparr>"
  | (mapped) r t ro where "res = None" "cxl_tree_link r (cx_regions s) = Some t" "cxl_buffer_ok r"
      "cr_user_addr r = bm_user_addr bm" "cr_length r = bm_length bm"
      "s' = write_csrs env (bm_csr_array bm) (cr_phys r)
        (s\<lparr>cx_locked_vm := cx_locked_vm s + int (length (cr_pages r)), cx_pinned := cx_pinned s + int (length (cr_pages r)),
           cx_read_only := ro, cx_regions := ce_rb_insert_color env t\<rparr>)"
proof (cases "\<not> bm_argsz bm < 152 \<and> page_aligned (bm_user_addr bm) \<and> page_aligned (bm_length bm) \<and> bm_length bm \<noteq> 0 \<and>
    \<not> bm_user_addr bm + bm_length bm < bm_user_addr bm \<and> ce_kzalloc_ok env")
  case False
  then obtain e where "res = Some e" "s' = s" using run
    by (auto simp: cxl_cache_ioctl_numa_buffer_map_def split: if_splits)
  then show thesis by (intro failed [of e "cx_read_only s"]) simp_all
next
  case guards: True
  obtain r0 where r0: "r0 = \<lparr>cr_flags = bm_flags bm, cr_user_addr = bm_user_addr bm, cr_length = bm_length bm, cr_pages = [],
      cr_phys = 0\<rparr>" by simp
  obtain p s1 where pin: "cxl_cache_dma_pin_pages env r0 s = (p, s1)" by force
  have run': "(case (p, s1) of (Inl e, s) \<Rightarrow> (Some e, s)
    | (Inr region, s) \<Rightarrow>
        if \<not> cxl_cache_check_continuous_pages (cr_pages region) (cr_length region)
        then (Some EINVAL, cxl_cache_unpin_pages (cr_length region) s)
        else (case (if cr_flags region AND 1 = 0 then cxl_cache_set_region_read_only env region s else (None, s)) of
           (Some e, s) \<Rightarrow> (Some e, cxl_cache_unpin_pages (cr_length region) s)
         | (None, s) \<Rightarrow>
             let region = region\<lparr>cr_phys := push_bit 12 (cr_pages region ! 0)\<rparr>
             in (case cxl_cache_dma_region_add env region s of
                   (Some e, s) \<Rightarrow> (Some e, cxl_cache_unpin_pages (cr_length region) s)
                 | (None, s) \<Rightarrow> (None, write_csrs env (bm_csr_array bm) (cr_phys region) s)))) = (res, s')"
    using run guards unfolding cxl_cache_ioctl_numa_buffer_map_def
    by (simp add: pin Let_def flip: r0 linorder_not_le split del: if_split)
  show thesis
  proof (cases p)
    case (Inl e)
    with run' pin_buffer_err [of env r0 s e s1] pin have "res = Some e" "s' = s" by auto
    then show thesis by (intro failed [of e "cx_read_only s"]) simp_all
  next
    case (Inr r1)
    have "small_len (cr_length r0)" using small by (simp add: r0)
    with pin_buffer_ok [of env r0 s r1 s1] pin Inr obtain pages where r1: "r1 = r0\<lparr>cr_pages := pages\<rparr>"
      and n: "int (length pages) = cxl_long_npages (bm_length bm)"
      and s1: "s1 = s\<lparr>cx_locked_vm := cx_locked_vm s + int (length pages), cx_pinned := cx_pinned s + int (length pages)\<rparr>"
      by (auto simp: r0)
    have len: "cr_length r1 = bm_length bm" "cr_pages r1 = pages" by (simp_all add: r1 r0)
    have un: "cxl_cache_unpin_pages (bm_length bm) (s1\<lparr>cx_read_only := ro\<rparr>) = s\<lparr>cx_read_only := ro\<rparr>" for ro
      by (simp add: s1 cxl_cache_unpin_pages_def n)
    show thesis
    proof (cases "cxl_cache_check_continuous_pages pages (bm_length bm)")
      case False
      with run' Inr len un [of "cx_read_only s1"] have "res = Some EINVAL" "s' = s\<lparr>cx_read_only := cx_read_only s1\<rparr>" by simp_all
      then show thesis by (rule failed)
    next
      case cont: True
      obtain q s2 where ro: "(if cr_flags r1 AND 1 = 0 then cxl_cache_set_region_read_only env r1 s1 else (None, s1)) = (q, s2)"
        by force
      then obtain m where s2: "s2 = s1\<lparr>cx_read_only := m\<rparr>"
        by (auto simp: cxl_cache_set_region_read_only_def split: if_splits option.splits intro: that [of "cx_read_only s1"])
      show thesis
      proof (cases q)
        case (Some e)
        with run' Inr len cont ro un s2 have "res = Some e" "s' = s\<lparr>cx_read_only := m\<rparr>" by simp_all
        then show thesis by (rule failed)
      next
        case None
        let ?r = "r1\<lparr>cr_phys := push_bit 12 (pages ! 0)\<rparr>"
        have regs: "cx_regions s2 = cx_regions s" by (simp add: s2 s1)
        show thesis
        proof (cases "cxl_tree_link ?r (cx_regions s)")
          case None': None
          with run' Inr len cont ro None regs un s2 have "res = Some EEXIST" "s' = s\<lparr>cx_read_only := m\<rparr>"
            by (simp_all add: cxl_cache_dma_region_add_def)
          then show thesis by (rule failed)
        next
          case (Some t)
          have "cxl_buffer_ok ?r"
            using n continuous_buffer [OF cont n small] by (simp add: cxl_buffer_ok_def len)
          moreover from run' Inr len cont ro None regs Some have "res = None"
            and "s' = write_csrs env (bm_csr_array bm) (cr_phys ?r) (s2\<lparr>cx_regions := ce_rb_insert_color env t\<rparr>)"
            by (simp_all add: cxl_cache_dma_region_add_def)
          ultimately show thesis using Some len
            by (intro mapped [of ?r t m]) (simp_all add: s2 s1 r1 r0)
        qed
      qed
    qed
  qed
qed

lemma cxl_map_inv:
  assumes "cxl_rb_ok env" and "cxl_inv locked pins s" and "cx_opened s" and "small_len (bm_length bm)"
  shows "cxl_inv locked pins (snd (cxl_cache_ioctl_numa_buffer_map env (Some bm) s))"
proof -
  obtain res s' where run: "cxl_cache_ioctl_numa_buffer_map env (Some bm) s = (res, s')" by force
  show ?thesis using run assms(4)
  proof (cases rule: cxl_map_cases)
    case (failed e ro)
    with run assms(2) show ?thesis by (simp add: cxl_inv_def Let_def)
  next
    case (mapped r t ro)
    from cxl_link_mset [OF mapped(2)] assms(1)
    have m: "mset (inorder (ce_rb_insert_color env t)) = add_mset r (mset (inorder (cx_regions s)))"
      by (simp add: cxl_rb_ok_def)
    from arg_cong [OF this, of set_mset]
    have "set_tree (ce_rb_insert_color env t) = insert r (set_tree (cx_regions s))" by simp
    with run mapped m assms(2,3) show ?thesis by (simp add: cxl_inv_def Let_def write_csrs_frame)
  qed
qed

lemma cxl_unmap_inv:
  assumes "cxl_rb_ok env" and "cxl_inv locked pins s" and "cx_opened s"
  shows "cxl_inv locked pins (snd (cxl_cache_ioctl_numa_buffer_unmap env (Some bm) s))"
proof (cases "bm_argsz bm < 152 \<or> cxl_cache_dma_region_find s (bm_user_addr bm) (bm_length bm) = None")
  case True
  with assms(2) show ?thesis by (auto simp: cxl_cache_ioctl_numa_buffer_unmap_def)
next
  case False
  then obtain r where f: "cxl_cache_dma_region_find s (bm_user_addr bm) (bm_length bm) = Some r"
    and a: "\<not> bm_argsz bm < 152" by auto
  from f have r: "r \<in> set_tree (cx_regions s)" using cxl_find_sound by (auto simp: cxl_cache_dma_region_find_def)
  with assms(1) have o: "inorder (ce_rb_erase env r (cx_regions s)) = remove1 r (inorder (cx_regions s))"
    by (simp add: cxl_rb_ok_def)
  have "r \<in># mset (inorder (cx_regions s))" using r by simp
  then have split: "mset (inorder (cx_regions s)) = add_mset r (mset (inorder (ce_rb_erase env r (cx_regions s))))"
    by (simp add: o)
  have sub: "set_tree (ce_rb_erase env r (cx_regions s)) \<subseteq> set_tree (cx_regions s)"
    unfolding set_inorder [symmetric] o by (rule set_remove1_subset)
  have n: "int (length (cr_pages r)) = cxl_long_npages (cr_length r)"
    using assms(2) r by (auto simp: cxl_inv_def Let_def cxl_buffer_ok_def)
  show ?thesis
    using assms(2,3) f a sub n arg_cong [OF split, of "\<lambda>m. sum_mset (image_mset (\<lambda>r. int (length (cr_pages r))) m)"]
    by (auto simp: cxl_cache_ioctl_numa_buffer_unmap_def cxl_inv_def Let_def write_csrs_frame cxl_cache_unpin_pages_def
        cxl_cache_dma_region_remove_def)
qed

lemma destroy_frame:
  "foldl (\<lambda>s region. cxl_cache_unpin_pages (cr_length region) s) s rs =
     s\<lparr>cx_pinned := cx_pinned s - sum_list (map (\<lambda>r. cxl_long_npages (cr_length r)) rs),
       cx_locked_vm := cx_locked_vm s - sum_list (map (\<lambda>r. cxl_long_npages (cr_length r)) rs)\<rparr>"
  by (induction rs arbitrary: s) (simp_all add: cxl_cache_unpin_pages_def)

lemma cxl_release_inv:
  assumes "cxl_inv locked pins s"
  shows "cxl_inv locked pins (dfl_cxl_cache_release s)"
proof -
  have "map (\<lambda>r. cxl_long_npages (cr_length r)) (inorder (cx_regions s)) = map (\<lambda>r. int (length (cr_pages r))) (inorder (cx_regions s))"
    using assms by (auto simp: cxl_inv_def Let_def cxl_buffer_ok_def)
  from arg_cong [OF this, of sum_list]
  have "sum_mset (image_mset (\<lambda>r. int (length (cr_pages r))) (mset (inorder (cx_regions s)))) =
      sum_list (map (\<lambda>r. cxl_long_npages (cr_length r)) (inorder (cx_regions s)))"
    by (simp only: mset_map [symmetric] sum_mset_sum_list)
  with assms show ?thesis
    by (simp add: cxl_inv_def Let_def dfl_cxl_cache_release_def cxl_cache_dma_region_destroy_def destroy_frame)
qed

text \<open>
  What users can do with the device file, with the outcomes of the kernel different each time; \<open>may\<close> is what
  is known of their commands: nothing (\<open>any_cmd\<close>), or that the buffers they map are smaller than 8 TB, so
  that the count of their pages fits an \<^verbatim>\<open>int\<close> (\<open>small_cmd\<close>).
\<close>

definition any_cmd :: "cxl_cmd \<Rightarrow> bool" where
  "any_cmd cmd \<longleftrightarrow> True"

definition small_cmd :: "cxl_cmd \<Rightarrow> bool" where
  "small_cmd cmd \<longleftrightarrow> (case cmd of DFL_CXL_CACHE_NUMA_BUFFER_MAP (Some bm) \<Rightarrow> small_len (bm_length bm) | _ \<Rightarrow> True)"

inductive cxl_step :: "(cxl_cmd \<Rightarrow> bool) \<Rightarrow> dfl_cxl_cache \<Rightarrow> dfl_cxl_cache \<Rightarrow> bool" for may where
  open_file: "cxl_step may s (snd (dfl_cxl_cache_open s))"
| ioctl: "cxl_rb_ok env \<Longrightarrow> cx_opened s \<Longrightarrow> may cmd \<Longrightarrow> cxl_step may s (snd (dfl_cxl_cache_ioctl env cmd s))"
| release: "cx_opened s \<Longrightarrow> cxl_step may s (dfl_cxl_cache_release s)"

lemma ioctl_inv:
  assumes "cxl_rb_ok env" "cx_opened s" "small_cmd cmd" "cxl_inv locked pins s"
  shows "cxl_inv locked pins (snd (dfl_cxl_cache_ioctl env cmd s))"
proof (cases cmd)
  case (DFL_CXL_CACHE_NUMA_BUFFER_MAP arg)
  obtain res s' where run: "cxl_cache_ioctl_numa_buffer_map env arg s = (res, s')" by force
  have "cxl_inv locked pins s'"
  proof (cases arg)
    case (Some bm)
    with cxl_map_inv [OF assms(1,4,2), of bm] run assms(3) DFL_CXL_CACHE_NUMA_BUFFER_MAP show ?thesis
      by (simp add: small_cmd_def)
  qed (use run assms(4) in \<open>simp add: cxl_cache_ioctl_numa_buffer_map_def\<close>)
  with run DFL_CXL_CACHE_NUMA_BUFFER_MAP show ?thesis by (cases res) (simp_all add: dfl_cxl_cache_ioctl_def)
next
  case (DFL_CXL_CACHE_NUMA_BUFFER_UNMAP arg)
  obtain res s' where run: "cxl_cache_ioctl_numa_buffer_unmap env arg s = (res, s')" by force
  have "cxl_inv locked pins s'"
  proof (cases arg)
    case (Some bm)
    with cxl_unmap_inv [OF assms(1,4,2), of bm] run show ?thesis by simp
  qed (use run assms(4) in \<open>simp add: cxl_cache_ioctl_numa_buffer_unmap_def\<close>)
  with run DFL_CXL_CACHE_NUMA_BUFFER_UNMAP show ?thesis by (cases res) (simp_all add: dfl_cxl_cache_ioctl_def)
qed (use assms(4) in \<open>auto simp: dfl_cxl_cache_ioctl_def split: sum.split\<close>)

lemma cxl_step_inv: "cxl_step small_cmd s s' \<Longrightarrow> cxl_inv locked pins s \<Longrightarrow> cxl_inv locked pins s'"
proof (induction rule: cxl_step.induct)
  case (open_file s)
  then show ?case by (simp add: dfl_cxl_cache_open_def cxl_inv_def Let_def)
qed (simp_all add: ioctl_inv cxl_release_inv)

text \<open>
  C31. While each buffer that users map is below 8 TB (\<open>small_cmd\<close>), whatever else they do with the device
  file, exactly the pages of the buffers it holds are locked and pinned; these follow each other in memory,
  and the address that the driver gave to the device is that of the first. While the file is closed no
  buffer is held, so all locks and pins are given back. Of larger buffers fewer pages are pinned than are
  given back: \<open>large_buffer_unbalanced\<close> below.
\<close>

theorem cxl_accounts_balanced:
  assumes "(cxl_step small_cmd)\<^sup>*\<^sup>* s0 s" and "\<not> cx_opened s0" and "cx_regions s0 = \<langle>\<rangle>"
  shows "cx_locked_vm s = cx_locked_vm s0 + sum_list (map (\<lambda>r. int (length (cr_pages r))) (inorder (cx_regions s))) \<and>
    cx_pinned s = cx_pinned s0 + sum_list (map (\<lambda>r. int (length (cr_pages r))) (inorder (cx_regions s))) \<and>
    (\<forall>r \<in> set_tree (cx_regions s). cxl_buffer_ok r) \<and> (\<not> cx_opened s \<longrightarrow> cx_regions s = \<langle>\<rangle>)"
proof -
  have "cxl_inv (cx_locked_vm s0) (cx_pinned s0) s"
    using assms(1)
  proof (induction rule: rtranclp_induct)
    case base
    from assms(2,3) show ?case by (simp add: cxl_inv_def)
  qed (rule cxl_step_inv)
  then show ?thesis by (simp add: cxl_inv_def Let_def sum_mset_sum_list flip: mset_map)
qed

text \<open>A device of one page of registers, on a machine that grants every request; pages follow each other.\<close>

definition cxl_env0 :: cxl_env where
  "cxl_env0 = \<lparr>ce_rinfo = \<lparr>ri_flags = 7, ri_size = 0x1000, ri_offset = 0\<rparr>, ce_mmio_start = 0xFE000000, ce_kzalloc_ok = True,
     ce_account_locked_vm = \<lambda>_. None, ce_kcalloc_ok = \<lambda>_. True,
     ce_pin_user_pages_fast = \<lambda>addr n _. Inr (map (\<lambda>k. PFN_DOWN addr + of_nat k) [0..<nat n]),
     ce_vma_lookup = \<lambda>a. Some (a, a + 0x1000), ce_rb_insert_color = \<lambda>t. t,
     ce_rb_erase = \<lambda>r t. tree_of (remove1 r (inorder t)), ce_remap = \<lambda>_ _. None\<rparr>"

definition cxl_s0 :: dfl_cxl_cache where
  "cxl_s0 = \<lparr>cx_opened = False, cx_regions = \<langle>\<rangle>, cx_locked_vm = 0, cx_pinned = 0, cx_writes = [], cx_read_only = []\<rparr>"

definition cxl_map0 :: "u64 list \<Rightarrow> dfl_cxl_cache_buffer_map" where
  "cxl_map0 csrs = \<lparr>bm_argsz = 152, bm_flags = 1, bm_user_addr = 0x7000, bm_length = 0x2000, bm_csr_array = csrs\<rparr>"

definition cxl_mapped0 :: dfl_cxl_cache where
  "cxl_mapped0 = snd (dfl_cxl_cache_ioctl cxl_env0 (DFL_CXL_CACHE_NUMA_BUFFER_MAP (Some (cxl_map0 (0x100 # replicate 15 0))))
     (snd (dfl_cxl_cache_open cxl_s0)))"

lemma cxl_mapped0_run: "(cxl_step small_cmd)\<^sup>*\<^sup>* cxl_s0 cxl_mapped0"
proof -
  have "cxl_step small_cmd cxl_s0 (snd (dfl_cxl_cache_open cxl_s0))" by (rule cxl_step.open_file)
  moreover have "cxl_step small_cmd (snd (dfl_cxl_cache_open cxl_s0)) cxl_mapped0"
    unfolding cxl_mapped0_def
    by (rule cxl_step.ioctl)
      (simp_all add: cxl_rb_ok_def cxl_env0_def dfl_cxl_cache_open_def cxl_s0_def small_cmd_def cxl_map0_def small_len_def)
  ultimately show ?thesis by (meson converse_rtranclp_into_rtranclp rtranclp.rtrancl_refl)
qed

theorem cxl_accounts_balanced_witness:
  "cx_locked_vm cxl_mapped0 = 2 \<and> cx_locked_vm (dfl_cxl_cache_release cxl_mapped0) = 0"
proof -
  have "map (\<lambda>r. int (length (cr_pages r))) (inorder (cx_regions cxl_mapped0)) = [2]" and o: "cx_opened cxl_mapped0"
    by code_simp+
  moreover have z: "\<not> cx_opened cxl_s0" "cx_regions cxl_s0 = \<langle>\<rangle>" "cx_locked_vm cxl_s0 = 0" by (simp_all add: cxl_s0_def)
  ultimately have "cx_locked_vm cxl_mapped0 = 2"
    using cxl_accounts_balanced [OF cxl_mapped0_run z(1,2)] by simp
  moreover have "(cxl_step small_cmd)\<^sup>*\<^sup>* cxl_s0 (dfl_cxl_cache_release cxl_mapped0)"
    by (rule rtranclp.rtrancl_into_rtrancl [OF cxl_mapped0_run cxl_step.release [OF o]])
  from cxl_accounts_balanced [OF this z(1,2)] z(3)
  have "cx_locked_vm (dfl_cxl_cache_release cxl_mapped0) = 0" by (simp add: dfl_cxl_cache_release_def)
  ultimately show ?thesis by simp
qed

text \<open>
  A buffer of 16 TB and one page: its count of pages as an \<^verbatim>\<open>int\<close> is 1, so one page is locked and pinned, and the
  address of the buffer is given to the device. When it goes, the pages of the whole length are unpinned.
\<close>

definition cxl_large0 :: dfl_cxl_cache where
  "cxl_large0 = snd (dfl_cxl_cache_ioctl cxl_env0
     (DFL_CXL_CACHE_NUMA_BUFFER_MAP (Some ((cxl_map0 (0x100 # replicate 15 0))\<lparr>bm_length := 0x100000001000\<rparr>)))
     (snd (dfl_cxl_cache_open cxl_s0)))"

lemma cxl_large0_run: "(cxl_step any_cmd)\<^sup>*\<^sup>* cxl_s0 cxl_large0"
proof -
  have "cxl_step any_cmd cxl_s0 (snd (dfl_cxl_cache_open cxl_s0))" by (rule cxl_step.open_file)
  moreover have "cxl_step any_cmd (snd (dfl_cxl_cache_open cxl_s0)) cxl_large0"
    unfolding cxl_large0_def
    by (rule cxl_step.ioctl) (simp_all add: cxl_rb_ok_def cxl_env0_def dfl_cxl_cache_open_def cxl_s0_def any_cmd_def)
  ultimately show ?thesis by (meson converse_rtranclp_into_rtranclp rtranclp.rtrancl_refl)
qed

theorem large_buffer_unbalanced:
  "cx_pinned cxl_large0 = 1 \<and> map cr_length (inorder (cx_regions cxl_large0)) = [0x100000001000] \<and>
   cx_writes cxl_large0 = [(0x100, 0x7000)] \<and> cx_pinned (dfl_cxl_cache_release cxl_large0) = - (2 ^ 32) \<and>
   (cxl_step any_cmd)\<^sup>*\<^sup>* cxl_s0 (dfl_cxl_cache_release cxl_large0)"
proof -
  have o: "cx_opened cxl_large0" by code_simp
  have "(cxl_step any_cmd)\<^sup>*\<^sup>* cxl_s0 (dfl_cxl_cache_release cxl_large0)"
    by (rule rtranclp.rtrancl_into_rtrancl [OF cxl_large0_run cxl_step.release [OF o]])
  moreover have "cx_pinned cxl_large0 = 1" "map cr_length (inorder (cx_regions cxl_large0)) = [0x100000001000]"
    "cx_writes cxl_large0 = [(0x100, 0x7000)]" "cx_pinned (dfl_cxl_cache_release cxl_large0) = - (2 ^ 32)"
    by code_simp+
  ultimately show ?thesis by blast
qed

section \<open>Registers that outlive their buffers\<close>

text \<open>
  A register that was given the address of a buffer keeps it when the file is closed, and when the buffer is
  unmapped by a user who does not name the register: the device still has the address of pages that are no
  longer pinned.
\<close>

lemma release_leaves_registers: "cx_writes (dfl_cxl_cache_release s) = cx_writes s"
  by (simp add: dfl_cxl_cache_release_def cxl_cache_dma_region_destroy_def destroy_frame)

lemma register_outlives_buffer:
  "let s = snd (dfl_cxl_cache_ioctl cxl_env0 (DFL_CXL_CACHE_NUMA_BUFFER_UNMAP (Some (cxl_map0 (replicate 16 0)))) cxl_mapped0)
   in cx_writes s = [(0x100, 0x7000)] \<and> cx_pinned s = 0 \<and> cx_regions s = \<langle>\<rangle>"
  by code_simp

text \<open>The last register that is accepted begins on the last byte of the device.\<close>

lemma register_behind_end:
  "cx_writes (write_csrs cxl_env0 (0xFFF # replicate 15 0) 0x7000 cxl_s0) = [(0xFFF, 0x7000)]"
  by code_simp

section \<open>What can be mapped\<close>

lemma aligned_split: "page_aligned a \<Longrightarrow> push_bit 12 (PFN_DOWN a) = a"
proof -
  assume "page_aligned a"
  then have z: "\<not> bit a n" if "n < 12" for n
  proof -
    have "\<not> bit (a AND 4095) n" using \<open>page_aligned a\<close> by (simp add: page_aligned_def)
    moreover have "bit (4095 :: u64) n"
    proof -
      have m: "(4095 :: u64) = mask 12" by (simp add: mask_eq_exp_minus_1)
      show ?thesis unfolding m by (simp only: bit_mask_iff) (use that in simp)
    qed
    ultimately show ?thesis by (simp add: bit_and_iff)
  qed
  have z': "12 \<le> n" if "bit a n" for n using z [of n] that by (cases "n < 12") auto
  show ?thesis
    by (rule bit_eqI) (auto simp: bit_simps PFN_DOWN_def le_add_diff_inverse [OF z'] dest: bit_imp_le_length z')
qed

lemma push_drop_push: "push_bit 12 (drop_bit 12 (push_bit 12 (x :: u64))) = push_bit 12 x"
  by (rule bit_eqI) (auto simp: bit_simps)

lemma drop_push:
  assumes "unat (x :: u64) < 2 ^ 52"
  shows "drop_bit 12 (push_bit 12 x) = x"
proof (rule bit_eqI)
  fix n
  have "n < 52" if "bit x n"
  proof (rule ccontr)
    assume "\<not> n < 52"
    have "take_bit 52 (unat x) = unat x" using assms by (simp add: take_bit_nat_eq_self)
    then have "bit (take_bit 52 (unat x)) n" using that by (simp add: bit_unsigned_iff)
    with \<open>\<not> n < 52\<close> show False by (simp add: bit_take_bit_iff)
  qed
  then show "bit (drop_bit 12 (push_bit 12 x)) n \<longleftrightarrow> bit x n" by (auto simp: bit_simps)
qed

text \<open>
  C32. On a device as the driver registers it, whoever opens the file can map memory that is not the device's:
  neither the offset nor the length of a mapping is compared with the size of the region, and for every page
  frame and every length there is an offset at which the driver asks for just these pages.
\<close>

theorem cxl_mmap_reaches_any_page:
  assumes "dfl_cxl_cache_probe penv c = (Inr (i, ce_rinfo env), c')" and "page_aligned (ce_mmio_start env)"
    and "unat pfn < 2 ^ 52" and "ce_remap env pfn len = None"
  shows "\<exists>pgoff. unat pgoff < 2 ^ 52 \<and>
    dfl_cxl_cache_mmap env \<lparr>cv_start = a, cv_end = a + len, cv_pgoff = pgoff, cv_shared = True, cv_read = True, cv_write = True\<rparr> =
      Inr (pfn, len)"
proof -
  have "ce_rinfo env = \<lparr>ri_flags = 7, ri_size = cp_mmio_size penv, ri_offset = 0\<rparr>"
    using assms(1) by (auto simp: dfl_cxl_cache_probe_def cxl_cache_chardev_init_def Let_def split: if_splits option.splits prod.splits)
  then have ri: "ri_flags (ce_rinfo env) = 7" "ri_offset (ce_rinfo env) = 0" by simp_all
  obtain x where x: "x = pfn - PFN_DOWN (ce_mmio_start env)" by simp
  have "push_bit 12 x = push_bit 12 pfn - push_bit 12 (PFN_DOWN (ce_mmio_start env))"
    unfolding x push_bit_eq_mult by (simp add: algebra_simps)
  then have sum: "ce_mmio_start env + push_bit 12 (drop_bit 12 (push_bit 12 x)) = push_bit 12 pfn"
    unfolding push_drop_push aligned_split [OF assms(2)] by simp
  have "unat (drop_bit 12 (push_bit 12 x)) < 2 ^ 52"
  proof -
    have "unat (drop_bit 12 w) = unat w div 2 ^ 12" for w :: u64
      by (simp add: drop_bit_eq_div unat_div_distrib)
    moreover have "unat (push_bit 12 x) < 2 ^ 64" using unsigned_less [of "push_bit 12 x", where 'a = nat] by simp
    ultimately show ?thesis by simp
  qed
  moreover have "dfl_cxl_cache_mmap env \<lparr>cv_start = a, cv_end = a + len, cv_pgoff = drop_bit 12 (push_bit 12 x), cv_shared = True,
      cv_read = True, cv_write = True\<rparr> = Inr (pfn, len)"
    using assms(4) by (simp add: dfl_cxl_cache_mmap_def ri sum PFN_DOWN_def drop_push [OF assms(3)])
  ultimately show ?thesis by blast
qed

definition cxl_penv0 :: cxl_probe_env where
  "cxl_penv0 = \<lparr>cp_class_create = None, cp_alloc_chrdev = None, cp_ioremap = None, cp_kzalloc = True, cp_device_create = None,
     cp_cdev_add = None, cp_mmio_size = 0x1000\<rparr>"

definition cxl_class0 :: cxl_class where
  "cxl_class0 = \<lparr>cc_class = False, cc_devt = False, cc_devices = 0, cc_nodes = [], cc_cdevs = []\<rparr>"

theorem cxl_mmap_reaches_any_page_witness:
  "\<exists>pgoff. dfl_cxl_cache_mmap cxl_env0
     \<lparr>cv_start = 0, cv_end = 0 + 0x1000, cv_pgoff = pgoff, cv_shared = True, cv_read = True, cv_write = True\<rparr> = Inr (1, 0x1000)"
proof -
  have "fst (dfl_cxl_cache_probe cxl_penv0 cxl_class0) = Inr (0, ce_rinfo cxl_env0)" by code_simp
  then obtain c' where "dfl_cxl_cache_probe cxl_penv0 cxl_class0 = (Inr (0, ce_rinfo cxl_env0), c')" by (metis prod.collapse)
  from cxl_mmap_reaches_any_page [OF this, of 1 "0x1000" 0] show ?thesis
    by (auto simp: cxl_env0_def page_aligned_def)
qed

section \<open>Binding\<close>

text \<open>
  The class of the devices and their range of numbers are meant to go with the last device, but the count is
  compared before it is decreased, so they stay; and once an earlier device has gone, the next one asks for a
  number that is still in use.
\<close>

lemma class_stays:
  "let s = dfl_cxl_cache_remove 0 (snd (dfl_cxl_cache_probe cxl_penv0 cxl_class0))
   in cc_nodes s = [] \<and> cc_devices s = 0 \<and> cc_class s \<and> cc_devt s"
  by code_simp

lemma number_given_twice:
  "let s2 = snd (dfl_cxl_cache_probe cxl_penv0 (snd (dfl_cxl_cache_probe cxl_penv0 cxl_class0)))
   in cc_nodes (snd (dfl_cxl_cache_probe cxl_penv0 (dfl_cxl_cache_remove 0 s2))) = [1, 1]"
  by code_simp

text \<open>A device whose character device cannot be added is not destroyed again.\<close>

lemma failed_probe_keeps_device:
  "let (r, s) = dfl_cxl_cache_probe (cxl_penv0\<lparr>cp_cdev_add := Some EBUSY\<rparr>) cxl_class0
   in r = Inl EBUSY \<and> cc_nodes s = [0] \<and> cc_devices s = 1"
  by code_simp

text \<open>Where the version of the interface is asked for, the number of the ioctl is returned.\<close>

lemma version_is_command_number: "fst (fst (dfl_cxl_cache_ioctl env DFL_FPGA_GET_API_VERSION s)) = Inr 0xB600"
  by (simp add: dfl_cxl_cache_ioctl_def)

end
