(* ===== verification/Altera_Pr.thy ===== *)
theory Altera_Pr
  imports Fpga_Mgr_Props M10bmc_Pmci_Props Fpga_Bridge
begin

unbundle bit_operations_syntax

text \<open>
  Two devices for partial reconfiguration beside the management engine: the partial reconfiguration core
  (\<^verbatim>\<open>drivers/fpga/altera-pr-ip-core.c\<close>), a driver below the FPGA manager class, and the freeze bridge
  (\<^verbatim>\<open>drivers/fpga/altera-freeze-bridge.c\<close>), a driver below the bridge class. Both are the operations of
  the class over the history of accesses to their registers.

  Time-outs count polls, as the source does. Arguments of debug messages are not evaluated.
\<close>

section \<open>The partial reconfiguration core\<close>

type_synonym io_hist = "io32 list"

record alt_pr_priv =
  reg_base :: u64
  ap_dev :: "io_hist \<Rightarrow> u64 \<Rightarrow> u32"

abbreviation (input) FPGA_MGR_PARTIAL_RECONFIG :: u32 where "FPGA_MGR_PARTIAL_RECONFIG \<equiv> 1"

abbreviation ALT_PR_CSR :: "alt_pr_priv \<Rightarrow> u64" where "ALT_PR_CSR priv \<equiv> reg_base priv + 4"

definition ap_readl :: "(io_hist \<Rightarrow> u64 \<Rightarrow> u32) \<Rightarrow> u64 \<Rightarrow> io_hist \<Rightarrow> u32 \<times> io_hist" where
  "ap_readl dev a h = (let v = dev h a in (v, h @ [RD32 a v]))"

definition alt_pr_status :: "u32 \<Rightarrow> fpga_mgr_states" where
  "alt_pr_status val =
     (let s = drop_bit 2 (val AND 28)
      in if s = 0 then FPGA_MGR_STATE_RESET
         else if s = 1 \<or> s = 2 \<or> s = 3 then FPGA_MGR_STATE_WRITE_ERR
         else if s = 4 then FPGA_MGR_STATE_WRITE
         else if s = 5 then FPGA_MGR_STATE_OPERATING
         else FPGA_MGR_STATE_UNKNOWN)"

definition alt_pr_fpga_state :: "alt_pr_priv \<Rightarrow> io_hist \<Rightarrow> fpga_mgr_states \<times> io_hist" where
  "alt_pr_fpga_state priv h = apfst alt_pr_status (ap_readl (ap_dev priv) (ALT_PR_CSR priv) h)"

definition alt_pr_fpga_write_init :: "alt_pr_priv \<Rightarrow> fpga_image_info \<Rightarrow> bytes \<Rightarrow> io_hist \<Rightarrow> errno option \<times> fpga_image_info \<times> io_hist" where
  "alt_pr_fpga_write_init priv info buf h =
     (if info_flags info AND FPGA_MGR_PARTIAL_RECONFIG = 0 then (Some EINVAL, info, h)
      else (case ap_readl (ap_dev priv) (ALT_PR_CSR priv) h of (val, h) \<Rightarrow>
        if bit val 0 then (Some EINVAL, info, h)
        else (None, info, h @ [WR32 (ALT_PR_CSR priv) (val OR 1)])))"

text \<open>The words of a buffer; what a last word reads behind the buffer is masked out.\<close>

definition alt_pr_words :: "bytes \<Rightarrow> u32 list" where
  "alt_pr_words buf =
     (let n = length buf div 4; r = length buf mod 4
      in buf_words buf 0 n @ (if r = 0 then [] else [remainder_word buf (4 * n) r]))"

definition alt_pr_fpga_write :: "alt_pr_priv \<Rightarrow> bytes \<Rightarrow> io_hist \<Rightarrow> errno option \<times> io_hist" where
  "alt_pr_fpga_write priv buf h =
     (if buf = [] then (Some EINVAL, h)
      else (case alt_pr_fpga_state priv (h @ map (WR32 (reg_base priv)) (alt_pr_words buf)) of
              (st, h) \<Rightarrow> if st = FPGA_MGR_STATE_WRITE_ERR then (Some EIO, h) else (None, h)))"

text \<open>The loop of \<^verbatim>\<open>alt_pr_fpga_write_complete\<close>, with the rounds that are left after this one.\<close>

fun alt_pr_wait :: "alt_pr_priv \<Rightarrow> nat \<Rightarrow> io_hist \<Rightarrow> errno option \<times> io_hist" where
  "alt_pr_wait priv n h =
     (case alt_pr_fpga_state priv h of
        (st, h) \<Rightarrow>
          if st = FPGA_MGR_STATE_WRITE_ERR then (Some EIO, h)
          else if st = FPGA_MGR_STATE_OPERATING then (None, h)
          else (case n of 0 \<Rightarrow> (Some ETIMEDOUT, h) | Suc n \<Rightarrow> alt_pr_wait priv n h))"

definition alt_pr_fpga_write_complete :: "alt_pr_priv \<Rightarrow> fpga_image_info \<Rightarrow> io_hist \<Rightarrow> errno option \<times> io_hist" where
  "alt_pr_fpga_write_complete priv info h = alt_pr_wait priv (unat (config_complete_timeout_us info)) h"

definition alt_pr_ops :: "alt_pr_priv \<Rightarrow> io_hist fpga_manager_ops" where
  "alt_pr_ops priv =
     \<lparr>initial_header_size = 0, skip_header = False, op_state = Some (\<lambda>h. fst (alt_pr_fpga_state priv h)), op_status = None,
      op_parse_header = None, op_write_init = Some (alt_pr_fpga_write_init priv), op_write = Some (alt_pr_fpga_write priv),
      op_write_sg = None, op_write_complete = Some (alt_pr_fpga_write_complete priv), op_fpga_remove = None\<rparr>"

declare alt_pr_wait.simps [simp del]

section \<open>What the core gets\<close>

lemma bytes_of_alt_pr_words:
  "bytes_of (alt_pr_words buf) = buf @ replicate ((4 - length buf mod 4) mod 4) 0"
proof -
  let ?n = "length buf div 4" and ?r = "length buf mod 4"
  have l: "4 * ?n + ?r = length buf" by simp
  then have full: "bytes_of (buf_words buf 0 ?n) = take (4 * ?n) buf" by (simp add: bytes_of_buf_words)
  show ?thesis
  proof (cases "?r = 0")
    case True
    with l full show ?thesis by (simp add: alt_pr_words_def)
  next
    case False
    have r: "?r < 4" by simp
    have "bytes_of [remainder_word buf (4 * ?n) ?r] = take ?r (drop (4 * ?n) buf) @ replicate (4 - ?r) 0"
      by (rule bytes_of_remainder) (use l in simp_all)
    moreover have "take ?r (drop (4 * ?n) buf) = drop (4 * ?n) buf"
      by (rule take_all) (simp add: minus_mult_div_eq_mod)
    ultimately have "bytes_of (alt_pr_words buf) = take (4 * ?n) buf @ drop (4 * ?n) buf @ replicate (4 - ?r) 0"
      using False full by (simp add: alt_pr_words_def Let_def)
    moreover have "(4 - ?r) mod 4 = 4 - ?r" using False r by (intro mod_less) arith
    ultimately show ?thesis by (simp only: append_assoc [symmetric] append_take_drop_id)
  qed
qed

lemma pushed_map_same: "pushed a (map (WR32 a) ws) = ws"
  by (induction ws) simp_all

lemma alt_pr_state_reads: "alt_pr_fpga_state priv h = (st, h') \<Longrightarrow> \<exists>v. h' = h @ [RD32 (ALT_PR_CSR priv) v] \<and> st = alt_pr_status v"
  by (auto simp: alt_pr_fpga_state_def ap_readl_def Let_def)

lemma alt_pr_write_pushed:
  assumes "alt_pr_fpga_write priv buf h = (None, h')"
  shows "\<exists>x. h' = h @ x \<and> pushed (reg_base priv) x = alt_pr_words buf"
proof -
  obtain st h1 where s: "alt_pr_fpga_state priv (h @ map (WR32 (reg_base priv)) (alt_pr_words buf)) = (st, h1)" by force
  from alt_pr_state_reads [OF s] obtain v where
    "h1 = h @ (map (WR32 (reg_base priv)) (alt_pr_words buf) @ [RD32 (ALT_PR_CSR priv) v])" by auto
  moreover have "h' = h1" using assms s by (simp add: alt_pr_fpga_write_def split: if_splits)
  ultimately show ?thesis by (auto simp: pushed_map_same)
qed

lemma alt_pr_chunks_pushed:
  "write_chunks (alt_pr_ops priv) cs h = Some h' \<Longrightarrow>
     \<exists>x. h' = h @ x \<and> pushed (reg_base priv) x = concat (map alt_pr_words cs)"
proof (induction cs arbitrary: h)
  case (Cons c cs)
  then obtain h1 where w: "alt_pr_fpga_write priv c h = (None, h1)" and r: "write_chunks (alt_pr_ops priv) cs h1 = Some h'"
    by (auto simp: fpga_mgr_write_def alt_pr_ops_def split: prod.splits option.splits)
  from alt_pr_write_pushed [OF w] obtain x where "h1 = h @ x" "pushed (reg_base priv) x = alt_pr_words c" by blast
  moreover from Cons.IH [OF r] obtain y where "h' = h1 @ y" "pushed (reg_base priv) y = concat (map alt_pr_words cs)" by blast
  ultimately show ?case by (intro exI [of _ "x @ y"]) simp
qed simp

lemma alt_pr_wait_ok:
  "alt_pr_wait priv n h = (None, h') \<Longrightarrow>
     \<exists>x v. h' = h @ x @ [RD32 (ALT_PR_CSR priv) v] \<and> alt_pr_status v = FPGA_MGR_STATE_OPERATING \<and> (\<forall>a. pushed a x = [])"
proof (induction n arbitrary: h)
  case 0
  obtain st h1 where s: "alt_pr_fpga_state priv h = (st, h1)" by force
  from 0 [unfolded alt_pr_wait.simps [of priv 0] s prod.case nat.case] alt_pr_state_reads [OF s]
  show ?case by (auto split: if_splits intro: exI [of _ "[]"])
next
  case (Suc n)
  obtain st h1 where s: "alt_pr_fpga_state priv h = (st, h1)" by force
  note eq = Suc.prems [unfolded alt_pr_wait.simps [of priv "Suc n"] s prod.case nat.case]
  show ?case
  proof (cases "st = FPGA_MGR_STATE_OPERATING")
    case True
    with eq alt_pr_state_reads [OF s] show ?thesis by (auto intro: exI [of _ "[]"])
  next
    case False
    with eq have "alt_pr_wait priv n h1 = (None, h')" by (simp split: if_splits)
    from Suc.IH [OF this] obtain x v where x: "h' = h1 @ x @ [RD32 (ALT_PR_CSR priv) v]" "\<forall>a. pushed a x = []"
      "alt_pr_status v = FPGA_MGR_STATE_OPERATING" by blast
    from alt_pr_state_reads [OF s] obtain u where "h1 = h @ [RD32 (ALT_PR_CSR priv) u]" by blast
    with x show ?thesis by (intro exI [of _ "RD32 (ALT_PR_CSR priv) u # x"] exI [of _ v]) simp
  qed
qed

text \<open>The driver parses no header, and leaves the sizes as they are.\<close>

lemma alt_pr_sizes: "sizes_ok (alt_pr_ops priv) info"
proof -
  have "unat (data_size info) < 2 ^ 64" using unsigned_less [of "data_size info"] by simp
  then show ?thesis
    by (auto simp: sizes_ok_def alt_pr_ops_def fpga_mgr_write_init_def alt_pr_fpga_write_init_def split: if_splits prod.splits)
qed

text \<open>
  C19. A load through the manager class by this driver that succeeds has asked for a partial reconfiguration,
  has switched the core on, and has then pushed the image to its data register: the image is cut into the
  buffers that the class hands over one by one, and each is pushed as the words of its bytes, the last one
  filled up with zeros. The last access reads that the core has succeeded.
\<close>

theorem alt_pr_load_pushes_image:
  assumes "fpga_mgr_load fenv (alt_pr_ops priv) info mgr = (None, info', mgr')"
    and "image_of fenv info = Some img" and "length img < 2 ^ 64"
  shows "\<exists>h0 v chunks h1 w. info_flags info' AND 1 \<noteq> 0 \<and> \<not> bit v 0 \<and>
    drv mgr' = (h0 @ [WR32 (ALT_PR_CSR priv) (v OR 1)]) @ h1 @ [RD32 (ALT_PR_CSR priv) w] \<and>
    alt_pr_status w = FPGA_MGR_STATE_OPERATING \<and>
    concat chunks = (if data_size info' \<noteq> 0 then take (unat (data_size info')) img else img) \<and>
    bytes_of (pushed (reg_base priv) h1) =
      concat (map (\<lambda>c. c @ replicate ((4 - length c mod 4) mod 4) 0) chunks)"
proof -
  from load_streamed [OF assms(1) _ _ assms(2,3)] alt_pr_sizes have "streamed (alt_pr_ops priv) img info' (drv mgr')"
    by (simp add: alt_pr_ops_def)
  then obtain d0 chunks d1 where p: "prepared (alt_pr_ops priv) img info' d0" and w: "write_chunks (alt_pr_ops priv) chunks d0 = Some d1"
    and c: "concat chunks = image_data (alt_pr_ops priv) info' img"
    and e: "call_write_complete (alt_pr_ops priv) info' d1 = (None, drv mgr')"
    by (auto simp: streamed_def)
  from p obtain info1 b h where i: "alt_pr_fpga_write_init priv info1 b h = (None, info', d0)"
    by (auto simp: prepared_def fpga_mgr_write_init_def alt_pr_ops_def)
  then obtain v where fl: "info_flags info' AND 1 \<noteq> 0" and v: "\<not> bit v 0"
    and d0: "d0 = (h @ [RD32 (ALT_PR_CSR priv) v]) @ [WR32 (ALT_PR_CSR priv) (v OR 1)]"
    by (auto simp: alt_pr_fpga_write_init_def ap_readl_def Let_def split: if_splits)
  from alt_pr_chunks_pushed [OF w] obtain x where d1: "d1 = d0 @ x" and x: "pushed (reg_base priv) x = concat (map alt_pr_words chunks)"
    by blast
  from e have "alt_pr_wait priv (unat (config_complete_timeout_us info')) d1 = (None, drv mgr')"
    by (simp add: call_write_complete_def alt_pr_ops_def alt_pr_fpga_write_complete_def)
  from alt_pr_wait_ok [OF this] obtain y u where y: "drv mgr' = d1 @ y @ [RD32 (ALT_PR_CSR priv) u]"
    "alt_pr_status u = FPGA_MGR_STATE_OPERATING" "\<forall>a. pushed a y = []" by blast
  have "bytes_of (pushed (reg_base priv) (x @ y)) = concat (map (\<lambda>c. c @ replicate ((4 - length c mod 4) mod 4) 0) chunks)"
  proof -
    have "bytes_of (concat (map alt_pr_words cs)) = concat (map (\<lambda>c. c @ replicate ((4 - length c mod 4) mod 4) 0) cs)" for cs
      by (induction cs) (simp_all add: bytes_of_alt_pr_words)
    with x y(3) show ?thesis by simp
  qed
  moreover have "concat chunks = (if data_size info' \<noteq> 0 then take (unat (data_size info')) img else img)"
    using c by (simp add: image_data_def alt_pr_ops_def Let_def)
  ultimately show ?thesis using fl v y(1,2) d0 d1
    by - (rule exI [of _ "h @ [RD32 (ALT_PR_CSR priv) v]"], rule exI [of _ v], rule exI [of _ chunks], rule exI [of _ "x @ y"],
        rule exI [of _ u], simp)
qed

text \<open>A core that is idle, then programming, and done when the word \<open>0xFF\<close> has arrived; and an image of five bytes.\<close>

definition alt_pr0 :: alt_pr_priv where
  "alt_pr0 = \<lparr>reg_base = 0x100, ap_dev = (\<lambda>h a. if pushed 0x104 h = [] then 0 else if 0xFF \<in> set (pushed 0x100 h) then 21 else 17)\<rparr>"

definition pr_info0 :: fpga_image_info where
  "pr_info0 = \<lparr>info_flags = 1, config_complete_timeout_us = 10, firmware_name = None, info_sgt = None, info_buf = Some (0, [1, 2, 3, 4, 0xFF]), header_size = 0,
     data_size = 0, region_id = 0\<rparr>"

definition pr_mgr0 :: "io_hist fpga_manager" where
  "pr_mgr0 = \<lparr>mgr_state = FPGA_MGR_STATE_UNKNOWN, drv = [], overread = False\<rparr>"

theorem alt_pr_load_pushes_image_witness:
  "\<exists>info' mgr'. fpga_mgr_load fpga_env0 (alt_pr_ops alt_pr0) pr_info0 pr_mgr0 = (None, info', mgr') \<and>
     (\<exists>h0 h1 w. drv mgr' = h0 @ h1 @ [RD32 (ALT_PR_CSR alt_pr0) w] \<and> alt_pr_status w = FPGA_MGR_STATE_OPERATING)"
proof -
  obtain r info' mgr' where run: "fpga_mgr_load fpga_env0 (alt_pr_ops alt_pr0) pr_info0 pr_mgr0 = (r, info', mgr')"
    using prod_cases3 by blast
  have "fst (fpga_mgr_load fpga_env0 (alt_pr_ops alt_pr0) pr_info0 pr_mgr0) = None" by code_simp
  with run have r: "r = None" by simp
  have "image_of fpga_env0 pr_info0 = Some [1, 2, 3, 4, 0xFF]" by (simp add: image_of_def pr_info0_def)
  from alt_pr_load_pushes_image [OF run [unfolded r] this] obtain h0 v h1 w where
    "drv mgr' = (h0 @ [WR32 (ALT_PR_CSR alt_pr0) (v OR 1)]) @ h1 @ [RD32 (ALT_PR_CSR alt_pr0) w]"
    "alt_pr_status w = FPGA_MGR_STATE_OPERATING" by auto
  with run r show ?thesis by blast
qed

text \<open>
  An image that comes in one buffer is pushed as it is. In a list of fragments, each that does not end at a
  word is filled up, so that the core gets zeros between the bytes of the image.
\<close>

lemma padded_between_fragments:
  "bytes_of (alt_pr_words [1, 2, 3, 4]) = [1, 2, 3, 4]"
  "bytes_of (concat (map alt_pr_words [[1, 2], [3, 4]])) = [1, 2, 0, 0, 3, 4, 0, 0]"
  by code_simp+

section \<open>The freeze bridge\<close>

record altera_freeze_br_data =
  fz_hist :: io_hist
  fz_enable :: bool

text \<open>What does not change: the device, and the time-outs of the image information of the bridge, if it has any.\<close>

record freeze_env =
  fz_base :: u64
  fz_dev :: "io_hist \<Rightarrow> u64 \<Rightarrow> u32"
  fz_timeouts :: "(u32 \<times> u32) option"      \<comment> \<open>to enable and to disable\<close>

abbreviation FREEZE_STATUS :: "freeze_env \<Rightarrow> u64" where "FREEZE_STATUS env \<equiv> fz_base env"
abbreviation FREEZE_CTRL :: "freeze_env \<Rightarrow> u64" where "FREEZE_CTRL env \<equiv> fz_base env + 4"
abbreviation FREEZE_ILLEGAL_REQ :: "freeze_env \<Rightarrow> u64" where "FREEZE_ILLEGAL_REQ env \<equiv> fz_base env + 8"
abbreviation FREEZE_REG_VERSION :: "freeze_env \<Rightarrow> u64" where "FREEZE_REG_VERSION env \<equiv> fz_base env + 12"

text \<open>The loop, with the rounds that are left after this one.\<close>

fun altera_freeze_br_req_ack :: "freeze_env \<Rightarrow> nat \<Rightarrow> u32 \<Rightarrow> io_hist \<Rightarrow> errno option \<times> io_hist" where
  "altera_freeze_br_req_ack env n req_ack h =
     (case ap_readl (fz_dev env) (FREEZE_ILLEGAL_REQ env) h of
        (illegal, h) \<Rightarrow>
          if illegal \<noteq> 0 then
            (Some EINVAL, snd (ap_readl (fz_dev env) (FREEZE_ILLEGAL_REQ env) (h @ [WR32 (FREEZE_ILLEGAL_REQ env) 1])))
          else
            (case ap_readl (fz_dev env) (FREEZE_STATUS env) h of
               (status, h) \<Rightarrow>
                 if status AND req_ack \<noteq> 0 then (None, snd (ap_readl (fz_dev env) (FREEZE_CTRL env) h))
                 else (case n of 0 \<Rightarrow> (Some ETIMEDOUT, h) | Suc n \<Rightarrow> altera_freeze_br_req_ack env n req_ack h)))"

declare altera_freeze_br_req_ack.simps [simp del]

definition altera_freeze_br_do_freeze :: "freeze_env \<Rightarrow> u32 \<Rightarrow> io_hist \<Rightarrow> errno option \<times> io_hist" where
  "altera_freeze_br_do_freeze env timeout h =
     (case ap_readl (fz_dev env) (FREEZE_STATUS env) h of
        (status, h) \<Rightarrow>
          if bit status 0 then (None, h)
          else if \<not> bit status 1 then (Some EINVAL, h)
          else (case altera_freeze_br_req_ack env (unat timeout) 1 (h @ [WR32 (FREEZE_CTRL env) 1]) of
                  (ret, h) \<Rightarrow> (ret, h @ [WR32 (FREEZE_CTRL env) (if ret \<noteq> None then 0 else 2)])))"

definition altera_freeze_br_do_unfreeze :: "freeze_env \<Rightarrow> u32 \<Rightarrow> io_hist \<Rightarrow> errno option \<times> io_hist" where
  "altera_freeze_br_do_unfreeze env timeout h =
     (case ap_readl (fz_dev env) (FREEZE_STATUS env) (h @ [WR32 (FREEZE_CTRL env) 0]) of
        (status, h) \<Rightarrow>
          if bit status 1 then (None, h)
          else if \<not> bit status 0 then (Some EINVAL, h)
          else (case altera_freeze_br_req_ack env (unat timeout) 2 (h @ [WR32 (FREEZE_CTRL env) 4]) of
                  (ret, h) \<Rightarrow> (ret, snd (ap_readl (fz_dev env) (FREEZE_STATUS env) h) @ [WR32 (FREEZE_CTRL env) 0])))"

definition altera_freeze_br_enable_set :: "freeze_env \<Rightarrow> bool \<Rightarrow> altera_freeze_br_data \<Rightarrow> errno option \<times> altera_freeze_br_data" where
  "altera_freeze_br_enable_set env enable s =
     (let timeout = (case fz_timeouts env of None \<Rightarrow> 0 | Some (en, dis) \<Rightarrow> if enable then en else dis)
      in case (if enable then altera_freeze_br_do_unfreeze env timeout (fz_hist s)
               else altera_freeze_br_do_freeze env timeout (fz_hist s)) of
           (ret, h) \<Rightarrow> (ret, if ret = None then s\<lparr>fz_hist := h, fz_enable := enable\<rparr> else s\<lparr>fz_hist := h\<rparr>))"

definition altera_freeze_br_enable_show :: "altera_freeze_br_data \<Rightarrow> int" where
  "altera_freeze_br_enable_show s = (if fz_enable s then 1 else 0)"

definition altera_freeze_br_br_ops :: "freeze_env \<Rightarrow> altera_freeze_br_data fpga_bridge_ops" where
  "altera_freeze_br_br_ops env =
     \<lparr>enable_show = Some altera_freeze_br_enable_show, enable_set = Some (altera_freeze_br_enable_set env),
      fpga_bridge_remove = None\<rparr>"

text \<open>Probing, up to the registration of the bridge, whose outcome is an input.\<close>

definition altera_freeze_br_probe ::
  "freeze_env \<Rightarrow> bool \<Rightarrow> errno option \<Rightarrow> bool \<Rightarrow> errno option \<Rightarrow> io_hist \<Rightarrow> (errno + altera_freeze_br_data) \<times> io_hist" where
  "altera_freeze_br_probe env has_node ioremap alloc reg h =
     (if \<not> has_node then (Inl ENODEV, h)
      else (case ioremap of
              Some e \<Rightarrow> (Inl e, h)
            | None \<Rightarrow>
                (case ap_readl (fz_dev env) (FREEZE_REG_VERSION env) h of
                   (revision, h) \<Rightarrow>
                     if revision \<noteq> 2 \<and> revision \<noteq> 0xad000003 then (Inl EINVAL, h)
                     else if \<not> alloc then (Inl ENOMEM, h)
                     else (case ap_readl (fz_dev env) (FREEZE_STATUS env) h of
                             (status, h) \<Rightarrow>
                               (case reg of
                                  Some e \<Rightarrow> (Inl e, h)
                                | None \<Rightarrow> (Inr \<lparr>fz_hist = h, fz_enable = bit status 1\<rparr>, h))))))"

lemma req_ack_exact:
  "altera_freeze_br_req_ack env n req h = (r, h') \<Longrightarrow>
     \<exists>x. h' = h @ x \<and> pushed (FREEZE_CTRL env) x = [] \<and> (r = None \<longrightarrow> (\<exists>v. RD32 (FREEZE_STATUS env) v \<in> set x \<and> v AND req \<noteq> 0))"
proof (induction n arbitrary: h)
  case 0
  then show ?case by (auto simp: altera_freeze_br_req_ack.simps [of env 0] ap_readl_def Let_def split: if_splits)
next
  case (Suc n)
  obtain i h1 where i: "ap_readl (fz_dev env) (FREEZE_ILLEGAL_REQ env) h = (i, h1)" by force
  obtain s h2 where s: "ap_readl (fz_dev env) (FREEZE_STATUS env) h1 = (s, h2)" by force
  from i s have h: "h1 = h @ [RD32 (FREEZE_ILLEGAL_REQ env) i]" "h2 = h1 @ [RD32 (FREEZE_STATUS env) s]"
    by (auto simp: ap_readl_def Let_def)
  note eq = Suc.prems [unfolded altera_freeze_br_req_ack.simps [of env "Suc n"] i prod.case s nat.case]
  show ?case
  proof (cases "i = 0 \<and> s AND req = 0")
    case True
    with eq have "altera_freeze_br_req_ack env n req h2 = (r, h')" by simp
    from Suc.IH [OF this] obtain x where "h' = h2 @ x" "pushed (FREEZE_CTRL env) x = []"
      "r = None \<longrightarrow> (\<exists>v. RD32 (FREEZE_STATUS env) v \<in> set x \<and> v AND req \<noteq> 0)" by blast
    with h show ?thesis by (intro exI [of _ "RD32 (FREEZE_ILLEGAL_REQ env) i # RD32 (FREEZE_STATUS env) s # x"]) auto
  next
    case False
    with eq h show ?thesis by (auto simp: ap_readl_def Let_def split: if_splits)
  qed
qed

lemma bit_test: "(v :: u32) AND 1 \<noteq> 0 \<Longrightarrow> bit v 0" "(v :: u32) AND 2 \<noteq> 0 \<Longrightarrow> bit v 1"
proof -
  have e: "(v AND 2 ^ n \<noteq> 0) = bit v n" if "n < 32" for n
    using that by (simp add: bit_iff_and_push_bit_not_eq_0 push_bit_eq_mult)
  show "v AND 1 \<noteq> 0 \<Longrightarrow> bit v 0" using e [of 0] by simp
  show "v AND 2 \<noteq> 0 \<Longrightarrow> bit v 1" using e [of 1] by simp
qed

lemma do_freeze_exact:
  assumes "altera_freeze_br_do_freeze env t h = (r, h')"
  shows "\<exists>x. h' = h @ x \<and> (pushed (FREEZE_CTRL env) x = [] \<or> pushed (FREEZE_CTRL env) x = [1, if r = None then 2 else 0]) \<and>
    (r = None \<longrightarrow> (\<exists>v. RD32 (FREEZE_STATUS env) v \<in> set x \<and> bit v 0))"
proof -
  obtain v where v: "v = fz_dev env h (FREEZE_STATUS env)" by simp
  let ?h = "h @ [RD32 (FREEZE_STATUS env) v, WR32 (FREEZE_CTRL env) 1]"
  show ?thesis
  proof (cases "\<not> bit v 0 \<and> bit v 1")
    case True
    obtain r1 h1 where a: "altera_freeze_br_req_ack env (unat t) 1 ?h = (r1, h1)" by force
    from req_ack_exact [OF a] obtain x where x: "h1 = ?h @ x" "pushed (FREEZE_CTRL env) x = []"
      "r1 = None \<longrightarrow> (\<exists>v. RD32 (FREEZE_STATUS env) v \<in> set x \<and> bit v 0)" using bit_test(1) by blast
    with assms True a have "h' = h @ (RD32 (FREEZE_STATUS env) v # WR32 (FREEZE_CTRL env) 1 # x @
        [WR32 (FREEZE_CTRL env) (if r \<noteq> None then 0 else 2)])" and "r = r1"
      by (auto simp: altera_freeze_br_do_freeze_def ap_readl_def Let_def simp flip: v)
    with x show ?thesis by auto
  next
    case False
    with assms show ?thesis
      by (auto simp: altera_freeze_br_do_freeze_def ap_readl_def Let_def simp flip: v split: if_splits)
  qed
qed

lemma do_unfreeze_exact:
  assumes "altera_freeze_br_do_unfreeze env t h = (r, h')"
  shows "\<exists>x. h' = h @ x \<and> (pushed (FREEZE_CTRL env) x = [0] \<or> pushed (FREEZE_CTRL env) x = [0, 4, 0]) \<and>
    (r = None \<longrightarrow> (\<exists>v. RD32 (FREEZE_STATUS env) v \<in> set x \<and> bit v 1))"
proof -
  obtain v where v: "v = fz_dev env (h @ [WR32 (FREEZE_CTRL env) 0]) (FREEZE_STATUS env)" by simp
  let ?h = "h @ [WR32 (FREEZE_CTRL env) 0, RD32 (FREEZE_STATUS env) v, WR32 (FREEZE_CTRL env) 4]"
  show ?thesis
  proof (cases "\<not> bit v 1 \<and> bit v 0")
    case True
    obtain r1 h1 where a: "altera_freeze_br_req_ack env (unat t) 2 ?h = (r1, h1)" by force
    from req_ack_exact [OF a] obtain x where x: "h1 = ?h @ x" "pushed (FREEZE_CTRL env) x = []"
      "r1 = None \<longrightarrow> (\<exists>v. RD32 (FREEZE_STATUS env) v \<in> set x \<and> bit v 1)" using bit_test(2) by blast
    with assms True a have "h' = h @ (WR32 (FREEZE_CTRL env) 0 # RD32 (FREEZE_STATUS env) v # WR32 (FREEZE_CTRL env) 4 # x @
        [RD32 (FREEZE_STATUS env) (fz_dev env h1 (FREEZE_STATUS env)), WR32 (FREEZE_CTRL env) 0])" and "r = r1"
      by (auto simp: altera_freeze_br_do_unfreeze_def ap_readl_def Let_def simp flip: v)
    with x show ?thesis by auto
  next
    case False
    with assms show ?thesis
      by (auto simp: altera_freeze_br_do_unfreeze_def ap_readl_def Let_def simp flip: v split: if_splits)
  qed
qed

text \<open>
  Switching a freeze bridge. Success means that the device has shown that it is frozen, or not, as was
  asked for, and only then does the driver show so. A request to freeze is followed by a reset of the
  interface, or taken back if it was not acknowledged; a request to unfreeze is always taken back.
\<close>

theorem freeze_bridge_switches:
  "case altera_freeze_br_enable_set env en s of (r, s') \<Rightarrow>
     \<exists>x. fz_hist s' = fz_hist s @ x \<and>
       (if en then pushed (FREEZE_CTRL env) x = [0] \<or> pushed (FREEZE_CTRL env) x = [0, 4, 0]
        else pushed (FREEZE_CTRL env) x = [] \<or> pushed (FREEZE_CTRL env) x = [1, if r = None then 2 else 0]) \<and>
       (case r of None \<Rightarrow> fz_enable s' = en \<and> (\<exists>v. RD32 (FREEZE_STATUS env) v \<in> set x \<and> bit v (if en then 1 else 0))
        | Some e \<Rightarrow> fz_enable s' = fz_enable s)"
proof -
  obtain t where t: "t = (case fz_timeouts env of None \<Rightarrow> 0 | Some (e, d) \<Rightarrow> if en then e else d)" by simp
  obtain r h where run: "(if en then altera_freeze_br_do_unfreeze env t (fz_hist s) else altera_freeze_br_do_freeze env t (fz_hist s)) = (r, h)"
    by force
  have set_eq: "altera_freeze_br_enable_set env en s = (r, if r = None then s\<lparr>fz_hist := h, fz_enable := en\<rparr> else s\<lparr>fz_hist := h\<rparr>)"
    unfolding altera_freeze_br_enable_set_def Let_def t [symmetric] run by simp
  have "\<exists>x. h = fz_hist s @ x \<and>
      (if en then pushed (FREEZE_CTRL env) x = [0] \<or> pushed (FREEZE_CTRL env) x = [0, 4, 0]
       else pushed (FREEZE_CTRL env) x = [] \<or> pushed (FREEZE_CTRL env) x = [1, if r = None then 2 else 0]) \<and>
      (r = None \<longrightarrow> (\<exists>v. RD32 (FREEZE_STATUS env) v \<in> set x \<and> bit v (if en then 1 else 0)))"
    using do_freeze_exact [of env t "fz_hist s" r h] do_unfreeze_exact [of env t "fz_hist s" r h] run by (cases en) simp_all
  then show ?thesis unfolding set_eq by (cases r) auto
qed

text \<open>What a bridge shows after it was probed is what its device shows.\<close>

lemma show_after_probe:
  "fst (altera_freeze_br_probe env True None True None h) = Inr s \<Longrightarrow>
     altera_freeze_br_enable_show s = 1 \<longleftrightarrow> (\<exists>v. last (fz_hist s) = RD32 (FREEZE_STATUS env) v \<and> bit v 1)"
  by (auto simp: altera_freeze_br_probe_def ap_readl_def altera_freeze_br_enable_show_def Let_def split: if_splits)

end
