(* ===== verification/M10bmc_Probe.thy ===== *)
theory M10bmc_Probe
  imports M10bmc_Sensors Regmap_Indirect
begin

text \<open>
  Binding the board management controllers: the boards with their sub-devices and access tables
  (\<^verbatim>\<open>drivers/mfd/intel-m10-bmc-spi.c, intel-m10-bmc-pmci.c\<close>), probing, and what holds of every board's
  sensors in the system registers of that board.

  The outcomes of allocation, of the register map and of registering sub-devices are inputs.
\<close>

section \<open>Boards\<close>

definition m10bmc_d5005_subdevs :: "string list" where
  "m10bmc_d5005_subdevs = [''d5005bmc-hwmon'', ''d5005bmc-sec-update'']"

definition m10bmc_pacn3000_subdevs :: "string list" where
  "m10bmc_pacn3000_subdevs = [''n3000bmc-hwmon'', ''n3000bmc-retimer'', ''n3000bmc-sec-update'']"

definition m10bmc_n5010_subdevs :: "string list" where
  "m10bmc_n5010_subdevs = [''n5010bmc-hwmon'', ''n5010bmc-sec-update'', ''n5010bmc-phy'']"

definition m10bmc_n5014_subdevs :: "string list" where
  "m10bmc_n5014_subdevs = [''n5014bmc-hwmon'', ''n5010bmc-sec-update'', ''n5010bmc-phy'']"

definition m10bmc_pmci_n6000_bmc_subdevs :: "string list" where
  "m10bmc_pmci_n6000_bmc_subdevs = [''n6000bmc-hwmon'', ''n6000bmc-sec-update'', ''n6000bmc-log'']"

definition m10bmc_pmci_c6100_bmc_subdevs :: "string list" where
  "m10bmc_pmci_c6100_bmc_subdevs = [''c6100bmc-hwmon'', ''n6000bmc-sec-update'', ''c6100bmc-log'']"

definition m10bmc_pmci_cmc_bmc_subdevs :: "string list" where
  "m10bmc_pmci_cmc_bmc_subdevs = [''cmcbmc-hwmon'', ''n6000bmc-sec-update'', ''cmcbmc-log'']"

text \<open>The boards on which the driver of the N3000 differs in sub-devices only.\<close>

definition m10bmc_spi_n5010 :: intel_m10bmc_platform_info where
  "m10bmc_spi_n5010 = \<lparr>handshake_sys_reg_ranges = [(0x100, 0x250)], csr_map = m10bmc_n3000_csr_map\<rparr>"

definition m10bmc_spi_n5014 :: intel_m10bmc_platform_info where
  "m10bmc_spi_n5014 = \<lparr>handshake_sys_reg_ranges = [(0x100, 0x250)], csr_map = m10bmc_n3000_csr_map\<rparr>"

definition m10bmc_pmci_cmc :: intel_m10bmc_platform_info where
  "m10bmc_pmci_cmc = \<lparr>handshake_sys_reg_ranges = [], csr_map = m10bmc_c6100_csr_map\<rparr>"

definition m10bmc_spi_id :: "(string \<times> intel_m10bmc_platform_info \<times> string list) list" where
  "m10bmc_spi_id =
     [(''m10-n3000'', m10bmc_spi_n3000, m10bmc_pacn3000_subdevs), (''m10-d5005'', m10bmc_spi_d5005, m10bmc_d5005_subdevs),
      (''m10-n5010'', m10bmc_spi_n5010, m10bmc_n5010_subdevs), (''m10-n5014'', m10bmc_spi_n5014, m10bmc_n5014_subdevs)]"

text \<open>The registers that the register map core lets the driver read and write, as ranges with both ends.\<close>

definition m10bmc_regmap_range :: "(u32 \<times> u32) list" where
  "m10bmc_regmap_range = [(0x300468, 0x300468), (0x300800, 0x300fff), (0x10000000, 0x1fffffff)]"

definition m10bmc_pmci_regmap_range :: "(u32 \<times> u32) list" where
  "m10bmc_pmci_regmap_range = [(0, 0xfff)]"

definition regmap_reg_in_ranges :: "u32 \<Rightarrow> (u32 \<times> u32) list \<Rightarrow> bool" where
  "regmap_reg_in_ranges reg ranges \<longleftrightarrow> list_ex (\<lambda>(a, b). a \<le> reg \<and> reg \<le> b) ranges"

section \<open>Probing\<close>

text \<open>What a probe leaves: the sub-devices that are registered, and whether the flash lock is initialised.\<close>

record bmc_bound =
  bb_subdevs :: "string list"
  bb_mutex :: bool

definition m10bmc_dev_init :: "errno option \<Rightarrow> string list \<Rightarrow> bmc_bound \<Rightarrow> bmc_bound ret" where
  "m10bmc_dev_init mfd cells b = (case mfd of Some e \<Rightarrow> (Some e, b) | None \<Rightarrow> (None, b\<lparr>bb_subdevs := bb_subdevs b @ cells\<rparr>))"

record bmc_probe_env =
  bp_kzalloc :: bool
  bp_ioremap :: "errno option"
  bp_regmap :: "errno option"
  bp_mfd :: "errno option"

definition intel_m10_bmc_spi_probe ::
  "bmc_probe_env \<Rightarrow> ('f, 'e) m10bmc_env_scheme \<Rightarrow> string \<times> intel_m10bmc_platform_info \<times> string list \<Rightarrow>
    ('f, 'a) m10bmc_scheme \<times> bmc_bound \<Rightarrow> (('f, 'a) m10bmc_scheme \<times> bmc_bound) ret" where
  "intel_m10_bmc_spi_probe penv env i sb =
     (case sb of (s, b) \<Rightarrow>
        if \<not> bp_kzalloc penv then (Some ENOMEM, (s, b))
        else (case bp_regmap penv of
                Some e \<Rightarrow> (Some e, (s, b))
              | None \<Rightarrow>
                  (case check_m10bmc_version env s of
                     (Some e, s) \<Rightarrow> (Some e, (s, b))
                   | (None, s) \<Rightarrow> apsnd (\<lambda>b. (s, b)) (m10bmc_dev_init (bp_mfd penv) (snd (snd i)) b))))"

definition pmci_board :: "u8 \<Rightarrow> (intel_m10bmc_platform_info \<times> string list) option" where
  "pmci_board revision =
     (if revision = 1 then Some (m10bmc_pmci_n6000, m10bmc_pmci_n6000_bmc_subdevs)
      else if revision = 2 then Some (m10bmc_pmci_c6100, m10bmc_pmci_c6100_bmc_subdevs)
      else if revision = 3 then Some (m10bmc_pmci_cmc, m10bmc_pmci_cmc_bmc_subdevs)
      else None)"

definition m10bmc_pmci_probe :: "bmc_probe_env \<Rightarrow> u8 \<Rightarrow> bmc_bound \<Rightarrow> (errno + intel_m10bmc_platform_info) \<times> bmc_bound" where
  "m10bmc_pmci_probe penv revision b =
     (case pmci_board revision of
        None \<Rightarrow> (Inl ENODEV, b)
      | Some (pinfo, cells) \<Rightarrow>
          if \<not> bp_kzalloc penv then (Inl ENOMEM, b)
          else (case bp_ioremap penv of
                  Some e \<Rightarrow> (Inl e, b)
                | None \<Rightarrow>
                    let b = b\<lparr>bb_mutex := True\<rparr>
                    in (case bp_regmap penv of
                          Some e \<Rightarrow> (Inl e, b\<lparr>bb_mutex := False\<rparr>)
                        | None \<Rightarrow>
                            (case m10bmc_dev_init (bp_mfd penv) cells b of
                               (Some e, b) \<Rightarrow> (Inl e, b\<lparr>bb_mutex := False\<rparr>)
                             | (None, b) \<Rightarrow> (Inr pinfo, b)))))"

definition m10bmc_pmci_remove :: "bmc_bound \<Rightarrow> bmc_bound" where
  "m10bmc_pmci_remove b = b\<lparr>bb_mutex := False\<rparr>"

lemma spi_probe_all_or_nothing:
  "case intel_m10_bmc_spi_probe penv env i (s, b) of (r, (s', b')) \<Rightarrow>
     (case r of Some e \<Rightarrow> b' = b | None \<Rightarrow> b' = b\<lparr>bb_subdevs := bb_subdevs b @ snd (snd i)\<rparr>)"
  by (auto simp: intel_m10_bmc_spi_probe_def m10bmc_dev_init_def split: option.splits prod.splits)

lemma pmci_probe_all_or_nothing:
  assumes "\<not> bb_mutex b"
  shows "case m10bmc_pmci_probe penv rv b of
    (Inl e, b') \<Rightarrow> b' = b
  | (Inr pinfo, b') \<Rightarrow> bb_mutex b' \<and> (\<exists>cells. pmci_board rv = Some (pinfo, cells) \<and> bb_subdevs b' = bb_subdevs b @ cells)"
  using assms by (auto simp: m10bmc_pmci_probe_def m10bmc_dev_init_def Let_def split: option.splits prod.splits)

section \<open>Sensors in the registers of their board\<close>

text \<open>The boards with the table that the monitoring sub-device of each is bound to.\<close>

definition sensors_of :: "string list \<Rightarrow> m10bmc_hwmon_board_data option" where
  "sensors_of cells =
     (case filter (\<lambda>(n, bd). n \<in> set cells) intel_m10bmc_hwmon_ids of [(n, bd)] \<Rightarrow> Some bd | _ \<Rightarrow> None)"

definition sensor_in :: "intel_m10bmc_platform_info \<Rightarrow> (u32 \<times> u32) list \<Rightarrow> u32 \<Rightarrow> bool" where
  "sensor_in info ranges reg \<longleftrightarrow>
     regmap_reg_in_ranges (csr_base (csr_map info) + reg) ranges \<and> (csr_base (csr_map info) + reg) mod 4 = 0 \<and>
     (handshake_sys_reg_ranges info = [] \<or> regmap_reg_in_ranges reg (handshake_sys_reg_ranges info))"

definition sensors_fit :: "intel_m10bmc_platform_info \<Rightarrow> (u32 \<times> u32) list \<Rightarrow> m10bmc_hwmon_board_data \<Rightarrow> bool" where
  "sensors_fit info ranges bd \<longleftrightarrow>
     list_all (\<lambda>(t, i, a). case tables bd t of
         None \<Rightarrow> False
       | Some tbl \<Rightarrow> (case sensor_regs t a (tbl ! i) of
           None \<Rightarrow> a = hwmon_label
         | Some (r, h) \<Rightarrow> sensor_in info ranges r \<and> (h = 0 \<or> sensor_in info ranges h))) (shown_attrs bd)"

definition board_fits :: "(u32 \<times> u32) list \<Rightarrow> intel_m10bmc_platform_info \<times> string list \<Rightarrow> bool" where
  "board_fits ranges ic \<longleftrightarrow>
     (case sensors_of (snd ic) of None \<Rightarrow> False | Some bd \<Rightarrow> sensors_fit (fst ic) ranges bd)"

lemma boards_fit:
  "board_fits m10bmc_regmap_range (m10bmc_spi_n3000, m10bmc_pacn3000_subdevs)"
  "board_fits m10bmc_regmap_range (m10bmc_spi_d5005, m10bmc_d5005_subdevs)"
  "board_fits m10bmc_regmap_range (m10bmc_spi_n5010, m10bmc_n5010_subdevs)"
  "board_fits m10bmc_regmap_range (m10bmc_spi_n5014, m10bmc_n5014_subdevs)"
  "board_fits m10bmc_pmci_regmap_range (m10bmc_pmci_n6000, m10bmc_pmci_n6000_bmc_subdevs)"
  "board_fits m10bmc_pmci_regmap_range (m10bmc_pmci_c6100, m10bmc_pmci_c6100_bmc_subdevs)"
  "board_fits m10bmc_pmci_regmap_range (m10bmc_pmci_cmc, m10bmc_pmci_cmc_bmc_subdevs)"
  by code_simp+

lemma sensor_unavailable:
  assumes "sensor_in (mb_info env) ranges reg" and "handshake_sys_reg_ranges (mb_info env) \<noteq> []"
    and "m10bmc_handshake_reg_unavailable s"
  shows "m10bmc_sys_read env reg s = (Inl EBUSY, s)"
  using assms by (simp add: sensor_in_def m10bmc_sys_read_def m10bmc_reg_always_available_def regmap_reg_in_ranges_def)

text \<open>
  On every board behind SPI, and as long as its firmware prepares or writes an update or loads a retimer, each
  value that the monitoring driver shows is refused as busy without an access to the registers.
\<close>

lemma sensors_refused_while_updating:
  assumes "(n, mb_info env, cells) \<in> set m10bmc_spi_id" and "sensors_of cells = Some bd"
    and "m10bmc_handshake_reg_unavailable s" and "(type, i, a) \<in> set (shown_attrs bd)" and "a \<noteq> hwmon_label"
  shows "m10bmc_hwmon_read env bd type a i s = Some (Inl EBUSY, s)"
proof -
  have "board_fits m10bmc_regmap_range (mb_info env, cells)" and hs: "handshake_sys_reg_ranges (mb_info env) \<noteq> []"
    using assms(1) boards_fit(1-4)
    by (auto simp: m10bmc_spi_id_def m10bmc_spi_n3000_def m10bmc_spi_d5005_def m10bmc_spi_n5010_def m10bmc_spi_n5014_def)
  with assms(2) have fits: "sensors_fit (mb_info env) m10bmc_regmap_range bd" by (simp add: board_fits_def)
  have "(\<exists>m. (m, bd) \<in> set intel_m10bmc_hwmon_ids)"
  proof -
    from assms(2) obtain m where "filter (\<lambda>(n, bd). n \<in> set cells) intel_m10bmc_hwmon_ids = [(m, bd)]"
      by (auto simp: sensors_of_def split: list.splits)
    then have "(m, bd) \<in> set (filter (\<lambda>(n, bd). n \<in> set cells) intel_m10bmc_hwmon_ids)" by simp
    then show ?thesis by auto
  qed
  then obtain m where m: "(m, bd) \<in> set intel_m10bmc_hwmon_ids" ..
  from shown_ok [OF m assms(4)] assms(5) obtain tbl r h where t: "tables bd type = Some tbl" "i < length tbl"
    "sensor_regs type a (tbl ! i) = Some (r, h)" "r \<noteq> 0"
    by (auto simp: attr_ok_def split: option.splits)
  with fits assms(4) have "sensor_in (mb_info env) m10bmc_regmap_range r"
    by (fastforce simp: sensors_fit_def list_all_iff)
  from sensor_unavailable [OF this hs assms(3)] have "sensor_value env (multiplier (tbl ! i)) r h s = (Inl EBUSY, s)"
    by (simp add: sensor_value_def valid_reading_def)
  moreover have "find_sensor_data bd type i = Some (Inr (tbl ! i))" using t by (simp add: find_sensor_data_def)
  from read_is_sensor_value [OF this t(3,4)] have "m10bmc_hwmon_read env bd type a i s = Some (sensor_value env (multiplier (tbl ! i)) r h s)" .
  ultimately show ?thesis by simp
qed

end
