(* ===== verification/Spec2Isabelle.thy ===== *)
theory Spec2Isabelle
  imports Spi_Avmm_Access Dfl_Enum_Term Dfl_Port_Props Dfl_Irq Dfl_Bus Afu_Region Afu_Main_Props Fme_Main_Props
    M10bmc_Update M10bmc_Interleave M10bmc_Image_Props Image_Load_Reg Dfl_Pci_Props Regmap_Indirect
    Dfl_Device_Props Dfl_Alias Fme_Perf_Props M10bmc_Sensors
    Dfl_Cxl_Props Altera_Pr M10bmc_Probe
begin

text \<open>
  Verification of the DFL FPGA driver stack.

  The repository is a set of Linux kernel drivers for FPGA cards. A card carries a list of device
  features (DFL) in its memory. The DFL framework walks that list and makes feature devices of it: the
  management engine (FME), and one port for each slot that an accelerator (AFU) can be programmed into.
  Each feature device is driven through a character device. The FME programs accelerators with the help
  of the FPGA manager, bridge and region classes. Features that no feature device drives itself become
  devices on the DFL bus; one of them leads to the board management controller (BMC), whose firmware and
  images are updated through the image load framework.

  The theories are a shallow embedding of the C code. Structs are records, error numbers are the type
  \<open>errno\<close>, a function that returns an \<^verbatim>\<open>int\<close> or a pointer with an error inside is a function into
  \<open>errno + 'a\<close>, and integers keep their C width. Everything that the files under \<^verbatim>\<open>src\<close> only call
  (allocation, the driver core, copies to and from user memory, page pinning) is an argument: an
  environment record or a function that says how each call ends. The theorems hold for every such
  argument unless a hypothesis says more. Where a property needs more of users, of a driver or of a device
  than the code enforces, its text says so, and an example shows what happens otherwise.

  \<^bold>\<open>Shared.\<close> Prelude has the machine integers, error numbers, bit fields (\<^verbatim>\<open>FIELD_GET\<close>, \<^verbatim>\<open>GENMASK\<close>) and
  the collections of simplification rules. Mmio has devices as functions of the history of register
  accesses, so that a theorem about a history says which reads and writes happened, in which order, for
  a device that answers in any way.

  \<^bold>\<open>SPI to Avalon bridge\<close> (\<^verbatim>\<open>drivers/base/regmap/regmap-spi-avmm.c\<close>). Spi_Avmm has the layers of the
  protocol as the C code has them: filling the transaction buffer, the packet and physical layers with
  their pointer loops, the transfers and the parsing of answers. Spi_Avmm_Codec is the specification, a
  codec on byte lists, stated as the locale \<open>pkt_link\<close>. Spi_Avmm_Tx and Spi_Avmm_Rx prove that the loops
  refine encoder and decoder. Spi_Avmm_Access composes them: what is on the wire, what an answer gives,
  time-outs. The loop of the receiver ends by its time-out, a number of polls that is an input.

  \<^bold>\<open>Device feature lists\<close> (\<^verbatim>\<open>drivers/fpga/dfl.c, dfl.h\<close>). Dfl_Reg has the header fields, the parameter
  blocks (\<open>find_param\<close>), sizes and identifiers. Dfl_Types has the records of features, feature devices
  and the container. Dfl_Enum has enumeration: \<open>parse_feature\<close>, \<open>parse_feature_list\<close>, the builder with
  its region and its list of collected features, \<open>build_info_commit_dev\<close>. Walks that device memory can
  keep from ending are \<open>partial_function (option)\<close>: \<open>None\<close> is a walk without an end. Dfl_Enum_Props
  proves resources and interrupts within bounds, the refinement of a feature device by the features
  collected for it, and well-formed results. Dfl_Enum_Term proves that enumeration returns when headers
  make progress, and Dfl_Reg shows two headers with which it does not.

  \<^bold>\<open>Ports, interrupts, bus\<close> (\<^verbatim>\<open>drivers/fpga/dfl.c\<close>). Dfl_Port has the use counter, port operations,
  releasing and assigning ports, SR-IOV access. Dfl_Port_Props states the use counter as a locale, has
  the step relation of a container and its invariant. Dfl_Irq binds event files to interrupts. Dfl_Dev
  has the state that drivers of feature devices extend. Dfl_Bus has matching, devices and drivers of the
  bus and the initialisation of sub features.

  \<^bold>\<open>Accelerator\<close> (\<^verbatim>\<open>drivers/fpga/dfl-afu-*.c\<close>). Afu_Region has the register regions, Afu_Dma the DMA regions
  with their red-black tree (rebalancing is an input that keeps the order), Afu_Port resets and errors,
  Afu_Main the device file and the platform driver. The theories Afu_Dma_Props, Afu_Port_Props and
  Afu_Main_Props have the accounts of pinned pages, locked memory and mappings, the meaning of the reset
  counter from the reset at start-up on, and what closing, a failed mapping and a failed probe leave.

  \<^bold>\<open>Management engine\<close> (\<^verbatim>\<open>drivers/fpga/dfl-fme-*.c\<close>). Fme_Error has the global errors, Fme_Mgr the protocol
  of the engine that programs accelerators, Fme_Pr the ioctl for it and the devices below the FME,
  Fme_Main attributes, device file and platform driver, with Fme_Mgr_Props, Fme_Pr_Props and
  Fme_Main_Props. The engine is polled; the number of polls before a time-out is an input, and every
  theorem holds for each number.

  \<^bold>\<open>FPGA classes\<close> (\<^verbatim>\<open>drivers/fpga/fpga-mgr.c, fpga-bridge.c, fpga-region.c\<close>). Fpga_Mgr has loading with a
  low level driver that is a record of functions over its own state; what follows a buffer in memory is a
  parameter, since a range that is handed to the driver may reach it. Fpga_Mgr_Props has what reaches that
  driver, by the calls it sees, and what each state that a load ends in stands for. Fpga_Bridge and
  Fpga_Region have exclusive references, switching, and programming a region; there the driver of the manager
  may depend on how the bridges are switched. Fpga_Class has what the classes share: registration, references, locks.

  \<^bold>\<open>Image load\<close> (\<^verbatim>\<open>drivers/fpga/fpga-image-load.c\<close>). Image_Load has the device file and the worker, cut into
  the steps between which a user can get in. Image_Load_Props has the order of the calls of the driver,
  the accounts, and an upload's end: the worker takes at most two steps for each byte and eleven more,
  because each round writes at least one byte or is the last. The relations of what users do have a
  condition as parameter: \<open>anyhow\<close> admits all, \<open>polite\<close> a start of an upload only when the worker is done with
  the last one. The code accepts a start in any state, and the properties that need \<open>polite\<close> are false without
  it; the locale \<open>upload_states\<close> has what holds for all users. Image_Load_Data follows the bytes, with
  locale \<open>upload_storer\<close> as the contract of a driver that keeps them. Image_Load_Reg registers and
  removes devices, and binds the secure update driver to them, as it is built without \<^verbatim>\<open>CONFIG_FW_UPLOAD\<close>.

  \<^bold>\<open>Board management\<close> (\<^verbatim>\<open>drivers/mfd/intel-m10-bmc-*.c, drivers/fpga/intel-m10-bmc-sec-update.c\<close>). M10bmc has
  the system registers and when they can be accessed, M10bmc_Pmci flash memory behind a FIFO, M10bmc_Sec
  the secure update driver, M10bmc_Image loading images and power-on sequences, M10bmc_Security keys and
  counters. M10bmc_Sec_Props interprets the contract of the image load framework, M10bmc_Pmci_Props has
  the writes that a block of flash memory becomes, M10bmc_Image_Props the round trip of a power-on
  sequence. M10bmc_Boards has two whole boards, and M10bmc_Update what an upload does to them: an N3000,
  whose register map reaches the memory, and an N6000, whose memory is behind the FIFO. M10bmc_Interleave cuts
  the prepare operation of an upload and the load of the retimers into their steps, and has the firmware state
  in every interleaving of both.

  M10bmc_Probe has the seven boards with their sub-devices and access tables and binds them; M10bmc_Sensors has
  the sensors of each board (\<^verbatim>\<open>drivers/hwmon/intel-m10-bmc-hwmon.c\<close>), that everything shown can be read, and
  what is read. Regmap_Indirect (\<^verbatim>\<open>drivers/base/regmap/regmap-indirect-register.c\<close>) is the mailbox to the
  registers of an N6000, with the refinement by a plain register file: the device behind it is only asked to
  work when a command is given after the last one was cleared.

  \<^bold>\<open>Devices\<close>. Dfl_Pci and Dfl_Pci_Props (\<^verbatim>\<open>drivers/fpga/dfl-pci.c, dfl-platform.c\<close>) find the feature lists of a
  function in its BARs, take interrupt vectors, probe and remove, and set the number of virtual functions.
  Dfl_Device and Dfl_Device_Props (\<^verbatim>\<open>drivers/fpga/dfl.c\<close>) make devices of features, with all that these take and
  give back. Dfl_Alias (\<^verbatim>\<open>scripts/mod/file2alias.c\<close> and two tables of drivers) has the aliases by which modules
  are loaded, and that they agree with the matching of the bus.

  \<^bold>\<open>Performance counters\<close> (\<^verbatim>\<open>drivers/fpga/dfl-fme-perf.c\<close>). Fme_Perf has the events with their tables, the
  counters and the operations on events; Fme_Perf_Props which events can be opened, the mode of the fabric
  counters as an invariant of a step relation, and what is counted. A counter whose upper half changes at each
  read can be read for ever: \<open>None\<close> is a read without an end.

  \<^bold>\<open>CXL host exerciser\<close> (\<^verbatim>\<open>drivers/fpga/dfl-cxl-cache.c\<close>). Dfl_Cxl has the device file with its pinned buffers,
  Dfl_Cxl_Props their accounts, and what mappings and registers let a user reach. As for the DMA regions of an
  accelerator, page counts are cut to an \<^verbatim>\<open>int\<close>, and the accounts are for buffers below 8 TB.

  \<^bold>\<open>Other reconfiguration hardware\<close> (\<^verbatim>\<open>drivers/fpga/altera-pr-ip-core.c, altera-freeze-bridge.c\<close>). Altera_Pr has
  one driver below the manager class and one below the bridge class, and composes the first with Fpga_Mgr.

  \<^bold>\<open>Not modelled.\<close> Locks are modelled where code can be turned away or forget one (regions, managers,
  bridges, uploads); elsewhere an operation that holds a lock is one step. Time-outs count polls.
  Devices behind devres are not freed step by step. Of code that depends on the version of the kernel,
  the branch for recent kernels is modelled; of the secure update driver it is the one without
  \<^verbatim>\<open>CONFIG_FW_UPLOAD\<close>, which uses the image load framework of this repository. The log driver, shared
  virtual addressing, network and SPI controllers, drivers of single private features and of other vendors,
  device tree regions and copies of kernel code have no theory; they are mostly glue around calls of kernel
  subsystems.
\<close>

end
